(* ===== verification/Prelude.thy ===== *)
theory Prelude
  imports Main "HOL-Library.Word"
begin

text \<open>
  Shared vocabulary of the development: the fixed-width integers of the C and C++ sources,
  the outcome type that makes undefined behaviour and blocking explicit, owned pointers,
  bounded buffers and the loops that fill them, and the fact collections the component
  theories extend.
\<close>

unbundle bit_operations_syntax

section \<open>Machine types\<close>

type_synonym u8 = "8 word"
type_synonym u16 = "16 word"
type_synonym u32 = "32 word"
type_synonym u64 = "64 word"

text \<open>
  A \<^verbatim>\<open>double\<close> is only ever copied by the code modelled here, so it is its 64-bit pattern;
  a \<^verbatim>\<open>char[]\<close> field is its list of characters.
\<close>

type_synonym double64 = "64 word"
type_synonym cstring = "char list"
type_synonym ze_bool_t = "8 word"

named_theorems stub_defs \<open>definitions of the stub's API entry points\<close>
named_theorems outcome_simps \<open>computation rules for outcomes, buffers and arrays\<close>

section \<open>Outcomes\<close>

text \<open>
  \<open>Done x\<close> is a normal return; \<open>Fault\<close> an access outside an allocated object (undefined
  behaviour in C); \<open>Stuck\<close> a call that has not returned: a lock operation whose caller already
  holds the (non-recursive) mutex, or a loop that has used up the rounds it was given.
\<close>

datatype 'a outcome = Done 'a | Fault | Stuck

fun obind :: "'a outcome \<Rightarrow> ('a \<Rightarrow> 'b outcome) \<Rightarrow> 'b outcome" where
  "obind (Done x) f = f x"
| "obind Fault f = Fault"
| "obind Stuck f = Stuck"

lemma obind_Done_right [simp]: "obind m Done = m"
  by (cases m) auto

lemma obind_assoc: "obind (obind m f) g = obind m (\<lambda>x. obind (f x) g)"
  by (cases m) auto

lemma obind_eq_Done [simp]:
  "obind m f = Done y \<longleftrightarrow> (\<exists>x. m = Done x \<and> f x = Done y)"
  by (cases m) auto

lemma obind_cong [fundef_cong]:
  "m = m' \<Longrightarrow> (\<And>x. m' = Done x \<Longrightarrow> f x = f' x) \<Longrightarrow> obind m f = obind m' f'"
  by (cases m) auto

definition is_Done :: "'a outcome \<Rightarrow> bool" where
  "is_Done m = (case m of Done _ \<Rightarrow> True | _ \<Rightarrow> False)"

lemma is_Done_simps [simp]: "is_Done (Done x)" "\<not> is_Done Fault" "\<not> is_Done Stuck"
  by (simp_all add: is_Done_def)

lemma is_DoneE: "is_Done m \<Longrightarrow> (\<And>x. m = Done x \<Longrightarrow> P) \<Longrightarrow> P"
  by (cases m) auto

text \<open>
  \<open>returns m Q\<close>: the call returns, and what it returns satisfies \<open>Q\<close>; \<open>safe m Q\<close>: it does not fault, and
  if it returns then with \<open>Q\<close>.
\<close>

definition returns :: "'a outcome \<Rightarrow> ('a \<Rightarrow> bool) \<Rightarrow> bool" where
  "returns m Q = (case m of Done x \<Rightarrow> Q x | _ \<Rightarrow> False)"

definition safe :: "'a outcome \<Rightarrow> ('a \<Rightarrow> bool) \<Rightarrow> bool" where
  "safe m Q = (case m of Done x \<Rightarrow> Q x | Fault \<Rightarrow> False | Stuck \<Rightarrow> True)"

lemma returns_simps [simp]:
  "returns (Done x) Q = Q x" "\<not> returns Fault Q" "\<not> returns Stuck Q"
  "returns (obind m f) Q = returns m (\<lambda>x. returns (f x) Q)"
  by (simp_all add: returns_def) (cases m; simp)

lemma safe_simps [simp]:
  "safe (Done x) Q = Q x" "\<not> safe Fault Q" "safe Stuck Q"
  "safe (obind m f) Q = safe m (\<lambda>x. safe (f x) Q)"
  by (simp_all add: safe_def) (cases m; simp)

lemma returns_mono: "returns m Q \<Longrightarrow> (\<And>x. Q x \<Longrightarrow> R x) \<Longrightarrow> returns m R"
  by (cases m) auto

lemma safe_mono: "safe m Q \<Longrightarrow> (\<And>x. Q x \<Longrightarrow> R x) \<Longrightarrow> safe m R"
  by (cases m) auto

lemma returns_safe: "returns m Q \<Longrightarrow> safe m Q"
  by (cases m) auto

lemma returns_iff: "returns m Q \<longleftrightarrow> (\<exists>x. m = Done x \<and> Q x)"
  by (cases m) auto

lemma safe_iff: "safe m Q \<longleftrightarrow> m \<noteq> Fault \<and> (\<forall>x. m = Done x \<longrightarrow> Q x)"
  by (cases m) auto

section \<open>Owned pointers\<close>

text \<open>
  The data of the program is a tree of heap blocks, each with one owner. \<open>Ptr a x\<close> is a
  non-null pointer to the block at address \<open>a\<close> that holds \<open>x\<close>; an array pointer holds the
  list of its elements.
\<close>

datatype 'a cptr = Null | Ptr nat 'a

fun deref :: "'a cptr \<Rightarrow> 'a outcome" where
  "deref Null = Fault"
| "deref (Ptr a x) = Done x"

definition arr_get :: "'a list cptr \<Rightarrow> nat \<Rightarrow> 'a outcome" where
  "arr_get p i = (case p of Null \<Rightarrow> Fault | Ptr a xs \<Rightarrow> if i < length xs then Done (xs ! i) else Fault)"

text \<open>A count field and the array it counts agree.\<close>

definition wf_arr :: "u32 \<Rightarrow> 'a list cptr \<Rightarrow> bool" where
  "wf_arr n p = (case p of Null \<Rightarrow> n = 0 | Ptr a xs \<Rightarrow> unat n = length xs)"

definition elems :: "'a list cptr \<Rightarrow> 'a list" where
  "elems p = (case p of Null \<Rightarrow> [] | Ptr a xs \<Rightarrow> xs)"

lemma elems_simps [simp]: "elems Null = []" "elems (Ptr a xs) = xs"
  by (simp_all add: elems_def)

lemma wf_arr_length: "wf_arr n p \<Longrightarrow> unat n = length (elems p)"
  by (cases p) (auto simp: wf_arr_def)

lemma arr_get_wf:
  "wf_arr n p \<Longrightarrow> i < unat n \<Longrightarrow> arr_get p i = Done (elems p ! i)"
  by (cases p) (auto simp: wf_arr_def arr_get_def)

lemma wf_arr_Null [simp]: "wf_arr 0 Null"
  by (simp add: wf_arr_def)

section \<open>Filling a caller's buffer\<close>

text \<open>
  \<open>fill src i k buf\<close> is the loop \<^verbatim>\<open>for (; k > 0; i++, k--) buf[i] = src[i]\<close>: it faults when an
  element cannot be read or the buffer is too short.
\<close>

primrec fill :: "(nat \<Rightarrow> 'a outcome) \<Rightarrow> nat \<Rightarrow> nat \<Rightarrow> 'a list \<Rightarrow> 'a list outcome" where
  "fill src i 0 buf = Done buf"
| "fill src i (Suc k) buf =
     obind (src i) (\<lambda>v. if i < length buf then fill src (Suc i) k (buf[i := v]) else Fault)"

lemma fill_ok:
  assumes "\<And>j. i \<le> j \<Longrightarrow> j < i + k \<Longrightarrow> src j = Done (f j)" and "i + k \<le> length buf"
  shows "fill src i k buf = Done (take i buf @ map f [i..<i + k] @ drop (i + k) buf)"
  using assms
proof (induction k arbitrary: i buf)
  case 0
  then show ?case by simp
next
  case (Suc k)
  from Suc.prems have head: "src i = Done (f i)" and short: "i < length buf" by auto
  have rest: "fill src (Suc i) k (buf[i := f i]) =
      Done (take (Suc i) (buf[i := f i]) @ map f [Suc i..<Suc i + k] @ drop (Suc i + k) (buf[i := f i]))"
    using Suc.prems by (intro Suc.IH) auto
  have "take (Suc i) (buf[i := f i]) = take i buf @ [f i]"
    using short by (simp add: take_Suc_conv_app_nth)
  moreover have "[i..<i + Suc k] = i # [Suc i..<Suc i + k]"
    by (simp add: upt_rec)
  ultimately show ?case
    using head short rest by simp
qed

corollary fill_from_0:
  assumes "\<And>j. j < k \<Longrightarrow> src j = Done (f j)" and "k \<le> length buf"
  shows "fill src 0 k buf = Done (map f [0..<k] @ drop k buf)"
  using fill_ok [of 0 k src f buf] assms by simp

lemma fill_Done_length: "fill src i k buf = Done buf' \<Longrightarrow> length buf' = length buf"
  by (induction k arbitrary: i buf) (auto split: if_splits)

lemma fill_Done_room: "fill src i k buf = Done buf' \<Longrightarrow> 0 < k \<Longrightarrow> i + k \<le> length buf"
proof (induction k arbitrary: i buf)
  case 0
  then show ?case by simp
next
  case (Suc k)
  then obtain v where short: "i < length buf" and rest: "fill src (Suc i) k (buf[i := v]) = Done buf'"
    by (auto split: if_splits)
  show ?case
  proof (cases "k = 0")
    case True
    with short show ?thesis by simp
  next
    case False
    with Suc.IH [OF rest] show ?thesis by simp
  qed
qed

section \<open>Searching an array\<close>

text \<open>
  \<open>find_loop src P i k\<close> is the loop that looks at \<open>k\<close> elements from index \<open>i\<close> and leaves at the
  first one that satisfies \<open>P\<close>, with its index; \<open>first_index\<close> is what it computes on a list.
\<close>

primrec find_loop :: "(nat \<Rightarrow> 'a outcome) \<Rightarrow> ('a \<Rightarrow> bool) \<Rightarrow> nat \<Rightarrow> nat \<Rightarrow> nat option outcome" where
  "find_loop src P i 0 = Done None"
| "find_loop src P i (Suc k) =
     obind (src i) (\<lambda>x. if P x then Done (Some i) else find_loop src P (Suc i) k)"

primrec first_index :: "('a \<Rightarrow> bool) \<Rightarrow> 'a list \<Rightarrow> nat option" where
  "first_index P [] = None"
| "first_index P (x # xs) = (if P x then Some 0 else map_option Suc (first_index P xs))"

lemma first_index_None: "first_index P xs = None \<longleftrightarrow> (\<forall>x\<in>set xs. \<not> P x)"
  by (induction xs) auto

lemma first_index_Some:
  "first_index P xs = Some i \<longleftrightarrow> i < length xs \<and> P (xs ! i) \<and> (\<forall>j<i. \<not> P (xs ! j))"
proof (induction xs arbitrary: i)
  case Nil
  then show ?case by simp
next
  case (Cons x xs)
  show ?case
    by (cases i) (auto simp: Cons.IH less_Suc_eq_0_disj)
qed

lemma find_loop_list:
  assumes "\<And>j. j < length xs \<Longrightarrow> src (i + j) = Done (xs ! j)"
  shows "find_loop src P i (length xs) = Done (map_option (\<lambda>j. i + j) (first_index P xs))"
  using assms
proof (induction xs arbitrary: i)
  case Nil
  then show ?case by simp
next
  case (Cons x xs)
  have head: "src i = Done x"
    using Cons.prems [of 0] by simp
  have "find_loop src P (Suc i) (length xs) = Done (map_option (\<lambda>j. Suc i + j) (first_index P xs))"
    using Cons.prems [of "Suc _"] by (intro Cons.IH) simp
  with head show ?case
    by (cases "first_index P xs") auto
qed

lemma find_loop_wf:
  "wf_arr n p \<Longrightarrow> find_loop (arr_get p) P 0 (unat n) = Done (first_index P (elems p))"
  using find_loop_list [of "elems p" "arr_get p" 0 P]
  by (cases "first_index P (elems p)") (simp_all add: wf_arr_length arr_get_wf)

section \<open>Words\<close>

lemma unat_min_if: "unat (if a < b then a else b) = min (unat a) (unat (b :: 'a::len word))"
  by (simp add: word_less_nat_alt)

lemma word_of_nat_inj_small:
  "x < 2 ^ LENGTH('a) \<Longrightarrow> y < 2 ^ LENGTH('a) \<Longrightarrow> word_of_nat x = (word_of_nat y :: 'a::len word) \<Longrightarrow> x = y"
  by (simp add: word_of_nat_eq_iff take_bit_nat_eq_self)

end
