(* ===== verification/Stub_Watch.thy ===== *)
theory Stub_Watch
  imports Prelude
begin

text \<open>
  The configuration watcher of \<^verbatim>\<open>level-zero-stub/sysman_state.c\<close>: \<open>n\<close> caller threads that start and
  stop the watcher and call the library, the watcher thread, the two mutexes, the stop eventfd and
  the ready flag, as a step relation. One step is one lock operation, one wait that is over, or one
  piece of code between them.
\<close>

section \<open>Threads and shared state\<close>

datatype watch_ready_t = CONFIG_WATCH_PENDING | CONFIG_WATCH_READY | CONFIG_WATCH_ERROR

text \<open>
  Where a caller stands: in \<^verbatim>\<open>sysman_watch_start\<close> (about to take \<^verbatim>\<open>g_state_lock\<close>, then
  \<^verbatim>\<open>g_watch_lifecycle_mu\<close>, inside with both, waiting for the ready flag, joining a failed thread,
  releasing the one, releasing the other), in \<^verbatim>\<open>sysman_watch_stop\<close>, or in any other call of the
  library, which takes \<^verbatim>\<open>g_state_lock\<close> only.
\<close>

datatype caller_pc = Idle
  | StartState | StartLife | StartLocked | StartWait | StartJoin | StartUnlock | StartRelease
  | StopLife | StopLocked | StopJoin | StopUnlock
  | CallState | CallBody

text \<open>
  The watcher thread: not existing, setting up inotify, polling, having seen an event (after the
  debounce), about to take \<^verbatim>\<open>g_state_lock\<close> in \<^verbatim>\<open>sysman_state_load\<close>, loading, terminated but not
  joined.
\<close>

datatype watcher_pc = WNone | WInit | WPoll | WEvent | WLoad | WLoading | WDone

datatype tid = Caller nat | Watcher

record watch =
  callers :: "nat \<Rightarrow> caller_pc"
  watcher :: watcher_pc
  state_owner :: "tid option"
  lifecycle_owner :: "nat option"
  g_watch_thread_started :: bool
  g_stop_efd :: "bool option"
  g_watch_ready_val :: watch_ready_t
  has_config_path :: bool

abbreviation moved :: "nat \<Rightarrow> caller_pc \<Rightarrow> watch \<Rightarrow> watch" where
  "moved i pc s \<equiv> s\<lparr>callers := (callers s)(i := pc)\<rparr>"

section \<open>Steps\<close>

inductive watch_step :: "nat \<Rightarrow> watch \<Rightarrow> watch \<Rightarrow> bool" for n where
  start_call: "i < n \<Longrightarrow> callers s i = Idle \<Longrightarrow> watch_step n s (moved i StartState s)"
| start_lock_state: "i < n \<Longrightarrow> callers s i = StartState \<Longrightarrow> state_owner s = None \<Longrightarrow>
    watch_step n s (moved i StartLife s\<lparr>state_owner := Some (Caller i)\<rparr>)"
| start_lock_life: "i < n \<Longrightarrow> callers s i = StartLife \<Longrightarrow> lifecycle_owner s = None \<Longrightarrow>
    watch_step n s (moved i StartLocked s\<lparr>lifecycle_owner := Some i\<rparr>)"
| start_refused: "i < n \<Longrightarrow> callers s i = StartLocked \<Longrightarrow> \<not> has_config_path s \<or> g_watch_thread_started s \<Longrightarrow>
    watch_step n s (moved i StartUnlock s)"
| start_no_resources: "i < n \<Longrightarrow> callers s i = StartLocked \<Longrightarrow> has_config_path s \<Longrightarrow> \<not> g_watch_thread_started s \<Longrightarrow>
    watch_step n s (moved i StartUnlock s\<lparr>g_stop_efd := None\<rparr>)"
| start_create: "i < n \<Longrightarrow> callers s i = StartLocked \<Longrightarrow> has_config_path s \<Longrightarrow> \<not> g_watch_thread_started s \<Longrightarrow>
    watch_step n s (moved i StartWait s\<lparr>watcher := WInit, g_watch_thread_started := True,
      g_stop_efd := Some False, g_watch_ready_val := CONFIG_WATCH_PENDING\<rparr>)"
| start_ready: "i < n \<Longrightarrow> callers s i = StartWait \<Longrightarrow> g_watch_ready_val s = CONFIG_WATCH_READY \<Longrightarrow>
    watch_step n s (moved i StartUnlock s)"
| start_error: "i < n \<Longrightarrow> callers s i = StartWait \<Longrightarrow> g_watch_ready_val s = CONFIG_WATCH_ERROR \<Longrightarrow>
    watch_step n s (moved i StartJoin s\<lparr>g_stop_efd := Some True, g_watch_thread_started := False\<rparr>)"
| start_join: "i < n \<Longrightarrow> callers s i = StartJoin \<Longrightarrow> watcher s = WDone \<Longrightarrow>
    watch_step n s (moved i StartUnlock s\<lparr>watcher := WNone, g_stop_efd := None\<rparr>)"
| start_unlock: "i < n \<Longrightarrow> callers s i = StartUnlock \<Longrightarrow>
    watch_step n s (moved i StartRelease s\<lparr>lifecycle_owner := None\<rparr>)"
| start_release: "i < n \<Longrightarrow> callers s i = StartRelease \<Longrightarrow>
    watch_step n s (moved i Idle s\<lparr>state_owner := None\<rparr>)"
| stop_call: "i < n \<Longrightarrow> callers s i = Idle \<Longrightarrow> watch_step n s (moved i StopLife s)"
| stop_lock: "i < n \<Longrightarrow> callers s i = StopLife \<Longrightarrow> lifecycle_owner s = None \<Longrightarrow>
    watch_step n s (moved i StopLocked s\<lparr>lifecycle_owner := Some i\<rparr>)"
| stop_nothing: "i < n \<Longrightarrow> callers s i = StopLocked \<Longrightarrow> \<not> g_watch_thread_started s \<Longrightarrow>
    watch_step n s (moved i StopUnlock s)"
| stop_signal: "i < n \<Longrightarrow> callers s i = StopLocked \<Longrightarrow> g_watch_thread_started s \<Longrightarrow>
    watch_step n s (moved i StopJoin s\<lparr>g_stop_efd := Some True, g_watch_thread_started := False\<rparr>)"
| stop_join: "i < n \<Longrightarrow> callers s i = StopJoin \<Longrightarrow> watcher s = WDone \<Longrightarrow>
    watch_step n s (moved i StopUnlock s\<lparr>watcher := WNone, g_stop_efd := None\<rparr>)"
| stop_unlock: "i < n \<Longrightarrow> callers s i = StopUnlock \<Longrightarrow>
    watch_step n s (moved i Idle s\<lparr>lifecycle_owner := None\<rparr>)"
| lib_call: "i < n \<Longrightarrow> callers s i = Idle \<Longrightarrow> watch_step n s (moved i CallState s)"
| lib_lock: "i < n \<Longrightarrow> callers s i = CallState \<Longrightarrow> state_owner s = None \<Longrightarrow>
    watch_step n s (moved i CallBody s\<lparr>state_owner := Some (Caller i)\<rparr>)"
| lib_return: "i < n \<Longrightarrow> callers s i = CallBody \<Longrightarrow>
    watch_step n s (moved i Idle s\<lparr>state_owner := None, has_config_path := b\<rparr>)"
| watch_fail: "watcher s = WInit \<Longrightarrow> watch_step n s (s\<lparr>watcher := WDone, g_watch_ready_val := CONFIG_WATCH_ERROR\<rparr>)"
| watch_ready: "watcher s = WInit \<Longrightarrow> watch_step n s (s\<lparr>watcher := WPoll, g_watch_ready_val := CONFIG_WATCH_READY\<rparr>)"
| watch_stop: "watcher s = WPoll \<Longrightarrow> g_stop_efd s = Some True \<Longrightarrow> watch_step n s (s\<lparr>watcher := WDone\<rparr>)"
| watch_poll_error: "watcher s = WPoll \<Longrightarrow> watch_step n s (s\<lparr>watcher := WDone\<rparr>)"
| watch_event: "watcher s = WPoll \<Longrightarrow> g_stop_efd s = Some False \<Longrightarrow> watch_step n s (s\<lparr>watcher := WEvent\<rparr>)"
| watch_event_stop: "watcher s = WEvent \<Longrightarrow> g_stop_efd s = Some True \<Longrightarrow> watch_step n s (s\<lparr>watcher := WDone\<rparr>)"
| watch_reload: "watcher s = WEvent \<Longrightarrow> g_stop_efd s = Some False \<Longrightarrow> watch_step n s (s\<lparr>watcher := WLoad\<rparr>)"
| watch_load_lock: "watcher s = WLoad \<Longrightarrow> state_owner s = None \<Longrightarrow>
    watch_step n s (s\<lparr>watcher := WLoading, state_owner := Some Watcher\<rparr>)"
| watch_load_done: "watcher s = WLoading \<Longrightarrow>
    watch_step n s (s\<lparr>watcher := WPoll, state_owner := None, has_config_path := b\<rparr>)"

definition watch_init :: watch where
  "watch_init = \<lparr>callers = (\<lambda>_. Idle), watcher = WNone, state_owner = None, lifecycle_owner = None,
     g_watch_thread_started = False, g_stop_efd = None, g_watch_ready_val = CONFIG_WATCH_PENDING,
     has_config_path = False\<rparr>"

inductive watch_reach :: "nat \<Rightarrow> watch \<Rightarrow> bool" for n where
  init: "watch_reach n watch_init"
| step: "watch_reach n s \<Longrightarrow> watch_step n s t \<Longrightarrow> watch_reach n t"

section \<open>The invariant\<close>

definition holds_life :: "caller_pc \<Rightarrow> bool" where
  "holds_life pc = (pc \<in> {StartLocked, StartWait, StartJoin, StartUnlock, StopLocked, StopJoin, StopUnlock})"

definition holds_state :: "caller_pc \<Rightarrow> bool" where
  "holds_state pc = (pc \<in> {StartLife, StartLocked, StartWait, StartJoin, StartUnlock, StartRelease, CallBody})"

definition joining :: "caller_pc \<Rightarrow> bool" where
  "joining pc = (pc = StartJoin \<or> pc = StopJoin)"

definition watch_inv :: "watch \<Rightarrow> bool" where
  "watch_inv s = (
     (\<forall>i. holds_life (callers s i) = (lifecycle_owner s = Some i)) \<and>
     (\<forall>i. holds_state (callers s i) = (state_owner s = Some (Caller i))) \<and>
     ((watcher s = WLoading) = (state_owner s = Some Watcher)) \<and>
     ((g_stop_efd s = None) = (watcher s = WNone)) \<and>
     (g_watch_thread_started s \<longrightarrow> watcher s \<noteq> WNone) \<and>
     (watcher s \<noteq> WNone \<longrightarrow> g_watch_thread_started s \<or> (\<exists>i. joining (callers s i))) \<and>
     (\<forall>i. joining (callers s i) \<longrightarrow> g_stop_efd s = Some True \<and> \<not> g_watch_thread_started s \<and> watcher s \<noteq> WNone) \<and>
     (\<forall>i. callers s i = StartWait \<longrightarrow> g_watch_thread_started s
        \<and> (g_watch_ready_val s = CONFIG_WATCH_PENDING \<longrightarrow> watcher s = WInit)
        \<and> (g_watch_ready_val s = CONFIG_WATCH_ERROR \<longrightarrow> watcher s = WDone)) \<and>
     (\<forall>i. callers s i = StartJoin \<longrightarrow> watcher s = WDone))"

lemma watch_pc_simps [simp]:
  "holds_life StartLocked" "holds_life StartWait" "holds_life StartJoin" "holds_life StartUnlock"
  "holds_life StopLocked" "holds_life StopJoin" "holds_life StopUnlock"
  "\<not> holds_life Idle" "\<not> holds_life StartState" "\<not> holds_life StartLife" "\<not> holds_life StartRelease"
  "\<not> holds_life StopLife" "\<not> holds_life CallState" "\<not> holds_life CallBody"
  "holds_state StartLife" "holds_state StartLocked" "holds_state StartWait" "holds_state StartJoin"
  "holds_state StartUnlock" "holds_state StartRelease" "holds_state CallBody"
  "\<not> holds_state Idle" "\<not> holds_state StartState" "\<not> holds_state StopLife" "\<not> holds_state StopLocked"
  "\<not> holds_state StopJoin" "\<not> holds_state StopUnlock" "\<not> holds_state CallState"
  "joining StartJoin" "joining StopJoin"
  "\<not> joining Idle" "\<not> joining StartState" "\<not> joining StartLife" "\<not> joining StartLocked" "\<not> joining StartWait"
  "\<not> joining StartUnlock" "\<not> joining StartRelease" "\<not> joining StopLife" "\<not> joining StopLocked"
  "\<not> joining StopUnlock" "\<not> joining CallState" "\<not> joining CallBody"
  by (simp_all add: holds_life_def holds_state_def joining_def)

lemma joining_holds: "joining pc \<Longrightarrow> holds_life pc"
  by (auto simp: joining_def)

lemma watch_inv_init: "watch_inv watch_init"
  by (simp add: watch_inv_def watch_init_def)

lemma watch_inv_step: "watch_step n s t \<Longrightarrow> watch_inv s \<Longrightarrow> watch_inv t"
  by (erule watch_step.cases; simp add: watch_inv_def;
      metis watch_pc_simps joining_holds option.inject option.distinct(1) tid.inject tid.distinct(1))

lemma watch_inv_reach: "watch_reach n s \<Longrightarrow> watch_inv s"
  by (induction rule: watch_reach.induct) (auto intro: watch_inv_init watch_inv_step)


section \<open>A deadlock\<close>

definition pair_state ::
  "caller_pc \<Rightarrow> caller_pc \<Rightarrow> watcher_pc \<Rightarrow> tid option \<Rightarrow> nat option \<Rightarrow> bool \<Rightarrow> bool option \<Rightarrow> watch_ready_t \<Rightarrow> bool \<Rightarrow> watch" where
  "pair_state p q wp so lo started efd rv path = \<lparr>callers = (\<lambda>_. Idle)(0 := p, 1 := q), watcher = wp,
     state_owner = so, lifecycle_owner = lo, g_watch_thread_started = started, g_stop_efd = efd,
     g_watch_ready_val = rv, has_config_path = path\<rparr>"

definition deadlocked :: watch where
  "deadlocked = pair_state StopJoin StartLife WLoad (Some (Caller 1)) (Some 0) False (Some True) CONFIG_WATCH_READY True"

lemma deadlocked_reachable: "watch_reach 2 deadlocked"
proof -
  have "watch_reach 2 (pair_state Idle Idle WNone None None False None CONFIG_WATCH_PENDING False)"
    using init [of 2] by (simp add: watch_init_def pair_state_def fun_upd_idem)
  then have "watch_reach 2 (pair_state CallState Idle WNone None None False None CONFIG_WATCH_PENDING False)"
    using lib_call [of 0 2 "pair_state Idle Idle WNone None None False None CONFIG_WATCH_PENDING False"] by (auto simp: pair_state_def fun_upd_twist intro: step)
  then have "watch_reach 2 (pair_state CallBody Idle WNone (Some (Caller 0)) None False None CONFIG_WATCH_PENDING False)"
    using lib_lock [of 0 2 "pair_state CallState Idle WNone None None False None CONFIG_WATCH_PENDING False"] by (auto simp: pair_state_def fun_upd_twist intro: step)
  then have "watch_reach 2 (pair_state Idle Idle WNone None None False None CONFIG_WATCH_PENDING True)"
    using lib_return [of 0 2 "pair_state CallBody Idle WNone (Some (Caller 0)) None False None CONFIG_WATCH_PENDING False" True] by (auto simp: pair_state_def fun_upd_twist intro: step)
  then have "watch_reach 2 (pair_state StartState Idle WNone None None False None CONFIG_WATCH_PENDING True)"
    using start_call [of 0 2 "pair_state Idle Idle WNone None None False None CONFIG_WATCH_PENDING True"] by (auto simp: pair_state_def fun_upd_twist intro: step)
  then have "watch_reach 2 (pair_state StartLife Idle WNone (Some (Caller 0)) None False None CONFIG_WATCH_PENDING True)"
    using start_lock_state [of 0 2 "pair_state StartState Idle WNone None None False None CONFIG_WATCH_PENDING True"] by (auto simp: pair_state_def fun_upd_twist intro: step)
  then have "watch_reach 2 (pair_state StartLocked Idle WNone (Some (Caller 0)) (Some 0) False None CONFIG_WATCH_PENDING True)"
    using start_lock_life [of 0 2 "pair_state StartLife Idle WNone (Some (Caller 0)) None False None CONFIG_WATCH_PENDING True"] by (auto simp: pair_state_def fun_upd_twist intro: step)
  then have "watch_reach 2 (pair_state StartWait Idle WInit (Some (Caller 0)) (Some 0) True (Some False) CONFIG_WATCH_PENDING True)"
    using start_create [of 0 2 "pair_state StartLocked Idle WNone (Some (Caller 0)) (Some 0) False None CONFIG_WATCH_PENDING True"] by (auto simp: pair_state_def fun_upd_twist intro: step)
  then have "watch_reach 2 (pair_state StartWait Idle WPoll (Some (Caller 0)) (Some 0) True (Some False) CONFIG_WATCH_READY True)"
    using watch_ready [of "pair_state StartWait Idle WInit (Some (Caller 0)) (Some 0) True (Some False) CONFIG_WATCH_PENDING True" 2] by (auto simp: pair_state_def fun_upd_twist intro: step)
  then have "watch_reach 2 (pair_state StartUnlock Idle WPoll (Some (Caller 0)) (Some 0) True (Some False) CONFIG_WATCH_READY True)"
    using start_ready [of 0 2 "pair_state StartWait Idle WPoll (Some (Caller 0)) (Some 0) True (Some False) CONFIG_WATCH_READY True"] by (auto simp: pair_state_def fun_upd_twist intro: step)
  then have "watch_reach 2 (pair_state StartRelease Idle WPoll (Some (Caller 0)) None True (Some False) CONFIG_WATCH_READY True)"
    using start_unlock [of 0 2 "pair_state StartUnlock Idle WPoll (Some (Caller 0)) (Some 0) True (Some False) CONFIG_WATCH_READY True"] by (auto simp: pair_state_def fun_upd_twist intro: step)
  then have "watch_reach 2 (pair_state Idle Idle WPoll None None True (Some False) CONFIG_WATCH_READY True)"
    using start_release [of 0 2 "pair_state StartRelease Idle WPoll (Some (Caller 0)) None True (Some False) CONFIG_WATCH_READY True"] by (auto simp: pair_state_def fun_upd_twist intro: step)
  then have "watch_reach 2 (pair_state Idle Idle WEvent None None True (Some False) CONFIG_WATCH_READY True)"
    using watch_event [of "pair_state Idle Idle WPoll None None True (Some False) CONFIG_WATCH_READY True" 2] by (auto simp: pair_state_def fun_upd_twist intro: step)
  then have "watch_reach 2 (pair_state Idle Idle WLoad None None True (Some False) CONFIG_WATCH_READY True)"
    using watch_reload [of "pair_state Idle Idle WEvent None None True (Some False) CONFIG_WATCH_READY True" 2] by (auto simp: pair_state_def fun_upd_twist intro: step)
  then have "watch_reach 2 (pair_state Idle StartState WLoad None None True (Some False) CONFIG_WATCH_READY True)"
    using start_call [of 1 2 "pair_state Idle Idle WLoad None None True (Some False) CONFIG_WATCH_READY True"] by (auto simp: pair_state_def fun_upd_twist intro: step)
  then have "watch_reach 2 (pair_state Idle StartLife WLoad (Some (Caller 1)) None True (Some False) CONFIG_WATCH_READY True)"
    using start_lock_state [of 1 2 "pair_state Idle StartState WLoad None None True (Some False) CONFIG_WATCH_READY True"] by (auto simp: pair_state_def fun_upd_twist intro: step)
  then have "watch_reach 2 (pair_state StopLife StartLife WLoad (Some (Caller 1)) None True (Some False) CONFIG_WATCH_READY True)"
    using stop_call [of 0 2 "pair_state Idle StartLife WLoad (Some (Caller 1)) None True (Some False) CONFIG_WATCH_READY True"] by (auto simp: pair_state_def fun_upd_twist intro: step)
  then have "watch_reach 2 (pair_state StopLocked StartLife WLoad (Some (Caller 1)) (Some 0) True (Some False) CONFIG_WATCH_READY True)"
    using stop_lock [of 0 2 "pair_state StopLife StartLife WLoad (Some (Caller 1)) None True (Some False) CONFIG_WATCH_READY True"] by (auto simp: pair_state_def fun_upd_twist intro: step)
  then have "watch_reach 2 (pair_state StopJoin StartLife WLoad (Some (Caller 1)) (Some 0) False (Some True) CONFIG_WATCH_READY True)"
    using stop_signal [of 0 2 "pair_state StopLocked StartLife WLoad (Some (Caller 1)) (Some 0) True (Some False) CONFIG_WATCH_READY True"] by (auto simp: pair_state_def fun_upd_twist intro: step)
  then show ?thesis
    by (simp add: deadlocked_def)
qed

lemma deadlocked_stuck: "\<not> watch_step 2 deadlocked t"
  by (auto simp: deadlocked_def pair_state_def less_2_cases_iff elim!: watch_step.cases split: if_splits)

text \<open>
  C6. Two callers and the watcher can block each other for ever: one caller in
  \<^verbatim>\<open>sysman_watch_stop\<close> holds \<^verbatim>\<open>g_watch_lifecycle_mu\<close> and joins the watcher, the watcher waits for
  \<^verbatim>\<open>g_state_lock\<close> to reload, and the other caller in \<^verbatim>\<open>sysman_watch_start\<close> holds \<^verbatim>\<open>g_state_lock\<close> and
  waits for \<^verbatim>\<open>g_watch_lifecycle_mu\<close>. This state is reachable and has no step.
\<close>

theorem watch_deadlock:
  "\<exists>s. watch_reach 2 s \<and> callers s 0 = StopJoin \<and> callers s 1 = StartLife \<and> watcher s = WLoad
     \<and> (\<forall>t. \<not> watch_step 2 s t)"
  using deadlocked_reachable deadlocked_stuck
  by (intro exI [of _ deadlocked]) (auto simp: deadlocked_def pair_state_def)

section \<open>One caller at a time\<close>

lemma others_idle: "watch_reach n s \<Longrightarrow> n \<le> i \<Longrightarrow> callers s i = Idle"
proof (induction rule: watch_reach.induct)
  case init
  then show ?case by (simp add: watch_init_def)
next
  case (step s t)
  from step(2) step.IH step.prems show ?case
    by (cases rule: watch_step.cases) auto
qed

definition can_idle :: "watch \<Rightarrow> bool" where
  "can_idle s = (\<exists>t. (watch_step 1)\<^sup>*\<^sup>* s t \<and> callers t 0 = Idle)"

lemma can_idle_now: "callers s 0 = Idle \<Longrightarrow> can_idle s"
  by (auto simp: can_idle_def)

lemma can_idle_step: "watch_step 1 s t \<Longrightarrow> can_idle t \<Longrightarrow> can_idle s"
  unfolding can_idle_def by (meson converse_rtranclp_into_rtranclp)

lemma can_idle_steps: "(watch_step 1)\<^sup>*\<^sup>* s t \<Longrightarrow> can_idle t \<Longrightarrow> can_idle s"
  unfolding can_idle_def by (meson rtranclp_trans)

lemma reach_steps: "(watch_step n)\<^sup>*\<^sup>* s t \<Longrightarrow> watch_reach n s \<Longrightarrow> watch_reach n t"
  by (induction rule: rtranclp_induct) (auto intro: watch_reach.step)

lemma lone_owner:
  assumes "watch_reach 1 s"
  shows "\<not> holds_life (callers s 0) \<Longrightarrow> lifecycle_owner s = None"
    and "\<not> holds_state (callers s 0) \<Longrightarrow> state_owner s = None \<or> state_owner s = Some Watcher"
proof -
  have life: "\<And>i. holds_life (callers s i) = (lifecycle_owner s = Some i)"
    and st: "\<And>i. holds_state (callers s i) = (state_owner s = Some (Caller i))"
    using watch_inv_reach [OF assms] by (simp_all add: watch_inv_def)
  have idle: "callers s i = Idle" if "i \<noteq> 0" for i
    using others_idle [OF assms, of i] that by simp
  show "lifecycle_owner s = None" if "\<not> holds_life (callers s 0)"
  proof (cases "lifecycle_owner s")
    case (Some i)
    with life [of i] that idle [of i] show ?thesis by (cases "i = 0") auto
  qed
  show "state_owner s = None \<or> state_owner s = Some Watcher" if "\<not> holds_state (callers s 0)"
  proof (cases "state_owner s")
    case (Some t)
    with st that idle show ?thesis by (cases t) (metis neq0_conv watch_pc_simps(22), simp)
  qed simp
qed

text \<open>A signalled watcher terminates as soon as nobody else keeps the state lock.\<close>

lemma watcher_finishes:
  assumes inv: "watch_inv s" and ex: "watcher s \<noteq> WNone" and sig: "g_stop_efd s = Some True"
    and owner: "state_owner s = None \<or> state_owner s = Some Watcher"
  shows "\<exists>t. (watch_step n)\<^sup>*\<^sup>* s t \<and> watcher t = WDone \<and> callers t = callers s"
proof -
  have load: "(watcher s = WLoading) = (state_owner s = Some Watcher)"
    using inv by (simp add: watch_inv_def)
  have poll: "\<exists>t. (watch_step n)\<^sup>*\<^sup>* u t \<and> watcher t = WDone \<and> callers t = callers s"
    if "watcher u = WPoll" "g_stop_efd u = Some True" "callers u = callers s" for u
    using watch_stop [OF that(1,2), of n] that(3) by (intro exI [of _ "u\<lparr>watcher := WDone\<rparr>"]) auto
  have loading: "\<exists>t. (watch_step n)\<^sup>*\<^sup>* u t \<and> watcher t = WDone \<and> callers t = callers s"
    if "watcher u = WLoading" "g_stop_efd u = Some True" "callers u = callers s" for u
    using poll [of "u\<lparr>watcher := WPoll, state_owner := None, has_config_path := True\<rparr>"]
      watch_load_done [OF that(1), of n True] that(2,3) by (auto intro: converse_rtranclp_into_rtranclp)
  show ?thesis
  proof (cases "watcher s")
    case WInit
    then show ?thesis
      using watch_fail [OF WInit, of n] by (auto intro!: exI [of _ "s\<lparr>watcher := WDone, g_watch_ready_val := CONFIG_WATCH_ERROR\<rparr>"])
  next
    case WEvent
    then show ?thesis
      using watch_event_stop [OF WEvent sig, of n] by (auto intro!: exI [of _ "s\<lparr>watcher := WDone\<rparr>"])
  next
    case WLoad
    then have "state_owner s = None"
      using load owner by auto
    then show ?thesis
      using loading [of "s\<lparr>watcher := WLoading, state_owner := Some Watcher\<rparr>"] watch_load_lock [OF WLoad, of n] sig
      by (auto intro: converse_rtranclp_into_rtranclp)
  qed (use ex sig poll [of s] loading [of s] in auto)
qed

text \<open>The caller's way out of each call, backwards from its last step.\<close>

lemma idle_from_release: "callers s 0 = StartRelease \<Longrightarrow> can_idle s"
  by (rule can_idle_step [OF start_release [of 0]]) (auto intro: can_idle_now)

lemma idle_from_start_unlock: "callers s 0 = StartUnlock \<Longrightarrow> can_idle s"
  by (rule can_idle_step [OF start_unlock [of 0]]) (auto intro: idle_from_release)

lemma idle_from_start_join:
  assumes "watch_reach 1 s" "callers s 0 = StartJoin"
  shows "can_idle s"
proof -
  have "watcher s = WDone"
    using watch_inv_reach [OF assms(1)] assms(2) unfolding watch_inv_def by blast
  then have "watch_step 1 s (moved 0 StartUnlock s\<lparr>watcher := WNone, g_stop_efd := None\<rparr>)"
    by (intro start_join) (use assms(2) in simp_all)
  then show ?thesis
    by (rule can_idle_step) (rule idle_from_start_unlock, simp)
qed

lemma idle_from_wait:
  assumes "watch_reach 1 s" "callers s 0 = StartWait"
  shows "can_idle s"
proof (cases "g_watch_ready_val s")
  case CONFIG_WATCH_PENDING
  then have "watcher s = WInit"
    using watch_inv_reach [OF assms(1)] assms(2) unfolding watch_inv_def by blast
  moreover have "can_idle (s\<lparr>watcher := WPoll, g_watch_ready_val := CONFIG_WATCH_READY\<rparr>)"
    by (rule can_idle_step [OF start_ready [of 0]]) (use assms(2) in \<open>auto intro: idle_from_start_unlock\<close>)
  ultimately show ?thesis
    by (rule can_idle_step [OF watch_ready])
next
  case CONFIG_WATCH_READY
  then have "watch_step 1 s (moved 0 StartUnlock s)"
    by (intro start_ready) (use assms(2) in simp_all)
  then show ?thesis
    by (rule can_idle_step) (rule idle_from_start_unlock, simp)
next
  case CONFIG_WATCH_ERROR
  have step: "watch_step 1 s (moved 0 StartJoin s\<lparr>g_stop_efd := Some True, g_watch_thread_started := False\<rparr>)"
    using assms(2) CONFIG_WATCH_ERROR by (intro start_error) auto
  show ?thesis
    by (rule can_idle_step [OF step], rule idle_from_start_join [OF watch_reach.step [OF assms(1) step]]) simp
qed

lemma idle_from_locked:
  assumes "callers s 0 = StartLocked"
  shows "can_idle s"
proof (cases "has_config_path s \<and> \<not> g_watch_thread_started s")
  case True
  have "watch_step 1 s (moved 0 StartUnlock s\<lparr>g_stop_efd := None\<rparr>)"
    by (rule start_no_resources) (use assms True in simp_all)
  then show ?thesis
    by (rule can_idle_step) (rule idle_from_start_unlock, simp)
next
  case False
  have "watch_step 1 s (moved 0 StartUnlock s)"
    by (rule start_refused) (use assms False in auto)
  then show ?thesis
    by (rule can_idle_step) (rule idle_from_start_unlock, simp)
qed

lemma idle_from_life: "watch_reach 1 s \<Longrightarrow> callers s 0 = StartLife \<Longrightarrow> can_idle s"
  by (rule can_idle_step [OF start_lock_life [of 0]]) (auto intro: lone_owner(1) idle_from_locked)

text \<open>The watcher always gives the state lock back, so a lone caller gets it.\<close>

lemma state_lock_free:
  assumes "watch_reach 1 s" "\<not> holds_state (callers s 0)"
  shows "\<exists>t. (watch_step 1)\<^sup>*\<^sup>* s t \<and> watch_reach 1 t \<and> state_owner t = None \<and> callers t = callers s"
proof (cases "state_owner s = None")
  case True
  with assms(1) show ?thesis by auto
next
  case False
  with lone_owner(2) [OF assms] have "state_owner s = Some Watcher" by simp
  then have loading: "watcher s = WLoading"
    using watch_inv_reach [OF assms(1)] by (simp add: watch_inv_def)
  let ?t = "s\<lparr>watcher := WPoll, state_owner := None, has_config_path := True\<rparr>"
  have step: "watch_step 1 s ?t"
    using watch_load_done [OF loading] .
  then show ?thesis
    using watch_reach.step [OF assms(1) step] by (intro exI [of _ ?t]) auto
qed

lemma idle_from_start:
  assumes "watch_reach 1 s" "callers s 0 = StartState"
  shows "can_idle s"
proof -
  obtain t where t: "(watch_step 1)\<^sup>*\<^sup>* s t" "watch_reach 1 t" "state_owner t = None" "callers t = callers s"
    using state_lock_free [OF assms(1)] assms(2) by auto
  have step: "watch_step 1 t (moved 0 StartLife t\<lparr>state_owner := Some (Caller 0)\<rparr>)"
    using t assms(2) by (intro start_lock_state) auto
  have "can_idle t"
    by (rule can_idle_step [OF step], rule idle_from_life [OF watch_reach.step [OF t(2) step]]) simp
  with t(1) show ?thesis by (rule can_idle_steps)
qed

lemma idle_from_call:
  assumes "watch_reach 1 s" "callers s 0 = CallState \<or> callers s 0 = CallBody"
  shows "can_idle s"
proof -
  have body: "can_idle u" if "callers u 0 = CallBody" for u
    by (rule can_idle_step [OF lib_return [of 0 _ _ True]]) (use that in \<open>auto intro: can_idle_now\<close>)
  show ?thesis
  proof (cases "callers s 0 = CallBody")
    case False
    then obtain t where t: "(watch_step 1)\<^sup>*\<^sup>* s t" "state_owner t = None" "callers t = callers s"
      using state_lock_free [OF assms(1)] assms(2) by auto
    have "can_idle t"
      by (rule can_idle_step [OF lib_lock [of 0]]) (use t assms(2) False in \<open>auto intro: body\<close>)
    with t(1) show ?thesis by (rule can_idle_steps)
  qed (rule body)
qed

lemma idle_from_stop_unlock: "callers s 0 = StopUnlock \<Longrightarrow> can_idle s"
  by (rule can_idle_step [OF stop_unlock [of 0]]) (auto intro: can_idle_now)

lemma idle_from_stop_join:
  assumes "watch_reach 1 s" "callers s 0 = StopJoin"
  shows "can_idle s"
proof -
  have inv: "watch_inv s"
    by (rule watch_inv_reach [OF assms(1)])
  have "g_stop_efd s = Some True" "watcher s \<noteq> WNone"
    using inv assms(2) unfolding watch_inv_def by (metis watch_pc_simps(30))+
  then obtain t where t: "(watch_step 1)\<^sup>*\<^sup>* s t" "watcher t = WDone" "callers t = callers s"
    using watcher_finishes [OF inv] lone_owner(2) [OF assms(1)] assms(2) by auto
  have "can_idle (moved 0 StopUnlock t\<lparr>watcher := WNone, g_stop_efd := None\<rparr>)"
    by (rule can_idle_step [OF stop_unlock [of 0]]) (auto intro: can_idle_now)
  moreover have "watch_step 1 t (moved 0 StopUnlock t\<lparr>watcher := WNone, g_stop_efd := None\<rparr>)"
    using t assms(2) by (intro stop_join) auto
  ultimately show ?thesis
    using can_idle_steps [OF t(1)] can_idle_step by blast
qed

lemma idle_from_stop_locked:
  assumes "watch_reach 1 s" "callers s 0 = StopLocked"
  shows "can_idle s"
proof (cases "g_watch_thread_started s")
  case True
  have step: "watch_step 1 s (moved 0 StopJoin s\<lparr>g_stop_efd := Some True, g_watch_thread_started := False\<rparr>)"
    using assms(2) True by (intro stop_signal) auto
  show ?thesis
    by (rule can_idle_step [OF step], rule idle_from_stop_join [OF watch_reach.step [OF assms(1) step]]) simp
next
  case False
  have "can_idle (moved 0 StopUnlock s)"
    by (rule can_idle_step [OF stop_unlock [of 0]]) (auto intro: can_idle_now)
  moreover have "watch_step 1 s (moved 0 StopUnlock s)"
    by (rule stop_nothing) (use False assms(2) in simp_all)
  ultimately show ?thesis
    by (rule can_idle_step [rotated])
qed

lemma idle_from_stop_life:
  assumes "watch_reach 1 s" "callers s 0 = StopLife"
  shows "can_idle s"
proof -
  have step: "watch_step 1 s (moved 0 StopLocked s\<lparr>lifecycle_owner := Some 0\<rparr>)"
    using assms lone_owner(1) [OF assms(1)] by (intro stop_lock) auto
  show ?thesis
    by (rule can_idle_step [OF step], rule idle_from_stop_locked [OF watch_reach.step [OF assms(1) step]]) simp
qed

text \<open>
  C8. A caller that is the only one never deadlocks with the watcher: from every reachable state its
  current call can still return.
\<close>

theorem single_caller_returns:
  assumes "watch_reach 1 s"
  shows "\<exists>t. (watch_step 1)\<^sup>*\<^sup>* s t \<and> callers t 0 = Idle"
proof -
  have "can_idle s"
    by (cases "callers s 0")
      (erule can_idle_now
       | erule idle_from_start [OF assms]
       | erule idle_from_life [OF assms]
       | erule idle_from_locked
       | erule idle_from_wait [OF assms]
       | erule idle_from_start_join [OF assms]
       | erule idle_from_start_unlock
       | erule idle_from_release
       | erule idle_from_stop_life [OF assms]
       | erule idle_from_stop_locked [OF assms]
       | erule idle_from_stop_join [OF assms]
       | erule idle_from_stop_unlock
       | erule idle_from_call [OF assms disjI1]
       | erule idle_from_call [OF assms disjI2])+
  then show ?thesis
    by (simp add: can_idle_def)
qed

section \<open>Witnesses\<close>


theorem single_caller_returns_witness:
  "\<exists>t. (watch_step 1)\<^sup>*\<^sup>* (moved 0 StopLife watch_init) t \<and> callers t 0 = Idle"
proof -
  have "watch_step 1 watch_init (moved 0 StopLife watch_init)"
    by (rule stop_call) (simp_all add: watch_init_def)
  then have "watch_reach 1 (moved 0 StopLife watch_init)"
    by (rule step [OF init])
  then show ?thesis
    by (rule single_caller_returns)
qed

end
