(* ===== verification/Amc_Common.thy ===== *)
theory Amc_Common
  imports Prelude
begin

text \<open>
  The helpers of \<^verbatim>\<open>hal/amc/common.cpp\<close> and the byte-level vocabulary of the card management protocol
  code: the SMBus CRC-8, integers stored in memory (little endian), reads and writes of a byte buffer
  that fault outside it, and programs that thread the protocol object's state.
\<close>

named_theorems amc_defs \<open>definitions of the protocol code\<close>
named_theorems amc_safe \<open>rules that a step of the protocol code cannot fault\<close>

lemma word_xor_eq_0: "a XOR b = 0 \<longleftrightarrow> a = (b :: 'a::len word)"
  by (metis xor.assoc xor.right_neutral xor_self_eq xor.left_neutral)

lemma word_xor_cancel: "a XOR c = b XOR c \<longleftrightarrow> a = (b :: 'a::len word)" "c XOR a = c XOR b \<longleftrightarrow> a = b"
  by (metis xor.assoc xor.right_neutral xor_self_eq) (metis xor.assoc xor.left_neutral xor_self_eq)

section \<open>The CRC-8 of SMBus\<close>

definition crc8Lut :: "u8 list" where
  "crc8Lut = [
     0x00, 0x07, 0x0E, 0x09, 0x1C, 0x1B, 0x12, 0x15, 0x38, 0x3F, 0x36, 0x31, 0x24, 0x23, 0x2A, 0x2D,
     0x70, 0x77, 0x7E, 0x79, 0x6C, 0x6B, 0x62, 0x65, 0x48, 0x4F, 0x46, 0x41, 0x54, 0x53, 0x5A, 0x5D,
     0xE0, 0xE7, 0xEE, 0xE9, 0xFC, 0xFB, 0xF2, 0xF5, 0xD8, 0xDF, 0xD6, 0xD1, 0xC4, 0xC3, 0xCA, 0xCD,
     0x90, 0x97, 0x9E, 0x99, 0x8C, 0x8B, 0x82, 0x85, 0xA8, 0xAF, 0xA6, 0xA1, 0xB4, 0xB3, 0xBA, 0xBD,
     0xC7, 0xC0, 0xC9, 0xCE, 0xDB, 0xDC, 0xD5, 0xD2, 0xFF, 0xF8, 0xF1, 0xF6, 0xE3, 0xE4, 0xED, 0xEA,
     0xB7, 0xB0, 0xB9, 0xBE, 0xAB, 0xAC, 0xA5, 0xA2, 0x8F, 0x88, 0x81, 0x86, 0x93, 0x94, 0x9D, 0x9A,
     0x27, 0x20, 0x29, 0x2E, 0x3B, 0x3C, 0x35, 0x32, 0x1F, 0x18, 0x11, 0x16, 0x03, 0x04, 0x0D, 0x0A,
     0x57, 0x50, 0x59, 0x5E, 0x4B, 0x4C, 0x45, 0x42, 0x6F, 0x68, 0x61, 0x66, 0x73, 0x74, 0x7D, 0x7A,
     0x89, 0x8E, 0x87, 0x80, 0x95, 0x92, 0x9B, 0x9C, 0xB1, 0xB6, 0xBF, 0xB8, 0xAD, 0xAA, 0xA3, 0xA4,
     0xF9, 0xFE, 0xF7, 0xF0, 0xE5, 0xE2, 0xEB, 0xEC, 0xC1, 0xC6, 0xCF, 0xC8, 0xDD, 0xDA, 0xD3, 0xD4,
     0x69, 0x6E, 0x67, 0x60, 0x75, 0x72, 0x7B, 0x7C, 0x51, 0x56, 0x5F, 0x58, 0x4D, 0x4A, 0x43, 0x44,
     0x19, 0x1E, 0x17, 0x10, 0x05, 0x02, 0x0B, 0x0C, 0x21, 0x26, 0x2F, 0x28, 0x3D, 0x3A, 0x33, 0x34,
     0x4E, 0x49, 0x40, 0x47, 0x52, 0x55, 0x5C, 0x5B, 0x76, 0x71, 0x78, 0x7F, 0x6A, 0x6D, 0x64, 0x63,
     0x3E, 0x39, 0x30, 0x37, 0x22, 0x25, 0x2C, 0x2B, 0x06, 0x01, 0x08, 0x0F, 0x1A, 0x1D, 0x14, 0x13,
     0xAE, 0xA9, 0xA0, 0xA7, 0xB2, 0xB5, 0xBC, 0xBB, 0x96, 0x91, 0x98, 0x9F, 0x8A, 0x8D, 0x84, 0x83,
     0xDE, 0xD9, 0xD0, 0xD7, 0xC2, 0xC5, 0xCC, 0xCB, 0xE6, 0xE1, 0xE8, 0xEF, 0xFA, 0xFD, 0xF4, 0xF3]"

text \<open>The loop of \<^verbatim>\<open>crc8Smbus\<close>; reading past the end of \<open>data\<close> faults.\<close>

primrec crc8_loop :: "u8 list \<Rightarrow> nat \<Rightarrow> nat \<Rightarrow> u8 \<Rightarrow> u8 outcome" where
  "crc8_loop data i 0 crc = Done crc"
| "crc8_loop data i (Suc k) crc =
     (if i < length data then crc8_loop data (Suc i) k (crc8Lut ! unat (crc XOR data ! i)) else Fault)"

definition crc8Smbus :: "u8 list \<Rightarrow> nat \<Rightarrow> u8 outcome" where
  "crc8Smbus data len = (if len = 0 then Done 0 else crc8_loop data 0 len 0)"

text \<open>
  The reference: a shift register of eight bits with the polynomial \<open>x\<^sup>8 + x\<^sup>2 + x + 1\<close>, fed with
  the bytes of the message, most significant bit first.
\<close>

definition crc8_bit :: "u8 \<Rightarrow> u8" where
  "crc8_bit c = (if bit c 7 then push_bit 1 c XOR 0x07 else push_bit 1 c)"

definition crc8_byte :: "u8 \<Rightarrow> u8 \<Rightarrow> u8" where
  "crc8_byte c b = (crc8_bit ^^ 8) (c XOR b)"

definition crc8_of :: "u8 list \<Rightarrow> u8" where
  "crc8_of bs = foldl crc8_byte 0 bs"

lemma crc8_bit_xor: "crc8_bit (a XOR b) = crc8_bit a XOR crc8_bit b"
  by (rule bit_word_eqI) (auto simp: crc8_bit_def bit_simps)

lemma crc8_bits_xor: "(crc8_bit ^^ n) (a XOR b) = (crc8_bit ^^ n) a XOR (crc8_bit ^^ n) b"
  by (induction n) (simp_all add: crc8_bit_xor)

lemma crc8_bit_shift: "crc8_bit c = (if bit c 7 then c * 2 XOR 7 else c * 2)"
  by (simp add: crc8_bit_def)

lemma crc8_bit_eq_0: "crc8_bit c = 0 \<longleftrightarrow> c = 0"
proof
  assume zero: "crc8_bit c = 0"
  have even: "\<not> bit (c * 2) 0"
    by (simp add: bit_0)
  have "\<not> bit c 7"
  proof
    assume "bit c 7"
    then have "bit (crc8_bit c) 0"
      unfolding crc8_bit_shift using even by (simp only: bit_xor_iff if_True) (simp add: bit_0)
    with zero show False by simp
  qed
  then have "push_bit 1 c = 0" and high: "\<not> bit c 7"
    using zero by (simp_all add: crc8_bit_def)
  then have "\<not> bit c n" if "n < 7" for n
    using that bit_push_bit_iff [of 1 c "Suc n"] by (simp del: push_bit_Suc)
  with high show "c = 0"
    by (intro bit_word_eqI) (auto simp: less_Suc_eq numeral_eq_Suc)
qed (simp add: crc8_bit_def)

lemma crc8_bits_eq_0: "(crc8_bit ^^ n) c = 0 \<longleftrightarrow> c = 0"
  by (induction n) (simp_all add: crc8_bit_eq_0)

text \<open>Doubling the index of the table shifts the entry, and the odd entries differ from the even ones by 7.\<close>

lemma crc8_Lut_double:
  "crc8Lut = concat (map (\<lambda>c. [crc8_bit c, crc8_bit c XOR 7]) (take 128 crc8Lut))" "crc8Lut ! 0 = 0"
  by code_simp+

lemma nth_concat_pairs:
  "n < 2 * length xs \<Longrightarrow> concat (map (\<lambda>c. [f c, g c]) xs) ! n = (if even n then f (xs ! (n div 2)) else g (xs ! (n div 2)))"
proof (induction xs arbitrary: n)
  case (Cons x xs)
  show ?case
  proof (cases "n < 2")
    case True
    then show ?thesis by (cases n) auto
  next
    case False
    then obtain k where "n = Suc (Suc k)" by (metis add_2_eq_Suc le_Suc_ex not_less)
    with Cons show ?thesis by simp
  qed
qed simp

lemma crc8_bits_double: "n < 128 \<Longrightarrow> (crc8_bit ^^ 8) (word_of_nat (2 * n)) = crc8_bit ((crc8_bit ^^ 8) (word_of_nat n))"
proof -
  assume "n < 128"
  then have "\<not> bit (unat (word_of_nat n :: u8)) 7"
    by (simp add: unat_of_nat bit_iff_odd)
  then have "\<not> bit (word_of_nat n :: u8) 7"
    by (simp only: bit_unsigned_iff) simp
  then have "word_of_nat (2 * n) = crc8_bit (word_of_nat n)"
    by (simp add: crc8_bit_shift ac_simps)
  then show ?thesis
    by (simp only: funpow_swap1 [symmetric])
qed

lemma crc8_Lut_bits: "n < 256 \<Longrightarrow> crc8Lut ! n = (crc8_bit ^^ 8) (word_of_nat n)"
proof (induction n rule: less_induct)
  case (less n)
  have len: "length (take 128 crc8Lut) = 128"
    by (simp add: crc8Lut_def)
  show ?case
  proof (cases "n = 0")
    case True
    then show ?thesis by (simp add: crc8_Lut_double(2) crc8_bits_eq_0 del: funpow.simps)
  next
    case False
    let ?h = "n div 2" and ?c = "crc8Lut ! (n div 2)"
    from False less.prems have "?h < n" "?h < 128" by auto
    then have half: "?c = (crc8_bit ^^ 8) (word_of_nat ?h)" using less.IH by simp
    have "crc8Lut ! n = concat (map (\<lambda>c. [crc8_bit c, crc8_bit c XOR 7]) (take 128 crc8Lut)) ! n"
      using crc8_Lut_double(1) by simp
    also have "\<dots> = (if even n then crc8_bit ?c else crc8_bit ?c XOR 7)"
      using less.prems \<open>?h < 128\<close> len by (subst nth_concat_pairs) auto
    also have "\<dots> = (crc8_bit ^^ 8) (word_of_nat n)"
    proof (cases "even n")
      case True
      then have "n = 2 * ?h" by simp
      with crc8_bits_double [OF \<open>?h < 128\<close>] half True show ?thesis by metis
    next
      case odd: False
      have one: "(crc8_bit ^^ 8) 1 = 7"
        by code_simp
      from odd have n: "n = 2 * ?h + 1" by presburger
      have "even (2 * word_of_nat ?h :: u8)" by simp
      then have "word_of_nat n = (word_of_nat (2 * ?h) XOR 1 :: u8)"
        by (subst n) (simp add: xor_one_eq)
      with crc8_bits_double [OF \<open>?h < 128\<close>] half odd one show ?thesis
        by (simp add: crc8_bits_xor del: funpow.simps)
    qed
    finally show ?thesis .
  qed
qed

lemma crc8_Lut_nth: "crc8Lut ! unat (x :: u8) = (crc8_bit ^^ 8) x"
  using unsigned_less [of x, where ?'a = nat] by (simp add: crc8_Lut_bits del: funpow.simps)

lemma crc8_loop_ok:
  "i + k \<le> length data \<Longrightarrow> crc8_loop data i k c = Done (foldl crc8_byte c (take k (drop i data)))"
proof (induction k arbitrary: i c)
  case (Suc k)
  then have "drop i data = data ! i # drop (Suc i) data"
    by (simp add: Cons_nth_drop_Suc)
  with Suc show ?case
    by (simp add: crc8_Lut_nth crc8_byte_def del: funpow.simps)
qed simp

lemma crc8_loop_fault: "length data < i + k \<Longrightarrow> i \<le> length data \<Longrightarrow> crc8_loop data i k c = Fault"
  by (induction k arbitrary: i c) (auto simp: less_Suc_eq_le)

text \<open>
  C21. The table-driven CRC computes the bit-serial CRC-8 of the first \<open>len\<close> bytes when they exist,
  and otherwise reads past the end of the data.
\<close>

theorem crc8_table_correct:
  "crc8Smbus data len = (if len \<le> length data then Done (crc8_of (take len data)) else Fault)"
  by (auto simp: crc8Smbus_def crc8_of_def crc8_loop_ok crc8_loop_fault)

lemma crc8Smbus_ok [simp]: "len \<le> length data \<Longrightarrow> crc8Smbus data len = Done (crc8_of (take len data))"
  by (simp add: crc8Smbus_def crc8_of_def crc8_loop_ok)

lemma foldl_crc8_xor:
  "length as = length bs \<Longrightarrow>
   foldl crc8_byte (a XOR b) (map2 (XOR) as bs) = foldl crc8_byte a as XOR foldl crc8_byte b bs"
proof (induction as bs arbitrary: a b rule: list_induct2)
  case (Cons x xs y ys)
  have "crc8_byte (a XOR b) (x XOR y) = crc8_byte a x XOR crc8_byte b y"
    by (simp add: crc8_byte_def crc8_bits_xor [symmetric] ac_simps del: funpow.simps)
  with Cons show ?case by simp
qed simp

lemma foldl_crc8_inj: "foldl crc8_byte a bs = foldl crc8_byte b bs \<longleftrightarrow> a = b"
proof (induction bs arbitrary: a b)
  case (Cons x bs)
  have "crc8_byte a x = crc8_byte b x \<longleftrightarrow> a = b"
  proof -
    have "crc8_byte a x = crc8_byte b x \<longleftrightarrow> (crc8_bit ^^ 8) a = (crc8_bit ^^ 8) b"
      by (simp add: crc8_byte_def crc8_bits_xor word_xor_cancel del: funpow.simps)
    also have "\<dots> \<longleftrightarrow> (crc8_bit ^^ 8) (a XOR b) = 0"
      by (simp add: crc8_bits_xor word_xor_eq_0 del: funpow.simps)
    also have "\<dots> \<longleftrightarrow> a = b"
      by (simp add: crc8_bits_eq_0 word_xor_eq_0 del: funpow.simps)
    finally show ?thesis .
  qed
  with Cons show ?case by simp
qed simp

text \<open>
  Appending the CRC to a message makes the CRC of the whole zero, and a message in which one byte
  is replaced by another always has another CRC.
\<close>

theorem crc8_detects:
  "crc8_of (bs @ [crc8_of bs]) = 0 \<and> (x \<noteq> y \<longrightarrow> crc8_of (as @ x # bs) \<noteq> crc8_of (as @ y # bs))"
proof -
  have "crc8_byte c c = 0" for c
    by (simp add: crc8_byte_def crc8_bits_eq_0 del: funpow.simps)
  moreover have "crc8_byte c x = crc8_byte c y \<longleftrightarrow> x = y" for c
    using crc8_bits_eq_0 [of 8 "x XOR y"]
    by (simp add: crc8_byte_def crc8_bits_xor word_xor_cancel word_xor_eq_0 del: funpow.simps)
  ultimately show ?thesis
    by (simp add: crc8_of_def foldl_crc8_inj)
qed

section \<open>Memory\<close>

text \<open>An object is its bytes; reading or writing outside it faults.\<close>

definition get_byte :: "u8 list \<Rightarrow> nat \<Rightarrow> u8 outcome" where
  "get_byte bs i = (if i < length bs then Done (bs ! i) else Fault)"

definition put_byte :: "u8 list \<Rightarrow> nat \<Rightarrow> u8 \<Rightarrow> u8 list outcome" where
  "put_byte bs i b = (if i < length bs then Done (bs[i := b]) else Fault)"

definition get_bytes :: "u8 list \<Rightarrow> nat \<Rightarrow> nat \<Rightarrow> u8 list outcome" where
  "get_bytes bs i n = (if i + n \<le> length bs then Done (take n (drop i bs)) else Fault)"

definition put_bytes :: "u8 list \<Rightarrow> nat \<Rightarrow> u8 list \<Rightarrow> u8 list outcome" where
  "put_bytes bs i vs =
     (if i + length vs \<le> length bs then Done (take i bs @ vs @ drop (i + length vs) bs) else Fault)"

lemma get_byte_ok [simp]: "i < length bs \<Longrightarrow> get_byte bs i = Done (bs ! i)"
  by (simp add: get_byte_def)

lemma put_byte_ok [simp]: "i < length bs \<Longrightarrow> put_byte bs i b = Done (bs[i := b])"
  by (simp add: put_byte_def)

lemma get_bytes_ok [simp]: "i + n \<le> length bs \<Longrightarrow> get_bytes bs i n = Done (take n (drop i bs))"
  by (simp add: get_bytes_def)

lemma put_bytes_ok [simp]:
  "i + length vs \<le> length bs \<Longrightarrow> put_bytes bs i vs = Done (take i bs @ vs @ drop (i + length vs) bs)"
  by (simp add: put_bytes_def)

lemma put_Done_length:
  "put_byte bs i b = Done bs' \<Longrightarrow> length bs' = length bs"
  "put_bytes bs i vs = Done bs' \<Longrightarrow> length bs' = length bs"
  by (auto simp: put_byte_def put_bytes_def split: if_splits)

text \<open>Integers in memory, least significant byte first, and the big-endian \<^verbatim>\<open>bytesToInt\<close>.\<close>

definition bytes_of_u16 :: "u16 \<Rightarrow> u8 list" where
  "bytes_of_u16 w = [ucast w, ucast (drop_bit 8 w)]"

definition bytes_of_u32 :: "u32 \<Rightarrow> u8 list" where
  "bytes_of_u32 w = [ucast w, ucast (drop_bit 8 w), ucast (drop_bit 16 w), ucast (drop_bit 24 w)]"

definition le16 :: "u8 \<Rightarrow> u8 \<Rightarrow> u16" where
  "le16 a b = ucast a OR push_bit 8 (ucast b)"

definition le32 :: "u8 \<Rightarrow> u8 \<Rightarrow> u8 \<Rightarrow> u8 \<Rightarrow> u32" where
  "le32 a b c d = ucast a OR push_bit 8 (ucast b) OR push_bit 16 (ucast c) OR push_bit 24 (ucast d)"

definition bytesToInt :: "u8 \<Rightarrow> u8 \<Rightarrow> u8 \<Rightarrow> u8 \<Rightarrow> u32" where
  "bytesToInt byte1 byte2 byte3 byte4 =
     push_bit 24 (ucast byte1) OR push_bit 16 (ucast byte2) OR push_bit 8 (ucast byte3) OR ucast byte4"

definition get_u16 :: "u8 list \<Rightarrow> nat \<Rightarrow> u16 outcome" where
  "get_u16 bs i = (if i + 2 \<le> length bs then Done (le16 (bs ! i) (bs ! (i + 1))) else Fault)"

definition get_u32 :: "u8 list \<Rightarrow> nat \<Rightarrow> u32 outcome" where
  "get_u32 bs i = (if i + 4 \<le> length bs
     then Done (le32 (bs ! i) (bs ! (i + 1)) (bs ! (i + 2)) (bs ! (i + 3))) else Fault)"

lemma get_u16_ok [simp]: "i + 2 \<le> length bs \<Longrightarrow> get_u16 bs i = Done (le16 (bs ! i) (bs ! (i + 1)))"
  by (simp add: get_u16_def)

lemma get_u32_ok [simp]:
  "i + 4 \<le> length bs \<Longrightarrow> get_u32 bs i = Done (le32 (bs ! i) (bs ! (i + 1)) (bs ! (i + 2)) (bs ! (i + 3)))"
  by (simp add: get_u32_def)

lemma length_bytes_of [simp]: "length (bytes_of_u16 v) = 2" "length (bytes_of_u32 w) = 4"
  by (simp_all add: bytes_of_u16_def bytes_of_u32_def)

lemma le16_bytes [simp]: "le16 (ucast w) (ucast (drop_bit 8 w)) = w"
  by (rule bit_word_eqI) (auto simp: le16_def bit_simps)

lemma le32_bytes [simp]: "le32 (ucast w) (ucast (drop_bit 8 w)) (ucast (drop_bit 16 w)) (ucast (drop_bit 24 w)) = w"
  apply (rule bit_word_eqI)
  apply (auto simp: le32_def bit_simps)
  subgoal for n
    by (cases "n < 24") (auto simp: not_less)
  done

lemma bit_u8_high [simp]: "\<not> bit (a :: u8) (8 + n)" "\<not> bit (a :: u8) (16 + n)" "\<not> bit (a :: u8) (24 + n)"
  using bit_imp_le_length [of a] by force+

lemma bytes_of_le16 [simp]: "bytes_of_u16 (le16 a b) = [a, b]"
  by (auto simp: bytes_of_u16_def le16_def bit_simps intro!: bit_word_eqI)

lemma bytes_of_le32 [simp]: "bytes_of_u32 (le32 a b c d) = [a, b, c, d]"
  by (auto simp: bytes_of_u32_def le32_def bit_simps intro!: bit_word_eqI)

lemma bytesToInt_le32: "bytesToInt d c b a = le32 a b c d"
  by (simp add: bytesToInt_def le32_def ac_simps)

section \<open>Progress\<close>

text \<open>
  The percentage of \<^verbatim>\<open>commonProgressCallback\<close>, \<open>None\<close> when it returns early; the multiplication is a
  32-bit one.
\<close>

definition commonProgressCallback :: "u32 \<Rightarrow> u32 \<Rightarrow> u32 option" where
  "commonProgressCallback num_done num_total = (if num_total = 0 then None else Some ((num_done * 100) div num_total))"

section \<open>Bit-fields\<close>

text \<open>A bit-field at bit \<open>k\<close> of a byte: its contribution to the byte, and its value read from the byte.\<close>

definition bf :: "nat \<Rightarrow> 'a::len word \<Rightarrow> u8" where
  "bf k a = push_bit k (ucast a)"

definition fld :: "nat \<Rightarrow> u8 \<Rightarrow> 'a::len word" where
  "fld k b = ucast (drop_bit k b)"

lemma bit_bf: "bit (bf k (a :: 'a::len word)) n \<longleftrightarrow> k \<le> n \<and> n < 8 \<and> bit a (n - k)"
  by (auto simp: bf_def bit_simps)

lemma bit_fld: "bit (fld k b :: 'a::len word) n \<longleftrightarrow> n < LENGTH('a) \<and> bit b (k + n)"
  by (auto simp: fld_def bit_simps)

lemma bit_bound: "bit (a :: 'a::len word) n \<Longrightarrow> n < LENGTH('a)"
  by (rule bit_imp_le_length)

end
