(* ===== verification/Amc_I2c.thy ===== *)
theory Amc_I2c
  imports Amc_Common
begin

text \<open>
  The I2C connection to a card, \<^verbatim>\<open>oal/lin/i2c_interface.cpp\<close>: opening and locking the device node,
  reading and writing. The system calls are inputs: what \<^verbatim>\<open>open\<close>, \<^verbatim>\<open>flock\<close> and \<^verbatim>\<open>ioctl\<close> return, what
  each \<^verbatim>\<open>read\<close> delivers and which \<^verbatim>\<open>write\<close> succeeds.
\<close>

definition AMC_I2C_ADDR :: u8 where
  "AMC_I2C_ADDR = 0x40"

text \<open>
  \<open>i2c_rx n\<close> is what the \<open>n\<close>-th \<^verbatim>\<open>read\<close> delivers, \<open>None\<close> for an error; \<open>i2c_tx_ok n\<close> whether the \<open>n\<close>-th
  \<^verbatim>\<open>write\<close> is accepted. \<open>i2c_reads\<close> counts the reads and \<open>i2c_sent\<close> is the data of all the writes so far.
\<close>

record i2c_interface =
  amchandle :: int
  i2c_init :: bool
  i2c_rx :: "nat \<Rightarrow> u8 list option"
  i2c_tx_ok :: "nat \<Rightarrow> bool"
  i2c_reads :: nat
  i2c_sent :: "u8 list list"

definition openAmc :: "string \<Rightarrow> int \<Rightarrow> int \<Rightarrow> i2c_interface \<Rightarrow> bool \<times> i2c_interface" where
  "openAmc devpath open_ret flock_ret d =
     (if devpath = [] then (False, d)
      else if open_ret < 0 then (False, d\<lparr>amchandle := open_ret\<rparr>)
      else if flock_ret < 0 then (False, d\<lparr>amchandle := - 1\<rparr>)
      else (True, d\<lparr>amchandle := open_ret\<rparr>))"

definition open_amc_peripheral :: "int \<Rightarrow> bool" where
  "open_amc_peripheral ioctl_ret = (\<not> ioctl_ret < 0)"

definition I2CInterface ::
  "string \<Rightarrow> int \<Rightarrow> int \<Rightarrow> int \<Rightarrow> (nat \<Rightarrow> u8 list option) \<Rightarrow> (nat \<Rightarrow> bool) \<Rightarrow> i2c_interface" where
  "I2CInterface devpath open_ret flock_ret ioctl_ret rx tx_ok =
     (let d = \<lparr>amchandle = - 1, i2c_init = False, i2c_rx = rx, i2c_tx_ok = tx_ok, i2c_reads = 0, i2c_sent = []\<rparr>;
          (opened, d) = openAmc devpath open_ret flock_ret d
      in if opened \<and> open_amc_peripheral ioctl_ret then d\<lparr>i2c_init := True\<rparr> else d\<lparr>i2c_init := False\<rparr>)"

definition writeAmc :: "u8 list \<Rightarrow> i2c_interface \<Rightarrow> bool \<times> i2c_interface" where
  "writeAmc buf d =
     (if amchandle d < 0 then (False, d)
      else (i2c_tx_ok d (length (i2c_sent d)), d\<lparr>i2c_sent := i2c_sent d @ [buf]\<rparr>))"

text \<open>
  A read of at most \<open>n\<close> bytes into memory \<open>mem\<close> at \<open>off\<close>: the bytes delivered replace those of the
  memory, the others stay. The caller's room is checked as the kernel would, against the object.
\<close>

definition readAmc :: "u8 list \<Rightarrow> nat \<Rightarrow> nat \<Rightarrow> i2c_interface \<Rightarrow> (bool \<times> u8 list \<times> i2c_interface) outcome" where
  "readAmc mem off n d =
     (if amchandle d < 0 then Done (False, mem, d)
      else case i2c_rx d (i2c_reads d) of
        None \<Rightarrow> Done (False, mem, d\<lparr>i2c_reads := Suc (i2c_reads d)\<rparr>)
      | Some bs \<Rightarrow> obind (put_bytes mem off (take n bs)) (\<lambda>mem'.
          Done (True, mem', d\<lparr>i2c_reads := Suc (i2c_reads d)\<rparr>)))"

lemma readAmc_length: "readAmc mem off n d = Done (r, mem', d') \<Longrightarrow> length mem' = length mem"
  by (auto simp: readAmc_def dest: put_Done_length split: if_splits option.splits)

lemma readAmc_returns:
  assumes "off + n \<le> length mem"
  shows "returns (readAmc mem off n d) (\<lambda>(r, mem', d'). length mem' = length mem \<and> i2c_sent d' = i2c_sent d
    \<and> amchandle d' = amchandle d \<and> i2c_init d' = i2c_init d \<and> i2c_rx d' = i2c_rx d \<and> i2c_tx_ok d' = i2c_tx_ok d
    \<and> (amchandle d \<ge> 0 \<longrightarrow> i2c_reads d' = Suc (i2c_reads d)
         \<and> r = (i2c_rx d (i2c_reads d) \<noteq> None)
         \<and> mem' = (case i2c_rx d (i2c_reads d) of None \<Rightarrow> mem
                   | Some bs \<Rightarrow> take off mem @ take n bs @ drop (off + length (take n bs)) mem)))"
  using assms by (auto simp: readAmc_def split: option.split)

lemma I2CInterface_handle:
  "i2c_init (I2CInterface devpath op fl io rx tx) \<Longrightarrow> 0 \<le> amchandle (I2CInterface devpath op fl io rx tx)"
  by (auto simp: I2CInterface_def openAmc_def Let_def split: if_splits)

section \<open>Finding the cards\<close>

text \<open>
  The name of a device directory below \<^verbatim>\<open>/sys/bus/i2c/devices\<close> starts with the bus number. The listing,
  the \<^verbatim>\<open>name\<close> files and the resolved parent paths come from the file system.
\<close>

record amcCardInfo =
  amcDevicePath :: string
  gpuParentPath :: string

definition last_component :: "string \<Rightarrow> string" where
  "last_component path = rev (takeWhile (\<lambda>c. c \<noteq> CHR ''/'') (rev path))"

definition bus_number :: "string \<Rightarrow> string" where
  "bus_number filename = (if CHR ''-'' \<in> set filename then takeWhile (\<lambda>c. c \<noteq> CHR ''-'') filename else [])"

definition is_digit :: "char \<Rightarrow> bool" where
  "is_digit c = (c \<in> set ''0123456789'')"

primrec amcCardDiscovery ::
  "string list \<Rightarrow> (string \<Rightarrow> string) \<Rightarrow> (string \<Rightarrow> string) \<Rightarrow> amcCardInfo list \<Rightarrow> nat \<Rightarrow> nat \<times> amcCardInfo list" where
  "amcCardDiscovery [] getName getGpu found n = (n, found)"
| "amcCardDiscovery (device # devices) getName getGpu found n =
     (if getName device = ''amc'' then
        (let bus = bus_number (last_component device) in
         if bus = [] \<or> \<not> list_all is_digit bus then amcCardDiscovery devices getName getGpu found n
         else amcCardDiscovery devices getName getGpu
                (found @ [\<lparr>amcDevicePath = ''/dev/i2c-'' @ bus,
                           gpuParentPath = getGpu (''/sys/bus/i2c/devices/i2c-'' @ bus)\<rparr>]) (Suc n))
      else amcCardDiscovery devices getName getGpu found n)"

lemma amcCardDiscovery_count:
  "amcCardDiscovery devices getName getGpu found n = (n', found') \<Longrightarrow>
     \<exists>new. found' = found @ new \<and> n' = n + length new
       \<and> list_all (\<lambda>c. \<exists>bus. bus \<noteq> [] \<and> list_all is_digit bus \<and> amcDevicePath c = ''/dev/i2c-'' @ bus) new"
proof (induction devices arbitrary: found n)
  case (Cons device devices)
  let ?bus = "bus_number (last_component device)"
  let ?new = "\<lparr>amcDevicePath = ''/dev/i2c-'' @ ?bus, gpuParentPath = getGpu (''/sys/bus/i2c/devices/i2c-'' @ ?bus)\<rparr>"
  show ?case
  proof (cases "getName device = ''amc'' \<and> ?bus \<noteq> [] \<and> list_all is_digit ?bus")
    case True
    with Cons.prems have "amcCardDiscovery devices getName getGpu (found @ [?new]) (Suc n) = (n', found')"
      by (simp add: Let_def)
    from Cons.IH [OF this] obtain new where "found' = found @ ?new # new" "n' = Suc n + length new"
      "list_all (\<lambda>c. \<exists>bus. bus \<noteq> [] \<and> list_all is_digit bus \<and> amcDevicePath c = ''/dev/i2c-'' @ bus) new" by auto
    with True show ?thesis by (intro exI [of _ "?new # new"]) auto
  next
    case False
    with Cons show ?thesis by (auto simp: Let_def split: if_splits)
  qed
qed simp

end
