(* ===== verification/Amc_Mctp.thy ===== *)
theory Amc_Mctp
  imports Amc_I2c
begin

text \<open>
  The MCTP layer of \<^verbatim>\<open>hal/amc\<close> (\<^verbatim>\<open>mctp.h\<close>, \<^verbatim>\<open>mctp_init.cpp\<close>, \<^verbatim>\<open>mctp_protocol.cpp\<close>, \<^verbatim>\<open>mctp_control.cpp\<close>,
  \<^verbatim>\<open>mctp_control_resp.cpp\<close>): the packed message headers and their bytes, one control command, and the
  initialization sequence. Bit-fields are words of their width, so that storing into one truncates.
\<close>

section \<open>Headers\<close>

definition MCTP_SUCCESS :: u8 where "MCTP_SUCCESS = 0"
definition MCTP_FAILURE :: u8 where "MCTP_FAILURE = 1"
definition MCTP_SET_ENDPOINT_ID :: u8 where "MCTP_SET_ENDPOINT_ID = 0x01"
definition MCTP_GET_ENDPOINT_ID :: u8 where "MCTP_GET_ENDPOINT_ID = 0x02"
definition MCTP_GET_ENDPOINT_UUID :: u8 where "MCTP_GET_ENDPOINT_UUID = 0x03"
definition MCTP_GET_VERSION :: u8 where "MCTP_GET_VERSION = 0x04"
definition MCTP_GET_MESSAGE_TYPE :: u8 where "MCTP_GET_MESSAGE_TYPE = 0x05"
definition MCTP_CMD_CODE :: u8 where "MCTP_CMD_CODE = 0x0F"
definition MCTP_SRC_SLAVE_ADDR :: u8 where "MCTP_SRC_SLAVE_ADDR = 0x30"
definition MCTP_SOURCE_ENDPOINT_ID :: u8 where "MCTP_SOURCE_ENDPOINT_ID = 0x07"
definition MCTP_DEST_SET_EID :: u8 where "MCTP_DEST_SET_EID = 0x09"
definition MCTP_MAX_RESPONSE_SIZE :: nat where "MCTP_MAX_RESPONSE_SIZE = 32"
definition m_mctp_instance_id_MAX :: u8 where "m_mctp_instance_id_MAX = 32"
definition PAYLOAD_SIZE :: nat where "PAYLOAD_SIZE = 128"

lemmas mctp_consts = MCTP_SUCCESS_def MCTP_FAILURE_def MCTP_SET_ENDPOINT_ID_def MCTP_GET_ENDPOINT_ID_def
  MCTP_GET_ENDPOINT_UUID_def MCTP_GET_VERSION_def MCTP_GET_MESSAGE_TYPE_def m_mctp_instance_id_MAX_def

record mctpSmbusI2cHdr =
  destSlaveAddrB0 :: "1 word"
  destSlaveAddr :: "7 word"
  mctp_cmdCode :: u8
  byteCount :: u8
  srcSlaveAddrB0 :: "1 word"
  srcSlaveAddr :: "7 word"
  hdrVersion :: "4 word"
  mctp_reserved :: "4 word"
  destEpid :: u8
  srcEpid :: u8
  msgTag :: "3 word"
  tagOwner :: "1 word"
  packSeq :: "2 word"
  eom :: "1 word"
  som :: "1 word"
  msgType :: "7 word"
  integrity :: "1 word"

definition mctp_bytes :: "mctpSmbusI2cHdr \<Rightarrow> u8 list" where
  "mctp_bytes h = [
     bf 0 (destSlaveAddrB0 h) OR bf 1 (destSlaveAddr h),
     mctp_cmdCode h,
     byteCount h,
     bf 0 (srcSlaveAddrB0 h) OR bf 1 (srcSlaveAddr h),
     bf 0 (hdrVersion h) OR bf 4 (mctp_reserved h),
     destEpid h,
     srcEpid h,
     bf 0 (msgTag h) OR bf 3 (tagOwner h) OR bf 4 (packSeq h)
       OR bf 6 (eom h) OR bf 7 (som h),
     bf 0 (msgType h) OR bf 7 (integrity h)]"

definition mctp_of_bytes :: "u8 list \<Rightarrow> mctpSmbusI2cHdr" where
  "mctp_of_bytes bs = \<lparr>
     destSlaveAddrB0 = fld 0 (bs ! 0), destSlaveAddr = fld 1 (bs ! 0),
     mctp_cmdCode = bs ! 1, byteCount = bs ! 2,
     srcSlaveAddrB0 = fld 0 (bs ! 3), srcSlaveAddr = fld 1 (bs ! 3),
     hdrVersion = fld 0 (bs ! 4), mctp_reserved = fld 4 (bs ! 4),
     destEpid = bs ! 5, srcEpid = bs ! 6,
     msgTag = fld 0 (bs ! 7), tagOwner = fld 3 (bs ! 7), packSeq = fld 4 (bs ! 7),
     eom = fld 6 (bs ! 7), som = fld 7 (bs ! 7),
     msgType = fld 0 (bs ! 8), integrity = fld 7 (bs ! 8)\<rparr>"

lemma length_mctp_bytes [simp]: "length (mctp_bytes h) = 9"
  by (simp add: mctp_bytes_def)

lemma mctp_of_bytes_bytes [simp]: "mctp_of_bytes (mctp_bytes h @ rest) = h"
  by (cases h) (simp add: mctp_of_bytes_def mctp_bytes_def, intro conjI bit_word_eqI;
      auto simp: bit_or_iff bit_bf bit_fld dest: bit_bound)

lemma nat_less_8: "n < (8 :: nat) \<longleftrightarrow> n \<in> {0, 1, 2, 3, 4, 5, 6, 7}"
  by auto

lemma list_9: "length bs = 9 \<Longrightarrow> bs = [bs ! 0, bs ! 1, bs ! 2, bs ! 3, bs ! 4, bs ! 5, bs ! 6, bs ! 7, bs ! 8]"
  by (rule nth_equalityI) (auto simp: less_Suc_eq numeral_eq_Suc)

lemma mctp_bytes_of_bytes: "length bs = 9 \<Longrightarrow> mctp_bytes (mctp_of_bytes bs) = bs"
  by (rule trans [OF _ list_9 [symmetric]])
    (simp_all add: mctp_of_bytes_def mctp_bytes_def, intro conjI bit_word_eqI;
      auto simp: bit_or_iff bit_bf bit_fld nat_less_8 numeral_2_eq_2 [symmetric])

record mctpControlHdr =
  ctrl_instanceID :: "5 word"
  ctrl_reserved :: "1 word"
  ctrl_datagram :: "1 word"
  ctrl_request :: "1 word"
  ctrl_cmdCode :: u8

definition ctrl_bytes :: "mctpControlHdr \<Rightarrow> u8 list" where
  "ctrl_bytes h = [bf 0 (ctrl_instanceID h) OR bf 5 (ctrl_reserved h) OR bf 6 (ctrl_datagram h)
     OR bf 7 (ctrl_request h), ctrl_cmdCode h]"

definition ctrl_of_bytes :: "u8 list \<Rightarrow> mctpControlHdr" where
  "ctrl_of_bytes bs = \<lparr>ctrl_instanceID = fld 0 (bs ! 0), ctrl_reserved = fld 5 (bs ! 0),
     ctrl_datagram = fld 6 (bs ! 0), ctrl_request = fld 7 (bs ! 0), ctrl_cmdCode = bs ! 1\<rparr>"

lemma length_ctrl_bytes [simp]: "length (ctrl_bytes h) = 2"
  by (simp add: ctrl_bytes_def)

text \<open>The whole message buffer, \<^verbatim>\<open>i2cMctpData\<close>: 139 bytes.\<close>

record i2cMctpData =
  mctpSmbusHdr :: mctpSmbusI2cHdr
  mctpCtrlHdr :: mctpControlHdr
  ctrlPayload :: "u8 list"

definition mctp_data_bytes :: "i2cMctpData \<Rightarrow> u8 list" where
  "mctp_data_bytes m = mctp_bytes (mctpSmbusHdr m) @ ctrl_bytes (mctpCtrlHdr m) @ ctrlPayload m"

definition mctp_data_of_bytes :: "u8 list \<Rightarrow> i2cMctpData" where
  "mctp_data_of_bytes bs = \<lparr>mctpSmbusHdr = mctp_of_bytes bs, mctpCtrlHdr = ctrl_of_bytes (drop 9 bs),
     ctrlPayload = drop 11 bs\<rparr>"

section \<open>The object\<close>

record mctp =
  mI2cMctpRead :: "i2cMctpData option"
  mI2cMctpWrite :: "i2cMctpData option"
  mctp_instanceID :: u8
  mctp_init :: bool
  mDestEid :: u8
  mDestNewEid :: u8
  i2cobj :: "i2c_interface option"

text \<open>A null pointer faults when it is followed.\<close>

definition the_ptr :: "'a option \<Rightarrow> 'a outcome" where
  "the_ptr p = (case p of None \<Rightarrow> Fault | Some x \<Rightarrow> Done x)"

lemma the_ptr_simps [simp]: "the_ptr (Some x) = Done x" "the_ptr None = Fault"
  by (simp_all add: the_ptr_def)

text \<open>
  \<^verbatim>\<open>mctp::mctpinit\<close>: \<open>mem1\<close> and \<open>mem2\<close> are what the two allocations return (their contents are whatever
  was there), \<open>i2c\<close> the connection the constructor of \<^verbatim>\<open>I2CInterface\<close> makes.
\<close>

definition mctpinit ::
  "string \<Rightarrow> u8 list option \<Rightarrow> u8 list option \<Rightarrow> i2c_interface \<Rightarrow> 'a mctp_scheme \<Rightarrow> int \<times> 'a mctp_scheme" where
  "mctpinit devpath mem1 mem2 i2c m =
     (if devpath = [] then (1, m)
      else let m = m\<lparr>mctp_instanceID := 1, mDestEid := 0, mI2cMctpRead := map_option mctp_data_of_bytes mem1\<rparr> in
        if mem1 = None then (1, m)
        else let m = m\<lparr>mI2cMctpWrite := map_option mctp_data_of_bytes mem2\<rparr> in
          if mem2 = None then (1, m)
          else let m = m\<lparr>i2cobj := Some i2c\<rparr> in
            if \<not> i2c_init i2c then (1, m) else (0, m))"

definition mctp_constructor ::
  "string \<Rightarrow> u8 list option \<Rightarrow> u8 list option \<Rightarrow> i2c_interface \<Rightarrow> 'a mctp_scheme \<Rightarrow> 'a mctp_scheme" where
  "mctp_constructor devpath mem1 mem2 i2c m =
     (let m = m\<lparr>mI2cMctpRead := None, mI2cMctpWrite := None, i2cobj := None, mctp_instanceID := 0, mDestEid := 0,
            mDestNewEid := 0\<rparr> in
      if devpath = [] then m\<lparr>mctp_init := False\<rparr>
      else let (r, m) = mctpinit devpath mem1 mem2 i2c m in m\<lparr>mctp_init := (r = 0)\<rparr>)"

definition mctp_cleanup :: "'a mctp_scheme \<Rightarrow> 'a mctp_scheme" where
  "mctp_cleanup m = m\<lparr>mI2cMctpRead := None, mI2cMctpWrite := None, i2cobj := None\<rparr>"

section \<open>One control command\<close>

definition commandConstruction :: "'a mctp_scheme \<Rightarrow> mctpSmbusI2cHdr \<Rightarrow> u8 \<Rightarrow> u8 \<Rightarrow> u8 \<Rightarrow> u8 \<Rightarrow> u8 \<Rightarrow> mctpSmbusI2cHdr" where
  "commandConstruction m h startFlag endFlag pktSeq bytecount integrityCheck =
     h\<lparr>destSlaveAddr := ucast AMC_I2C_ADDR, destSlaveAddrB0 := 0, mctp_cmdCode := MCTP_CMD_CODE,
       byteCount := bytecount, srcSlaveAddr := ucast MCTP_SRC_SLAVE_ADDR, srcSlaveAddrB0 := 1,
       mctp_reserved := 0, hdrVersion := 1, destEpid := mDestEid m, srcEpid := MCTP_SOURCE_ENDPOINT_ID,
       som := ucast (startFlag AND 1), eom := ucast (endFlag AND 1), packSeq := ucast (pktSeq AND 3), tagOwner := 1,
       msgTag := 0, integrity := ucast (integrityCheck AND 1), msgType := 0\<rparr>"

definition headerConstruction :: "mctpControlHdr \<Rightarrow> u8 \<Rightarrow> u8 \<Rightarrow> mctpControlHdr" where
  "headerConstruction h instanceId cmd =
     h\<lparr>ctrl_request := 1, ctrl_datagram := 0, ctrl_reserved := 0, ctrl_instanceID := ucast (instanceId AND 0x1F),
       ctrl_cmdCode := cmd\<rparr>"

text \<open>\<^verbatim>\<open>memset(respPayload, 0, n)\<close>, and the CRC of the first bytes of the payload stored into it.\<close>

definition clear_payload :: "u8 list \<Rightarrow> nat \<Rightarrow> u8 list outcome" where
  "clear_payload p n = put_bytes p 0 (replicate n 0)"

definition put_crc :: "u8 list \<Rightarrow> nat \<Rightarrow> nat \<Rightarrow> u8 list outcome" where
  "put_crc p i n = obind (crc8Smbus p n) (\<lambda>c. put_byte p i c)"

definition fillPayload :: "u8 \<Rightarrow> nat \<Rightarrow> 'a mctp_scheme \<Rightarrow> u8 list \<Rightarrow> (u8 \<times> u8 list) outcome" where
  "fillPayload cmd mctpCmdLen m p = obind (clear_payload p mctpCmdLen) (\<lambda>p.
     if cmd = MCTP_SET_ENDPOINT_ID then
       obind (put_byte p 0 0) (\<lambda>p.
       obind (put_byte p 1 (if mDestEid m = 0 then mDestNewEid m else mDestEid m)) (\<lambda>p.
       obind (put_crc p 2 (mctpCmdLen - 1)) (\<lambda>p. Done (MCTP_SUCCESS, p))))
     else if cmd = MCTP_GET_ENDPOINT_ID \<or> cmd = MCTP_GET_ENDPOINT_UUID \<or> cmd = MCTP_GET_MESSAGE_TYPE then
       obind (put_crc p 0 (mctpCmdLen - 1)) (\<lambda>p. Done (MCTP_SUCCESS, p))
     else if cmd = MCTP_GET_VERSION then
       obind (put_byte p 0 0) (\<lambda>p. obind (put_crc p 1 (mctpCmdLen - 1)) (\<lambda>p. Done (MCTP_SUCCESS, p)))
     else Done (MCTP_FAILURE, p))"

text \<open>
  \<^verbatim>\<open>getRespPayload\<close> overwrites the destination address of the received header and looks at the
  completion code only; the command and instance number are not compared.
\<close>

definition getRespPayload :: "i2cMctpData \<Rightarrow> (u8 \<times> i2cMctpData) outcome" where
  "getRespPayload rd =
     (let rd = rd\<lparr>mctpSmbusHdr := (mctpSmbusHdr rd)\<lparr>destSlaveAddr := ucast MCTP_SRC_SLAVE_ADDR, destSlaveAddrB0 := 1\<rparr>\<rparr> in
      obind (get_byte (ctrlPayload rd) 0) (\<lambda>code. Done (if code \<noteq> 0 then MCTP_FAILURE else MCTP_SUCCESS, rd)))"

definition controlResponse :: "u8 \<Rightarrow> u8 \<Rightarrow> 'a mctp_scheme \<Rightarrow> (u8 \<times> 'a mctp_scheme) outcome" where
  "controlResponse cmd ident m =
     (if cmd \<in> {MCTP_SET_ENDPOINT_ID, MCTP_GET_ENDPOINT_ID, MCTP_GET_ENDPOINT_UUID, MCTP_GET_MESSAGE_TYPE, MCTP_GET_VERSION} then
        obind (the_ptr (mI2cMctpRead m)) (\<lambda>rd. obind (getRespPayload rd) (\<lambda>(ret, rd).
          let m = m\<lparr>mI2cMctpRead := Some rd\<rparr> in
          if ret \<noteq> MCTP_SUCCESS then Done (MCTP_FAILURE, m)
          else if cmd = MCTP_SET_ENDPOINT_ID then
            obind (get_byte (ctrlPayload rd) 2) (\<lambda>e. Done (MCTP_SUCCESS, m\<lparr>mDestEid := e\<rparr>))
          else if cmd = MCTP_GET_ENDPOINT_ID then
            obind (get_byte (ctrlPayload rd) 1) (\<lambda>e. Done (MCTP_SUCCESS, if e \<noteq> 0 then m\<lparr>mDestEid := e\<rparr> else m))
          else Done (MCTP_SUCCESS, m)))
      else Done (MCTP_FAILURE, m))"

definition command :: "u8 \<Rightarrow> u8 \<Rightarrow> 'a mctp_scheme \<Rightarrow> (u8 \<times> 'a mctp_scheme) outcome" where
  "command cmd sz m =
     (let m = (if mctp_instanceID m = m_mctp_instance_id_MAX then m\<lparr>mctp_instanceID := 1\<rparr> else m) in
      obind (the_ptr (mI2cMctpWrite m)) (\<lambda>wr.
      let wr = wr\<lparr>mctpSmbusHdr := commandConstruction m (mctpSmbusHdr wr) 1 1 0 (sz - 3) 0,
                 mctpCtrlHdr := headerConstruction (mctpCtrlHdr wr) (mctp_instanceID m) cmd\<rparr> in
      obind (fillPayload cmd (unat sz) m (ctrlPayload wr)) (\<lambda>(_, p).
      let wr = wr\<lparr>ctrlPayload := p\<rparr>; m = m\<lparr>mI2cMctpWrite := Some wr\<rparr> in
      obind (the_ptr (i2cobj m)) (\<lambda>d.
      obind (get_bytes (mctp_data_bytes wr) 1 (unat sz)) (\<lambda>out.
      (case writeAmc out d of (ok, d) \<Rightarrow>
        let m = m\<lparr>i2cobj := Some d\<rparr> in
        if \<not> ok then Done (MCTP_FAILURE, m)
        else obind (the_ptr (mI2cMctpRead m)) (\<lambda>rd.
          obind (readAmc (mctp_data_bytes rd) 1 MCTP_MAX_RESPONSE_SIZE d) (\<lambda>(ok, mem, d).
          let m = m\<lparr>i2cobj := Some d, mI2cMctpRead := Some (mctp_data_of_bytes mem)\<rparr> in
          if \<not> ok then Done (MCTP_FAILURE, m)
          else obind (controlResponse cmd (mctp_instanceID m) m) (\<lambda>(ret, m).
            if ret \<noteq> MCTP_SUCCESS then Done (MCTP_FAILURE, m)
            else Done (MCTP_SUCCESS, m\<lparr>mctp_instanceID := mctp_instanceID m + 1\<rparr>))))))))))"

section \<open>The initialization sequence\<close>

text \<open>The retry loop of SetEID: \<open>i\<close> counts the attempts, \<open>k\<close> is how many are left.\<close>

primrec set_eid_loop :: "nat \<Rightarrow> nat \<Rightarrow> 'a mctp_scheme \<Rightarrow> (u8 \<times> 'a mctp_scheme) outcome" where
  "set_eid_loop i 0 m = Done (MCTP_SUCCESS, m)"
| "set_eid_loop i (Suc k) m =
     obind (command MCTP_SET_ENDPOINT_ID 13 (m\<lparr>mDestNewEid := MCTP_DEST_SET_EID + word_of_nat i\<rparr>)) (\<lambda>(ret, m).
       if ret \<noteq> MCTP_SUCCESS
       then (if k = 0 then Done (MCTP_FAILURE, m) else set_eid_loop (Suc i) k m)
       else Done (MCTP_SUCCESS, m))"

definition RETRY_COUNT :: nat where "RETRY_COUNT = 3"

definition mctp_initialize :: "'a mctp_scheme \<Rightarrow> (u8 \<times> 'a mctp_scheme) outcome" where
  "mctp_initialize m =
     obind (command MCTP_GET_VERSION 12 m) (\<lambda>(ret, m).
       if ret \<noteq> MCTP_SUCCESS then Done (MCTP_FAILURE, m)
       else obind (command MCTP_GET_ENDPOINT_ID 11 m) (\<lambda>(ret, m).
         if ret \<noteq> MCTP_SUCCESS then Done (MCTP_FAILURE, m)
         else obind (command MCTP_GET_ENDPOINT_UUID 11 m) (\<lambda>(ret, m).
           if ret \<noteq> MCTP_SUCCESS then Done (MCTP_FAILURE, m)
           else obind (if mDestEid m = 0 then set_eid_loop 0 RETRY_COUNT m else Done (MCTP_SUCCESS, m)) (\<lambda>(ret, m).
             if ret \<noteq> MCTP_SUCCESS then Done (MCTP_FAILURE, m)
             else obind (command MCTP_GET_MESSAGE_TYPE 11 m) (\<lambda>(ret, m).
               if ret \<noteq> MCTP_SUCCESS then Done (MCTP_FAILURE, m) else Done (MCTP_SUCCESS, m))))))"

section \<open>Every command returns and keeps the object well formed\<close>

lemma length_replicate_put [simp]: "n \<le> length p \<Longrightarrow> clear_payload p n = Done (replicate n 0 @ drop n p)"
  by (simp add: clear_payload_def)

lemma put_crc_ok [simp]: "n \<le> length p \<Longrightarrow> i < length p \<Longrightarrow> put_crc p i n = Done (p[i := crc8_of (take n p)])"
  by (simp add: put_crc_def)

lemma fillPayload_returns:
  assumes "length p = PAYLOAD_SIZE" "n \<le> PAYLOAD_SIZE"
  shows "returns (fillPayload cmd n m p) (\<lambda>(r, p'). length p' = PAYLOAD_SIZE)"
  using assms by (simp add: fillPayload_def PAYLOAD_SIZE_def)

definition mctp_ok :: "'a mctp_scheme \<Rightarrow> bool" where
  "mctp_ok m = (\<exists>rd wr d. mI2cMctpRead m = Some rd \<and> mI2cMctpWrite m = Some wr \<and> i2cobj m = Some d
     \<and> length (ctrlPayload rd) = PAYLOAD_SIZE \<and> length (ctrlPayload wr) = PAYLOAD_SIZE
     \<and> 0 \<le> amchandle d \<and> i2c_init d \<and> 1 \<le> unat (mctp_instanceID m) \<and> unat (mctp_instanceID m) \<le> 32)"

definition frames_sent :: "'a mctp_scheme \<Rightarrow> u8 list list" where
  "frames_sent m = (case i2cobj m of None \<Rightarrow> [] | Some d \<Rightarrow> i2c_sent d)"

text \<open>The command code and the instance number in a transmitted control frame (which starts at the second byte of the buffer).\<close>

definition frame_cmd :: "u8 list \<Rightarrow> u8" where
  "frame_cmd f = f ! 9"

definition frame_instance :: "u8 list \<Rightarrow> nat" where
  "frame_instance f = unat (fld 0 (f ! 8) :: 5 word)"

definition control_frame :: "u8 \<Rightarrow> u8 \<Rightarrow> u8 list \<Rightarrow> bool" where
  "control_frame cmd sz f = (length f = unat sz \<and> frame_cmd f = cmd \<and> frame_instance f \<in> {1..31})"

lemma unat_next_instance:
  "1 \<le> unat (i :: u8) \<Longrightarrow> unat i \<le> 31 \<Longrightarrow> unat (i + 1) = unat i + 1"
  by (simp add: unat_word_ariths)

lemma instance_bits: "unat (i :: u8) \<le> 31 \<Longrightarrow> unat (ucast (i AND 0x1F) :: 5 word) = unat i"
proof -
  assume "unat i \<le> 31"
  moreover have "i AND 0x1F = take_bit 5 i"
    by (simp add: take_bit_eq_mask mask_numeral)
  ultimately show ?thesis
    by (simp add: unsigned_ucast_eq unsigned_take_bit_eq take_bit_nat_eq_self)
qed

lemma ctrl_frame_bytes:
  "frame_instance (take n (drop 1 (mctp_data_bytes w))) = unat (ctrl_instanceID (mctpCtrlHdr w))"
  "frame_cmd (take n (drop 1 (mctp_data_bytes w))) = ctrl_cmdCode (mctpCtrlHdr w)" if "10 \<le> n"
proof -
  have "fld 0 (ctrl_bytes h ! 0) = ctrl_instanceID h" for h
    by (rule bit_word_eqI) (auto simp: ctrl_bytes_def bit_or_iff bit_bf bit_fld)
  then show "frame_instance (take n (drop 1 (mctp_data_bytes w))) = unat (ctrl_instanceID (mctpCtrlHdr w))"
    using that by (simp add: frame_instance_def mctp_data_bytes_def nth_append)
  show "frame_cmd (take n (drop 1 (mctp_data_bytes w))) = ctrl_cmdCode (mctpCtrlHdr w)"
    using that by (simp add: frame_cmd_def mctp_data_bytes_def nth_append ctrl_bytes_def)
qed

lemma controlResponse_returns:
  assumes "mctp_ok m"
  shows "returns (controlResponse cmd i m) (\<lambda>(r, m'). mctp_ok m' \<and> i2cobj m' = i2cobj m
    \<and> mctp_instanceID m' = mctp_instanceID m \<and> mctp.more m' = mctp.more m)"
  using assms
  by (auto simp: controlResponse_def mctp_ok_def getRespPayload_def Let_def PAYLOAD_SIZE_def)

lemma readAmc_parse:
  assumes "length (ctrlPayload rd) = PAYLOAD_SIZE" "n \<le> 138" "0 \<le> amchandle d"
  shows "returns (readAmc (mctp_data_bytes rd) 1 n d) (\<lambda>(r, mem, d'). length mem = 139
    \<and> i2c_sent d' = i2c_sent d \<and> amchandle d' = amchandle d \<and> i2c_init d' = i2c_init d)"
  using readAmc_returns [of 1 n "mctp_data_bytes rd" d] assms
  by (auto simp: mctp_data_bytes_def PAYLOAD_SIZE_def elim!: returns_mono)

lemma control_command_returns:
  assumes ok: "mctp_ok m" and sz: "11 \<le> unat sz" "unat sz \<le> 128"
  shows "returns (command cmd sz m) (\<lambda>(r, m'). mctp_ok m' \<and> mctp.more m' = mctp.more m
    \<and> (\<exists>f. frames_sent m' = frames_sent m @ [f] \<and> control_frame cmd sz f))"
proof -
  obtain rd wr d where m: "mI2cMctpRead m = Some rd" "mI2cMctpWrite m = Some wr" "i2cobj m = Some d"
      "length (ctrlPayload rd) = PAYLOAD_SIZE" "length (ctrlPayload wr) = PAYLOAD_SIZE"
      "0 \<le> amchandle d" "i2c_init d" "1 \<le> unat (mctp_instanceID m)" "unat (mctp_instanceID m) \<le> 32"
    using ok by (auto simp: mctp_ok_def)
  define m1 where "m1 = (if mctp_instanceID m = m_mctp_instance_id_MAX then m\<lparr>mctp_instanceID := 1\<rparr> else m)"
  have "unat (mctp_instanceID m) \<noteq> unat m_mctp_instance_id_MAX" if "mctp_instanceID m \<noteq> m_mctp_instance_id_MAX"
    using that by (simp only: word_unat_eq_iff simp_thms)
  then have m1: "mI2cMctpRead m1 = Some rd" "mI2cMctpWrite m1 = Some wr" "i2cobj m1 = Some d"
      "1 \<le> unat (mctp_instanceID m1)" "unat (mctp_instanceID m1) \<le> 31"
    using m by (auto simp: m1_def m_mctp_instance_id_MAX_def)
  obtain r p where p: "fillPayload cmd (unat sz) m1 (ctrlPayload wr) = Done (r, p)" "length p = PAYLOAD_SIZE"
    using fillPayload_returns [of "ctrlPayload wr" "unat sz" cmd m1] m sz by (auto simp: returns_iff PAYLOAD_SIZE_def)
  define w where "w = wr\<lparr>mctpSmbusHdr := commandConstruction m1 (mctpSmbusHdr wr) 1 1 0 (sz - 3) 0,
                 mctpCtrlHdr := headerConstruction (mctpCtrlHdr wr) (mctp_instanceID m1) cmd, ctrlPayload := p\<rparr>"
  let ?out = "take (unat sz) (drop 1 (mctp_data_bytes w))"
  have w: "ctrlPayload w = p" "get_bytes (mctp_data_bytes w) 1 (unat sz) = Done ?out"
    using p sz by (simp_all add: w_def mctp_data_bytes_def PAYLOAD_SIZE_def)
  have frame: "control_frame cmd sz ?out"
    using sz m1 p ctrl_frame_bytes [of "unat sz" w] instance_bits [of "mctp_instanceID m1"]
    by (simp add: control_frame_def w_def headerConstruction_def mctp_data_bytes_def PAYLOAD_SIZE_def)
  obtain ok d1 where send: "writeAmc ?out d = (ok, d1)" "i2c_sent d1 = i2c_sent d @ [?out]" "0 \<le> amchandle d1" "i2c_init d1"
    using m by (auto simp: writeAmc_def)
  obtain ok' mem d2 where recv: "readAmc (mctp_data_bytes rd) 1 MCTP_MAX_RESPONSE_SIZE d1 = Done (ok', mem, d2)"
      "length mem = 139" "i2c_sent d2 = i2c_sent d1" "0 \<le> amchandle d2" "i2c_init d2"
    using readAmc_parse [of rd MCTP_MAX_RESPONSE_SIZE d1] m send by (auto simp: returns_iff MCTP_MAX_RESPONSE_SIZE_def)
  define m2 where "m2 = m1\<lparr>mI2cMctpWrite := Some w, i2cobj := Some d2, mI2cMctpRead := Some (mctp_data_of_bytes mem)\<rparr>"
  have "mctp_ok m2"
    using m1 p recv w by (simp add: mctp_ok_def m2_def mctp_data_of_bytes_def PAYLOAD_SIZE_def)
  then obtain r' m3 where resp: "controlResponse cmd (mctp_instanceID m1) m2 = Done (r', m3)" "mctp_ok m3"
      "i2cobj m3 = Some d2" "mctp_instanceID m3 = mctp_instanceID m1" "mctp.more m3 = mctp.more m"
    using controlResponse_returns [of m2 cmd "mctp_instanceID m1"] by (auto simp: returns_iff m2_def m1_def)
  have succ: "mctp_ok (m3\<lparr>mctp_instanceID := mctp_instanceID m3 + 1\<rparr>)"
    using resp m1 unat_next_instance [of "mctp_instanceID m1"] by (auto simp: mctp_ok_def)
  have m2: "mctp_instanceID m2 = mctp_instanceID m1" "frames_sent m2 = frames_sent m @ [?out]"
    "frames_sent m3 = frames_sent m @ [?out]" "mctp_ok m2" "mctp.more m2 = mctp.more m" "mctp.more m1 = mctp.more m"
    using \<open>mctp_ok m2\<close> m recv send resp by (simp_all add: m2_def m1_def frames_sent_def)
  have lost: "mctp_ok (m1\<lparr>mI2cMctpWrite := Some w, i2cobj := Some d1\<rparr>)"
    "frames_sent (m1\<lparr>mI2cMctpWrite := Some w, i2cobj := Some d1\<rparr>) = frames_sent m @ [?out]"
    using m m1 p w send by (simp_all add: mctp_ok_def frames_sent_def)
  have "frames_sent (m3\<lparr>mctp_instanceID := i\<rparr>) = frames_sent m3" for i
    by (simp add: frames_sent_def)
  then show ?thesis
    using m1 p w frame send recv resp succ m2 lost
    by (simp add: command_def m1_def [symmetric] Let_def w_def [symmetric] m2_def [symmetric])
qed

section \<open>What an initialization sends\<close>

text \<open>
  \<open>sent_cmds m cs m'\<close>: from \<open>m\<close> to \<open>m'\<close> the object stays well formed, nothing outside the MCTP part changes, and the frames sent in between
  carry the commands \<open>cs\<close>, each with an instance number of five bits that is not zero.
\<close>

definition sent_cmds :: "'a mctp_scheme \<Rightarrow> u8 list \<Rightarrow> 'a mctp_scheme \<Rightarrow> bool" where
  "sent_cmds m cs m' = (mctp_ok m' \<and> mctp.more m' = mctp.more m \<and> (\<exists>fs. frames_sent m' = frames_sent m @ fs \<and> map frame_cmd fs = cs
     \<and> (\<forall>f\<in>set fs. frame_instance f \<in> {1..31})))"

lemma sent_cmds_refl: "mctp_ok m \<Longrightarrow> sent_cmds m [] m"
  by (simp add: sent_cmds_def)

lemma sent_cmds_trans: "sent_cmds m cs m' \<Longrightarrow> sent_cmds m' ds m'' \<Longrightarrow> sent_cmds m (cs @ ds) m''"
  unfolding sent_cmds_def by (force intro: exI [of _ "_ @ _"])

lemma sent_cmds_ok: "sent_cmds m cs m' \<Longrightarrow> mctp_ok m'"
  by (simp add: sent_cmds_def)

lemma command_sends:
  assumes "mctp_ok m" "11 \<le> unat sz" "unat sz \<le> 128"
  shows "returns (command cmd sz m) (\<lambda>(r, m'). sent_cmds m [cmd] m')"
  by (rule returns_mono [OF control_command_returns [OF assms]]) (auto simp: sent_cmds_def control_frame_def)

lemma command_after:
  assumes "sent_cmds m cs m1" "11 \<le> unat sz" "unat sz \<le> 128"
    and "\<And>r m2. sent_cmds m (cs @ [cmd]) m2 \<Longrightarrow> Q (r, m2)"
  shows "returns (command cmd sz m1) Q"
  using assms by (blast intro: sent_cmds_ok sent_cmds_trans returns_mono [OF command_sends])

lemma stage:
  assumes "returns c (\<lambda>(r, m'). P m')" and "\<And>m'. P m' \<Longrightarrow> Q (MCTP_FAILURE, m')" and "\<And>m'. P m' \<Longrightarrow> returns (f m') Q"
  shows "returns (obind c (\<lambda>(ret, m). if ret \<noteq> MCTP_SUCCESS then Done (MCTP_FAILURE, m) else f m)) Q"
  using assms by (auto elim!: returns_mono)

lemma sent_cmds_new_eid [simp]: "sent_cmds m cs (m'\<lparr>mDestNewEid := e\<rparr>) = sent_cmds m cs m'"
  by (simp add: sent_cmds_def mctp_ok_def frames_sent_def)

lemma set_eid_loop_sends:
  assumes "sent_cmds m cs m1"
  shows "returns (set_eid_loop i k m1) (\<lambda>(r, m'). \<exists>n\<le>k. sent_cmds m (cs @ replicate n MCTP_SET_ENDPOINT_ID) m')"
  using assms
proof (induction k arbitrary: i m1 cs)
  case 0
  then show ?case by simp
next
  case (Suc k)
  show ?case
    unfolding set_eid_loop.simps returns_simps
  proof (rule command_after)
    show "sent_cmds m cs (m1\<lparr>mDestNewEid := MCTP_DEST_SET_EID + word_of_nat i\<rparr>)"
      using Suc.prems by simp
    fix r m2
    assume sent: "sent_cmds m (cs @ [MCTP_SET_ENDPOINT_ID]) m2"
    then have one: "\<exists>n\<le>Suc k. sent_cmds m (cs @ replicate n MCTP_SET_ENDPOINT_ID) m2"
      by (intro exI [of _ 1]) simp
    have "returns (set_eid_loop (Suc i) k m2)
        (\<lambda>(r, m'). \<exists>n\<le>Suc k. sent_cmds m (cs @ replicate n MCTP_SET_ENDPOINT_ID) m')"
      by (rule returns_mono [OF Suc.IH [OF sent]]) (force intro: exI [of _ "Suc _"])
    with one show "returns (case (r, m2) of (ret, m) \<Rightarrow>
        if ret \<noteq> MCTP_SUCCESS then if k = 0 then Done (MCTP_FAILURE, m) else set_eid_loop (Suc i) k m
        else Done (MCTP_SUCCESS, m)) (\<lambda>(r, m'). \<exists>n\<le>Suc k. sent_cmds m (cs @ replicate n MCTP_SET_ENDPOINT_ID) m')"
      by (cases "k = 0") auto
  qed simp_all
qed

text \<open>The commands of a complete initialization with \<open>n\<close> attempts to set the endpoint.\<close>

definition init_cmds :: "nat \<Rightarrow> u8 list" where
  "init_cmds n = [MCTP_GET_VERSION, MCTP_GET_ENDPOINT_ID, MCTP_GET_ENDPOINT_UUID]
     @ replicate n MCTP_SET_ENDPOINT_ID @ [MCTP_GET_MESSAGE_TYPE]"

lemma mctp_initialize_runs:
  assumes "mctp_ok m"
  shows "returns (mctp_initialize m) (\<lambda>(r, m'). \<exists>n\<le>3. \<exists>j>0. sent_cmds m (take j (init_cmds n)) m'
    \<and> (r = MCTP_SUCCESS \<longrightarrow> take j (init_cmds n) = init_cmds n))"
    (is "returns _ ?Q")
proof -
  have fail: "?Q (MCTP_FAILURE, m')" if "sent_cmds m (take j (init_cmds n)) m'" "n \<le> 3" "0 < j" for m' n j
    using that by (auto simp: mctp_consts)
  have eid: "returns (if mDestEid m3 = 0 then set_eid_loop 0 RETRY_COUNT m3 else Done (MCTP_SUCCESS, m3))
      (\<lambda>(r, m'). \<exists>n\<le>3. sent_cmds m (take (3 + n) (init_cmds n)) m')"
    if "sent_cmds m (take 3 (init_cmds 0)) m3" for m3
  proof -
    have "take (3 + n) (init_cmds n) = take 3 (init_cmds 0) @ replicate n MCTP_SET_ENDPOINT_ID" for n
      by (simp add: init_cmds_def numeral_3_eq_3)
    with that set_eid_loop_sends [OF that, of 0 RETRY_COUNT] show ?thesis
      by (auto simp: RETRY_COUNT_def elim!: returns_mono intro: exI [of _ 0])
  qed
  have last: "?Q (r, m')" if "sent_cmds m (take (3 + n) (init_cmds n) @ [MCTP_GET_MESSAGE_TYPE]) m'" "n \<le> 3" for r m' n
  proof -
    have "take (3 + n) (init_cmds n) @ [MCTP_GET_MESSAGE_TYPE] = take (4 + n) (init_cmds n)"
      "take (4 + n) (init_cmds n) = init_cmds n"
      by (simp_all add: init_cmds_def numeral_eq_Suc)
    with that have "0 < 4 + n \<and> sent_cmds m (take (4 + n) (init_cmds n)) m' \<and> (r = MCTP_SUCCESS \<longrightarrow> take (4 + n) (init_cmds n) = init_cmds n)"
      by simp
    with \<open>n \<le> 3\<close> show ?thesis by blast
  qed
  have step: "returns (command (init_cmds 0 ! j) sz m1) (\<lambda>(r, m'). sent_cmds m (take (j + 1) (init_cmds 0)) m')"
    if "sent_cmds m (take j (init_cmds 0)) m1" "j < 4" "11 \<le> unat sz" "unat sz \<le> 128" for j m1 sz
  proof -
    have "take (j + 1) (init_cmds 0) = take j (init_cmds 0) @ [init_cmds 0 ! j]"
      using \<open>j < 4\<close> take_Suc_conv_app_nth [of j "init_cmds 0"] by (simp add: init_cmds_def)
    with that show ?thesis by (intro command_after) auto
  qed
  have cmds: "init_cmds 0 ! 0 = MCTP_GET_VERSION" "init_cmds 0 ! 1 = MCTP_GET_ENDPOINT_ID" "init_cmds 0 ! 2 = MCTP_GET_ENDPOINT_UUID"
    by (simp_all add: init_cmds_def)
  have 1: "returns (command MCTP_GET_VERSION 12 m) (\<lambda>(r, m'). sent_cmds m (take 1 (init_cmds 0)) m')"
    using step [of 0 m 12] sent_cmds_refl [OF assms] by (simp add: cmds)
  have 2: "returns (command MCTP_GET_ENDPOINT_ID 11 m') (\<lambda>(r, m'). sent_cmds m (take 2 (init_cmds 0)) m')"
    if "sent_cmds m (take 1 (init_cmds 0)) m'" for m'
    using step [OF that, of 11] cmds by (simp flip: numeral_2_eq_2)
  have 3: "returns (command MCTP_GET_ENDPOINT_UUID 11 m') (\<lambda>(r, m'). sent_cmds m (take 3 (init_cmds 0)) m')"
    if "sent_cmds m (take 2 (init_cmds 0)) m'" for m'
    using step [OF that, of 11] cmds by (simp flip: numeral_2_eq_2)
  have 5: "returns (command MCTP_GET_MESSAGE_TYPE 11 m') (\<lambda>(r, m'). \<exists>n\<le>3. sent_cmds m (take (3 + n) (init_cmds n) @ [MCTP_GET_MESSAGE_TYPE]) m')"
    if after: "\<exists>n\<le>3. sent_cmds m (take (3 + n) (init_cmds n)) m'" for m'
  proof -
    from after obtain n where n: "n \<le> 3" "sent_cmds m (take (3 + n) (init_cmds n)) m'" by blast
    show ?thesis
      by (rule command_after [OF n(2)], simp, simp, simp only: prod.case) (use n(1) in blast)
  qed
  show ?thesis
    unfolding mctp_initialize_def
    apply (rule stage [OF 1], erule fail [of 1 0], simp, simp)
    apply (rule stage [OF 2], assumption, erule fail [of 2 0], simp, simp)
    apply (rule stage [OF 3], assumption, erule fail [of 3 0], simp, simp)
    apply (rule stage [OF eid], assumption, elim exE conjE, rule fail, assumption, assumption, simp)
    apply (rule stage [OF 5], assumption)
     apply (elim exE conjE, rule last, assumption, assumption)
    apply (unfold returns_simps, elim exE conjE, rule last, assumption, assumption)
    done
qed

text \<open>
  C22. On a connected object the MCTP initialization always returns and keeps the object well formed,
  whatever the card answers. It sends a prefix of version, endpoint, UUID, at most three attempts to
  set the endpoint, and message types, all of it when it succeeds, and every frame carries a nonzero
  five-bit instance number.
\<close>

theorem mctp_initialize_sequence:
  assumes "mctp_ok m"
  shows "returns (mctp_initialize m) (\<lambda>(r, m'). \<exists>n\<le>3. \<exists>j>0. sent_cmds m (take j (init_cmds n)) m'
    \<and> (r = MCTP_SUCCESS \<longrightarrow> take j (init_cmds n) = init_cmds n))"
  using assms by (rule mctp_initialize_runs)

end
