(* ===== verification/Amc_Pldm.thy ===== *)
theory Amc_Pldm
  imports Amc_Mctp
begin

text \<open>
  The PLDM object over MCTP (\<^verbatim>\<open>pldm.h\<close>, \<^verbatim>\<open>pldm_init.cpp\<close>, \<^verbatim>\<open>pldm_protocol.cpp\<close>): its message buffers, the
  PLDM header, and the exchange all PLDM commands share. The locale \<open>pldm_exchange\<close> states what a
  command's request filler and response handler owe, and what every command then does.
\<close>

section \<open>The header and the message buffer\<close>

definition PLDM_SUCCESS :: u8 where "PLDM_SUCCESS = 0x00"
definition PLDM_ERROR :: u8 where "PLDM_ERROR = 0x01"
definition PLDM_ERROR_INVALID_DATA :: u8 where "PLDM_ERROR_INVALID_DATA = 0x02"
definition PLDM_ERROR_UNSUPPORTED_PLDM_CMD :: u8 where "PLDM_ERROR_UNSUPPORTED_PLDM_CMD = 0x05"
definition PLDM_ERROR_INVALID_PLDM_TYPE :: u8 where "PLDM_ERROR_INVALID_PLDM_TYPE = 0x20"
definition PLDM_INSTANCE_ID_MAX :: u8 where "PLDM_INSTANCE_ID_MAX = 32"
definition PLDM_TYPES_MAX :: u8 where "PLDM_TYPES_MAX = 64"
definition PLDM_MAX_RESPONSE_SIZE :: nat where "PLDM_MAX_RESPONSE_SIZE = 128"
definition PLDM_OVER_MCTP :: "7 word" where "PLDM_OVER_MCTP = 0x01"
definition PLDM_MESSAGE_DISCOVERY :: u8 where "PLDM_MESSAGE_DISCOVERY = 0x00"
definition PLDM_PLATFORM_MONITORING :: u8 where "PLDM_PLATFORM_MONITORING = 0x02"
definition PLDM_FRU :: u8 where "PLDM_FRU = 0x04"
definition PLDM_FIRMWARE_UPDATE :: u8 where "PLDM_FIRMWARE_UPDATE = 0x05"
definition PLDM_FILE_TRANSFER :: u8 where "PLDM_FILE_TRANSFER = 0x07"
definition PLDM_OEM_SPECIFIC :: u8 where "PLDM_OEM_SPECIFIC = 0x3F"

lemmas pldm_types = PLDM_MESSAGE_DISCOVERY_def PLDM_PLATFORM_MONITORING_def PLDM_FRU_def PLDM_FIRMWARE_UPDATE_def
  PLDM_FILE_TRANSFER_def PLDM_OEM_SPECIFIC_def

text \<open>\<^verbatim>\<open>pldmTransferFlag\<close> and \<^verbatim>\<open>pldmTransferOpFlag\<close>.\<close>

definition PLDM_START :: u8 where "PLDM_START = 0x01"
definition PLDM_MIDDLE :: u8 where "PLDM_MIDDLE = 0x02"
definition PLDM_END :: u8 where "PLDM_END = 0x04"
definition PLDM_START_AND_END :: u8 where "PLDM_START_AND_END = 0x05"
definition PLDM_GET_FIRSTPART :: u8 where "PLDM_GET_FIRSTPART = 0x01"
definition PLDM_GET_NEXTPART :: u8 where "PLDM_GET_NEXTPART = 0x00"

record pldmHdr =
  pldm_instance :: "5 word"
  pldm_reserved :: "1 word"
  pldm_datagram :: "1 word"
  pldm_request :: "1 word"
  cmdType :: "6 word"
  headerVer :: "2 word"
  pldm_cmdCode :: u8

definition pldmHdr_bytes :: "pldmHdr \<Rightarrow> u8 list" where
  "pldmHdr_bytes h = [bf 0 (pldm_instance h) OR bf 5 (pldm_reserved h) OR bf 6 (pldm_datagram h) OR bf 7 (pldm_request h),
     bf 0 (cmdType h) OR bf 6 (headerVer h), pldm_cmdCode h]"

definition pldmHdr_of_bytes :: "u8 list \<Rightarrow> pldmHdr" where
  "pldmHdr_of_bytes bs = \<lparr>pldm_instance = fld 0 (bs ! 0), pldm_reserved = fld 5 (bs ! 0), pldm_datagram = fld 6 (bs ! 0),
     pldm_request = fld 7 (bs ! 0), cmdType = fld 0 (bs ! 1), headerVer = fld 6 (bs ! 1), pldm_cmdCode = bs ! 2\<rparr>"

lemma length_pldmHdr_bytes [simp]: "length (pldmHdr_bytes h) = 3"
  by (simp add: pldmHdr_bytes_def)

lemma pldmHdr_of_bytes_bytes [simp]: "pldmHdr_of_bytes (pldmHdr_bytes h @ rest) = h"
  by (cases h) (simp add: pldmHdr_of_bytes_def pldmHdr_bytes_def, intro conjI bit_word_eqI;
      auto simp: bit_or_iff bit_bf bit_fld dest: bit_bound)

text \<open>The message buffer, \<^verbatim>\<open>i2cdata\<close>: 140 bytes, the payload last.\<close>

record i2cdata =
  pldmSmbusHdr :: mctpSmbusI2cHdr
  pldmMsgHdr :: pldmHdr
  respPayload :: "u8 list"

definition i2cdata_bytes :: "i2cdata \<Rightarrow> u8 list" where
  "i2cdata_bytes m = mctp_bytes (pldmSmbusHdr m) @ pldmHdr_bytes (pldmMsgHdr m) @ respPayload m"

definition i2cdata_of_bytes :: "u8 list \<Rightarrow> i2cdata" where
  "i2cdata_of_bytes bs = \<lparr>pldmSmbusHdr = mctp_of_bytes bs, pldmMsgHdr = pldmHdr_of_bytes (drop 9 bs),
     respPayload = drop 12 bs\<rparr>"

lemma length_i2cdata_bytes [simp]: "length (i2cdata_bytes m) = 12 + length (respPayload m)"
  by (simp add: i2cdata_bytes_def)

lemma i2cdata_of_bytes_bytes [simp]: "i2cdata_of_bytes (i2cdata_bytes m) = m"
  by (simp add: i2cdata_of_bytes_def i2cdata_bytes_def)

lemma respPayload_of_bytes [simp]: "respPayload (i2cdata_of_bytes bs) = drop 12 bs"
  by (simp add: i2cdata_of_bytes_def)

text \<open>A null pointer fails the construction, as do an instance number or a type out of range.\<close>

definition pldmHdrConstruction :: "pldmHdr option \<Rightarrow> u8 \<Rightarrow> u8 \<Rightarrow> u8 \<Rightarrow> u8 \<Rightarrow> u8 \<Rightarrow> u8 \<times> pldmHdr option" where
  "pldmHdrConstruction hp instanceId typ cmd async reqresp =
     (case hp of None \<Rightarrow> (PLDM_ERROR_INVALID_DATA, None)
      | Some h \<Rightarrow>
         if PLDM_INSTANCE_ID_MAX < instanceId then (PLDM_ERROR_INVALID_DATA, hp)
         else if PLDM_TYPES_MAX - 1 < typ then (PLDM_ERROR_INVALID_PLDM_TYPE, hp)
         else (PLDM_SUCCESS, Some (h\<lparr>pldm_request := ucast (reqresp AND 1),
           pldm_datagram := (if async = 0 then 0 else 1), pldm_reserved := 0,
           pldm_instance := ucast (instanceId AND 0x1F), headerVer := 0, cmdType := ucast (typ AND 0x3F),
           pldm_cmdCode := cmd\<rparr>)))"

section \<open>The object\<close>

record pldmVersionInfo =
  ver_type :: u8
  ver_major :: u8
  ver_minor :: u8
  ver_update :: u8
  ver_alpha :: u8

record pldm = mctp +
  mI2cPldmRead :: "i2cdata option"
  mI2cPldmWrite :: "i2cdata option"
  progMutex :: bool
  pldm_instanceID :: u8
  mProgPercent :: int
  mFruTableInitialized :: bool
  supportedTypes :: u8
  totalSupportedTypes :: u8
  tid :: u8
  versionInfo :: "pldmVersionInfo list"

definition pldm_cleanup :: "'a pldm_scheme \<Rightarrow> 'a pldm_scheme" where
  "pldm_cleanup p = p\<lparr>mI2cPldmRead := None, mI2cPldmWrite := None, progMutex := False\<rparr>"

text \<open>\<open>mem1\<close>, \<open>mem2\<close> and \<open>mutex_ok\<close> are what the three allocations return.\<close>

definition pldminit :: "u8 list option \<Rightarrow> u8 list option \<Rightarrow> bool \<Rightarrow> 'a pldm_scheme \<Rightarrow> u8 \<times> 'a pldm_scheme" where
  "pldminit mem1 mem2 mutex_ok p =
     (let p = p\<lparr>mI2cPldmRead := map_option i2cdata_of_bytes mem1\<rparr> in
      if mem1 = None then (PLDM_ERROR, pldm_cleanup p)
      else let p = p\<lparr>mI2cPldmWrite := map_option i2cdata_of_bytes mem2\<rparr> in
        if mem2 = None then (PLDM_ERROR, pldm_cleanup p)
        else let p = p\<lparr>progMutex := mutex_ok\<rparr> in
          if \<not> mutex_ok then (PLDM_ERROR, pldm_cleanup p)
          else (PLDM_SUCCESS, p\<lparr>pldm_instanceID := 1, mProgPercent := 0, mFruTableInitialized := False\<rparr>))"

section \<open>The exchange of a command\<close>

definition next_instance :: "'a pldm_scheme \<Rightarrow> 'a pldm_scheme" where
  "next_instance p = (if pldm_instanceID p = PLDM_INSTANCE_ID_MAX then p\<lparr>pldm_instanceID := 1\<rparr> else p)"

text \<open>Both headers of a request, with the MCTP message type set to PLDM.\<close>

definition pldm_headers :: "u8 \<Rightarrow> u8 \<Rightarrow> u8 \<Rightarrow> 'a pldm_scheme \<Rightarrow> i2cdata \<Rightarrow> i2cdata" where
  "pldm_headers typ cmd sz p wr =
     (let h = commandConstruction p (pldmSmbusHdr wr) 1 1 0 (sz - 3) 0 in
      wr\<lparr>pldmSmbusHdr := h\<lparr>msgType := PLDM_OVER_MCTP\<rparr>,
         pldmMsgHdr := the (snd (pldmHdrConstruction (Some (pldmMsgHdr wr)) (pldm_instanceID p) typ cmd 0 1))\<rparr>)"

text \<open>
  Sending \<open>sz\<close> bytes of the write buffer and reading the response into the read buffer; both skip the
  address byte.
\<close>

definition pldm_send :: "u8 \<Rightarrow> 'a pldm_scheme \<Rightarrow> (bool \<times> 'a pldm_scheme) outcome" where
  "pldm_send sz p =
     obind (the_ptr (mI2cPldmWrite p)) (\<lambda>wr. obind (the_ptr (i2cobj p)) (\<lambda>d.
     obind (get_bytes (i2cdata_bytes wr) 1 (unat sz)) (\<lambda>out.
       (case writeAmc out d of (ok, d) \<Rightarrow> Done (ok, p\<lparr>i2cobj := Some d\<rparr>)))))"

definition pldm_receive :: "'a pldm_scheme \<Rightarrow> (bool \<times> 'a pldm_scheme) outcome" where
  "pldm_receive p =
     obind (the_ptr (mI2cPldmRead p)) (\<lambda>rd. obind (the_ptr (i2cobj p)) (\<lambda>d.
     obind (readAmc (i2cdata_bytes rd) 1 PLDM_MAX_RESPONSE_SIZE d) (\<lambda>(ok, mem, d).
       Done (ok, p\<lparr>i2cobj := Some d, mI2cPldmRead := Some (i2cdata_of_bytes mem)\<rparr>))))"

text \<open>
  The steps the discovery, FRU and OEM commands have in common: next instance number, headers, the
  command's payload, write, read, the command's handler with the instance number, and the increment.
\<close>

definition pldm_command ::
  "u8 \<Rightarrow> u8 \<Rightarrow> u8 \<Rightarrow> ('a pldm_scheme \<Rightarrow> (u8 \<times> 'a pldm_scheme) outcome)
     \<Rightarrow> (u8 \<Rightarrow> 'a pldm_scheme \<Rightarrow> (u8 \<times> 'a pldm_scheme) outcome) \<Rightarrow> 'a pldm_scheme \<Rightarrow> (u8 \<times> 'a pldm_scheme) outcome" where
  "pldm_command typ cmd sz payload response p =
     (let p = next_instance p in
      obind (the_ptr (mI2cPldmWrite p)) (\<lambda>wr.
      obind (payload (p\<lparr>mI2cPldmWrite := Some (pldm_headers typ cmd sz p wr)\<rparr>)) (\<lambda>(ret, p).
        if ret \<noteq> PLDM_SUCCESS then Done (PLDM_ERROR, p)
        else obind (pldm_send sz p) (\<lambda>(ok, p).
          if \<not> ok then Done (PLDM_ERROR, p)
          else obind (pldm_receive p) (\<lambda>(ok, p).
            if \<not> ok then Done (PLDM_ERROR, p)
            else obind (response (pldm_instanceID p) p) (\<lambda>(ret, p).
              if ret \<noteq> PLDM_SUCCESS then Done (PLDM_ERROR, p)
              else Done (PLDM_SUCCESS, p\<lparr>pldm_instanceID := pldm_instanceID p + 1\<rparr>)))))))"

text \<open>
  The check every response handler starts with: the destination address is overwritten, and only the
  completion code is looked at.
\<close>

definition check_completion :: "'a pldm_scheme \<Rightarrow> (u8 \<times> 'a pldm_scheme) outcome" where
  "check_completion p =
     obind (the_ptr (mI2cPldmRead p)) (\<lambda>rd.
     let rd = rd\<lparr>pldmSmbusHdr := (pldmSmbusHdr rd)\<lparr>destSlaveAddr := ucast MCTP_SRC_SLAVE_ADDR, destSlaveAddrB0 := 1\<rparr>\<rparr> in
     obind (get_byte (respPayload rd) 0) (\<lambda>code.
       Done (if code \<noteq> PLDM_SUCCESS then PLDM_ERROR else PLDM_SUCCESS, p\<lparr>mI2cPldmRead := Some rd\<rparr>)))"

text \<open>Changing the payload of the write buffer.\<close>

definition fill_payload :: "(u8 list \<Rightarrow> u8 list outcome) \<Rightarrow> 'a pldm_scheme \<Rightarrow> 'a pldm_scheme outcome" where
  "fill_payload f p = obind (the_ptr (mI2cPldmWrite p)) (\<lambda>wr. obind (f (respPayload wr)) (\<lambda>q.
     Done (p\<lparr>mI2cPldmWrite := Some (wr\<lparr>respPayload := q\<rparr>)\<rparr>)))"

section \<open>What every step keeps\<close>

definition pldm_ok :: "'a pldm_scheme \<Rightarrow> bool" where
  "pldm_ok p = (mctp_ok p \<and> (\<exists>rd wr. mI2cPldmRead p = Some rd \<and> mI2cPldmWrite p = Some wr
     \<and> length (respPayload rd) = PAYLOAD_SIZE \<and> length (respPayload wr) = PAYLOAD_SIZE)
     \<and> 1 \<le> unat (pldm_instanceID p) \<and> unat (pldm_instanceID p) \<le> 32)"

text \<open>A step of a command that does not talk to the card.\<close>

definition quiet :: "'a pldm_scheme \<Rightarrow> 'a pldm_scheme \<Rightarrow> bool" where
  "quiet p p' = (pldm_ok p' \<and> i2cobj p' = i2cobj p \<and> pldm_instanceID p' = pldm_instanceID p
     \<and> map_option (respPayload_update (\<lambda>_. [])) (mI2cPldmWrite p') = map_option (respPayload_update (\<lambda>_. [])) (mI2cPldmWrite p))"

lemma quiet_refl: "pldm_ok p \<Longrightarrow> quiet p p"
  by (simp add: quiet_def)

lemma quiet_trans: "quiet p p' \<Longrightarrow> quiet p' p'' \<Longrightarrow> quiet p p''"
  by (simp add: quiet_def)

lemma pldm_okE:
  assumes "pldm_ok p"
  obtains rd wr d where "mI2cPldmRead p = Some rd" "mI2cPldmWrite p = Some wr" "i2cobj p = Some d"
    "length (respPayload rd) = PAYLOAD_SIZE" "length (respPayload wr) = PAYLOAD_SIZE" "0 \<le> amchandle d"
    "1 \<le> unat (pldm_instanceID p)" "unat (pldm_instanceID p) \<le> 32"
  using assms by (auto simp: pldm_ok_def mctp_ok_def)

lemma fill_payload_quiet:
  assumes "pldm_ok p" and "\<And>q. length q = PAYLOAD_SIZE \<Longrightarrow> returns (f q) (\<lambda>q'. length q' = PAYLOAD_SIZE)"
  shows "returns (fill_payload f p) (\<lambda>p'. quiet p p' \<and> (\<exists>w. p' = p\<lparr>mI2cPldmWrite := w\<rparr>))"
proof -
  obtain rd wr where p: "mI2cPldmRead p = Some rd" "mI2cPldmWrite p = Some wr"
      "length (respPayload rd) = PAYLOAD_SIZE" "length (respPayload wr) = PAYLOAD_SIZE"
    using assms(1) by (auto simp: pldm_ok_def)
  obtain q where "f (respPayload wr) = Done q" "length q = PAYLOAD_SIZE"
    using assms(2) [OF p(4)] by (auto simp: returns_iff)
  with p assms(1) show ?thesis
    by (auto simp: fill_payload_def quiet_def pldm_ok_def mctp_ok_def)
qed

lemma check_completion_quiet:
  assumes "pldm_ok p"
  shows "returns (check_completion p) (\<lambda>(r, p'). quiet p p' \<and> (\<exists>rd. p' = p\<lparr>mI2cPldmRead := Some rd\<rparr>
    \<and> respPayload rd = respPayload (the (mI2cPldmRead p)) \<and> byteCount (pldmSmbusHdr rd) = byteCount (pldmSmbusHdr (the (mI2cPldmRead p)))))"
  using assms
  by (auto simp: check_completion_def Let_def quiet_def pldm_ok_def mctp_ok_def PAYLOAD_SIZE_def)
    (rule exI, rule conjI, rule refl, simp)

lemma pldm_receive_ok:
  assumes "pldm_ok p"
  shows "returns (pldm_receive p) (\<lambda>(ok, p'). pldm_ok p' \<and> frames_sent p' = frames_sent p
    \<and> pldm_instanceID p' = pldm_instanceID p \<and> (\<exists>d rd. p' = p\<lparr>i2cobj := d, mI2cPldmRead := rd\<rparr>))"
proof -
  obtain rd wr d where p: "mI2cPldmRead p = Some rd" "mI2cPldmWrite p = Some wr" "i2cobj p = Some d"
      "length (respPayload rd) = PAYLOAD_SIZE" "length (respPayload wr) = PAYLOAD_SIZE" "0 \<le> amchandle d" "i2c_init d"
    using assms by (auto simp: pldm_ok_def mctp_ok_def)
  obtain ok mem d' where "readAmc (i2cdata_bytes rd) 1 PLDM_MAX_RESPONSE_SIZE d = Done (ok, mem, d')"
      "length mem = 140" "i2c_sent d' = i2c_sent d" "amchandle d' = amchandle d" "i2c_init d'"
    using readAmc_returns [of 1 PLDM_MAX_RESPONSE_SIZE "i2cdata_bytes rd" d] p
    by (auto simp: returns_iff PLDM_MAX_RESPONSE_SIZE_def PAYLOAD_SIZE_def)
  with p assms show ?thesis
    by (auto simp: pldm_receive_def pldm_ok_def mctp_ok_def frames_sent_def PAYLOAD_SIZE_def)
qed

lemma pldm_send_ok:
  assumes "pldm_ok p" "unat sz \<le> 128"
  shows "returns (pldm_send sz p) (\<lambda>(ok, p'). pldm_ok p' \<and> (\<exists>d. p' = p\<lparr>i2cobj := d\<rparr>)
    \<and> frames_sent p' = frames_sent p @ [take (unat sz) (drop 1 (i2cdata_bytes (the (mI2cPldmWrite p))))])"
proof -
  obtain rd wr d where p: "mI2cPldmRead p = Some rd" "mI2cPldmWrite p = Some wr" "i2cobj p = Some d"
      "length (respPayload wr) = PAYLOAD_SIZE" "0 \<le> amchandle d"
    using assms by (elim pldm_okE)
  with assms show ?thesis
    by (auto simp: pldm_send_def writeAmc_def pldm_ok_def mctp_ok_def frames_sent_def PAYLOAD_SIZE_def)
qed

lemma pldm_send_only: "pldm_send sz p = Done (ok, p') \<Longrightarrow> \<exists>d. p' = p\<lparr>i2cobj := d\<rparr>"
  by (auto simp: pldm_send_def case_prod_unfold)

lemma pldm_send_device:
  assumes "pldm_send sz p = Done (ok, p')"
  shows "\<exists>d d'. i2cobj p = Some d \<and> p' = p\<lparr>i2cobj := Some d'\<rparr> \<and> i2c_rx d' = i2c_rx d"
proof -
  have "i2c_rx (snd (writeAmc out d)) = i2c_rx d" for out d
    by (simp add: writeAmc_def)
  then show ?thesis
    using assms by (cases "i2cobj p") (auto simp: pldm_send_def case_prod_unfold)
qed

lemma pldm_receive_only: "pldm_receive p = Done (ok, p') \<Longrightarrow> \<exists>d rd. p' = p\<lparr>i2cobj := d, mI2cPldmRead := rd\<rparr>"
  by (auto simp: pldm_receive_def case_prod_unfold)

section \<open>Frames\<close>

text \<open>The PLDM type and command of a transmitted frame, and its instance number.\<close>

definition pldm_frame_id :: "u8 list \<Rightarrow> u8 \<times> u8" where
  "pldm_frame_id f = (ucast (fld 0 (f ! 9) :: 6 word), f ! 10)"

definition pldm_frame_ok :: "u8 list \<Rightarrow> bool" where
  "pldm_frame_ok f = (unat (fld 0 (f ! 8) :: 5 word) \<in> {1..31} \<and> (fld 0 (f ! 7) :: 7 word) = PLDM_OVER_MCTP)"

text \<open>From \<open>p\<close> to \<open>p'\<close> the frames sent carry the types and commands \<open>cs\<close>.\<close>

definition pldm_sent :: "'a pldm_scheme \<Rightarrow> (u8 \<times> u8) list \<Rightarrow> 'a pldm_scheme \<Rightarrow> bool" where
  "pldm_sent p cs p' = (pldm_ok p' \<and> (\<exists>fs. frames_sent p' = frames_sent p @ fs \<and> map pldm_frame_id fs = cs
     \<and> list_all pldm_frame_ok fs))"

lemma pldm_sent_refl: "pldm_ok p \<Longrightarrow> pldm_sent p [] p"
  by (simp add: pldm_sent_def)

lemma pldm_sent_trans: "pldm_sent p cs p' \<Longrightarrow> pldm_sent p' ds p'' \<Longrightarrow> pldm_sent p (cs @ ds) p''"
  unfolding pldm_sent_def by (force intro: exI [of _ "_ @ _"])

lemma pldm_sent_ok: "pldm_sent p cs p' \<Longrightarrow> pldm_ok p'"
  by (simp add: pldm_sent_def)

lemma pldm_sent_quiet: "pldm_sent p cs p' \<Longrightarrow> quiet p' p'' \<Longrightarrow> pldm_sent p cs p''"
  by (auto simp: pldm_sent_def quiet_def frames_sent_def)

lemma type_bits: "typ < PLDM_TYPES_MAX \<Longrightarrow> ucast (ucast (typ AND 0x3F) :: 6 word) = typ"
proof -
  assume "typ < PLDM_TYPES_MAX"
  then have "unat typ < 64"
    by (simp add: PLDM_TYPES_MAX_def word_less_nat_alt)
  moreover have "typ AND 0x3F = take_bit 6 typ"
    by (simp add: take_bit_eq_mask mask_numeral)
  moreover have "unat (take_bit 6 typ) = unat typ" if "unat typ < 64"
    using that by (simp add: unsigned_take_bit_eq take_bit_nat_eq_self)
  ultimately show ?thesis
    by (intro word_unat_eq_iff [THEN iffD2]) (simp add: unsigned_ucast_eq unsigned_take_bit_eq take_bit_nat_eq_self)
qed

lemma pldmHdrConstruction_ok:
  assumes "unat i \<le> 32" "typ < PLDM_TYPES_MAX"
  shows "pldmHdrConstruction (Some h) i typ cmd 0 1 = (PLDM_SUCCESS, Some (h\<lparr>pldm_request := 1, pldm_datagram := 0,
    pldm_reserved := 0, pldm_instance := ucast (i AND 0x1F), headerVer := 0, cmdType := ucast (typ AND 0x3F), pldm_cmdCode := cmd\<rparr>))"
proof -
  have "\<not> PLDM_INSTANCE_ID_MAX < i"
    using assms(1) by (simp add: PLDM_INSTANCE_ID_MAX_def word_less_nat_alt)
  moreover have "\<not> PLDM_TYPES_MAX - 1 < typ"
    using assms(2) by (simp add: PLDM_TYPES_MAX_def word_less_nat_alt)
  ultimately show ?thesis
    by (simp add: pldmHdrConstruction_def)
qed

lemma pldm_frame_fields:
  assumes "11 \<le> n"
  shows "pldm_frame_id (take n (drop 1 (i2cdata_bytes w))) = (ucast (cmdType (pldmMsgHdr w)), pldm_cmdCode (pldmMsgHdr w))"
    and "(fld 0 (take n (drop 1 (i2cdata_bytes w)) ! 8) :: 5 word) = pldm_instance (pldmMsgHdr w)"
    and "(fld 0 (take n (drop 1 (i2cdata_bytes w)) ! 7) :: 7 word) = msgType (pldmSmbusHdr w)"
proof -
  have "fld 0 (pldmHdr_bytes h ! 0) = pldm_instance h" "fld 0 (pldmHdr_bytes h ! 1) = cmdType h" for h
    by (auto intro!: bit_word_eqI simp: pldmHdr_bytes_def bit_or_iff bit_bf bit_fld)
  moreover have "fld 0 (mctp_bytes h ! 8) = msgType h" for h
    by (auto intro!: bit_word_eqI simp: mctp_bytes_def bit_or_iff bit_bf bit_fld)
  ultimately show "pldm_frame_id (take n (drop 1 (i2cdata_bytes w))) = (ucast (cmdType (pldmMsgHdr w)), pldm_cmdCode (pldmMsgHdr w))"
    "(fld 0 (take n (drop 1 (i2cdata_bytes w)) ! 8) :: 5 word) = pldm_instance (pldmMsgHdr w)"
    "(fld 0 (take n (drop 1 (i2cdata_bytes w)) ! 7) :: 7 word) = msgType (pldmSmbusHdr w)"
    using assms by (simp_all add: pldm_frame_id_def i2cdata_bytes_def nth_append pldmHdr_bytes_def)
qed

lemma next_instance_ok:
  assumes "pldm_ok p"
  shows "pldm_ok (next_instance p)" "1 \<le> unat (pldm_instanceID (next_instance p))" "unat (pldm_instanceID (next_instance p)) \<le> 31"
    "frames_sent (next_instance p) = frames_sent p" "mI2cPldmWrite (next_instance p) = mI2cPldmWrite p"
proof -
  have "unat (pldm_instanceID p) \<noteq> unat PLDM_INSTANCE_ID_MAX" if "pldm_instanceID p \<noteq> PLDM_INSTANCE_ID_MAX"
    using that by (simp only: word_unat_eq_iff simp_thms)
  then show "pldm_ok (next_instance p)" "1 \<le> unat (pldm_instanceID (next_instance p))"
    "unat (pldm_instanceID (next_instance p)) \<le> 31" "frames_sent (next_instance p) = frames_sent p"
    "mI2cPldmWrite (next_instance p) = mI2cPldmWrite p"
    using assms by (auto simp: next_instance_def pldm_ok_def mctp_ok_def frames_sent_def PLDM_INSTANCE_ID_MAX_def)
qed

lemma request_frame:
  assumes w: "mI2cPldmWrite p1 = Some (pldm_headers typ cmd sz p wr)" and q: "quiet p1 p2"
    and "typ < PLDM_TYPES_MAX" "11 \<le> unat sz" "1 \<le> unat (pldm_instanceID p)" "unat (pldm_instanceID p) \<le> 31"
  shows "pldm_frame_id (take (unat sz) (drop 1 (i2cdata_bytes (the (mI2cPldmWrite p2))))) = (typ, cmd)"
    and "pldm_frame_ok (take (unat sz) (drop 1 (i2cdata_bytes (the (mI2cPldmWrite p2)))))"
proof -
  obtain w' where w': "mI2cPldmWrite p2 = Some w'" "respPayload_update (\<lambda>_. []) w' = respPayload_update (\<lambda>_. []) (pldm_headers typ cmd sz p wr)"
    using w q by (auto simp: quiet_def pldm_ok_def)
  then have "pldmMsgHdr w' = pldmMsgHdr (pldm_headers typ cmd sz p wr)" "pldmSmbusHdr w' = pldmSmbusHdr (pldm_headers typ cmd sz p wr)"
    by (metis i2cdata.select_convs(2) i2cdata.surjective i2cdata.update_convs(3))
      (metis w'(2) i2cdata.select_convs(1) i2cdata.surjective i2cdata.update_convs(3))
  with w' show "pldm_frame_id (take (unat sz) (drop 1 (i2cdata_bytes (the (mI2cPldmWrite p2))))) = (typ, cmd)"
    "pldm_frame_ok (take (unat sz) (drop 1 (i2cdata_bytes (the (mI2cPldmWrite p2)))))"
    using assms pldm_frame_fields [of "unat sz" w']
    by (simp_all add: pldm_frame_ok_def pldm_headers_def Let_def pldmHdrConstruction_ok type_bits instance_bits)
qed

lemma pldm_headers_ok:
  "pldm_ok p \<Longrightarrow> mI2cPldmWrite p = Some wr \<Longrightarrow> pldm_ok (p\<lparr>mI2cPldmWrite := Some (pldm_headers typ cmd sz p wr)\<rparr>)"
  by (auto simp: pldm_ok_def mctp_ok_def pldm_headers_def Let_def)

section \<open>The contract of a command\<close>

text \<open>
  What a command's payload filler and response handler owe: they keep the component's invariant \<open>I\<close> and
  are quiet, the handler under what \<open>R\<close> says of the response; \<open>J\<close> holds after a successful response. What follows is the behaviour
  of the whole command, proved once.
\<close>

locale pldm_exchange =
  fixes payload :: "'a pldm_scheme \<Rightarrow> (u8 \<times> 'a pldm_scheme) outcome"
    and response :: "u8 \<Rightarrow> 'a pldm_scheme \<Rightarrow> (u8 \<times> 'a pldm_scheme) outcome"
    and I :: "'a pldm_scheme \<Rightarrow> bool"
    and R :: "'a pldm_scheme \<Rightarrow> bool"
    and J :: "'a pldm_scheme \<Rightarrow> bool"
  assumes I_headers: "I (p\<lparr>mI2cPldmWrite := w, pldm_instanceID := i\<rparr>) = I p"
    and I_sent: "I p \<Longrightarrow> pldm_ok p \<Longrightarrow> pldm_send sz p = Done (ok, p') \<Longrightarrow> I p'"
    and I_received: "I p \<Longrightarrow> pldm_ok p \<Longrightarrow> pldm_receive p = Done (ok, p') \<Longrightarrow> I p' \<and> (ok \<longrightarrow> R p')"
    and payload_quiet: "I p \<Longrightarrow> pldm_ok p \<Longrightarrow> returns (payload p) (\<lambda>(r, p'). I p' \<and> quiet p p')"
    and response_quiet: "I p \<Longrightarrow> pldm_ok p \<Longrightarrow> R p \<Longrightarrow>
      returns (response i p) (\<lambda>(r, p'). I p' \<and> quiet p p' \<and> (r = PLDM_SUCCESS \<longrightarrow> J p'))"
    and J_instance: "J p \<Longrightarrow> J (p\<lparr>pldm_instanceID := i\<rparr>)"
begin

lemma next_I: "I p \<Longrightarrow> I (next_instance p)"
  using I_headers [where p = p and w = "mI2cPldmWrite p"] by (simp add: next_instance_def)

lemma command_returns:
  assumes I: "I p" and ok: "pldm_ok p" and ty: "typ < PLDM_TYPES_MAX" and sz: "11 \<le> unat sz" "unat sz \<le> 128"
  shows "returns (pldm_command typ cmd sz payload response p) (\<lambda>(r, p').
    I p' \<and> (\<exists>cs. pldm_sent p cs p' \<and> (cs = [] \<or> cs = [(typ, cmd)]) \<and> (r = PLDM_SUCCESS \<longrightarrow> cs = [(typ, cmd)] \<and> J p')))"
proof -
  let ?Q = "\<lambda>(r, p'). I p' \<and> (\<exists>cs. pldm_sent p cs p' \<and> (cs = [] \<or> cs = [(typ, cmd)])
    \<and> (r = PLDM_SUCCESS \<longrightarrow> cs = [(typ, cmd)] \<and> J p'))"
  have err: "PLDM_ERROR \<noteq> PLDM_SUCCESS"
    by (simp add: PLDM_ERROR_def PLDM_SUCCESS_def)
  note n = next_instance_ok [OF ok]
  obtain wr where wr: "mI2cPldmWrite (next_instance p) = Some wr"
    using n(1) by (auto simp: pldm_ok_def)
  define p1 where "p1 = (next_instance p)\<lparr>mI2cPldmWrite := Some (pldm_headers typ cmd sz (next_instance p) wr)\<rparr>"
  have p1: "I p1" "pldm_ok p1" "frames_sent p1 = frames_sent p" "pldm_instanceID p1 = pldm_instanceID (next_instance p)"
    using I_headers [where p = "next_instance p" and i = "pldm_instanceID (next_instance p)"] next_I [OF I] n wr pldm_headers_ok [OF n(1) wr]
    by (simp_all add: p1_def frames_sent_def)
  obtain r2 p2 where p2: "payload p1 = Done (r2, p2)" "I p2" "quiet p1 p2"
    using payload_quiet [OF p1(1,2)] by (auto simp: returns_iff)
  have ok2: "pldm_ok p2" "frames_sent p2 = frames_sent p" "pldm_instanceID p2 = pldm_instanceID p1"
    using p2(3) p1 by (auto simp: quiet_def frames_sent_def)
  obtain sent p3 where p3: "pldm_send sz p2 = Done (sent, p3)" "pldm_ok p3" "\<exists>d. p3 = p2\<lparr>i2cobj := d\<rparr>"
      "frames_sent p3 = frames_sent p @ [take (unat sz) (drop 1 (i2cdata_bytes (the (mI2cPldmWrite p2))))]"
    using pldm_send_ok [OF ok2(1) sz(2)] ok2 by (auto simp: returns_iff)
  have frame: "pldm_sent p [(typ, cmd)] p3"
    using p3 request_frame [OF _ p2(3) ty sz(1) n(2,3), of cmd wr] by (simp add: pldm_sent_def p1_def)
  obtain got p4 where p4: "pldm_receive p3 = Done (got, p4)" "pldm_ok p4" "frames_sent p4 = frames_sent p3"
      "pldm_instanceID p4 = pldm_instanceID p3"
    using pldm_receive_ok [OF p3(2)] by (auto simp: returns_iff)
  have I3: "I p3" and I4: "I p4" "got \<longrightarrow> R p4"
    using I_sent [OF p2(2) ok2(1) p3(1)] I_received [OF _ p3(2) p4(1)] by auto
  have frame4: "pldm_sent p [(typ, cmd)] p4"
    using frame p4 by (simp add: pldm_sent_def)
  have respond: "returns (response i p4) (\<lambda>(r, p'). I p' \<and> pldm_sent p [(typ, cmd)] p'
      \<and> pldm_instanceID p' = pldm_instanceID p1 \<and> (r = PLDM_SUCCESS \<longrightarrow> J p'))" if got for i
  proof (rule returns_mono [OF response_quiet [OF I4(1) p4(2)]])
    show "R p4" using I4(2) that by simp
    show "case x of (r, p') \<Rightarrow> I p' \<and> pldm_sent p [(typ, cmd)] p' \<and> pldm_instanceID p' = pldm_instanceID p1 \<and> (r = PLDM_SUCCESS \<longrightarrow> J p')"
      if "case x of (r, p') \<Rightarrow> I p' \<and> quiet p4 p' \<and> (r = PLDM_SUCCESS \<longrightarrow> J p')" for x
      using that pldm_sent_quiet [OF frame4] p4(4) p3(3) ok2(3) by (auto simp: quiet_def)
  qed
  have succ: "I (p'\<lparr>pldm_instanceID := pldm_instanceID p' + 1\<rparr>) \<and> pldm_sent p [(typ, cmd)] (p'\<lparr>pldm_instanceID := pldm_instanceID p' + 1\<rparr>)"
    if "I p'" "pldm_sent p [(typ, cmd)] p'" "pldm_instanceID p' = pldm_instanceID p1" for p'
    using that I_headers [where p = p' and w = "mI2cPldmWrite p'"] unat_next_instance [of "pldm_instanceID p1"] n p1
    by (auto simp: pldm_sent_def pldm_ok_def mctp_ok_def frames_sent_def)
  have finish: "returns (response i p4) (\<lambda>x. returns (case x of (ret, p) \<Rightarrow>
      if ret \<noteq> PLDM_SUCCESS then Done (PLDM_ERROR, p) else Done (PLDM_SUCCESS, p\<lparr>pldm_instanceID := pldm_instanceID p + 1\<rparr>)) ?Q)"
    if got for i
    by (rule returns_mono [OF respond [OF that]]) (use succ err J_instance in \<open>auto split: prod.splits\<close>)
  have sent_Q: "\<exists>cs. pldm_sent p cs p2 \<and> (cs = [] \<or> cs = [(typ, cmd)])" "\<exists>cs. pldm_sent p cs p3 \<and> (cs = [] \<or> cs = [(typ, cmd)])"
    "\<exists>cs. pldm_sent p cs p4 \<and> (cs = [] \<or> cs = [(typ, cmd)])"
    using ok2 frame frame4 exI [of "\<lambda>cs. pldm_sent p cs p2 \<and> (cs = [] \<or> cs = [(typ, cmd)])" "[]"]
    by (auto simp: pldm_sent_def [of p "[]"])
  show ?thesis
    unfolding pldm_command_def Let_def
    using wr p2 p3 p4 I3 I4 sent_Q err finish by (simp add: p1_def [symmetric])
qed

end

end
