(* ===== verification/Amc_Discovery.thy ===== *)
theory Amc_Discovery
  imports Amc_Pldm
begin

text \<open>
  PLDM discovery (\<^verbatim>\<open>pldm_discovery.cpp\<close>, \<^verbatim>\<open>pldm_discovery_resp.cpp\<close>), the start of a card
  (\<^verbatim>\<open>pldm::initialize\<close>), the OEM voltage-regulator commands (\<^verbatim>\<open>oem_vrsync.cpp\<close>) and the GPU reset
  (\<^verbatim>\<open>pldm_amc_gpu_reset.cpp\<close>).
\<close>

definition PLDM_SETTID :: u8 where "PLDM_SETTID = 0x01"
definition PLDM_GETTID :: u8 where "PLDM_GETTID = 0x02"
definition PLDM_GETVERSION :: u8 where "PLDM_GETVERSION = 0x03"
definition PLDM_GETTYPES :: u8 where "PLDM_GETTYPES = 0x04"
definition PLDM_GETCOMMANDS :: u8 where "PLDM_GETCOMMANDS = 0x05"
definition PLDM_DISCOVERY_TID :: u8 where "PLDM_DISCOVERY_TID = 0x03"

lemmas disc_cmds = PLDM_SETTID_def PLDM_GETTID_def PLDM_GETVERSION_def PLDM_GETTYPES_def PLDM_GETCOMMANDS_def

section \<open>Requests\<close>

definition pldmDiscoveryFillPayload :: "u8 \<Rightarrow> nat \<Rightarrow> 'a pldm_scheme \<Rightarrow> (u8 \<times> 'a pldm_scheme) outcome" where
  "pldmDiscoveryFillPayload cmd pldmCmdLen p =
     (if cmd = PLDM_SETTID then
        obind (fill_payload (\<lambda>q. obind (put_byte q 0 (if tid p = 0 then PLDM_DISCOVERY_TID else tid p)) (\<lambda>q.
          put_crc q 1 (pldmCmdLen - 1))) p) (\<lambda>p. Done (PLDM_SUCCESS, p))
      else if cmd = PLDM_GETTID \<or> cmd = PLDM_GETTYPES then
        obind (fill_payload (\<lambda>q. obind (clear_payload q pldmCmdLen) (\<lambda>q. put_crc q 0 (pldmCmdLen - 1))) p)
          (\<lambda>p. Done (PLDM_SUCCESS, p))
      else Done (PLDM_ERROR, p))"

definition pldmDiscoveryGetVersionPayload :: "u8 \<Rightarrow> nat \<Rightarrow> 'a pldm_scheme \<Rightarrow> 'a pldm_scheme outcome" where
  "pldmDiscoveryGetVersionPayload msg_type pldmCmdLen =
     fill_payload (\<lambda>q. obind (clear_payload q pldmCmdLen) (\<lambda>q. obind (put_bytes q 0 [0, 0, 0, 0, 1, msg_type]) (\<lambda>q.
       put_crc q 6 (pldmCmdLen - 1))))"

text \<open>The search of the version table: the first of \<open>n\<close> entries with the type, faulting past the table.\<close>

definition find_version :: "u8 \<Rightarrow> nat \<Rightarrow> pldmVersionInfo list \<Rightarrow> nat option outcome" where
  "find_version ty n vs = find_loop (\<lambda>i. if i < length vs then Done (vs ! i) else Fault) (\<lambda>v. ver_type v = ty) 0 n"

definition pldmDiscoveryGetCmdPayload :: "u8 \<Rightarrow> nat \<Rightarrow> 'a pldm_scheme \<Rightarrow> 'a pldm_scheme outcome" where
  "pldmDiscoveryGetCmdPayload ty pldmCmdLen p =
     fill_payload (\<lambda>q. obind (clear_payload q pldmCmdLen) (\<lambda>q. obind (put_byte q 0 ty) (\<lambda>q.
       obind (find_version ty (unat (totalSupportedTypes p)) (versionInfo p)) (\<lambda>found.
       obind (case found of None \<Rightarrow> Done q
         | Some i \<Rightarrow> put_bytes q 1 [ver_alpha (versionInfo p ! i), ver_update (versionInfo p ! i),
             ver_minor (versionInfo p ! i), ver_major (versionInfo p ! i)]) (\<lambda>q.
       put_crc q 5 (pldmCmdLen - 1)))))) p"

definition discovery_payload :: "u8 \<Rightarrow> nat \<Rightarrow> u8 \<Rightarrow> 'a pldm_scheme \<Rightarrow> (u8 \<times> 'a pldm_scheme) outcome" where
  "discovery_payload cmd pldmCmdLen ty p =
     (if cmd = PLDM_GETVERSION then obind (pldmDiscoveryGetVersionPayload ty pldmCmdLen p) (\<lambda>p. Done (PLDM_SUCCESS, p))
      else if cmd = PLDM_GETCOMMANDS then obind (pldmDiscoveryGetCmdPayload ty pldmCmdLen p) (\<lambda>p. Done (PLDM_SUCCESS, p))
      else pldmDiscoveryFillPayload cmd pldmCmdLen p)"

section \<open>Responses\<close>

text \<open>The loop of \<^verbatim>\<open>getbitposition\<close> from bit \<open>i\<close>, with \<open>k\<close> bits left and \<open>pos\<close> entries written.\<close>

primrec bit_loop :: "u8 \<Rightarrow> nat \<Rightarrow> nat \<Rightarrow> nat \<Rightarrow> pldmVersionInfo list \<Rightarrow> (nat \<times> pldmVersionInfo list) outcome" where
  "bit_loop num 0 i pos vs = Done (pos, vs)"
| "bit_loop num (Suc k) i pos vs =
     (if num AND push_bit i 1 \<noteq> 0 then
        (if pos < length vs then bit_loop num k (Suc i) (Suc pos) (vs[pos := (vs ! pos)\<lparr>ver_type := word_of_nat i\<rparr>]) else Fault)
      else bit_loop num k (Suc i) pos vs)"

definition getbitposition :: "u8 \<Rightarrow> 'a pldm_scheme \<Rightarrow> (u8 \<times> 'a pldm_scheme) outcome" where
  "getbitposition num p =
     (let p = p\<lparr>totalSupportedTypes := 0\<rparr> in
      obind (bit_loop num 8 0 0 (versionInfo p)) (\<lambda>(pos, vs).
        Done (PLDM_SUCCESS, p\<lparr>versionInfo := vs, totalSupportedTypes := word_of_nat pos\<rparr>)))"

definition read_payload :: "nat \<Rightarrow> 'a pldm_scheme \<Rightarrow> u8 outcome" where
  "read_payload i p = obind (the_ptr (mI2cPldmRead p)) (\<lambda>rd. get_byte (respPayload rd) i)"

definition discoveryResponse :: "u8 \<Rightarrow> u8 \<Rightarrow> u8 \<Rightarrow> 'a pldm_scheme \<Rightarrow> (u8 \<times> 'a pldm_scheme) outcome" where
  "discoveryResponse cmd ty ident p =
     (if cmd \<in> {PLDM_SETTID, PLDM_GETCOMMANDS} then check_completion p
      else if cmd = PLDM_GETTID then
        obind (check_completion p) (\<lambda>(ret, p).
          if ret = PLDM_SUCCESS then
            obind (read_payload 1 p) (\<lambda>t. if t = 0 then Done (ret, p) else Done (PLDM_SUCCESS, p\<lparr>tid := t\<rparr>))
          else Done (ret, p))
      else if cmd = PLDM_GETTYPES then
        obind (check_completion p) (\<lambda>(ret, p).
          if ret = PLDM_SUCCESS then
            obind (read_payload 1 p) (\<lambda>t. getbitposition t (p\<lparr>supportedTypes := t\<rparr>))
          else Done (PLDM_ERROR, p))
      else if cmd = PLDM_GETVERSION then
        obind (check_completion p) (\<lambda>(ret, p).
          if ret = PLDM_SUCCESS then
            obind (find_version ty (unat (totalSupportedTypes p)) (versionInfo p)) (\<lambda>found. case found of
              None \<Rightarrow> Done (PLDM_ERROR, p)
            | Some i \<Rightarrow>
                obind (read_payload 9 p) (\<lambda>major. obind (read_payload 8 p) (\<lambda>minor. obind (read_payload 7 p) (\<lambda>upd.
                obind (read_payload 6 p) (\<lambda>alpha.
                  Done (PLDM_SUCCESS, p\<lparr>versionInfo := (versionInfo p)[i := (versionInfo p ! i)
                    \<lparr>ver_major := major, ver_minor := minor, ver_update := upd, ver_alpha := alpha\<rparr>]\<rparr>))))))
          else Done (PLDM_ERROR, p))
      else Done (PLDM_ERROR, p))"

section \<open>The discovery sequence\<close>

definition discoveryCmd :: "u8 \<Rightarrow> u8 \<Rightarrow> u8 \<Rightarrow> 'a pldm_scheme \<Rightarrow> (u8 \<times> 'a pldm_scheme) outcome" where
  "discoveryCmd cmd sz ty p =
     (if mI2cPldmRead p = None \<or> mI2cPldmWrite p = None then Done (PLDM_ERROR, p)
      else pldm_command PLDM_MESSAGE_DISCOVERY cmd sz (discovery_payload cmd (unat sz) ty) (discoveryResponse cmd ty) p)"

text \<open>
  The two loops over the supported types, from index \<open>i\<close>: the count is read again before each round,
  and \<open>k\<close> bounds the rounds (a \<open>Stuck\<close> result means it was too small).
\<close>

primrec version_loop :: "nat \<Rightarrow> nat \<Rightarrow> 'a pldm_scheme \<Rightarrow> (u8 \<times> 'a pldm_scheme) outcome" where
  "version_loop 0 i p = Stuck"
| "version_loop (Suc k) i p =
     (if i < unat (totalSupportedTypes p) then
        obind (if i < length (versionInfo p) then Done (versionInfo p ! i) else Fault) (\<lambda>v.
        obind (discoveryCmd PLDM_GETVERSION 18 (ver_type v) p) (\<lambda>(ret, p).
          if ret \<noteq> PLDM_SUCCESS then Done (PLDM_ERROR, p) else version_loop k (Suc i) p))
      else Done (PLDM_SUCCESS, p))"

primrec commands_loop :: "nat \<Rightarrow> nat \<Rightarrow> 'a pldm_scheme \<Rightarrow> (u8 \<times> 'a pldm_scheme) outcome" where
  "commands_loop 0 i p = Stuck"
| "commands_loop (Suc k) i p =
     (if i < unat (totalSupportedTypes p) then
        obind (if i < length (versionInfo p) then Done (versionInfo p ! i) else Fault) (\<lambda>v.
        if ver_type v = 0x07 then commands_loop k (Suc i) p
        else obind (discoveryCmd PLDM_GETCOMMANDS 17 (ver_type v) p) (\<lambda>(ret, p).
          if ret \<noteq> PLDM_SUCCESS then Done (PLDM_ERROR, p) else commands_loop k (Suc i) p))
      else Done (PLDM_SUCCESS, p))"

definition pldmDiscInitialize :: "'a pldm_scheme \<Rightarrow> (u8 \<times> 'a pldm_scheme) outcome" where
  "pldmDiscInitialize p =
     obind (discoveryCmd PLDM_GETTYPES 12 0 p) (\<lambda>(ret, p).
     if ret \<noteq> PLDM_SUCCESS then Done (PLDM_ERROR, p)
     else obind (version_loop 256 0 p) (\<lambda>(ret, p).
     if ret \<noteq> PLDM_SUCCESS then Done (PLDM_ERROR, p)
     else obind (commands_loop 256 0 p) (\<lambda>(ret, p).
     if ret \<noteq> PLDM_SUCCESS then Done (PLDM_ERROR, p)
     else obind (discoveryCmd PLDM_GETTID 12 0 p) (\<lambda>(ret, p).
     if ret \<noteq> PLDM_SUCCESS then Done (PLDM_ERROR, p)
     else obind (discoveryCmd PLDM_SETTID 13 0 p) (\<lambda>(ret, p).
     if ret \<noteq> PLDM_SUCCESS then Done (PLDM_ERROR, p) else Done (PLDM_SUCCESS, p))))))"

definition pldm_initialize :: "'a pldm_scheme \<Rightarrow> (u8 \<times> 'a pldm_scheme) outcome" where
  "pldm_initialize p =
     obind (the_ptr (i2cobj p)) (\<lambda>d.
     if \<not> i2c_init d then Done (PLDM_ERROR, p)
     else obind (mctp_initialize p) (\<lambda>(ret, p).
       if ret \<noteq> MCTP_SUCCESS then Done (PLDM_ERROR, p)
       else obind (pldmDiscInitialize p) (\<lambda>(ret, p).
         if ret \<noteq> PLDM_SUCCESS then Done (PLDM_ERROR, p) else Done (PLDM_SUCCESS, p))))"

section \<open>OEM commands and reset\<close>

definition PLDM_OEM_VR_SYNC_PAUSE :: u8 where "PLDM_OEM_VR_SYNC_PAUSE = 0x01"
definition PLDM_OEM_VR_SYNC_RESUME :: u8 where "PLDM_OEM_VR_SYNC_RESUME = 0x02"

definition oemVrsyncResp :: "u8 \<Rightarrow> u8 \<Rightarrow> 'a pldm_scheme \<Rightarrow> (u8 \<times> 'a pldm_scheme) outcome" where
  "oemVrsyncResp cmd ident p =
     (if cmd \<in> {PLDM_OEM_VR_SYNC_PAUSE, PLDM_OEM_VR_SYNC_RESUME} then check_completion p else Done (PLDM_ERROR, p))"

definition oem_payload :: "nat \<Rightarrow> 'a pldm_scheme \<Rightarrow> (u8 \<times> 'a pldm_scheme) outcome" where
  "oem_payload oemCmdLen p =
     obind (fill_payload (\<lambda>q. obind (clear_payload q oemCmdLen) (\<lambda>q. put_crc q 0 (oemCmdLen - 1))) p)
       (\<lambda>p. Done (PLDM_SUCCESS, p))"

definition oemVrsyncCmd :: "u8 \<Rightarrow> 'a pldm_scheme \<Rightarrow> (u8 \<times> 'a pldm_scheme) outcome" where
  "oemVrsyncCmd cmd = pldm_command PLDM_OEM_SPECIFIC cmd 12 (oem_payload 12) (oemVrsyncResp cmd)"

definition PLDM_STATE_EFFECTER_AIC_RESET :: u16 where "PLDM_STATE_EFFECTER_AIC_RESET = 402"
definition PLDM_SET_STATE_EFFECTER_STATES :: u8 where "PLDM_SET_STATE_EFFECTER_STATES = 0x39"

definition reset_payload :: "'a pldm_scheme \<Rightarrow> (u8 \<times> 'a pldm_scheme) outcome" where
  "reset_payload p =
     obind (fill_payload (\<lambda>q. put_bytes q 0 (bytes_of_u16 PLDM_STATE_EFFECTER_AIC_RESET @ [1, 0x01, 0x02])) p)
       (\<lambda>p. Done (PLDM_SUCCESS, p))"

text \<open>The reset checks the request bit and the instance number of the response before its completion code.\<close>

definition reset_response :: "u8 \<Rightarrow> 'a pldm_scheme \<Rightarrow> (u8 \<times> 'a pldm_scheme) outcome" where
  "reset_response ident p =
     obind (the_ptr (mI2cPldmRead p)) (\<lambda>rd.
       if pldm_request (pldmMsgHdr rd) \<noteq> 0 then Done (PLDM_ERROR, p)
       else if ucast (pldm_instance (pldmMsgHdr rd)) \<noteq> ident then Done (PLDM_ERROR, p)
       else obind (get_byte (respPayload rd) 0) (\<lambda>code.
         Done (if code \<noteq> PLDM_SUCCESS then PLDM_ERROR else PLDM_SUCCESS, p)))"

definition amcGpuReset :: "'a pldm_scheme \<Rightarrow> (u8 \<times> 'a pldm_scheme) outcome" where
  "amcGpuReset = pldm_command PLDM_PLATFORM_MONITORING PLDM_SET_STATE_EFFECTER_STATES 17 reset_payload reset_response"

section \<open>Scanning the supported types\<close>

lemma bit_loop_ok:
  assumes "pos + length (filter (bit num) [i..<i + k]) \<le> length vs"
  shows "returns (bit_loop num k i pos vs) (\<lambda>(pos', vs'). pos' = pos + length (filter (bit num) [i..<i + k])
    \<and> length vs' = length vs
    \<and> map ver_type (take pos' vs') = map ver_type (take pos vs) @ map word_of_nat (filter (bit num) [i..<i + k]))"
  using assms
proof (induction k arbitrary: i pos vs)
  case 0
  then show ?case by simp
next
  case (Suc k)
  let ?F = "filter (bit num) [Suc i..<Suc i + k]"
  have up: "filter (bit num) [i..<i + Suc k] = (if bit num i then i # ?F else ?F)"
    by (subst upt_conv_Cons) simp_all
  have step: "bit_loop num (Suc k) i pos vs =
     (if bit num i then
        (if pos < length vs then bit_loop num k (Suc i) (Suc pos) (vs[pos := (vs ! pos)\<lparr>ver_type := word_of_nat i\<rparr>]) else Fault)
      else bit_loop num k (Suc i) pos vs)"
    by (simp only: bit_loop.simps bit_iff_and_push_bit_not_eq_0)
  note prems = Suc.prems [unfolded up]
  show ?case
  proof (cases "bit num i")
    case True
    then have room: "pos < length vs" "Suc pos + length ?F \<le> length vs"
      using prems by simp_all
    have "map ver_type (take (Suc pos) (vs[pos := v])) = map ver_type (take pos vs) @ [ver_type v]" for v
      using room by (simp add: take_Suc_conv_app_nth)
    with True room Suc.IH [of "Suc pos" "Suc i" "vs[pos := (vs ! pos)\<lparr>ver_type := word_of_nat i\<rparr>]"]
    show ?thesis
      unfolding up step by (auto simp del: upt_Suc elim!: returns_mono)
  next
    case False
    with prems Suc.IH [of pos "Suc i" vs] show ?thesis
      unfolding up step by (auto simp del: upt_Suc elim!: returns_mono)
  qed
qed

text \<open>
  The scan of the supported-types byte never writes past the version table: it counts the bits
  that are set and lists their positions in ascending order.
\<close>

theorem getbitposition_lists_bits:
  assumes "length (versionInfo p) = 8"
  shows "returns (getbitposition num p) (\<lambda>(r, p'). r = PLDM_SUCCESS \<and> length (versionInfo p') = 8
    \<and> unat (totalSupportedTypes p') = card {i. i < 8 \<and> bit num i}
    \<and> map ver_type (take (unat (totalSupportedTypes p')) (versionInfo p')) = map word_of_nat (filter (bit num) [0..<8]))"
proof -
  have len: "length (filter (bit num) [0..<8]) \<le> 8"
    using length_filter_le [of "bit num" "[0..<8]"] by simp
  have "card {i. i < 8 \<and> bit num i} = length (filter (bit num) [0..<8])"
    by (simp add: length_filter_conv_card) (rule arg_cong [of _ _ card], auto)
  with len show ?thesis
    using bit_loop_ok [of 0 num 0 8 "versionInfo p"] assms
    by (auto simp: getbitposition_def Let_def unat_of_nat elim!: returns_mono)
qed

lemma find_version_ok:
  "n \<le> length vs \<Longrightarrow> find_version ty n vs = Done (first_index (\<lambda>v. ver_type v = ty) (take n vs))"
proof -
  assume n: "n \<le> length vs"
  then have "find_version ty (length (take n vs)) vs = Done (map_option (\<lambda>j. 0 + j) (first_index (\<lambda>v. ver_type v = ty) (take n vs)))"
    unfolding find_version_def by (intro find_loop_list) auto
  with n show ?thesis
    by (simp add: option.map_ident)
qed

section \<open>Each command keeps its contract\<close>

definition types_are :: "u8 \<Rightarrow> u8 list \<Rightarrow> 'a pldm_scheme \<Rightarrow> bool" where
  "types_are n tys p = (length (versionInfo p) = 8 \<and> unat n \<le> 8 \<and> totalSupportedTypes p = n \<and> map ver_type (versionInfo p) = tys)"

lemma check_completion_keeps:
  assumes "pldm_ok p"
  shows "returns (check_completion p) (\<lambda>(r, p'). quiet p p' \<and> versionInfo p' = versionInfo p
    \<and> totalSupportedTypes p' = totalSupportedTypes p)"
  by (rule returns_mono [OF check_completion_quiet [OF assms]]) auto

lemma read_payload_ok: "pldm_ok p \<Longrightarrow> i < PAYLOAD_SIZE \<Longrightarrow> returns (read_payload i p) (\<lambda>_. True)"
  by (auto simp: read_payload_def pldm_ok_def)

lemma GetVersionPayload_quiet:
  assumes "pldm_ok p" "n \<le> PAYLOAD_SIZE"
  shows "returns (pldmDiscoveryGetVersionPayload ty n p) (\<lambda>p'. quiet p p' \<and> (\<exists>w. p' = p\<lparr>mI2cPldmWrite := w\<rparr>))"
  unfolding pldmDiscoveryGetVersionPayload_def
  by (rule fill_payload_quiet [OF assms(1)]) (use assms(2) in \<open>simp add: PAYLOAD_SIZE_def\<close>)

lemma GetCmdPayload_quiet:
  assumes "pldm_ok p" "n \<le> PAYLOAD_SIZE" "unat (totalSupportedTypes p) \<le> length (versionInfo p)"
  shows "returns (pldmDiscoveryGetCmdPayload ty n p) (\<lambda>p'. quiet p p' \<and> (\<exists>w. p' = p\<lparr>mI2cPldmWrite := w\<rparr>))"
  unfolding pldmDiscoveryGetCmdPayload_def
  by (rule fill_payload_quiet [OF assms(1)])
    (use assms(2) in \<open>simp add: PAYLOAD_SIZE_def find_version_ok [OF assms(3)] split: option.split, arith\<close>)

lemma FillPayload_quiet:
  assumes "pldm_ok p" "n \<le> PAYLOAD_SIZE"
  shows "returns (pldmDiscoveryFillPayload cmd n p) (\<lambda>(r, p'). quiet p p' \<and> (\<exists>w. p' = p\<lparr>mI2cPldmWrite := w\<rparr>))"
proof -
  have tid: "returns (fill_payload (\<lambda>q. obind (put_byte q 0 t) (\<lambda>q. put_crc q 1 (n - 1))) p)
      (\<lambda>p'. quiet p p' \<and> (\<exists>w. p' = p\<lparr>mI2cPldmWrite := w\<rparr>))" for t
    by (rule fill_payload_quiet [OF assms(1)]) (use assms(2) in \<open>simp add: PAYLOAD_SIZE_def\<close>)
  have clear: "returns (fill_payload (\<lambda>q. obind (clear_payload q n) (\<lambda>q. put_crc q 0 (n - 1))) p)
      (\<lambda>p'. quiet p p' \<and> (\<exists>w. p' = p\<lparr>mI2cPldmWrite := w\<rparr>))"
    by (rule fill_payload_quiet [OF assms(1)]) (use assms(2) in \<open>simp add: PAYLOAD_SIZE_def\<close>)
  have self: "\<exists>w. p = p\<lparr>mI2cPldmWrite := w\<rparr>"
    by (rule exI [of _ "mI2cPldmWrite p"]) simp
  show ?thesis
    using tid clear self quiet_refl [OF assms(1)] by (simp add: pldmDiscoveryFillPayload_def del: obind_assoc)
qed

lemma discovery_payload_quiet:
  assumes "pldm_ok p" "n \<le> PAYLOAD_SIZE" "cmd = PLDM_GETCOMMANDS \<longrightarrow> unat (totalSupportedTypes p) \<le> length (versionInfo p)"
  shows "returns (discovery_payload cmd n ty p) (\<lambda>(r, p'). quiet p p' \<and> (\<exists>w. p' = p\<lparr>mI2cPldmWrite := w\<rparr>))"
  using assms GetVersionPayload_quiet [OF assms(1,2)] GetCmdPayload_quiet [OF assms(1,2)] FillPayload_quiet [OF assms(1,2)]
  by (auto simp: discovery_payload_def)

lemma types_are_write [simp]: "types_are n tys (p\<lparr>mI2cPldmWrite := w\<rparr>) = types_are n tys p"
  by (simp add: types_are_def)

lemma types_are_stable [simp]:
  "types_are n tys (p\<lparr>i2cobj := d\<rparr>) = types_are n tys p"
  "types_are n tys (p\<lparr>mI2cPldmRead := r\<rparr>) = types_are n tys p"
  "types_are n tys (p\<lparr>pldm_instanceID := i\<rparr>) = types_are n tys p"
  "types_are n tys (p\<lparr>tid := t\<rparr>) = types_are n tys p"
  by (simp_all add: types_are_def)

lemma getbitposition_quiet:
  assumes "length (versionInfo p) = 8" "pldm_ok p"
  shows "returns (getbitposition t p) (\<lambda>(r, p'). quiet p p' \<and> length (versionInfo p') = 8 \<and>
    (\<exists>n tys. types_are n tys p'))"
proof -
  have len: "length (filter (bit t) [0..<8]) \<le> 8"
    using length_filter_le [of "bit t" "[0..<8]"] by simp
  then show ?thesis
    using bit_loop_ok [of 0 t 0 8 "versionInfo p"] assms
    by (auto simp: getbitposition_def Let_def unat_of_nat types_are_def quiet_def pldm_ok_def mctp_ok_def elim!: returns_mono)
qed

lemma pldm_ok_update [simp]:
  "pldm_ok (p\<lparr>supportedTypes := t\<rparr>) = pldm_ok p"
  "pldm_ok (p\<lparr>tid := t\<rparr>) = pldm_ok p"
  "pldm_ok (p\<lparr>versionInfo := vs\<rparr>) = pldm_ok p"
  by (simp_all add: pldm_ok_def mctp_ok_def)

lemma quiet_update [simp]:
  "quiet p (p'\<lparr>supportedTypes := t\<rparr>) = quiet p p'"
  "quiet p (p'\<lparr>tid := t\<rparr>) = quiet p p'"
  "quiet p (p'\<lparr>versionInfo := vs\<rparr>) = quiet p p'"
  by (simp_all add: quiet_def)

lemma after_completion:
  assumes "pldm_ok p"
    and "\<And>r p'. quiet p p' \<Longrightarrow> versionInfo p' = versionInfo p \<Longrightarrow> totalSupportedTypes p' = totalSupportedTypes p \<Longrightarrow> Q (r, p')"
  shows "returns (check_completion p) Q"
  by (rule returns_mono [OF check_completion_keeps [OF assms(1)]]) (use assms(2) in auto)

lemma gettypes_response:
  assumes "length (versionInfo p) = 8" "pldm_ok p"
  shows "returns (discoveryResponse PLDM_GETTYPES ty i p) (\<lambda>(r, p'). length (versionInfo p') = 8 \<and> quiet p p'
    \<and> (r = PLDM_SUCCESS \<longrightarrow> (\<exists>n tys. types_are n tys p')))"
proof -
  have "returns (read_payload 1 p1) (\<lambda>t. returns (getbitposition t (p1\<lparr>supportedTypes := t\<rparr>))
      (\<lambda>(r, p'). length (versionInfo p') = 8 \<and> quiet p p' \<and> (r = PLDM_SUCCESS \<longrightarrow> (\<exists>n tys. types_are n tys p'))))"
    if p1: "quiet p p1" "length (versionInfo p1) = 8" for p1
  proof (rule returns_mono [OF read_payload_ok])
    show "pldm_ok p1" "1 < PAYLOAD_SIZE" using p1 by (simp_all add: quiet_def PAYLOAD_SIZE_def)
    fix t
    show "returns (getbitposition t (p1\<lparr>supportedTypes := t\<rparr>))
      (\<lambda>(r, p'). length (versionInfo p') = 8 \<and> quiet p p' \<and> (r = PLDM_SUCCESS \<longrightarrow> (\<exists>n tys. types_are n tys p')))"
      using p1 getbitposition_quiet [of "p1\<lparr>supportedTypes := t\<rparr>" t]
      by (auto simp: quiet_def elim!: returns_mono)
  qed
  then show ?thesis
    using assms by (auto simp: discoveryResponse_def disc_cmds PLDM_ERROR_def PLDM_SUCCESS_def intro!: after_completion [where p = p])
qed

lemma list_update_same_map: "f v = f (xs ! k) \<Longrightarrow> map f (xs[k := v]) = map f xs"
  by (cases "k < length xs") (auto intro!: nth_equalityI simp: nth_list_update)

lemma types_find:
  "types_are n tys p \<Longrightarrow> find_version ty (unat (totalSupportedTypes p)) (versionInfo p)
     = Done (first_index (\<lambda>v. ver_type v = ty) (take (unat n) (versionInfo p)))"
  by (auto simp: types_are_def find_version_ok)

lemma types_are_versions:
  "types_are n tys p \<Longrightarrow> types_are n tys (p\<lparr>versionInfo := (versionInfo p)[k := (versionInfo p ! k)
     \<lparr>ver_major := a, ver_minor := b, ver_update := c, ver_alpha := d\<rparr>]\<rparr>)"
  by (auto simp: types_are_def list_update_same_map)

lemma typed_response:
  assumes "types_are n tys p" "pldm_ok p" "cmd \<noteq> PLDM_GETTYPES"
  shows "returns (discoveryResponse cmd ty i p) (\<lambda>(r, p'). types_are n tys p' \<and> quiet p p')"
proof -
  have checked: "returns (check_completion p) Q" if "\<And>r p'. quiet p p' \<Longrightarrow> types_are n tys p' \<Longrightarrow> Q (r, p')" for Q
    using assms that by (auto simp: types_are_def intro!: after_completion)
  have payload: "returns (read_payload i p1) Q" if "quiet p p1" "\<And>t. Q t" "i < PAYLOAD_SIZE" for i p1 Q
    using that by (auto simp: quiet_def intro: returns_mono [OF read_payload_ok])
  show ?thesis
    using assms
    by (auto simp: discoveryResponse_def PAYLOAD_SIZE_def quiet_refl types_find
        intro!: checked payload types_are_versions split: option.split)
qed

text \<open>The first command finds the number of types, the others rely on it.\<close>

interpretation gettypes: pldm_exchange "discovery_payload PLDM_GETTYPES n ty" "discoveryResponse PLDM_GETTYPES ty"
  "\<lambda>p. n \<le> PAYLOAD_SIZE \<and> length (versionInfo p) = 8" "\<lambda>_. True" "\<lambda>p. \<exists>n tys. types_are n tys p" for n ty
proof unfold_locales
  fix i and p :: "'a pldm_scheme"
  assume p: "n \<le> PAYLOAD_SIZE \<and> length (versionInfo p) = 8" "pldm_ok p"
  show "returns (discovery_payload PLDM_GETTYPES n ty p) (\<lambda>(r, p'). (n \<le> PAYLOAD_SIZE \<and> length (versionInfo p') = 8) \<and> quiet p p')"
    using p discovery_payload_quiet [of p n PLDM_GETTYPES ty] by (auto simp: disc_cmds elim!: returns_mono)
  show "returns (discoveryResponse PLDM_GETTYPES ty i p) (\<lambda>(r, p'). (n \<le> PAYLOAD_SIZE \<and> length (versionInfo p') = 8) \<and> quiet p p'
      \<and> (r = PLDM_SUCCESS \<longrightarrow> (\<exists>n tys. types_are n tys p')))"
    using p gettypes_response [of p ty i] by (auto elim!: returns_mono)
qed (auto dest!: pldm_send_only pldm_receive_only)

interpretation typed: pldm_exchange "discovery_payload cmd n ty" "discoveryResponse cmd ty"
  "\<lambda>p. cmd \<noteq> PLDM_GETTYPES \<and> n \<le> PAYLOAD_SIZE \<and> types_are m tys p" "\<lambda>_. True" "\<lambda>_. True" for cmd n ty m tys
proof unfold_locales
  fix i and p :: "'a pldm_scheme"
  assume p: "cmd \<noteq> PLDM_GETTYPES \<and> n \<le> PAYLOAD_SIZE \<and> types_are m tys p" "pldm_ok p"
  then have "unat (totalSupportedTypes p) \<le> length (versionInfo p)"
    by (auto simp: types_are_def)
  then show "returns (discovery_payload cmd n ty p) (\<lambda>(r, p'). (cmd \<noteq> PLDM_GETTYPES \<and> n \<le> PAYLOAD_SIZE \<and> types_are m tys p') \<and> quiet p p')"
    using p discovery_payload_quiet [of p n cmd ty] by (auto elim!: returns_mono)
  show "returns (discoveryResponse cmd ty i p) (\<lambda>(r, p'). (cmd \<noteq> PLDM_GETTYPES \<and> n \<le> PAYLOAD_SIZE \<and> types_are m tys p') \<and> quiet p p'
      \<and> (r = PLDM_SUCCESS \<longrightarrow> True))"
    using p typed_response [of m tys p cmd ty i] by (auto elim!: returns_mono)
qed (auto dest!: pldm_send_only pldm_receive_only)

interpretation oem: pldm_exchange "oem_payload 12" "oemVrsyncResp cmd" "\<lambda>_. True" "\<lambda>_. True" "\<lambda>_. True" for cmd
proof unfold_locales
  fix i and p :: "'a pldm_scheme"
  assume p: "pldm_ok p"
  then have "returns (fill_payload (\<lambda>q. obind (clear_payload q 12) (\<lambda>q. put_crc q 0 (12 - 1))) p) (\<lambda>p'. quiet p p' \<and> (\<exists>w. p' = p\<lparr>mI2cPldmWrite := w\<rparr>))"
    by (rule fill_payload_quiet) (simp add: PAYLOAD_SIZE_def)
  then show "returns (oem_payload 12 p) (\<lambda>(r, p'). True \<and> quiet p p')"
    by (auto simp: oem_payload_def elim!: returns_mono)
  show "returns (oemVrsyncResp cmd i p) (\<lambda>(r, p'). True \<and> quiet p p' \<and> (r = PLDM_SUCCESS \<longrightarrow> True))"
    using p by (auto simp: oemVrsyncResp_def quiet_refl intro: after_completion [OF p])
qed auto

interpretation reset: pldm_exchange reset_payload reset_response "\<lambda>_. True" "\<lambda>_. True" "\<lambda>_. True"
proof unfold_locales
  fix i and p :: "'a pldm_scheme"
  assume p: "pldm_ok p"
  then have "returns (fill_payload (\<lambda>q. put_bytes q 0 (bytes_of_u16 PLDM_STATE_EFFECTER_AIC_RESET @ [1, 0x01, 0x02])) p)
      (\<lambda>p'. quiet p p' \<and> (\<exists>w. p' = p\<lparr>mI2cPldmWrite := w\<rparr>))"
    by (rule fill_payload_quiet) (simp add: PAYLOAD_SIZE_def)
  then show "returns (reset_payload p) (\<lambda>(r, p'). True \<and> quiet p p')"
    by (auto simp: reset_payload_def elim!: returns_mono)
  show "returns (reset_response i p) (\<lambda>(r, p'). True \<and> quiet p p' \<and> (r = PLDM_SUCCESS \<longrightarrow> True))"
    using p by (auto simp: reset_response_def quiet_refl PAYLOAD_SIZE_def elim!: pldm_okE)
qed auto

section \<open>What a discovery sends\<close>

text \<open>The commands of a discovery of a card that supports the types \<open>tys\<close>: no command list is asked for type 7.\<close>

definition disc_commands :: "u8 list \<Rightarrow> (u8 \<times> u8) list" where
  "disc_commands tys = map (Pair PLDM_MESSAGE_DISCOVERY)
     (PLDM_GETTYPES # map (\<lambda>_. PLDM_GETVERSION) tys @ map (\<lambda>_. PLDM_GETCOMMANDS) (filter (\<lambda>t. t \<noteq> 7) tys) @ [PLDM_GETTID, PLDM_SETTID])"

text \<open>\<open>pldm_sends p cs Q c\<close>: the call returns, what it sends is a prefix of \<open>cs\<close>, and when it succeeds it has sent all of it and \<open>Q\<close> holds.\<close>

definition sends :: "'a pldm_scheme \<Rightarrow> (u8 \<times> u8) list \<Rightarrow> ('a pldm_scheme \<Rightarrow> bool) \<Rightarrow> (u8 \<times> 'a pldm_scheme) outcome \<Rightarrow> bool" where
  "sends p cs Q c = returns c (\<lambda>(r, p'). (\<exists>k. pldm_sent p (take k cs) p') \<and> (r = PLDM_SUCCESS \<longrightarrow> pldm_sent p cs p' \<and> Q p'))"

lemma sends_Done: "pldm_ok p \<Longrightarrow> Q p \<Longrightarrow> sends p [] Q (Done (PLDM_SUCCESS, p))"
  by (simp add: sends_def pldm_sent_refl)

lemma sends_then:
  assumes "sends p cs Q c" and "\<And>p'. pldm_sent p cs p' \<Longrightarrow> Q p' \<Longrightarrow> sends p' ds S (f p')"
  shows "sends p (cs @ ds) S (obind c (\<lambda>(ret, p). if ret \<noteq> PLDM_SUCCESS then Done (PLDM_ERROR, p) else f p))"
proof -
  have err: "PLDM_ERROR \<noteq> PLDM_SUCCESS"
    by (simp add: PLDM_ERROR_def PLDM_SUCCESS_def)
  have early: "\<exists>k. pldm_sent p (take k (cs @ ds)) p'" if "pldm_sent p (take k cs) p'" for p' k
    using that by (intro exI [of _ "min k (length cs)"]) (cases "k \<le> length cs"; simp)
  have later: "\<exists>k. pldm_sent p (take k (cs @ ds)) p''" if "pldm_sent p cs p'" "pldm_sent p' (take k ds) p''" for p' p'' k
    using pldm_sent_trans [OF that] by (intro exI [of _ "length cs + k"]) simp
  have late: "sends p (cs @ ds) S (f p')" if "pldm_sent p cs p'" "Q p'" for p'
    using assms(2) [OF that] that(1) unfolding sends_def
    by (elim returns_mono) (use later pldm_sent_trans in fast)
  show ?thesis
    using assms(1) err early late by (auto simp: sends_def elim!: returns_mono)
qed

lemma null_buffers [simp]: "pldm_ok p \<Longrightarrow> (mI2cPldmRead p = None \<or> mI2cPldmWrite p = None) = False"
  by (auto simp: pldm_ok_def)

lemma discoveryCmd_types:
  assumes "pldm_ok p" "length (versionInfo p) = 8"
  shows "sends p [(PLDM_MESSAGE_DISCOVERY, PLDM_GETTYPES)] (\<lambda>p'. \<exists>n tys. types_are n tys p') (discoveryCmd PLDM_GETTYPES 12 ty p)"
proof -
  have "returns (discoveryCmd PLDM_GETTYPES 12 ty p) (\<lambda>(r, p'). (12 \<le> PAYLOAD_SIZE \<and> length (versionInfo p') = 8)
      \<and> (\<exists>cs. pldm_sent p cs p' \<and> (cs = [] \<or> cs = [(PLDM_MESSAGE_DISCOVERY, PLDM_GETTYPES)])
        \<and> (r = PLDM_SUCCESS \<longrightarrow> cs = [(PLDM_MESSAGE_DISCOVERY, PLDM_GETTYPES)] \<and> (\<exists>n tys. types_are n tys p'))))"
    using gettypes.command_returns [of 12 p PLDM_MESSAGE_DISCOVERY 12 PLDM_GETTYPES ty] assms
    by (simp add: discoveryCmd_def PAYLOAD_SIZE_def PLDM_MESSAGE_DISCOVERY_def PLDM_TYPES_MAX_def word_less_nat_alt)
  then show ?thesis
    by (auto simp: sends_def elim!: returns_mono intro: exI [of _ 0] exI [of _ 1])
qed

lemma discoveryCmd_typed:
  assumes "pldm_ok p" "types_are m tys p" "cmd \<noteq> PLDM_GETTYPES" "11 \<le> unat sz" "unat sz \<le> 128"
  shows "sends p [(PLDM_MESSAGE_DISCOVERY, cmd)] (types_are m tys) (discoveryCmd cmd sz ty p)"
proof -
  have "returns (discoveryCmd cmd sz ty p) (\<lambda>(r, p'). (cmd \<noteq> PLDM_GETTYPES \<and> unat sz \<le> PAYLOAD_SIZE \<and> types_are m tys p')
      \<and> (\<exists>cs. pldm_sent p cs p' \<and> (cs = [] \<or> cs = [(PLDM_MESSAGE_DISCOVERY, cmd)])
        \<and> (r = PLDM_SUCCESS \<longrightarrow> cs = [(PLDM_MESSAGE_DISCOVERY, cmd)] \<and> True)))"
    using typed.command_returns [of cmd "unat sz" m tys p PLDM_MESSAGE_DISCOVERY sz cmd ty] assms
    by (simp add: discoveryCmd_def PAYLOAD_SIZE_def PLDM_MESSAGE_DISCOVERY_def PLDM_TYPES_MAX_def word_less_nat_alt)
  then show ?thesis
    by (auto simp: sends_def elim!: returns_mono intro: exI [of _ 0] exI [of _ 1])
qed

lemma version_loop_sends:
  assumes "pldm_ok p" "types_are m tys p" "i \<le> unat m" "unat m < i + k"
  shows "sends p (map (\<lambda>_. (PLDM_MESSAGE_DISCOVERY, PLDM_GETVERSION)) (drop i (take (unat m) tys))) (types_are m tys) (version_loop k i p)"
  using assms
proof (induction k arbitrary: i p)
  case 0
  then show ?case by simp
next
  case (Suc k)
  have p: "totalSupportedTypes p = m" "length (versionInfo p) = 8" "unat m \<le> 8" "length tys = 8"
    using Suc.prems(2) by (auto simp: types_are_def)
  show ?case
  proof (cases "i < unat m")
    case True
    then have "drop i (take (unat m) tys) = tys ! i # drop (Suc i) (take (unat m) tys)"
      using p by (subst Cons_nth_drop_Suc [symmetric]) auto
    moreover have "sends p ([(PLDM_MESSAGE_DISCOVERY, PLDM_GETVERSION)] @ map (\<lambda>_. (PLDM_MESSAGE_DISCOVERY, PLDM_GETVERSION)) (drop (Suc i) (take (unat m) tys)))
        (types_are m tys) (obind (discoveryCmd PLDM_GETVERSION 18 (ver_type (versionInfo p ! i)) p)
          (\<lambda>(ret, p). if ret \<noteq> PLDM_SUCCESS then Done (PLDM_ERROR, p) else version_loop k (Suc i) p))"
      using Suc.prems True
      by (intro sends_then [OF discoveryCmd_typed] Suc.IH) (auto simp: disc_cmds dest: pldm_sent_ok)
    ultimately show ?thesis
      using True p by simp
  next
    case False
    then show ?thesis
      using Suc.prems p by (simp add: sends_Done)
  qed
qed

lemma commands_loop_sends:
  assumes "pldm_ok p" "types_are m tys p" "i \<le> unat m" "unat m < i + k"
  shows "sends p (map (\<lambda>_. (PLDM_MESSAGE_DISCOVERY, PLDM_GETCOMMANDS)) (filter (\<lambda>t. t \<noteq> 7) (drop i (take (unat m) tys)))) (types_are m tys)
    (commands_loop k i p)"
  using assms
proof (induction k arbitrary: i p)
  case 0
  then show ?case by simp
next
  case (Suc k)
  have p: "totalSupportedTypes p = m" "length (versionInfo p) = 8" "unat m \<le> 8" "length tys = 8" "map ver_type (versionInfo p) = tys"
    using Suc.prems(2) by (auto simp: types_are_def)
  show ?case
  proof (cases "i < unat m")
    case True
    then have "drop i (take (unat m) tys) = tys ! i # drop (Suc i) (take (unat m) tys)" "tys ! i = ver_type (versionInfo p ! i)"
      using p by (subst Cons_nth_drop_Suc [symmetric], simp_all) (metis nth_map less_le_trans)
    moreover have "sends p (map (\<lambda>_. (PLDM_MESSAGE_DISCOVERY, PLDM_GETCOMMANDS)) (filter (\<lambda>t. t \<noteq> 7) (drop (Suc i) (take (unat m) tys))))
        (types_are m tys) (commands_loop k (Suc i) p)"
      using Suc.prems True by (intro Suc.IH) auto
    moreover have "sends p ([(PLDM_MESSAGE_DISCOVERY, PLDM_GETCOMMANDS)]
          @ map (\<lambda>_. (PLDM_MESSAGE_DISCOVERY, PLDM_GETCOMMANDS)) (filter (\<lambda>t. t \<noteq> 7) (drop (Suc i) (take (unat m) tys))))
        (types_are m tys) (obind (discoveryCmd PLDM_GETCOMMANDS 17 (ver_type (versionInfo p ! i)) p)
          (\<lambda>(ret, p). if ret \<noteq> PLDM_SUCCESS then Done (PLDM_ERROR, p) else commands_loop k (Suc i) p))"
      using Suc.prems True
      by (intro sends_then [OF discoveryCmd_typed] Suc.IH) (auto simp: disc_cmds dest: pldm_sent_ok)
    ultimately show ?thesis
      using True p by simp
  next
    case False
    then show ?thesis
      using Suc.prems p by (simp add: sends_Done)
  qed
qed

lemma disc_commands_split:
  "disc_commands tys = [(PLDM_MESSAGE_DISCOVERY, PLDM_GETTYPES)] @ map (\<lambda>_. (PLDM_MESSAGE_DISCOVERY, PLDM_GETVERSION)) tys
     @ map (\<lambda>_. (PLDM_MESSAGE_DISCOVERY, PLDM_GETCOMMANDS)) (filter (\<lambda>t. t \<noteq> 7) tys)
     @ [(PLDM_MESSAGE_DISCOVERY, PLDM_GETTID)] @ [(PLDM_MESSAGE_DISCOVERY, PLDM_SETTID)] @ []"
  by (simp add: disc_commands_def)

lemma after_types_sends:
  assumes "pldm_ok p" "types_are m tys p"
  shows "sends p (map (\<lambda>_. (PLDM_MESSAGE_DISCOVERY, PLDM_GETVERSION)) (take (unat m) tys)
     @ map (\<lambda>_. (PLDM_MESSAGE_DISCOVERY, PLDM_GETCOMMANDS)) (filter (\<lambda>t. t \<noteq> 7) (take (unat m) tys))
     @ [(PLDM_MESSAGE_DISCOVERY, PLDM_GETTID)] @ [(PLDM_MESSAGE_DISCOVERY, PLDM_SETTID)] @ []) (types_are m tys)
    (obind (version_loop 256 0 p) (\<lambda>(ret, p).
     if ret \<noteq> PLDM_SUCCESS then Done (PLDM_ERROR, p)
     else obind (commands_loop 256 0 p) (\<lambda>(ret, p).
     if ret \<noteq> PLDM_SUCCESS then Done (PLDM_ERROR, p)
     else obind (discoveryCmd PLDM_GETTID 12 0 p) (\<lambda>(ret, p).
     if ret \<noteq> PLDM_SUCCESS then Done (PLDM_ERROR, p)
     else obind (discoveryCmd PLDM_SETTID 13 0 p) (\<lambda>(ret, p).
     if ret \<noteq> PLDM_SUCCESS then Done (PLDM_ERROR, p) else Done (PLDM_SUCCESS, p))))))"
proof -
  have m: "0 \<le> unat m" "unat m < 0 + 256"
    using assms(2) by (auto simp: types_are_def)
  have all: "xs = drop 0 xs" for xs :: "u8 list"
    by simp
  show ?thesis
    apply (subst all [of "take (unat m) tys"], rule sends_then [OF version_loop_sends [OF assms m]])
    apply (subst all [of "take (unat m) tys"], rule sends_then [OF commands_loop_sends [OF pldm_sent_ok _ m]], assumption, assumption)
    apply (rule sends_then [OF discoveryCmd_typed [OF pldm_sent_ok]], assumption, assumption, simp add: disc_cmds, simp, simp)
    apply (rule sends_then [OF discoveryCmd_typed [OF pldm_sent_ok]], assumption, assumption, simp add: disc_cmds, simp, simp)
    apply (simp add: sends_Done pldm_sent_ok)
    done
qed

lemma discovery_runs:
  assumes "pldm_ok p" "length (versionInfo p) = 8"
  shows "returns (pldmDiscInitialize p) (\<lambda>(r, p'). \<exists>tys. length tys \<le> 8 \<and> (\<exists>k. pldm_sent p (take k (disc_commands tys)) p')
    \<and> (r = PLDM_SUCCESS \<longrightarrow> pldm_sent p (disc_commands tys) p' \<and> length (versionInfo p') = 8
         \<and> unat (totalSupportedTypes p') = length tys \<and> map ver_type (take (unat (totalSupportedTypes p')) (versionInfo p')) = tys))"
    (is "returns _ ?Q")
proof -
  let ?rest = "\<lambda>p. obind (version_loop 256 0 p) (\<lambda>(ret, p).
     if ret \<noteq> PLDM_SUCCESS then Done (PLDM_ERROR, p)
     else obind (commands_loop 256 0 p) (\<lambda>(ret, p).
     if ret \<noteq> PLDM_SUCCESS then Done (PLDM_ERROR, p)
     else obind (discoveryCmd PLDM_GETTID 12 0 p) (\<lambda>(ret, p).
     if ret \<noteq> PLDM_SUCCESS then Done (PLDM_ERROR, p)
     else obind (discoveryCmd PLDM_SETTID 13 0 p) (\<lambda>(ret, p).
     if ret \<noteq> PLDM_SUCCESS then Done (PLDM_ERROR, p) else Done (PLDM_SUCCESS, p)))))"
  have rest: "returns (?rest p1) ?Q" if p1: "pldm_sent p [(PLDM_MESSAGE_DISCOVERY, PLDM_GETTYPES)] p1" "types_are m tys p1" for p1 m tys
  proof -
    let ?tys = "take (unat m) tys"
    let ?rest_cmds = "map (\<lambda>_. (PLDM_MESSAGE_DISCOVERY, PLDM_GETVERSION)) ?tys
     @ map (\<lambda>_. (PLDM_MESSAGE_DISCOVERY, PLDM_GETCOMMANDS)) (filter (\<lambda>t. t \<noteq> 7) ?tys)
     @ [(PLDM_MESSAGE_DISCOVERY, PLDM_GETTID)] @ [(PLDM_MESSAGE_DISCOVERY, PLDM_SETTID)] @ []"
    have cmds: "disc_commands ?tys = [(PLDM_MESSAGE_DISCOVERY, PLDM_GETTYPES)] @ ?rest_cmds"
      by (rule disc_commands_split)
    have short: "length ?tys \<le> 8"
      using p1(2) by (auto simp: types_are_def)
    have "\<exists>k. pldm_sent p (take k (disc_commands ?tys)) p2" if "pldm_sent p1 (take k ?rest_cmds) p2" for k p2
      unfolding cmds using pldm_sent_trans [OF p1(1) that] by (intro exI [of _ "Suc k"]) simp
    moreover have "pldm_sent p (disc_commands ?tys) p2" if "pldm_sent p1 ?rest_cmds p2" for p2
      unfolding cmds by (rule pldm_sent_trans [OF p1(1) that])
    moreover have "length (versionInfo p2) = 8 \<and> unat (totalSupportedTypes p2) = length ?tys \<and> map ver_type (take (unat (totalSupportedTypes p2)) (versionInfo p2)) = ?tys"
      if "types_are m tys p2" for p2
      using that by (auto simp: types_are_def take_map)
    ultimately show ?thesis
      using after_types_sends [OF pldm_sent_ok [OF p1(1)] p1(2)] short unfolding sends_def
      by (elim returns_mono) fast
  qed
  have fail: "?Q (PLDM_ERROR, p1)" if "pldm_sent p (take k [(PLDM_MESSAGE_DISCOVERY, PLDM_GETTYPES)]) p1" for k p1
  proof -
    have "take (min k 1) (disc_commands []) = take k [(PLDM_MESSAGE_DISCOVERY, PLDM_GETTYPES)]"
      by (cases k) (simp_all add: disc_commands_def)
    with that have "pldm_sent p (take (min k 1) (disc_commands [])) p1"
      by simp
    then show ?thesis
      by (auto simp: PLDM_ERROR_def PLDM_SUCCESS_def intro!: exI [of _ "[]"])
  qed
  have first: "returns (discoveryCmd PLDM_GETTYPES 12 0 p) (\<lambda>(r, p'). (\<exists>k. pldm_sent p (take k [(PLDM_MESSAGE_DISCOVERY, PLDM_GETTYPES)]) p')
      \<and> (r = PLDM_SUCCESS \<longrightarrow> pldm_sent p [(PLDM_MESSAGE_DISCOVERY, PLDM_GETTYPES)] p' \<and> (\<exists>n tys. types_are n tys p')))"
    using discoveryCmd_types [OF assms, of 0] by (simp only: sends_def)
  show ?thesis
    unfolding pldmDiscInitialize_def returns_simps(4)
  proof (rule returns_mono [OF first])
    fix x :: "u8 \<times> 'a pldm_scheme"
    assume "case x of (r, p') \<Rightarrow> (\<exists>k. pldm_sent p (take k [(PLDM_MESSAGE_DISCOVERY, PLDM_GETTYPES)]) p')
      \<and> (r = PLDM_SUCCESS \<longrightarrow> pldm_sent p [(PLDM_MESSAGE_DISCOVERY, PLDM_GETTYPES)] p' \<and> (\<exists>n tys. types_are n tys p'))"
    then obtain r p1 where x: "x = (r, p1)" "\<exists>k. pldm_sent p (take k [(PLDM_MESSAGE_DISCOVERY, PLDM_GETTYPES)]) p1"
        "r = PLDM_SUCCESS \<longrightarrow> pldm_sent p [(PLDM_MESSAGE_DISCOVERY, PLDM_GETTYPES)] p1 \<and> (\<exists>n tys. types_are n tys p1)"
      by (cases x) simp
    have "returns (if r \<noteq> PLDM_SUCCESS then Done (PLDM_ERROR, p1) else ?rest p1) ?Q"
    proof (cases "r = PLDM_SUCCESS")
      case True
      with x rest show ?thesis by auto
    next
      case False
      with x(2) fail show ?thesis by (simp only: simp_thms if_True if_False not_False_eq_True returns_simps) fast
    qed
    with x(1) show "returns (case x of (ret, p) \<Rightarrow> if ret \<noteq> PLDM_SUCCESS then Done (PLDM_ERROR, p) else ?rest p) ?Q"
      by (simp only: prod.case)
  qed
qed

text \<open>
  C23. On a well-formed object the discovery always returns, whatever the card answers: it asks for the
  types, for the version of each supported type, for the commands of each but the file-transfer type,
  and gets and sets the terminus number. It stops early only by failing, and when it succeeds it has
  sent exactly these and the table lists the types.
\<close>

theorem discovery_sequence:
  assumes "pldm_ok p" "length (versionInfo p) = 8"
  shows "returns (pldmDiscInitialize p) (\<lambda>(r, p'). \<exists>tys. length tys \<le> 8 \<and> (\<exists>k. pldm_sent p (take k (disc_commands tys)) p')
    \<and> (r = PLDM_SUCCESS \<longrightarrow> pldm_sent p (disc_commands tys) p' \<and> length (versionInfo p') = 8
         \<and> unat (totalSupportedTypes p') = length tys \<and> map ver_type (take (unat (totalSupportedTypes p')) (versionInfo p')) = tys))"
  using assms by (rule discovery_runs)

lemma sent_cmds_pldm_ok:
  fixes p p' :: "'a pldm_scheme"
  assumes "sent_cmds p cs p'" "pldm_ok p"
  shows "pldm_ok p'" "versionInfo p' = versionInfo p"
proof -
  have more: "mctp.more p' = mctp.more p" and ok: "mctp_ok p'"
    using assms(1) by (simp_all add: sent_cmds_def)
  have "mI2cPldmRead p' = mI2cPldmRead p" "mI2cPldmWrite p' = mI2cPldmWrite p" "pldm_instanceID p' = pldm_instanceID p"
    "versionInfo p' = versionInfo p"
    using more by (cases p, cases p', simp)+
  with ok assms(2) show "pldm_ok p'" "versionInfo p' = versionInfo p"
    by (simp_all add: pldm_ok_def)
qed

lemma card_starts:
  assumes "pldm_ok p" "length (versionInfo p) = 8"
  shows "returns (pldm_initialize p) (\<lambda>(r, p'). pldm_ok p'
    \<and> (r = PLDM_SUCCESS \<longrightarrow> length (versionInfo p') = 8 \<and> unat (totalSupportedTypes p') \<le> 8))"
    (is "returns _ ?Q")
proof -
  have err: "PLDM_ERROR \<noteq> PLDM_SUCCESS"
    by (simp add: PLDM_ERROR_def PLDM_SUCCESS_def)
  obtain d where d: "i2cobj p = Some d" "i2c_init d"
    using assms(1) by (auto simp: pldm_ok_def mctp_ok_def)
  have start: "returns (pldmDiscInitialize p1) ?Q" if "pldm_ok p1" "length (versionInfo p1) = 8" for p1 :: "'a pldm_scheme"
    by (rule returns_mono [OF discovery_runs [OF that]]) (auto dest: pldm_sent_ok)
  have "mctp_ok p"
    using assms(1) by (simp add: pldm_ok_def)
  from mctp_initialize_runs [OF this]
  have "returns (mctp_initialize p) (\<lambda>(r, p'). pldm_ok p' \<and> length (versionInfo p') = 8)"
    by (rule returns_mono) (use assms in \<open>auto dest: sent_cmds_pldm_ok [OF _ assms(1)]\<close>)
  moreover have "returns (obind (pldmDiscInitialize p1) (\<lambda>(ret, p). if ret \<noteq> PLDM_SUCCESS then Done (PLDM_ERROR, p) else Done (PLDM_SUCCESS, p))) ?Q"
    if "pldm_ok p1" "length (versionInfo p1) = 8" for p1 :: "'a pldm_scheme"
    using start [OF that] err by (auto elim!: returns_mono)
  ultimately show ?thesis
    unfolding pldm_initialize_def
    using d err by (auto elim!: returns_mono)
qed

text \<open>
  Starting a card, MCTP first and then the discovery, always returns on a well-formed object and
  keeps it well formed; after a success at most eight types are known.
\<close>

theorem card_start:
  assumes "pldm_ok p" "length (versionInfo p) = 8"
  shows "returns (pldm_initialize p) (\<lambda>(r, p'). pldm_ok p'
    \<and> (r = PLDM_SUCCESS \<longrightarrow> length (versionInfo p') = 8 \<and> unat (totalSupportedTypes p') \<le> 8))"
  using assms by (rule card_starts)

lemma one_command:
  assumes "returns c (\<lambda>(r, p'). I p' \<and> (\<exists>cs. pldm_sent p cs p' \<and> (cs = [] \<or> cs = [x]) \<and> (r = PLDM_SUCCESS \<longrightarrow> cs = [x] \<and> J p')))"
  shows "sends p [x] J c"
  unfolding sends_def by (rule returns_mono [OF assms]) (auto intro: exI [of _ 0] exI [of _ 1])

lemma oem_and_reset_send:
  assumes "pldm_ok p"
  shows "sends p [(PLDM_OEM_SPECIFIC, cmd)] (\<lambda>_. True) (oemVrsyncCmd cmd p)
    \<and> sends p [(PLDM_PLATFORM_MONITORING, PLDM_SET_STATE_EFFECTER_STATES)] (\<lambda>_. True) (amcGpuReset p)"
  using oem.command_returns [OF _ assms, of PLDM_OEM_SPECIFIC 12 cmd]
    reset.command_returns [OF _ assms, of PLDM_PLATFORM_MONITORING 17 PLDM_SET_STATE_EFFECTER_STATES]
  by (intro conjI one_command [where I = "\<lambda>_. True"]) (simp_all add: oemVrsyncCmd_def amcGpuReset_def pldm_types PLDM_TYPES_MAX_def word_less_nat_alt)

text \<open>
  The OEM commands and the GPU reset always return on a well-formed object; they send at most one
  frame, with their type and command, and have sent it when they succeed.
\<close>

theorem oem_and_reset_commands:
  assumes "pldm_ok p"
  shows "sends p [(PLDM_OEM_SPECIFIC, cmd)] (\<lambda>_. True) (oemVrsyncCmd cmd p)
    \<and> sends p [(PLDM_PLATFORM_MONITORING, PLDM_SET_STATE_EFFECTER_STATES)] (\<lambda>_. True) (amcGpuReset p)"
  using assms by (rule oem_and_reset_send)

end
