(* ===== verification/Amc_Fru.thy ===== *)
theory Amc_Fru
  imports Amc_Discovery
begin

text \<open>
  Field-replaceable-unit data (\<^verbatim>\<open>pldm_fru.cpp\<close>, \<^verbatim>\<open>pldm_fru_resp.cpp\<close>, \<^verbatim>\<open>pldm_fru_helper.cpp\<close>): fetching the
  record table in parts, parsing its records, and the two queries. A \<^verbatim>\<open>char\<close> array is its list of bytes;
  a loop that the code does not bound takes a number of rounds and is \<open>Stuck\<close> when they are used up.
\<close>

section \<open>Data\<close>

definition PLDM_GET_FRU_RECORD_TABLE_METADATA :: u8 where "PLDM_GET_FRU_RECORD_TABLE_METADATA = 0x01"
definition PLDM_GET_FRU_RECORD_TABLE :: u8 where "PLDM_GET_FRU_RECORD_TABLE = 0x02"
definition FRU_RECORD_ENCODING_TYPE_UTF16 :: u8 where "FRU_RECORD_ENCODING_TYPE_UTF16 = 0x02"
definition FRU_RECORD_TYPE_GENERAL :: u8 where "FRU_RECORD_TYPE_GENERAL = 0x01"
definition FRU_RECORD_TYPE_OEM :: u8 where "FRU_RECORD_TYPE_OEM = 0xFE"
definition FRU_DATA_MAX_LENGTH :: nat where "FRU_DATA_MAX_LENGTH = 255"
definition FRU_MAX_OTHER_INFO_RECORDS :: u8 where "FRU_MAX_OTHER_INFO_RECORDS = 10"

record timestamp104 =
  timeResolution :: "4 word"
  utcResolution :: "4 word"
  year :: u16
  month :: u8
  day :: u8
  hour :: u8
  minute :: u8
  second :: u8
  microsecond :: "u8 list"
  utcOffset :: u16

record fruTable =
  genChassisType :: "u8 list"
  genModel :: "u8 list"
  genPartNum :: "u8 list"
  genSerialNum :: "u8 list"
  genManufacturer :: "u8 list"
  genManufacturerDate :: timestamp104
  genVendor :: "u8 list"
  genName :: "u8 list"
  genSku :: "u8 list"
  genVersion :: "u8 list"
  genAssetTag :: "u8 list"
  genDesc :: "u8 list"
  genEngChangeLevel :: "u8 list"
  genOtherInfo :: "u8 list list"
  genOtherInfoCount :: u8
  genVendorIana :: u32
  genSparePartNum :: "u8 list"
  oemVendorIana :: u32
  oemSlaveAddr :: u8
  oemSmbusFreq :: u16
  oemHWArbitrationOptIn :: u16

record fruTableMetadata =
  fruDataMajorVersion :: u8
  fruDataMinorVersion :: u8
  fruTableMaxSize :: u32
  fruTableLen :: u32
  totalRecordSetIdentifiers :: u16
  totalNumRecords :: u16
  checksum :: u32

record fruTableResponse =
  fru_completionCode :: u8
  nextDataXferHandle :: u32
  xferFlag :: u8
  fruTableData :: "u8 list"

record pldm_fru = pldm +
  fru_dataXferHandle :: u32
  fru_xferOpFlag :: u8
  mFruTableResponse :: fruTableResponse
  mFruMetadata :: fruTableMetadata
  mFruTable :: fruTable
  mFruCurrentDataLength :: u16

text \<open>\<^verbatim>\<open>memset(&mFruTable, 0, ...)\<close>.\<close>

definition zero_timestamp :: timestamp104 where
  "zero_timestamp = \<lparr>timeResolution = 0, utcResolution = 0, year = 0, month = 0, day = 0, hour = 0, minute = 0, second = 0,
     microsecond = [0, 0, 0], utcOffset = 0\<rparr>"

definition zero_chars :: "u8 list" where
  "zero_chars = replicate FRU_DATA_MAX_LENGTH 0"

definition zero_table :: fruTable where
  "zero_table = \<lparr>genChassisType = zero_chars, genModel = zero_chars, genPartNum = zero_chars, genSerialNum = zero_chars,
     genManufacturer = zero_chars, genManufacturerDate = zero_timestamp, genVendor = zero_chars, genName = zero_chars,
     genSku = zero_chars, genVersion = zero_chars, genAssetTag = zero_chars, genDesc = zero_chars,
     genEngChangeLevel = zero_chars, genOtherInfo = replicate 10 zero_chars, genOtherInfoCount = 0, genVendorIana = 0,
     genSparePartNum = zero_chars, oemVendorIana = 0, oemSlaveAddr = 0, oemSmbusFreq = 0, oemHWArbitrationOptIn = 0\<rparr>"

section \<open>Strings\<close>

text \<open>
  \<^verbatim>\<open>STRNCPY_S(dest, src, n)\<close> is \<^verbatim>\<open>snprintf(dest, n, "%s", src)\<close>: at most \<open>n - 1\<close> characters of \<open>src\<close> up to its
  first NUL, then a NUL; nothing when \<open>n\<close> is zero.
\<close>

definition cstr :: "u8 list \<Rightarrow> u8 list" where
  "cstr s = takeWhile (\<lambda>c. c \<noteq> 0) s"

definition STRNCPY_S :: "u8 list \<Rightarrow> u8 list \<Rightarrow> nat \<Rightarrow> u8 list outcome" where
  "STRNCPY_S dest src n = (if n = 0 then Done dest else put_bytes dest 0 (take (n - 1) (cstr src) @ [0]))"

text \<open>The two statements that store a decoded text into a field.\<close>

definition store_text :: "u8 list \<Rightarrow> nat \<Rightarrow> u8 list \<Rightarrow> u8 list outcome" where
  "store_text txt safeLength dest = obind (STRNCPY_S dest txt safeLength) (\<lambda>d. put_byte d safeLength 0)"

section \<open>Parsing\<close>

definition parseTimestamp104 :: "u8 list \<Rightarrow> u8 \<Rightarrow> timestamp104 \<Rightarrow> (bool \<times> timestamp104) outcome" where
  "parseTimestamp104 d fieldLength t =
     (if fieldLength \<noteq> 13 then Done (False, zero_timestamp)
      else obind (get_bytes d 0 12) (\<lambda>b.
        Done (True, t\<lparr>utcOffset := le16 (b ! 0) (b ! 1), microsecond := [b ! 4, b ! 3, b ! 2], second := b ! 5,
          minute := b ! 6, hour := b ! 7, day := b ! 8, month := b ! 9, year := le16 (b ! 10) (b ! 11)\<rparr>)))"

text \<open>The UTF-16 loop: its index is a byte, so that it wraps around.\<close>

primrec utf16_loop :: "nat \<Rightarrow> u8 \<Rightarrow> u8 \<Rightarrow> u8 list \<Rightarrow> u8 list \<Rightarrow> u8 list outcome" where
  "utf16_loop 0 i fieldLength d acc = Stuck"
| "utf16_loop (Suc k) i fieldLength d acc =
     (if i < fieldLength then
        obind (if unat i + 1 < unat fieldLength then
            obind (get_byte d (unat i)) (\<lambda>a. obind (get_byte d (unat i + 1)) (\<lambda>b.
              Done (acc @ [if le16 a b < 128 then ucast (le16 a b) else 0x3F])))
          else Done acc) (\<lambda>acc. utf16_loop k (i + 2) fieldLength d acc)
      else Done acc)"

definition decode_text :: "nat \<Rightarrow> u8 \<Rightarrow> u8 \<Rightarrow> u8 list \<Rightarrow> u8 list outcome" where
  "decode_text rounds encodingType fieldLength d =
     (if encodingType = FRU_RECORD_ENCODING_TYPE_UTF16 then utf16_loop rounds 0 fieldLength d []
      else get_bytes d 0 (unat fieldLength))"

definition parse_other_info :: "u8 list \<Rightarrow> nat \<Rightarrow> fruTable \<Rightarrow> (u8 \<times> fruTable) outcome" where
  "parse_other_info txt safeLength t =
     (if genOtherInfoCount t < FRU_MAX_OTHER_INFO_RECORDS then
        (let idx = unat (genOtherInfoCount t) in
         obind (if idx < length (genOtherInfo t) then store_text txt safeLength (genOtherInfo t ! idx) else Fault) (\<lambda>s.
           Done (PLDM_SUCCESS, t\<lparr>genOtherInfo := (genOtherInfo t)[idx := s], genOtherInfoCount := genOtherInfoCount t + 1\<rparr>)))
      else Done (PLDM_SUCCESS, t))"

text \<open>\<^verbatim>\<open>memcpy\<close> of at most the size of an integer over its bytes.\<close>

definition copy_u32 :: "u32 \<Rightarrow> u8 \<Rightarrow> u8 list \<Rightarrow> u32 outcome" where
  "copy_u32 old fieldLength d = obind (get_bytes d 0 (min (unat fieldLength) 4)) (\<lambda>b.
     case b @ drop (length b) (bytes_of_u32 old) of [b0, b1, b2, b3] \<Rightarrow> Done (le32 b0 b1 b2 b3) | _ \<Rightarrow> Fault)"

definition copy_u16 :: "u16 \<Rightarrow> u8 \<Rightarrow> u8 list \<Rightarrow> u16 outcome" where
  "copy_u16 old fieldLength d = obind (get_bytes d 0 (min (unat fieldLength) 2)) (\<lambda>b.
     case b @ drop (length b) (bytes_of_u16 old) of [b0, b1] \<Rightarrow> Done (le16 b0 b1) | _ \<Rightarrow> Fault)"

definition parse_general :: "u8 \<Rightarrow> u8 list \<Rightarrow> nat \<Rightarrow> u8 \<Rightarrow> u8 list \<Rightarrow> fruTable \<Rightarrow> (u8 \<times> fruTable) outcome" where
  "parse_general fieldType txt safeLength fieldLength d t =
     (let store = store_text txt safeLength; ok = (\<lambda>t. Done (PLDM_SUCCESS, t)) in
      if fieldType = 0x01 then obind (store (genChassisType t)) (\<lambda>s. ok (t\<lparr>genChassisType := s\<rparr>))
      else if fieldType = 0x02 then obind (store (genModel t)) (\<lambda>s. ok (t\<lparr>genModel := s\<rparr>))
      else if fieldType = 0x03 then obind (store (genPartNum t)) (\<lambda>s. ok (t\<lparr>genPartNum := s\<rparr>))
      else if fieldType = 0x04 then obind (store (genSerialNum t)) (\<lambda>s. ok (t\<lparr>genSerialNum := s\<rparr>))
      else if fieldType = 0x05 then obind (store (genManufacturer t)) (\<lambda>s. ok (t\<lparr>genManufacturer := s\<rparr>))
      else if fieldType = 0x06 then
        obind (parseTimestamp104 d fieldLength (genManufacturerDate t)) (\<lambda>(_, ts). ok (t\<lparr>genManufacturerDate := ts\<rparr>))
      else if fieldType = 0x07 then obind (store (genVendor t)) (\<lambda>s. ok (t\<lparr>genVendor := s\<rparr>))
      else if fieldType = 0x08 then obind (store (genName t)) (\<lambda>s. ok (t\<lparr>genName := s\<rparr>))
      else if fieldType = 0x09 then obind (store (genSku t)) (\<lambda>s. ok (t\<lparr>genSku := s\<rparr>))
      else if fieldType = 0x0A then obind (store (genVersion t)) (\<lambda>s. ok (t\<lparr>genVersion := s\<rparr>))
      else if fieldType = 0x0B then obind (store (genAssetTag t)) (\<lambda>s. ok (t\<lparr>genAssetTag := s\<rparr>))
      else if fieldType = 0x0C then obind (store (genDesc t)) (\<lambda>s. ok (t\<lparr>genDesc := s\<rparr>))
      else if fieldType = 0x0D then obind (store (genEngChangeLevel t)) (\<lambda>s. ok (t\<lparr>genEngChangeLevel := s\<rparr>))
      else if fieldType = 0x0E then parse_other_info txt safeLength t
      else if fieldType = 0x0F then obind (copy_u32 (genVendorIana t) fieldLength d) (\<lambda>w. ok (t\<lparr>genVendorIana := w\<rparr>))
      else if fieldType = 0x10 then obind (store (genSparePartNum t)) (\<lambda>s. ok (t\<lparr>genSparePartNum := s\<rparr>))
      else Done (PLDM_ERROR, t))"

definition parse_oem :: "u8 \<Rightarrow> u8 \<Rightarrow> u8 list \<Rightarrow> fruTable \<Rightarrow> (u8 \<times> fruTable) outcome" where
  "parse_oem fieldType fieldLength d t =
     (let ok = (\<lambda>t. Done (PLDM_SUCCESS, t)) in
      if fieldType = 0x01 then obind (copy_u32 (oemVendorIana t) fieldLength d) (\<lambda>w. ok (t\<lparr>oemVendorIana := w\<rparr>))
      else if fieldType = 0x02 then
        obind (get_bytes d 0 (min (unat fieldLength) 1)) (\<lambda>b. ok (t\<lparr>oemSlaveAddr := hd (b @ [oemSlaveAddr t])\<rparr>))
      else if fieldType = 0x03 then obind (copy_u16 (oemSmbusFreq t) fieldLength d) (\<lambda>w. ok (t\<lparr>oemSmbusFreq := w\<rparr>))
      else if fieldType = 0x04 then
        obind (copy_u16 (oemHWArbitrationOptIn t) fieldLength d) (\<lambda>w. ok (t\<lparr>oemHWArbitrationOptIn := w\<rparr>))
      else Done (PLDM_ERROR, t))"

definition parseFruField :: "nat \<Rightarrow> u8 list \<Rightarrow> u8 \<Rightarrow> u8 \<Rightarrow> u8 \<Rightarrow> u8 \<Rightarrow> fruTable \<Rightarrow> (u8 \<times> fruTable) outcome" where
  "parseFruField rounds d fieldType recordType encodingType fieldLength t =
     (if fieldLength = 0 then Done (PLDM_SUCCESS, t)
      else obind (decode_text rounds encodingType fieldLength d) (\<lambda>txt.
        let safeLength = (if length txt < FRU_DATA_MAX_LENGTH - 1 then length txt else FRU_DATA_MAX_LENGTH - 1) in
        if recordType = FRU_RECORD_TYPE_GENERAL then parse_general fieldType txt safeLength fieldLength d t
        else if recordType = FRU_RECORD_TYPE_OEM then parse_oem fieldType fieldLength d t
        else Done (PLDM_ERROR, t)))"

text \<open>The fields of one record from \<open>offset\<close>; \<open>n\<close> are left. The status is the one \<^verbatim>\<open>parseFruTable\<close> returns early with.\<close>

primrec parse_fields :: "nat \<Rightarrow> nat \<Rightarrow> u8 list \<Rightarrow> u8 \<Rightarrow> u8 \<Rightarrow> nat \<Rightarrow> fruTable \<Rightarrow> (u8 \<times> nat \<times> fruTable) outcome" where
  "parse_fields rounds 0 d recordType enc offset t = Done (PLDM_SUCCESS, offset, t)"
| "parse_fields rounds (Suc n) d recordType enc offset t =
     (if length d \<le> offset then Done (PLDM_ERROR, offset, t)
      else obind (get_byte d offset) (\<lambda>fieldType.
        if length d \<le> offset + 1 then Done (PLDM_ERROR, offset + 1, t)
        else obind (get_byte d (offset + 1)) (\<lambda>fieldLength.
          if length d < offset + 2 + unat fieldLength then Done (PLDM_ERROR, offset + 2, t)
          else obind (parseFruField rounds (drop (offset + 2) d) fieldType recordType enc fieldLength t) (\<lambda>(_, t).
            parse_fields rounds n d recordType enc (offset + 2 + unat fieldLength) t))))"

lemma parse_fields_advances: "parse_fields rounds n d ty enc offset t = Done (r, offset', t') \<Longrightarrow> offset \<le> offset'"
proof (induction n arbitrary: offset t)
  case (Suc n)
  then show ?case by (fastforce split: if_splits prod.splits)
qed simp

function parse_records :: "nat \<Rightarrow> u8 list \<Rightarrow> nat \<Rightarrow> fruTable \<Rightarrow> (u8 \<times> fruTable) outcome" where
  "parse_records rounds d offset t =
     (if offset < length d then
        if length d < offset + 5 then Done (PLDM_SUCCESS, t)
        else obind (parse_fields rounds (unat (d ! (offset + 3))) d (d ! (offset + 2)) (d ! (offset + 4)) (offset + 5) t)
          (\<lambda>(ret, offset', t). if ret \<noteq> PLDM_SUCCESS then Done (PLDM_ERROR, t) else parse_records rounds d offset' t)
      else Done (PLDM_SUCCESS, t))"
  by pat_completeness auto

termination
  by (relation "measure (\<lambda>(rounds, d, offset, t). length d - offset)") (auto dest!: parse_fields_advances)

declare parse_records.simps [simp del]

definition parseFruTable :: "nat \<Rightarrow> u8 list \<Rightarrow> 'a pldm_fru_scheme \<Rightarrow> (u8 \<times> 'a pldm_fru_scheme) outcome" where
  "parseFruTable rounds d p =
     (if d = [] then Done (PLDM_ERROR, p)
      else let p = p\<lparr>mFruTable := zero_table, mFruTableInitialized := False\<rparr> in
        obind (parse_records rounds d 0 (mFruTable p)) (\<lambda>(ret, t). Done (ret, p\<lparr>mFruTable := t\<rparr>)))"

section \<open>Parsing stays inside the data and the table\<close>

definition table_ok :: "fruTable \<Rightarrow> bool" where
  "table_ok t = ((\<forall>s\<in>set ([genChassisType t, genModel t, genPartNum t, genSerialNum t, genManufacturer t, genVendor t, genName t, genSku t,
       genVersion t, genAssetTag t, genDesc t, genEngChangeLevel t, genSparePartNum t] @ genOtherInfo t). length s = FRU_DATA_MAX_LENGTH)
     \<and> length (genOtherInfo t) = 10 \<and> unat (genOtherInfoCount t) \<le> 10)"

lemma table_ok_zero: "table_ok zero_table"
  by (simp add: table_ok_def zero_table_def zero_chars_def)

lemma store_text_returns:
  assumes "length dest = FRU_DATA_MAX_LENGTH" "n < FRU_DATA_MAX_LENGTH"
  shows "returns (store_text txt n dest) (\<lambda>d. length d = FRU_DATA_MAX_LENGTH)"
  using assms by (auto simp: store_text_def STRNCPY_S_def FRU_DATA_MAX_LENGTH_def)

lemma parse_other_info_returns:
  assumes "table_ok t" "n < FRU_DATA_MAX_LENGTH"
  shows "returns (parse_other_info txt n t) (\<lambda>(r, t'). table_ok t')"
proof (cases "genOtherInfoCount t < FRU_MAX_OTHER_INFO_RECORDS")
  case True
  then have c: "unat (genOtherInfoCount t) < 10"
    by (simp add: FRU_MAX_OTHER_INFO_RECORDS_def word_less_nat_alt)
  then have "unat (genOtherInfoCount t + 1) \<le> 10"
    by (simp add: unat_word_ariths)
  moreover have "length (genOtherInfo t ! unat (genOtherInfoCount t)) = FRU_DATA_MAX_LENGTH"
    using assms(1) c by (auto simp: table_ok_def)
  ultimately show ?thesis
    using True c assms
    by (auto simp: parse_other_info_def Let_def table_ok_def
        intro!: returns_mono [OF store_text_returns] dest!: set_update_subset_insert [THEN subsetD])
qed (use assms in \<open>simp add: parse_other_info_def\<close>)

lemma length_4: "length xs = 4 \<Longrightarrow> \<exists>a b c d. xs = [a, b, c, d]"
  by (auto simp: numeral_eq_Suc length_Suc_conv)

lemma length_2: "length xs = 2 \<Longrightarrow> \<exists>a b. xs = [a, b]"
  by (auto simp: numeral_eq_Suc length_Suc_conv)

lemma copy_u32_returns:
  assumes "unat n \<le> length d"
  shows "returns (copy_u32 old n d) (\<lambda>_. True)"
proof -
  have "length (take (min (unat n) 4) d @ drop (min (unat n) 4) (bytes_of_u32 old)) = 4"
    using assms by simp
  from length_4 [OF this] obtain b0 b1 b2 b3 where "take (min (unat n) 4) d @ drop (min (unat n) 4) (bytes_of_u32 old) = [b0, b1, b2, b3]"
    by blast
  with assms show ?thesis by (simp add: copy_u32_def)
qed

lemma copy_u16_returns:
  assumes "unat n \<le> length d"
  shows "returns (copy_u16 old n d) (\<lambda>_. True)"
proof -
  have "length (take (min (unat n) 2) d @ drop (min (unat n) 2) (bytes_of_u16 old)) = 2"
    using assms by simp
  from length_2 [OF this] obtain b0 b1 where "take (min (unat n) 2) d @ drop (min (unat n) 2) (bytes_of_u16 old) = [b0, b1]"
    by blast
  with assms show ?thesis by (simp add: copy_u16_def)
qed

lemma parse_general_returns:
  assumes "table_ok t" "n < FRU_DATA_MAX_LENGTH" "unat len \<le> length d"
  shows "returns (parse_general ty txt n len d t) (\<lambda>(r, t'). table_ok t')"
proof -
  have store: "returns (store_text txt n dest) Q"
    if "length dest = FRU_DATA_MAX_LENGTH" "\<And>s. length s = FRU_DATA_MAX_LENGTH \<Longrightarrow> Q s" for dest Q
    by (rule returns_mono [OF store_text_returns [OF that(1) assms(2)]]) (rule that(2))
  have stamp: "returns (parseTimestamp104 d len ts) Q" if "\<And>x. Q x" for ts Q
    using that assms(3) by (auto simp: parseTimestamp104_def)
  have copy: "returns (copy_u32 old len d) Q" if "\<And>w. Q w" for old Q
    by (rule returns_mono [OF copy_u32_returns [OF assms(3)]]) (rule that)
  show ?thesis
    using assms(1)
    by (simp add: parse_general_def Let_def parse_other_info_returns [OF assms(1,2)])
      (intro conjI impI store stamp copy; simp add: table_ok_def split: prod.split)
qed

lemma parse_oem_returns:
  assumes "table_ok t" "unat len \<le> length d"
  shows "returns (parse_oem ty len d t) (\<lambda>(r, t'). table_ok t')"
proof -
  have "returns (copy_u32 old len d) Q" "returns (copy_u16 old' len d) Q'" if "\<And>w. Q w" "\<And>w. Q' w" for old old' Q Q'
    using that by (auto intro: returns_mono [OF copy_u32_returns [OF assms(2)]] returns_mono [OF copy_u16_returns [OF assms(2)]])
  then show ?thesis
    using assms by (simp add: parse_oem_def Let_def table_ok_def)
qed

lemma field_after_decode:
  assumes "table_ok t" "unat len \<le> length d"
  shows "decode_text rounds enc len d = Done txt \<Longrightarrow> returns (parseFruField rounds d ty rec enc len t) (\<lambda>(r, t'). table_ok t')"
    and "decode_text rounds enc len d = Stuck \<Longrightarrow> safe (parseFruField rounds d ty rec enc len t) (\<lambda>(r, t'). table_ok t')"
  using assms parse_general_returns [OF assms(1) _ assms(2)] parse_oem_returns [OF assms]
  by (simp_all add: parseFruField_def Let_def FRU_DATA_MAX_LENGTH_def returns_safe)

lemma utf16_loop_safe: "unat n \<le> length d \<Longrightarrow> safe (utf16_loop k i n d acc) (\<lambda>_. True)"
  by (induction k arbitrary: i acc) auto

text \<open>An index that does not wrap around reaches the end of the field.\<close>

lemma utf16_loop_returns:
  assumes "unat n \<le> length d" "unat n < 255" "unat i \<le> unat n + 1" "unat n < unat i + 2 * k - 1"
  shows "returns (utf16_loop k i n d acc) (\<lambda>_. True)"
  using assms
proof (induction k arbitrary: i acc)
  case 0
  then show ?case by simp
next
  case (Suc k)
  show ?case
  proof (cases "i < n")
    case True
    then have less: "unat i < unat n" by (simp add: word_less_nat_alt)
    with Suc.prems have "unat (i + 2) = unat i + 2"
      by (simp add: unat_word_ariths)
    with Suc.prems less have "returns (utf16_loop k (i + 2) n d acc') (\<lambda>_. True)" for acc'
      by (intro Suc.IH) auto
    with True Suc.prems show ?thesis by simp
  next
    case False
    then show ?thesis by simp
  qed
qed

lemma decode_text_safe: "unat len \<le> length d \<Longrightarrow> safe (decode_text rounds enc len d) (\<lambda>_. True)"
  by (simp add: decode_text_def utf16_loop_safe)

lemma decode_text_returns:
  assumes "unat len \<le> length d" "len \<noteq> 255" "128 \<le> rounds"
  shows "returns (decode_text rounds enc len d) (\<lambda>_. True)"
proof -
  have "unat len \<noteq> unat (255 :: u8)"
    using assms(2) by (simp only: word_unat_eq_iff simp_thms)
  moreover have "unat len < 256"
    using unsigned_less [of len, where ?'a = nat] by simp
  ultimately have "unat len < 255" by simp
  with assms show ?thesis
    by (auto simp: decode_text_def intro!: utf16_loop_returns)
qed

lemma parseFruField_safe:
  assumes "table_ok t" "unat len \<le> length d"
  shows "safe (parseFruField rounds d ty rec enc len t) (\<lambda>(r, t'). table_ok t')"
  using decode_text_safe [OF assms(2), of rounds enc] field_after_decode [OF assms]
  by (cases "decode_text rounds enc len d") (auto intro: returns_safe)

lemma parseFruField_returns:
  assumes "table_ok t" "unat len \<le> length d" "len \<noteq> 255" "128 \<le> rounds"
  shows "returns (parseFruField rounds d ty rec enc len t) (\<lambda>(r, t'). table_ok t')"
  using decode_text_returns [OF assms(2-4), of enc] field_after_decode [OF assms(1,2)]
  by (auto simp: returns_iff)

lemma parse_fields_safe:
  "table_ok t \<Longrightarrow> safe (parse_fields rounds n d ty enc offset t) (\<lambda>(r, offset', t'). table_ok t')"
proof (induction n arbitrary: offset t)
  case (Suc n)
  have "safe (parseFruField rounds (drop (offset + 2) d) (d ! offset) ty enc (d ! (offset + 1)) t)
      (\<lambda>x. safe (case x of (_, t) \<Rightarrow> parse_fields rounds n d ty enc (offset + 2 + unat (d ! (offset + 1))) t) (\<lambda>(r, offset', t'). table_ok t'))"
    if "offset + 2 + unat (d ! (offset + 1)) \<le> length d"
    by (rule safe_mono [OF parseFruField_safe [OF Suc.prems]]) (use that Suc.IH in \<open>auto split: prod.splits\<close>)
  with Suc.prems show ?case by auto
qed simp

lemma parse_fields_returns:
  assumes "table_ok t" "255 \<notin> set d" "128 \<le> rounds"
  shows "returns (parse_fields rounds n d ty enc offset t) (\<lambda>(r, offset', t'). table_ok t')"
  using assms(1)
proof (induction n arbitrary: offset t)
  case (Suc n)
  have len: "d ! (offset + 1) \<noteq> 255" if "offset + 1 < length d"
    using assms(2) that nth_mem by metis
  have "returns (parseFruField rounds (drop (offset + 2) d) (d ! offset) ty enc (d ! (offset + 1)) t)
      (\<lambda>x. returns (case x of (_, t) \<Rightarrow> parse_fields rounds n d ty enc (offset + 2 + unat (d ! (offset + 1))) t) (\<lambda>(r, offset', t'). table_ok t'))"
    if "offset + 2 + unat (d ! (offset + 1)) \<le> length d"
    by (rule returns_mono [OF parseFruField_returns [OF Suc.prems _ len assms(3)]]) (use that Suc.IH in \<open>auto split: prod.splits\<close>)
  with Suc.prems show ?case by auto
qed simp

lemma parse_records_safe: "table_ok t \<Longrightarrow> safe (parse_records rounds d offset t) (\<lambda>(r, t'). table_ok t')"
proof (induction rounds d offset t rule: parse_records.induct)
  case (1 rounds d offset t)
  let ?fields = "parse_fields rounds (unat (d ! (offset + 3))) d (d ! (offset + 2)) (d ! (offset + 4)) (offset + 5) t"
  have "safe ?fields (\<lambda>(r, offset', t'). table_ok t')"
    by (rule parse_fields_safe [OF 1(2)])
  with 1 show ?case
    by (subst parse_records.simps) (cases ?fields, auto)
qed

lemma parse_records_returns:
  "table_ok t \<Longrightarrow> 255 \<notin> set d \<Longrightarrow> 128 \<le> rounds \<Longrightarrow> returns (parse_records rounds d offset t) (\<lambda>(r, t'). table_ok t')"
proof (induction rounds d offset t rule: parse_records.induct)
  case (1 rounds d offset t)
  let ?fields = "parse_fields rounds (unat (d ! (offset + 3))) d (d ! (offset + 2)) (d ! (offset + 4)) (offset + 5) t"
  have "returns ?fields (\<lambda>(r, offset', t'). table_ok t')"
    by (rule parse_fields_returns [OF 1(2-4)])
  with 1 show ?case
    by (subst parse_records.simps) (cases ?fields, auto)
qed

text \<open>
  C25. For any bytes, parsing the FRU table reads no byte outside them and writes none outside the
  fields of the table; and unless some byte is 255 it returns, 128 rounds of the UTF-16 loop being enough.
\<close>

theorem fru_parse_in_bounds:
  "safe (parseFruTable rounds d p) (\<lambda>(r, p'). d \<noteq> [] \<longrightarrow> table_ok (mFruTable p'))
   \<and> (255 \<notin> set d \<longrightarrow> 128 \<le> rounds \<longrightarrow> returns (parseFruTable rounds d p) (\<lambda>(r, p'). d \<noteq> [] \<longrightarrow> table_ok (mFruTable p')))"
proof (cases "d = []")
  case True
  then show ?thesis by (simp add: parseFruTable_def)
next
  case False
  have "safe (parse_records rounds d 0 zero_table) (\<lambda>(r, t'). table_ok t')"
    by (rule parse_records_safe [OF table_ok_zero])
  moreover have "returns (parse_records rounds d 0 zero_table) (\<lambda>(r, t'). table_ok t')" if "255 \<notin> set d" "128 \<le> rounds"
    by (rule parse_records_returns [OF table_ok_zero that])
  ultimately show ?thesis
    using False by (auto simp: parseFruTable_def Let_def elim!: safe_mono returns_mono)
qed

text \<open>
  A UTF-16 field of 255 bytes is never done: the byte index goes from 254 back to 0, so that however
  many rounds the loop is given, parsing a table that has such a field does not return.
\<close>

theorem fru_utf16_never_ends:
  assumes "length field = 255"
  shows "parseFruTable rounds ([0, 0, FRU_RECORD_TYPE_GENERAL, 1, FRU_RECORD_ENCODING_TYPE_UTF16, ty, 255] @ field) p = Stuck"
proof -
  have stuck: "utf16_loop k i 255 field acc = Stuck" if "even (unat i)" for k i acc
    using that
  proof (induction k arbitrary: i acc)
    case (Suc k)
    have "unat i < 255"
      using Suc.prems unsigned_less [of i, where ?'a = nat] by (cases "unat i = 255") auto
    then have "i < 255" by (simp add: word_less_nat_alt)
    moreover have "even (unat (i + 2))"
      using Suc.prems by (simp add: unat_word_ariths dvd_mod_iff)
    ultimately show ?case
      using Suc.IH assms \<open>unat i < 255\<close> by simp
  qed simp
  let ?d = "[0, 0, FRU_RECORD_TYPE_GENERAL, 1, FRU_RECORD_ENCODING_TYPE_UTF16, ty, 255] @ field"
  have "parse_fields rounds (Suc 0) ?d FRU_RECORD_TYPE_GENERAL FRU_RECORD_ENCODING_TYPE_UTF16 5 zero_table = Stuck"
    using stuck [of 0] assms by (simp add: parseFruField_def decode_text_def)
  then have "parse_records rounds ?d 0 zero_table = Stuck"
    using assms by (subst parse_records.simps) simp
  then show ?thesis
    by (simp add: parseFruTable_def Let_def)
qed

section \<open>What parsing means\<close>

text \<open>
  The abstract table: records with an identifier, a type, an encoding and typed fields, and the bytes the
  protocol lays them out as. Its meaning is the effect of its fields, one after the other.
\<close>

record fru_record =
  rec_id :: u16
  rec_type :: u8
  rec_encoding :: u8
  rec_fields :: "(u8 \<times> u8 list) list"

definition field_bytes :: "u8 \<times> u8 list \<Rightarrow> u8 list" where
  "field_bytes f = fst f # word_of_nat (length (snd f)) # snd f"

definition record_bytes :: "fru_record \<Rightarrow> u8 list" where
  "record_bytes r = bytes_of_u16 (rec_id r) @ [rec_type r, word_of_nat (length (rec_fields r)), rec_encoding r]
     @ concat (map field_bytes (rec_fields r))"

definition record_ok :: "fru_record \<Rightarrow> bool" where
  "record_ok r = (length (rec_fields r) < 256 \<and> (\<forall>f\<in>set (rec_fields r). length (snd f) < 256))"

primrec run_fields :: "nat \<Rightarrow> u8 \<Rightarrow> u8 \<Rightarrow> (u8 \<times> u8 list) list \<Rightarrow> fruTable \<Rightarrow> fruTable outcome" where
  "run_fields rounds ty enc [] t = Done t"
| "run_fields rounds ty enc (f # fs) t =
     obind (parseFruField rounds (snd f) (fst f) ty enc (word_of_nat (length (snd f))) t) (\<lambda>(_, t). run_fields rounds ty enc fs t)"

primrec run_records :: "nat \<Rightarrow> fru_record list \<Rightarrow> fruTable \<Rightarrow> fruTable outcome" where
  "run_records rounds [] t = Done t"
| "run_records rounds (r # rs) t = obind (run_fields rounds (rec_type r) (rec_encoding r) (rec_fields r) t) (run_records rounds rs)"

lemma length_field_bytes [simp]: "length (field_bytes f) = length (snd f) + 2"
  by (simp add: field_bytes_def)

lemma get_prefix: "n \<le> length bs \<Longrightarrow> get_bytes (bs @ rest) 0 n = get_bytes bs 0 n"
  by simp

lemma utf16_loop_prefix: "unat n = length bs \<Longrightarrow> utf16_loop k i n (bs @ rest) acc = utf16_loop k i n bs acc"
  by (induction k arbitrary: i acc) (simp_all add: word_less_nat_alt nth_append)

text \<open>A field is parsed from its own bytes only.\<close>

lemma parseFruField_prefix:
  assumes "unat n = length bs"
  shows "parseFruField rounds (bs @ rest) fty ty enc n t = parseFruField rounds bs fty ty enc n t"
proof -
  have copy: "copy_u32 old n (bs @ rest) = copy_u32 old n bs" "copy_u16 old' n (bs @ rest) = copy_u16 old' n bs" for old old'
    using assms by (simp_all add: copy_u32_def copy_u16_def)
  have byte: "get_bytes (bs @ rest) 0 (min (unat n) 1) = get_bytes bs 0 (min (unat n) 1)"
    using assms by (intro get_prefix) simp
  have stamp: "parseTimestamp104 (bs @ rest) n ts = parseTimestamp104 bs n ts" for ts
    using assms by (auto simp: parseTimestamp104_def)
  have "decode_text rounds enc n (bs @ rest) = decode_text rounds enc n bs"
    using assms by (simp add: decode_text_def utf16_loop_prefix)
  moreover have "parse_general fty s m n (bs @ rest) t = parse_general fty s m n bs t" for s m
    by (simp only: parse_general_def Let_def copy stamp)
  moreover have "parse_oem fty n (bs @ rest) t = parse_oem fty n bs t"
    by (simp only: parse_oem_def Let_def copy byte)
  ultimately show ?thesis
    unfolding parseFruField_def Let_def by (simp only:)
qed

lemma unat_length_256: "length (xs :: 'a list) < 256 \<Longrightarrow> unat (word_of_nat (length xs) :: u8) = length xs"
  by (simp add: unat_of_nat)

lemma parse_fields_bytes:
  assumes "\<forall>f\<in>set fs. length (snd f) < 256"
  shows "parse_fields rounds (length fs) (pre @ concat (map field_bytes fs) @ rest) ty enc (length pre) t =
    obind (run_fields rounds ty enc fs t) (\<lambda>t. Done (PLDM_SUCCESS, length pre + length (concat (map field_bytes fs)), t))"
  using assms
proof (induction fs arbitrary: pre t)
  case Nil
  then show ?case by simp
next
  case (Cons f fs)
  define d where "d = pre @ concat (map field_bytes (f # fs)) @ rest"
  define n where "n = (word_of_nat (length (snd f)) :: u8)"
  have split: "d = (pre @ field_bytes f) @ concat (map field_bytes fs) @ rest"
    by (simp add: d_def)
  have n: "unat n = length (snd f)"
    using Cons.prems by (simp add: n_def unat_length_256)
  have bytes: "get_byte d (length pre) = Done (fst f)" "get_byte d (length pre + 1) = Done n"
    by (simp_all add: d_def n_def nth_append field_bytes_def get_byte_def)
  have inside: "(length d \<le> length pre) = False" "(length d \<le> length pre + 1) = False" "(length d < length pre + 2 + unat n) = False"
    using n by (simp_all add: d_def)
  have tail: "drop (length pre + 2) d = snd f @ concat (map field_bytes fs) @ rest"
    by (simp add: d_def field_bytes_def)
  have step: "parse_fields rounds (length fs) d ty enc (length pre + 2 + unat n) t' =
      obind (run_fields rounds ty enc fs t') (\<lambda>t. Done (PLDM_SUCCESS, length pre + length (concat (map field_bytes (f # fs))), t))" for t'
    using Cons.IH [of "pre @ field_bytes f" t'] Cons.prems n unfolding split by (simp add: ac_simps)
  show ?case
    unfolding d_def [symmetric] list.size(4) add_Suc_right add_0_right parse_fields.simps(2) run_fields.simps(2) n_def [symmetric]
    by (simp only: bytes inside tail step parseFruField_prefix [OF n] obind.simps obind_assoc case_prod_unfold if_False)
qed

lemma length_record_bytes [simp]: "length (record_bytes r) = 5 + length (concat (map field_bytes (rec_fields r)))"
  by (simp add: record_bytes_def)

lemma parse_records_bytes:
  assumes "\<forall>r\<in>set rs. record_ok r"
  shows "parse_records rounds (pre @ concat (map record_bytes rs)) (length pre) t =
    obind (run_records rounds rs t) (\<lambda>t. Done (PLDM_SUCCESS, t))"
  using assms
proof (induction rs arbitrary: pre t)
  case Nil
  then show ?case by (subst parse_records.simps) simp
next
  case (Cons r rs)
  define d where "d = pre @ concat (map record_bytes (r # rs))"
  let ?head = "bytes_of_u16 (rec_id r) @ [rec_type r, word_of_nat (length (rec_fields r)), rec_encoding r]"
  have split: "d = (pre @ record_bytes r) @ concat (map record_bytes rs)"
      "d = (pre @ ?head) @ concat (map field_bytes (rec_fields r)) @ concat (map record_bytes rs)"
    by (simp_all add: d_def record_bytes_def)
  have ok: "length (rec_fields r) < 256" "\<forall>f\<in>set (rec_fields r). length (snd f) < 256"
    using Cons.prems by (simp_all add: record_ok_def)
  have "length (pre @ ?head) = length pre + 5" by simp
  then have fields: "parse_fields rounds (length (rec_fields r)) d (rec_type r) (rec_encoding r) (length pre + 5) t =
    obind (run_fields rounds (rec_type r) (rec_encoding r) (rec_fields r) t)
      (\<lambda>t. Done (PLDM_SUCCESS, length pre + 5 + length (concat (map field_bytes (rec_fields r))), t))"
    using parse_fields_bytes [OF ok(2), of rounds "pre @ ?head"] unfolding split(2) by metis
  have rest: "parse_records rounds d (length pre + 5 + length (concat (map field_bytes (rec_fields r)))) t' =
      obind (run_records rounds rs t') (\<lambda>t. Done (PLDM_SUCCESS, t))" for t'
    using Cons.IH [of "pre @ record_bytes r" t'] Cons.prems unfolding split(1) by (simp add: ac_simps)
  have header: "d ! (length pre + 2) = rec_type r" "d ! (length pre + 3) = word_of_nat (length (rec_fields r))"
      "d ! (length pre + 4) = rec_encoding r" "(length pre < length d) = True" "(length d < length pre + 5) = False"
    by (simp_all add: d_def record_bytes_def nth_append bytes_of_u16_def)
  show ?case
    unfolding d_def [symmetric]
    by (subst parse_records.simps)
      (simp only: header unat_length_256 [OF ok(1)] fields rest obind_assoc obind.simps prod.case simp_thms if_True if_False run_records.simps)
qed

text \<open>
  C24. The parser implements the abstract table: on the bytes of any non-empty list of records it has
  exactly the effect of running their fields in order on an empty table, and reports success.
\<close>

theorem fru_parse_implements_records:
  assumes "\<forall>r\<in>set rs. record_ok r" "rs \<noteq> []"
  shows "parseFruTable rounds (concat (map record_bytes rs)) p =
    obind (run_records rounds rs zero_table) (\<lambda>t. Done (PLDM_SUCCESS, p\<lparr>mFruTableInitialized := False, mFruTable := t\<rparr>))"
proof -
  have "concat (map record_bytes rs) \<noteq> []"
    using assms(2) by (cases rs) (auto simp: record_bytes_def)
  then show ?thesis
    using parse_records_bytes [OF assms(1), of rounds "[]" zero_table]
    by (simp add: parseFruTable_def Let_def obind_assoc del: concat_eq_Nil_conv)
qed

end
