(* ===== verification/Amc_FruCmd.thy ===== *)
theory Amc_FruCmd
  imports Amc_Fru
begin

text \<open>
  The FRU commands and queries (\<^verbatim>\<open>pldm_fru.cpp\<close>, \<^verbatim>\<open>pldm_fru_resp.cpp\<close>): requests, responses, the loop that
  collects the record table, and \<^verbatim>\<open>getFruSerialNum\<close> and \<^verbatim>\<open>getAmcVersion\<close>.
\<close>

section \<open>Requests and responses\<close>

definition pldmFruFillPayload :: "u8 \<Rightarrow> nat \<Rightarrow> 'a pldm_fru_scheme \<Rightarrow> (u8 \<times> 'a pldm_fru_scheme) outcome" where
  "pldmFruFillPayload cmd pldmCmdLen p =
     (if cmd = PLDM_GET_FRU_RECORD_TABLE_METADATA then
        obind (fill_payload (\<lambda>q. obind (clear_payload q pldmCmdLen) (\<lambda>q. put_crc q 0 (pldmCmdLen - 1))) p)
          (\<lambda>p. Done (PLDM_SUCCESS, p))
      else if cmd = PLDM_GET_FRU_RECORD_TABLE then
        obind (fill_payload (\<lambda>q. obind (put_bytes q 0 (bytes_of_u32 (fru_dataXferHandle p) @ [fru_xferOpFlag p])) (\<lambda>q.
          put_crc q 5 (pldmCmdLen - 1))) p) (\<lambda>p. Done (PLDM_SUCCESS, p))
      else Done (PLDM_ERROR, p))"

definition read_metadata :: "u8 list \<Rightarrow> fruTableMetadata outcome" where
  "read_metadata q =
     obind (get_byte q 1) (\<lambda>major. obind (get_byte q 2) (\<lambda>minor. obind (get_u32 q 3) (\<lambda>maxsize. obind (get_u32 q 7) (\<lambda>len.
     obind (get_u16 q 11) (\<lambda>ids. obind (get_u16 q 13) (\<lambda>recs. obind (get_u32 q 15) (\<lambda>sum.
       Done \<lparr>fruDataMajorVersion = major, fruDataMinorVersion = minor, fruTableMaxSize = maxsize, fruTableLen = len,
         totalRecordSetIdentifiers = ids, totalNumRecords = recs, checksum = sum\<rparr>)))))))"

text \<open>
  The length of the part comes from the byte count of the frame, in 32-bit arithmetic cut to 16 bits, and
  that many bytes are copied from the payload.
\<close>

definition fru_part_length :: "u8 \<Rightarrow> u16" where
  "fru_part_length bc = ucast ((ucast bc + 3 :: u32) - 18)"

definition read_table_part :: "i2cdata \<Rightarrow> fruTableResponse \<Rightarrow> (fruTableResponse \<times> u16) outcome" where
  "read_table_part rd r =
     (let q = respPayload rd; n = fru_part_length (byteCount (pldmSmbusHdr rd)) in
      obind (get_byte q 0) (\<lambda>code. obind (get_u32 q 1) (\<lambda>next. obind (get_byte q 5) (\<lambda>flag.
      obind (get_bytes q 6 (unat n)) (\<lambda>part. obind (put_bytes (fruTableData r) 0 part) (\<lambda>data.
        Done (r\<lparr>fru_completionCode := code, nextDataXferHandle := next, xferFlag := flag, fruTableData := data\<rparr>, n)))))))"

definition pldmFruResponse :: "u8 \<Rightarrow> u8 \<Rightarrow> 'a pldm_fru_scheme \<Rightarrow> (u8 \<times> 'a pldm_fru_scheme) outcome" where
  "pldmFruResponse cmd ident p =
     (if cmd = PLDM_GET_FRU_RECORD_TABLE_METADATA then
        obind (check_completion p) (\<lambda>(ret, p).
          if ret = PLDM_SUCCESS then
            obind (the_ptr (mI2cPldmRead p)) (\<lambda>rd. obind (read_metadata (respPayload rd)) (\<lambda>m.
              Done (PLDM_SUCCESS, p\<lparr>mFruMetadata := m\<rparr>)))
          else Done (ret, p))
      else if cmd = PLDM_GET_FRU_RECORD_TABLE then
        obind (check_completion p) (\<lambda>(ret, p).
          if ret = PLDM_SUCCESS then
            obind (the_ptr (mI2cPldmRead p)) (\<lambda>rd. obind (read_table_part rd (mFruTableResponse p)) (\<lambda>(r, n).
              Done (PLDM_SUCCESS, p\<lparr>mFruTableResponse := r, mFruCurrentDataLength := n\<rparr>)))
          else Done (ret, p))
      else Done (PLDM_ERROR, p))"

definition pldmFruCommand :: "u8 \<Rightarrow> u8 \<Rightarrow> 'a pldm_fru_scheme \<Rightarrow> (u8 \<times> 'a pldm_fru_scheme) outcome" where
  "pldmFruCommand cmd sz p =
     (if mI2cPldmRead p = None \<or> mI2cPldmWrite p = None then Done (PLDM_ERROR, p)
      else pldm_command PLDM_FRU cmd sz (pldmFruFillPayload cmd (unat sz)) (pldmFruResponse cmd) p)"

definition getFruRecordTableMetadata :: "'a pldm_fru_scheme \<Rightarrow> (u8 \<times> 'a pldm_fru_scheme) outcome" where
  "getFruRecordTableMetadata p =
     obind (pldmFruCommand PLDM_GET_FRU_RECORD_TABLE_METADATA 12 p) (\<lambda>(ret, p).
       if ret \<noteq> PLDM_SUCCESS then Done (PLDM_ERROR, p) else Done (PLDM_SUCCESS, p))"

definition getFruRecordTable :: "u32 \<Rightarrow> u8 \<Rightarrow> 'a pldm_fru_scheme \<Rightarrow> (u8 \<times> 'a pldm_fru_scheme) outcome" where
  "getFruRecordTable dataXferHandle xferOpFlag p =
     obind (pldmFruCommand PLDM_GET_FRU_RECORD_TABLE 17 (p\<lparr>fru_dataXferHandle := dataXferHandle, fru_xferOpFlag := xferOpFlag\<rparr>))
       (\<lambda>(ret, p). if ret \<noteq> PLDM_SUCCESS then Done (PLDM_ERROR, p) else Done (PLDM_SUCCESS, p))"

section \<open>Fetching the table\<close>

primrec fru_parts :: "nat \<Rightarrow> u32 \<Rightarrow> u8 \<Rightarrow> u8 list \<Rightarrow> 'a pldm_fru_scheme \<Rightarrow> (u8 \<times> u8 list \<times> 'a pldm_fru_scheme) outcome" where
  "fru_parts 0 handle flag acc p = Stuck"
| "fru_parts (Suc k) handle flag acc p =
     obind (getFruRecordTable handle flag p) (\<lambda>(ret, p).
       if ret \<noteq> PLDM_SUCCESS then Done (PLDM_ERROR, acc, p)
       else obind (get_bytes (fruTableData (mFruTableResponse p)) 0 (unat (mFruCurrentDataLength p))) (\<lambda>part.
         let acc = acc @ part in
         if xferFlag (mFruTableResponse p) = PLDM_END \<or> xferFlag (mFruTableResponse p) = PLDM_START_AND_END
         then Done (PLDM_SUCCESS, acc, p)
         else fru_parts k (nextDataXferHandle (mFruTableResponse p)) PLDM_GET_NEXTPART acc p))"

definition pldmFruInitialize :: "nat \<Rightarrow> 'a pldm_fru_scheme \<Rightarrow> (u8 \<times> 'a pldm_fru_scheme) outcome" where
  "pldmFruInitialize rounds p =
     obind (getFruRecordTableMetadata p) (\<lambda>(ret, p).
       if ret \<noteq> PLDM_SUCCESS then Done (PLDM_ERROR, p)
       else obind (fru_parts rounds 0 PLDM_GET_FIRSTPART [] p) (\<lambda>(ret, completeFruData, p).
         if ret \<noteq> PLDM_SUCCESS then Done (PLDM_ERROR, p)
         else if length completeFruData \<noteq> unat (fruTableLen (mFruMetadata p)) then Done (PLDM_ERROR, p)
         else obind (parseFruTable rounds completeFruData p) (\<lambda>(ret, p).
           if ret \<noteq> PLDM_SUCCESS then Done (PLDM_ERROR, p)
           else Done (PLDM_SUCCESS, p\<lparr>mFruTableInitialized := True\<rparr>))))"

section \<open>Queries\<close>

text \<open>
  The table is fetched on the first query. A string query has a buffer (\<open>None\<close> for a null pointer; a list of
  the room the caller has) and a size (\<open>None\<close> for a null pointer); both come back.
\<close>

definition fru_ready :: "nat \<Rightarrow> 'a pldm_fru_scheme \<Rightarrow> (u8 \<times> 'a pldm_fru_scheme) outcome" where
  "fru_ready rounds p =
     (if \<not> mFruTableInitialized p then
        obind (pldmFruInitialize rounds (p\<lparr>mFruTable := zero_table\<rparr>)) (\<lambda>(ret, p).
          if ret \<noteq> PLDM_SUCCESS then Done (PLDM_ERROR, p) else Done (PLDM_SUCCESS, p))
      else Done (PLDM_SUCCESS, p))"

text \<open>The part after the table is there: \<open>s\<close> is the field, terminated at its last byte.\<close>

definition copy_string :: "u8 list \<Rightarrow> u8 list option \<Rightarrow> u64 option \<Rightarrow> (u8 \<times> u8 list option \<times> u64 option) outcome" where
  "copy_string s buf bufferSize =
     (let len = min (length (cstr s)) (FRU_DATA_MAX_LENGTH - 1); requiredLength = word_of_nat (len + 1) in
      if len = 0 then Done (PLDM_ERROR, buf, bufferSize)
      else case buf of
        None \<Rightarrow> Done (PLDM_SUCCESS, None, map_option (\<lambda>_. requiredLength) bufferSize)
      | Some b \<Rightarrow> (case bufferSize of
          None \<Rightarrow> Done (PLDM_ERROR, buf, None)
        | Some n \<Rightarrow>
            if n < requiredLength then Done (PLDM_ERROR, buf, Some requiredLength)
            else obind (STRNCPY_S b s (unat (n - 1))) (\<lambda>b. obind (put_byte b (unat (n - 1)) 0) (\<lambda>b.
              Done (PLDM_SUCCESS, Some b, Some n)))))"

definition getFruSerialNum ::
  "nat \<Rightarrow> u8 list option \<Rightarrow> u64 option \<Rightarrow> 'a pldm_fru_scheme \<Rightarrow> (u8 \<times> u8 list option \<times> u64 option \<times> 'a pldm_fru_scheme) outcome" where
  "getFruSerialNum rounds serialNumber bufferSize p =
     obind (fru_ready rounds p) (\<lambda>(ret, p).
       if ret \<noteq> PLDM_SUCCESS then Done (PLDM_ERROR, serialNumber, bufferSize, p)
       else obind (put_byte (genSerialNum (mFruTable p)) (FRU_DATA_MAX_LENGTH - 1) 0) (\<lambda>s.
         let p = p\<lparr>mFruTable := (mFruTable p)\<lparr>genSerialNum := s\<rparr>\<rparr> in
         obind (copy_string s serialNumber bufferSize) (\<lambda>(r, b, n). Done (r, b, n, p))))"

definition getAmcVersion ::
  "nat \<Rightarrow> u8 list option \<Rightarrow> u64 option \<Rightarrow> 'a pldm_fru_scheme \<Rightarrow> (u8 \<times> u8 list option \<times> u64 option \<times> 'a pldm_fru_scheme) outcome" where
  "getAmcVersion rounds version bufferSize p =
     obind (fru_ready rounds p) (\<lambda>(ret, p).
       if ret \<noteq> PLDM_SUCCESS then Done (PLDM_ERROR, version, bufferSize, p)
       else obind (put_byte (genVersion (mFruTable p)) (FRU_DATA_MAX_LENGTH - 1) 0) (\<lambda>s.
         let p = p\<lparr>mFruTable := (mFruTable p)\<lparr>genVersion := s\<rparr>\<rparr> in
         obind (copy_string s version bufferSize) (\<lambda>(r, b, n). Done (r, b, n, p))))"

section \<open>Parts of the table\<close>

lemma fru_part_length_ok: "15 \<le> unat bc \<Longrightarrow> unat (fru_part_length bc) = unat bc - 15"
proof -
  assume "15 \<le> unat bc"
  then obtain j where j: "unat bc = j + 15" by (metis add.commute le_Suc_ex)
  then have "j < 256" using unsigned_less [of bc, where ?'a = nat] by simp
  have "bc = word_of_nat (j + 15)" by (simp flip: j)
  have "(ucast bc :: u32) = word_of_nat (unat bc)" by simp
  then have "(ucast bc + 3 :: u32) - 18 = word_of_nat j" by (simp only: j of_nat_add) simp
  then have "fru_part_length bc = ucast (word_of_nat j :: u32)" by (simp only: fru_part_length_def)
  with \<open>j < 256\<close> j show ?thesis by (simp add: unsigned_ucast_eq unsigned_of_nat take_bit_nat_eq_self)
qed

lemma fru_part_length_short: "unat bc < 15 \<Longrightarrow> 122 < unat (fru_part_length bc)"
proof -
  assume "unat bc < 15"
  moreover have "k \<in> {0, 1, 2, 3, 4, 5, 6, 7, 8, 9, 10, 11, 12, 13, 14}" if "k < 15" for k :: nat
    using that by (simp add: less_Suc_eq numeral_eq_Suc)
  ultimately have "unat bc \<in> {0, 1, 2, 3, 4, 5, 6, 7, 8, 9, 10, 11, 12, 13, 14}" by blast
  moreover have "bc = word_of_nat (unat bc)" by simp
  ultimately have "bc \<in> {0, 1, 2, 3, 4, 5, 6, 7, 8, 9, 10, 11, 12, 13, 14}"
    by (auto simp: word_unat_eq_iff)
  then show ?thesis
    by (auto simp: fru_part_length_def unsigned_ucast_eq unsigned_minus_1_eq_mask take_bit_of_mask mask_numeral)
qed

lemma fru_part_length_room: "unat (fru_part_length bc) \<le> 122 \<longleftrightarrow> unat bc \<in> {15..137}"
  using fru_part_length_ok [of bc] fru_part_length_short [of bc] by (cases "15 \<le> unat bc") auto

lemma read_table_part_fault:
  assumes "length (respPayload rd) = PAYLOAD_SIZE" "length (fruTableData r) = 512"
  shows "read_table_part rd r = Fault \<longleftrightarrow> unat (byteCount (pldmSmbusHdr rd)) \<notin> {15..137}"
    and "unat (byteCount (pldmSmbusHdr rd)) \<in> {15..137} \<Longrightarrow> returns (read_table_part rd r) (\<lambda>(r', n). length (fruTableData r') = 512 \<and> unat n \<le> 122)"
  using assms fru_part_length_room [of "byteCount (pldmSmbusHdr rd)"]
  by (auto simp: read_table_part_def Let_def PAYLOAD_SIZE_def get_bytes_def)

section \<open>A card that keeps to the frame size\<close>

text \<open>
  The documented size of a part: the frames the card delivers have at least the two bytes up to the byte
  count, which says there are 15 to 137 bytes after it. Nothing is assumed of the rest of a frame.
\<close>

definition part_frames :: "(nat \<Rightarrow> u8 list option) \<Rightarrow> bool" where
  "part_frames rx = (\<forall>n bs. rx n = Some bs \<longrightarrow> 2 \<le> length bs \<and> unat (bs ! 1) \<in> {15..137})"

definition fru_wf :: "'a pldm_fru_scheme \<Rightarrow> bool" where
  "fru_wf p = ((\<forall>d. i2cobj p = Some d \<longrightarrow> part_frames (i2c_rx d)) \<and> length (fruTableData (mFruTableResponse p)) = 512)"

definition part_read :: "'a pldm_scheme \<Rightarrow> bool" where
  "part_read p = (\<forall>rd. mI2cPldmRead p = Some rd \<longrightarrow> unat (byteCount (pldmSmbusHdr rd)) \<in> {15..137})"

lemma fru_wf_sent: "fru_wf p \<Longrightarrow> pldm_ok p \<Longrightarrow> pldm_send sz p = Done (ok, p') \<Longrightarrow> fru_wf p'"
  by (drule pldm_send_device) (auto simp: fru_wf_def)

lemma fru_wf_received:
  assumes wf: "fru_wf p" and ok: "pldm_ok p" and rcv: "pldm_receive p = Done (b, p')"
  shows "fru_wf p' \<and> (b \<longrightarrow> part_read p')"
proof -
  obtain rd d where p: "mI2cPldmRead p = Some rd" "i2cobj p = Some d" "length (respPayload rd) = PAYLOAD_SIZE" "0 \<le> amchandle d"
    using ok by (elim pldm_okE)
  have rx: "part_frames (i2c_rx d)"
    using wf p(2) by (simp add: fru_wf_def)
  obtain mem d' where read: "readAmc (i2cdata_bytes rd) 1 PLDM_MAX_RESPONSE_SIZE d = Done (b, mem, d')"
      "p' = p\<lparr>i2cobj := Some d', mI2cPldmRead := Some (i2cdata_of_bytes mem)\<rparr>"
    using rcv p by (auto simp: pldm_receive_def)
  have d': "i2c_rx d' = i2c_rx d" "b = (i2c_rx d (i2c_reads d) \<noteq> None)"
      "mem = (case i2c_rx d (i2c_reads d) of None \<Rightarrow> i2cdata_bytes rd
        | Some bs \<Rightarrow> take 1 (i2cdata_bytes rd) @ take PLDM_MAX_RESPONSE_SIZE bs
            @ drop (1 + length (take PLDM_MAX_RESPONSE_SIZE bs)) (i2cdata_bytes rd))"
    using readAmc_returns [of 1 PLDM_MAX_RESPONSE_SIZE "i2cdata_bytes rd" d] p read(1)
    by (auto simp: returns_iff PLDM_MAX_RESPONSE_SIZE_def PAYLOAD_SIZE_def)
  have "part_read p'" if delivered: b
  proof -
    obtain bs where bs: "i2c_rx d (i2c_reads d) = Some bs"
      using delivered d'(2) by auto
    then have "2 \<le> length bs" "unat (bs ! 1) \<in> {15..137}"
      using rx by (auto simp: part_frames_def)
    moreover from this(1) have "mem ! 2 = bs ! 1"
      using d'(3) bs by (simp add: nth_append PLDM_MAX_RESPONSE_SIZE_def i2cdata_bytes_def mctp_bytes_def)
    ultimately show ?thesis
      using read(2) by (simp add: part_read_def i2cdata_of_bytes_def mctp_of_bytes_def)
  qed
  then show ?thesis
    using wf read(2) d'(1) rx by (simp add: fru_wf_def)
qed

lemma pldm_ok_fru [simp]:
  "pldm_ok (p\<lparr>mFruMetadata := m\<rparr>) = pldm_ok p"
  "pldm_ok (p\<lparr>mFruTableResponse := r\<rparr>) = pldm_ok p"
  "pldm_ok (p\<lparr>mFruCurrentDataLength := n\<rparr>) = pldm_ok p"
  "pldm_ok (p\<lparr>fru_dataXferHandle := h\<rparr>) = pldm_ok p"
  "pldm_ok (p\<lparr>fru_xferOpFlag := f\<rparr>) = pldm_ok p"
  "pldm_ok (p\<lparr>mFruTable := t\<rparr>) = pldm_ok p"
  "pldm_ok (p\<lparr>mFruTableInitialized := b\<rparr>) = pldm_ok p"
  by (simp_all add: pldm_ok_def mctp_ok_def)

lemma quiet_fru [simp]:
  "quiet p (p'\<lparr>mFruMetadata := m\<rparr>) = quiet p p'"
  "quiet p (p'\<lparr>mFruTableResponse := r\<rparr>) = quiet p p'"
  "quiet p (p'\<lparr>mFruCurrentDataLength := n\<rparr>) = quiet p p'"
  by (simp_all add: quiet_def)

lemma fru_wf_update [simp]:
  "fru_wf (p\<lparr>mFruMetadata := m\<rparr>) = fru_wf p"
  "fru_wf (p\<lparr>mFruCurrentDataLength := n\<rparr>) = fru_wf p"
  "fru_wf (p\<lparr>fru_dataXferHandle := h\<rparr>) = fru_wf p"
  "fru_wf (p\<lparr>fru_xferOpFlag := f\<rparr>) = fru_wf p"
  "fru_wf (p\<lparr>mFruTable := t\<rparr>) = fru_wf p"
  "fru_wf (p\<lparr>mFruTableInitialized := b\<rparr>) = fru_wf p"
  "fru_wf (p\<lparr>mI2cPldmWrite := w\<rparr>) = fru_wf p"
  "fru_wf (p\<lparr>pldm_instanceID := i\<rparr>) = fru_wf p"
  by (simp_all add: fru_wf_def)

lemma fru_wf_part: "fru_wf p \<Longrightarrow> length (fruTableData r) = 512 \<Longrightarrow> fru_wf (p\<lparr>mFruTableResponse := r\<rparr>)"
  by (simp add: fru_wf_def)

lemma fru_payload_quiet:
  assumes "pldm_ok p" "n \<le> PAYLOAD_SIZE" "fru_wf p"
  shows "returns (pldmFruFillPayload cmd n p) (\<lambda>(r, p'). fru_wf p' \<and> quiet p p')"
proof -
  have fill: "returns (fill_payload f p) (\<lambda>p'. fru_wf p' \<and> quiet p p')"
    if "\<And>q. length q = PAYLOAD_SIZE \<Longrightarrow> returns (f q) (\<lambda>q'. length q' = PAYLOAD_SIZE)" for f
    by (rule returns_mono [OF fill_payload_quiet [OF assms(1) that]]) (use assms(3) in \<open>auto simp: fru_wf_def\<close>)
  show ?thesis
    using assms quiet_refl [OF assms(1)]
    by (auto simp: pldmFruFillPayload_def PAYLOAD_SIZE_def intro!: fill)
qed

lemma read_metadata_returns: "length q = PAYLOAD_SIZE \<Longrightarrow> returns (read_metadata q) (\<lambda>_. True)"
  by (simp add: read_metadata_def PAYLOAD_SIZE_def)

lemma fru_response_quiet:
  assumes "pldm_ok p" "fru_wf p" "part_read p"
  shows "returns (pldmFruResponse cmd i p) (\<lambda>(r, p'). fru_wf p' \<and> quiet p p'
    \<and> (r = PLDM_SUCCESS \<longrightarrow> cmd = PLDM_GET_FRU_RECORD_TABLE \<longrightarrow> unat (mFruCurrentDataLength p') \<le> 122))"
proof -
  have checked: "returns (check_completion p) Q"
    if "\<And>r p' rd. quiet p p' \<Longrightarrow> fru_wf p' \<Longrightarrow> mI2cPldmRead p' = Some rd \<Longrightarrow> length (respPayload rd) = PAYLOAD_SIZE
      \<Longrightarrow> unat (byteCount (pldmSmbusHdr rd)) \<in> {15..137} \<Longrightarrow> Q (r, p')" for Q
  proof (rule returns_mono [OF check_completion_quiet [OF assms(1)]])
    fix x :: "u8 \<times> 'a pldm_fru_scheme"
    assume x: "case x of (r, p') \<Rightarrow> quiet p p' \<and> (\<exists>rd. p' = p\<lparr>mI2cPldmRead := Some rd\<rparr>
      \<and> respPayload rd = respPayload (the (mI2cPldmRead p)) \<and> byteCount (pldmSmbusHdr rd) = byteCount (pldmSmbusHdr (the (mI2cPldmRead p))))"
    from assms(1) show "Q x"
      by (rule pldm_okE) (use x assms(2,3) that in \<open>force simp: fru_wf_def part_read_def\<close>)
  qed
  have tab: "returns (read_table_part rd (mFruTableResponse p')) Q"
    if "fru_wf p'" "length (respPayload rd) = PAYLOAD_SIZE" "unat (byteCount (pldmSmbusHdr rd)) \<in> {15..137}"
      "\<And>r n. length (fruTableData r) = 512 \<Longrightarrow> unat n \<le> 122 \<Longrightarrow> Q (r, n)" for rd Q and p' :: "'a pldm_fru_scheme"
    by (rule returns_mono [OF read_table_part_fault(2)]) (use that in \<open>auto simp: fru_wf_def\<close>)
  have meta: "returns (read_metadata q) Q" if "length q = PAYLOAD_SIZE" "\<And>m. Q m" for q Q
    by (rule returns_mono [OF read_metadata_returns [OF that(1)]]) (rule that(2))
  have "PLDM_GET_FRU_RECORD_TABLE_METADATA \<noteq> PLDM_GET_FRU_RECORD_TABLE"
    by (simp add: PLDM_GET_FRU_RECORD_TABLE_METADATA_def PLDM_GET_FRU_RECORD_TABLE_def)
  then show ?thesis
    using assms quiet_refl [OF assms(1)]
    by (auto simp: pldmFruResponse_def PLDM_ERROR_def PLDM_SUCCESS_def fru_wf_part intro!: checked meta tab)
qed

interpretation fru: pldm_exchange "pldmFruFillPayload cmd n" "pldmFruResponse cmd" "\<lambda>p. n \<le> PAYLOAD_SIZE \<and> fru_wf p" part_read
  "\<lambda>p. cmd = PLDM_GET_FRU_RECORD_TABLE \<longrightarrow> unat (mFruCurrentDataLength p) \<le> 122" for cmd n
proof unfold_locales
  fix i sz ok and p p' :: "'a pldm_fru_scheme"
  assume p: "n \<le> PAYLOAD_SIZE \<and> fru_wf p" "pldm_ok p"
  show "returns (pldmFruFillPayload cmd n p) (\<lambda>(r, p'). (n \<le> PAYLOAD_SIZE \<and> fru_wf p') \<and> quiet p p')"
    using p fru_payload_quiet [of p n cmd] by (auto elim!: returns_mono)
  show "returns (pldmFruResponse cmd i p) (\<lambda>(r, p'). (n \<le> PAYLOAD_SIZE \<and> fru_wf p') \<and> quiet p p'
      \<and> (r = PLDM_SUCCESS \<longrightarrow> cmd = PLDM_GET_FRU_RECORD_TABLE \<longrightarrow> unat (mFruCurrentDataLength p') \<le> 122))" if "part_read p"
    using p fru_response_quiet [OF p(2) _ that, of cmd i] by (auto elim!: returns_mono)
  show "n \<le> PAYLOAD_SIZE \<and> fru_wf p'" if "pldm_send sz p = Done (ok, p')"
    using p fru_wf_sent that by blast
  show "(n \<le> PAYLOAD_SIZE \<and> fru_wf p') \<and> (ok \<longrightarrow> part_read p')" if "pldm_receive p = Done (ok, p')"
    using p fru_wf_received that by blast
qed simp_all

section \<open>Fetching the table from such a card\<close>

lemma pldm_sent_updates [simp]:
  "pldm_sent (p\<lparr>fru_dataXferHandle := h, fru_xferOpFlag := f\<rparr>) cs p' = pldm_sent p cs p'"
  "pldm_sent p cs (p'\<lparr>mFruTable := t\<rparr>) = pldm_sent p cs p'"
  "pldm_sent p cs (p'\<lparr>mFruTableInitialized := b\<rparr>) = pldm_sent p cs p'"
  by (simp_all add: pldm_sent_def frames_sent_def)

lemma pldmFruCommand_returns:
  assumes "pldm_ok p" "fru_wf p" "11 \<le> unat sz" "unat sz \<le> 128"
  shows "returns (pldmFruCommand cmd sz p) (\<lambda>(r, p'). fru_wf p' \<and> (\<exists>cs. pldm_sent p cs p' \<and> (cs = [] \<or> cs = [(PLDM_FRU, cmd)])
    \<and> (r = PLDM_SUCCESS \<longrightarrow> cs = [(PLDM_FRU, cmd)] \<and> (cmd = PLDM_GET_FRU_RECORD_TABLE \<longrightarrow> unat (mFruCurrentDataLength p') \<le> 122))))"
  using fru.command_returns [of "unat sz" p PLDM_FRU sz cmd] assms
  by (simp add: pldmFruCommand_def PAYLOAD_SIZE_def PLDM_FRU_def PLDM_TYPES_MAX_def word_less_nat_alt)

lemma fru_parts_safe:
  assumes "pldm_sent p0 cs p" "fru_wf p"
  shows "safe (fru_parts k handle flag acc p) (\<lambda>(r, acc', p'). fru_wf p'
    \<and> (\<exists>j. pldm_sent p0 (cs @ replicate j (PLDM_FRU, PLDM_GET_FRU_RECORD_TABLE)) p'))"
  using assms
proof (induction k arbitrary: handle flag acc cs p)
  case 0
  then show ?case by simp
next
  case (Suc k)
  let ?p = "p\<lparr>fru_dataXferHandle := handle, fru_xferOpFlag := flag\<rparr>" and ?x = "(PLDM_FRU, PLDM_GET_FRU_RECORD_TABLE)"
  let ?Q = "\<lambda>(r, acc', p'). fru_wf p' \<and> (\<exists>j. pldm_sent p0 (cs @ replicate j ?x) p')"
  have ok: "pldm_ok ?p" "fru_wf ?p"
    using Suc.prems by (simp_all add: pldm_sent_ok)
  have again: "\<exists>j. pldm_sent p0 (cs @ replicate j ?x) p'" if "pldm_sent p [] p' \<or> pldm_sent p [?x] p'" for p'
    using that
  proof
    assume "pldm_sent p [] p'"
    with pldm_sent_trans [OF Suc.prems(1)] show ?thesis by (intro exI [of _ 0]) fastforce
  next
    assume "pldm_sent p [?x] p'"
    with pldm_sent_trans [OF Suc.prems(1)] show ?thesis by (intro exI [of _ 1]) fastforce
  qed
  have rest: "safe (fru_parts k h f a p') ?Q" if "pldm_sent p [?x] p'" "fru_wf p'" for h f a p'
    by (rule safe_mono [OF Suc.IH [OF pldm_sent_trans [OF Suc.prems(1) that(1)] that(2)]])
      (auto simp: replicate_append_same [symmetric] intro: exI [of _ "Suc _"])
  have part: "get_bytes (fruTableData (mFruTableResponse p')) 0 (unat (mFruCurrentDataLength p'))
      = Done (take (unat (mFruCurrentDataLength p')) (fruTableData (mFruTableResponse p')))"
    if "fru_wf p'" "unat (mFruCurrentDataLength p') \<le> 122" for p' :: "'a pldm_fru_scheme"
    using that by (simp add: fru_wf_def)
  have err: "PLDM_ERROR \<noteq> PLDM_SUCCESS"
    by (simp add: PLDM_ERROR_def PLDM_SUCCESS_def)
  show ?case
    unfolding fru_parts.simps getFruRecordTable_def obind_assoc safe_simps
    by (rule safe_mono [OF returns_safe [OF pldmFruCommand_returns [OF ok]]], simp, simp)
      (use err in \<open>auto simp: Let_def part intro: again rest\<close>)
qed

text \<open>What a fetch sends: nothing, or the metadata request and then requests for parts.\<close>

definition fru_sent :: "'a pldm_scheme \<Rightarrow> 'a pldm_scheme \<Rightarrow> bool" where
  "fru_sent p p' = (pldm_sent p [] p' \<or>
     (\<exists>j. pldm_sent p ((PLDM_FRU, PLDM_GET_FRU_RECORD_TABLE_METADATA) # replicate j (PLDM_FRU, PLDM_GET_FRU_RECORD_TABLE)) p'))"

lemma fru_sent_simps [simp]:
  "fru_sent p (p'\<lparr>mFruTable := t\<rparr>) = fru_sent p p'"
  "fru_sent p (p'\<lparr>mFruTableInitialized := b\<rparr>) = fru_sent p p'"
  by (simp_all add: fru_sent_def)

lemma fru_sentI:
  "pldm_sent p [] p' \<Longrightarrow> fru_sent p p'"
  "pldm_sent p [(PLDM_FRU, PLDM_GET_FRU_RECORD_TABLE_METADATA)] p' \<Longrightarrow> fru_sent p p'"
  "pldm_sent p ((PLDM_FRU, PLDM_GET_FRU_RECORD_TABLE_METADATA) # replicate j (PLDM_FRU, PLDM_GET_FRU_RECORD_TABLE)) p' \<Longrightarrow> fru_sent p p'"
  unfolding fru_sent_def by (blast, rule disjI2, rule exI [of _ 0], simp, blast)

text \<open>
  C26. With a card that keeps to the frame size, fetching the FRU table never leaves a buffer, however many
  parts there are; what it sends is the metadata request and then requests for parts, and when it
  succeeds the table is initialized with all its strings in their fields.
\<close>

theorem fru_fetch_safe:
  assumes "pldm_ok p" "fru_wf p"
  shows "safe (pldmFruInitialize rounds p) (\<lambda>(r, p'). fru_wf p'
    \<and> fru_sent p p'
    \<and> (r = PLDM_SUCCESS \<longrightarrow> mFruTableInitialized p' \<and> table_ok (mFruTable p')))" (is "safe _ ?Q")
proof -
  let ?meta = "(PLDM_FRU, PLDM_GET_FRU_RECORD_TABLE_METADATA)" and ?part = "(PLDM_FRU, PLDM_GET_FRU_RECORD_TABLE)"
  have err: "PLDM_ERROR \<noteq> PLDM_SUCCESS"
    by (simp add: PLDM_ERROR_def PLDM_SUCCESS_def)
  have parsed: "safe (parseFruTable rounds d p2) (\<lambda>x. safe (case x of (ret, p) \<Rightarrow>
      if ret \<noteq> PLDM_SUCCESS then Done (PLDM_ERROR, p) else Done (PLDM_SUCCESS, p\<lparr>mFruTableInitialized := True\<rparr>)) ?Q)"
    if p2: "fru_wf p2" "fru_sent p p2" for d p2
  proof (cases "d = []")
    case False
    have "safe (parse_records rounds d 0 zero_table) (\<lambda>(r, t'). table_ok t')"
      by (rule parse_records_safe [OF table_ok_zero])
    then show ?thesis
      using False p2 err by (auto simp: parseFruTable_def Let_def elim!: safe_mono)
  qed (use p2 err in \<open>auto simp: parseFruTable_def\<close>)
  have fetched: "safe (fru_parts rounds 0 PLDM_GET_FIRSTPART [] p1) (\<lambda>x. safe (case x of (ret, d, p) \<Rightarrow>
      if ret \<noteq> PLDM_SUCCESS then Done (PLDM_ERROR, p)
      else if length d \<noteq> unat (fruTableLen (mFruMetadata p)) then Done (PLDM_ERROR, p)
      else obind (parseFruTable rounds d p) (\<lambda>(ret, p).
        if ret \<noteq> PLDM_SUCCESS then Done (PLDM_ERROR, p) else Done (PLDM_SUCCESS, p\<lparr>mFruTableInitialized := True\<rparr>))) ?Q)"
    if p1: "fru_wf p1" "pldm_sent p [?meta] p1" for p1
    by (rule safe_mono [OF fru_parts_safe [OF p1(2,1)]]) (use err in \<open>auto intro!: parsed intro: fru_sentI\<close>)
  show ?thesis
    unfolding pldmFruInitialize_def getFruRecordTableMetadata_def obind_assoc safe_simps
    by (rule safe_mono [OF returns_safe [OF pldmFruCommand_returns [OF assms]]], simp, simp) (use err fetched in \<open>auto intro: fru_sentI\<close>)
qed

text \<open>
  The handler of a part of the record table leaves its buffers exactly when the byte count of the
  frame is below 15 or above 137: nothing checks it.
\<close>

theorem fru_part_overrun:
  assumes "mI2cPldmRead p = Some rd" "length (respPayload rd) = 128" "respPayload rd ! 0 = PLDM_SUCCESS"
    "length (fruTableData (mFruTableResponse p)) = 512"
  shows "pldmFruResponse PLDM_GET_FRU_RECORD_TABLE ident p = Fault \<longleftrightarrow> unat (byteCount (pldmSmbusHdr rd)) \<notin> {15..137}"
proof -
  let ?rd = "rd\<lparr>pldmSmbusHdr := (pldmSmbusHdr rd)\<lparr>destSlaveAddr := ucast MCTP_SRC_SLAVE_ADDR, destSlaveAddrB0 := 1\<rparr>\<rparr>"
  let ?p = "p\<lparr>mI2cPldmRead := Some ?rd\<rparr>"
  have "check_completion p = Done (PLDM_SUCCESS, ?p)"
    using assms by (simp add: check_completion_def Let_def)
  then have "pldmFruResponse PLDM_GET_FRU_RECORD_TABLE ident p = obind (read_table_part ?rd (mFruTableResponse p)) (\<lambda>(r, n).
      Done (PLDM_SUCCESS, ?p\<lparr>mFruTableResponse := r, mFruCurrentDataLength := n\<rparr>))"
    by (simp add: pldmFruResponse_def PLDM_GET_FRU_RECORD_TABLE_METADATA_def PLDM_GET_FRU_RECORD_TABLE_def)
  also have "\<dots> = Fault \<longleftrightarrow> read_table_part ?rd (mFruTableResponse p) = Fault"
    by (cases "read_table_part ?rd (mFruTableResponse p)") (auto split: prod.split)
  finally show ?thesis
    using read_table_part_fault(1) [of ?rd "mFruTableResponse p"] assms by (simp add: PAYLOAD_SIZE_def)
qed

section \<open>Strings lose their last character\<close>

lemma cstr_append_nul: "0 \<notin> set s \<Longrightarrow> cstr (s @ 0 # rest) = s"
  by (auto simp: cstr_def takeWhile_append)

lemma cstr_no_nul: "0 \<notin> set (cstr s)"
  by (auto simp: cstr_def dest: set_takeWhileD)

lemma store_text_cstr:
  assumes "length dest = FRU_DATA_MAX_LENGTH" "0 \<notin> set s" "s \<noteq> []" "length s < FRU_DATA_MAX_LENGTH"
  shows "returns (store_text s (length s) dest) (\<lambda>d. length d = FRU_DATA_MAX_LENGTH \<and> cstr d = butlast s)"
proof -
  obtain u c where s: "s = u @ [c]"
    using assms(3) by (cases s rule: rev_cases) auto
  then have "cstr s = s" "0 \<notin> set u"
    using assms(2) by (auto simp: cstr_def takeWhile_append)
  moreover have "cstr ((u @ 0 # rest)[Suc (length u) := 0]) = u" for rest
    using \<open>0 \<notin> set u\<close> by (simp add: list_update_append cstr_append_nul)
  ultimately show ?thesis
    using assms by (simp add: store_text_def STRNCPY_S_def s)
qed

text \<open>
  A serial number without NULs is stored without its last character, and a query with a buffer of
  exactly the size the query asks for delivers the stored string without its last character again.
\<close>

theorem serial_number_truncated:
  assumes "0 \<notin> set s" "s \<noteq> []" "length s < 255" "table_ok t"
  shows "returns (parseFruField rounds s 0x04 FRU_RECORD_TYPE_GENERAL 0 (word_of_nat (length s)) t)
      (\<lambda>(r, t'). r = PLDM_SUCCESS \<and> cstr (genSerialNum t') = butlast s)
    \<and> (cstr f \<noteq> [] \<longrightarrow> length (cstr f) < 255 \<longrightarrow> length b = length (cstr f) + 1 \<longrightarrow>
       returns (copy_string f (Some b) (Some (word_of_nat (length b)))) (\<lambda>(r, b', n). r = PLDM_SUCCESS \<and> cstr (the b') = butlast (cstr f)))"
proof
  have n: "unat (word_of_nat (length s) :: u8) = length s" "(word_of_nat (length s) :: u8) \<noteq> 0"
    using assms by (auto simp: unat_of_nat word_unat_eq_iff)
  have "returns (store_text s (length s) (genSerialNum t)) (\<lambda>d. length d = FRU_DATA_MAX_LENGTH \<and> cstr d = butlast s)"
    using assms by (intro store_text_cstr) (auto simp: table_ok_def FRU_DATA_MAX_LENGTH_def)
  then show "returns (parseFruField rounds s 0x04 FRU_RECORD_TYPE_GENERAL 0 (word_of_nat (length s)) t)
      (\<lambda>(r, t'). r = PLDM_SUCCESS \<and> cstr (genSerialNum t') = butlast s)"
    using assms n
    by (cases "length s = 254") (auto simp: parseFruField_def decode_text_def FRU_RECORD_ENCODING_TYPE_UTF16_def
      parse_general_def Let_def FRU_DATA_MAX_LENGTH_def elim!: returns_mono)
next
  show "cstr f \<noteq> [] \<longrightarrow> length (cstr f) < 255 \<longrightarrow> length b = length (cstr f) + 1 \<longrightarrow>
       returns (copy_string f (Some b) (Some (word_of_nat (length b)))) (\<lambda>(r, b', n). r = PLDM_SUCCESS \<and> cstr (the b') = butlast (cstr f))"
  proof (intro impI)
    assume f: "cstr f \<noteq> []" "length (cstr f) < 255" "length b = length (cstr f) + 1"
    obtain u c where u: "cstr f = u @ [c]"
      using f(1) by (cases "cstr f" rule: rev_cases) auto
    then have "0 \<notin> set u"
      using cstr_no_nul [of f] by simp
    moreover have "min (length (cstr f)) 254 = length (cstr f)" "unat (word_of_nat (length (cstr f) + 1) - 1 :: u64) = length (cstr f)"
      using f by (simp_all add: unat_of_nat)
    ultimately show "returns (copy_string f (Some b) (Some (word_of_nat (length b)))) (\<lambda>(r, b', n). r = PLDM_SUCCESS \<and> cstr (the b') = butlast (cstr f))"
      using f by (simp add: copy_string_def Let_def FRU_DATA_MAX_LENGTH_def STRNCPY_S_def u list_update_append cstr_append_nul)
  qed
qed

end
