(* ===== verification/Amc_Fwpkg.thy ===== *)
theory Amc_Fwpkg
  imports Amc_FruCmd
begin

text \<open>
  The firmware package (\<^verbatim>\<open>pldm_fwpackage.h\<close>, \<^verbatim>\<open>pldm_fwpackage.cpp\<close>): reading the package file and parsing its
  header, device records and component images. A string or descriptor buffer is represented by the bytes
  stored in it; the parser's pointer into the file is a position.
\<close>

section \<open>Files\<close>

text \<open>
  \<open>f_data\<close> is the file, \<open>f_avail\<close> how many of its bytes can be read before an I/O error, \<open>f_seek_ok\<close> which
  positions can be sought. Closing a file that is closed is a fault.
\<close>

record fw_file =
  f_data :: "u8 list"
  f_avail :: nat
  f_seek_ok :: "nat \<Rightarrow> bool"
  f_open :: bool
  f_pos :: nat

definition f_close :: "fw_file \<Rightarrow> fw_file outcome" where
  "f_close f = (if f_open f then Done (f\<lparr>f_open := False\<rparr>) else Fault)"

definition f_seek :: "nat \<Rightarrow> fw_file \<Rightarrow> (bool \<times> fw_file) outcome" where
  "f_seek pos f = (if f_open f then Done (if f_seek_ok f pos then (True, f\<lparr>f_pos := pos\<rparr>) else (False, f)) else Fault)"

definition f_read :: "nat \<Rightarrow> fw_file \<Rightarrow> (u8 list \<times> fw_file) outcome" where
  "f_read n f =
     (if f_open f then
        (let bs = take n (drop (f_pos f) (take (f_avail f) (f_data f))) in Done (bs, f\<lparr>f_pos := f_pos f + length bs\<rparr>))
      else Fault)"

section \<open>The package\<close>

definition PLDM_FWU_MAX_RECORD_DESCRIPTORS :: nat where "PLDM_FWU_MAX_RECORD_DESCRIPTORS = 4"
definition PLDM_FWU_MAX_RECORDS :: u8 where "PLDM_FWU_MAX_RECORDS = 4"
definition PLDM_FWU_MAX_IMAGES :: u16 where "PLDM_FWU_MAX_IMAGES = 4"
definition PLDM_DESCRIPTOR_SIZE_BYTES :: u16 where "PLDM_DESCRIPTOR_SIZE_BYTES = 6"
definition FILE_PATH_MAX :: nat where "FILE_PATH_MAX = 4096"
definition sizeof_fwPkg :: nat where "sizeof_fwPkg = 6751"

record fwPkgHdr =
  hdr_uuid :: "u8 list"
  hdr_revision :: u8
  hdr_size :: u16
  rlsDateTime :: "u8 list"
  compBitmapLen :: u16
  pkgVerStrType :: u8
  pkgVerStrLen :: u8
  pkgVersion :: "u8 list"

record fwDescriptor =
  descType :: u16
  descLength :: u16
  descData :: "u8 list"

record fwDevRecord =
  recordLen :: u16
  descCount :: u8
  devUpdateOptionFlags :: u32
  compImageSetVerStrType :: u8
  compImageSetVerStrLen :: u8
  fwDevPkgDataLen :: u16
  applicableComp :: u8
  compImageSetVerStr :: "u8 list"
  recordDesc :: "fwDescriptor list"

record compImageInfo =
  compClassification :: u16
  img_id :: u16
  compComparisionStamp :: u32
  compOptions :: u16
  rqstdCompActivMethod :: u16
  compLocOffset :: u32
  compSize :: u32
  img_verStrType :: u8
  img_verStrLen :: u8
  img_verStr :: "u8 list"

record fwPkg =
  pkg_hdr :: fwPkgHdr
  pkg_records :: "fwDevRecord list"
  compImageCount :: u16
  compImages :: "compImageInfo list"
  pkgInfoSize :: u32
  pkg_checksum :: u32
  pkg_filePath :: "u8 list"

section \<open>Parsing\<close>

definition parse_hdr :: "u8 list \<Rightarrow> (fwPkgHdr \<times> nat) outcome" where
  "parse_hdr b =
     obind (get_bytes b 0 36) (\<lambda>h. obind (get_bytes b 36 (unat (h ! 35))) (\<lambda>v.
       Done (\<lparr>hdr_uuid = take 16 h, hdr_revision = h ! 16, hdr_size = le16 (h ! 17) (h ! 18), rlsDateTime = take 13 (drop 19 h),
         compBitmapLen = le16 (h ! 32) (h ! 33), pkgVerStrType = h ! 34, pkgVerStrLen = h ! 35, pkgVersion = v\<rparr>,
         36 + unat (h ! 35))))"

text \<open>
  The descriptors of a record, \<open>j\<close> read so far and \<open>n\<close> left; \<open>Inl\<close> is the error return. Nothing compares
  the count with the size of the array.
\<close>

primrec parse_descs :: "nat \<Rightarrow> nat \<Rightarrow> u8 list \<Rightarrow> nat \<Rightarrow> fwDescriptor list \<Rightarrow> (u8 + fwDescriptor list \<times> nat) outcome" where
  "parse_descs j 0 b pos ds = Done (Inr (ds, pos))"
| "parse_descs j (Suc n) b pos ds =
     (if j < PLDM_FWU_MAX_RECORD_DESCRIPTORS then
        obind (get_u16 b pos) (\<lambda>ty. obind (get_u16 b (pos + 2)) (\<lambda>len.
          if PLDM_DESCRIPTOR_SIZE_BYTES < len then Done (Inl PLDM_ERROR)
          else obind (get_bytes b (pos + 4) (unat len)) (\<lambda>d.
            parse_descs (Suc j) n b (pos + 4 + unat len) (ds @ [\<lparr>descType = ty, descLength = len, descData = d\<rparr>]))))
      else Fault)"

primrec parse_devs :: "nat \<Rightarrow> u8 list \<Rightarrow> nat \<Rightarrow> fwDevRecord list \<Rightarrow> (u8 + fwDevRecord list \<times> nat) outcome" where
  "parse_devs 0 b pos rs = Done (Inr (rs, pos))"
| "parse_devs (Suc n) b pos rs =
     obind (get_bytes b pos 12) (\<lambda>h. obind (get_bytes b (pos + 12) (unat (h ! 8))) (\<lambda>v.
     obind (parse_descs 0 (unat (h ! 2)) b (pos + 12 + unat (h ! 8)) []) (\<lambda>res. case res of
       Inl e \<Rightarrow> Done (Inl e)
     | Inr (ds, pos) \<Rightarrow> parse_devs n b pos (rs @ [
         \<lparr>recordLen = le16 (h ! 0) (h ! 1), descCount = h ! 2, devUpdateOptionFlags = le32 (h ! 3) (h ! 4) (h ! 5) (h ! 6),
          compImageSetVerStrType = h ! 7, compImageSetVerStrLen = h ! 8, fwDevPkgDataLen = le16 (h ! 9) (h ! 10),
          applicableComp = h ! 11, compImageSetVerStr = v, recordDesc = ds\<rparr>]))))"

primrec parse_images :: "nat \<Rightarrow> u8 list \<Rightarrow> nat \<Rightarrow> compImageInfo list \<Rightarrow> (compImageInfo list \<times> nat) outcome" where
  "parse_images 0 b pos is = Done (is, pos)"
| "parse_images (Suc n) b pos is =
     obind (get_bytes b pos 22) (\<lambda>h. obind (get_bytes b (pos + 22) (unat (h ! 21))) (\<lambda>v.
       parse_images n b (pos + 22 + unat (h ! 21)) (is @ [
         \<lparr>compClassification = le16 (h ! 0) (h ! 1), img_id = le16 (h ! 2) (h ! 3),
          compComparisionStamp = le32 (h ! 4) (h ! 5) (h ! 6) (h ! 7), compOptions = le16 (h ! 8) (h ! 9),
          rqstdCompActivMethod = le16 (h ! 10) (h ! 11), compLocOffset = le32 (h ! 12) (h ! 13) (h ! 14) (h ! 15),
          compSize = le32 (h ! 16) (h ! 17) (h ! 18) (h ! 19), img_verStrType = h ! 20, img_verStrLen = h ! 21, img_verStr = v\<rparr>])))"

definition parse_pkg :: "u8 list \<Rightarrow> u8 list \<Rightarrow> (u8 + fwPkg) outcome" where
  "parse_pkg path b =
     obind (parse_hdr b) (\<lambda>(hdr, pos). obind (get_byte b pos) (\<lambda>recordCount.
       if PLDM_FWU_MAX_RECORDS < recordCount then Done (Inl PLDM_ERROR)
       else obind (parse_devs (unat recordCount) b (pos + 1) []) (\<lambda>res. case res of
         Inl e \<Rightarrow> Done (Inl e)
       | Inr (rs, pos) \<Rightarrow>
           obind (get_byte b pos) (\<lambda>c. let count = ucast c :: u16 in
             if PLDM_FWU_MAX_IMAGES < count then Done (Inl PLDM_ERROR)
             else obind (parse_images (unat count) b (pos + 2) []) (\<lambda>(is, pos). obind (get_u32 b pos) (\<lambda>sum.
               Done (Inr \<lparr>pkg_hdr = hdr, pkg_records = rs, compImageCount = count, compImages = is,
                 pkgInfoSize = word_of_nat (pos + 4), pkg_checksum = sum, pkg_filePath = take (FILE_PATH_MAX - 2) path\<rparr>)))))))"

definition dumpPldmFwpkgInfo :: "fwPkg option \<Rightarrow> u8" where
  "dumpPldmFwpkgInfo pkg = (if pkg = None then PLDM_ERROR else PLDM_SUCCESS)"

text \<open>
  The path is \<open>None\<close> for a null pointer, \<open>alloc\<close> tells whether the package can be allocated. Every error but
  the first closes the file.
\<close>

definition fwpkgParseInfo :: "u8 list option \<Rightarrow> bool \<Rightarrow> fw_file \<Rightarrow> (u8 \<times> fwPkg option \<times> fw_file) outcome" where
  "fwpkgParseInfo path alloc f =
     (case path of None \<Rightarrow> Done (PLDM_ERROR, None, f)
      | Some path \<Rightarrow>
          let fileSize = length (f_data f) in
          if fileSize < sizeof_fwPkg then obind (f_close f) (\<lambda>f. Done (PLDM_ERROR, None, f))
          else obind (f_read fileSize (f\<lparr>f_pos := 0\<rparr>)) (\<lambda>(pkgbuf, f).
            if length pkgbuf \<noteq> fileSize then obind (f_close f) (\<lambda>f. Done (PLDM_ERROR, None, f))
            else if \<not> alloc then obind (f_close f) (\<lambda>f. Done (PLDM_ERROR, None, f))
            else obind (parse_pkg path pkgbuf) (\<lambda>res. case res of
              Inl e \<Rightarrow> obind (f_close f) (\<lambda>f. Done (e, None, f))
            | Inr pkg \<Rightarrow> if dumpPldmFwpkgInfo (Some pkg) \<noteq> PLDM_SUCCESS then Done (PLDM_ERROR, Some pkg, f)
                else Done (PLDM_SUCCESS, Some pkg, f))))"

section \<open>The layout of a package\<close>

definition hdr_bytes :: "fwPkgHdr \<Rightarrow> u8 list" where
  "hdr_bytes h = hdr_uuid h @ hdr_revision h # bytes_of_u16 (hdr_size h) @ rlsDateTime h @ bytes_of_u16 (compBitmapLen h)
     @ [pkgVerStrType h, pkgVerStrLen h] @ pkgVersion h"

definition desc_bytes :: "fwDescriptor \<Rightarrow> u8 list" where
  "desc_bytes d = bytes_of_u16 (descType d) @ bytes_of_u16 (descLength d) @ descData d"

definition dev_bytes :: "fwDevRecord \<Rightarrow> u8 list" where
  "dev_bytes r = bytes_of_u16 (recordLen r) @ descCount r # bytes_of_u32 (devUpdateOptionFlags r)
     @ [compImageSetVerStrType r, compImageSetVerStrLen r] @ bytes_of_u16 (fwDevPkgDataLen r) @ [applicableComp r]
     @ compImageSetVerStr r @ concat (map desc_bytes (recordDesc r))"

definition image_bytes :: "compImageInfo \<Rightarrow> u8 list" where
  "image_bytes i = bytes_of_u16 (compClassification i) @ bytes_of_u16 (img_id i) @ bytes_of_u32 (compComparisionStamp i)
     @ bytes_of_u16 (compOptions i) @ bytes_of_u16 (rqstdCompActivMethod i) @ bytes_of_u32 (compLocOffset i)
     @ bytes_of_u32 (compSize i) @ [img_verStrType i, img_verStrLen i] @ img_verStr i"

definition pkg_bytes :: "fwPkg \<Rightarrow> u8 list" where
  "pkg_bytes p = hdr_bytes (pkg_hdr p) @ word_of_nat (length (pkg_records p)) # concat (map dev_bytes (pkg_records p))
     @ bytes_of_u16 (compImageCount p) @ concat (map image_bytes (compImages p)) @ bytes_of_u32 (pkg_checksum p)"

definition hdr_ok :: "fwPkgHdr \<Rightarrow> bool" where
  "hdr_ok h = (length (hdr_uuid h) = 16 \<and> length (rlsDateTime h) = 13 \<and> length (pkgVersion h) = unat (pkgVerStrLen h))"

definition desc_ok :: "fwDescriptor \<Rightarrow> bool" where
  "desc_ok d = (unat (descLength d) \<le> 6 \<and> length (descData d) = unat (descLength d))"

definition dev_ok :: "fwDevRecord \<Rightarrow> bool" where
  "dev_ok r = (length (recordDesc r) = unat (descCount r) \<and> unat (descCount r) \<le> 4
     \<and> length (compImageSetVerStr r) = unat (compImageSetVerStrLen r) \<and> list_all desc_ok (recordDesc r))"

definition image_ok :: "compImageInfo \<Rightarrow> bool" where
  "image_ok i = (length (img_verStr i) = unat (img_verStrLen i))"

definition pkg_ok :: "fwPkg \<Rightarrow> bool" where
  "pkg_ok p = (hdr_ok (pkg_hdr p) \<and> length (pkg_records p) \<le> 4 \<and> list_all dev_ok (pkg_records p)
     \<and> length (compImages p) = unat (compImageCount p) \<and> unat (compImageCount p) \<le> 4 \<and> list_all image_ok (compImages p))"

section \<open>Parsing the layout gives the package back\<close>

lemma get_at:
  "get_bytes (pre @ ys) (length pre + k) n = get_bytes ys k n"
  "get_bytes (pre @ ys) (length pre) n = get_bytes ys 0 n"
  "get_u16 (pre @ ys) (length pre) = get_u16 ys 0"
  "get_u16 (pre @ ys) (length pre + k) = get_u16 ys k"
  "get_u32 (pre @ ys) (length pre) = get_u32 ys 0"
  "get_byte (pre @ ys) (length pre) = get_byte ys 0"
  by (auto simp: get_bytes_def get_u16_def get_u32_def get_byte_def nth_append numeral_2_eq_2)

lemma get_bytes_front: "length xs = n \<Longrightarrow> get_bytes (xs @ ys) 0 n = Done xs"
  by (simp add: get_bytes_def)

lemma parse_hdr_bytes: "hdr_ok h \<Longrightarrow> parse_hdr (hdr_bytes h @ rest) = Done (h, length (hdr_bytes h))"
proof -
  assume ok: "hdr_ok h"
  let ?fix = "hdr_uuid h @ hdr_revision h # bytes_of_u16 (hdr_size h) @ rlsDateTime h @ bytes_of_u16 (compBitmapLen h)
     @ [pkgVerStrType h, pkgVerStrLen h]"
  have len: "length ?fix = 36" and lens: "length (hdr_uuid h) = 16" "length (rlsDateTime h) = 13" "length (pkgVersion h) = unat (pkgVerStrLen h)"
    using ok by (simp_all add: hdr_ok_def)
  have split: "hdr_bytes h @ rest = ?fix @ pkgVersion h @ rest"
    by (simp add: hdr_bytes_def)
  have "get_bytes (hdr_bytes h @ rest) 0 36 = Done ?fix"
    unfolding split by (rule get_bytes_front [OF len])
  moreover have "get_bytes (hdr_bytes h @ rest) 36 (unat (pkgVerStrLen h)) = Done (pkgVersion h)"
    unfolding split using get_at(2) [of ?fix "pkgVersion h @ rest"] get_bytes_front [of "pkgVersion h"] lens
    by (simp only: len)
  moreover have "?fix ! 16 = hdr_revision h" "le16 (?fix ! 17) (?fix ! 18) = hdr_size h" "le16 (?fix ! 32) (?fix ! 33) = compBitmapLen h"
    "?fix ! 34 = pkgVerStrType h" "?fix ! 35 = pkgVerStrLen h" "take 16 ?fix = hdr_uuid h" "take 13 (drop 19 ?fix) = rlsDateTime h"
    using lens by (simp_all add: nth_append bytes_of_u16_def)
  moreover have "length (hdr_bytes h) = 36 + unat (pkgVerStrLen h)"
    using lens by (simp add: hdr_bytes_def)
  ultimately show ?thesis
    by (simp only: parse_hdr_def obind.simps) simp
qed

lemma length_desc_bytes: "desc_ok d \<Longrightarrow> length (desc_bytes d) = 4 + unat (descLength d)"
  by (simp add: desc_bytes_def desc_ok_def)

lemma parse_descs_step:
  "list_all desc_ok ds \<Longrightarrow> j + length ds \<le> 4 \<Longrightarrow>
   parse_descs j (length ds + n) (pre @ concat (map desc_bytes ds) @ rest) (length pre) acc
     = parse_descs (j + length ds) n (pre @ concat (map desc_bytes ds) @ rest) (length pre + length (concat (map desc_bytes ds))) (acc @ ds)"
proof (induction ds arbitrary: j pre acc)
  case Nil
  then show ?case by simp
next
  case (Cons d ds)
  have ok: "desc_ok d" using Cons.prems by simp
  define b where "b = pre @ concat (map desc_bytes (d # ds)) @ rest"
  have split: "b = (pre @ desc_bytes d) @ concat (map desc_bytes ds) @ rest"
    by (simp add: b_def)
  have here: "b = pre @ bytes_of_u16 (descType d) @ bytes_of_u16 (descLength d) @ descData d @ concat (map desc_bytes ds) @ rest"
    by (simp add: b_def desc_bytes_def)
  have head: "get_u16 b (length pre) = Done (descType d)" "get_u16 b (length pre + 2) = Done (descLength d)"
    "get_bytes b (length pre + 4) (unat (descLength d)) = Done (descData d)"
    using ok unfolding here get_at by (simp_all add: bytes_of_u16_def desc_ok_def)
  have step: "parse_descs (Suc j) (length ds + n) b (length pre + 4 + unat (descLength d)) acc'
      = parse_descs (j + length (d # ds)) n b (length pre + length (concat (map desc_bytes (d # ds)))) (acc' @ ds)" for acc'
    using Cons.IH [of "Suc j" "pre @ desc_bytes d"] Cons.prems length_desc_bytes [OF ok] unfolding split by (simp add: ac_simps)
  have "\<not> PLDM_DESCRIPTOR_SIZE_BYTES < descLength d" "j < PLDM_FWU_MAX_RECORD_DESCRIPTORS"
    using ok Cons.prems by (simp_all add: desc_ok_def PLDM_DESCRIPTOR_SIZE_BYTES_def PLDM_FWU_MAX_RECORD_DESCRIPTORS_def word_less_nat_alt)
  moreover have eta: "acc @ [\<lparr>descType = descType d, descLength = descLength d, descData = descData d\<rparr>] = acc @ [d]"
    by simp
  have "parse_descs (Suc j) (length ds + n) b (length pre + 4 + unat (descLength d))
      (acc @ [\<lparr>descType = descType d, descLength = descLength d, descData = descData d\<rparr>])
      = parse_descs (j + length (d # ds)) n b (length pre + length (concat (map desc_bytes (d # ds)))) (acc @ d # ds)"
    unfolding eta step by simp
  ultimately show ?case
    unfolding b_def [symmetric] using head by (simp add: list.size)
qed

corollary parse_descs_bytes:
  "list_all desc_ok ds \<Longrightarrow> j + length ds \<le> 4 \<Longrightarrow>
   parse_descs j (length ds) (pre @ concat (map desc_bytes ds) @ rest) (length pre) acc
     = Done (Inr (acc @ ds, length pre + length (concat (map desc_bytes ds))))"
  using parse_descs_step [of ds j 0] by simp

lemma length_concat_descs: "list_all desc_ok ds \<Longrightarrow> length (concat (map desc_bytes ds)) = (\<Sum>d\<leftarrow>ds. 4 + unat (descLength d))"
  by (induction ds) (simp_all add: length_desc_bytes)

lemma parse_devs_bytes:
  "list_all dev_ok rs \<Longrightarrow>
   parse_devs (length rs) (pre @ concat (map dev_bytes rs) @ rest) (length pre) acc
     = Done (Inr (acc @ rs, length pre + length (concat (map dev_bytes rs))))"
proof (induction rs arbitrary: pre acc)
  case Nil
  then show ?case by simp
next
  case (Cons r rs)
  have ok: "dev_ok r" using Cons.prems by simp
  define fixed where "fixed = bytes_of_u16 (recordLen r) @ descCount r # bytes_of_u32 (devUpdateOptionFlags r)
     @ [compImageSetVerStrType r, compImageSetVerStrLen r] @ bytes_of_u16 (fwDevPkgDataLen r) @ [applicableComp r]"
  have len: "length fixed = 12" by (simp add: fixed_def)
  define b where "b = pre @ concat (map dev_bytes (r # rs)) @ rest"
  let ?tail = "concat (map dev_bytes rs) @ rest"
  let ?ds = "concat (map desc_bytes (recordDesc r))"
  have dev: "dev_bytes r = fixed @ compImageSetVerStr r @ ?ds"
    by (simp add: dev_bytes_def fixed_def)
  have b1: "b = pre @ fixed @ compImageSetVerStr r @ ?ds @ ?tail"
    and b2: "b = (pre @ fixed) @ compImageSetVerStr r @ ?ds @ ?tail"
    and b3: "b = (pre @ fixed @ compImageSetVerStr r) @ ?ds @ ?tail"
    and b4: "b = (pre @ dev_bytes r) @ ?tail"
    by (simp_all add: b_def dev)
  have v: "length (compImageSetVerStr r) = unat (compImageSetVerStrLen r)" using ok by (simp add: dev_ok_def)
  have h: "get_bytes b (length pre) 12 = Done fixed"
    unfolding b1 get_at(2) by (rule get_bytes_front [OF len])
  have vs: "get_bytes b (length pre + 12) (unat (compImageSetVerStrLen r)) = Done (compImageSetVerStr r)"
    using get_at(2) [of "pre @ fixed" "compImageSetVerStr r @ ?ds @ ?tail"] get_bytes_front [OF v] len unfolding b2 by simp
  have ds: "parse_descs 0 (unat (descCount r)) b (length pre + 12 + unat (compImageSetVerStrLen r)) []
      = Done (Inr (recordDesc r, length (pre @ dev_bytes r)))"
    using parse_descs_bytes [of "recordDesc r" 0 "pre @ fixed @ compImageSetVerStr r" ?tail "[]"] ok len v
    unfolding b3 dev by (simp add: dev_ok_def ac_simps)
  have rs: "parse_devs (length rs) b (length (pre @ dev_bytes r)) acc'
      = Done (Inr (acc' @ rs, length pre + length (concat (map dev_bytes (r # rs)))))" for acc'
    using Cons.IH [of "pre @ dev_bytes r" acc'] Cons.prems unfolding b4 by (simp add: ac_simps)
  have fields: "le16 (fixed ! 0) (fixed ! Suc 0) = recordLen r" "fixed ! 2 = descCount r"
    "le32 (fixed ! 3) (fixed ! 4) (fixed ! 5) (fixed ! 6) = devUpdateOptionFlags r" "fixed ! 7 = compImageSetVerStrType r"
    "fixed ! 8 = compImageSetVerStrLen r" "le16 (fixed ! 9) (fixed ! 10) = fwDevPkgDataLen r" "fixed ! 11 = applicableComp r"
    by (simp_all add: fixed_def bytes_of_u16_def bytes_of_u32_def)
  show ?case
    unfolding b_def [symmetric] by (simp add: h vs ds rs fields list.size del: length_append)
qed

lemma parse_images_bytes:
  "list_all image_ok ims \<Longrightarrow>
   parse_images (length ims) (pre @ concat (map image_bytes ims) @ rest) (length pre) acc
     = Done (acc @ ims, length pre + length (concat (map image_bytes ims)))"
proof (induction ims arbitrary: pre acc)
  case Nil
  then show ?case by simp
next
  case (Cons i ims)
  have v: "length (img_verStr i) = unat (img_verStrLen i)" using Cons.prems by (simp add: image_ok_def)
  define fixed where "fixed = bytes_of_u16 (compClassification i) @ bytes_of_u16 (img_id i) @ bytes_of_u32 (compComparisionStamp i)
     @ bytes_of_u16 (compOptions i) @ bytes_of_u16 (rqstdCompActivMethod i) @ bytes_of_u32 (compLocOffset i)
     @ bytes_of_u32 (compSize i) @ [img_verStrType i, img_verStrLen i]"
  have len: "length fixed = 22" by (simp add: fixed_def)
  define b where "b = pre @ concat (map image_bytes (i # ims)) @ rest"
  let ?tail = "concat (map image_bytes ims) @ rest"
  have img: "image_bytes i = fixed @ img_verStr i"
    by (simp add: image_bytes_def fixed_def)
  have b1: "b = pre @ fixed @ img_verStr i @ ?tail" and b2: "b = (pre @ fixed) @ img_verStr i @ ?tail"
    and b3: "b = (pre @ image_bytes i) @ ?tail"
    by (simp_all add: b_def img)
  have h: "get_bytes b (length pre) 22 = Done fixed"
    unfolding b1 get_at(2) by (rule get_bytes_front [OF len])
  have vs: "get_bytes b (length pre + 22) (unat (img_verStrLen i)) = Done (img_verStr i)"
    using get_at(2) [of "pre @ fixed" "img_verStr i @ ?tail"] get_bytes_front [OF v] len unfolding b2 by simp
  have rest: "parse_images (length ims) b (length pre + 22 + unat (img_verStrLen i)) acc'
      = Done (acc' @ ims, length pre + length (concat (map image_bytes (i # ims))))" for acc'
    using Cons.IH [of "pre @ image_bytes i" acc'] Cons.prems len v unfolding b3 by (simp add: img ac_simps)
  have fields: "le16 (fixed ! 0) (fixed ! 1) = compClassification i" "le16 (fixed ! 2) (fixed ! 3) = img_id i"
    "le32 (fixed ! 4) (fixed ! 5) (fixed ! 6) (fixed ! 7) = compComparisionStamp i" "le16 (fixed ! 8) (fixed ! 9) = compOptions i"
    "le16 (fixed ! 10) (fixed ! 11) = rqstdCompActivMethod i" "le32 (fixed ! 12) (fixed ! 13) (fixed ! 14) (fixed ! 15) = compLocOffset i"
    "le32 (fixed ! 16) (fixed ! 17) (fixed ! 18) (fixed ! 19) = compSize i" "fixed ! 20 = img_verStrType i" "fixed ! 21 = img_verStrLen i"
    by (simp_all add: fixed_def bytes_of_u16_def bytes_of_u32_def)
  show ?case
    unfolding b_def [symmetric] by (simp only: list.size parse_images.simps add_0_right add_Suc_right h vs obind.simps fields rest) simp
qed

text \<open>
  C27. The parser reads back every package laid out as its header, records and images are, whatever follows
  them in the file: all fields, the variable-length strings and descriptors included, the size being the
  number of bytes the package information takes and the path the first \<open>FILE_PATH_MAX - 2\<close> bytes of the path.
\<close>

theorem package_round_trip:
  assumes "pkg_ok p"
  shows "parse_pkg path (pkg_bytes p @ rest)
    = Done (Inr (p\<lparr>pkgInfoSize := word_of_nat (length (pkg_bytes p)), pkg_filePath := take (FILE_PATH_MAX - 2) path\<rparr>))"
proof -
  let ?n = "word_of_nat (length (pkg_records p)) :: u8"
  let ?h = "hdr_bytes (pkg_hdr p)" and ?rs = "concat (map dev_bytes (pkg_records p))"
    and ?is = "concat (map image_bytes (compImages p))" and ?c = "ucast (compImageCount p) :: u8"
  define b where "b = pkg_bytes p @ rest"
  let ?t3 = "bytes_of_u32 (pkg_checksum p) @ rest"
  let ?t2 = "bytes_of_u16 (compImageCount p) @ ?is @ ?t3"
  have b1: "b = ?h @ ?n # ?rs @ ?t2" and b2: "b = (?h @ [?n]) @ ?rs @ ?t2" and b3: "b = (?h @ [?n] @ ?rs) @ ?t2"
    and b4: "b = (?h @ [?n] @ ?rs @ bytes_of_u16 (compImageCount p)) @ ?is @ ?t3"
    and b5: "b = (?h @ [?n] @ ?rs @ bytes_of_u16 (compImageCount p) @ ?is) @ ?t3"
    by (simp_all add: b_def pkg_bytes_def)
  have few: "length (pkg_records p) \<le> 4" "unat (compImageCount p) \<le> 4" using assms by (simp_all add: pkg_ok_def)
  have n: "unat ?n = length (pkg_records p)" using few by (simp add: unat_of_nat take_bit_nat_eq_self)
  have c: "unat ?c = unat (compImageCount p)" using few by (simp add: unsigned_ucast_eq unsigned_take_bit_eq take_bit_nat_eq_self)
  then have c': "(ucast ?c :: u16) = compImageCount p" by (simp add: word_unat_eq_iff unsigned_ucast_eq unsigned_take_bit_eq take_bit_nat_eq_self few)
  have hdr: "parse_hdr b = Done (pkg_hdr p, length ?h)"
    unfolding b1 using assms by (intro parse_hdr_bytes) (simp add: pkg_ok_def)
  have cnt: "get_byte b (length ?h) = Done ?n" unfolding b1 get_at by simp
  have devs: "parse_devs (unat ?n) b (length ?h + 1) [] = Done (Inr (pkg_records p, length ?h + 1 + length ?rs))"
    using parse_devs_bytes [of "pkg_records p" "?h @ [?n]" ?t2 "[]"] assms n unfolding b2 by (simp add: pkg_ok_def)
  have byte: "get_byte b (length ?h + 1 + length ?rs) = Done ?c"
    using get_at(6) [of "?h @ [?n] @ ?rs" ?t2] unfolding b3 by (simp add: bytes_of_u16_def)
  have images: "parse_images (unat (compImageCount p)) b (length ?h + 1 + length ?rs + 2) []
      = Done (compImages p, length ?h + 1 + length ?rs + 2 + length ?is)"
    using parse_images_bytes [of "compImages p" "?h @ [?n] @ ?rs @ bytes_of_u16 (compImageCount p)" ?t3 "[]"] assms
    unfolding b4 by (simp add: pkg_ok_def ac_simps)
  have sum: "get_u32 b (length ?h + 1 + length ?rs + 2 + length ?is) = Done (pkg_checksum p)"
    using get_at(5) [of "?h @ [?n] @ ?rs @ bytes_of_u16 (compImageCount p) @ ?is" ?t3] unfolding b5 by (simp add: bytes_of_u32_def ac_simps)
  have len: "length (pkg_bytes p) = length ?h + 1 + length ?rs + 2 + length ?is + 4"
    by (simp add: pkg_bytes_def)
  have room: "\<not> PLDM_FWU_MAX_RECORDS < ?n" "\<not> PLDM_FWU_MAX_IMAGES < compImageCount p"
    using n few by (simp_all add: PLDM_FWU_MAX_RECORDS_def PLDM_FWU_MAX_IMAGES_def word_less_nat_alt)
  show ?thesis
    unfolding b_def [symmetric] parse_pkg_def len
    by (simp only: hdr cnt devs byte images sum c' room Let_def obind.simps prod.case sum.case if_False) simp
qed

text \<open>
  A device record with more descriptors than the record's array has room for makes the parser write
  past the array: nothing compares the count, a byte of the file, with the array's size.
\<close>

theorem descriptor_overrun:
  assumes "list_all desc_ok ds" and "length ds = 4" and "4 < n"
  shows "parse_descs 0 n (pre @ concat (map desc_bytes ds) @ rest) (length pre) [] = Fault"
proof -
  obtain k where "n = length ds + Suc k"
    using assms less_imp_Suc_add [of 4 n] by auto
  then show ?thesis
    using parse_descs_step [of ds 0 "Suc k" pre rest "[]"] assms by (simp add: PLDM_FWU_MAX_RECORD_DESCRIPTORS_def)
qed

end
