(* ===== verification/Amc_Fwupdate.thy ===== *)
theory Amc_Fwupdate
  imports Amc_Fwpkg
begin

text \<open>
  Firmware update over PLDM (\<^verbatim>\<open>pldm_fwupdate.cpp\<close>, \<^verbatim>\<open>pldm_fwupdate_helper.cpp\<close>, \<^verbatim>\<open>pldm_fwupdate_resp.cpp\<close>):
  the update commands, the transfer loop in which the card asks for the component image piece by piece,
  and the whole update of a package.
\<close>

section \<open>Data\<close>

definition QUERY_DEVICE_IDENTIFIERS :: u8 where "QUERY_DEVICE_IDENTIFIERS = 0x01"
definition GET_FIRMWARE_PARAMETERS :: u8 where "GET_FIRMWARE_PARAMETERS = 0x02"
definition REQUEST_UPDATE :: u8 where "REQUEST_UPDATE = 0x10"
definition PASS_COMPONENT_TABLE :: u8 where "PASS_COMPONENT_TABLE = 0x13"
definition UPDATE_COMPONENT :: u8 where "UPDATE_COMPONENT = 0x14"
definition REQUEST_FIRMWARE_DATA :: u8 where "REQUEST_FIRMWARE_DATA = 0x15"
definition TRANSFER_COMPLETE :: u8 where "TRANSFER_COMPLETE = 0x16"
definition VERIFY_COMPLETE :: u8 where "VERIFY_COMPLETE = 0x17"
definition APPLY_COMPLETE :: u8 where "APPLY_COMPLETE = 0x18"
definition ACTIVATE_FIRMWARE :: u8 where "ACTIVATE_FIRMWARE = 0x1A"
definition GET_STATUS :: u8 where "GET_STATUS = 0x1B"
definition CANCEL_UPDATE_COMPONENT :: u8 where "CANCEL_UPDATE_COMPONENT = 0x1C"
definition CANCEL_UPDATE :: u8 where "CANCEL_UPDATE = 0x1D"

lemmas fwu_cmds = QUERY_DEVICE_IDENTIFIERS_def GET_FIRMWARE_PARAMETERS_def REQUEST_UPDATE_def PASS_COMPONENT_TABLE_def
  UPDATE_COMPONENT_def REQUEST_FIRMWARE_DATA_def TRANSFER_COMPLETE_def VERIFY_COMPLETE_def APPLY_COMPLETE_def
  ACTIVATE_FIRMWARE_def GET_STATUS_def CANCEL_UPDATE_COMPONENT_def CANCEL_UPDATE_def

definition DATA_OUT_OF_RANGE :: u8 where "DATA_OUT_OF_RANGE = 0x82"
definition INVALID_TRANSFER_LENGTH :: u8 where "INVALID_TRANSFER_LENGTH = 0x83"
definition COMMAND_NOT_EXPECTED :: u8 where "COMMAND_NOT_EXPECTED = 0x88"
definition ALREADY_IN_UPDATE_MODE :: u8 where "ALREADY_IN_UPDATE_MODE = 0x81"
definition PLDM_MCTP_MAX_TRANSFER_SIZE :: u32 where "PLDM_MCTP_MAX_TRANSFER_SIZE = 32"
definition PLDM_FWUPDATE_MAX_PAYLOAD_SIZE :: nat where "PLDM_FWUPDATE_MAX_PAYLOAD_SIZE = 512"
definition FWU_COMMAND_BASE_SIZE :: u8 where "FWU_COMMAND_BASE_SIZE = 12"
definition ACTIVATE_FIRMWARE_SIZE :: u8 where "ACTIVATE_FIRMWARE_SIZE = 13"
definition TRANSFERFLAG_END :: u8 where "TRANSFERFLAG_END = 0x04"
definition FWU_FORCEUPDATE :: u32 where "FWU_FORCEUPDATE = 1"

record fwuRequestUpdate =
  maxTransferSize :: u32
  numComp :: u16
  maxOutstandXferReqs :: u8
  pkgDataLen :: u16
  compImgSetVerStrType :: u8
  compImgSetVerStrLen :: u8
  compImgSetVerStr :: "u8 list"

record fwuPassCompTable =
  pass_xferFlag :: u8
  pass_compClass :: u16
  pass_id :: u16
  pass_compClassIdx :: u8
  pass_comparisonStamp :: u32
  pass_verStrType :: u8
  pass_verStrLen :: u8
  pass_verStr :: "u8 list"

record fwUpdComp_t =
  upd_compClass :: u16
  upd_id :: u16
  upd_compClassIdx :: u8
  upd_comparisonStamp :: u32
  componentimagesize :: u32
  updateoptionflags :: u32
  upd_verStrType :: u8
  upd_verStrLen :: u8
  upd_verStr :: "u8 list"

definition req_bytes :: "fwuRequestUpdate \<Rightarrow> u8 list" where
  "req_bytes r = bytes_of_u32 (maxTransferSize r) @ bytes_of_u16 (numComp r) @ [maxOutstandXferReqs r] @ bytes_of_u16 (pkgDataLen r)
     @ [compImgSetVerStrType r, compImgSetVerStrLen r] @ compImgSetVerStr r"

definition pass_bytes :: "fwuPassCompTable \<Rightarrow> u8 list" where
  "pass_bytes r = pass_xferFlag r # bytes_of_u16 (pass_compClass r) @ bytes_of_u16 (pass_id r) @ [pass_compClassIdx r]
     @ bytes_of_u32 (pass_comparisonStamp r) @ [pass_verStrType r, pass_verStrLen r] @ pass_verStr r"

definition upd_bytes :: "fwUpdComp_t \<Rightarrow> u8 list" where
  "upd_bytes r = bytes_of_u16 (upd_compClass r) @ bytes_of_u16 (upd_id r) @ [upd_compClassIdx r] @ bytes_of_u32 (upd_comparisonStamp r)
     @ bytes_of_u32 (componentimagesize r) @ bytes_of_u32 (updateoptionflags r) @ [upd_verStrType r, upd_verStrLen r] @ upd_verStr r"

record pldm_fwu = pldm_fru +
  mFwuCmdLen :: u8
  mI2cMultiResp :: bool
  mReqUpdate :: fwuRequestUpdate
  mPassCompTable :: fwuPassCompTable
  mUpdComp :: fwUpdComp_t
  mFwuCurrentState :: u8
  mCompFp :: "fw_file option"
  pkg :: "fwPkg option"
  mCurComp :: u8

section \<open>Requests\<close>

definition cur_image :: "'a pldm_fwu_scheme \<Rightarrow> compImageInfo outcome" where
  "cur_image p = obind (the_ptr (pkg p)) (\<lambda>k.
     if unat (mCurComp p) < length (compImages k) then Done (compImages k ! unat (mCurComp p)) else Fault)"

text \<open>Copying the first \<open>n\<close> bytes of a structure to the payload, and the CRC of \<open>n\<close> bytes behind them.\<close>

definition send_struct :: "u8 list \<Rightarrow> u8 \<Rightarrow> 'a pldm_fwu_scheme \<Rightarrow> (u8 \<times> 'a pldm_fwu_scheme) outcome" where
  "send_struct bs n p =
     obind (get_bytes bs 0 (unat n)) (\<lambda>b.
     obind (fill_payload (\<lambda>q. obind (put_bytes q 0 b) (\<lambda>q. put_crc q (unat n) (unat n))) p) (\<lambda>p. Done (PLDM_SUCCESS, p)))"

text \<open>Copying the version string of an image into the string of a structure.\<close>

definition copy_verStr :: "compImageInfo \<Rightarrow> u8 list \<Rightarrow> u8 list outcome" where
  "copy_verStr im s = obind (get_bytes (img_verStr im) 0 (unat (img_verStrLen im))) (\<lambda>v. put_bytes s 0 v)"

definition fwReqUpdate :: "'a pldm_fwu_scheme \<Rightarrow> (u8 \<times> 'a pldm_fwu_scheme) outcome" where
  "fwReqUpdate p =
     obind (the_ptr (pkg p)) (\<lambda>k. obind (cur_image p) (\<lambda>im. obind (copy_verStr im (compImgSetVerStr (mReqUpdate p))) (\<lambda>s.
       let r = \<lparr>maxTransferSize = PLDM_MCTP_MAX_TRANSFER_SIZE, numComp = compImageCount k, maxOutstandXferReqs = 1, pkgDataLen = 0,
             compImgSetVerStrType = img_verStrType im, compImgSetVerStrLen = img_verStrLen im, compImgSetVerStr = s\<rparr>;
           n = FWU_COMMAND_BASE_SIZE + 11 + img_verStrLen im
       in send_struct (req_bytes r) n (p\<lparr>mReqUpdate := r, mFwuCmdLen := n\<rparr>))))"

definition fwupdPassCompTable :: "'a pldm_fwu_scheme \<Rightarrow> (u8 \<times> 'a pldm_fwu_scheme) outcome" where
  "fwupdPassCompTable p =
     obind (cur_image p) (\<lambda>im. obind (copy_verStr im (pass_verStr (mPassCompTable p))) (\<lambda>s.
       let r = \<lparr>pass_xferFlag = TRANSFERFLAG_END, pass_compClass = compClassification im, pass_id = img_id im, pass_compClassIdx = 0,
             pass_comparisonStamp = compComparisionStamp im, pass_verStrType = img_verStrType im, pass_verStrLen = img_verStrLen im,
             pass_verStr = s\<rparr>;
           n = FWU_COMMAND_BASE_SIZE + 12 + img_verStrLen im
       in send_struct (pass_bytes r) n (p\<lparr>mPassCompTable := r, mFwuCmdLen := n\<rparr>)))"

definition fwUpdComp :: "'a pldm_fwu_scheme \<Rightarrow> (u8 \<times> 'a pldm_fwu_scheme) outcome" where
  "fwUpdComp p =
     obind (cur_image p) (\<lambda>im. obind (copy_verStr im (upd_verStr (mUpdComp p))) (\<lambda>s.
       let r = \<lparr>upd_compClass = compClassification im, upd_id = img_id im, upd_compClassIdx = 0,
             upd_comparisonStamp = compComparisionStamp im, componentimagesize = compSize im, updateoptionflags = FWU_FORCEUPDATE,
             upd_verStrType = img_verStrType im, upd_verStrLen = img_verStrLen im, upd_verStr = s\<rparr>;
           n = FWU_COMMAND_BASE_SIZE + 19 + img_verStrLen im
       in send_struct (upd_bytes r) n (p\<lparr>mUpdComp := r, mFwuCmdLen := n\<rparr>)))"

definition pldmFwUpdFillPayload :: "u8 \<Rightarrow> nat \<Rightarrow> 'a pldm_fwu_scheme \<Rightarrow> (u8 \<times> 'a pldm_fwu_scheme) outcome" where
  "pldmFwUpdFillPayload cmd sz p =
     (if cmd \<in> {QUERY_DEVICE_IDENTIFIERS, GET_FIRMWARE_PARAMETERS, CANCEL_UPDATE_COMPONENT, CANCEL_UPDATE, GET_STATUS} then
        obind (fill_payload (\<lambda>q. obind (clear_payload q sz) (\<lambda>q. put_crc q 0 (sz - 1))) p) (\<lambda>p. Done (PLDM_SUCCESS, p))
      else if cmd = ACTIVATE_FIRMWARE then
        obind (fill_payload (\<lambda>q. obind (put_byte q 0 0x01) (\<lambda>q. put_crc q 1 (sz - 1))) p) (\<lambda>p. Done (PLDM_SUCCESS, p))
      else if cmd = REQUEST_UPDATE then
        obind (fwReqUpdate p) (\<lambda>(ret, p). Done (if ret \<noteq> PLDM_SUCCESS then PLDM_ERROR else PLDM_SUCCESS, p))
      else if cmd = PASS_COMPONENT_TABLE then
        obind (fwupdPassCompTable p) (\<lambda>(ret, p). Done (if ret \<noteq> PLDM_SUCCESS then PLDM_ERROR else PLDM_SUCCESS, p))
      else if cmd = UPDATE_COMPONENT then
        obind (fwUpdComp p) (\<lambda>(ret, p). Done (if ret \<noteq> PLDM_SUCCESS then PLDM_ERROR else PLDM_SUCCESS, p))
      else Done (PLDM_ERROR, p))"

section \<open>Responses\<close>

definition readdress :: "i2cdata \<Rightarrow> i2cdata" where
  "readdress rd = rd\<lparr>pldmSmbusHdr := (pldmSmbusHdr rd)\<lparr>destSlaveAddr := ucast MCTP_SRC_SLAVE_ADDR, destSlaveAddrB0 := 1\<rparr>\<rparr>"

definition pldmFwUpdateRespPayload :: "u8 \<Rightarrow> 'a pldm_fwu_scheme \<Rightarrow> (u8 \<times> 'a pldm_fwu_scheme) outcome" where
  "pldmFwUpdateRespPayload cmd p =
     obind (the_ptr (mI2cPldmRead p)) (\<lambda>rd. let rd = readdress rd; p = p\<lparr>mI2cPldmRead := Some rd\<rparr> in
       if cmd = GET_STATUS then obind (get_byte (respPayload rd) 1) (\<lambda>st. Done (PLDM_SUCCESS, p\<lparr>mFwuCurrentState := st\<rparr>))
       else Done (PLDM_SUCCESS, p))"

definition pldmFwGetParamPayload :: "u8 \<Rightarrow> u8 \<Rightarrow> 'a pldm_fwu_scheme \<Rightarrow> (u8 \<times> 'a pldm_fwu_scheme) outcome" where
  "pldmFwGetParamPayload cmd ident p =
     obind (the_ptr (mI2cPldmRead p)) (\<lambda>rd.
       let rd = readdress rd; p = p\<lparr>mI2cPldmRead := Some rd\<rparr>; h = pldmMsgHdr rd in
       if \<not> mI2cMultiResp p \<and> (pldm_cmdCode h \<noteq> cmd \<or> (ucast (pldm_instance h) :: u8) \<noteq> ident \<or> pldm_request h \<noteq> 0)
       then Done (PLDM_ERROR, p)
       else Done (PLDM_SUCCESS, p\<lparr>mI2cMultiResp := (eom (pldmSmbusHdr rd) = 0)\<rparr>))"

definition fwUpdateResp :: "u8 \<Rightarrow> u8 \<Rightarrow> 'a pldm_fwu_scheme \<Rightarrow> (u8 \<times> 'a pldm_fwu_scheme) outcome" where
  "fwUpdateResp cmd ident p =
     (if cmd \<in> {QUERY_DEVICE_IDENTIFIERS, CANCEL_UPDATE_COMPONENT, CANCEL_UPDATE, GET_STATUS, ACTIVATE_FIRMWARE}
      then pldmFwUpdateRespPayload cmd p
      else if cmd = GET_FIRMWARE_PARAMETERS then pldmFwGetParamPayload cmd ident p
      else if cmd = REQUEST_UPDATE then
        obind (pldmFwUpdateRespPayload cmd p) (\<lambda>(ret, p). obind (read_payload 0 p) (\<lambda>code.
          Done (if code = PLDM_SUCCESS then ret else if code = ALREADY_IN_UPDATE_MODE then PLDM_SUCCESS else PLDM_ERROR, p)))
      else if cmd \<in> {PASS_COMPONENT_TABLE, UPDATE_COMPONENT} then
        obind (pldmFwUpdateRespPayload cmd p) (\<lambda>(ret, p). obind (read_payload 0 p) (\<lambda>code.
          Done (if code = PLDM_SUCCESS then ret else PLDM_ERROR, p)))
      else Done (PLDM_ERROR, p))"

text \<open>Reading responses until one is not the first or a middle part of several; \<open>k\<close> bounds their number.\<close>

primrec fwu_responses :: "nat \<Rightarrow> u8 \<Rightarrow> 'a pldm_fwu_scheme \<Rightarrow> (u8 \<times> 'a pldm_fwu_scheme) outcome" where
  "fwu_responses 0 cmd p = Stuck"
| "fwu_responses (Suc k) cmd p =
     obind (pldm_receive p) (\<lambda>(ok, p).
       if \<not> ok then Done (PLDM_ERROR, p)
       else obind (fwUpdateResp cmd (pldm_instanceID p) p) (\<lambda>(ret, p).
         if ret \<noteq> PLDM_SUCCESS then Done (PLDM_ERROR, p)
         else if \<not> mI2cMultiResp p then Done (PLDM_SUCCESS, p)
         else fwu_responses k cmd p))"

definition fwUpdCmd :: "nat \<Rightarrow> u8 \<Rightarrow> u8 \<Rightarrow> 'a pldm_fwu_scheme \<Rightarrow> (u8 \<times> 'a pldm_fwu_scheme) outcome" where
  "fwUpdCmd rounds cmd sz p =
     (let p = next_instance (p\<lparr>mFwuCmdLen := sz, mI2cMultiResp := False\<rparr>) in
      obind (pldmFwUpdFillPayload cmd (unat sz) p) (\<lambda>(ret, p).
        if ret \<noteq> PLDM_SUCCESS then Done (PLDM_ERROR, p)
        else obind (the_ptr (mI2cPldmWrite p)) (\<lambda>wr.
          let p = p\<lparr>mI2cPldmWrite := Some (pldm_headers PLDM_FIRMWARE_UPDATE cmd (mFwuCmdLen p) p wr)\<rparr> in
          obind (pldm_send (mFwuCmdLen p) p) (\<lambda>(ok, p).
            if \<not> ok then Done (PLDM_ERROR, p)
            else obind (if cmd \<noteq> ACTIVATE_FIRMWARE then fwu_responses rounds cmd p else Done (PLDM_SUCCESS, p)) (\<lambda>(ret, p).
              if ret \<noteq> PLDM_SUCCESS then Done (PLDM_ERROR, p)
              else Done (PLDM_SUCCESS, p\<lparr>pldm_instanceID := pldm_instanceID p + 1\<rparr>))))))"

section \<open>The transfer\<close>

text \<open>The headers of an answer: the command and the instance number of the card's request, as a response.\<close>

definition reply_headers :: "u8 \<Rightarrow> 'a pldm_scheme \<Rightarrow> i2cdata \<Rightarrow> i2cdata \<Rightarrow> i2cdata" where
  "reply_headers sz p rd wr =
     (let h = commandConstruction p (pldmSmbusHdr wr) 1 1 0 (sz - 3) 0 in
      wr\<lparr>pldmSmbusHdr := h\<lparr>msgType := PLDM_OVER_MCTP\<rparr>,
         pldmMsgHdr := the (snd (pldmHdrConstruction (Some (pldmMsgHdr wr)) (ucast (pldm_instance (pldmMsgHdr rd))) PLDM_FIRMWARE_UPDATE
           (pldm_cmdCode (pldmMsgHdr rd)) 0 0))\<rparr>)"

definition respondtoamc :: "u8 \<Rightarrow> 'a pldm_scheme \<Rightarrow> (u8 \<times> 'a pldm_scheme) outcome" where
  "respondtoamc code p =
     obind (the_ptr (mI2cPldmRead p)) (\<lambda>rd. obind (the_ptr (mI2cPldmWrite p)) (\<lambda>wr.
     let totalLen = FWU_COMMAND_BASE_SIZE + 1; p = p\<lparr>mI2cPldmWrite := Some (reply_headers totalLen p rd wr)\<rparr> in
     obind (fill_payload (\<lambda>q. obind (put_byte q 0 code) (\<lambda>q. put_crc q 1 (unat totalLen - 1))) p) (\<lambda>p.
     obind (pldm_send totalLen p) (\<lambda>(ok, p). Done (if ok then PLDM_SUCCESS else PLDM_ERROR, p)))))"

text \<open>
  Reading \<open>n\<close> bytes at the position of the file through the zeroed 512-byte buffer: a short read is only
  reported, and the rest stays zero.
\<close>

definition read_image :: "nat \<Rightarrow> fw_file \<Rightarrow> (u8 list \<times> fw_file) outcome" where
  "read_image n f = obind (f_read n f) (\<lambda>(bs, f). obind (put_bytes (replicate PLDM_FWUPDATE_MAX_PAYLOAD_SIZE 0) 0 bs) (\<lambda>buf.
     obind (get_bytes buf 0 n) (\<lambda>b. Done (b, f))))"

text \<open>Reading the piece of the image into the payload, from its second byte.\<close>

definition piece_to_payload :: "compImageInfo \<Rightarrow> u32 \<Rightarrow> u32 \<Rightarrow> fw_file \<Rightarrow> 'a pldm_fwu_scheme \<Rightarrow> 'a pldm_fwu_scheme outcome" where
  "piece_to_payload im offset lenToSend f p =
     (if offset + lenToSend \<le> compSize im
      then obind (read_image (unat lenToSend) f) (\<lambda>(b, f). fill_payload (\<lambda>q. put_bytes q 1 b) (p\<lparr>mCompFp := Some f\<rparr>))
      else obind (read_image (unat (compSize im - offset)) f) (\<lambda>(b, f).
        fill_payload (\<lambda>q. obind (clear_payload q 128) (\<lambda>q. put_bytes q 1 b)) (p\<lparr>mCompFp := Some f\<rparr>)))"

definition writeToAMCCompXfer :: "u32 \<Rightarrow> u32 \<Rightarrow> u8 \<Rightarrow> 'a pldm_fwu_scheme \<Rightarrow> (u8 \<times> 'a pldm_fwu_scheme) outcome" where
  "writeToAMCCompXfer offset lenToSend completioncode p =
     obind (cur_image p) (\<lambda>im. obind (the_ptr (mI2cPldmRead p)) (\<lambda>rd. obind (the_ptr (mI2cPldmWrite p)) (\<lambda>wr.
     let totalLen = 13 + ucast lenToSend; p = p\<lparr>mI2cPldmWrite := Some (reply_headers totalLen p rd wr)\<rparr> in
     obind (the_ptr (mCompFp p)) (\<lambda>f. obind (f_seek (unat (compLocOffset im + offset)) f) (\<lambda>(ok, f).
       if \<not> ok then obind (f_close f) (\<lambda>f. Done (PLDM_ERROR, p\<lparr>mCompFp := Some f\<rparr>))
       else obind (piece_to_payload im offset lenToSend f p) (\<lambda>p.
         obind (fill_payload (\<lambda>q. obind (put_byte q 0 completioncode) (\<lambda>q.
           if totalLen = 0 then Fault else put_crc q (unat totalLen) (unat totalLen - 1))) p) (\<lambda>p.
         obind (pldm_send totalLen p) (\<lambda>(ok, p). Done (if ok then PLDM_SUCCESS else PLDM_ERROR, p)))))))))"

text \<open>One message of the card, in the read buffer: \<open>None\<close> when the loop goes on, the result when it is left.\<close>

definition answerFD :: "'a pldm_fwu_scheme \<Rightarrow> (u8 option \<times> 'a pldm_fwu_scheme) outcome" where
  "answerFD p =
     (let go = (\<lambda>(ret, p). Done (if ret \<noteq> PLDM_SUCCESS then Some PLDM_ERROR else None, p)) in
     obind (the_ptr (mI2cPldmRead p)) (\<lambda>rd. let h = pldmMsgHdr rd; q = respPayload rd in
       if mctp_cmdCode (pldmSmbusHdr rd) \<noteq> MCTP_CMD_CODE then Done (None, p)
       else if ucast (cmdType h) \<noteq> PLDM_FIRMWARE_UPDATE then Done (Some PLDM_ERROR, p)
       else if pldm_cmdCode h = REQUEST_FIRMWARE_DATA then
         obind (get_u32 q 0) (\<lambda>offset. obind (get_u32 q 4) (\<lambda>lenToSend. obind (cur_image p) (\<lambda>im.
         if compSize im = 0 then Fault
         else let p = p\<lparr>mProgPercent := sint (offset * 100 div compSize im)\<rparr> in
           if compSize im \<le> offset then obind (respondtoamc DATA_OUT_OF_RANGE p) go
           else if PLDM_MCTP_MAX_TRANSFER_SIZE < lenToSend then obind (respondtoamc INVALID_TRANSFER_LENGTH p) go
           else obind (writeToAMCCompXfer offset lenToSend 0 p) go)))
       else if pldm_cmdCode h \<in> {TRANSFER_COMPLETE, VERIFY_COMPLETE, APPLY_COMPLETE} then
         let p = p\<lparr>mProgPercent := 100\<rparr> in
         obind (get_byte q 0) (\<lambda>code.
           if code \<noteq> PLDM_SUCCESS then obind (respondtoamc COMMAND_NOT_EXPECTED p) (\<lambda>(ret, p). Done (Some PLDM_ERROR, p))
           else obind (respondtoamc 0 p) (\<lambda>(ret, p).
             Done (if ret \<noteq> PLDM_SUCCESS then Some PLDM_ERROR
               else if pldm_cmdCode h = APPLY_COMPLETE then Some PLDM_SUCCESS else None, p)))
       else obind (respondtoamc COMMAND_NOT_EXPECTED p) go))"

text \<open>The loop, for at most \<open>k\<close> messages of the card.\<close>

primrec readFromFD :: "nat \<Rightarrow> 'a pldm_fwu_scheme \<Rightarrow> (u8 \<times> 'a pldm_fwu_scheme) outcome" where
  "readFromFD 0 p = Stuck"
| "readFromFD (Suc k) p =
     obind (pldm_receive p) (\<lambda>(ok, p).
       if \<not> ok then Done (PLDM_ERROR, p)
       else obind (answerFD p) (\<lambda>(res, p). case res of Some ret \<Rightarrow> Done (ret, p) | None \<Rightarrow> readFromFD k p))"

section \<open>The update\<close>

definition close_fp :: "'a pldm_fwu_scheme \<Rightarrow> 'a pldm_fwu_scheme outcome" where
  "close_fp p = obind (the_ptr (mCompFp p)) (\<lambda>f. obind (f_close f) (\<lambda>f. Done (p\<lparr>mCompFp := Some f\<rparr>)))"

definition send_cancel :: "nat \<Rightarrow> 'a pldm_fwu_scheme \<Rightarrow> 'a pldm_fwu_scheme outcome" where
  "send_cancel rounds p = obind (fwUpdCmd rounds CANCEL_UPDATE FWU_COMMAND_BASE_SIZE p) (\<lambda>(_, p). Done p)"

definition fwu_cmdTable :: "(u8 \<times> u8) list" where
  "fwu_cmdTable = [(QUERY_DEVICE_IDENTIFIERS, 12), (GET_FIRMWARE_PARAMETERS, 12), (REQUEST_UPDATE, FWU_COMMAND_BASE_SIZE),
     (PASS_COMPONENT_TABLE, FWU_COMMAND_BASE_SIZE), (UPDATE_COMPONENT, FWU_COMMAND_BASE_SIZE)]"

text \<open>The commands of one component; on a failure the update is cancelled if it had been requested, and the file closed.\<close>

primrec fwu_commands :: "nat \<Rightarrow> (u8 \<times> u8) list \<Rightarrow> 'a pldm_fwu_scheme \<Rightarrow> (u8 \<times> 'a pldm_fwu_scheme) outcome" where
  "fwu_commands rounds [] p = Done (PLDM_SUCCESS, p)"
| "fwu_commands rounds (c # cs) p =
     obind (fwUpdCmd rounds (fst c) (snd c) p) (\<lambda>(ret, p).
       if ret \<noteq> PLDM_SUCCESS then
         obind (if fst c \<in> {REQUEST_UPDATE, PASS_COMPONENT_TABLE, UPDATE_COMPONENT} then send_cancel rounds p else Done p) (\<lambda>p.
         obind (close_fp p) (\<lambda>p. Done (ret, p)))
       else fwu_commands rounds cs p)"

text \<open>The components from number \<open>n\<close>, \<open>k\<close> of them left; \<open>Inl\<close> is a return, \<open>Inr\<close> the value of \<^verbatim>\<open>ret\<close> after the loop.\<close>

primrec fwu_components :: "nat \<Rightarrow> nat \<Rightarrow> nat \<Rightarrow> u8 \<Rightarrow> 'a pldm_fwu_scheme \<Rightarrow> ((u8 + u8) \<times> 'a pldm_fwu_scheme) outcome" where
  "fwu_components rounds 0 n ret p = Done (Inr ret, p)"
| "fwu_components rounds (Suc k) n ret p =
     obind (fwu_commands rounds fwu_cmdTable (p\<lparr>mCurComp := word_of_nat n\<rparr>)) (\<lambda>(ret, p).
       if ret \<noteq> PLDM_SUCCESS then Done (Inl ret, p)
       else obind (readFromFD rounds p) (\<lambda>(r, p).
         if r \<noteq> PLDM_SUCCESS then
           obind (send_cancel rounds p) (\<lambda>p. obind (close_fp p) (\<lambda>p. Done (Inl PLDM_ERROR, p)))
         else fwu_components rounds k (Suc n) ret p))"

text \<open>The end of the update; \<open>ret\<close> still has the value of the last command of the table.\<close>

definition fwu_finish :: "nat \<Rightarrow> u8 \<Rightarrow> 'a pldm_fwu_scheme \<Rightarrow> (u8 \<times> 'a pldm_fwu_scheme) outcome" where
  "fwu_finish rounds ret p =
     obind (fwUpdCmd rounds GET_STATUS FWU_COMMAND_BASE_SIZE p) (\<lambda>(r, p).
       if r \<noteq> PLDM_SUCCESS then obind (close_fp p) (\<lambda>p. Done (ret, p))
       else obind (fwUpdCmd rounds ACTIVATE_FIRMWARE ACTIVATE_FIRMWARE_SIZE p) (\<lambda>(r, p).
         if r \<noteq> PLDM_SUCCESS then obind (close_fp p) (\<lambda>p. Done (ret, p))
         else obind (close_fp p) (\<lambda>p. Done (PLDM_SUCCESS, p))))"

definition zero_verStr :: "u8 list" where
  "zero_verStr = replicate 256 0"

definition clear_structs :: "'a pldm_fwu_scheme \<Rightarrow> 'a pldm_fwu_scheme" where
  "clear_structs p = p\<lparr>
     mReqUpdate := \<lparr>maxTransferSize = 0, numComp = 0, maxOutstandXferReqs = 0, pkgDataLen = 0, compImgSetVerStrType = 0,
       compImgSetVerStrLen = 0, compImgSetVerStr = zero_verStr\<rparr>,
     mPassCompTable := \<lparr>pass_xferFlag = 0, pass_compClass = 0, pass_id = 0, pass_compClassIdx = 0, pass_comparisonStamp = 0,
       pass_verStrType = 0, pass_verStrLen = 0, pass_verStr = zero_verStr\<rparr>,
     mUpdComp := \<lparr>upd_compClass = 0, upd_id = 0, upd_compClassIdx = 0, upd_comparisonStamp = 0, componentimagesize = 0,
       updateoptionflags = 0, upd_verStrType = 0, upd_verStrLen = 0, upd_verStr = zero_verStr\<rparr>\<rparr>"

text \<open>\<open>fp\<close> is what opening the package gives, \<open>alloc\<close> whether it can be allocated.\<close>

definition fwUpdInitialize ::
  "nat \<Rightarrow> u8 list \<Rightarrow> fw_file option \<Rightarrow> bool \<Rightarrow> 'a pldm_fwu_scheme \<Rightarrow> (u8 \<times> 'a pldm_fwu_scheme) outcome" where
  "fwUpdInitialize rounds pkgFilePath fp alloc p =
     (let p = (clear_structs p)\<lparr>mCompFp := fp\<rparr> in
      case fp of None \<Rightarrow> Done (PLDM_ERROR, p)
      | Some f \<Rightarrow> obind (fwpkgParseInfo (Some pkgFilePath) alloc f) (\<lambda>(result, k, f).
          let p = p\<lparr>mCompFp := Some f, pkg := k\<rparr> in
          if result \<noteq> PLDM_SUCCESS then Done (PLDM_ERROR, p)
          else obind (the_ptr k) (\<lambda>k. obind (fwu_components rounds (unat (compImageCount k)) 0 PLDM_ERROR p) (\<lambda>(r, p).
            case r of Inl ret \<Rightarrow> Done (ret, p) | Inr ret \<Rightarrow> fwu_finish rounds ret p))))"

definition fwupd ::
  "nat \<Rightarrow> u8 list \<Rightarrow> fw_file option \<Rightarrow> bool \<Rightarrow> 'a pldm_fwu_scheme \<Rightarrow> (u8 \<times> 'a pldm_fwu_scheme) outcome" where
  "fwupd rounds pkgFilePath fp alloc p =
     obind (the_ptr (i2cobj p)) (\<lambda>d.
       if \<not> i2c_init d then Done (PLDM_ERROR, p)
       else obind (fwUpdInitialize rounds pkgFilePath fp alloc p) (\<lambda>(ret, p).
         Done (if ret \<noteq> PLDM_SUCCESS then PLDM_ERROR else PLDM_SUCCESS, p)))"

section \<open>What the steps keep\<close>

text \<open>
  The version strings of the three structures have their 256 bytes; the current image is there, its version
  string is stored and short enough for the 128-byte payload, and it is not empty.
\<close>

definition fwu_ok :: "'a pldm_fwu_scheme \<Rightarrow> bool" where
  "fwu_ok p = (pldm_ok p \<and> length (compImgSetVerStr (mReqUpdate p)) = 256 \<and> length (pass_verStr (mPassCompTable p)) = 256
     \<and> length (upd_verStr (mUpdComp p)) = 256)"

definition image_short :: "compImageInfo \<Rightarrow> bool" where
  "image_short im = (length (img_verStr im) = unat (img_verStrLen im) \<and> unat (img_verStrLen im) < 97 \<and> compSize im \<noteq> 0)"

definition comp_ok :: "'a pldm_fwu_scheme \<Rightarrow> bool" where
  "comp_ok p = (\<exists>k. pkg p = Some k \<and> unat (mCurComp p) < length (compImages k) \<and> list_all image_short (compImages k))"

definition file_state :: "fw_file \<Rightarrow> bool \<times> (nat \<Rightarrow> bool)" where
  "file_state f = (f_open f, f_seek_ok f)"

text \<open>A step that keeps the object well formed and neither the package nor the file changes, sending the commands \<open>cs\<close>.\<close>

definition fwu_sent :: "'a pldm_fwu_scheme \<Rightarrow> (u8 \<times> u8) list \<Rightarrow> 'a pldm_fwu_scheme \<Rightarrow> bool" where
  "fwu_sent p cs p' = (fwu_ok p' \<and> pkg p' = pkg p \<and> mCurComp p' = mCurComp p \<and> map_option file_state (mCompFp p') = map_option file_state (mCompFp p)
     \<and> (\<exists>fs. frames_sent p' = frames_sent p @ fs \<and> map pldm_frame_id fs = cs))"

lemma fwu_sent_refl: "fwu_ok p \<Longrightarrow> fwu_sent p [] p"
  by (simp add: fwu_sent_def)

lemma fwu_sent_trans: "fwu_sent p cs p' \<Longrightarrow> fwu_sent p' ds p'' \<Longrightarrow> fwu_sent p (cs @ ds) p''"
  unfolding fwu_sent_def by (force intro: exI [of _ "_ @ _"])

lemma fwu_sentD: "fwu_sent p cs p' \<Longrightarrow> fwu_ok p'" "fwu_sent p cs p' \<Longrightarrow> comp_ok p \<Longrightarrow> comp_ok p'"
  "fwu_sent p cs p' \<Longrightarrow> map_option file_state (mCompFp p') = map_option file_state (mCompFp p)" "fwu_ok p \<Longrightarrow> pldm_ok p"
  by (simp_all add: fwu_sent_def comp_ok_def fwu_ok_def)

text \<open>The parts of the object the PLDM layer does not know do not matter to it.\<close>

lemma pldm_ok_fwu [simp]:
  "pldm_ok (p\<lparr>mFwuCmdLen := n\<rparr>) = pldm_ok p" "pldm_ok (p\<lparr>mI2cMultiResp := b\<rparr>) = pldm_ok p"
  "pldm_ok (p\<lparr>mReqUpdate := r\<rparr>) = pldm_ok p" "pldm_ok (p\<lparr>mPassCompTable := t\<rparr>) = pldm_ok p"
  "pldm_ok (p\<lparr>mUpdComp := u\<rparr>) = pldm_ok p" "pldm_ok (p\<lparr>mFwuCurrentState := s\<rparr>) = pldm_ok p"
  "pldm_ok (p\<lparr>mCompFp := f\<rparr>) = pldm_ok p" "pldm_ok (p\<lparr>mProgPercent := i\<rparr>) = pldm_ok p"
  "pldm_ok (p\<lparr>mCurComp := c\<rparr>) = pldm_ok p" "pldm_ok (p\<lparr>pkg := k\<rparr>) = pldm_ok p"
  by (simp_all add: pldm_ok_def mctp_ok_def)

lemma frames_sent_fwu [simp]:
  "frames_sent (p\<lparr>mFwuCmdLen := n\<rparr>) = frames_sent p" "frames_sent (p\<lparr>mI2cMultiResp := b\<rparr>) = frames_sent p"
  "frames_sent (p\<lparr>mReqUpdate := r\<rparr>) = frames_sent p" "frames_sent (p\<lparr>mPassCompTable := t\<rparr>) = frames_sent p"
  "frames_sent (p\<lparr>mUpdComp := u\<rparr>) = frames_sent p" "frames_sent (p\<lparr>mFwuCurrentState := s\<rparr>) = frames_sent p"
  "frames_sent (p\<lparr>mCompFp := f\<rparr>) = frames_sent p" "frames_sent (p\<lparr>mProgPercent := i\<rparr>) = frames_sent p"
  "frames_sent (p\<lparr>mCurComp := c\<rparr>) = frames_sent p" "frames_sent (p\<lparr>pkg := k\<rparr>) = frames_sent p"
  "frames_sent (q\<lparr>mI2cPldmWrite := w\<rparr>) = frames_sent q" "frames_sent (q\<lparr>mI2cPldmRead := v\<rparr>) = frames_sent q"
  "frames_sent (q\<lparr>pldm_instanceID := j\<rparr>) = frames_sent q"
  by (simp_all add: frames_sent_def)

lemma fwu_updates [simp]:
  "fwu_ok (p\<lparr>mFwuCmdLen := n\<rparr>) = fwu_ok p" "fwu_ok (p\<lparr>mI2cMultiResp := b\<rparr>) = fwu_ok p"
  "fwu_ok (p\<lparr>mFwuCurrentState := s\<rparr>) = fwu_ok p" "fwu_ok (p\<lparr>mCompFp := f\<rparr>) = fwu_ok p"
  "fwu_ok (p\<lparr>mProgPercent := i\<rparr>) = fwu_ok p" "fwu_ok (p\<lparr>mCurComp := c\<rparr>) = fwu_ok p" "fwu_ok (p\<lparr>pkg := k\<rparr>) = fwu_ok p"
  "comp_ok (p\<lparr>mFwuCmdLen := n\<rparr>) = comp_ok p" "comp_ok (p\<lparr>mI2cMultiResp := b\<rparr>) = comp_ok p"
  "comp_ok (p\<lparr>mProgPercent := i\<rparr>) = comp_ok p" "comp_ok (p\<lparr>mCompFp := f\<rparr>) = comp_ok p"
  "comp_ok (p\<lparr>pldm_instanceID := j\<rparr>) = comp_ok p" "comp_ok (p\<lparr>mI2cPldmWrite := w\<rparr>) = comp_ok p"
  by (simp_all add: fwu_ok_def comp_ok_def)

lemma fwu_sent_updates [simp]:
  "fwu_sent p cs (p'\<lparr>mFwuCmdLen := n\<rparr>) = fwu_sent p cs p'" "fwu_sent p cs (p'\<lparr>mI2cMultiResp := b\<rparr>) = fwu_sent p cs p'"
  "fwu_sent p cs (p'\<lparr>mFwuCurrentState := s\<rparr>) = fwu_sent p cs p'" "fwu_sent p cs (p'\<lparr>mProgPercent := i\<rparr>) = fwu_sent p cs p'"
  "fwu_sent (p\<lparr>mFwuCmdLen := n\<rparr>) cs p' = fwu_sent p cs p'" "fwu_sent (p\<lparr>mI2cMultiResp := b\<rparr>) cs p' = fwu_sent p cs p'"
  "fwu_sent (p\<lparr>mProgPercent := i\<rparr>) cs p' = fwu_sent p cs p'" "fwu_sent (p\<lparr>pldm_instanceID := j\<rparr>) cs p' = fwu_sent p cs p'"
  by (simp_all add: fwu_sent_def)

text \<open>Changing only the payload of the write buffer is such a step, and so is reading a message.\<close>

lemma fwu_fill:
  assumes "fwu_ok p" "\<And>q. length q = PAYLOAD_SIZE \<Longrightarrow> returns (f q) (\<lambda>q'. length q' = PAYLOAD_SIZE)"
  shows "returns (fill_payload f p) (\<lambda>p'. quiet p p' \<and> fwu_sent p [] p' \<and> mFwuCmdLen p' = mFwuCmdLen p \<and> mI2cMultiResp p' = mI2cMultiResp p
    \<and> mCompFp p' = mCompFp p \<and> mI2cPldmRead p' = mI2cPldmRead p)"
  using assms(1) by (intro returns_mono [OF fill_payload_quiet]) (auto simp: fwu_ok_def fwu_sent_def assms(2) quiet_def)

lemma fwu_receive:
  assumes "fwu_ok p"
  shows "returns (pldm_receive p) (\<lambda>(ok, p'). fwu_sent p [] p' \<and> pldm_instanceID p' = pldm_instanceID p \<and> mI2cMultiResp p' = mI2cMultiResp p)"
  using assms by (intro returns_mono [OF pldm_receive_ok]) (auto simp: fwu_ok_def fwu_sent_def)

lemma fwu_send:
  assumes "fwu_ok p" "unat sz \<le> 128"
  shows "returns (pldm_send sz p) (\<lambda>(ok, p'). fwu_sent p [pldm_frame_id (take (unat sz) (drop 1 (i2cdata_bytes (the (mI2cPldmWrite p)))))] p'
    \<and> pldm_instanceID p' = pldm_instanceID p \<and> mI2cMultiResp p' = mI2cMultiResp p
    \<and> frames_sent p' = frames_sent p @ [take (unat sz) (drop 1 (i2cdata_bytes (the (mI2cPldmWrite p))))])"
  using assms by (intro returns_mono [OF pldm_send_ok]) (auto simp: fwu_ok_def fwu_sent_def)

section \<open>The requests fit, or overflow\<close>

lemma send_struct_returns:
  assumes "fwu_ok p" "unat n < 128" "unat n \<le> length bs"
  shows "returns (send_struct bs n p) (\<lambda>(r, p'). r = PLDM_SUCCESS \<and> quiet p p' \<and> fwu_sent p [] p' \<and> mFwuCmdLen p' = mFwuCmdLen p
    \<and> mI2cMultiResp p' = mI2cMultiResp p)"
proof -
  have "returns (fill_payload (\<lambda>q. obind (put_bytes q 0 (take (unat n) bs)) (\<lambda>q. put_crc q (unat n) (unat n))) p)
    (\<lambda>p'. quiet p p' \<and> fwu_sent p [] p' \<and> mFwuCmdLen p' = mFwuCmdLen p \<and> mI2cMultiResp p' = mI2cMultiResp p
      \<and> mCompFp p' = mCompFp p \<and> mI2cPldmRead p' = mI2cPldmRead p)"
    by (rule fwu_fill [OF assms(1)]) (use assms in \<open>simp add: PAYLOAD_SIZE_def min_def\<close>)
  then show ?thesis
    using assms(3) by (auto simp: send_struct_def elim!: returns_mono)
qed

lemma send_struct_overflow:
  assumes "fwu_ok p" "128 \<le> unat n" "unat n \<le> length bs"
  shows "send_struct bs n p = Fault"
proof -
  obtain wr where "mI2cPldmWrite p = Some wr" "length (respPayload wr) = 128"
    using assms(1) by (auto simp: fwu_ok_def pldm_ok_def PAYLOAD_SIZE_def)
  then show ?thesis
    using assms by (cases "unat n = 128") (auto simp: send_struct_def fill_payload_def put_bytes_def put_crc_def put_byte_def get_bytes_def)
qed

lemma length_structs:
  "length (req_bytes r) = 11 + length (compImgSetVerStr r)" "length (pass_bytes t) = 12 + length (pass_verStr t)"
  "length (upd_bytes u) = 19 + length (upd_verStr u)"
  by (simp_all add: req_bytes_def pass_bytes_def upd_bytes_def)

lemma copy_verStr_ok:
  "length (img_verStr im) = unat (img_verStrLen im) \<Longrightarrow> length s = 256 \<Longrightarrow>
   copy_verStr im s = Done (img_verStr im @ drop (unat (img_verStrLen im)) s)"
  using unsigned_less [of "img_verStrLen im", where ?'a = nat] by (simp add: copy_verStr_def)


text \<open>With short strings they return.\<close>

lemma short_sum: "unat (img_verStrLen im) < 97 \<Longrightarrow> c \<le> 31 \<Longrightarrow> unat (word_of_nat c + img_verStrLen im) = c + unat (img_verStrLen im)"
  by (simp add: unat_word_ariths unat_of_nat)

definition fill_keeps :: "'a pldm_fwu_scheme \<Rightarrow> 'a pldm_fwu_scheme \<Rightarrow> bool" where
  "fill_keeps p p' = (fwu_sent p [] p' \<and> pldm_instanceID p' = pldm_instanceID p \<and> mI2cMultiResp p' = mI2cMultiResp p
     \<and> 11 \<le> unat (mFwuCmdLen p') \<and> unat (mFwuCmdLen p') < 128)"

lemma struct_keeps:
  assumes "fwu_ok q" "fwu_sent p [] q" "pldm_instanceID q = pldm_instanceID p" "mI2cMultiResp q = mI2cMultiResp p"
    "mFwuCmdLen q = n" "unat n < 128" "11 \<le> unat n" "unat n \<le> length bs"
  shows "returns (send_struct bs n q) (\<lambda>(r, p'). r = PLDM_SUCCESS \<and> fill_keeps p p')"
  using assms fwu_sent_trans [OF assms(2)]
  by (intro returns_mono [OF send_struct_returns [of q n bs]]) (force simp: fill_keeps_def quiet_def)+

lemma comp_okE:
  assumes "comp_ok p"
  obtains k im where "pkg p = Some k" "cur_image p = Done im" "image_short im"
  using assms by (auto simp: comp_ok_def cur_image_def list_all_length)

lemma requests_return:
  assumes "fwu_ok p" "comp_ok p"
  shows "returns (fwReqUpdate p) (\<lambda>(r, p'). r = PLDM_SUCCESS \<and> fill_keeps p p')"
    and "returns (fwupdPassCompTable p) (\<lambda>(r, p'). r = PLDM_SUCCESS \<and> fill_keeps p p')"
    and "returns (fwUpdComp p) (\<lambda>(r, p'). r = PLDM_SUCCESS \<and> fill_keeps p p')"
proof -
  obtain k im where im: "pkg p = Some k" "cur_image p = Done im" "length (img_verStr im) = unat (img_verStrLen im)" "unat (img_verStrLen im) < 97"
    using assms(2) by (elim comp_okE) (auto simp: image_short_def)
  have str: "length (compImgSetVerStr (mReqUpdate p)) = 256" "length (pass_verStr (mPassCompTable p)) = 256" "length (upd_verStr (mUpdComp p)) = 256"
    using assms(1) by (simp_all add: fwu_ok_def)
  have sums: "unat (23 + img_verStrLen im) = 23 + unat (img_verStrLen im)" "unat (24 + img_verStrLen im) = 24 + unat (img_verStrLen im)"
    "unat (31 + img_verStrLen im) = 31 + unat (img_verStrLen im)"
    using short_sum [OF im(4), of 23] short_sum [OF im(4), of 24] short_sum [OF im(4), of 31] by simp_all
  show "returns (fwReqUpdate p) (\<lambda>(r, p'). r = PLDM_SUCCESS \<and> fill_keeps p p')"
    unfolding fwReqUpdate_def using im str sums assms(1)
    by (simp add: copy_verStr_ok Let_def FWU_COMMAND_BASE_SIZE_def)
      (rule struct_keeps; simp add: fwu_sent_def fwu_ok_def length_structs)
  show "returns (fwupdPassCompTable p) (\<lambda>(r, p'). r = PLDM_SUCCESS \<and> fill_keeps p p')"
    unfolding fwupdPassCompTable_def using im str sums assms(1)
    by (simp add: copy_verStr_ok Let_def FWU_COMMAND_BASE_SIZE_def)
      (rule struct_keeps; simp add: fwu_sent_def fwu_ok_def length_structs)
  show "returns (fwUpdComp p) (\<lambda>(r, p'). r = PLDM_SUCCESS \<and> fill_keeps p p')"
    unfolding fwUpdComp_def using im str sums assms(1)
    by (simp add: copy_verStr_ok Let_def FWU_COMMAND_BASE_SIZE_def)
      (rule struct_keeps; simp add: fwu_sent_def fwu_ok_def length_structs)
qed

section \<open>A command of the update\<close>

text \<open>\<open>runs b m Q\<close>: no fault, and a result satisfies \<open>Q\<close>; if \<open>b\<close>, there is one.\<close>

definition runs :: "bool \<Rightarrow> 'a outcome \<Rightarrow> ('a \<Rightarrow> bool) \<Rightarrow> bool" where
  "runs b m Q = (safe m Q \<and> (b \<longrightarrow> m \<noteq> Stuck))"

lemma runs_simps [simp]: "runs b (Done x) Q = Q x" "\<not> runs b Fault Q" "runs b Stuck Q = (\<not> b)"
  "runs b (obind m f) Q = runs b m (\<lambda>x. runs b (f x) Q)"
  by (simp_all add: runs_def) (cases m; simp)

lemma runs_mono: "runs b m Q \<Longrightarrow> (\<And>x. Q x \<Longrightarrow> R x) \<Longrightarrow> runs b m R"
  by (cases m) auto

lemma returns_runs: "returns m Q \<Longrightarrow> (\<And>x. Q x \<Longrightarrow> R x) \<Longrightarrow> runs b m R"
  by (cases m) auto

lemma runs_True: "runs True m Q = returns m Q"
  by (cases m) auto

lemma runs_False: "runs False m Q = safe m Q"
  by (cases m) auto

lemma fwu_err [simp]: "PLDM_ERROR \<noteq> PLDM_SUCCESS" "PLDM_SUCCESS \<noteq> PLDM_ERROR"
  by (simp_all add: PLDM_ERROR_def PLDM_SUCCESS_def)

definition needs_image :: "u8 \<Rightarrow> bool" where
  "needs_image cmd = (cmd \<in> {REQUEST_UPDATE, PASS_COMPONENT_TABLE, UPDATE_COMPONENT})"

lemma fill_command:
  assumes "fwu_ok p" "needs_image cmd \<longrightarrow> comp_ok p" "mFwuCmdLen p = sz" "11 \<le> unat sz" "unat sz < 128"
  shows "returns (pldmFwUpdFillPayload cmd (unat sz) p) (\<lambda>(r, p'). fill_keeps p p')"
proof -
  have keep: "fill_keeps p p'" if "fwu_sent p [] p'" "quiet p p'" "mFwuCmdLen p' = mFwuCmdLen p" "mI2cMultiResp p' = mI2cMultiResp p" for p'
    using that assms by (auto simp: fill_keeps_def quiet_def)
  have base: "returns (fill_payload (\<lambda>q. obind (clear_payload q (unat sz)) (\<lambda>q. put_crc q 0 (unat sz - 1))) p) (fill_keeps p)"
    by (rule returns_mono [OF fwu_fill [OF assms(1)]]) (use assms(5) keep in \<open>auto simp: PAYLOAD_SIZE_def\<close>)
  have act: "returns (fill_payload (\<lambda>q. obind (put_byte q 0 1) (\<lambda>q. put_crc q 1 (unat sz - 1))) p) (fill_keeps p)"
    by (rule returns_mono [OF fwu_fill [OF assms(1)]]) (use assms(5) keep in \<open>auto simp: PAYLOAD_SIZE_def\<close>)
  have none: "fill_keeps p p"
    using assms fwu_sent_refl [OF assms(1)] by (simp add: fill_keeps_def)
  show ?thesis
    using base act none requests_return [OF assms(1)] assms(2)
    by (auto simp: pldmFwUpdFillPayload_def needs_image_def elim!: returns_mono)
qed

lemma readdress_ok: "fwu_ok p \<Longrightarrow> mI2cPldmRead p = Some rd \<Longrightarrow> fwu_sent p [] (p\<lparr>mI2cPldmRead := Some (readdress rd)\<rparr>)"
  by (auto simp: fwu_ok_def pldm_ok_def mctp_ok_def readdress_def fwu_sent_def)

lemma fwUpdateResp_returns:
  assumes "fwu_ok p"
  shows "returns (fwUpdateResp cmd i p) (\<lambda>(r, p'). fwu_sent p [] p' \<and> pldm_instanceID p' = pldm_instanceID p
    \<and> (cmd \<noteq> GET_FIRMWARE_PARAMETERS \<longrightarrow> mI2cMultiResp p' = mI2cMultiResp p))"
proof -
  obtain rd where rd: "mI2cPldmRead p = Some rd" "length (respPayload rd) = 128"
    using assms by (auto simp: fwu_ok_def pldm_ok_def PAYLOAD_SIZE_def)
  have len: "respPayload (readdress rd) = respPayload rd" by (simp add: readdress_def)
  show ?thesis
    using rd readdress_ok [OF assms rd(1)] fwu_sent_refl [OF assms]
    by (auto simp: fwUpdateResp_def pldmFwUpdateRespPayload_def pldmFwGetParamPayload_def Let_def read_payload_def len fwu_cmds)
qed

lemma fwu_responses_runs:
  assumes "fwu_ok p" "\<not> mI2cMultiResp p" "b \<longrightarrow> cmd \<noteq> GET_FIRMWARE_PARAMETERS \<and> 0 < k"
  shows "runs b (fwu_responses k cmd p) (\<lambda>(r, p'). fwu_sent p [] p' \<and> pldm_instanceID p' = pldm_instanceID p)"
proof -
  have *: "runs b (fwu_responses k cmd p) (\<lambda>(r, p'). fwu_sent p [] p' \<and> pldm_instanceID p' = pldm_instanceID p)"
    if "fwu_ok p" "b \<longrightarrow> \<not> mI2cMultiResp p" "b \<longrightarrow> cmd \<noteq> GET_FIRMWARE_PARAMETERS \<and> 0 < k" for p :: "'a pldm_fwu_scheme"
    using that
  proof (induction k arbitrary: p)
    case 0
    then show ?case by simp
  next
    case (Suc k)
    let ?Q = "\<lambda>(r, p'). fwu_sent p [] p' \<and> pldm_instanceID p' = pldm_instanceID p"
    have again: "runs False (fwu_responses k cmd p2) ?Q"
      if "fwu_sent p [] p2" "pldm_instanceID p2 = pldm_instanceID p" "\<not> b" for p2
      using runs_mono [OF Suc.IH [OF fwu_sentD(1) [OF that(1)]], of ?Q] that fwu_sent_trans [OF that(1), of "[]"] by auto
    have resp: "runs b (fwUpdateResp cmd i p1) (\<lambda>x. runs b (case x of (ret, p) \<Rightarrow>
        if ret \<noteq> PLDM_SUCCESS then Done (PLDM_ERROR, p) else if \<not> mI2cMultiResp p then Done (PLDM_SUCCESS, p) else fwu_responses k cmd p) ?Q)"
      if p1: "fwu_sent p [] p1" "pldm_instanceID p1 = pldm_instanceID p" "mI2cMultiResp p1 = mI2cMultiResp p" for p1 i
    proof (rule returns_runs [OF fwUpdateResp_returns [OF fwu_sentD(1) [OF p1(1)]]], clarify)
      fix r p2
      assume p2: "fwu_sent p1 [] p2" "pldm_instanceID p2 = pldm_instanceID p1" "cmd \<noteq> GET_FIRMWARE_PARAMETERS \<longrightarrow> mI2cMultiResp p2 = mI2cMultiResp p1"
      have "fwu_sent p [] p2" "pldm_instanceID p2 = pldm_instanceID p"
        using fwu_sent_trans [OF p1(1) p2(1)] p1 p2 by simp_all
      then show "runs b (if r \<noteq> PLDM_SUCCESS then Done (PLDM_ERROR, p2) else if \<not> mI2cMultiResp p2 then Done (PLDM_SUCCESS, p2)
          else fwu_responses k cmd p2) ?Q"
        using again [of p2] p1(3) p2(3) Suc.prems by (cases b) simp_all
    qed
    show ?case
      by (auto intro!: returns_runs [OF fwu_receive [OF Suc.prems(1)]] resp)
  qed
  show ?thesis
    using assms by (intro *) simp_all
qed

text \<open>
  A command of the update does not fault while its request fits; it sends at most its frame, and has sent it
  when it succeeds. Only the parameters can come in several parts, so every other command returns.
\<close>

lemma fwu_header_frame:
  assumes "fwu_ok p" "mI2cPldmWrite p = Some wr" "11 \<le> unat n" "1 \<le> unat (pldm_instanceID p)" "unat (pldm_instanceID p) \<le> 31"
  shows "pldm_frame_id (take (unat n) (drop 1 (i2cdata_bytes (pldm_headers PLDM_FIRMWARE_UPDATE cmd n p wr)))) = (PLDM_FIRMWARE_UPDATE, cmd)"
proof -
  let ?p = "p\<lparr>mI2cPldmWrite := Some (pldm_headers PLDM_FIRMWARE_UPDATE cmd n p wr)\<rparr>"
  have "quiet ?p ?p"
    using assms by (intro quiet_refl pldm_headers_ok) (simp_all add: fwu_ok_def)
  from request_frame(1) [OF _ this _ assms(3-5), of PLDM_FIRMWARE_UPDATE cmd wr] show ?thesis
    by (simp add: PLDM_FIRMWARE_UPDATE_def PLDM_TYPES_MAX_def word_less_nat_alt)
qed

lemma fwUpdCmd_runs:
  assumes "fwu_ok p" "needs_image cmd \<longrightarrow> comp_ok p" "11 \<le> unat sz" "unat sz < 128"
    and "b \<longrightarrow> cmd \<noteq> GET_FIRMWARE_PARAMETERS \<and> 0 < rounds"
  shows "runs b (fwUpdCmd rounds cmd sz p) (\<lambda>(r, p'). fwu_sent p [(PLDM_FIRMWARE_UPDATE, cmd)] p'
    \<or> r \<noteq> PLDM_SUCCESS \<and> fwu_sent p [] p')" (is "runs b _ ?Q")
proof -
  define p0 where "p0 = next_instance (p\<lparr>mFwuCmdLen := sz, mI2cMultiResp := False\<rparr>)"
  have "pldm_ok (p\<lparr>mFwuCmdLen := sz, mI2cMultiResp := False\<rparr>)"
    using assms(1) by (simp add: fwu_ok_def)
  note n = next_instance_ok [OF this, folded p0_def]
  have p0: "fwu_ok p0" "needs_image cmd \<longrightarrow> comp_ok p0" "mFwuCmdLen p0 = sz" "\<not> mI2cMultiResp p0" "fwu_sent p [] p0"
    using assms(1,2) n by (auto simp: fwu_ok_def p0_def next_instance_def fwu_sent_def frames_sent_def)
  have sent: "fwu_sent p cs p'" if "fwu_sent p0 cs p'" for cs p'
    using fwu_sent_trans [OF p0(5) that] by simp
  have bump: "fwu_sent q cs (p'\<lparr>pldm_instanceID := pldm_instanceID p' + 1\<rparr>)"
    if "fwu_sent q cs p'" "pldm_instanceID p' = pldm_instanceID p0" for q p' :: "'a pldm_fwu_scheme" and cs
    using that unat_next_instance [of "pldm_instanceID p0"] n(2,3)
    by (auto simp: fwu_sent_def fwu_ok_def pldm_ok_def mctp_ok_def)
  have respond: "runs b (if cmd \<noteq> ACTIVATE_FIRMWARE then fwu_responses rounds cmd p2 else Done (PLDM_SUCCESS, p2))
      (\<lambda>x. runs b (case x of (ret, p) \<Rightarrow> if ret \<noteq> PLDM_SUCCESS then Done (PLDM_ERROR, p)
        else Done (PLDM_SUCCESS, p\<lparr>pldm_instanceID := pldm_instanceID p + 1\<rparr>)) ?Q)"
    if p2: "fwu_sent p0 [(PLDM_FIRMWARE_UPDATE, cmd)] p2" "pldm_instanceID p2 = pldm_instanceID p0" "\<not> mI2cMultiResp p2" for p2
  proof (cases "cmd = ACTIVATE_FIRMWARE")
    case True
    then show ?thesis using sent [OF bump [OF p2(1,2)]] by simp
  next
    case False
    have "runs b (fwu_responses rounds cmd p2) (\<lambda>(r, p'). fwu_sent p2 [] p' \<and> pldm_instanceID p' = pldm_instanceID p2)"
      by (rule fwu_responses_runs [OF fwu_sentD(1) [OF p2(1)] p2(3) assms(5)])
    then have "runs b (fwu_responses rounds cmd p2) (\<lambda>x. runs b (case x of (ret, p) \<Rightarrow> if ret \<noteq> PLDM_SUCCESS then Done (PLDM_ERROR, p)
        else Done (PLDM_SUCCESS, p\<lparr>pldm_instanceID := pldm_instanceID p + 1\<rparr>)) ?Q)"
      by (rule runs_mono) (use p2 fwu_sent_trans [OF p2(1), of "[]"] sent bump in auto)
    with False show ?thesis by simp
  qed
  have send: "runs b (obind (the_ptr (mI2cPldmWrite p1)) (\<lambda>wr.
      let p = p1\<lparr>mI2cPldmWrite := Some (pldm_headers PLDM_FIRMWARE_UPDATE cmd (mFwuCmdLen p1) p1 wr)\<rparr> in
      obind (pldm_send (mFwuCmdLen p) p) (\<lambda>(ok, p). if \<not> ok then Done (PLDM_ERROR, p)
        else obind (if cmd \<noteq> ACTIVATE_FIRMWARE then fwu_responses rounds cmd p else Done (PLDM_SUCCESS, p)) (\<lambda>(ret, p).
          if ret \<noteq> PLDM_SUCCESS then Done (PLDM_ERROR, p)
          else Done (PLDM_SUCCESS, p\<lparr>pldm_instanceID := pldm_instanceID p + 1\<rparr>))))) ?Q"
    if p1: "fill_keeps p0 p1" for p1
  proof -
    obtain wr where wr: "mI2cPldmWrite p1 = Some wr"
      using p1 by (auto simp: fill_keeps_def fwu_sent_def fwu_ok_def pldm_ok_def)
    let ?h = "pldm_headers PLDM_FIRMWARE_UPDATE cmd (mFwuCmdLen p1) p1 wr"
    have ok: "fwu_ok (p1\<lparr>mI2cPldmWrite := Some ?h\<rparr>)" "fwu_ok p1"
      using p1 wr pldm_headers_ok [OF _ wr] by (auto simp: fill_keeps_def fwu_sent_def fwu_ok_def)
    have frame: "pldm_frame_id (take (unat (mFwuCmdLen p1)) (drop 1 (i2cdata_bytes ?h))) = (PLDM_FIRMWARE_UPDATE, cmd)"
      by (rule fwu_header_frame [OF ok(2) wr]) (use p1 n(2,3) in \<open>auto simp: fill_keeps_def\<close>)
    have hdr: "fwu_sent p0 [] (p1\<lparr>mI2cPldmWrite := Some ?h\<rparr>)"
      using p1 ok by (auto simp: fill_keeps_def fwu_sent_def)
    have "runs b (pldm_send (mFwuCmdLen p1) (p1\<lparr>mI2cPldmWrite := Some ?h\<rparr>)) (\<lambda>x. runs b (case x of (ok, p) \<Rightarrow> if \<not> ok then Done (PLDM_ERROR, p)
        else obind (if cmd \<noteq> ACTIVATE_FIRMWARE then fwu_responses rounds cmd p else Done (PLDM_SUCCESS, p)) (\<lambda>(ret, p).
          if ret \<noteq> PLDM_SUCCESS then Done (PLDM_ERROR, p)
          else Done (PLDM_SUCCESS, p\<lparr>pldm_instanceID := pldm_instanceID p + 1\<rparr>))) ?Q)"
      by (rule returns_runs [OF fwu_send [OF ok(1)]])
        (use p1 p0(4) respond sent fwu_sent_trans [OF hdr] frame in \<open>auto simp: fill_keeps_def\<close>)
    then show ?thesis using wr by simp
  qed
  show ?thesis
    unfolding fwUpdCmd_def Let_def p0_def [symmetric] runs_simps(4)
    by (rule returns_runs [OF fill_command [OF p0(1-3) assms(3,4)]])
      (use sent send in \<open>auto simp: fill_keeps_def Let_def\<close>)
qed

end
