(* ===== verification/Amc_FwuTransfer.thy ===== *)
theory Amc_FwuTransfer
  imports Amc_Fwupdate
begin

text \<open>
  The transfer of a component image: what the answer to a data request of the card carries
  (\<open>firmware_data_answer\<close>), and that the loop of \<^verbatim>\<open>readFromFD\<close> stays in its buffers whatever the card sends
  (\<open>transfer_loop_safe\<close>). The definitions are those of \<open>Amc_Fwupdate\<close>.
\<close>

section \<open>Answering the card\<close>

lemma fwu_types: "PLDM_FIRMWARE_UPDATE < PLDM_TYPES_MAX" "ucast (ucast (PLDM_FIRMWARE_UPDATE AND 0x3F) :: 6 word) = PLDM_FIRMWARE_UPDATE"
proof -
  show "PLDM_FIRMWARE_UPDATE < PLDM_TYPES_MAX"
    by (simp add: PLDM_FIRMWARE_UPDATE_def PLDM_TYPES_MAX_def word_less_nat_alt)
  then show "ucast (ucast (PLDM_FIRMWARE_UPDATE AND 0x3F) :: 6 word) = PLDM_FIRMWARE_UPDATE"
    by (rule type_bits)
qed

lemma reply_fields:
  "ucast (cmdType (pldmMsgHdr (reply_headers sz p rd wr))) = PLDM_FIRMWARE_UPDATE"
  "pldm_cmdCode (pldmMsgHdr (reply_headers sz p rd wr)) = pldm_cmdCode (pldmMsgHdr rd)"
  "respPayload (reply_headers sz p rd wr) = respPayload wr"
proof -
  let ?i = "ucast (pldm_instance (pldmMsgHdr rd)) :: u8"
  have "unat ?i < 32"
    using unsigned_less [of "pldm_instance (pldmMsgHdr rd)", where ?'a = nat] by (simp add: unsigned_ucast_eq take_bit_nat_eq_self)
  then have "\<not> PLDM_INSTANCE_ID_MAX < ?i" by (simp add: PLDM_INSTANCE_ID_MAX_def word_less_nat_alt)
  moreover have "\<not> PLDM_TYPES_MAX - 1 < PLDM_FIRMWARE_UPDATE"
    by (simp add: PLDM_TYPES_MAX_def PLDM_FIRMWARE_UPDATE_def word_less_nat_alt)
  ultimately show "ucast (cmdType (pldmMsgHdr (reply_headers sz p rd wr))) = PLDM_FIRMWARE_UPDATE"
    "pldm_cmdCode (pldmMsgHdr (reply_headers sz p rd wr)) = pldm_cmdCode (pldmMsgHdr rd)"
    "respPayload (reply_headers sz p rd wr) = respPayload wr"
    by (simp_all add: reply_headers_def Let_def pldmHdrConstruction_def fwu_types(2))
qed

lemma frame_payload: "11 \<le> n \<Longrightarrow> drop 11 (take n (drop 1 (i2cdata_bytes w))) = take (n - 11) (respPayload w)"
  by (simp add: i2cdata_bytes_def drop_take)

lemma fwu_write: "fwu_ok p \<Longrightarrow> length (respPayload w) = PAYLOAD_SIZE \<Longrightarrow> fwu_sent p [] (p\<lparr>mI2cPldmWrite := Some w\<rparr>)"
  by (auto simp: fwu_ok_def pldm_ok_def mctp_ok_def fwu_sent_def)

text \<open>Sending an answer whose payload is \<open>q\<close>: one frame, with the command of the request and the front of \<open>q\<close>.\<close>

lemma send_reply:
  assumes "fwu_ok p" "length q = PAYLOAD_SIZE" "11 \<le> unat sz" "unat sz \<le> 128"
  shows "returns (pldm_send sz (p\<lparr>mI2cPldmWrite := Some ((reply_headers sz p rd wr)\<lparr>respPayload := q\<rparr>)\<rparr>)) (\<lambda>(ok, p').
    fwu_sent p [(PLDM_FIRMWARE_UPDATE, pldm_cmdCode (pldmMsgHdr rd))] p' \<and> (\<exists>f. frames_sent p' = frames_sent p @ [f]
      \<and> pldm_frame_id f = (PLDM_FIRMWARE_UPDATE, pldm_cmdCode (pldmMsgHdr rd)) \<and> drop 11 f = take (unat sz - 11) q))"
proof -
  let ?w = "(reply_headers sz p rd wr)\<lparr>respPayload := q\<rparr>" and ?f = "take (unat sz) (drop 1 (i2cdata_bytes ((reply_headers sz p rd wr)\<lparr>respPayload := q\<rparr>)))"
  have w: "fwu_sent p [] (p\<lparr>mI2cPldmWrite := Some ?w\<rparr>)"
    using assms by (intro fwu_write) simp_all
  have f: "pldm_frame_id ?f = (PLDM_FIRMWARE_UPDATE, pldm_cmdCode (pldmMsgHdr rd))" "drop 11 ?f = take (unat sz - 11) q"
    unfolding pldm_frame_fields(1) [OF assms(3)] frame_payload [OF assms(3)] by (simp_all add: reply_fields)
  show ?thesis
    by (rule returns_mono [OF fwu_send [OF fwu_sentD(1) [OF w] assms(4)]]) (use f fwu_sent_trans [OF w] in auto)
qed

text \<open>The part of the state of an answer that matters to the loop and to the reader of the frames.\<close>

definition answered :: "i2cdata \<Rightarrow> u8 list \<Rightarrow> 'a pldm_fwu_scheme \<Rightarrow> 'a pldm_fwu_scheme \<Rightarrow> bool" where
  "answered rd q p p' = (fwu_sent p [(PLDM_FIRMWARE_UPDATE, pldm_cmdCode (pldmMsgHdr rd))] p' \<and> (\<exists>f. frames_sent p' = frames_sent p @ [f]
      \<and> pldm_frame_id f = (PLDM_FIRMWARE_UPDATE, pldm_cmdCode (pldmMsgHdr rd)) \<and> butlast (drop 11 f) = q))"

lemma respondtoamc_returns:
  assumes "fwu_ok p" "mI2cPldmRead p = Some rd"
  shows "returns (respondtoamc code p) (\<lambda>(r, p'). r \<in> {PLDM_SUCCESS, PLDM_ERROR} \<and> answered rd [code] p p')"
proof -
  obtain wr where wr: "mI2cPldmWrite p = Some wr" "length (respPayload wr) = 128"
    using assms by (auto simp: fwu_ok_def pldm_ok_def PAYLOAD_SIZE_def)
  define q where "q = (respPayload wr)[0 := code, 1 := crc8_of (take 12 ((respPayload wr)[0 := code]))]"
  have q: "length q = PAYLOAD_SIZE" "butlast (take 2 q) = [code]"
    using wr by (auto simp: q_def PAYLOAD_SIZE_def butlast_take take_Suc_conv_app_nth)
  have "respondtoamc code p = obind (pldm_send 13 (p\<lparr>mI2cPldmWrite := Some ((reply_headers 13 p rd wr)\<lparr>respPayload := q\<rparr>)\<rparr>))
      (\<lambda>(ok, p). Done (if ok then PLDM_SUCCESS else PLDM_ERROR, p))"
    using assms(2) wr by (simp add: respondtoamc_def Let_def fill_payload_def FWU_COMMAND_BASE_SIZE_def reply_fields q_def)
  moreover have "returns (pldm_send 13 (p\<lparr>mI2cPldmWrite := Some ((reply_headers 13 p rd wr)\<lparr>respPayload := q\<rparr>)\<rparr>)) (\<lambda>(ok, p'). answered rd [code] p p')"
    by (rule returns_mono [OF send_reply [OF assms(1) q(1)]]) (auto simp: answered_def q(2))
  ultimately show ?thesis
    by (auto elim!: returns_mono)
qed

text \<open>The first \<open>n\<close> bytes, zeros where there are none.\<close>

definition zpad :: "nat \<Rightarrow> u8 list \<Rightarrow> u8 list" where
  "zpad n bs = take n (bs @ replicate n 0)"

lemma length_zpad [simp]: "length (zpad n bs) = n"
  by (simp add: zpad_def)

lemma zpad_long: "n \<le> length bs \<Longrightarrow> zpad n bs = take n bs"
  by (simp add: zpad_def)

lemma read_image_ok:
  assumes "f_open f" "n \<le> 512"
  shows "read_image n f = Done (zpad n (drop (f_pos f) (take (f_avail f) (f_data f))),
    f\<lparr>f_pos := f_pos f + length (take n (drop (f_pos f) (take (f_avail f) (f_data f))))\<rparr>)"
proof -
  have "take n (bs @ replicate (512 - length bs) 0) = bs @ replicate (n - length bs) (0 :: u8)" if "length bs \<le> n" for bs :: "u8 list"
    using that assms(2) by (simp add: min_def)
  then show ?thesis
    using assms by (simp add: read_image_def f_read_def Let_def PLDM_FWUPDATE_MAX_PAYLOAD_SIZE_def zpad_def)
qed

lemma remaining_small:
  fixes offset len sz :: u32
  assumes "offset < sz" "unat len \<le> 32" "\<not> offset + len \<le> sz"
  shows "unat (sz - offset) \<le> unat len" "unat (sz - offset) = unat sz - unat offset"
proof -
  have lt: "unat offset < unat sz" "unat sz < 2 ^ 32"
    using assms(1) unsigned_less [of sz, where ?'a = nat] by (simp_all add: word_less_nat_alt)
  show diff: "unat (sz - offset) = unat sz - unat offset"
    using assms(1) by (simp add: unat_sub word_less_nat_alt word_le_nat_alt)
  have "unat sz < unat (offset + len)"
    using assms(3) by (simp add: word_le_nat_alt not_le)
  also have "\<dots> \<le> unat offset + unat len"
    by (simp add: unat_word_ariths)
  finally show "unat (sz - offset) \<le> unat len"
    using diff by simp
qed

text \<open>
  What the card is owed: the bytes of the image from the offset it asks for, zeros beyond its end, or the
  error code for an offset outside the image or a length above 32.
\<close>

definition fd_reply :: "u8 list \<Rightarrow> u32 \<Rightarrow> u32 \<Rightarrow> u8 list" where
  "fd_reply img offset len =
     (if length img \<le> unat offset then [DATA_OUT_OF_RANGE]
      else if 32 < unat len then [INVALID_TRANSFER_LENGTH]
      else 0 # zpad (unat len) (drop (unat offset) img))"

definition image_of :: "compImageInfo \<Rightarrow> fw_file \<Rightarrow> u8 list" where
  "image_of im f = take (unat (compSize im)) (drop (unat (compLocOffset im)) (f_data f))"

definition image_in_file :: "compImageInfo \<Rightarrow> fw_file \<Rightarrow> bool" where
  "image_in_file im f = (f_avail f = length (f_data f) \<and> unat (compLocOffset im) + unat (compSize im) \<le> length (f_data f)
     \<and> unat (compLocOffset im) + unat (compSize im) + 32 < 2 ^ 32)"

definition file_ok :: "'a pldm_fwu_scheme \<Rightarrow> bool" where
  "file_ok p = (\<exists>f. mCompFp p = Some f \<and> f_open f \<and> (\<forall>pos. f_seek_ok f pos))"

text \<open>The bytes \<open>writeToAMCCompXfer\<close> puts behind the completion code.\<close>

definition xfer_bytes :: "compImageInfo \<Rightarrow> fw_file \<Rightarrow> u32 \<Rightarrow> u32 \<Rightarrow> u8 list" where
  "xfer_bytes im f offset len =
     (let avail = drop (unat (compLocOffset im + offset)) (take (f_avail f) (f_data f)) in
      if offset + len \<le> compSize im then zpad (unat len) avail
      else zpad (unat len) (zpad (unat (compSize im - offset)) avail))"

lemma length_xfer_bytes [simp]: "length (xfer_bytes im f offset len) = unat len"
  by (simp add: xfer_bytes_def Let_def)

lemma length_image_of: "image_in_file im f \<Longrightarrow> length (image_of im f) = unat (compSize im)"
proof -
  assume "image_in_file im f"
  then have "unat (compLocOffset im) + unat (compSize im) \<le> length (f_data f)"
    by (simp add: image_in_file_def)
  then show ?thesis
    by (simp add: image_of_def)
qed

lemma xfer_bytes_image:
  assumes "image_in_file im f" "unat offset < unat (compSize im)" "unat len \<le> 32"
  shows "0 # xfer_bytes im f offset len = fd_reply (image_of im f) offset len"
proof -
  let ?loc = "unat (compLocOffset im)" and ?sz = "unat (compSize im)"
  have fits: "?loc + ?sz \<le> length (f_data f)" "?loc + ?sz + 32 < 2 ^ 32" "f_avail f = length (f_data f)"
    using assms(1) by (simp_all add: image_in_file_def)
  note len = length_image_of [OF assms(1)]
  have pos: "unat (compLocOffset im + offset) = ?loc + unat offset"
    using fits(2) assms(2) by (simp add: unat_word_ariths)
  have sum: "unat (offset + len) = unat offset + unat len"
    using fits(2) assms(2,3) by (simp add: unat_word_ariths)
  have drop: "drop (unat offset) (image_of im f) = take (?sz - unat offset) (drop (?loc + unat offset) (f_data f))"
    by (simp add: image_of_def drop_take add.commute)
  have rest: "?sz - unat offset \<le> length (drop (?loc + unat offset) (f_data f))"
    using fits(1) by simp
  have "xfer_bytes im f offset len = zpad (unat len) (drop (unat offset) (image_of im f))"
  proof (cases "offset + len \<le> compSize im")
    case True
    then have "unat len \<le> ?sz - unat offset"
      using sum by (simp add: word_le_nat_alt)
    then show ?thesis
      using True rest fits(3) by (simp add: xfer_bytes_def Let_def pos drop zpad_long)
  next
    case False
    then have "unat (compSize im - offset) = ?sz - unat offset"
      using remaining_small(2) [OF _ assms(3) False] assms(2) by (simp add: word_less_nat_alt)
    then show ?thesis
      using False rest fits(3) by (simp add: xfer_bytes_def Let_def pos drop zpad_long)
  qed
  then show ?thesis
    using len assms(2,3) by (simp add: fd_reply_def)
qed

lemma piece_to_payload_ok:
  assumes "mI2cPldmWrite p = Some w" "length (respPayload w) = 128" "f_open f" "offset < compSize im" "unat len \<le> 32"
  shows "\<exists>c t f'. piece_to_payload im offset len (f\<lparr>f_pos := unat (compLocOffset im + offset)\<rparr>) p
      = Done (p\<lparr>mCompFp := Some f', mI2cPldmWrite := Some (w\<lparr>respPayload := c # xfer_bytes im f offset len @ t\<rparr>)\<rparr>)
    \<and> file_state f' = file_state f \<and> length t = 127 - unat len"
proof -
  obtain c t where q: "respPayload w = c # t" "length t = 127"
    using assms(2) by (cases "respPayload w") auto
  let ?bs = "drop (unat (compLocOffset im + offset)) (take (f_avail f) (f_data f))"
  let ?f = "\<lambda>n. f\<lparr>f_pos := unat (compLocOffset im + offset) + length (take n ?bs)\<rparr>"
  show ?thesis
  proof (cases "offset + len \<le> compSize im")
    case True
    then have "piece_to_payload im offset len (f\<lparr>f_pos := unat (compLocOffset im + offset)\<rparr>) p
        = Done (p\<lparr>mCompFp := Some (?f (unat len)), mI2cPldmWrite := Some (w\<lparr>respPayload := c # xfer_bytes im f offset len @ drop (unat len) t\<rparr>)\<rparr>)"
      using assms q by (simp add: piece_to_payload_def read_image_ok fill_payload_def xfer_bytes_def Let_def)
    then show ?thesis
      using q by (intro exI conjI) (assumption, simp_all add: file_state_def)
  next
    case False
    let ?r = "unat (compSize im - offset)"
    note rem = remaining_small [OF assms(4,5) False]
    have pad: "zpad ?r bs @ replicate (127 - ?r) 0 = zpad (unat len) (zpad ?r bs) @ replicate (127 - unat len) 0" for bs
      using rem(1) assms(5) by (simp add: zpad_def [of "unat len"] replicate_add [symmetric])
    have "piece_to_payload im offset len (f\<lparr>f_pos := unat (compLocOffset im + offset)\<rparr>) p
        = Done (p\<lparr>mCompFp := Some (?f ?r), mI2cPldmWrite := Some (w\<lparr>respPayload := 0 # xfer_bytes im f offset len @ replicate (127 - unat len) 0\<rparr>)\<rparr>)"
      using assms q rem(1) False pad
      by (simp add: piece_to_payload_def read_image_ok fill_payload_def xfer_bytes_def Let_def numeral_eq_Suc [of "Num.Bit0 num.One"])
    then show ?thesis
      by (intro exI conjI) (assumption, simp_all add: file_state_def)
  qed
qed

lemma writeToAMC_returns:
  assumes "fwu_ok p" "mI2cPldmRead p = Some rd" "cur_image p = Done im" "mCompFp p = Some f" "f_open f"
    "f_seek_ok f (unat (compLocOffset im + offset))" "offset < compSize im" "unat len \<le> 32"
  shows "returns (writeToAMCCompXfer offset len 0 p) (\<lambda>(r, p'). r \<in> {PLDM_SUCCESS, PLDM_ERROR}
    \<and> answered rd (0 # xfer_bytes im f offset len) p p')"
proof -
  obtain wr where wr: "mI2cPldmWrite p = Some wr" "length (respPayload wr) = 128"
    using assms(1) by (auto simp: fwu_ok_def pldm_ok_def PAYLOAD_SIZE_def)
  define sz where "sz = 13 + (ucast len :: u8)"
  have "unat (ucast len :: u8) = unat len"
    using assms(8) by (simp add: unsigned_ucast_eq take_bit_nat_eq_self)
  then have sz: "unat sz = 13 + unat len" "sz \<noteq> 0"
    using assms(8) by (auto simp: sz_def unat_word_ariths word_unat_eq_iff)
  let ?w = "reply_headers sz p rd wr" and ?f = "f\<lparr>f_pos := unat (compLocOffset im + offset)\<rparr>" and ?x = "xfer_bytes im f offset len"
  have len: "length (respPayload ?w) = 128"
    using wr(2) by (simp add: reply_fields)
  obtain c t f' where piece: "piece_to_payload im offset len ?f (p\<lparr>mI2cPldmWrite := Some ?w\<rparr>)
      = Done (p\<lparr>mCompFp := Some f', mI2cPldmWrite := Some (?w\<lparr>respPayload := c # ?x @ t\<rparr>)\<rparr>)"
      and f': "file_state f' = file_state f" "length t = 127 - unat len"
    using piece_to_payload_ok [OF _ len assms(5,7,8), of "p\<lparr>mI2cPldmWrite := Some ?w\<rparr>"] by auto
  obtain a u where t: "t = a # u"
    using f'(2) assms(8) by (cases t) auto
  define q where "q = (0 # ?x @ t)[unat sz := crc8_of (take (unat sz - 1) (0 # ?x @ t))]"
  have q: "length q = PAYLOAD_SIZE" "butlast (take (unat sz - 11) q) = 0 # ?x"
    using f'(2) assms(8) sz(1) by (simp_all add: q_def t PAYLOAD_SIZE_def take_Cons')
  have eq: "writeToAMCCompXfer offset len 0 p = obind (pldm_send sz (p\<lparr>mCompFp := Some f', mI2cPldmWrite := Some (?w\<lparr>respPayload := q\<rparr>)\<rparr>))
      (\<lambda>(ok, p). Done (if ok then PLDM_SUCCESS else PLDM_ERROR, p))"
    using assms(2-6) wr(1) piece sz f'(2) assms(8)
    by (simp add: writeToAMCCompXfer_def sz_def [symmetric] f_seek_def fill_payload_def q_def Let_def)
  let ?p = "p\<lparr>mCompFp := Some f'\<rparr>"
  have p: "fwu_ok ?p" "reply_headers sz ?p rd wr = ?w" "fwu_sent ?p cs p' = fwu_sent p cs p'" for cs p'
    using assms(1,4) f'(1) by (simp_all add: fwu_sent_def reply_headers_def commandConstruction_def)
  have "returns (pldm_send sz (p\<lparr>mCompFp := Some f', mI2cPldmWrite := Some (?w\<lparr>respPayload := q\<rparr>)\<rparr>)) (\<lambda>(ok, p'). answered rd (0 # ?x) p p')"
    unfolding p(2) [symmetric]
    by (rule returns_mono [OF send_reply [OF p(1) q(1)]]) (use sz(1) assms(8) q(2) p(3) in \<open>auto simp: answered_def\<close>)
  then show ?thesis
    unfolding eq by (auto elim!: returns_mono)
qed

text \<open>A request of the card for a piece of the image, in the read buffer.\<close>

definition data_request :: "i2cdata \<Rightarrow> u32 \<Rightarrow> u32 \<Rightarrow> bool" where
  "data_request rd offset len = (mctp_cmdCode (pldmSmbusHdr rd) = MCTP_CMD_CODE \<and> ucast (cmdType (pldmMsgHdr rd)) = PLDM_FIRMWARE_UPDATE
     \<and> pldm_cmdCode (pldmMsgHdr rd) = REQUEST_FIRMWARE_DATA \<and> take 8 (respPayload rd) = bytes_of_u32 offset @ bytes_of_u32 len)"

lemma data_request_fields:
  assumes "data_request rd offset len" "length (respPayload rd) = PAYLOAD_SIZE"
  shows "get_u32 (respPayload rd) 0 = Done offset" "get_u32 (respPayload rd) 4 = Done len"
proof -
  have n: "respPayload rd ! i = (bytes_of_u32 offset @ bytes_of_u32 len) ! i" if "i < 8" for i
    using assms that nth_take [of i 8 "respPayload rd"] by (simp add: data_request_def)
  show "get_u32 (respPayload rd) 0 = Done offset" "get_u32 (respPayload rd) 4 = Done len"
    using assms(2) n [of 0] n [of 1] n [of 2, unfolded numeral_2_eq_2] n [of 3] n [of 4] n [of 5] n [of 6] n [of 7]
    by (simp_all add: get_u32_def PAYLOAD_SIZE_def bytes_of_u32_def numeral_2_eq_2)
qed

lemma answered_update [simp]: "answered rd q (p\<lparr>mProgPercent := i\<rparr>) p' = answered rd q p p'"
  by (simp add: answered_def)

lemma go_returns:
  "returns m (\<lambda>(r, p'). r \<in> {PLDM_SUCCESS, PLDM_ERROR} \<and> P p') \<Longrightarrow>
   returns m (\<lambda>x. returns (case x of (ret, p) \<Rightarrow> Done (if ret \<noteq> PLDM_SUCCESS then Some PLDM_ERROR else None, p))
     (\<lambda>(res, p'). res \<in> {None, Some PLDM_ERROR} \<and> P p'))"
  by (erule returns_mono) auto

text \<open>
  C28. A request of the card for a piece of the image is answered with exactly that piece: the success code and
  the bytes of the component from the offset, zeros behind its end; an offset outside the component or a length
  above 32 with the error code. The answer carries the command of the request, and the loop goes on unless
  the answer cannot be written.
\<close>

theorem firmware_data_answer:
  assumes "fwu_ok p" "mI2cPldmRead p = Some rd" "data_request rd offset len" "cur_image p = Done im" "compSize im \<noteq> 0"
    and "mCompFp p = Some f" "f_open f" "\<forall>pos. f_seek_ok f pos" "image_in_file im f"
  shows "returns (answerFD p) (\<lambda>(res, p'). res \<in> {None, Some PLDM_ERROR} \<and> answered rd (fd_reply (image_of im f) offset len) p p')"
proof -
  have rd: "length (respPayload rd) = PAYLOAD_SIZE"
    using assms(1,2) by (auto simp: fwu_ok_def pldm_ok_def)
  note size = length_image_of [OF assms(9)]
  let ?p = "p\<lparr>mProgPercent := sint (offset * 100 div compSize im)\<rparr>"
  have cur: "cur_image (p\<lparr>mProgPercent := i\<rparr>) = cur_image p" for i
    by (simp add: cur_image_def cong: if_cong)
  have p: "fwu_ok ?p" "mI2cPldmRead ?p = Some rd" "cur_image ?p = Done im" "mCompFp ?p = Some f"
    using assms by (simp_all only: cur) simp_all
  consider "compSize im \<le> offset" | "offset < compSize im" "32 < len" | "offset < compSize im" "\<not> 32 < len"
    by fastforce
  then have "returns (if compSize im \<le> offset then respondtoamc DATA_OUT_OF_RANGE ?p
      else if PLDM_MCTP_MAX_TRANSFER_SIZE < len then respondtoamc INVALID_TRANSFER_LENGTH ?p else writeToAMCCompXfer offset len 0 ?p)
      (\<lambda>(r, p'). r \<in> {PLDM_SUCCESS, PLDM_ERROR} \<and> answered rd (fd_reply (image_of im f) offset len) p p')"
  proof cases
    case 3
    then have "0 # xfer_bytes im f offset len = fd_reply (image_of im f) offset len"
      using assms(9) by (intro xfer_bytes_image) (simp_all add: word_less_nat_alt)
    with 3 show ?thesis
      using writeToAMC_returns [OF p assms(7) _ 3(1), of len] assms(8)
      by (simp add: PLDM_MCTP_MAX_TRANSFER_SIZE_def word_less_nat_alt word_le_nat_alt)
  qed (use respondtoamc_returns [OF p(1,2)] in
      \<open>simp_all add: fd_reply_def size PLDM_MCTP_MAX_TRANSFER_SIZE_def word_less_nat_alt word_le_nat_alt not_le [symmetric]\<close>)
  then show ?thesis
    using assms(2-5) data_request_fields [OF assms(3) rd] go_returns [where P = "answered rd (fd_reply (image_of im f) offset len) p"]
    by (simp add: answerFD_def Let_def data_request_def split: if_splits)
qed

section \<open>The transfer and the update stay in bounds\<close>

definition fwu_all :: "'a pldm_fwu_scheme \<Rightarrow> 'a pldm_fwu_scheme \<Rightarrow> bool" where
  "fwu_all p p' = (\<exists>cs. fwu_sent p cs p' \<and> (\<forall>c\<in>set cs. fst c = PLDM_FIRMWARE_UPDATE))"

lemma fwu_all_refl: "fwu_ok p \<Longrightarrow> fwu_all p p"
  unfolding fwu_all_def by (intro exI [of _ "[]"]) (simp add: fwu_sent_refl)

lemma fwu_all_trans: "fwu_all p p' \<Longrightarrow> fwu_all p' p'' \<Longrightarrow> fwu_all p p''"
  unfolding fwu_all_def by (elim exE conjE) (intro exI conjI, erule (1) fwu_sent_trans, auto)

lemma fwu_allI: "fwu_sent p [] p' \<Longrightarrow> fwu_all p p'" "fwu_sent p [(PLDM_FIRMWARE_UPDATE, c)] p' \<Longrightarrow> fwu_all p p'"
  unfolding fwu_all_def by fastforce+

lemma fwu_allD: "fwu_all p p' \<Longrightarrow> fwu_ok p'" "fwu_all p p' \<Longrightarrow> comp_ok p \<Longrightarrow> comp_ok p'" "fwu_all p p' \<Longrightarrow> file_ok p \<Longrightarrow> file_ok p'"
  unfolding fwu_all_def by (auto dest: fwu_sentD, auto simp: fwu_sent_def file_ok_def file_state_def map_option_case split: option.splits)

lemma answerFD_returns:
  assumes "fwu_ok p" "comp_ok p" "file_ok p"
  shows "returns (answerFD p) (\<lambda>(res, p'). fwu_all p p' \<and> (res = Some PLDM_SUCCESS \<longrightarrow>
    (\<exists>f. frames_sent p' = frames_sent p @ [f] \<and> pldm_frame_id f = (PLDM_FIRMWARE_UPDATE, APPLY_COMPLETE))))"
proof -
  obtain rd f where rd: "mI2cPldmRead p = Some rd" "length (respPayload rd) = 128" and f: "mCompFp p = Some f" "f_open f" "\<forall>pos. f_seek_ok f pos"
    using assms(1,3) by (auto simp: fwu_ok_def pldm_ok_def PAYLOAD_SIZE_def file_ok_def)
  obtain k im where im: "cur_image p = Done im" "compSize im \<noteq> 0"
    using assms(2) by (elim comp_okE) (auto simp: image_short_def)
  have cur: "cur_image (p\<lparr>mProgPercent := i\<rparr>) = cur_image p" for i
    by (simp add: cur_image_def cong: if_cong)
  have step: "fwu_all p p'" "\<exists>f. frames_sent p' = frames_sent p @ [f] \<and> pldm_frame_id f = (PLDM_FIRMWARE_UPDATE, pldm_cmdCode (pldmMsgHdr rd))"
    if "answered rd q p p'" for q p'
    using that by (auto simp: answered_def intro: fwu_allI)
  have resp: "returns (respondtoamc code (p\<lparr>mProgPercent := i\<rparr>)) (\<lambda>(r, p'). r \<in> {PLDM_SUCCESS, PLDM_ERROR} \<and> answered rd [code] p p')"
    "returns (respondtoamc code p) (\<lambda>(r, p'). r \<in> {PLDM_SUCCESS, PLDM_ERROR} \<and> answered rd [code] p p')" for code i
    using respondtoamc_returns [of "p\<lparr>mProgPercent := i\<rparr>" rd code] respondtoamc_returns [of p rd code] assms(1) rd(1) by simp_all
  have xfer: "returns (writeToAMCCompXfer off len 0 (p\<lparr>mProgPercent := i\<rparr>)) (\<lambda>(r, p'). r \<in> {PLDM_SUCCESS, PLDM_ERROR} \<and> answered rd (0 # xfer_bytes im f off len) p p')"
    if "off < compSize im" "\<not> PLDM_MCTP_MAX_TRANSFER_SIZE < len" for i off len
    using writeToAMC_returns [of "p\<lparr>mProgPercent := i\<rparr>" rd im f off len] assms(1) rd(1) im(1) f that
    by (simp add: cur PLDM_MCTP_MAX_TRANSFER_SIZE_def word_less_nat_alt)
  let ?G = "\<lambda>(res, p'). fwu_all p p' \<and> (res = Some PLDM_SUCCESS \<longrightarrow>
    (\<exists>f. frames_sent p' = frames_sent p @ [f] \<and> pldm_frame_id f = (PLDM_FIRMWARE_UPDATE, APPLY_COMPLETE)))"
  have reply: "returns m (\<lambda>x. returns (case x of (ret, p') \<Rightarrow> Done (g ret, p')) ?G)"
    if "returns m (\<lambda>(r, p'). r \<in> {PLDM_SUCCESS, PLDM_ERROR} \<and> answered rd q p p')"
      and "\<And>r. g r = Some PLDM_SUCCESS \<Longrightarrow> pldm_cmdCode (pldmMsgHdr rd) = APPLY_COMPLETE" for m q g
    by (rule returns_mono [OF that(1)]) (use step that(2) in fastforce)
  have go: "returns m (\<lambda>x. returns (case x of (ret, p') \<Rightarrow> Done (if ret \<noteq> PLDM_SUCCESS then Some PLDM_ERROR else None, p')) ?G)"
    if "returns m (\<lambda>(r, p'). r \<in> {PLDM_SUCCESS, PLDM_ERROR} \<and> answered rd q p p')" for m q
    by (rule reply [OF that]) (simp split: if_splits)
  have fin: "returns m (\<lambda>x. returns (case x of (ret, p') \<Rightarrow> Done (if ret \<noteq> PLDM_SUCCESS then Some PLDM_ERROR else Some PLDM_SUCCESS, p')) ?G)"
    if "returns m (\<lambda>(r, p'). r \<in> {PLDM_SUCCESS, PLDM_ERROR} \<and> answered rd q p p')" "pldm_cmdCode (pldmMsgHdr rd) = APPLY_COMPLETE" for m q
    by (rule reply [OF that(1)]) (rule that(2))
  consider "mctp_cmdCode (pldmSmbusHdr rd) \<noteq> MCTP_CMD_CODE \<or> ucast (cmdType (pldmMsgHdr rd)) \<noteq> PLDM_FIRMWARE_UPDATE"
    | "pldm_cmdCode (pldmMsgHdr rd) = REQUEST_FIRMWARE_DATA" | "pldm_cmdCode (pldmMsgHdr rd) \<in> {TRANSFER_COMPLETE, VERIFY_COMPLETE, APPLY_COMPLETE}"
    | "pldm_cmdCode (pldmMsgHdr rd) \<notin> {REQUEST_FIRMWARE_DATA, TRANSFER_COMPLETE, VERIFY_COMPLETE, APPLY_COMPLETE}"
    by blast
  then show ?thesis
  proof cases
    case 1
    then show ?thesis
      using rd fwu_all_refl [OF assms(1)] by (auto simp: answerFD_def Let_def)
  next
    case 2
    then have "pldm_cmdCode (pldmMsgHdr rd) \<noteq> APPLY_COMPLETE" by (simp add: fwu_cmds)
    then show ?thesis
      using rd im 2 fwu_all_refl [OF assms(1)] go [OF resp(1)] go [OF xfer]
      by (simp add: answerFD_def Let_def not_le)
  next
    case 3
    then have "pldm_cmdCode (pldmMsgHdr rd) \<noteq> REQUEST_FIRMWARE_DATA" by (auto simp: fwu_cmds)
    then show ?thesis
      using rd 3 fwu_all_refl [OF assms(1)] go [OF resp(1)] fin [OF resp(1)] reply [OF resp(1), of "\<lambda>_. Some PLDM_ERROR"]
      by (simp add: answerFD_def Let_def split: if_splits)
  next
    case 4
    then show ?thesis
      using rd fwu_all_refl [OF assms(1)] go [OF resp(2)] by (simp add: answerFD_def Let_def)
  qed
qed

lemma transfer_loop_runs:
  assumes "fwu_ok p" "comp_ok p" "file_ok p"
  shows "safe (readFromFD rounds p) (\<lambda>(r, p'). fwu_all p p' \<and> (r = PLDM_SUCCESS \<longrightarrow>
    frames_sent p' \<noteq> [] \<and> pldm_frame_id (last (frames_sent p')) = (PLDM_FIRMWARE_UPDATE, APPLY_COMPLETE)))"
  using assms
proof (induction rounds arbitrary: p)
  case 0
  then show ?case by simp
next
  case (Suc k)
  let ?Q = "\<lambda>p (r, p'). fwu_all p p' \<and> (r = PLDM_SUCCESS \<longrightarrow>
    frames_sent p' \<noteq> [] \<and> pldm_frame_id (last (frames_sent p')) = (PLDM_FIRMWARE_UPDATE, APPLY_COMPLETE))"
  have again: "safe (readFromFD k p2) (?Q p)" if "fwu_all p p2" for p2
    by (rule safe_mono [OF Suc.IH]) (use that fwu_allD [OF that] Suc.prems fwu_all_trans [OF that] in auto)
  have answer: "safe (answerFD p1) (\<lambda>x. safe (case x of (res, p) \<Rightarrow> case res of Some ret \<Rightarrow> Done (ret, p) | None \<Rightarrow> readFromFD k p) (?Q p))"
    if p1: "fwu_all p p1" for p1
    by (rule safe_mono [OF returns_safe [OF answerFD_returns]])
      (use p1 fwu_allD [OF p1] Suc.prems fwu_all_trans [OF p1] in \<open>auto intro!: again split: option.split\<close>)
  have "fwu_all p p1" if "fwu_sent p [] p1" for p1
    using that by (rule fwu_allI)
  then show ?case
    by (auto intro!: safe_mono [OF returns_safe [OF fwu_receive [OF Suc.prems(1)]]] answer)
qed

text \<open>
  However long the card keeps asking, the transfer of a component never leaves a buffer and every frame
  it sends is a firmware-update frame; it succeeds only when it has answered an \<^verbatim>\<open>APPLY_COMPLETE\<close>.
\<close>

theorem transfer_loop_safe:
  assumes "fwu_ok p" "comp_ok p" "file_ok p"
  shows "safe (readFromFD rounds p) (\<lambda>(r, p'). fwu_all p p' \<and> (r = PLDM_SUCCESS \<longrightarrow>
    frames_sent p' \<noteq> [] \<and> pldm_frame_id (last (frames_sent p')) = (PLDM_FIRMWARE_UPDATE, APPLY_COMPLETE)))"
  using assms by (rule transfer_loop_runs)

end
