(* ===== verification/Amc_FwuPackage.thy ===== *)
theory Amc_FwuPackage
  imports Amc_FwuTransfer
begin

text \<open>
  The whole update of a package: the file is closed once on every path and only firmware-update frames are
  sent (\<open>update_closes_file\<close>); two errors of the paths that end an update.
\<close>

text \<open>The file is closed and every frame sent since is a firmware-update frame.\<close>

definition fwu_done :: "'a pldm_fwu_scheme \<Rightarrow> 'a pldm_fwu_scheme \<Rightarrow> bool" where
  "fwu_done p p' = (fwu_ok p' \<and> (\<exists>f. mCompFp p' = Some f \<and> \<not> f_open f)
     \<and> (\<exists>fs. frames_sent p' = frames_sent p @ fs \<and> (\<forall>f\<in>set fs. fst (pldm_frame_id f) = PLDM_FIRMWARE_UPDATE)))"

text \<open>Progress over components: as \<open>fwu_all\<close>, but the current component can change.\<close>

definition fwu_prog :: "'a pldm_fwu_scheme \<Rightarrow> 'a pldm_fwu_scheme \<Rightarrow> bool" where
  "fwu_prog p p' = (fwu_ok p' \<and> pkg p' = pkg p \<and> map_option file_state (mCompFp p') = map_option file_state (mCompFp p)
     \<and> (\<exists>fs. frames_sent p' = frames_sent p @ fs \<and> (\<forall>f\<in>set fs. fst (pldm_frame_id f) = PLDM_FIRMWARE_UPDATE)))"

lemma fwu_all_prog: "fwu_all (p\<lparr>mCurComp := c\<rparr>) p' \<Longrightarrow> fwu_prog p p'" "fwu_all p p' \<Longrightarrow> fwu_prog p p'"
  by (auto simp: fwu_all_def fwu_sent_def fwu_prog_def)

lemma fwu_prog_trans: "fwu_prog p p' \<Longrightarrow> fwu_prog p' p'' \<Longrightarrow> fwu_prog p p''"
  unfolding fwu_prog_def by (force intro: exI [of _ "_ @ _"])

lemma fwu_prog_done: "fwu_prog p p' \<Longrightarrow> fwu_done p' p'' \<Longrightarrow> fwu_done p p''"
  unfolding fwu_prog_def fwu_done_def by (force intro: exI [of _ "_ @ _"])

lemma fwu_prog_file: "fwu_prog p p' \<Longrightarrow> file_ok p = file_ok p'"
  by (auto simp: fwu_prog_def file_ok_def file_state_def map_option_case split: option.splits)

lemma close_fp_done: "fwu_prog p p' \<Longrightarrow> file_ok p \<Longrightarrow> returns (close_fp p') (fwu_done p)"
  using fwu_prog_file [of p p'] by (auto simp: close_fp_def f_close_def fwu_prog_def fwu_done_def file_ok_def)

lemma send_cancel_runs:
  "fwu_ok p \<Longrightarrow> b \<longrightarrow> 0 < rounds \<Longrightarrow> runs b (send_cancel rounds p) (fwu_all p)"
  unfolding send_cancel_def runs_simps(4)
  by (rule runs_mono [OF fwUpdCmd_runs])
    (auto simp: needs_image_def FWU_COMMAND_BASE_SIZE_def fwu_cmds intro: fwu_allI)

lemma cancel_and_close:
  assumes "fwu_prog p p'" "file_ok p"
  shows "safe (send_cancel rounds p') (\<lambda>x. safe (close_fp x) (fwu_done p))"
proof -
  have "safe (send_cancel rounds p') (fwu_all p')"
    using send_cancel_runs [of p' False] assms(1) by (simp add: runs_False fwu_prog_def)
  then show ?thesis
    by (rule safe_mono) (rule returns_safe [OF close_fp_done [OF fwu_prog_trans [OF assms(1) fwu_all_prog(2)] assms(2)]])
qed

lemma fwu_commands_safe:
  assumes "fwu_ok p" "comp_ok p" "file_ok p" "list_all (\<lambda>c. 11 \<le> unat (snd c) \<and> unat (snd c) < 128) cs"
  shows "safe (fwu_commands rounds cs p) (\<lambda>(r, p'). if r = PLDM_SUCCESS then fwu_all p p' else fwu_done p p')"
  using assms
proof (induction cs arbitrary: p)
  case Nil
  then show ?case by (simp add: fwu_all_refl)
next
  case (Cons c cs)
  let ?Q = "\<lambda>(r, p'). if r = PLDM_SUCCESS then fwu_all p p' else fwu_done p p'"
  have rest: "safe (fwu_commands rounds cs p1) ?Q" if "fwu_all p p1" for p1
    by (rule safe_mono [OF Cons.IH])
      (use that fwu_allD [OF that] Cons.prems fwu_all_trans [OF that] fwu_prog_done [OF fwu_all_prog(2) [OF that]] in \<open>auto split: if_splits\<close>)
  have fail: "safe (if fst c \<in> {REQUEST_UPDATE, PASS_COMPONENT_TABLE, UPDATE_COMPONENT} then send_cancel rounds p1 else Done p1)
      (\<lambda>x. safe (close_fp x) (fwu_done p))" if "fwu_all p p1" for p1
    using cancel_and_close [OF fwu_all_prog(2) [OF that] Cons.prems(3)] returns_safe [OF close_fp_done [OF fwu_all_prog(2) [OF that] Cons.prems(3)]]
    by simp
  have step: "safe (if ret \<noteq> PLDM_SUCCESS then
         obind (if fst c \<in> {REQUEST_UPDATE, PASS_COMPONENT_TABLE, UPDATE_COMPONENT} then send_cancel rounds p1 else Done p1) (\<lambda>p.
         obind (close_fp p) (\<lambda>p. Done (ret, p)))
       else fwu_commands rounds cs p1) ?Q" if "fwu_all p p1" for ret p1
    using rest [OF that] fail [OF that] by (cases "ret = PLDM_SUCCESS") (simp, simp only: if_True safe_simps simp_thms if_False, erule safe_mono, erule safe_mono, simp)
  have "safe (fwUpdCmd rounds (fst c) (snd c) p) (\<lambda>(r, p'). fwu_all p p')"
    using fwUpdCmd_runs [of p "fst c" "snd c" False rounds] Cons.prems fwu_allI by (auto simp: runs_False elim!: safe_mono)
  then show ?case
    unfolding fwu_commands.simps safe_simps(4) by (rule safe_mono) (simp only: split_paired_all prod.case, rule step)
qed

lemma fwu_cmdTable_sizes: "list_all (\<lambda>c. 11 \<le> unat (snd c) \<and> unat (snd c) < 128) fwu_cmdTable"
  by (simp add: fwu_cmdTable_def FWU_COMMAND_BASE_SIZE_def)

lemma fwu_components_safe:
  assumes "fwu_ok p" "file_ok p" "pkg p = Some k" "list_all image_short (compImages k)" "n + m \<le> length (compImages k)" "length (compImages k) < 256"
  shows "safe (fwu_components rounds m n ret p) (\<lambda>(r, p'). case r of Inl _ \<Rightarrow> fwu_done p p' | Inr _ \<Rightarrow> fwu_prog p p')"
  using assms
proof (induction m arbitrary: n ret p)
  case 0
  then show ?case by (simp add: fwu_prog_def)
next
  case (Suc m)
  let ?Q = "\<lambda>(r, p'). case r of Inl _ \<Rightarrow> fwu_done p p' | Inr _ \<Rightarrow> fwu_prog p p'" and ?p = "p\<lparr>mCurComp := word_of_nat n\<rparr>"
  have ok: "fwu_ok ?p" "file_ok ?p" "comp_ok ?p"
    using Suc.prems by (simp_all add: file_ok_def comp_ok_def unat_of_nat)
  have again: "safe (fwu_components rounds m (Suc n) r p2) ?Q" if "fwu_prog p p2" for r p2
    by (rule safe_mono [OF Suc.IH])
      (use that Suc.prems fwu_prog_file [OF that] fwu_prog_trans [OF that] fwu_prog_done [OF that] in \<open>auto simp: fwu_prog_def [of p p2] split: sum.splits\<close>)
  have transfer: "safe (readFromFD rounds p1) (\<lambda>x. safe (case x of (r, p) \<Rightarrow>
         if r \<noteq> PLDM_SUCCESS then obind (send_cancel rounds p) (\<lambda>p. obind (close_fp p) (\<lambda>p. Done (Inl PLDM_ERROR, p)))
         else fwu_components rounds m (Suc n) s p) ?Q)" if p1: "fwu_all ?p p1" for s p1
  proof (rule safe_mono [OF transfer_loop_runs [of p1]])
    show "fwu_ok p1" "comp_ok p1" "file_ok p1" using fwu_allD [OF p1] ok by auto
    fix x :: "u8 \<times> 'a pldm_fwu_scheme"
    assume "case x of (r, p') \<Rightarrow> fwu_all p1 p' \<and> (r = PLDM_SUCCESS \<longrightarrow>
      frames_sent p' \<noteq> [] \<and> pldm_frame_id (last (frames_sent p')) = (PLDM_FIRMWARE_UPDATE, APPLY_COMPLETE))"
    then obtain r p2 where x: "x = (r, p2)" "fwu_prog p p2"
      using fwu_all_prog(1) [OF fwu_all_trans [OF p1]] by (cases x) auto
    show "safe (case x of (r, p) \<Rightarrow> if r \<noteq> PLDM_SUCCESS then obind (send_cancel rounds p) (\<lambda>p. obind (close_fp p) (\<lambda>p. Done (Inl PLDM_ERROR, p)))
         else fwu_components rounds m (Suc n) s p) ?Q"
      using again [OF x(2)] cancel_and_close [OF x(2) Suc.prems(2), of rounds] x(1)
      by (cases "r = PLDM_SUCCESS") (simp, simp only: prod.case if_True safe_simps simp_thms if_False, erule safe_mono, erule safe_mono, simp)
  qed
  have done': "fwu_done p p'" if "fwu_done ?p p'" for p'
    using that by (simp add: fwu_done_def)
  show ?case
    unfolding fwu_components.simps safe_simps(4)
  proof (rule safe_mono [OF fwu_commands_safe [OF ok(1,3,2) fwu_cmdTable_sizes]], simp only: split_paired_all prod.case)
    fix r p1
    assume r: "if r = PLDM_SUCCESS then fwu_all ?p p1 else fwu_done ?p p1"
    show "safe (if r \<noteq> PLDM_SUCCESS then Done (Inl r, p1) else obind (readFromFD rounds p1) (\<lambda>(ret, p).
         if ret \<noteq> PLDM_SUCCESS then obind (send_cancel rounds p) (\<lambda>p. obind (close_fp p) (\<lambda>p. Done (Inl PLDM_ERROR, p)))
         else fwu_components rounds m (Suc n) r p)) ?Q"
      using r transfer [of p1 r] done' by (cases "r = PLDM_SUCCESS") (simp_all only: safe_simps if_True if_False simp_thms prod.case sum.case)
  qed
qed

lemma fwu_finish_runs:
  assumes "fwu_ok p" "file_ok p" "b \<longrightarrow> 0 < rounds"
  shows "runs b (fwu_finish rounds ret p) (\<lambda>(r, p'). fwu_done p p' \<and> r \<in> {ret, PLDM_SUCCESS})"
proof -
  have cmd: "runs b (fwUpdCmd rounds c sz q) (\<lambda>(r, p'). fwu_prog p p')"
    if "fwu_prog p q" "(c, sz) = (GET_STATUS, FWU_COMMAND_BASE_SIZE) \<or> (c, sz) = (ACTIVATE_FIRMWARE, ACTIVATE_FIRMWARE_SIZE)" for c sz q
  proof -
    have "runs b (fwUpdCmd rounds c sz q) (\<lambda>(r, p'). fwu_all q p')"
      by (rule runs_mono [OF fwUpdCmd_runs])
        (use that assms(3) in \<open>auto simp: fwu_prog_def [of p q] needs_image_def fwu_cmds FWU_COMMAND_BASE_SIZE_def ACTIVATE_FIRMWARE_SIZE_def intro: fwu_allI\<close>)
    then show ?thesis
      by (rule runs_mono) (auto intro: fwu_prog_trans [OF that(1) fwu_all_prog(2)])
  qed
  have close: "runs b (close_fp q) (fwu_done p)" if "fwu_prog p q" for q
    by (rule returns_runs [OF close_fp_done [OF that assms(2)]])
  have start: "fwu_prog p p"
    using assms(1) by (simp add: fwu_prog_def)
  show ?thesis
    unfolding fwu_finish_def runs_simps(4)
  proof (rule runs_mono [OF cmd [OF start]], blast, simp only: split_paired_all prod.case)
    fix r p1
    assume p1: "fwu_prog p p1"
    have "runs b (fwUpdCmd rounds ACTIVATE_FIRMWARE ACTIVATE_FIRMWARE_SIZE p1) (\<lambda>x. runs b (case x of (r, p) \<Rightarrow>
        if r \<noteq> PLDM_SUCCESS then obind (close_fp p) (\<lambda>p. Done (ret, p)) else obind (close_fp p) (\<lambda>p. Done (PLDM_SUCCESS, p)))
        (\<lambda>(r, p'). fwu_done p p' \<and> r \<in> {ret, PLDM_SUCCESS}))"
      by (rule runs_mono [OF cmd [OF p1]]) (use close in \<open>auto elim!: runs_mono\<close>)
    then show "runs b (if r \<noteq> PLDM_SUCCESS then obind (close_fp p1) (\<lambda>p. Done (ret, p))
       else obind (fwUpdCmd rounds ACTIVATE_FIRMWARE ACTIVATE_FIRMWARE_SIZE p1) (\<lambda>(r, p).
         if r \<noteq> PLDM_SUCCESS then obind (close_fp p) (\<lambda>p. Done (ret, p)) else obind (close_fp p) (\<lambda>p. Done (PLDM_SUCCESS, p))))
       (\<lambda>(r, p'). fwu_done p p' \<and> r \<in> {ret, PLDM_SUCCESS})"
      using close [OF p1]
      by (cases "r = PLDM_SUCCESS") (simp only: if_False simp_thms runs_simps, simp only: if_True simp_thms runs_simps, erule runs_mono, simp)
  qed
qed

text \<open>The result of parsing a package: only \<^verbatim>\<open>PLDM_ERROR\<close> is an error, and there are as many images as the count says.\<close>

lemma case_sum_eq: "(case x of Inl a \<Rightarrow> f a | Inr b \<Rightarrow> g b) = y \<longleftrightarrow> (\<exists>a. x = Inl a \<and> f a = y) \<or> (\<exists>b. x = Inr b \<and> g b = y)"
  by (cases x) auto

lemma parse_descs_error: "parse_descs j n b pos ds = Done (Inl e) \<Longrightarrow> e = PLDM_ERROR"
  by (induction n arbitrary: j pos ds) (auto simp: Let_def split: if_splits)

lemma parse_devs_error: "parse_devs n b pos rs = Done (Inl e) \<Longrightarrow> e = PLDM_ERROR"
  by (induction n arbitrary: pos rs) (auto simp: case_sum_eq dest: parse_descs_error)

lemma parse_images_length: "parse_images n b pos ims = Done (ims', pos') \<Longrightarrow> length ims' = length ims + n"
  by (induction n arbitrary: pos ims) fastforce+

lemma parse_pkg_result:
  "parse_pkg path b = Done (Inl e) \<Longrightarrow> e = PLDM_ERROR"
  "parse_pkg path b = Done (Inr k) \<Longrightarrow> length (compImages k) = unat (compImageCount k) \<and> unat (compImageCount k) \<le> 4"
proof -
  show "parse_pkg path b = Done (Inl e) \<Longrightarrow> e = PLDM_ERROR"
    by (auto simp: parse_pkg_def Let_def case_sum_eq split: if_splits dest: parse_devs_error)
  show "parse_pkg path b = Done (Inr k) \<Longrightarrow> length (compImages k) = unat (compImageCount k) \<and> unat (compImageCount k) \<le> 4"
    by (auto simp: parse_pkg_def Let_def PLDM_FWU_MAX_IMAGES_def word_less_nat_alt case_sum_eq split: if_splits dest!: parse_images_length)
qed

definition package_short :: "u8 list \<Rightarrow> fw_file \<Rightarrow> bool" where
  "package_short path f = safe (parse_pkg path (f_data f)) (\<lambda>res. case res of Inl _ \<Rightarrow> True | Inr k \<Rightarrow> list_all image_short (compImages k))"

lemma fwpkgParseInfo_returns:
  assumes "f_open f" "package_short path f"
  shows "safe (fwpkgParseInfo (Some path) alloc f) (\<lambda>(r, k, f'). if r = PLDM_SUCCESS then file_state f' = file_state f
      \<and> (\<exists>pk. k = Some pk \<and> list_all image_short (compImages pk) \<and> length (compImages pk) = unat (compImageCount pk) \<and> unat (compImageCount pk) \<le> 4)
    else \<not> f_open f')"
proof (cases "parse_pkg path (f_data f)")
  case (Done res)
  show ?thesis
  proof (cases res)
    case (Inl e)
    then show ?thesis
      using assms Done parse_pkg_result(1) [of path "f_data f" e] by (auto simp: fwpkgParseInfo_def Let_def f_close_def f_read_def)
  next
    case (Inr k)
    then show ?thesis
      using assms Done parse_pkg_result(2) [of path "f_data f" k]
      by (auto simp: fwpkgParseInfo_def Let_def f_close_def f_read_def package_short_def dumpPldmFwpkgInfo_def file_state_def)
  qed
qed (use assms in \<open>auto simp: package_short_def fwpkgParseInfo_def Let_def f_close_def f_read_def\<close>)


section \<open>Two errors of the update\<close>

lemma send_refused:
  assumes "i2cobj p = Some d" "0 \<le> amchandle d" "\<not> i2c_tx_ok d (length (i2c_sent d))" "pldm_send sz p = Done (ok, p')"
  shows "\<not> ok"
  using assms by (auto simp: pldm_send_def writeAmc_def)

lemma fwUpdCmd_refused:
  assumes "fwu_ok p" "i2cobj p = Some d" "\<not> i2c_tx_ok d (length (i2c_sent d))"
  shows "returns (fwUpdCmd rounds GET_STATUS FWU_COMMAND_BASE_SIZE p) (\<lambda>(r, p'). r = PLDM_ERROR \<and> fwu_sent p [(PLDM_FIRMWARE_UPDATE, GET_STATUS)] p')"
proof -
  define p0 where "p0 = next_instance (p\<lparr>mFwuCmdLen := 12, mI2cMultiResp := False\<rparr>)"
  have ok: "pldm_ok (p\<lparr>mFwuCmdLen := 12, mI2cMultiResp := False\<rparr>)"
    using assms(1) by (simp add: fwu_ok_def)
  note n = next_instance_ok [OF ok, folded p0_def]
  have p0: "fwu_ok p0" "mFwuCmdLen p0 = 12" "i2cobj p0 = Some d" "fwu_sent p [] p0"
    using assms(1,2) n by (auto simp: fwu_ok_def p0_def next_instance_def fwu_sent_def frames_sent_def)
  have fill: "returns (pldmFwUpdFillPayload GET_STATUS 12 p0) (\<lambda>(r, p'). r = PLDM_SUCCESS \<and> fwu_sent p0 [] p' \<and> quiet p0 p' \<and> mFwuCmdLen p' = 12)"
  proof -
    have "returns (fill_payload (\<lambda>q. obind (clear_payload q 12) (\<lambda>q. put_crc q 0 (12 - 1))) p0)
        (\<lambda>p'. quiet p0 p' \<and> fwu_sent p0 [] p' \<and> mFwuCmdLen p' = mFwuCmdLen p0 \<and> mI2cMultiResp p' = mI2cMultiResp p0
          \<and> mCompFp p' = mCompFp p0 \<and> mI2cPldmRead p' = mI2cPldmRead p0)"
      by (rule fwu_fill [OF p0(1)]) (simp add: PAYLOAD_SIZE_def)
    then show ?thesis
      using p0(2) by (auto simp: pldmFwUpdFillPayload_def elim!: returns_mono)
  qed
  have send: "returns (obind (the_ptr (mI2cPldmWrite p1)) (\<lambda>wr.
          let p = p1\<lparr>mI2cPldmWrite := Some (pldm_headers PLDM_FIRMWARE_UPDATE GET_STATUS (mFwuCmdLen p1) p1 wr)\<rparr> in
          obind (pldm_send (mFwuCmdLen p) p) (\<lambda>(ok, p).
            if \<not> ok then Done (PLDM_ERROR, p)
            else obind (if GET_STATUS \<noteq> ACTIVATE_FIRMWARE then fwu_responses rounds GET_STATUS p else Done (PLDM_SUCCESS, p)) (\<lambda>(ret, p).
              if ret \<noteq> PLDM_SUCCESS then Done (PLDM_ERROR, p)
              else Done (PLDM_SUCCESS, p\<lparr>pldm_instanceID := pldm_instanceID p + 1\<rparr>)))))
      (\<lambda>(r, p'). r = PLDM_ERROR \<and> fwu_sent p [(PLDM_FIRMWARE_UPDATE, GET_STATUS)] p')"
    if p1: "fwu_sent p0 [] p1" "quiet p0 p1" "mFwuCmdLen p1 = 12" for p1
  proof -
    obtain wr where wr: "mI2cPldmWrite p1 = Some wr"
      using p1(2) by (auto simp: quiet_def pldm_ok_def)
    define h where "h = pldm_headers PLDM_FIRMWARE_UPDATE GET_STATUS 12 p1 wr"
    have h: "fwu_ok (p1\<lparr>mI2cPldmWrite := Some h\<rparr>)" "fwu_sent p [] (p1\<lparr>mI2cPldmWrite := Some h\<rparr>)"
      using p1 wr pldm_headers_ok [OF _ wr] p0(4) by (auto simp: h_def fwu_sent_def fwu_ok_def)
    have frame: "pldm_frame_id (take (unat (12 :: u8)) (drop 1 (i2cdata_bytes h))) = (PLDM_FIRMWARE_UPDATE, GET_STATUS)"
      unfolding h_def by (rule fwu_header_frame [OF fwu_sentD(1) [OF p1(1)] wr]) (use n(2,3) p1(2) in \<open>auto simp: quiet_def\<close>)
    obtain ok p2 where p2: "pldm_send 12 (p1\<lparr>mI2cPldmWrite := Some h\<rparr>) = Done (ok, p2)"
        "fwu_sent p [(PLDM_FIRMWARE_UPDATE, GET_STATUS)] p2"
      using fwu_send [OF h(1), of 12] frame fwu_sent_trans [OF h(2)] by (fastforce simp: returns_iff)
    have "\<not> ok"
      by (rule send_refused [OF _ _ _ p2(1), of d]) (use assms(3) p0(3) p1(2) in \<open>auto simp: quiet_def pldm_ok_def mctp_ok_def\<close>)
    with wr p1(3) p2 show ?thesis
      by (simp add: h_def [symmetric])
  qed
  have sz: "unat (12 :: u8) = 12"
    by simp
  show ?thesis
    unfolding fwUpdCmd_def Let_def FWU_COMMAND_BASE_SIZE_def p0_def [symmetric] returns_simps(4) sz
  proof (rule returns_mono [OF fill], unfold split_paired_all prod.case)
    fix r p1
    assume r: "r = PLDM_SUCCESS \<and> fwu_sent p0 [] p1 \<and> quiet p0 p1 \<and> mFwuCmdLen p1 = 12"
    show "returns (if r \<noteq> PLDM_SUCCESS then Done (PLDM_ERROR, p1) else obind (the_ptr (mI2cPldmWrite p1)) (\<lambda>wr.
          obind (pldm_send (mFwuCmdLen (p1\<lparr>mI2cPldmWrite := Some (pldm_headers PLDM_FIRMWARE_UPDATE GET_STATUS (mFwuCmdLen p1) p1 wr)\<rparr>))
              (p1\<lparr>mI2cPldmWrite := Some (pldm_headers PLDM_FIRMWARE_UPDATE GET_STATUS (mFwuCmdLen p1) p1 wr)\<rparr>)) (\<lambda>(ok, p).
            if \<not> ok then Done (PLDM_ERROR, p)
            else obind (if GET_STATUS \<noteq> ACTIVATE_FIRMWARE then fwu_responses rounds GET_STATUS p else Done (PLDM_SUCCESS, p)) (\<lambda>(ret, p).
              if ret \<noteq> PLDM_SUCCESS then Done (PLDM_ERROR, p)
              else Done (PLDM_SUCCESS, p\<lparr>pldm_instanceID := pldm_instanceID p + 1\<rparr>)))))
      (\<lambda>(r, p'). r = PLDM_ERROR \<and> fwu_sent p [(PLDM_FIRMWARE_UPDATE, GET_STATUS)] p')"
      using send [of p1] r by (simp only: Let_def simp_thms if_False)
  qed
qed


text \<open>
  When the file cannot be sought at a piece the card asks for, the file is closed before the error is
  returned, and the cancellation of the update then closes it a second time.
\<close>

theorem seek_failure_closes_twice:
  assumes "fwu_ok p" "mI2cPldmRead p = Some rd" "data_request rd offset len" "cur_image p = Done im" "offset < compSize im" "unat len \<le> 32"
    and "mCompFp p = Some f" "f_open f" "\<not> f_seek_ok f (unat (compLocOffset im + offset))" "0 < rounds"
  shows "\<exists>p'. answerFD p = Done (Some PLDM_ERROR, p') \<and> obind (send_cancel rounds p') close_fp = Fault"
proof -
  obtain wr where wr: "mI2cPldmWrite p = Some wr" "length (respPayload wr) = PAYLOAD_SIZE" "length (respPayload rd) = PAYLOAD_SIZE"
    using assms(1,2) by (auto simp: fwu_ok_def pldm_ok_def)
  let ?q = "p\<lparr>mProgPercent := sint (offset * 100 div compSize im)\<rparr>"
  let ?w = "reply_headers (13 + ucast len) ?q rd wr"
  define p' where "p' = ?q\<lparr>mI2cPldmWrite := Some ?w, mCompFp := Some (f\<lparr>f_open := False\<rparr>)\<rparr>"
  have cur: "cur_image (p\<lparr>mProgPercent := i\<rparr>) = cur_image p" for i
    by (simp add: cur_image_def cong: if_cong)
  have "writeToAMCCompXfer offset len 0 ?q = Done (PLDM_ERROR, p')"
    using assms(2,4,7-9) wr(1) by (simp add: writeToAMCCompXfer_def cur p'_def f_seek_def f_close_def Let_def)
  then have answer: "answerFD p = Done (Some PLDM_ERROR, p')"
    using assms(2-6) data_request_fields [OF assms(3) wr(3)]
    by (auto simp: answerFD_def Let_def data_request_def PLDM_MCTP_MAX_TRANSFER_SIZE_def word_less_nat_alt word_le_nat_alt)
  have "fwu_ok p'"
    using fwu_write [of ?q ?w] assms(1) wr(2) by (simp add: p'_def fwu_sent_def reply_fields)
  then have "returns (send_cancel rounds p') (fwu_all p')"
    using send_cancel_runs [of p' True rounds] assms(10) by (simp add: runs_True)
  then obtain p2 where p2: "send_cancel rounds p' = Done p2" "fwu_all p' p2"
    by (auto simp: returns_iff)
  then obtain g where "mCompFp p2 = Some g" "\<not> f_open g"
    by (auto simp: fwu_all_def fwu_sent_def p'_def file_state_def)
  with p2(1) answer show ?thesis
    by (simp add: close_fp_def f_close_def)
qed

end
