(* ===== verification/Amc_Sample.thy ===== *)
theory Amc_Sample
  imports Amc_FwuPackage
begin

text \<open>
  A concrete card object and a concrete firmware package, at which the properties of the AMC theories are
  applied: a connected device that answers every read with a frame of zeros.
\<close>

definition sample_device :: i2c_interface where
  "sample_device = \<lparr>amchandle = 3, i2c_init = True, i2c_rx = (\<lambda>_. Some (MCTP_CMD_CODE # 20 # replicate 126 0)), i2c_tx_ok = (\<lambda>_. True),
     i2c_reads = 0, i2c_sent = []\<rparr>"

definition sample_message :: i2cdata where
  "sample_message = i2cdata_of_bytes (replicate 140 0)"

definition sample_pldm :: pldm_fru where
  "sample_pldm = \<lparr>mI2cMctpRead = Some (mctp_data_of_bytes (replicate 139 0)), mI2cMctpWrite = Some (mctp_data_of_bytes (replicate 139 0)),
     mctp_instanceID = 1, mctp_init = True, mDestEid = 0, mDestNewEid = 0, i2cobj = Some sample_device,
     mI2cPldmRead = Some sample_message, mI2cPldmWrite = Some sample_message, progMutex = True, pldm_instanceID = 1, mProgPercent = 0,
     mFruTableInitialized = False, supportedTypes = 0, totalSupportedTypes = 0, tid = 0,
     versionInfo = replicate 8 \<lparr>ver_type = 0, ver_major = 0, ver_minor = 0, ver_update = 0, ver_alpha = 0\<rparr>,
     fru_dataXferHandle = 0, fru_xferOpFlag = 0,
     mFruTableResponse = \<lparr>fru_completionCode = 0, nextDataXferHandle = 0, xferFlag = 0, fruTableData = replicate 512 0\<rparr>,
     mFruMetadata = \<lparr>fruDataMajorVersion = 0, fruDataMinorVersion = 0, fruTableMaxSize = 0, fruTableLen = 0, totalRecordSetIdentifiers = 0,
       totalNumRecords = 0, checksum = 0\<rparr>,
     mFruTable = zero_table, mFruCurrentDataLength = 0\<rparr>"

lemma sample_mctp_ok: "mctp_ok sample_pldm"
  by (simp add: sample_pldm_def mctp_ok_def mctp_data_of_bytes_def PAYLOAD_SIZE_def sample_device_def)

lemma sample_pldm_ok: "pldm_ok sample_pldm"
  using sample_mctp_ok by (simp add: pldm_ok_def sample_pldm_def sample_message_def PAYLOAD_SIZE_def)

lemma sample_versions: "length (versionInfo sample_pldm) = 8"
  by (simp add: sample_pldm_def)

lemma sample_fru_wf: "fru_wf sample_pldm"
  by (simp add: fru_wf_def part_frames_def sample_pldm_def sample_device_def)

lemmas sample_facts = sample_mctp_ok sample_pldm_ok sample_versions sample_fru_wf

section \<open>Applications\<close>

lemma crc8_detects_witness: "crc8_of [0x31, 0x32] \<noteq> crc8_of [0x31, 0x33]"
  using crc8_detects [of "[]" "0x32" "0x33" "[0x31]"] by simp

lemma mctp_initialize_sequence_witness:
  "returns (mctp_initialize sample_pldm) (\<lambda>(r, m'). \<exists>n\<le>3. \<exists>j>0. sent_cmds sample_pldm (take j (init_cmds n)) m'
    \<and> (r = MCTP_SUCCESS \<longrightarrow> take j (init_cmds n) = init_cmds n))"
  by (rule mctp_initialize_sequence [OF sample_mctp_ok])

lemma getbitposition_lists_bits_witness:
  "returns (getbitposition 0x85 sample_pldm) (\<lambda>(r, p'). r = PLDM_SUCCESS
    \<and> map ver_type (take (unat (totalSupportedTypes p')) (versionInfo p')) = [0, 2, 7])"
proof (rule returns_mono [OF getbitposition_lists_bits [OF sample_versions, of "0x85"]])
  have "filter (bit (0x85 :: u8)) [0..<8] = [0, 2, 7]"
    by code_simp
  then have vals: "map word_of_nat (filter (bit (0x85 :: u8)) [0..<8]) = [0, 2, 7 :: u8]"
    by simp
  show "case x of (r, p') \<Rightarrow> r = PLDM_SUCCESS \<and> map ver_type (take (unat (totalSupportedTypes p')) (versionInfo p')) = [0, 2, 7]"
    if "case x of (r, p') \<Rightarrow> r = PLDM_SUCCESS \<and> length (versionInfo p') = 8 \<and> unat (totalSupportedTypes p') = card {i. i < 8 \<and> bit (0x85 :: u8) i}
      \<and> map ver_type (take (unat (totalSupportedTypes p')) (versionInfo p')) = map word_of_nat (filter (bit (0x85 :: u8)) [0..<8])" for x
  proof (cases x)
    case (Pair r p')
    from that show ?thesis
      unfolding vals Pair prod.case by blast
  qed
qed

lemma discovery_sequence_witness:
  "returns (pldmDiscInitialize sample_pldm) (\<lambda>(r, p'). \<exists>tys. length tys \<le> 8 \<and> (\<exists>k. pldm_sent sample_pldm (take k (disc_commands tys)) p')
    \<and> (r = PLDM_SUCCESS \<longrightarrow> pldm_sent sample_pldm (disc_commands tys) p' \<and> length (versionInfo p') = 8
         \<and> unat (totalSupportedTypes p') = length tys \<and> map ver_type (take (unat (totalSupportedTypes p')) (versionInfo p')) = tys))"
  by (rule discovery_sequence [OF sample_pldm_ok sample_versions])

lemma card_start_witness:
  "returns (pldm_initialize sample_pldm) (\<lambda>(r, p'). pldm_ok p'
    \<and> (r = PLDM_SUCCESS \<longrightarrow> length (versionInfo p') = 8 \<and> unat (totalSupportedTypes p') \<le> 8))"
  by (rule card_start [OF sample_pldm_ok sample_versions])

lemma oem_and_reset_commands_witness:
  "sends sample_pldm [(PLDM_OEM_SPECIFIC, 1)] (\<lambda>_. True) (oemVrsyncCmd 1 sample_pldm)
    \<and> sends sample_pldm [(PLDM_PLATFORM_MONITORING, PLDM_SET_STATE_EFFECTER_STATES)] (\<lambda>_. True) (amcGpuReset sample_pldm)"
  by (rule oem_and_reset_commands [OF sample_pldm_ok])

text \<open>One record with one field: the serial number \<^verbatim>\<open>AB\<close>.\<close>

definition sample_record :: fru_record where
  "sample_record = \<lparr>rec_id = 1, rec_type = FRU_RECORD_TYPE_GENERAL, rec_encoding = 0, rec_fields = [(0x04, [0x41, 0x42])]\<rparr>"

lemma fru_parse_implements_records_witness:
  "parseFruTable 0 ([1, 0, FRU_RECORD_TYPE_GENERAL, 1, 0, 0x04, 2, 0x41, 0x42]) sample_pldm =
    obind (run_records 0 [sample_record] zero_table) (\<lambda>t. Done (PLDM_SUCCESS, sample_pldm\<lparr>mFruTableInitialized := False, mFruTable := t\<rparr>))"
  using fru_parse_implements_records [of "[sample_record]" 0 sample_pldm]
  by (simp add: sample_record_def record_ok_def record_bytes_def field_bytes_def bytes_of_u16_def)

lemma fru_parse_in_bounds_witness:
  "returns (parseFruTable 128 [0, 0, 1, 1, 0, 4, 2, 0x41, 0x42] sample_pldm) (\<lambda>(r, p'). table_ok (mFruTable p'))"
  using fru_parse_in_bounds [of 128 "[0, 0, 1, 1, 0, 4, 2, 0x41, 0x42]" sample_pldm] by simp

lemma fru_utf16_never_ends_witness:
  "parseFruTable 1000 ([0, 0, FRU_RECORD_TYPE_GENERAL, 1, FRU_RECORD_ENCODING_TYPE_UTF16, 4, 255] @ replicate 255 0x41) sample_pldm = Stuck"
  by (rule fru_utf16_never_ends) simp

lemma fru_fetch_safe_witness:
  "safe (pldmFruInitialize 4 sample_pldm) (\<lambda>(r, p'). fru_wf p' \<and> fru_sent sample_pldm p'
    \<and> (r = PLDM_SUCCESS \<longrightarrow> mFruTableInitialized p' \<and> table_ok (mFruTable p')))"
  by (rule fru_fetch_safe [OF sample_pldm_ok sample_fru_wf])

lemma fru_part_overrun_witness:
  "pldmFruResponse PLDM_GET_FRU_RECORD_TABLE 1 sample_pldm = Fault"
  using fru_part_overrun [of sample_pldm sample_message 1]
  by (simp add: sample_pldm_def sample_message_def i2cdata_of_bytes_def mctp_of_bytes_def PLDM_SUCCESS_def)

lemma serial_number_truncated_witness:
  "returns (parseFruField 0 [0x41, 0x42] 0x04 FRU_RECORD_TYPE_GENERAL 0 2 zero_table) (\<lambda>(r, t'). r = PLDM_SUCCESS \<and> cstr (genSerialNum t') = [0x41])"
  using serial_number_truncated [of "[0x41, 0x42]" zero_table 0] table_ok_zero by simp

section \<open>A package\<close>

definition sample_package :: fwPkg where
  "sample_package = \<lparr>
     pkg_hdr = \<lparr>hdr_uuid = replicate 16 0xF0, hdr_revision = 1, hdr_size = 100, rlsDateTime = replicate 13 0, compBitmapLen = 8,
       pkgVerStrType = 1, pkgVerStrLen = 3, pkgVersion = [0x31, 0x2E, 0x30]\<rparr>,
     pkg_records = [\<lparr>recordLen = 24, descCount = 1, devUpdateOptionFlags = 0, compImageSetVerStrType = 1, compImageSetVerStrLen = 1,
       fwDevPkgDataLen = 0, applicableComp = 1, compImageSetVerStr = [0x31],
       recordDesc = [\<lparr>descType = 0, descLength = 2, descData = [0x86, 0x80]\<rparr>]\<rparr>],
     compImageCount = 1,
     compImages = [\<lparr>compClassification = 10, img_id = 1, compComparisionStamp = 7, compOptions = 0, rqstdCompActivMethod = 1,
       compLocOffset = 10, compSize = 40, img_verStrType = 1, img_verStrLen = 2, img_verStr = [0x31, 0x30]\<rparr>],
     pkgInfoSize = 0, pkg_checksum = 0xCAFE, pkg_filePath = []\<rparr>"

lemma sample_package_ok: "pkg_ok sample_package"
  by (simp add: pkg_ok_def sample_package_def hdr_ok_def dev_ok_def desc_ok_def image_ok_def)

lemma package_round_trip_witness:
  "parse_pkg [0x2F] (pkg_bytes sample_package @ [1, 2, 3])
    = Done (Inr (sample_package\<lparr>pkgInfoSize := word_of_nat (length (pkg_bytes sample_package)), pkg_filePath := [0x2F]\<rparr>))"
  using package_round_trip [OF sample_package_ok, of "[0x2F]" "[1, 2, 3]"] by (simp add: FILE_PATH_MAX_def)

lemma descriptor_overrun_witness:
  "parse_descs 0 5 ([9] @ concat (map desc_bytes (replicate 4 \<lparr>descType = 0, descLength = 2, descData = [0x86, 0x80]\<rparr>)) @ []) 1 [] = Fault"
proof -
  have "list_all desc_ok (replicate 4 \<lparr>descType = 0, descLength = 2, descData = [0x86, 0x80]\<rparr>)"
    by (simp add: list_all_iff desc_ok_def)
  from descriptor_overrun [OF this, of 5 "[9]" "[]"] show ?thesis
    by simp
qed

section \<open>An update\<close>

text \<open>An update in progress: the sample package in a file with its image behind it, and a card asking for 16 bytes.\<close>

definition sample_file :: fw_file where
  "sample_file = \<lparr>f_data = pkg_bytes sample_package @ replicate 200 7, f_avail = length (pkg_bytes sample_package) + 200, f_seek_ok = (\<lambda>_. True),
     f_open = True, f_pos = 0\<rparr>"

definition sample_request :: i2cdata where
  "sample_request = \<lparr>pldmSmbusHdr = (pldmSmbusHdr sample_message)\<lparr>mctp_cmdCode := MCTP_CMD_CODE\<rparr>,
     pldmMsgHdr = (pldmMsgHdr sample_message)\<lparr>cmdType := ucast PLDM_FIRMWARE_UPDATE, pldm_cmdCode := REQUEST_FIRMWARE_DATA\<rparr>,
     respPayload = bytes_of_u32 10 @ bytes_of_u32 16 @ replicate 120 0\<rparr>"

definition sample_fwu :: pldm_fwu where
  "sample_fwu = \<lparr>mI2cMctpRead = Some (mctp_data_of_bytes (replicate 139 0)), mI2cMctpWrite = Some (mctp_data_of_bytes (replicate 139 0)),
     mctp_instanceID = 1, mctp_init = True, mDestEid = 0, mDestNewEid = 0, i2cobj = Some sample_device,
     mI2cPldmRead = Some sample_request, mI2cPldmWrite = Some sample_message, progMutex = True, pldm_instanceID = 1, mProgPercent = 0,
     mFruTableInitialized = False, supportedTypes = 0, totalSupportedTypes = 0, tid = 0, versionInfo = versionInfo sample_pldm,
     fru_dataXferHandle = 0, fru_xferOpFlag = 0, mFruTableResponse = mFruTableResponse sample_pldm, mFruMetadata = mFruMetadata sample_pldm,
     mFruTable = zero_table, mFruCurrentDataLength = 0, mFwuCmdLen = 12, mI2cMultiResp = False,
     mReqUpdate = \<lparr>maxTransferSize = 0, numComp = 0, maxOutstandXferReqs = 0, pkgDataLen = 0, compImgSetVerStrType = 0,
       compImgSetVerStrLen = 0, compImgSetVerStr = zero_verStr\<rparr>,
     mPassCompTable = \<lparr>pass_xferFlag = 0, pass_compClass = 0, pass_id = 0, pass_compClassIdx = 0, pass_comparisonStamp = 0,
       pass_verStrType = 0, pass_verStrLen = 0, pass_verStr = zero_verStr\<rparr>,
     mUpdComp = \<lparr>upd_compClass = 0, upd_id = 0, upd_compClassIdx = 0, upd_comparisonStamp = 0, componentimagesize = 0,
       updateoptionflags = 0, upd_verStrType = 0, upd_verStrLen = 0, upd_verStr = zero_verStr\<rparr>,
     mFwuCurrentState = 0, mCompFp = Some sample_file, pkg = Some sample_package, mCurComp = 0\<rparr>"

lemma sample_fwu_ok: "fwu_ok sample_fwu" "comp_ok sample_fwu" "file_ok sample_fwu"
  by (simp_all add: fwu_ok_def comp_ok_def file_ok_def pldm_ok_def mctp_ok_def sample_fwu_def zero_verStr_def mctp_data_of_bytes_def
      PAYLOAD_SIZE_def sample_device_def sample_message_def sample_request_def sample_package_def image_short_def sample_file_def)

lemma sample_data_request: "mI2cPldmRead sample_fwu = Some sample_request" "data_request sample_request 10 16"
  by (simp_all add: sample_fwu_def sample_request_def data_request_def MCTP_CMD_CODE_def PLDM_FIRMWARE_UPDATE_def REQUEST_FIRMWARE_DATA_def)

lemma sample_image: "cur_image sample_fwu = Done (hd (compImages sample_package))"
  by (simp add: cur_image_def sample_fwu_def sample_package_def)

lemmas sample_update = sample_fwu_ok sample_data_request sample_image


lemma firmware_data_answer_witness:
  "returns (answerFD sample_fwu) (\<lambda>(res, p'). res \<in> {None, Some PLDM_ERROR}
    \<and> answered sample_request (fd_reply (image_of (hd (compImages sample_package)) sample_file) 10 16) sample_fwu p')"
  by (rule firmware_data_answer [OF sample_fwu_ok(1) sample_data_request sample_image])
    (simp_all add: sample_fwu_def sample_file_def image_in_file_def sample_package_def)

lemma transfer_loop_safe_witness:
  "safe (readFromFD 9 sample_fwu) (\<lambda>(r, p'). fwu_all sample_fwu p' \<and> (r = PLDM_SUCCESS \<longrightarrow>
    frames_sent p' \<noteq> [] \<and> pldm_frame_id (last (frames_sent p')) = (PLDM_FIRMWARE_UPDATE, APPLY_COMPLETE)))"
  by (rule transfer_loop_safe [OF sample_fwu_ok])

lemma sample_package_short: "package_short [0x2F] sample_file"
  unfolding package_short_def sample_file_def by code_simp


definition deaf_fwu :: pldm_fwu where
  "deaf_fwu = sample_fwu\<lparr>i2cobj := Some (sample_device\<lparr>i2c_tx_ok := \<lambda>_. False\<rparr>)\<rparr>"


definition unseekable_fwu :: pldm_fwu where
  "unseekable_fwu = sample_fwu\<lparr>mCompFp := Some (sample_file\<lparr>f_seek_ok := \<lambda>_. False\<rparr>)\<rparr>"

lemma seek_failure_closes_twice_witness:
  "\<exists>p'. answerFD unseekable_fwu = Done (Some PLDM_ERROR, p') \<and> obind (send_cancel 9 p') close_fp = Fault"
  using sample_update
  by (intro seek_failure_closes_twice [of _ sample_request 10 16 "hd (compImages sample_package)" "sample_file\<lparr>f_seek_ok := \<lambda>_. False\<rparr>"])
    (simp_all add: unseekable_fwu_def sample_file_def fwu_ok_def cur_image_def sample_package_def cong: if_cong)

end
