(* ===== verification/Amc_Platform.thy ===== *)
theory Amc_Platform
  imports Amc_Fwupdate
begin

text \<open>
  Platform monitoring over PLDM (\<^verbatim>\<open>pldm_platform.cpp\<close>, \<^verbatim>\<open>pldm_pdr_manager.cpp\<close>): fetching the descriptor
  records (PDRs) of a card part by part, the lists of sensors by unit, and sensor readings.

  Floating-point numbers: a \<^verbatim>\<open>float\<close> of a record is its 32-bit pattern; the arithmetic of a reading is done
  with the operations of a record \<open>fpu\<close>, an argument of the definitions that compute.
\<close>

section \<open>Data\<close>

definition PLDM_GET_SENSOR_READING :: u8 where "PLDM_GET_SENSOR_READING = 0x11"
definition PLDM_GET_PDR_REPOSITORY_INFO :: u8 where "PLDM_GET_PDR_REPOSITORY_INFO = 0x50"
definition PLDM_GET_PDR :: u8 where "PLDM_GET_PDR = 0x51"

lemmas pf_cmds = PLDM_GET_SENSOR_READING_def PLDM_GET_PDR_REPOSITORY_INFO_def PLDM_GET_PDR_def

definition PLDM_PDR_REPO_AVAILABLE :: u8 where "PLDM_PDR_REPO_AVAILABLE = 0x00"
definition PLDM_NUMERIC_SENSOR_PDR :: u8 where "PLDM_NUMERIC_SENSOR_PDR = 2"
definition PLDM_FILE_DESCRIPTOR_PDR :: u8 where "PLDM_FILE_DESCRIPTOR_PDR = 30"

datatype pldmSensorDataSize =
    PLDM_SENSOR_DATA_SIZE_UINT8 | PLDM_SENSOR_DATA_SIZE_SINT8 | PLDM_SENSOR_DATA_SIZE_UINT16
  | PLDM_SENSOR_DATA_SIZE_SINT16 | PLDM_SENSOR_DATA_SIZE_UINT32 | PLDM_SENSOR_DATA_SIZE_SINT32

definition data_size :: "u8 \<Rightarrow> pldmSensorDataSize option" where
  "data_size n =
     (if n = 0 then Some PLDM_SENSOR_DATA_SIZE_UINT8 else if n = 1 then Some PLDM_SENSOR_DATA_SIZE_SINT8
      else if n = 2 then Some PLDM_SENSOR_DATA_SIZE_UINT16 else if n = 3 then Some PLDM_SENSOR_DATA_SIZE_SINT16
      else if n = 4 then Some PLDM_SENSOR_DATA_SIZE_UINT32 else if n = 5 then Some PLDM_SENSOR_DATA_SIZE_SINT32
      else None)"

datatype sensorUnits =
    PLDM_UNIT_UNSPECIFIED | PLDM_UNIT_DEGREES_C | PLDM_UNIT_VOLTS | PLDM_UNIT_CURRENT_AMPS | PLDM_UNIT_WATTS
  | PLDM_UNIT_JOULES | PLDM_UNIT_COULOMBS

fun unit_code :: "sensorUnits \<Rightarrow> u8" where
  "unit_code PLDM_UNIT_UNSPECIFIED = 0x01"
| "unit_code PLDM_UNIT_DEGREES_C = 0x02"
| "unit_code PLDM_UNIT_VOLTS = 0x05"
| "unit_code PLDM_UNIT_CURRENT_AMPS = 0x06"
| "unit_code PLDM_UNIT_WATTS = 0x07"
| "unit_code PLDM_UNIT_JOULES = 0x08"
| "unit_code PLDM_UNIT_COULOMBS = 0x09"

text \<open>The two timestamps of the repository are kept as their thirteen bytes.\<close>

record pdrRepositoryInfoResp =
  repo_completionCode :: u8
  repositoryState :: u8
  updateTime :: "u8 list"
  oemUpdateTime :: "u8 list"
  recordCount :: u32
  repositorySize :: u32
  largestRecordSize :: u32
  dataTransferHandleTimeout :: u8

record pdrReqPayload =
  req_recordHandle :: u32
  req_dataTransferHandle :: u32
  transferOpFlag :: u8
  requestCount :: u16
  req_recordChangeNumber :: u16

record pdrRespPayload =
  pdr_completionCode :: u8
  nextRecordHandle :: u32
  pdr_nextDataTransferHandle :: u32
  pdr_transferFlag :: u8
  responseCount :: u16

record pdrPayloadHeader =
  recordHandle :: u32
  pdr_version :: u8
  pdr_type :: u8
  recordChangeNumber :: u16
  pdr_dataLength :: u16

record PdrRecord =
  pdr_data :: "u8 list"
  pdr_header :: pdrPayloadHeader

text \<open>A pointer to a record is its position in \<open>mPdrs\<close>.\<close>

record PdrManager =
  mPdrs :: "PdrRecord list"
  mCurrentPdr :: PdrRecord
  mTempSensors :: "nat list"
  mVoltageSensors :: "nat list"
  mCurrentSensors :: "nat list"
  mPowerSensors :: "nat list"

record pldmGetSensorReadingReq =
  rd_sensorId :: u16
  rearmEventState :: u8

record pldmGetSensorReadingResp =
  rd_completionCode :: u8
  rd_sensorDataSize :: u8
  sensorOperationalState :: u8
  sensorEventMessageEnable :: u8
  presentState :: u8
  previousState :: u8
  eventState :: u8

text \<open>The union of a reading is its four bytes.\<close>

record sensorReadingValue =
  sensorDataSize :: u8
  value_bytes :: "u8 list"

record 'd pldmSensorInfo =
  info_sensorId :: u16
  entityType :: u16
  entityInstanceNum :: u16
  containerId :: u16
  reading :: 'd

record 'd fpu =
  double_of_int :: "int \<Rightarrow> 'd"
  double_of_float :: "u32 \<Rightarrow> 'd"
  double_mult :: "'d \<Rightarrow> 'd \<Rightarrow> 'd"
  double_plus :: "'d \<Rightarrow> 'd \<Rightarrow> 'd"
  double_pow10 :: "int \<Rightarrow> 'd"

record 'd pldm_pf = pldm_fwu +
  mPdrManager :: PdrManager
  pfPdrRepoInfo :: pdrRepositoryInfoResp
  pfPdrReq :: pdrReqPayload
  pfPdrResp :: pdrRespPayload
  pfSensorReadingReq :: pldmGetSensorReadingReq
  pfSensorReadingResp :: pldmGetSensorReadingResp
  mSensorReading :: sensorReadingValue
  mSensorInfoList :: "'d pldmSensorInfo list"

section \<open>The record manager\<close>

definition PdrManager_clear :: "PdrManager \<Rightarrow> PdrManager" where
  "PdrManager_clear m = m\<lparr>mPdrs := [], mCurrentPdr := (mCurrentPdr m)\<lparr>pdr_data := []\<rparr>, mTempSensors := [],
     mVoltageSensors := [], mCurrentSensors := [], mPowerSensors := []\<rparr>"

definition appendPdrData :: "u8 list \<Rightarrow> PdrManager \<Rightarrow> PdrManager" where
  "appendPdrData bs m = m\<lparr>mCurrentPdr := (mCurrentPdr m)\<lparr>pdr_data := pdr_data (mCurrentPdr m) @ bs\<rparr>\<rparr>"

definition sizeof_pdrPayloadHeader :: nat where "sizeof_pdrPayloadHeader = 10"

definition pdr_header_of :: "u8 list \<Rightarrow> pdrPayloadHeader" where
  "pdr_header_of b = \<lparr>recordHandle = le32 (b ! 0) (b ! 1) (b ! 2) (b ! 3), pdr_version = b ! 4, pdr_type = b ! 5,
     recordChangeNumber = le16 (b ! 6) (b ! 7), pdr_dataLength = le16 (b ! 8) (b ! 9)\<rparr>"

definition finishPdrRecord :: "PdrManager \<Rightarrow> PdrManager" where
  "finishPdrRecord m =
     (let c = mCurrentPdr m;
          m = (if sizeof_pdrPayloadHeader \<le> length (pdr_data c)
               then (let c = c\<lparr>pdr_header := pdr_header_of (pdr_data c)\<rparr> in m\<lparr>mCurrentPdr := c, mPdrs := mPdrs m @ [c]\<rparr>)
               else m)
      in m\<lparr>mCurrentPdr := (mCurrentPdr m)\<lparr>pdr_data := []\<rparr>\<rparr>)"

fun getSensorRecords :: "PdrManager \<Rightarrow> sensorUnits \<Rightarrow> nat list" where
  "getSensorRecords m PLDM_UNIT_DEGREES_C = mTempSensors m"
| "getSensorRecords m PLDM_UNIT_VOLTS = mVoltageSensors m"
| "getSensorRecords m PLDM_UNIT_CURRENT_AMPS = mCurrentSensors m"
| "getSensorRecords m PLDM_UNIT_WATTS = mPowerSensors m"
| "getSensorRecords m _ = []"

text \<open>The layout of \<^verbatim>\<open>pldmNumericSensorValuePdr\<close>: its size, and the offsets of the fields the code reads.\<close>

definition sizeof_pldmNumericSensorValuePdr :: nat where "sizeof_pldmNumericSensorValuePdr = 105"
definition off_sensorId :: nat where "off_sensorId = 12"
definition off_baseUnit :: nat where "off_baseUnit = 22"
definition off_unitModifier :: nat where "off_unitModifier = 23"
definition off_resolution :: nat where "off_resolution = 33"
definition off_offset :: nat where "off_offset = 37"

lemmas sensor_layout = sizeof_pldmNumericSensorValuePdr_def off_sensorId_def off_baseUnit_def off_unitModifier_def
  off_resolution_def off_offset_def

primrec cache_loop :: "PdrRecord list \<Rightarrow> nat \<Rightarrow> PdrManager \<Rightarrow> PdrManager outcome" where
  "cache_loop [] i m = Done m"
| "cache_loop (r # rs) i m =
     (if pdr_type (pdr_header r) \<noteq> PLDM_NUMERIC_SENSOR_PDR then cache_loop rs (Suc i) m
      else if length (pdr_data r) < sizeof_pldmNumericSensorValuePdr then cache_loop rs (Suc i) m
      else obind (get_byte (pdr_data r) off_baseUnit) (\<lambda>u.
        cache_loop rs (Suc i)
          (if u = unit_code PLDM_UNIT_DEGREES_C then m\<lparr>mTempSensors := mTempSensors m @ [i]\<rparr>
           else if u = unit_code PLDM_UNIT_VOLTS then m\<lparr>mVoltageSensors := mVoltageSensors m @ [i]\<rparr>
           else if u = unit_code PLDM_UNIT_CURRENT_AMPS then m\<lparr>mCurrentSensors := mCurrentSensors m @ [i]\<rparr>
           else if u = unit_code PLDM_UNIT_WATTS then m\<lparr>mPowerSensors := mPowerSensors m @ [i]\<rparr>
           else m)))"

definition buildSensorCache :: "PdrManager \<Rightarrow> PdrManager outcome" where
  "buildSensorCache m =
     cache_loop (mPdrs m) 0 (m\<lparr>mTempSensors := [], mVoltageSensors := [], mCurrentSensors := [], mPowerSensors := []\<rparr>)"

text \<open>The integer of a reading: the bytes of the union it occupies, little-endian, signed or not.\<close>

fun raw_reading :: "pldmSensorDataSize \<Rightarrow> u8 list \<Rightarrow> int" where
  "raw_reading PLDM_SENSOR_DATA_SIZE_UINT8 b = uint (b ! 0)"
| "raw_reading PLDM_SENSOR_DATA_SIZE_SINT8 b = sint (b ! 0)"
| "raw_reading PLDM_SENSOR_DATA_SIZE_UINT16 b = uint (le16 (b ! 0) (b ! 1))"
| "raw_reading PLDM_SENSOR_DATA_SIZE_SINT16 b = sint (le16 (b ! 0) (b ! 1))"
| "raw_reading PLDM_SENSOR_DATA_SIZE_UINT32 b = uint (le32 (b ! 0) (b ! 1) (b ! 2) (b ! 3))"
| "raw_reading PLDM_SENSOR_DATA_SIZE_SINT32 b = sint (le32 (b ! 0) (b ! 1) (b ! 2) (b ! 3))"

definition convertReading :: "'d fpu \<Rightarrow> u8 list option \<Rightarrow> sensorReadingValue \<Rightarrow> 'd option outcome" where
  "convertReading F sensor v =
     (case sensor of None \<Rightarrow> Done None
      | Some s \<Rightarrow>
          obind (get_u32 s off_resolution) (\<lambda>resolution. obind (get_u32 s off_offset) (\<lambda>off.
          obind (get_byte s off_unitModifier) (\<lambda>unitModifier.
            Done (case data_size (sensorDataSize v) of None \<Rightarrow> None
              | Some n \<Rightarrow> Some (double_mult F
                  (double_plus F (double_mult F (double_of_int F (raw_reading n (value_bytes v))) (double_of_float F resolution))
                    (double_of_float F off))
                  (double_pow10 F (sint unitModifier))))))))"

section \<open>Requests and responses\<close>

definition pdr_req_bytes :: "pdrReqPayload \<Rightarrow> u8 list" where
  "pdr_req_bytes r = bytes_of_u32 (req_recordHandle r) @ bytes_of_u32 (req_dataTransferHandle r) @ [transferOpFlag r]
     @ bytes_of_u16 (requestCount r) @ bytes_of_u16 (req_recordChangeNumber r)"

definition pfFillPayload :: "u8 \<Rightarrow> nat \<Rightarrow> ('d, 'a) pldm_pf_scheme \<Rightarrow> (u8 \<times> ('d, 'a) pldm_pf_scheme) outcome" where
  "pfFillPayload cmd sz p =
     obind (fill_payload (\<lambda>q. clear_payload q sz) p) (\<lambda>p.
       if cmd = PLDM_GET_PDR_REPOSITORY_INFO then
         obind (fill_payload (\<lambda>q. put_crc q 0 (sz - 1)) p) (\<lambda>p. Done (PLDM_SUCCESS, p))
       else if cmd = PLDM_GET_PDR then
         obind (fill_payload (\<lambda>q. obind (put_bytes q 0 (pdr_req_bytes (pfPdrReq p))) (\<lambda>q. put_crc q 13 (13 - 1))) p) (\<lambda>p.
           Done (PLDM_SUCCESS, p))
       else if cmd = PLDM_GET_SENSOR_READING then
         obind (fill_payload (\<lambda>q. obind (put_bytes q 0 (bytes_of_u16 (rd_sensorId (pfSensorReadingReq p))
             @ [rearmEventState (pfSensorReadingReq p)])) (\<lambda>q. put_crc q 3 (3 - 1))) p) (\<lambda>p. Done (PLDM_SUCCESS, p))
       else Done (PLDM_ERROR, p))"

definition repo_of_bytes :: "u8 list \<Rightarrow> pdrRepositoryInfoResp" where
  "repo_of_bytes b = \<lparr>repo_completionCode = b ! 0, repositoryState = b ! 1, updateTime = take 13 (drop 2 b),
     oemUpdateTime = take 13 (drop 15 b), recordCount = le32 (b ! 28) (b ! 29) (b ! 30) (b ! 31),
     repositorySize = le32 (b ! 32) (b ! 33) (b ! 34) (b ! 35), largestRecordSize = le32 (b ! 36) (b ! 37) (b ! 38) (b ! 39),
     dataTransferHandleTimeout = b ! 40\<rparr>"

definition pfPdrRepoRespPayload :: "('d, 'a) pldm_pf_scheme \<Rightarrow> (u8 \<times> ('d, 'a) pldm_pf_scheme) outcome" where
  "pfPdrRepoRespPayload p =
     obind (the_ptr (mI2cPldmRead p)) (\<lambda>rd. let q = respPayload rd in obind (get_byte q 0) (\<lambda>code.
       if code \<noteq> PLDM_SUCCESS then Done (PLDM_ERROR, p)
       else obind (get_bytes q 0 41) (\<lambda>b. let info = repo_of_bytes b; p = p\<lparr>pfPdrRepoInfo := info\<rparr> in
         if repositorySize info = 0 \<or> recordCount info = 0 then Done (PLDM_ERROR, p)
         else if repositoryState info \<noteq> PLDM_PDR_REPO_AVAILABLE then Done (PLDM_ERROR, p)
         else Done (PLDM_SUCCESS, p))))"

definition pfPdrRespPayload :: "('d, 'a) pldm_pf_scheme \<Rightarrow> (u8 \<times> ('d, 'a) pldm_pf_scheme) outcome" where
  "pfPdrRespPayload p =
     obind (the_ptr (mI2cPldmRead p)) (\<lambda>rd. let q = respPayload rd in obind (get_byte q 0) (\<lambda>code.
       if code \<noteq> PLDM_SUCCESS then Done (PLDM_ERROR, p)
       else obind (get_u32 q 1) (\<lambda>nextRecord. obind (get_u32 q 5) (\<lambda>nextTransfer. obind (get_byte q 9) (\<lambda>flag.
         obind (get_u16 q 10) (\<lambda>count.
         let p = p\<lparr>pfPdrResp := \<lparr>pdr_completionCode = code, nextRecordHandle = nextRecord, pdr_nextDataTransferHandle = nextTransfer,
               pdr_transferFlag = flag, responseCount = count\<rparr>\<rparr> in
         obind (get_bytes q 12 (unat count)) (\<lambda>bs.
           Done (PLDM_SUCCESS, p\<lparr>mPdrManager := appendPdrData bs (mPdrManager p)\<rparr>))))))))"

text \<open>The number of bytes of a reading.\<close>

fun reading_width :: "pldmSensorDataSize \<Rightarrow> nat" where
  "reading_width PLDM_SENSOR_DATA_SIZE_UINT8 = 1"
| "reading_width PLDM_SENSOR_DATA_SIZE_SINT8 = 1"
| "reading_width PLDM_SENSOR_DATA_SIZE_UINT16 = 2"
| "reading_width PLDM_SENSOR_DATA_SIZE_SINT16 = 2"
| "reading_width PLDM_SENSOR_DATA_SIZE_UINT32 = 4"
| "reading_width PLDM_SENSOR_DATA_SIZE_SINT32 = 4"

definition pfSensorReadingRespPayload :: "('d, 'a) pldm_pf_scheme \<Rightarrow> (u8 \<times> ('d, 'a) pldm_pf_scheme) outcome" where
  "pfSensorReadingRespPayload p =
     obind (the_ptr (mI2cPldmRead p)) (\<lambda>rd. let q = respPayload rd in obind (get_byte q 0) (\<lambda>code.
       if code \<noteq> PLDM_SUCCESS then Done (PLDM_ERROR, p)
       else obind (get_bytes q 0 7) (\<lambda>b.
         let p = p\<lparr>pfSensorReadingResp := \<lparr>rd_completionCode = b ! 0, rd_sensorDataSize = b ! 1, sensorOperationalState = b ! 2,
               sensorEventMessageEnable = b ! 3, presentState = b ! 4, previousState = b ! 5, eventState = b ! 6\<rparr>,
               mSensorReading := (mSensorReading p)\<lparr>sensorDataSize := b ! 1\<rparr>\<rparr> in
         case data_size (b ! 1) of None \<Rightarrow> Done (PLDM_ERROR, p)
         | Some n \<Rightarrow>
             obind (get_bytes q 7 (reading_width n)) (\<lambda>bs. obind (put_bytes (value_bytes (mSensorReading p)) 0 bs) (\<lambda>v.
               Done (PLDM_SUCCESS, p\<lparr>mSensorReading := (mSensorReading p)\<lparr>value_bytes := v\<rparr>\<rparr>))))))"

definition processPlatformResponse :: "u8 \<Rightarrow> u8 \<Rightarrow> ('d, 'a) pldm_pf_scheme \<Rightarrow> (u8 \<times> ('d, 'a) pldm_pf_scheme) outcome" where
  "processPlatformResponse cmd ident p =
     (if cmd = PLDM_GET_PDR_REPOSITORY_INFO then pfPdrRepoRespPayload p
      else if cmd = PLDM_GET_PDR then pfPdrRespPayload p
      else if cmd = PLDM_GET_SENSOR_READING then pfSensorReadingRespPayload p
      else Done (PLDM_ERROR, p))"

section \<open>A command\<close>

text \<open>After a response: \<open>Some\<close> is the result of the command, \<open>None\<close> another round for the next part.\<close>

definition pf_next :: "u8 \<Rightarrow> ('d, 'a) pldm_pf_scheme \<Rightarrow> u8 option \<times> ('d, 'a) pldm_pf_scheme" where
  "pf_next cmd p =
     (if cmd = PLDM_GET_PDR then
        (let r = pfPdrResp p;
             p = p\<lparr>pfPdrReq := (pfPdrReq p)\<lparr>req_recordHandle := nextRecordHandle r, req_dataTransferHandle := pdr_nextDataTransferHandle r\<rparr>\<rparr> in
         if pdr_transferFlag r = PLDM_END \<or> pdr_transferFlag r = PLDM_START_AND_END then
           (Some PLDM_SUCCESS, p\<lparr>mPdrManager := finishPdrRecord (mPdrManager p),
              pfPdrReq := (pfPdrReq p)\<lparr>transferOpFlag := PLDM_GET_FIRSTPART, req_dataTransferHandle := 0\<rparr>\<rparr>)
         else (None, p\<lparr>pfPdrReq := (pfPdrReq p)\<lparr>transferOpFlag := PLDM_GET_NEXTPART\<rparr>\<rparr>))
      else (Some PLDM_SUCCESS, p))"

definition pf_round :: "u8 \<Rightarrow> u8 \<Rightarrow> ('d, 'a) pldm_pf_scheme \<Rightarrow> (u8 option \<times> ('d, 'a) pldm_pf_scheme) outcome" where
  "pf_round cmd sz p =
     (let p = next_instance p in
      obind (the_ptr (mI2cPldmWrite p)) (\<lambda>wr.
      let (ret, h) = pldmHdrConstruction (Some (pldmMsgHdr wr)) (pldm_instanceID p) PLDM_PLATFORM_MONITORING cmd 0 1;
          p = p\<lparr>mI2cPldmWrite := Some (wr\<lparr>pldmMsgHdr := the h\<rparr>)\<rparr> in
      if ret \<noteq> PLDM_SUCCESS then Done (Some PLDM_ERROR, p)
      else obind (pfFillPayload cmd (unat sz) p) (\<lambda>(ret, p).
        if ret \<noteq> PLDM_SUCCESS then Done (Some PLDM_ERROR, p)
        else obind (pldm_send sz p) (\<lambda>(ok, p).
          if \<not> ok then Done (Some PLDM_ERROR, p)
          else obind (pldm_receive p) (\<lambda>(ok, p).
            if \<not> ok then Done (Some PLDM_ERROR, p)
            else obind (processPlatformResponse cmd (pldm_instanceID p) p) (\<lambda>(ret, p).
              if ret \<noteq> PLDM_SUCCESS then Done (Some PLDM_ERROR, p)
              else Done (pf_next cmd (p\<lparr>pldm_instanceID := pldm_instanceID p + 1\<rparr>))))))))"

primrec pf_loop :: "nat \<Rightarrow> u8 \<Rightarrow> u8 \<Rightarrow> ('d, 'a) pldm_pf_scheme \<Rightarrow> (u8 \<times> ('d, 'a) pldm_pf_scheme) outcome" where
  "pf_loop 0 cmd sz p = Stuck"
| "pf_loop (Suc k) cmd sz p = obind (pf_round cmd sz p) (\<lambda>(res, p). case res of Some ret \<Rightarrow> Done (ret, p) | None \<Rightarrow> pf_loop k cmd sz p)"

definition pf_header :: "u8 \<Rightarrow> ('d, 'a) pldm_pf_scheme \<Rightarrow> ('d, 'a) pldm_pf_scheme outcome" where
  "pf_header sz p = obind (the_ptr (mI2cPldmWrite p)) (\<lambda>wr.
     Done (p\<lparr>mI2cPldmWrite := Some (wr\<lparr>pldmSmbusHdr := (commandConstruction p (pldmSmbusHdr wr) 1 1 0 (sz - 3) 0)\<lparr>msgType := PLDM_OVER_MCTP\<rparr>\<rparr>)\<rparr>))"

definition pfMonCtrlCmd :: "nat \<Rightarrow> u8 \<Rightarrow> u8 \<Rightarrow> ('d, 'a) pldm_pf_scheme \<Rightarrow> (u8 \<times> ('d, 'a) pldm_pf_scheme) outcome" where
  "pfMonCtrlCmd rounds cmd sz p = obind (pf_header sz p) (pf_loop rounds cmd sz)"

section \<open>Fetching the records\<close>

definition pfGetPdrRepositoryInfo :: "nat \<Rightarrow> ('d, 'a) pldm_pf_scheme \<Rightarrow> (u8 \<times> ('d, 'a) pldm_pf_scheme) outcome" where
  "pfGetPdrRepositoryInfo rounds p = obind (pfMonCtrlCmd rounds PLDM_GET_PDR_REPOSITORY_INFO 12 p) (\<lambda>(ret, p).
     if ret \<noteq> 0 then Done (PLDM_ERROR, p) else Done (PLDM_SUCCESS, p))"

primrec pdrs_loop :: "nat \<Rightarrow> nat \<Rightarrow> ('d, 'a) pldm_pf_scheme \<Rightarrow> (u8 \<times> ('d, 'a) pldm_pf_scheme) outcome" where
  "pdrs_loop rounds 0 p = Done (PLDM_SUCCESS, p)"
| "pdrs_loop rounds (Suc n) p = obind (pfMonCtrlCmd rounds PLDM_GET_PDR 25 p) (\<lambda>(ret, p).
     if ret \<noteq> PLDM_SUCCESS then Done (PLDM_ERROR, p) else pdrs_loop rounds n p)"

definition pfGetTotalPdrs :: "nat \<Rightarrow> ('d, 'a) pldm_pf_scheme \<Rightarrow> (u8 \<times> ('d, 'a) pldm_pf_scheme) outcome" where
  "pfGetTotalPdrs rounds p =
     pdrs_loop rounds (unat (recordCount (pfPdrRepoInfo p)))
       (p\<lparr>mPdrManager := PdrManager_clear (mPdrManager p),
          pfPdrReq := \<lparr>req_recordHandle = 0, req_dataTransferHandle = 0, transferOpFlag = PLDM_GET_FIRSTPART,
            requestCount = ucast (largestRecordSize (pfPdrRepoInfo p)), req_recordChangeNumber = 0\<rparr>\<rparr>)"

definition pfMonCtrlInitialize :: "nat \<Rightarrow> ('d, 'a) pldm_pf_scheme \<Rightarrow> (u8 \<times> ('d, 'a) pldm_pf_scheme) outcome" where
  "pfMonCtrlInitialize rounds p =
     obind (pfGetPdrRepositoryInfo rounds p) (\<lambda>(ret, p).
       if ret \<noteq> PLDM_SUCCESS then Done (PLDM_ERROR, p)
       else obind (pfGetTotalPdrs rounds p) (\<lambda>(ret, p).
         if ret \<noteq> PLDM_SUCCESS then Done (PLDM_ERROR, p) else Done (PLDM_SUCCESS, p)))"

section \<open>Sensor readings\<close>

text \<open>A sensor is the data of its record.\<close>

definition pfGetSensorValue :: "'d fpu \<Rightarrow> nat \<Rightarrow> u8 list \<Rightarrow> ('d, 'a) pldm_pf_scheme \<Rightarrow> (u8 \<times> ('d, 'a) pldm_pf_scheme) outcome" where
  "pfGetSensorValue F rounds sensor p =
     obind (get_u16 sensor off_sensorId) (\<lambda>sensorId.
     obind (pfMonCtrlCmd rounds PLDM_GET_SENSOR_READING 15
         (p\<lparr>pfSensorReadingReq := \<lparr>rd_sensorId = sensorId, rearmEventState = 0\<rparr>\<rparr>)) (\<lambda>(ret, p).
       if ret \<noteq> 0 then Done (PLDM_ERROR, p)
       else obind (convertReading F (Some sensor) (mSensorReading p)) (\<lambda>optValue. case optValue of None \<Rightarrow> Done (PLDM_ERROR, p)
         | Some value \<Rightarrow>
             obind (get_u16 sensor 14) (\<lambda>ety. obind (get_u16 sensor 16) (\<lambda>inst. obind (get_u16 sensor 18) (\<lambda>cont.
               Done (PLDM_SUCCESS, p\<lparr>mSensorInfoList := mSensorInfoList p @
                 [\<lparr>info_sensorId = sensorId, entityType = ety, entityInstanceNum = inst, containerId = cont, reading = value\<rparr>]\<rparr>)))))))"

primrec sensor_by_id :: "'d fpu \<Rightarrow> nat \<Rightarrow> u16 \<Rightarrow> PdrRecord list \<Rightarrow> ('d, 'a) pldm_pf_scheme \<Rightarrow> (u8 \<times> ('d, 'a) pldm_pf_scheme) outcome" where
  "sensor_by_id F rounds sensorId [] p = Done (PLDM_ERROR, p)"
| "sensor_by_id F rounds sensorId (r # rs) p =
     obind (get_u16 (pdr_data r) off_sensorId) (\<lambda>s.
       if s \<noteq> sensorId then sensor_by_id F rounds sensorId rs p else pfGetSensorValue F rounds (pdr_data r) p)"

definition pfGetSensorValuesById :: "'d fpu \<Rightarrow> nat \<Rightarrow> u16 \<Rightarrow> ('d, 'a) pldm_pf_scheme \<Rightarrow> (u8 \<times> ('d, 'a) pldm_pf_scheme) outcome" where
  "pfGetSensorValuesById F rounds sensorId p = sensor_by_id F rounds sensorId (mPdrs (mPdrManager p)) p"

primrec sensors_loop :: "'d fpu \<Rightarrow> nat \<Rightarrow> nat list \<Rightarrow> ('d, 'a) pldm_pf_scheme \<Rightarrow> (u8 \<times> ('d, 'a) pldm_pf_scheme) outcome" where
  "sensors_loop F rounds [] p = Done (PLDM_SUCCESS, p)"
| "sensors_loop F rounds (i # is) p =
     (if i < length (mPdrs (mPdrManager p)) then
        obind (pfGetSensorValue F rounds (pdr_data (mPdrs (mPdrManager p) ! i)) p) (\<lambda>(_, p). sensors_loop F rounds is p)
      else Fault)"

definition pfGetSensorValuesByUnit :: "'d fpu \<Rightarrow> nat \<Rightarrow> sensorUnits \<Rightarrow> ('d, 'a) pldm_pf_scheme \<Rightarrow> (u8 \<times> ('d, 'a) pldm_pf_scheme) outcome" where
  "pfGetSensorValuesByUnit F rounds u p =
     (let sensorRecords = getSensorRecords (mPdrManager p) u in
      if sensorRecords = [] then Done (PLDM_ERROR, p) else sensors_loop F rounds sensorRecords p)"

definition getSensorInfoById :: "'d fpu \<Rightarrow> nat \<Rightarrow> u16 \<Rightarrow> ('d, 'a) pldm_pf_scheme \<Rightarrow> (u8 \<times> ('d, 'a) pldm_pf_scheme) outcome" where
  "getSensorInfoById F rounds sensorId p =
     obind (pfMonCtrlInitialize rounds p) (\<lambda>(ret, p).
       if ret \<noteq> PLDM_SUCCESS then Done (PLDM_ERROR, p)
       else obind (pfGetSensorValuesById F rounds sensorId p) (\<lambda>(ret, p).
         if ret \<noteq> PLDM_SUCCESS then Done (PLDM_ERROR, p) else Done (PLDM_SUCCESS, p)))"

definition getSensorInfoByUnit :: "'d fpu \<Rightarrow> nat \<Rightarrow> sensorUnits \<Rightarrow> ('d, 'a) pldm_pf_scheme \<Rightarrow> (u8 \<times> ('d, 'a) pldm_pf_scheme) outcome" where
  "getSensorInfoByUnit F rounds u p =
     obind (pfMonCtrlInitialize rounds p) (\<lambda>(ret, p).
       if ret \<noteq> PLDM_SUCCESS then Done (PLDM_ERROR, p)
       else obind (buildSensorCache (mPdrManager p)) (\<lambda>m.
         obind (pfGetSensorValuesByUnit F rounds u (p\<lparr>mPdrManager := m\<rparr>)) (\<lambda>(ret, p).
           if ret \<noteq> PLDM_SUCCESS then Done (PLDM_ERROR, p) else Done (PLDM_SUCCESS, p))))"

end
