(* ===== verification/Amc_Pdr.thy ===== *)
theory Amc_Pdr
  imports Amc_Platform
begin

text \<open>
  What platform monitoring does: the records of a card are assembled from its parts, the sensor lists hold
  exactly the numeric sensors of their unit, a reading is converted by its formula; and where the code trusts
  the card: the size of a part, and the kind of the record a sensor number is looked up in.
\<close>

section \<open>The lists of sensors\<close>

definition numeric_sensor :: "PdrRecord \<Rightarrow> bool" where
  "numeric_sensor r = (pdr_type (pdr_header r) = PLDM_NUMERIC_SENSOR_PDR \<and> sizeof_pldmNumericSensorValuePdr \<le> length (pdr_data r))"

definition sensors_of :: "sensorUnits \<Rightarrow> nat \<Rightarrow> PdrRecord list \<Rightarrow> nat list" where
  "sensors_of u i rs = filter (\<lambda>j. numeric_sensor (rs ! (j - i)) \<and> pdr_data (rs ! (j - i)) ! off_baseUnit = unit_code u) [i..<i + length rs]"

lemma sensors_of_Nil [simp]: "sensors_of u i [] = []"
  by (simp add: sensors_of_def)

lemma sensors_of_Cons:
  "sensors_of u i (r # rs) = (if numeric_sensor r \<and> pdr_data r ! off_baseUnit = unit_code u then [i] else []) @ sensors_of u (Suc i) rs"
proof -
  have "[i..<i + length (r # rs)] = i # [Suc i..<Suc i + length rs]"
    by (simp add: upt_conv_Cons del: upt_Suc)
  moreover have "(r # rs) ! (j - i) = rs ! (j - Suc i)" if "j \<in> set [Suc i..<Suc i + length rs]" for j
    using that by (cases "j - i") (auto simp: nth_Cons' diff_Suc split: nat.splits)
  then have "filter (\<lambda>j. numeric_sensor ((r # rs) ! (j - i)) \<and> pdr_data ((r # rs) ! (j - i)) ! off_baseUnit = unit_code u) [Suc i..<Suc i + length rs]
      = sensors_of u (Suc i) rs"
    unfolding sensors_of_def by (intro filter_cong) simp_all
  ultimately show ?thesis
    by (simp add: sensors_of_def)
qed

definition cached_units :: "sensorUnits set" where
  "cached_units = {PLDM_UNIT_DEGREES_C, PLDM_UNIT_VOLTS, PLDM_UNIT_CURRENT_AMPS, PLDM_UNIT_WATTS}"

lemma cached_unit_cases:
  "u \<notin> cached_units \<Longrightarrow> getSensorRecords m u = []"
  by (cases u) (simp_all add: cached_units_def)

lemma cache_loop_correct:
  "\<exists>m'. cache_loop rs i m = Done m' \<and> mPdrs m' = mPdrs m \<and> mCurrentPdr m' = mCurrentPdr m
     \<and> (\<forall>u\<in>cached_units. getSensorRecords m' u = getSensorRecords m u @ sensors_of u i rs)"
proof (induction rs arbitrary: i m)
  case (Cons r rs)
  show ?case
  proof (cases "numeric_sensor r")
    case False
    then show ?thesis
      using Cons.IH [of "Suc i" m] by (auto simp: numeric_sensor_def sensors_of_Cons)
  next
    case True
    then have g: "get_byte (pdr_data r) off_baseUnit = Done (pdr_data r ! off_baseUnit)"
      by (simp add: numeric_sensor_def sensor_layout)
    let ?u = "pdr_data r ! off_baseUnit"
    let ?m = "if ?u = unit_code PLDM_UNIT_DEGREES_C then m\<lparr>mTempSensors := mTempSensors m @ [i]\<rparr>
           else if ?u = unit_code PLDM_UNIT_VOLTS then m\<lparr>mVoltageSensors := mVoltageSensors m @ [i]\<rparr>
           else if ?u = unit_code PLDM_UNIT_CURRENT_AMPS then m\<lparr>mCurrentSensors := mCurrentSensors m @ [i]\<rparr>
           else if ?u = unit_code PLDM_UNIT_WATTS then m\<lparr>mPowerSensors := mPowerSensors m @ [i]\<rparr>
           else m"
    have m: "mPdrs ?m = mPdrs m" "mCurrentPdr ?m = mCurrentPdr m"
      by simp_all
    have add: "getSensorRecords ?m u = getSensorRecords m u @ (if ?u = unit_code u then [i] else [])" if "u \<in> cached_units" for u
      using that by (cases u) (simp_all add: cached_units_def)
    obtain m' where m': "cache_loop rs (Suc i) ?m = Done m'" "mPdrs m' = mPdrs ?m" "mCurrentPdr m' = mCurrentPdr ?m"
        "\<forall>u\<in>cached_units. getSensorRecords m' u = getSensorRecords ?m u @ sensors_of u (Suc i) rs"
      using Cons.IH [of "Suc i" ?m] by blast
    have "cache_loop (r # rs) i m = Done m'"
      using True m'(1) g by (simp add: numeric_sensor_def)
    moreover have "getSensorRecords m' u = getSensorRecords m u @ sensors_of u i (r # rs)" if "u \<in> cached_units" for u
      using bspec [OF m'(4) that] True unfolding add [OF that] by (simp add: sensors_of_Cons)
    ultimately show ?thesis
      using m'(2,3) m by auto
  qed
qed simp

lemma cache_built:
  "\<exists>m'. buildSensorCache m = Done m' \<and> mPdrs m' = mPdrs m
    \<and> (\<forall>u. getSensorRecords m' u = (if u \<in> cached_units then sensors_of u 0 (mPdrs m) else []))"
proof -
  let ?m = "m\<lparr>mTempSensors := [], mVoltageSensors := [], mCurrentSensors := [], mPowerSensors := []\<rparr>"
  obtain m' where m': "cache_loop (mPdrs m) 0 ?m = Done m'" "mPdrs m' = mPdrs ?m"
      "\<forall>u\<in>cached_units. getSensorRecords m' u = getSensorRecords ?m u @ sensors_of u 0 (mPdrs m)"
    using cache_loop_correct [of "mPdrs m" 0 ?m] by blast
  moreover have "getSensorRecords ?m u = []" for u
    by (cases u) simp_all
  ultimately show ?thesis
    using cached_unit_cases [of _ m'] by (auto simp: buildSensorCache_def)
qed

text \<open>
  The sensor lists the manager builds are right: for each of the four units it keeps, the list has
  exactly the positions, in order, of the numeric-sensor records that are large enough for the structure
  and have that base unit; other units have none, and the records are not changed.
\<close>

theorem sensor_cache_correct:
  "\<exists>m'. buildSensorCache m = Done m' \<and> mPdrs m' = mPdrs m
    \<and> (\<forall>u. getSensorRecords m' u = (if u \<in> cached_units then sensors_of u 0 (mPdrs m) else []))"
  by (rule cache_built)

section \<open>Readings\<close>

lemma raw_reading_prefix: "take (reading_width n) a = take (reading_width n) b \<Longrightarrow> reading_width n \<le> length a
   \<Longrightarrow> reading_width n \<le> length b \<Longrightarrow> raw_reading n a = raw_reading n b"
proof -
  assume t: "take (reading_width n) a = take (reading_width n) b"
  have "a ! i = b ! i" if "i < reading_width n" for i
    using arg_cong [OF t, of "\<lambda>l. l ! i"] that by simp
  then show ?thesis
    by (cases n) simp_all
qed

text \<open>
  A reading of any of the six sizes is converted by the formula of the sensor: the integer the card
  sent, little-endian and signed where the size says so, times the resolution, plus the offset, times the
  power of ten of the unit modifier. Any other size is an error.
\<close>

theorem reading_converted:
  assumes "mI2cPldmRead p = Some rd" "length (respPayload rd) = 128" "respPayload rd ! 0 = PLDM_SUCCESS"
    "length (value_bytes (mSensorReading p)) = 4" "sizeof_pldmNumericSensorValuePdr \<le> length s"
  shows "returns (pfSensorReadingRespPayload p) (\<lambda>(r, p').
    case data_size (respPayload rd ! 1) of
      None \<Rightarrow> r = PLDM_ERROR \<and> convertReading F (Some s) (mSensorReading p') = Done None
    | Some n \<Rightarrow> r = PLDM_SUCCESS \<and> convertReading F (Some s) (mSensorReading p') = Done (Some
        (double_mult F (double_plus F
           (double_mult F (double_of_int F (raw_reading n (drop 7 (respPayload rd))))
             (double_of_float F (le32 (s ! 33) (s ! 34) (s ! 35) (s ! 36))))
           (double_of_float F (le32 (s ! 37) (s ! 38) (s ! 39) (s ! 40))))
          (double_pow10 F (sint (s ! 23))))))"
proof -
  let ?q = "respPayload rd"
  have le: "reading_width n \<le> 4" for n
    by (cases n) simp_all
  have raw: "raw_reading n (take (reading_width n) (drop 7 ?q) @ drop (reading_width n) v) = raw_reading n (drop 7 ?q)"
    if "length v = 4" for n and v :: "u8 list"
    using assms(2) le [of n] that by (intro raw_reading_prefix) simp_all
  have part: "get_bytes ?q 7 (reading_width n) = Done (take (reading_width n) (drop 7 ?q))"
    "length v = 4 \<Longrightarrow> put_bytes v 0 (take (reading_width n) (drop 7 ?q)) = Done (take (reading_width n) (drop 7 ?q) @ drop (reading_width n) v)"
    for n and v :: "u8 list"
    using assms(2) le [of n] by simp_all
  show ?thesis
    using assms
    by (auto simp: part pfSensorReadingRespPayload_def convertReading_def sensor_layout Let_def raw min_absorb2 split: option.splits)
qed

lemma sensor_by_id_skip:
  "\<forall>x\<in>set rs. 14 \<le> length (pdr_data x) \<and> le16 (pdr_data x ! 12) (pdr_data x ! 13) \<noteq> sensorId \<Longrightarrow>
    sensor_by_id F rounds sensorId (rs @ rs') p = sensor_by_id F rounds sensorId rs' p"
  by (induction rs) (simp_all add: sensor_layout)

text \<open>
  A query by sensor number looks at every record in turn as if it were a numeric sensor: a record of
  10 to 13 bytes before the one sought is read past its end, and a record of any type whose bytes happen to
  hold the number is taken for the sensor.
\<close>

theorem sensor_by_id_unchecked:
  assumes "mPdrs (mPdrManager p) = rs @ r # rs'"
    "\<forall>x\<in>set rs. 14 \<le> length (pdr_data x) \<and> le16 (pdr_data x ! 12) (pdr_data x ! 13) \<noteq> sensorId"
  shows "(length (pdr_data r) < 14 \<longrightarrow> pfGetSensorValuesById F rounds sensorId p = Fault)
    \<and> (14 \<le> length (pdr_data r) \<and> le16 (pdr_data r ! 12) (pdr_data r ! 13) = sensorId \<longrightarrow>
        pfGetSensorValuesById F rounds sensorId p = pfGetSensorValue F rounds (pdr_data r) p)"
  using sensor_by_id_skip [OF assms(2), of F rounds "r # rs'" p] assms(1)
  by (auto simp: pfGetSensorValuesById_def sensor_layout get_u16_def get_byte_def)

text \<open>
  The handler of a part of a record leaves the response buffer exactly when the card claims more than
  116 bytes: nothing checks the count.
\<close>

theorem pdr_part_overrun:
  assumes "mI2cPldmRead p = Some rd" "length (respPayload rd) = 128" "respPayload rd ! 0 = PLDM_SUCCESS"
  shows "pfPdrRespPayload p = Fault \<longleftrightarrow> 116 < unat (le16 (respPayload rd ! 10) (respPayload rd ! 11))"
  using assms by (auto simp: pfPdrRespPayload_def Let_def get_bytes_def)

section \<open>An exchange with a card whose next frame is known\<close>

text \<open>A device that is open, takes every write, and whose next frames are \<open>fs\<close>.\<close>

definition delivers :: "u8 list list \<Rightarrow> 'a mctp_scheme \<Rightarrow> bool" where
  "delivers fs p = (\<exists>d. i2cobj p = Some d \<and> 0 \<le> amchandle d \<and> (\<forall>n. i2c_tx_ok d n)
     \<and> (\<forall>i<length fs. i2c_rx d (i2c_reads d + i) = Some (fs ! i)))"

lemma delivers_Cons:
  assumes "delivers (f # fs) p"
  obtains d where "i2cobj p = Some d" "0 \<le> amchandle d" "\<And>n. i2c_tx_ok d n" "i2c_rx d (i2c_reads d) = Some f"
    "delivers fs (p\<lparr>i2cobj := Some (d\<lparr>i2c_reads := Suc (i2c_reads d)\<rparr>)\<rparr>)"
proof -
  obtain d where d: "i2cobj p = Some d" "0 \<le> amchandle d" "\<And>n. i2c_tx_ok d n"
      "\<And>i. i < length (f # fs) \<Longrightarrow> i2c_rx d (i2c_reads d + i) = Some ((f # fs) ! i)"
    using assms by (auto simp: delivers_def)
  then have "i2c_rx d (i2c_reads d) = Some f" "\<And>i. i < length fs \<Longrightarrow> i2c_rx d (Suc (i2c_reads d) + i) = Some (fs ! i)"
    using d(4) [of 0] d(4) [of "Suc _"] by simp_all
  with d(1-3) show thesis
    by (intro that [of d]) (auto simp: delivers_def)
qed

lemma delivers_only: "i2cobj p = i2cobj p' \<Longrightarrow> delivers fs p = delivers fs p'"
  by (simp add: delivers_def)

lemma pldm_send_delivers:
  assumes "pldm_ok p" "mI2cPldmWrite p = Some wr" "delivers fs p" "unat sz \<le> 128"
  shows "\<exists>d. pldm_send sz p = Done (True, p\<lparr>i2cobj := d\<rparr>) \<and> pldm_ok (p\<lparr>i2cobj := d\<rparr>) \<and> delivers fs (p\<lparr>i2cobj := d\<rparr>)
    \<and> frames_sent (p\<lparr>i2cobj := d\<rparr>) = frames_sent p @ [take (unat sz) (drop 1 (i2cdata_bytes wr))]"
  using assms by (auto simp: pldm_send_def writeAmc_def delivers_def pldm_ok_def mctp_ok_def frames_sent_def PAYLOAD_SIZE_def)

text \<open>A frame of eleven header bytes and a payload that fits goes to the start of the response payload.\<close>

lemma pldm_receive_delivers:
  assumes "pldm_ok p" "delivers ((h @ q) # fs) p" "length h = 11" "length q \<le> 117"
  shows "\<exists>d rd. pldm_receive p = Done (True, p\<lparr>i2cobj := d, mI2cPldmRead := Some rd\<rparr>)
    \<and> pldm_ok (p\<lparr>i2cobj := d, mI2cPldmRead := Some rd\<rparr>) \<and> delivers fs (p\<lparr>i2cobj := d, mI2cPldmRead := Some rd\<rparr>)
    \<and> frames_sent (p\<lparr>i2cobj := d, mI2cPldmRead := Some rd\<rparr>) = frames_sent p
    \<and> (\<exists>rest. respPayload rd = q @ rest \<and> length (q @ rest) = 128)"
proof -
  obtain d where d: "i2cobj p = Some d" "0 \<le> amchandle d" "i2c_rx d (i2c_reads d) = Some (h @ q)"
      "delivers fs (p\<lparr>i2cobj := Some (d\<lparr>i2c_reads := Suc (i2c_reads d)\<rparr>)\<rparr>)"
    by (rule delivers_Cons [OF assms(2)]) blast
  obtain rd where rd: "mI2cPldmRead p = Some rd" "length (respPayload rd) = 128"
    using assms(1) by (auto simp: pldm_ok_def PAYLOAD_SIZE_def)
  let ?mem = "take 1 (i2cdata_bytes rd) @ (h @ q) @ drop (1 + length (h @ q)) (i2cdata_bytes rd)"
  have "drop (12 + k) (i2cdata_bytes rd) = drop k (respPayload rd)" for k
    by (simp add: i2cdata_bytes_def)
  then have "length ?mem = 140" "drop 12 ?mem = q @ drop (length q) (respPayload rd)"
    using assms(3,4) rd(2) by (simp_all add: add.commute)
  moreover have "readAmc (i2cdata_bytes rd) 1 PLDM_MAX_RESPONSE_SIZE d = Done (True, ?mem, d\<lparr>i2c_reads := Suc (i2c_reads d)\<rparr>)"
    using assms(3,4) d rd(2) by (simp add: readAmc_def PLDM_MAX_RESPONSE_SIZE_def)
  ultimately show ?thesis
    using assms(1,4) d(1,4) rd
    by (intro exI [of _ "Some (d\<lparr>i2c_reads := Suc (i2c_reads d)\<rparr>)"] exI [of _ "i2cdata_of_bytes ?mem"])
      (auto simp: pldm_receive_def pldm_ok_def mctp_ok_def frames_sent_def delivers_def PAYLOAD_SIZE_def)
qed

section \<open>Assembling the records\<close>

text \<open>
  The specification: a card answers the requests for records with parts. The state of the fetch is the next
  request, the bytes of the record so far, and the records; a part with a final flag ends a record, which is
  kept when it has a header.
\<close>

record pdr_part =
  part_hdr :: "u8 list"
  part_next :: u32
  part_xfer :: u32
  part_flag :: u8
  part_bytes :: "u8 list"

definition part_final :: "pdr_part \<Rightarrow> bool" where
  "part_final x = (part_flag x = PLDM_END \<or> part_flag x = PLDM_START_AND_END)"

definition part_ok :: "pdr_part \<Rightarrow> bool" where
  "part_ok x = (length (part_hdr x) = 11 \<and> length (part_bytes x) \<le> 105)"

definition part_payload :: "pdr_part \<Rightarrow> u8 list" where
  "part_payload x = PLDM_SUCCESS # bytes_of_u32 (part_next x) @ bytes_of_u32 (part_xfer x) @ [part_flag x]
     @ bytes_of_u16 (word_of_nat (length (part_bytes x))) @ part_bytes x"

definition part_frame :: "pdr_part \<Rightarrow> u8 list" where
  "part_frame x = part_hdr x @ part_payload x"

definition next_req :: "pdr_part \<Rightarrow> pdrReqPayload \<Rightarrow> pdrReqPayload" where
  "next_req x r = r\<lparr>req_recordHandle := part_next x, req_dataTransferHandle := (if part_final x then 0 else part_xfer x),
     transferOpFlag := (if part_final x then PLDM_GET_FIRSTPART else PLDM_GET_NEXTPART)\<rparr>"

definition kept :: "u8 list \<Rightarrow> PdrRecord list" where
  "kept b = (if 10 \<le> length b then [\<lparr>pdr_data = b, pdr_header = pdr_header_of b\<rparr>] else [])"

type_synonym pdr_fetch = "pdrReqPayload \<times> u8 list \<times> PdrRecord list"

fun fetch_step :: "pdr_fetch \<Rightarrow> pdr_part \<Rightarrow> pdr_fetch" where
  "fetch_step (r, cur, rs) x =
     (if part_final x then (next_req x r, [], rs @ kept (cur @ part_bytes x)) else (next_req x r, cur @ part_bytes x, rs))"

primrec fetch_requests :: "pdrReqPayload \<Rightarrow> pdr_part list \<Rightarrow> pdrReqPayload list" where
  "fetch_requests r [] = []"
| "fetch_requests r (x # xs) = r # fetch_requests (next_req x r) xs"

definition pdr_abs :: "('d, 'a) pldm_pf_scheme \<Rightarrow> pdr_fetch" where
  "pdr_abs p = (pfPdrReq p, pdr_data (mCurrentPdr (mPdrManager p)), mPdrs (mPdrManager p))"

lemma part_payload_reads:
  "q = part_payload x @ rest \<Longrightarrow> length q = 128 \<Longrightarrow> length (part_bytes x) \<le> 105 \<Longrightarrow>
    get_byte q 0 = Done PLDM_SUCCESS \<and> get_u32 q 1 = Done (part_next x) \<and> get_u32 q 5 = Done (part_xfer x)
    \<and> get_byte q 9 = Done (part_flag x) \<and> get_u16 q 10 = Done (word_of_nat (length (part_bytes x)))
    \<and> get_bytes q 12 (length (part_bytes x)) = Done (part_bytes x)"
  by (simp add: part_payload_def bytes_of_u32_def bytes_of_u16_def nth_append nth_Cons' le16_bytes [simplified] le32_bytes [simplified])

text \<open>The parts of the object the PLDM layer does not know do not matter to it.\<close>

lemma pldm_ok_pf [simp]:
  "pldm_ok (p\<lparr>mPdrManager := m\<rparr>) = pldm_ok p" "pldm_ok (p\<lparr>pfPdrRepoInfo := i\<rparr>) = pldm_ok p"
  "pldm_ok (p\<lparr>pfPdrReq := r\<rparr>) = pldm_ok p" "pldm_ok (p\<lparr>pfPdrResp := s\<rparr>) = pldm_ok p"
  "pldm_ok (p\<lparr>pfSensorReadingReq := t\<rparr>) = pldm_ok p" "pldm_ok (p\<lparr>pfSensorReadingResp := u\<rparr>) = pldm_ok p"
  "pldm_ok (p\<lparr>mSensorReading := v\<rparr>) = pldm_ok p" "pldm_ok (p\<lparr>mSensorInfoList := l\<rparr>) = pldm_ok p"
  by (simp_all add: pldm_ok_def mctp_ok_def)

lemma frames_sent_pf [simp]:
  "frames_sent (p\<lparr>mPdrManager := m\<rparr>) = frames_sent p" "frames_sent (p\<lparr>pfPdrRepoInfo := i\<rparr>) = frames_sent p"
  "frames_sent (p\<lparr>pfPdrReq := r\<rparr>) = frames_sent p" "frames_sent (p\<lparr>pfPdrResp := s\<rparr>) = frames_sent p"
  "frames_sent (p\<lparr>pfSensorReadingReq := t\<rparr>) = frames_sent p" "frames_sent (p\<lparr>pfSensorReadingResp := u\<rparr>) = frames_sent p"
  "frames_sent (p\<lparr>mSensorReading := v\<rparr>) = frames_sent p" "frames_sent (p\<lparr>mSensorInfoList := l\<rparr>) = frames_sent p"
  by (simp_all add: frames_sent_def)

lemma delivers_updates [simp]:
  "delivers fs (p\<lparr>mPdrManager := m\<rparr>) = delivers fs p" "delivers fs (p\<lparr>pfPdrReq := r\<rparr>) = delivers fs p"
  "delivers fs (p\<lparr>pfPdrResp := s\<rparr>) = delivers fs p" "delivers fs (q\<lparr>mI2cPldmWrite := w\<rparr>) = delivers fs q"
  "delivers fs (q\<lparr>pldm_instanceID := j\<rparr>) = delivers fs q"
  by (simp_all add: delivers_def)

text \<open>The request a frame carries.\<close>

definition frame_request :: "u8 list \<Rightarrow> u8 list" where
  "frame_request f = take 13 (drop 11 f)"

lemma length_pdr_req [simp]: "length (pdr_req_bytes r) = 13"
  by (simp add: pdr_req_bytes_def)

lemma pf_fill_pdr:
  assumes "mI2cPldmWrite p = Some wr" "length (respPayload wr) = 128"
  shows "\<exists>q. pfFillPayload PLDM_GET_PDR 25 p = Done (PLDM_SUCCESS, p\<lparr>mI2cPldmWrite := Some (wr\<lparr>respPayload := q\<rparr>)\<rparr>)
    \<and> length q = 128 \<and> take 13 q = pdr_req_bytes (pfPdrReq p)"
  using assms
  by (intro exI [of _ "(pdr_req_bytes (pfPdrReq p) @ replicate 12 0 @ drop 25 (respPayload wr))[13 := crc8_of (take 12 (pdr_req_bytes (pfPdrReq p)))]"])
    (simp add: pfFillPayload_def fill_payload_def pf_cmds)

lemma next_instance_pf [simp]:
  "pfPdrReq (next_instance p) = pfPdrReq p" "mPdrManager (next_instance p) = mPdrManager p"
  "delivers fs (next_instance q) = delivers fs q"
  by (simp_all add: next_instance_def)

lemma pf_response_part:
  assumes "mI2cPldmRead p = Some rd" "respPayload rd = part_payload x @ rest" "length (respPayload rd) = 128" "part_ok x"
  shows "processPlatformResponse PLDM_GET_PDR i p = Done (PLDM_SUCCESS, p\<lparr>
    pfPdrResp := \<lparr>pdr_completionCode = PLDM_SUCCESS, nextRecordHandle = part_next x, pdr_nextDataTransferHandle = part_xfer x,
      pdr_transferFlag = part_flag x, responseCount = word_of_nat (length (part_bytes x))\<rparr>,
    mPdrManager := appendPdrData (part_bytes x) (mPdrManager p)\<rparr>)"
proof -
  have "unat (word_of_nat (length (part_bytes x)) :: u16) = length (part_bytes x)"
    using assms(4) by (simp add: part_ok_def unat_of_nat)
  with assms part_payload_reads [OF assms(2,3)] show ?thesis
    by (simp add: processPlatformResponse_def pfPdrRespPayload_def pf_cmds part_ok_def Let_def)
qed

lemma pf_round_part:
  assumes ok: "pldm_ok p" and dev: "delivers (part_frame x # fs) p" and x: "part_ok x"
  shows "\<exists>p'. pf_round PLDM_GET_PDR 25 p = Done (if part_final x then Some PLDM_SUCCESS else None, p') \<and> pldm_ok p' \<and> delivers fs p'
    \<and> pdr_abs p' = fetch_step (pdr_abs p) x
    \<and> (\<exists>f. frames_sent p' = frames_sent p @ [f] \<and> pldm_frame_id f = (PLDM_PLATFORM_MONITORING, PLDM_GET_PDR)
         \<and> frame_request f = pdr_req_bytes (pfPdrReq p))"
proof -
  note n = next_instance_ok [OF ok]
  let ?p = "next_instance p"
  obtain wr where wr: "mI2cPldmWrite p = Some wr" "length (respPayload wr) = 128"
    using ok by (auto simp: pldm_ok_def PAYLOAD_SIZE_def)
  obtain h where h: "pldmHdrConstruction (Some (pldmMsgHdr wr)) (pldm_instanceID ?p) PLDM_PLATFORM_MONITORING PLDM_GET_PDR 0 1 = (PLDM_SUCCESS, Some h)"
      "ucast (cmdType h) = PLDM_PLATFORM_MONITORING" "pldm_cmdCode h = PLDM_GET_PDR"
    using pldmHdrConstruction_ok [of "pldm_instanceID ?p" PLDM_PLATFORM_MONITORING "pldmMsgHdr wr" PLDM_GET_PDR] n(3)
    by (simp add: PLDM_PLATFORM_MONITORING_def PLDM_TYPES_MAX_def word_less_nat_alt)
  define p1 where "p1 = ?p\<lparr>mI2cPldmWrite := Some (wr\<lparr>pldmMsgHdr := h\<rparr>)\<rparr>"
  obtain q where q: "pfFillPayload PLDM_GET_PDR 25 p1 = Done (PLDM_SUCCESS, p1\<lparr>mI2cPldmWrite := Some (wr\<lparr>pldmMsgHdr := h, respPayload := q\<rparr>)\<rparr>)"
      "length q = 128" "take 13 q = pdr_req_bytes (pfPdrReq p)"
    using pf_fill_pdr [of p1 "wr\<lparr>pldmMsgHdr := h\<rparr>"] wr by (auto simp: p1_def)
  define w where "w = wr\<lparr>pldmMsgHdr := h, respPayload := q\<rparr>"
  define p2 where "p2 = p1\<lparr>mI2cPldmWrite := Some w\<rparr>"
  have p2: "pldm_ok p2" "mI2cPldmWrite p2 = Some w" "delivers (part_frame x # fs) p2" "frames_sent p2 = frames_sent p"
    using n dev wr q(2) by (auto simp: p2_def p1_def w_def pldm_ok_def mctp_ok_def frames_sent_def PAYLOAD_SIZE_def)
  obtain d where d: "pldm_send 25 p2 = Done (True, p2\<lparr>i2cobj := d\<rparr>)" "pldm_ok (p2\<lparr>i2cobj := d\<rparr>)" "delivers (part_frame x # fs) (p2\<lparr>i2cobj := d\<rparr>)"
      "frames_sent (p2\<lparr>i2cobj := d\<rparr>) = frames_sent p @ [take 25 (drop 1 (i2cdata_bytes w))]"
    using pldm_send_delivers [OF p2(1-3), of 25] p2(4) by auto
  have len: "length (part_hdr x) = 11" "length (part_payload x) \<le> 117"
    using x by (simp_all add: part_ok_def part_payload_def)
  obtain d' rd rest where r: "pldm_receive (p2\<lparr>i2cobj := d\<rparr>) = Done (True, p2\<lparr>i2cobj := d', mI2cPldmRead := Some rd\<rparr>)"
      "pldm_ok (p2\<lparr>i2cobj := d', mI2cPldmRead := Some rd\<rparr>)" "delivers fs (p2\<lparr>i2cobj := d', mI2cPldmRead := Some rd\<rparr>)"
      "frames_sent (p2\<lparr>i2cobj := d', mI2cPldmRead := Some rd\<rparr>) = frames_sent p @ [take 25 (drop 1 (i2cdata_bytes w))]"
      "respPayload rd = part_payload x @ rest" "length (part_payload x @ rest) = 128"
    using pldm_receive_delivers [OF d(2), of "part_hdr x" "part_payload x" fs] d(3,4) len by (auto simp: part_frame_def)
  define p3 where "p3 = p2\<lparr>i2cobj := d', mI2cPldmRead := Some rd\<rparr>"
  define p4 where "p4 = p3\<lparr>pfPdrResp := \<lparr>pdr_completionCode = PLDM_SUCCESS, nextRecordHandle = part_next x, pdr_nextDataTransferHandle = part_xfer x,
      pdr_transferFlag = part_flag x, responseCount = word_of_nat (length (part_bytes x))\<rparr>,
    mPdrManager := appendPdrData (part_bytes x) (mPdrManager p3)\<rparr>"
  have resp: "processPlatformResponse PLDM_GET_PDR i p3 = Done (PLDM_SUCCESS, p4)" for i
    unfolding p4_def by (rule pf_response_part [OF _ r(5)]) (use r(5,6) x in \<open>simp_all add: p3_def\<close>)
  define p' where "p' = snd (pf_next PLDM_GET_PDR (p4\<lparr>pldm_instanceID := pldm_instanceID p4 + 1\<rparr>))"
  have round: "pf_round PLDM_GET_PDR 25 p = Done (if part_final x then Some PLDM_SUCCESS else None, p')"
    using wr(1) n(5) h q(1) d(1) r(1) resp
    by (simp add: pf_round_def Let_def p1_def [symmetric] p2_def [symmetric] w_def [symmetric] p3_def [symmetric])
      (simp add: p'_def pf_next_def p4_def part_final_def Let_def)
  have abs: "pdr_abs p4 = (pfPdrReq p, pdr_data (mCurrentPdr (mPdrManager p)) @ part_bytes x, mPdrs (mPdrManager p))"
    by (simp add: p4_def p3_def p2_def p1_def pdr_abs_def appendPdrData_def)
  have "pdr_abs p' = fetch_step (pdr_abs p) x"
    using abs by (auto simp: p'_def pf_next_def pdr_abs_def p4_def Let_def next_req_def part_final_def finishPdrRecord_def kept_def sizeof_pdrPayloadHeader_def)
  moreover have "pldm_ok p'"
    using r(2) unat_next_instance [of "pldm_instanceID ?p"] n(2,3)
    by (auto simp: p'_def pf_next_def p4_def p3_def p2_def p1_def Let_def pldm_ok_def mctp_ok_def)
  moreover have "delivers fs p'" "frames_sent p' = frames_sent p @ [take 25 (drop 1 (i2cdata_bytes w))]"
    using r(3,4) by (auto simp: p'_def pf_next_def p4_def p3_def [symmetric] Let_def)
  moreover have "frame_request (take 25 (drop 1 (i2cdata_bytes w))) = pdr_req_bytes (pfPdrReq p)"
    using q(2,3) by (simp add: frame_request_def i2cdata_bytes_def drop_take w_def)
  ultimately show ?thesis
    using round h(2,3) pldm_frame_fields(1) [of 25 w] by (auto simp: w_def)
qed

lemma pf_header_step:
  assumes "pldm_ok p"
  shows "\<exists>p'. pf_header sz p = Done p' \<and> pldm_ok p' \<and> delivers fs p' = delivers fs p \<and> pdr_abs p' = pdr_abs p \<and> frames_sent p' = frames_sent p"
  using assms by (auto simp: pf_header_def pldm_ok_def mctp_ok_def delivers_def pdr_abs_def frames_sent_def)

text \<open>From \<open>p\<close> to \<open>p'\<close> the requests \<open>rs\<close> for records have been sent.\<close>

definition requested :: "('d, 'a) pldm_pf_scheme \<Rightarrow> pdrReqPayload list \<Rightarrow> ('d, 'a) pldm_pf_scheme \<Rightarrow> bool" where
  "requested p rs p' = (\<exists>fs. frames_sent p' = frames_sent p @ fs \<and> map frame_request fs = map pdr_req_bytes rs
     \<and> (\<forall>f\<in>set fs. pldm_frame_id f = (PLDM_PLATFORM_MONITORING, PLDM_GET_PDR)))"

lemma requested_Nil: "frames_sent p' = frames_sent p \<Longrightarrow> requested p [] p'"
  by (simp add: requested_def)

lemma requested_Cons:
  assumes "frames_sent p' = frames_sent p @ [f]" "pldm_frame_id f = (PLDM_PLATFORM_MONITORING, PLDM_GET_PDR)"
    "frame_request f = pdr_req_bytes r" "requested p' rs p''"
  shows "requested p (r # rs) p''"
  using assms by (auto simp: requested_def intro: exI [of _ "f # _"])

definition fetched :: "('d, 'a) pldm_pf_scheme \<Rightarrow> pdr_part list \<Rightarrow> u8 \<times> ('d, 'a) pldm_pf_scheme \<Rightarrow> bool" where
  "fetched p xs res = (fst res = PLDM_SUCCESS \<and> pldm_ok (snd res) \<and> pdr_abs (snd res) = foldl fetch_step (pdr_abs p) xs
     \<and> requested p (fetch_requests (pfPdrReq p) xs) (snd res))"

definition finals :: "pdr_part list \<Rightarrow> nat" where
  "finals xs = length (filter part_final xs)"

lemma fetched_Cons:
  assumes "fetched p' xs res" "pdr_abs p' = fetch_step (pdr_abs p) x" "frames_sent p' = frames_sent p @ [f]"
    "pldm_frame_id f = (PLDM_PLATFORM_MONITORING, PLDM_GET_PDR)" "frame_request f = pdr_req_bytes (pfPdrReq p)"
  shows "fetched p (x # xs) res"
proof -
  have "pfPdrReq p' = next_req x (pfPdrReq p)"
    using assms(2) by (auto simp: pdr_abs_def split: if_splits)
  with assms requested_Cons [OF assms(3-5)] show ?thesis
    by (simp add: fetched_def)
qed

lemma pf_loop_fetches:
  assumes "pldm_ok p" "delivers (map part_frame xs) p" "\<forall>x\<in>set xs. part_ok x" "xs \<noteq> []" "part_final (last xs)"
    "length xs \<le> k" "length xs \<le> rounds" "finals xs = Suc n"
  shows "returns (obind (pf_loop k PLDM_GET_PDR 25 p) (\<lambda>(ret, p). if ret \<noteq> PLDM_SUCCESS then Done (PLDM_ERROR, p) else pdrs_loop rounds n p))
    (fetched p xs)"
  using assms
proof (induction xs arbitrary: k n p)
  case (Cons x xs)
  obtain j where k: "k = Suc j" "length xs \<le> j"
    using Cons.prems(6) by (cases k) auto
  obtain p' f where p': "pf_round PLDM_GET_PDR 25 p = Done (if part_final x then Some PLDM_SUCCESS else None, p')" "pldm_ok p'"
      "delivers (map part_frame xs) p'" "pdr_abs p' = fetch_step (pdr_abs p) x"
      "frames_sent p' = frames_sent p @ [f]" "pldm_frame_id f = (PLDM_PLATFORM_MONITORING, PLDM_GET_PDR)"
      "frame_request f = pdr_req_bytes (pfPdrReq p)"
    using pf_round_part [OF Cons.prems(1), of x "map part_frame xs"] Cons.prems(2,3) by auto
  have more: "fetched p' xs res \<Longrightarrow> fetched p (x # xs) res" for res
    by (rule fetched_Cons [OF _ p'(4-7)])
  show ?case
  proof (cases "part_final x")
    case False
    then have "xs \<noteq> []"
      using Cons.prems(5) by auto
    then have "returns (obind (pf_loop j PLDM_GET_PDR 25 p') (\<lambda>(ret, p). if ret \<noteq> PLDM_SUCCESS then Done (PLDM_ERROR, p) else pdrs_loop rounds n p)) (fetched p' xs)"
      using Cons.prems False k(2) by (intro Cons.IH [OF p'(2,3)]) (auto simp: finals_def)
    then show ?thesis
      using p'(1) False k(1) more by (auto elim!: returns_mono)
  next
    case True
    show ?thesis
    proof (cases xs)
      case Nil
      then have "n = 0" "fetched p' xs (PLDM_SUCCESS, p')"
        using Cons.prems(8) True p'(2) by (simp_all add: finals_def fetched_def requested_Nil)
      then show ?thesis
        using p'(1) True k(1) more by simp
    next
      case (Cons y ys)
      then obtain m where n: "n = Suc m"
        using Cons.prems(5,8) True by (cases n) (auto simp: finals_def filter_empty_conv split: if_splits)
      obtain p'' where h: "pf_header 25 p' = Done p''" "pldm_ok p''" "delivers (map part_frame xs) p''" "pdr_abs p'' = pdr_abs p'"
          "frames_sent p'' = frames_sent p'"
        using pf_header_step [OF p'(2), of 25 "map part_frame xs"] p'(3) by auto
      have same: "fetched p'' xs res = fetched p' xs res" for res
        using h(4,5) by (simp add: fetched_def requested_def pdr_abs_def)
      have "returns (obind (pf_loop rounds PLDM_GET_PDR 25 p'') (\<lambda>(ret, p). if ret \<noteq> PLDM_SUCCESS then Done (PLDM_ERROR, p) else pdrs_loop rounds m p)) (fetched p'' xs)"
        using Cons.prems True Cons n by (intro Cons.IH [OF h(2,3)]) (auto simp: finals_def)
      then have "returns (pdrs_loop rounds n p') (fetched p' xs)"
        using h(1) n same by (auto simp: pfMonCtrlCmd_def elim!: returns_mono)
      then show ?thesis
        using p'(1) True k(1) more by (auto elim!: returns_mono)
    qed
  qed
qed simp

text \<open>
  C32. Fetching the records of a card implements the specification of the fetch: when the card answers with
  parts that fit a frame, one final part per record, the call returns with success, the records are the
  concatenations of the bytes of their parts, in order and with their headers, and every request asks for
  what the response before it named. A round per part is enough.
\<close>

theorem records_assembled:
  assumes "pldm_ok p" "delivers (map part_frame xs) p" "\<forall>x\<in>set xs. part_ok x" "xs \<noteq> []" "part_final (last xs)"
    "length xs \<le> rounds" "finals xs = unat (recordCount (pfPdrRepoInfo p))"
  shows "returns (pfGetTotalPdrs rounds p) (\<lambda>(r, p'). r = PLDM_SUCCESS \<and> pldm_ok p'
    \<and> (let first = \<lparr>req_recordHandle = 0, req_dataTransferHandle = 0, transferOpFlag = PLDM_GET_FIRSTPART,
          requestCount = ucast (largestRecordSize (pfPdrRepoInfo p)), req_recordChangeNumber = 0\<rparr> in
        pdr_abs p' = foldl fetch_step (first, [], []) xs \<and> requested p (fetch_requests first xs) p'))"
proof -
  define first where "first = \<lparr>req_recordHandle = 0, req_dataTransferHandle = 0, transferOpFlag = PLDM_GET_FIRSTPART,
          requestCount = ucast (largestRecordSize (pfPdrRepoInfo p)), req_recordChangeNumber = 0\<rparr>"
  define q where "q = p\<lparr>mPdrManager := PdrManager_clear (mPdrManager p), pfPdrReq := first\<rparr>"
  have q: "pldm_ok q" "delivers (map part_frame xs) q" "pdr_abs q = (first, [], [])" "frames_sent q = frames_sent p" "pfPdrReq q = first"
    using assms(1,2) by (simp_all add: q_def pdr_abs_def PdrManager_clear_def)
  obtain q' where h: "pf_header 25 q = Done q'" "pldm_ok q'" "delivers (map part_frame xs) q'" "pdr_abs q' = pdr_abs q" "frames_sent q' = frames_sent q"
    using pf_header_step [OF q(1), of 25 "map part_frame xs"] q(2) by auto
  obtain n where n: "unat (recordCount (pfPdrRepoInfo p)) = Suc n"
    using assms(4,5,7) by (cases "unat (recordCount (pfPdrRepoInfo p))") (auto simp: finals_def filter_empty_conv)
  have "returns (pdrs_loop rounds (Suc n) q) (fetched q' xs)"
    using pf_loop_fetches [OF h(2,3) assms(3-5) assms(6,6), of n] assms(7) n h(1)
    by (simp add: pfMonCtrlCmd_def)
  then have "returns (pfGetTotalPdrs rounds p) (fetched q' xs)"
    using n by (simp add: pfGetTotalPdrs_def q_def first_def)
  then show ?thesis
    unfolding first_def [symmetric] Let_def
    using h(4,5) q by (auto simp: fetched_def requested_def pdr_abs_def elim!: returns_mono)
qed

end
