(* ===== verification/Amc_PfSafe.thy ===== *)
theory Amc_PfSafe
  imports Amc_Pdr "HOL-Library.Sublist"
begin

text \<open>
  Platform monitoring with any card: the rounds of a command are instances of the shared exchange (locale
  \<open>pldm_exchange\<close>), fetching the records stays in its buffers when the sizes the card claims fit, and a query
  of the sensors of a unit always returns.
\<close>

section \<open>A round is the shared exchange\<close>

text \<open>The fields of the MCTP header of the write buffer that \<open>commandConstruction\<close> depends on, and that it has been filled.\<close>

definition smbus_part :: "'a pldm_scheme \<Rightarrow> u8 \<times> mctpSmbusI2cHdr option" where
  "smbus_part p = (mDestEid p, map_option pldmSmbusHdr (mI2cPldmWrite p))"

definition header_set :: "u8 \<Rightarrow> 'a pldm_scheme \<Rightarrow> bool" where
  "header_set sz p = (\<exists>h. mI2cPldmWrite p \<noteq> None \<and> map_option pldmSmbusHdr (mI2cPldmWrite p) = Some h
     \<and> (commandConstruction p h 1 1 0 (sz - 3) 0)\<lparr>msgType := PLDM_OVER_MCTP\<rparr> = h)"

lemma header_set_only: "smbus_part p' = smbus_part p \<Longrightarrow> header_set sz p = header_set sz p'"
  by (auto simp: header_set_def smbus_part_def commandConstruction_def)

lemma pf_header_set: "pf_header sz p = Done p' \<Longrightarrow> header_set sz p'"
  by (cases "mI2cPldmWrite p") (auto simp: pf_header_def header_set_def commandConstruction_def)

lemma headers_again:
  assumes "header_set sz p" "mI2cPldmWrite p = Some wr"
  shows "pldm_headers typ cmd sz p wr
    = wr\<lparr>pldmMsgHdr := the (snd (pldmHdrConstruction (Some (pldmMsgHdr wr)) (pldm_instanceID p) typ cmd 0 1))\<rparr>"
  using assms by (simp add: header_set_def pldm_headers_def Let_def)

lemma header_set_next: "header_set sz (next_instance p) = header_set sz p"
  by (rule header_set_only) (simp add: next_instance_def smbus_part_def)

lemma pf_round_shared:
  assumes "header_set sz p" "pldm_ok p"
  shows "pf_round cmd sz p =
    obind (pldm_command PLDM_PLATFORM_MONITORING cmd sz (pfFillPayload cmd (unat sz)) (processPlatformResponse cmd) p)
      (\<lambda>(ret, p). Done (if ret \<noteq> PLDM_SUCCESS then (Some PLDM_ERROR, p) else pf_next cmd p))"
proof -
  let ?p = "next_instance p"
  obtain wr where wr: "mI2cPldmWrite ?p = Some wr"
    using next_instance_ok(1) [OF assms(2)] by (auto simp: pldm_ok_def)
  obtain h where h: "pldmHdrConstruction (Some (pldmMsgHdr wr)) (pldm_instanceID ?p) PLDM_PLATFORM_MONITORING cmd 0 1 = (PLDM_SUCCESS, Some h)"
    using pldmHdrConstruction_ok [of "pldm_instanceID ?p" PLDM_PLATFORM_MONITORING "pldmMsgHdr wr" cmd] next_instance_ok(3) [OF assms(2)]
    by (simp add: PLDM_PLATFORM_MONITORING_def PLDM_TYPES_MAX_def word_less_nat_alt)
  have hd: "pldm_headers PLDM_PLATFORM_MONITORING cmd sz ?p wr = wr\<lparr>pldmMsgHdr := h\<rparr>"
    using headers_again [of sz ?p wr] assms(1) wr h by (simp add: header_set_next)
  have err: "PLDM_ERROR \<noteq> PLDM_SUCCESS"
    by simp
  show ?thesis
    unfolding pf_round_def pldm_command_def Let_def wr the_ptr_simps obind.simps hd h prod.case option.sel
    using err by (simp add: obind_assoc case_prod_unfold if_distrib [of "\<lambda>m. obind m _"] cong: if_cong)
qed

section \<open>What a round keeps\<close>

lemma smbus_fill: "fill_payload f p = Done p' \<Longrightarrow> smbus_part p' = smbus_part p"
  by (cases "mI2cPldmWrite p") (auto simp: fill_payload_def smbus_part_def)

lemma smbus_pf_fill: "pfFillPayload cmd n p = Done (r, p') \<Longrightarrow> smbus_part p' = smbus_part p"
  by (auto simp: pfFillPayload_def dest!: smbus_fill split: if_splits)

lemma smbus_updates [simp]:
  "smbus_part (p\<lparr>mPdrManager := m\<rparr>) = smbus_part p" "smbus_part (p\<lparr>pfPdrRepoInfo := i\<rparr>) = smbus_part p"
  "smbus_part (p\<lparr>pfPdrReq := r\<rparr>) = smbus_part p" "smbus_part (p\<lparr>pfPdrResp := s\<rparr>) = smbus_part p"
  "smbus_part (p\<lparr>pfSensorReadingResp := u\<rparr>) = smbus_part p" "smbus_part (p\<lparr>mSensorReading := v\<rparr>) = smbus_part p"
  "smbus_part (q\<lparr>pldm_instanceID := j\<rparr>) = smbus_part q" "smbus_part (q\<lparr>i2cobj := d\<rparr>) = smbus_part q"
  "smbus_part (q\<lparr>mI2cPldmRead := w\<rparr>) = smbus_part q"
  by (simp_all add: smbus_part_def)

lemma smbus_response: "processPlatformResponse cmd i p = Done (r, p') \<Longrightarrow> smbus_part p' = smbus_part p"
  by (auto simp: processPlatformResponse_def pfPdrRepoRespPayload_def pfPdrRespPayload_def pfSensorReadingRespPayload_def Let_def
      split: if_splits option.splits)

lemma pf_next_snd: "smbus_part (snd (pf_next cmd p)) = smbus_part p"
  by (simp add: pf_next_def Let_def)

lemma header_set_command:
  assumes "header_set sz p" "pldm_command typ cmd sz (pfFillPayload cmd n) (processPlatformResponse cmd) p = Done (r, p')"
  shows "header_set sz (p' :: ('d, 'a) pldm_pf_scheme)"
proof -
  let ?p = "next_instance p"
  obtain wr where wr: "mI2cPldmWrite ?p = Some wr"
    using assms(2) by (cases "mI2cPldmWrite ?p") (auto simp: pldm_command_def Let_def)
  have "smbus_part (?p\<lparr>mI2cPldmWrite := Some (pldm_headers typ cmd sz ?p wr)\<rparr>) = smbus_part ?p"
    using headers_again [of sz ?p wr] assms(1) wr by (simp add: header_set_next smbus_part_def)
  moreover obtain r2 p2 where pay: "pfFillPayload cmd n (?p\<lparr>mI2cPldmWrite := Some (pldm_headers typ cmd sz ?p wr)\<rparr>) = Done (r2, p2)"
    using assms(2) wr by (auto simp: pldm_command_def Let_def)
  ultimately have p2: "smbus_part p2 = smbus_part ?p"
    using smbus_pf_fill [OF pay] by simp
  have rest: "p' = p2 \<or> (\<exists>ok p3. pldm_send sz p2 = Done (ok, p3) \<and> (p' = p3 \<or> (\<exists>got p4. pldm_receive p3 = Done (got, p4)
      \<and> (p' = p4 \<or> (\<exists>r5 p5. processPlatformResponse cmd (pldm_instanceID p4) p4 = Done (r5, p5)
        \<and> (p' = p5 \<or> p' = p5\<lparr>pldm_instanceID := pldm_instanceID p5 + 1\<rparr>))))))"
    using assms(2) wr pay unfolding pldm_command_def Let_def wr the_ptr_simps obind.simps pay prod.case
    by (simp only: split: if_splits prod.splits) (auto split: if_splits)
  have s1: "smbus_part p3 = smbus_part p2" if "pldm_send sz p2 = Done (ok, p3)" for ok p3
    using pldm_send_only [OF that] by auto
  have s2: "smbus_part p4 = smbus_part p3" if "pldm_receive p3 = Done (got, p4)" for got p4 and p3 :: "('d, 'a) pldm_pf_scheme"
    using pldm_receive_only [OF that] by auto
  have "smbus_part p' = smbus_part p2"
    using rest by (elim disjE exE conjE) (simp_all add: s1 s2 smbus_response)
  with p2 have "smbus_part p' = smbus_part ?p"
    by simp
  then show ?thesis
    using assms(1) header_set_only header_set_next by blast
qed

text \<open>
  The invariant: the union of a reading has its four bytes, and the size a frame claims for a part of a
  record, where the code reads it, is \<open>L\<close> at most; \<open>L\<close> is \<open>65535\<close> where nothing is assumed of the card.
\<close>

definition claims :: "nat \<Rightarrow> (nat \<Rightarrow> u8 list option) \<Rightarrow> bool" where
  "claims L rx = (65535 \<le> L \<or> (\<forall>n bs. rx n = Some bs \<longrightarrow> 23 \<le> length bs \<and> unat (le16 (bs ! 21) (bs ! 22)) \<le> L))"

definition pf_wf :: "nat \<Rightarrow> ('d, 'a) pldm_pf_scheme \<Rightarrow> bool" where
  "pf_wf L p = ((\<forall>d. i2cobj p = Some d \<longrightarrow> claims L (i2c_rx d)) \<and> length (value_bytes (mSensorReading p)) = 4)"

definition claimed :: "nat \<Rightarrow> 'a pldm_scheme \<Rightarrow> bool" where
  "claimed L p = (\<forall>rd. mI2cPldmRead p = Some rd \<longrightarrow> unat (le16 (respPayload rd ! 10) (respPayload rd ! 11)) \<le> L)"

lemma u16_le: "unat (w :: u16) \<le> 65535"
  using unsigned_less [of w, where ?'a = nat] by simp

lemma claims_any: "claims 65535 rx"
  by (simp add: claims_def)

lemma pf_wf_sent: "pf_wf L p \<Longrightarrow> pldm_ok p \<Longrightarrow> pldm_send sz p = Done (ok, p') \<Longrightarrow> pf_wf L p'"
  by (drule pldm_send_device) (auto simp: pf_wf_def)

lemma pf_wf_received:
  assumes wf: "pf_wf L p" and ok: "pldm_ok p" and rcv: "pldm_receive p = Done (b, p')"
  shows "pf_wf L p' \<and> (b \<longrightarrow> claimed L p')"
proof -
  obtain rd d where p: "mI2cPldmRead p = Some rd" "i2cobj p = Some d" "length (respPayload rd) = PAYLOAD_SIZE" "0 \<le> amchandle d"
    using ok by (elim pldm_okE)
  have rx: "claims L (i2c_rx d)"
    using wf p(2) by (simp add: pf_wf_def)
  obtain mem d' where read: "readAmc (i2cdata_bytes rd) 1 PLDM_MAX_RESPONSE_SIZE d = Done (b, mem, d')"
      "p' = p\<lparr>i2cobj := Some d', mI2cPldmRead := Some (i2cdata_of_bytes mem)\<rparr>"
    using rcv p by (auto simp: pldm_receive_def)
  have d': "i2c_rx d' = i2c_rx d" "b = (i2c_rx d (i2c_reads d) \<noteq> None)"
      "mem = (case i2c_rx d (i2c_reads d) of None \<Rightarrow> i2cdata_bytes rd
        | Some bs \<Rightarrow> take 1 (i2cdata_bytes rd) @ take PLDM_MAX_RESPONSE_SIZE bs
            @ drop (1 + length (take PLDM_MAX_RESPONSE_SIZE bs)) (i2cdata_bytes rd))"
    using readAmc_returns [of 1 PLDM_MAX_RESPONSE_SIZE "i2cdata_bytes rd" d] p read(1)
    by (auto simp: returns_iff PLDM_MAX_RESPONSE_SIZE_def PAYLOAD_SIZE_def)
  have "claimed L p'" if delivered: b
  proof (cases "65535 \<le> L")
    case True
    then show ?thesis
      using le_trans [OF u16_le] by (auto simp: claimed_def)
  next
    case False
    obtain bs where bs: "i2c_rx d (i2c_reads d) = Some bs"
      using delivered d'(2) by auto
    then have c: "23 \<le> length bs" "unat (le16 (bs ! 21) (bs ! 22)) \<le> L"
      using rx False by (auto simp: claims_def)
    have nth: "mem ! Suc i = bs ! i" if "i < 23" for i
      using d'(3) bs c(1) that by (simp add: nth_append PLDM_MAX_RESPONSE_SIZE_def i2cdata_bytes_def mctp_bytes_def)
    have "mem ! 22 = bs ! 21" "mem ! 23 = bs ! 22"
      using nth [of 21] nth [of 22] by simp_all
    moreover have "12 \<le> length mem"
      using d'(3) bs by (simp add: i2cdata_bytes_def)
    ultimately show ?thesis
      using read(2) c(2) by (simp add: claimed_def)
  qed
  then show ?thesis
    using wf read(2) d'(1) rx by (simp add: pf_wf_def)
qed

text \<open>
  What a command other than \<^verbatim>\<open>GetPDR\<close> leaves alone, and the records are never changed but by the end of one.
\<close>

definition records_ok :: "PdrRecord list \<Rightarrow> bool" where
  "records_ok rs = (\<forall>r\<in>set rs. 10 \<le> length (pdr_data r) \<and> pdr_header r = pdr_header_of (pdr_data r))"

definition pf_keeps :: "u8 \<Rightarrow> ('d, 'a) pldm_pf_scheme \<Rightarrow> ('d, 'a) pldm_pf_scheme \<Rightarrow> bool" where
  "pf_keeps cmd p p' = (mPdrs (mPdrManager p') = mPdrs (mPdrManager p) \<and> mSensorInfoList p' = mSensorInfoList p
     \<and> (cmd \<noteq> PLDM_GET_PDR \<longrightarrow> mPdrManager p' = mPdrManager p))"

lemma pf_keeps_refl: "pf_keeps cmd p p"
  by (simp add: pf_keeps_def)

lemma pf_keeps_trans: "pf_keeps cmd p p' \<Longrightarrow> pf_keeps cmd p' p'' \<Longrightarrow> pf_keeps cmd p p''"
  by (simp add: pf_keeps_def)

lemma fill_payload_only: "fill_payload f p = Done p' \<Longrightarrow> \<exists>w. p' = p\<lparr>mI2cPldmWrite := w\<rparr>"
  by (cases "mI2cPldmWrite p") (auto simp: fill_payload_def)

lemma pf_fill_only: "pfFillPayload cmd n p = Done (r, p') \<Longrightarrow> \<exists>w. p' = p\<lparr>mI2cPldmWrite := w\<rparr>"
  by (auto simp: pfFillPayload_def dest!: fill_payload_only split: if_splits)

lemma pf_fill_quiet:
  assumes "pldm_ok p" "n \<le> PAYLOAD_SIZE"
  shows "returns (pfFillPayload cmd n p) (\<lambda>(r, p'). quiet p p')"
proof -
  obtain rd wr where p: "mI2cPldmRead p = Some rd" "mI2cPldmWrite p = Some wr" "length (respPayload wr) = 128"
    using assms(1) by (auto simp: pldm_ok_def PAYLOAD_SIZE_def)
  have "quiet p (p\<lparr>mI2cPldmWrite := Some (wr\<lparr>respPayload := q\<rparr>)\<rparr>)" if "length q = 128" for q
    using assms(1) p that by (auto simp: quiet_def pldm_ok_def mctp_ok_def PAYLOAD_SIZE_def)
  then show ?thesis
    using p assms(2) by (simp add: pfFillPayload_def fill_payload_def PAYLOAD_SIZE_def)
qed

lemma reading_width_le: "reading_width n \<le> 4"
  by (cases n) simp_all

lemma reading_bytes:
  assumes "length q = 128" "length v = 4"
  shows "get_bytes q 7 (reading_width n) = Done (take (reading_width n) (drop 7 q))"
    "put_bytes v 0 (take (reading_width n) (drop 7 q)) = Done (take (reading_width n) (drop 7 q) @ drop (reading_width n) v)"
    "reading_width n + (4 - reading_width n) = 4" "min 121 (reading_width n) = reading_width n"
  using assms reading_width_le [of n] by (simp_all add: min_absorb2)

lemma pf_response_quiet:
  assumes "pldm_ok p" "pf_wf L p" "claimed L p" "cmd = PLDM_GET_PDR \<Longrightarrow> L \<le> 116"
  shows "returns (processPlatformResponse cmd i p) (\<lambda>(r, p'). pf_wf L p' \<and> quiet p p' \<and> pf_keeps cmd p p')"
proof -
  obtain rd where rd: "mI2cPldmRead p = Some rd" "length (respPayload rd) = 128"
    using assms(1) by (auto simp: pldm_ok_def PAYLOAD_SIZE_def)
  have v: "length (value_bytes (mSensorReading p)) = 4"
    using assms(2) by (simp add: pf_wf_def)
  have "unat (le16 (respPayload rd ! 10) (respPayload rd ! 11)) \<le> 116" if "cmd = PLDM_GET_PDR"
    using assms(3,4) that rd(1) by (force simp: claimed_def)
  then show ?thesis
    using assms(1,2) rd
    by (auto simp: processPlatformResponse_def pfPdrRepoRespPayload_def pfPdrRespPayload_def pfSensorReadingRespPayload_def Let_def
        reading_bytes [OF rd(2) v] pf_wf_def quiet_def pf_keeps_def appendPdrData_def pf_cmds split: option.splits)
qed

text \<open>The rounds of the platform commands as instances of the exchange.\<close>

interpretation pf: pldm_exchange "pfFillPayload cmd n" "processPlatformResponse cmd"
  "\<lambda>p. n \<le> PAYLOAD_SIZE \<and> (cmd = PLDM_GET_PDR \<longrightarrow> L \<le> 116) \<and> pf_wf L p \<and> pf_keeps cmd p0 p" "claimed L" "\<lambda>_. True"
  for cmd n L and p0 :: "('d, 'a) pldm_pf_scheme"
proof unfold_locales
  fix i sz ok and p p' :: "('d, 'a) pldm_pf_scheme"
  let ?I = "\<lambda>p. n \<le> PAYLOAD_SIZE \<and> (cmd = PLDM_GET_PDR \<longrightarrow> L \<le> 116) \<and> pf_wf L p \<and> pf_keeps cmd p0 p"
  assume p: "?I p" "pldm_ok p"
  have pay: "?I p' \<and> quiet p p'" if "pfFillPayload cmd n p = Done (r, p')" "quiet p p'" for r p'
    using p that(2) pf_fill_only [OF that(1)] by (auto simp: pf_wf_def pf_keeps_def)
  show "returns (pfFillPayload cmd n p) (\<lambda>(r, p'). ?I p' \<and> quiet p p')"
    using pf_fill_quiet [OF p(2), of n cmd] p(1) pay by (auto simp: returns_iff)
  show "returns (processPlatformResponse cmd i p) (\<lambda>(r, p'). ?I p' \<and> quiet p p' \<and> (r = PLDM_SUCCESS \<longrightarrow> True))" if "claimed L p"
    using p pf_response_quiet [OF p(2) _ that, of cmd i] pf_keeps_trans by (fastforce elim!: returns_mono)
  show "?I p'" if "pldm_send sz p = Done (ok, p')"
    using p pf_wf_sent [OF _ _ that] pldm_send_only [OF that] by (auto simp: pf_keeps_def)
  show "?I p' \<and> (ok \<longrightarrow> claimed L p')" if "pldm_receive p = Done (ok, p')"
    using p pf_wf_received [OF _ _ that] pldm_receive_only [OF that] by (auto simp: pf_keeps_def)
qed (simp_all add: pf_wf_def pf_keeps_def)

section \<open>Commands\<close>

text \<open>From \<open>p\<close> to \<open>p'\<close> by rounds of one command, with nothing assumed but \<open>L\<close>.\<close>

definition pf_step :: "nat \<Rightarrow> u8 \<Rightarrow> ('d, 'a) pldm_pf_scheme \<Rightarrow> ('d, 'a) pldm_pf_scheme \<Rightarrow> bool" where
  "pf_step L cmd p p' = (pf_wf L p' \<and> (\<exists>j. pldm_sent p (replicate j (PLDM_PLATFORM_MONITORING, cmd)) p')
     \<and> mSensorInfoList p' = mSensorInfoList p \<and> (records_ok (mPdrs (mPdrManager p)) \<longrightarrow> records_ok (mPdrs (mPdrManager p')))
     \<and> (cmd \<noteq> PLDM_GET_PDR \<longrightarrow> mPdrManager p' = mPdrManager p))"

lemma pf_step_refl: "pldm_ok p \<Longrightarrow> pf_wf L p \<Longrightarrow> pf_step L cmd p p"
  unfolding pf_step_def by (auto intro!: exI [of _ 0] pldm_sent_refl)

lemma pf_step_trans: "pf_step L cmd p p' \<Longrightarrow> pf_step L cmd p' p'' \<Longrightarrow> pf_step L cmd p p''"
  unfolding pf_step_def by (fastforce simp: replicate_add dest: pldm_sent_trans intro: exI [of _ "_ + _"])

lemma pf_step_ok: "pf_step L cmd p p' \<Longrightarrow> pldm_ok p'" "pf_step L cmd p p' \<Longrightarrow> pf_wf L p'"
  by (auto simp: pf_step_def pldm_sent_ok)

lemma finish_records_ok: "records_ok (mPdrs m) \<Longrightarrow> records_ok (mPdrs (finishPdrRecord m))"
  by (auto simp: records_ok_def finishPdrRecord_def Let_def sizeof_pdrPayloadHeader_def)

lemma pf_next_keeps:
  "pldm_sent p cs (snd (pf_next cmd p')) = pldm_sent p cs p'" "pf_wf L (snd (pf_next cmd p')) = pf_wf L p'"
  "mSensorInfoList (snd (pf_next cmd p')) = mSensorInfoList p'"
  "cmd \<noteq> PLDM_GET_PDR \<Longrightarrow> snd (pf_next cmd p') = p'"
  "records_ok (mPdrs (mPdrManager p')) \<Longrightarrow> records_ok (mPdrs (mPdrManager (snd (pf_next cmd p'))))"
  "header_set sz (snd (pf_next cmd p')) = header_set sz p'"
  by (auto simp: pf_next_def Let_def pldm_sent_def pf_wf_def header_set_def commandConstruction_def finish_records_ok)

lemma pf_round_returns:
  assumes "header_set sz p" "pldm_ok p" "pf_wf L p" "cmd = PLDM_GET_PDR \<Longrightarrow> L \<le> 116" "11 \<le> unat sz" "unat sz \<le> 128"
  shows "returns (pf_round cmd sz p) (\<lambda>(res, p'). header_set sz p' \<and> pf_step L cmd p p'
    \<and> res \<in> {None, Some PLDM_ERROR, Some PLDM_SUCCESS} \<and> (cmd \<noteq> PLDM_GET_PDR \<longrightarrow> res \<noteq> None)
    \<and> (\<exists>j\<le>1. pldm_sent p (replicate j (PLDM_PLATFORM_MONITORING, cmd)) p'))"
proof -
  have ty: "PLDM_PLATFORM_MONITORING < PLDM_TYPES_MAX"
    by (simp add: PLDM_PLATFORM_MONITORING_def PLDM_TYPES_MAX_def word_less_nat_alt)
  let ?m = "pldm_command PLDM_PLATFORM_MONITORING cmd sz (pfFillPayload cmd (unat sz)) (processPlatformResponse cmd) p"
  obtain r p1 cs where m: "?m = Done (r, p1)" "pf_wf L p1" "pf_keeps cmd p p1" "pldm_sent p cs p1" "cs = [] \<or> cs = [(PLDM_PLATFORM_MONITORING, cmd)]"
    using pf.command_returns [of "unat sz" cmd L p p PLDM_PLATFORM_MONITORING sz cmd] assms pf_keeps_refl [of cmd p] ty
    by (auto simp: returns_iff PAYLOAD_SIZE_def)
  have "cs = replicate (length cs) (PLDM_PLATFORM_MONITORING, cmd)" "length cs \<le> 1"
    using m(5) by auto
  then have sent: "\<exists>j\<le>1. pldm_sent p (replicate j (PLDM_PLATFORM_MONITORING, cmd)) p1"
    using m(4) by metis
  have hs: "header_set sz p1"
    by (rule header_set_command [OF assms(1) m(1)])
  have "pf_step L cmd p p1" "pf_step L cmd p (snd (pf_next cmd p1))"
    using m(2,3) sent by (auto simp: pf_step_def pf_keeps_def pf_next_keeps)
  moreover have "fst (pf_next cmd p1) \<in> {None, Some PLDM_SUCCESS}" "cmd \<noteq> PLDM_GET_PDR \<Longrightarrow> fst (pf_next cmd p1) \<noteq> None"
    by (auto simp: pf_next_def Let_def)
  moreover have "header_set sz (snd (pf_next cmd p1))" "\<exists>j\<le>1. pldm_sent p (replicate j (PLDM_PLATFORM_MONITORING, cmd)) (snd (pf_next cmd p1))"
    using hs sent by (simp_all add: pf_next_keeps)
  ultimately show ?thesis
    unfolding pf_round_shared [OF assms(1,2)] m(1) obind.simps prod.case
    using hs sent by (cases "pf_next cmd p1") auto
qed

lemma pf_loop_safe:
  assumes "header_set sz p" "pldm_ok p" "pf_wf L p" "cmd = PLDM_GET_PDR \<Longrightarrow> L \<le> 116" "11 \<le> unat sz" "unat sz \<le> 128"
  shows "safe (pf_loop k cmd sz p) (\<lambda>(r, p'). pf_step L cmd p p' \<and> r \<in> {PLDM_ERROR, PLDM_SUCCESS})"
  using assms
proof (induction k arbitrary: p)
  case (Suc k)
  obtain res p1 where r: "pf_round cmd sz p = Done (res, p1)" "header_set sz p1" "pf_step L cmd p p1" "res \<in> {None, Some PLDM_ERROR, Some PLDM_SUCCESS}"
    using pf_round_returns [of sz p L cmd, OF Suc.prems] by (auto simp: returns_iff)
  have "safe (pf_loop k cmd sz p1) (\<lambda>(r, p'). pf_step L cmd p p' \<and> r \<in> {PLDM_ERROR, PLDM_SUCCESS})"
    by (rule safe_mono [OF Suc.IH [OF r(2) pf_step_ok [OF r(3)] Suc.prems(4-6)]]) (use pf_step_trans [OF r(3)] in auto)
  then show ?case
    using r by auto
qed simp

lemma pf_header_keeps:
  assumes "pldm_ok p" "pf_wf L p"
  shows "returns (pf_header sz p) (\<lambda>p'. header_set sz p' \<and> pldm_ok p' \<and> pf_wf L p'
    \<and> (\<forall>cmd q. pf_step L cmd p' q = pf_step L cmd p q) \<and> (\<forall>cs q. pldm_sent p' cs q = pldm_sent p cs q))"
proof -
  obtain p' where p': "pf_header sz p = Done p'"
    using pf_header_step [OF assms(1), of sz "[]"] by blast
  then have "\<exists>w. p' = p\<lparr>mI2cPldmWrite := w\<rparr>" "pldm_ok p'" "pf_wf L p'"
    using pf_header_step [OF assms(1), of sz "[]"] assms(2) by (auto simp: pf_header_def pf_wf_def)
  with p' pf_header_set [OF p'] show ?thesis
    by (auto simp: pf_step_def pldm_sent_def)
qed

lemma pfMonCtrlCmd_safe:
  assumes "pldm_ok p" "pf_wf L p" "cmd = PLDM_GET_PDR \<Longrightarrow> L \<le> 116" "11 \<le> unat sz" "unat sz \<le> 128"
  shows "safe (pfMonCtrlCmd k cmd sz p) (\<lambda>(r, p'). pf_step L cmd p p' \<and> r \<in> {PLDM_ERROR, PLDM_SUCCESS})"
  unfolding pfMonCtrlCmd_def safe_simps(4)
proof (rule safe_mono [OF returns_safe [OF pf_header_keeps [OF assms(1,2), of sz]]])
  fix p'
  assume "header_set sz p' \<and> pldm_ok p' \<and> pf_wf L p' \<and> (\<forall>cmd q. pf_step L cmd p' q = pf_step L cmd p q) \<and> (\<forall>cs q. pldm_sent p' cs q = pldm_sent p cs q)"
  then show "safe (pf_loop k cmd sz p') (\<lambda>(r, p'). pf_step L cmd p p' \<and> r \<in> {PLDM_ERROR, PLDM_SUCCESS})"
    using pf_loop_safe [of sz p' L cmd k] assms(3-5) by simp
qed

lemma pfMonCtrlCmd_returns:
  assumes "pldm_ok p" "pf_wf L p" "cmd \<noteq> PLDM_GET_PDR" "11 \<le> unat sz" "unat sz \<le> 128" "0 < k"
  shows "returns (pfMonCtrlCmd k cmd sz p) (\<lambda>(r, p'). pf_step L cmd p p' \<and> r \<in> {PLDM_ERROR, PLDM_SUCCESS}
    \<and> (\<exists>j\<le>1. pldm_sent p (replicate j (PLDM_PLATFORM_MONITORING, cmd)) p'))"
proof -
  obtain p1 where p1: "pf_header sz p = Done p1" "header_set sz p1" "pldm_ok p1" "pf_wf L p1" "\<And>cmd q. pf_step L cmd p1 q = pf_step L cmd p q"
      "\<And>cs q. pldm_sent p1 cs q = pldm_sent p cs q"
    using pf_header_keeps [OF assms(1,2), of sz] by (auto simp: returns_iff)
  obtain j where "k = Suc j"
    using assms(6) by (cases k) auto
  then show ?thesis
    using pf_round_returns [OF p1(2-4) _ assms(4,5), of cmd] p1(1,5,6) assms(3) by (auto simp: pfMonCtrlCmd_def returns_iff)
qed

text \<open>
  C33. Fetching all the records of a card whose parts claim at most 116 bytes never leaves a buffer, however
  many rounds it takes: what it sends are requests for records, every record kept has at least a header,
  which is that of its bytes, and the sensor readings are untouched.
\<close>

theorem record_fetch_safe:
  assumes "pldm_ok p" "pf_wf 116 p"
  shows "safe (pfGetTotalPdrs rounds p) (\<lambda>(r, p'). pldm_ok p' \<and> records_ok (mPdrs (mPdrManager p')) \<and> mSensorInfoList p' = mSensorInfoList p
    \<and> (\<exists>j. pldm_sent p (replicate j (PLDM_PLATFORM_MONITORING, PLDM_GET_PDR)) p'))"
proof -
  have loop: "safe (pdrs_loop rounds n q) (\<lambda>(r, p'). pf_step 116 PLDM_GET_PDR q p')" if "pldm_ok q" "pf_wf 116 q" for n and q :: "('a, 'b) pldm_pf_scheme"
    using that
  proof (induction n arbitrary: q)
    case (Suc n)
    have "safe (pfMonCtrlCmd rounds PLDM_GET_PDR 25 q) (\<lambda>(r, p'). pf_step 116 PLDM_GET_PDR q p' \<and> r \<in> {PLDM_ERROR, PLDM_SUCCESS})"
      using pfMonCtrlCmd_safe [OF Suc.prems, of PLDM_GET_PDR 25 rounds] by simp
    moreover have "safe (pdrs_loop rounds n q') (\<lambda>(r, p'). pf_step 116 PLDM_GET_PDR q p')" if "pf_step 116 PLDM_GET_PDR q q'" for q'
      by (rule safe_mono [OF Suc.IH [OF pf_step_ok [OF that]]]) (use pf_step_trans [OF that] in auto)
    ultimately show ?case
      by (auto elim!: safe_mono)
  qed (simp add: pf_step_refl)
  define q where "q = p\<lparr>mPdrManager := PdrManager_clear (mPdrManager p),
          pfPdrReq := \<lparr>req_recordHandle = 0, req_dataTransferHandle = 0, transferOpFlag = PLDM_GET_FIRSTPART,
            requestCount = ucast (largestRecordSize (pfPdrRepoInfo p)), req_recordChangeNumber = 0\<rparr>\<rparr>"
  have q: "pldm_ok q" "pf_wf 116 q" "records_ok (mPdrs (mPdrManager q))" "mSensorInfoList q = mSensorInfoList p"
      "\<And>cs p'. pldm_sent q cs p' = pldm_sent p cs p'"
    using assms by (simp_all add: q_def pf_wf_def records_ok_def PdrManager_clear_def pldm_sent_def)
  show ?thesis
    unfolding pfGetTotalPdrs_def q_def [symmetric]
    by (rule safe_mono [OF loop [OF q(1,2)]]) (use q(3-5) in \<open>auto simp: pf_step_def pldm_sent_ok\<close>)
qed

section \<open>The sensors of a unit\<close>

definition sensor_number :: "PdrRecord \<Rightarrow> u16" where
  "sensor_number r = le16 (pdr_data r ! 12) (pdr_data r ! 13)"

lemma sensor_fields:
  assumes "sizeof_pldmNumericSensorValuePdr \<le> length s"
  shows "get_u16 s off_sensorId = Done (le16 (s ! 12) (s ! 13))" "get_u16 s 14 = Done (le16 (s ! 14) (s ! 15))"
    "get_u16 s 16 = Done (le16 (s ! 16) (s ! 17))" "get_u16 s 18 = Done (le16 (s ! 18) (s ! 19))"
    "\<exists>v. convertReading F (Some s) x = Done v"
  using assms by (simp_all add: sensor_layout convertReading_def)

text \<open>One reading: at most one frame, at most one entry of the list, with the number of the sensor.\<close>

lemma sensor_value_returns:
  assumes "pldm_ok p" "pf_wf 65535 p" "sizeof_pldmNumericSensorValuePdr \<le> length s" "0 < rounds"
  shows "returns (pfGetSensorValue F rounds s p) (\<lambda>(r, p'). pf_wf 65535 p' \<and> mPdrManager p' = mPdrManager p
    \<and> (\<exists>j\<le>1. pldm_sent p (replicate j (PLDM_PLATFORM_MONITORING, PLDM_GET_SENSOR_READING)) p')
    \<and> (mSensorInfoList p' = mSensorInfoList p \<or> (\<exists>i. mSensorInfoList p' = mSensorInfoList p @ [i] \<and> info_sensorId i = le16 (s ! 12) (s ! 13))))"
proof -
  note f = sensor_fields [OF assms(3)]
  define q where "q = p\<lparr>pfSensorReadingReq := \<lparr>rd_sensorId = le16 (s ! 12) (s ! 13), rearmEventState = 0\<rparr>\<rparr>"
  have q: "pldm_ok q" "pf_wf 65535 q" "mPdrManager q = mPdrManager p" "mSensorInfoList q = mSensorInfoList p"
      "\<And>cs p'. pldm_sent q cs p' = pldm_sent p cs p'"
    using assms(1,2) by (simp_all add: q_def pf_wf_def pldm_sent_def)
  obtain r p1 where p1: "pfMonCtrlCmd rounds PLDM_GET_SENSOR_READING 15 q = Done (r, p1)" "pf_step 65535 PLDM_GET_SENSOR_READING q p1"
      "\<exists>j\<le>1. pldm_sent q (replicate j (PLDM_PLATFORM_MONITORING, PLDM_GET_SENSOR_READING)) p1"
    using pfMonCtrlCmd_returns [OF q(1,2), of PLDM_GET_SENSOR_READING 15 rounds] assms(4) by (auto simp: returns_iff pf_cmds)
  have p1': "pf_wf 65535 p1" "mPdrManager p1 = mPdrManager p" "mSensorInfoList p1 = mSensorInfoList p"
      "\<exists>j\<le>1. pldm_sent p (replicate j (PLDM_PLATFORM_MONITORING, PLDM_GET_SENSOR_READING)) p1"
    using p1(2,3) q(3-5) by (auto simp: pf_step_def pf_cmds)
  obtain v where v: "convertReading F (Some s) (mSensorReading p1) = Done v"
    using f(5) by blast
  have add: "pf_wf 65535 (p1\<lparr>mSensorInfoList := l\<rparr>)" "pldm_sent p cs (p1\<lparr>mSensorInfoList := l\<rparr>) = pldm_sent p cs p1" for l cs
    using p1'(1) by (simp_all add: pf_wf_def pldm_sent_def)
  show ?thesis
    unfolding pfGetSensorValue_def f(1) obind.simps q_def [symmetric] p1(1) prod.case v
    using p1' add f(2-4) by (cases v) simp_all
qed

definition unit_step :: "nat list \<Rightarrow> ('d, 'a) pldm_pf_scheme \<Rightarrow> ('d, 'a) pldm_pf_scheme \<Rightarrow> bool" where
  "unit_step is p p' = (pf_wf 65535 p' \<and> mPdrManager p' = mPdrManager p
     \<and> (\<exists>j\<le>length is. pldm_sent p (replicate j (PLDM_PLATFORM_MONITORING, PLDM_GET_SENSOR_READING)) p')
     \<and> (\<exists>new. mSensorInfoList p' = mSensorInfoList p @ new
          \<and> subseq (map info_sensorId new) (map (\<lambda>i. sensor_number (mPdrs (mPdrManager p) ! i)) is)))"


lemma unit_step_refl: "pldm_ok p \<Longrightarrow> pf_wf 65535 p \<Longrightarrow> unit_step is p p"
  unfolding unit_step_def by (auto intro!: exI [of _ 0] pldm_sent_refl)

lemma unit_step_Cons:
  assumes "pf_wf 65535 q" "mPdrManager q = mPdrManager p"
    and "\<exists>j\<le>1. pldm_sent p (replicate j (PLDM_PLATFORM_MONITORING, PLDM_GET_SENSOR_READING)) q"
    and "mSensorInfoList q = mSensorInfoList p \<or> (\<exists>x. mSensorInfoList q = mSensorInfoList p @ [x] \<and> info_sensorId x = sensor_number (mPdrs (mPdrManager p) ! i))"
    and "unit_step is q p'"
  shows "unit_step (i # is) p p'"
proof -
  obtain j k where "j \<le> 1" "pldm_sent p (replicate j (PLDM_PLATFORM_MONITORING, PLDM_GET_SENSOR_READING)) q"
      "k \<le> length is" "pldm_sent q (replicate k (PLDM_PLATFORM_MONITORING, PLDM_GET_SENSOR_READING)) p'"
    using assms(3,5) by (auto simp: unit_step_def)
  then have "\<exists>j\<le>length (i # is). pldm_sent p (replicate j (PLDM_PLATFORM_MONITORING, PLDM_GET_SENSOR_READING)) p'"
    by (intro exI [of _ "j + k"]) (auto simp: replicate_add dest: pldm_sent_trans)
  moreover obtain new where "mSensorInfoList p' = mSensorInfoList q @ new"
      "subseq (map info_sensorId new) (map (\<lambda>i. sensor_number (mPdrs (mPdrManager p) ! i)) is)"
    using assms(2,5) by (auto simp: unit_step_def)
  then have "\<exists>new. mSensorInfoList p' = mSensorInfoList p @ new
      \<and> subseq (map info_sensorId new) (map (\<lambda>i. sensor_number (mPdrs (mPdrManager p) ! i)) (i # is))"
    using assms(4) by auto
  ultimately show ?thesis
    using assms(1,2,5) by (simp add: unit_step_def)
qed

lemma sensors_loop_returns:
  assumes "pldm_ok p" "pf_wf 65535 p" "0 < rounds" "\<forall>i\<in>set is. i < length (mPdrs (mPdrManager p)) \<and> numeric_sensor (mPdrs (mPdrManager p) ! i)"
  shows "returns (sensors_loop F rounds is p) (\<lambda>(r, p'). r = PLDM_SUCCESS \<and> unit_step is p p')"
  using assms
proof (induction "is" arbitrary: p)
  case (Cons i js)
  let ?s = "pdr_data (mPdrs (mPdrManager p) ! i)"
  obtain r q where q: "pfGetSensorValue F rounds ?s p = Done (r, q)" "pf_wf 65535 q" "mPdrManager q = mPdrManager p"
      "\<exists>j\<le>1. pldm_sent p (replicate j (PLDM_PLATFORM_MONITORING, PLDM_GET_SENSOR_READING)) q"
      "mSensorInfoList q = mSensorInfoList p \<or> (\<exists>x. mSensorInfoList q = mSensorInfoList p @ [x] \<and> info_sensorId x = sensor_number (mPdrs (mPdrManager p) ! i))"
    using sensor_value_returns [OF Cons.prems(1,2) _ Cons.prems(3), of ?s F] Cons.prems(4)
    by (auto simp: returns_iff numeric_sensor_def sensor_number_def)
  have "pldm_ok q"
    using q(4) pldm_sent_ok by blast
  then have "returns (sensors_loop F rounds js q) (\<lambda>(r, p'). r = PLDM_SUCCESS \<and> unit_step js q p')"
    using Cons.prems q by (intro Cons.IH) auto
  then show ?case
    using q(1) Cons.prems(4) unit_step_Cons [OF q(2-5)] by (auto elim!: returns_mono)
qed (simp add: unit_step_refl)

text \<open>
  C34. Querying the sensors of a unit returns whatever the card answers: the records are read within their
  bounds, at most one reading is requested of each sensor of the unit and nothing else is sent, and what is
  added to the list of readings are readings of those sensors in their order. A unit without sensors is an error.
\<close>

theorem unit_query_returns:
  assumes "pldm_ok p" "pf_wf 65535 p" "0 < rounds"
  shows "returns (obind (buildSensorCache (mPdrManager p)) (\<lambda>m. pfGetSensorValuesByUnit F rounds u (p\<lparr>mPdrManager := m\<rparr>)))
    (\<lambda>(r, p'). let is = (if u \<in> cached_units then sensors_of u 0 (mPdrs (mPdrManager p)) else []) in
      pldm_ok p' \<and> mPdrs (mPdrManager p') = mPdrs (mPdrManager p) \<and> r = (if is = [] then PLDM_ERROR else PLDM_SUCCESS)
      \<and> (\<exists>j\<le>length is. pldm_sent p (replicate j (PLDM_PLATFORM_MONITORING, PLDM_GET_SENSOR_READING)) p')
      \<and> (\<exists>new. mSensorInfoList p' = mSensorInfoList p @ new
           \<and> subseq (map info_sensorId new) (map (\<lambda>i. sensor_number (mPdrs (mPdrManager p) ! i)) is)))"
proof -
  obtain m where m: "buildSensorCache (mPdrManager p) = Done m" "mPdrs m = mPdrs (mPdrManager p)"
      "getSensorRecords m u = (if u \<in> cached_units then sensors_of u 0 (mPdrs (mPdrManager p)) else [])"
    using cache_built [of "mPdrManager p"] by blast
  let ?is = "getSensorRecords m u" and ?p = "p\<lparr>mPdrManager := m\<rparr>"
  have p: "pldm_ok ?p" "pf_wf 65535 ?p" "\<And>cs p'. pldm_sent ?p cs p' = pldm_sent p cs p'"
    using assms by (simp_all add: pf_wf_def pldm_sent_def)
  have "\<forall>i\<in>set ?is. i < length (mPdrs m) \<and> numeric_sensor (mPdrs m ! i)"
    using m(2,3) by (auto simp: sensors_of_def)
  then have "returns (sensors_loop F rounds ?is ?p) (\<lambda>(r, p'). r = PLDM_SUCCESS \<and> unit_step ?is ?p p')"
    using sensors_loop_returns [OF p(1,2) assms(3)] by simp
  then show ?thesis
    unfolding m(1) obind.simps m(3) [symmetric] Let_def
    using m(2) p(1,3) pldm_sent_refl [OF assms(1)]
    by (auto simp: pfGetSensorValuesByUnit_def unit_step_def pldm_sent_ok elim!: returns_mono)
qed

end
