(* ===== verification/Amc_File.thy ===== *)
theory Amc_File
  imports Amc_PfSafe
begin

text \<open>
  File transfer over PLDM (\<^verbatim>\<open>pldm_file_transfer.cpp\<close>): reassembling a response from its MCTP packets, the
  commands to open, close and read a file, and reading a whole file in chunks.
\<close>

section \<open>Data\<close>

definition MAX_NUM_RETRIES :: nat where "MAX_NUM_RETRIES = 3"
definition PLDM_FT_CMD_BASE_SIZE :: u8 where "PLDM_FT_CMD_BASE_SIZE = 12"
definition PLDM_FT_CMDCODE_DF_OPEN :: u8 where "PLDM_FT_CMDCODE_DF_OPEN = 0x01"
definition PLDM_FT_CMDCODE_DF_CLOSE :: u8 where "PLDM_FT_CMDCODE_DF_CLOSE = 0x02"
definition PLDM_FT_CMDCODE_DF_HEARTBEAT :: u8 where "PLDM_FT_CMDCODE_DF_HEARTBEAT = 0x03"
definition PLDM_FT_CMDCODE_DF_PROPERTIES :: u8 where "PLDM_FT_CMDCODE_DF_PROPERTIES = 0x10"
definition PLDM_FT_CMDCODE_DF_GET_FILE_ATTRIBUTE :: u8 where "PLDM_FT_CMDCODE_DF_GET_FILE_ATTRIBUTE = 0x11"
definition PLDM_FT_CMDCODE_DF_SET_FILE_ATTRIBUTE :: u8 where "PLDM_FT_CMDCODE_DF_SET_FILE_ATTRIBUTE = 0x12"
definition PLDM_FT_CMDCODE_DF_READ :: u8 where "PLDM_FT_CMDCODE_DF_READ = 0x20"
definition PLDM_FT_CMDCODE_DF_FIFO_SEND :: u8 where "PLDM_FT_CMDCODE_DF_FIFO_SEND = 0x21"
definition PLDM_MULTIPART_RECEIVE :: u8 where "PLDM_MULTIPART_RECEIVE = 0x09"
definition PLDM_XFER_FIRST_PART :: u8 where "PLDM_XFER_FIRST_PART = 0x00"
definition PLDM_XFER_NEXT_PART :: u8 where "PLDM_XFER_NEXT_PART = 0x01"

lemmas ft_cmds = PLDM_FT_CMDCODE_DF_OPEN_def PLDM_FT_CMDCODE_DF_CLOSE_def PLDM_FT_CMDCODE_DF_HEARTBEAT_def
  PLDM_FT_CMDCODE_DF_PROPERTIES_def PLDM_FT_CMDCODE_DF_GET_FILE_ATTRIBUTE_def PLDM_FT_CMDCODE_DF_SET_FILE_ATTRIBUTE_def
  PLDM_FT_CMDCODE_DF_READ_def PLDM_FT_CMDCODE_DF_FIFO_SEND_def PLDM_MULTIPART_RECEIVE_def

record pldm_file_df_open_req =
  open_fileIdentifier :: u16
  open_fileAttribute :: u16

record pldm_file_df_open_resp =
  open_completionCode :: u8
  open_fileDescriptor :: u16

record pldm_file_df_close_req =
  close_fileDescriptor :: u16
  dfCloseOptions :: u16

record pldm_file_df_heartbeat_req =
  beat_fileDescriptor :: u16
  requesterMaxInterval :: u32

record pldm_file_df_heartbeat_resp =
  beat_completionCode :: u8
  responderMaxInterval :: u32

record pldm_file_df_read_req =
  read_fileDescriptor :: u16
  read_offset :: u32
  read_length :: u32

record pldm_file_df_read_resp =
  read_completionCode :: u8
  read_dataLength :: u32
  read_data :: "u8 list"

record pldm_base_multipart_receive_req =
  mp_pldmType :: u8
  transferOperation :: u8
  transferContext :: u32
  mp_dataTransferHandle :: u32
  requestedSectionOffset :: u32
  requestedSectionLengthBytes :: u32

record pldm_base_multipart_receive_resp =
  mp_completionCode :: u8
  mp_transferFlag :: u8
  nextDataTransferHandle_mp :: u32
  dataLengthBytes :: u32

record 'd pldm_ft = "'d pldm_pf" +
  mDfOpenReq :: pldm_file_df_open_req
  mDfOpenResp :: pldm_file_df_open_resp
  mDfCloseReq :: pldm_file_df_close_req
  mDfCloseResp :: u8
  mDfHeartbeatReq :: pldm_file_df_heartbeat_req
  mDfHeartbeatResp :: pldm_file_df_heartbeat_resp
  mDfReadReq :: pldm_file_df_read_req
  mDfReadResp :: pldm_file_df_read_resp
  mMultipartReceiveReq :: pldm_base_multipart_receive_req
  mMultipartReceiveResp :: pldm_base_multipart_receive_resp
  mMultipartReceiveData :: "u8 list"
  mRxAssembledFrame :: "u8 list"
  mRxAssembledPayload :: "u8 list"

section \<open>Reassembling a response\<close>

text \<open>Reading one packet into the zeroed local frame, with two more tries.\<close>

primrec rx_try :: "nat \<Rightarrow> u8 list \<Rightarrow> i2c_interface \<Rightarrow> (bool \<times> u8 list \<times> i2c_interface) outcome" where
  "rx_try 0 frame d = Done (False, frame, d)"
| "rx_try (Suc k) frame d = obind (readAmc frame 1 PLDM_MAX_RESPONSE_SIZE d) (\<lambda>(ok, frame, d).
     if ok then Done (True, frame, d) else rx_try k frame d)"

definition sizeof_i2cdata :: nat where "sizeof_i2cdata = 140"
definition mctpFirstPacketExtraBytes :: nat where "mctpFirstPacketExtraBytes = 3"
definition mctpContinuationHeaderBytes :: nat where "mctpContinuationHeaderBytes = 8"
definition mctpContinuationTailAdjust :: nat where "mctpContinuationTailAdjust = 5"
definition maxAssembledFrameBytes :: nat where "maxAssembledFrameBytes = 8192"

lemmas rx_sizes = sizeof_i2cdata_def mctpFirstPacketExtraBytes_def mctpContinuationHeaderBytes_def mctpContinuationTailAdjust_def
  maxAssembledFrameBytes_def

record rx_state =
  asm :: "u8 list"
  expectedSeq :: u8
  gotSomPacket :: bool

text \<open>
  What one packet does to the frame assembled so far: an error, or the new state and whether the loop is left.
  The first component of a packet that is a message of its own is copied to the read buffer right away.
\<close>

definition continue_asm :: "u8 list \<Rightarrow> u8 \<Rightarrow> u8 \<Rightarrow> rx_state \<Rightarrow> rx_state option outcome" where
  "continue_asm frame bc sq s =
     (if \<not> gotSomPacket s then Done None
      else if sq \<noteq> expectedSeq s then Done None
      else if unat bc < mctpContinuationTailAdjust then Done None
      else let fragmentLen = unat bc - mctpContinuationTailAdjust in
        if maxAssembledFrameBytes < length (asm s) + fragmentLen then Done None
        else obind (get_bytes frame mctpContinuationHeaderBytes fragmentLen) (\<lambda>f.
          Done (Some (s\<lparr>expectedSeq := (expectedSeq s + 1) AND 3, asm := asm s @ f\<rparr>))))"

definition rx_packet :: "u8 list \<Rightarrow> rx_state \<Rightarrow> (bool \<times> rx_state) option outcome" where
  "rx_packet frame s =
     (let h = mctp_of_bytes frame; sm = (som h = 1); em = (eom h = 1); sq = ucast (packSeq h) AND 3;
          n = unat (byteCount h) + mctpFirstPacketExtraBytes in
      if mctp_cmdCode h \<noteq> MCTP_CMD_CODE then Done None
      else if sm \<and> em then
        if maxAssembledFrameBytes < n then Done None
        else obind (get_bytes frame 0 n) (\<lambda>f. Done (Some (True, s\<lparr>asm := f\<rparr>)))
      else if sm then
        if n = 0 \<or> maxAssembledFrameBytes < n then Done None
        else obind (get_bytes frame 0 n) (\<lambda>f. Done (Some (False, s\<lparr>asm := f, gotSomPacket := True, expectedSeq := (sq + 1) AND 3\<rparr>)))
      else obind (continue_asm frame (byteCount h) sq s) (\<lambda>s. Done (map_option (Pair em) s)))"

primrec rx_loop :: "nat \<Rightarrow> rx_state \<Rightarrow> i2cdata \<Rightarrow> i2c_interface \<Rightarrow> (bool \<times> rx_state \<times> i2cdata \<times> i2c_interface) outcome" where
  "rx_loop 0 s rd d = Stuck"
| "rx_loop (Suc k) s rd d =
     obind (rx_try MAX_NUM_RETRIES (replicate sizeof_i2cdata 0) d) (\<lambda>(ok, frame, d).
       if \<not> ok then Done (False, s, rd, d)
       else obind (rx_packet frame s) (\<lambda>res. case res of
         None \<Rightarrow> Done (False, s, rd, d)
       | Some (True, s) \<Rightarrow>
           Done (True, s, if som (mctp_of_bytes frame) = 1 then i2cdata_of_bytes frame else rd, d)
       | Some (False, s) \<Rightarrow> rx_loop k s rd d))"

text \<open>The read buffer after the frame is complete: its start, with the header of a single packet.\<close>

definition sizeof_pointer :: nat where "sizeof_pointer = 8"

definition rx_buffer :: "u8 list \<Rightarrow> i2cdata" where
  "rx_buffer frame =
     (let n = min (length frame) sizeof_i2cdata; rd = i2cdata_of_bytes (take n frame @ replicate (sizeof_i2cdata - n) 0);
          bc = (if mctpFirstPacketExtraBytes < length frame then length frame - mctpFirstPacketExtraBytes else 0) in
      rd\<lparr>pldmSmbusHdr := (pldmSmbusHdr rd)\<lparr>destSlaveAddr := ucast MCTP_SRC_SLAVE_ADDR, destSlaveAddrB0 := 1, som := 1, eom := 1,
         packSeq := 0, byteCount := word_of_nat (min bc (sizeof_pointer - mctpFirstPacketExtraBytes))\<rparr>\<rparr>)"

definition rxMultiPartData :: "nat \<Rightarrow> ('d, 'a) pldm_ft_scheme \<Rightarrow> (u8 \<times> ('d, 'a) pldm_ft_scheme) outcome" where
  "rxMultiPartData rounds p =
     (case (i2cobj p, mI2cPldmRead p) of
        (Some d, Some rd) \<Rightarrow>
          obind (rx_loop rounds \<lparr>asm = [], expectedSeq = 0, gotSomPacket = False\<rparr> rd d) (\<lambda>(ok, s, rd, d).
            let p = p\<lparr>i2cobj := Some d, mI2cPldmRead := Some rd, mRxAssembledFrame := asm s, mRxAssembledPayload := []\<rparr> in
            if \<not> ok then Done (PLDM_ERROR, p)
            else if asm s = [] then Done (PLDM_ERROR, p)
            else if length (asm s) < 12 + 1 then Done (PLDM_ERROR, p)
            else Done (PLDM_SUCCESS, p\<lparr>mRxAssembledPayload := drop 12 (asm s), mI2cPldmRead := Some (rx_buffer (asm s))\<rparr>))
      | _ \<Rightarrow> Done (PLDM_ERROR, p))"

section \<open>Requests\<close>

definition multipart_req_bytes :: "pldm_base_multipart_receive_req \<Rightarrow> u8 list" where
  "multipart_req_bytes r = [mp_pldmType r, transferOperation r] @ bytes_of_u32 (transferContext r) @ bytes_of_u32 (mp_dataTransferHandle r)
     @ bytes_of_u32 (requestedSectionOffset r) @ bytes_of_u32 (requestedSectionLengthBytes r)"

text \<open>The bytes of the request, \<open>None\<close> for a command without one; the CRC follows them.\<close>

definition ft_request :: "u8 \<Rightarrow> ('d, 'a) pldm_ft_scheme \<Rightarrow> u8 list option" where
  "ft_request cmd p =
     (if cmd = PLDM_FT_CMDCODE_DF_OPEN then
        Some (bytes_of_u16 (open_fileIdentifier (mDfOpenReq p)) @ bytes_of_u16 (open_fileAttribute (mDfOpenReq p)))
      else if cmd = PLDM_FT_CMDCODE_DF_CLOSE then
        Some (bytes_of_u16 (close_fileDescriptor (mDfCloseReq p)) @ bytes_of_u16 (dfCloseOptions (mDfCloseReq p)))
      else if cmd = PLDM_FT_CMDCODE_DF_HEARTBEAT then
        Some (bytes_of_u16 (beat_fileDescriptor (mDfHeartbeatReq p)) @ bytes_of_u32 (requesterMaxInterval (mDfHeartbeatReq p)))
      else if cmd = PLDM_FT_CMDCODE_DF_PROPERTIES then Some (replicate 4 0)
      else if cmd = PLDM_FT_CMDCODE_DF_READ then
        Some (bytes_of_u16 (read_fileDescriptor (mDfReadReq p)) @ bytes_of_u32 (read_offset (mDfReadReq p)) @ bytes_of_u32 (read_length (mDfReadReq p)))
      else if cmd = PLDM_MULTIPART_RECEIVE then Some (multipart_req_bytes (mMultipartReceiveReq p))
      else None)"

definition PldmFillFileTxPayload :: "u8 \<Rightarrow> u8 \<Rightarrow> ('d, 'a) pldm_ft_scheme \<Rightarrow> (u8 \<times> ('d, 'a) pldm_ft_scheme) outcome" where
  "PldmFillFileTxPayload cmd sz p =
     (if mI2cPldmWrite p = None then Done (PLDM_ERROR, p)
      else if sz < PLDM_FT_CMD_BASE_SIZE then Done (PLDM_ERROR, p)
      else obind (fill_payload (\<lambda>q. clear_payload q (unat sz)) p) (\<lambda>p. case ft_request cmd p of
        None \<Rightarrow> Done (PLDM_ERROR, p)
      | Some req \<Rightarrow> obind (fill_payload (\<lambda>q. obind (put_bytes q 0 req) (\<lambda>q. put_crc q (length req) (length req))) p) (\<lambda>p.
          Done (PLDM_SUCCESS, p))))"

section \<open>Responses\<close>

definition handleDfOpenResp :: "u8 list \<Rightarrow> ('d, 'a) pldm_ft_scheme \<Rightarrow> (u8 \<times> ('d, 'a) pldm_ft_scheme) outcome" where
  "handleDfOpenResp q p =
     (if length q < 3 then Done (PLDM_ERROR, p)
      else obind (get_byte q 0) (\<lambda>code. obind (get_u16 q 1) (\<lambda>fd.
        let p = p\<lparr>mDfOpenResp := \<lparr>open_completionCode = code, open_fileDescriptor = fd\<rparr>\<rparr> in
        Done (if code \<noteq> PLDM_SUCCESS then PLDM_ERROR else PLDM_SUCCESS, p))))"

definition handleDfCloseResp :: "u8 list \<Rightarrow> ('d, 'a) pldm_ft_scheme \<Rightarrow> (u8 \<times> ('d, 'a) pldm_ft_scheme) outcome" where
  "handleDfCloseResp q p =
     (if length q < 1 then Done (PLDM_ERROR, p)
      else obind (get_byte q 0) (\<lambda>code. Done (PLDM_SUCCESS, p\<lparr>mDfCloseResp := code\<rparr>)))"

definition handleDfHeartbeatResp :: "u8 list \<Rightarrow> ('d, 'a) pldm_ft_scheme \<Rightarrow> (u8 \<times> ('d, 'a) pldm_ft_scheme) outcome" where
  "handleDfHeartbeatResp q p =
     (if length q < 5 then Done (PLDM_ERROR, p)
      else obind (get_byte q 0) (\<lambda>code. obind (get_u32 q 1) (\<lambda>i.
        Done (PLDM_SUCCESS, p\<lparr>mDfHeartbeatResp := \<lparr>beat_completionCode = code, responderMaxInterval = i\<rparr>\<rparr>))))"

definition handleDfReadResp :: "u8 list \<Rightarrow> nat \<Rightarrow> ('d, 'a) pldm_ft_scheme \<Rightarrow> (u8 \<times> ('d, 'a) pldm_ft_scheme) outcome" where
  "handleDfReadResp q totalFrameSize p =
     (if length q < 5 then Done (PLDM_ERROR, p)
      else obind (get_byte q 0) (\<lambda>code. obind (get_u32 q 1) (\<lambda>len.
        let p = p\<lparr>mDfReadResp := (mDfReadResp p)\<lparr>read_completionCode := code, read_dataLength := len\<rparr>\<rparr> in
        if totalFrameSize < 12 + 5 then Done (PLDM_ERROR, p)
        else if 512 < unat len \<or> length q - 5 < unat len then Done (PLDM_ERROR, p)
        else obind (get_bytes q 5 (unat len)) (\<lambda>bs. obind (put_bytes (read_data (mDfReadResp p)) 0 bs) (\<lambda>buf.
          Done (PLDM_SUCCESS, p\<lparr>mDfReadResp := (mDfReadResp p)\<lparr>read_data := buf\<rparr>\<rparr>))))))"

definition handleMultipartReceiveResp :: "u8 list \<Rightarrow> nat \<Rightarrow> ('d, 'a) pldm_ft_scheme \<Rightarrow> (u8 \<times> ('d, 'a) pldm_ft_scheme) outcome" where
  "handleMultipartReceiveResp q totalFrameSize p =
     (if length q < 10 \<or> totalFrameSize < 12 + 10 then Done (PLDM_ERROR, p)
      else obind (get_byte q 0) (\<lambda>code. obind (get_byte q 1) (\<lambda>flag. obind (get_u32 q 2) (\<lambda>next. obind (get_u32 q 6) (\<lambda>len.
        let p = p\<lparr>mMultipartReceiveResp := \<lparr>mp_completionCode = code, mp_transferFlag = flag, nextDataTransferHandle_mp = next,
              dataLengthBytes = len\<rparr>\<rparr> in
        if code = PLDM_ERROR_UNSUPPORTED_PLDM_CMD then
          Done (PLDM_ERROR_UNSUPPORTED_PLDM_CMD, p\<lparr>mMultipartReceiveResp := (mMultipartReceiveResp p)\<lparr>dataLengthBytes := 0\<rparr>,
            mDfReadResp := (mDfReadResp p)\<lparr>read_dataLength := 0\<rparr>\<rparr>)
        else if 512 < unat len \<or> length q - 10 < unat len then Done (PLDM_ERROR, p)
        else obind (get_bytes q 10 (unat len)) (\<lambda>bs. obind (put_bytes (read_data (mDfReadResp p)) 0 bs) (\<lambda>buf.
          Done (PLDM_SUCCESS, p\<lparr>mDfReadResp := (mDfReadResp p)\<lparr>read_data := buf, read_dataLength := len\<rparr>\<rparr>))))))))"

definition pldmFileTransferRespPayload :: "u8 list \<Rightarrow> u8 \<Rightarrow> ('d, 'a) pldm_ft_scheme \<Rightarrow> u8 outcome" where
  "pldmFileTransferRespPayload q cmd p =
     (if mRxAssembledFrame p \<noteq> [] \<and> length (mRxAssembledFrame p) < 12 then Done PLDM_ERROR
      else if mRxAssembledFrame p \<noteq> [] \<and> mRxAssembledFrame p ! 11 \<noteq> cmd then Done PLDM_ERROR
      else if q = [] then Done PLDM_ERROR
      else obind (get_byte q 0) (\<lambda>code.
        if code \<noteq> PLDM_SUCCESS then
          Done (if cmd = PLDM_MULTIPART_RECEIVE \<and> code = PLDM_ERROR_UNSUPPORTED_PLDM_CMD then PLDM_SUCCESS else PLDM_ERROR)
        else obind (the_ptr (mI2cPldmRead p)) (\<lambda>rd.
          if cmd \<noteq> PLDM_MULTIPART_RECEIVE \<and> (som (pldmSmbusHdr rd) \<noteq> 1 \<or> eom (pldmSmbusHdr rd) \<noteq> 1) then Done PLDM_ERROR
          else Done PLDM_SUCCESS)))"

definition pldmFileTransferResp :: "u8 \<Rightarrow> ('d, 'a) pldm_ft_scheme \<Rightarrow> (u8 \<times> ('d, 'a) pldm_ft_scheme) outcome" where
  "pldmFileTransferResp cmd p =
     obind (the_ptr (mI2cPldmRead p)) (\<lambda>rd.
     let q = (if mRxAssembledPayload p = [] then respPayload rd else mRxAssembledPayload p);
         totalFrameSize = (if mRxAssembledFrame p = [] then unat (byteCount (pldmSmbusHdr rd)) + 3 else length (mRxAssembledFrame p)) in
     obind (pldmFileTransferRespPayload q cmd p) (\<lambda>ret.
       if ret \<noteq> PLDM_SUCCESS then Done (PLDM_ERROR, p)
       else if cmd = PLDM_FT_CMDCODE_DF_OPEN then handleDfOpenResp q p
       else if cmd = PLDM_FT_CMDCODE_DF_CLOSE then handleDfCloseResp q p
       else if cmd = PLDM_FT_CMDCODE_DF_HEARTBEAT then handleDfHeartbeatResp q p
       else if cmd = PLDM_FT_CMDCODE_DF_READ then handleDfReadResp q totalFrameSize p
       else if cmd = PLDM_MULTIPART_RECEIVE then handleMultipartReceiveResp q totalFrameSize p
       else if cmd \<in> {PLDM_FT_CMDCODE_DF_FIFO_SEND, PLDM_FT_CMDCODE_DF_PROPERTIES, PLDM_FT_CMDCODE_DF_GET_FILE_ATTRIBUTE,
            PLDM_FT_CMDCODE_DF_SET_FILE_ATTRIBUTE} then Done (PLDM_SUCCESS, p)
       else Done (PLDM_ERROR, p)))"

section \<open>Commands\<close>

definition pldmFileTransferCmd :: "nat \<Rightarrow> u8 \<Rightarrow> u8 \<Rightarrow> ('d, 'a) pldm_ft_scheme \<Rightarrow> (u8 \<times> ('d, 'a) pldm_ft_scheme) outcome" where
  "pldmFileTransferCmd rounds cmd sz p =
     (if mI2cPldmRead p = None then Done (PLDM_ERROR, p)
      else case mI2cPldmWrite p of None \<Rightarrow> Done (PLDM_ERROR, p)
      | Some wr \<Rightarrow>
        if sz < PLDM_FT_CMD_BASE_SIZE then Done (PLDM_ERROR, p)
        else let p = next_instance p; typ = (if cmd = PLDM_MULTIPART_RECEIVE then PLDM_MESSAGE_DISCOVERY else PLDM_FILE_TRANSFER) in
          if fst (pldmHdrConstruction (Some (pldmMsgHdr wr)) (pldm_instanceID p) typ cmd 0 1) \<noteq> PLDM_SUCCESS
          then Done (fst (pldmHdrConstruction (Some (pldmMsgHdr wr)) (pldm_instanceID p) typ cmd 0 1),
            p\<lparr>mI2cPldmWrite := Some (pldm_headers typ cmd sz p wr)\<rparr>)
          else obind (PldmFillFileTxPayload cmd sz (p\<lparr>mI2cPldmWrite := Some (pldm_headers typ cmd sz p wr)\<rparr>)) (\<lambda>(ret, p).
            if ret \<noteq> PLDM_SUCCESS then Done (ret, p)
            else obind (pldm_send sz p) (\<lambda>(ok, p).
              if \<not> ok then Done (PLDM_ERROR, p)
              else obind (rxMultiPartData rounds p) (\<lambda>(ret, p).
                if ret \<noteq> PLDM_SUCCESS then Done (ret, p)
                else obind (pldmFileTransferResp cmd p) (\<lambda>(ret, p).
                  if ret \<noteq> PLDM_SUCCESS then Done (ret, p)
                  else Done (PLDM_SUCCESS, p\<lparr>pldm_instanceID := pldm_instanceID p + 1\<rparr>))))))"

text \<open>The descriptor comes back by reference; \<open>fd\<close> is its value before.\<close>

definition pldmDfOpenCommand :: "nat \<Rightarrow> u16 \<Rightarrow> u16 \<Rightarrow> ('d, 'a) pldm_ft_scheme \<Rightarrow> (u8 \<times> u16 \<times> ('d, 'a) pldm_ft_scheme) outcome" where
  "pldmDfOpenCommand rounds fileIdentifier fd p =
     obind (pldmFileTransferCmd rounds PLDM_FT_CMDCODE_DF_OPEN 16
         (p\<lparr>mDfOpenReq := \<lparr>open_fileIdentifier = fileIdentifier, open_fileAttribute = 0\<rparr>\<rparr>)) (\<lambda>(ret, p).
       if ret \<noteq> PLDM_SUCCESS then Done (ret, fd, p) else Done (PLDM_SUCCESS, open_fileDescriptor (mDfOpenResp p), p))"

definition pldmDfCloseCommand :: "nat \<Rightarrow> u16 \<Rightarrow> ('d, 'a) pldm_ft_scheme \<Rightarrow> (u8 \<times> ('d, 'a) pldm_ft_scheme) outcome" where
  "pldmDfCloseCommand rounds fd p =
     pldmFileTransferCmd rounds PLDM_FT_CMDCODE_DF_CLOSE 16 (p\<lparr>mDfCloseReq := \<lparr>close_fileDescriptor = fd, dfCloseOptions = 0\<rparr>\<rparr>)"

section \<open>Reading a file\<close>

definition maxReadChunk :: u32 where "maxReadChunk = 512"

text \<open>The loop: the offset, the object, the fuel.\<close>

primrec multipart_loop :: "nat \<Rightarrow> nat \<Rightarrow> u32 \<Rightarrow> ('d, 'a) pldm_ft_scheme \<Rightarrow> (u8 \<times> ('d, 'a) pldm_ft_scheme) outcome" where
  "multipart_loop rounds 0 currentOffset p = Stuck"
| "multipart_loop rounds (Suc k) currentOffset p =
     obind (pldmFileTransferCmd rounds PLDM_MULTIPART_RECEIVE 30
         (p\<lparr>mMultipartReceiveReq := (mMultipartReceiveReq p)\<lparr>requestedSectionOffset := currentOffset, requestedSectionLengthBytes := maxReadChunk\<rparr>\<rparr>)) (\<lambda>(ret, p).
       if ret \<noteq> PLDM_SUCCESS then Done (ret, p)
       else let r = mMultipartReceiveResp p; n = dataLengthBytes r in
         if maxReadChunk < n then Done (PLDM_ERROR, p)
         else obind (if 0 < n then get_bytes (read_data (mDfReadResp p)) 0 (unat n) else Done []) (\<lambda>bs.
           let p = p\<lparr>mMultipartReceiveData := mMultipartReceiveData p @ bs\<rparr> in
           if mp_completionCode r = PLDM_ERROR_UNSUPPORTED_PLDM_CMD \<or> n = 0 \<or> mp_transferFlag r = PLDM_END
              \<or> mp_transferFlag r = PLDM_START_AND_END \<or> n < maxReadChunk then Done (PLDM_SUCCESS, p)
           else if mp_transferFlag r \<noteq> PLDM_START \<and> mp_transferFlag r \<noteq> PLDM_MIDDLE then Done (PLDM_ERROR, p)
           else multipart_loop rounds k (currentOffset + n)
             (p\<lparr>mMultipartReceiveReq := (mMultipartReceiveReq p)\<lparr>transferOperation := PLDM_XFER_NEXT_PART,
                mp_dataTransferHandle := nextDataTransferHandle_mp r\<rparr>\<rparr>)))"

text \<open>The contents of the file come back by reference; they are assigned on success only.\<close>

definition pldmMultipartReceiveCommand ::
  "nat \<Rightarrow> u16 \<Rightarrow> u8 list \<Rightarrow> ('d, 'a) pldm_ft_scheme \<Rightarrow> (u8 \<times> u8 list \<times> ('d, 'a) pldm_ft_scheme) outcome" where
  "pldmMultipartReceiveCommand rounds fd fileData p =
     obind (multipart_loop rounds rounds 0 (p\<lparr>
         mMultipartReceiveReq := \<lparr>mp_pldmType = PLDM_FILE_TRANSFER, transferOperation = PLDM_XFER_FIRST_PART, transferContext = ucast fd,
           mp_dataTransferHandle = 0, requestedSectionOffset = 0, requestedSectionLengthBytes = 0\<rparr>,
         mMultipartReceiveResp := \<lparr>mp_completionCode = 0, mp_transferFlag = 0, nextDataTransferHandle_mp = 0, dataLengthBytes = 0\<rparr>,
         mMultipartReceiveData := []\<rparr>)) (\<lambda>(ret, p).
       if ret \<noteq> PLDM_SUCCESS then Done (ret, fileData, p) else Done (PLDM_SUCCESS, mMultipartReceiveData p, p))"

primrec file_pdr :: "u16 \<Rightarrow> PdrRecord list \<Rightarrow> PdrRecord option outcome" where
  "file_pdr ident [] = Done None"
| "file_pdr ident (r # rs) =
     (if pdr_type (pdr_header r) \<noteq> PLDM_FILE_DESCRIPTOR_PDR then file_pdr ident rs
      else if length (pdr_data r) < 36 then file_pdr ident rs
      else obind (get_u16 (pdr_data r) 12) (\<lambda>i. if i = ident then Done (Some r) else file_pdr ident rs))"

definition getFilePdrById :: "u16 \<Rightarrow> ('d, 'a) pldm_ft_scheme \<Rightarrow> PdrRecord option outcome" where
  "getFilePdrById ident p = file_pdr ident (mPdrs (mPdrManager p))"

text \<open>Reading and closing an open file: the end of \<open>getFile\<close>.\<close>

definition read_and_close :: "nat \<Rightarrow> u16 \<Rightarrow> ('d, 'a) pldm_ft_scheme \<Rightarrow> (u8 \<times> u8 list \<times> ('d, 'a) pldm_ft_scheme) outcome" where
  "read_and_close rounds fd p =
     obind (pldmMultipartReceiveCommand rounds fd [] p) (\<lambda>(ret, fileData, p).
     obind (pldmDfCloseCommand rounds fd p) (\<lambda>(closeRet, p).
       Done (if closeRet \<noteq> PLDM_SUCCESS \<and> ret = PLDM_SUCCESS then closeRet else ret, fileData, p)))"

definition getFile :: "nat \<Rightarrow> u16 \<Rightarrow> u8 list \<Rightarrow> ('d, 'a) pldm_ft_scheme \<Rightarrow> (u8 \<times> u8 list \<times> ('d, 'a) pldm_ft_scheme) outcome" where
  "getFile rounds filePdrId fileData p =
     obind (pfMonCtrlInitialize rounds p) (\<lambda>(ret, p).
       if ret \<noteq> PLDM_SUCCESS then Done (ret, fileData, p)
       else obind (getFilePdrById filePdrId p) (\<lambda>filePdr. case filePdr of
         None \<Rightarrow> Done (PLDM_ERROR, fileData, p)
       | Some r \<Rightarrow> obind (get_u16 (pdr_data r) 12) (\<lambda>fileIdentifier.
           obind (pldmDfOpenCommand rounds fileIdentifier 0 p) (\<lambda>(ret, fd, p).
             if ret \<noteq> PLDM_SUCCESS then Done (ret, fileData, p) else read_and_close rounds fd p))))"

end
