(* ===== verification/Amc_FileRecv.thy ===== *)
theory Amc_FileRecv
  imports Amc_File
begin

text \<open>
  Reassembling a response inverts cutting it into packets, and what a file transfer command does when the
  response it waits for is delivered.
\<close>

section \<open>Messages and their packets\<close>

text \<open>
  The sender's side, as the specification of the reassembly: a message is cut into bodies, and each body is sent
  behind the seven header bytes that follow the address byte, with the flags of its place and the next number.
\<close>

definition packet :: "u8 list \<Rightarrow> 1 word \<Rightarrow> 1 word \<Rightarrow> 2 word \<Rightarrow> u8 list \<Rightarrow> u8 list" where
  "packet a s e sq body = [MCTP_CMD_CODE, word_of_nat (length body + 5)] @ a @ [bf 7 s OR bf 6 e OR bf 4 sq] @ body"

fun packets :: "u8 list \<Rightarrow> 2 word \<Rightarrow> u8 list list \<Rightarrow> u8 list list" where
  "packets a sq [] = []"
| "packets a sq [b] = [packet a 0 1 sq b]"
| "packets a sq (b # bs) = packet a 0 0 sq b # packets a (sq + 1) bs"

fun message_packets :: "u8 list \<Rightarrow> 2 word \<Rightarrow> u8 list list \<Rightarrow> u8 list list" where
  "message_packets a sq [] = []"
| "message_packets a sq [b] = [packet a 1 1 sq b]"
| "message_packets a sq (b # bs) = packet a 1 0 sq b # packets a (sq + 1) bs"

definition packets_fit :: "u8 list \<Rightarrow> u8 list list \<Rightarrow> bool" where
  "packets_fit a bs = (length a = 4 \<and> (\<forall>b\<in>set bs. length b \<le> 121))"

lemma length_packets [simp]: "length (packets a sq bs) = length bs"
  by (induction a sq bs rule: packets.induct) simp_all

lemma length_message_packets [simp]: "length (message_packets a sq bs) = length bs"
  by (cases "(a, sq, bs)" rule: message_packets.cases) simp_all

text \<open>The local frame after a packet has been read into it.\<close>

definition frame_with :: "u8 list \<Rightarrow> u8 list" where
  "frame_with f = 0 # f @ replicate (139 - length f) 0"

lemma packet_length: "length a = 4 \<Longrightarrow> length (packet a s e sq b) = length b + 7"
  by (simp add: packet_def)

lemma seq_mask: "ucast (x :: 2 word) AND (3 :: u8) = ucast x"
proof -
  have "ucast x AND (3 :: u8) = take_bit 2 (ucast x)"
    by (simp add: take_bit_eq_mask mask_numeral)
  also have "\<dots> = ucast x"
    by (rule bit_word_eqI) (auto simp: bit_simps dest: bit_imp_le_length)
  finally show ?thesis .
qed

lemma seq_next: "(ucast (x :: 2 word) + 1) AND (3 :: u8) = ucast (x + 1)"
proof -
  have "unat x < 4"
    using unsigned_less [of x, where ?'a = nat] by simp
  have "(ucast x + 1) AND (3 :: u8) = take_bit 2 (ucast x + 1)"
    by (simp add: take_bit_eq_mask mask_numeral)
  also have "\<dots> = ucast (x + 1)"
    using \<open>unat x < 4\<close> by (intro word_unat_eq_iff [THEN iffD2]) (simp add: unsigned_take_bit_eq unat_word_ariths unsigned_ucast_eq take_bit_eq_mod mod_mod_cancel)
  finally show ?thesis .
qed

lemma packet_header:
  assumes "length a = 4" "length b \<le> 121"
  shows "mctp_cmdCode (mctp_of_bytes (frame_with (packet a s e sq b))) = MCTP_CMD_CODE"
    "unat (byteCount (mctp_of_bytes (frame_with (packet a s e sq b)))) = length b + 5"
    "som (mctp_of_bytes (frame_with (packet a s e sq b))) = s" "eom (mctp_of_bytes (frame_with (packet a s e sq b))) = e"
    "packSeq (mctp_of_bytes (frame_with (packet a s e sq b))) = sq"
proof -
  have "\<not> bit e (Suc 0)" "\<not> bit sq 2" "\<not> bit sq 3"
    by (auto dest: bit_imp_le_length)
  then have "fld 7 (bf 7 s OR bf 6 e OR bf 4 sq) = s" "fld 6 (bf 7 s OR bf 6 e OR bf 4 sq) = e" "fld 4 (bf 7 s OR bf 6 e OR bf 4 sq) = sq"
    by (auto intro!: bit_word_eqI simp: bit_or_iff bit_bf bit_fld dest: bit_imp_le_length)
  moreover have "unat (word_of_nat (length b + 5) :: u8) = length b + 5"
    by (simp only: unat_of_nat) (use assms(2) in simp)
  ultimately show "mctp_cmdCode (mctp_of_bytes (frame_with (packet a s e sq b))) = MCTP_CMD_CODE"
    "unat (byteCount (mctp_of_bytes (frame_with (packet a s e sq b)))) = length b + 5"
    "som (mctp_of_bytes (frame_with (packet a s e sq b))) = s" "eom (mctp_of_bytes (frame_with (packet a s e sq b))) = e"
    "packSeq (mctp_of_bytes (frame_with (packet a s e sq b))) = sq"
    using assms by (simp_all add: mctp_of_bytes_def frame_with_def packet_def nth_append)
qed

lemma packet_bytes:
  assumes "length a = 4" "length b \<le> 121"
  shows "get_bytes (frame_with (packet a s e sq b)) 0 (8 + length b) = Done (0 # packet a s e sq b)"
    "get_bytes (frame_with (packet a s e sq b)) 8 (length b) = Done b"
proof -
  have f: "frame_with (packet a s e sq b) = (0 # packet a s e sq b) @ replicate (132 - length b) 0"
    using assms(1) by (simp add: frame_with_def packet_length)
  have n: "8 + length b = length (0 # packet a s e sq b)"
    using assms(1) by (simp add: packet_length)
  show "get_bytes (frame_with (packet a s e sq b)) 0 (8 + length b) = Done (0 # packet a s e sq b)"
    unfolding f n by (simp add: get_bytes_def)
  show "get_bytes (frame_with (packet a s e sq b)) 8 (length b) = Done b"
    using assms by (simp add: frame_with_def packet_def)
qed

text \<open>Reading with retries succeeds at once when the card delivers.\<close>

lemma rx_try_delivered:
  assumes "0 \<le> amchandle d" "i2c_rx d (i2c_reads d) = Some f" "length f \<le> 128"
  shows "rx_try MAX_NUM_RETRIES (replicate sizeof_i2cdata 0) d = Done (True, frame_with f, d\<lparr>i2c_reads := Suc (i2c_reads d)\<rparr>)"
  using assms by (simp add: MAX_NUM_RETRIES_def numeral_3_eq_3 readAmc_def frame_with_def sizeof_i2cdata_def PLDM_MAX_RESPONSE_SIZE_def)

section \<open>Reassembly\<close>

definition dev_delivers :: "u8 list list \<Rightarrow> i2c_interface \<Rightarrow> bool" where
  "dev_delivers fs d = (0 \<le> amchandle d \<and> (\<forall>i<length fs. i2c_rx d (i2c_reads d + i) = Some (fs ! i)))"

lemma dev_delivers_Cons:
  assumes "dev_delivers (f # fs) d"
  shows "0 \<le> amchandle d" "i2c_rx d (i2c_reads d) = Some f" "dev_delivers fs (d\<lparr>i2c_reads := Suc (i2c_reads d)\<rparr>)"
proof -
  have all: "i2c_rx d (i2c_reads d + i) = Some ((f # fs) ! i)" if "i < length (f # fs)" for i
    using assms that by (auto simp: dev_delivers_def)
  then show "i2c_rx d (i2c_reads d) = Some f"
    using all [of 0] by simp
  have "i2c_rx d (Suc (i2c_reads d) + i) = Some (fs ! i)" if "i < length fs" for i
    using all [of "Suc i"] that by simp
  then show "0 \<le> amchandle d" "dev_delivers fs (d\<lparr>i2c_reads := Suc (i2c_reads d)\<rparr>)"
    using assms by (simp_all add: dev_delivers_def)
qed

text \<open>One packet of the rest of a message.\<close>

lemma rx_continue:
  assumes "length a = 4" "length b \<le> 121" "gotSomPacket s" "expectedSeq s = ucast sq" "length (asm s) + length b \<le> 8192"
  shows "rx_packet (frame_with (packet a 0 e sq b)) s
    = Done (Some (e = 1, s\<lparr>expectedSeq := ucast (sq + 1), asm := asm s @ b\<rparr>))"
  using packet_header [OF assms(1,2), of 0 e sq] packet_bytes(2) [OF assms(1,2), of 0 e sq] assms(3-5)
  by (simp add: rx_packet_def continue_asm_def Let_def seq_mask seq_next rx_sizes)

lemma rx_loop_packets:
  assumes "dev_delivers (packets a sq bs @ fs) d" "packets_fit a bs" "bs \<noteq> []" "gotSomPacket s" "expectedSeq s = ucast sq"
    "length (asm s) + length (concat bs) \<le> 8192" "length bs \<le> k"
  shows "\<exists>s' d'. rx_loop k s rd d = Done (True, s', rd, d') \<and> asm s' = asm s @ concat bs
    \<and> d' = d\<lparr>i2c_reads := i2c_reads d + length bs\<rparr> \<and> dev_delivers fs d'"
  using assms
proof (induction bs arbitrary: sq s d k)
  case (Cons b bs)
  define e :: "1 word" where "e = (if bs = [] then 1 else 0)"
  have fs: "packets a sq (b # bs) = packet a 0 e sq b # packets a (sq + 1) bs"
    by (cases bs) (simp_all add: e_def)
  note d = dev_delivers_Cons [OF Cons.prems(1) [unfolded fs append_Cons]]
  have b: "length a = 4" "length b \<le> 121"
    using Cons.prems(2) by (simp_all add: packets_fit_def)
  obtain j where k: "k = Suc j" "length bs \<le> j"
    using Cons.prems(7) by (cases k) auto
  have "length (packet a 0 e sq b) \<le> 128"
    using b by (simp add: packet_length)
  then have round: "rx_loop k s rd d = (if bs = [] then
        Done (True, s\<lparr>expectedSeq := ucast (sq + 1), asm := asm s @ b\<rparr>, rd, d\<lparr>i2c_reads := Suc (i2c_reads d)\<rparr>)
      else rx_loop j (s\<lparr>expectedSeq := ucast (sq + 1), asm := asm s @ b\<rparr>) rd (d\<lparr>i2c_reads := Suc (i2c_reads d)\<rparr>))"
    using rx_try_delivered [OF d(1,2)] rx_continue [OF b Cons.prems(4,5), of e] packet_header(3) [OF b, of 0 e sq] Cons.prems(6)
    by (cases "bs = []") (simp_all add: k e_def)
  show ?case
  proof (cases "bs = []")
    case True
    with round d(3) show ?thesis
      by simp
  next
    case False
    then show ?thesis
      using Cons.IH [OF d(3) _ False, of "s\<lparr>expectedSeq := ucast (sq + 1), asm := asm s @ b\<rparr>" j] round Cons.prems k(2)
      by (auto simp: packets_fit_def)
  qed
qed simp

text \<open>The whole frame: the first packet and the bodies of the others.\<close>

definition message_frame :: "u8 list \<Rightarrow> 2 word \<Rightarrow> u8 list list \<Rightarrow> u8 list" where
  "message_frame a sq bs = 0 # packet a 1 (if tl bs = [] then 1 else 0) sq (hd bs) @ concat (tl bs)"

lemma message_frame_drop:
  assumes "length a = 4" "bs \<noteq> []"
  shows "drop (8 + k) (message_frame a sq bs) = drop k (concat bs)"
proof -
  obtain h where "message_frame a sq bs = h @ concat bs" "length h = 8"
    using assms by (cases bs) (simp_all add: message_frame_def packet_def)
  then show ?thesis
    by simp
qed

lemma length_message_frame: "length a = 4 \<Longrightarrow> bs \<noteq> [] \<Longrightarrow> length (message_frame a sq bs) = 8 + length (concat bs)"
  by (cases bs) (simp_all add: message_frame_def packet_length)

lemma rx_loop_message:
  assumes "dev_delivers (message_packets a sq bs @ fs) d" "packets_fit a bs" "bs \<noteq> []" "length (concat bs) \<le> 8184" "length bs \<le> k"
  shows "\<exists>s' rd' d'. rx_loop k \<lparr>asm = [], expectedSeq = 0, gotSomPacket = False\<rparr> rd d = Done (True, s', rd', d')
    \<and> asm s' = message_frame a sq bs \<and> d' = d\<lparr>i2c_reads := i2c_reads d + length bs\<rparr> \<and> dev_delivers fs d'"
proof -
  obtain b cs where bs: "bs = b # cs"
    using assms(3) by (cases bs) auto
  define e :: "1 word" where "e = (if cs = [] then 1 else 0)"
  have fs: "message_packets a sq bs = packet a 1 e sq b # packets a (sq + 1) cs"
    by (cases cs) (simp_all add: e_def bs)
  note d = dev_delivers_Cons [OF assms(1) [unfolded fs append_Cons]]
  have b: "length a = 4" "length b \<le> 121"
    using assms(2) by (simp_all add: packets_fit_def bs)
  obtain j where k: "k = Suc j" "length cs \<le> j"
    using assms(5) bs by (cases k) auto
  let ?s = "\<lparr>asm = 0 # packet a 1 e sq b, expectedSeq = ucast (sq + 1), gotSomPacket = True\<rparr>"
  have "length (packet a 1 e sq b) \<le> 128"
    using b by (simp add: packet_length)
  then have round: "\<exists>rd'. rx_loop k \<lparr>asm = [], expectedSeq = 0, gotSomPacket = False\<rparr> rd d = (if cs = [] then
        Done (True, \<lparr>asm = 0 # packet a 1 e sq b, expectedSeq = 0, gotSomPacket = False\<rparr>, rd', d\<lparr>i2c_reads := Suc (i2c_reads d)\<rparr>)
      else rx_loop j ?s rd (d\<lparr>i2c_reads := Suc (i2c_reads d)\<rparr>))"
    using rx_try_delivered [OF d(1,2)] packet_header [OF b, of 1 e sq] packet_bytes(1) [OF b, of 1 e sq] b(2)
    by (cases "cs = []") (simp_all add: k e_def rx_packet_def Let_def seq_mask seq_next rx_sizes)
  show ?thesis
  proof (cases "cs = []")
    case True
    with round d(3) show ?thesis
      by (auto simp: bs message_frame_def e_def)
  next
    case False
    then show ?thesis
      using rx_loop_packets [OF d(3) _ False, of ?s j rd] round assms(2,4) k(2) bs b(1)
      by (auto simp: packets_fit_def message_frame_def e_def packet_length)
  qed
qed

lemma rx_buffer_payload: "12 \<le> length f \<Longrightarrow> length (respPayload (rx_buffer f)) = 128"
  by (auto simp: rx_buffer_def Let_def sizeof_i2cdata_def)

lemma delivers_dev: "delivers fs p \<Longrightarrow> i2cobj p = Some d \<Longrightarrow> dev_delivers fs d"
  by (simp add: delivers_def dev_delivers_def)

definition received_message :: "u8 list \<Rightarrow> 2 word \<Rightarrow> u8 list list \<Rightarrow> i2c_interface option \<Rightarrow> ('d, 'a) pldm_ft_scheme \<Rightarrow> ('d, 'a) pldm_ft_scheme" where
  "received_message a sq bs d p = p\<lparr>i2cobj := d, mI2cPldmRead := Some (rx_buffer (message_frame a sq bs)),
     mRxAssembledFrame := message_frame a sq bs, mRxAssembledPayload := drop 4 (concat bs)\<rparr>"

lemma message_received:
  assumes "pldm_ok p" "delivers (message_packets a sq bs @ fs) p" "packets_fit a bs" "5 \<le> length (concat bs)" "length (concat bs) \<le> 8184"
    "length bs \<le> rounds"
  shows "\<exists>d. rxMultiPartData rounds p = Done (PLDM_SUCCESS, received_message a sq bs d p)
    \<and> delivers fs (p\<lparr>i2cobj := d\<rparr>) \<and> pldm_ok (received_message a sq bs d p) \<and> frames_sent (received_message a sq bs d p) = frames_sent p"
proof -
  obtain rd wr d where p: "mI2cPldmRead p = Some rd" "mI2cPldmWrite p = Some wr" "i2cobj p = Some d"
    using assms(1) by (elim pldm_okE)
  have bs: "bs \<noteq> []"
    using assms(4) by auto
  obtain s' rd' d' where l: "rx_loop rounds \<lparr>asm = [], expectedSeq = 0, gotSomPacket = False\<rparr> rd d = Done (True, s', rd', d')"
      "asm s' = message_frame a sq bs" "d' = d\<lparr>i2c_reads := i2c_reads d + length bs\<rparr>" "dev_delivers fs d'"
    using rx_loop_message [OF delivers_dev [OF assms(2) p(3)] assms(3) bs assms(5,6)] by blast
  have len: "length (message_frame a sq bs) = 8 + length (concat bs)"
    using assms(3) bs by (simp add: length_message_frame packets_fit_def)
  have "delivers fs (p\<lparr>i2cobj := Some d'\<rparr>)"
    using l(3,4) assms(2) p(3) by (auto simp: delivers_def dev_delivers_def)
  moreover have "drop 12 (message_frame a sq bs) = drop 4 (concat bs)"
    using message_frame_drop [of a bs 4 sq] assms(3) bs by (simp add: packets_fit_def)
  ultimately show ?thesis
    using l p assms(1,4) len rx_buffer_payload [of "message_frame a sq bs"]
    by (intro exI [of _ "Some d'"])
      (auto simp: rxMultiPartData_def Let_def received_message_def pldm_ok_def mctp_ok_def frames_sent_def PAYLOAD_SIZE_def)
qed

text \<open>
  C35. Reassembling a response inverts cutting it into packets: however a message is cut into bodies that fit a
  packet, whatever the number of the first packet, the frame put together is the first packet and the bodies of
  the others in order, and the payload is the message behind its four header bytes. One round per packet is enough.
\<close>

theorem message_reassembled:
  assumes "pldm_ok p" "delivers (message_packets a sq bs @ fs) p" "packets_fit a bs" "5 \<le> length (concat bs)" "length (concat bs) \<le> 8184"
    "length bs \<le> rounds"
  shows "returns (rxMultiPartData rounds p) (\<lambda>(r, p'). r = PLDM_SUCCESS \<and> pldm_ok p' \<and> delivers fs p'
    \<and> drop 8 (mRxAssembledFrame p') = concat bs \<and> mRxAssembledPayload p' = drop 4 (concat bs))"
proof -
  have "bs \<noteq> []" "length a = 4"
    using assms(3,4) by (auto simp: packets_fit_def)
  then have "drop 8 (message_frame a sq bs) = concat bs"
    using message_frame_drop [of a bs 0 sq] by simp
  moreover have "delivers fs (received_message a sq bs d p) = delivers fs (p\<lparr>i2cobj := d\<rparr>)" for d
    by (rule delivers_only) (simp add: received_message_def)
  ultimately show ?thesis
    using message_received [OF assms] by (auto simp: received_message_def)
qed

section \<open>A command whose response is delivered\<close>

lemma ft_request_updates [simp]:
  "ft_request cmd (p\<lparr>mI2cPldmWrite := w\<rparr>) = ft_request cmd p" "ft_request cmd (next_instance p) = ft_request cmd p"
  by (simp_all add: ft_request_def next_instance_def)

lemma length_ft_request: "ft_request cmd p = Some req \<Longrightarrow> length req \<le> 18"
  by (auto simp: ft_request_def multipart_req_bytes_def split: if_splits)

lemma ft_fill_ok:
  assumes "mI2cPldmWrite p = Some wr" "length (respPayload wr) = 128" "12 \<le> unat sz" "unat sz \<le> 128" "ft_request cmd p = Some req"
  shows "\<exists>q. PldmFillFileTxPayload cmd sz p = Done (PLDM_SUCCESS, p\<lparr>mI2cPldmWrite := Some (wr\<lparr>respPayload := q\<rparr>)\<rparr>)
    \<and> length q = 128 \<and> take (length req) q = req"
proof -
  define q where "q = req @ drop (length req) (replicate (unat sz) 0 @ drop (unat sz) (respPayload wr))"
  have q: "length q = 128" "take (length req) q = req"
    using assms(2,4) length_ft_request [OF assms(5)] by (simp_all add: q_def)
  have "\<not> sz < PLDM_FT_CMD_BASE_SIZE"
    using assms(3) by (simp add: PLDM_FT_CMD_BASE_SIZE_def word_less_nat_alt)
  then show ?thesis
    using assms q length_ft_request [OF assms(5)]
    by (intro exI [of _ "q[length req := crc8_of req]"])
      (simp add: PldmFillFileTxPayload_def fill_payload_def clear_payload_def put_crc_def q_def)
qed

definition ft_type :: "u8 \<Rightarrow> u8" where
  "ft_type cmd = (if cmd = PLDM_MULTIPART_RECEIVE then PLDM_MESSAGE_DISCOVERY else PLDM_FILE_TRANSFER)"

lemma construction_fields:
  assumes "unat i \<le> 32" "typ < PLDM_TYPES_MAX"
  shows "\<exists>h'. pldmHdrConstruction (Some h) i typ cmd 0 1 = (PLDM_SUCCESS, Some h') \<and> ucast (cmdType h') = typ \<and> pldm_cmdCode h' = cmd"
  unfolding pldmHdrConstruction_ok [OF assms]
  by (rule exI, rule conjI, rule refl) (simp add: type_bits [OF assms(2)])

text \<open>Up to the request: what is sent, and what is left to do.\<close>

definition ft_receive :: "nat \<Rightarrow> u8 \<Rightarrow> ('d, 'a) pldm_ft_scheme \<Rightarrow> (u8 \<times> ('d, 'a) pldm_ft_scheme) outcome" where
  "ft_receive rounds cmd p = obind (rxMultiPartData rounds p) (\<lambda>(ret, p).
     if ret \<noteq> PLDM_SUCCESS then Done (ret, p)
     else obind (pldmFileTransferResp cmd p) (\<lambda>(ret, p).
       if ret \<noteq> PLDM_SUCCESS then Done (ret, p) else Done (PLDM_SUCCESS, p\<lparr>pldm_instanceID := pldm_instanceID p + 1\<rparr>)))"

lemma ft_command_sent:
  assumes ok: "pldm_ok p" and sz: "12 \<le> unat sz" "unat sz \<le> 128" "length req + 11 \<le> unat sz" and req: "ft_request cmd p = Some req"
  shows "\<exists>w. let p2 = (next_instance p)\<lparr>mI2cPldmWrite := Some w\<rparr>; f = take (unat sz) (drop 1 (i2cdata_bytes w)) in
    pldmFileTransferCmd rounds cmd sz p = obind (pldm_send sz p2) (\<lambda>(ok, p). if \<not> ok then Done (PLDM_ERROR, p) else ft_receive rounds cmd p)
    \<and> pldm_ok p2 \<and> frames_sent p2 = frames_sent p \<and> pldm_frame_id f = (ft_type cmd, cmd) \<and> take (length req) (drop 11 f) = req"
proof -
  note n = next_instance_ok [OF ok]
  let ?p = "next_instance p"
  obtain rd wr where wr: "mI2cPldmRead p = Some rd" "mI2cPldmWrite p = Some wr" "length (respPayload wr) = 128"
    using ok by (auto simp: pldm_ok_def PAYLOAD_SIZE_def)
  have ty: "ft_type cmd < PLDM_TYPES_MAX"
    by (simp add: ft_type_def pldm_types PLDM_TYPES_MAX_def)
  define h where "h = pldm_headers (ft_type cmd) cmd sz ?p wr"
  define p1 where "p1 = ?p\<lparr>mI2cPldmWrite := Some h\<rparr>"
  obtain h0 where h0: "pldmHdrConstruction (Some (pldmMsgHdr wr)) (pldm_instanceID ?p) (ft_type cmd) cmd 0 1 = (PLDM_SUCCESS, Some h0)"
      "ucast (cmdType h0) = ft_type cmd" "pldm_cmdCode h0 = cmd"
    using construction_fields [OF le_trans [OF n(3)] ty] by fastforce
  have hdr: "pldmHdrConstruction (Some (pldmMsgHdr wr)) (pldm_instanceID ?p) (ft_type cmd) cmd 0 1
      = (PLDM_SUCCESS, Some (pldmMsgHdr h))" and fields: "ucast (cmdType (pldmMsgHdr h)) = ft_type cmd" "pldm_cmdCode (pldmMsgHdr h) = cmd"
    using h0 by (simp_all add: h_def pldm_headers_def Let_def)
  obtain q where q: "PldmFillFileTxPayload cmd sz p1 = Done (PLDM_SUCCESS, p1\<lparr>mI2cPldmWrite := Some (h\<lparr>respPayload := q\<rparr>)\<rparr>)"
      "length q = 128" "take (length req) q = req"
    using ft_fill_ok [of p1 h sz cmd req] wr sz req by (auto simp: p1_def h_def pldm_headers_def Let_def)
  define w where "w = h\<lparr>respPayload := q\<rparr>"
  define p2 where "p2 = ?p\<lparr>mI2cPldmWrite := Some w\<rparr>"
  have p2: "pldm_ok p2" "frames_sent p2 = frames_sent p" "p1\<lparr>mI2cPldmWrite := Some w\<rparr> = p2"
    using n wr q(2) by (auto simp: p2_def p1_def w_def pldm_ok_def mctp_ok_def frames_sent_def PAYLOAD_SIZE_def)
  have w: "pldmMsgHdr w = pldmMsgHdr h" "respPayload w = q"
    by (simp_all add: w_def)
  have "pldm_frame_id (take (unat sz) (drop 1 (i2cdata_bytes w))) = (ft_type cmd, cmd)"
    using pldm_frame_fields(1) [of "unat sz" w] sz(1) fields by (simp only: w(1))
  moreover have "take (length req) (drop 11 (take (unat sz) (drop 1 (i2cdata_bytes w)))) = req"
    using q(3) sz(3) w(2) by (simp add: i2cdata_bytes_def drop_take min_absorb1)
  moreover have "\<not> sz < PLDM_FT_CMD_BASE_SIZE"
    using sz(1) by (simp add: PLDM_FT_CMD_BASE_SIZE_def word_less_nat_alt)
  then have "pldmFileTransferCmd rounds cmd sz p = obind (pldm_send sz p2) (\<lambda>(ok, p). if \<not> ok then Done (PLDM_ERROR, p) else ft_receive rounds cmd p)"
    unfolding pldmFileTransferCmd_def Let_def ft_type_def [symmetric] ft_receive_def
    using wr n(5) hdr q(1) p2(3) by (simp add: h_def [symmetric] p1_def [symmetric] w_def [symmetric])
  ultimately show ?thesis
    unfolding Let_def using p2(1,2) by (intro exI [of _ w]) (simp only: p2_def [symmetric] simp_thms)
qed

lemma ft_command_delivered:
  assumes ok: "pldm_ok p" and dev: "delivers (message_packets a sq bs @ fs) p" and fit: "packets_fit a bs"
    and len: "5 \<le> length (concat bs)" "length (concat bs) \<le> 8184" "length bs \<le> rounds"
    and sz: "12 \<le> unat sz" "unat sz \<le> 128" "length req + 11 \<le> unat sz" and req: "ft_request cmd p = Some req"
  shows "\<exists>d w f. let p1 = received_message a sq bs d ((next_instance p)\<lparr>mI2cPldmWrite := w\<rparr>) in
    pldmFileTransferCmd rounds cmd sz p = obind (pldmFileTransferResp cmd p1) (\<lambda>(ret, p).
      if ret \<noteq> PLDM_SUCCESS then Done (ret, p) else Done (PLDM_SUCCESS, p\<lparr>pldm_instanceID := pldm_instanceID p + 1\<rparr>))
    \<and> pldm_ok p1 \<and> 1 \<le> unat (pldm_instanceID p1) \<and> unat (pldm_instanceID p1) \<le> 31 \<and> delivers fs p1
    \<and> frames_sent p1 = frames_sent p @ [f] \<and> pldm_frame_id f = (ft_type cmd, cmd) \<and> take (length req) (drop 11 f) = req"
proof -
  note n = next_instance_ok [OF ok]
  obtain w where w: "let p2 = (next_instance p)\<lparr>mI2cPldmWrite := Some w\<rparr>; f = take (unat sz) (drop 1 (i2cdata_bytes w)) in
    pldmFileTransferCmd rounds cmd sz p = obind (pldm_send sz p2) (\<lambda>(ok, p). if \<not> ok then Done (PLDM_ERROR, p) else ft_receive rounds cmd p)
    \<and> pldm_ok p2 \<and> frames_sent p2 = frames_sent p \<and> pldm_frame_id f = (ft_type cmd, cmd) \<and> take (length req) (drop 11 f) = req"
    using ft_command_sent [OF ok sz req, where rounds = rounds] by (elim exE)
  define p2 where "p2 = (next_instance p)\<lparr>mI2cPldmWrite := Some w\<rparr>"
  define f where "f = take (unat sz) (drop 1 (i2cdata_bytes w))"
  note w = w [unfolded Let_def, folded p2_def f_def]
  have p2: "mI2cPldmWrite p2 = Some w" "delivers (message_packets a sq bs @ fs) p2"
    using dev by (simp_all add: p2_def)
  obtain d where d: "pldm_send sz p2 = Done (True, p2\<lparr>i2cobj := d\<rparr>)" "pldm_ok (p2\<lparr>i2cobj := d\<rparr>)"
      "delivers (message_packets a sq bs @ fs) (p2\<lparr>i2cobj := d\<rparr>)" "frames_sent (p2\<lparr>i2cobj := d\<rparr>) = frames_sent p @ [f]"
    using pldm_send_delivers [OF _ p2 sz(2)] w by (auto simp: f_def)
  obtain d' where r: "rxMultiPartData rounds (p2\<lparr>i2cobj := d\<rparr>) = Done (PLDM_SUCCESS, received_message a sq bs d' (p2\<lparr>i2cobj := d\<rparr>))"
      "delivers fs ((p2\<lparr>i2cobj := d\<rparr>)\<lparr>i2cobj := d'\<rparr>)" "pldm_ok (received_message a sq bs d' (p2\<lparr>i2cobj := d\<rparr>))"
      "frames_sent (received_message a sq bs d' (p2\<lparr>i2cobj := d\<rparr>)) = frames_sent (p2\<lparr>i2cobj := d\<rparr>)"
    using message_received [OF d(2,3) fit len] by blast
  have same: "received_message a sq bs d' (p2\<lparr>i2cobj := d\<rparr>) = received_message a sq bs d' p2"
    by (simp add: received_message_def)
  have "delivers fs (received_message a sq bs d' p2)"
    using r(2) by (simp add: received_message_def delivers_def)
  moreover have "pldm_instanceID (received_message a sq bs d' p2) = pldm_instanceID (next_instance p)"
    by (simp add: received_message_def p2_def)
  ultimately show ?thesis
    unfolding Let_def
    using r w d(1,4) n(2,3)
    by (intro exI [of _ d'] exI [of _ "Some w"] exI [of _ f])
      (simp only: same p2_def [symmetric] simp_thms obind.simps prod.case ft_receive_def if_True if_False not_True_eq_False)
qed

end
