(* ===== verification/Amc_FileRead.thy ===== *)
theory Amc_FileRead
  imports Amc_FileRecv
begin

text \<open>
  Reading a file: the chunks a card delivers are put together in order, and with any card whose packets fit
  the local frame nothing is out of bounds and the file is closed again; a packet that claims more is over-read.
\<close>

section \<open>Reading a file from a card that delivers it\<close>

text \<open>
  A chunk of the file as the card sends it: a message of any fragmentation that carries a successful response,
  the transfer flag, the next handle and the data, and anything behind them.
\<close>

record file_chunk =
  ck_addr :: "u8 list"
  ck_seq :: "2 word"
  ck_bodies :: "u8 list list"
  ck_flag :: u8
  ck_next :: u32
  ck_data :: "u8 list"

definition chunk_payload :: "file_chunk \<Rightarrow> u8 list" where
  "chunk_payload c = [PLDM_SUCCESS, ck_flag c] @ bytes_of_u32 (ck_next c) @ bytes_of_u32 (word_of_nat (length (ck_data c))) @ ck_data c"

definition chunk_ok :: "nat \<Rightarrow> file_chunk \<Rightarrow> bool" where
  "chunk_ok rounds c = (packets_fit (ck_addr c) (ck_bodies c) \<and> length (ck_data c) \<le> 512 \<and> length (ck_bodies c) \<le> rounds
     \<and> length (concat (ck_bodies c)) \<le> 8184 \<and> concat (ck_bodies c) ! 3 = PLDM_MULTIPART_RECEIVE
     \<and> (\<exists>rest. drop 4 (concat (ck_bodies c)) = chunk_payload c @ rest))"

definition chunk_packets :: "file_chunk \<Rightarrow> u8 list list" where
  "chunk_packets c = message_packets (ck_addr c) (ck_seq c) (ck_bodies c)"

definition chunk_last :: "file_chunk \<Rightarrow> bool" where
  "chunk_last c = (length (ck_data c) < 512 \<or> ck_flag c = PLDM_END \<or> ck_flag c = PLDM_START_AND_END)"

definition chunk_more :: "file_chunk \<Rightarrow> bool" where
  "chunk_more c = (length (ck_data c) = 512 \<and> (ck_flag c = PLDM_START \<or> ck_flag c = PLDM_MIDDLE))"

definition section_req :: "pldm_base_multipart_receive_req \<Rightarrow> u32 \<Rightarrow> pldm_base_multipart_receive_req" where
  "section_req r off = r\<lparr>requestedSectionOffset := off, requestedSectionLengthBytes := 512\<rparr>"

definition following_req :: "file_chunk \<Rightarrow> pldm_base_multipart_receive_req \<Rightarrow> pldm_base_multipart_receive_req" where
  "following_req c r = r\<lparr>transferOperation := PLDM_XFER_NEXT_PART, mp_dataTransferHandle := ck_next c\<rparr>"

text \<open>The requests the specification expects: each asks for the section behind what has been received.\<close>

primrec chunk_requests :: "pldm_base_multipart_receive_req \<Rightarrow> u32 \<Rightarrow> file_chunk list \<Rightarrow> pldm_base_multipart_receive_req list" where
  "chunk_requests r off [] = []"
| "chunk_requests r off (c # cs) =
     section_req r off # chunk_requests (following_req c (section_req r off)) (off + word_of_nat (length (ck_data c))) cs"

lemma length_chunk_payload: "length (chunk_payload c) = 10 + length (ck_data c)"
  by (simp add: chunk_payload_def)

lemma chunk_payload_reads:
  assumes "length (ck_data c) \<le> 512"
  shows "get_byte (chunk_payload c @ rest) 0 = Done PLDM_SUCCESS" "get_byte (chunk_payload c @ rest) 1 = Done (ck_flag c)"
    "get_u32 (chunk_payload c @ rest) 2 = Done (ck_next c)" "get_u32 (chunk_payload c @ rest) 6 = Done (word_of_nat (length (ck_data c)))"
    "get_bytes (chunk_payload c @ rest) 10 (length (ck_data c)) = Done (ck_data c)"
    "unat (word_of_nat (length (ck_data c)) :: u32) = length (ck_data c)"
proof -
  show "unat (word_of_nat (length (ck_data c)) :: u32) = length (ck_data c)"
    using assms by (simp only: unat_of_nat) simp
qed (simp_all add: chunk_payload_def bytes_of_u32_def nth_append nth_Cons' le32_bytes [simplified])

text \<open>What a delivered chunk does to the object.\<close>

definition chunk_stored :: "file_chunk \<Rightarrow> ('d, 'a) pldm_ft_scheme \<Rightarrow> ('d, 'a) pldm_ft_scheme" where
  "chunk_stored c p = p\<lparr>mMultipartReceiveResp := \<lparr>mp_completionCode = PLDM_SUCCESS, mp_transferFlag = ck_flag c,
       nextDataTransferHandle_mp = ck_next c, dataLengthBytes = word_of_nat (length (ck_data c))\<rparr>,
     mDfReadResp := (mDfReadResp p)\<lparr>read_data := ck_data c @ drop (length (ck_data c)) (read_data (mDfReadResp p)),
       read_dataLength := word_of_nat (length (ck_data c))\<rparr>\<rparr>"

lemma chunk_response:
  assumes "chunk_ok rounds c" "length (read_data (mDfReadResp p)) = 512"
  shows "pldmFileTransferResp PLDM_MULTIPART_RECEIVE (received_message (ck_addr c) (ck_seq c) (ck_bodies c) d p)
    = Done (PLDM_SUCCESS, chunk_stored c (received_message (ck_addr c) (ck_seq c) (ck_bodies c) d p))"
proof -
  let ?f = "message_frame (ck_addr c) (ck_seq c) (ck_bodies c)"
  obtain rest where pay: "drop 4 (concat (ck_bodies c)) = chunk_payload c @ rest"
    using assms(1) by (auto simp: chunk_ok_def)
  have len: "length (ck_data c) \<le> 512" "length (ck_addr c) = 4" "ck_bodies c \<noteq> []"
    using assms(1) pay by (auto simp: chunk_ok_def packets_fit_def chunk_payload_def)
  note q = chunk_payload_reads(1-5) [OF len(1), of rest] chunk_payload_reads(6) [OF len(1)]
  have more: "14 + length (ck_data c) \<le> length (concat (ck_bodies c))"
    using arg_cong [OF pay, of length] by (simp add: length_chunk_payload)
  then have f: "22 + length (ck_data c) \<le> length ?f" "?f ! 11 = PLDM_MULTIPART_RECEIVE"
    using length_message_frame [OF len(2,3), of "ck_seq c"] message_frame_drop [OF len(2,3), of 3 "ck_seq c"] assms(1)
    by (simp_all add: chunk_ok_def hd_drop_conv_nth [symmetric] del: drop_drop)
  have ne: "?f \<noteq> []" "chunk_payload c \<noteq> []" "PLDM_SUCCESS \<noteq> PLDM_ERROR_UNSUPPORTED_PLDM_CMD"
    using f(1) by (auto simp: chunk_payload_def PLDM_SUCCESS_def PLDM_ERROR_UNSUPPORTED_PLDM_CMD_def)
  let ?p = "received_message (ck_addr c) (ck_seq c) (ck_bodies c) d p"
  have p: "mI2cPldmRead ?p = Some (rx_buffer ?f)" "mRxAssembledFrame ?p = ?f" "mRxAssembledPayload ?p = chunk_payload c @ rest"
      "mDfReadResp ?p = mDfReadResp p"
    by (simp_all add: received_message_def pay)
  have "pldmFileTransferRespPayload (chunk_payload c @ rest) PLDM_MULTIPART_RECEIVE ?p = Done PLDM_SUCCESS"
    unfolding pldmFileTransferRespPayload_def p q(1) using f ne by simp
  moreover have "handleMultipartReceiveResp (chunk_payload c @ rest) (length ?f) ?p = Done (PLDM_SUCCESS, chunk_stored c ?p)"
    unfolding handleMultipartReceiveResp_def q(1-4) obind.simps Let_def q(6)
    using f len assms(2) q(5) ne by (simp add: p length_chunk_payload chunk_stored_def)
  ultimately show ?thesis
    unfolding pldmFileTransferResp_def p the_ptr_simps obind.simps Let_def using ne by (simp add: ft_cmds)
qed

text \<open>The bytes of the request that a frame carries, and that the frames from \<open>p\<close> to \<open>p'\<close> are the requests \<open>rs\<close>.\<close>

definition section_frame :: "u8 list \<Rightarrow> u8 list" where
  "section_frame f = take 18 (drop 11 f)"

definition sections_requested ::
  "('d, 'a) pldm_ft_scheme \<Rightarrow> pldm_base_multipart_receive_req list \<Rightarrow> ('d, 'a) pldm_ft_scheme \<Rightarrow> bool" where
  "sections_requested p rs p' = (\<exists>fs. frames_sent p' = frames_sent p @ fs \<and> map section_frame fs = map multipart_req_bytes rs
     \<and> (\<forall>f\<in>set fs. pldm_frame_id f = (PLDM_MESSAGE_DISCOVERY, PLDM_MULTIPART_RECEIVE)))"

lemma sections_requested_Cons:
  assumes "frames_sent p' = frames_sent p @ [f]" "pldm_frame_id f = (PLDM_MESSAGE_DISCOVERY, PLDM_MULTIPART_RECEIVE)"
    "section_frame f = multipart_req_bytes r" "sections_requested p' rs p''"
  shows "sections_requested p (r # rs) p''"
  using assms by (auto simp: sections_requested_def intro: exI [of _ "f # _"])

lemma length_multipart_req [simp]: "length (multipart_req_bytes r) = 18"
  by (simp add: multipart_req_bytes_def)

lemma pldm_ok_ft [simp]:
  "pldm_ok (p\<lparr>mMultipartReceiveReq := r\<rparr>) = pldm_ok p" "pldm_ok (p\<lparr>mMultipartReceiveResp := s\<rparr>) = pldm_ok p"
  "pldm_ok (p\<lparr>mMultipartReceiveData := t\<rparr>) = pldm_ok p" "pldm_ok (p\<lparr>mDfReadResp := u\<rparr>) = pldm_ok p"
  "pldm_ok (p\<lparr>mDfOpenReq := v\<rparr>) = pldm_ok p" "pldm_ok (p\<lparr>mDfOpenResp := w\<rparr>) = pldm_ok p"
  "pldm_ok (p\<lparr>mDfCloseReq := x\<rparr>) = pldm_ok p" "pldm_ok (p\<lparr>mDfCloseResp := y\<rparr>) = pldm_ok p"
  "pldm_ok (p\<lparr>mDfHeartbeatResp := z\<rparr>) = pldm_ok p"
  by (simp_all add: pldm_ok_def mctp_ok_def)

lemma frames_sent_ft [simp]:
  "frames_sent (p\<lparr>mMultipartReceiveReq := r\<rparr>) = frames_sent p" "frames_sent (p\<lparr>mMultipartReceiveResp := s\<rparr>) = frames_sent p"
  "frames_sent (p\<lparr>mMultipartReceiveData := t\<rparr>) = frames_sent p" "frames_sent (p\<lparr>mDfReadResp := u\<rparr>) = frames_sent p"
  "frames_sent (p\<lparr>mDfOpenReq := v\<rparr>) = frames_sent p" "frames_sent (p\<lparr>mDfOpenResp := w\<rparr>) = frames_sent p"
  "frames_sent (p\<lparr>mDfCloseReq := x\<rparr>) = frames_sent p" "frames_sent (p\<lparr>mDfCloseResp := y\<rparr>) = frames_sent p"
  "frames_sent (p\<lparr>mDfHeartbeatResp := z\<rparr>) = frames_sent p"
  by (simp_all add: frames_sent_def)

lemma delivers_ft [simp]:
  "delivers fs (p\<lparr>mMultipartReceiveReq := r\<rparr>) = delivers fs p" "delivers fs (p\<lparr>mMultipartReceiveResp := s\<rparr>) = delivers fs p"
  "delivers fs (p\<lparr>mMultipartReceiveData := t\<rparr>) = delivers fs p" "delivers fs (p\<lparr>mDfReadResp := u\<rparr>) = delivers fs p"
  by (simp_all add: delivers_def)

text \<open>One turn of the loop.\<close>

lemma section_command:
  assumes ok: "pldm_ok p" "length (read_data (mDfReadResp p)) = 512" and dev: "delivers (chunk_packets c @ fs) p" and c: "chunk_ok rounds c"
  shows "\<exists>p'. pldmFileTransferCmd rounds PLDM_MULTIPART_RECEIVE 30 (p\<lparr>mMultipartReceiveReq := section_req (mMultipartReceiveReq p) off\<rparr>)
      = Done (PLDM_SUCCESS, p') \<and> pldm_ok p' \<and> length (read_data (mDfReadResp p')) = 512
    \<and> take (length (ck_data c)) (read_data (mDfReadResp p')) = ck_data c \<and> mMultipartReceiveData p' = mMultipartReceiveData p
    \<and> mMultipartReceiveReq p' = section_req (mMultipartReceiveReq p) off \<and> delivers fs p'
    \<and> mMultipartReceiveResp p' = \<lparr>mp_completionCode = PLDM_SUCCESS, mp_transferFlag = ck_flag c,
       nextDataTransferHandle_mp = ck_next c, dataLengthBytes = word_of_nat (length (ck_data c))\<rparr>
    \<and> (\<exists>f. frames_sent p' = frames_sent p @ [f] \<and> pldm_frame_id f = (PLDM_MESSAGE_DISCOVERY, PLDM_MULTIPART_RECEIVE)
          \<and> section_frame f = multipart_req_bytes (section_req (mMultipartReceiveReq p) off))"
proof -
  let ?p = "p\<lparr>mMultipartReceiveReq := section_req (mMultipartReceiveReq p) off\<rparr>"
  obtain rest where pay: "drop 4 (concat (ck_bodies c)) = chunk_payload c @ rest"
    using c by (auto simp: chunk_ok_def)
  have ck: "packets_fit (ck_addr c) (ck_bodies c)" "5 \<le> length (concat (ck_bodies c))" "length (concat (ck_bodies c)) \<le> 8184"
      "length (ck_bodies c) \<le> rounds" "length (ck_data c) \<le> 512"
    using c arg_cong [OF pay, of length] by (auto simp: chunk_ok_def length_chunk_payload)
  have req: "ft_request PLDM_MULTIPART_RECEIVE ?p = Some (multipart_req_bytes (section_req (mMultipartReceiveReq p) off))"
    by (simp add: ft_request_def ft_cmds)
  have p: "pldm_ok ?p" "delivers (message_packets (ck_addr c) (ck_seq c) (ck_bodies c) @ fs) ?p"
    using ok dev by (simp_all add: chunk_packets_def)
  have sz: "12 \<le> unat (30 :: u8)" "unat (30 :: u8) \<le> 128"
      "length (multipart_req_bytes (section_req (mMultipartReceiveReq p) off)) + 11 \<le> unat (30 :: u8)"
    by simp_all
  obtain d w f where cmd: "let p1 = received_message (ck_addr c) (ck_seq c) (ck_bodies c) d ((next_instance ?p)\<lparr>mI2cPldmWrite := w\<rparr>) in
    pldmFileTransferCmd rounds PLDM_MULTIPART_RECEIVE 30 ?p = obind (pldmFileTransferResp PLDM_MULTIPART_RECEIVE p1) (\<lambda>(ret, p).
      if ret \<noteq> PLDM_SUCCESS then Done (ret, p) else Done (PLDM_SUCCESS, p\<lparr>pldm_instanceID := pldm_instanceID p + 1\<rparr>))
    \<and> pldm_ok p1 \<and> 1 \<le> unat (pldm_instanceID p1) \<and> unat (pldm_instanceID p1) \<le> 31 \<and> delivers fs p1
    \<and> frames_sent p1 = frames_sent ?p @ [f] \<and> pldm_frame_id f = (ft_type PLDM_MULTIPART_RECEIVE, PLDM_MULTIPART_RECEIVE)
    \<and> take 18 (drop 11 f) = multipart_req_bytes (section_req (mMultipartReceiveReq p) off)"
    using ft_command_delivered [OF p ck(1-4) sz req] unfolding length_multipart_req by (elim exE)
  define p0 where "p0 = (next_instance ?p)\<lparr>mI2cPldmWrite := w\<rparr>"
  define p1 where "p1 = received_message (ck_addr c) (ck_seq c) (ck_bodies c) d p0"
  note cmd = cmd [unfolded Let_def, folded p0_def, folded p1_def]
  have p0: "length (read_data (mDfReadResp p0)) = 512" "mMultipartReceiveData p0 = mMultipartReceiveData p"
      "mMultipartReceiveReq p0 = section_req (mMultipartReceiveReq p) off"
    using ok(2) by (simp_all add: p0_def next_instance_def)
  have resp: "pldmFileTransferResp PLDM_MULTIPART_RECEIVE p1 = Done (PLDM_SUCCESS, chunk_stored c p1)"
    unfolding p1_def by (rule chunk_response [OF c p0(1)])
  let ?p' = "(chunk_stored c p1)\<lparr>pldm_instanceID := pldm_instanceID p1 + 1\<rparr>"
  have "pldm_instanceID (chunk_stored c p1) = pldm_instanceID p1"
    by (simp add: chunk_stored_def)
  then have run: "pldmFileTransferCmd rounds PLDM_MULTIPART_RECEIVE 30 ?p = Done (PLDM_SUCCESS, ?p')"
    using cmd resp by simp
  have "pldm_ok ?p'"
    using cmd unat_next_instance [of "pldm_instanceID p1"] by (auto simp: chunk_stored_def pldm_ok_def mctp_ok_def)
  moreover have "delivers fs ?p'" "frames_sent ?p' = frames_sent p1"
    using cmd by (simp_all add: chunk_stored_def)
  moreover have "length (read_data (mDfReadResp ?p')) = 512" "take (length (ck_data c)) (read_data (mDfReadResp ?p')) = ck_data c"
      "mMultipartReceiveData ?p' = mMultipartReceiveData p" "mMultipartReceiveReq ?p' = section_req (mMultipartReceiveReq p) off"
      "mMultipartReceiveResp ?p' = \<lparr>mp_completionCode = PLDM_SUCCESS, mp_transferFlag = ck_flag c,
         nextDataTransferHandle_mp = ck_next c, dataLengthBytes = word_of_nat (length (ck_data c))\<rparr>"
    using p0 ck(5) by (simp_all add: chunk_stored_def p1_def received_message_def)
  ultimately show ?thesis
    using run cmd by (intro exI [of _ ?p']) (simp add: section_frame_def ft_type_def)
qed

lemma multipart_loop_reads:
  assumes "pldm_ok p" "length (read_data (mDfReadResp p)) = 512" "delivers (concat (map chunk_packets cs) @ fs) p"
    "\<forall>c\<in>set cs. chunk_ok rounds c" "cs \<noteq> []" "\<forall>c\<in>set (butlast cs). chunk_more c" "chunk_last (last cs)" "length cs \<le> k"
  shows "returns (multipart_loop rounds k off p) (\<lambda>(r, p'). r = PLDM_SUCCESS \<and> pldm_ok p' \<and> delivers fs p'
    \<and> mMultipartReceiveData p' = mMultipartReceiveData p @ concat (map ck_data cs)
    \<and> sections_requested p (chunk_requests (mMultipartReceiveReq p) off cs) p')"
  using assms
proof (induction cs arbitrary: k off p)
  case (Cons c cs)
  obtain j where k: "k = Suc j" "length cs \<le> j"
    using Cons.prems(8) by (cases k) auto
  have c: "chunk_ok rounds c" "length (ck_data c) \<le> 512"
    using Cons.prems(4) by (simp_all add: chunk_ok_def)
  let ?r = "section_req (mMultipartReceiveReq p) off" and ?n = "word_of_nat (length (ck_data c)) :: u32"
  obtain p1 f where p1: "pldmFileTransferCmd rounds PLDM_MULTIPART_RECEIVE 30 (p\<lparr>mMultipartReceiveReq := ?r\<rparr>) = Done (PLDM_SUCCESS, p1)"
      "pldm_ok p1" "length (read_data (mDfReadResp p1)) = 512" "take (length (ck_data c)) (read_data (mDfReadResp p1)) = ck_data c"
      "mMultipartReceiveData p1 = mMultipartReceiveData p" "mMultipartReceiveReq p1 = ?r" "delivers (concat (map chunk_packets cs) @ fs) p1"
      "mMultipartReceiveResp p1 = \<lparr>mp_completionCode = PLDM_SUCCESS, mp_transferFlag = ck_flag c,
         nextDataTransferHandle_mp = ck_next c, dataLengthBytes = ?n\<rparr>"
      "frames_sent p1 = frames_sent p @ [f]" "pldm_frame_id f = (PLDM_MESSAGE_DISCOVERY, PLDM_MULTIPART_RECEIVE)"
      "section_frame f = multipart_req_bytes ?r"
    using section_command [OF Cons.prems(1,2) _ c(1), of "concat (map chunk_packets cs) @ fs" off] Cons.prems(3) by auto
  have n: "unat ?n = length (ck_data c)" "PLDM_SUCCESS \<noteq> PLDM_ERROR_UNSUPPORTED_PLDM_CMD" "unat maxReadChunk = 512"
    using chunk_payload_reads(6) [OF c(2)] by (simp_all add: PLDM_SUCCESS_def PLDM_ERROR_UNSUPPORTED_PLDM_CMD_def maxReadChunk_def)
  define p2 where "p2 = p1\<lparr>mMultipartReceiveData := mMultipartReceiveData p1 @ ck_data c\<rparr>"
  define p3 where "p3 = p2\<lparr>mMultipartReceiveReq := following_req c ?r\<rparr>"
  have copy: "(if 0 < ?n then get_bytes (read_data (mDfReadResp p1)) 0 (unat ?n) else Done []) = Done (ck_data c)"
    using p1(3,4) c(2) n(1) by (auto simp: word_less_nat_alt)
  have turn: "multipart_loop rounds k off p = (if chunk_last c then Done (PLDM_SUCCESS, p2)
      else if \<not> chunk_more c then Done (PLDM_ERROR, p2) else multipart_loop rounds j (off + ?n) p3)"
  proof -
    have n': "(maxReadChunk < ?n) = False" "(?n < maxReadChunk) = (length (ck_data c) < 512)" "?n = 0 \<longrightarrow> length (ck_data c) < 512"
      using n c(2) by (simp_all add: word_less_nat_alt unat_eq_0 [symmetric])
    have req: "(mMultipartReceiveReq p)\<lparr>requestedSectionOffset := off, requestedSectionLengthBytes := maxReadChunk\<rparr> = ?r"
      by (simp add: section_req_def maxReadChunk_def)
    have "mMultipartReceiveReq p2 = ?r"
      using p1(6) by (simp add: p2_def)
    then have p3': "p2\<lparr>mMultipartReceiveReq := (mMultipartReceiveReq p2)\<lparr>transferOperation := PLDM_XFER_NEXT_PART,
        mp_dataTransferHandle := ck_next c\<rparr>\<rparr> = p3"
      by (simp add: p3_def following_req_def)
    have last: "(PLDM_SUCCESS = PLDM_ERROR_UNSUPPORTED_PLDM_CMD \<or> ?n = 0 \<or> ck_flag c = PLDM_END \<or> ck_flag c = PLDM_START_AND_END
        \<or> length (ck_data c) < 512) = chunk_last c"
      using n(2) n'(3) by (auto simp: chunk_last_def)
    have mid: "\<not> chunk_last c \<Longrightarrow> (ck_flag c \<noteq> PLDM_START \<and> ck_flag c \<noteq> PLDM_MIDDLE) = (\<not> chunk_more c)"
      using c(2) by (auto simp: chunk_last_def chunk_more_def)
    show ?thesis
      unfolding k(1) multipart_loop.simps(2) req p1(1) obind.simps prod.case Let_def p1(8) pldm_base_multipart_receive_resp.simps copy
        p2_def [symmetric] p3' n'(1,2) last
      using mid by simp
  qed
  have p3: "pldm_ok p3" "length (read_data (mDfReadResp p3)) = 512" "delivers (concat (map chunk_packets cs) @ fs) p3"
      "frames_sent p3 = frames_sent p @ [f]" "mMultipartReceiveData p3 = mMultipartReceiveData p @ ck_data c"
      "mMultipartReceiveReq p3 = following_req c ?r"
    using p1 by (simp_all add: p3_def p2_def)
  have more: "sections_requested p3 rs q \<Longrightarrow> sections_requested p (?r # rs) q" for rs q
    by (rule sections_requested_Cons [OF p3(4) p1(10,11)])
  show ?case
  proof (cases "cs = []")
    case True
    have "sections_requested p [?r] p2"
      using sections_requested_Cons [of p2 p f ?r "[]" p2] p1(9-11) by (simp add: p2_def sections_requested_def)
    moreover have "chunk_last c"
      using Cons.prems(7) True by simp
    ultimately show ?thesis
      using True turn p1 by (simp add: p2_def)
  next
    case False
    then have c_more: "chunk_more c" "\<not> chunk_last c"
      using Cons.prems(6) by (auto simp: chunk_more_def chunk_last_def PLDM_START_def PLDM_MIDDLE_def PLDM_END_def PLDM_START_AND_END_def)
    have "returns (multipart_loop rounds j (off + ?n) p3) (\<lambda>(r, p'). r = PLDM_SUCCESS \<and> pldm_ok p' \<and> delivers fs p'
      \<and> mMultipartReceiveData p' = mMultipartReceiveData p3 @ concat (map ck_data cs)
      \<and> sections_requested p3 (chunk_requests (mMultipartReceiveReq p3) (off + ?n) cs) p')"
      using Cons.prems False k(2) by (intro Cons.IH [OF p3(1-3)]) auto
    then show ?thesis
      using turn c_more more p3(5,6) by (auto elim!: returns_mono)
  qed
qed simp

text \<open>
  C36. Reading a file puts it together: when the card answers with full chunks that announce more and a last one
  that is short or flagged as the end, each in a message of any fragmentation, the call returns with success and
  the contents are the data of the chunks in order; the requests are one per chunk, each for the section at the
  bytes received so far (modulo the width of the offset) with the handle of the response before. A round per chunk
  and per packet is enough.
\<close>

theorem file_assembled:
  assumes "pldm_ok p" "length (read_data (mDfReadResp p)) = 512" "delivers (concat (map chunk_packets cs) @ fs) p"
    "\<forall>c\<in>set cs. chunk_ok rounds c" "cs \<noteq> []" "\<forall>c\<in>set (butlast cs). chunk_more c" "chunk_last (last cs)" "length cs \<le> rounds"
  shows "returns (pldmMultipartReceiveCommand rounds fd fileData p) (\<lambda>(r, contents, p'). r = PLDM_SUCCESS \<and> pldm_ok p' \<and> delivers fs p'
    \<and> contents = concat (map ck_data cs)
    \<and> sections_requested p (chunk_requests \<lparr>mp_pldmType = PLDM_FILE_TRANSFER, transferOperation = PLDM_XFER_FIRST_PART, transferContext = ucast fd,
           mp_dataTransferHandle = 0, requestedSectionOffset = 0, requestedSectionLengthBytes = 0\<rparr> 0 cs) p')"
proof -
  define q where "q = p\<lparr>
         mMultipartReceiveReq := \<lparr>mp_pldmType = PLDM_FILE_TRANSFER, transferOperation = PLDM_XFER_FIRST_PART, transferContext = ucast fd,
           mp_dataTransferHandle = 0, requestedSectionOffset = 0, requestedSectionLengthBytes = 0\<rparr>,
         mMultipartReceiveResp := \<lparr>mp_completionCode = 0, mp_transferFlag = 0, nextDataTransferHandle_mp = 0, dataLengthBytes = 0\<rparr>,
         mMultipartReceiveData := []\<rparr>"
  have q: "pldm_ok q" "length (read_data (mDfReadResp q)) = 512" "delivers (concat (map chunk_packets cs) @ fs) q"
      "mMultipartReceiveData q = []" "\<And>rs p'. sections_requested q rs p' = sections_requested p rs p'"
    using assms(1-3) by (simp_all add: q_def sections_requested_def)
  show ?thesis
    unfolding pldmMultipartReceiveCommand_def q_def [symmetric]
    using multipart_loop_reads [OF q(1-3) assms(4-8), of 0]
    by (auto simp: q(4,5) elim!: returns_mono) (simp_all add: q_def)
qed

section \<open>With any card\<close>

text \<open>The size a packet claims, where the code reads it, and that no packet claims more than the local frame holds.\<close>

definition packets_honest :: "(nat \<Rightarrow> u8 list option) \<Rightarrow> bool" where
  "packets_honest rx = (\<forall>n bs. rx n = Some bs \<longrightarrow> 2 \<le> length bs \<longrightarrow> unat (bs ! 1) \<le> 137)"

definition ft_wf :: "('d, 'a) pldm_ft_scheme \<Rightarrow> bool" where
  "ft_wf p = ((\<forall>d. i2cobj p = Some d \<longrightarrow> packets_honest (i2c_rx d)) \<and> length (read_data (mDfReadResp p)) = 512)"

text \<open>
  A packet is read past the end of the local frame exactly when it is taken and claims more than 137
  bytes: a first packet always, a later one when its number is the expected one and the frame would not grow too
  large. Nothing compares the claim with what was read.
\<close>

theorem packet_overrun:
  assumes "length frame = 140"
  shows "rx_packet frame s = Fault \<longleftrightarrow> (let h = mctp_of_bytes frame in mctp_cmdCode h = MCTP_CMD_CODE \<and> 137 < unat (byteCount h)
    \<and> (som h = 1 \<or> gotSomPacket s \<and> ucast (packSeq h) = expectedSeq s \<and> length (asm s) + (unat (byteCount h) - 5) \<le> 8192))"
proof -
  have "unat (byteCount (mctp_of_bytes frame)) < 256"
    using unsigned_less [of "byteCount (mctp_of_bytes frame)", where ?'a = nat] by simp
  then show ?thesis
    using assms by (auto simp: rx_packet_def continue_asm_def Let_def rx_sizes seq_mask get_bytes_def)
qed

lemma rx_packet_safe:
  assumes "length frame = 140" "unat (byteCount (mctp_of_bytes frame)) \<le> 137"
  shows "\<exists>r. rx_packet frame s = Done r"
  using assms by (auto simp: rx_packet_def continue_asm_def Let_def rx_sizes get_bytes_def)

definition same_device :: "i2c_interface \<Rightarrow> i2c_interface \<Rightarrow> bool" where
  "same_device d d' = (amchandle d' = amchandle d \<and> i2c_init d' = i2c_init d \<and> i2c_rx d' = i2c_rx d \<and> i2c_tx_ok d' = i2c_tx_ok d
     \<and> i2c_sent d' = i2c_sent d)"

lemma same_device_trans: "same_device d d' \<Longrightarrow> same_device d' d'' \<Longrightarrow> same_device d d''"
  by (simp add: same_device_def)

lemma rx_try_safe:
  assumes "length frame = 140" "frame ! 2 = 0" "packets_honest (i2c_rx d)"
  shows "returns (rx_try k frame d) (\<lambda>(ok, frame', d'). same_device d d' \<and> length frame' = 140 \<and> unat (frame' ! 2) \<le> 137)"
  using assms
proof (induction k arbitrary: d)
  case 0
  then show ?case
    by (simp add: same_device_def)
next
  case (Suc k)
  let ?d = "d\<lparr>i2c_reads := Suc (i2c_reads d)\<rparr>"
  have d: "same_device d ?d" "packets_honest (i2c_rx ?d)"
    using Suc.prems(3) by (simp_all add: same_device_def)
  show ?case
  proof (cases "amchandle d < 0")
    case True
    with Suc show ?thesis
      by (simp add: readAmc_def)
  next
    case False
    show ?thesis
    proof (cases "i2c_rx d (i2c_reads d)")
      case None
      have "returns (rx_try k frame ?d) (\<lambda>(ok, frame', d'). same_device d d' \<and> length frame' = 140 \<and> unat (frame' ! 2) \<le> 137)"
        by (rule returns_mono [OF Suc.IH [OF Suc.prems(1,2) d(2)]]) (use same_device_trans [OF d(1)] in auto)
      then show ?thesis
        using False None by (simp add: readAmc_def)
    next
      case (Some bs)
      let ?bs = "take PLDM_MAX_RESPONSE_SIZE bs"
      have "(take 1 frame @ ?bs @ drop (1 + length ?bs) frame) ! 2 = (if 2 \<le> length bs then bs ! 1 else frame ! 2)"
        using Suc.prems(1) by (auto simp: nth_append PLDM_MAX_RESPONSE_SIZE_def numeral_2_eq_2)
      then show ?thesis
        using False Some Suc.prems d(1) by (auto simp: readAmc_def packets_honest_def PLDM_MAX_RESPONSE_SIZE_def)
    qed
  qed
qed

lemma rx_loop_safe:
  assumes "packets_honest (i2c_rx d)" "length (respPayload rd) = 128"
  shows "safe (rx_loop k s rd d) (\<lambda>(ok, s', rd', d'). same_device d d' \<and> length (respPayload rd') = 128)"
  using assms
proof (induction k arbitrary: s d)
  case (Suc k)
  have "length (replicate sizeof_i2cdata (0 :: u8)) = 140" "replicate sizeof_i2cdata (0 :: u8) ! 2 = 0"
    by (simp_all add: sizeof_i2cdata_def)
  then obtain ok frame d1 where got: "rx_try MAX_NUM_RETRIES (replicate sizeof_i2cdata 0) d = Done (ok, frame, d1)"
      "same_device d d1" "length frame = 140" "unat (frame ! 2) \<le> 137"
    using rx_try_safe [of "replicate sizeof_i2cdata 0" d MAX_NUM_RETRIES] Suc.prems(1) by (auto simp: returns_iff)
  obtain r where r: "rx_packet frame s = Done r"
    using rx_packet_safe [of frame s] got(3,4) by (auto simp: mctp_of_bytes_def)
  have "packets_honest (i2c_rx d1)"
    using got(2) Suc.prems(1) by (simp add: same_device_def)
  then have IH: "safe (rx_loop k s' rd d1) (\<lambda>(ok, s', rd', d'). same_device d d' \<and> length (respPayload rd') = 128)" for s'
    by (rule safe_mono [OF Suc.IH [OF _ Suc.prems(2)]]) (use same_device_trans [OF got(2)] in auto)
  show ?case
    using got r IH Suc.prems(2) by (auto split: option.splits bool.splits)
qed simp

lemma rx_safe:
  assumes "pldm_ok p" "ft_wf p"
  shows "safe (rxMultiPartData rounds p) (\<lambda>(r, p'). pldm_ok p' \<and> ft_wf p' \<and> frames_sent p' = frames_sent p \<and> pldm_instanceID p' = pldm_instanceID p)"
proof -
  obtain rd wr d where p: "mI2cPldmRead p = Some rd" "mI2cPldmWrite p = Some wr" "i2cobj p = Some d"
      "length (respPayload rd) = 128"
    using assms(1) by (auto elim!: pldm_okE simp: PAYLOAD_SIZE_def)
  have "packets_honest (i2c_rx d)"
    using assms(2) p(3) by (simp add: ft_wf_def)
  note l = rx_loop_safe [OF this p(4), of rounds "\<lparr>asm = [], expectedSeq = 0, gotSomPacket = False\<rparr>"]
  show ?thesis
    unfolding rxMultiPartData_def p option.case prod.case safe_simps(4)
  proof (rule safe_mono [OF l])
    fix x :: "bool \<times> rx_state \<times> i2cdata \<times> i2c_interface"
    obtain ok s' rd' d' where x: "x = (ok, s', rd', d')"
      by (cases x)
    assume "case x of (ok, s', rd', d') \<Rightarrow> same_device d d' \<and> length (respPayload rd') = 128"
    then show "safe (case x of (ok, s, rd, d) \<Rightarrow>
            let p = p\<lparr>i2cobj := Some d, mI2cPldmRead := Some rd, mRxAssembledFrame := asm s, mRxAssembledPayload := []\<rparr> in
            if \<not> ok then Done (PLDM_ERROR, p)
            else if asm s = [] then Done (PLDM_ERROR, p)
            else if length (asm s) < 12 + 1 then Done (PLDM_ERROR, p)
            else Done (PLDM_SUCCESS, p\<lparr>mRxAssembledPayload := drop 12 (asm s), mI2cPldmRead := Some (rx_buffer (asm s))\<rparr>))
       (\<lambda>(r, p'). pldm_ok p' \<and> ft_wf p' \<and> frames_sent p' = frames_sent p \<and> pldm_instanceID p' = pldm_instanceID p)"
      using assms p rx_buffer_payload [of "asm s'"]
      by (auto simp: x Let_def same_device_def ft_wf_def pldm_ok_def mctp_ok_def frames_sent_def PAYLOAD_SIZE_def)
  qed
qed

text \<open>What a response handler keeps.\<close>

definition ft_quiet :: "('d, 'a) pldm_ft_scheme \<Rightarrow> ('d, 'a) pldm_ft_scheme \<Rightarrow> bool" where
  "ft_quiet p p' = (pldm_ok p' \<and> ft_wf p' \<and> frames_sent p' = frames_sent p \<and> pldm_instanceID p' = pldm_instanceID p)"

lemma ft_wf_updates [simp]:
  "ft_wf (p\<lparr>mMultipartReceiveReq := r\<rparr>) = ft_wf p" "ft_wf (p\<lparr>mMultipartReceiveResp := s\<rparr>) = ft_wf p"
  "ft_wf (p\<lparr>mMultipartReceiveData := t\<rparr>) = ft_wf p" "ft_wf (p\<lparr>mDfOpenResp := w\<rparr>) = ft_wf p"
  "ft_wf (p\<lparr>mDfCloseReq := x\<rparr>) = ft_wf p" "ft_wf (p\<lparr>mDfCloseResp := y\<rparr>) = ft_wf p"
  "ft_wf (p\<lparr>mDfHeartbeatResp := z\<rparr>) = ft_wf p" "ft_wf (p\<lparr>pldm_instanceID := i\<rparr>) = ft_wf p"
  "ft_wf (p\<lparr>mI2cPldmWrite := v\<rparr>) = ft_wf p"
  by (simp_all add: ft_wf_def)

lemma ft_wf_read: "ft_wf (p\<lparr>mDfReadResp := u\<rparr>) \<longleftrightarrow> length (read_data u) = 512 \<and> (\<forall>d. i2cobj p = Some d \<longrightarrow> packets_honest (i2c_rx d))"
  by (auto simp: ft_wf_def)

lemma handlers_safe:
  assumes "pldm_ok p" "ft_wf p"
  shows "returns (handleDfOpenResp q p) (\<lambda>(r, p'). ft_quiet p p')" "returns (handleDfCloseResp q p) (\<lambda>(r, p'). ft_quiet p p')"
    "returns (handleDfHeartbeatResp q p) (\<lambda>(r, p'). ft_quiet p p')" "returns (handleDfReadResp q n p) (\<lambda>(r, p'). ft_quiet p p')"
    "returns (handleMultipartReceiveResp q n p) (\<lambda>(r, p'). ft_quiet p p')"
proof -
  have 512: "length (read_data (mDfReadResp p)) = 512" "\<forall>d. i2cobj p = Some d \<longrightarrow> packets_honest (i2c_rx d)"
    using assms(2) by (simp_all add: ft_wf_def)
  show "returns (handleDfOpenResp q p) (\<lambda>(r, p'). ft_quiet p p')" "returns (handleDfCloseResp q p) (\<lambda>(r, p'). ft_quiet p p')"
    "returns (handleDfHeartbeatResp q p) (\<lambda>(r, p'). ft_quiet p p')"
    using assms by (auto simp: handleDfOpenResp_def handleDfCloseResp_def handleDfHeartbeatResp_def get_byte_def Let_def ft_quiet_def)
  show "returns (handleDfReadResp q n p) (\<lambda>(r, p'). ft_quiet p p')"
    using assms 512 by (auto simp: handleDfReadResp_def get_byte_def Let_def ft_quiet_def ft_wf_read min_absorb2)
  show "returns (handleMultipartReceiveResp q n p) (\<lambda>(r, p'). ft_quiet p p')"
    using assms 512 by (auto simp: handleMultipartReceiveResp_def get_byte_def Let_def ft_quiet_def ft_wf_read min_absorb2)
qed

lemma ft_resp_safe:
  assumes "pldm_ok p" "ft_wf p"
  shows "returns (pldmFileTransferResp cmd p) (\<lambda>(r, p'). ft_quiet p p')"
proof -
  obtain rd where rd: "mI2cPldmRead p = Some rd"
    using assms(1) by (elim pldm_okE)
  have "ft_quiet p p"
    using assms by (simp add: ft_quiet_def)
  moreover have "\<exists>ret. pldmFileTransferRespPayload q cmd p = Done ret" for q
    using rd by (cases q) (auto simp: pldmFileTransferRespPayload_def)
  then obtain ret where "pldmFileTransferRespPayload (if mRxAssembledPayload p = [] then respPayload rd else mRxAssembledPayload p) cmd p = Done ret"
    by blast
  ultimately show ?thesis
    unfolding pldmFileTransferResp_def rd the_ptr_simps obind.simps Let_def
    using handlers_safe [OF assms] by simp
qed

definition ft_sent :: "u8 \<Rightarrow> u8 list \<Rightarrow> ('d, 'a) pldm_ft_scheme \<Rightarrow> ('d, 'a) pldm_ft_scheme \<Rightarrow> bool" where
  "ft_sent cmd req p p' = (pldm_ok p' \<and> ft_wf p' \<and> (\<exists>f. frames_sent p' = frames_sent p @ [f] \<and> pldm_frame_id f = (ft_type cmd, cmd)
     \<and> take (length req) (drop 11 f) = req))"

text \<open>Any command with a request: one frame, whatever the answer.\<close>

lemma ft_command_safe:
  assumes "pldm_ok p" "ft_wf p" "12 \<le> unat sz" "unat sz \<le> 128" "length req + 11 \<le> unat sz" "ft_request cmd p = Some req"
  shows "safe (pldmFileTransferCmd rounds cmd sz p) (\<lambda>(r, p'). ft_sent cmd req p p')"
proof -
  obtain w where w: "let p2 = (next_instance p)\<lparr>mI2cPldmWrite := Some w\<rparr>; f = take (unat sz) (drop 1 (i2cdata_bytes w)) in
    pldmFileTransferCmd rounds cmd sz p = obind (pldm_send sz p2) (\<lambda>(ok, p). if \<not> ok then Done (PLDM_ERROR, p) else ft_receive rounds cmd p)
    \<and> pldm_ok p2 \<and> frames_sent p2 = frames_sent p \<and> pldm_frame_id f = (ft_type cmd, cmd) \<and> take (length req) (drop 11 f) = req"
    using ft_command_sent [OF assms(1,3-6), where rounds = rounds] by (elim exE)
  define p2 where "p2 = (next_instance p)\<lparr>mI2cPldmWrite := Some w\<rparr>"
  define f where "f = take (unat sz) (drop 1 (i2cdata_bytes w))"
  note w = w [unfolded Let_def, folded p2_def f_def]
  obtain ok p3 where p3: "pldm_send sz p2 = Done (ok, p3)" "pldm_ok p3" "frames_sent p3 = frames_sent p @ [f]"
    using pldm_send_ok [of p2 sz] w assms(4) by (auto simp: returns_iff f_def p2_def)
  have "i2cobj p2 = i2cobj p" "mDfReadResp p2 = mDfReadResp p" "pldm_instanceID p2 = pldm_instanceID (next_instance p)"
    by (simp_all add: p2_def next_instance_def)
  then have wf3: "ft_wf p3" "pldm_instanceID p3 = pldm_instanceID (next_instance p)"
    using pldm_send_device [OF p3(1)] assms(2) by (auto simp: ft_wf_def)
  have sent: "ft_sent cmd req p p'" if "pldm_ok p'" "ft_wf p'" "frames_sent p' = frames_sent p3" for p'
    using that w p3(3) by (auto simp: ft_sent_def)
  have bump: "ft_sent cmd req p (p'\<lparr>pldm_instanceID := pldm_instanceID p' + 1\<rparr>)"
    if "pldm_ok p'" "ft_wf p'" "frames_sent p' = frames_sent p3" "pldm_instanceID p' = pldm_instanceID p3" for p'
    by (rule sent) (use that wf3(2) next_instance_ok(2,3) [OF assms(1)] unat_next_instance [of "pldm_instanceID p'"] in
      \<open>auto simp: pldm_ok_def mctp_ok_def\<close>)
  have resp: "safe (pldmFileTransferResp cmd p4) (\<lambda>x. safe (case x of (ret, p) \<Rightarrow>
      if ret \<noteq> PLDM_SUCCESS then Done (ret, p) else Done (PLDM_SUCCESS, p\<lparr>pldm_instanceID := pldm_instanceID p + 1\<rparr>)) (\<lambda>(r, p'). ft_sent cmd req p p'))"
    if "pldm_ok p4" "ft_wf p4" "frames_sent p4 = frames_sent p3" "pldm_instanceID p4 = pldm_instanceID p3" for p4
    by (rule safe_mono [OF returns_safe [OF ft_resp_safe [OF that(1,2)]]]) (use that sent bump in \<open>auto simp: ft_quiet_def\<close>)
  have "safe (ft_receive rounds cmd p3) (\<lambda>(r, p'). ft_sent cmd req p p')"
    unfolding ft_receive_def safe_simps(4)
    by (rule safe_mono [OF rx_safe [OF p3(2) wf3(1)]]) (use sent resp in auto)
  then show ?thesis
    using w p3 wf3(1) sent by simp
qed

text \<open>Frames of section requests, any number of them, from \<open>p\<close> to \<open>p'\<close>.\<close>

definition sections_sent :: "('d, 'a) pldm_ft_scheme \<Rightarrow> ('d, 'a) pldm_ft_scheme \<Rightarrow> bool" where
  "sections_sent p p' = (pldm_ok p' \<and> ft_wf p' \<and> (\<exists>fs. frames_sent p' = frames_sent p @ fs
     \<and> (\<forall>f\<in>set fs. pldm_frame_id f = (PLDM_MESSAGE_DISCOVERY, PLDM_MULTIPART_RECEIVE))))"

lemma sections_sent_trans: "sections_sent p q \<Longrightarrow> sections_sent q r \<Longrightarrow> sections_sent p r"
  by (auto simp: sections_sent_def)

lemma multipart_loop_safe:
  assumes "pldm_ok p" "ft_wf p"
  shows "safe (multipart_loop rounds k off p) (\<lambda>(r, p'). sections_sent p p')"
  using assms
proof (induction k arbitrary: off p)
  case (Suc k)
  let ?q = "p\<lparr>mMultipartReceiveReq := (mMultipartReceiveReq p)\<lparr>requestedSectionOffset := off, requestedSectionLengthBytes := maxReadChunk\<rparr>\<rparr>"
  have q: "pldm_ok ?q" "ft_wf ?q"
    using Suc.prems by simp_all
  have req: "ft_request PLDM_MULTIPART_RECEIVE ?q = Some (multipart_req_bytes (mMultipartReceiveReq ?q))"
    by (simp add: ft_request_def ft_cmds)
  have cmd: "safe (pldmFileTransferCmd rounds PLDM_MULTIPART_RECEIVE 30 ?q) (\<lambda>(r, p'). ft_sent PLDM_MULTIPART_RECEIVE (multipart_req_bytes (mMultipartReceiveReq ?q)) ?q p')"
    by (rule ft_command_safe [OF q _ _ _ req]) simp_all
  have one: "sections_sent p p'" if "ft_sent PLDM_MULTIPART_RECEIVE req ?q p'" for req p'
    using that by (auto simp: ft_sent_def sections_sent_def ft_type_def)
  have upd: "sections_sent p p' \<Longrightarrow> sections_sent p (p'\<lparr>mMultipartReceiveData := t\<rparr>)"
    "sections_sent p p' \<Longrightarrow> sections_sent p (p'\<lparr>mMultipartReceiveData := t, mMultipartReceiveReq := r\<rparr>)" for p' t r
    by (simp_all add: sections_sent_def)
  have more: "safe (multipart_loop rounds k off' p') (\<lambda>(r, p'). sections_sent p p')" if "sections_sent p p'" for off' p'
    by (rule safe_mono [OF Suc.IH]) (use that sections_sent_trans [OF that] in \<open>auto simp: sections_sent_def\<close>)
  have bytes: "(if 0 < n then get_bytes (read_data (mDfReadResp p')) 0 (unat n) else Done []) = Done (take (unat n) (read_data (mDfReadResp p')))"
    if "sections_sent p p'" "\<not> maxReadChunk < n" for p' n
    using that by (auto simp: sections_sent_def ft_wf_def word_less_nat_alt maxReadChunk_def)
  show ?case
    unfolding multipart_loop.simps(2) safe_simps(4)
  proof (rule safe_mono [OF cmd])
    fix x :: "u8 \<times> ('a, 'b) pldm_ft_scheme"
    obtain r p1 where x: "x = (r, p1)"
      by (cases x)
    assume "case x of (r, p') \<Rightarrow> ft_sent PLDM_MULTIPART_RECEIVE (multipart_req_bytes (mMultipartReceiveReq ?q)) ?q p'"
    then have p1: "sections_sent p p1"
      using one x by simp
    show "safe (case x of (ret, p) \<Rightarrow> if ret \<noteq> PLDM_SUCCESS then Done (ret, p)
       else let r = mMultipartReceiveResp p; n = dataLengthBytes r in
         if maxReadChunk < n then Done (PLDM_ERROR, p)
         else obind (if 0 < n then get_bytes (read_data (mDfReadResp p)) 0 (unat n) else Done []) (\<lambda>bs.
           let p = p\<lparr>mMultipartReceiveData := mMultipartReceiveData p @ bs\<rparr> in
           if mp_completionCode r = PLDM_ERROR_UNSUPPORTED_PLDM_CMD \<or> n = 0 \<or> mp_transferFlag r = PLDM_END
              \<or> mp_transferFlag r = PLDM_START_AND_END \<or> n < maxReadChunk then Done (PLDM_SUCCESS, p)
           else if mp_transferFlag r \<noteq> PLDM_START \<and> mp_transferFlag r \<noteq> PLDM_MIDDLE then Done (PLDM_ERROR, p)
           else multipart_loop rounds k (off + n)
             (p\<lparr>mMultipartReceiveReq := (mMultipartReceiveReq p)\<lparr>transferOperation := PLDM_XFER_NEXT_PART,
                mp_dataTransferHandle := nextDataTransferHandle_mp r\<rparr>\<rparr>)))
      (\<lambda>(r, p'). sections_sent p p')"
      using p1 upd [OF p1] more [OF upd(2) [OF p1]] by (simp add: x Let_def bytes [OF p1])
  qed
qed simp

text \<open>
  C37. A file that has been opened is closed: whatever a card answers whose packets claim no more than a frame
  holds, nothing is read or written out of bounds, and when reading the file returns - with success or an error -
  everything sent is requests for sections and then, last, the request to close that descriptor.
\<close>

theorem file_closed:
  assumes "pldm_ok p" "ft_wf p"
  shows "safe (read_and_close rounds fd p) (\<lambda>(r, contents, p'). pldm_ok p' \<and> (\<exists>fs f. frames_sent p' = frames_sent p @ fs @ [f]
    \<and> (\<forall>f\<in>set fs. pldm_frame_id f = (PLDM_MESSAGE_DISCOVERY, PLDM_MULTIPART_RECEIVE))
    \<and> pldm_frame_id f = (PLDM_FILE_TRANSFER, PLDM_FT_CMDCODE_DF_CLOSE) \<and> take 4 (drop 11 f) = bytes_of_u16 fd @ [0, 0]))"
proof -
  define q where "q = p\<lparr>
         mMultipartReceiveReq := \<lparr>mp_pldmType = PLDM_FILE_TRANSFER, transferOperation = PLDM_XFER_FIRST_PART, transferContext = ucast fd,
           mp_dataTransferHandle = 0, requestedSectionOffset = 0, requestedSectionLengthBytes = 0\<rparr>,
         mMultipartReceiveResp := \<lparr>mp_completionCode = 0, mp_transferFlag = 0, nextDataTransferHandle_mp = 0, dataLengthBytes = 0\<rparr>,
         mMultipartReceiveData := []\<rparr>"
  have q: "pldm_ok q" "ft_wf q" "\<And>p'. sections_sent q p' = sections_sent p p'"
    using assms by (simp_all add: q_def sections_sent_def)
  have read: "safe (pldmMultipartReceiveCommand rounds fd [] p) (\<lambda>(r, contents, p'). sections_sent p p')"
    unfolding pldmMultipartReceiveCommand_def q_def [symmetric] safe_simps(4)
    by (rule safe_mono [OF multipart_loop_safe [OF q(1,2)]]) (use q(3) in auto)
  have close: "safe (pldmDfCloseCommand rounds fd p1) (\<lambda>(r, p'). ft_sent PLDM_FT_CMDCODE_DF_CLOSE (bytes_of_u16 fd @ [0, 0]) p1 p')"
    if "sections_sent p p1" for p1
  proof -
    let ?p = "p1\<lparr>mDfCloseReq := \<lparr>close_fileDescriptor = fd, dfCloseOptions = 0\<rparr>\<rparr>"
    have req: "ft_request PLDM_FT_CMDCODE_DF_CLOSE ?p = Some (bytes_of_u16 fd @ [0, 0])"
      by (simp add: ft_request_def ft_cmds bytes_of_u16_def)
    have "pldm_ok ?p" "ft_wf ?p"
      using that by (simp_all add: sections_sent_def)
    then have "safe (pldmDfCloseCommand rounds fd p1) (\<lambda>(r, p'). ft_sent PLDM_FT_CMDCODE_DF_CLOSE (bytes_of_u16 fd @ [0, 0]) ?p p')"
      unfolding pldmDfCloseCommand_def by (rule ft_command_safe [OF _ _ _ _ _ req]) simp_all
    then show ?thesis
      by (simp add: ft_sent_def)
  qed
  have ty: "ft_type PLDM_FT_CMDCODE_DF_CLOSE = PLDM_FILE_TRANSFER"
    by (simp add: ft_type_def ft_cmds)
  have both: "\<exists>fs f. frames_sent p2 = frames_sent p @ fs @ [f]
    \<and> (\<forall>f\<in>set fs. pldm_frame_id f = (PLDM_MESSAGE_DISCOVERY, PLDM_MULTIPART_RECEIVE))
    \<and> pldm_frame_id f = (PLDM_FILE_TRANSFER, PLDM_FT_CMDCODE_DF_CLOSE) \<and> take 4 (drop 11 f) = bytes_of_u16 fd @ [0, 0]" "pldm_ok p2"
    if "sections_sent p p1" "ft_sent PLDM_FT_CMDCODE_DF_CLOSE (bytes_of_u16 fd @ [0, 0]) p1 p2" for p1 p2
    using that by (auto simp: sections_sent_def ft_sent_def ty)
  show ?thesis
    unfolding read_and_close_def safe_simps(4)
  proof (rule safe_mono [OF read])
    fix x :: "u8 \<times> u8 list \<times> ('a, 'b) pldm_ft_scheme"
    obtain r contents p1 where x: "x = (r, contents, p1)"
      by (cases x)
    assume "case x of (r, contents, p') \<Rightarrow> sections_sent p p'"
    then have p1: "sections_sent p p1"
      by (simp add: x)
    show "safe (case x of (ret, fileData, p) \<Rightarrow> obind (pldmDfCloseCommand rounds fd p) (\<lambda>(closeRet, p).
       Done (if closeRet \<noteq> PLDM_SUCCESS \<and> ret = PLDM_SUCCESS then closeRet else ret, fileData, p)))
      (\<lambda>(r, contents, p'). pldm_ok p' \<and> (\<exists>fs f. frames_sent p' = frames_sent p @ fs @ [f]
    \<and> (\<forall>f\<in>set fs. pldm_frame_id f = (PLDM_MESSAGE_DISCOVERY, PLDM_MULTIPART_RECEIVE))
    \<and> pldm_frame_id f = (PLDM_FILE_TRANSFER, PLDM_FT_CMDCODE_DF_CLOSE) \<and> take 4 (drop 11 f) = bytes_of_u16 fd @ [0, 0]))"
      unfolding x prod.case safe_simps(4)
      by (rule safe_mono [OF close [OF p1]]) (use both [OF p1] in auto)
  qed
qed

end
