(* ===== verification/Amc_Lib.thy ===== *)
theory Amc_Lib
  imports Amc_FileRead
begin

text \<open>
  The library front end (\<^verbatim>\<open>amclib.cpp\<close>): the list of cards, their PLDM objects, and the operations by card
  index. An exception that leaves the library and an access through a null pointer or outside the array are
  both \<^const>\<open>Fault\<close>.
\<close>

section \<open>The library object\<close>

definition AMC_SUCCESS :: int where "AMC_SUCCESS = 0"
definition AMC_ERROR :: int where "AMC_ERROR = 1"
definition MAX_PATH :: nat where "MAX_PATH = 256"

lemmas amc_codes = AMC_SUCCESS_def AMC_ERROR_def

record 'd amcSensorInfo =
  amc_sensorId :: u16
  sensorReading :: 'd

text \<open>\<open>pldmobj\<close> is the array of objects, \<open>None\<close> before \<^verbatim>\<open>amcInitialize\<close>.\<close>

record 'd amclib =
  numCards :: int
  amcDeviceList :: "amcCardInfo list"
  pldmobj :: "'d pldm_ft option list option"

definition amclib_constructor :: "'d amclib" where
  "amclib_constructor = \<lparr>numCards = 0, amcDeviceList = [], pldmobj = None\<rparr>"

section \<open>Enumerating and initializing\<close>

text \<open>Discovery appends to the list it is given.\<close>

definition amcEnumFirmwares :: "string list \<Rightarrow> (string \<Rightarrow> string) \<Rightarrow> (string \<Rightarrow> string) \<Rightarrow> 'd amclib \<Rightarrow> int \<times> 'd amclib" where
  "amcEnumFirmwares devices getName getGpu L =
     (let (n, found) = amcCardDiscovery devices getName getGpu (amcDeviceList L) 0;
          L = L\<lparr>numCards := int n, amcDeviceList := found\<rparr> in
      if numCards L \<le> 0 then (- 1, L) else (numCards L, L))"

text \<open>
  What constructing an object depends on: the memory it is made of, the results of its allocations, and the
  connection to its device.
\<close>

record 'd card_env =
  raw_object :: "'d pldm_ft"
  mctp_read_mem :: "u8 list option"
  mctp_write_mem :: "u8 list option"
  pldm_read_mem :: "u8 list option"
  pldm_write_mem :: "u8 list option"
  mutex_mem :: bool
  card_conn :: i2c_interface

definition pldm_constructor :: "'d card_env \<Rightarrow> string \<Rightarrow> 'd pldm_ft" where
  "pldm_constructor env devpath =
     (let p = mctp_constructor devpath (mctp_read_mem env) (mctp_write_mem env) (card_conn env) (raw_object env);
          p = p\<lparr>mI2cPldmRead := None, mI2cPldmWrite := None, progMutex := False, pldm_instanceID := 1, mFruTableInitialized := False\<rparr> in
      snd (pldminit (pldm_read_mem env) (pldm_write_mem env) (mutex_mem env) p))"

text \<open>The array is followed to an object; a result is stored there.\<close>

definition card_at :: "nat \<Rightarrow> 'd amclib \<Rightarrow> 'd pldm_ft outcome" where
  "card_at i L = obind (the_ptr (pldmobj L)) (\<lambda>ps. if i < length ps then the_ptr (ps ! i) else Fault)"

definition set_card :: "nat \<Rightarrow> 'd pldm_ft \<Rightarrow> 'd amclib \<Rightarrow> 'd amclib" where
  "set_card i p L = L\<lparr>pldmobj := map_option (\<lambda>ps. ps[i := Some p]) (pldmobj L)\<rparr>"

definition on_card :: "nat \<Rightarrow> ('d pldm_ft \<Rightarrow> ('r \<times> 'd pldm_ft) outcome) \<Rightarrow> 'd amclib \<Rightarrow> ('r \<times> 'd amclib) outcome" where
  "on_card i f L = obind (card_at i L) (\<lambda>p. obind (f p) (\<lambda>(r, p). Done (r, set_card i p L)))"

primrec construct_cards :: "(nat \<Rightarrow> 'd card_env) \<Rightarrow> amcCardInfo list \<Rightarrow> nat list \<Rightarrow> 'd pldm_ft option list outcome" where
  "construct_cards env devs [] = Done []"
| "construct_cards env devs (i # is) =
     (if i < length devs then obind (construct_cards env devs is) (\<lambda>ps. Done (Some (pldm_constructor (env i) (amcDevicePath (devs ! i))) # ps))
      else Fault)"

primrec initialize_cards :: "nat list \<Rightarrow> 'd amclib \<Rightarrow> (int \<times> 'd amclib) outcome" where
  "initialize_cards [] L = Done (AMC_SUCCESS, L)"
| "initialize_cards (i # is) L =
     obind (on_card i pldm_initialize L) (\<lambda>(ret, L). if ret \<noteq> PLDM_SUCCESS then Done (AMC_ERROR, L) else initialize_cards is L)"

definition amcInitialize :: "(nat \<Rightarrow> 'd card_env) \<Rightarrow> 'd amclib \<Rightarrow> (int \<times> 'd amclib) outcome" where
  "amcInitialize env L =
     (if numCards L < 0 then Fault
      else obind (construct_cards env (amcDeviceList L) [0..<nat (numCards L)]) (\<lambda>ps.
        initialize_cards [0..<nat (numCards L)] (L\<lparr>pldmobj := Some ps\<rparr>)))"

section \<open>Operations on a card\<close>

text \<open>The index is not compared with the number of cards.\<close>

definition amcFirmwareFlash :: "nat \<Rightarrow> u8 list \<Rightarrow> fw_file option \<Rightarrow> bool \<Rightarrow> u32 \<Rightarrow> 'd amclib \<Rightarrow> (int \<times> 'd amclib) outcome" where
  "amcFirmwareFlash rounds pkgFilePath fp alloc cardNum L =
     (if pldmobj L = None then Done (AMC_ERROR, L)
      else obind (on_card (unat cardNum) (fwupd rounds pkgFilePath fp alloc) L) (\<lambda>(ret, L).
        Done (if ret = PLDM_SUCCESS then AMC_SUCCESS else AMC_ERROR, L)))"

definition amcFirmwareProgress :: "u32 \<Rightarrow> 'd amclib \<Rightarrow> int outcome" where
  "amcFirmwareProgress cardNum L =
     (if word_of_int (numCards L) \<le> cardNum then Done (- 1)
      else if pldmobj L = None then Done (- 1)
      else obind (card_at (unat cardNum) L) (\<lambda>p. Done (mProgPercent p)))"

primrec card_index :: "string \<Rightarrow> amcCardInfo list \<Rightarrow> nat \<Rightarrow> nat option" where
  "card_index gpuBDF [] i = None"
| "card_index gpuBDF (c # cs) i = (if gpuParentPath c = gpuBDF then Some i else card_index gpuBDF cs (Suc i))"

definition amcGetIndex :: "string \<Rightarrow> 'd amclib \<Rightarrow> int" where
  "amcGetIndex gpuBDF L = (case card_index gpuBDF (amcDeviceList L) 0 of None \<Rightarrow> - 1 | Some i \<Rightarrow> int i)"

text \<open>Buffer and size come back as in the query of the object.\<close>

definition amcGetSerialNumber ::
  "nat \<Rightarrow> u8 \<Rightarrow> u8 list option \<Rightarrow> u64 option \<Rightarrow> 'd amclib \<Rightarrow> (int \<times> u8 list option \<times> u64 option \<times> 'd amclib) outcome" where
  "amcGetSerialNumber rounds cardNum serialNum bufferSize L =
     (if numCards L \<le> uint cardNum then Done (AMC_ERROR, serialNum, bufferSize, L)
      else obind (the_ptr (pldmobj L)) (\<lambda>ps.
        if length ps \<le> unat cardNum then Fault
        else if ps ! unat cardNum = None then Done (AMC_ERROR, serialNum, bufferSize, L)
        else obind (getFruSerialNum rounds serialNum bufferSize (the (ps ! unat cardNum))) (\<lambda>(r, b, n, p).
          Done (if r \<noteq> PLDM_SUCCESS then AMC_ERROR else AMC_SUCCESS, b, n, set_card (unat cardNum) p L))))"

definition amcGetVersion ::
  "nat \<Rightarrow> u8 \<Rightarrow> u8 list option \<Rightarrow> u64 option \<Rightarrow> 'd amclib \<Rightarrow> (int \<times> u8 list option \<times> u64 option \<times> 'd amclib) outcome" where
  "amcGetVersion rounds cardNum amcVersion bufferSize L =
     (if numCards L \<le> uint cardNum then Done (AMC_ERROR, amcVersion, bufferSize, L)
      else obind (the_ptr (pldmobj L)) (\<lambda>ps.
        if length ps \<le> unat cardNum then Fault
        else if ps ! unat cardNum = None then Done (AMC_ERROR, amcVersion, bufferSize, L)
        else obind (getAmcVersion rounds amcVersion bufferSize (the (ps ! unat cardNum))) (\<lambda>(r, b, n, p).
          Done (if r \<noteq> PLDM_SUCCESS then AMC_ERROR else AMC_SUCCESS, b, n, set_card (unat cardNum) p L))))"

text \<open>The strings come back by reference; a C string ends at its first zero.\<close>

definition amcGetCardInfo ::
  "nat \<Rightarrow> string \<Rightarrow> u8 list \<Rightarrow> u8 list \<Rightarrow> 'd amclib \<Rightarrow> (int \<times> u8 list \<times> u8 list \<times> 'd amclib) outcome" where
  "amcGetCardInfo rounds gpuBDF serialNumStr versionStr L =
     (case card_index gpuBDF (amcDeviceList L) 0 of
        None \<Rightarrow> Done (- 1, serialNumStr, versionStr, L)
      | Some i \<Rightarrow>
          obind (amcGetSerialNumber rounds (word_of_nat i) (Some (replicate MAX_PATH 0)) (Some (word_of_nat MAX_PATH)) L) (\<lambda>(r, serialNum, n, L).
            if r \<noteq> AMC_SUCCESS then Done (- 1, serialNumStr, versionStr, L)
            else let serialNumStr = cstr (the serialNum) in
              obind (amcGetVersion rounds (word_of_nat i) (Some (replicate MAX_PATH 0)) n L) (\<lambda>(r, amcVersion, n, L).
                if r \<noteq> AMC_SUCCESS then Done (- 1, serialNumStr, versionStr, L)
                else Done (int i, serialNumStr, cstr (the amcVersion), L))))"

definition amcGetSensorInfoBySensorId ::
  "'d fpu \<Rightarrow> nat \<Rightarrow> int \<Rightarrow> u16 \<Rightarrow> 'd amcSensorInfo list \<Rightarrow> 'd amclib \<Rightarrow> (int \<times> 'd amcSensorInfo list \<times> 'd amclib) outcome" where
  "amcGetSensorInfoBySensorId F rounds cardIndex sensorId sensorInfo L =
     (case pldmobj L of None \<Rightarrow> Done (AMC_ERROR, sensorInfo, L)
      | Some ps \<Rightarrow>
        if cardIndex < 0 \<or> int (length ps) \<le> cardIndex then Fault
        else if ps ! nat cardIndex = None then Done (AMC_ERROR, sensorInfo, L)
        else obind (getSensorInfoById F rounds sensorId (the (ps ! nat cardIndex))) (\<lambda>(ret, p).
          let L = set_card (nat cardIndex) p L in
          if ret \<noteq> PLDM_SUCCESS then Done (AMC_ERROR, sensorInfo, L)
          else Done (AMC_SUCCESS,
            sensorInfo @ map (\<lambda>s. \<lparr>amc_sensorId = info_sensorId s, sensorReading = reading s\<rparr>)
              (filter (\<lambda>s. info_sensorId s = sensorId) (mSensorInfoList p)), L)))"

primrec vrsync_cards :: "u8 \<Rightarrow> nat list \<Rightarrow> 'd amclib \<Rightarrow> (int \<times> 'd amclib) outcome" where
  "vrsync_cards cmd [] L = Done (AMC_SUCCESS, L)"
| "vrsync_cards cmd (i # is) L =
     obind (on_card i (oemVrsyncCmd cmd) L) (\<lambda>(ret, L). if ret \<noteq> PLDM_SUCCESS then Done (AMC_ERROR, L) else vrsync_cards cmd is L)"

definition amclib_oemVrsync :: "u8 \<Rightarrow> 'd amclib \<Rightarrow> (int \<times> 'd amclib) outcome" where
  "amclib_oemVrsync cmd L = vrsync_cards cmd [0..<nat (numCards L)] L"

definition amclib_amcGpuReset :: "u32 \<Rightarrow> 'd amclib \<Rightarrow> (int \<times> 'd amclib) outcome" where
  "amclib_amcGpuReset cardNum L =
     (if word_of_int (numCards L) \<le> cardNum then Done (AMC_ERROR, L)
      else obind (the_ptr (pldmobj L)) (\<lambda>ps.
        if length ps \<le> unat cardNum then Fault
        else if ps ! unat cardNum = None then Done (AMC_ERROR, L)
        else obind (amcGpuReset (the (ps ! unat cardNum))) (\<lambda>(r, p).
          Done (if r \<noteq> PLDM_SUCCESS then AMC_ERROR else AMC_SUCCESS, set_card (unat cardNum) p L))))"

definition amcReadFile :: "nat \<Rightarrow> int \<Rightarrow> u16 \<Rightarrow> u8 list \<Rightarrow> 'd amclib \<Rightarrow> (int \<times> u8 list \<times> 'd amclib) outcome" where
  "amcReadFile rounds deviceIndex filePdrId fileData L =
     (if deviceIndex < 0 \<or> numCards L \<le> deviceIndex then Done (AMC_ERROR, fileData, L)
      else case pldmobj L of None \<Rightarrow> Done (AMC_ERROR, fileData, L)
      | Some ps \<Rightarrow>
        if length ps \<le> nat deviceIndex then Fault
        else if ps ! nat deviceIndex = None then Done (AMC_ERROR, fileData, L)
        else obind (getFile rounds filePdrId fileData (the (ps ! nat deviceIndex))) (\<lambda>(ret, fileData, p).
          Done (if ret = PLDM_SUCCESS then AMC_SUCCESS else AMC_ERROR, fileData, set_card (nat deviceIndex) p L)))"

text \<open>Destruction: the objects of the first \<open>numCards\<close> entries are deleted, and each entry is read.\<close>

primrec delete_cards :: "nat list \<Rightarrow> 'd pldm_ft option list \<Rightarrow> 'd pldm_ft option list outcome" where
  "delete_cards [] ps = Done ps"
| "delete_cards (i # is) ps = (if i < length ps then delete_cards is (ps[i := None]) else Fault)"

definition amclib_destructor :: "'d amclib \<Rightarrow> 'd amclib outcome" where
  "amclib_destructor L =
     (case pldmobj L of None \<Rightarrow> Done (L\<lparr>amcDeviceList := []\<rparr>)
      | Some ps \<Rightarrow> obind (delete_cards [0..<nat (numCards L)] ps) (\<lambda>ps. Done (L\<lparr>pldmobj := None, amcDeviceList := []\<rparr>)))"

section \<open>The state of the library\<close>

text \<open>An enumerated library, and one whose cards have been constructed.\<close>

definition lib_wf :: "'d amclib \<Rightarrow> bool" where
  "lib_wf L = (0 \<le> numCards L \<and> nat (numCards L) \<le> length (amcDeviceList L))"

definition cards_ok :: "'d amclib \<Rightarrow> bool" where
  "cards_ok L = (lib_wf L \<and> (\<exists>ps. pldmobj L = Some ps \<and> length ps = nat (numCards L) \<and> (\<forall>i<length ps. \<exists>p. ps ! i = Some p \<and> pldm_ok p)))"

definition amc_card :: "nat \<Rightarrow> 'd amclib \<Rightarrow> 'd pldm_ft" where
  "amc_card i L = the (the (pldmobj L) ! i)"

definition cards :: "'d amclib \<Rightarrow> nat" where
  "cards L = nat (numCards L)"

lemma card_at_ok: "cards_ok L \<Longrightarrow> i < cards L \<Longrightarrow> card_at i L = Done (amc_card i L) \<and> pldm_ok (amc_card i L)"
proof -
  assume "cards_ok L" "i < cards L"
  then obtain ps p where "pldmobj L = Some ps" "i < length ps" "ps ! i = Some p" "pldm_ok p"
    by (auto simp: cards_ok_def cards_def)
  then show ?thesis
    by (simp add: card_at_def amc_card_def)
qed

lemma set_card_ok:
  assumes "cards_ok L" "i < cards L" "pldm_ok p"
  shows "cards_ok (set_card i p L)" "amc_card i (set_card i p L) = p" "j \<noteq> i \<Longrightarrow> amc_card j (set_card i p L) = amc_card j L"
    "cards (set_card i p L) = cards L" "amcDeviceList (set_card i p L) = amcDeviceList L" "numCards (set_card i p L) = numCards L"
  using assms by (auto simp: cards_ok_def set_card_def amc_card_def cards_def lib_wf_def nth_list_update)

text \<open>An operation on one card that keeps it well formed leaves the library well formed and the other cards alone.\<close>

lemma on_card_returns:
  assumes "cards_ok L" "i < cards L" "returns (f (amc_card i L)) (\<lambda>(r, p). pldm_ok p \<and> Q r p)"
  shows "returns (on_card i f L) (\<lambda>(r, L'). cards_ok L' \<and> amcDeviceList L' = amcDeviceList L \<and> numCards L' = numCards L
    \<and> Q r (amc_card i L') \<and> (\<forall>j. j \<noteq> i \<longrightarrow> amc_card j L' = amc_card j L))"
  using assms(3) card_at_ok [OF assms(1,2)] set_card_ok [OF assms(1,2)]
  by (auto simp: on_card_def cards_def elim!: returns_mono)

section \<open>Enumeration\<close>

text \<open>
  Enumerating keeps what earlier enumerations found: the list of cards grows by the cards found now, while
  the number of cards is theirs alone; the result is that number, or -1 when there are none.
\<close>

theorem enumeration_appends:
  "\<exists>new. amcDeviceList (snd (amcEnumFirmwares devices getName getGpu L)) = amcDeviceList L @ new
    \<and> numCards (snd (amcEnumFirmwares devices getName getGpu L)) = int (length new)
    \<and> fst (amcEnumFirmwares devices getName getGpu L) = (if new = [] then - 1 else int (length new))
    \<and> pldmobj (snd (amcEnumFirmwares devices getName getGpu L)) = pldmobj L
    \<and> list_all (\<lambda>c. \<exists>bus. bus \<noteq> [] \<and> list_all is_digit bus \<and> amcDevicePath c = ''/dev/i2c-'' @ bus) new"
proof -
  obtain n found where d: "amcCardDiscovery devices getName getGpu (amcDeviceList L) 0 = (n, found)"
    by (cases "amcCardDiscovery devices getName getGpu (amcDeviceList L) 0")
  from amcCardDiscovery_count [OF this] obtain new where "found = amcDeviceList L @ new" "n = length new"
    "list_all (\<lambda>c. \<exists>bus. bus \<noteq> [] \<and> list_all is_digit bus \<and> amcDevicePath c = ''/dev/i2c-'' @ bus) new"
    by auto
  then show ?thesis
    by (intro exI [of _ new]) (simp add: amcEnumFirmwares_def d Let_def)
qed

lemma enumeration_wf: "lib_wf (snd (amcEnumFirmwares devices getName getGpu L))"
proof -
  obtain n found where d: "amcCardDiscovery devices getName getGpu (amcDeviceList L) 0 = (n, found)"
    by (cases "amcCardDiscovery devices getName getGpu (amcDeviceList L) 0")
  from amcCardDiscovery_count [OF this] show ?thesis
    by (auto simp: amcEnumFirmwares_def d Let_def lib_wf_def)
qed

text \<open>
  The index of a amc_card is that of the first card below the given device, and -1 when there is none.
\<close>

theorem card_lookup_first:
  "amcGetIndex b L = (if \<exists>c\<in>set (amcDeviceList L). gpuParentPath c = b
     then int (LEAST i. i < length (amcDeviceList L) \<and> gpuParentPath (amcDeviceList L ! i) = b) else - 1)"
proof -
  have "card_index b cs k = (if \<exists>c\<in>set cs. gpuParentPath c = b then Some (k + (LEAST i. i < length cs \<and> gpuParentPath (cs ! i) = b)) else None)"
    for cs k
  proof (induction cs arbitrary: k)
    case (Cons c cs)
    show ?case
    proof (cases "gpuParentPath c = b")
      case True
      then have "(LEAST i. i < length (c # cs) \<and> gpuParentPath ((c # cs) ! i) = b) = 0"
        by (intro Least_equality) auto
      with True show ?thesis
        by simp
    next
      case False
      show ?thesis
      proof (cases "\<exists>c\<in>set cs. gpuParentPath c = b")
        case True
        then obtain i where "i < length cs" "gpuParentPath (cs ! i) = b"
          by (auto simp: in_set_conv_nth)
        then have "(LEAST i. i < length (c # cs) \<and> gpuParentPath ((c # cs) ! i) = b) = Suc (LEAST i. i < length cs \<and> gpuParentPath (cs ! i) = b)"
          using Least_Suc [of "\<lambda>i. i < length (c # cs) \<and> gpuParentPath ((c # cs) ! i) = b" "Suc i"] False by simp
        then show ?thesis
          using True False Cons.IH [of "Suc k"] by simp
      qed (use False Cons.IH [of "Suc k"] in simp)
    qed
  qed simp
  then show ?thesis
    by (simp add: amcGetIndex_def)
qed

section \<open>Starting the cards\<close>

text \<open>The environment of a construction in which every allocation succeeds and the device opens.\<close>

definition env_ok :: "'d card_env \<Rightarrow> bool" where
  "env_ok e = (\<exists>a b c d. mctp_read_mem e = Some a \<and> length a = 139 \<and> mctp_write_mem e = Some b \<and> length b = 139
     \<and> pldm_read_mem e = Some c \<and> length c = 140 \<and> pldm_write_mem e = Some d \<and> length d = 140 \<and> mutex_mem e
     \<and> i2c_init (card_conn e) \<and> 0 \<le> amchandle (card_conn e) \<and> length (versionInfo (raw_object e)) = 8)"

lemma constructed_ok:
  assumes "env_ok e" "path \<noteq> []"
  shows "pldm_ok (pldm_constructor e path)" "length (versionInfo (pldm_constructor e path)) = 8" "pldm_instanceID (pldm_constructor e path) = 1"
  using assms by (auto simp: env_ok_def pldm_constructor_def mctp_constructor_def mctpinit_def pldminit_def Let_def pldm_ok_def mctp_ok_def
      PAYLOAD_SIZE_def mctp_data_of_bytes_def)

lemma construct_cards_ok:
  assumes "\<forall>i\<in>set is. i < length devs"
  shows "construct_cards env devs is = Done (map (\<lambda>i. Some (pldm_constructor (env i) (amcDevicePath (devs ! i)))) is)"
  using assms by (induction "is") simp_all

lemma initialize_cards_returns:
  assumes "cards_ok L" "distinct is" "\<forall>i\<in>set is. i < cards L \<and> length (versionInfo (amc_card i L)) = 8"
  shows "returns (initialize_cards is L) (\<lambda>(r, L'). cards_ok L' \<and> amcDeviceList L' = amcDeviceList L \<and> numCards L' = numCards L
    \<and> r \<in> {AMC_SUCCESS, AMC_ERROR} \<and> (r = AMC_SUCCESS \<longrightarrow> (\<forall>i\<in>set is. unat (totalSupportedTypes (amc_card i L')) \<le> 8))
    \<and> (\<forall>j. j \<notin> set is \<longrightarrow> amc_card j L' = amc_card j L))"
  using assms
proof (induction "is" arbitrary: L)
  case (Cons i js)
  have i: "i < cards L" "length (versionInfo (amc_card i L)) = 8"
    using Cons.prems(3) by auto
  have "returns (pldm_initialize (amc_card i L)) (\<lambda>(r, p). pldm_ok p \<and> (r = PLDM_SUCCESS \<longrightarrow> unat (totalSupportedTypes p) \<le> 8))"
    using card_at_ok [OF Cons.prems(1) i(1)] by (intro returns_mono [OF card_starts [OF _ i(2)]]) auto
  then obtain r L1 where L1: "on_card i pldm_initialize L = Done (r, L1)" "cards_ok L1" "amcDeviceList L1 = amcDeviceList L"
      "numCards L1 = numCards L" "r = PLDM_SUCCESS \<longrightarrow> unat (totalSupportedTypes (amc_card i L1)) \<le> 8" "\<And>j. j \<noteq> i \<Longrightarrow> amc_card j L1 = amc_card j L"
    using on_card_returns [OF Cons.prems(1) i(1), of pldm_initialize "\<lambda>r p. r = PLDM_SUCCESS \<longrightarrow> unat (totalSupportedTypes p) \<le> 8"]
    by (auto simp: returns_iff)
  show ?case
  proof (cases "r = PLDM_SUCCESS")
    case True
    have "j \<noteq> i" if "j \<in> set js" for j
      using Cons.prems(2) that by auto
    then have "\<forall>j\<in>set js. j < cards L1 \<and> length (versionInfo (amc_card j L1)) = 8"
      using Cons.prems(3) L1(4,6) by (simp add: cards_def)
    then have "returns (initialize_cards js L1) (\<lambda>(r, L'). cards_ok L' \<and> amcDeviceList L' = amcDeviceList L1 \<and> numCards L' = numCards L1
      \<and> r \<in> {AMC_SUCCESS, AMC_ERROR} \<and> (r = AMC_SUCCESS \<longrightarrow> (\<forall>i\<in>set js. unat (totalSupportedTypes (amc_card i L')) \<le> 8))
      \<and> (\<forall>j. j \<notin> set js \<longrightarrow> amc_card j L' = amc_card j L1))"
      using Cons.prems(2) by (intro Cons.IH [OF L1(2)]) simp_all
    then show ?thesis
      using True L1 Cons.prems(2) by (auto elim!: returns_mono)
  next
    case False
    with L1 show ?thesis
      by (auto simp: amc_codes)
  qed
qed (simp add: amc_codes)

text \<open>
  Initializing an enumerated library whose devices can be opened always returns with one well-formed object
  per card and the list of cards as it was; it reports success exactly when every card has answered the start of
  its protocols, and then at most eight types are known of each.
\<close>

theorem library_start:
  assumes "lib_wf L" "\<forall>i<cards L. env_ok (env i) \<and> amcDevicePath (amcDeviceList L ! i) \<noteq> []"
  shows "returns (amcInitialize env L) (\<lambda>(r, L'). cards_ok L' \<and> amcDeviceList L' = amcDeviceList L \<and> numCards L' = numCards L
    \<and> r \<in> {AMC_SUCCESS, AMC_ERROR} \<and> (r = AMC_SUCCESS \<longrightarrow> (\<forall>i<cards L'. unat (totalSupportedTypes (amc_card i L')) \<le> 8)))"
proof -
  let ?is = "[0..<cards L]"
  define L1 where "L1 = L\<lparr>pldmobj := Some (map (\<lambda>i. Some (pldm_constructor (env i) (amcDevicePath (amcDeviceList L ! i)))) ?is)\<rparr>"
  have c: "amc_card i L1 = pldm_constructor (env i) (amcDevicePath (amcDeviceList L ! i))" if "i < cards L" for i
    using that by (simp add: amc_card_def L1_def)
  have L1: "cards_ok L1" "cards L1 = cards L" "amcDeviceList L1 = amcDeviceList L" "numCards L1 = numCards L"
    using assms constructed_ok(1) by (auto simp: cards_ok_def L1_def lib_wf_def cards_def)
  have "\<forall>i\<in>set ?is. i < cards L1 \<and> length (versionInfo (amc_card i L1)) = 8"
    using assms(2) by (auto simp: c L1(2) constructed_ok(2))
  from initialize_cards_returns [OF L1(1) distinct_upt this] have "returns (initialize_cards ?is L1) (\<lambda>(r, L'). cards_ok L' \<and> amcDeviceList L' = amcDeviceList L
     \<and> numCards L' = numCards L \<and> r \<in> {AMC_SUCCESS, AMC_ERROR} \<and> (r = AMC_SUCCESS \<longrightarrow> (\<forall>i<cards L'. unat (totalSupportedTypes (amc_card i L')) \<le> 8)))"
    using L1(3,4) by (auto simp: cards_def elim!: returns_mono)
  moreover have "construct_cards env (amcDeviceList L) ?is = Done (map (\<lambda>i. Some (pldm_constructor (env i) (amcDevicePath (amcDeviceList L ! i)))) ?is)"
    by (rule construct_cards_ok) (use assms(1) in \<open>auto simp: lib_wf_def cards_def\<close>)
  ultimately show ?thesis
    using assms(1) by (simp add: amcInitialize_def lib_wf_def cards_def L1_def)
qed

end
