(* ===== verification/Amc_LibOps.thy ===== *)
theory Amc_LibOps
  imports Amc_Lib
begin

text \<open>
  The operations of the library on its cards: the command to all cards in order, what each operation does before
  the objects exist and with an index out of range, and the readings of a sensor, which accumulate.
\<close>

section \<open>Commands to all cards\<close>

definition asked_in_order :: "u8 \<Rightarrow> nat list \<Rightarrow> nat \<Rightarrow> int \<Rightarrow> 'd amclib \<Rightarrow> 'd amclib \<Rightarrow> bool" where
  "asked_in_order cmd is k r L L' =
    ((\<forall>i\<in>set (take k is). pldm_sent (amc_card i L) [(PLDM_OEM_SPECIFIC, cmd)] (amc_card i L'))
    \<and> (if r = AMC_SUCCESS then k = length is else r = AMC_ERROR \<and> k < length is
         \<and> (\<exists>j\<le>1. pldm_sent (amc_card (is ! k) L) (replicate j (PLDM_OEM_SPECIFIC, cmd)) (amc_card (is ! k) L')))
    \<and> (\<forall>i. i \<notin> set (take (Suc k) is) \<longrightarrow> amc_card i L' = amc_card i L))"

lemma vrsync_cards_returns:
  assumes "cards_ok L" "distinct is" "\<forall>i\<in>set is. i < cards L"
  shows "returns (vrsync_cards cmd is L) (\<lambda>(r, L'). cards_ok L' \<and> (\<exists>k\<le>length is. asked_in_order cmd is k r L L'))"
  using assms
proof (induction "is" arbitrary: L)
  case (Cons i js)
  have i: "i < cards L" "pldm_ok (amc_card i L)"
    using Cons.prems(3) card_at_ok [OF Cons.prems(1)] by auto
  have "returns (oemVrsyncCmd cmd (amc_card i L)) (\<lambda>(r, p). pldm_ok p \<and> (\<exists>j\<le>1. pldm_sent (amc_card i L) (replicate j (PLDM_OEM_SPECIFIC, cmd)) p)
      \<and> (r = PLDM_SUCCESS \<longrightarrow> pldm_sent (amc_card i L) [(PLDM_OEM_SPECIFIC, cmd)] p))"
  proof (rule returns_mono)
    show "returns (oemVrsyncCmd cmd (amc_card i L)) (\<lambda>(r, p'). (\<exists>k. pldm_sent (amc_card i L) (take k [(PLDM_OEM_SPECIFIC, cmd)]) p')
      \<and> (r = PLDM_SUCCESS \<longrightarrow> pldm_sent (amc_card i L) [(PLDM_OEM_SPECIFIC, cmd)] p' \<and> True))"
      using oem_and_reset_send [OF i(2), of cmd] unfolding sends_def by blast
    have "\<exists>j\<le>1. pldm_sent (amc_card i L) (replicate j (PLDM_OEM_SPECIFIC, cmd)) p"
      if "pldm_sent (amc_card i L) (take k [(PLDM_OEM_SPECIFIC, cmd)]) p" for k p
      using that by (cases k) (auto intro: exI [of _ 0] exI [of _ 1])
    then show "case x of (r, p) \<Rightarrow> pldm_ok p \<and> (\<exists>j\<le>1. pldm_sent (amc_card i L) (replicate j (PLDM_OEM_SPECIFIC, cmd)) p)
      \<and> (r = PLDM_SUCCESS \<longrightarrow> pldm_sent (amc_card i L) [(PLDM_OEM_SPECIFIC, cmd)] p)"
      if "case x of (r, p') \<Rightarrow> (\<exists>k. pldm_sent (amc_card i L) (take k [(PLDM_OEM_SPECIFIC, cmd)]) p')
      \<and> (r = PLDM_SUCCESS \<longrightarrow> pldm_sent (amc_card i L) [(PLDM_OEM_SPECIFIC, cmd)] p' \<and> True)" for x
      using that by (auto dest: pldm_sent_ok)
  qed
  from on_card_returns [OF Cons.prems(1) i(1), where f = "oemVrsyncCmd cmd" and Q = "\<lambda>r p. (\<exists>j\<le>1. pldm_sent (amc_card i L) (replicate j (PLDM_OEM_SPECIFIC, cmd)) p)
      \<and> (r = PLDM_SUCCESS \<longrightarrow> pldm_sent (amc_card i L) [(PLDM_OEM_SPECIFIC, cmd)] p)", OF this]
  obtain r L1 where L1: "on_card i (oemVrsyncCmd cmd) L = Done (r, L1)" "cards_ok L1"
      "numCards L1 = numCards L" "\<exists>j\<le>1. pldm_sent (amc_card i L) (replicate j (PLDM_OEM_SPECIFIC, cmd)) (amc_card i L1)"
      "r = PLDM_SUCCESS \<Longrightarrow> pldm_sent (amc_card i L) [(PLDM_OEM_SPECIFIC, cmd)] (amc_card i L1)" "\<And>j. j \<noteq> i \<Longrightarrow> amc_card j L1 = amc_card j L"
    by (auto simp: returns_iff)
  have err: "AMC_ERROR \<noteq> AMC_SUCCESS"
    by (simp add: amc_codes)
  show ?case
  proof (cases "r = PLDM_SUCCESS")
    case False
    then show ?thesis
      using L1 err by (simp, intro exI [of _ 0]) (simp add: asked_in_order_def)
  next
    case True
    have i_new: "i \<notin> set js"
      using Cons.prems(2) by simp
    have js: "amc_card j L1 = amc_card j L" if "j \<in> set js" for j
      by (rule L1(6)) (use that i_new in auto)
    have "returns (vrsync_cards cmd js L1) (\<lambda>(r, L'). cards_ok L' \<and> (\<exists>k\<le>length js. asked_in_order cmd js k r L1 L'))"
      using Cons.prems L1(3) by (intro Cons.IH [OF L1(2)]) (auto simp: cards_def)
    then obtain r' L' k where L': "vrsync_cards cmd js L1 = Done (r', L')" "cards_ok L'" "k \<le> length js"
      "\<And>i. i \<in> set (take k js) \<Longrightarrow> pldm_sent (amc_card i L1) [(PLDM_OEM_SPECIFIC, cmd)] (amc_card i L')"
      "if r' = AMC_SUCCESS then k = length js else r' = AMC_ERROR \<and> k < length js
           \<and> (\<exists>j\<le>1. pldm_sent (amc_card (js ! k) L1) (replicate j (PLDM_OEM_SPECIFIC, cmd)) (amc_card (js ! k) L'))"
      "\<And>i. i \<notin> set (take (Suc k) js) \<Longrightarrow> amc_card i L' = amc_card i L1"
      by (auto simp: returns_iff asked_in_order_def)
    have i_kept: "amc_card i L' = amc_card i L1"
      by (rule L'(6)) (use i_new in_set_takeD [of i "Suc k" js] in blast)
    have "pldm_sent (amc_card j L) [(PLDM_OEM_SPECIFIC, cmd)] (amc_card j L')" if "j \<in> set (take (Suc k) (i # js))" for j
    proof (cases "j = i")
      case False
      then have j: "j \<in> set (take k js)"
        using that by simp
      show ?thesis
        using L'(4) [OF j] js [OF in_set_takeD [OF j]] by simp
    qed (use L1(5) [OF True] i_kept in simp)
    moreover have "amc_card j L' = amc_card j L" if "j \<notin> set (take (Suc (Suc k)) (i # js))" for j
      using that L'(6) [of j] L1(6) [of j] by simp
    moreover have "if r' = AMC_SUCCESS then Suc k = length (i # js) else r' = AMC_ERROR \<and> Suc k < length (i # js)
         \<and> (\<exists>n\<le>1. pldm_sent (amc_card ((i # js) ! Suc k) L) (replicate n (PLDM_OEM_SPECIFIC, cmd)) (amc_card ((i # js) ! Suc k) L'))"
      using L'(5) js by (auto split: if_splits)
    ultimately show ?thesis
      using L1(1) True L'(1-3) by (simp, intro exI [of _ "Suc k"]) (simp add: asked_in_order_def)
  qed
qed (simp add: amc_codes asked_in_order_def)


section \<open>Indices and initialization\<close>

text \<open>
  What happens before the objects exist depends on the operation: flashing, the progress, a sensor query and
  reading a file report an error, while the serial number, the version, the reset and the OEM command to all
  cards follow the null pointer, on every index that the number of cards allows.
\<close>

theorem uninitialized_calls:
  assumes "pldmobj L = None" "lib_wf L" "uint c < numCards L" "numCards L < 2 ^ 32"
  shows "amcFirmwareFlash rounds path fp alloc (ucast c) L = Done (AMC_ERROR, L) \<and> amcFirmwareProgress (ucast c) L = Done (- 1)
    \<and> amcGetSensorInfoBySensorId F rounds (uint c) sensor infos L = Done (AMC_ERROR, infos, L)
    \<and> amcReadFile rounds (uint c) pdr contents L = Done (AMC_ERROR, contents, L)
    \<and> amcGetSerialNumber rounds c buf n L = Fault \<and> amcGetVersion rounds c buf n L = Fault
    \<and> amclib_amcGpuReset (ucast c) L = Fault \<and> amclib_oemVrsync cmd L = Fault"
proof -
  have "uint (word_of_int (numCards L) :: u32) = numCards L"
    using assms(2,4) by (simp add: lib_wf_def word_of_int_inverse unsigned_of_int take_bit_int_eq_self)
  moreover have "uint (ucast c :: u32) = uint c"
    by (simp add: unsigned_ucast_eq take_bit_int_eq_self unsigned_less [THEN order.strict_trans2])
  ultimately have "\<not> word_of_int (numCards L) \<le> (ucast c :: u32)"
    using assms(3) by (simp add: word_le_def)
  moreover have "0 \<in> set [0..<nat (numCards L)]" "[0..<nat (numCards L)] = 0 # [1..<nat (numCards L)]"
    using le_less_trans [OF uint_nonnegative assms(3)] by (simp_all add: upt_conv_Cons)
  then have "amclib_oemVrsync cmd L = Fault"
    unfolding amclib_oemVrsync_def using assms(1) by (simp add: on_card_def card_at_def)
  ultimately show ?thesis
    using assms by (simp add: amcFirmwareFlash_def amcFirmwareProgress_def amcGetSensorInfoBySensorId_def amcReadFile_def
        amcGetSerialNumber_def amcGetVersion_def amclib_amcGpuReset_def)
qed

text \<open>
  With the objects constructed, an index that is too large is an error for every operation but two: flashing
  and the sensor query use it as it is and leave the array.
\<close>

theorem flash_index_unchecked:
  assumes "cards_ok L" "numCards L < 2 ^ 32" "numCards L \<le> uint (c :: u32)"
  shows "amcFirmwareFlash rounds path fp alloc c L = Fault \<and> amcGetSensorInfoBySensorId F rounds (uint c) sensor infos L = Fault
    \<and> amcFirmwareProgress c L = Done (- 1) \<and> amclib_amcGpuReset c L = Done (AMC_ERROR, L)
    \<and> amcReadFile rounds (uint c) pdr contents L = Done (AMC_ERROR, contents, L)"
proof -
  obtain ps where ps: "pldmobj L = Some ps" "length ps = nat (numCards L)" "0 \<le> numCards L"
    using assms(1) by (auto simp: cards_ok_def lib_wf_def)
  have "uint (word_of_int (numCards L) :: u32) = numCards L"
    using ps(3) assms(2) by (simp add: unsigned_of_int take_bit_int_eq_self)
  then have "word_of_int (numCards L) \<le> c"
    using assms(3) by (simp add: word_le_def)
  moreover have "int (length ps) \<le> uint c"
    using ps(2,3) assms(3) by simp
  moreover from this have "\<not> unat c < length ps"
    by (simp only: not_less uint_nat of_nat_le_iff)
  ultimately show ?thesis
    using ps(1) assms(3)
    by (simp add: amcFirmwareFlash_def amcFirmwareProgress_def amcGetSensorInfoBySensorId_def amcReadFile_def amclib_amcGpuReset_def
        on_card_def card_at_def)
qed

section \<open>The readings of a card\<close>

text \<open>
  Every result of a computation leaves the list of readings at \<open>l\<close>; nothing is said when there is no result.
\<close>

definition leaves :: "'d pldmSensorInfo list \<Rightarrow> ('r \<times> ('d, 'a) pldm_pf_scheme) outcome \<Rightarrow> bool" where
  "leaves l m = (\<forall>r p. m = Done (r, p) \<longrightarrow> mSensorInfoList p = l)"

lemma leaves_simps [simp]:
  "leaves l (Done (r, p)) = (mSensorInfoList p = l)" "leaves l Fault" "leaves l Stuck"
  by (simp_all add: leaves_def)

lemma leaves_bind:
  assumes "leaves l m" "\<And>r p. mSensorInfoList p = l \<Longrightarrow> leaves l (f (r, p))"
  shows "leaves l (obind m f)"
  using assms by (force simp: leaves_def)

lemma leaves_ptr: "(\<And>x. leaves l (f x)) \<Longrightarrow> leaves l (obind (the_ptr q) f)"
  by (cases q) simp_all

text \<open>Nothing but a converted reading changes the list.\<close>

lemma leaves_steps:
  fixes p :: "('d, 'a) pldm_pf_scheme"
  assumes "mSensorInfoList p = l"
  shows "leaves l (pldm_send sz p)" "leaves l (pldm_receive p)" "leaves l (pfFillPayload cmd n p)" "leaves l (processPlatformResponse cmd i p)"
  using assms
  by (auto simp: leaves_def processPlatformResponse_def pfPdrRepoRespPayload_def pfPdrRespPayload_def pfSensorReadingRespPayload_def Let_def
      dest: pldm_send_only pldm_receive_only pf_fill_only split: if_splits option.splits)

lemma leaves_next: "mSensorInfoList p = l \<Longrightarrow> leaves l (Done (pf_next cmd (p\<lparr>pldm_instanceID := i\<rparr>)))"
  by (cases "pf_next cmd (p\<lparr>pldm_instanceID := i\<rparr>)") (auto simp: pf_next_def Let_def split: if_splits)

lemma leaves_round: "mSensorInfoList p = l \<Longrightarrow> leaves l (pf_round cmd sz p)"
  unfolding pf_round_def Let_def
  by (auto intro!: leaves_bind leaves_ptr leaves_steps leaves_next simp: next_instance_def split: prod.split)

lemma leaves_loop: "mSensorInfoList p = l \<Longrightarrow> leaves l (pf_loop k cmd sz p)"
  by (induction k arbitrary: p) (auto intro!: leaves_bind leaves_round split: option.split)

lemma leaves_command: "mSensorInfoList p = l \<Longrightarrow> leaves l (pfMonCtrlCmd k cmd sz p)"
  by (cases "mI2cPldmWrite p") (auto simp: pfMonCtrlCmd_def pf_header_def intro!: leaves_loop)

lemma leaves_pdrs: "mSensorInfoList p = l \<Longrightarrow> leaves l (pdrs_loop rounds n p)"
  by (induction n arbitrary: p) (auto intro!: leaves_bind leaves_command)

lemma leaves_initialize: "mSensorInfoList p = l \<Longrightarrow> leaves l (pfMonCtrlInitialize rounds p)"
  by (auto simp: pfMonCtrlInitialize_def pfGetPdrRepositoryInfo_def pfGetTotalPdrs_def intro!: leaves_bind leaves_command leaves_pdrs)

lemma sensor_value_adds:
  assumes "pfGetSensorValue F rounds s p = Done (r, p')"
  shows "\<exists>new. mSensorInfoList p' = mSensorInfoList p @ new \<and> (r = PLDM_SUCCESS \<longrightarrow> map info_sensorId new = [le16 (s ! 12) (s ! 13)])"
proof -
  obtain i where i: "get_u16 s off_sensorId = Done i" "i = le16 (s ! 12) (s ! 13)"
    using assms by (auto simp: pfGetSensorValue_def sensor_layout get_u16_def split: if_splits)
  obtain r1 p1 where p1: "pfMonCtrlCmd rounds PLDM_GET_SENSOR_READING 15 (p\<lparr>pfSensorReadingReq := \<lparr>rd_sensorId = i, rearmEventState = 0\<rparr>\<rparr>) = Done (r1, p1)"
    using assms i(1) by (auto simp: pfGetSensorValue_def)
  have "leaves (mSensorInfoList p) (pfMonCtrlCmd rounds PLDM_GET_SENSOR_READING 15 (p\<lparr>pfSensorReadingReq := \<lparr>rd_sensorId = i, rearmEventState = 0\<rparr>\<rparr>))"
    by (rule leaves_command) simp
  then have "mSensorInfoList p1 = mSensorInfoList p"
    using p1 by simp
  then show ?thesis
    using assms i p1 by (auto simp: pfGetSensorValue_def split: if_splits option.splits)
qed

lemma sensor_by_id_adds:
  "sensor_by_id F rounds sensorId rs p = Done (r, p') \<Longrightarrow>
    \<exists>new. mSensorInfoList p' = mSensorInfoList p @ new \<and> (r = PLDM_SUCCESS \<longrightarrow> map info_sensorId new = [sensorId])"
proof (induction rs)
  case (Cons x rs)
  then show ?case
    by (auto simp: sensor_layout get_u16_def dest!: sensor_value_adds split: if_splits)
qed simp

lemma sensor_info_adds:
  assumes "getSensorInfoById F rounds sensorId p = Done (r, p')"
  shows "\<exists>new. mSensorInfoList p' = mSensorInfoList p @ new \<and> (r = PLDM_SUCCESS \<longrightarrow> map info_sensorId new = [sensorId])"
proof -
  obtain r1 p1 where p1: "pfMonCtrlInitialize rounds p = Done (r1, p1)"
    using assms by (auto simp: getSensorInfoById_def)
  then have "mSensorInfoList p1 = mSensorInfoList p"
    using leaves_initialize [of p "mSensorInfoList p" rounds] by simp
  then show ?thesis
    using assms p1 by (auto simp: getSensorInfoById_def pfGetSensorValuesById_def dest!: sensor_by_id_adds split: if_splits)
qed

text \<open>
  A query of a sensor that succeeds hands out the reading it has just taken last, behind every reading of
  that sensor taken before: the list of readings of a card is never cleared, so the answers grow with each query
  and their first entry stays the oldest reading.
\<close>

theorem sensor_readings_accumulate:
  assumes "amcGetSensorInfoBySensorId F rounds i sensorId infos L = Done (AMC_SUCCESS, infos', L')"
  shows "\<exists>x. infos' = infos @ map (\<lambda>s. \<lparr>amc_sensorId = sensorId, sensorReading = reading s\<rparr>)
      (filter (\<lambda>s. info_sensorId s = sensorId) (mSensorInfoList (amc_card (nat i) L)) @ [x])
    \<and> info_sensorId x = sensorId \<and> mSensorInfoList (amc_card (nat i) L') = mSensorInfoList (amc_card (nat i) L) @ [x]"
proof -
  obtain ps where ps: "pldmobj L = Some ps" "0 \<le> i" "nat i < length ps" "ps ! nat i \<noteq> None"
    using assms by (auto simp: amcGetSensorInfoBySensorId_def amc_codes nat_less_iff split: option.splits if_splits)
  let ?p = "the (ps ! nat i)"
  obtain r p where p: "getSensorInfoById F rounds sensorId ?p = Done (r, p)"
    using assms ps by (auto simp: amcGetSensorInfoBySensorId_def split: if_splits)
  have range: "\<not> (i < 0 \<or> int (length ps) \<le> i)"
    using ps(2,3) by (simp add: nat_less_iff)
  let ?infos = "infos @ map (\<lambda>s. \<lparr>amc_sensorId = info_sensorId s, sensorReading = reading s\<rparr>) (filter (\<lambda>s. info_sensorId s = sensorId) (mSensorInfoList p))"
  have "(if r \<noteq> PLDM_SUCCESS then Done (AMC_ERROR, infos, set_card (nat i) p L) else Done (AMC_SUCCESS, ?infos, set_card (nat i) p L))
      = Done (AMC_SUCCESS, infos', L')"
    using assms unfolding amcGetSensorInfoBySensorId_def ps(1) option.case if_not_P [OF range] if_not_P [OF ps(4)] p obind.simps prod.case Let_def .
  moreover have "AMC_ERROR \<noteq> AMC_SUCCESS"
    by (simp add: amc_codes)
  ultimately have r: "r = PLDM_SUCCESS" "L' = set_card (nat i) p L" "infos' = ?infos"
    by (simp_all split: if_splits)
  obtain new where new: "mSensorInfoList p = mSensorInfoList ?p @ new" "map info_sensorId new = [sensorId]"
    using sensor_info_adds [OF p] by (elim exE conjE) (simp add: r(1))
  then obtain x where x: "new = [x]" "info_sensorId x = sensorId"
    by (cases new) auto
  have "amc_card (nat i) L = ?p" "amc_card (nat i) L' = p"
    using ps r(2) by (simp_all add: amc_card_def set_card_def)
  then show ?thesis
    using r(3) new(1) x by (intro exI [of _ x]) (auto intro!: map_cong)
qed

end
