(* ===== verification/Zes_Types.thy ===== *)
theory Zes_Types
  imports Prelude
begin

text \<open>
  The structures of the Level Zero Sysman API (\<^verbatim>\<open>level-zero/zes_api.h\<close> and, for the core device
  properties, \<^verbatim>\<open>ze_api.h\<close>) that the stub stores and copies out, one record per C structure with
  the C field names behind the structure's name. Enumerations and flag sets are 32-bit words,
  \<^verbatim>\<open>ze_bool_t\<close> is a byte. Extensible structures start with the tag and chain pointer of
  \<open>zes_hdr\<close>, so code that preserves a caller's header is written once for all of them.
\<close>

record zes_hdr =
  stype :: u32
  pNext :: u64

section \<open>Result codes\<close>

type_synonym ze_result_t = u32

definition ZE_RESULT_SUCCESS :: ze_result_t where
  "ZE_RESULT_SUCCESS = 0"

definition ZE_RESULT_ERROR_UNSUPPORTED_FEATURE :: ze_result_t where
  "ZE_RESULT_ERROR_UNSUPPORTED_FEATURE = 0x78000003"

definition ZE_RESULT_ERROR_INVALID_ARGUMENT :: ze_result_t where
  "ZE_RESULT_ERROR_INVALID_ARGUMENT = 0x78000004"

definition ZE_RESULT_ERROR_INVALID_NULL_HANDLE :: ze_result_t where
  "ZE_RESULT_ERROR_INVALID_NULL_HANDLE = 0x78000005"

definition ZE_RESULT_ERROR_INVALID_NULL_POINTER :: ze_result_t where
  "ZE_RESULT_ERROR_INVALID_NULL_POINTER = 0x78000007"

definition ZE_RESULT_ERROR_INVALID_SIZE :: ze_result_t where
  "ZE_RESULT_ERROR_INVALID_SIZE = 0x78000008"

definition ZE_RESULT_ERROR_NOT_AVAILABLE :: ze_result_t where
  "ZE_RESULT_ERROR_NOT_AVAILABLE = 0x70010001"

definition ZE_RESULT_ERROR_UNINITIALIZED :: ze_result_t where
  "ZE_RESULT_ERROR_UNINITIALIZED = 0x78000001"

definition ZE_RESULT_ERROR_UNKNOWN :: ze_result_t where
  "ZE_RESULT_ERROR_UNKNOWN = 0x7ffffffe"

lemmas ze_result_defs = ZE_RESULT_SUCCESS_def ZE_RESULT_ERROR_UNSUPPORTED_FEATURE_def
  ZE_RESULT_ERROR_INVALID_ARGUMENT_def ZE_RESULT_ERROR_INVALID_NULL_HANDLE_def
  ZE_RESULT_ERROR_INVALID_NULL_POINTER_def ZE_RESULT_ERROR_INVALID_SIZE_def

section \<open>Structure tags\<close>

definition ZES_STRUCTURE_TYPE_POWER_EXT_PROPERTIES :: u32 where
  "ZES_STRUCTURE_TYPE_POWER_EXT_PROPERTIES = 0x28"

definition ZES_STRUCTURE_TYPE_ENGINE_EXT_PROPERTIES :: u32 where
  "ZES_STRUCTURE_TYPE_ENGINE_EXT_PROPERTIES = 0x2b"

definition ZES_STRUCTURE_TYPE_DEVICE_EXT_PROPERTIES :: u32 where
  "ZES_STRUCTURE_TYPE_DEVICE_EXT_PROPERTIES = 0x2d"

definition ZES_STRUCTURE_TYPE_DEVICE_ECC_DEFAULT_PROPERTIES_EXT :: u32 where
  "ZES_STRUCTURE_TYPE_DEVICE_ECC_DEFAULT_PROPERTIES_EXT = 0x00020012"

definition ZES_STRUCTURE_TYPE_PCI_LINK_SPEED_DOWNGRADE_EXT_STATE :: u32 where
  "ZES_STRUCTURE_TYPE_PCI_LINK_SPEED_DOWNGRADE_EXT_STATE = 0x00020013"

definition ZES_STRUCTURE_TYPE_PCI_LINK_SPEED_DOWNGRADE_EXT_PROPERTIES :: u32 where
  "ZES_STRUCTURE_TYPE_PCI_LINK_SPEED_DOWNGRADE_EXT_PROPERTIES = 0x00020014"

section \<open>Structures\<close>

record ze_device_uuid_t =
  ze_device_uuid_id :: "u8 list"

record ze_device_properties_t = zes_hdr +
  ze_device_properties_type :: u32
  ze_device_properties_vendorId :: u32
  ze_device_properties_deviceId :: u32
  ze_device_properties_flags :: u32
  ze_device_properties_subdeviceId :: u32
  ze_device_properties_coreClockRate :: u32
  ze_device_properties_maxMemAllocSize :: u64
  ze_device_properties_maxHardwareContexts :: u32
  ze_device_properties_maxCommandQueuePriority :: u32
  ze_device_properties_numThreadsPerEU :: u32
  ze_device_properties_physicalEUSimdWidth :: u32
  ze_device_properties_numEUsPerSubslice :: u32
  ze_device_properties_numSubslicesPerSlice :: u32
  ze_device_properties_numSlices :: u32
  ze_device_properties_timerResolution :: u64
  ze_device_properties_timestampValidBits :: u32
  ze_device_properties_kernelTimestampValidBits :: u32
  ze_device_properties_uuid :: ze_device_uuid_t
  ze_device_properties_name :: cstring

record zes_control_property_t =
  control_property_MinValue :: double64
  control_property_MaxValue :: double64
  control_property_StepValue :: double64
  control_property_RefValue :: double64
  control_property_DefaultValue :: double64

record zes_device_ecc_default_properties_ext_t = zes_hdr +
  device_ecc_default_properties_ext_defaultState :: u32

record zes_device_ecc_properties_t = zes_hdr +
  device_ecc_properties_currentState :: u32
  device_ecc_properties_pendingState :: u32
  device_ecc_properties_pendingAction :: u32

record zes_uuid_t =
  uuid_id :: "u8 list"

record zes_device_ext_properties_t = zes_hdr +
  device_ext_properties_uuid :: zes_uuid_t
  device_ext_properties_type :: u32
  device_ext_properties_flags :: u32

record zes_device_properties_t = zes_hdr +
  device_properties_core :: ze_device_properties_t
  device_properties_numSubdevices :: u32
  device_properties_serialNumber :: cstring
  device_properties_boardNumber :: cstring
  device_properties_brandName :: cstring
  device_properties_modelName :: cstring
  device_properties_vendorName :: cstring
  device_properties_driverVersion :: cstring

record zes_device_state_t = zes_hdr +
  device_state_reset :: u32
  device_state_repaired :: u32

record zes_diag_properties_t = zes_hdr +
  diag_properties_onSubdevice :: ze_bool_t
  diag_properties_subdeviceId :: u32
  diag_properties_name :: cstring
  diag_properties_haveTests :: ze_bool_t

record zes_diag_test_t =
  diag_test_index :: u32
  diag_test_name :: cstring

record zes_driver_extension_properties_t =
  driver_extension_properties_name :: cstring
  driver_extension_properties_version :: u32

record zes_energy_threshold_t =
  energy_threshold_enable :: ze_bool_t
  energy_threshold_threshold :: double64
  energy_threshold_processId :: u32

record zes_engine_ext_properties_t = zes_hdr +
  engine_ext_properties_countOfVirtualFunctionInstance :: u32

record zes_engine_properties_t = zes_hdr +
  engine_properties_type :: u32
  engine_properties_onSubdevice :: ze_bool_t
  engine_properties_subdeviceId :: u32

record zes_engine_stats_t =
  engine_stats_activeTime :: u64
  engine_stats_timestamp :: u64

record zes_fabric_link_type_t =
  fabric_link_type_desc :: cstring

record zes_fabric_port_config_t = zes_hdr +
  fabric_port_config_enabled :: ze_bool_t
  fabric_port_config_beaconing :: ze_bool_t

record zes_fabric_port_error_counters_t = zes_hdr +
  fabric_port_error_counters_linkFailureCount :: u64
  fabric_port_error_counters_fwCommErrorCount :: u64
  fabric_port_error_counters_fwErrorCount :: u64
  fabric_port_error_counters_linkDegradeCount :: u64

record zes_fabric_port_id_t =
  fabric_port_id_fabricId :: u32
  fabric_port_id_attachId :: u32
  fabric_port_id_portNumber :: u8

record zes_fabric_port_speed_t =
  fabric_port_speed_bitRate :: u64
  fabric_port_speed_width :: u32

record zes_fabric_port_properties_t = zes_hdr +
  fabric_port_properties_model :: cstring
  fabric_port_properties_onSubdevice :: ze_bool_t
  fabric_port_properties_subdeviceId :: u32
  fabric_port_properties_portId :: zes_fabric_port_id_t
  fabric_port_properties_maxRxSpeed :: zes_fabric_port_speed_t
  fabric_port_properties_maxTxSpeed :: zes_fabric_port_speed_t

record zes_fabric_port_state_t = zes_hdr +
  fabric_port_state_status :: u32
  fabric_port_state_qualityIssues :: u32
  fabric_port_state_failureReasons :: u32
  fabric_port_state_remotePortId :: zes_fabric_port_id_t
  fabric_port_state_rxSpeed :: zes_fabric_port_speed_t
  fabric_port_state_txSpeed :: zes_fabric_port_speed_t

record zes_fabric_port_throughput_t =
  fabric_port_throughput_timestamp :: u64
  fabric_port_throughput_rxCounter :: u64
  fabric_port_throughput_txCounter :: u64

record zes_fan_speed_t =
  fan_speed_speed :: u32
  fan_speed_units :: u32

record zes_fan_temp_speed_t =
  fan_temp_speed_temperature :: u32
  fan_temp_speed_speed :: zes_fan_speed_t

record zes_fan_speed_table_t =
  fan_speed_table_numPoints :: u32
  fan_speed_table_table :: "zes_fan_temp_speed_t list"

record zes_fan_config_t = zes_hdr +
  fan_config_mode :: u32
  fan_config_speedFixed :: zes_fan_speed_t
  fan_config_speedTable :: zes_fan_speed_table_t

record zes_fan_properties_t = zes_hdr +
  fan_properties_onSubdevice :: ze_bool_t
  fan_properties_subdeviceId :: u32
  fan_properties_canControl :: ze_bool_t
  fan_properties_supportedModes :: u32
  fan_properties_supportedUnits :: u32
  fan_properties_maxRPM :: u32
  fan_properties_maxPoints :: u32

record zes_firmware_properties_t = zes_hdr +
  firmware_properties_onSubdevice :: ze_bool_t
  firmware_properties_subdeviceId :: u32
  firmware_properties_canControl :: ze_bool_t
  firmware_properties_name :: cstring
  firmware_properties_version :: cstring

record zes_freq_properties_t = zes_hdr +
  freq_properties_type :: u32
  freq_properties_onSubdevice :: ze_bool_t
  freq_properties_subdeviceId :: u32
  freq_properties_canControl :: ze_bool_t
  freq_properties_isThrottleEventSupported :: ze_bool_t
  freq_properties_min :: double64
  freq_properties_max :: double64

record zes_freq_range_t =
  freq_range_min :: double64
  freq_range_max :: double64

record zes_freq_state_t = zes_hdr +
  freq_state_currentVoltage :: double64
  freq_state_request :: double64
  freq_state_tdp :: double64
  freq_state_efficient :: double64
  freq_state_actual :: double64
  freq_state_throttleReasons :: u32

record zes_freq_throttle_time_t =
  freq_throttle_time_throttleTime :: u64
  freq_throttle_time_timestamp :: u64

record zes_led_properties_t = zes_hdr +
  led_properties_onSubdevice :: ze_bool_t
  led_properties_subdeviceId :: u32
  led_properties_canControl :: ze_bool_t
  led_properties_haveRGB :: ze_bool_t

record zes_led_color_t =
  led_color_red :: double64
  led_color_green :: double64
  led_color_blue :: double64

record zes_led_state_t = zes_hdr +
  led_state_isOn :: ze_bool_t
  led_state_color :: zes_led_color_t

record zes_mem_bandwidth_t =
  mem_bandwidth_readCounter :: u64
  mem_bandwidth_writeCounter :: u64
  mem_bandwidth_maxBandwidth :: u64
  mem_bandwidth_timestamp :: u64

record zes_mem_properties_t = zes_hdr +
  mem_properties_type :: u32
  mem_properties_onSubdevice :: ze_bool_t
  mem_properties_subdeviceId :: u32
  mem_properties_location :: u32
  mem_properties_physicalSize :: u64
  mem_properties_busWidth :: u32
  mem_properties_numChannels :: u32

record zes_mem_state_t = zes_hdr +
  mem_state_health :: u32
  mem_state_free :: u64
  mem_state_size :: u64

record zes_overclock_properties_t = zes_hdr +
  overclock_properties_domainType :: u32
  overclock_properties_AvailableControls :: u32
  overclock_properties_VFProgramType :: u32
  overclock_properties_NumberOfVFPoints :: u32

record zes_pci_bar_properties_t = zes_hdr +
  pci_bar_properties_type :: u32
  pci_bar_properties_index :: u32
  pci_bar_properties_base :: u64
  pci_bar_properties_size :: u64

record zes_pci_link_speed_downgrade_ext_properties_t = zes_hdr +
  pci_link_speed_downgrade_ext_properties_pciLinkSpeedUpdateCapable :: ze_bool_t
  pci_link_speed_downgrade_ext_properties_maxPciGenSupported :: u32

record zes_pci_link_speed_downgrade_ext_state_t = zes_hdr +
  pci_link_speed_downgrade_ext_state_pciLinkSpeedDowngradeStatus :: ze_bool_t

record zes_pci_address_t =
  pci_address_domain :: u32
  pci_address_bus :: u32
  pci_address_device :: u32
  pci_address_function :: u32

record zes_pci_speed_t =
  pci_speed_gen :: u32
  pci_speed_width :: u32
  pci_speed_maxBandwidth :: u64

record zes_pci_properties_t = zes_hdr +
  pci_properties_address :: zes_pci_address_t
  pci_properties_maxSpeed :: zes_pci_speed_t
  pci_properties_haveBandwidthCounters :: ze_bool_t
  pci_properties_havePacketCounters :: ze_bool_t
  pci_properties_haveReplayCounters :: ze_bool_t

record zes_pci_state_t = zes_hdr +
  pci_state_status :: u32
  pci_state_qualityIssues :: u32
  pci_state_stabilityIssues :: u32
  pci_state_speed :: zes_pci_speed_t

record zes_pci_stats_t =
  pci_stats_timestamp :: u64
  pci_stats_replayCounter :: u64
  pci_stats_packetCounter :: u64
  pci_stats_rxCounter :: u64
  pci_stats_txCounter :: u64
  pci_stats_speed :: zes_pci_speed_t

record zes_perf_properties_t = zes_hdr +
  perf_properties_onSubdevice :: ze_bool_t
  perf_properties_subdeviceId :: u32
  perf_properties_engines :: u32

record zes_power_energy_counter_t =
  power_energy_counter_energy :: u64
  power_energy_counter_timestamp :: u64

record zes_power_limit_ext_desc_t = zes_hdr +
  power_limit_ext_desc_level :: u32
  power_limit_ext_desc_source :: u32
  power_limit_ext_desc_limitUnit :: u32
  power_limit_ext_desc_enabledStateLocked :: ze_bool_t
  power_limit_ext_desc_enabled :: ze_bool_t
  power_limit_ext_desc_intervalValueLocked :: ze_bool_t
  power_limit_ext_desc_interval :: u32
  power_limit_ext_desc_limitValueLocked :: ze_bool_t
  power_limit_ext_desc_limit :: u32

record zes_power_properties_t = zes_hdr +
  power_properties_onSubdevice :: ze_bool_t
  power_properties_subdeviceId :: u32
  power_properties_canControl :: ze_bool_t
  power_properties_isEnergyThresholdSupported :: ze_bool_t
  power_properties_defaultLimit :: u32
  power_properties_minLimit :: u32
  power_properties_maxLimit :: u32

record zes_process_state_t = zes_hdr +
  process_state_processId :: u32
  process_state_memSize :: u64
  process_state_sharedSize :: u64
  process_state_engines :: u32

record zes_psu_properties_t = zes_hdr +
  psu_properties_onSubdevice :: ze_bool_t
  psu_properties_subdeviceId :: u32
  psu_properties_haveFan :: ze_bool_t
  psu_properties_ampLimit :: u32

record zes_psu_state_t = zes_hdr +
  psu_state_voltStatus :: u32
  psu_state_fanFailed :: ze_bool_t
  psu_state_temperature :: u32
  psu_state_current :: u32

record zes_ras_state_t = zes_hdr +
  ras_state_category :: "u64 list"

record zes_ras_config_t = zes_hdr +
  ras_config_totalThreshold :: u64
  ras_config_detailedThresholds :: zes_ras_state_t

record zes_ras_properties_t = zes_hdr +
  ras_properties_type :: u32
  ras_properties_onSubdevice :: ze_bool_t
  ras_properties_subdeviceId :: u32

record zes_ras_state_exp_t =
  ras_state_exp_category :: u32
  ras_state_exp_errorCounter :: u64

record zes_sched_properties_t = zes_hdr +
  sched_properties_onSubdevice :: ze_bool_t
  sched_properties_subdeviceId :: u32
  sched_properties_canControl :: ze_bool_t
  sched_properties_engines :: u32
  sched_properties_supportedModes :: u32

record zes_sched_timeout_properties_t = zes_hdr +
  sched_timeout_properties_watchdogTimeout :: u64

record zes_sched_timeslice_properties_t = zes_hdr +
  sched_timeslice_properties_interval :: u64
  sched_timeslice_properties_yieldTimeout :: u64

record zes_standby_properties_t = zes_hdr +
  standby_properties_type :: u32
  standby_properties_onSubdevice :: ze_bool_t
  standby_properties_subdeviceId :: u32

record zes_temp_threshold_t =
  temp_threshold_enableLowToHigh :: ze_bool_t
  temp_threshold_enableHighToLow :: ze_bool_t
  temp_threshold_threshold :: double64

record zes_temp_config_t = zes_hdr +
  temp_config_enableCritical :: ze_bool_t
  temp_config_threshold1 :: zes_temp_threshold_t
  temp_config_threshold2 :: zes_temp_threshold_t

record zes_temp_properties_t = zes_hdr +
  temp_properties_type :: u32
  temp_properties_onSubdevice :: ze_bool_t
  temp_properties_subdeviceId :: u32
  temp_properties_maxTemperature :: double64
  temp_properties_isCriticalTempSupported :: ze_bool_t
  temp_properties_isThreshold1Supported :: ze_bool_t
  temp_properties_isThreshold2Supported :: ze_bool_t

record zes_vf_property_t =
  vf_property_MinFreq :: double64
  vf_property_MaxFreq :: double64
  vf_property_StepFreq :: double64
  vf_property_MinVolt :: double64
  vf_property_MaxVolt :: double64
  vf_property_StepVolt :: double64

record zes_power_ext_properties_t = zes_hdr +
  power_ext_properties_domain :: u32
  power_ext_properties_defaultLimit :: "zes_power_limit_ext_desc_t option"

end
