(* ===== verification/Amc_Upd.thy ===== *)
theory Amc_Upd
  imports Amc_LibOps Zes_Types
begin

text \<open>
  The firmware update front end for cards (\<^verbatim>\<open>hal/fwupd/amcupd.cpp\<close>): the library shared by all update objects,
  and one update, which flashes in one thread and reports the progress in another, as a step relation.
\<close>

section \<open>The shared library\<close>

text \<open>\<open>amcobj\<close>, \<open>globalNumOfCards\<close>, the two once-flags, and the flag that remembers a failed initialization.\<close>

record 'd amcupd =
  amcobj :: "'d amclib option"
  globalNumOfCards :: int
  enumFlag :: bool
  initFlag :: bool
  initFailed :: bool

text \<open>What enumerating and constructing depend on.\<close>

record 'd amc_world =
  i2c_devices :: "string list"
  i2c_name :: "string \<Rightarrow> string"
  i2c_gpu :: "string \<Rightarrow> string"
  card_envs :: "nat \<Rightarrow> 'd card_env"

definition getAmcObj :: "'d amc_world \<Rightarrow> 'd amcupd \<Rightarrow> 'd amcupd" where
  "getAmcObj W U =
     (if enumFlag U then U
      else let (n, L) = amcEnumFirmwares (i2c_devices W) (i2c_name W) (i2c_gpu W) amclib_constructor in
        U\<lparr>amcobj := Some L, globalNumOfCards := n, enumFlag := True\<rparr>)"

definition getNumOfCards :: "'d amc_world \<Rightarrow> 'd amcupd \<Rightarrow> int \<times> 'd amcupd" where
  "getNumOfCards W U = (let U = getAmcObj W U in (globalNumOfCards U, U))"

definition amcupd_cleanup :: "'d amcupd \<Rightarrow> 'd amcupd outcome" where
  "amcupd_cleanup U =
     (case amcobj U of None \<Rightarrow> Done (U\<lparr>globalNumOfCards := 0\<rparr>)
      | Some L \<Rightarrow> obind (amclib_destructor L) (\<lambda>_. Done (U\<lparr>amcobj := None, globalNumOfCards := 0\<rparr>)))"

definition amcupd_init :: "'d amc_world \<Rightarrow> 'd amcupd \<Rightarrow> (ze_result_t \<times> 'd amcupd) outcome" where
  "amcupd_init W U =
     (let U = getAmcObj W U in
      case amcobj U of None \<Rightarrow> Done (ZE_RESULT_ERROR_UNKNOWN, U)
      | Some L \<Rightarrow>
          obind (if initFlag U then Done U
             else obind (amcInitialize (card_envs W) L) (\<lambda>(ret, L).
               Done (U\<lparr>amcobj := Some L, initFlag := True, initFailed := (ret \<noteq> AMC_SUCCESS)\<rparr>))) (\<lambda>U.
            Done (if initFailed U then ZE_RESULT_ERROR_UNKNOWN else ZE_RESULT_SUCCESS, U)))"

definition preUpdateAMC :: "'d amc_world \<Rightarrow> 'd amcupd \<Rightarrow> (ze_result_t \<times> 'd amcupd) outcome" where
  "preUpdateAMC W U = amcupd_init W U"

definition postUpdateAMC :: "'d amcupd \<Rightarrow> ze_result_t \<times> 'd amcupd" where
  "postUpdateAMC U = (ZE_RESULT_SUCCESS, U)"

definition amcupd_amcGetIndex :: "'d amc_world \<Rightarrow> string \<Rightarrow> 'd amcupd \<Rightarrow> (int \<times> 'd amcupd) outcome" where
  "amcupd_amcGetIndex W gpuBDF U =
     (let U = getAmcObj W U in obind (the_ptr (amcobj U)) (\<lambda>L. Done (amcGetIndex gpuBDF L, U)))"

definition amcupd_amcGetCardInfo ::
  "'d amc_world \<Rightarrow> nat \<Rightarrow> string \<Rightarrow> u8 list \<Rightarrow> u8 list \<Rightarrow> 'd amcupd \<Rightarrow> (int \<times> u8 list \<times> u8 list \<times> 'd amcupd) outcome" where
  "amcupd_amcGetCardInfo W rounds gpuBDF serialNum version U =
     obind (amcupd_init W U) (\<lambda>(ret, U).
       if ret \<noteq> ZE_RESULT_SUCCESS then Done (- 1, serialNum, version, U)
       else let U = getAmcObj W U in
         obind (the_ptr (amcobj U)) (\<lambda>L.
         obind (amcGetCardInfo rounds gpuBDF serialNum version L) (\<lambda>(r, s, v, L). Done (r, s, v, U\<lparr>amcobj := Some L\<rparr>))))"

text \<open>The checks before an update starts its threads: an error, or the number of cards and the library.\<close>

definition update_check :: "'d amc_world \<Rightarrow> u32 \<Rightarrow> 'd amcupd \<Rightarrow> ze_result_t + 'd amclib" where
  "update_check W amcIndex U =
     (let (n, U) = getNumOfCards W U in
      if word_of_int n \<le> amcIndex then Inl ZE_RESULT_ERROR_INVALID_ARGUMENT
      else case amcobj (getAmcObj W U) of None \<Rightarrow> Inl ZE_RESULT_ERROR_UNKNOWN | Some L \<Rightarrow> Inr L)"

section \<open>One update\<close>

datatype flash_pc = Flashing | Flashed | Stored | Flash_finished
datatype progress_pc = At_loop | Querying | Reporting | At_test | Sleeping | Progress_finished
datatype main_pc = Joining_flash | Stopping | Joining_progress | Returned

text \<open>
  The state of an update: where the three threads are, the percentage the library shows, the three shared flags,
  the progress thread's local value, and the percentages reported so far.
\<close>

record upd =
  flash_at :: flash_pc
  progress_at :: progress_pc
  main_at :: main_pc
  shown :: int
  flashSuccess :: bool
  flashCompleted :: bool
  stopProgress :: bool
  progress :: int
  reports :: "int list"

definition update_start :: "int \<Rightarrow> upd" where
  "update_start v = \<lparr>flash_at = Flashing, progress_at = At_loop, main_at = Joining_flash, shown = v, flashSuccess = False,
     flashCompleted = False, stopProgress = False, progress = 0, reports = []\<rparr>"

text \<open>
  The steps; \<open>ok\<close> is the result of the flash. While it runs, the flash changes the shown percentage in any way;
  a query that fails shows a negative number.
\<close>

inductive upd_step :: "bool \<Rightarrow> upd \<Rightarrow> upd \<Rightarrow> bool" for ok where
  flash_shows: "flash_at s = Flashing \<Longrightarrow> upd_step ok s (s\<lparr>shown := v\<rparr>)"
| flash_returns: "flash_at s = Flashing \<Longrightarrow> upd_step ok s (s\<lparr>flash_at := Flashed\<rparr>)"
| flash_stores: "flash_at s = Flashed \<Longrightarrow> upd_step ok s (s\<lparr>flash_at := Stored, flashSuccess := ok\<rparr>)"
| flash_completes: "flash_at s = Stored \<Longrightarrow> upd_step ok s (s\<lparr>flash_at := Flash_finished, flashCompleted := True\<rparr>)"
| progress_enters: "progress_at s = At_loop \<Longrightarrow> \<not> stopProgress s \<Longrightarrow> progress s < 100 \<Longrightarrow> upd_step ok s (s\<lparr>progress_at := Querying\<rparr>)"
| progress_leaves: "progress_at s = At_loop \<Longrightarrow> stopProgress s \<or> 100 \<le> progress s \<Longrightarrow> upd_step ok s (s\<lparr>progress_at := Progress_finished\<rparr>)"
| progress_fails: "progress_at s = Querying \<Longrightarrow> shown s < 0 \<Longrightarrow> upd_step ok s (s\<lparr>progress := shown s, progress_at := Progress_finished\<rparr>)"
| progress_queries: "progress_at s = Querying \<Longrightarrow> 0 \<le> shown s \<Longrightarrow> upd_step ok s (s\<lparr>progress := min (shown s) 100, progress_at := Reporting\<rparr>)"
| progress_reports: "progress_at s = Reporting \<Longrightarrow> upd_step ok s (s\<lparr>reports := reports s @ [progress s], progress_at := At_test\<rparr>)"
| progress_breaks: "progress_at s = At_test \<Longrightarrow> flashCompleted s \<Longrightarrow> upd_step ok s (s\<lparr>reports := reports s @ [100], progress_at := Progress_finished\<rparr>)"
| progress_goes_on: "progress_at s = At_test \<Longrightarrow> \<not> flashCompleted s \<Longrightarrow>
    upd_step ok s (s\<lparr>progress_at := (if progress s < 100 then Sleeping else At_loop)\<rparr>)"
| progress_wakes: "progress_at s = Sleeping \<Longrightarrow> upd_step ok s (s\<lparr>progress_at := At_loop\<rparr>)"
| main_joins_flash: "main_at s = Joining_flash \<Longrightarrow> flash_at s = Flash_finished \<Longrightarrow> upd_step ok s (s\<lparr>main_at := Stopping\<rparr>)"
| main_stops: "main_at s = Stopping \<Longrightarrow> upd_step ok s (s\<lparr>main_at := Joining_progress, stopProgress := True\<rparr>)"
| main_joins_progress: "main_at s = Joining_progress \<Longrightarrow> progress_at s = Progress_finished \<Longrightarrow> upd_step ok s (s\<lparr>main_at := Returned\<rparr>)"

definition update_result :: "upd \<Rightarrow> ze_result_t" where
  "update_result s = (if flashSuccess s then ZE_RESULT_SUCCESS else ZE_RESULT_ERROR_UNKNOWN)"

inductive_cases upd_stepE: "upd_step ok s s'"

section \<open>Initialization happens once\<close>

text \<open>
  The cards are initialized once for all update objects: whatever the first initialization reports, every later
  one reports again without touching the library, so a failure is never retried.
\<close>

theorem init_sticky:
  assumes "amcupd_init W U = Done (r, U')"
  shows "amcupd_init W U' = Done (r, U')"
proof -
  have enum: "enumFlag (getAmcObj W U)" "getAmcObj W V = V" if "enumFlag V" for V
    using that by (simp_all add: getAmcObj_def case_prod_unfold Let_def)
  have e: "enumFlag (getAmcObj W U)"
    by (simp add: getAmcObj_def case_prod_unfold Let_def)
  show ?thesis
    using assms e
    by (auto simp: amcupd_init_def Let_def enum(2) split: option.splits if_splits)
qed

text \<open>
  Without any card an update still starts: the number of cards is then -1, which as an unsigned number lets
  every index but the largest pass, the empty initialization succeeds, and flashing leaves the empty array.
\<close>

theorem update_without_cards:
  assumes "i2c_devices W = []" "\<not> enumFlag U" "\<not> initFlag U" "c < - 1"
  shows "\<exists>U' L. preUpdateAMC W U = Done (ZE_RESULT_SUCCESS, U') \<and> update_check W c U' = Inr L
    \<and> amcFirmwareFlash rounds path fp alloc c L = Fault"
proof -
  define L where "L = (amclib_constructor :: 'a amclib)\<lparr>pldmobj := Some []\<rparr>"
  define U' where "U' = U\<lparr>amcobj := Some L, globalNumOfCards := - 1, enumFlag := True, initFlag := True, initFailed := False\<rparr>"
  have "preUpdateAMC W U = Done (ZE_RESULT_SUCCESS, U')"
    using assms(1-3)
    by (simp add: preUpdateAMC_def amcupd_init_def getAmcObj_def amcEnumFirmwares_def amclib_constructor_def amcInitialize_def L_def U'_def Let_def)
  moreover have "update_check W c U' = Inr L"
    using assms(4) by (simp add: update_check_def getNumOfCards_def getAmcObj_def U'_def Let_def not_le)
  moreover have "amcFirmwareFlash rounds path fp alloc c L = Fault"
    by (simp add: amcFirmwareFlash_def on_card_def card_at_def L_def)
  ultimately show ?thesis
    by blast
qed

section \<open>The threads of an update\<close>

definition upd_inv :: "bool \<Rightarrow> upd \<Rightarrow> bool" where
  "upd_inv ok s = ((flashCompleted s \<longleftrightarrow> flash_at s = Flash_finished)
     \<and> (flash_at s \<in> {Stored, Flash_finished} \<longrightarrow> flashSuccess s = ok)
     \<and> (main_at s \<noteq> Joining_flash \<longrightarrow> flash_at s = Flash_finished)
     \<and> (main_at s \<in> {Joining_progress, Returned} \<longleftrightarrow> stopProgress s)
     \<and> (main_at s = Returned \<longrightarrow> progress_at s = Progress_finished)
     \<and> (progress_at s \<in> {Reporting, At_test, Sleeping} \<longrightarrow> 0 \<le> progress s \<and> progress s \<le> 100)
     \<and> set (reports s) \<subseteq> {0..100})"

lemma upd_inv_step: "upd_step ok s s' \<Longrightarrow> upd_inv ok s \<Longrightarrow> upd_inv ok s'"
  by (erule upd_stepE) (auto simp: upd_inv_def)

lemma upd_inv_reachable: "(upd_step ok)\<^sup>*\<^sup>* (update_start v) s \<Longrightarrow> upd_inv ok s"
proof (induction rule: rtranclp_induct)
  case base
  show ?case by (simp add: upd_inv_def update_start_def)
next
  case (step s s')
  show ?case by (rule upd_inv_step [OF step.hyps(2) step.IH])
qed

text \<open>
  C39. However the threads of an update interleave, every percentage reported is between 0 and 100, and an update
  that has returned has waited for both threads and reports exactly the result of the flash.
\<close>

theorem update_result_is_flash:
  assumes "(upd_step ok)\<^sup>*\<^sup>* (update_start v) s"
  shows "set (reports s) \<subseteq> {0..100} \<and> (main_at s = Returned \<longrightarrow> flash_at s = Flash_finished \<and> progress_at s = Progress_finished
    \<and> update_result s = (if ok then ZE_RESULT_SUCCESS else ZE_RESULT_ERROR_UNKNOWN))"
  using upd_inv_reachable [OF assms] by (simp add: upd_inv_def update_result_def)

text \<open>The steps left to an update whose flash has finished.\<close>

definition upd_rank :: "upd \<Rightarrow> nat" where
  "upd_rank s = (case main_at s of Joining_flash \<Rightarrow> 3 | Stopping \<Rightarrow> 2 | Joining_progress \<Rightarrow> 1 | Returned \<Rightarrow> 0)
     + (case progress_at s of Sleeping \<Rightarrow> 5 | At_loop \<Rightarrow> 4 | Querying \<Rightarrow> 3 | Reporting \<Rightarrow> 2 | At_test \<Rightarrow> 1 | Progress_finished \<Rightarrow> 0)"

lemma upd_rank_step:
  "upd_step ok s s' \<Longrightarrow> upd_inv ok s \<Longrightarrow> flash_at s = Flash_finished \<Longrightarrow> flash_at s' = Flash_finished \<and> Suc (upd_rank s') \<le> upd_rank s"
  by (erule upd_stepE) (auto simp: upd_inv_def upd_rank_def)

lemma upd_rank_steps:
  "(upd_step ok ^^ n) s s' \<Longrightarrow> upd_inv ok s \<Longrightarrow> flash_at s = Flash_finished \<Longrightarrow> n + upd_rank s' \<le> upd_rank s"
proof (induction n arbitrary: s)
  case (Suc n)
  obtain t where t: "upd_step ok s t" "(upd_step ok ^^ n) t s'"
    using Suc.prems(1) by (rule relpowp_Suc_E2)
  from upd_rank_step [OF t(1) Suc.prems(2,3)] Suc.IH [OF t(2) upd_inv_step [OF t(1) Suc.prems(2)]]
  show ?case by simp
qed simp

text \<open>
  C40. An update never blocks before it has returned, and once its flash has finished it returns whatever the
  threads do next: at most eight steps are left, and as long as it has not returned there is one.
\<close>

theorem update_finishes:
  assumes "(upd_step ok)\<^sup>*\<^sup>* (update_start v) s"
  shows "(main_at s = Returned \<or> (\<exists>s'. upd_step ok s s')) \<and> (flash_at s = Flash_finished \<longrightarrow> (upd_step ok ^^ n) s s' \<longrightarrow> n \<le> 8)"
proof -
  note inv = upd_inv_reachable [OF assms]
  have "\<exists>s'. upd_step ok s s'" if "main_at s \<noteq> Returned"
  proof (cases "flash_at s")
    case Flash_finished
    then show ?thesis
      using that inv
      by (cases "main_at s"; cases "progress_at s"; cases "flashCompleted s"; cases "stopProgress s"; cases "0 \<le> shown s")
        (auto simp: upd_inv_def not_le intro: upd_step.intros)
  qed (auto intro: upd_step.intros)
  moreover have "upd_rank s \<le> 8"
    by (simp add: upd_rank_def split: main_pc.split progress_pc.split)
  ultimately show ?thesis
    using upd_rank_steps [OF _ inv, of n s'] by auto
qed

text \<open>
  The percentage shown is that of the object, which an earlier update has left at 100 and nothing resets
  before the flash begins: the monitor can then report 100 and end while the flash has not even started.
\<close>

theorem stale_progress:
  "\<exists>s. (upd_step ok)\<^sup>*\<^sup>* (update_start 100) s \<and> flash_at s = Flashing \<and> progress_at s = Progress_finished \<and> reports s = [100]"
proof -
  let ?s0 = "update_start 100"
  let ?s1 = "?s0\<lparr>progress_at := Querying\<rparr>"
  let ?s2 = "?s1\<lparr>progress := min 100 100, progress_at := Reporting\<rparr>"
  let ?s3 = "?s2\<lparr>reports := reports ?s2 @ [progress ?s2], progress_at := At_test\<rparr>"
  let ?s4 = "?s3\<lparr>progress_at := (if progress ?s3 < 100 then Sleeping else At_loop)\<rparr>"
  let ?s5 = "?s4\<lparr>progress_at := Progress_finished\<rparr>"
  have "upd_step ok ?s0 ?s1"
    by (rule progress_enters) (simp_all add: update_start_def)
  moreover have "upd_step ok ?s1 ?s2"
    using progress_queries [of ?s1 ok] by (simp add: update_start_def)
  moreover have "upd_step ok ?s2 ?s3"
    by (rule progress_reports) simp
  moreover have "upd_step ok ?s3 ?s4"
    by (rule progress_goes_on) (simp_all add: update_start_def)
  moreover have "upd_step ok ?s4 ?s5"
    by (rule progress_leaves) (simp_all add: update_start_def)
  ultimately have "(upd_step ok)\<^sup>*\<^sup>* ?s0 ?s5"
    by (meson rtranclp.rtrancl_into_rtrancl rtranclp.rtrancl_refl)
  then show ?thesis
    by (rule exI [of _ ?s5, OF conjI]) (simp add: update_start_def)
qed

end
