(* ===== verification/Amc_SampleCard.thy ===== *)
theory Amc_SampleCard
  imports Amc_Sample Amc_Upd
begin

text \<open>
  A concrete card with all its state, scripted devices that deliver given frames, and a library of two such cards,
  at which the properties of platform monitoring, file transfer, the library and the update threads are applied.
\<close>

section \<open>A card\<close>

text \<open>The record of a temperature sensor with the number 5.\<close>

definition sample_sensor :: "u8 list" where
  "sample_sensor = (replicate 105 0)[5 := PLDM_NUMERIC_SENSOR_PDR, off_sensorId := 5, off_baseUnit := unit_code PLDM_UNIT_DEGREES_C]"

definition sample_card :: "int pldm_ft" where
  "sample_card = \<lparr>mI2cMctpRead = mI2cMctpRead sample_fwu, mI2cMctpWrite = mI2cMctpWrite sample_fwu,
     mctp_instanceID = 1, mctp_init = True, mDestEid = 0, mDestNewEid = 0, i2cobj = Some sample_device,
     mI2cPldmRead = Some sample_message, mI2cPldmWrite = Some sample_message, progMutex = True, pldm_instanceID = 1, mProgPercent = 0,
     mFruTableInitialized = False, supportedTypes = 0, totalSupportedTypes = 0, tid = 0, versionInfo = versionInfo sample_pldm,
     fru_dataXferHandle = 0, fru_xferOpFlag = 0, mFruTableResponse = mFruTableResponse sample_pldm, mFruMetadata = mFruMetadata sample_pldm,
     mFruTable = zero_table, mFruCurrentDataLength = 0, mFwuCmdLen = 12, mI2cMultiResp = False,
     mReqUpdate = mReqUpdate sample_fwu, mPassCompTable = mPassCompTable sample_fwu, mUpdComp = mUpdComp sample_fwu,
     mFwuCurrentState = 0, mCompFp = None, pkg = None, mCurComp = 0,
     mPdrManager = \<lparr>mPdrs = [\<lparr>pdr_data = sample_sensor, pdr_header = pdr_header_of sample_sensor\<rparr>],
       mCurrentPdr = \<lparr>pdr_data = [], pdr_header = pdr_header_of (replicate 10 0)\<rparr>,
       mTempSensors = [], mVoltageSensors = [], mCurrentSensors = [], mPowerSensors = []\<rparr>,
     pfPdrRepoInfo = (repo_of_bytes (replicate 41 0))\<lparr>recordCount := 1\<rparr>,
     pfPdrReq = \<lparr>req_recordHandle = 0, req_dataTransferHandle = 0, transferOpFlag = 0, requestCount = 0, req_recordChangeNumber = 0\<rparr>,
     pfPdrResp = \<lparr>pdr_completionCode = 0, nextRecordHandle = 0, pdr_nextDataTransferHandle = 0, pdr_transferFlag = 0, responseCount = 0\<rparr>,
     pfSensorReadingReq = \<lparr>rd_sensorId = 0, rearmEventState = 0\<rparr>,
     pfSensorReadingResp = \<lparr>rd_completionCode = 0, rd_sensorDataSize = 0, sensorOperationalState = 0, sensorEventMessageEnable = 0,
       presentState = 0, previousState = 0, eventState = 0\<rparr>,
     mSensorReading = \<lparr>sensorDataSize = 0, value_bytes = replicate 4 0\<rparr>, mSensorInfoList = [],
     mDfOpenReq = \<lparr>open_fileIdentifier = 0, open_fileAttribute = 0\<rparr>, mDfOpenResp = \<lparr>open_completionCode = 0, open_fileDescriptor = 0\<rparr>,
     mDfCloseReq = \<lparr>close_fileDescriptor = 0, dfCloseOptions = 0\<rparr>, mDfCloseResp = 0,
     mDfHeartbeatReq = \<lparr>beat_fileDescriptor = 0, requesterMaxInterval = 0\<rparr>,
     mDfHeartbeatResp = \<lparr>beat_completionCode = 0, responderMaxInterval = 0\<rparr>,
     mDfReadReq = \<lparr>read_fileDescriptor = 0, read_offset = 0, read_length = 0\<rparr>,
     mDfReadResp = \<lparr>read_completionCode = 0, read_dataLength = 0, read_data = replicate 512 0\<rparr>,
     mMultipartReceiveReq = \<lparr>mp_pldmType = 0, transferOperation = 0, transferContext = 0, mp_dataTransferHandle = 0,
       requestedSectionOffset = 0, requestedSectionLengthBytes = 0\<rparr>,
     mMultipartReceiveResp = \<lparr>mp_completionCode = 0, mp_transferFlag = 0, nextDataTransferHandle_mp = 0, dataLengthBytes = 0\<rparr>,
     mMultipartReceiveData = [], mRxAssembledFrame = [], mRxAssembledPayload = []\<rparr>"

text \<open>The same card behind a device that delivers the frames \<open>fs\<close>.\<close>

definition scripted :: "u8 list list \<Rightarrow> int pldm_ft" where
  "scripted fs = sample_card\<lparr>i2cobj := Some (sample_device\<lparr>i2c_rx := \<lambda>n. if n < length fs then Some (fs ! n) else None\<rparr>)\<rparr>"

lemma sample_card_ok: "pldm_ok sample_card" "pldm_ok (scripted fs)"
  by (simp_all add: sample_card_def scripted_def sample_fwu_def pldm_ok_def mctp_ok_def sample_device_def sample_message_def mctp_data_of_bytes_def
      PAYLOAD_SIZE_def)

lemma sample_card_wf: "pf_wf L sample_card" "ft_wf sample_card"
  by (auto simp: pf_wf_def ft_wf_def claims_def packets_honest_def sample_card_def sample_device_def MCTP_CMD_CODE_def nth_Cons' le16_def split: nat.splits)

lemma scripted_delivers: "delivers fs (scripted fs)" "length (read_data (mDfReadResp (scripted fs))) = 512"
  by (simp_all add: delivers_def scripted_def sample_device_def sample_card_def)

text \<open>Arithmetic on integers in the place of that on floating-point numbers.\<close>

definition int_fpu :: "int fpu" where
  "int_fpu = \<lparr>double_of_int = id, double_of_float = uint, double_mult = (*), double_plus = (+), double_pow10 = (\<lambda>n. 10 ^ nat n)\<rparr>"

section \<open>Platform monitoring\<close>

lemma sample_card_fields: "mI2cPldmRead (scripted fs) = Some sample_message" "length (value_bytes (mSensorReading (scripted fs))) = 4"
    "respPayload sample_message = replicate 128 0" "recordCount (pfPdrRepoInfo (scripted fs)) = 1" "i2cobj sample_card = Some sample_device"
  by (simp_all add: scripted_def sample_card_def sample_message_def)

lemma reading_converted_witness:
  "returns (pfSensorReadingRespPayload (scripted [])) (\<lambda>(r, p'). r = PLDM_SUCCESS
    \<and> convertReading int_fpu (Some (replicate 105 0)) (mSensorReading p') = Done (Some 0))"
proof -
  have "sizeof_pldmNumericSensorValuePdr \<le> length (replicate 105 (0 :: u8))" "data_size 0 = Some PLDM_SENSOR_DATA_SIZE_UINT8"
    by (simp_all add: sensor_layout data_size_def)
  moreover have "raw_reading PLDM_SENSOR_DATA_SIZE_UINT8 (drop 7 (replicate 128 0)) = 0" "le32 0 0 0 0 = 0"
    by (simp_all add: le32_def)
  ultimately show ?thesis
    using reading_converted [OF sample_card_fields(1), of "[]" "replicate 105 0" int_fpu] sample_card_fields(2,3)
    by (auto simp: PLDM_SUCCESS_def int_fpu_def elim!: returns_mono)
qed

definition sample_part :: pdr_part where
  "sample_part = \<lparr>part_hdr = replicate 11 0, part_next = 0, part_xfer = 0, part_flag = PLDM_START_AND_END, part_bytes = replicate 12 1\<rparr>"

lemma records_assembled_witness:
  "returns (pfGetTotalPdrs 1 (scripted [part_frame sample_part])) (\<lambda>(r, p'). r = PLDM_SUCCESS
    \<and> map pdr_data (mPdrs (mPdrManager p')) = [replicate 12 1])"
proof (rule returns_mono [OF records_assembled [of _ "[sample_part]"]])
  show "finals [sample_part] = unat (recordCount (pfPdrRepoInfo (scripted [part_frame sample_part])))"
    by (simp add: finals_def part_final_def sample_part_def sample_card_fields)
qed (use scripted_delivers [of "[part_frame sample_part]"] in \<open>auto simp: sample_card_ok part_ok_def part_final_def sample_part_def pdr_abs_def kept_def Let_def\<close>)

lemma record_fetch_safe_witness:
  "safe (pfGetTotalPdrs 9 sample_card) (\<lambda>(r, p'). pldm_ok p' \<and> records_ok (mPdrs (mPdrManager p')) \<and> mSensorInfoList p' = mSensorInfoList sample_card
    \<and> (\<exists>j. pldm_sent sample_card (replicate j (PLDM_PLATFORM_MONITORING, PLDM_GET_PDR)) p'))"
  by (rule record_fetch_safe [OF sample_card_ok(1) sample_card_wf(1)])

lemma unit_query_returns_witness:
  "returns (obind (buildSensorCache (mPdrManager sample_card)) (\<lambda>m. pfGetSensorValuesByUnit int_fpu 1 PLDM_UNIT_DEGREES_C (sample_card\<lparr>mPdrManager := m\<rparr>)))
    (\<lambda>(r, p'). pldm_ok p')"
  using unit_query_returns [OF sample_card_ok(1) sample_card_wf(1), of 1 int_fpu PLDM_UNIT_DEGREES_C]
  by (auto simp: Let_def elim!: returns_mono)

section \<open>File transfer\<close>

lemma message_reassembled_witness:
  "returns (rxMultiPartData 2 (scripted (message_packets [1, 2, 3, 4] 3 [[0, 0, 7, 9, 0], [8, 8]])))
    (\<lambda>(r, p'). r = PLDM_SUCCESS \<and> mRxAssembledPayload p' = [0, 8, 8])"
proof (rule returns_mono)
  show "returns (rxMultiPartData 2 (scripted (message_packets [1, 2, 3, 4] 3 [[0, 0, 7, 9, 0], [8, 8]]))) (\<lambda>(r, p'). r = PLDM_SUCCESS \<and> pldm_ok p'
    \<and> delivers [] p' \<and> drop 8 (mRxAssembledFrame p') = concat [[0, 0, 7, 9, 0], [8, 8]] \<and> mRxAssembledPayload p' = drop 4 (concat [[0, 0, 7, 9, 0], [8, 8]]))"
    by (rule message_reassembled [where a = "[1, 2, 3, 4]" and sq = 3])
      (use scripted_delivers(1) in \<open>simp_all add: sample_card_ok packets_fit_def\<close>)
qed auto

definition sample_chunk :: file_chunk where
  "sample_chunk = \<lparr>ck_addr = [1, 2, 3, 4], ck_seq = 0, ck_bodies = [[0, 0, 0x3F, 9, 0, 4, 0, 0, 0], [0, 2, 0, 0, 0, 0xAA, 0xBB]],
     ck_flag = PLDM_END, ck_next = 0, ck_data = [0xAA, 0xBB]\<rparr>"

lemma sample_chunk_ok: "chunk_ok 2 sample_chunk" "chunk_last sample_chunk"
  by (simp_all add: chunk_ok_def chunk_last_def sample_chunk_def packets_fit_def chunk_payload_def PLDM_MULTIPART_RECEIVE_def PLDM_SUCCESS_def
      PLDM_END_def bytes_of_u32_def)

lemma file_assembled_witness:
  "returns (pldmMultipartReceiveCommand 2 6 [] (scripted (chunk_packets sample_chunk))) (\<lambda>(r, contents, p'). r = PLDM_SUCCESS \<and> contents = [0xAA, 0xBB])"
proof (rule returns_mono)
  have "delivers (concat (map chunk_packets [sample_chunk]) @ []) (scripted (chunk_packets sample_chunk))"
    using scripted_delivers(1) [of "chunk_packets sample_chunk"] by simp
  from file_assembled [OF sample_card_ok(2) scripted_delivers(2) this, of 2 6 "[]"] sample_chunk_ok
  show "returns (pldmMultipartReceiveCommand 2 6 [] (scripted (chunk_packets sample_chunk)))
    (\<lambda>(r, contents, p'). r = PLDM_SUCCESS \<and> contents = ck_data sample_chunk)"
    by (auto elim!: returns_mono)
qed (auto simp: sample_chunk_def)

lemma packet_overrun_witness: "rx_packet ([0, 0x0F, 200, 0, 0, 0, 0, 0xC0] @ replicate 132 0) \<lparr>asm = [], expectedSeq = 0, gotSomPacket = False\<rparr> = Fault"
  by (subst packet_overrun) (simp_all add: Let_def mctp_of_bytes_def MCTP_CMD_CODE_def fld_def)

lemma file_closed_witness:
  "safe (read_and_close 9 6 sample_card) (\<lambda>(r, contents, p'). pldm_ok p')"
  using file_closed [OF sample_card_ok(1) sample_card_wf(2), of 9 6] by (auto elim!: safe_mono)

section \<open>A library of two cards\<close>

definition sample_lib :: "int amclib" where
  "sample_lib = \<lparr>numCards = 2, amcDeviceList = [\<lparr>amcDevicePath = ''/dev/i2c-7'', gpuParentPath = ''0000:03:00.0''\<rparr>,
       \<lparr>amcDevicePath = ''/dev/i2c-9'', gpuParentPath = ''0000:04:00.0''\<rparr>],
     pldmobj = Some [Some sample_card, Some sample_card]\<rparr>"

definition sample_env :: "nat \<Rightarrow> int card_env" where
  "sample_env i = \<lparr>raw_object = sample_card, mctp_read_mem = Some (replicate 139 0), mctp_write_mem = Some (replicate 139 0),
     pldm_read_mem = Some (replicate 140 0), pldm_write_mem = Some (replicate 140 0), mutex_mem = True, card_conn = sample_device\<rparr>"

lemma sample_lib_ok: "cards_ok sample_lib" "lib_wf sample_lib" "cards sample_lib = 2" "numCards sample_lib = 2"
  using sample_card_ok(1) by (auto simp: cards_ok_def lib_wf_def sample_lib_def cards_def nth_Cons' less_2_cases_iff)

lemma library_start_witness:
  "returns (amcInitialize sample_env (sample_lib\<lparr>pldmobj := None\<rparr>)) (\<lambda>(r, L'). cards_ok L' \<and> cards L' = 2)"
proof (rule returns_mono [OF library_start])
  show "lib_wf (sample_lib\<lparr>pldmobj := None\<rparr>)"
    by (simp add: lib_wf_def sample_lib_def)
  show "\<forall>i<cards (sample_lib\<lparr>pldmobj := None\<rparr>). env_ok (sample_env i) \<and> amcDevicePath (amcDeviceList (sample_lib\<lparr>pldmobj := None\<rparr>) ! i) \<noteq> []"
    by (auto simp: cards_def sample_lib_def env_ok_def sample_env_def sample_device_def sample_card_def sample_versions less_2_cases_iff)
qed (auto simp: cards_def sample_lib_def)


lemma uninitialized_calls_witness:
  "amcReadFile 9 1 5 [] (sample_lib\<lparr>pldmobj := None\<rparr>) = Done (AMC_ERROR, [], sample_lib\<lparr>pldmobj := None\<rparr>)
    \<and> amcGetSerialNumber 9 1 None None (sample_lib\<lparr>pldmobj := None\<rparr>) = Fault \<and> amclib_oemVrsync 1 (sample_lib\<lparr>pldmobj := None\<rparr>) = Fault"
  using uninitialized_calls [of "sample_lib\<lparr>pldmobj := None\<rparr>" 1 9 "[]" None True int_fpu 0 "[]" 5 "[]" None None 1]
  by (simp add: lib_wf_def sample_lib_def)

lemma flash_index_unchecked_witness: "amcFirmwareFlash 9 [] None True 2 sample_lib = Fault \<and> amclib_amcGpuReset 2 sample_lib = Done (AMC_ERROR, sample_lib)"
  using flash_index_unchecked [OF sample_lib_ok(1), of 2 9 "[]" None True int_fpu 0 "[]" 0 "[]"] by (simp add: sample_lib_ok(4))

section \<open>Updates\<close>

definition empty_world :: "int amc_world" where
  "empty_world = \<lparr>i2c_devices = [], i2c_name = (\<lambda>_. []), i2c_gpu = (\<lambda>_. []), card_envs = sample_env\<rparr>"

definition fresh_upd :: "int amcupd" where
  "fresh_upd = \<lparr>amcobj = None, globalNumOfCards = 0, enumFlag = False, initFlag = False, initFailed = False\<rparr>"

lemma update_without_cards_witness:
  "\<exists>U' L. preUpdateAMC empty_world fresh_upd = Done (ZE_RESULT_SUCCESS, U') \<and> update_check empty_world 0 U' = Inr L
    \<and> amcFirmwareFlash 9 [] None True 0 L = Fault"
  by (rule update_without_cards) (simp_all add: empty_world_def fresh_upd_def word_gt_0)

lemma init_sticky_witness: "\<exists>r U'. amcupd_init empty_world fresh_upd = Done (r, U') \<and> amcupd_init empty_world U' = Done (r, U')"
proof -
  have "\<exists>r U'. amcupd_init empty_world fresh_upd = Done (r, U')"
    by (simp add: amcupd_init_def getAmcObj_def empty_world_def fresh_upd_def amcEnumFirmwares_def amclib_constructor_def amcInitialize_def Let_def)
  then show ?thesis
    using init_sticky by blast
qed

lemma update_result_is_flash_witness: "set (reports (update_start 7)) \<subseteq> {0..100} \<and> main_at (update_start 7) \<noteq> Returned"
  using update_result_is_flash [of True 7 "update_start 7"] by (simp add: update_start_def)

lemma update_finishes_witness: "\<exists>s'. upd_step True (update_start 7) s'"
  using update_finishes [of True 7 "update_start 7" 0 "update_start 7"] by (auto simp: update_start_def)

lemma sensor_by_id_unchecked_witness:
  "pfGetSensorValuesById int_fpu 9 1 (sample_card\<lparr>mPdrManager := (mPdrManager sample_card)\<lparr>mPdrs := [\<lparr>pdr_data = replicate 10 0,
    pdr_header = pdr_header_of (replicate 10 0)\<rparr>]\<rparr>\<rparr>) = Fault"
  using sensor_by_id_unchecked [of "sample_card\<lparr>mPdrManager := (mPdrManager sample_card)\<lparr>mPdrs := [\<lparr>pdr_data = replicate 10 0,
    pdr_header = pdr_header_of (replicate 10 0)\<rparr>]\<rparr>\<rparr>" "[]" "\<lparr>pdr_data = replicate 10 0, pdr_header = pdr_header_of (replicate 10 0)\<rparr>" "[]" 1 int_fpu 9]
  by simp

lemma pdr_part_overrun_witness: "pfPdrRespPayload (scripted []) = Fault \<longleftrightarrow> False"
  using pdr_part_overrun [OF sample_card_fields(1)] sample_card_fields(3) by (simp add: PLDM_SUCCESS_def le16_def)

section \<open>A query of a sensor\<close>

text \<open>A card that answers with one record, of the sample sensor, and a reading of 42.\<close>

definition sensor_frames :: "u8 list list" where
  "sensor_frames = [
     replicate 11 0 @ [0, PLDM_PDR_REPO_AVAILABLE] @ replicate 26 0 @ bytes_of_u32 1 @ bytes_of_u32 105 @ bytes_of_u32 105 @ [0],
     part_frame (sample_part\<lparr>part_bytes := sample_sensor\<rparr>),
     replicate 11 0 @ [0, 0, 0, 0, 0, 0, 0, 42]]"

definition sensor_lib :: "int amclib" where
  "sensor_lib = sample_lib\<lparr>numCards := 1, pldmobj := Some [Some (scripted sensor_frames)]\<rparr>"

lemma sensor_query: "\<exists>infos L. amcGetSensorInfoBySensorId int_fpu 1 0 5 [] sensor_lib = Done (AMC_SUCCESS, infos, L)"
proof -
  have "case amcGetSensorInfoBySensorId int_fpu 1 0 5 [] sensor_lib of Done (r, _) \<Rightarrow> r = AMC_SUCCESS | _ \<Rightarrow> False"
    by code_simp
  then show ?thesis
    by (auto split: outcome.splits)
qed

lemma sensor_readings_accumulate_witness:
  "\<exists>infos L x. amcGetSensorInfoBySensorId int_fpu 1 0 5 [] sensor_lib = Done (AMC_SUCCESS, infos, L)
    \<and> mSensorInfoList (amc_card 0 L) = mSensorInfoList (amc_card 0 sensor_lib) @ [x]"
proof -
  obtain infos L where "amcGetSensorInfoBySensorId int_fpu 1 0 5 [] sensor_lib = Done (AMC_SUCCESS, infos, L)"
    using sensor_query by blast
  then show ?thesis
    using sensor_readings_accumulate [of int_fpu 1 0 5 "[]" sensor_lib infos L] by auto
qed

end
