(* ===== verification/Stub_State.thy ===== *)
theory Stub_State
  imports Zes_Types
begin

text \<open>
  The data model of the Sysman stub driver, \<^verbatim>\<open>level-zero-stub/sysman_state.h\<close>: the 64-bit handles
  with their four 16-bit fields, the injected return values of each level, the catalogue of
  features a configuration can switch off, and the tree system / drivers / devices / components.
  Field names are the C names behind the structure's short name. An array is a count field and
  an owned array pointer, as in C; \<open>wf_state\<close> says that every count agrees with its array.
\<close>

section \<open>Handles\<close>

datatype stub_handle_type_t =
    STUB_HANDLE_NONE
  | STUB_HANDLE_DRIVER
  | STUB_HANDLE_DEVICE
  | STUB_HANDLE_ENGINE
  | STUB_HANDLE_FABRIC_PORT
  | STUB_HANDLE_FAN
  | STUB_HANDLE_FIRMWARE
  | STUB_HANDLE_FREQ
  | STUB_HANDLE_LED
  | STUB_HANDLE_MEM
  | STUB_HANDLE_OC
  | STUB_HANDLE_PERF
  | STUB_HANDLE_PWR
  | STUB_HANDLE_PSU
  | STUB_HANDLE_RAS
  | STUB_HANDLE_SCHED
  | STUB_HANDLE_STANDBY
  | STUB_HANDLE_TEMP
  | STUB_HANDLE_DIAG

fun handle_type_code :: "stub_handle_type_t \<Rightarrow> u16" where
  "handle_type_code STUB_HANDLE_NONE = 0"
| "handle_type_code STUB_HANDLE_DRIVER = 1"
| "handle_type_code STUB_HANDLE_DEVICE = 2"
| "handle_type_code STUB_HANDLE_ENGINE = 3"
| "handle_type_code STUB_HANDLE_FABRIC_PORT = 4"
| "handle_type_code STUB_HANDLE_FAN = 5"
| "handle_type_code STUB_HANDLE_FIRMWARE = 6"
| "handle_type_code STUB_HANDLE_FREQ = 7"
| "handle_type_code STUB_HANDLE_LED = 8"
| "handle_type_code STUB_HANDLE_MEM = 9"
| "handle_type_code STUB_HANDLE_OC = 10"
| "handle_type_code STUB_HANDLE_PERF = 11"
| "handle_type_code STUB_HANDLE_PWR = 12"
| "handle_type_code STUB_HANDLE_PSU = 13"
| "handle_type_code STUB_HANDLE_RAS = 14"
| "handle_type_code STUB_HANDLE_SCHED = 15"
| "handle_type_code STUB_HANDLE_STANDBY = 16"
| "handle_type_code STUB_HANDLE_TEMP = 17"
| "handle_type_code STUB_HANDLE_DIAG = 18"

record stub_handle_bits_t =
  bits_comp :: u16
  bits_dev :: u16
  bits_drv :: u16
  bits_type :: u16

text \<open>The union \<^verbatim>\<open>stub_handle_t\<close>: the component index is the low quarter, the type the high quarter.\<close>

definition handle_raw :: "stub_handle_bits_t \<Rightarrow> u64" where
  "handle_raw b = ucast (bits_comp b) OR push_bit 16 (ucast (bits_dev b))
     OR push_bit 32 (ucast (bits_drv b)) OR push_bit 48 (ucast (bits_type b))"

definition decode_handle :: "u64 \<Rightarrow> stub_handle_bits_t" where
  "decode_handle h = \<lparr>bits_comp = ucast h, bits_dev = ucast (drop_bit 16 h),
     bits_drv = ucast (drop_bit 32 h), bits_type = ucast (drop_bit 48 h)\<rparr>"

text \<open>Assigning a 32-bit index to a 16-bit field keeps its low half.\<close>

definition MAKE_DRIVER_HANDLE :: "u32 \<Rightarrow> u64" where
  "MAKE_DRIVER_HANDLE d = handle_raw \<lparr>bits_comp = 0, bits_dev = 0, bits_drv = ucast d,
     bits_type = handle_type_code STUB_HANDLE_DRIVER\<rparr>"

definition MAKE_DEVICE_HANDLE :: "u32 \<Rightarrow> u32 \<Rightarrow> u64" where
  "MAKE_DEVICE_HANDLE d i = handle_raw \<lparr>bits_comp = 0, bits_dev = ucast i, bits_drv = ucast d,
     bits_type = handle_type_code STUB_HANDLE_DEVICE\<rparr>"

definition MAKE_COMPONENT_HANDLE :: "stub_handle_type_t \<Rightarrow> u16 \<Rightarrow> u16 \<Rightarrow> u32 \<Rightarrow> u64" where
  "MAKE_COMPONENT_HANDLE ht d i c = handle_raw \<lparr>bits_comp = ucast c, bits_dev = i, bits_drv = d,
     bits_type = handle_type_code ht\<rparr>"

definition SYSMAN_FIRMWARE_LOG_SIZE :: nat where
  "SYSMAN_FIRMWARE_LOG_SIZE = 256"

text \<open>The marker for an empty array is the pointer with address 1.\<close>

definition SYSMAN_ARRAY_PTR_IS_EMPTY :: "'a cptr \<Rightarrow> bool" where
  "SYSMAN_ARRAY_PTR_IS_EMPTY p = (case p of Null \<Rightarrow> False | Ptr a _ \<Rightarrow> a = 1)"

section \<open>Injected return values\<close>

record sysman_engine_rv_t =
  rv_zesEngineGetProperties :: ze_result_t
  rv_zesEngineGetActivity :: ze_result_t
  rv_zesEngineGetActivityExt :: ze_result_t

record sysman_fabric_port_rv_t =
  rv_zesFabricPortGetProperties :: ze_result_t
  rv_zesFabricPortGetLinkType :: ze_result_t
  rv_zesFabricPortGetConfig :: ze_result_t
  rv_zesFabricPortSetConfig :: ze_result_t
  rv_zesFabricPortGetState :: ze_result_t
  rv_zesFabricPortGetThroughput :: ze_result_t
  rv_zesFabricPortGetFabricErrorCounters :: ze_result_t
  rv_zesFabricPortGetMultiPortThroughput :: ze_result_t

record sysman_fan_rv_t =
  rv_zesFanGetProperties :: ze_result_t
  rv_zesFanGetConfig :: ze_result_t
  rv_zesFanSetDefaultMode :: ze_result_t
  rv_zesFanSetFixedSpeedMode :: ze_result_t
  rv_zesFanSetSpeedTableMode :: ze_result_t
  rv_zesFanGetState :: ze_result_t

record sysman_firmware_rv_t =
  rv_zesFirmwareGetProperties :: ze_result_t
  rv_zesFirmwareFlash :: ze_result_t
  rv_zesFirmwareGetFlashProgress :: ze_result_t
  rv_zesFirmwareGetConsoleLogs :: ze_result_t

record sysman_freq_rv_t =
  rv_zesFrequencyGetProperties :: ze_result_t
  rv_zesFrequencyGetAvailableClocks :: ze_result_t
  rv_zesFrequencyGetRange :: ze_result_t
  rv_zesFrequencySetRange :: ze_result_t
  rv_zesFrequencyGetState :: ze_result_t
  rv_zesFrequencyGetThrottleTime :: ze_result_t

record sysman_led_rv_t =
  rv_zesLedGetProperties :: ze_result_t
  rv_zesLedGetState :: ze_result_t
  rv_zesLedSetState :: ze_result_t
  rv_zesLedSetColor :: ze_result_t

record sysman_mem_rv_t =
  rv_zesMemoryGetProperties :: ze_result_t
  rv_zesMemoryGetState :: ze_result_t
  rv_zesMemoryGetBandwidth :: ze_result_t

record sysman_oc_rv_t =
  rv_zesOverclockGetDomainProperties :: ze_result_t
  rv_zesOverclockGetDomainVFProperties :: ze_result_t
  rv_zesOverclockGetDomainControlProperties :: ze_result_t
  rv_zesOverclockGetControlCurrentValue :: ze_result_t
  rv_zesOverclockGetControlPendingValue :: ze_result_t
  rv_zesOverclockSetControlUserValue :: ze_result_t
  rv_zesOverclockGetControlState :: ze_result_t
  rv_zesOverclockGetVFPointValues :: ze_result_t
  rv_zesOverclockSetVFPointValues :: ze_result_t

record sysman_perf_rv_t =
  rv_zesPerformanceFactorGetProperties :: ze_result_t
  rv_zesPerformanceFactorGetConfig :: ze_result_t
  rv_zesPerformanceFactorSetConfig :: ze_result_t

record sysman_power_rv_t =
  rv_zesPowerGetProperties :: ze_result_t
  rv_zesPowerGetEnergyCounter :: ze_result_t
  rv_zesPowerGetLimitsExt :: ze_result_t
  rv_zesPowerSetLimitsExt :: ze_result_t
  rv_zesPowerGetEnergyThreshold :: ze_result_t
  rv_zesPowerSetEnergyThreshold :: ze_result_t

record sysman_psu_rv_t =
  rv_zesPsuGetProperties :: ze_result_t
  rv_zesPsuGetState :: ze_result_t

record sysman_ras_rv_t =
  rv_zesRasGetProperties :: ze_result_t
  rv_zesRasGetConfig :: ze_result_t
  rv_zesRasSetConfig :: ze_result_t
  rv_zesRasGetState :: ze_result_t
  rv_zesRasGetStateExp :: ze_result_t
  rv_zesRasClearStateExp :: ze_result_t

record sysman_sched_rv_t =
  rv_zesSchedulerGetProperties :: ze_result_t
  rv_zesSchedulerGetCurrentMode :: ze_result_t
  rv_zesSchedulerGetTimeoutModeProperties :: ze_result_t
  rv_zesSchedulerGetTimesliceModeProperties :: ze_result_t
  rv_zesSchedulerSetTimeoutMode :: ze_result_t
  rv_zesSchedulerSetTimesliceMode :: ze_result_t
  rv_zesSchedulerSetExclusiveMode :: ze_result_t

record sysman_standby_rv_t =
  rv_zesStandbyGetProperties :: ze_result_t
  rv_zesStandbyGetMode :: ze_result_t
  rv_zesStandbySetMode :: ze_result_t

record sysman_temp_rv_t =
  rv_zesTemperatureGetProperties :: ze_result_t
  rv_zesTemperatureGetConfig :: ze_result_t
  rv_zesTemperatureSetConfig :: ze_result_t
  rv_zesTemperatureGetState :: ze_result_t

record sysman_diag_rv_t =
  rv_zesDiagnosticsGetProperties :: ze_result_t
  rv_zesDiagnosticsGetTests :: ze_result_t
  rv_zesDiagnosticsRunTests :: ze_result_t

record sysman_device_rv_t =
  rv_zesDeviceGetProperties :: ze_result_t
  rv_zesDeviceGetState :: ze_result_t
  rv_zesDeviceReset :: ze_result_t
  rv_zesDeviceResetExt :: ze_result_t
  rv_zesDeviceProcessesGetState :: ze_result_t
  rv_zesDevicePciGetProperties :: ze_result_t
  rv_zesDevicePciGetState :: ze_result_t
  rv_zesDevicePciGetBars :: ze_result_t
  rv_zesDevicePciGetStats :: ze_result_t
  rv_zesDevicePciLinkSpeedUpdateExt :: ze_result_t
  rv_zesDeviceSetOverclockWaiver :: ze_result_t
  rv_zesDeviceGetOverclockDomains :: ze_result_t
  rv_zesDeviceGetOverclockControls :: ze_result_t
  rv_zesDeviceResetOverclockSettings :: ze_result_t
  rv_zesDeviceReadOverclockState :: ze_result_t
  rv_zesDeviceEnumOverclockDomains :: ze_result_t
  rv_zesDeviceEccAvailable :: ze_result_t
  rv_zesDeviceEccConfigurable :: ze_result_t
  rv_zesDeviceGetEccState :: ze_result_t
  rv_zesDeviceSetEccState :: ze_result_t
  rv_zesDeviceEnumEngineGroups :: ze_result_t
  rv_zesDeviceEventRegister :: ze_result_t
  rv_zesDeviceEnumFabricPorts :: ze_result_t
  rv_zesDeviceEnumFans :: ze_result_t
  rv_zesDeviceEnumFirmwares :: ze_result_t
  rv_zesDeviceEnumFrequencyDomains :: ze_result_t
  rv_zesDeviceEnumLeds :: ze_result_t
  rv_zesDeviceEnumMemoryModules :: ze_result_t
  rv_zesDeviceEnumPerformanceFactorDomains :: ze_result_t
  rv_zesDeviceEnumPowerDomains :: ze_result_t
  rv_zesDeviceEnumPsus :: ze_result_t
  rv_zesDeviceEnumRasErrorSets :: ze_result_t
  rv_zesDeviceEnumSchedulers :: ze_result_t
  rv_zesDeviceEnumStandbyDomains :: ze_result_t
  rv_zesDeviceEnumTemperatureSensors :: ze_result_t
  rv_zesDeviceEnumDiagnosticTestSuites :: ze_result_t

record sysman_driver_rv_t =
  rv_zesDriverGetExtensionProperties :: ze_result_t
  rv_zesDeviceGet :: ze_result_t
  rv_zesDriverEventListen :: ze_result_t
  rv_zesDriverEventListenEx :: ze_result_t

record sysman_system_rv_t =
  rv_zesInit :: ze_result_t
  rv_zesDriverGet :: ze_result_t

section \<open>Features a configuration can disable\<close>

definition UNSUPPORTED_FEATURE_GET_PROPERTIES :: u32 where "UNSUPPORTED_FEATURE_GET_PROPERTIES = 0"
definition UNSUPPORTED_FEATURE_GET_STATE :: u32 where "UNSUPPORTED_FEATURE_GET_STATE = 1"
definition UNSUPPORTED_FEATURE_PROCESSES_GET_STATE :: u32 where "UNSUPPORTED_FEATURE_PROCESSES_GET_STATE = 2"
definition UNSUPPORTED_FEATURE_PCI_GET_PROPERTIES :: u32 where "UNSUPPORTED_FEATURE_PCI_GET_PROPERTIES = 3"
definition UNSUPPORTED_FEATURE_PCI_GET_STATE :: u32 where "UNSUPPORTED_FEATURE_PCI_GET_STATE = 4"
definition UNSUPPORTED_FEATURE_PCI_GET_BARS :: u32 where "UNSUPPORTED_FEATURE_PCI_GET_BARS = 5"
definition UNSUPPORTED_FEATURE_PCI_GET_STATS :: u32 where "UNSUPPORTED_FEATURE_PCI_GET_STATS = 6"
definition UNSUPPORTED_FEATURE_OVERCLOCK_DOMAINS :: u32 where "UNSUPPORTED_FEATURE_OVERCLOCK_DOMAINS = 7"
definition UNSUPPORTED_FEATURE_GET_OVERCLOCK_CONTROLS :: u32 where "UNSUPPORTED_FEATURE_GET_OVERCLOCK_CONTROLS = 8"
definition UNSUPPORTED_FEATURE_OVERCLOCK_READ_STATE :: u32 where "UNSUPPORTED_FEATURE_OVERCLOCK_READ_STATE = 9"
definition UNSUPPORTED_FEATURE_OVERCLOCK_ENUM_DOMAINS :: u32 where "UNSUPPORTED_FEATURE_OVERCLOCK_ENUM_DOMAINS = 10"
definition UNSUPPORTED_FEATURE_ECC :: u32 where "UNSUPPORTED_FEATURE_ECC = 11"
definition UNSUPPORTED_FEATURE_ECC_CONFIGURABLE :: u32 where "UNSUPPORTED_FEATURE_ECC_CONFIGURABLE = 12"
definition UNSUPPORTED_FEATURE_ECC_GET_STATE :: u32 where "UNSUPPORTED_FEATURE_ECC_GET_STATE = 13"
definition UNSUPPORTED_FEATURE_ENGINE_GROUPS :: u32 where "UNSUPPORTED_FEATURE_ENGINE_GROUPS = 14"
definition UNSUPPORTED_FEATURE_FABRIC_PORTS :: u32 where "UNSUPPORTED_FEATURE_FABRIC_PORTS = 15"
definition UNSUPPORTED_FEATURE_FANS :: u32 where "UNSUPPORTED_FEATURE_FANS = 16"
definition UNSUPPORTED_FEATURE_FIRMWARES :: u32 where "UNSUPPORTED_FEATURE_FIRMWARES = 17"
definition UNSUPPORTED_FEATURE_FREQUENCY_DOMAINS :: u32 where "UNSUPPORTED_FEATURE_FREQUENCY_DOMAINS = 18"
definition UNSUPPORTED_FEATURE_LEDS :: u32 where "UNSUPPORTED_FEATURE_LEDS = 19"
definition UNSUPPORTED_FEATURE_MEMORY_MODULES :: u32 where "UNSUPPORTED_FEATURE_MEMORY_MODULES = 20"
definition UNSUPPORTED_FEATURE_PERFORMANCE_DOMAINS :: u32 where "UNSUPPORTED_FEATURE_PERFORMANCE_DOMAINS = 21"
definition UNSUPPORTED_FEATURE_POWER_DOMAINS :: u32 where "UNSUPPORTED_FEATURE_POWER_DOMAINS = 22"
definition UNSUPPORTED_FEATURE_PSUS :: u32 where "UNSUPPORTED_FEATURE_PSUS = 23"
definition UNSUPPORTED_FEATURE_RAS_ERROR_SETS :: u32 where "UNSUPPORTED_FEATURE_RAS_ERROR_SETS = 24"
definition UNSUPPORTED_FEATURE_SCHEDULERS :: u32 where "UNSUPPORTED_FEATURE_SCHEDULERS = 25"
definition UNSUPPORTED_FEATURE_STANDBY_DOMAINS :: u32 where "UNSUPPORTED_FEATURE_STANDBY_DOMAINS = 26"
definition UNSUPPORTED_FEATURE_TEMPERATURE_SENSORS :: u32 where "UNSUPPORTED_FEATURE_TEMPERATURE_SENSORS = 27"
definition UNSUPPORTED_FEATURE_DIAGNOSTICS_TEST_SUITES :: u32 where "UNSUPPORTED_FEATURE_DIAGNOSTICS_TEST_SUITES = 28"
definition UNSUPPORTED_FEATURE_GET_EXT_PROPERTIES :: u32 where "UNSUPPORTED_FEATURE_GET_EXT_PROPERTIES = 29"
definition UNSUPPORTED_FEATURE_DRIVER_DEVICE_GET :: u32 where "UNSUPPORTED_FEATURE_DRIVER_DEVICE_GET = 30"
definition UNSUPPORTED_FEATURE_DEVICE_RESET :: u32 where "UNSUPPORTED_FEATURE_DEVICE_RESET = 31"
definition UNSUPPORTED_FEATURE_DEVICE_RESET_EXT :: u32 where "UNSUPPORTED_FEATURE_DEVICE_RESET_EXT = 32"
definition UNSUPPORTED_FEATURE_SET_OVERCLOCK_WAIVER :: u32 where "UNSUPPORTED_FEATURE_SET_OVERCLOCK_WAIVER = 33"
definition UNSUPPORTED_FEATURE_OVERCLOCK_RESET_SETTINGS :: u32 where "UNSUPPORTED_FEATURE_OVERCLOCK_RESET_SETTINGS = 34"
definition UNSUPPORTED_FEATURE_ECC_SET_STATE :: u32 where "UNSUPPORTED_FEATURE_ECC_SET_STATE = 35"
definition UNSUPPORTED_FEATURE_EVENT_REGISTER :: u32 where "UNSUPPORTED_FEATURE_EVENT_REGISTER = 36"
definition UNSUPPORTED_FEATURE_EVENT_LISTEN :: u32 where "UNSUPPORTED_FEATURE_EVENT_LISTEN = 37"
definition UNSUPPORTED_FEATURE_EVENT_LISTEN_EX :: u32 where "UNSUPPORTED_FEATURE_EVENT_LISTEN_EX = 38"
definition UNSUPPORTED_FEATURE_FABRIC_PORT_MULTI_THROUGHPUT :: u32 where "UNSUPPORTED_FEATURE_FABRIC_PORT_MULTI_THROUGHPUT = 39"
definition UNSUPPORTED_FEATURE_OC_GET_DOMAIN_PROPERTIES :: u32 where "UNSUPPORTED_FEATURE_OC_GET_DOMAIN_PROPERTIES = 40"
definition UNSUPPORTED_FEATURE_OC_GET_DOMAIN_VF_PROPERTIES :: u32 where "UNSUPPORTED_FEATURE_OC_GET_DOMAIN_VF_PROPERTIES = 41"
definition UNSUPPORTED_FEATURE_OC_GET_DOMAIN_CONTROL_PROPERTIES :: u32 where "UNSUPPORTED_FEATURE_OC_GET_DOMAIN_CONTROL_PROPERTIES = 42"
definition UNSUPPORTED_FEATURE_OC_GET_CONTROL_CURRENT_VALUE :: u32 where "UNSUPPORTED_FEATURE_OC_GET_CONTROL_CURRENT_VALUE = 43"
definition UNSUPPORTED_FEATURE_OC_GET_CONTROL_PENDING_VALUE :: u32 where "UNSUPPORTED_FEATURE_OC_GET_CONTROL_PENDING_VALUE = 44"
definition UNSUPPORTED_FEATURE_OC_SET_CONTROL_USER_VALUE :: u32 where "UNSUPPORTED_FEATURE_OC_SET_CONTROL_USER_VALUE = 45"
definition UNSUPPORTED_FEATURE_OC_GET_CONTROL_STATE :: u32 where "UNSUPPORTED_FEATURE_OC_GET_CONTROL_STATE = 46"
definition UNSUPPORTED_FEATURE_OC_GET_VF_POINT_VALUES :: u32 where "UNSUPPORTED_FEATURE_OC_GET_VF_POINT_VALUES = 47"
definition UNSUPPORTED_FEATURE_OC_SET_VF_POINT_VALUES :: u32 where "UNSUPPORTED_FEATURE_OC_SET_VF_POINT_VALUES = 48"
definition UNSUPPORTED_FEATURE_DIAG_GET_PROPERTIES :: u32 where "UNSUPPORTED_FEATURE_DIAG_GET_PROPERTIES = 49"
definition UNSUPPORTED_FEATURE_DIAG_GET_TESTS :: u32 where "UNSUPPORTED_FEATURE_DIAG_GET_TESTS = 50"
definition UNSUPPORTED_FEATURE_DIAG_RUN_TESTS :: u32 where "UNSUPPORTED_FEATURE_DIAG_RUN_TESTS = 51"
definition UNSUPPORTED_FEATURE_ENGINE_GET_PROPERTIES :: u32 where "UNSUPPORTED_FEATURE_ENGINE_GET_PROPERTIES = 52"
definition UNSUPPORTED_FEATURE_ENGINE_GET_ACTIVITY :: u32 where "UNSUPPORTED_FEATURE_ENGINE_GET_ACTIVITY = 53"
definition UNSUPPORTED_FEATURE_ENGINE_GET_ACTIVITY_EXT :: u32 where "UNSUPPORTED_FEATURE_ENGINE_GET_ACTIVITY_EXT = 54"
definition UNSUPPORTED_FEATURE_FABRIC_PORT_GET_PROPERTIES :: u32 where "UNSUPPORTED_FEATURE_FABRIC_PORT_GET_PROPERTIES = 55"
definition UNSUPPORTED_FEATURE_FABRIC_PORT_GET_LINK_TYPE :: u32 where "UNSUPPORTED_FEATURE_FABRIC_PORT_GET_LINK_TYPE = 56"
definition UNSUPPORTED_FEATURE_FABRIC_PORT_GET_CONFIG :: u32 where "UNSUPPORTED_FEATURE_FABRIC_PORT_GET_CONFIG = 57"
definition UNSUPPORTED_FEATURE_FABRIC_PORT_SET_CONFIG :: u32 where "UNSUPPORTED_FEATURE_FABRIC_PORT_SET_CONFIG = 58"
definition UNSUPPORTED_FEATURE_FABRIC_PORT_GET_STATE :: u32 where "UNSUPPORTED_FEATURE_FABRIC_PORT_GET_STATE = 59"
definition UNSUPPORTED_FEATURE_FABRIC_PORT_GET_THROUGHPUT :: u32 where "UNSUPPORTED_FEATURE_FABRIC_PORT_GET_THROUGHPUT = 60"
definition UNSUPPORTED_FEATURE_FABRIC_PORT_GET_ERROR_COUNTERS :: u32 where "UNSUPPORTED_FEATURE_FABRIC_PORT_GET_ERROR_COUNTERS = 61"
definition UNSUPPORTED_FEATURE_FAN_GET_PROPERTIES :: u32 where "UNSUPPORTED_FEATURE_FAN_GET_PROPERTIES = 62"
definition UNSUPPORTED_FEATURE_FAN_GET_CONFIG :: u32 where "UNSUPPORTED_FEATURE_FAN_GET_CONFIG = 63"
definition UNSUPPORTED_FEATURE_FAN_SET_DEFAULT_MODE :: u32 where "UNSUPPORTED_FEATURE_FAN_SET_DEFAULT_MODE = 64"
definition UNSUPPORTED_FEATURE_FAN_SET_FIXED_SPEED_MODE :: u32 where "UNSUPPORTED_FEATURE_FAN_SET_FIXED_SPEED_MODE = 65"
definition UNSUPPORTED_FEATURE_FAN_SET_SPEED_TABLE_MODE :: u32 where "UNSUPPORTED_FEATURE_FAN_SET_SPEED_TABLE_MODE = 66"
definition UNSUPPORTED_FEATURE_FAN_GET_STATE :: u32 where "UNSUPPORTED_FEATURE_FAN_GET_STATE = 67"
definition UNSUPPORTED_FEATURE_FW_GET_PROPERTIES :: u32 where "UNSUPPORTED_FEATURE_FW_GET_PROPERTIES = 68"
definition UNSUPPORTED_FEATURE_FW_FLASH :: u32 where "UNSUPPORTED_FEATURE_FW_FLASH = 69"
definition UNSUPPORTED_FEATURE_FW_GET_FLASH_PROGRESS :: u32 where "UNSUPPORTED_FEATURE_FW_GET_FLASH_PROGRESS = 70"
definition UNSUPPORTED_FEATURE_FW_GET_CONSOLE_LOGS :: u32 where "UNSUPPORTED_FEATURE_FW_GET_CONSOLE_LOGS = 71"
definition UNSUPPORTED_FEATURE_FREQ_GET_PROPERTIES :: u32 where "UNSUPPORTED_FEATURE_FREQ_GET_PROPERTIES = 72"
definition UNSUPPORTED_FEATURE_FREQ_GET_AVAILABLE_CLOCKS :: u32 where "UNSUPPORTED_FEATURE_FREQ_GET_AVAILABLE_CLOCKS = 73"
definition UNSUPPORTED_FEATURE_FREQ_GET_RANGE :: u32 where "UNSUPPORTED_FEATURE_FREQ_GET_RANGE = 74"
definition UNSUPPORTED_FEATURE_FREQ_SET_RANGE :: u32 where "UNSUPPORTED_FEATURE_FREQ_SET_RANGE = 75"
definition UNSUPPORTED_FEATURE_FREQ_GET_STATE :: u32 where "UNSUPPORTED_FEATURE_FREQ_GET_STATE = 76"
definition UNSUPPORTED_FEATURE_FREQ_GET_THROTTLE_TIME :: u32 where "UNSUPPORTED_FEATURE_FREQ_GET_THROTTLE_TIME = 77"
definition UNSUPPORTED_FEATURE_LED_GET_PROPERTIES :: u32 where "UNSUPPORTED_FEATURE_LED_GET_PROPERTIES = 78"
definition UNSUPPORTED_FEATURE_LED_GET_STATE :: u32 where "UNSUPPORTED_FEATURE_LED_GET_STATE = 79"
definition UNSUPPORTED_FEATURE_LED_SET_STATE :: u32 where "UNSUPPORTED_FEATURE_LED_SET_STATE = 80"
definition UNSUPPORTED_FEATURE_LED_SET_COLOR :: u32 where "UNSUPPORTED_FEATURE_LED_SET_COLOR = 81"
definition UNSUPPORTED_FEATURE_MEM_GET_PROPERTIES :: u32 where "UNSUPPORTED_FEATURE_MEM_GET_PROPERTIES = 82"
definition UNSUPPORTED_FEATURE_MEM_GET_STATE :: u32 where "UNSUPPORTED_FEATURE_MEM_GET_STATE = 83"
definition UNSUPPORTED_FEATURE_MEM_GET_BANDWIDTH :: u32 where "UNSUPPORTED_FEATURE_MEM_GET_BANDWIDTH = 84"
definition UNSUPPORTED_FEATURE_PERF_GET_PROPERTIES :: u32 where "UNSUPPORTED_FEATURE_PERF_GET_PROPERTIES = 85"
definition UNSUPPORTED_FEATURE_PERF_GET_CONFIG :: u32 where "UNSUPPORTED_FEATURE_PERF_GET_CONFIG = 86"
definition UNSUPPORTED_FEATURE_PERF_SET_CONFIG :: u32 where "UNSUPPORTED_FEATURE_PERF_SET_CONFIG = 87"
definition UNSUPPORTED_FEATURE_POWER_GET_PROPERTIES :: u32 where "UNSUPPORTED_FEATURE_POWER_GET_PROPERTIES = 88"
definition UNSUPPORTED_FEATURE_POWER_GET_ENERGY_COUNTER :: u32 where "UNSUPPORTED_FEATURE_POWER_GET_ENERGY_COUNTER = 89"
definition UNSUPPORTED_FEATURE_POWER_GET_LIMITS_EXT :: u32 where "UNSUPPORTED_FEATURE_POWER_GET_LIMITS_EXT = 90"
definition UNSUPPORTED_FEATURE_POWER_SET_LIMITS_EXT :: u32 where "UNSUPPORTED_FEATURE_POWER_SET_LIMITS_EXT = 91"
definition UNSUPPORTED_FEATURE_POWER_GET_ENERGY_THRESHOLD :: u32 where "UNSUPPORTED_FEATURE_POWER_GET_ENERGY_THRESHOLD = 92"
definition UNSUPPORTED_FEATURE_POWER_SET_ENERGY_THRESHOLD :: u32 where "UNSUPPORTED_FEATURE_POWER_SET_ENERGY_THRESHOLD = 93"
definition UNSUPPORTED_FEATURE_PSU_GET_PROPERTIES :: u32 where "UNSUPPORTED_FEATURE_PSU_GET_PROPERTIES = 94"
definition UNSUPPORTED_FEATURE_PSU_GET_STATE :: u32 where "UNSUPPORTED_FEATURE_PSU_GET_STATE = 95"
definition UNSUPPORTED_FEATURE_RAS_GET_PROPERTIES :: u32 where "UNSUPPORTED_FEATURE_RAS_GET_PROPERTIES = 96"
definition UNSUPPORTED_FEATURE_RAS_GET_CONFIG :: u32 where "UNSUPPORTED_FEATURE_RAS_GET_CONFIG = 97"
definition UNSUPPORTED_FEATURE_RAS_SET_CONFIG :: u32 where "UNSUPPORTED_FEATURE_RAS_SET_CONFIG = 98"
definition UNSUPPORTED_FEATURE_RAS_GET_STATE :: u32 where "UNSUPPORTED_FEATURE_RAS_GET_STATE = 99"
definition UNSUPPORTED_FEATURE_RAS_GET_STATE_EXP :: u32 where "UNSUPPORTED_FEATURE_RAS_GET_STATE_EXP = 100"
definition UNSUPPORTED_FEATURE_RAS_CLEAR_STATE_EXP :: u32 where "UNSUPPORTED_FEATURE_RAS_CLEAR_STATE_EXP = 101"
definition UNSUPPORTED_FEATURE_SCHED_GET_PROPERTIES :: u32 where "UNSUPPORTED_FEATURE_SCHED_GET_PROPERTIES = 102"
definition UNSUPPORTED_FEATURE_SCHED_GET_CURRENT_MODE :: u32 where "UNSUPPORTED_FEATURE_SCHED_GET_CURRENT_MODE = 103"
definition UNSUPPORTED_FEATURE_SCHED_GET_TIMEOUT_MODE_PROPS :: u32 where "UNSUPPORTED_FEATURE_SCHED_GET_TIMEOUT_MODE_PROPS = 104"
definition UNSUPPORTED_FEATURE_SCHED_GET_TIMESLICE_MODE_PROPS :: u32 where "UNSUPPORTED_FEATURE_SCHED_GET_TIMESLICE_MODE_PROPS = 105"
definition UNSUPPORTED_FEATURE_SCHED_SET_TIMEOUT_MODE :: u32 where "UNSUPPORTED_FEATURE_SCHED_SET_TIMEOUT_MODE = 106"
definition UNSUPPORTED_FEATURE_SCHED_SET_TIMESLICE_MODE :: u32 where "UNSUPPORTED_FEATURE_SCHED_SET_TIMESLICE_MODE = 107"
definition UNSUPPORTED_FEATURE_SCHED_SET_EXCLUSIVE_MODE :: u32 where "UNSUPPORTED_FEATURE_SCHED_SET_EXCLUSIVE_MODE = 108"
definition UNSUPPORTED_FEATURE_STANDBY_GET_PROPERTIES :: u32 where "UNSUPPORTED_FEATURE_STANDBY_GET_PROPERTIES = 109"
definition UNSUPPORTED_FEATURE_STANDBY_GET_MODE :: u32 where "UNSUPPORTED_FEATURE_STANDBY_GET_MODE = 110"
definition UNSUPPORTED_FEATURE_STANDBY_SET_MODE :: u32 where "UNSUPPORTED_FEATURE_STANDBY_SET_MODE = 111"
definition UNSUPPORTED_FEATURE_TEMP_GET_PROPERTIES :: u32 where "UNSUPPORTED_FEATURE_TEMP_GET_PROPERTIES = 112"
definition UNSUPPORTED_FEATURE_TEMP_GET_CONFIG :: u32 where "UNSUPPORTED_FEATURE_TEMP_GET_CONFIG = 113"
definition UNSUPPORTED_FEATURE_TEMP_SET_CONFIG :: u32 where "UNSUPPORTED_FEATURE_TEMP_SET_CONFIG = 114"
definition UNSUPPORTED_FEATURE_TEMP_GET_STATE :: u32 where "UNSUPPORTED_FEATURE_TEMP_GET_STATE = 115"

section \<open>Components, devices, drivers\<close>

record sysman_engine_properties_info_t =
  engine_properties_info_base :: zes_engine_properties_t
  engine_properties_info_extended_properties :: zes_engine_ext_properties_t

record sysman_engine_t =
  engine_return_values :: sysman_engine_rv_t
  engine_properties :: sysman_engine_properties_info_t
  engine_activity :: zes_engine_stats_t
  engine_activity_ext_count :: u32
  engine_activity_ext :: "zes_engine_stats_t list cptr"

record sysman_fabric_port_t =
  fabric_port_return_values :: sysman_fabric_port_rv_t
  fabric_port_properties :: "zes_fabric_port_properties_t cptr"
  fabric_port_link_type :: "zes_fabric_link_type_t cptr"
  fabric_port_config :: "zes_fabric_port_config_t cptr"
  fabric_port_state :: "zes_fabric_port_state_t cptr"
  fabric_port_throughput :: "zes_fabric_port_throughput_t cptr"
  fabric_port_error_counters :: "zes_fabric_port_error_counters_t cptr"

record sysman_fan_t =
  fan_return_values :: sysman_fan_rv_t
  fan_properties :: "zes_fan_properties_t cptr"
  fan_config :: "zes_fan_config_t cptr"
  fan_speed :: u32

record sysman_firmware_t =
  firmware_return_values :: sysman_firmware_rv_t
  firmware_properties :: "zes_firmware_properties_t cptr"
  firmware_flash_progress :: u32
  firmware_log :: cstring

record sysman_freq_t =
  freq_return_values :: sysman_freq_rv_t
  freq_properties :: "zes_freq_properties_t cptr"
  freq_range :: "zes_freq_range_t cptr"
  freq_available_clocks_count :: u32
  freq_available_clocks :: "double64 list cptr"
  freq_state :: "zes_freq_state_t cptr"
  freq_throttle_time :: "zes_freq_throttle_time_t cptr"

record sysman_led_t =
  led_return_values :: sysman_led_rv_t
  led_properties :: "zes_led_properties_t cptr"
  led_state :: "zes_led_state_t cptr"

record sysman_mem_t =
  mem_return_values :: sysman_mem_rv_t
  mem_properties :: "zes_mem_properties_t cptr"
  mem_state :: "zes_mem_state_t cptr"
  mem_bandwidth :: "zes_mem_bandwidth_t cptr"

record sysman_oc_control_info_t =
  oc_control_info_control_type :: u32
  oc_control_info_properties :: "zes_control_property_t cptr"
  oc_control_info_current_value :: "double64 cptr"
  oc_control_info_pending_value :: "double64 cptr"
  oc_control_info_state :: "u32 cptr"
  oc_control_info_pending_action :: "u32 cptr"

record sysman_oc_control_t =
  oc_control_domain_type :: u32
  oc_control_controls_bitmask :: u32

record sysman_oc_t =
  oc_return_values :: sysman_oc_rv_t
  oc_properties :: "zes_overclock_properties_t cptr"
  oc_vf_properties :: "zes_vf_property_t cptr"
  oc_control_infos_count :: u32
  oc_control_infos :: "sysman_oc_control_info_t list cptr"
  oc_vf_point_value :: u32

record sysman_pci_properties_info_t =
  pci_properties_info_base :: zes_pci_properties_t
  pci_properties_info_link_speed_downgrade :: zes_pci_link_speed_downgrade_ext_properties_t

record sysman_pci_state_info_t =
  pci_state_info_base :: zes_pci_state_t
  pci_state_info_link_speed_downgrade :: zes_pci_link_speed_downgrade_ext_state_t

record sysman_pci_info_t =
  pci_info_properties :: "sysman_pci_properties_info_t cptr"
  pci_info_state :: "sysman_pci_state_info_t cptr"
  pci_info_bars_count :: u32
  pci_info_bars :: "zes_pci_bar_properties_t list cptr"
  pci_info_stats :: "zes_pci_stats_t cptr"
  pci_info_pci_link_speed_update_pending_action :: u32

record sysman_ecc_state_info_t =
  ecc_state_info_properties :: zes_device_ecc_properties_t
  ecc_state_info_extended_properties :: zes_device_ecc_default_properties_ext_t

record sysman_ecc_info_t =
  ecc_info_available :: ze_bool_t
  ecc_info_configurable :: ze_bool_t
  ecc_info_state :: "sysman_ecc_state_info_t cptr"

record sysman_overclock_state_info_t =
  overclock_state_info_mode :: u32
  overclock_state_info_waiver_setting :: ze_bool_t
  overclock_state_info_state :: ze_bool_t
  overclock_state_info_pending_action :: u32
  overclock_state_info_pending_reset :: ze_bool_t

record sysman_overclock_info_t =
  overclock_info_domains_bitmask :: u32
  overclock_info_controls_count :: u32
  overclock_info_controls :: "sysman_oc_control_t list cptr"
  overclock_info_state :: "sysman_overclock_state_info_t cptr"
  overclock_info_domains_count :: u32
  overclock_info_domains :: "sysman_oc_t list cptr"

record sysman_perf_t =
  perf_return_values :: sysman_perf_rv_t
  perf_properties :: "zes_perf_properties_t cptr"
  perf_config :: double64

record sysman_power_ext_properties_t =
  stub_power_ext_properties_domain :: u32
  stub_power_ext_properties_default_limit :: zes_power_limit_ext_desc_t

record sysman_power_properties_info_t =
  power_properties_info_base :: zes_power_properties_t
  power_properties_info_extended_properties :: sysman_power_ext_properties_t

record sysman_power_t =
  power_return_values :: sysman_power_rv_t
  power_properties :: "sysman_power_properties_info_t cptr"
  power_energy_counter :: "zes_power_energy_counter_t cptr"
  power_limits_count :: u32
  power_limits :: "zes_power_limit_ext_desc_t list cptr"
  power_energy_threshold :: "zes_energy_threshold_t cptr"

record sysman_psu_t =
  psu_return_values :: sysman_psu_rv_t
  psu_properties :: "zes_psu_properties_t cptr"
  psu_state :: "zes_psu_state_t cptr"

record sysman_ras_t =
  ras_return_values :: sysman_ras_rv_t
  ras_properties :: "zes_ras_properties_t cptr"
  ras_config :: "zes_ras_config_t cptr"
  ras_state :: "zes_ras_state_t cptr"
  ras_state_exp_count :: u32
  ras_state_exp :: "zes_ras_state_exp_t list cptr"

record sysman_sched_t =
  sched_return_values :: sysman_sched_rv_t
  sched_properties :: "zes_sched_properties_t cptr"
  sched_current_mode :: u32
  sched_timeout_mode_properties :: "zes_sched_timeout_properties_t cptr"
  sched_timeslice_mode_properties :: "zes_sched_timeslice_properties_t cptr"
  sched_need_reload :: ze_bool_t

record sysman_standby_t =
  standby_return_values :: sysman_standby_rv_t
  standby_properties :: "zes_standby_properties_t cptr"
  standby_mode :: u32

record sysman_temp_t =
  temp_return_values :: sysman_temp_rv_t
  temp_properties :: "zes_temp_properties_t cptr"
  temp_temperature :: double64
  temp_config :: "zes_temp_config_t cptr"

record sysman_diag_t =
  diag_return_values :: sysman_diag_rv_t
  diag_properties :: "zes_diag_properties_t cptr"
  diag_tests_count :: u32
  diag_tests :: "zes_diag_test_t list cptr"
  diag_result :: u32

record sysman_uuid_t =
  stub_uuid_id :: cstring

record sysman_device_core_properties_t =
  device_core_properties_ze :: ze_device_properties_t
  device_core_properties_uuid :: sysman_uuid_t

record sysman_device_properties_info_t =
  device_properties_info_base :: zes_device_properties_t
  device_properties_info_extended_properties :: zes_device_ext_properties_t
  device_properties_info_core :: sysman_device_core_properties_t
  device_properties_info_uuid :: sysman_uuid_t

record sysman_device_state_t =
  dev_return_values :: sysman_device_rv_t
  dev_unsupported_features_count :: u32
  dev_unsupported_features :: "u32 list cptr"
  dev_properties :: "sysman_device_properties_info_t cptr"
  dev_state :: "zes_device_state_t cptr"
  dev_pci :: sysman_pci_info_t
  dev_ecc :: "sysman_ecc_info_t cptr"
  dev_overclock :: "sysman_overclock_info_t cptr"
  dev_processes_count :: u32
  dev_processes :: "zes_process_state_t list cptr"
  dev_events :: u32
  dev_engine_groups_count :: u32
  dev_engine_groups :: "sysman_engine_t list cptr"
  dev_fabric_ports_count :: u32
  dev_fabric_ports :: "sysman_fabric_port_t list cptr"
  dev_fans_count :: u32
  dev_fans :: "sysman_fan_t list cptr"
  dev_firmwares_count :: u32
  dev_firmwares :: "sysman_firmware_t list cptr"
  dev_frequency_domains_count :: u32
  dev_frequency_domains :: "sysman_freq_t list cptr"
  dev_leds_count :: u32
  dev_leds :: "sysman_led_t list cptr"
  dev_memory_modules_count :: u32
  dev_memory_modules :: "sysman_mem_t list cptr"
  dev_performance_domains_count :: u32
  dev_performance_domains :: "sysman_perf_t list cptr"
  dev_power_domains_count :: u32
  dev_power_domains :: "sysman_power_t list cptr"
  dev_psus_count :: u32
  dev_psus :: "sysman_psu_t list cptr"
  dev_ras_error_sets_count :: u32
  dev_ras_error_sets :: "sysman_ras_t list cptr"
  dev_schedulers_count :: u32
  dev_schedulers :: "sysman_sched_t list cptr"
  dev_standby_domains_count :: u32
  dev_standby_domains :: "sysman_standby_t list cptr"
  dev_temperature_sensors_count :: u32
  dev_temperature_sensors :: "sysman_temp_t list cptr"
  dev_diagnostics_count :: u32
  dev_diagnostics :: "sysman_diag_t list cptr"

record sysman_drivers_state_t =
  drv_return_values :: sysman_driver_rv_t
  drv_unsupported_features_count :: u32
  drv_unsupported_features :: "u32 list cptr"
  drv_extension_properties_count :: u32
  drv_extension_properties :: "zes_driver_extension_properties_t list cptr"
  drv_devices_count :: u32
  drv_devices :: "sysman_device_state_t list cptr"

record sysman_system_state_t =
  sys_drivers_count :: u32
  sys_drivers :: "sysman_drivers_state_t list cptr"

record sysman_state_t =
  st_system :: sysman_system_state_t
  st_return_values :: sysman_system_rv_t

end
