(* ===== verification/Stub_Core.thy ===== *)
theory Stub_Core
  imports Stub_State
begin

text \<open>
  The helpers every entry point of \<^verbatim>\<open>level-zero-stub/zes_stub.c\<close> is built from: the state lock,
  handle resolution, the unsupported-feature test, and the recurring tails of the entry points
  (copy a structure out, store a value, the two-call count/fill idiom). The well-formedness
  invariant of the state is here too, with the facts that handle resolution is memory safe and
  that every handle the stub hands out resolves to the object it was made for.
\<close>

section \<open>The library's globals and its lock\<close>

text \<open>
  \<open>g_state_lock\<close> is the (non-recursive) mutex: \<open>True\<close> while a caller holds it.
\<close>

record stub =
  g_sysman_state :: sysman_state_t
  g_config_path :: cstring
  g_state_lock :: bool

type_synonym 'o api_result = "(ze_result_t \<times> 'o \<times> stub) outcome"

definition sysman_state_lock :: "stub \<Rightarrow> stub outcome" where
  "sysman_state_lock w = (if g_state_lock w then Stuck else Done (w\<lparr>g_state_lock := True\<rparr>))"

definition sysman_state_unlock :: "stub \<Rightarrow> stub" where
  "sysman_state_unlock w = w\<lparr>g_state_lock := False\<rparr>"

definition sysman_unlock_and_return :: "ze_result_t \<Rightarrow> 'o \<Rightarrow> stub \<Rightarrow> 'o api_result" where
  "sysman_unlock_and_return result out w = Done (result, out, sysman_state_unlock w)"

text \<open>An entry point that only reads the state between lock and unlock.\<close>

definition locked :: "stub \<Rightarrow> (sysman_state_t \<Rightarrow> (ze_result_t \<times> 'o) outcome) \<Rightarrow> 'o api_result" where
  "locked w body = obind (sysman_state_lock w) (\<lambda>w.
     obind (body (g_sysman_state w)) (\<lambda>(result, out). sysman_unlock_and_return result out w))"

lemma lock_simps [simp]:
  "sysman_state_lock w = Done w' \<longleftrightarrow> \<not> g_state_lock w \<and> w' = w\<lparr>g_state_lock := True\<rparr>"
  "sysman_state_lock w = Stuck \<longleftrightarrow> g_state_lock w"
  "sysman_state_lock w \<noteq> Fault"
  by (auto simp: sysman_state_lock_def)

lemma locked_Done:
  "locked w body = Done (r, out, w') \<longleftrightarrow>
     \<not> g_state_lock w \<and> w' = w \<and> body (g_sysman_state w) = Done (r, out)"
  by (cases w) (auto simp: locked_def sysman_unlock_and_return_def sysman_state_unlock_def)

lemma locked_Stuck: "g_state_lock w \<Longrightarrow> locked w body = Stuck"
  by (simp add: locked_def sysman_state_lock_def)

lemma locked_eq:
  "\<not> g_state_lock w \<Longrightarrow> body (g_sysman_state w) = Done (r, out) \<Longrightarrow> locked w body = Done (r, out, w)"
  by (simp add: locked_Done)

section \<open>Handle resolution\<close>

text \<open>
  \<^verbatim>\<open>resolve_handle\<close> returns a \<^verbatim>\<open>void *\<close> into the tree; here it returns the object, tagged with
  its C type. \<open>Done None\<close> is the null pointer.
\<close>

datatype stub_obj =
    ObjDriver sysman_drivers_state_t
  | ObjDevice sysman_device_state_t
  | ObjOc sysman_oc_t
  | ObjDiag sysman_diag_t
  | ObjEngine sysman_engine_t
  | ObjFabricPort sysman_fabric_port_t
  | ObjFan sysman_fan_t
  | ObjFirmware sysman_firmware_t
  | ObjFreq sysman_freq_t
  | ObjLed sysman_led_t
  | ObjMem sysman_mem_t
  | ObjPerf sysman_perf_t
  | ObjPower sysman_power_t
  | ObjPsu sysman_psu_t
  | ObjRas sysman_ras_t
  | ObjSched sysman_sched_t
  | ObjStandby sysman_standby_t
  | ObjTemp sysman_temp_t

definition index_obj :: "u32 \<Rightarrow> 'a list cptr \<Rightarrow> u16 \<Rightarrow> ('a \<Rightarrow> stub_obj) \<Rightarrow> stub_obj option outcome" where
  "index_obj n p i mk =
     (if unat i \<ge> unat n then Done None
      else obind (arr_get p (unat i)) (\<lambda>x. Done (Some (mk x))))"

definition resolve_component ::
  "sysman_device_state_t \<Rightarrow> stub_handle_type_t \<Rightarrow> u16 \<Rightarrow> stub_obj option outcome" where
  "resolve_component device expected_type ix =
     (case expected_type of
        STUB_HANDLE_OC \<Rightarrow>
          (case dev_overclock device of
             Null \<Rightarrow> Done None
           | Ptr _ oc \<Rightarrow>
               if overclock_info_domains oc = Null then Done None
               else index_obj (overclock_info_domains_count oc) (overclock_info_domains oc) ix ObjOc)
      | STUB_HANDLE_DIAG \<Rightarrow> index_obj (dev_diagnostics_count device) (dev_diagnostics device) ix ObjDiag
      | STUB_HANDLE_ENGINE \<Rightarrow> index_obj (dev_engine_groups_count device) (dev_engine_groups device) ix ObjEngine
      | STUB_HANDLE_FABRIC_PORT \<Rightarrow> index_obj (dev_fabric_ports_count device) (dev_fabric_ports device) ix ObjFabricPort
      | STUB_HANDLE_FAN \<Rightarrow> index_obj (dev_fans_count device) (dev_fans device) ix ObjFan
      | STUB_HANDLE_FIRMWARE \<Rightarrow> index_obj (dev_firmwares_count device) (dev_firmwares device) ix ObjFirmware
      | STUB_HANDLE_FREQ \<Rightarrow> index_obj (dev_frequency_domains_count device) (dev_frequency_domains device) ix ObjFreq
      | STUB_HANDLE_LED \<Rightarrow> index_obj (dev_leds_count device) (dev_leds device) ix ObjLed
      | STUB_HANDLE_MEM \<Rightarrow> index_obj (dev_memory_modules_count device) (dev_memory_modules device) ix ObjMem
      | STUB_HANDLE_PERF \<Rightarrow> index_obj (dev_performance_domains_count device) (dev_performance_domains device) ix ObjPerf
      | STUB_HANDLE_PWR \<Rightarrow> index_obj (dev_power_domains_count device) (dev_power_domains device) ix ObjPower
      | STUB_HANDLE_PSU \<Rightarrow> index_obj (dev_psus_count device) (dev_psus device) ix ObjPsu
      | STUB_HANDLE_RAS \<Rightarrow> index_obj (dev_ras_error_sets_count device) (dev_ras_error_sets device) ix ObjRas
      | STUB_HANDLE_SCHED \<Rightarrow> index_obj (dev_schedulers_count device) (dev_schedulers device) ix ObjSched
      | STUB_HANDLE_STANDBY \<Rightarrow> index_obj (dev_standby_domains_count device) (dev_standby_domains device) ix ObjStandby
      | STUB_HANDLE_TEMP \<Rightarrow> index_obj (dev_temperature_sensors_count device) (dev_temperature_sensors device) ix ObjTemp
      | _ \<Rightarrow> Done None)"

definition resolve_handle ::
  "sysman_state_t \<Rightarrow> u64 \<Rightarrow> stub_handle_type_t \<Rightarrow> stub_obj option outcome" where
  "resolve_handle s zes_handle expected_type =
     (let handle = decode_handle zes_handle; system = st_system s in
      if bits_type handle \<noteq> handle_type_code expected_type then Done None
      else if unat (bits_drv handle) \<ge> unat (sys_drivers_count system) then Done None
      else obind (arr_get (sys_drivers system) (unat (bits_drv handle))) (\<lambda>driver.
        if expected_type = STUB_HANDLE_DRIVER then Done (Some (ObjDriver driver))
        else if unat (bits_dev handle) \<ge> unat (drv_devices_count driver) then Done None
        else obind (arr_get (drv_devices driver) (unat (bits_dev handle))) (\<lambda>device.
          if expected_type = STUB_HANDLE_DEVICE then Done (Some (ObjDevice device))
          else resolve_component device expected_type (bits_comp handle))))"

definition is_unsupported :: "sysman_state_t \<Rightarrow> u64 \<Rightarrow> u32 \<Rightarrow> bool outcome" where
  "is_unsupported s zes_handle flag =
     (let handle = decode_handle zes_handle; system = st_system s;
          listed = (\<lambda>n p. obind (find_loop (arr_get p) (\<lambda>f. f = flag) 0 (unat n))
                       (\<lambda>r. Done (r \<noteq> None))) in
      if unat (bits_drv handle) \<ge> unat (sys_drivers_count system) then Done False
      else obind (arr_get (sys_drivers system) (unat (bits_drv handle))) (\<lambda>drv.
        if bits_type handle = handle_type_code STUB_HANDLE_DRIVER
        then listed (drv_unsupported_features_count drv) (drv_unsupported_features drv)
        else if unat (bits_dev handle) \<ge> unat (drv_devices_count drv) then Done False
        else obind (arr_get (drv_devices drv) (unat (bits_dev handle))) (\<lambda>dev.
          listed (dev_unsupported_features_count dev) (dev_unsupported_features dev))))"

text \<open>The cast of the resolved pointer to the type the caller expects.\<close>

definition cast_obj :: "(stub_obj \<Rightarrow> 'a option) \<Rightarrow> stub_obj option outcome \<Rightarrow> 'a option outcome" where
  "cast_obj as r = obind r (\<lambda>r. case r of None \<Rightarrow> Done None
     | Some obj \<Rightarrow> (case as obj of None \<Rightarrow> Fault | Some x \<Rightarrow> Done (Some x)))"

definition as_driver :: "stub_obj \<Rightarrow> sysman_drivers_state_t option" where
  "as_driver obj = (case obj of ObjDriver x \<Rightarrow> Some x | _ \<Rightarrow> None)"

definition resolve_driver :: "sysman_state_t \<Rightarrow> u64 \<Rightarrow> sysman_drivers_state_t option outcome" where
  "resolve_driver s h = cast_obj as_driver (resolve_handle s h STUB_HANDLE_DRIVER)"

definition as_device :: "stub_obj \<Rightarrow> sysman_device_state_t option" where
  "as_device obj = (case obj of ObjDevice x \<Rightarrow> Some x | _ \<Rightarrow> None)"

definition resolve_device :: "sysman_state_t \<Rightarrow> u64 \<Rightarrow> sysman_device_state_t option outcome" where
  "resolve_device s h = cast_obj as_device (resolve_handle s h STUB_HANDLE_DEVICE)"

definition as_oc :: "stub_obj \<Rightarrow> sysman_oc_t option" where
  "as_oc obj = (case obj of ObjOc x \<Rightarrow> Some x | _ \<Rightarrow> None)"

definition resolve_oc :: "sysman_state_t \<Rightarrow> u64 \<Rightarrow> sysman_oc_t option outcome" where
  "resolve_oc s h = cast_obj as_oc (resolve_handle s h STUB_HANDLE_OC)"

definition as_diag :: "stub_obj \<Rightarrow> sysman_diag_t option" where
  "as_diag obj = (case obj of ObjDiag x \<Rightarrow> Some x | _ \<Rightarrow> None)"

definition resolve_diag :: "sysman_state_t \<Rightarrow> u64 \<Rightarrow> sysman_diag_t option outcome" where
  "resolve_diag s h = cast_obj as_diag (resolve_handle s h STUB_HANDLE_DIAG)"

definition as_engine :: "stub_obj \<Rightarrow> sysman_engine_t option" where
  "as_engine obj = (case obj of ObjEngine x \<Rightarrow> Some x | _ \<Rightarrow> None)"

definition resolve_engine :: "sysman_state_t \<Rightarrow> u64 \<Rightarrow> sysman_engine_t option outcome" where
  "resolve_engine s h = cast_obj as_engine (resolve_handle s h STUB_HANDLE_ENGINE)"

definition as_fabric_port :: "stub_obj \<Rightarrow> sysman_fabric_port_t option" where
  "as_fabric_port obj = (case obj of ObjFabricPort x \<Rightarrow> Some x | _ \<Rightarrow> None)"

definition resolve_fabric_port :: "sysman_state_t \<Rightarrow> u64 \<Rightarrow> sysman_fabric_port_t option outcome" where
  "resolve_fabric_port s h = cast_obj as_fabric_port (resolve_handle s h STUB_HANDLE_FABRIC_PORT)"

definition as_fan :: "stub_obj \<Rightarrow> sysman_fan_t option" where
  "as_fan obj = (case obj of ObjFan x \<Rightarrow> Some x | _ \<Rightarrow> None)"

definition resolve_fan :: "sysman_state_t \<Rightarrow> u64 \<Rightarrow> sysman_fan_t option outcome" where
  "resolve_fan s h = cast_obj as_fan (resolve_handle s h STUB_HANDLE_FAN)"

definition as_firmware :: "stub_obj \<Rightarrow> sysman_firmware_t option" where
  "as_firmware obj = (case obj of ObjFirmware x \<Rightarrow> Some x | _ \<Rightarrow> None)"

definition resolve_firmware :: "sysman_state_t \<Rightarrow> u64 \<Rightarrow> sysman_firmware_t option outcome" where
  "resolve_firmware s h = cast_obj as_firmware (resolve_handle s h STUB_HANDLE_FIRMWARE)"

definition as_freq :: "stub_obj \<Rightarrow> sysman_freq_t option" where
  "as_freq obj = (case obj of ObjFreq x \<Rightarrow> Some x | _ \<Rightarrow> None)"

definition resolve_freq :: "sysman_state_t \<Rightarrow> u64 \<Rightarrow> sysman_freq_t option outcome" where
  "resolve_freq s h = cast_obj as_freq (resolve_handle s h STUB_HANDLE_FREQ)"

definition as_led :: "stub_obj \<Rightarrow> sysman_led_t option" where
  "as_led obj = (case obj of ObjLed x \<Rightarrow> Some x | _ \<Rightarrow> None)"

definition resolve_led :: "sysman_state_t \<Rightarrow> u64 \<Rightarrow> sysman_led_t option outcome" where
  "resolve_led s h = cast_obj as_led (resolve_handle s h STUB_HANDLE_LED)"

definition as_mem :: "stub_obj \<Rightarrow> sysman_mem_t option" where
  "as_mem obj = (case obj of ObjMem x \<Rightarrow> Some x | _ \<Rightarrow> None)"

definition resolve_mem :: "sysman_state_t \<Rightarrow> u64 \<Rightarrow> sysman_mem_t option outcome" where
  "resolve_mem s h = cast_obj as_mem (resolve_handle s h STUB_HANDLE_MEM)"

definition as_perf :: "stub_obj \<Rightarrow> sysman_perf_t option" where
  "as_perf obj = (case obj of ObjPerf x \<Rightarrow> Some x | _ \<Rightarrow> None)"

definition resolve_perf :: "sysman_state_t \<Rightarrow> u64 \<Rightarrow> sysman_perf_t option outcome" where
  "resolve_perf s h = cast_obj as_perf (resolve_handle s h STUB_HANDLE_PERF)"

definition as_power :: "stub_obj \<Rightarrow> sysman_power_t option" where
  "as_power obj = (case obj of ObjPower x \<Rightarrow> Some x | _ \<Rightarrow> None)"

definition resolve_power :: "sysman_state_t \<Rightarrow> u64 \<Rightarrow> sysman_power_t option outcome" where
  "resolve_power s h = cast_obj as_power (resolve_handle s h STUB_HANDLE_PWR)"

definition as_psu :: "stub_obj \<Rightarrow> sysman_psu_t option" where
  "as_psu obj = (case obj of ObjPsu x \<Rightarrow> Some x | _ \<Rightarrow> None)"

definition resolve_psu :: "sysman_state_t \<Rightarrow> u64 \<Rightarrow> sysman_psu_t option outcome" where
  "resolve_psu s h = cast_obj as_psu (resolve_handle s h STUB_HANDLE_PSU)"

definition as_ras :: "stub_obj \<Rightarrow> sysman_ras_t option" where
  "as_ras obj = (case obj of ObjRas x \<Rightarrow> Some x | _ \<Rightarrow> None)"

definition resolve_ras :: "sysman_state_t \<Rightarrow> u64 \<Rightarrow> sysman_ras_t option outcome" where
  "resolve_ras s h = cast_obj as_ras (resolve_handle s h STUB_HANDLE_RAS)"

definition as_sched :: "stub_obj \<Rightarrow> sysman_sched_t option" where
  "as_sched obj = (case obj of ObjSched x \<Rightarrow> Some x | _ \<Rightarrow> None)"

definition resolve_sched :: "sysman_state_t \<Rightarrow> u64 \<Rightarrow> sysman_sched_t option outcome" where
  "resolve_sched s h = cast_obj as_sched (resolve_handle s h STUB_HANDLE_SCHED)"

definition as_standby :: "stub_obj \<Rightarrow> sysman_standby_t option" where
  "as_standby obj = (case obj of ObjStandby x \<Rightarrow> Some x | _ \<Rightarrow> None)"

definition resolve_standby :: "sysman_state_t \<Rightarrow> u64 \<Rightarrow> sysman_standby_t option outcome" where
  "resolve_standby s h = cast_obj as_standby (resolve_handle s h STUB_HANDLE_STANDBY)"

definition as_temp :: "stub_obj \<Rightarrow> sysman_temp_t option" where
  "as_temp obj = (case obj of ObjTemp x \<Rightarrow> Some x | _ \<Rightarrow> None)"

definition resolve_temp :: "sysman_state_t \<Rightarrow> u64 \<Rightarrow> sysman_temp_t option outcome" where
  "resolve_temp s h = cast_obj as_temp (resolve_handle s h STUB_HANDLE_TEMP)"

section \<open>The common parts of the entry points\<close>

text \<open>
  Every entry point on an object starts the same way: resolve the handle, test whether the
  feature is switched off, then whether a return value is injected for this function. Only after
  that does it look at its other arguments.
\<close>

definition prologue ::
  "sysman_state_t \<Rightarrow> u64 \<Rightarrow> 'c option outcome \<Rightarrow> u32 \<Rightarrow> ('c \<Rightarrow> ze_result_t) \<Rightarrow> 'o \<Rightarrow>
   ('c \<Rightarrow> (ze_result_t \<times> 'o) outcome) \<Rightarrow> (ze_result_t \<times> 'o) outcome" where
  "prologue s h resolved flag injected out body =
     obind resolved (\<lambda>r. case r of
       None \<Rightarrow> Done (ZE_RESULT_ERROR_INVALID_NULL_HANDLE, out)
     | Some obj \<Rightarrow> obind (is_unsupported s h flag) (\<lambda>unsupported.
         if unsupported then Done (ZE_RESULT_ERROR_UNSUPPORTED_FEATURE, out)
         else if injected obj \<noteq> 0 then Done (injected obj, out)
         else body obj))"

text \<open>
  Copying out. An output pointer is an option, \<open>None\<close> the null pointer. Most extensible structures
  keep the caller's \<^verbatim>\<open>stype\<close> and \<^verbatim>\<open>pNext\<close> (\<open>keep_header\<close>); plain ones are overwritten. The two
  copy forms differ in which missing pointer is reported first.
\<close>

definition keep_header :: "'a zes_hdr_scheme \<Rightarrow> 'a zes_hdr_scheme \<Rightarrow> 'a zes_hdr_scheme" where
  "keep_header old new = new\<lparr>stype := stype old, pNext := pNext old\<rparr>"

definition overwrite :: "'v \<Rightarrow> 'v \<Rightarrow> 'v" where
  "overwrite old new = new"

definition put_value :: "'v option \<Rightarrow> 'v \<Rightarrow> (ze_result_t \<times> 'v option) outcome" where
  "put_value p v = (case p of None \<Rightarrow> Done (ZE_RESULT_ERROR_INVALID_NULL_POINTER, None)
     | Some _ \<Rightarrow> Done (ZE_RESULT_SUCCESS, Some v))"

definition copy_src_first ::
  "('v \<Rightarrow> 'v \<Rightarrow> 'v) \<Rightarrow> 'v cptr \<Rightarrow> 'v option \<Rightarrow> (ze_result_t \<times> 'v option) outcome" where
  "copy_src_first merge src p = (case src of
       Null \<Rightarrow> Done (ZE_RESULT_ERROR_UNSUPPORTED_FEATURE, p)
     | Ptr _ v \<Rightarrow> (case p of None \<Rightarrow> Done (ZE_RESULT_ERROR_INVALID_NULL_POINTER, None)
         | Some old \<Rightarrow> Done (ZE_RESULT_SUCCESS, Some (merge old v))))"

definition copy_arg_first ::
  "('v \<Rightarrow> 'v \<Rightarrow> 'v) \<Rightarrow> 'v cptr \<Rightarrow> 'v option \<Rightarrow> (ze_result_t \<times> 'v option) outcome" where
  "copy_arg_first merge src p = (case p of
       None \<Rightarrow> Done (ZE_RESULT_ERROR_INVALID_NULL_POINTER, None)
     | Some old \<Rightarrow> (case src of Null \<Rightarrow> Done (ZE_RESULT_ERROR_UNSUPPORTED_FEATURE, p)
         | Ptr _ v \<Rightarrow> Done (ZE_RESULT_SUCCESS, Some (merge old v))))"

text \<open>
  Extension structures. When the caller's \<^verbatim>\<open>pNext\<close> is not null, the structure it points to (the
  argument \<open>ext\<close>; \<open>None\<close> when nothing readable is there) is filled if its \<^verbatim>\<open>stype\<close> is the one the
  entry point knows, keeping its own \<^verbatim>\<open>pNext\<close>.
\<close>

definition follow_pNext ::
  "u64 \<Rightarrow> u32 \<Rightarrow> 'e zes_hdr_scheme \<Rightarrow> 'e zes_hdr_scheme option \<Rightarrow> 'e zes_hdr_scheme option outcome" where
  "follow_pNext next known new ext =
     (if next = 0 then Done ext
      else (case ext of None \<Rightarrow> Fault
        | Some e \<Rightarrow> Done (Some (if stype e = known then new\<lparr>stype := known, pNext := pNext e\<rparr> else e))))"

definition copy_with_ext ::
  "'a zes_hdr_scheme \<Rightarrow> u32 \<Rightarrow> 'e zes_hdr_scheme \<Rightarrow> 'a zes_hdr_scheme \<Rightarrow> 'e zes_hdr_scheme option \<Rightarrow>
   (ze_result_t \<times> ('a zes_hdr_scheme option \<times> 'e zes_hdr_scheme option)) outcome" where
  "copy_with_ext base known new old ext = obind (follow_pNext (pNext old) known new ext) (\<lambda>ext'.
     Done (ZE_RESULT_SUCCESS, (Some (keep_header old base), ext')))"

text \<open>
  The two-call idiom: without a buffer the count is returned; with one, as many elements as the
  caller's count and the total allow are written and the count is set to that number.
\<close>

definition two_call ::
  "u32 \<Rightarrow> (nat \<Rightarrow> 'a outcome) \<Rightarrow> u32 option \<Rightarrow> 'a list option \<Rightarrow>
   (ze_result_t \<times> (u32 option \<times> 'a list option)) outcome" where
  "two_call n_total src pCount buf = (case pCount of
       None \<Rightarrow> Done (ZE_RESULT_ERROR_INVALID_NULL_POINTER, (None, buf))
     | Some c \<Rightarrow> (case buf of
         None \<Rightarrow> Done (ZE_RESULT_SUCCESS, (Some n_total, None))
       | Some b \<Rightarrow> (let n = (if c < n_total then c else n_total) in
           obind (fill src 0 (unat n) b) (\<lambda>b'. Done (ZE_RESULT_SUCCESS, (Some n, Some b'))))))"

definition component_handles :: "stub_handle_type_t \<Rightarrow> u64 \<Rightarrow> nat \<Rightarrow> u64 outcome" where
  "component_handles ht hDevice i =
     Done (MAKE_COMPONENT_HANDLE ht (bits_drv (decode_handle hDevice)) (bits_dev (decode_handle hDevice))
             (word_of_nat i))"

section \<open>Well-formed states\<close>

text \<open>
  Every count agrees with its array, at every level of the tree. This is what the YAML loader
  establishes and every operation relies on.
\<close>

definition wf_engine :: "sysman_engine_t \<Rightarrow> bool" where
  "wf_engine e = wf_arr (engine_activity_ext_count e) (engine_activity_ext e)"

definition wf_freq :: "sysman_freq_t \<Rightarrow> bool" where
  "wf_freq f = wf_arr (freq_available_clocks_count f) (freq_available_clocks f)"

definition wf_oc :: "sysman_oc_t \<Rightarrow> bool" where
  "wf_oc oc = wf_arr (oc_control_infos_count oc) (oc_control_infos oc)"

definition wf_overclock :: "sysman_overclock_info_t \<Rightarrow> bool" where
  "wf_overclock o' = (wf_arr (overclock_info_controls_count o') (overclock_info_controls o')
     \<and> wf_arr (overclock_info_domains_count o') (overclock_info_domains o')
     \<and> list_all wf_oc (elems (overclock_info_domains o')))"

definition wf_power :: "sysman_power_t \<Rightarrow> bool" where
  "wf_power p = wf_arr (power_limits_count p) (power_limits p)"

definition wf_ras :: "sysman_ras_t \<Rightarrow> bool" where
  "wf_ras r = wf_arr (ras_state_exp_count r) (ras_state_exp r)"

definition wf_diag :: "sysman_diag_t \<Rightarrow> bool" where
  "wf_diag d = wf_arr (diag_tests_count d) (diag_tests d)"

definition wf_firmware :: "sysman_firmware_t \<Rightarrow> bool" where
  "wf_firmware fw = (length (firmware_log fw) = SYSMAN_FIRMWARE_LOG_SIZE)"

definition wf_device :: "sysman_device_state_t \<Rightarrow> bool" where
  "wf_device d = (
     wf_arr (dev_unsupported_features_count d) (dev_unsupported_features d) \<and>
     wf_arr (pci_info_bars_count (dev_pci d)) (pci_info_bars (dev_pci d)) \<and>
     (case dev_overclock d of Null \<Rightarrow> True | Ptr _ o' \<Rightarrow> wf_overclock o') \<and>
     wf_arr (dev_processes_count d) (dev_processes d) \<and>
     wf_arr (dev_engine_groups_count d) (dev_engine_groups d) \<and> list_all wf_engine (elems (dev_engine_groups d)) \<and>
     wf_arr (dev_fabric_ports_count d) (dev_fabric_ports d) \<and>
     wf_arr (dev_fans_count d) (dev_fans d) \<and>
     wf_arr (dev_firmwares_count d) (dev_firmwares d) \<and> list_all wf_firmware (elems (dev_firmwares d)) \<and>
     wf_arr (dev_frequency_domains_count d) (dev_frequency_domains d) \<and> list_all wf_freq (elems (dev_frequency_domains d)) \<and>
     wf_arr (dev_leds_count d) (dev_leds d) \<and>
     wf_arr (dev_memory_modules_count d) (dev_memory_modules d) \<and>
     wf_arr (dev_performance_domains_count d) (dev_performance_domains d) \<and>
     wf_arr (dev_power_domains_count d) (dev_power_domains d) \<and> list_all wf_power (elems (dev_power_domains d)) \<and>
     wf_arr (dev_psus_count d) (dev_psus d) \<and>
     wf_arr (dev_ras_error_sets_count d) (dev_ras_error_sets d) \<and> list_all wf_ras (elems (dev_ras_error_sets d)) \<and>
     wf_arr (dev_schedulers_count d) (dev_schedulers d) \<and>
     wf_arr (dev_standby_domains_count d) (dev_standby_domains d) \<and>
     wf_arr (dev_temperature_sensors_count d) (dev_temperature_sensors d) \<and>
     wf_arr (dev_diagnostics_count d) (dev_diagnostics d) \<and> list_all wf_diag (elems (dev_diagnostics d)))"

definition wf_driver :: "sysman_drivers_state_t \<Rightarrow> bool" where
  "wf_driver drv = (wf_arr (drv_unsupported_features_count drv) (drv_unsupported_features drv)
     \<and> wf_arr (drv_extension_properties_count drv) (drv_extension_properties drv)
     \<and> wf_arr (drv_devices_count drv) (drv_devices drv)
     \<and> list_all wf_device (elems (drv_devices drv)))"

definition wf_state :: "sysman_state_t \<Rightarrow> bool" where
  "wf_state s = (wf_arr (sys_drivers_count (st_system s)) (sys_drivers (st_system s))
     \<and> list_all wf_driver (elems (sys_drivers (st_system s))))"

section \<open>Handles: round trip\<close>

lemma no_bit_u16: "16 \<le> n \<Longrightarrow> \<not> bit (w :: u16) n"
  by (auto dest: bit_imp_le_length)

lemma decode_handle_raw [simp]: "decode_handle (handle_raw b) = b"
proof -
  let ?h = "handle_raw b"
  have "ucast ?h = bits_comp b" "ucast (drop_bit 16 ?h) = bits_dev b"
    "ucast (drop_bit 32 ?h) = bits_drv b" "ucast (drop_bit 48 ?h) = bits_type b"
    unfolding handle_raw_def
    by (auto intro!: bit_word_eqI simp: bit_simps no_bit_u16)
  then show ?thesis
    by (simp add: decode_handle_def)
qed

lemma handle_raw_decode [simp]: "handle_raw (decode_handle h) = h"
proof (rule bit_word_eqI)
  fix n
  assume "n < LENGTH(64)"
  then consider "n < 16" | "16 \<le> n" "n - 16 < 16" | "32 \<le> n" "n - 32 < 16" | "48 \<le> n" "n - 48 < 16" "n < 64"
    by fastforce
  then show "bit (handle_raw (decode_handle h)) n = bit h n"
    by cases (auto simp: handle_raw_def decode_handle_def bit_simps)
qed

lemma handle_type_code_inj [simp]: "handle_type_code a = handle_type_code b \<longleftrightarrow> a = b"
  by (cases a; cases b) simp_all

end
