(* ===== verification/Stub_Handles.thy ===== *)
theory Stub_Handles
  imports Stub_Core
begin

text \<open>
  What a handle means. \<open>driver_at\<close> and \<open>device_at\<close> are the specification of the two outer levels of
  the object tree, on lists and without pointers; the locale \<open>stub_component\<close> is the contract of a
  component type (its count, its array, its handle type and its resolver) and is interpreted for
  all sixteen component types of the stub. Its lemmas say that resolution is total on well-formed
  states, what it returns, and that a handle made for a component resolves to that component.
\<close>

section \<open>The object tree without pointers\<close>

definition nth_opt :: "'a list \<Rightarrow> nat \<Rightarrow> 'a option" where
  "nth_opt xs i = (if i < length xs then Some (xs ! i) else None)"

definition driver_at :: "sysman_state_t \<Rightarrow> u16 \<Rightarrow> sysman_drivers_state_t option" where
  "driver_at s d = nth_opt (elems (sys_drivers (st_system s))) (unat d)"

definition device_at :: "sysman_state_t \<Rightarrow> u16 \<Rightarrow> u16 \<Rightarrow> sysman_device_state_t option" where
  "device_at s d i = Option.bind (driver_at s d) (\<lambda>drv. nth_opt (elems (drv_devices drv)) (unat i))"

text \<open>The features switched off for the object a handle designates.\<close>

definition unsupported_set :: "sysman_state_t \<Rightarrow> u64 \<Rightarrow> u32 set" where
  "unsupported_set s h = (let b = decode_handle h in
     if bits_type b = handle_type_code STUB_HANDLE_DRIVER
     then (case driver_at s (bits_drv b) of None \<Rightarrow> {} | Some drv \<Rightarrow> set (elems (drv_unsupported_features drv)))
     else (case device_at s (bits_drv b) (bits_dev b) of None \<Rightarrow> {}
       | Some dev \<Rightarrow> set (elems (dev_unsupported_features dev))))"

definition oc_count :: "sysman_device_state_t \<Rightarrow> u32" where
  "oc_count d = (case dev_overclock d of Null \<Rightarrow> 0 | Ptr _ oc \<Rightarrow> overclock_info_domains_count oc)"

definition oc_domains :: "sysman_device_state_t \<Rightarrow> sysman_oc_t list cptr" where
  "oc_domains d = (case dev_overclock d of Null \<Rightarrow> Null | Ptr _ oc \<Rightarrow> overclock_info_domains oc)"

lemma nth_opt_Some: "nth_opt xs i = Some x \<longleftrightarrow> i < length xs \<and> xs ! i = x"
  by (auto simp: nth_opt_def)

lemma nth_opt_None: "nth_opt xs i = None \<longleftrightarrow> length xs \<le> i"
  by (auto simp: nth_opt_def)

section \<open>Reading a well-formed tree\<close>

lemma wf_driver_at: "wf_state s \<Longrightarrow> driver_at s d = Some drv \<Longrightarrow> wf_driver drv"
  by (auto simp: wf_state_def driver_at_def list_all_length nth_opt_Some)

lemma wf_device_at: "wf_state s \<Longrightarrow> device_at s d i = Some dev \<Longrightarrow> wf_device dev"
  by (auto simp: device_at_def list_all_length wf_driver_def nth_opt_Some Option.bind_eq_Some_conv dest!: wf_driver_at)

lemma read_driver:
  "wf_state s \<Longrightarrow>
   (if unat (sys_drivers_count (st_system s)) \<le> unat d then Done None
    else obind (arr_get (sys_drivers (st_system s)) (unat d)) k) =
   (case driver_at s d of None \<Rightarrow> Done None | Some drv \<Rightarrow> k drv)"
  by (auto simp: wf_state_def driver_at_def nth_opt_def arr_get_wf wf_arr_length)

lemma read_device:
  "wf_driver drv \<Longrightarrow>
   (if unat (drv_devices_count drv) \<le> unat i then Done None
    else obind (arr_get (drv_devices drv) (unat i)) k) =
   (case nth_opt (elems (drv_devices drv)) (unat i) of None \<Rightarrow> Done None | Some dev \<Rightarrow> k dev)"
  by (auto simp: wf_driver_def nth_opt_def arr_get_wf wf_arr_length)

lemma index_obj_wf:
  "wf_arr n p \<Longrightarrow> index_obj n p i mk = Done (map_option mk (nth_opt (elems p) (unat i)))"
  by (auto simp: index_obj_def nth_opt_def arr_get_wf wf_arr_length)

lemma resolve_handle_wf:
  assumes "wf_state s"
  shows "resolve_handle s h ht = (let b = decode_handle h in
    if bits_type b \<noteq> handle_type_code ht then Done None
    else if ht = STUB_HANDLE_DRIVER then Done (map_option ObjDriver (driver_at s (bits_drv b)))
    else if ht = STUB_HANDLE_DEVICE then Done (map_option ObjDevice (device_at s (bits_drv b) (bits_dev b)))
    else (case device_at s (bits_drv b) (bits_dev b) of None \<Rightarrow> Done None
      | Some dev \<Rightarrow> resolve_component dev ht (bits_comp b)))"
proof (cases "driver_at s (bits_drv (decode_handle h))")
  case None
  with assms show ?thesis
    by (simp add: resolve_handle_def Let_def read_driver device_at_def)
next
  case (Some drv)
  note wf_drv = wf_driver_at [OF assms Some]
  with assms Some show ?thesis
    by (cases "nth_opt (elems (drv_devices drv)) (unat (bits_dev (decode_handle h)))")
      (simp_all add: resolve_handle_def Let_def read_driver device_at_def read_device [OF wf_drv])
qed

lemma is_unsupported_wf:
  assumes "wf_state s"
  shows "is_unsupported s h flag = Done (flag \<in> unsupported_set s h)"
proof -
  have listed: "(\<exists>y. first_index (\<lambda>f. f = flag) xs = Some y) = (flag \<in> set xs)" for xs
    using first_index_None [of "\<lambda>f. f = flag" xs] by auto
  let ?b = "decode_handle h"
  show ?thesis
  proof (cases "driver_at s (bits_drv ?b)")
    case None
    then have "unat (sys_drivers_count (st_system s)) \<le> unat (bits_drv ?b)"
      using assms by (auto simp: driver_at_def nth_opt_None wf_state_def wf_arr_length)
    with None show ?thesis
      by (simp add: is_unsupported_def unsupported_set_def Let_def device_at_def)
  next
    case (Some drv)
    then have drv: "wf_driver drv" and get: "arr_get (sys_drivers (st_system s)) (unat (bits_drv ?b)) = Done drv"
      and inr: "\<not> unat (sys_drivers_count (st_system s)) \<le> unat (bits_drv ?b)"
      using assms wf_driver_at [OF assms Some]
      by (auto simp: driver_at_def wf_state_def arr_get_wf wf_arr_length nth_opt_Some)
    show ?thesis
    proof (cases "nth_opt (elems (drv_devices drv)) (unat (bits_dev ?b))")
      case None
      then have "unat (drv_devices_count drv) \<le> unat (bits_dev ?b)"
        using drv by (auto simp: nth_opt_None wf_driver_def wf_arr_length)
      with None drv get inr Some show ?thesis
        by (simp add: is_unsupported_def unsupported_set_def Let_def device_at_def listed wf_driver_def find_loop_wf)
    next
      case dev: (Some dev)
      have "device_at s (bits_drv ?b) (bits_dev ?b) = Some dev"
        using Some dev by (simp add: device_at_def)
      then have "wf_device dev"
        by (rule wf_device_at [OF assms])
      moreover have "\<not> unat (drv_devices_count drv) \<le> unat (bits_dev ?b)"
        "arr_get (drv_devices drv) (unat (bits_dev ?b)) = Done dev"
        using dev drv by (auto simp: nth_opt_Some wf_driver_def wf_arr_length arr_get_wf)
      ultimately show ?thesis
        using drv get inr Some dev
        by (simp add: is_unsupported_def unsupported_set_def Let_def device_at_def listed
            wf_driver_def wf_device_def find_loop_wf)
    qed
  qed
qed

lemma resolve_driver_wf:
  "wf_state s \<Longrightarrow> resolve_driver s h = Done (let b = decode_handle h in
     if bits_type b = handle_type_code STUB_HANDLE_DRIVER then driver_at s (bits_drv b) else None)"
  by (auto simp: resolve_driver_def cast_obj_def resolve_handle_wf Let_def as_driver_def split: option.splits)

lemma resolve_device_wf:
  "wf_state s \<Longrightarrow> resolve_device s h = Done (let b = decode_handle h in
     if bits_type b = handle_type_code STUB_HANDLE_DEVICE then device_at s (bits_drv b) (bits_dev b) else None)"
  by (auto simp: resolve_device_def cast_obj_def resolve_handle_wf Let_def as_device_def split: option.splits)

section \<open>Component types\<close>

locale stub_component =
  fixes ht :: stub_handle_type_t
    and cnt :: "sysman_device_state_t \<Rightarrow> u32"
    and arr :: "sysman_device_state_t \<Rightarrow> 'c list cptr"
    and mk :: "'c \<Rightarrow> stub_obj"
    and un :: "stub_obj \<Rightarrow> 'c option"
    and resolve :: "sysman_state_t \<Rightarrow> u64 \<Rightarrow> 'c option outcome"
  assumes component_type: "ht \<noteq> STUB_HANDLE_DRIVER" "ht \<noteq> STUB_HANDLE_DEVICE"
    and resolves_by_type: "resolve s h = cast_obj un (resolve_handle s h ht)"
    and un_mk: "un (mk c) = Some c"
    and counted: "wf_device d \<Longrightarrow> wf_arr (cnt d) (arr d)"
    and indexed: "wf_device d \<Longrightarrow> resolve_component d ht i = index_obj (cnt d) (arr d) i mk"
begin

lemma resolve_wf:
  assumes "wf_state s"
  shows "resolve s h = Done (let b = decode_handle h in
    if bits_type b = handle_type_code ht
    then Option.bind (device_at s (bits_drv b) (bits_dev b)) (\<lambda>d. nth_opt (elems (arr d)) (unat (bits_comp b)))
    else None)"
proof (cases "device_at s (bits_drv (decode_handle h)) (bits_dev (decode_handle h))")
  case None
  with assms show ?thesis
    by (simp add: resolves_by_type resolve_handle_wf Let_def component_type cast_obj_def)
next
  case (Some d)
  then have "wf_device d"
    by (rule wf_device_at [OF assms])
  with assms Some show ?thesis
    by (auto simp: resolves_by_type resolve_handle_wf Let_def component_type cast_obj_def indexed
        index_obj_wf counted un_mk split: option.splits)
qed

lemma resolved_in:
  assumes "wf_state s" "resolve s h = Done (Some c)"
  obtains d where "wf_device d" "c \<in> set (elems (arr d))"
  using assms wf_device_at
  by (fastforce simp: resolve_wf Let_def Option.bind_eq_Some_conv nth_opt_Some split: if_splits)

lemma cnt_length: "wf_device d \<Longrightarrow> unat (cnt d) = length (elems (arr d))"
  by (rule wf_arr_length [OF counted])

lemma resolve_made:
  assumes "wf_state s" "device_at s d i = Some dev" "c < length (elems (arr dev))" "c < 2 ^ 16"
  shows "resolve s (MAKE_COMPONENT_HANDLE ht d i (word_of_nat c)) = Done (Some (elems (arr dev) ! c))"
proof -
  have "unat (ucast (word_of_nat c :: u32) :: u16) = c"
    using assms(4) by (simp add: unsigned_ucast_eq unsigned_of_nat take_bit_nat_eq_self)
  with assms(1,2,3) show ?thesis
    by (simp add: resolve_wf MAKE_COMPONENT_HANDLE_def nth_opt_def)
qed

end

lemma resolve_component_oc:
  "wf_device d \<Longrightarrow> resolve_component d STUB_HANDLE_OC i = index_obj (oc_count d) (oc_domains d) i ObjOc"
  by (cases "dev_overclock d")
    (auto simp: resolve_component_def oc_count_def oc_domains_def index_obj_def wf_device_def wf_overclock_def wf_arr_def)

text \<open>All sixteen component types keep the contract.\<close>

interpretation oc: stub_component STUB_HANDLE_OC oc_count oc_domains ObjOc as_oc resolve_oc
  by unfold_locales
    (auto simp: resolve_oc_def as_oc_def wf_device_def wf_overclock_def oc_count_def oc_domains_def resolve_component_oc
      split: cptr.splits intro: resolve_component_oc)

interpretation diag: stub_component STUB_HANDLE_DIAG dev_diagnostics_count dev_diagnostics ObjDiag as_diag resolve_diag
  by unfold_locales
    (auto simp: resolve_diag_def as_diag_def wf_device_def resolve_component_def)

interpretation engine: stub_component STUB_HANDLE_ENGINE dev_engine_groups_count dev_engine_groups ObjEngine as_engine resolve_engine
  by unfold_locales
    (auto simp: resolve_engine_def as_engine_def wf_device_def resolve_component_def)

interpretation fabric_port: stub_component STUB_HANDLE_FABRIC_PORT dev_fabric_ports_count dev_fabric_ports ObjFabricPort as_fabric_port resolve_fabric_port
  by unfold_locales
    (auto simp: resolve_fabric_port_def as_fabric_port_def wf_device_def resolve_component_def)

interpretation fan: stub_component STUB_HANDLE_FAN dev_fans_count dev_fans ObjFan as_fan resolve_fan
  by unfold_locales
    (auto simp: resolve_fan_def as_fan_def wf_device_def resolve_component_def)

interpretation firmware: stub_component STUB_HANDLE_FIRMWARE dev_firmwares_count dev_firmwares ObjFirmware as_firmware resolve_firmware
  by unfold_locales
    (auto simp: resolve_firmware_def as_firmware_def wf_device_def resolve_component_def)

interpretation freq: stub_component STUB_HANDLE_FREQ dev_frequency_domains_count dev_frequency_domains ObjFreq as_freq resolve_freq
  by unfold_locales
    (auto simp: resolve_freq_def as_freq_def wf_device_def resolve_component_def)

interpretation led: stub_component STUB_HANDLE_LED dev_leds_count dev_leds ObjLed as_led resolve_led
  by unfold_locales
    (auto simp: resolve_led_def as_led_def wf_device_def resolve_component_def)

interpretation mem: stub_component STUB_HANDLE_MEM dev_memory_modules_count dev_memory_modules ObjMem as_mem resolve_mem
  by unfold_locales
    (auto simp: resolve_mem_def as_mem_def wf_device_def resolve_component_def)

interpretation perf: stub_component STUB_HANDLE_PERF dev_performance_domains_count dev_performance_domains ObjPerf as_perf resolve_perf
  by unfold_locales
    (auto simp: resolve_perf_def as_perf_def wf_device_def resolve_component_def)

interpretation power: stub_component STUB_HANDLE_PWR dev_power_domains_count dev_power_domains ObjPower as_power resolve_power
  by unfold_locales
    (auto simp: resolve_power_def as_power_def wf_device_def resolve_component_def)

interpretation psu: stub_component STUB_HANDLE_PSU dev_psus_count dev_psus ObjPsu as_psu resolve_psu
  by unfold_locales
    (auto simp: resolve_psu_def as_psu_def wf_device_def resolve_component_def)

interpretation ras: stub_component STUB_HANDLE_RAS dev_ras_error_sets_count dev_ras_error_sets ObjRas as_ras resolve_ras
  by unfold_locales
    (auto simp: resolve_ras_def as_ras_def wf_device_def resolve_component_def)

interpretation sched: stub_component STUB_HANDLE_SCHED dev_schedulers_count dev_schedulers ObjSched as_sched resolve_sched
  by unfold_locales
    (auto simp: resolve_sched_def as_sched_def wf_device_def resolve_component_def)

interpretation standby: stub_component STUB_HANDLE_STANDBY dev_standby_domains_count dev_standby_domains ObjStandby as_standby resolve_standby
  by unfold_locales
    (auto simp: resolve_standby_def as_standby_def wf_device_def resolve_component_def)

interpretation temp: stub_component STUB_HANDLE_TEMP dev_temperature_sensors_count dev_temperature_sensors ObjTemp as_temp resolve_temp
  by unfold_locales
    (auto simp: resolve_temp_def as_temp_def wf_device_def resolve_component_def)

lemmas resolve_wfs =
  resolve_driver_wf resolve_device_wf oc.resolve_wf diag.resolve_wf engine.resolve_wf fabric_port.resolve_wf fan.resolve_wf firmware.resolve_wf freq.resolve_wf led.resolve_wf mem.resolve_wf perf.resolve_wf power.resolve_wf psu.resolve_wf ras.resolve_wf sched.resolve_wf standby.resolve_wf temp.resolve_wf

end
