(* ===== verification/Stub_Device.thy ===== *)
theory Stub_Device
  imports Stub_Core
begin

text \<open>
  The entry points of \<^verbatim>\<open>level-zero-stub/zes_stub.c\<close> on drivers and devices: initialisation,
  enumeration of drivers and devices, device and PCI queries, overclocking, diagnostics and ECC.
\<close>

section \<open>Initialisation\<close>

definition zesInit :: "stub \<Rightarrow> u32 \<Rightarrow> unit api_result" where [stub_defs]:
  "zesInit w flags = locked w (\<lambda>s.
     if rv_zesInit (st_return_values s) \<noteq> 0 then Done (rv_zesInit (st_return_values s), ())
     else Done (ZE_RESULT_SUCCESS, ()))"

section \<open>Driver\<close>

definition zesDriverGet :: "stub \<Rightarrow> u32 option \<Rightarrow> u64 list option \<Rightarrow> (u32 option \<times> u64 list option) api_result" where [stub_defs]:
  "zesDriverGet w pCount phDrivers = locked w (\<lambda>s.
     if rv_zesDriverGet (st_return_values s) \<noteq> 0
     then Done (rv_zesDriverGet (st_return_values s), (pCount, phDrivers))
     else two_call (sys_drivers_count (st_system s))
            (\<lambda>i. Done (MAKE_DRIVER_HANDLE (word_of_nat i))) pCount phDrivers)"

definition zesDriverGetExtensionProperties ::
  "stub \<Rightarrow> u64 \<Rightarrow> u32 option \<Rightarrow> zes_driver_extension_properties_t list option \<Rightarrow>
   (u32 option \<times> zes_driver_extension_properties_t list option) api_result" where [stub_defs]:
  "zesDriverGetExtensionProperties w hDriver pCount pExtensionProperties = locked w (\<lambda>s.
     prologue s hDriver (resolve_driver s hDriver) UNSUPPORTED_FEATURE_GET_EXT_PROPERTIES
       (\<lambda>drv. rv_zesDriverGetExtensionProperties (drv_return_values drv)) (pCount, pExtensionProperties)
       (\<lambda>drv. two_call (drv_extension_properties_count drv) (arr_get (drv_extension_properties drv))
          pCount pExtensionProperties))"

text \<open>
  \<^verbatim>\<open>driver_index\<close> is the distance of the resolved driver from the start of the array, that is, the
  index \<^verbatim>\<open>resolve_handle\<close> took from the handle.
\<close>

definition zesDeviceGet ::
  "stub \<Rightarrow> u64 \<Rightarrow> u32 option \<Rightarrow> u64 list option \<Rightarrow> (u32 option \<times> u64 list option) api_result" where [stub_defs]:
  "zesDeviceGet w hDriver pCount phDevices = locked w (\<lambda>s.
     prologue s hDriver (resolve_driver s hDriver) UNSUPPORTED_FEATURE_DRIVER_DEVICE_GET
       (\<lambda>drv. rv_zesDeviceGet (drv_return_values drv)) (pCount, phDevices)
       (\<lambda>drv. let driver_index = ucast (bits_drv (decode_handle hDriver)) :: u32 in
          two_call (drv_devices_count drv)
            (\<lambda>i. Done (MAKE_DEVICE_HANDLE driver_index (word_of_nat i))) pCount phDevices))"

section \<open>Device properties, state and reset\<close>

definition zesDeviceGetProperties ::
  "stub \<Rightarrow> u64 \<Rightarrow> zes_device_properties_t option \<Rightarrow> zes_device_ext_properties_t option \<Rightarrow>
   (zes_device_properties_t option \<times> zes_device_ext_properties_t option) api_result" where [stub_defs]:
  "zesDeviceGetProperties w hDevice pProperties ext = locked w (\<lambda>s.
     prologue s hDevice (resolve_device s hDevice) UNSUPPORTED_FEATURE_GET_PROPERTIES
       (\<lambda>dev. rv_zesDeviceGetProperties (dev_return_values dev)) (pProperties, ext)
       (\<lambda>dev. case dev_properties dev of
          Null \<Rightarrow> Done (ZE_RESULT_ERROR_UNSUPPORTED_FEATURE, (pProperties, ext))
        | Ptr _ props \<Rightarrow> (case pProperties of
            None \<Rightarrow> Done (ZE_RESULT_ERROR_INVALID_NULL_POINTER, (None, ext))
          | Some old \<Rightarrow> copy_with_ext (device_properties_info_base props)
              ZES_STRUCTURE_TYPE_DEVICE_EXT_PROPERTIES
              (device_properties_info_extended_properties props) old ext)))"

definition zesDeviceGetState ::
  "stub \<Rightarrow> u64 \<Rightarrow> zes_device_state_t option \<Rightarrow> (zes_device_state_t option) api_result" where [stub_defs]:
  "zesDeviceGetState w hDevice pState = locked w (\<lambda>s.
     prologue s hDevice (resolve_device s hDevice) UNSUPPORTED_FEATURE_GET_STATE
       (\<lambda>dev. rv_zesDeviceGetState (dev_return_values dev)) pState
       (\<lambda>dev. copy_arg_first keep_header (dev_state dev) pState))"

definition zesDeviceReset ::
  "stub \<Rightarrow> u64 \<Rightarrow> ze_bool_t \<Rightarrow> (unit) api_result" where [stub_defs]:
  "zesDeviceReset w hDevice force = locked w (\<lambda>s.
     prologue s hDevice (resolve_device s hDevice) UNSUPPORTED_FEATURE_DEVICE_RESET
       (\<lambda>dev. rv_zesDeviceReset (dev_return_values dev)) ()
       (\<lambda>_. Done (ZE_RESULT_SUCCESS, ())))"

definition zesDeviceResetExt ::
  "stub \<Rightarrow> u64 \<Rightarrow> 'p option \<Rightarrow> (unit) api_result" where [stub_defs]:
  "zesDeviceResetExt w hDevice pProperties = locked w (\<lambda>s.
     prologue s hDevice (resolve_device s hDevice) UNSUPPORTED_FEATURE_DEVICE_RESET_EXT
       (\<lambda>dev. rv_zesDeviceResetExt (dev_return_values dev)) ()
       (\<lambda>_. Done (ZE_RESULT_SUCCESS, ())))"

section \<open>Processes\<close>

definition zesDeviceProcessesGetState ::
  "stub \<Rightarrow> u64 \<Rightarrow> u32 option \<Rightarrow> zes_process_state_t list option \<Rightarrow>
   (u32 option \<times> zes_process_state_t list option) api_result" where [stub_defs]:
  "zesDeviceProcessesGetState w hDevice pCount pProcesses = locked w (\<lambda>s.
     prologue s hDevice (resolve_device s hDevice) UNSUPPORTED_FEATURE_PROCESSES_GET_STATE
       (\<lambda>dev. rv_zesDeviceProcessesGetState (dev_return_values dev)) (pCount, pProcesses)
       (\<lambda>dev. let n = dev_processes_count dev in case pCount of
          None \<Rightarrow> Done (ZE_RESULT_ERROR_INVALID_NULL_POINTER, (None, pProcesses))
        | Some c \<Rightarrow> (case pProcesses of
            None \<Rightarrow> Done (ZE_RESULT_SUCCESS, (Some n, None))
          | Some b \<Rightarrow>
              if c < n then obind (fill (arr_get (dev_processes dev)) 0 (unat c) b)
                (\<lambda>b'. Done (ZE_RESULT_ERROR_INVALID_SIZE, (Some c, Some b')))
              else obind (fill (arr_get (dev_processes dev)) 0 (unat n) b)
                (\<lambda>b'. Done (ZE_RESULT_SUCCESS, (Some n, Some b'))))))"

section \<open>PCI\<close>

definition zesDevicePciGetProperties ::
  "stub \<Rightarrow> u64 \<Rightarrow> zes_pci_properties_t option \<Rightarrow> zes_pci_link_speed_downgrade_ext_properties_t option \<Rightarrow>
   (zes_pci_properties_t option \<times> zes_pci_link_speed_downgrade_ext_properties_t option) api_result" where [stub_defs]:
  "zesDevicePciGetProperties w hDevice pProperties ext = locked w (\<lambda>s.
     prologue s hDevice (resolve_device s hDevice) UNSUPPORTED_FEATURE_PCI_GET_PROPERTIES
       (\<lambda>dev. rv_zesDevicePciGetProperties (dev_return_values dev)) (pProperties, ext)
       (\<lambda>dev. case pProperties of
          None \<Rightarrow> Done (ZE_RESULT_ERROR_INVALID_NULL_POINTER, (None, ext))
        | Some old \<Rightarrow> (case pci_info_properties (dev_pci dev) of
            Null \<Rightarrow> Done (ZE_RESULT_ERROR_UNSUPPORTED_FEATURE, (pProperties, ext))
          | Ptr _ props \<Rightarrow> copy_with_ext (pci_properties_info_base props)
              ZES_STRUCTURE_TYPE_PCI_LINK_SPEED_DOWNGRADE_EXT_PROPERTIES
              (pci_properties_info_link_speed_downgrade props) old ext)))"

definition zesDevicePciGetState ::
  "stub \<Rightarrow> u64 \<Rightarrow> zes_pci_state_t option \<Rightarrow> zes_pci_link_speed_downgrade_ext_state_t option \<Rightarrow>
   (zes_pci_state_t option \<times> zes_pci_link_speed_downgrade_ext_state_t option) api_result" where [stub_defs]:
  "zesDevicePciGetState w hDevice pState ext = locked w (\<lambda>s.
     prologue s hDevice (resolve_device s hDevice) UNSUPPORTED_FEATURE_PCI_GET_STATE
       (\<lambda>dev. rv_zesDevicePciGetState (dev_return_values dev)) (pState, ext)
       (\<lambda>dev. case pState of
          None \<Rightarrow> Done (ZE_RESULT_ERROR_INVALID_NULL_POINTER, (None, ext))
        | Some old \<Rightarrow> (case pci_info_state (dev_pci dev) of
            Null \<Rightarrow> Done (ZE_RESULT_ERROR_UNSUPPORTED_FEATURE, (pState, ext))
          | Ptr _ st \<Rightarrow> copy_with_ext (pci_state_info_base st)
              ZES_STRUCTURE_TYPE_PCI_LINK_SPEED_DOWNGRADE_EXT_STATE
              (pci_state_info_link_speed_downgrade st) old ext)))"

definition zesDevicePciGetBars ::
  "stub \<Rightarrow> u64 \<Rightarrow> u32 option \<Rightarrow> zes_pci_bar_properties_t list option \<Rightarrow> ((u32 option \<times> zes_pci_bar_properties_t list option)) api_result" where [stub_defs]:
  "zesDevicePciGetBars w hDevice pCount pProperties = locked w (\<lambda>s.
     prologue s hDevice (resolve_device s hDevice) UNSUPPORTED_FEATURE_PCI_GET_BARS
       (\<lambda>dev. rv_zesDevicePciGetBars (dev_return_values dev)) (pCount, pProperties)
       (\<lambda>dev. two_call (pci_info_bars_count (dev_pci dev)) (arr_get (pci_info_bars (dev_pci dev))) pCount pProperties))"

definition zesDevicePciGetStats ::
  "stub \<Rightarrow> u64 \<Rightarrow> zes_pci_stats_t option \<Rightarrow> (zes_pci_stats_t option) api_result" where [stub_defs]:
  "zesDevicePciGetStats w hDevice pStats = locked w (\<lambda>s.
     prologue s hDevice (resolve_device s hDevice) UNSUPPORTED_FEATURE_PCI_GET_STATS
       (\<lambda>dev. rv_zesDevicePciGetStats (dev_return_values dev)) pStats
       (\<lambda>dev. copy_arg_first overwrite (pci_info_stats (dev_pci dev)) pStats))"

text \<open>The one entry point on an object with no unsupported-feature test.\<close>

definition zesDevicePciLinkSpeedUpdateExt ::
  "stub \<Rightarrow> u64 \<Rightarrow> ze_bool_t \<Rightarrow> u32 option \<Rightarrow> u32 option api_result" where [stub_defs]:
  "zesDevicePciLinkSpeedUpdateExt w hDevice shouldDowngrade pendingAction = locked w (\<lambda>s.
     obind (resolve_device s hDevice) (\<lambda>r. case r of
       None \<Rightarrow> Done (ZE_RESULT_ERROR_INVALID_NULL_HANDLE, pendingAction)
     | Some dev \<Rightarrow>
         if rv_zesDevicePciLinkSpeedUpdateExt (dev_return_values dev) \<noteq> 0
         then Done (rv_zesDevicePciLinkSpeedUpdateExt (dev_return_values dev), pendingAction)
         else put_value pendingAction (pci_info_pci_link_speed_update_pending_action (dev_pci dev))))"

section \<open>Overclocking of the device\<close>

definition zesDeviceSetOverclockWaiver ::
  "stub \<Rightarrow> u64 \<Rightarrow> (unit) api_result" where [stub_defs]:
  "zesDeviceSetOverclockWaiver w hDevice = locked w (\<lambda>s.
     prologue s hDevice (resolve_device s hDevice) UNSUPPORTED_FEATURE_SET_OVERCLOCK_WAIVER
       (\<lambda>dev. rv_zesDeviceSetOverclockWaiver (dev_return_values dev)) ()
       (\<lambda>_. Done (ZE_RESULT_SUCCESS, ())))"

definition zesDeviceGetOverclockDomains :: "stub \<Rightarrow> u64 \<Rightarrow> u32 option \<Rightarrow> u32 option api_result" where [stub_defs]:
  "zesDeviceGetOverclockDomains w hDevice pOverclockDomains = locked w (\<lambda>s.
     prologue s hDevice (resolve_device s hDevice) UNSUPPORTED_FEATURE_OVERCLOCK_DOMAINS
       (\<lambda>dev. rv_zesDeviceGetOverclockDomains (dev_return_values dev)) pOverclockDomains
       (\<lambda>dev. case dev_overclock dev of
          Null \<Rightarrow> Done (ZE_RESULT_ERROR_UNSUPPORTED_FEATURE, pOverclockDomains)
        | Ptr _ oc \<Rightarrow> put_value pOverclockDomains (overclock_info_domains_bitmask oc)))"

definition zesDeviceGetOverclockControls ::
  "stub \<Rightarrow> u64 \<Rightarrow> u32 \<Rightarrow> u32 option \<Rightarrow> u32 option api_result" where [stub_defs]:
  "zesDeviceGetOverclockControls w hDevice domainType pAvailableControls = locked w (\<lambda>s.
     prologue s hDevice (resolve_device s hDevice) UNSUPPORTED_FEATURE_GET_OVERCLOCK_CONTROLS
       (\<lambda>dev. rv_zesDeviceGetOverclockControls (dev_return_values dev)) pAvailableControls
       (\<lambda>dev. case dev_overclock dev of
          Null \<Rightarrow> Done (ZE_RESULT_ERROR_UNSUPPORTED_FEATURE, pAvailableControls)
        | Ptr _ oc \<Rightarrow>
            obind (find_loop (arr_get (overclock_info_controls oc)) (\<lambda>c. oc_control_domain_type c = domainType)
                     0 (unat (overclock_info_controls_count oc))) (\<lambda>r. case r of
              None \<Rightarrow> Done (ZE_RESULT_ERROR_UNSUPPORTED_FEATURE, pAvailableControls)
            | Some i \<Rightarrow> obind (arr_get (overclock_info_controls oc) i) (\<lambda>c.
                Done (ZE_RESULT_SUCCESS,
                  map_option (\<lambda>_. oc_control_controls_bitmask c) pAvailableControls)))))"

definition zesDeviceResetOverclockSettings ::
  "stub \<Rightarrow> u64 \<Rightarrow> ze_bool_t \<Rightarrow> (unit) api_result" where [stub_defs]:
  "zesDeviceResetOverclockSettings w hDevice onShippedState = locked w (\<lambda>s.
     prologue s hDevice (resolve_device s hDevice) UNSUPPORTED_FEATURE_OVERCLOCK_RESET_SETTINGS
       (\<lambda>dev. rv_zesDeviceResetOverclockSettings (dev_return_values dev)) ()
       (\<lambda>_. Done (ZE_RESULT_SUCCESS, ())))"

definition zesDeviceReadOverclockState ::
  "stub \<Rightarrow> u64 \<Rightarrow> u32 option \<Rightarrow> ze_bool_t option \<Rightarrow> ze_bool_t option \<Rightarrow> u32 option \<Rightarrow> ze_bool_t option \<Rightarrow>
   (u32 option \<times> ze_bool_t option \<times> ze_bool_t option \<times> u32 option \<times> ze_bool_t option) api_result" where [stub_defs]:
  "zesDeviceReadOverclockState w hDevice pOverclockMode pWaiverSetting pOverclockState pPendingAction pPendingReset =
     locked w (\<lambda>s. let out = (pOverclockMode, pWaiverSetting, pOverclockState, pPendingAction, pPendingReset) in
       prologue s hDevice (resolve_device s hDevice) UNSUPPORTED_FEATURE_OVERCLOCK_READ_STATE
         (\<lambda>dev. rv_zesDeviceReadOverclockState (dev_return_values dev)) out
         (\<lambda>dev. case dev_overclock dev of
            Null \<Rightarrow> Done (ZE_RESULT_ERROR_UNSUPPORTED_FEATURE, out)
          | Ptr _ oc \<Rightarrow> (case overclock_info_state oc of
              Null \<Rightarrow> Done (ZE_RESULT_ERROR_UNSUPPORTED_FEATURE, out)
            | Ptr _ st \<Rightarrow>
                if pOverclockMode = None \<or> pWaiverSetting = None \<or> pOverclockState = None
                   \<or> pPendingAction = None \<or> pPendingReset = None
                then Done (ZE_RESULT_ERROR_INVALID_NULL_POINTER, out)
                else Done (ZE_RESULT_SUCCESS,
                  (Some (overclock_state_info_mode st), Some (overclock_state_info_waiver_setting st),
                   Some (overclock_state_info_state st), Some (overclock_state_info_pending_action st),
                   Some (overclock_state_info_pending_reset st))))))"

definition zesDeviceEnumOverclockDomains ::
  "stub \<Rightarrow> u64 \<Rightarrow> u32 option \<Rightarrow> u64 list option \<Rightarrow> (u32 option \<times> u64 list option) api_result" where [stub_defs]:
  "zesDeviceEnumOverclockDomains w hDevice pCount phDomainHandle = locked w (\<lambda>s.
     prologue s hDevice (resolve_device s hDevice) UNSUPPORTED_FEATURE_OVERCLOCK_ENUM_DOMAINS
       (\<lambda>dev. rv_zesDeviceEnumOverclockDomains (dev_return_values dev)) (pCount, phDomainHandle)
       (\<lambda>dev. case dev_overclock dev of
          Null \<Rightarrow> Done (ZE_RESULT_ERROR_UNSUPPORTED_FEATURE, (pCount, phDomainHandle))
        | Ptr _ oc \<Rightarrow> two_call (overclock_info_domains_count oc) (component_handles STUB_HANDLE_OC hDevice)
            pCount phDomainHandle))"

section \<open>Overclock domains\<close>

definition find_control_info :: "sysman_oc_t \<Rightarrow> u32 \<Rightarrow> sysman_oc_control_info_t option outcome" where
  "find_control_info oc ctrl =
     (if oc_control_infos oc = Null \<or> SYSMAN_ARRAY_PTR_IS_EMPTY (oc_control_infos oc) then Done None
      else obind (find_loop (arr_get (oc_control_infos oc)) (\<lambda>c. oc_control_info_control_type c = ctrl)
                    0 (unat (oc_control_infos_count oc))) (\<lambda>r. case r of
        None \<Rightarrow> Done None
      | Some i \<Rightarrow> obind (arr_get (oc_control_infos oc) i) (\<lambda>c. Done (Some c))))"

definition zesOverclockGetDomainProperties ::
  "stub \<Rightarrow> u64 \<Rightarrow> zes_overclock_properties_t option \<Rightarrow> (zes_overclock_properties_t option) api_result" where [stub_defs]:
  "zesOverclockGetDomainProperties w hDomainHandle pDomainProperties = locked w (\<lambda>s.
     prologue s hDomainHandle (resolve_oc s hDomainHandle) UNSUPPORTED_FEATURE_OC_GET_DOMAIN_PROPERTIES
       (\<lambda>oc. rv_zesOverclockGetDomainProperties (oc_return_values oc)) pDomainProperties
       (\<lambda>oc. copy_src_first keep_header (oc_properties oc) pDomainProperties))"

definition zesOverclockGetDomainVFProperties ::
  "stub \<Rightarrow> u64 \<Rightarrow> zes_vf_property_t option \<Rightarrow> (zes_vf_property_t option) api_result" where [stub_defs]:
  "zesOverclockGetDomainVFProperties w hDomainHandle pVFProperties = locked w (\<lambda>s.
     prologue s hDomainHandle (resolve_oc s hDomainHandle) UNSUPPORTED_FEATURE_OC_GET_DOMAIN_VF_PROPERTIES
       (\<lambda>oc. rv_zesOverclockGetDomainVFProperties (oc_return_values oc)) pVFProperties
       (\<lambda>oc. copy_src_first overwrite (oc_vf_properties oc) pVFProperties))"

definition zesOverclockGetDomainControlProperties ::
  "stub \<Rightarrow> u64 \<Rightarrow> u32 \<Rightarrow> zes_control_property_t option \<Rightarrow> zes_control_property_t option api_result" where [stub_defs]:
  "zesOverclockGetDomainControlProperties w hDomainHandle DomainControl pControlProperties = locked w (\<lambda>s.
     prologue s hDomainHandle (resolve_oc s hDomainHandle) UNSUPPORTED_FEATURE_OC_GET_DOMAIN_CONTROL_PROPERTIES
       (\<lambda>oc. rv_zesOverclockGetDomainControlProperties (oc_return_values oc)) pControlProperties
       (\<lambda>oc. obind (find_control_info oc DomainControl) (\<lambda>r. case r of
          None \<Rightarrow> Done (ZE_RESULT_ERROR_UNSUPPORTED_FEATURE, pControlProperties)
        | Some info \<Rightarrow> copy_src_first overwrite (oc_control_info_properties info) pControlProperties)))"

definition zesOverclockGetControlCurrentValue ::
  "stub \<Rightarrow> u64 \<Rightarrow> u32 \<Rightarrow> double64 option \<Rightarrow> double64 option api_result" where [stub_defs]:
  "zesOverclockGetControlCurrentValue w hDomainHandle DomainControl pValue = locked w (\<lambda>s.
     prologue s hDomainHandle (resolve_oc s hDomainHandle) UNSUPPORTED_FEATURE_OC_GET_CONTROL_CURRENT_VALUE
       (\<lambda>oc. rv_zesOverclockGetControlCurrentValue (oc_return_values oc)) pValue
       (\<lambda>oc. obind (find_control_info oc DomainControl) (\<lambda>r. case r of
          None \<Rightarrow> Done (ZE_RESULT_ERROR_UNSUPPORTED_FEATURE, pValue)
        | Some info \<Rightarrow> copy_src_first overwrite (oc_control_info_current_value info) pValue)))"

definition zesOverclockGetControlPendingValue ::
  "stub \<Rightarrow> u64 \<Rightarrow> u32 \<Rightarrow> double64 option \<Rightarrow> double64 option api_result" where [stub_defs]:
  "zesOverclockGetControlPendingValue w hDomainHandle DomainControl pValue = locked w (\<lambda>s.
     prologue s hDomainHandle (resolve_oc s hDomainHandle) UNSUPPORTED_FEATURE_OC_GET_CONTROL_PENDING_VALUE
       (\<lambda>oc. rv_zesOverclockGetControlPendingValue (oc_return_values oc)) pValue
       (\<lambda>oc. obind (find_control_info oc DomainControl) (\<lambda>r. case r of
          None \<Rightarrow> Done (ZE_RESULT_ERROR_UNSUPPORTED_FEATURE, pValue)
        | Some info \<Rightarrow> copy_src_first overwrite (oc_control_info_pending_value info) pValue)))"

definition zesOverclockSetControlUserValue ::
  "stub \<Rightarrow> u64 \<Rightarrow> u32 \<Rightarrow> double64 \<Rightarrow> u32 option \<Rightarrow> (unit) api_result" where [stub_defs]:
  "zesOverclockSetControlUserValue w hDomainHandle DomainControl pValue pPendingAction = locked w (\<lambda>s.
     prologue s hDomainHandle (resolve_oc s hDomainHandle) UNSUPPORTED_FEATURE_OC_SET_CONTROL_USER_VALUE
       (\<lambda>oc. rv_zesOverclockSetControlUserValue (oc_return_values oc)) ()
       (\<lambda>_. Done (ZE_RESULT_SUCCESS, ())))"

definition zesOverclockGetControlState ::
  "stub \<Rightarrow> u64 \<Rightarrow> u32 \<Rightarrow> u32 option \<Rightarrow> u32 option \<Rightarrow> (u32 option \<times> u32 option) api_result" where [stub_defs]:
  "zesOverclockGetControlState w hDomainHandle DomainControl pControlState pPendingAction = locked w (\<lambda>s.
     prologue s hDomainHandle (resolve_oc s hDomainHandle) UNSUPPORTED_FEATURE_OC_GET_CONTROL_STATE
       (\<lambda>oc. rv_zesOverclockGetControlState (oc_return_values oc)) (pControlState, pPendingAction)
       (\<lambda>oc. obind (find_control_info oc DomainControl) (\<lambda>r. case r of
          None \<Rightarrow> Done (ZE_RESULT_ERROR_UNSUPPORTED_FEATURE, (pControlState, pPendingAction))
        | Some info \<Rightarrow>
            (let st = oc_control_info_state info; pa = oc_control_info_pending_action info;
                 value_or_0 = (\<lambda>p. case p of Null \<Rightarrow> 0 | Ptr _ v \<Rightarrow> v) in
             if st = Null \<and> pa = Null
             then Done (ZE_RESULT_ERROR_UNSUPPORTED_FEATURE, (pControlState, pPendingAction))
             else if pControlState = None \<or> pPendingAction = None
             then Done (ZE_RESULT_ERROR_INVALID_NULL_POINTER, (pControlState, pPendingAction))
             else Done (ZE_RESULT_SUCCESS, (Some (value_or_0 st), Some (value_or_0 pa)))))))"

definition zesOverclockGetVFPointValues ::
  "stub \<Rightarrow> u64 \<Rightarrow> u32 \<Rightarrow> u32 \<Rightarrow> u32 \<Rightarrow> u32 option \<Rightarrow> u32 option api_result" where [stub_defs]:
  "zesOverclockGetVFPointValues w hDomainHandle VFType VFArrayType PointIndex PointValue = locked w (\<lambda>s.
     prologue s hDomainHandle (resolve_oc s hDomainHandle) UNSUPPORTED_FEATURE_OC_GET_VF_POINT_VALUES
       (\<lambda>oc. rv_zesOverclockGetVFPointValues (oc_return_values oc)) PointValue
       (\<lambda>oc. Done (ZE_RESULT_SUCCESS, map_option (\<lambda>_. oc_vf_point_value oc) PointValue)))"

definition zesOverclockSetVFPointValues ::
  "stub \<Rightarrow> u64 \<Rightarrow> u32 \<Rightarrow> u32 \<Rightarrow> u32 \<Rightarrow> (unit) api_result" where [stub_defs]:
  "zesOverclockSetVFPointValues w hDomainHandle VFType PointIndex PointValue = locked w (\<lambda>s.
     prologue s hDomainHandle (resolve_oc s hDomainHandle) UNSUPPORTED_FEATURE_OC_SET_VF_POINT_VALUES
       (\<lambda>oc. rv_zesOverclockSetVFPointValues (oc_return_values oc)) ()
       (\<lambda>_. Done (ZE_RESULT_SUCCESS, ())))"

section \<open>Diagnostics\<close>

definition zesDeviceEnumDiagnosticTestSuites ::
  "stub \<Rightarrow> u64 \<Rightarrow> u32 option \<Rightarrow> u64 list option \<Rightarrow> ((u32 option \<times> u64 list option)) api_result" where [stub_defs]:
  "zesDeviceEnumDiagnosticTestSuites w hDevice pCount phDiagnostics = locked w (\<lambda>s.
     prologue s hDevice (resolve_device s hDevice) UNSUPPORTED_FEATURE_DIAGNOSTICS_TEST_SUITES
       (\<lambda>dev. rv_zesDeviceEnumDiagnosticTestSuites (dev_return_values dev)) (pCount, phDiagnostics)
       (\<lambda>dev. two_call (dev_diagnostics_count dev) (component_handles STUB_HANDLE_DIAG hDevice) pCount phDiagnostics))"

definition zesDiagnosticsGetProperties ::
  "stub \<Rightarrow> u64 \<Rightarrow> zes_diag_properties_t option \<Rightarrow> (zes_diag_properties_t option) api_result" where [stub_defs]:
  "zesDiagnosticsGetProperties w hDiagnostics pProperties = locked w (\<lambda>s.
     prologue s hDiagnostics (resolve_diag s hDiagnostics) UNSUPPORTED_FEATURE_DIAG_GET_PROPERTIES
       (\<lambda>dg. rv_zesDiagnosticsGetProperties (diag_return_values dg)) pProperties
       (\<lambda>dg. copy_src_first keep_header (diag_properties dg) pProperties))"

definition zesDiagnosticsGetTests ::
  "stub \<Rightarrow> u64 \<Rightarrow> u32 option \<Rightarrow> zes_diag_test_t list option \<Rightarrow> ((u32 option \<times> zes_diag_test_t list option)) api_result" where [stub_defs]:
  "zesDiagnosticsGetTests w hDiagnostics pCount pTests = locked w (\<lambda>s.
     prologue s hDiagnostics (resolve_diag s hDiagnostics) UNSUPPORTED_FEATURE_DIAG_GET_TESTS
       (\<lambda>dg. rv_zesDiagnosticsGetTests (diag_return_values dg)) (pCount, pTests)
       (\<lambda>dg. two_call (diag_tests_count dg) (arr_get (diag_tests dg)) pCount pTests))"

definition zesDiagnosticsRunTests ::
  "stub \<Rightarrow> u64 \<Rightarrow> u32 \<Rightarrow> u32 \<Rightarrow> u32 option \<Rightarrow> (u32 option) api_result" where [stub_defs]:
  "zesDiagnosticsRunTests w hDiagnostics startIndex endIndex pResult = locked w (\<lambda>s.
     prologue s hDiagnostics (resolve_diag s hDiagnostics) UNSUPPORTED_FEATURE_DIAG_RUN_TESTS
       (\<lambda>dg. rv_zesDiagnosticsRunTests (diag_return_values dg)) pResult
       (\<lambda>dg. put_value pResult (diag_result dg)))"

section \<open>ECC\<close>

definition zesDeviceEccAvailable :: "stub \<Rightarrow> u64 \<Rightarrow> ze_bool_t option \<Rightarrow> ze_bool_t option api_result" where [stub_defs]:
  "zesDeviceEccAvailable w hDevice pAvailable = locked w (\<lambda>s.
     prologue s hDevice (resolve_device s hDevice) UNSUPPORTED_FEATURE_ECC
       (\<lambda>dev. rv_zesDeviceEccAvailable (dev_return_values dev)) pAvailable
       (\<lambda>dev. case pAvailable of
          None \<Rightarrow> Done (ZE_RESULT_ERROR_INVALID_NULL_POINTER, None)
        | Some _ \<Rightarrow> (case dev_ecc dev of
            Null \<Rightarrow> Done (ZE_RESULT_ERROR_UNSUPPORTED_FEATURE, pAvailable)
          | Ptr _ ecc \<Rightarrow> Done (ZE_RESULT_SUCCESS, Some (ecc_info_available ecc)))))"

definition zesDeviceEccConfigurable :: "stub \<Rightarrow> u64 \<Rightarrow> ze_bool_t option \<Rightarrow> ze_bool_t option api_result" where [stub_defs]:
  "zesDeviceEccConfigurable w hDevice pConfigurable = locked w (\<lambda>s.
     prologue s hDevice (resolve_device s hDevice) UNSUPPORTED_FEATURE_ECC_CONFIGURABLE
       (\<lambda>dev. rv_zesDeviceEccConfigurable (dev_return_values dev)) pConfigurable
       (\<lambda>dev. case pConfigurable of
          None \<Rightarrow> Done (ZE_RESULT_ERROR_INVALID_NULL_POINTER, None)
        | Some _ \<Rightarrow> (case dev_ecc dev of
            Null \<Rightarrow> Done (ZE_RESULT_ERROR_UNSUPPORTED_FEATURE, pConfigurable)
          | Ptr _ ecc \<Rightarrow> Done (ZE_RESULT_SUCCESS, Some (ecc_info_configurable ecc)))))"

definition zesDeviceGetEccState ::
  "stub \<Rightarrow> u64 \<Rightarrow> zes_device_ecc_properties_t option \<Rightarrow> zes_device_ecc_default_properties_ext_t option \<Rightarrow>
   (zes_device_ecc_properties_t option \<times> zes_device_ecc_default_properties_ext_t option) api_result" where [stub_defs]:
  "zesDeviceGetEccState w hDevice pState ext = locked w (\<lambda>s.
     prologue s hDevice (resolve_device s hDevice) UNSUPPORTED_FEATURE_ECC_GET_STATE
       (\<lambda>dev. rv_zesDeviceGetEccState (dev_return_values dev)) (pState, ext)
       (\<lambda>dev. case pState of
          None \<Rightarrow> Done (ZE_RESULT_ERROR_INVALID_NULL_POINTER, (None, ext))
        | Some old \<Rightarrow> (case dev_ecc dev of
            Null \<Rightarrow> Done (ZE_RESULT_ERROR_UNSUPPORTED_FEATURE, (pState, ext))
          | Ptr _ ecc \<Rightarrow> (case ecc_info_state ecc of
              Null \<Rightarrow> Done (ZE_RESULT_ERROR_UNSUPPORTED_FEATURE, (pState, ext))
            | Ptr _ st \<Rightarrow> copy_with_ext (ecc_state_info_properties st)
                ZES_STRUCTURE_TYPE_DEVICE_ECC_DEFAULT_PROPERTIES_EXT
                (ecc_state_info_extended_properties st) old ext))))"

definition zesDeviceSetEccState ::
  "stub \<Rightarrow> u64 \<Rightarrow> 'p option \<Rightarrow> zes_device_ecc_properties_t option \<Rightarrow>
   zes_device_ecc_properties_t option api_result" where [stub_defs]:
  "zesDeviceSetEccState w hDevice newState pState = locked w (\<lambda>s.
     prologue s hDevice (resolve_device s hDevice) UNSUPPORTED_FEATURE_ECC_SET_STATE
       (\<lambda>dev. rv_zesDeviceSetEccState (dev_return_values dev)) pState
       (\<lambda>dev. case (newState, pState) of
          (Some _, Some old) \<Rightarrow> (case dev_ecc dev of
            Null \<Rightarrow> Done (ZE_RESULT_ERROR_UNSUPPORTED_FEATURE, pState)
          | Ptr _ ecc \<Rightarrow> (case ecc_info_state ecc of
              Null \<Rightarrow> Done (ZE_RESULT_ERROR_UNSUPPORTED_FEATURE, pState)
            | Ptr _ st \<Rightarrow> Done (ZE_RESULT_SUCCESS, Some (keep_header old (ecc_state_info_properties st)))))
        | _ \<Rightarrow> Done (ZE_RESULT_ERROR_INVALID_NULL_POINTER, pState)))"

end
