(* ===== verification/Stub_Components.thy ===== *)
theory Stub_Components
  imports Stub_Core
begin

text \<open>
  The entry points of \<^verbatim>\<open>level-zero-stub/zes_stub.c\<close> on device components: engines, fabric ports,
  fans, firmware, frequency domains, LEDs, memory, performance factors, power, PSUs, RAS error
  sets, schedulers, standby domains and temperature sensors. Event listening is in
  \<^verbatim>\<open>Stub_Events\<close>.
\<close>

section \<open>String helpers\<close>

text \<open>The \<^verbatim>\<open>for\<close> loop with its index \<open>i\<close> and the number of positions left before \<^verbatim>\<open>maxlen\<close>.\<close>

primrec strnlen_loop :: "cstring \<Rightarrow> nat \<Rightarrow> nat \<Rightarrow> nat outcome" where
  "strnlen_loop s i 0 = Done i"
| "strnlen_loop s i (Suc k) =
     (if i < length s then (if s ! i = CHR 0x00 then Done i else strnlen_loop s (Suc i) k) else Fault)"

definition sysman_strnlen :: "cstring \<Rightarrow> nat \<Rightarrow> nat outcome" where
  "sysman_strnlen s maxlen = strnlen_loop s 0 maxlen"

text \<open>C's \<^verbatim>\<open>strncpy\<close>: copies up to the terminator, then pads with NUL to exactly \<open>n\<close> characters.\<close>

definition strncpy :: "cstring \<Rightarrow> cstring \<Rightarrow> nat \<Rightarrow> cstring outcome" where
  "strncpy dst src n =
     (let c = takeWhile (\<lambda>x. x \<noteq> CHR 0x00) (take n src) in
      if length dst < n \<or> (length src < n \<and> CHR 0x00 \<notin> set src) then Fault
      else Done (c @ replicate (n - length c) (CHR 0x00) @ drop n dst))"

section \<open>Engines\<close>

definition zesDeviceEnumEngineGroups ::
  "stub \<Rightarrow> u64 \<Rightarrow> u32 option \<Rightarrow> u64 list option \<Rightarrow> ((u32 option \<times> u64 list option)) api_result" where [stub_defs]:
  "zesDeviceEnumEngineGroups w hDevice pCount phEngine = locked w (\<lambda>s.
     prologue s hDevice (resolve_device s hDevice) UNSUPPORTED_FEATURE_ENGINE_GROUPS
       (\<lambda>dev. rv_zesDeviceEnumEngineGroups (dev_return_values dev)) (pCount, phEngine)
       (\<lambda>dev. two_call (dev_engine_groups_count dev) (component_handles STUB_HANDLE_ENGINE hDevice) pCount phEngine))"

definition zesEngineGetProperties ::
  "stub \<Rightarrow> u64 \<Rightarrow> zes_engine_properties_t option \<Rightarrow> zes_engine_ext_properties_t option \<Rightarrow>
   (zes_engine_properties_t option \<times> zes_engine_ext_properties_t option) api_result" where [stub_defs]:
  "zesEngineGetProperties w hEngine pProperties ext = locked w (\<lambda>s.
     prologue s hEngine (resolve_engine s hEngine) UNSUPPORTED_FEATURE_ENGINE_GET_PROPERTIES
       (\<lambda>eng. rv_zesEngineGetProperties (engine_return_values eng)) (pProperties, ext)
       (\<lambda>eng. case pProperties of
          None \<Rightarrow> Done (ZE_RESULT_ERROR_INVALID_NULL_POINTER, (None, ext))
        | Some old \<Rightarrow> copy_with_ext (engine_properties_info_base (engine_properties eng))
            ZES_STRUCTURE_TYPE_ENGINE_EXT_PROPERTIES
            (engine_properties_info_extended_properties (engine_properties eng)) old ext))"

definition zesEngineGetActivity ::
  "stub \<Rightarrow> u64 \<Rightarrow> zes_engine_stats_t option \<Rightarrow> (zes_engine_stats_t option) api_result" where [stub_defs]:
  "zesEngineGetActivity w hEngine pStats = locked w (\<lambda>s.
     prologue s hEngine (resolve_engine s hEngine) UNSUPPORTED_FEATURE_ENGINE_GET_ACTIVITY
       (\<lambda>eng. rv_zesEngineGetActivity (engine_return_values eng)) pStats
       (\<lambda>eng. put_value pStats (engine_activity eng)))"

definition zesEngineGetActivityExt ::
  "stub \<Rightarrow> u64 \<Rightarrow> u32 option \<Rightarrow> zes_engine_stats_t list option \<Rightarrow> ((u32 option \<times> zes_engine_stats_t list option)) api_result" where [stub_defs]:
  "zesEngineGetActivityExt w hEngine pCount pStats = locked w (\<lambda>s.
     prologue s hEngine (resolve_engine s hEngine) UNSUPPORTED_FEATURE_ENGINE_GET_ACTIVITY_EXT
       (\<lambda>eng. rv_zesEngineGetActivityExt (engine_return_values eng)) (pCount, pStats)
       (\<lambda>eng. two_call (engine_activity_ext_count eng) (arr_get (engine_activity_ext eng)) pCount pStats))"

section \<open>Events\<close>

definition zesDeviceEventRegister ::
  "stub \<Rightarrow> u64 \<Rightarrow> u32 \<Rightarrow> (unit) api_result" where [stub_defs]:
  "zesDeviceEventRegister w hDevice events = locked w (\<lambda>s.
     prologue s hDevice (resolve_device s hDevice) UNSUPPORTED_FEATURE_EVENT_REGISTER
       (\<lambda>dev. rv_zesDeviceEventRegister (dev_return_values dev)) ()
       (\<lambda>_. Done (ZE_RESULT_SUCCESS, ())))"

section \<open>Fabric ports\<close>

definition zesDeviceEnumFabricPorts ::
  "stub \<Rightarrow> u64 \<Rightarrow> u32 option \<Rightarrow> u64 list option \<Rightarrow> ((u32 option \<times> u64 list option)) api_result" where [stub_defs]:
  "zesDeviceEnumFabricPorts w hDevice pCount phPort = locked w (\<lambda>s.
     prologue s hDevice (resolve_device s hDevice) UNSUPPORTED_FEATURE_FABRIC_PORTS
       (\<lambda>dev. rv_zesDeviceEnumFabricPorts (dev_return_values dev)) (pCount, phPort)
       (\<lambda>dev. two_call (dev_fabric_ports_count dev) (component_handles STUB_HANDLE_FABRIC_PORT hDevice) pCount phPort))"

definition zesFabricPortGetProperties ::
  "stub \<Rightarrow> u64 \<Rightarrow> zes_fabric_port_properties_t option \<Rightarrow> (zes_fabric_port_properties_t option) api_result" where [stub_defs]:
  "zesFabricPortGetProperties w hPort pProperties = locked w (\<lambda>s.
     prologue s hPort (resolve_fabric_port s hPort) UNSUPPORTED_FEATURE_FABRIC_PORT_GET_PROPERTIES
       (\<lambda>fp. rv_zesFabricPortGetProperties (fabric_port_return_values fp)) pProperties
       (\<lambda>fp. copy_src_first keep_header (fabric_port_properties fp) pProperties))"

definition zesFabricPortGetLinkType ::
  "stub \<Rightarrow> u64 \<Rightarrow> zes_fabric_link_type_t option \<Rightarrow> (zes_fabric_link_type_t option) api_result" where [stub_defs]:
  "zesFabricPortGetLinkType w hPort pLinkType = locked w (\<lambda>s.
     prologue s hPort (resolve_fabric_port s hPort) UNSUPPORTED_FEATURE_FABRIC_PORT_GET_LINK_TYPE
       (\<lambda>fp. rv_zesFabricPortGetLinkType (fabric_port_return_values fp)) pLinkType
       (\<lambda>fp. copy_src_first overwrite (fabric_port_link_type fp) pLinkType))"

definition zesFabricPortGetConfig ::
  "stub \<Rightarrow> u64 \<Rightarrow> zes_fabric_port_config_t option \<Rightarrow> (zes_fabric_port_config_t option) api_result" where [stub_defs]:
  "zesFabricPortGetConfig w hPort pConfig = locked w (\<lambda>s.
     prologue s hPort (resolve_fabric_port s hPort) UNSUPPORTED_FEATURE_FABRIC_PORT_GET_CONFIG
       (\<lambda>fp. rv_zesFabricPortGetConfig (fabric_port_return_values fp)) pConfig
       (\<lambda>fp. copy_src_first keep_header (fabric_port_config fp) pConfig))"

definition zesFabricPortSetConfig ::
  "stub \<Rightarrow> u64 \<Rightarrow> zes_fabric_port_config_t option \<Rightarrow> (unit) api_result" where [stub_defs]:
  "zesFabricPortSetConfig w hPort pConfig = locked w (\<lambda>s.
     prologue s hPort (resolve_fabric_port s hPort) UNSUPPORTED_FEATURE_FABRIC_PORT_SET_CONFIG
       (\<lambda>fp. rv_zesFabricPortSetConfig (fabric_port_return_values fp)) ()
       (\<lambda>_. Done (ZE_RESULT_SUCCESS, ())))"

definition zesFabricPortGetState ::
  "stub \<Rightarrow> u64 \<Rightarrow> zes_fabric_port_state_t option \<Rightarrow> (zes_fabric_port_state_t option) api_result" where [stub_defs]:
  "zesFabricPortGetState w hPort pState = locked w (\<lambda>s.
     prologue s hPort (resolve_fabric_port s hPort) UNSUPPORTED_FEATURE_FABRIC_PORT_GET_STATE
       (\<lambda>fp. rv_zesFabricPortGetState (fabric_port_return_values fp)) pState
       (\<lambda>fp. copy_src_first keep_header (fabric_port_state fp) pState))"

definition zesFabricPortGetThroughput ::
  "stub \<Rightarrow> u64 \<Rightarrow> zes_fabric_port_throughput_t option \<Rightarrow> (zes_fabric_port_throughput_t option) api_result" where [stub_defs]:
  "zesFabricPortGetThroughput w hPort pThroughput = locked w (\<lambda>s.
     prologue s hPort (resolve_fabric_port s hPort) UNSUPPORTED_FEATURE_FABRIC_PORT_GET_THROUGHPUT
       (\<lambda>fp. rv_zesFabricPortGetThroughput (fabric_port_return_values fp)) pThroughput
       (\<lambda>fp. copy_src_first overwrite (fabric_port_throughput fp) pThroughput))"

definition zesFabricPortGetFabricErrorCounters ::
  "stub \<Rightarrow> u64 \<Rightarrow> zes_fabric_port_error_counters_t option \<Rightarrow> (zes_fabric_port_error_counters_t option) api_result" where [stub_defs]:
  "zesFabricPortGetFabricErrorCounters w hPort pErrors = locked w (\<lambda>s.
     prologue s hPort (resolve_fabric_port s hPort) UNSUPPORTED_FEATURE_FABRIC_PORT_GET_ERROR_COUNTERS
       (\<lambda>fp. rv_zesFabricPortGetFabricErrorCounters (fabric_port_return_values fp)) pErrors
       (\<lambda>fp. copy_src_first keep_header (fabric_port_error_counters fp) pErrors))"

text \<open>
  The loop over the requested ports: a null handle, a null output pointer, a handle that does not
  resolve and a port without throughput data are skipped.
\<close>

primrec multi_port_loop ::
  "sysman_state_t \<Rightarrow> u64 list \<Rightarrow> nat \<Rightarrow> nat \<Rightarrow> zes_fabric_port_throughput_t option list \<Rightarrow>
   zes_fabric_port_throughput_t option list outcome" where
  "multi_port_loop s phPort i 0 out = Done out"
| "multi_port_loop s phPort i (Suc k) out =
     (if i < length phPort \<and> i < length out then
        (if phPort ! i = 0 \<or> out ! i = None then multi_port_loop s phPort (Suc i) k out
         else obind (resolve_fabric_port s (phPort ! i)) (\<lambda>r. case r of
           None \<Rightarrow> multi_port_loop s phPort (Suc i) k out
         | Some port \<Rightarrow> (case fabric_port_throughput port of
             Null \<Rightarrow> multi_port_loop s phPort (Suc i) k out
           | Ptr _ t \<Rightarrow> multi_port_loop s phPort (Suc i) k (out[i := Some t]))))
      else Fault)"

definition zesFabricPortGetMultiPortThroughput ::
  "stub \<Rightarrow> u64 \<Rightarrow> u32 \<Rightarrow> u64 list option \<Rightarrow> zes_fabric_port_throughput_t option list option \<Rightarrow>
   zes_fabric_port_throughput_t option list option api_result" where [stub_defs]:
  "zesFabricPortGetMultiPortThroughput w hDevice numPorts phPort pThroughput = locked w (\<lambda>s.
     obind (resolve_device s hDevice) (\<lambda>r. case r of
       None \<Rightarrow> Done (ZE_RESULT_ERROR_INVALID_NULL_HANDLE, pThroughput)
     | Some dev \<Rightarrow> obind (is_unsupported s hDevice UNSUPPORTED_FEATURE_FABRIC_PORT_MULTI_THROUGHPUT) (\<lambda>unsupported.
         if unsupported then Done (ZE_RESULT_ERROR_UNSUPPORTED_FEATURE, pThroughput)
         else obind (if 0 < dev_fabric_ports_count dev
                     then obind (arr_get (dev_fabric_ports dev) 0) (\<lambda>fp.
                            Done (rv_zesFabricPortGetMultiPortThroughput (fabric_port_return_values fp)))
                     else Done 0) (\<lambda>rv.
           if rv \<noteq> 0 then Done (rv, pThroughput)
           else (case (phPort, pThroughput) of
             (Some ports, Some out) \<Rightarrow>
               obind (multi_port_loop s ports 0 (unat numPorts) out) (\<lambda>out'.
                 Done (ZE_RESULT_SUCCESS, Some out'))
           | _ \<Rightarrow> Done (ZE_RESULT_ERROR_INVALID_NULL_POINTER, pThroughput))))))"

section \<open>Fans\<close>

definition zesDeviceEnumFans ::
  "stub \<Rightarrow> u64 \<Rightarrow> u32 option \<Rightarrow> u64 list option \<Rightarrow> ((u32 option \<times> u64 list option)) api_result" where [stub_defs]:
  "zesDeviceEnumFans w hDevice pCount phFan = locked w (\<lambda>s.
     prologue s hDevice (resolve_device s hDevice) UNSUPPORTED_FEATURE_FANS
       (\<lambda>dev. rv_zesDeviceEnumFans (dev_return_values dev)) (pCount, phFan)
       (\<lambda>dev. two_call (dev_fans_count dev) (component_handles STUB_HANDLE_FAN hDevice) pCount phFan))"

definition zesFanGetProperties ::
  "stub \<Rightarrow> u64 \<Rightarrow> zes_fan_properties_t option \<Rightarrow> (zes_fan_properties_t option) api_result" where [stub_defs]:
  "zesFanGetProperties w hFan pProperties = locked w (\<lambda>s.
     prologue s hFan (resolve_fan s hFan) UNSUPPORTED_FEATURE_FAN_GET_PROPERTIES
       (\<lambda>fan. rv_zesFanGetProperties (fan_return_values fan)) pProperties
       (\<lambda>fan. copy_src_first keep_header (fan_properties fan) pProperties))"

definition zesFanGetConfig ::
  "stub \<Rightarrow> u64 \<Rightarrow> zes_fan_config_t option \<Rightarrow> (zes_fan_config_t option) api_result" where [stub_defs]:
  "zesFanGetConfig w hFan pConfig = locked w (\<lambda>s.
     prologue s hFan (resolve_fan s hFan) UNSUPPORTED_FEATURE_FAN_GET_CONFIG
       (\<lambda>fan. rv_zesFanGetConfig (fan_return_values fan)) pConfig
       (\<lambda>fan. copy_src_first keep_header (fan_config fan) pConfig))"

definition zesFanSetDefaultMode ::
  "stub \<Rightarrow> u64 \<Rightarrow> (unit) api_result" where [stub_defs]:
  "zesFanSetDefaultMode w hFan = locked w (\<lambda>s.
     prologue s hFan (resolve_fan s hFan) UNSUPPORTED_FEATURE_FAN_SET_DEFAULT_MODE
       (\<lambda>fan. rv_zesFanSetDefaultMode (fan_return_values fan)) ()
       (\<lambda>_. Done (ZE_RESULT_SUCCESS, ())))"

definition zesFanSetFixedSpeedMode ::
  "stub \<Rightarrow> u64 \<Rightarrow> zes_fan_speed_t option \<Rightarrow> (unit) api_result" where [stub_defs]:
  "zesFanSetFixedSpeedMode w hFan speed = locked w (\<lambda>s.
     prologue s hFan (resolve_fan s hFan) UNSUPPORTED_FEATURE_FAN_SET_FIXED_SPEED_MODE
       (\<lambda>fan. rv_zesFanSetFixedSpeedMode (fan_return_values fan)) ()
       (\<lambda>_. Done (ZE_RESULT_SUCCESS, ())))"

definition zesFanSetSpeedTableMode ::
  "stub \<Rightarrow> u64 \<Rightarrow> zes_fan_speed_table_t option \<Rightarrow> (unit) api_result" where [stub_defs]:
  "zesFanSetSpeedTableMode w hFan speedTable = locked w (\<lambda>s.
     prologue s hFan (resolve_fan s hFan) UNSUPPORTED_FEATURE_FAN_SET_SPEED_TABLE_MODE
       (\<lambda>fan. rv_zesFanSetSpeedTableMode (fan_return_values fan)) ()
       (\<lambda>_. Done (ZE_RESULT_SUCCESS, ())))"

definition zesFanGetState ::
  "stub \<Rightarrow> u64 \<Rightarrow> u32 \<Rightarrow> u32 option \<Rightarrow> (u32 option) api_result" where [stub_defs]:
  "zesFanGetState w hFan units pSpeed = locked w (\<lambda>s.
     prologue s hFan (resolve_fan s hFan) UNSUPPORTED_FEATURE_FAN_GET_STATE
       (\<lambda>fan. rv_zesFanGetState (fan_return_values fan)) pSpeed
       (\<lambda>fan. put_value pSpeed (fan_speed fan)))"

section \<open>Firmware\<close>

definition zesDeviceEnumFirmwares ::
  "stub \<Rightarrow> u64 \<Rightarrow> u32 option \<Rightarrow> u64 list option \<Rightarrow> ((u32 option \<times> u64 list option)) api_result" where [stub_defs]:
  "zesDeviceEnumFirmwares w hDevice pCount phFirmware = locked w (\<lambda>s.
     prologue s hDevice (resolve_device s hDevice) UNSUPPORTED_FEATURE_FIRMWARES
       (\<lambda>dev. rv_zesDeviceEnumFirmwares (dev_return_values dev)) (pCount, phFirmware)
       (\<lambda>dev. two_call (dev_firmwares_count dev) (component_handles STUB_HANDLE_FIRMWARE hDevice) pCount phFirmware))"

definition zesFirmwareGetProperties ::
  "stub \<Rightarrow> u64 \<Rightarrow> zes_firmware_properties_t option \<Rightarrow> (zes_firmware_properties_t option) api_result" where [stub_defs]:
  "zesFirmwareGetProperties w hFirmware pProperties = locked w (\<lambda>s.
     prologue s hFirmware (resolve_firmware s hFirmware) UNSUPPORTED_FEATURE_FW_GET_PROPERTIES
       (\<lambda>fw. rv_zesFirmwareGetProperties (firmware_return_values fw)) pProperties
       (\<lambda>fw. copy_src_first keep_header (firmware_properties fw) pProperties))"

definition zesFirmwareFlash ::
  "stub \<Rightarrow> u64 \<Rightarrow> 'p option \<Rightarrow> u32 \<Rightarrow> (unit) api_result" where [stub_defs]:
  "zesFirmwareFlash w hFirmware pImage image_size = locked w (\<lambda>s.
     prologue s hFirmware (resolve_firmware s hFirmware) UNSUPPORTED_FEATURE_FW_FLASH
       (\<lambda>fw. rv_zesFirmwareFlash (firmware_return_values fw)) ()
       (\<lambda>_. Done (ZE_RESULT_SUCCESS, ())))"

definition zesFirmwareGetFlashProgress ::
  "stub \<Rightarrow> u64 \<Rightarrow> u32 option \<Rightarrow> (u32 option) api_result" where [stub_defs]:
  "zesFirmwareGetFlashProgress w hFirmware pCompletionPercent = locked w (\<lambda>s.
     prologue s hFirmware (resolve_firmware s hFirmware) UNSUPPORTED_FEATURE_FW_GET_FLASH_PROGRESS
       (\<lambda>fw. rv_zesFirmwareGetFlashProgress (firmware_return_values fw)) pCompletionPercent
       (\<lambda>fw. put_value pCompletionPercent (firmware_flash_progress fw)))"

definition zesFirmwareGetConsoleLogs ::
  "stub \<Rightarrow> u64 \<Rightarrow> nat option \<Rightarrow> cstring option \<Rightarrow> (nat option \<times> cstring option) api_result" where [stub_defs]:
  "zesFirmwareGetConsoleLogs w hFirmware pSize pFirmwareLog = locked w (\<lambda>s.
     prologue s hFirmware (resolve_firmware s hFirmware) UNSUPPORTED_FEATURE_FW_GET_CONSOLE_LOGS
       (\<lambda>fw. rv_zesFirmwareGetConsoleLogs (firmware_return_values fw)) (pSize, pFirmwareLog)
       (\<lambda>fw. let log = firmware_log fw in
          obind (sysman_strnlen log (SYSMAN_FIRMWARE_LOG_SIZE - 1)) (\<lambda>l. case pSize of
            None \<Rightarrow> Done (ZE_RESULT_ERROR_INVALID_NULL_POINTER, (None, pFirmwareLog))
          | Some sz \<Rightarrow> (case pFirmwareLog of
              None \<Rightarrow> Done (ZE_RESULT_SUCCESS, (Some (l + 1), None))
            | Some buf \<Rightarrow> (let len = (if sz < l + 1 then sz else l + 1) in
                if len = 0 then Done (ZE_RESULT_SUCCESS, (pSize, pFirmwareLog))
                else obind (strncpy buf log len) (\<lambda>buf'.
                  Done (ZE_RESULT_SUCCESS, (Some len, Some (buf'[len - 1 := CHR 0x00])))))))))"

section \<open>Frequency domains\<close>

definition zesDeviceEnumFrequencyDomains ::
  "stub \<Rightarrow> u64 \<Rightarrow> u32 option \<Rightarrow> u64 list option \<Rightarrow> ((u32 option \<times> u64 list option)) api_result" where [stub_defs]:
  "zesDeviceEnumFrequencyDomains w hDevice pCount phFrequency = locked w (\<lambda>s.
     prologue s hDevice (resolve_device s hDevice) UNSUPPORTED_FEATURE_FREQUENCY_DOMAINS
       (\<lambda>dev. rv_zesDeviceEnumFrequencyDomains (dev_return_values dev)) (pCount, phFrequency)
       (\<lambda>dev. two_call (dev_frequency_domains_count dev) (component_handles STUB_HANDLE_FREQ hDevice) pCount phFrequency))"

definition zesFrequencyGetProperties ::
  "stub \<Rightarrow> u64 \<Rightarrow> zes_freq_properties_t option \<Rightarrow> (zes_freq_properties_t option) api_result" where [stub_defs]:
  "zesFrequencyGetProperties w hFrequency pProperties = locked w (\<lambda>s.
     prologue s hFrequency (resolve_freq s hFrequency) UNSUPPORTED_FEATURE_FREQ_GET_PROPERTIES
       (\<lambda>fr. rv_zesFrequencyGetProperties (freq_return_values fr)) pProperties
       (\<lambda>fr. copy_src_first keep_header (freq_properties fr) pProperties))"

definition zesFrequencyGetAvailableClocks ::
  "stub \<Rightarrow> u64 \<Rightarrow> u32 option \<Rightarrow> double64 list option \<Rightarrow> ((u32 option \<times> double64 list option)) api_result" where [stub_defs]:
  "zesFrequencyGetAvailableClocks w hFrequency pCount phFrequency = locked w (\<lambda>s.
     prologue s hFrequency (resolve_freq s hFrequency) UNSUPPORTED_FEATURE_FREQ_GET_AVAILABLE_CLOCKS
       (\<lambda>fr. rv_zesFrequencyGetAvailableClocks (freq_return_values fr)) (pCount, phFrequency)
       (\<lambda>fr. two_call (freq_available_clocks_count fr) (arr_get (freq_available_clocks fr)) pCount phFrequency))"

definition zesFrequencyGetRange ::
  "stub \<Rightarrow> u64 \<Rightarrow> zes_freq_range_t option \<Rightarrow> (zes_freq_range_t option) api_result" where [stub_defs]:
  "zesFrequencyGetRange w hFrequency pLimits = locked w (\<lambda>s.
     prologue s hFrequency (resolve_freq s hFrequency) UNSUPPORTED_FEATURE_FREQ_GET_RANGE
       (\<lambda>fr. rv_zesFrequencyGetRange (freq_return_values fr)) pLimits
       (\<lambda>fr. copy_src_first overwrite (freq_range fr) pLimits))"

definition zesFrequencySetRange ::
  "stub \<Rightarrow> u64 \<Rightarrow> zes_freq_range_t option \<Rightarrow> (unit) api_result" where [stub_defs]:
  "zesFrequencySetRange w hFrequency pLimits = locked w (\<lambda>s.
     prologue s hFrequency (resolve_freq s hFrequency) UNSUPPORTED_FEATURE_FREQ_SET_RANGE
       (\<lambda>fr. rv_zesFrequencySetRange (freq_return_values fr)) ()
       (\<lambda>_. Done (ZE_RESULT_SUCCESS, ())))"

definition zesFrequencyGetState ::
  "stub \<Rightarrow> u64 \<Rightarrow> zes_freq_state_t option \<Rightarrow> (zes_freq_state_t option) api_result" where [stub_defs]:
  "zesFrequencyGetState w hFrequency pState = locked w (\<lambda>s.
     prologue s hFrequency (resolve_freq s hFrequency) UNSUPPORTED_FEATURE_FREQ_GET_STATE
       (\<lambda>fr. rv_zesFrequencyGetState (freq_return_values fr)) pState
       (\<lambda>fr. copy_src_first keep_header (freq_state fr) pState))"

definition zesFrequencyGetThrottleTime ::
  "stub \<Rightarrow> u64 \<Rightarrow> zes_freq_throttle_time_t option \<Rightarrow> (zes_freq_throttle_time_t option) api_result" where [stub_defs]:
  "zesFrequencyGetThrottleTime w hFrequency pThrottleTime = locked w (\<lambda>s.
     prologue s hFrequency (resolve_freq s hFrequency) UNSUPPORTED_FEATURE_FREQ_GET_THROTTLE_TIME
       (\<lambda>fr. rv_zesFrequencyGetThrottleTime (freq_return_values fr)) pThrottleTime
       (\<lambda>fr. copy_src_first overwrite (freq_throttle_time fr) pThrottleTime))"

section \<open>LEDs\<close>

definition zesDeviceEnumLeds ::
  "stub \<Rightarrow> u64 \<Rightarrow> u32 option \<Rightarrow> u64 list option \<Rightarrow> ((u32 option \<times> u64 list option)) api_result" where [stub_defs]:
  "zesDeviceEnumLeds w hDevice pCount phLed = locked w (\<lambda>s.
     prologue s hDevice (resolve_device s hDevice) UNSUPPORTED_FEATURE_LEDS
       (\<lambda>dev. rv_zesDeviceEnumLeds (dev_return_values dev)) (pCount, phLed)
       (\<lambda>dev. two_call (dev_leds_count dev) (component_handles STUB_HANDLE_LED hDevice) pCount phLed))"

definition zesLedGetProperties ::
  "stub \<Rightarrow> u64 \<Rightarrow> zes_led_properties_t option \<Rightarrow> (zes_led_properties_t option) api_result" where [stub_defs]:
  "zesLedGetProperties w hLed pProperties = locked w (\<lambda>s.
     prologue s hLed (resolve_led s hLed) UNSUPPORTED_FEATURE_LED_GET_PROPERTIES
       (\<lambda>led. rv_zesLedGetProperties (led_return_values led)) pProperties
       (\<lambda>led. copy_src_first keep_header (led_properties led) pProperties))"

definition zesLedGetState ::
  "stub \<Rightarrow> u64 \<Rightarrow> zes_led_state_t option \<Rightarrow> (zes_led_state_t option) api_result" where [stub_defs]:
  "zesLedGetState w hLed pState = locked w (\<lambda>s.
     prologue s hLed (resolve_led s hLed) UNSUPPORTED_FEATURE_LED_GET_STATE
       (\<lambda>led. rv_zesLedGetState (led_return_values led)) pState
       (\<lambda>led. copy_src_first keep_header (led_state led) pState))"

definition zesLedSetState ::
  "stub \<Rightarrow> u64 \<Rightarrow> ze_bool_t \<Rightarrow> (unit) api_result" where [stub_defs]:
  "zesLedSetState w hLed enable = locked w (\<lambda>s.
     prologue s hLed (resolve_led s hLed) UNSUPPORTED_FEATURE_LED_SET_STATE
       (\<lambda>led. rv_zesLedSetState (led_return_values led)) ()
       (\<lambda>_. Done (ZE_RESULT_SUCCESS, ())))"

definition zesLedSetColor ::
  "stub \<Rightarrow> u64 \<Rightarrow> zes_led_color_t option \<Rightarrow> (unit) api_result" where [stub_defs]:
  "zesLedSetColor w hLed pColor = locked w (\<lambda>s.
     prologue s hLed (resolve_led s hLed) UNSUPPORTED_FEATURE_LED_SET_COLOR
       (\<lambda>led. rv_zesLedSetColor (led_return_values led)) ()
       (\<lambda>_. Done (ZE_RESULT_SUCCESS, ())))"

section \<open>Memory\<close>

definition zesDeviceEnumMemoryModules ::
  "stub \<Rightarrow> u64 \<Rightarrow> u32 option \<Rightarrow> u64 list option \<Rightarrow> ((u32 option \<times> u64 list option)) api_result" where [stub_defs]:
  "zesDeviceEnumMemoryModules w hDevice pCount phMemory = locked w (\<lambda>s.
     prologue s hDevice (resolve_device s hDevice) UNSUPPORTED_FEATURE_MEMORY_MODULES
       (\<lambda>dev. rv_zesDeviceEnumMemoryModules (dev_return_values dev)) (pCount, phMemory)
       (\<lambda>dev. two_call (dev_memory_modules_count dev) (component_handles STUB_HANDLE_MEM hDevice) pCount phMemory))"

definition zesMemoryGetProperties ::
  "stub \<Rightarrow> u64 \<Rightarrow> zes_mem_properties_t option \<Rightarrow> (zes_mem_properties_t option) api_result" where [stub_defs]:
  "zesMemoryGetProperties w hMemory pProperties = locked w (\<lambda>s.
     prologue s hMemory (resolve_mem s hMemory) UNSUPPORTED_FEATURE_MEM_GET_PROPERTIES
       (\<lambda>mem. rv_zesMemoryGetProperties (mem_return_values mem)) pProperties
       (\<lambda>mem. copy_src_first keep_header (mem_properties mem) pProperties))"

definition zesMemoryGetState ::
  "stub \<Rightarrow> u64 \<Rightarrow> zes_mem_state_t option \<Rightarrow> (zes_mem_state_t option) api_result" where [stub_defs]:
  "zesMemoryGetState w hMemory pState = locked w (\<lambda>s.
     prologue s hMemory (resolve_mem s hMemory) UNSUPPORTED_FEATURE_MEM_GET_STATE
       (\<lambda>mem. rv_zesMemoryGetState (mem_return_values mem)) pState
       (\<lambda>mem. copy_src_first keep_header (mem_state mem) pState))"

definition zesMemoryGetBandwidth ::
  "stub \<Rightarrow> u64 \<Rightarrow> zes_mem_bandwidth_t option \<Rightarrow> (zes_mem_bandwidth_t option) api_result" where [stub_defs]:
  "zesMemoryGetBandwidth w hMemory pBandwidth = locked w (\<lambda>s.
     prologue s hMemory (resolve_mem s hMemory) UNSUPPORTED_FEATURE_MEM_GET_BANDWIDTH
       (\<lambda>mem. rv_zesMemoryGetBandwidth (mem_return_values mem)) pBandwidth
       (\<lambda>mem. copy_src_first overwrite (mem_bandwidth mem) pBandwidth))"

section \<open>Performance factor\<close>

definition zesDeviceEnumPerformanceFactorDomains ::
  "stub \<Rightarrow> u64 \<Rightarrow> u32 option \<Rightarrow> u64 list option \<Rightarrow> ((u32 option \<times> u64 list option)) api_result" where [stub_defs]:
  "zesDeviceEnumPerformanceFactorDomains w hDevice pCount phPerf = locked w (\<lambda>s.
     prologue s hDevice (resolve_device s hDevice) UNSUPPORTED_FEATURE_PERFORMANCE_DOMAINS
       (\<lambda>dev. rv_zesDeviceEnumPerformanceFactorDomains (dev_return_values dev)) (pCount, phPerf)
       (\<lambda>dev. two_call (dev_performance_domains_count dev) (component_handles STUB_HANDLE_PERF hDevice) pCount phPerf))"

definition zesPerformanceFactorGetProperties ::
  "stub \<Rightarrow> u64 \<Rightarrow> zes_perf_properties_t option \<Rightarrow> (zes_perf_properties_t option) api_result" where [stub_defs]:
  "zesPerformanceFactorGetProperties w hPerf pProperties = locked w (\<lambda>s.
     prologue s hPerf (resolve_perf s hPerf) UNSUPPORTED_FEATURE_PERF_GET_PROPERTIES
       (\<lambda>pf. rv_zesPerformanceFactorGetProperties (perf_return_values pf)) pProperties
       (\<lambda>pf. copy_src_first keep_header (perf_properties pf) pProperties))"

definition zesPerformanceFactorGetConfig ::
  "stub \<Rightarrow> u64 \<Rightarrow> double64 option \<Rightarrow> (double64 option) api_result" where [stub_defs]:
  "zesPerformanceFactorGetConfig w hPerf pFactor = locked w (\<lambda>s.
     prologue s hPerf (resolve_perf s hPerf) UNSUPPORTED_FEATURE_PERF_GET_CONFIG
       (\<lambda>pf. rv_zesPerformanceFactorGetConfig (perf_return_values pf)) pFactor
       (\<lambda>pf. put_value pFactor (perf_config pf)))"

definition zesPerformanceFactorSetConfig ::
  "stub \<Rightarrow> u64 \<Rightarrow> double64 \<Rightarrow> (unit) api_result" where [stub_defs]:
  "zesPerformanceFactorSetConfig w hPerf factor = locked w (\<lambda>s.
     prologue s hPerf (resolve_perf s hPerf) UNSUPPORTED_FEATURE_PERF_SET_CONFIG
       (\<lambda>pf. rv_zesPerformanceFactorSetConfig (perf_return_values pf)) ()
       (\<lambda>_. Done (ZE_RESULT_SUCCESS, ())))"

section \<open>Power\<close>

definition zesDeviceEnumPowerDomains ::
  "stub \<Rightarrow> u64 \<Rightarrow> u32 option \<Rightarrow> u64 list option \<Rightarrow> ((u32 option \<times> u64 list option)) api_result" where [stub_defs]:
  "zesDeviceEnumPowerDomains w hDevice pCount phPower = locked w (\<lambda>s.
     prologue s hDevice (resolve_device s hDevice) UNSUPPORTED_FEATURE_POWER_DOMAINS
       (\<lambda>dev. rv_zesDeviceEnumPowerDomains (dev_return_values dev)) (pCount, phPower)
       (\<lambda>dev. two_call (dev_power_domains_count dev) (component_handles STUB_HANDLE_PWR hDevice) pCount phPower))"

text \<open>The power extension is filled field by field, the default limit through its own pointer.\<close>

definition power_ext_update ::
  "sysman_power_ext_properties_t \<Rightarrow> zes_power_ext_properties_t \<Rightarrow> zes_power_ext_properties_t" where
  "power_ext_update src ext = ext\<lparr>
     power_ext_properties_domain := stub_power_ext_properties_domain src,
     power_ext_properties_defaultLimit :=
       map_option (\<lambda>_. stub_power_ext_properties_default_limit src) (power_ext_properties_defaultLimit ext)\<rparr>"

definition zesPowerGetProperties ::
  "stub \<Rightarrow> u64 \<Rightarrow> zes_power_properties_t option \<Rightarrow> zes_power_ext_properties_t option \<Rightarrow>
   (zes_power_properties_t option \<times> zes_power_ext_properties_t option) api_result" where [stub_defs]:
  "zesPowerGetProperties w hPower pProperties ext = locked w (\<lambda>s.
     prologue s hPower (resolve_power s hPower) UNSUPPORTED_FEATURE_POWER_GET_PROPERTIES
       (\<lambda>pw. rv_zesPowerGetProperties (power_return_values pw)) (pProperties, ext)
       (\<lambda>pw. case power_properties pw of
          Null \<Rightarrow> Done (ZE_RESULT_ERROR_UNSUPPORTED_FEATURE, (pProperties, ext))
        | Ptr _ props \<Rightarrow> (case pProperties of
            None \<Rightarrow> Done (ZE_RESULT_ERROR_INVALID_NULL_POINTER, (None, ext))
          | Some old \<Rightarrow>
              obind (if pNext old = 0 then Done ext else (case ext of
                  None \<Rightarrow> Fault
                | Some e \<Rightarrow> Done (Some (if stype e = ZES_STRUCTURE_TYPE_POWER_EXT_PROPERTIES
                    then power_ext_update (power_properties_info_extended_properties props) e else e))))
                (\<lambda>ext'. Done (ZE_RESULT_SUCCESS,
                   (Some (keep_header old (power_properties_info_base props)), ext'))))))"

definition zesPowerGetEnergyCounter ::
  "stub \<Rightarrow> u64 \<Rightarrow> zes_power_energy_counter_t option \<Rightarrow> (zes_power_energy_counter_t option) api_result" where [stub_defs]:
  "zesPowerGetEnergyCounter w hPower pEnergy = locked w (\<lambda>s.
     prologue s hPower (resolve_power s hPower) UNSUPPORTED_FEATURE_POWER_GET_ENERGY_COUNTER
       (\<lambda>pw. rv_zesPowerGetEnergyCounter (power_return_values pw)) pEnergy
       (\<lambda>pw. copy_src_first overwrite (power_energy_counter pw) pEnergy))"

definition zesPowerGetLimitsExt ::
  "stub \<Rightarrow> u64 \<Rightarrow> u32 option \<Rightarrow> zes_power_limit_ext_desc_t list option \<Rightarrow> ((u32 option \<times> zes_power_limit_ext_desc_t list option)) api_result" where [stub_defs]:
  "zesPowerGetLimitsExt w hPower pCount pSustained = locked w (\<lambda>s.
     prologue s hPower (resolve_power s hPower) UNSUPPORTED_FEATURE_POWER_GET_LIMITS_EXT
       (\<lambda>pw. rv_zesPowerGetLimitsExt (power_return_values pw)) (pCount, pSustained)
       (\<lambda>pw. two_call (power_limits_count pw) (arr_get (power_limits pw)) pCount pSustained))"

definition zesPowerSetLimitsExt ::
  "stub \<Rightarrow> u64 \<Rightarrow> u32 option \<Rightarrow> zes_power_limit_ext_desc_t option \<Rightarrow> (unit) api_result" where [stub_defs]:
  "zesPowerSetLimitsExt w hPower pCount pSustained = locked w (\<lambda>s.
     prologue s hPower (resolve_power s hPower) UNSUPPORTED_FEATURE_POWER_SET_LIMITS_EXT
       (\<lambda>pw. rv_zesPowerSetLimitsExt (power_return_values pw)) ()
       (\<lambda>_. Done (ZE_RESULT_SUCCESS, ())))"

definition zesPowerGetEnergyThreshold ::
  "stub \<Rightarrow> u64 \<Rightarrow> zes_energy_threshold_t option \<Rightarrow> (zes_energy_threshold_t option) api_result" where [stub_defs]:
  "zesPowerGetEnergyThreshold w hPower pThreshold = locked w (\<lambda>s.
     prologue s hPower (resolve_power s hPower) UNSUPPORTED_FEATURE_POWER_GET_ENERGY_THRESHOLD
       (\<lambda>pw. rv_zesPowerGetEnergyThreshold (power_return_values pw)) pThreshold
       (\<lambda>pw. copy_src_first overwrite (power_energy_threshold pw) pThreshold))"

definition zesPowerSetEnergyThreshold ::
  "stub \<Rightarrow> u64 \<Rightarrow> double64 \<Rightarrow> (unit) api_result" where [stub_defs]:
  "zesPowerSetEnergyThreshold w hPower threshold = locked w (\<lambda>s.
     prologue s hPower (resolve_power s hPower) UNSUPPORTED_FEATURE_POWER_SET_ENERGY_THRESHOLD
       (\<lambda>pw. rv_zesPowerSetEnergyThreshold (power_return_values pw)) ()
       (\<lambda>_. Done (ZE_RESULT_SUCCESS, ())))"

section \<open>PSUs\<close>

definition zesDeviceEnumPsus ::
  "stub \<Rightarrow> u64 \<Rightarrow> u32 option \<Rightarrow> u64 list option \<Rightarrow> ((u32 option \<times> u64 list option)) api_result" where [stub_defs]:
  "zesDeviceEnumPsus w hDevice pCount phPsu = locked w (\<lambda>s.
     prologue s hDevice (resolve_device s hDevice) UNSUPPORTED_FEATURE_PSUS
       (\<lambda>dev. rv_zesDeviceEnumPsus (dev_return_values dev)) (pCount, phPsu)
       (\<lambda>dev. two_call (dev_psus_count dev) (component_handles STUB_HANDLE_PSU hDevice) pCount phPsu))"

definition zesPsuGetProperties ::
  "stub \<Rightarrow> u64 \<Rightarrow> zes_psu_properties_t option \<Rightarrow> (zes_psu_properties_t option) api_result" where [stub_defs]:
  "zesPsuGetProperties w hPsu pProperties = locked w (\<lambda>s.
     prologue s hPsu (resolve_psu s hPsu) UNSUPPORTED_FEATURE_PSU_GET_PROPERTIES
       (\<lambda>psu. rv_zesPsuGetProperties (psu_return_values psu)) pProperties
       (\<lambda>psu. copy_src_first keep_header (psu_properties psu) pProperties))"

definition zesPsuGetState ::
  "stub \<Rightarrow> u64 \<Rightarrow> zes_psu_state_t option \<Rightarrow> (zes_psu_state_t option) api_result" where [stub_defs]:
  "zesPsuGetState w hPsu pState = locked w (\<lambda>s.
     prologue s hPsu (resolve_psu s hPsu) UNSUPPORTED_FEATURE_PSU_GET_STATE
       (\<lambda>psu. rv_zesPsuGetState (psu_return_values psu)) pState
       (\<lambda>psu. copy_src_first keep_header (psu_state psu) pState))"

section \<open>RAS\<close>

definition zesDeviceEnumRasErrorSets ::
  "stub \<Rightarrow> u64 \<Rightarrow> u32 option \<Rightarrow> u64 list option \<Rightarrow> ((u32 option \<times> u64 list option)) api_result" where [stub_defs]:
  "zesDeviceEnumRasErrorSets w hDevice pCount phRas = locked w (\<lambda>s.
     prologue s hDevice (resolve_device s hDevice) UNSUPPORTED_FEATURE_RAS_ERROR_SETS
       (\<lambda>dev. rv_zesDeviceEnumRasErrorSets (dev_return_values dev)) (pCount, phRas)
       (\<lambda>dev. two_call (dev_ras_error_sets_count dev) (component_handles STUB_HANDLE_RAS hDevice) pCount phRas))"

definition zesRasGetProperties ::
  "stub \<Rightarrow> u64 \<Rightarrow> zes_ras_properties_t option \<Rightarrow> (zes_ras_properties_t option) api_result" where [stub_defs]:
  "zesRasGetProperties w hRas pProperties = locked w (\<lambda>s.
     prologue s hRas (resolve_ras s hRas) UNSUPPORTED_FEATURE_RAS_GET_PROPERTIES
       (\<lambda>ras. rv_zesRasGetProperties (ras_return_values ras)) pProperties
       (\<lambda>ras. copy_src_first keep_header (ras_properties ras) pProperties))"

definition zesRasGetConfig ::
  "stub \<Rightarrow> u64 \<Rightarrow> zes_ras_config_t option \<Rightarrow> (zes_ras_config_t option) api_result" where [stub_defs]:
  "zesRasGetConfig w hRas pConfig = locked w (\<lambda>s.
     prologue s hRas (resolve_ras s hRas) UNSUPPORTED_FEATURE_RAS_GET_CONFIG
       (\<lambda>ras. rv_zesRasGetConfig (ras_return_values ras)) pConfig
       (\<lambda>ras. copy_src_first keep_header (ras_config ras) pConfig))"

definition zesRasSetConfig ::
  "stub \<Rightarrow> u64 \<Rightarrow> zes_ras_config_t option \<Rightarrow> (unit) api_result" where [stub_defs]:
  "zesRasSetConfig w hRas pConfig = locked w (\<lambda>s.
     prologue s hRas (resolve_ras s hRas) UNSUPPORTED_FEATURE_RAS_SET_CONFIG
       (\<lambda>ras. rv_zesRasSetConfig (ras_return_values ras)) ()
       (\<lambda>_. Done (ZE_RESULT_SUCCESS, ())))"

definition zesRasGetState ::
  "stub \<Rightarrow> u64 \<Rightarrow> ze_bool_t \<Rightarrow> zes_ras_state_t option \<Rightarrow> (zes_ras_state_t option) api_result" where [stub_defs]:
  "zesRasGetState w hRas clear pState = locked w (\<lambda>s.
     prologue s hRas (resolve_ras s hRas) UNSUPPORTED_FEATURE_RAS_GET_STATE
       (\<lambda>ras. rv_zesRasGetState (ras_return_values ras)) pState
       (\<lambda>ras. copy_src_first keep_header (ras_state ras) pState))"

definition zesRasGetStateExp ::
  "stub \<Rightarrow> u64 \<Rightarrow> u32 option \<Rightarrow> zes_ras_state_exp_t list option \<Rightarrow>
   (u32 option \<times> zes_ras_state_exp_t list option) api_result" where [stub_defs]:
  "zesRasGetStateExp w hRas pCount pStates = locked w (\<lambda>s.
     prologue s hRas (resolve_ras s hRas) UNSUPPORTED_FEATURE_RAS_GET_STATE_EXP
       (\<lambda>ras. rv_zesRasGetStateExp (ras_return_values ras)) (pCount, pStates)
       (\<lambda>ras. two_call (ras_state_exp_count ras) (arr_get (ras_state_exp ras)) pCount pStates))"

text \<open>
  The only entry point that writes the state: it stores through the pointer \<^verbatim>\<open>resolve_handle\<close> gave it.
  \<open>put_ras\<close> is the assignment to the object that handle designates.
\<close>

definition upd_arr :: "nat \<Rightarrow> ('a \<Rightarrow> 'a) \<Rightarrow> 'a list cptr \<Rightarrow> 'a list cptr" where
  "upd_arr i f p = (case p of Null \<Rightarrow> Null | Ptr a xs \<Rightarrow> Ptr a (xs[i := f (xs ! i)]))"

definition put_ras :: "u64 \<Rightarrow> sysman_ras_t \<Rightarrow> sysman_state_t \<Rightarrow> sysman_state_t" where
  "put_ras h ras s = (let b = decode_handle h in
     s\<lparr>st_system := (st_system s)\<lparr>sys_drivers := upd_arr (unat (bits_drv b)) (\<lambda>drv.
       drv\<lparr>drv_devices := upd_arr (unat (bits_dev b)) (\<lambda>dev.
         dev\<lparr>dev_ras_error_sets := upd_arr (unat (bits_comp b)) (\<lambda>_. ras) (dev_ras_error_sets dev)\<rparr>)
         (drv_devices drv)\<rparr>) (sys_drivers (st_system s))\<rparr>\<rparr>)"

definition clear_counter :: "nat \<Rightarrow> sysman_ras_t \<Rightarrow> sysman_ras_t" where
  "clear_counter i ras =
     ras\<lparr>ras_state_exp := upd_arr i (\<lambda>e. e\<lparr>ras_state_exp_errorCounter := 0\<rparr>) (ras_state_exp ras)\<rparr>"

definition zesRasClearStateExp :: "stub \<Rightarrow> u64 \<Rightarrow> u32 \<Rightarrow> unit api_result" where [stub_defs]:
  "zesRasClearStateExp w hRas cat = obind (sysman_state_lock w) (\<lambda>w.
     let s = g_sysman_state w in
     obind (resolve_ras s hRas) (\<lambda>r. case r of
       None \<Rightarrow> sysman_unlock_and_return ZE_RESULT_ERROR_INVALID_NULL_HANDLE () w
     | Some ras \<Rightarrow> obind (is_unsupported s hRas UNSUPPORTED_FEATURE_RAS_CLEAR_STATE_EXP) (\<lambda>unsupported.
         if unsupported then sysman_unlock_and_return ZE_RESULT_ERROR_UNSUPPORTED_FEATURE () w
         else if rv_zesRasClearStateExp (ras_return_values ras) \<noteq> 0
         then sysman_unlock_and_return (rv_zesRasClearStateExp (ras_return_values ras)) () w
         else obind (find_loop (arr_get (ras_state_exp ras)) (\<lambda>e. ras_state_exp_category e = cat)
                       0 (unat (ras_state_exp_count ras))) (\<lambda>r. case r of
           None \<Rightarrow> sysman_unlock_and_return ZE_RESULT_ERROR_INVALID_ARGUMENT () w
         | Some i \<Rightarrow> sysman_unlock_and_return ZE_RESULT_SUCCESS ()
             (w\<lparr>g_sysman_state := put_ras hRas (clear_counter i ras) s\<rparr>)))))"

section \<open>Schedulers\<close>

definition zesDeviceEnumSchedulers ::
  "stub \<Rightarrow> u64 \<Rightarrow> u32 option \<Rightarrow> u64 list option \<Rightarrow> ((u32 option \<times> u64 list option)) api_result" where [stub_defs]:
  "zesDeviceEnumSchedulers w hDevice pCount phScheduler = locked w (\<lambda>s.
     prologue s hDevice (resolve_device s hDevice) UNSUPPORTED_FEATURE_SCHEDULERS
       (\<lambda>dev. rv_zesDeviceEnumSchedulers (dev_return_values dev)) (pCount, phScheduler)
       (\<lambda>dev. two_call (dev_schedulers_count dev) (component_handles STUB_HANDLE_SCHED hDevice) pCount phScheduler))"

definition zesSchedulerGetProperties ::
  "stub \<Rightarrow> u64 \<Rightarrow> zes_sched_properties_t option \<Rightarrow> (zes_sched_properties_t option) api_result" where [stub_defs]:
  "zesSchedulerGetProperties w hScheduler pProperties = locked w (\<lambda>s.
     prologue s hScheduler (resolve_sched s hScheduler) UNSUPPORTED_FEATURE_SCHED_GET_PROPERTIES
       (\<lambda>sc. rv_zesSchedulerGetProperties (sched_return_values sc)) pProperties
       (\<lambda>sc. copy_src_first keep_header (sched_properties sc) pProperties))"

definition zesSchedulerGetCurrentMode ::
  "stub \<Rightarrow> u64 \<Rightarrow> u32 option \<Rightarrow> (u32 option) api_result" where [stub_defs]:
  "zesSchedulerGetCurrentMode w hScheduler pMode = locked w (\<lambda>s.
     prologue s hScheduler (resolve_sched s hScheduler) UNSUPPORTED_FEATURE_SCHED_GET_CURRENT_MODE
       (\<lambda>sc. rv_zesSchedulerGetCurrentMode (sched_return_values sc)) pMode
       (\<lambda>sc. put_value pMode (sched_current_mode sc)))"

definition zesSchedulerGetTimeoutModeProperties ::
  "stub \<Rightarrow> u64 \<Rightarrow> ze_bool_t \<Rightarrow> zes_sched_timeout_properties_t option \<Rightarrow> (zes_sched_timeout_properties_t option) api_result" where [stub_defs]:
  "zesSchedulerGetTimeoutModeProperties w hScheduler getDefaults pConfig = locked w (\<lambda>s.
     prologue s hScheduler (resolve_sched s hScheduler) UNSUPPORTED_FEATURE_SCHED_GET_TIMEOUT_MODE_PROPS
       (\<lambda>sc. rv_zesSchedulerGetTimeoutModeProperties (sched_return_values sc)) pConfig
       (\<lambda>sc. copy_src_first keep_header (sched_timeout_mode_properties sc) pConfig))"

definition zesSchedulerGetTimesliceModeProperties ::
  "stub \<Rightarrow> u64 \<Rightarrow> ze_bool_t \<Rightarrow> zes_sched_timeslice_properties_t option \<Rightarrow> (zes_sched_timeslice_properties_t option) api_result" where [stub_defs]:
  "zesSchedulerGetTimesliceModeProperties w hScheduler getDefaults pConfig = locked w (\<lambda>s.
     prologue s hScheduler (resolve_sched s hScheduler) UNSUPPORTED_FEATURE_SCHED_GET_TIMESLICE_MODE_PROPS
       (\<lambda>sc. rv_zesSchedulerGetTimesliceModeProperties (sched_return_values sc)) pConfig
       (\<lambda>sc. copy_src_first keep_header (sched_timeslice_mode_properties sc) pConfig))"

definition zesSchedulerSetTimeoutMode ::
  "stub \<Rightarrow> u64 \<Rightarrow> zes_sched_timeout_properties_t option \<Rightarrow> ze_bool_t option \<Rightarrow> (ze_bool_t option) api_result" where [stub_defs]:
  "zesSchedulerSetTimeoutMode w hScheduler pProperties pNeedReload = locked w (\<lambda>s.
     prologue s hScheduler (resolve_sched s hScheduler) UNSUPPORTED_FEATURE_SCHED_SET_TIMEOUT_MODE
       (\<lambda>sc. rv_zesSchedulerSetTimeoutMode (sched_return_values sc)) pNeedReload
       (\<lambda>sc. put_value pNeedReload (sched_need_reload sc)))"

definition zesSchedulerSetTimesliceMode ::
  "stub \<Rightarrow> u64 \<Rightarrow> zes_sched_timeslice_properties_t option \<Rightarrow> ze_bool_t option \<Rightarrow> ze_bool_t option api_result" where [stub_defs]:
  "zesSchedulerSetTimesliceMode w hScheduler pProperties pNeedReload = locked w (\<lambda>s.
     prologue s hScheduler (resolve_sched s hScheduler) UNSUPPORTED_FEATURE_SCHED_SET_TIMESLICE_MODE
       (\<lambda>sc. rv_zesSchedulerSetTimesliceMode (sched_return_values sc)) pNeedReload
       (\<lambda>sc. if pProperties = None then Done (ZE_RESULT_ERROR_INVALID_NULL_POINTER, pNeedReload)
          else put_value pNeedReload (sched_need_reload sc)))"

definition zesSchedulerSetExclusiveMode ::
  "stub \<Rightarrow> u64 \<Rightarrow> ze_bool_t option \<Rightarrow> (ze_bool_t option) api_result" where [stub_defs]:
  "zesSchedulerSetExclusiveMode w hScheduler pNeedReload = locked w (\<lambda>s.
     prologue s hScheduler (resolve_sched s hScheduler) UNSUPPORTED_FEATURE_SCHED_SET_EXCLUSIVE_MODE
       (\<lambda>sc. rv_zesSchedulerSetExclusiveMode (sched_return_values sc)) pNeedReload
       (\<lambda>sc. put_value pNeedReload (sched_need_reload sc)))"

section \<open>Standby\<close>

definition zesDeviceEnumStandbyDomains ::
  "stub \<Rightarrow> u64 \<Rightarrow> u32 option \<Rightarrow> u64 list option \<Rightarrow> ((u32 option \<times> u64 list option)) api_result" where [stub_defs]:
  "zesDeviceEnumStandbyDomains w hDevice pCount phStandby = locked w (\<lambda>s.
     prologue s hDevice (resolve_device s hDevice) UNSUPPORTED_FEATURE_STANDBY_DOMAINS
       (\<lambda>dev. rv_zesDeviceEnumStandbyDomains (dev_return_values dev)) (pCount, phStandby)
       (\<lambda>dev. two_call (dev_standby_domains_count dev) (component_handles STUB_HANDLE_STANDBY hDevice) pCount phStandby))"

definition zesStandbyGetProperties ::
  "stub \<Rightarrow> u64 \<Rightarrow> zes_standby_properties_t option \<Rightarrow> (zes_standby_properties_t option) api_result" where [stub_defs]:
  "zesStandbyGetProperties w hStandby pProperties = locked w (\<lambda>s.
     prologue s hStandby (resolve_standby s hStandby) UNSUPPORTED_FEATURE_STANDBY_GET_PROPERTIES
       (\<lambda>sb. rv_zesStandbyGetProperties (standby_return_values sb)) pProperties
       (\<lambda>sb. copy_src_first keep_header (standby_properties sb) pProperties))"

definition zesStandbyGetMode ::
  "stub \<Rightarrow> u64 \<Rightarrow> u32 option \<Rightarrow> (u32 option) api_result" where [stub_defs]:
  "zesStandbyGetMode w hStandby pMode = locked w (\<lambda>s.
     prologue s hStandby (resolve_standby s hStandby) UNSUPPORTED_FEATURE_STANDBY_GET_MODE
       (\<lambda>sb. rv_zesStandbyGetMode (standby_return_values sb)) pMode
       (\<lambda>sb. put_value pMode (standby_mode sb)))"

definition zesStandbySetMode ::
  "stub \<Rightarrow> u64 \<Rightarrow> u32 \<Rightarrow> (unit) api_result" where [stub_defs]:
  "zesStandbySetMode w hStandby mode = locked w (\<lambda>s.
     prologue s hStandby (resolve_standby s hStandby) UNSUPPORTED_FEATURE_STANDBY_SET_MODE
       (\<lambda>sb. rv_zesStandbySetMode (standby_return_values sb)) ()
       (\<lambda>_. Done (ZE_RESULT_SUCCESS, ())))"

section \<open>Temperature\<close>

definition zesDeviceEnumTemperatureSensors ::
  "stub \<Rightarrow> u64 \<Rightarrow> u32 option \<Rightarrow> u64 list option \<Rightarrow> ((u32 option \<times> u64 list option)) api_result" where [stub_defs]:
  "zesDeviceEnumTemperatureSensors w hDevice pCount phTemperature = locked w (\<lambda>s.
     prologue s hDevice (resolve_device s hDevice) UNSUPPORTED_FEATURE_TEMPERATURE_SENSORS
       (\<lambda>dev. rv_zesDeviceEnumTemperatureSensors (dev_return_values dev)) (pCount, phTemperature)
       (\<lambda>dev. two_call (dev_temperature_sensors_count dev) (component_handles STUB_HANDLE_TEMP hDevice) pCount phTemperature))"

definition zesTemperatureGetProperties ::
  "stub \<Rightarrow> u64 \<Rightarrow> zes_temp_properties_t option \<Rightarrow> (zes_temp_properties_t option) api_result" where [stub_defs]:
  "zesTemperatureGetProperties w hTemperature pProperties = locked w (\<lambda>s.
     prologue s hTemperature (resolve_temp s hTemperature) UNSUPPORTED_FEATURE_TEMP_GET_PROPERTIES
       (\<lambda>temp. rv_zesTemperatureGetProperties (temp_return_values temp)) pProperties
       (\<lambda>temp. copy_src_first keep_header (temp_properties temp) pProperties))"

definition zesTemperatureGetConfig ::
  "stub \<Rightarrow> u64 \<Rightarrow> zes_temp_config_t option \<Rightarrow> (zes_temp_config_t option) api_result" where [stub_defs]:
  "zesTemperatureGetConfig w hTemperature pConfig = locked w (\<lambda>s.
     prologue s hTemperature (resolve_temp s hTemperature) UNSUPPORTED_FEATURE_TEMP_GET_CONFIG
       (\<lambda>temp. rv_zesTemperatureGetConfig (temp_return_values temp)) pConfig
       (\<lambda>temp. copy_src_first keep_header (temp_config temp) pConfig))"

definition zesTemperatureSetConfig ::
  "stub \<Rightarrow> u64 \<Rightarrow> zes_temp_config_t option \<Rightarrow> (unit) api_result" where [stub_defs]:
  "zesTemperatureSetConfig w hTemperature pConfig = locked w (\<lambda>s.
     prologue s hTemperature (resolve_temp s hTemperature) UNSUPPORTED_FEATURE_TEMP_SET_CONFIG
       (\<lambda>temp. rv_zesTemperatureSetConfig (temp_return_values temp)) ()
       (\<lambda>_. Done (ZE_RESULT_SUCCESS, ())))"

definition zesTemperatureGetState ::
  "stub \<Rightarrow> u64 \<Rightarrow> double64 option \<Rightarrow> (double64 option) api_result" where [stub_defs]:
  "zesTemperatureGetState w hTemperature pTemperature = locked w (\<lambda>s.
     prologue s hTemperature (resolve_temp s hTemperature) UNSUPPORTED_FEATURE_TEMP_GET_STATE
       (\<lambda>temp. rv_zesTemperatureGetState (temp_return_values temp)) pTemperature
       (\<lambda>temp. put_value pTemperature (temp_temperature temp)))"

end
