(* ===== verification/Stub_Contracts.thy ===== *)
theory Stub_Contracts
  imports Stub_Handles Stub_Device Stub_Components
begin

text \<open>
  The contracts the stub's entry points keep. \<open>gated\<close> is the order of the checks an entry point on
  an object makes before it looks at its arguments, \<open>struct_getter\<close> and \<open>value_getter\<close> say what a
  query writes, \<open>array_getter\<close> is the two-call protocol and \<open>enum_contract\<close> (proved once in the
  locale \<open>stub_enum\<close>) that enumeration yields handles that resolve to the enumerated objects.
\<close>

section \<open>Calls on a ready stub\<close>

text \<open>A stub no caller has locked, in a well-formed state.\<close>

definition ready :: "stub \<Rightarrow> bool" where
  "ready w = (\<not> g_state_lock w \<and> wf_state (g_sysman_state w))"

text \<open>A handle designates \<open>c\<close>, the feature is on and no return value is injected.\<close>

definition enabled ::
  "(sysman_state_t \<Rightarrow> u64 \<Rightarrow> 'c option outcome) \<Rightarrow> u32 \<Rightarrow> ('c \<Rightarrow> ze_result_t) \<Rightarrow> stub \<Rightarrow> u64 \<Rightarrow> 'c \<Rightarrow> bool" where
  "enabled resolve flag rv w h c = (ready w \<and> resolve (g_sysman_state w) h = Done (Some c)
     \<and> flag \<notin> unsupported_set (g_sysman_state w) h \<and> rv c = 0)"

lemma prologue_enabled:
  "enabled resolve flag rv w h c \<Longrightarrow>
   prologue (g_sysman_state w) h (resolve (g_sysman_state w) h) flag rv out body = body c"
  by (simp add: enabled_def ready_def prologue_def is_unsupported_wf)

lemma locked_enabled:
  assumes "enabled resolve flag rv w h c" and "body c = Done (r, out')"
  shows "locked w (\<lambda>s. prologue s h (resolve s h) flag rv out body) = Done (r, out', w)"
  using assms by (intro locked_eq) (simp_all add: prologue_enabled, simp add: enabled_def ready_def)

section \<open>The checks before the arguments\<close>

text \<open>
  An entry point on an object reports, in this order and leaving every output as it was: a handle
  that designates no object of its type, a feature switched off, an injected return value.
\<close>

definition gated ::
  "(sysman_state_t \<Rightarrow> u64 \<Rightarrow> 'c option outcome) \<Rightarrow> u32 \<Rightarrow> ('c \<Rightarrow> ze_result_t) \<Rightarrow> 'o \<Rightarrow>
   (stub \<Rightarrow> u64 \<Rightarrow> 'o api_result) \<Rightarrow> bool" where
  "gated resolve flag rv out f = (\<forall>w h. ready w \<longrightarrow>
     (resolve (g_sysman_state w) h = Done None \<longrightarrow> f w h = Done (ZE_RESULT_ERROR_INVALID_NULL_HANDLE, out, w)) \<and>
     (\<forall>c. resolve (g_sysman_state w) h = Done (Some c) \<longrightarrow>
        (flag \<in> unsupported_set (g_sysman_state w) h \<longrightarrow> f w h = Done (ZE_RESULT_ERROR_UNSUPPORTED_FEATURE, out, w)) \<and>
        (flag \<notin> unsupported_set (g_sysman_state w) h \<and> rv c \<noteq> 0 \<longrightarrow> f w h = Done (rv c, out, w))))"

lemma gatedI:
  assumes "\<And>w h. f w h = locked w (\<lambda>s. prologue s h (resolve s h) flag rv out (body h))"
  shows "gated resolve flag rv out f"
  by (auto simp: gated_def assms ready_def prologue_def is_unsupported_wf intro!: locked_eq)

section \<open>Queries\<close>

text \<open>
  A query of an extensible structure writes the configured content and keeps the header the caller
  put in; \<open>both\<close> is what is reported when the caller's pointer and the configured data are both
  missing.
\<close>

definition payload :: "'a zes_hdr_scheme \<Rightarrow> 'a zes_hdr_scheme" where
  "payload x = x\<lparr>stype := 0, pNext := 0\<rparr>"

definition struct_getter ::
  "(sysman_state_t \<Rightarrow> u64 \<Rightarrow> 'c option outcome) \<Rightarrow> u32 \<Rightarrow> ('c \<Rightarrow> ze_result_t) \<Rightarrow> ('c \<Rightarrow> 'v zes_hdr_scheme cptr) \<Rightarrow>
   ze_result_t \<Rightarrow> (stub \<Rightarrow> u64 \<Rightarrow> 'v zes_hdr_scheme option \<Rightarrow> 'v zes_hdr_scheme option api_result) \<Rightarrow> bool" where
  "struct_getter resolve flag rv src both f = (\<forall>w h c. enabled resolve flag rv w h c \<longrightarrow>
     (case src c of
        Null \<Rightarrow> f w h None = Done (both, None, w)
          \<and> (\<forall>old. f w h (Some old) = Done (ZE_RESULT_ERROR_UNSUPPORTED_FEATURE, Some old, w))
      | Ptr _ v \<Rightarrow> f w h None = Done (ZE_RESULT_ERROR_INVALID_NULL_POINTER, None, w)
          \<and> (\<forall>old. \<exists>new. f w h (Some old) = Done (ZE_RESULT_SUCCESS, Some new, w)
               \<and> payload new = payload v \<and> stype new = stype old \<and> pNext new = pNext old)))"

lemma keep_header_simps [simp]:
  "stype (keep_header old new) = stype old" "pNext (keep_header old new) = pNext old"
  "payload (keep_header old new) = payload new"
  by (simp_all add: keep_header_def payload_def)

lemma struct_getter_src_first:
  assumes "\<And>w h p. f w h p = locked w (\<lambda>s. prologue s h (resolve s h) flag rv p (\<lambda>c. copy_src_first keep_header (src c) p))"
  shows "struct_getter resolve flag rv src ZE_RESULT_ERROR_UNSUPPORTED_FEATURE f"
  by (auto simp: struct_getter_def assms copy_src_first_def split: cptr.splits
      intro!: locked_enabled exI [of _ "keep_header _ _"])

lemma struct_getter_arg_first:
  assumes "\<And>w h p. f w h p = locked w (\<lambda>s. prologue s h (resolve s h) flag rv p (\<lambda>c. copy_arg_first keep_header (src c) p))"
  shows "struct_getter resolve flag rv src ZE_RESULT_ERROR_INVALID_NULL_POINTER f"
  by (auto simp: struct_getter_def assms copy_arg_first_def split: cptr.splits
      intro!: locked_enabled exI [of _ "keep_header _ _"])

text \<open>A query of a plain structure, held through a pointer that may be null.\<close>

definition plain_getter ::
  "(sysman_state_t \<Rightarrow> u64 \<Rightarrow> 'c option outcome) \<Rightarrow> u32 \<Rightarrow> ('c \<Rightarrow> ze_result_t) \<Rightarrow> ('c \<Rightarrow> 'v cptr) \<Rightarrow>
   ze_result_t \<Rightarrow> (stub \<Rightarrow> u64 \<Rightarrow> 'v option \<Rightarrow> 'v option api_result) \<Rightarrow> bool" where
  "plain_getter resolve flag rv src both f = (\<forall>w h c. enabled resolve flag rv w h c \<longrightarrow>
     (case src c of
        Null \<Rightarrow> f w h None = Done (both, None, w)
          \<and> (\<forall>old. f w h (Some old) = Done (ZE_RESULT_ERROR_UNSUPPORTED_FEATURE, Some old, w))
      | Ptr _ v \<Rightarrow> f w h None = Done (ZE_RESULT_ERROR_INVALID_NULL_POINTER, None, w)
          \<and> (\<forall>old. f w h (Some old) = Done (ZE_RESULT_SUCCESS, Some v, w))))"

lemma plain_getter_src_first:
  assumes "\<And>w h p. f w h p = locked w (\<lambda>s. prologue s h (resolve s h) flag rv p (\<lambda>c. copy_src_first overwrite (src c) p))"
  shows "plain_getter resolve flag rv src ZE_RESULT_ERROR_UNSUPPORTED_FEATURE f"
  by (auto simp: plain_getter_def assms copy_src_first_def overwrite_def split: cptr.splits
      intro!: locked_enabled)

lemma plain_getter_arg_first:
  assumes "\<And>w h p. f w h p = locked w (\<lambda>s. prologue s h (resolve s h) flag rv p (\<lambda>c. copy_arg_first overwrite (src c) p))"
  shows "plain_getter resolve flag rv src ZE_RESULT_ERROR_INVALID_NULL_POINTER f"
  by (auto simp: plain_getter_def assms copy_arg_first_def overwrite_def split: cptr.splits
      intro!: locked_enabled)

text \<open>A query of a scalar held in the object itself.\<close>

definition value_getter ::
  "(sysman_state_t \<Rightarrow> u64 \<Rightarrow> 'c option outcome) \<Rightarrow> u32 \<Rightarrow> ('c \<Rightarrow> ze_result_t) \<Rightarrow> ('c \<Rightarrow> 'v) \<Rightarrow>
   (stub \<Rightarrow> u64 \<Rightarrow> 'v option \<Rightarrow> 'v option api_result) \<Rightarrow> bool" where
  "value_getter resolve flag rv val f = (\<forall>w h c. enabled resolve flag rv w h c \<longrightarrow>
     f w h None = Done (ZE_RESULT_ERROR_INVALID_NULL_POINTER, None, w)
     \<and> (\<forall>old. f w h (Some old) = Done (ZE_RESULT_SUCCESS, Some (val c), w)))"

lemma value_getterI:
  assumes "\<And>w h p. f w h p = locked w (\<lambda>s. prologue s h (resolve s h) flag rv p (\<lambda>c. put_value p (val c)))"
  shows "value_getter resolve flag rv val f"
  by (auto simp: value_getter_def assms put_value_def intro!: locked_enabled)

section \<open>The two-call protocol\<close>

lemma word_of_nat_unat: "word_of_nat (unat w) = (w :: 'a::len word)"
  by simp

lemma ucast_word_of_nat: "(ucast (word_of_nat i :: u32) :: u16) = word_of_nat i"
  by (rule bit_word_eqI) (auto simp: bit_simps)

lemma unat_min_count: "unat (if c < n then c else (n :: u32)) = min (unat c) (unat n)"
  by (simp add: unat_min_if)

lemma two_call_count: "two_call n src (Some c) None = Done (ZE_RESULT_SUCCESS, (Some n, None))"
  by (simp add: two_call_def)

lemma two_call_fill:
  assumes "\<And>j. j < min (unat c) (unat n) \<Longrightarrow> src j = Done (g j)" and "min (unat c) (unat n) \<le> length b"
  shows "two_call n src (Some c) (Some b) = Done (ZE_RESULT_SUCCESS,
    (Some (if c < n then c else n),
     Some (map g [0..<min (unat c) (unat n)] @ drop (min (unat c) (unat n)) b)))"
  using fill_from_0 [of "min (unat c) (unat n)" src g b] assms
  by (auto simp: two_call_def Let_def unat_min_count simp del: unat_min_if)

lemma map_nth_prefix: "k \<le> length xs \<Longrightarrow> map (\<lambda>i. xs ! i) [0..<k] = take k xs"
  by (simp add: list_eq_iff_nth_eq)

text \<open>
  A query of an array reports the number of elements when it is given no buffer, and otherwise
  copies as many as the caller allows, reports how many, and leaves the rest of the buffer alone.
\<close>

definition array_getter ::
  "(sysman_state_t \<Rightarrow> u64 \<Rightarrow> 'c option outcome) \<Rightarrow> u32 \<Rightarrow> ('c \<Rightarrow> ze_result_t) \<Rightarrow> ('c \<Rightarrow> 'v list cptr) \<Rightarrow>
   (stub \<Rightarrow> u64 \<Rightarrow> u32 option \<Rightarrow> 'v list option \<Rightarrow> (u32 option \<times> 'v list option) api_result) \<Rightarrow> bool" where
  "array_getter resolve flag rv src f = (\<forall>w h c. enabled resolve flag rv w h c \<longrightarrow>
     (let xs = elems (src c) in
      (\<forall>b. f w h None b = Done (ZE_RESULT_ERROR_INVALID_NULL_POINTER, (None, b), w)) \<and>
      (\<forall>n. f w h (Some n) None = Done (ZE_RESULT_SUCCESS, (Some (word_of_nat (length xs)), None), w)) \<and>
      (\<forall>n b. unat n \<le> length b \<longrightarrow> (let k = min (unat n) (length xs) in
         f w h (Some n) (Some b) =
           Done (ZE_RESULT_SUCCESS, (Some (word_of_nat k), Some (take k xs @ drop k b)), w)))))"

lemma array_getterI:
  assumes f: "\<And>w h n b. f w h n b = locked w (\<lambda>s. prologue s h (resolve s h) flag rv (n, b) (\<lambda>c. two_call (cnt c) (arr_get (src c)) n b))"
    and wf: "\<And>w h c. ready w \<Longrightarrow> resolve (g_sysman_state w) h = Done (Some c) \<Longrightarrow> wf_arr (cnt c) (src c)"
  shows "array_getter resolve flag rv src f"
proof -
  have null: "f w h None b = Done (ZE_RESULT_ERROR_INVALID_NULL_POINTER, (None, b), w)"
    and count: "f w h (Some n) None = Done (ZE_RESULT_SUCCESS, (Some (word_of_nat (length (elems (src c)))), None), w)"
    if "enabled resolve flag rv w h c" for w h c n b
  proof -
    have "wf_arr (cnt c) (src c)"
      using that wf by (auto simp: enabled_def)
    then have "cnt c = word_of_nat (length (elems (src c)))"
      using word_of_nat_unat wf_arr_length by metis
    then show "f w h None b = Done (ZE_RESULT_ERROR_INVALID_NULL_POINTER, (None, b), w)"
      "f w h (Some n) None = Done (ZE_RESULT_SUCCESS, (Some (word_of_nat (length (elems (src c)))), None), w)"
      unfolding f by (auto simp: two_call_def intro!: locked_enabled [OF that])
  qed
  have "f w h (Some n) (Some b) = Done (ZE_RESULT_SUCCESS,
      (Some (word_of_nat k), Some (take k (elems (src c)) @ drop k b)), w)"
    if en: "enabled resolve flag rv w h c" and room: "unat n \<le> length b"
      and k: "k = min (unat n) (length (elems (src c)))" for w h c n b k
  proof -
    have wf': "wf_arr (cnt c) (src c)"
      using en wf by (auto simp: enabled_def)
    then have len: "unat (cnt c) = length (elems (src c))"
      by (rule wf_arr_length)
    have "two_call (cnt c) (arr_get (src c)) (Some n) (Some b) = Done (ZE_RESULT_SUCCESS,
        (Some (if n < cnt c then n else cnt c), Some (map (\<lambda>i. elems (src c) ! i) [0..<k] @ drop k b)))"
      using two_call_fill [of n "cnt c" "arr_get (src c)" "\<lambda>i. elems (src c) ! i" b] room wf' k len
      by (simp add: arr_get_wf)
    moreover have "(if n < cnt c then n else cnt c) = word_of_nat k"
      using unat_min_count [of n "cnt c"] k len by (metis word_of_nat_unat)
    ultimately show ?thesis
      unfolding f using k by (intro locked_enabled [OF en]) (simp add: map_nth_prefix)
  qed
  with null count show ?thesis
    by (auto simp: array_getter_def Let_def)
qed

section \<open>Enumeration\<close>

text \<open>
  A device's enumerator, called without a buffer, reports how many components the device has;
  called with a buffer it writes that many handles (or as many as the caller allows), all
  different, and the i-th handle resolves to the i-th component. The handle has sixteen bits for
  the index, hence the bound on the number of components.
\<close>

definition enum_contract ::
  "(stub \<Rightarrow> u64 \<Rightarrow> u32 option \<Rightarrow> u64 list option \<Rightarrow> (u32 option \<times> u64 list option) api_result) \<Rightarrow>
   u32 \<Rightarrow> (sysman_device_state_t \<Rightarrow> ze_result_t) \<Rightarrow> (sysman_device_state_t \<Rightarrow> bool) \<Rightarrow>
   (sysman_device_state_t \<Rightarrow> 'c list cptr) \<Rightarrow> (sysman_state_t \<Rightarrow> u64 \<Rightarrow> 'c option outcome) \<Rightarrow> bool" where
  "enum_contract enum flag rv avail arr resolve = (\<forall>w h dev. enabled resolve_device flag rv w h dev \<and> avail dev \<longrightarrow>
     (\<forall>n. enum w h (Some n) None =
        Done (ZE_RESULT_SUCCESS, (Some (word_of_nat (length (elems (arr dev)))), None), w)) \<and>
     (\<forall>n b. length (elems (arr dev)) \<le> 2 ^ 16 \<and> unat n \<le> length b \<longrightarrow>
        (\<exists>hs. length hs = min (unat n) (length (elems (arr dev))) \<and>
           enum w h (Some n) (Some b) =
             Done (ZE_RESULT_SUCCESS, (Some (word_of_nat (length hs)), Some (hs @ drop (length hs) b)), w) \<and>
           distinct hs \<and>
           (\<forall>i<length hs. resolve (g_sysman_state w) (hs ! i) = Done (Some (elems (arr dev) ! i))))))"

lemma distinct_component_handles:
  "n \<le> 2 ^ 16 \<Longrightarrow> distinct (map (\<lambda>i. MAKE_COMPONENT_HANDLE ht d v (word_of_nat i)) [0..<n])"
proof -
  assume n: "n \<le> 2 ^ 16"
  have "inj_on (\<lambda>i. MAKE_COMPONENT_HANDLE ht d v (word_of_nat i)) {0..<n}"
  proof (rule inj_onI)
    fix i j
    assume ij: "i \<in> {0..<n}" "j \<in> {0..<n}"
      and "MAKE_COMPONENT_HANDLE ht d v (word_of_nat i) = MAKE_COMPONENT_HANDLE ht d v (word_of_nat j)"
    then have "decode_handle (MAKE_COMPONENT_HANDLE ht d v (word_of_nat i)) =
        decode_handle (MAKE_COMPONENT_HANDLE ht d v (word_of_nat j))"
      by simp
    then have "(ucast (word_of_nat i :: u32) :: u16) = ucast (word_of_nat j :: u32)"
      by (simp add: MAKE_COMPONENT_HANDLE_def)
    then have "word_of_nat i = (word_of_nat j :: u16)"
      by (simp add: ucast_word_of_nat)
    then show "i = j"
      using ij n by (intro word_of_nat_inj_small [where 'a = 16]) auto
  qed
  then show ?thesis
    by (simp add: distinct_map)
qed

locale stub_enum = stub_component ht cnt arr mk un resolve
  for ht cnt and arr :: "sysman_device_state_t \<Rightarrow> 'c list cptr" and mk un resolve +
  fixes enum :: "stub \<Rightarrow> u64 \<Rightarrow> u32 option \<Rightarrow> u64 list option \<Rightarrow> (u32 option \<times> u64 list option) api_result"
    and flag :: u32
    and rv :: "sysman_device_state_t \<Rightarrow> ze_result_t"
    and avail :: "sysman_device_state_t \<Rightarrow> bool"
  assumes enumerates: "enum w h n b = locked w (\<lambda>s. prologue s h (resolve_device s h) flag rv (n, b)
    (\<lambda>dev. if avail dev then two_call (cnt dev) (component_handles ht h) n b
       else Done (ZE_RESULT_ERROR_UNSUPPORTED_FEATURE, (n, b))))"
begin

lemma device_of_handle:
  assumes "enabled resolve_device flag rv w h dev"
  shows "device_at (g_sysman_state w) (bits_drv (decode_handle h)) (bits_dev (decode_handle h)) = Some dev"
    and "wf_state (g_sysman_state w)" and "wf_device dev"
  using assms wf_device_at
  by (auto simp: enabled_def ready_def resolve_device_wf Let_def split: if_splits)

lemma cnt_word: "wf_device d \<Longrightarrow> cnt d = word_of_nat (length (elems (arr d)))"
  using cnt_length word_of_nat_unat by metis

lemma enum_fill:
  assumes en: "enabled resolve_device flag rv w h dev" and avail: "avail dev" and room: "unat n \<le> length b"
    and k: "k = min (unat n) (length (elems (arr dev)))"
    and hs: "hs = map (\<lambda>i. MAKE_COMPONENT_HANDLE ht (bits_drv (decode_handle h)) (bits_dev (decode_handle h)) (word_of_nat i)) [0..<k]"
  shows "enum w h (Some n) (Some b) = Done (ZE_RESULT_SUCCESS, (Some (word_of_nat k), Some (hs @ drop k b)), w)"
proof -
  have len: "unat (cnt dev) = length (elems (arr dev))"
    by (rule cnt_length [OF device_of_handle(3) [OF en]])
  have "two_call (cnt dev) (component_handles ht h) (Some n) (Some b) = Done (ZE_RESULT_SUCCESS,
      (Some (if n < cnt dev then n else cnt dev), Some (hs @ drop k b)))"
    unfolding hs k len [symmetric]
    by (rule two_call_fill) (use room in \<open>auto simp: component_handles_def\<close>)
  moreover have "(if n < cnt dev then n else cnt dev) = word_of_nat k"
    using unat_min_count [of n "cnt dev"] k len by (metis word_of_nat_unat)
  ultimately show ?thesis
    unfolding enumerates by (intro locked_enabled [OF en]) (simp add: avail)
qed

lemma contract: "enum_contract enum flag rv avail arr resolve"
  unfolding enum_contract_def
proof (intro allI impI conjI)
  fix w h dev and n :: u32
  assume en: "enabled resolve_device flag rv w h dev \<and> avail dev"
  show "enum w h (Some n) None =
      Done (ZE_RESULT_SUCCESS, (Some (word_of_nat (length (elems (arr dev)))), None), w)"
    unfolding enumerates
    by (rule locked_enabled [of resolve_device]) (use en device_of_handle(3) in \<open>auto simp: two_call_count cnt_word\<close>)
next
  fix w h dev and n :: u32 and b :: "u64 list"
  assume en: "enabled resolve_device flag rv w h dev \<and> avail dev"
    and bound: "length (elems (arr dev)) \<le> 2 ^ 16 \<and> unat n \<le> length b"
  let ?k = "min (unat n) (length (elems (arr dev)))"
  let ?h = "\<lambda>i. MAKE_COMPONENT_HANDLE ht (bits_drv (decode_handle h)) (bits_dev (decode_handle h)) (word_of_nat i)"
  have res: "resolve (g_sysman_state w) (?h i) = Done (Some (elems (arr dev) ! i))" if "i < ?k" for i
    using that bound device_of_handle [of w h dev] en by (intro resolve_made) auto
  have dist: "distinct (map ?h [0..<?k])"
    by (rule distinct_component_handles) (use bound in auto)
  show "\<exists>hs. length hs = ?k \<and>
      enum w h (Some n) (Some b) =
        Done (ZE_RESULT_SUCCESS, (Some (word_of_nat (length hs)), Some (hs @ drop (length hs) b)), w) \<and>
      distinct hs \<and>
      (\<forall>i<length hs. resolve (g_sysman_state w) (hs ! i) = Done (Some (elems (arr dev) ! i)))"
    using enum_fill [of w h dev n b ?k] en bound res dist
    by (intro exI [of _ "map ?h [0..<?k]"]) simp
qed

end

text \<open>The sixteen enumerators of \<^verbatim>\<open>zes_stub.c\<close>.\<close>

interpretation enum_oc: stub_enum STUB_HANDLE_OC oc_count oc_domains ObjOc as_oc resolve_oc
  zesDeviceEnumOverclockDomains UNSUPPORTED_FEATURE_OVERCLOCK_ENUM_DOMAINS
  "\<lambda>d. rv_zesDeviceEnumOverclockDomains (dev_return_values d)" "\<lambda>d. dev_overclock d \<noteq> Null"
  by unfold_locales (auto simp: zesDeviceEnumOverclockDomains_def oc_count_def intro!: arg_cong [of _ _ "locked _"] arg_cong [of _ _ "prologue _ _ _ _ _ _"] ext split: cptr.splits)

interpretation enum_diag: stub_enum STUB_HANDLE_DIAG dev_diagnostics_count dev_diagnostics ObjDiag as_diag resolve_diag
  zesDeviceEnumDiagnosticTestSuites UNSUPPORTED_FEATURE_DIAGNOSTICS_TEST_SUITES
  "\<lambda>d. rv_zesDeviceEnumDiagnosticTestSuites (dev_return_values d)" "\<lambda>_. True"
  by unfold_locales (simp add: zesDeviceEnumDiagnosticTestSuites_def)

interpretation enum_engine: stub_enum STUB_HANDLE_ENGINE dev_engine_groups_count dev_engine_groups ObjEngine as_engine resolve_engine
  zesDeviceEnumEngineGroups UNSUPPORTED_FEATURE_ENGINE_GROUPS
  "\<lambda>d. rv_zesDeviceEnumEngineGroups (dev_return_values d)" "\<lambda>_. True"
  by unfold_locales (simp add: zesDeviceEnumEngineGroups_def)

interpretation enum_fabric_port: stub_enum STUB_HANDLE_FABRIC_PORT dev_fabric_ports_count dev_fabric_ports ObjFabricPort as_fabric_port resolve_fabric_port
  zesDeviceEnumFabricPorts UNSUPPORTED_FEATURE_FABRIC_PORTS
  "\<lambda>d. rv_zesDeviceEnumFabricPorts (dev_return_values d)" "\<lambda>_. True"
  by unfold_locales (simp add: zesDeviceEnumFabricPorts_def)

interpretation enum_fan: stub_enum STUB_HANDLE_FAN dev_fans_count dev_fans ObjFan as_fan resolve_fan
  zesDeviceEnumFans UNSUPPORTED_FEATURE_FANS
  "\<lambda>d. rv_zesDeviceEnumFans (dev_return_values d)" "\<lambda>_. True"
  by unfold_locales (simp add: zesDeviceEnumFans_def)

interpretation enum_firmware: stub_enum STUB_HANDLE_FIRMWARE dev_firmwares_count dev_firmwares ObjFirmware as_firmware resolve_firmware
  zesDeviceEnumFirmwares UNSUPPORTED_FEATURE_FIRMWARES
  "\<lambda>d. rv_zesDeviceEnumFirmwares (dev_return_values d)" "\<lambda>_. True"
  by unfold_locales (simp add: zesDeviceEnumFirmwares_def)

interpretation enum_freq: stub_enum STUB_HANDLE_FREQ dev_frequency_domains_count dev_frequency_domains ObjFreq as_freq resolve_freq
  zesDeviceEnumFrequencyDomains UNSUPPORTED_FEATURE_FREQUENCY_DOMAINS
  "\<lambda>d. rv_zesDeviceEnumFrequencyDomains (dev_return_values d)" "\<lambda>_. True"
  by unfold_locales (simp add: zesDeviceEnumFrequencyDomains_def)

interpretation enum_led: stub_enum STUB_HANDLE_LED dev_leds_count dev_leds ObjLed as_led resolve_led
  zesDeviceEnumLeds UNSUPPORTED_FEATURE_LEDS
  "\<lambda>d. rv_zesDeviceEnumLeds (dev_return_values d)" "\<lambda>_. True"
  by unfold_locales (simp add: zesDeviceEnumLeds_def)

interpretation enum_mem: stub_enum STUB_HANDLE_MEM dev_memory_modules_count dev_memory_modules ObjMem as_mem resolve_mem
  zesDeviceEnumMemoryModules UNSUPPORTED_FEATURE_MEMORY_MODULES
  "\<lambda>d. rv_zesDeviceEnumMemoryModules (dev_return_values d)" "\<lambda>_. True"
  by unfold_locales (simp add: zesDeviceEnumMemoryModules_def)

interpretation enum_perf: stub_enum STUB_HANDLE_PERF dev_performance_domains_count dev_performance_domains ObjPerf as_perf resolve_perf
  zesDeviceEnumPerformanceFactorDomains UNSUPPORTED_FEATURE_PERFORMANCE_DOMAINS
  "\<lambda>d. rv_zesDeviceEnumPerformanceFactorDomains (dev_return_values d)" "\<lambda>_. True"
  by unfold_locales (simp add: zesDeviceEnumPerformanceFactorDomains_def)

interpretation enum_power: stub_enum STUB_HANDLE_PWR dev_power_domains_count dev_power_domains ObjPower as_power resolve_power
  zesDeviceEnumPowerDomains UNSUPPORTED_FEATURE_POWER_DOMAINS
  "\<lambda>d. rv_zesDeviceEnumPowerDomains (dev_return_values d)" "\<lambda>_. True"
  by unfold_locales (simp add: zesDeviceEnumPowerDomains_def)

interpretation enum_psu: stub_enum STUB_HANDLE_PSU dev_psus_count dev_psus ObjPsu as_psu resolve_psu
  zesDeviceEnumPsus UNSUPPORTED_FEATURE_PSUS
  "\<lambda>d. rv_zesDeviceEnumPsus (dev_return_values d)" "\<lambda>_. True"
  by unfold_locales (simp add: zesDeviceEnumPsus_def)

interpretation enum_ras: stub_enum STUB_HANDLE_RAS dev_ras_error_sets_count dev_ras_error_sets ObjRas as_ras resolve_ras
  zesDeviceEnumRasErrorSets UNSUPPORTED_FEATURE_RAS_ERROR_SETS
  "\<lambda>d. rv_zesDeviceEnumRasErrorSets (dev_return_values d)" "\<lambda>_. True"
  by unfold_locales (simp add: zesDeviceEnumRasErrorSets_def)

interpretation enum_sched: stub_enum STUB_HANDLE_SCHED dev_schedulers_count dev_schedulers ObjSched as_sched resolve_sched
  zesDeviceEnumSchedulers UNSUPPORTED_FEATURE_SCHEDULERS
  "\<lambda>d. rv_zesDeviceEnumSchedulers (dev_return_values d)" "\<lambda>_. True"
  by unfold_locales (simp add: zesDeviceEnumSchedulers_def)

interpretation enum_standby: stub_enum STUB_HANDLE_STANDBY dev_standby_domains_count dev_standby_domains ObjStandby as_standby resolve_standby
  zesDeviceEnumStandbyDomains UNSUPPORTED_FEATURE_STANDBY_DOMAINS
  "\<lambda>d. rv_zesDeviceEnumStandbyDomains (dev_return_values d)" "\<lambda>_. True"
  by unfold_locales (simp add: zesDeviceEnumStandbyDomains_def)

interpretation enum_temp: stub_enum STUB_HANDLE_TEMP dev_temperature_sensors_count dev_temperature_sensors ObjTemp as_temp resolve_temp
  zesDeviceEnumTemperatureSensors UNSUPPORTED_FEATURE_TEMPERATURE_SENSORS
  "\<lambda>d. rv_zesDeviceEnumTemperatureSensors (dev_return_values d)" "\<lambda>_. True"
  by unfold_locales (simp add: zesDeviceEnumTemperatureSensors_def)

end
