(* ===== verification/Stub_Api.thy ===== *)
theory Stub_Api
  imports Stub_Contracts
begin

text \<open>
  The contracts of \<^verbatim>\<open>Stub_Contracts\<close> proved of the stub's entry points: enumeration, queries and the
  order of the error checks for every component type, and the entry points with a behaviour of
  their own (process list, console log, overclock controls, fabric throughput, RAS counters).
\<close>

section \<open>Enumeration\<close>

text \<open>
  C1. For every one of the sixteen component types, on a ready stub whose device handle resolves:
  the enumerator without a buffer reports the number of components, and with a buffer it writes
  distinct handles, the i-th of which resolves to the device's i-th component of that type; the
  rest of the buffer and the stub are unchanged. (At most 65536 components: the handle has sixteen
  bits for the index.)
\<close>


theorem enumerators_correct:
  "enum_contract zesDeviceEnumOverclockDomains UNSUPPORTED_FEATURE_OVERCLOCK_ENUM_DOMAINS (\<lambda>d. rv_zesDeviceEnumOverclockDomains (dev_return_values d))
       (\<lambda>d. dev_overclock d \<noteq> Null) oc_domains resolve_oc
   \<and> enum_contract zesDeviceEnumDiagnosticTestSuites UNSUPPORTED_FEATURE_DIAGNOSTICS_TEST_SUITES (\<lambda>d. rv_zesDeviceEnumDiagnosticTestSuites (dev_return_values d))
       (\<lambda>_. True) dev_diagnostics resolve_diag
   \<and> enum_contract zesDeviceEnumEngineGroups UNSUPPORTED_FEATURE_ENGINE_GROUPS (\<lambda>d. rv_zesDeviceEnumEngineGroups (dev_return_values d))
       (\<lambda>_. True) dev_engine_groups resolve_engine
   \<and> enum_contract zesDeviceEnumFabricPorts UNSUPPORTED_FEATURE_FABRIC_PORTS (\<lambda>d. rv_zesDeviceEnumFabricPorts (dev_return_values d))
       (\<lambda>_. True) dev_fabric_ports resolve_fabric_port
   \<and> enum_contract zesDeviceEnumFans UNSUPPORTED_FEATURE_FANS (\<lambda>d. rv_zesDeviceEnumFans (dev_return_values d))
       (\<lambda>_. True) dev_fans resolve_fan
   \<and> enum_contract zesDeviceEnumFirmwares UNSUPPORTED_FEATURE_FIRMWARES (\<lambda>d. rv_zesDeviceEnumFirmwares (dev_return_values d))
       (\<lambda>_. True) dev_firmwares resolve_firmware
   \<and> enum_contract zesDeviceEnumFrequencyDomains UNSUPPORTED_FEATURE_FREQUENCY_DOMAINS (\<lambda>d. rv_zesDeviceEnumFrequencyDomains (dev_return_values d))
       (\<lambda>_. True) dev_frequency_domains resolve_freq
   \<and> enum_contract zesDeviceEnumLeds UNSUPPORTED_FEATURE_LEDS (\<lambda>d. rv_zesDeviceEnumLeds (dev_return_values d))
       (\<lambda>_. True) dev_leds resolve_led
   \<and> enum_contract zesDeviceEnumMemoryModules UNSUPPORTED_FEATURE_MEMORY_MODULES (\<lambda>d. rv_zesDeviceEnumMemoryModules (dev_return_values d))
       (\<lambda>_. True) dev_memory_modules resolve_mem
   \<and> enum_contract zesDeviceEnumPerformanceFactorDomains UNSUPPORTED_FEATURE_PERFORMANCE_DOMAINS (\<lambda>d. rv_zesDeviceEnumPerformanceFactorDomains (dev_return_values d))
       (\<lambda>_. True) dev_performance_domains resolve_perf
   \<and> enum_contract zesDeviceEnumPowerDomains UNSUPPORTED_FEATURE_POWER_DOMAINS (\<lambda>d. rv_zesDeviceEnumPowerDomains (dev_return_values d))
       (\<lambda>_. True) dev_power_domains resolve_power
   \<and> enum_contract zesDeviceEnumPsus UNSUPPORTED_FEATURE_PSUS (\<lambda>d. rv_zesDeviceEnumPsus (dev_return_values d))
       (\<lambda>_. True) dev_psus resolve_psu
   \<and> enum_contract zesDeviceEnumRasErrorSets UNSUPPORTED_FEATURE_RAS_ERROR_SETS (\<lambda>d. rv_zesDeviceEnumRasErrorSets (dev_return_values d))
       (\<lambda>_. True) dev_ras_error_sets resolve_ras
   \<and> enum_contract zesDeviceEnumSchedulers UNSUPPORTED_FEATURE_SCHEDULERS (\<lambda>d. rv_zesDeviceEnumSchedulers (dev_return_values d))
       (\<lambda>_. True) dev_schedulers resolve_sched
   \<and> enum_contract zesDeviceEnumStandbyDomains UNSUPPORTED_FEATURE_STANDBY_DOMAINS (\<lambda>d. rv_zesDeviceEnumStandbyDomains (dev_return_values d))
       (\<lambda>_. True) dev_standby_domains resolve_standby
   \<and> enum_contract zesDeviceEnumTemperatureSensors UNSUPPORTED_FEATURE_TEMPERATURE_SENSORS (\<lambda>d. rv_zesDeviceEnumTemperatureSensors (dev_return_values d))
       (\<lambda>_. True) dev_temperature_sensors resolve_temp"
  by (intro conjI enum_oc.contract
      enum_diag.contract
      enum_engine.contract
      enum_fabric_port.contract
      enum_fan.contract
      enum_firmware.contract
      enum_freq.contract
      enum_led.contract
      enum_mem.contract
      enum_perf.contract
      enum_power.contract
      enum_psu.contract
      enum_ras.contract
      enum_sched.contract
      enum_standby.contract
      enum_temp.contract)

section \<open>The order of the checks\<close>

lemma gated_clear: "gated resolve_ras UNSUPPORTED_FEATURE_RAS_CLEAR_STATE_EXP
    (\<lambda>x. rv_zesRasClearStateExp (ras_return_values x)) () (\<lambda>w h. zesRasClearStateExp w h k)"
  by (auto simp: gated_def zesRasClearStateExp_def ready_def is_unsupported_wf Let_def
      sysman_unlock_and_return_def sysman_state_unlock_def sysman_state_lock_def)

lemma gated_state: "gated resolve_device UNSUPPORTED_FEATURE_OVERCLOCK_READ_STATE
    (\<lambda>x. rv_zesDeviceReadOverclockState (dev_return_values x)) (a, b, c, d, e)
    (\<lambda>w h. zesDeviceReadOverclockState w h a b c d e)"
  by (rule gatedI) (simp add: zesDeviceReadOverclockState_def Let_def)


text \<open>
  Every entry point on a driver, device, overclock domain or diagnostic suite reports, before it
  looks at its other arguments and leaving its outputs and the stub as they were: an invalid
  handle, then a feature switched off in the configuration, then an injected return value.
\<close>

theorem device_calls_gated:
  "(\<forall>pCount buf. gated resolve_driver UNSUPPORTED_FEATURE_GET_EXT_PROPERTIES (\<lambda>x. rv_zesDriverGetExtensionProperties (drv_return_values x)) (pCount, buf) (\<lambda>w hDriver. zesDriverGetExtensionProperties w hDriver pCount buf))
   \<and> (\<forall>pCount buf. gated resolve_driver UNSUPPORTED_FEATURE_DRIVER_DEVICE_GET (\<lambda>x. rv_zesDeviceGet (drv_return_values x)) (pCount, buf) (\<lambda>w hDriver. zesDeviceGet w hDriver pCount buf))
   \<and> (\<forall>p x. gated resolve_device UNSUPPORTED_FEATURE_GET_PROPERTIES (\<lambda>x. rv_zesDeviceGetProperties (dev_return_values x)) (p, x) (\<lambda>w h. zesDeviceGetProperties w h p x))
   \<and> (\<forall>pState. gated resolve_device UNSUPPORTED_FEATURE_GET_STATE (\<lambda>x. rv_zesDeviceGetState (dev_return_values x)) pState (\<lambda>w hDevice. zesDeviceGetState w hDevice pState))
   \<and> (\<forall>force. gated resolve_device UNSUPPORTED_FEATURE_DEVICE_RESET (\<lambda>x. rv_zesDeviceReset (dev_return_values x)) () (\<lambda>w hDevice. zesDeviceReset w hDevice force))
   \<and> (\<forall>pProperties. gated resolve_device UNSUPPORTED_FEATURE_DEVICE_RESET_EXT (\<lambda>x. rv_zesDeviceResetExt (dev_return_values x)) () (\<lambda>w hDevice. zesDeviceResetExt w hDevice pProperties))
   \<and> (\<forall>n b. gated resolve_device UNSUPPORTED_FEATURE_PROCESSES_GET_STATE (\<lambda>x. rv_zesDeviceProcessesGetState (dev_return_values x)) (n, b) (\<lambda>w h. zesDeviceProcessesGetState w h n b))
   \<and> (\<forall>p x. gated resolve_device UNSUPPORTED_FEATURE_PCI_GET_PROPERTIES (\<lambda>x. rv_zesDevicePciGetProperties (dev_return_values x)) (p, x) (\<lambda>w h. zesDevicePciGetProperties w h p x))
   \<and> (\<forall>p x. gated resolve_device UNSUPPORTED_FEATURE_PCI_GET_STATE (\<lambda>x. rv_zesDevicePciGetState (dev_return_values x)) (p, x) (\<lambda>w h. zesDevicePciGetState w h p x))
   \<and> (\<forall>pCount pProperties. gated resolve_device UNSUPPORTED_FEATURE_PCI_GET_BARS (\<lambda>x. rv_zesDevicePciGetBars (dev_return_values x)) (pCount, pProperties) (\<lambda>w hDevice. zesDevicePciGetBars w hDevice pCount pProperties))
   \<and> (\<forall>pStats. gated resolve_device UNSUPPORTED_FEATURE_PCI_GET_STATS (\<lambda>x. rv_zesDevicePciGetStats (dev_return_values x)) pStats (\<lambda>w hDevice. zesDevicePciGetStats w hDevice pStats))
   \<and> (gated resolve_device UNSUPPORTED_FEATURE_SET_OVERCLOCK_WAIVER (\<lambda>x. rv_zesDeviceSetOverclockWaiver (dev_return_values x)) () (\<lambda>w hDevice. zesDeviceSetOverclockWaiver w hDevice))
   \<and> (\<forall>p. gated resolve_device UNSUPPORTED_FEATURE_OVERCLOCK_DOMAINS (\<lambda>x. rv_zesDeviceGetOverclockDomains (dev_return_values x)) p (\<lambda>w h. zesDeviceGetOverclockDomains w h p))
   \<and> (\<forall>t p. gated resolve_device UNSUPPORTED_FEATURE_GET_OVERCLOCK_CONTROLS (\<lambda>x. rv_zesDeviceGetOverclockControls (dev_return_values x)) p (\<lambda>w h. zesDeviceGetOverclockControls w h t p))
   \<and> (\<forall>onShippedState. gated resolve_device UNSUPPORTED_FEATURE_OVERCLOCK_RESET_SETTINGS (\<lambda>x. rv_zesDeviceResetOverclockSettings (dev_return_values x)) () (\<lambda>w hDevice. zesDeviceResetOverclockSettings w hDevice onShippedState))
   \<and> (\<forall>a b c d e. gated resolve_device UNSUPPORTED_FEATURE_OVERCLOCK_READ_STATE (\<lambda>x. rv_zesDeviceReadOverclockState (dev_return_values x)) (a, b, c, d, e) (\<lambda>w h. zesDeviceReadOverclockState w h a b c d e))
   \<and> (\<forall>n b. gated resolve_device UNSUPPORTED_FEATURE_OVERCLOCK_ENUM_DOMAINS (\<lambda>x. rv_zesDeviceEnumOverclockDomains (dev_return_values x)) (n, b) (\<lambda>w h. zesDeviceEnumOverclockDomains w h n b))
   \<and> (\<forall>pDomainProperties. gated resolve_oc UNSUPPORTED_FEATURE_OC_GET_DOMAIN_PROPERTIES (\<lambda>x. rv_zesOverclockGetDomainProperties (oc_return_values x)) pDomainProperties (\<lambda>w hDomainHandle. zesOverclockGetDomainProperties w hDomainHandle pDomainProperties))
   \<and> (\<forall>pVFProperties. gated resolve_oc UNSUPPORTED_FEATURE_OC_GET_DOMAIN_VF_PROPERTIES (\<lambda>x. rv_zesOverclockGetDomainVFProperties (oc_return_values x)) pVFProperties (\<lambda>w hDomainHandle. zesOverclockGetDomainVFProperties w hDomainHandle pVFProperties))
   \<and> (\<forall>t p. gated resolve_oc UNSUPPORTED_FEATURE_OC_GET_DOMAIN_CONTROL_PROPERTIES (\<lambda>x. rv_zesOverclockGetDomainControlProperties (oc_return_values x)) p (\<lambda>w h. zesOverclockGetDomainControlProperties w h t p))
   \<and> (\<forall>t p. gated resolve_oc UNSUPPORTED_FEATURE_OC_GET_CONTROL_CURRENT_VALUE (\<lambda>x. rv_zesOverclockGetControlCurrentValue (oc_return_values x)) p (\<lambda>w h. zesOverclockGetControlCurrentValue w h t p))
   \<and> (\<forall>t p. gated resolve_oc UNSUPPORTED_FEATURE_OC_GET_CONTROL_PENDING_VALUE (\<lambda>x. rv_zesOverclockGetControlPendingValue (oc_return_values x)) p (\<lambda>w h. zesOverclockGetControlPendingValue w h t p))
   \<and> (\<forall>DomainControl pValue pPendingAction. gated resolve_oc UNSUPPORTED_FEATURE_OC_SET_CONTROL_USER_VALUE (\<lambda>x. rv_zesOverclockSetControlUserValue (oc_return_values x)) () (\<lambda>w hDomainHandle. zesOverclockSetControlUserValue w hDomainHandle DomainControl pValue pPendingAction))
   \<and> (\<forall>t a b. gated resolve_oc UNSUPPORTED_FEATURE_OC_GET_CONTROL_STATE (\<lambda>x. rv_zesOverclockGetControlState (oc_return_values x)) (a, b) (\<lambda>w h. zesOverclockGetControlState w h t a b))
   \<and> (\<forall>a b i p. gated resolve_oc UNSUPPORTED_FEATURE_OC_GET_VF_POINT_VALUES (\<lambda>x. rv_zesOverclockGetVFPointValues (oc_return_values x)) p (\<lambda>w h. zesOverclockGetVFPointValues w h a b i p))
   \<and> (\<forall>VFType PointIndex PointValue. gated resolve_oc UNSUPPORTED_FEATURE_OC_SET_VF_POINT_VALUES (\<lambda>x. rv_zesOverclockSetVFPointValues (oc_return_values x)) () (\<lambda>w hDomainHandle. zesOverclockSetVFPointValues w hDomainHandle VFType PointIndex PointValue))
   \<and> (\<forall>pCount phDiagnostics. gated resolve_device UNSUPPORTED_FEATURE_DIAGNOSTICS_TEST_SUITES (\<lambda>x. rv_zesDeviceEnumDiagnosticTestSuites (dev_return_values x)) (pCount, phDiagnostics) (\<lambda>w hDevice. zesDeviceEnumDiagnosticTestSuites w hDevice pCount phDiagnostics))
   \<and> (\<forall>pProperties. gated resolve_diag UNSUPPORTED_FEATURE_DIAG_GET_PROPERTIES (\<lambda>x. rv_zesDiagnosticsGetProperties (diag_return_values x)) pProperties (\<lambda>w hDiagnostics. zesDiagnosticsGetProperties w hDiagnostics pProperties))
   \<and> (\<forall>pCount pTests. gated resolve_diag UNSUPPORTED_FEATURE_DIAG_GET_TESTS (\<lambda>x. rv_zesDiagnosticsGetTests (diag_return_values x)) (pCount, pTests) (\<lambda>w hDiagnostics. zesDiagnosticsGetTests w hDiagnostics pCount pTests))
   \<and> (\<forall>startIndex endIndex pResult. gated resolve_diag UNSUPPORTED_FEATURE_DIAG_RUN_TESTS (\<lambda>x. rv_zesDiagnosticsRunTests (diag_return_values x)) pResult (\<lambda>w hDiagnostics. zesDiagnosticsRunTests w hDiagnostics startIndex endIndex pResult))
   \<and> (\<forall>p. gated resolve_device UNSUPPORTED_FEATURE_ECC (\<lambda>x. rv_zesDeviceEccAvailable (dev_return_values x)) p (\<lambda>w h. zesDeviceEccAvailable w h p))
   \<and> (\<forall>p. gated resolve_device UNSUPPORTED_FEATURE_ECC_CONFIGURABLE (\<lambda>x. rv_zesDeviceEccConfigurable (dev_return_values x)) p (\<lambda>w h. zesDeviceEccConfigurable w h p))
   \<and> (\<forall>p x. gated resolve_device UNSUPPORTED_FEATURE_ECC_GET_STATE (\<lambda>x. rv_zesDeviceGetEccState (dev_return_values x)) (p, x) (\<lambda>w h. zesDeviceGetEccState w h p x))
   \<and> (\<forall>a p. gated resolve_device UNSUPPORTED_FEATURE_ECC_SET_STATE (\<lambda>x. rv_zesDeviceSetEccState (dev_return_values x)) p (\<lambda>w h. zesDeviceSetEccState w h a p))"
  by (intro conjI allI gated_clear gated_state gatedI) (simp_all only: zesDriverGetExtensionProperties_def
      zesDeviceGet_def
      zesDeviceGetProperties_def
      zesDeviceGetState_def
      zesDeviceReset_def
      zesDeviceResetExt_def
      zesDeviceProcessesGetState_def
      zesDevicePciGetProperties_def
      zesDevicePciGetState_def
      zesDevicePciGetBars_def
      zesDevicePciGetStats_def
      zesDeviceSetOverclockWaiver_def
      zesDeviceGetOverclockDomains_def
      zesDeviceGetOverclockControls_def
      zesDeviceResetOverclockSettings_def
      zesDeviceEnumOverclockDomains_def
      zesOverclockGetDomainProperties_def
      zesOverclockGetDomainVFProperties_def
      zesOverclockGetDomainControlProperties_def
      zesOverclockGetControlCurrentValue_def
      zesOverclockGetControlPendingValue_def
      zesOverclockSetControlUserValue_def
      zesOverclockGetControlState_def
      zesOverclockGetVFPointValues_def
      zesOverclockSetVFPointValues_def
      zesDeviceEnumDiagnosticTestSuites_def
      zesDiagnosticsGetProperties_def
      zesDiagnosticsGetTests_def
      zesDiagnosticsRunTests_def
      zesDeviceEccAvailable_def
      zesDeviceEccConfigurable_def
      zesDeviceGetEccState_def
      zesDeviceSetEccState_def)

text \<open>
  C9. The same for every entry point on a component: engines, fabric ports, fans, firmware,
  frequency domains, LEDs, memory, performance factors, power, PSUs, RAS error sets, schedulers,
  standby domains and temperature sensors.
\<close>

theorem component_calls_gated:
  "(\<forall>pCount phEngine. gated resolve_device UNSUPPORTED_FEATURE_ENGINE_GROUPS (\<lambda>x. rv_zesDeviceEnumEngineGroups (dev_return_values x)) (pCount, phEngine) (\<lambda>w hDevice. zesDeviceEnumEngineGroups w hDevice pCount phEngine))
   \<and> (\<forall>p x. gated resolve_engine UNSUPPORTED_FEATURE_ENGINE_GET_PROPERTIES (\<lambda>x. rv_zesEngineGetProperties (engine_return_values x)) (p, x) (\<lambda>w h. zesEngineGetProperties w h p x))
   \<and> (\<forall>pStats. gated resolve_engine UNSUPPORTED_FEATURE_ENGINE_GET_ACTIVITY (\<lambda>x. rv_zesEngineGetActivity (engine_return_values x)) pStats (\<lambda>w hEngine. zesEngineGetActivity w hEngine pStats))
   \<and> (\<forall>pCount pStats. gated resolve_engine UNSUPPORTED_FEATURE_ENGINE_GET_ACTIVITY_EXT (\<lambda>x. rv_zesEngineGetActivityExt (engine_return_values x)) (pCount, pStats) (\<lambda>w hEngine. zesEngineGetActivityExt w hEngine pCount pStats))
   \<and> (\<forall>events. gated resolve_device UNSUPPORTED_FEATURE_EVENT_REGISTER (\<lambda>x. rv_zesDeviceEventRegister (dev_return_values x)) () (\<lambda>w hDevice. zesDeviceEventRegister w hDevice events))
   \<and> (\<forall>pCount phPort. gated resolve_device UNSUPPORTED_FEATURE_FABRIC_PORTS (\<lambda>x. rv_zesDeviceEnumFabricPorts (dev_return_values x)) (pCount, phPort) (\<lambda>w hDevice. zesDeviceEnumFabricPorts w hDevice pCount phPort))
   \<and> (\<forall>pProperties. gated resolve_fabric_port UNSUPPORTED_FEATURE_FABRIC_PORT_GET_PROPERTIES (\<lambda>x. rv_zesFabricPortGetProperties (fabric_port_return_values x)) pProperties (\<lambda>w hPort. zesFabricPortGetProperties w hPort pProperties))
   \<and> (\<forall>pLinkType. gated resolve_fabric_port UNSUPPORTED_FEATURE_FABRIC_PORT_GET_LINK_TYPE (\<lambda>x. rv_zesFabricPortGetLinkType (fabric_port_return_values x)) pLinkType (\<lambda>w hPort. zesFabricPortGetLinkType w hPort pLinkType))
   \<and> (\<forall>pConfig. gated resolve_fabric_port UNSUPPORTED_FEATURE_FABRIC_PORT_GET_CONFIG (\<lambda>x. rv_zesFabricPortGetConfig (fabric_port_return_values x)) pConfig (\<lambda>w hPort. zesFabricPortGetConfig w hPort pConfig))
   \<and> (\<forall>pConfig. gated resolve_fabric_port UNSUPPORTED_FEATURE_FABRIC_PORT_SET_CONFIG (\<lambda>x. rv_zesFabricPortSetConfig (fabric_port_return_values x)) () (\<lambda>w hPort. zesFabricPortSetConfig w hPort pConfig))
   \<and> (\<forall>pState. gated resolve_fabric_port UNSUPPORTED_FEATURE_FABRIC_PORT_GET_STATE (\<lambda>x. rv_zesFabricPortGetState (fabric_port_return_values x)) pState (\<lambda>w hPort. zesFabricPortGetState w hPort pState))
   \<and> (\<forall>pThroughput. gated resolve_fabric_port UNSUPPORTED_FEATURE_FABRIC_PORT_GET_THROUGHPUT (\<lambda>x. rv_zesFabricPortGetThroughput (fabric_port_return_values x)) pThroughput (\<lambda>w hPort. zesFabricPortGetThroughput w hPort pThroughput))
   \<and> (\<forall>pErrors. gated resolve_fabric_port UNSUPPORTED_FEATURE_FABRIC_PORT_GET_ERROR_COUNTERS (\<lambda>x. rv_zesFabricPortGetFabricErrorCounters (fabric_port_return_values x)) pErrors (\<lambda>w hPort. zesFabricPortGetFabricErrorCounters w hPort pErrors))
   \<and> (\<forall>pCount phFan. gated resolve_device UNSUPPORTED_FEATURE_FANS (\<lambda>x. rv_zesDeviceEnumFans (dev_return_values x)) (pCount, phFan) (\<lambda>w hDevice. zesDeviceEnumFans w hDevice pCount phFan))
   \<and> (\<forall>pProperties. gated resolve_fan UNSUPPORTED_FEATURE_FAN_GET_PROPERTIES (\<lambda>x. rv_zesFanGetProperties (fan_return_values x)) pProperties (\<lambda>w hFan. zesFanGetProperties w hFan pProperties))
   \<and> (\<forall>pConfig. gated resolve_fan UNSUPPORTED_FEATURE_FAN_GET_CONFIG (\<lambda>x. rv_zesFanGetConfig (fan_return_values x)) pConfig (\<lambda>w hFan. zesFanGetConfig w hFan pConfig))
   \<and> (gated resolve_fan UNSUPPORTED_FEATURE_FAN_SET_DEFAULT_MODE (\<lambda>x. rv_zesFanSetDefaultMode (fan_return_values x)) () (\<lambda>w hFan. zesFanSetDefaultMode w hFan))
   \<and> (\<forall>speed. gated resolve_fan UNSUPPORTED_FEATURE_FAN_SET_FIXED_SPEED_MODE (\<lambda>x. rv_zesFanSetFixedSpeedMode (fan_return_values x)) () (\<lambda>w hFan. zesFanSetFixedSpeedMode w hFan speed))
   \<and> (\<forall>speedTable. gated resolve_fan UNSUPPORTED_FEATURE_FAN_SET_SPEED_TABLE_MODE (\<lambda>x. rv_zesFanSetSpeedTableMode (fan_return_values x)) () (\<lambda>w hFan. zesFanSetSpeedTableMode w hFan speedTable))
   \<and> (\<forall>units pSpeed. gated resolve_fan UNSUPPORTED_FEATURE_FAN_GET_STATE (\<lambda>x. rv_zesFanGetState (fan_return_values x)) pSpeed (\<lambda>w hFan. zesFanGetState w hFan units pSpeed))
   \<and> (\<forall>pCount phFirmware. gated resolve_device UNSUPPORTED_FEATURE_FIRMWARES (\<lambda>x. rv_zesDeviceEnumFirmwares (dev_return_values x)) (pCount, phFirmware) (\<lambda>w hDevice. zesDeviceEnumFirmwares w hDevice pCount phFirmware))
   \<and> (\<forall>pProperties. gated resolve_firmware UNSUPPORTED_FEATURE_FW_GET_PROPERTIES (\<lambda>x. rv_zesFirmwareGetProperties (firmware_return_values x)) pProperties (\<lambda>w hFirmware. zesFirmwareGetProperties w hFirmware pProperties))
   \<and> (\<forall>pImage image_size. gated resolve_firmware UNSUPPORTED_FEATURE_FW_FLASH (\<lambda>x. rv_zesFirmwareFlash (firmware_return_values x)) () (\<lambda>w hFirmware. zesFirmwareFlash w hFirmware pImage image_size))
   \<and> (\<forall>pCompletionPercent. gated resolve_firmware UNSUPPORTED_FEATURE_FW_GET_FLASH_PROGRESS (\<lambda>x. rv_zesFirmwareGetFlashProgress (firmware_return_values x)) pCompletionPercent (\<lambda>w hFirmware. zesFirmwareGetFlashProgress w hFirmware pCompletionPercent))
   \<and> (\<forall>n b. gated resolve_firmware UNSUPPORTED_FEATURE_FW_GET_CONSOLE_LOGS (\<lambda>x. rv_zesFirmwareGetConsoleLogs (firmware_return_values x)) (n, b) (\<lambda>w h. zesFirmwareGetConsoleLogs w h n b))
   \<and> (\<forall>pCount phFrequency. gated resolve_device UNSUPPORTED_FEATURE_FREQUENCY_DOMAINS (\<lambda>x. rv_zesDeviceEnumFrequencyDomains (dev_return_values x)) (pCount, phFrequency) (\<lambda>w hDevice. zesDeviceEnumFrequencyDomains w hDevice pCount phFrequency))
   \<and> (\<forall>pProperties. gated resolve_freq UNSUPPORTED_FEATURE_FREQ_GET_PROPERTIES (\<lambda>x. rv_zesFrequencyGetProperties (freq_return_values x)) pProperties (\<lambda>w hFrequency. zesFrequencyGetProperties w hFrequency pProperties))
   \<and> (\<forall>pCount phFrequency. gated resolve_freq UNSUPPORTED_FEATURE_FREQ_GET_AVAILABLE_CLOCKS (\<lambda>x. rv_zesFrequencyGetAvailableClocks (freq_return_values x)) (pCount, phFrequency) (\<lambda>w hFrequency. zesFrequencyGetAvailableClocks w hFrequency pCount phFrequency))
   \<and> (\<forall>pLimits. gated resolve_freq UNSUPPORTED_FEATURE_FREQ_GET_RANGE (\<lambda>x. rv_zesFrequencyGetRange (freq_return_values x)) pLimits (\<lambda>w hFrequency. zesFrequencyGetRange w hFrequency pLimits))
   \<and> (\<forall>pLimits. gated resolve_freq UNSUPPORTED_FEATURE_FREQ_SET_RANGE (\<lambda>x. rv_zesFrequencySetRange (freq_return_values x)) () (\<lambda>w hFrequency. zesFrequencySetRange w hFrequency pLimits))
   \<and> (\<forall>pState. gated resolve_freq UNSUPPORTED_FEATURE_FREQ_GET_STATE (\<lambda>x. rv_zesFrequencyGetState (freq_return_values x)) pState (\<lambda>w hFrequency. zesFrequencyGetState w hFrequency pState))
   \<and> (\<forall>pThrottleTime. gated resolve_freq UNSUPPORTED_FEATURE_FREQ_GET_THROTTLE_TIME (\<lambda>x. rv_zesFrequencyGetThrottleTime (freq_return_values x)) pThrottleTime (\<lambda>w hFrequency. zesFrequencyGetThrottleTime w hFrequency pThrottleTime))
   \<and> (\<forall>pCount phLed. gated resolve_device UNSUPPORTED_FEATURE_LEDS (\<lambda>x. rv_zesDeviceEnumLeds (dev_return_values x)) (pCount, phLed) (\<lambda>w hDevice. zesDeviceEnumLeds w hDevice pCount phLed))
   \<and> (\<forall>pProperties. gated resolve_led UNSUPPORTED_FEATURE_LED_GET_PROPERTIES (\<lambda>x. rv_zesLedGetProperties (led_return_values x)) pProperties (\<lambda>w hLed. zesLedGetProperties w hLed pProperties))
   \<and> (\<forall>pState. gated resolve_led UNSUPPORTED_FEATURE_LED_GET_STATE (\<lambda>x. rv_zesLedGetState (led_return_values x)) pState (\<lambda>w hLed. zesLedGetState w hLed pState))
   \<and> (\<forall>enable. gated resolve_led UNSUPPORTED_FEATURE_LED_SET_STATE (\<lambda>x. rv_zesLedSetState (led_return_values x)) () (\<lambda>w hLed. zesLedSetState w hLed enable))
   \<and> (\<forall>pColor. gated resolve_led UNSUPPORTED_FEATURE_LED_SET_COLOR (\<lambda>x. rv_zesLedSetColor (led_return_values x)) () (\<lambda>w hLed. zesLedSetColor w hLed pColor))
   \<and> (\<forall>pCount phMemory. gated resolve_device UNSUPPORTED_FEATURE_MEMORY_MODULES (\<lambda>x. rv_zesDeviceEnumMemoryModules (dev_return_values x)) (pCount, phMemory) (\<lambda>w hDevice. zesDeviceEnumMemoryModules w hDevice pCount phMemory))
   \<and> (\<forall>pProperties. gated resolve_mem UNSUPPORTED_FEATURE_MEM_GET_PROPERTIES (\<lambda>x. rv_zesMemoryGetProperties (mem_return_values x)) pProperties (\<lambda>w hMemory. zesMemoryGetProperties w hMemory pProperties))
   \<and> (\<forall>pState. gated resolve_mem UNSUPPORTED_FEATURE_MEM_GET_STATE (\<lambda>x. rv_zesMemoryGetState (mem_return_values x)) pState (\<lambda>w hMemory. zesMemoryGetState w hMemory pState))
   \<and> (\<forall>pBandwidth. gated resolve_mem UNSUPPORTED_FEATURE_MEM_GET_BANDWIDTH (\<lambda>x. rv_zesMemoryGetBandwidth (mem_return_values x)) pBandwidth (\<lambda>w hMemory. zesMemoryGetBandwidth w hMemory pBandwidth))
   \<and> (\<forall>pCount phPerf. gated resolve_device UNSUPPORTED_FEATURE_PERFORMANCE_DOMAINS (\<lambda>x. rv_zesDeviceEnumPerformanceFactorDomains (dev_return_values x)) (pCount, phPerf) (\<lambda>w hDevice. zesDeviceEnumPerformanceFactorDomains w hDevice pCount phPerf))
   \<and> (\<forall>pProperties. gated resolve_perf UNSUPPORTED_FEATURE_PERF_GET_PROPERTIES (\<lambda>x. rv_zesPerformanceFactorGetProperties (perf_return_values x)) pProperties (\<lambda>w hPerf. zesPerformanceFactorGetProperties w hPerf pProperties))
   \<and> (\<forall>pFactor. gated resolve_perf UNSUPPORTED_FEATURE_PERF_GET_CONFIG (\<lambda>x. rv_zesPerformanceFactorGetConfig (perf_return_values x)) pFactor (\<lambda>w hPerf. zesPerformanceFactorGetConfig w hPerf pFactor))
   \<and> (\<forall>factor. gated resolve_perf UNSUPPORTED_FEATURE_PERF_SET_CONFIG (\<lambda>x. rv_zesPerformanceFactorSetConfig (perf_return_values x)) () (\<lambda>w hPerf. zesPerformanceFactorSetConfig w hPerf factor))
   \<and> (\<forall>pCount phPower. gated resolve_device UNSUPPORTED_FEATURE_POWER_DOMAINS (\<lambda>x. rv_zesDeviceEnumPowerDomains (dev_return_values x)) (pCount, phPower) (\<lambda>w hDevice. zesDeviceEnumPowerDomains w hDevice pCount phPower))
   \<and> (\<forall>p x. gated resolve_power UNSUPPORTED_FEATURE_POWER_GET_PROPERTIES (\<lambda>x. rv_zesPowerGetProperties (power_return_values x)) (p, x) (\<lambda>w h. zesPowerGetProperties w h p x))
   \<and> (\<forall>pEnergy. gated resolve_power UNSUPPORTED_FEATURE_POWER_GET_ENERGY_COUNTER (\<lambda>x. rv_zesPowerGetEnergyCounter (power_return_values x)) pEnergy (\<lambda>w hPower. zesPowerGetEnergyCounter w hPower pEnergy))
   \<and> (\<forall>pCount pSustained. gated resolve_power UNSUPPORTED_FEATURE_POWER_GET_LIMITS_EXT (\<lambda>x. rv_zesPowerGetLimitsExt (power_return_values x)) (pCount, pSustained) (\<lambda>w hPower. zesPowerGetLimitsExt w hPower pCount pSustained))
   \<and> (\<forall>pCount pSustained. gated resolve_power UNSUPPORTED_FEATURE_POWER_SET_LIMITS_EXT (\<lambda>x. rv_zesPowerSetLimitsExt (power_return_values x)) () (\<lambda>w hPower. zesPowerSetLimitsExt w hPower pCount pSustained))
   \<and> (\<forall>pThreshold. gated resolve_power UNSUPPORTED_FEATURE_POWER_GET_ENERGY_THRESHOLD (\<lambda>x. rv_zesPowerGetEnergyThreshold (power_return_values x)) pThreshold (\<lambda>w hPower. zesPowerGetEnergyThreshold w hPower pThreshold))
   \<and> (\<forall>threshold. gated resolve_power UNSUPPORTED_FEATURE_POWER_SET_ENERGY_THRESHOLD (\<lambda>x. rv_zesPowerSetEnergyThreshold (power_return_values x)) () (\<lambda>w hPower. zesPowerSetEnergyThreshold w hPower threshold))
   \<and> (\<forall>pCount phPsu. gated resolve_device UNSUPPORTED_FEATURE_PSUS (\<lambda>x. rv_zesDeviceEnumPsus (dev_return_values x)) (pCount, phPsu) (\<lambda>w hDevice. zesDeviceEnumPsus w hDevice pCount phPsu))
   \<and> (\<forall>pProperties. gated resolve_psu UNSUPPORTED_FEATURE_PSU_GET_PROPERTIES (\<lambda>x. rv_zesPsuGetProperties (psu_return_values x)) pProperties (\<lambda>w hPsu. zesPsuGetProperties w hPsu pProperties))
   \<and> (\<forall>pState. gated resolve_psu UNSUPPORTED_FEATURE_PSU_GET_STATE (\<lambda>x. rv_zesPsuGetState (psu_return_values x)) pState (\<lambda>w hPsu. zesPsuGetState w hPsu pState))
   \<and> (\<forall>pCount phRas. gated resolve_device UNSUPPORTED_FEATURE_RAS_ERROR_SETS (\<lambda>x. rv_zesDeviceEnumRasErrorSets (dev_return_values x)) (pCount, phRas) (\<lambda>w hDevice. zesDeviceEnumRasErrorSets w hDevice pCount phRas))
   \<and> (\<forall>pProperties. gated resolve_ras UNSUPPORTED_FEATURE_RAS_GET_PROPERTIES (\<lambda>x. rv_zesRasGetProperties (ras_return_values x)) pProperties (\<lambda>w hRas. zesRasGetProperties w hRas pProperties))
   \<and> (\<forall>pConfig. gated resolve_ras UNSUPPORTED_FEATURE_RAS_GET_CONFIG (\<lambda>x. rv_zesRasGetConfig (ras_return_values x)) pConfig (\<lambda>w hRas. zesRasGetConfig w hRas pConfig))
   \<and> (\<forall>pConfig. gated resolve_ras UNSUPPORTED_FEATURE_RAS_SET_CONFIG (\<lambda>x. rv_zesRasSetConfig (ras_return_values x)) () (\<lambda>w hRas. zesRasSetConfig w hRas pConfig))
   \<and> (\<forall>clear pState. gated resolve_ras UNSUPPORTED_FEATURE_RAS_GET_STATE (\<lambda>x. rv_zesRasGetState (ras_return_values x)) pState (\<lambda>w hRas. zesRasGetState w hRas clear pState))
   \<and> (\<forall>n b. gated resolve_ras UNSUPPORTED_FEATURE_RAS_GET_STATE_EXP (\<lambda>x. rv_zesRasGetStateExp (ras_return_values x)) (n, b) (\<lambda>w h. zesRasGetStateExp w h n b))
   \<and> (\<forall>k. gated resolve_ras UNSUPPORTED_FEATURE_RAS_CLEAR_STATE_EXP (\<lambda>x. rv_zesRasClearStateExp (ras_return_values x)) () (\<lambda>w h. zesRasClearStateExp w h k))
   \<and> (\<forall>pCount phScheduler. gated resolve_device UNSUPPORTED_FEATURE_SCHEDULERS (\<lambda>x. rv_zesDeviceEnumSchedulers (dev_return_values x)) (pCount, phScheduler) (\<lambda>w hDevice. zesDeviceEnumSchedulers w hDevice pCount phScheduler))
   \<and> (\<forall>pProperties. gated resolve_sched UNSUPPORTED_FEATURE_SCHED_GET_PROPERTIES (\<lambda>x. rv_zesSchedulerGetProperties (sched_return_values x)) pProperties (\<lambda>w hScheduler. zesSchedulerGetProperties w hScheduler pProperties))
   \<and> (\<forall>pMode. gated resolve_sched UNSUPPORTED_FEATURE_SCHED_GET_CURRENT_MODE (\<lambda>x. rv_zesSchedulerGetCurrentMode (sched_return_values x)) pMode (\<lambda>w hScheduler. zesSchedulerGetCurrentMode w hScheduler pMode))
   \<and> (\<forall>getDefaults pConfig. gated resolve_sched UNSUPPORTED_FEATURE_SCHED_GET_TIMEOUT_MODE_PROPS (\<lambda>x. rv_zesSchedulerGetTimeoutModeProperties (sched_return_values x)) pConfig (\<lambda>w hScheduler. zesSchedulerGetTimeoutModeProperties w hScheduler getDefaults pConfig))
   \<and> (\<forall>getDefaults pConfig. gated resolve_sched UNSUPPORTED_FEATURE_SCHED_GET_TIMESLICE_MODE_PROPS (\<lambda>x. rv_zesSchedulerGetTimesliceModeProperties (sched_return_values x)) pConfig (\<lambda>w hScheduler. zesSchedulerGetTimesliceModeProperties w hScheduler getDefaults pConfig))
   \<and> (\<forall>pProperties pNeedReload. gated resolve_sched UNSUPPORTED_FEATURE_SCHED_SET_TIMEOUT_MODE (\<lambda>x. rv_zesSchedulerSetTimeoutMode (sched_return_values x)) pNeedReload (\<lambda>w hScheduler. zesSchedulerSetTimeoutMode w hScheduler pProperties pNeedReload))
   \<and> (\<forall>a p. gated resolve_sched UNSUPPORTED_FEATURE_SCHED_SET_TIMESLICE_MODE (\<lambda>x. rv_zesSchedulerSetTimesliceMode (sched_return_values x)) p (\<lambda>w h. zesSchedulerSetTimesliceMode w h a p))
   \<and> (\<forall>pNeedReload. gated resolve_sched UNSUPPORTED_FEATURE_SCHED_SET_EXCLUSIVE_MODE (\<lambda>x. rv_zesSchedulerSetExclusiveMode (sched_return_values x)) pNeedReload (\<lambda>w hScheduler. zesSchedulerSetExclusiveMode w hScheduler pNeedReload))
   \<and> (\<forall>pCount phStandby. gated resolve_device UNSUPPORTED_FEATURE_STANDBY_DOMAINS (\<lambda>x. rv_zesDeviceEnumStandbyDomains (dev_return_values x)) (pCount, phStandby) (\<lambda>w hDevice. zesDeviceEnumStandbyDomains w hDevice pCount phStandby))
   \<and> (\<forall>pProperties. gated resolve_standby UNSUPPORTED_FEATURE_STANDBY_GET_PROPERTIES (\<lambda>x. rv_zesStandbyGetProperties (standby_return_values x)) pProperties (\<lambda>w hStandby. zesStandbyGetProperties w hStandby pProperties))
   \<and> (\<forall>pMode. gated resolve_standby UNSUPPORTED_FEATURE_STANDBY_GET_MODE (\<lambda>x. rv_zesStandbyGetMode (standby_return_values x)) pMode (\<lambda>w hStandby. zesStandbyGetMode w hStandby pMode))
   \<and> (\<forall>mode. gated resolve_standby UNSUPPORTED_FEATURE_STANDBY_SET_MODE (\<lambda>x. rv_zesStandbySetMode (standby_return_values x)) () (\<lambda>w hStandby. zesStandbySetMode w hStandby mode))
   \<and> (\<forall>pCount phTemperature. gated resolve_device UNSUPPORTED_FEATURE_TEMPERATURE_SENSORS (\<lambda>x. rv_zesDeviceEnumTemperatureSensors (dev_return_values x)) (pCount, phTemperature) (\<lambda>w hDevice. zesDeviceEnumTemperatureSensors w hDevice pCount phTemperature))
   \<and> (\<forall>pProperties. gated resolve_temp UNSUPPORTED_FEATURE_TEMP_GET_PROPERTIES (\<lambda>x. rv_zesTemperatureGetProperties (temp_return_values x)) pProperties (\<lambda>w hTemperature. zesTemperatureGetProperties w hTemperature pProperties))
   \<and> (\<forall>pConfig. gated resolve_temp UNSUPPORTED_FEATURE_TEMP_GET_CONFIG (\<lambda>x. rv_zesTemperatureGetConfig (temp_return_values x)) pConfig (\<lambda>w hTemperature. zesTemperatureGetConfig w hTemperature pConfig))
   \<and> (\<forall>pConfig. gated resolve_temp UNSUPPORTED_FEATURE_TEMP_SET_CONFIG (\<lambda>x. rv_zesTemperatureSetConfig (temp_return_values x)) () (\<lambda>w hTemperature. zesTemperatureSetConfig w hTemperature pConfig))
   \<and> (\<forall>pTemperature. gated resolve_temp UNSUPPORTED_FEATURE_TEMP_GET_STATE (\<lambda>x. rv_zesTemperatureGetState (temp_return_values x)) pTemperature (\<lambda>w hTemperature. zesTemperatureGetState w hTemperature pTemperature))"
  by (intro conjI allI gated_clear gated_state gatedI) (simp_all only: zesDeviceEnumEngineGroups_def
      zesEngineGetProperties_def
      zesEngineGetActivity_def
      zesEngineGetActivityExt_def
      zesDeviceEventRegister_def
      zesDeviceEnumFabricPorts_def
      zesFabricPortGetProperties_def
      zesFabricPortGetLinkType_def
      zesFabricPortGetConfig_def
      zesFabricPortSetConfig_def
      zesFabricPortGetState_def
      zesFabricPortGetThroughput_def
      zesFabricPortGetFabricErrorCounters_def
      zesDeviceEnumFans_def
      zesFanGetProperties_def
      zesFanGetConfig_def
      zesFanSetDefaultMode_def
      zesFanSetFixedSpeedMode_def
      zesFanSetSpeedTableMode_def
      zesFanGetState_def
      zesDeviceEnumFirmwares_def
      zesFirmwareGetProperties_def
      zesFirmwareFlash_def
      zesFirmwareGetFlashProgress_def
      zesFirmwareGetConsoleLogs_def
      zesDeviceEnumFrequencyDomains_def
      zesFrequencyGetProperties_def
      zesFrequencyGetAvailableClocks_def
      zesFrequencyGetRange_def
      zesFrequencySetRange_def
      zesFrequencyGetState_def
      zesFrequencyGetThrottleTime_def
      zesDeviceEnumLeds_def
      zesLedGetProperties_def
      zesLedGetState_def
      zesLedSetState_def
      zesLedSetColor_def
      zesDeviceEnumMemoryModules_def
      zesMemoryGetProperties_def
      zesMemoryGetState_def
      zesMemoryGetBandwidth_def
      zesDeviceEnumPerformanceFactorDomains_def
      zesPerformanceFactorGetProperties_def
      zesPerformanceFactorGetConfig_def
      zesPerformanceFactorSetConfig_def
      zesDeviceEnumPowerDomains_def
      zesPowerGetProperties_def
      zesPowerGetEnergyCounter_def
      zesPowerGetLimitsExt_def
      zesPowerSetLimitsExt_def
      zesPowerGetEnergyThreshold_def
      zesPowerSetEnergyThreshold_def
      zesDeviceEnumPsus_def
      zesPsuGetProperties_def
      zesPsuGetState_def
      zesDeviceEnumRasErrorSets_def
      zesRasGetProperties_def
      zesRasGetConfig_def
      zesRasSetConfig_def
      zesRasGetState_def
      zesRasGetStateExp_def
      zesDeviceEnumSchedulers_def
      zesSchedulerGetProperties_def
      zesSchedulerGetCurrentMode_def
      zesSchedulerGetTimeoutModeProperties_def
      zesSchedulerGetTimesliceModeProperties_def
      zesSchedulerSetTimeoutMode_def
      zesSchedulerSetTimesliceMode_def
      zesSchedulerSetExclusiveMode_def
      zesDeviceEnumStandbyDomains_def
      zesStandbyGetProperties_def
      zesStandbyGetMode_def
      zesStandbySetMode_def
      zesDeviceEnumTemperatureSensors_def
      zesTemperatureGetProperties_def
      zesTemperatureGetConfig_def
      zesTemperatureSetConfig_def
      zesTemperatureGetState_def)

section \<open>Queries\<close>

text \<open>
  Every query of an extensible structure, on an enabled object, writes exactly the configured
  content and keeps the \<^verbatim>\<open>stype\<close> and \<^verbatim>\<open>pNext\<close> of the caller's structure; with no configured data it
  reports an unsupported feature and with a null pointer a null pointer, writing nothing.
\<close>

theorem struct_queries_copy:
  "struct_getter resolve_device UNSUPPORTED_FEATURE_GET_STATE (\<lambda>x. rv_zesDeviceGetState (dev_return_values x))
       (\<lambda>x. dev_state x) ZE_RESULT_ERROR_INVALID_NULL_POINTER zesDeviceGetState
   \<and> struct_getter resolve_oc UNSUPPORTED_FEATURE_OC_GET_DOMAIN_PROPERTIES (\<lambda>x. rv_zesOverclockGetDomainProperties (oc_return_values x))
       (\<lambda>x. oc_properties x) ZE_RESULT_ERROR_UNSUPPORTED_FEATURE zesOverclockGetDomainProperties
   \<and> struct_getter resolve_diag UNSUPPORTED_FEATURE_DIAG_GET_PROPERTIES (\<lambda>x. rv_zesDiagnosticsGetProperties (diag_return_values x))
       (\<lambda>x. diag_properties x) ZE_RESULT_ERROR_UNSUPPORTED_FEATURE zesDiagnosticsGetProperties
   \<and> struct_getter resolve_fabric_port UNSUPPORTED_FEATURE_FABRIC_PORT_GET_PROPERTIES (\<lambda>x. rv_zesFabricPortGetProperties (fabric_port_return_values x))
       (\<lambda>x. fabric_port_properties x) ZE_RESULT_ERROR_UNSUPPORTED_FEATURE zesFabricPortGetProperties
   \<and> struct_getter resolve_fabric_port UNSUPPORTED_FEATURE_FABRIC_PORT_GET_CONFIG (\<lambda>x. rv_zesFabricPortGetConfig (fabric_port_return_values x))
       (\<lambda>x. fabric_port_config x) ZE_RESULT_ERROR_UNSUPPORTED_FEATURE zesFabricPortGetConfig
   \<and> struct_getter resolve_fabric_port UNSUPPORTED_FEATURE_FABRIC_PORT_GET_STATE (\<lambda>x. rv_zesFabricPortGetState (fabric_port_return_values x))
       (\<lambda>x. fabric_port_state x) ZE_RESULT_ERROR_UNSUPPORTED_FEATURE zesFabricPortGetState
   \<and> struct_getter resolve_fabric_port UNSUPPORTED_FEATURE_FABRIC_PORT_GET_ERROR_COUNTERS (\<lambda>x. rv_zesFabricPortGetFabricErrorCounters (fabric_port_return_values x))
       (\<lambda>x. fabric_port_error_counters x) ZE_RESULT_ERROR_UNSUPPORTED_FEATURE zesFabricPortGetFabricErrorCounters
   \<and> struct_getter resolve_fan UNSUPPORTED_FEATURE_FAN_GET_PROPERTIES (\<lambda>x. rv_zesFanGetProperties (fan_return_values x))
       (\<lambda>x. fan_properties x) ZE_RESULT_ERROR_UNSUPPORTED_FEATURE zesFanGetProperties
   \<and> struct_getter resolve_fan UNSUPPORTED_FEATURE_FAN_GET_CONFIG (\<lambda>x. rv_zesFanGetConfig (fan_return_values x))
       (\<lambda>x. fan_config x) ZE_RESULT_ERROR_UNSUPPORTED_FEATURE zesFanGetConfig
   \<and> struct_getter resolve_firmware UNSUPPORTED_FEATURE_FW_GET_PROPERTIES (\<lambda>x. rv_zesFirmwareGetProperties (firmware_return_values x))
       (\<lambda>x. firmware_properties x) ZE_RESULT_ERROR_UNSUPPORTED_FEATURE zesFirmwareGetProperties
   \<and> struct_getter resolve_freq UNSUPPORTED_FEATURE_FREQ_GET_PROPERTIES (\<lambda>x. rv_zesFrequencyGetProperties (freq_return_values x))
       (\<lambda>x. freq_properties x) ZE_RESULT_ERROR_UNSUPPORTED_FEATURE zesFrequencyGetProperties
   \<and> struct_getter resolve_freq UNSUPPORTED_FEATURE_FREQ_GET_STATE (\<lambda>x. rv_zesFrequencyGetState (freq_return_values x))
       (\<lambda>x. freq_state x) ZE_RESULT_ERROR_UNSUPPORTED_FEATURE zesFrequencyGetState
   \<and> struct_getter resolve_led UNSUPPORTED_FEATURE_LED_GET_PROPERTIES (\<lambda>x. rv_zesLedGetProperties (led_return_values x))
       (\<lambda>x. led_properties x) ZE_RESULT_ERROR_UNSUPPORTED_FEATURE zesLedGetProperties
   \<and> struct_getter resolve_led UNSUPPORTED_FEATURE_LED_GET_STATE (\<lambda>x. rv_zesLedGetState (led_return_values x))
       (\<lambda>x. led_state x) ZE_RESULT_ERROR_UNSUPPORTED_FEATURE zesLedGetState
   \<and> struct_getter resolve_mem UNSUPPORTED_FEATURE_MEM_GET_PROPERTIES (\<lambda>x. rv_zesMemoryGetProperties (mem_return_values x))
       (\<lambda>x. mem_properties x) ZE_RESULT_ERROR_UNSUPPORTED_FEATURE zesMemoryGetProperties
   \<and> struct_getter resolve_mem UNSUPPORTED_FEATURE_MEM_GET_STATE (\<lambda>x. rv_zesMemoryGetState (mem_return_values x))
       (\<lambda>x. mem_state x) ZE_RESULT_ERROR_UNSUPPORTED_FEATURE zesMemoryGetState
   \<and> struct_getter resolve_perf UNSUPPORTED_FEATURE_PERF_GET_PROPERTIES (\<lambda>x. rv_zesPerformanceFactorGetProperties (perf_return_values x))
       (\<lambda>x. perf_properties x) ZE_RESULT_ERROR_UNSUPPORTED_FEATURE zesPerformanceFactorGetProperties
   \<and> struct_getter resolve_psu UNSUPPORTED_FEATURE_PSU_GET_PROPERTIES (\<lambda>x. rv_zesPsuGetProperties (psu_return_values x))
       (\<lambda>x. psu_properties x) ZE_RESULT_ERROR_UNSUPPORTED_FEATURE zesPsuGetProperties
   \<and> struct_getter resolve_psu UNSUPPORTED_FEATURE_PSU_GET_STATE (\<lambda>x. rv_zesPsuGetState (psu_return_values x))
       (\<lambda>x. psu_state x) ZE_RESULT_ERROR_UNSUPPORTED_FEATURE zesPsuGetState
   \<and> struct_getter resolve_ras UNSUPPORTED_FEATURE_RAS_GET_PROPERTIES (\<lambda>x. rv_zesRasGetProperties (ras_return_values x))
       (\<lambda>x. ras_properties x) ZE_RESULT_ERROR_UNSUPPORTED_FEATURE zesRasGetProperties
   \<and> struct_getter resolve_ras UNSUPPORTED_FEATURE_RAS_GET_CONFIG (\<lambda>x. rv_zesRasGetConfig (ras_return_values x))
       (\<lambda>x. ras_config x) ZE_RESULT_ERROR_UNSUPPORTED_FEATURE zesRasGetConfig
   \<and> (\<forall>clear. struct_getter resolve_ras UNSUPPORTED_FEATURE_RAS_GET_STATE (\<lambda>x. rv_zesRasGetState (ras_return_values x))
       (\<lambda>x. ras_state x) ZE_RESULT_ERROR_UNSUPPORTED_FEATURE (\<lambda>w hRas pState. zesRasGetState w hRas clear pState))
   \<and> struct_getter resolve_sched UNSUPPORTED_FEATURE_SCHED_GET_PROPERTIES (\<lambda>x. rv_zesSchedulerGetProperties (sched_return_values x))
       (\<lambda>x. sched_properties x) ZE_RESULT_ERROR_UNSUPPORTED_FEATURE zesSchedulerGetProperties
   \<and> (\<forall>getDefaults. struct_getter resolve_sched UNSUPPORTED_FEATURE_SCHED_GET_TIMEOUT_MODE_PROPS (\<lambda>x. rv_zesSchedulerGetTimeoutModeProperties (sched_return_values x))
       (\<lambda>x. sched_timeout_mode_properties x) ZE_RESULT_ERROR_UNSUPPORTED_FEATURE (\<lambda>w hScheduler pConfig. zesSchedulerGetTimeoutModeProperties w hScheduler getDefaults pConfig))
   \<and> (\<forall>getDefaults. struct_getter resolve_sched UNSUPPORTED_FEATURE_SCHED_GET_TIMESLICE_MODE_PROPS (\<lambda>x. rv_zesSchedulerGetTimesliceModeProperties (sched_return_values x))
       (\<lambda>x. sched_timeslice_mode_properties x) ZE_RESULT_ERROR_UNSUPPORTED_FEATURE (\<lambda>w hScheduler pConfig. zesSchedulerGetTimesliceModeProperties w hScheduler getDefaults pConfig))
   \<and> struct_getter resolve_standby UNSUPPORTED_FEATURE_STANDBY_GET_PROPERTIES (\<lambda>x. rv_zesStandbyGetProperties (standby_return_values x))
       (\<lambda>x. standby_properties x) ZE_RESULT_ERROR_UNSUPPORTED_FEATURE zesStandbyGetProperties
   \<and> struct_getter resolve_temp UNSUPPORTED_FEATURE_TEMP_GET_PROPERTIES (\<lambda>x. rv_zesTemperatureGetProperties (temp_return_values x))
       (\<lambda>x. temp_properties x) ZE_RESULT_ERROR_UNSUPPORTED_FEATURE zesTemperatureGetProperties
   \<and> struct_getter resolve_temp UNSUPPORTED_FEATURE_TEMP_GET_CONFIG (\<lambda>x. rv_zesTemperatureGetConfig (temp_return_values x))
       (\<lambda>x. temp_config x) ZE_RESULT_ERROR_UNSUPPORTED_FEATURE zesTemperatureGetConfig"
  by (intro conjI allI struct_getter_src_first struct_getter_arg_first) (simp_all only: zesDeviceGetState_def
      zesOverclockGetDomainProperties_def
      zesDiagnosticsGetProperties_def
      zesFabricPortGetProperties_def
      zesFabricPortGetConfig_def
      zesFabricPortGetState_def
      zesFabricPortGetFabricErrorCounters_def
      zesFanGetProperties_def
      zesFanGetConfig_def
      zesFirmwareGetProperties_def
      zesFrequencyGetProperties_def
      zesFrequencyGetState_def
      zesLedGetProperties_def
      zesLedGetState_def
      zesMemoryGetProperties_def
      zesMemoryGetState_def
      zesPerformanceFactorGetProperties_def
      zesPsuGetProperties_def
      zesPsuGetState_def
      zesRasGetProperties_def
      zesRasGetConfig_def
      zesRasGetState_def
      zesSchedulerGetProperties_def
      zesSchedulerGetTimeoutModeProperties_def
      zesSchedulerGetTimesliceModeProperties_def
      zesStandbyGetProperties_def
      zesTemperatureGetProperties_def
      zesTemperatureGetConfig_def)

text \<open>
  Every query of a plain structure held by pointer returns the configured value, or reports
  missing data or a null pointer without writing.
\<close>

theorem plain_queries_copy:
  "plain_getter resolve_device UNSUPPORTED_FEATURE_PCI_GET_STATS (\<lambda>x. rv_zesDevicePciGetStats (dev_return_values x))
       (\<lambda>x. pci_info_stats (dev_pci x)) ZE_RESULT_ERROR_INVALID_NULL_POINTER zesDevicePciGetStats
   \<and> plain_getter resolve_oc UNSUPPORTED_FEATURE_OC_GET_DOMAIN_VF_PROPERTIES (\<lambda>x. rv_zesOverclockGetDomainVFProperties (oc_return_values x))
       (\<lambda>x. oc_vf_properties x) ZE_RESULT_ERROR_UNSUPPORTED_FEATURE zesOverclockGetDomainVFProperties
   \<and> plain_getter resolve_fabric_port UNSUPPORTED_FEATURE_FABRIC_PORT_GET_LINK_TYPE (\<lambda>x. rv_zesFabricPortGetLinkType (fabric_port_return_values x))
       (\<lambda>x. fabric_port_link_type x) ZE_RESULT_ERROR_UNSUPPORTED_FEATURE zesFabricPortGetLinkType
   \<and> plain_getter resolve_fabric_port UNSUPPORTED_FEATURE_FABRIC_PORT_GET_THROUGHPUT (\<lambda>x. rv_zesFabricPortGetThroughput (fabric_port_return_values x))
       (\<lambda>x. fabric_port_throughput x) ZE_RESULT_ERROR_UNSUPPORTED_FEATURE zesFabricPortGetThroughput
   \<and> plain_getter resolve_freq UNSUPPORTED_FEATURE_FREQ_GET_RANGE (\<lambda>x. rv_zesFrequencyGetRange (freq_return_values x))
       (\<lambda>x. freq_range x) ZE_RESULT_ERROR_UNSUPPORTED_FEATURE zesFrequencyGetRange
   \<and> plain_getter resolve_freq UNSUPPORTED_FEATURE_FREQ_GET_THROTTLE_TIME (\<lambda>x. rv_zesFrequencyGetThrottleTime (freq_return_values x))
       (\<lambda>x. freq_throttle_time x) ZE_RESULT_ERROR_UNSUPPORTED_FEATURE zesFrequencyGetThrottleTime
   \<and> plain_getter resolve_mem UNSUPPORTED_FEATURE_MEM_GET_BANDWIDTH (\<lambda>x. rv_zesMemoryGetBandwidth (mem_return_values x))
       (\<lambda>x. mem_bandwidth x) ZE_RESULT_ERROR_UNSUPPORTED_FEATURE zesMemoryGetBandwidth
   \<and> plain_getter resolve_power UNSUPPORTED_FEATURE_POWER_GET_ENERGY_COUNTER (\<lambda>x. rv_zesPowerGetEnergyCounter (power_return_values x))
       (\<lambda>x. power_energy_counter x) ZE_RESULT_ERROR_UNSUPPORTED_FEATURE zesPowerGetEnergyCounter
   \<and> plain_getter resolve_power UNSUPPORTED_FEATURE_POWER_GET_ENERGY_THRESHOLD (\<lambda>x. rv_zesPowerGetEnergyThreshold (power_return_values x))
       (\<lambda>x. power_energy_threshold x) ZE_RESULT_ERROR_UNSUPPORTED_FEATURE zesPowerGetEnergyThreshold"
  by (intro conjI allI plain_getter_src_first plain_getter_arg_first) (simp_all only: zesDevicePciGetStats_def
      zesOverclockGetDomainVFProperties_def
      zesFabricPortGetLinkType_def
      zesFabricPortGetThroughput_def
      zesFrequencyGetRange_def
      zesFrequencyGetThrottleTime_def
      zesMemoryGetBandwidth_def
      zesPowerGetEnergyCounter_def
      zesPowerGetEnergyThreshold_def)

text \<open>
  Every query of a scalar of an enabled object stores the configured value through a non-null
  pointer and reports a null one.
\<close>

theorem value_queries_copy:
  "(\<forall>startIndex endIndex. value_getter resolve_diag UNSUPPORTED_FEATURE_DIAG_RUN_TESTS (\<lambda>x. rv_zesDiagnosticsRunTests (diag_return_values x)) (\<lambda>x. diag_result x) (\<lambda>w hDiagnostics pResult. zesDiagnosticsRunTests w hDiagnostics startIndex endIndex pResult))
   \<and> value_getter resolve_engine UNSUPPORTED_FEATURE_ENGINE_GET_ACTIVITY (\<lambda>x. rv_zesEngineGetActivity (engine_return_values x)) (\<lambda>x. engine_activity x) zesEngineGetActivity
   \<and> (\<forall>units. value_getter resolve_fan UNSUPPORTED_FEATURE_FAN_GET_STATE (\<lambda>x. rv_zesFanGetState (fan_return_values x)) (\<lambda>x. fan_speed x) (\<lambda>w hFan pSpeed. zesFanGetState w hFan units pSpeed))
   \<and> value_getter resolve_firmware UNSUPPORTED_FEATURE_FW_GET_FLASH_PROGRESS (\<lambda>x. rv_zesFirmwareGetFlashProgress (firmware_return_values x)) (\<lambda>x. firmware_flash_progress x) zesFirmwareGetFlashProgress
   \<and> value_getter resolve_perf UNSUPPORTED_FEATURE_PERF_GET_CONFIG (\<lambda>x. rv_zesPerformanceFactorGetConfig (perf_return_values x)) (\<lambda>x. perf_config x) zesPerformanceFactorGetConfig
   \<and> value_getter resolve_sched UNSUPPORTED_FEATURE_SCHED_GET_CURRENT_MODE (\<lambda>x. rv_zesSchedulerGetCurrentMode (sched_return_values x)) (\<lambda>x. sched_current_mode x) zesSchedulerGetCurrentMode
   \<and> (\<forall>pProperties. value_getter resolve_sched UNSUPPORTED_FEATURE_SCHED_SET_TIMEOUT_MODE (\<lambda>x. rv_zesSchedulerSetTimeoutMode (sched_return_values x)) (\<lambda>x. sched_need_reload x) (\<lambda>w hScheduler pNeedReload. zesSchedulerSetTimeoutMode w hScheduler pProperties pNeedReload))
   \<and> value_getter resolve_sched UNSUPPORTED_FEATURE_SCHED_SET_EXCLUSIVE_MODE (\<lambda>x. rv_zesSchedulerSetExclusiveMode (sched_return_values x)) (\<lambda>x. sched_need_reload x) zesSchedulerSetExclusiveMode
   \<and> value_getter resolve_standby UNSUPPORTED_FEATURE_STANDBY_GET_MODE (\<lambda>x. rv_zesStandbyGetMode (standby_return_values x)) (\<lambda>x. standby_mode x) zesStandbyGetMode
   \<and> value_getter resolve_temp UNSUPPORTED_FEATURE_TEMP_GET_STATE (\<lambda>x. rv_zesTemperatureGetState (temp_return_values x)) (\<lambda>x. temp_temperature x) zesTemperatureGetState"
  by (intro conjI allI value_getterI) (simp_all only: zesDiagnosticsRunTests_def
      zesEngineGetActivity_def
      zesFanGetState_def
      zesFirmwareGetFlashProgress_def
      zesPerformanceFactorGetConfig_def
      zesSchedulerGetCurrentMode_def
      zesSchedulerSetTimeoutMode_def
      zesSchedulerSetExclusiveMode_def
      zesStandbyGetMode_def
      zesTemperatureGetState_def)

lemma wf_resolved:
  assumes "ready w"
  shows "resolve_engine (g_sysman_state w) h = Done (Some e) \<Longrightarrow> wf_engine e"
    and "resolve_freq (g_sysman_state w) h = Done (Some f) \<Longrightarrow> wf_freq f"
    and "resolve_power (g_sysman_state w) h = Done (Some p) \<Longrightarrow> wf_power p"
    and "resolve_ras (g_sysman_state w) h = Done (Some r) \<Longrightarrow> wf_ras r"
    and "resolve_diag (g_sysman_state w) h = Done (Some g) \<Longrightarrow> wf_diag g"
    and "resolve_firmware (g_sysman_state w) h = Done (Some fw) \<Longrightarrow> wf_firmware fw"
proof -
  from assms have wf: "wf_state (g_sysman_state w)"
    by (simp add: ready_def)
  show "resolve_engine (g_sysman_state w) h = Done (Some e) \<Longrightarrow> wf_engine e"
    by (erule engine.resolved_in [OF wf]) (simp add: wf_device_def list_all_iff)
  show "resolve_freq (g_sysman_state w) h = Done (Some f) \<Longrightarrow> wf_freq f"
    by (erule freq.resolved_in [OF wf]) (simp add: wf_device_def list_all_iff)
  show "resolve_power (g_sysman_state w) h = Done (Some p) \<Longrightarrow> wf_power p"
    by (erule power.resolved_in [OF wf]) (simp add: wf_device_def list_all_iff)
  show "resolve_ras (g_sysman_state w) h = Done (Some r) \<Longrightarrow> wf_ras r"
    by (erule ras.resolved_in [OF wf]) (simp add: wf_device_def list_all_iff)
  show "resolve_diag (g_sysman_state w) h = Done (Some g) \<Longrightarrow> wf_diag g"
    by (erule diag.resolved_in [OF wf]) (simp add: wf_device_def list_all_iff)
  show "resolve_firmware (g_sysman_state w) h = Done (Some fw) \<Longrightarrow> wf_firmware fw"
    by (erule firmware.resolved_in [OF wf]) (simp add: wf_device_def list_all_iff)
qed

lemma wf_resolved_device:
  "ready w \<Longrightarrow> resolve_device (g_sysman_state w) h = Done (Some d) \<Longrightarrow> wf_device d"
  by (auto simp: ready_def resolve_device_wf Let_def intro: wf_device_at split: if_splits)

lemma wf_resolved_driver:
  "ready w \<Longrightarrow> resolve_driver (g_sysman_state w) h = Done (Some d) \<Longrightarrow> wf_driver d"
  by (auto simp: ready_def resolve_driver_wf Let_def intro: wf_driver_at split: if_splits)

lemmas wf_nested = wf_engine_def wf_freq_def wf_power_def wf_ras_def wf_diag_def wf_device_def wf_driver_def


text \<open>
  Every query of an array keeps the two-call protocol: the count alone without a buffer; with one,
  the first elements up to the caller's count, the number written, and the rest of the buffer
  untouched. No access is out of bounds as long as the buffer has the room the caller declares.
\<close>

theorem array_queries_two_call:
  "array_getter resolve_driver UNSUPPORTED_FEATURE_GET_EXT_PROPERTIES (\<lambda>x. rv_zesDriverGetExtensionProperties (drv_return_values x))
       drv_extension_properties zesDriverGetExtensionProperties
   \<and> array_getter resolve_device UNSUPPORTED_FEATURE_PCI_GET_BARS (\<lambda>x. rv_zesDevicePciGetBars (dev_return_values x))
       (\<lambda>x. pci_info_bars (dev_pci x)) zesDevicePciGetBars
   \<and> array_getter resolve_diag UNSUPPORTED_FEATURE_DIAG_GET_TESTS (\<lambda>x. rv_zesDiagnosticsGetTests (diag_return_values x))
       (\<lambda>x. diag_tests x) zesDiagnosticsGetTests
   \<and> array_getter resolve_engine UNSUPPORTED_FEATURE_ENGINE_GET_ACTIVITY_EXT (\<lambda>x. rv_zesEngineGetActivityExt (engine_return_values x))
       (\<lambda>x. engine_activity_ext x) zesEngineGetActivityExt
   \<and> array_getter resolve_freq UNSUPPORTED_FEATURE_FREQ_GET_AVAILABLE_CLOCKS (\<lambda>x. rv_zesFrequencyGetAvailableClocks (freq_return_values x))
       (\<lambda>x. freq_available_clocks x) zesFrequencyGetAvailableClocks
   \<and> array_getter resolve_power UNSUPPORTED_FEATURE_POWER_GET_LIMITS_EXT (\<lambda>x. rv_zesPowerGetLimitsExt (power_return_values x))
       (\<lambda>x. power_limits x) zesPowerGetLimitsExt
   \<and> array_getter resolve_ras UNSUPPORTED_FEATURE_RAS_GET_STATE_EXP (\<lambda>x. rv_zesRasGetStateExp (ras_return_values x))
       ras_state_exp zesRasGetStateExp"
proof (intro conjI)
  show "array_getter resolve_driver UNSUPPORTED_FEATURE_GET_EXT_PROPERTIES (\<lambda>x. rv_zesDriverGetExtensionProperties (drv_return_values x)) drv_extension_properties zesDriverGetExtensionProperties"
    by (rule array_getterI [where cnt = "drv_extension_properties_count"])
      (simp only: zesDriverGetExtensionProperties_def, drule (1) wf_resolved_driver, simp add: wf_nested)
  show "array_getter resolve_device UNSUPPORTED_FEATURE_PCI_GET_BARS (\<lambda>x. rv_zesDevicePciGetBars (dev_return_values x)) (\<lambda>x. pci_info_bars (dev_pci x)) zesDevicePciGetBars"
    by (rule array_getterI [where cnt = "(\<lambda>d. pci_info_bars_count (dev_pci d))"])
      (simp only: zesDevicePciGetBars_def, drule (1) wf_resolved_device, simp add: wf_nested)
  show "array_getter resolve_diag UNSUPPORTED_FEATURE_DIAG_GET_TESTS (\<lambda>x. rv_zesDiagnosticsGetTests (diag_return_values x)) (\<lambda>x. diag_tests x) zesDiagnosticsGetTests"
    by (rule array_getterI [where cnt = "diag_tests_count"])
      (simp only: zesDiagnosticsGetTests_def, drule (1) wf_resolved(5), simp add: wf_nested)
  show "array_getter resolve_engine UNSUPPORTED_FEATURE_ENGINE_GET_ACTIVITY_EXT (\<lambda>x. rv_zesEngineGetActivityExt (engine_return_values x)) (\<lambda>x. engine_activity_ext x) zesEngineGetActivityExt"
    by (rule array_getterI [where cnt = "engine_activity_ext_count"])
      (simp only: zesEngineGetActivityExt_def, drule (1) wf_resolved(1), simp add: wf_nested)
  show "array_getter resolve_freq UNSUPPORTED_FEATURE_FREQ_GET_AVAILABLE_CLOCKS (\<lambda>x. rv_zesFrequencyGetAvailableClocks (freq_return_values x)) (\<lambda>x. freq_available_clocks x) zesFrequencyGetAvailableClocks"
    by (rule array_getterI [where cnt = "freq_available_clocks_count"])
      (simp only: zesFrequencyGetAvailableClocks_def, drule (1) wf_resolved(2), simp add: wf_nested)
  show "array_getter resolve_power UNSUPPORTED_FEATURE_POWER_GET_LIMITS_EXT (\<lambda>x. rv_zesPowerGetLimitsExt (power_return_values x)) (\<lambda>x. power_limits x) zesPowerGetLimitsExt"
    by (rule array_getterI [where cnt = "power_limits_count"])
      (simp only: zesPowerGetLimitsExt_def, drule (1) wf_resolved(3), simp add: wf_nested)
  show "array_getter resolve_ras UNSUPPORTED_FEATURE_RAS_GET_STATE_EXP (\<lambda>x. rv_zesRasGetStateExp (ras_return_values x)) ras_state_exp zesRasGetStateExp"
    by (rule array_getterI [where cnt = "ras_state_exp_count"])
      (simp only: zesRasGetStateExp_def, drule (1) wf_resolved(4), simp add: wf_nested)
qed

end
