(* ===== verification/Stub_Special.thy ===== *)
theory Stub_Special
  imports Stub_Api
begin

text \<open>
  The entry points with a behaviour of their own: enumeration of drivers and devices, queries with
  an extension structure, the process list, the firmware console log, overclock controls, fabric
  throughput of several ports, and the clearing of a RAS counter, the one call that changes the
  state.
\<close>

section \<open>Drivers and devices\<close>

lemma distinct_handles_of:
  assumes "\<And>i. decode_handle (mk i) = b\<lparr>bits_drv := word_of_nat i\<rparr>" "n \<le> 2 ^ 16"
  shows "distinct (map mk [0..<n])"
proof -
  have "inj_on mk {0..<n}"
  proof (rule inj_onI)
    fix i j
    assume ij: "i \<in> {0..<n}" "j \<in> {0..<n}" and "mk i = mk j"
    then have "bits_drv (decode_handle (mk i)) = bits_drv (decode_handle (mk j))"
      by simp
    with assms ij show "i = j"
      by (intro word_of_nat_inj_small [where 'a = 16]) auto
  qed
  then show ?thesis
    by (simp add: distinct_map)
qed

lemma unat_word16: "i < n \<Longrightarrow> n \<le> 2 ^ 16 \<Longrightarrow> unat (word_of_nat i :: u16) = i"
  by (simp add: unsigned_of_nat take_bit_nat_eq_self)

lemma resolve_made_driver:
  assumes "wf_state s" "i < length (elems (sys_drivers (st_system s)))" "length (elems (sys_drivers (st_system s))) \<le> 2 ^ 16"
  shows "resolve_driver s (MAKE_DRIVER_HANDLE (word_of_nat i)) = Done (Some (elems (sys_drivers (st_system s)) ! i))"
  using assms by (simp add: resolve_driver_wf MAKE_DRIVER_HANDLE_def ucast_word_of_nat driver_at_def unat_word16 nth_opt_def)

lemma resolve_made_device:
  assumes "wf_state s" "driver_at s d = Some drv" "i < length (elems (drv_devices drv))" "length (elems (drv_devices drv)) \<le> 2 ^ 16"
  shows "resolve_device s (MAKE_DEVICE_HANDLE (ucast d) (word_of_nat i)) = Done (Some (elems (drv_devices drv) ! i))"
proof -
  have "(ucast (ucast d :: u32) :: u16) = d"
    by (rule bit_word_eqI) (auto simp: bit_simps)
  with assms show ?thesis
    by (simp add: resolve_device_wf MAKE_DEVICE_HANDLE_def ucast_word_of_nat device_at_def unat_word16 nth_opt_def)
qed

lemma distinct_device_handles:
  "n \<le> 2 ^ 16 \<Longrightarrow> distinct (map (\<lambda>i. MAKE_DEVICE_HANDLE d (word_of_nat i)) [0..<n])"
proof -
  assume n: "n \<le> 2 ^ 16"
  have "inj_on (\<lambda>i. MAKE_DEVICE_HANDLE d (word_of_nat i)) {0..<n}"
  proof (rule inj_onI)
    fix i j
    assume ij: "i \<in> {0..<n}" "j \<in> {0..<n}"
      and "MAKE_DEVICE_HANDLE d (word_of_nat i) = MAKE_DEVICE_HANDLE d (word_of_nat j)"
    then have "bits_dev (decode_handle (MAKE_DEVICE_HANDLE d (word_of_nat i))) =
        bits_dev (decode_handle (MAKE_DEVICE_HANDLE d (word_of_nat j)))"
      by simp
    with ij n show "i = j"
      by (intro word_of_nat_inj_small [where 'a = 16]) (auto simp: MAKE_DEVICE_HANDLE_def ucast_word_of_nat)
  qed
  then show ?thesis
    by (simp add: distinct_map)
qed

text \<open>The two-call protocol for a list of handles, as both enumerators use it.\<close>

lemma two_call_handles:
  assumes "unat n = length xs" "unat c \<le> length b" "k = min (unat c) (length xs)"
  shows "two_call n (\<lambda>i. Done (g i)) (Some c) (Some b) = Done (ZE_RESULT_SUCCESS,
    (Some (word_of_nat k), Some (map g [0..<k] @ drop k b)))"
proof -
  have "(if c < n then c else n) = word_of_nat k"
    using unat_min_count [of c n] assms by (metis word_of_nat_unat)
  with two_call_fill [of c n "\<lambda>i. Done (g i)" g b] assms show ?thesis
    by simp
qed

text \<open>
  \<^verbatim>\<open>zesDriverGet\<close> with a buffer writes distinct handles, the i-th of which resolves to the i-th
  driver of the state, and reports how many it wrote.
\<close>

theorem driver_enumeration:
  assumes "ready w" "rv_zesDriverGet (st_return_values (g_sysman_state w)) = 0"
    and "length (elems (sys_drivers (st_system (g_sysman_state w)))) \<le> 2 ^ 16" "unat n \<le> length b"
  shows "\<exists>hs. length hs = min (unat n) (length (elems (sys_drivers (st_system (g_sysman_state w)))))
    \<and> zesDriverGet w (Some n) (Some b) =
        Done (ZE_RESULT_SUCCESS, (Some (word_of_nat (length hs)), Some (hs @ drop (length hs) b)), w)
    \<and> distinct hs
    \<and> (\<forall>i<length hs. resolve_driver (g_sysman_state w) (hs ! i) =
         Done (Some (elems (sys_drivers (st_system (g_sysman_state w))) ! i)))"
proof -
  let ?s = "g_sysman_state w" and ?h = "\<lambda>i. MAKE_DRIVER_HANDLE (word_of_nat i)"
  let ?xs = "elems (sys_drivers (st_system ?s))"
  let ?k = "min (unat n) (length ?xs)"
  have wf: "wf_state ?s" and free: "\<not> g_state_lock w"
    using assms(1) by (auto simp: ready_def)
  have len: "unat (sys_drivers_count (st_system ?s)) = length ?xs"
    using wf by (auto simp: wf_state_def intro: wf_arr_length)
  have call: "zesDriverGet w (Some n) (Some b) =
      Done (ZE_RESULT_SUCCESS, (Some (word_of_nat ?k), Some (map ?h [0..<?k] @ drop ?k b)), w)"
    unfolding zesDriverGet_def
    by (intro locked_eq free) (simp add: assms(2) two_call_handles [OF len assms(4) refl])
  have "distinct (map ?h [0..<?k])"
    by (rule distinct_handles_of [where b = "decode_handle (?h 0)"])
      (use assms(3) in \<open>auto simp: MAKE_DRIVER_HANDLE_def ucast_word_of_nat\<close>)
  with call resolve_made_driver [OF wf _ assms(3)] show ?thesis
    by (intro exI [of _ "map ?h [0..<?k]"]) simp
qed

text \<open>
  \<^verbatim>\<open>zesDeviceGet\<close> on a driver writes distinct handles, the i-th of which resolves to the driver's
  i-th device.
\<close>

theorem device_enumeration:
  assumes en: "enabled resolve_driver UNSUPPORTED_FEATURE_DRIVER_DEVICE_GET (\<lambda>d. rv_zesDeviceGet (drv_return_values d)) w h drv"
    and bound: "length (elems (drv_devices drv)) \<le> 2 ^ 16" and room: "unat n \<le> length b"
  shows "\<exists>hs. length hs = min (unat n) (length (elems (drv_devices drv)))
    \<and> zesDeviceGet w h (Some n) (Some b) =
        Done (ZE_RESULT_SUCCESS, (Some (word_of_nat (length hs)), Some (hs @ drop (length hs) b)), w)
    \<and> distinct hs
    \<and> (\<forall>i<length hs. resolve_device (g_sysman_state w) (hs ! i) = Done (Some (elems (drv_devices drv) ! i)))"
proof -
  let ?s = "g_sysman_state w" and ?d = "bits_drv (decode_handle h)"
  let ?h = "\<lambda>i. MAKE_DEVICE_HANDLE (ucast ?d) (word_of_nat i)"
  let ?k = "min (unat n) (length (elems (drv_devices drv)))"
  have wf: "wf_state ?s" and drv: "driver_at ?s ?d = Some drv"
    using en by (auto simp: enabled_def ready_def resolve_driver_wf Let_def split: if_splits)
  then have len: "unat (drv_devices_count drv) = length (elems (drv_devices drv))"
    using wf_driver_at [OF wf drv] by (auto simp: wf_driver_def intro: wf_arr_length)
  have call: "zesDeviceGet w h (Some n) (Some b) =
      Done (ZE_RESULT_SUCCESS, (Some (word_of_nat ?k), Some (map ?h [0..<?k] @ drop ?k b)), w)"
    unfolding zesDeviceGet_def
    by (intro locked_enabled [OF en]) (simp add: two_call_handles [OF len room refl])
  have "distinct (map ?h [0..<?k])"
    by (rule distinct_device_handles) (use bound in auto)
  with call resolve_made_device [OF wf drv _ bound] show ?thesis
    by (intro exI [of _ "map ?h [0..<?k]"]) simp
qed

section \<open>Queries with an extension structure\<close>

definition ext_getter ::
  "(sysman_state_t \<Rightarrow> u64 \<Rightarrow> 'c option outcome) \<Rightarrow> u32 \<Rightarrow> ('c \<Rightarrow> ze_result_t) \<Rightarrow>
   ('c \<Rightarrow> ('a zes_hdr_scheme \<times> 'e zes_hdr_scheme) option) \<Rightarrow> u32 \<Rightarrow>
   (stub \<Rightarrow> u64 \<Rightarrow> 'a zes_hdr_scheme option \<Rightarrow> 'e zes_hdr_scheme option \<Rightarrow>
     ('a zes_hdr_scheme option \<times> 'e zes_hdr_scheme option) api_result) \<Rightarrow> bool" where
  "ext_getter resolve flag rv src known f = (\<forall>w h c old. enabled resolve flag rv w h c \<longrightarrow>
     (case src c of
        None \<Rightarrow> \<forall>ext. f w h (Some old) ext = Done (ZE_RESULT_ERROR_UNSUPPORTED_FEATURE, (Some old, ext), w)
      | Some (v, x) \<Rightarrow>
          (pNext old = 0 \<longrightarrow> (\<forall>ext. f w h (Some old) ext =
             Done (ZE_RESULT_SUCCESS, (Some (keep_header old v), ext), w))) \<and>
          (pNext old \<noteq> 0 \<longrightarrow> (\<forall>e. \<exists>e'. f w h (Some old) (Some e) =
             Done (ZE_RESULT_SUCCESS, (Some (keep_header old v), Some e'), w)
             \<and> stype e' = stype e \<and> pNext e' = pNext e
             \<and> payload e' = (if stype e = known then payload x else payload e)))))"

lemma ext_getterI:
  assumes "\<And>w h old ext. f w h (Some old) ext = locked w (\<lambda>s. prologue s h (resolve s h) flag rv (Some old, ext)
    (\<lambda>c. case src c of None \<Rightarrow> Done (ZE_RESULT_ERROR_UNSUPPORTED_FEATURE, (Some old, ext))
       | Some (v, x) \<Rightarrow> copy_with_ext v known x old ext))"
  shows "ext_getter resolve flag rv src known f"
  unfolding ext_getter_def
proof (intro allI impI)
  fix w h c old
  assume en: "enabled resolve flag rv w h c"
  have ok: "f w h (Some old) ext = Done (r, out, w)"
    if "(case src c of None \<Rightarrow> Done (ZE_RESULT_ERROR_UNSUPPORTED_FEATURE, (Some old, ext))
       | Some (v, x) \<Rightarrow> copy_with_ext v known x old ext) = Done (r, out)" for ext r out
    unfolding assms by (rule locked_enabled [OF en]) (rule that)
  show "case src c of
        None \<Rightarrow> \<forall>ext. f w h (Some old) ext = Done (ZE_RESULT_ERROR_UNSUPPORTED_FEATURE, (Some old, ext), w)
      | Some (v, x) \<Rightarrow>
          (pNext old = 0 \<longrightarrow> (\<forall>ext. f w h (Some old) ext =
             Done (ZE_RESULT_SUCCESS, (Some (keep_header old v), ext), w))) \<and>
          (pNext old \<noteq> 0 \<longrightarrow> (\<forall>e. \<exists>e'. f w h (Some old) (Some e) =
             Done (ZE_RESULT_SUCCESS, (Some (keep_header old v), Some e'), w)
             \<and> stype e' = stype e \<and> pNext e' = pNext e
             \<and> payload e' = (if stype e = known then payload x else payload e)))"
  proof (cases "src c")
    case None
    then show ?thesis by (auto intro!: ok)
  next
    case (Some vx)
    obtain v x where vx: "vx = (v, x)" by (cases vx)
    have "f w h (Some old) (Some e) = Done (ZE_RESULT_SUCCESS,
        (Some (keep_header old v), Some (if stype e = known then x\<lparr>stype := known, pNext := pNext e\<rparr> else e)), w)"
      if "pNext old \<noteq> 0" for e
      using that Some vx by (intro ok) (simp add: copy_with_ext_def follow_pNext_def)
    moreover have "f w h (Some old) ext = Done (ZE_RESULT_SUCCESS, (Some (keep_header old v), ext), w)"
      if "pNext old = 0" for ext
      using that Some vx by (intro ok) (simp add: copy_with_ext_def follow_pNext_def)
    ultimately show ?thesis
      using Some vx by (auto simp: payload_def)
  qed
qed

lemma call_cong:
  "(\<And>c. body c = body' c) \<Longrightarrow>
   locked w (\<lambda>s. prologue s h (resolve s h) flag rv out body) = locked w (\<lambda>s. prologue s h (resolve s h) flag rv out body')"
  by presburger

definition cptr_opt :: "'a cptr \<Rightarrow> 'a option" where
  "cptr_opt p = (case p of Null \<Rightarrow> None | Ptr _ x \<Rightarrow> Some x)"

lemma cptr_opt_simps [simp]: "cptr_opt Null = None" "cptr_opt (Ptr a x) = Some x"
  by (simp_all add: cptr_opt_def)

text \<open>
  The queries that take an extension structure fill it exactly when the caller chained one of
  the type they know, keep its header, leave any other chained structure alone, and never touch
  anything when \<^verbatim>\<open>pNext\<close> is null; the base structure keeps its header in every case.
\<close>

theorem extension_queries:
  "ext_getter resolve_device UNSUPPORTED_FEATURE_GET_PROPERTIES (\<lambda>d. rv_zesDeviceGetProperties (dev_return_values d))
     (\<lambda>d. map_option (\<lambda>p. (device_properties_info_base p, device_properties_info_extended_properties p)) (cptr_opt (dev_properties d)))
     ZES_STRUCTURE_TYPE_DEVICE_EXT_PROPERTIES zesDeviceGetProperties
   \<and> ext_getter resolve_device UNSUPPORTED_FEATURE_PCI_GET_PROPERTIES (\<lambda>d. rv_zesDevicePciGetProperties (dev_return_values d))
     (\<lambda>d. map_option (\<lambda>p. (pci_properties_info_base p, pci_properties_info_link_speed_downgrade p)) (cptr_opt (pci_info_properties (dev_pci d))))
     ZES_STRUCTURE_TYPE_PCI_LINK_SPEED_DOWNGRADE_EXT_PROPERTIES zesDevicePciGetProperties
   \<and> ext_getter resolve_device UNSUPPORTED_FEATURE_PCI_GET_STATE (\<lambda>d. rv_zesDevicePciGetState (dev_return_values d))
     (\<lambda>d. map_option (\<lambda>p. (pci_state_info_base p, pci_state_info_link_speed_downgrade p)) (cptr_opt (pci_info_state (dev_pci d))))
     ZES_STRUCTURE_TYPE_PCI_LINK_SPEED_DOWNGRADE_EXT_STATE zesDevicePciGetState
   \<and> ext_getter resolve_device UNSUPPORTED_FEATURE_ECC_GET_STATE (\<lambda>d. rv_zesDeviceGetEccState (dev_return_values d))
     (\<lambda>d. Option.bind (cptr_opt (dev_ecc d)) (\<lambda>e. map_option (\<lambda>p. (ecc_state_info_properties p, ecc_state_info_extended_properties p)) (cptr_opt (ecc_info_state e))))
     ZES_STRUCTURE_TYPE_DEVICE_ECC_DEFAULT_PROPERTIES_EXT zesDeviceGetEccState
   \<and> ext_getter resolve_engine UNSUPPORTED_FEATURE_ENGINE_GET_PROPERTIES (\<lambda>e. rv_zesEngineGetProperties (engine_return_values e))
     (\<lambda>e. Some (engine_properties_info_base (engine_properties e), engine_properties_info_extended_properties (engine_properties e)))
     ZES_STRUCTURE_TYPE_ENGINE_EXT_PROPERTIES zesEngineGetProperties"
  by (intro conjI ext_getterI;
      unfold zesDeviceGetProperties_def zesDevicePciGetProperties_def zesDevicePciGetState_def
        zesDeviceGetEccState_def zesEngineGetProperties_def;
      intro call_cong; simp split: cptr.splits)

section \<open>Processes\<close>

text \<open>
  \<^verbatim>\<open>zesDeviceProcessesGetState\<close>: a buffer declared too small receives the first processes and
  the call reports an invalid size, leaving the caller's count; otherwise every process is written
  and the count is their number.
\<close>

theorem processes_get_state:
  assumes en: "enabled resolve_device UNSUPPORTED_FEATURE_PROCESSES_GET_STATE
      (\<lambda>d. rv_zesDeviceProcessesGetState (dev_return_values d)) w h dev"
    and room: "unat c \<le> length b"
  shows "zesDeviceProcessesGetState w h (Some c) (Some b) =
    (let ps = elems (dev_processes dev) in
     if unat c < length ps
     then Done (ZE_RESULT_ERROR_INVALID_SIZE, (Some c, Some (take (unat c) ps @ drop (unat c) b)), w)
     else Done (ZE_RESULT_SUCCESS, (Some (word_of_nat (length ps)), Some (ps @ drop (length ps) b)), w))"
proof -
  let ?ps = "elems (dev_processes dev)" and ?n = "dev_processes_count dev"
  have wf: "wf_arr ?n (dev_processes dev)"
    using en wf_resolved_device by (auto simp: enabled_def wf_device_def)
  then have len: "unat ?n = length ?ps"
    by (rule wf_arr_length)
  have fill: "fill (arr_get (dev_processes dev)) 0 k b = Done (take k ?ps @ drop k b)"
    if "k \<le> length ?ps" "k \<le> unat c" for k
    using fill_from_0 [of k "arr_get (dev_processes dev)" "\<lambda>i. ?ps ! i" b] that room len
    by (simp add: arr_get_wf [OF wf] map_nth_prefix)
  show ?thesis
  proof (cases "unat c < length ?ps")
    case True
    then show ?thesis
      unfolding zesDeviceProcessesGetState_def Let_def
      by (subst if_P, simp, intro locked_enabled [OF en]) (simp add: fill word_less_nat_alt len)
  next
    case False
    moreover have "word_of_nat (length ?ps) = ?n"
      using len by (metis word_of_nat_unat)
    ultimately show ?thesis
      unfolding zesDeviceProcessesGetState_def Let_def
      by (subst if_not_P, simp, intro locked_enabled [OF en]) (simp add: fill word_less_nat_alt len)
  qed
qed

section \<open>The firmware console log\<close>

abbreviation c_text :: "cstring \<Rightarrow> cstring" where
  "c_text s \<equiv> takeWhile (\<lambda>x. x \<noteq> CHR 0x00) s"

lemma strnlen_loop_spec:
  "i + k \<le> length s \<Longrightarrow> strnlen_loop s i k = Done (i + length (c_text (take k (drop i s))))"
proof (induction k arbitrary: i)
  case 0
  then show ?case by simp
next
  case (Suc k)
  then have "take (Suc k) (drop i s) = s ! i # take k (drop (Suc i) s)"
    by (simp add: Cons_nth_drop_Suc [symmetric])
  with Suc.IH [of "Suc i"] Suc.prems show ?case
    by simp
qed

lemma sysman_strnlen_spec: "m \<le> length s \<Longrightarrow> sysman_strnlen s m = Done (length (c_text (take m s)))"
  by (simp add: sysman_strnlen_def strnlen_loop_spec)

text \<open>What \<^verbatim>\<open>strncpy\<close> leaves after the terminator is stored at the last copied position.\<close>

lemma c_text_take: "c_text (take n s) = take n (c_text s)"
proof (induction s arbitrary: n)
  case Nil
  then show ?case by simp
next
  case (Cons a s)
  show ?case
    by (cases n) (simp_all add: Cons.IH)
qed

lemma strncpy_terminated:
  assumes "0 < n" "n \<le> length dst" "n \<le> length (c_text s) + 1" "n \<le> length s"
  shows "\<exists>d. strncpy dst s n = Done d \<and> d[n - 1 := CHR 0x00] = take (n - 1) (c_text s) @ [CHR 0x00] @ drop n dst"
proof -
  let ?c = "c_text (take n s)"
  have c: "?c = take n (c_text s)"
    by (rule c_text_take)
  let ?d = "?c @ replicate (n - length ?c) (CHR 0x00) @ drop n dst"
  have "?d[n - 1 := CHR 0x00] = take (n - 1) (c_text s) @ [CHR 0x00] @ drop n dst"
  proof (cases "n \<le> length (c_text s)")
    case True
    then have "take n (c_text s) = take (n - 1) (c_text s) @ [c_text s ! (n - 1)]"
      using assms(1) take_Suc_conv_app_nth [of "n - 1" "c_text s"] by simp
    with True assms(1) show ?thesis
      by (simp add: c list_update_append)
  next
    case False
    with assms have n: "n - length (c_text s) = 1" "n - 1 = length (c_text s)" by simp_all
    have "?c = c_text s"
      using c False by simp
    then show ?thesis
      by (simp only: n) (simp add: list_update_append)
  qed
  with assms show ?thesis
    by (auto simp: strncpy_def Let_def)
qed

text \<open>
  \<^verbatim>\<open>zesFirmwareGetConsoleLogs\<close> never reads or writes out of bounds, and with a buffer of the
  declared, non-zero size writes the log text cut to fit, always NUL-terminated, reports the number
  of characters written including the terminator, and leaves the rest of the buffer alone. Without
  a buffer it reports the size the whole text needs. A declared size of zero with a buffer succeeds
  without writing, not even a terminator.
\<close>

theorem console_log:
  assumes en: "enabled resolve_firmware UNSUPPORTED_FEATURE_FW_GET_CONSOLE_LOGS
      (\<lambda>f. rv_zesFirmwareGetConsoleLogs (firmware_return_values f)) w h fw"
    and room: "sz \<le> length buf"
    and msg: "msg = c_text (take (SYSMAN_FIRMWARE_LOG_SIZE - 1) (firmware_log fw))"
  shows "zesFirmwareGetConsoleLogs w h (Some n) None = Done (ZE_RESULT_SUCCESS, (Some (length msg + 1), None), w)
    \<and> zesFirmwareGetConsoleLogs w h (Some sz) (Some buf) =
       (if sz = 0 then Done (ZE_RESULT_SUCCESS, (Some 0, Some buf), w)
        else (let len = min sz (length msg + 1) in
          Done (ZE_RESULT_SUCCESS, (Some len, Some (take (len - 1) msg @ [CHR 0x00] @ drop len buf)), w)))"
proof -
  have wf: "length (firmware_log fw) = SYSMAN_FIRMWARE_LOG_SIZE"
    using en wf_resolved(6) by (auto simp: enabled_def wf_firmware_def)
  then have slen: "sysman_strnlen (firmware_log fw) (SYSMAN_FIRMWARE_LOG_SIZE - 1) = Done (length msg)"
    by (simp add: sysman_strnlen_spec msg)
  have fits: "length msg + 1 \<le> length (firmware_log fw)"
    using wf length_takeWhile_le [of _ "take (SYSMAN_FIRMWARE_LOG_SIZE - 1) (firmware_log fw)"]
    by (simp add: msg SYSMAN_FIRMWARE_LOG_SIZE_def le_diff_conv2)
  have msg_take: "msg = take (SYSMAN_FIRMWARE_LOG_SIZE - 1) (c_text (firmware_log fw))"
    by (simp add: msg c_text_take)
  have count: "zesFirmwareGetConsoleLogs w h (Some n) None = Done (ZE_RESULT_SUCCESS, (Some (length msg + 1), None), w)"
    unfolding zesFirmwareGetConsoleLogs_def by (intro locked_enabled [OF en]) (simp add: slen del: One_nat_def)
  show ?thesis
  proof (cases "sz = 0")
    case True
    then have "zesFirmwareGetConsoleLogs w h (Some sz) (Some buf) = Done (ZE_RESULT_SUCCESS, (Some 0, Some buf), w)"
      unfolding zesFirmwareGetConsoleLogs_def
      by (intro locked_enabled [OF en]) (simp add: slen del: One_nat_def)
    with True count show ?thesis by simp
  next
    case False
    let ?len = "min sz (length msg + 1)"
    have "0 < ?len" "?len \<le> length buf" "?len \<le> length (firmware_log fw)"
      using False room fits by auto
    moreover have "?len \<le> length (c_text (firmware_log fw)) + 1"
      using msg_take by (simp add: min.coboundedI2)
    ultimately obtain d where d: "strncpy buf (firmware_log fw) ?len = Done d"
      and d': "d[?len - 1 := CHR 0x00] = take (?len - 1) (c_text (firmware_log fw)) @ [CHR 0x00] @ drop ?len buf"
      using strncpy_terminated by blast
    have "take (?len - 1) (c_text (firmware_log fw)) = take (?len - 1) msg"
      using msg_take fits wf by (simp add: min_def)
    moreover have "(if sz < length msg + 1 then sz else length msg + 1) = ?len"
      by simp
    ultimately have "zesFirmwareGetConsoleLogs w h (Some sz) (Some buf) =
        Done (ZE_RESULT_SUCCESS, (Some ?len, Some (take (?len - 1) msg @ [CHR 0x00] @ drop ?len buf)), w)"
      using False d d' unfolding zesFirmwareGetConsoleLogs_def
      by (intro locked_enabled [OF en]) (simp add: slen Let_def del: One_nat_def)
    with False count show ?thesis by (simp add: Let_def)
  qed
qed

section \<open>Overclock controls\<close>

lemma first_index_find: "find P xs = map_option (\<lambda>i. xs ! i) (first_index P xs)"
  by (induction xs) (auto simp: option.map_comp comp_def)

lemma find_in_array:
  assumes "wf_arr n p"
  shows "obind (find_loop (arr_get p) P 0 (unat n)) (\<lambda>r. case r of None \<Rightarrow> none
      | Some i \<Rightarrow> obind (arr_get p i) some) =
    (case find P (elems p) of None \<Rightarrow> none | Some x \<Rightarrow> some x)"
proof (cases "first_index P (elems p)")
  case None
  with assms show ?thesis
    by (simp add: find_loop_wf first_index_find)
next
  case (Some i)
  then have "i < unat n"
    using assms by (simp add: first_index_Some wf_arr_length)
  with Some assms show ?thesis
    by (simp add: find_loop_wf first_index_find arr_get_wf)
qed

lemma find_control_info_spec:
  assumes "wf_oc oc" "\<not> SYSMAN_ARRAY_PTR_IS_EMPTY (oc_control_infos oc)"
  shows "find_control_info oc ctrl =
    Done (find (\<lambda>c. oc_control_info_control_type c = ctrl) (elems (oc_control_infos oc)))"
  using assms find_in_array [of "oc_control_infos_count oc" "oc_control_infos oc"
      "\<lambda>c. oc_control_info_control_type c = ctrl" "Done None" "\<lambda>c. Done (Some c)"]
  by (cases "oc_control_infos oc") (auto simp: find_control_info_def wf_oc_def split: option.splits)

lemma wf_resolved_oc:
  assumes "ready w" "resolve_oc (g_sysman_state w) h = Done (Some c)"
  shows "wf_oc c"
proof -
  from assms(1) have "wf_state (g_sysman_state w)"
    by (simp add: ready_def)
  then show ?thesis
    using assms(2)
    by (rule oc.resolved_in) (auto simp: wf_device_def wf_overclock_def oc_domains_def list_all_iff split: cptr.splits)
qed

text \<open>
  The queries of one overclock control act on the first control of the requested type in the
  domain: its configured current and pending value, its properties, and its state and pending
  action with zero for the one that is not configured. A control that is not listed, or has no
  such data, is an unsupported feature.
\<close>

theorem overclock_controls:
  assumes ready: "ready w" "resolve_oc (g_sysman_state w) h = Done (Some oc)"
    and alloc: "\<not> SYSMAN_ARRAY_PTR_IS_EMPTY (oc_control_infos oc)"
    and on: "\<forall>f. f \<notin> unsupported_set (g_sysman_state w) h"
    and rv: "rv_zesOverclockGetControlCurrentValue (oc_return_values oc) = 0"
      "rv_zesOverclockGetControlPendingValue (oc_return_values oc) = 0"
      "rv_zesOverclockGetDomainControlProperties (oc_return_values oc) = 0"
      "rv_zesOverclockGetControlState (oc_return_values oc) = 0"
    and info: "info = find (\<lambda>c. oc_control_info_control_type c = ctrl) (elems (oc_control_infos oc))"
  shows "zesOverclockGetControlCurrentValue w h ctrl (Some v) =
      (case Option.bind info (cptr_opt \<circ> oc_control_info_current_value) of
         None \<Rightarrow> Done (ZE_RESULT_ERROR_UNSUPPORTED_FEATURE, Some v, w) | Some x \<Rightarrow> Done (ZE_RESULT_SUCCESS, Some x, w))
    \<and> zesOverclockGetControlPendingValue w h ctrl (Some v) =
      (case Option.bind info (cptr_opt \<circ> oc_control_info_pending_value) of
         None \<Rightarrow> Done (ZE_RESULT_ERROR_UNSUPPORTED_FEATURE, Some v, w) | Some x \<Rightarrow> Done (ZE_RESULT_SUCCESS, Some x, w))
    \<and> zesOverclockGetDomainControlProperties w h ctrl (Some p) =
      (case Option.bind info (cptr_opt \<circ> oc_control_info_properties) of
         None \<Rightarrow> Done (ZE_RESULT_ERROR_UNSUPPORTED_FEATURE, Some p, w) | Some x \<Rightarrow> Done (ZE_RESULT_SUCCESS, Some x, w))
    \<and> zesOverclockGetControlState w h ctrl (Some a) (Some b) =
      (case info of None \<Rightarrow> Done (ZE_RESULT_ERROR_UNSUPPORTED_FEATURE, (Some a, Some b), w)
       | Some i \<Rightarrow> (case (cptr_opt (oc_control_info_state i), cptr_opt (oc_control_info_pending_action i)) of
           (None, None) \<Rightarrow> Done (ZE_RESULT_ERROR_UNSUPPORTED_FEATURE, (Some a, Some b), w)
         | (st, pa) \<Rightarrow> Done (ZE_RESULT_SUCCESS,
             (Some (case st of None \<Rightarrow> 0 | Some x \<Rightarrow> x), Some (case pa of None \<Rightarrow> 0 | Some x \<Rightarrow> x)), w)))"
proof -
  have found: "find_control_info oc ctrl = Done info"
    using find_control_info_spec [OF wf_resolved_oc [OF ready] alloc] info by simp
  have en: "rv oc = 0 \<Longrightarrow> enabled resolve_oc flag rv w h oc" for flag rv
    using ready on by (simp add: enabled_def)
  have free: "\<not> g_state_lock w"
    using ready(1) by (simp add: ready_def)
  then have unlocked: "w\<lparr>g_state_lock := False\<rparr> = w"
    by (cases w) simp
  note call = locked_def sysman_state_lock_def sysman_unlock_and_return_def sysman_state_unlock_def
  have step: "locked w (\<lambda>s. prologue s h (resolve_oc s h) flag rv out body) =
      obind (body oc) (\<lambda>(r, out'). Done (r, out', w))" if "rv oc = 0" for flag rv body and out :: 'o
    using prologue_enabled [OF en [where rv = rv and flag = flag, OF that], of out body] free by (simp add: call unlocked)
  show ?thesis
    by (intro conjI; unfold zesOverclockGetControlCurrentValue_def zesOverclockGetControlPendingValue_def
        zesOverclockGetDomainControlProperties_def zesOverclockGetControlState_def; subst step, simp add: rv;
        auto simp: found copy_src_first_def overwrite_def cptr_opt_def Let_def split: option.splits cptr.splits)
qed

section \<open>Throughput of several fabric ports\<close>

text \<open>What one requested port contributes to the caller's array of pointers.\<close>

definition port_result ::
  "sysman_state_t \<Rightarrow> u64 \<Rightarrow> zes_fabric_port_throughput_t option \<Rightarrow> zes_fabric_port_throughput_t option" where
  "port_result s hPort slot = (if hPort = 0 \<or> slot = None then slot
     else (case resolve_fabric_port s hPort of
         Done (Some port) \<Rightarrow> (case fabric_port_throughput port of Null \<Rightarrow> slot | Ptr _ t \<Rightarrow> Some t)
       | _ \<Rightarrow> slot))"

lemma multi_port_loop_spec:
  assumes "wf_state s" "i + k \<le> length ports" "i + k \<le> length out"
  shows "multi_port_loop s ports i k out =
    Done (take i out @ map (\<lambda>j. port_result s (ports ! j) (out ! j)) [i..<i + k] @ drop (i + k) out)"
  using assms(2,3)
proof (induction k arbitrary: i out)
  case 0
  then show ?case by simp
next
  case (Suc k)
  let ?r = "port_result s (ports ! i) (out ! i)"
  obtain res where res: "resolve_fabric_port s (ports ! i) = Done res"
    using fabric_port.resolve_wf [OF assms(1)] by simp
  have step: "multi_port_loop s ports i (Suc k) out = multi_port_loop s ports (Suc i) k (out[i := ?r])"
    using Suc.prems res by (auto simp: port_result_def split: option.splits cptr.splits)
  have "take (Suc i) (out[i := ?r]) = take i out @ [?r]"
    using Suc.prems by (simp add: take_Suc_conv_app_nth)
  moreover have "[i..<i + Suc k] = i # [Suc i..<Suc i + k]"
    by (simp add: upt_rec)
  moreover have "map (\<lambda>j. port_result s (ports ! j) (out[i := ?r] ! j)) [Suc i..<Suc i + k] =
      map (\<lambda>j. port_result s (ports ! j) (out ! j)) [Suc i..<Suc i + k]"
    by (rule map_cong) auto
  moreover have "multi_port_loop s ports (Suc i) k (out[i := ?r]) = Done (take (Suc i) (out[i := ?r]) @
      map (\<lambda>j. port_result s (ports ! j) (out[i := ?r] ! j)) [Suc i..<Suc i + k] @ drop (Suc i + k) (out[i := ?r]))"
    using Suc.prems by (intro Suc.IH) auto
  ultimately show ?case
    by (simp only: step) simp
qed

text \<open>
  \<^verbatim>\<open>zesFabricPortGetMultiPortThroughput\<close>, given arrays of the declared length, writes the
  throughput of exactly those requested ports that resolve and have data, skips null handles and
  null output pointers, and touches nothing beyond the declared number of ports.
\<close>

theorem multi_port_throughput:
  assumes "ready w" "resolve_device (g_sysman_state w) h = Done (Some dev)"
    and "UNSUPPORTED_FEATURE_FABRIC_PORT_MULTI_THROUGHPUT \<notin> unsupported_set (g_sysman_state w) h"
    and "\<forall>fp. nth_opt (elems (dev_fabric_ports dev)) 0 = Some fp \<longrightarrow>
           rv_zesFabricPortGetMultiPortThroughput (fabric_port_return_values fp) = 0"
    and "unat n \<le> length ports" "unat n \<le> length out"
  shows "zesFabricPortGetMultiPortThroughput w h n (Some ports) (Some out) = Done (ZE_RESULT_SUCCESS,
    Some (map (\<lambda>j. port_result (g_sysman_state w) (ports ! j) (out ! j)) [0..<unat n] @ drop (unat n) out), w)"
proof -
  let ?s = "g_sysman_state w"
  have wf: "wf_state ?s" and free: "\<not> g_state_lock w"
    using assms(1) by (auto simp: ready_def)
  have arr: "wf_arr (dev_fabric_ports_count dev) (dev_fabric_ports dev)"
    using wf_resolved_device [OF assms(1,2)] by (simp add: wf_device_def)
  have rv: "obind (arr_get (dev_fabric_ports dev) 0) (\<lambda>fp.
      Done (rv_zesFabricPortGetMultiPortThroughput (fabric_port_return_values fp))) = Done 0"
    if "0 < dev_fabric_ports_count dev"
    using that assms(4) wf_arr_length [OF arr]
    by (auto simp: arr_get_wf [OF arr] word_less_nat_alt nth_opt_def)
  show ?thesis
    unfolding zesFabricPortGetMultiPortThroughput_def
    by (intro locked_eq free)
      (simp add: assms(2,3) is_unsupported_wf [OF wf] rv multi_port_loop_spec [OF wf] assms(5,6) cong: if_cong)
qed

end
