(* ===== verification/Stub_Ras.thy ===== *)
theory Stub_Ras
  imports Stub_Special
begin

text \<open>
  \<^verbatim>\<open>zesRasClearStateExp\<close> is the only entry point that writes the state. This theory shows exactly
  what it writes: the first counter of the requested category of the addressed error set becomes
  zero, and with the counters masked out (\<open>erase\<close>) the state is the same.
\<close>

section \<open>Updating an array in place\<close>

lemma elems_upd_arr [simp]: "elems (upd_arr i f p) = (elems p)[i := f (elems p ! i)]"
  by (cases p) (simp_all add: upd_arr_def)

lemma wf_arr_upd_arr [simp]: "wf_arr n (upd_arr i f p) = wf_arr n p"
  by (cases p) (simp_all add: upd_arr_def wf_arr_def)

lemma nth_opt_upd_arr:
  "nth_opt (elems (upd_arr (unat (i :: u16)) f p)) (unat j) =
   (if j = i then map_option f (nth_opt (elems p) (unat i)) else nth_opt (elems p) (unat j))"
  by (auto simp: nth_opt_def word_unat_eq_iff)

abbreviation set_ras :: "u16 \<Rightarrow> sysman_ras_t \<Rightarrow> sysman_device_state_t \<Rightarrow> sysman_device_state_t" where
  "set_ras c ras dev \<equiv> dev\<lparr>dev_ras_error_sets := upd_arr (unat c) (\<lambda>_. ras) (dev_ras_error_sets dev)\<rparr>"

abbreviation set_device :: "u16 \<Rightarrow> u16 \<Rightarrow> sysman_ras_t \<Rightarrow> sysman_drivers_state_t \<Rightarrow> sysman_drivers_state_t" where
  "set_device i c ras drv \<equiv> drv\<lparr>drv_devices := upd_arr (unat i) (set_ras c ras) (drv_devices drv)\<rparr>"

lemma driver_at_put_ras:
  "driver_at (put_ras h ras s) d = (let b = decode_handle h in
     if d = bits_drv b then map_option (set_device (bits_dev b) (bits_comp b) ras) (driver_at s d) else driver_at s d)"
  by (simp add: driver_at_def put_ras_def Let_def nth_opt_upd_arr del: elems_upd_arr)

lemma device_at_put_ras:
  "device_at (put_ras h ras s) d i = (let b = decode_handle h in
     if d = bits_drv b \<and> i = bits_dev b then map_option (set_ras (bits_comp b) ras) (device_at s d i) else device_at s d i)"
  by (cases "driver_at s d") (auto simp: device_at_def driver_at_put_ras Let_def nth_opt_upd_arr simp del: elems_upd_arr)

lemma wf_set_ras: "wf_device dev \<Longrightarrow> wf_ras ras \<Longrightarrow> wf_device (set_ras c ras dev)"
  by (auto simp: wf_device_def list_all_iff dest: set_update_subset_insert [THEN subsetD])

lemma list_all_update: "list_all P xs \<Longrightarrow> (\<And>x. P x \<Longrightarrow> P (f x)) \<Longrightarrow> list_all P (xs[i := f (xs ! i)])"
proof (cases "i < length xs")
  case True
  assume "list_all P xs" "\<And>x. P x \<Longrightarrow> P (f x)"
  with True show ?thesis
    by (auto simp: list_all_length nth_list_update)
qed (simp add: list_update_beyond)

lemma wf_set_device: "wf_driver drv \<Longrightarrow> wf_ras ras \<Longrightarrow> wf_driver (set_device i c ras drv)"
  by (auto simp: wf_driver_def intro!: list_all_update wf_set_ras)

lemma wf_put_ras: "wf_state s \<Longrightarrow> wf_ras ras \<Longrightarrow> wf_state (put_ras h ras s)"
  by (auto simp: wf_state_def put_ras_def Let_def intro!: list_all_update wf_set_device)

lemma wf_clear_counter: "wf_ras ras \<Longrightarrow> wf_ras (clear_counter i ras)"
  by (simp add: wf_ras_def clear_counter_def)

section \<open>The state without its counters\<close>

definition map_arr :: "('a \<Rightarrow> 'b) \<Rightarrow> 'a list cptr \<Rightarrow> 'b list cptr" where
  "map_arr f p = (case p of Null \<Rightarrow> Null | Ptr a xs \<Rightarrow> Ptr a (map f xs))"

definition erase_ras :: "sysman_ras_t \<Rightarrow> sysman_ras_t" where
  "erase_ras r = r\<lparr>ras_state_exp := map_arr (\<lambda>e. e\<lparr>ras_state_exp_errorCounter := 0\<rparr>) (ras_state_exp r)\<rparr>"

definition erase_device :: "sysman_device_state_t \<Rightarrow> sysman_device_state_t" where
  "erase_device d = d\<lparr>dev_ras_error_sets := map_arr erase_ras (dev_ras_error_sets d)\<rparr>"

definition erase_driver :: "sysman_drivers_state_t \<Rightarrow> sysman_drivers_state_t" where
  "erase_driver d = d\<lparr>drv_devices := map_arr erase_device (drv_devices d)\<rparr>"

definition erase :: "sysman_state_t \<Rightarrow> sysman_state_t" where
  "erase s = s\<lparr>st_system := (st_system s)\<lparr>sys_drivers := map_arr erase_driver (sys_drivers (st_system s))\<rparr>\<rparr>"

lemma map_upd_arr:
  "(\<And>x. nth_opt (elems p) i = Some x \<Longrightarrow> f (g x) = f x) \<Longrightarrow> map_arr f (upd_arr i g p) = map_arr f p"
proof (cases p)
  case (Ptr a xs)
  assume "\<And>x. nth_opt (elems p) i = Some x \<Longrightarrow> f (g x) = f x"
  with Ptr have "i < length xs \<Longrightarrow> (map f xs)[i := f (g (xs ! i))] = map f xs"
    by (intro list_update_same_conv [THEN iffD2]) (auto simp: nth_opt_def)
  with Ptr show ?thesis
    by (cases "i < length xs") (simp_all add: map_arr_def upd_arr_def map_update list_update_beyond)
qed (simp add: map_arr_def upd_arr_def)

lemma erase_clear_counter [simp]: "erase_ras (clear_counter i ras) = erase_ras ras"
  by (simp add: erase_ras_def clear_counter_def map_upd_arr)

lemma erase_put_ras:
  assumes "device_at s (bits_drv (decode_handle h)) (bits_dev (decode_handle h)) = Some dev"
    and "nth_opt (elems (dev_ras_error_sets dev)) (unat (bits_comp (decode_handle h))) = Some ras"
  shows "erase (put_ras h (clear_counter i ras) s) = erase s"
proof -
  let ?b = "decode_handle h"
  obtain drv where drv: "nth_opt (elems (sys_drivers (st_system s))) (unat (bits_drv ?b)) = Some drv"
    and dev: "nth_opt (elems (drv_devices drv)) (unat (bits_dev ?b)) = Some dev"
    using assms(1) by (auto simp: device_at_def driver_at_def Option.bind_eq_Some_conv)
  have "map_arr erase_ras (upd_arr (unat (bits_comp ?b)) (\<lambda>_. clear_counter i ras) (dev_ras_error_sets dev)) =
      map_arr erase_ras (dev_ras_error_sets dev)"
    using assms(2) by (intro map_upd_arr) auto
  then have "erase_device (set_ras (bits_comp ?b) (clear_counter i ras) dev) = erase_device dev"
    by (simp add: erase_device_def)
  then have "map_arr erase_device (upd_arr (unat (bits_dev ?b)) (set_ras (bits_comp ?b) (clear_counter i ras)) (drv_devices drv)) =
      map_arr erase_device (drv_devices drv)"
    using dev by (intro map_upd_arr) auto
  then have "erase_driver (set_device (bits_dev ?b) (bits_comp ?b) (clear_counter i ras) drv) = erase_driver drv"
    by (simp add: erase_driver_def)
  then have "map_arr erase_driver (upd_arr (unat (bits_drv ?b)) (set_device (bits_dev ?b) (bits_comp ?b) (clear_counter i ras))
      (sys_drivers (st_system s))) = map_arr erase_driver (sys_drivers (st_system s))"
    using drv by (intro map_upd_arr) auto
  then show ?thesis
    by (simp add: erase_def put_ras_def Let_def)
qed

section \<open>Clearing a counter\<close>

lemma ras_at_handle:
  assumes "wf_state s" "resolve_ras s h = Done (Some ras)"
  obtains dev where "device_at s (bits_drv (decode_handle h)) (bits_dev (decode_handle h)) = Some dev"
    "nth_opt (elems (dev_ras_error_sets dev)) (unat (bits_comp (decode_handle h))) = Some ras"
    "bits_type (decode_handle h) = handle_type_code STUB_HANDLE_RAS"
  using assms by (auto simp: ras.resolve_wf Let_def Option.bind_eq_Some_conv split: if_splits)

lemma resolve_ras_put_ras:
  assumes wf: "wf_state s" "wf_ras ras'" and res: "resolve_ras s h = Done (Some ras)"
  shows "resolve_ras (put_ras h ras' s) g = (if g = h then Done (Some ras') else resolve_ras s g)"
proof -
  let ?b = "decode_handle h" and ?c = "decode_handle g"
  obtain dev where dev: "device_at s (bits_drv ?b) (bits_dev ?b) = Some dev"
    and at: "nth_opt (elems (dev_ras_error_sets dev)) (unat (bits_comp ?b)) = Some ras"
    and ty: "bits_type ?b = handle_type_code STUB_HANDLE_RAS"
    using ras_at_handle [OF wf(1) res] .
  have inj: "g = h \<longleftrightarrow> ?c = ?b"
    using handle_raw_decode by metis
  show ?thesis
  proof (cases "bits_drv ?c = bits_drv ?b \<and> bits_dev ?c = bits_dev ?b \<and> bits_type ?c = bits_type ?b")
    case True
    then have "g = h \<longleftrightarrow> bits_comp ?c = bits_comp ?b"
      using inj by auto
    with True dev at ty wf wf_put_ras [OF wf] show ?thesis
      by (auto simp: ras.resolve_wf device_at_put_ras Let_def nth_opt_upd_arr simp del: elems_upd_arr)
  next
    case False
    with inj dev wf ty wf_put_ras [OF wf] show ?thesis
      by (auto simp: ras.resolve_wf device_at_put_ras Let_def)
  qed
qed

lemma ras_clear_aux:
  assumes en: "enabled resolve_ras UNSUPPORTED_FEATURE_RAS_CLEAR_STATE_EXP (\<lambda>r. rv_zesRasClearStateExp (ras_return_values r)) w h ras"
  shows "case first_index (\<lambda>e. ras_state_exp_category e = cat) (elems (ras_state_exp ras)) of
      None \<Rightarrow> zesRasClearStateExp w h cat = Done (ZE_RESULT_ERROR_INVALID_ARGUMENT, (), w)
    | Some i \<Rightarrow> \<exists>w'. zesRasClearStateExp w h cat = Done (ZE_RESULT_SUCCESS, (), w') \<and> ready w'
        \<and> g_config_path w' = g_config_path w
        \<and> erase (g_sysman_state w') = erase (g_sysman_state w)
        \<and> (\<forall>g. resolve_ras (g_sysman_state w') g =
             (if g = h then Done (Some (clear_counter i ras)) else resolve_ras (g_sysman_state w) g))"
proof -
  let ?s = "g_sysman_state w"
  have wf: "wf_state ?s" and free: "\<not> g_state_lock w" and res: "resolve_ras ?s h = Done (Some ras)"
    and on: "UNSUPPORTED_FEATURE_RAS_CLEAR_STATE_EXP \<notin> unsupported_set ?s h"
    and rv: "rv_zesRasClearStateExp (ras_return_values ras) = 0" and wf_ras: "wf_ras ras"
    using en wf_resolved(4) by (auto simp: enabled_def ready_def)
  have loop: "find_loop (arr_get (ras_state_exp ras)) P 0 (unat (ras_state_exp_count ras)) =
      Done (first_index P (elems (ras_state_exp ras)))" for P
    using wf_ras by (intro find_loop_wf) (simp add: wf_ras_def)
  have unlock: "w\<lparr>g_state_lock := False\<rparr> = w"
    using free by (cases w) simp
  note call = zesRasClearStateExp_def sysman_state_lock_def Let_def sysman_unlock_and_return_def sysman_state_unlock_def
  show ?thesis
  proof (cases "first_index (\<lambda>e. ras_state_exp_category e = cat) (elems (ras_state_exp ras))")
    case None
    then show ?thesis
      using free res on rv unlock by (simp add: call is_unsupported_wf wf loop)
  next
    case (Some i)
    let ?w = "w\<lparr>g_sysman_state := put_ras h (clear_counter i ras) ?s\<rparr>"
    have "zesRasClearStateExp w h cat = Done (ZE_RESULT_SUCCESS, (), ?w)"
      using free res on rv Some by (simp add: call is_unsupported_wf wf loop unlock)
    moreover have "ready ?w"
      using free wf wf_ras by (simp add: ready_def wf_put_ras wf_clear_counter)
    moreover have "erase (put_ras h (clear_counter i ras) ?s) = erase ?s"
      by (rule ras_at_handle [OF wf res]) (rule erase_put_ras)
    ultimately show ?thesis
      using Some resolve_ras_put_ras [OF wf wf_clear_counter [OF wf_ras] res]
      by (intro option.case_eq_if [THEN iffD2]) auto
  qed
qed


end
