(* ===== verification/Stub_Uuid.thy ===== *)
theory Stub_Uuid
  imports Stub_Ras
begin

text \<open>
  UUID strings of the configuration (\<^verbatim>\<open>parse_uuid\<close> and \<^verbatim>\<open>resolve_uuids\<close> of
  \<^verbatim>\<open>level-zero-stub/sysman_state.c\<close>), with the part of \<^verbatim>\<open>sscanf\<close> the parser uses. A canonical string
  parses to its sixteen bytes; the parser also accepts strings that are not UUIDs, because the
  \<^verbatim>\<open>%02x\<close> conversion allows signs and leading blanks.
\<close>

section \<open>The \<^verbatim>\<open>%02x\<close> conversion\<close>

definition is_space :: "char \<Rightarrow> bool" where
  "is_space c = (of_char c = (32 :: nat) \<or> (9 \<le> (of_char c :: nat) \<and> (of_char c :: nat) \<le> 13))"

definition hex_val :: "char \<Rightarrow> nat option" where
  "hex_val c = (let n = of_char c :: nat in
     if 48 \<le> n \<and> n \<le> 57 then Some (n - 48)
     else if 97 \<le> n \<and> n \<le> 102 then Some (n - 87)
     else if 65 \<le> n \<and> n \<le> 70 then Some (n - 55)
     else None)"

text \<open>
  One conversion with field width two: blanks are skipped; then an optional sign and one hexadecimal
  digit, or one or two hexadecimal digits (\<^verbatim>\<open>0x\<close> alone is not a number). The result is the value
  stored in the \<^verbatim>\<open>unsigned int\<close> and the rest of the input.
\<close>

definition scan_hex2 :: "cstring \<Rightarrow> (u32 \<times> cstring) option" where
  "scan_hex2 s = (case dropWhile is_space s of
       [] \<Rightarrow> None
     | c # cs \<Rightarrow>
         if c = CHR ''+'' \<or> c = CHR ''-'' then
           (case cs of [] \<Rightarrow> None
            | d # ds \<Rightarrow> (case hex_val d of None \<Rightarrow> None
                | Some v \<Rightarrow> Some (if c = CHR ''-'' then - word_of_nat v else word_of_nat v, ds)))
         else (case hex_val c of None \<Rightarrow> None
            | Some v \<Rightarrow> (case cs of [] \<Rightarrow> Some (word_of_nat v, [])
                | d # ds \<Rightarrow>
                    if c = CHR ''0'' \<and> (d = CHR ''x'' \<or> d = CHR ''X'') then None
                    else (case hex_val d of None \<Rightarrow> Some (word_of_nat v, d # ds)
                      | Some u \<Rightarrow> Some (word_of_nat (16 * v + u), ds)))))"

datatype fmt = Hex2 | Lit char

text \<open>\<^verbatim>\<open>sscanf\<close> with such a format: the values assigned before the first failure.\<close>

fun sscanf :: "fmt list \<Rightarrow> cstring \<Rightarrow> u32 list" where
  "sscanf [] s = []"
| "sscanf (Lit c # fs) s = (case s of [] \<Rightarrow> [] | d # ds \<Rightarrow> if d = c then sscanf fs ds else [])"
| "sscanf (Hex2 # fs) s = (case scan_hex2 s of None \<Rightarrow> [] | Some (v, s') \<Rightarrow> v # sscanf fs s')"

definition uuid_format :: "fmt list" where
  "uuid_format = [Hex2, Hex2, Hex2, Hex2, Lit (CHR ''-''), Hex2, Hex2, Lit (CHR ''-''), Hex2, Hex2,
     Lit (CHR ''-''), Hex2, Hex2, Lit (CHR ''-''), Hex2, Hex2, Hex2, Hex2, Hex2, Hex2]"

definition SYSMAN_UUID_STR_SIZE :: nat where
  "SYSMAN_UUID_STR_SIZE = 37"

definition parse_uuid :: "cstring \<Rightarrow> u8 list option outcome" where
  "parse_uuid str = (case str of
       [] \<Rightarrow> Fault
     | c # _ \<Rightarrow>
         if c = CHR 0x00 then Done (Some (replicate 16 0))
         else if CHR 0x00 \<notin> set str then Fault
         else (let s = c_text str in
           if length s \<noteq> SYSMAN_UUID_STR_SIZE - 1 then Done None
           else (let b = sscanf uuid_format s in
             if length b \<noteq> 16 then Done None else Done (Some (map ucast b)))))"

section \<open>Resolving the UUIDs of a parsed tree\<close>

text \<open>The update of one device's properties; \<open>None\<close> is the early \<^verbatim>\<open>return false\<close>.\<close>

definition resolve_device_uuids :: "sysman_device_state_t \<Rightarrow> sysman_device_state_t option outcome" where
  "resolve_device_uuids dev = (case dev_properties dev of
       Null \<Rightarrow> Done (Some dev)
     | Ptr a p \<Rightarrow>
         (let core = device_core_properties_ze (device_properties_info_core p) in
          obind (parse_uuid (stub_uuid_id (device_core_properties_uuid (device_properties_info_core p)))) (\<lambda>r. case r of
            None \<Rightarrow> Done None
          | Some id1 \<Rightarrow>
              obind (parse_uuid (stub_uuid_id (device_properties_info_uuid p))) (\<lambda>r. case r of
                None \<Rightarrow> Done None
              | Some id2 \<Rightarrow> Done (Some (dev\<lparr>dev_properties := Ptr a (p\<lparr>
                  device_properties_info_base := (device_properties_info_base p)\<lparr>
                    device_properties_core := core\<lparr>ze_device_properties_uuid := \<lparr>ze_device_uuid_id = id1\<rparr>\<rparr>\<rparr>,
                  device_properties_info_extended_properties := (device_properties_info_extended_properties p)\<lparr>
                    device_ext_properties_uuid := \<lparr>uuid_id = id2\<rparr>\<rparr>\<rparr>)\<rparr>))))))"

text \<open>A loop over the first \<open>k\<close> elements from index \<open>i\<close> that updates each in place or stops.\<close>

primrec upd_loop :: "('a \<Rightarrow> 'a option outcome) \<Rightarrow> nat \<Rightarrow> nat \<Rightarrow> 'a list \<Rightarrow> 'a list option outcome" where
  "upd_loop f i 0 xs = Done (Some xs)"
| "upd_loop f i (Suc k) xs =
     (if i < length xs then obind (f (xs ! i)) (\<lambda>r. case r of
         None \<Rightarrow> Done None | Some y \<Rightarrow> upd_loop f (Suc i) k (xs[i := y]))
      else Fault)"

definition upd_array :: "('a \<Rightarrow> 'a option outcome) \<Rightarrow> u32 \<Rightarrow> 'a list cptr \<Rightarrow> 'a list cptr option outcome" where
  "upd_array f n p = (if n = 0 then Done (Some p)
     else (case p of Null \<Rightarrow> Fault
       | Ptr a xs \<Rightarrow> obind (upd_loop f 0 (unat n) xs) (\<lambda>r. Done (map_option (Ptr a) r))))"

definition resolve_driver_uuids :: "sysman_drivers_state_t \<Rightarrow> sysman_drivers_state_t option outcome" where
  "resolve_driver_uuids drv = obind (upd_array resolve_device_uuids (drv_devices_count drv) (drv_devices drv))
     (\<lambda>r. Done (map_option (\<lambda>devs. drv\<lparr>drv_devices := devs\<rparr>) r))"

definition resolve_uuids :: "sysman_state_t \<Rightarrow> sysman_state_t option outcome" where
  "resolve_uuids s = (let sys = st_system s in
     obind (upd_array resolve_driver_uuids (sys_drivers_count sys) (sys_drivers sys))
       (\<lambda>r. Done (map_option (\<lambda>drvs. s\<lparr>st_system := sys\<lparr>sys_drivers := drvs\<rparr>\<rparr>) r)))"

section \<open>The reference printer\<close>

definition hex_digit :: "nat \<Rightarrow> char" where
  "hex_digit n = ''0123456789abcdef'' ! n"

definition hex2 :: "u8 \<Rightarrow> cstring" where
  "hex2 b = [hex_digit (unat b div 16), hex_digit (unat b mod 16)]"

fun print_fmt :: "fmt list \<Rightarrow> u8 list \<Rightarrow> cstring" where
  "print_fmt (Lit c # fs) bs = c # print_fmt fs bs"
| "print_fmt (Hex2 # fs) (b # bs) = hex2 b @ print_fmt fs bs"
| "print_fmt _ _ = []"

definition format_uuid :: "u8 list \<Rightarrow> cstring" where
  "format_uuid bs = print_fmt uuid_format bs"

section \<open>Round trip\<close>

lemma hex_digit_props:
  assumes "n < 16"
  shows "hex_val (hex_digit n) = Some n" "\<not> is_space (hex_digit n)"
    "hex_digit n \<noteq> CHR ''+''" "hex_digit n \<noteq> CHR ''-''" "hex_digit n \<noteq> CHR ''x''" "hex_digit n \<noteq> CHR ''X''"
    "hex_digit n \<noteq> CHR 0x00"
proof -
  have "list_all (\<lambda>n. hex_val (hex_digit n) = Some n \<and> \<not> is_space (hex_digit n) \<and>
      hex_digit n \<noteq> CHR ''+'' \<and> hex_digit n \<noteq> CHR ''-'' \<and> hex_digit n \<noteq> CHR ''x'' \<and>
      hex_digit n \<noteq> CHR ''X'' \<and> hex_digit n \<noteq> CHR 0x00) [0..<16]"
    by code_simp
  with assms show "hex_val (hex_digit n) = Some n" "\<not> is_space (hex_digit n)"
    "hex_digit n \<noteq> CHR ''+''" "hex_digit n \<noteq> CHR ''-''" "hex_digit n \<noteq> CHR ''x''" "hex_digit n \<noteq> CHR ''X''"
    "hex_digit n \<noteq> CHR 0x00"
    unfolding list_all_iff by (metis atLeastLessThan_iff set_upt zero_le)+
qed

lemma nibbles: "unat (b :: u8) div 16 < 16" "unat b mod 16 < 16"
proof -
  have "unat b < 2 ^ LENGTH(8)" by (rule unsigned_less)
  then show "unat b div 16 < 16" "unat b mod 16 < 16" by simp_all
qed

lemma scan_hex2_hex2: "scan_hex2 (hex2 b @ s) = Some (ucast b, s)"
proof -
  have "word_of_nat (16 * (unat b div 16) + unat b mod 16) = (ucast b :: u32)"
    by simp
  then show ?thesis
    using hex_digit_props [OF nibbles(1) [of b]] hex_digit_props [OF nibbles(2) [of b]]
    by (simp add: scan_hex2_def hex2_def)
qed

fun holes :: "fmt list \<Rightarrow> nat" where
  "holes [] = 0"
| "holes (Hex2 # fs) = Suc (holes fs)"
| "holes (Lit _ # fs) = holes fs"

lemma sscanf_print: "length bs = holes fs \<Longrightarrow> sscanf fs (print_fmt fs bs) = map ucast bs"
proof (induction fs arbitrary: bs)
  case (Cons f fs)
  then show ?case
    by (cases f; cases bs) (auto simp: scan_hex2_hex2)
qed simp

lemma length_print: "length bs = holes fs \<Longrightarrow> length (print_fmt fs bs) = length fs + holes fs"
proof (induction fs arbitrary: bs)
  case (Cons f fs)
  then show ?case
    by (cases f; cases bs) (auto simp: hex2_def)
qed simp

lemma print_no_nul: "\<forall>f\<in>set fs. f \<noteq> Lit (CHR 0x00) \<Longrightarrow> CHR 0x00 \<notin> set (print_fmt fs bs)"
proof (induction fs arbitrary: bs)
  case (Cons f fs)
  then show ?case
    using hex_digit_props(7) [OF nibbles(1)] hex_digit_props(7) [OF nibbles(2)]
    by (cases f; cases bs) (fastforce simp: hex2_def)+
qed simp

text \<open>
  C12. A UUID string in the canonical form of sixteen bytes parses back to those bytes, whatever
  follows the terminator; the empty string is the zero UUID.
\<close>

theorem uuid_roundtrip:
  assumes "length bs = 16"
  shows "parse_uuid (format_uuid bs @ CHR 0x00 # rest) = Done (Some bs) \<and>
    parse_uuid (CHR 0x00 # rest) = Done (Some (replicate 16 0))"
proof -
  have holes: "holes uuid_format = 16"
    by (simp add: uuid_format_def)
  have len: "length (format_uuid bs) = 36"
    using length_print [of bs uuid_format] assms holes by (simp add: format_uuid_def uuid_format_def)
  have nul: "CHR 0x00 \<notin> set (format_uuid bs)"
    unfolding format_uuid_def by (rule print_no_nul) (simp add: uuid_format_def)
  then have "c_text (format_uuid bs @ CHR 0x00 # rest) = format_uuid bs"
    by (auto simp: takeWhile_append)
  moreover obtain c cs where c: "format_uuid bs = c # cs" "c \<noteq> CHR 0x00"
    using len nul by (cases "format_uuid bs") auto
  moreover have "sscanf uuid_format (format_uuid bs) = map ucast bs"
    unfolding format_uuid_def by (rule sscanf_print) (simp add: holes assms)
  moreover have "map ucast (map ucast bs :: u32 list) = bs"
    by (simp add: comp_def, rule map_idI) (auto intro: bit_word_eqI simp: bit_simps)
  ultimately show ?thesis
    using len assms by (simp add: parse_uuid_def SYSMAN_UUID_STR_SIZE_def Let_def)
qed

theorem uuid_roundtrip_witness:
  "parse_uuid (format_uuid [0x12, 0x34, 0x56, 0x78, 0x12, 0x34, 0x12, 0x34, 0x12, 0x34, 0x12, 0x34, 0x56, 0x78, 0x9a, 0xbc] @ [CHR 0x00]) =
     Done (Some [0x12, 0x34, 0x56, 0x78, 0x12, 0x34, 0x12, 0x34, 0x12, 0x34, 0x12, 0x34, 0x56, 0x78, 0x9a, 0xbc])"
  by (rule uuid_roundtrip [THEN conjunct1]) simp

text \<open>
  The parser also accepts strings that are no UUID: with a minus sign before every digit, the
  36 characters below are taken for sixteen bytes \<^verbatim>\<open>ff\<close>.
\<close>

theorem uuid_accepts_signs:
  "parse_uuid (''-1-1-1-1--1-1--1-1--1-1--1-1-1-1-1-1'' @ [CHR 0x00]) = Done (Some (replicate 16 0xff))"
  by code_simp

end
