(* ===== verification/Stub_Free.thy ===== *)
theory Stub_Free
  imports Stub_Ras "HOL-Library.Multiset"
begin

text \<open>
  Memory of the stub's state: the \<^verbatim>\<open>free_*\<close> functions of \<^verbatim>\<open>level-zero-stub/sysman_state.c\<close> over an
  explicit set of live heap blocks. \<open>blocks_*\<close> enumerate every block a structure owns, from its
  type; the theorem is that freeing a state releases each of them exactly once and nothing else.
\<close>

section \<open>The heap\<close>

text \<open>Freeing the null pointer does nothing; freeing a block that is not live is a fault.\<close>

type_synonym heap = "nat set"

definition free :: "'a cptr \<Rightarrow> heap \<Rightarrow> heap outcome" where
  "free p H = (case p of Null \<Rightarrow> Done H | Ptr a _ \<Rightarrow> if a \<in> H then Done (H - {a}) else Fault)"

text \<open>A sequence of actions, and loops over an array.\<close>

primrec free_seq :: "(heap \<Rightarrow> heap outcome) list \<Rightarrow> heap \<Rightarrow> heap outcome" where
  "free_seq [] H = Done H"
| "free_seq (f # fs) H = obind (f H) (free_seq fs)"

text \<open>\<^verbatim>\<open>for (j = 0; j < n; j++) f(&p[j]);\<close>\<close>

primrec free_loop :: "('a \<Rightarrow> heap \<Rightarrow> heap outcome) \<Rightarrow> 'a list cptr \<Rightarrow> nat \<Rightarrow> nat \<Rightarrow> heap \<Rightarrow> heap outcome" where
  "free_loop f p j 0 H = Done H"
| "free_loop f p j (Suc k) H = obind (arr_get p j) (\<lambda>x. obind (f x H) (free_loop f p (Suc j) k))"

text \<open>\<^verbatim>\<open>if (p) { for (...) f(&p[j]); free(p); }\<close>\<close>

definition free_array :: "('a \<Rightarrow> heap \<Rightarrow> heap outcome) \<Rightarrow> u32 \<Rightarrow> 'a list cptr \<Rightarrow> heap \<Rightarrow> heap outcome" where
  "free_array f n p H = (if p = Null then Done H else obind (free_loop f p 0 (unat n) H) (free p))"

section \<open>The \<^verbatim>\<open>free_*\<close> functions\<close>

definition free_engine_groups :: "sysman_device_state_t \<Rightarrow> heap \<Rightarrow> heap outcome" where
  "free_engine_groups dev = free_array (\<lambda>x. free_seq [free (engine_activity_ext x)]) (dev_engine_groups_count dev) (dev_engine_groups dev)"

definition free_fabric_ports :: "sysman_device_state_t \<Rightarrow> heap \<Rightarrow> heap outcome" where
  "free_fabric_ports dev = free_array (\<lambda>x. free_seq [free (fabric_port_properties x), free (fabric_port_link_type x), free (fabric_port_config x), free (fabric_port_state x), free (fabric_port_throughput x), free (fabric_port_error_counters x)]) (dev_fabric_ports_count dev) (dev_fabric_ports dev)"

definition free_fans :: "sysman_device_state_t \<Rightarrow> heap \<Rightarrow> heap outcome" where
  "free_fans dev = free_array (\<lambda>x. free_seq [free (fan_properties x), free (fan_config x)]) (dev_fans_count dev) (dev_fans dev)"

definition free_firmwares :: "sysman_device_state_t \<Rightarrow> heap \<Rightarrow> heap outcome" where
  "free_firmwares dev = free_array (\<lambda>x. free_seq [free (firmware_properties x)]) (dev_firmwares_count dev) (dev_firmwares dev)"

definition free_frequency_domains :: "sysman_device_state_t \<Rightarrow> heap \<Rightarrow> heap outcome" where
  "free_frequency_domains dev = free_array (\<lambda>x. free_seq [free (freq_properties x), free (freq_range x), free (freq_available_clocks x), free (freq_state x), free (freq_throttle_time x)]) (dev_frequency_domains_count dev) (dev_frequency_domains dev)"

definition free_leds :: "sysman_device_state_t \<Rightarrow> heap \<Rightarrow> heap outcome" where
  "free_leds dev = free_array (\<lambda>x. free_seq [free (led_properties x), free (led_state x)]) (dev_leds_count dev) (dev_leds dev)"

definition free_memory_modules :: "sysman_device_state_t \<Rightarrow> heap \<Rightarrow> heap outcome" where
  "free_memory_modules dev = free_array (\<lambda>x. free_seq [free (mem_properties x), free (mem_state x), free (mem_bandwidth x)]) (dev_memory_modules_count dev) (dev_memory_modules dev)"

definition free_performance_domains :: "sysman_device_state_t \<Rightarrow> heap \<Rightarrow> heap outcome" where
  "free_performance_domains dev = free_array (\<lambda>x. free_seq [free (perf_properties x)]) (dev_performance_domains_count dev) (dev_performance_domains dev)"

definition free_power_domains :: "sysman_device_state_t \<Rightarrow> heap \<Rightarrow> heap outcome" where
  "free_power_domains dev = free_array (\<lambda>x. free_seq [free (power_properties x), free (power_energy_counter x), free (power_limits x), free (power_energy_threshold x)]) (dev_power_domains_count dev) (dev_power_domains dev)"

definition free_psus :: "sysman_device_state_t \<Rightarrow> heap \<Rightarrow> heap outcome" where
  "free_psus dev = free_array (\<lambda>x. free_seq [free (psu_properties x), free (psu_state x)]) (dev_psus_count dev) (dev_psus dev)"

definition free_ras_error_sets :: "sysman_device_state_t \<Rightarrow> heap \<Rightarrow> heap outcome" where
  "free_ras_error_sets dev = free_array (\<lambda>x. free_seq [free (ras_properties x), free (ras_config x), free (ras_state x), free (ras_state_exp x)]) (dev_ras_error_sets_count dev) (dev_ras_error_sets dev)"

definition free_schedulers :: "sysman_device_state_t \<Rightarrow> heap \<Rightarrow> heap outcome" where
  "free_schedulers dev = free_array (\<lambda>x. free_seq [free (sched_properties x), free (sched_timeout_mode_properties x), free (sched_timeslice_mode_properties x)]) (dev_schedulers_count dev) (dev_schedulers dev)"

definition free_standby_domains :: "sysman_device_state_t \<Rightarrow> heap \<Rightarrow> heap outcome" where
  "free_standby_domains dev = free_array (\<lambda>x. free_seq [free (standby_properties x)]) (dev_standby_domains_count dev) (dev_standby_domains dev)"

definition free_temperature_sensors :: "sysman_device_state_t \<Rightarrow> heap \<Rightarrow> heap outcome" where
  "free_temperature_sensors dev = free_array (\<lambda>x. free_seq [free (temp_properties x), free (temp_config x)]) (dev_temperature_sensors_count dev) (dev_temperature_sensors dev)"

definition free_diagnostics :: "sysman_device_state_t \<Rightarrow> heap \<Rightarrow> heap outcome" where
  "free_diagnostics dev = free_array (\<lambda>x. free_seq [free (diag_properties x), free (diag_tests x)]) (dev_diagnostics_count dev) (dev_diagnostics dev)"

definition free_overclock :: "sysman_device_state_t \<Rightarrow> heap \<Rightarrow> heap outcome" where
  "free_overclock dev H = (case dev_overclock dev of Null \<Rightarrow> Done H
     | Ptr _ ov \<Rightarrow> free_seq [
         free_array (\<lambda>e. free_seq [free (oc_properties e), free (oc_vf_properties e),
             free_array (\<lambda>c. free_seq [free (oc_control_info_properties c), free (oc_control_info_current_value c),
                 free (oc_control_info_pending_value c), free (oc_control_info_state c),
                 free (oc_control_info_pending_action c)])
               (oc_control_infos_count e) (oc_control_infos e)])
           (overclock_info_domains_count ov) (overclock_info_domains ov),
         free (overclock_info_controls ov), free (overclock_info_state ov), free (dev_overclock dev)] H)"

definition free_ecc :: "sysman_device_state_t \<Rightarrow> heap \<Rightarrow> heap outcome" where
  "free_ecc dev H = (case dev_ecc dev of Null \<Rightarrow> Done H
     | Ptr _ ecc \<Rightarrow> free_seq [free (ecc_info_state ecc), free (dev_ecc dev)] H)"

definition free_device :: "sysman_device_state_t \<Rightarrow> heap \<Rightarrow> heap outcome" where
  "free_device dev = free_seq [
     free (dev_properties dev), free (dev_state dev),
     free (pci_info_properties (dev_pci dev)), free (pci_info_state (dev_pci dev)),
     free (pci_info_bars (dev_pci dev)), free (pci_info_stats (dev_pci dev)),
     free (dev_processes dev), free (dev_unsupported_features dev),
     free_ecc dev, free_engine_groups dev, free_fabric_ports dev, free_fans dev, free_firmwares dev,
     free_frequency_domains dev, free_leds dev, free_memory_modules dev, free_overclock dev,
     free_performance_domains dev, free_power_domains dev, free_psus dev, free_ras_error_sets dev,
     free_schedulers dev, free_standby_domains dev, free_temperature_sensors dev, free_diagnostics dev]"

definition free_driver :: "sysman_drivers_state_t \<Rightarrow> heap \<Rightarrow> heap outcome" where
  "free_driver drv = free_seq [
     free_loop free_device (drv_devices drv) 0 (unat (drv_devices_count drv)),
     free (drv_devices drv), free (drv_extension_properties drv), free (drv_unsupported_features drv)]"

definition free_system_state :: "sysman_system_state_t \<Rightarrow> heap \<Rightarrow> heap outcome" where
  "free_system_state sys = free_seq [
     free_loop free_driver (sys_drivers sys) 0 (unat (sys_drivers_count sys)), free (sys_drivers sys)]"

section \<open>What a state owns\<close>

definition addr :: "'a cptr \<Rightarrow> nat list" where
  "addr p = (case p of Null \<Rightarrow> [] | Ptr a _ \<Rightarrow> [a])"

definition arr_blocks :: "('a \<Rightarrow> nat list) \<Rightarrow> 'a list cptr \<Rightarrow> nat list" where
  "arr_blocks f p = addr p @ concat (map f (elems p))"

definition blocks_engine :: "sysman_engine_t \<Rightarrow> nat list" where
  "blocks_engine x = addr (engine_activity_ext x)"

definition blocks_fabric_port :: "sysman_fabric_port_t \<Rightarrow> nat list" where
  "blocks_fabric_port x = addr (fabric_port_properties x) @ addr (fabric_port_link_type x) @ addr (fabric_port_config x) @ addr (fabric_port_state x) @ addr (fabric_port_throughput x) @ addr (fabric_port_error_counters x)"

definition blocks_fan :: "sysman_fan_t \<Rightarrow> nat list" where
  "blocks_fan x = addr (fan_properties x) @ addr (fan_config x)"

definition blocks_firmware :: "sysman_firmware_t \<Rightarrow> nat list" where
  "blocks_firmware x = addr (firmware_properties x)"

definition blocks_freq :: "sysman_freq_t \<Rightarrow> nat list" where
  "blocks_freq x = addr (freq_properties x) @ addr (freq_range x) @ addr (freq_available_clocks x) @ addr (freq_state x) @ addr (freq_throttle_time x)"

definition blocks_led :: "sysman_led_t \<Rightarrow> nat list" where
  "blocks_led x = addr (led_properties x) @ addr (led_state x)"

definition blocks_mem :: "sysman_mem_t \<Rightarrow> nat list" where
  "blocks_mem x = addr (mem_properties x) @ addr (mem_state x) @ addr (mem_bandwidth x)"

definition blocks_perf :: "sysman_perf_t \<Rightarrow> nat list" where
  "blocks_perf x = addr (perf_properties x)"

definition blocks_power :: "sysman_power_t \<Rightarrow> nat list" where
  "blocks_power x = addr (power_properties x) @ addr (power_energy_counter x) @ addr (power_limits x) @ addr (power_energy_threshold x)"

definition blocks_psu :: "sysman_psu_t \<Rightarrow> nat list" where
  "blocks_psu x = addr (psu_properties x) @ addr (psu_state x)"

definition blocks_ras :: "sysman_ras_t \<Rightarrow> nat list" where
  "blocks_ras x = addr (ras_properties x) @ addr (ras_config x) @ addr (ras_state x) @ addr (ras_state_exp x)"

definition blocks_sched :: "sysman_sched_t \<Rightarrow> nat list" where
  "blocks_sched x = addr (sched_properties x) @ addr (sched_timeout_mode_properties x) @ addr (sched_timeslice_mode_properties x)"

definition blocks_standby :: "sysman_standby_t \<Rightarrow> nat list" where
  "blocks_standby x = addr (standby_properties x)"

definition blocks_temp :: "sysman_temp_t \<Rightarrow> nat list" where
  "blocks_temp x = addr (temp_properties x) @ addr (temp_config x)"

definition blocks_diag :: "sysman_diag_t \<Rightarrow> nat list" where
  "blocks_diag x = addr (diag_properties x) @ addr (diag_tests x)"

definition blocks_oc_control_info :: "sysman_oc_control_info_t \<Rightarrow> nat list" where
  "blocks_oc_control_info x = addr (oc_control_info_properties x) @ addr (oc_control_info_current_value x) @ addr (oc_control_info_pending_value x) @ addr (oc_control_info_state x) @ addr (oc_control_info_pending_action x)"

definition blocks_oc :: "sysman_oc_t \<Rightarrow> nat list" where
  "blocks_oc x = addr (oc_properties x) @ addr (oc_vf_properties x) @ arr_blocks blocks_oc_control_info (oc_control_infos x)"

definition blocks_overclock :: "sysman_overclock_info_t \<Rightarrow> nat list" where
  "blocks_overclock x = addr (overclock_info_controls x) @ addr (overclock_info_state x) @ arr_blocks blocks_oc (overclock_info_domains x)"

definition blocks_device :: "sysman_device_state_t \<Rightarrow> nat list" where
  "blocks_device d = addr (dev_unsupported_features d)
     @ addr (dev_properties d)
     @ addr (dev_state d)
     @ addr (pci_info_properties (dev_pci d))
     @ addr (pci_info_state (dev_pci d))
     @ addr (pci_info_bars (dev_pci d))
     @ addr (pci_info_stats (dev_pci d))
     @ (case dev_ecc d of Null \<Rightarrow> [] | Ptr a e \<Rightarrow> a # addr (ecc_info_state e))
     @ (case dev_overclock d of Null \<Rightarrow> [] | Ptr a ov \<Rightarrow> a # blocks_overclock ov)
     @ addr (dev_processes d)
     @ arr_blocks blocks_engine (dev_engine_groups d)
     @ arr_blocks blocks_fabric_port (dev_fabric_ports d)
     @ arr_blocks blocks_fan (dev_fans d)
     @ arr_blocks blocks_firmware (dev_firmwares d)
     @ arr_blocks blocks_freq (dev_frequency_domains d)
     @ arr_blocks blocks_led (dev_leds d)
     @ arr_blocks blocks_mem (dev_memory_modules d)
     @ arr_blocks blocks_perf (dev_performance_domains d)
     @ arr_blocks blocks_power (dev_power_domains d)
     @ arr_blocks blocks_psu (dev_psus d)
     @ arr_blocks blocks_ras (dev_ras_error_sets d)
     @ arr_blocks blocks_sched (dev_schedulers d)
     @ arr_blocks blocks_standby (dev_standby_domains d)
     @ arr_blocks blocks_temp (dev_temperature_sensors d)
     @ arr_blocks blocks_diag (dev_diagnostics d)"

definition blocks_driver :: "sysman_drivers_state_t \<Rightarrow> nat list" where
  "blocks_driver d = addr (drv_unsupported_features d) @ addr (drv_extension_properties d) @ arr_blocks blocks_device (drv_devices d)"

definition blocks_system :: "sysman_system_state_t \<Rightarrow> nat list" where
  "blocks_system s = arr_blocks blocks_driver (sys_drivers s)"

section \<open>Actions that free exactly given blocks\<close>

definition frees :: "(heap \<Rightarrow> heap outcome) \<Rightarrow> nat list \<Rightarrow> bool" where
  "frees f bs = (\<forall>H. distinct bs \<and> set bs \<subseteq> H \<longrightarrow> f H = Done (H - set bs))"

named_theorems frees_intros \<open>rules that show what an action frees\<close>

lemma frees_free [frees_intros]: "frees (free p) (addr p)"
  by (cases p) (auto simp: frees_def free_def addr_def)

lemma free_seq_nil [simp]: "free_seq [] = Done"
  by (rule ext) simp

lemma free_seq_single [simp]: "free_seq [f] = f"
  by (rule ext) simp

lemma frees_nil [frees_intros]: "frees (free_seq []) []"
  by (simp add: frees_def)

lemma frees_cons [frees_intros]:
  assumes "frees f as" "frees (free_seq fs) bs"
  shows "frees (free_seq (f # fs)) (as @ bs)"
  unfolding frees_def
proof (intro allI impI)
  fix H
  assume H: "distinct (as @ bs) \<and> set (as @ bs) \<subseteq> H"
  then have "f H = Done (H - set as)"
    using assms(1) by (simp add: frees_def)
  moreover have "free_seq fs (H - set as) = Done (H - set as - set bs)"
    using H by (intro assms(2) [unfolded frees_def, rule_format]) auto
  ultimately show "free_seq (f # fs) H = Done (H - set (as @ bs))"
    by (simp add: Diff_eq Int_assoc)
qed

lemma frees_mset: "frees f as \<Longrightarrow> mset bs = mset as \<Longrightarrow> frees f bs"
  unfolding frees_def by (metis mset_eq_imp_distinct_iff set_mset_mset)

lemma frees_loop:
  assumes "\<And>i. j \<le> i \<Longrightarrow> i < j + k \<Longrightarrow> arr_get p i = Done (xs ! i)" "j + k \<le> length xs"
    and "\<And>x. x \<in> set xs \<Longrightarrow> frees (f x) (g x)"
  shows "frees (free_loop f p j k) (concat (map g (take k (drop j xs))))"
  using assms(1,2)
proof (induction k arbitrary: j)
  case 0
  then show ?case by (simp add: frees_def)
next
  case (Suc k)
  have split: "take (Suc k) (drop j xs) = xs ! j # take k (drop (Suc j) xs)"
    using Suc.prems(2) by (simp add: Cons_nth_drop_Suc [symmetric])
  have rest: "frees (free_seq [free_loop f p (Suc j) k]) (concat (map g (take k (drop (Suc j) xs))))"
    unfolding free_seq_single using Suc.prems by (intro Suc.IH) auto
  have "frees (free_seq [f (xs ! j), free_loop f p (Suc j) k]) (concat (map g (take (Suc k) (drop j xs))))"
    unfolding split using Suc.prems(2) assms(3) [of "xs ! j"] frees_cons [OF _ rest] by simp
  moreover have "free_loop f p j (Suc k) H = free_seq [f (xs ! j), free_loop f p (Suc j) k] H" for H
    using Suc.prems(1) [of j] by simp
  ultimately show ?case
    by (simp add: frees_def)
qed

lemma frees_elems [frees_intros]:
  assumes "wf_arr n p" "\<And>x. x \<in> set (elems p) \<Longrightarrow> frees (f x) (g x)"
  shows "frees (free_loop f p 0 (unat n)) (concat (map g (elems p)))"
  using frees_loop [of 0 "unat n" p "elems p" f g] assms
  by (simp add: arr_get_wf wf_arr_length)

lemma frees_array [frees_intros]:
  assumes "wf_arr n p" "\<And>x. x \<in> set (elems p) \<Longrightarrow> frees (f x) (g x)"
  shows "frees (free_array f n p) (arr_blocks g p)"
proof (cases "p = Null")
  case True
  then show ?thesis by (simp add: frees_def free_array_def arr_blocks_def addr_def)
next
  case False
  have "frees (free_seq [free_loop f p 0 (unat n), free p]) (concat (map g (elems p)) @ addr p)"
    using assms frees_elems [of n p f g] by (intro frees_cons) (simp_all add: frees_free)
  moreover have "free_array f n p H = free_seq [free_loop f p 0 (unat n), free p] H" for H
    using False by (simp add: free_array_def)
  ultimately have "frees (free_array f n p) (concat (map g (elems p)) @ addr p)"
    by (simp add: frees_def)
  then show ?thesis
    by (rule frees_mset) (simp add: arr_blocks_def)
qed

text \<open>An array whose elements own nothing but what \<open>f\<close> frees, in any order.\<close>

lemma frees_array_elems:
  assumes "wf_arr n p" "\<And>x. x \<in> set (elems p) \<Longrightarrow> frees (f x) (h x)" "\<And>x. mset (g x) = mset (h x)"
  shows "frees (free_array f n p) (arr_blocks g p)"
  using assms by (intro frees_array) (auto intro: frees_mset)

section \<open>Every \<^verbatim>\<open>free_*\<close> function frees what its part of the state owns\<close>

lemma free_engine_groups_ok [frees_intros]:
  "wf_arr (dev_engine_groups_count d) (dev_engine_groups d) \<Longrightarrow> frees (free_engine_groups d) (arr_blocks blocks_engine (dev_engine_groups d))"
  unfolding free_engine_groups_def by (rule frees_array_elems, assumption, (rule frees_cons frees_free frees_nil)+) (simp add: blocks_engine_def)

lemma free_fabric_ports_ok [frees_intros]:
  "wf_arr (dev_fabric_ports_count d) (dev_fabric_ports d) \<Longrightarrow> frees (free_fabric_ports d) (arr_blocks blocks_fabric_port (dev_fabric_ports d))"
  unfolding free_fabric_ports_def by (rule frees_array_elems, assumption, (rule frees_cons frees_free frees_nil)+) (simp add: blocks_fabric_port_def)

lemma free_fans_ok [frees_intros]:
  "wf_arr (dev_fans_count d) (dev_fans d) \<Longrightarrow> frees (free_fans d) (arr_blocks blocks_fan (dev_fans d))"
  unfolding free_fans_def by (rule frees_array_elems, assumption, (rule frees_cons frees_free frees_nil)+) (simp add: blocks_fan_def)

lemma free_firmwares_ok [frees_intros]:
  "wf_arr (dev_firmwares_count d) (dev_firmwares d) \<Longrightarrow> frees (free_firmwares d) (arr_blocks blocks_firmware (dev_firmwares d))"
  unfolding free_firmwares_def by (rule frees_array_elems, assumption, (rule frees_cons frees_free frees_nil)+) (simp add: blocks_firmware_def)

lemma free_frequency_domains_ok [frees_intros]:
  "wf_arr (dev_frequency_domains_count d) (dev_frequency_domains d) \<Longrightarrow> frees (free_frequency_domains d) (arr_blocks blocks_freq (dev_frequency_domains d))"
  unfolding free_frequency_domains_def by (rule frees_array_elems, assumption, (rule frees_cons frees_free frees_nil)+) (simp add: blocks_freq_def)

lemma free_leds_ok [frees_intros]:
  "wf_arr (dev_leds_count d) (dev_leds d) \<Longrightarrow> frees (free_leds d) (arr_blocks blocks_led (dev_leds d))"
  unfolding free_leds_def by (rule frees_array_elems, assumption, (rule frees_cons frees_free frees_nil)+) (simp add: blocks_led_def)

lemma free_memory_modules_ok [frees_intros]:
  "wf_arr (dev_memory_modules_count d) (dev_memory_modules d) \<Longrightarrow> frees (free_memory_modules d) (arr_blocks blocks_mem (dev_memory_modules d))"
  unfolding free_memory_modules_def by (rule frees_array_elems, assumption, (rule frees_cons frees_free frees_nil)+) (simp add: blocks_mem_def)

lemma free_performance_domains_ok [frees_intros]:
  "wf_arr (dev_performance_domains_count d) (dev_performance_domains d) \<Longrightarrow> frees (free_performance_domains d) (arr_blocks blocks_perf (dev_performance_domains d))"
  unfolding free_performance_domains_def by (rule frees_array_elems, assumption, (rule frees_cons frees_free frees_nil)+) (simp add: blocks_perf_def)

lemma free_power_domains_ok [frees_intros]:
  "wf_arr (dev_power_domains_count d) (dev_power_domains d) \<Longrightarrow> frees (free_power_domains d) (arr_blocks blocks_power (dev_power_domains d))"
  unfolding free_power_domains_def by (rule frees_array_elems, assumption, (rule frees_cons frees_free frees_nil)+) (simp add: blocks_power_def)

lemma free_psus_ok [frees_intros]:
  "wf_arr (dev_psus_count d) (dev_psus d) \<Longrightarrow> frees (free_psus d) (arr_blocks blocks_psu (dev_psus d))"
  unfolding free_psus_def by (rule frees_array_elems, assumption, (rule frees_cons frees_free frees_nil)+) (simp add: blocks_psu_def)

lemma free_ras_error_sets_ok [frees_intros]:
  "wf_arr (dev_ras_error_sets_count d) (dev_ras_error_sets d) \<Longrightarrow> frees (free_ras_error_sets d) (arr_blocks blocks_ras (dev_ras_error_sets d))"
  unfolding free_ras_error_sets_def by (rule frees_array_elems, assumption, (rule frees_cons frees_free frees_nil)+) (simp add: blocks_ras_def)

lemma free_schedulers_ok [frees_intros]:
  "wf_arr (dev_schedulers_count d) (dev_schedulers d) \<Longrightarrow> frees (free_schedulers d) (arr_blocks blocks_sched (dev_schedulers d))"
  unfolding free_schedulers_def by (rule frees_array_elems, assumption, (rule frees_cons frees_free frees_nil)+) (simp add: blocks_sched_def)

lemma free_standby_domains_ok [frees_intros]:
  "wf_arr (dev_standby_domains_count d) (dev_standby_domains d) \<Longrightarrow> frees (free_standby_domains d) (arr_blocks blocks_standby (dev_standby_domains d))"
  unfolding free_standby_domains_def by (rule frees_array_elems, assumption, (rule frees_cons frees_free frees_nil)+) (simp add: blocks_standby_def)

lemma free_temperature_sensors_ok [frees_intros]:
  "wf_arr (dev_temperature_sensors_count d) (dev_temperature_sensors d) \<Longrightarrow> frees (free_temperature_sensors d) (arr_blocks blocks_temp (dev_temperature_sensors d))"
  unfolding free_temperature_sensors_def by (rule frees_array_elems, assumption, (rule frees_cons frees_free frees_nil)+) (simp add: blocks_temp_def)

lemma free_diagnostics_ok [frees_intros]:
  "wf_arr (dev_diagnostics_count d) (dev_diagnostics d) \<Longrightarrow> frees (free_diagnostics d) (arr_blocks blocks_diag (dev_diagnostics d))"
  unfolding free_diagnostics_def by (rule frees_array_elems, assumption, (rule frees_cons frees_free frees_nil)+) (simp add: blocks_diag_def)

lemma frees_oc:
  "wf_oc e \<Longrightarrow> frees (free_seq [free (oc_properties e), free (oc_vf_properties e),
       free_array (\<lambda>c. free_seq [free (oc_control_info_properties c), free (oc_control_info_current_value c),
           free (oc_control_info_pending_value c), free (oc_control_info_state c),
           free (oc_control_info_pending_action c)])
         (oc_control_infos_count e) (oc_control_infos e)]) (blocks_oc e)"
proof -
  assume wf: "wf_oc e"
  have "frees (free_array (\<lambda>c. free_seq [free (oc_control_info_properties c), free (oc_control_info_current_value c),
           free (oc_control_info_pending_value c), free (oc_control_info_state c),
           free (oc_control_info_pending_action c)])
         (oc_control_infos_count e) (oc_control_infos e)) (arr_blocks blocks_oc_control_info (oc_control_infos e))"
    using wf unfolding wf_oc_def
    by (rule frees_array_elems) ((rule frees_cons frees_free frees_nil)+, simp add: blocks_oc_control_info_def)
  then show ?thesis
    unfolding blocks_oc_def by (intro frees_cons frees_free) simp
qed

lemma free_overclock_ok [frees_intros]:
  assumes "wf_device d"
  shows "frees (free_overclock d) (case dev_overclock d of Null \<Rightarrow> [] | Ptr a ov \<Rightarrow> a # blocks_overclock ov)"
proof (cases "dev_overclock d")
  case Null
  then show ?thesis by (simp add: frees_def free_overclock_def)
next
  case (Ptr a ov)
  then have wf: "wf_arr (overclock_info_domains_count ov) (overclock_info_domains ov)"
    "\<And>e. e \<in> set (elems (overclock_info_domains ov)) \<Longrightarrow> wf_oc e"
    using assms by (auto simp: wf_device_def wf_overclock_def list_all_iff)
  have eq: "free_overclock d = free_seq [
      free_array (\<lambda>e. free_seq [free (oc_properties e), free (oc_vf_properties e),
          free_array (\<lambda>c. free_seq [free (oc_control_info_properties c), free (oc_control_info_current_value c),
              free (oc_control_info_pending_value c), free (oc_control_info_state c),
              free (oc_control_info_pending_action c)])
            (oc_control_infos_count e) (oc_control_infos e)])
        (overclock_info_domains_count ov) (overclock_info_domains ov),
      free (overclock_info_controls ov), free (overclock_info_state ov), free (dev_overclock d)]"
    by (rule ext) (simp only: free_overclock_def Ptr cptr.case)
  show ?thesis
    unfolding eq
    by (rule frees_mset [OF frees_cons [OF frees_array [OF wf(1) frees_oc [OF wf(2)]]
        frees_cons [OF frees_free frees_cons [OF frees_free frees_cons [OF frees_free frees_nil]]]]])
      (simp_all add: Ptr blocks_overclock_def addr_def)
qed

lemma free_ecc_ok [frees_intros]:
  "frees (free_ecc d) (case dev_ecc d of Null \<Rightarrow> [] | Ptr a e \<Rightarrow> a # addr (ecc_info_state e))"
proof (cases "dev_ecc d")
  case Null
  then show ?thesis by (simp add: frees_def free_ecc_def)
next
  case (Ptr a e)
  have eq: "free_ecc d = free_seq [free (ecc_info_state e), free (dev_ecc d)]"
    by (rule ext) (simp only: free_ecc_def Ptr cptr.case)
  show ?thesis
    unfolding eq
    by (rule frees_mset, (rule frees_cons frees_free frees_nil)+) (simp add: Ptr addr_def)
qed

lemma free_device_ok: "wf_device d \<Longrightarrow> frees (free_device d) (blocks_device d)"
proof -
  assume wf: "wf_device d"
  note arrays = wf [unfolded wf_device_def]
  show ?thesis
    unfolding free_device_def
    by (rule frees_mset, (rule frees_intros wf | use arrays in blast)+)
      (simp add: blocks_device_def)
qed

lemma free_driver_ok: "wf_driver d \<Longrightarrow> frees (free_driver d) (blocks_driver d)"
proof -
  assume wf: "wf_driver d"
  have "frees (free_loop free_device (drv_devices d) 0 (unat (drv_devices_count d)))
      (concat (map blocks_device (elems (drv_devices d))))"
    using wf by (intro frees_elems free_device_ok) (auto simp: wf_driver_def list_all_iff)
  then show ?thesis
    unfolding free_driver_def
    by (intro frees_mset [OF frees_cons [OF _ frees_cons [OF frees_free frees_cons [OF frees_free frees_cons [OF frees_free frees_nil]]]]])
      (simp_all add: blocks_driver_def arr_blocks_def)
qed

lemma free_system_ok:
  assumes "wf_state s"
  shows "frees (free_system_state (st_system s)) (blocks_system (st_system s))"
proof -
  have "frees (free_loop free_driver (sys_drivers (st_system s)) 0 (unat (sys_drivers_count (st_system s))))
      (concat (map blocks_driver (elems (sys_drivers (st_system s)))))"
    using assms by (intro frees_elems free_driver_ok) (auto simp: wf_state_def list_all_iff)
  then show ?thesis
    unfolding free_system_state_def
    by (intro frees_mset [OF frees_cons [OF _ frees_cons [OF frees_free frees_nil]]])
      (simp_all add: blocks_system_def arr_blocks_def)
qed

text \<open>
  C5. Freeing a well-formed state whose blocks are distinct and live releases every block the state
  owns, each exactly once, and nothing else: no leak, no double free, no invalid access.
\<close>

theorem free_system_exact:
  assumes "wf_state s" "distinct (blocks_system (st_system s))" "set (blocks_system (st_system s)) \<subseteq> H"
  shows "free_system_state (st_system s) H = Done (H - set (blocks_system (st_system s)))"
  using free_system_ok [OF assms(1)] assms(2,3) by (simp add: frees_def)

end
