(* ===== verification/Stub_Load.thy ===== *)
theory Stub_Load
  imports Stub_Uuid Stub_Free
begin

text \<open>
  Loading and resetting the state (\<^verbatim>\<open>level-zero-stub/sysman_state.c\<close>). The environment variable and
  the YAML library are parameters; what the code relies on of libcyaml is the hypothesis
  \<open>cyaml_contract\<close>. The invariant \<open>owns\<close> says that the live heap blocks are exactly those of the
  current state, so a load that fails changes nothing and one that succeeds leaks nothing.
\<close>

section \<open>Operations\<close>

definition zero_state :: sysman_state_t where
  "zero_state = \<lparr>st_system = \<lparr>sys_drivers_count = 0, sys_drivers = Null\<rparr>,
     st_return_values = \<lparr>rv_zesInit = 0, rv_zesDriverGet = 0\<rparr>\<rparr>"

definition sysman_state_reset_locked :: "stub \<Rightarrow> heap \<Rightarrow> (stub \<times> heap) outcome" where
  "sysman_state_reset_locked w H = obind (free_system_state (st_system (g_sysman_state w)) H)
     (\<lambda>H'. Done (w\<lparr>g_sysman_state := zero_state\<rparr>, H'))"

text \<open>
  \<^verbatim>\<open>cyaml_load_file\<close>: from a path and the heap to an error code (0 is \<^verbatim>\<open>CYAML_OK\<close>), the pointer to the
  parsed tree and the new heap.
\<close>

type_synonym cyaml_load_file = "cstring \<Rightarrow> heap \<Rightarrow> u32 \<times> sysman_state_t cptr \<times> heap"

definition PATH_MAX :: nat where
  "PATH_MAX = 4096"

definition sysman_state_load_locked ::
  "(cstring \<Rightarrow> cstring option) \<Rightarrow> cyaml_load_file \<Rightarrow> cstring option \<Rightarrow> stub \<Rightarrow> heap \<Rightarrow> (int \<times> stub \<times> heap) outcome" where
  "sysman_state_load_locked getenv cyaml path w H =
     (let resolved = (case path of None \<Rightarrow> getenv ''SYSMAN_STUB_CONFIG'' | Some p \<Rightarrow> Some p) in
      case resolved of
        None \<Rightarrow> obind (sysman_state_reset_locked w H) (\<lambda>(w, H). Done (0, w\<lparr>g_config_path := []\<rparr>, H))
      | Some fname \<Rightarrow>
          (case cyaml fname H of (err, parsed, H) \<Rightarrow>
            if err \<noteq> 0 then Done (- 1, w, H)
            else (case parsed of
              Null \<Rightarrow> Done (- 1, w, H)
            | Ptr _ tree \<Rightarrow>
                obind (resolve_uuids tree) (\<lambda>r. case r of
                  None \<Rightarrow> obind (free_system_state (st_system tree) H) (\<lambda>H.
                    obind (free parsed H) (\<lambda>H. Done (- 1, w, H)))
                | Some tree' \<Rightarrow>
                    obind (sysman_state_reset_locked w H) (\<lambda>(w, H).
                    obind (free parsed H) (\<lambda>H.
                      Done (0, w\<lparr>g_sysman_state := tree', g_config_path := take (PATH_MAX - 1) fname\<rparr>, H)))))))"

definition sysman_state_load ::
  "(cstring \<Rightarrow> cstring option) \<Rightarrow> cyaml_load_file \<Rightarrow> cstring option \<Rightarrow> stub \<Rightarrow> heap \<Rightarrow> (int \<times> stub \<times> heap) outcome" where
  "sysman_state_load getenv cyaml path w H = obind (sysman_state_lock w) (\<lambda>w.
     obind (sysman_state_load_locked getenv cyaml path w H) (\<lambda>(rc, w, H). Done (rc, sysman_state_unlock w, H)))"

definition sysman_state_reset :: "stub \<Rightarrow> heap \<Rightarrow> (stub \<times> heap) outcome" where
  "sysman_state_reset w H = obind (sysman_state_lock w) (\<lambda>w.
     obind (sysman_state_reset_locked w H) (\<lambda>(w, H). Done (sysman_state_unlock (w\<lparr>g_config_path := []\<rparr>), H)))"

text \<open>The copy is \<open>None\<close> when \<^verbatim>\<open>strdup\<close> finds no memory.\<close>

definition sysman_get_config_path :: "bool \<Rightarrow> stub \<Rightarrow> (cstring option \<times> stub) outcome" where
  "sysman_get_config_path memory w = obind (sysman_state_lock w) (\<lambda>w.
     Done (if memory then Some (g_config_path w) else None, sysman_state_unlock w))"

section \<open>The invariant and the contract of the YAML library\<close>

definition owns :: "stub \<Rightarrow> heap \<Rightarrow> bool" where
  "owns w H = (ready w \<and> distinct (blocks_system (st_system (g_sysman_state w)))
     \<and> H = set (blocks_system (st_system (g_sysman_state w))))"

definition terminated :: "cstring \<Rightarrow> bool" where
  "terminated s = (CHR 0x00 \<in> set s)"

definition uuids_terminated :: "sysman_device_state_t \<Rightarrow> bool" where
  "uuids_terminated d = (case dev_properties d of Null \<Rightarrow> True
     | Ptr _ p \<Rightarrow> terminated (stub_uuid_id (device_core_properties_uuid (device_properties_info_core p)))
         \<and> terminated (stub_uuid_id (device_properties_info_uuid p)))"

definition parsed_ok :: "sysman_state_t \<Rightarrow> bool" where
  "parsed_ok s = (wf_state s \<and>
     list_all (\<lambda>drv. list_all uuids_terminated (elems (drv_devices drv))) (elems (sys_drivers (st_system s))))"

text \<open>
  What is relied on: on an error nothing stays allocated; on success the tree and its top-level block
  are fresh, its counts agree with its arrays and its string fields are terminated.
\<close>

definition cyaml_contract :: "cyaml_load_file \<Rightarrow> bool" where
  "cyaml_contract cyaml = (\<forall>fname H err parsed H'. cyaml fname H = (err, parsed, H') \<longrightarrow>
     (if err \<noteq> 0 then H' = H
      else (case parsed of Null \<Rightarrow> H' = H
        | Ptr a s \<Rightarrow> parsed_ok s \<and> distinct (a # blocks_system (st_system s))
            \<and> set (a # blocks_system (st_system s)) \<inter> H = {}
            \<and> H' = H \<union> set (a # blocks_system (st_system s)))))"

section \<open>Resolving UUIDs keeps the shape of the tree\<close>

lemma parse_uuid_total: "terminated s \<Longrightarrow> \<exists>r. parse_uuid s = Done r"
  by (cases s) (auto simp: terminated_def parse_uuid_def Let_def)

lemma resolve_device_uuids_shape:
  assumes "wf_device d" "uuids_terminated d"
  shows "\<exists>r. resolve_device_uuids d = Done r \<and>
    (\<forall>y. r = Some y \<longrightarrow> wf_device y \<and> blocks_device y = blocks_device d)"
proof (cases "dev_properties d")
  case Null
  with assms show ?thesis by (simp add: resolve_device_uuids_def)
next
  case (Ptr a p)
  then obtain r1 r2 where
    "parse_uuid (stub_uuid_id (device_core_properties_uuid (device_properties_info_core p))) = Done r1"
    "parse_uuid (stub_uuid_id (device_properties_info_uuid p)) = Done r2"
    using assms(2) parse_uuid_total by (fastforce simp: uuids_terminated_def)
  with Ptr assms(1) show ?thesis
    by (cases r1; cases r2)
      (auto simp: resolve_device_uuids_def Let_def wf_device_def blocks_device_def addr_def)
qed

lemma upd_loop_total:
  assumes "i + k \<le> length xs" "\<And>j. i \<le> j \<Longrightarrow> j < i + k \<Longrightarrow> \<exists>r. f (xs ! j) = Done r"
  shows "\<exists>r. upd_loop f i k xs = Done r"
  using assms
proof (induction k arbitrary: i xs)
  case 0
  then show ?case by simp
next
  case (Suc k)
  obtain r where r: "f (xs ! i) = Done r"
    using Suc.prems(2) [of i] by auto
  show ?case
  proof (cases r)
    case None
    with r Suc.prems(1) show ?thesis by simp
  next
    case (Some y)
    have "\<exists>r. upd_loop f (Suc i) k (xs[i := y]) = Done r"
      using Suc.prems by (intro Suc.IH) auto
    with r Some Suc.prems(1) show ?thesis by simp
  qed
qed

lemma upd_loop_Some:
  "upd_loop f i k xs = Done (Some ys) \<Longrightarrow> length ys = length xs \<and>
    (\<forall>j<length xs. if i \<le> j \<and> j < i + k then f (xs ! j) = Done (Some (ys ! j)) else ys ! j = xs ! j)"
proof (induction k arbitrary: i xs)
  case 0
  then show ?case by auto
next
  case (Suc k)
  then obtain y where y: "i < length xs" "f (xs ! i) = Done (Some y)"
    and rest: "upd_loop f (Suc i) k (xs[i := y]) = Done (Some ys)"
    by (auto split: if_splits option.splits)
  have len: "length ys = length xs"
    and at: "\<And>j. j < length xs \<Longrightarrow> if Suc i \<le> j \<and> j < Suc i + k
      then f (xs[i := y] ! j) = Done (Some (ys ! j)) else ys ! j = xs[i := y] ! j"
    using conjunct1 [OF Suc.IH [OF rest]] conjunct2 [OF Suc.IH [OF rest]] unfolding length_list_update by blast+
  have "if i \<le> j \<and> j < i + Suc k then f (xs ! j) = Done (Some (ys ! j)) else ys ! j = xs ! j" if "j < length xs" for j
    using at [OF that] y that by (cases "j = i") (auto split: if_splits)
  with len show ?case by blast
qed

lemma upd_array_shape:
  assumes wf: "wf_arr n p" and f: "\<And>x. x \<in> set (elems p) \<Longrightarrow> \<exists>r. f x = Done r"
  shows "\<exists>r. upd_array f n p = Done r \<and> (\<forall>p'. r = Some p' \<longrightarrow>
    addr p' = addr p \<and> wf_arr n p' \<and> list_all2 (\<lambda>x y. f x = Done (Some y)) (elems p) (elems p'))"
proof (cases p)
  case Null
  with wf show ?thesis by (simp add: wf_arr_def upd_array_def)
next
  case (Ptr a xs)
  then have n: "unat n = length xs"
    using wf by (simp add: wf_arr_def)
  obtain r where r: "upd_loop f 0 (unat n) xs = Done r"
    using upd_loop_total [of 0 "unat n" xs f] f n Ptr by auto
  then have arr: "n \<noteq> 0 \<Longrightarrow> upd_array f n p = Done (map_option (Ptr a) r)"
    using Ptr by (simp add: upd_array_def)
  show ?thesis
  proof (cases "n = 0")
    case True
    with n Ptr show ?thesis by (simp add: upd_array_def wf_arr_def)
  next
    case False
    with arr upd_loop_Some [of f 0 "unat n" xs] r n Ptr show ?thesis
      by (auto simp: addr_def wf_arr_def list_all2_conv_all_nth)
  qed
qed

lemma concat_map_list_all2: "list_all2 (\<lambda>x y. g y = g x) xs ys \<Longrightarrow> concat (map g ys) = concat (map g xs)"
  by (induction rule: list_all2_induct) auto

lemma list_all2_right: "list_all2 R xs ys \<Longrightarrow> (\<And>x y. x \<in> set xs \<Longrightarrow> R x y \<Longrightarrow> P y) \<Longrightarrow> list_all P ys"
  by (induction rule: list_all2_induct) auto

lemma resolve_driver_uuids_shape:
  assumes wf: "wf_driver d" and t: "list_all uuids_terminated (elems (drv_devices d))"
  shows "\<exists>r. resolve_driver_uuids d = Done r \<and>
    (\<forall>y. r = Some y \<longrightarrow> wf_driver y \<and> blocks_driver y = blocks_driver d)"
proof -
  have dev: "\<exists>r. resolve_device_uuids x = Done r \<and> (\<forall>y. r = Some y \<longrightarrow> wf_device y \<and> blocks_device y = blocks_device x)"
    if "x \<in> set (elems (drv_devices d))" for x
    using that wf t by (intro resolve_device_uuids_shape) (auto simp: wf_driver_def list_all_iff)
  obtain r where r: "upd_array resolve_device_uuids (drv_devices_count d) (drv_devices d) = Done r"
    and shape: "\<And>p'. r = Some p' \<Longrightarrow> addr p' = addr (drv_devices d) \<and> wf_arr (drv_devices_count d) p' \<and>
      list_all2 (\<lambda>x y. resolve_device_uuids x = Done (Some y)) (elems (drv_devices d)) (elems p')"
    using upd_array_shape [of "drv_devices_count d" "drv_devices d" resolve_device_uuids] dev wf
    unfolding wf_driver_def by blast
  have "wf_driver (d\<lparr>drv_devices := p'\<rparr>) \<and> blocks_driver (d\<lparr>drv_devices := p'\<rparr>) = blocks_driver d" if "r = Some p'" for p'
  proof -
    note s = shape [OF that]
    have "list_all wf_device (elems p')"
      by (rule list_all2_right [where R = "\<lambda>x y. resolve_device_uuids x = Done (Some y)"]) (use s dev in fastforce)+
    moreover have "list_all2 (\<lambda>x y. blocks_device y = blocks_device x) (elems (drv_devices d)) (elems p')"
      by (rule list.rel_mono_strong [where R = "\<lambda>x y. resolve_device_uuids x = Done (Some y)"]) (use s dev in fastforce)+
    ultimately show ?thesis
      using s wf concat_map_list_all2 [of blocks_device]
      by (simp add: wf_driver_def blocks_driver_def arr_blocks_def)
  qed
  then show ?thesis
    by (auto simp: resolve_driver_uuids_def r)
qed

lemma resolve_uuids_shape:
  assumes "parsed_ok s"
  shows "\<exists>r. resolve_uuids s = Done r \<and>
    (\<forall>y. r = Some y \<longrightarrow> wf_state y \<and> blocks_system (st_system y) = blocks_system (st_system s))"
proof -
  let ?sys = "st_system s"
  have drv: "\<exists>r. resolve_driver_uuids x = Done r \<and> (\<forall>y. r = Some y \<longrightarrow> wf_driver y \<and> blocks_driver y = blocks_driver x)"
    if "x \<in> set (elems (sys_drivers ?sys))" for x
    using that assms by (intro resolve_driver_uuids_shape) (auto simp: parsed_ok_def wf_state_def list_all_iff)
  obtain r where r: "upd_array resolve_driver_uuids (sys_drivers_count ?sys) (sys_drivers ?sys) = Done r"
    and shape: "\<And>p'. r = Some p' \<Longrightarrow> addr p' = addr (sys_drivers ?sys) \<and> wf_arr (sys_drivers_count ?sys) p' \<and>
      list_all2 (\<lambda>x y. resolve_driver_uuids x = Done (Some y)) (elems (sys_drivers ?sys)) (elems p')"
    using upd_array_shape [of "sys_drivers_count ?sys" "sys_drivers ?sys" resolve_driver_uuids] drv assms
    unfolding parsed_ok_def wf_state_def by blast
  have "wf_state (s\<lparr>st_system := ?sys\<lparr>sys_drivers := p'\<rparr>\<rparr>) \<and>
      blocks_system (?sys\<lparr>sys_drivers := p'\<rparr>) = blocks_system ?sys" if "r = Some p'" for p'
  proof -
    note sh = shape [OF that]
    have "list_all wf_driver (elems p')"
      by (rule list_all2_right [where R = "\<lambda>x y. resolve_driver_uuids x = Done (Some y)"]) (use sh drv in fastforce)+
    moreover have "list_all2 (\<lambda>x y. blocks_driver y = blocks_driver x) (elems (sys_drivers ?sys)) (elems p')"
      by (rule list.rel_mono_strong [where R = "\<lambda>x y. resolve_driver_uuids x = Done (Some y)"]) (use sh drv in fastforce)+
    ultimately show ?thesis
      using sh concat_map_list_all2 [of blocks_driver]
      by (simp add: wf_state_def blocks_system_def arr_blocks_def)
  qed
  then show ?thesis
    by (auto simp: resolve_uuids_def r Let_def)
qed

section \<open>Loading\<close>

lemma wf_zero_state [simp]: "wf_state zero_state" "blocks_system (st_system zero_state) = []"
  by (simp_all add: zero_state_def wf_state_def blocks_system_def arr_blocks_def addr_def)

lemma reset_frees:
  assumes "wf_state (g_sysman_state w)" "distinct (blocks_system (st_system (g_sysman_state w)))"
    "set (blocks_system (st_system (g_sysman_state w))) \<subseteq> H"
  shows "sysman_state_reset_locked w H =
    Done (w\<lparr>g_sysman_state := zero_state\<rparr>, H - set (blocks_system (st_system (g_sysman_state w))))"
  using free_system_ok [OF assms(1)] assms(2,3) by (simp add: sysman_state_reset_locked_def frees_def)

definition config_file :: "(cstring \<Rightarrow> cstring option) \<Rightarrow> cstring option \<Rightarrow> cstring option" where
  "config_file getenv path = (case path of None \<Rightarrow> getenv ''SYSMAN_STUB_CONFIG'' | Some p \<Rightarrow> Some p)"

text \<open>The tree a file stands for, if it parses, is not empty and its UUIDs are valid.\<close>

definition loaded_tree :: "cyaml_load_file \<Rightarrow> cstring \<Rightarrow> heap \<Rightarrow> sysman_state_t option" where
  "loaded_tree cyaml fname H = (case cyaml fname H of
       (err, Ptr _ tree, _) \<Rightarrow> (case resolve_uuids tree of Done r \<Rightarrow> if err = 0 then r else None | _ \<Rightarrow> None)
     | _ \<Rightarrow> None)"

lemma load_tree:
  assumes own: "owns w H" and cy: "cyaml_contract cyaml" and cfg: "config_file getenv path = Some fname"
    and parse: "cyaml fname H = (0, Ptr a tree, H')"
  shows "\<exists>r. resolve_uuids tree = Done r \<and> sysman_state_load getenv cyaml path w H =
    (case r of None \<Rightarrow> Done (- 1, w, H)
     | Some tree' \<Rightarrow> Done (0, w\<lparr>g_sysman_state := tree', g_config_path := take (PATH_MAX - 1) fname\<rparr>,
         set (blocks_system (st_system tree')))) \<and>
    (\<forall>tree'. r = Some tree' \<longrightarrow> wf_state tree' \<and> distinct (blocks_system (st_system tree')))"
proof -
  let ?B = "blocks_system (st_system (g_sysman_state w))" and ?T = "blocks_system (st_system tree)"
  have ok: "parsed_ok tree" and dist: "distinct (a # ?T)" and fresh: "set (a # ?T) \<inter> H = {}"
    and H': "H' = H \<union> set (a # ?T)"
    using cy [unfolded cyaml_contract_def, rule_format, OF parse] by simp_all
  have free: "\<not> g_state_lock w" and wf: "wf_state (g_sysman_state w)" and H: "H = set ?B" and dB: "distinct ?B"
    using own by (auto simp: owns_def ready_def)
  obtain r where r: "resolve_uuids tree = Done r"
    and shape: "\<And>y. r = Some y \<Longrightarrow> wf_state y \<and> blocks_system (st_system y) = ?T"
    using resolve_uuids_shape [OF ok] by blast
  have lock: "w\<lparr>g_state_lock := False\<rparr> = w"
    using free by (cases w) simp
  note step = sysman_state_load_def sysman_state_load_locked_def sysman_state_lock_def sysman_state_unlock_def
    cfg [unfolded config_file_def] parse r
  show ?thesis
  proof (cases r)
    case None
    have "free_system_state (st_system tree) H' = Done (H' - set ?T)"
      using free_system_ok [of tree] ok dist H' by (auto simp: frees_def parsed_ok_def)
    moreover have "free (Ptr a tree) (H' - set ?T) = Done H"
      using dist fresh H' by (auto simp: free_def)
    ultimately have "sysman_state_load getenv cyaml path w H = Done (- 1, w, H)"
      using free None lock by (simp add: step Let_def)
    with r None show ?thesis by simp
  next
    case (Some tree')
    have "sysman_state_reset_locked (w\<lparr>g_state_lock := True\<rparr>) H' = Done (w\<lparr>g_state_lock := True, g_sysman_state := zero_state\<rparr>, H' - set ?B)"
      by (rule trans [OF reset_frees]) (use wf dB H H' in auto)
    moreover have "free (Ptr a tree) (H' - set ?B) = Done (set ?T)"
      using dist fresh H H' by (auto simp: free_def)
    ultimately have "sysman_state_load getenv cyaml path w H =
        Done (0, w\<lparr>g_sysman_state := tree', g_config_path := take (PATH_MAX - 1) fname\<rparr>, set ?T)"
      using free Some by (simp add: step Let_def)
    with r Some shape [OF Some] dist show ?thesis by simp
  qed
qed

lemma state_load_aux:
  assumes own: "owns w H" and cy: "cyaml_contract cyaml"
  shows "\<exists>rc w' H'. sysman_state_load getenv cyaml path w H = Done (rc, w', H') \<and> owns w' H' \<and>
    (rc = - 1 \<longrightarrow> w' = w \<and> H' = H) \<and> (rc = 0 \<or> rc = - 1) \<and>
    (case config_file getenv path of
       None \<Rightarrow> rc = 0 \<and> g_sysman_state w' = zero_state \<and> g_config_path w' = []
     | Some fname \<Rightarrow> (case loaded_tree cyaml fname H of
           None \<Rightarrow> rc = - 1
         | Some tree' \<Rightarrow> rc = 0 \<and> g_sysman_state w' = tree' \<and> g_config_path w' = take (PATH_MAX - 1) fname))"
proof -
  let ?B = "blocks_system (st_system (g_sysman_state w))"
  have free: "\<not> g_state_lock w" and wf: "wf_state (g_sysman_state w)" and H: "H = set ?B" and dB: "distinct ?B"
    using own by (auto simp: owns_def ready_def)
  have lock: "w\<lparr>g_state_lock := False\<rparr> = w"
    using free by (cases w) simp
  note step = sysman_state_load_def sysman_state_load_locked_def sysman_state_lock_def sysman_state_unlock_def
  show ?thesis
  proof (cases "config_file getenv path")
    case None
    have "sysman_state_load getenv cyaml path w H =
        Done (0, w\<lparr>g_sysman_state := zero_state, g_config_path := []\<rparr>, {})"
      using reset_frees [of "w\<lparr>g_state_lock := True\<rparr>" H] None free wf dB H
      by (simp add: step config_file_def Let_def)
    with None free show ?thesis
      by (simp add: owns_def ready_def)
  next
    case (Some fname)
    obtain err parsed H' where parse: "cyaml fname H = (err, parsed, H')"
      by (cases "cyaml fname H") auto
    show ?thesis
    proof (cases "err = 0 \<and> parsed \<noteq> Null")
      case True
      then obtain a tree where tree: "parsed = Ptr a tree" by (cases parsed) auto
      then obtain r where "resolve_uuids tree = Done r" "sysman_state_load getenv cyaml path w H =
          (case r of None \<Rightarrow> Done (- 1, w, H)
           | Some tree' \<Rightarrow> Done (0, w\<lparr>g_sysman_state := tree', g_config_path := take (PATH_MAX - 1) fname\<rparr>,
               set (blocks_system (st_system tree'))))"
        "\<forall>tree'. r = Some tree' \<longrightarrow> wf_state tree' \<and> distinct (blocks_system (st_system tree'))"
        using load_tree [OF own cy Some, of a tree H'] True parse by auto
      with own Some free parse tree True show ?thesis
        by (cases r) (auto simp: owns_def ready_def loaded_tree_def)
    next
      case False
      then have "H' = H"
        using cy [unfolded cyaml_contract_def, rule_format, OF parse] by (auto split: cptr.splits)
      with False have "sysman_state_load getenv cyaml path w H = Done (- 1, w, H)"
        using Some free lock parse by (auto simp: step config_file_def Let_def split: cptr.splits)
      moreover from False have "loaded_tree cyaml fname H = None"
        using parse by (auto simp: loaded_tree_def split: cptr.splits outcome.splits)
      ultimately show ?thesis
        using own Some by simp
    qed
  qed
qed

text \<open>
  C4. Loading a configuration always returns, with the lock free and the heap holding exactly the
  blocks of the current state. A load that fails (parse error, empty document, bad UUID) leaves the
  state, the recorded path and the heap as they were; any other installs the parsed tree with its
  UUIDs resolved and records the (truncated) path; with no path and no environment variable the
  state is emptied.
\<close>

theorem state_load:
  assumes own: "owns w H" and cy: "cyaml_contract cyaml"
  shows "\<exists>rc w' H'. sysman_state_load getenv cyaml path w H = Done (rc, w', H') \<and> owns w' H' \<and>
    (rc = - 1 \<longrightarrow> w' = w \<and> H' = H) \<and> (rc = 0 \<or> rc = - 1) \<and>
    (case config_file getenv path of
       None \<Rightarrow> rc = 0 \<and> g_sysman_state w' = zero_state \<and> g_config_path w' = []
     | Some fname \<Rightarrow> (case loaded_tree cyaml fname H of
           None \<Rightarrow> rc = - 1
         | Some tree' \<Rightarrow> rc = 0 \<and> g_sysman_state w' = tree' \<and> g_config_path w' = take (PATH_MAX - 1) fname))"
  by (rule state_load_aux [OF own cy])

lemma state_reset_aux:
  assumes "owns w H"
  shows "\<exists>w'. sysman_state_reset w H = Done (w', {}) \<and> owns w' {} \<and> g_sysman_state w' = zero_state \<and> g_config_path w' = []"
proof -
  have free: "\<not> g_state_lock w" and H: "H = set (blocks_system (st_system (g_sysman_state w)))"
    using assms by (auto simp: owns_def ready_def)
  have "sysman_state_reset w H = Done (w\<lparr>g_sysman_state := zero_state, g_config_path := []\<rparr>, {})"
    using reset_frees [of "w\<lparr>g_state_lock := True\<rparr>" H] assms H
    by (simp add: sysman_state_reset_def sysman_state_lock_def sysman_state_unlock_def owns_def ready_def)
  with free show ?thesis
    by (simp add: owns_def ready_def)
qed

text \<open>
  Resetting empties the state and the recorded path and frees every block, leaving the lock free.
\<close>

theorem state_reset:
  assumes "owns w H"
  shows "\<exists>w'. sysman_state_reset w H = Done (w', {}) \<and> owns w' {} \<and> g_sysman_state w' = zero_state \<and> g_config_path w' = []"
  by (rule state_reset_aux [OF assms])

end
