(* ===== verification/Stub_Trace.thy ===== *)
theory Stub_Trace
  imports Stub_Load
begin

text \<open>
  Any sequence of calls. \<open>api_call\<close> has one rule per entry point of \<^verbatim>\<open>zes_stub.c\<close> (the two listening
  calls, which give up the lock while they wait, are treated in \<^verbatim>\<open>Stub_Events\<close>) and \<open>lib_step\<close> adds
  loading and resetting; the theorems hold along every sequence of them.
\<close>

section \<open>One call\<close>

inductive api_call :: "stub \<Rightarrow> ze_result_t \<Rightarrow> stub \<Rightarrow> bool" where
  call_Init: "zesInit w flags = Done (r, out, w') \<Longrightarrow> api_call w r w'"
| call_DriverGet: "zesDriverGet w pCount phDrivers = Done (r, out, w') \<Longrightarrow> api_call w r w'"
| call_DriverGetExtensionProperties: "zesDriverGetExtensionProperties w hDriver pCount pExtensionProperties = Done (r, out, w') \<Longrightarrow> api_call w r w'"
| call_DeviceGet: "zesDeviceGet w hDriver pCount phDevices = Done (r, out, w') \<Longrightarrow> api_call w r w'"
| call_DeviceGetProperties: "zesDeviceGetProperties w hDevice pProperties ext = Done (r, out, w') \<Longrightarrow> api_call w r w'"
| call_DeviceGetState: "zesDeviceGetState w hDevice pState = Done (r, out, w') \<Longrightarrow> api_call w r w'"
| call_DeviceReset: "zesDeviceReset w hDevice force = Done (r, out, w') \<Longrightarrow> api_call w r w'"
| call_DeviceResetExt: "zesDeviceResetExt w hDevice (pProperties :: u8 list option) = Done (r, out, w') \<Longrightarrow> api_call w r w'"
| call_DeviceProcessesGetState: "zesDeviceProcessesGetState w hDevice pCount pProcesses = Done (r, out, w') \<Longrightarrow> api_call w r w'"
| call_DevicePciGetProperties: "zesDevicePciGetProperties w hDevice pProperties ext = Done (r, out, w') \<Longrightarrow> api_call w r w'"
| call_DevicePciGetState: "zesDevicePciGetState w hDevice pState ext = Done (r, out, w') \<Longrightarrow> api_call w r w'"
| call_DevicePciGetBars: "zesDevicePciGetBars w hDevice pCount pProperties = Done (r, out, w') \<Longrightarrow> api_call w r w'"
| call_DevicePciGetStats: "zesDevicePciGetStats w hDevice pStats = Done (r, out, w') \<Longrightarrow> api_call w r w'"
| call_DevicePciLinkSpeedUpdateExt: "zesDevicePciLinkSpeedUpdateExt w hDevice shouldDowngrade pendingAction = Done (r, out, w') \<Longrightarrow> api_call w r w'"
| call_DeviceSetOverclockWaiver: "zesDeviceSetOverclockWaiver w hDevice = Done (r, out, w') \<Longrightarrow> api_call w r w'"
| call_DeviceGetOverclockDomains: "zesDeviceGetOverclockDomains w hDevice pOverclockDomains = Done (r, out, w') \<Longrightarrow> api_call w r w'"
| call_DeviceGetOverclockControls: "zesDeviceGetOverclockControls w hDevice domainType pAvailableControls = Done (r, out, w') \<Longrightarrow> api_call w r w'"
| call_DeviceResetOverclockSettings: "zesDeviceResetOverclockSettings w hDevice onShippedState = Done (r, out, w') \<Longrightarrow> api_call w r w'"
| call_DeviceReadOverclockState: "zesDeviceReadOverclockState w hDevice pOverclockMode pWaiverSetting pOverclockState pPendingAction pPendingReset = Done (r, out, w') \<Longrightarrow> api_call w r w'"
| call_DeviceEnumOverclockDomains: "zesDeviceEnumOverclockDomains w hDevice pCount phDomainHandle = Done (r, out, w') \<Longrightarrow> api_call w r w'"
| call_OverclockGetDomainProperties: "zesOverclockGetDomainProperties w hDomainHandle pDomainProperties = Done (r, out, w') \<Longrightarrow> api_call w r w'"
| call_OverclockGetDomainVFProperties: "zesOverclockGetDomainVFProperties w hDomainHandle pVFProperties = Done (r, out, w') \<Longrightarrow> api_call w r w'"
| call_OverclockGetDomainControlProperties: "zesOverclockGetDomainControlProperties w hDomainHandle DomainControl pControlProperties = Done (r, out, w') \<Longrightarrow> api_call w r w'"
| call_OverclockGetControlCurrentValue: "zesOverclockGetControlCurrentValue w hDomainHandle DomainControl pValue = Done (r, out, w') \<Longrightarrow> api_call w r w'"
| call_OverclockGetControlPendingValue: "zesOverclockGetControlPendingValue w hDomainHandle DomainControl pValue = Done (r, out, w') \<Longrightarrow> api_call w r w'"
| call_OverclockSetControlUserValue: "zesOverclockSetControlUserValue w hDomainHandle DomainControl pValue pPendingAction = Done (r, out, w') \<Longrightarrow> api_call w r w'"
| call_OverclockGetControlState: "zesOverclockGetControlState w hDomainHandle DomainControl pControlState pPendingAction = Done (r, out, w') \<Longrightarrow> api_call w r w'"
| call_OverclockGetVFPointValues: "zesOverclockGetVFPointValues w hDomainHandle VFType VFArrayType PointIndex PointValue = Done (r, out, w') \<Longrightarrow> api_call w r w'"
| call_OverclockSetVFPointValues: "zesOverclockSetVFPointValues w hDomainHandle VFType PointIndex PointValue = Done (r, out, w') \<Longrightarrow> api_call w r w'"
| call_DeviceEnumDiagnosticTestSuites: "zesDeviceEnumDiagnosticTestSuites w hDevice pCount phDiagnostics = Done (r, out, w') \<Longrightarrow> api_call w r w'"
| call_DiagnosticsGetProperties: "zesDiagnosticsGetProperties w hDiagnostics pProperties = Done (r, out, w') \<Longrightarrow> api_call w r w'"
| call_DiagnosticsGetTests: "zesDiagnosticsGetTests w hDiagnostics pCount pTests = Done (r, out, w') \<Longrightarrow> api_call w r w'"
| call_DiagnosticsRunTests: "zesDiagnosticsRunTests w hDiagnostics startIndex endIndex pResult = Done (r, out, w') \<Longrightarrow> api_call w r w'"
| call_DeviceEccAvailable: "zesDeviceEccAvailable w hDevice pAvailable = Done (r, out, w') \<Longrightarrow> api_call w r w'"
| call_DeviceEccConfigurable: "zesDeviceEccConfigurable w hDevice pConfigurable = Done (r, out, w') \<Longrightarrow> api_call w r w'"
| call_DeviceGetEccState: "zesDeviceGetEccState w hDevice pState ext = Done (r, out, w') \<Longrightarrow> api_call w r w'"
| call_DeviceSetEccState: "zesDeviceSetEccState w hDevice (newState :: u8 list option) pState = Done (r, out, w') \<Longrightarrow> api_call w r w'"
| call_DeviceEnumEngineGroups: "zesDeviceEnumEngineGroups w hDevice pCount phEngine = Done (r, out, w') \<Longrightarrow> api_call w r w'"
| call_EngineGetProperties: "zesEngineGetProperties w hEngine pProperties ext = Done (r, out, w') \<Longrightarrow> api_call w r w'"
| call_EngineGetActivity: "zesEngineGetActivity w hEngine pStats = Done (r, out, w') \<Longrightarrow> api_call w r w'"
| call_EngineGetActivityExt: "zesEngineGetActivityExt w hEngine pCount pStats = Done (r, out, w') \<Longrightarrow> api_call w r w'"
| call_DeviceEventRegister: "zesDeviceEventRegister w hDevice events = Done (r, out, w') \<Longrightarrow> api_call w r w'"
| call_DeviceEnumFabricPorts: "zesDeviceEnumFabricPorts w hDevice pCount phPort = Done (r, out, w') \<Longrightarrow> api_call w r w'"
| call_FabricPortGetProperties: "zesFabricPortGetProperties w hPort pProperties = Done (r, out, w') \<Longrightarrow> api_call w r w'"
| call_FabricPortGetLinkType: "zesFabricPortGetLinkType w hPort pLinkType = Done (r, out, w') \<Longrightarrow> api_call w r w'"
| call_FabricPortGetConfig: "zesFabricPortGetConfig w hPort pConfig = Done (r, out, w') \<Longrightarrow> api_call w r w'"
| call_FabricPortSetConfig: "zesFabricPortSetConfig w hPort pConfig = Done (r, out, w') \<Longrightarrow> api_call w r w'"
| call_FabricPortGetState: "zesFabricPortGetState w hPort pState = Done (r, out, w') \<Longrightarrow> api_call w r w'"
| call_FabricPortGetThroughput: "zesFabricPortGetThroughput w hPort pThroughput = Done (r, out, w') \<Longrightarrow> api_call w r w'"
| call_FabricPortGetFabricErrorCounters: "zesFabricPortGetFabricErrorCounters w hPort pErrors = Done (r, out, w') \<Longrightarrow> api_call w r w'"
| call_FabricPortGetMultiPortThroughput: "zesFabricPortGetMultiPortThroughput w hDevice numPorts phPort pThroughput = Done (r, out, w') \<Longrightarrow> api_call w r w'"
| call_DeviceEnumFans: "zesDeviceEnumFans w hDevice pCount phFan = Done (r, out, w') \<Longrightarrow> api_call w r w'"
| call_FanGetProperties: "zesFanGetProperties w hFan pProperties = Done (r, out, w') \<Longrightarrow> api_call w r w'"
| call_FanGetConfig: "zesFanGetConfig w hFan pConfig = Done (r, out, w') \<Longrightarrow> api_call w r w'"
| call_FanSetDefaultMode: "zesFanSetDefaultMode w hFan = Done (r, out, w') \<Longrightarrow> api_call w r w'"
| call_FanSetFixedSpeedMode: "zesFanSetFixedSpeedMode w hFan speed = Done (r, out, w') \<Longrightarrow> api_call w r w'"
| call_FanSetSpeedTableMode: "zesFanSetSpeedTableMode w hFan speedTable = Done (r, out, w') \<Longrightarrow> api_call w r w'"
| call_FanGetState: "zesFanGetState w hFan units pSpeed = Done (r, out, w') \<Longrightarrow> api_call w r w'"
| call_DeviceEnumFirmwares: "zesDeviceEnumFirmwares w hDevice pCount phFirmware = Done (r, out, w') \<Longrightarrow> api_call w r w'"
| call_FirmwareGetProperties: "zesFirmwareGetProperties w hFirmware pProperties = Done (r, out, w') \<Longrightarrow> api_call w r w'"
| call_FirmwareFlash: "zesFirmwareFlash w hFirmware (pImage :: u8 list option) image_size = Done (r, out, w') \<Longrightarrow> api_call w r w'"
| call_FirmwareGetFlashProgress: "zesFirmwareGetFlashProgress w hFirmware pCompletionPercent = Done (r, out, w') \<Longrightarrow> api_call w r w'"
| call_FirmwareGetConsoleLogs: "zesFirmwareGetConsoleLogs w hFirmware pSize pFirmwareLog = Done (r, out, w') \<Longrightarrow> api_call w r w'"
| call_DeviceEnumFrequencyDomains: "zesDeviceEnumFrequencyDomains w hDevice pCount phFrequency = Done (r, out, w') \<Longrightarrow> api_call w r w'"
| call_FrequencyGetProperties: "zesFrequencyGetProperties w hFrequency pProperties = Done (r, out, w') \<Longrightarrow> api_call w r w'"
| call_FrequencyGetAvailableClocks: "zesFrequencyGetAvailableClocks w hFrequency pCount phFrequency = Done (r, out, w') \<Longrightarrow> api_call w r w'"
| call_FrequencyGetRange: "zesFrequencyGetRange w hFrequency pLimits = Done (r, out, w') \<Longrightarrow> api_call w r w'"
| call_FrequencySetRange: "zesFrequencySetRange w hFrequency pLimits = Done (r, out, w') \<Longrightarrow> api_call w r w'"
| call_FrequencyGetState: "zesFrequencyGetState w hFrequency pState = Done (r, out, w') \<Longrightarrow> api_call w r w'"
| call_FrequencyGetThrottleTime: "zesFrequencyGetThrottleTime w hFrequency pThrottleTime = Done (r, out, w') \<Longrightarrow> api_call w r w'"
| call_DeviceEnumLeds: "zesDeviceEnumLeds w hDevice pCount phLed = Done (r, out, w') \<Longrightarrow> api_call w r w'"
| call_LedGetProperties: "zesLedGetProperties w hLed pProperties = Done (r, out, w') \<Longrightarrow> api_call w r w'"
| call_LedGetState: "zesLedGetState w hLed pState = Done (r, out, w') \<Longrightarrow> api_call w r w'"
| call_LedSetState: "zesLedSetState w hLed enable = Done (r, out, w') \<Longrightarrow> api_call w r w'"
| call_LedSetColor: "zesLedSetColor w hLed pColor = Done (r, out, w') \<Longrightarrow> api_call w r w'"
| call_DeviceEnumMemoryModules: "zesDeviceEnumMemoryModules w hDevice pCount phMemory = Done (r, out, w') \<Longrightarrow> api_call w r w'"
| call_MemoryGetProperties: "zesMemoryGetProperties w hMemory pProperties = Done (r, out, w') \<Longrightarrow> api_call w r w'"
| call_MemoryGetState: "zesMemoryGetState w hMemory pState = Done (r, out, w') \<Longrightarrow> api_call w r w'"
| call_MemoryGetBandwidth: "zesMemoryGetBandwidth w hMemory pBandwidth = Done (r, out, w') \<Longrightarrow> api_call w r w'"
| call_DeviceEnumPerformanceFactorDomains: "zesDeviceEnumPerformanceFactorDomains w hDevice pCount phPerf = Done (r, out, w') \<Longrightarrow> api_call w r w'"
| call_PerformanceFactorGetProperties: "zesPerformanceFactorGetProperties w hPerf pProperties = Done (r, out, w') \<Longrightarrow> api_call w r w'"
| call_PerformanceFactorGetConfig: "zesPerformanceFactorGetConfig w hPerf pFactor = Done (r, out, w') \<Longrightarrow> api_call w r w'"
| call_PerformanceFactorSetConfig: "zesPerformanceFactorSetConfig w hPerf factor = Done (r, out, w') \<Longrightarrow> api_call w r w'"
| call_DeviceEnumPowerDomains: "zesDeviceEnumPowerDomains w hDevice pCount phPower = Done (r, out, w') \<Longrightarrow> api_call w r w'"
| call_PowerGetProperties: "zesPowerGetProperties w hPower pProperties ext = Done (r, out, w') \<Longrightarrow> api_call w r w'"
| call_PowerGetEnergyCounter: "zesPowerGetEnergyCounter w hPower pEnergy = Done (r, out, w') \<Longrightarrow> api_call w r w'"
| call_PowerGetLimitsExt: "zesPowerGetLimitsExt w hPower pCount pSustained = Done (r, out, w') \<Longrightarrow> api_call w r w'"
| call_PowerSetLimitsExt: "zesPowerSetLimitsExt w hPower pCount pSustained = Done (r, out, w') \<Longrightarrow> api_call w r w'"
| call_PowerGetEnergyThreshold: "zesPowerGetEnergyThreshold w hPower pThreshold = Done (r, out, w') \<Longrightarrow> api_call w r w'"
| call_PowerSetEnergyThreshold: "zesPowerSetEnergyThreshold w hPower threshold = Done (r, out, w') \<Longrightarrow> api_call w r w'"
| call_DeviceEnumPsus: "zesDeviceEnumPsus w hDevice pCount phPsu = Done (r, out, w') \<Longrightarrow> api_call w r w'"
| call_PsuGetProperties: "zesPsuGetProperties w hPsu pProperties = Done (r, out, w') \<Longrightarrow> api_call w r w'"
| call_PsuGetState: "zesPsuGetState w hPsu pState = Done (r, out, w') \<Longrightarrow> api_call w r w'"
| call_DeviceEnumRasErrorSets: "zesDeviceEnumRasErrorSets w hDevice pCount phRas = Done (r, out, w') \<Longrightarrow> api_call w r w'"
| call_RasGetProperties: "zesRasGetProperties w hRas pProperties = Done (r, out, w') \<Longrightarrow> api_call w r w'"
| call_RasGetConfig: "zesRasGetConfig w hRas pConfig = Done (r, out, w') \<Longrightarrow> api_call w r w'"
| call_RasSetConfig: "zesRasSetConfig w hRas pConfig = Done (r, out, w') \<Longrightarrow> api_call w r w'"
| call_RasGetState: "zesRasGetState w hRas clear pState = Done (r, out, w') \<Longrightarrow> api_call w r w'"
| call_RasGetStateExp: "zesRasGetStateExp w hRas pCount pStates = Done (r, out, w') \<Longrightarrow> api_call w r w'"
| call_RasClearStateExp: "zesRasClearStateExp w hRas cat = Done (r, out, w') \<Longrightarrow> api_call w r w'"
| call_DeviceEnumSchedulers: "zesDeviceEnumSchedulers w hDevice pCount phScheduler = Done (r, out, w') \<Longrightarrow> api_call w r w'"
| call_SchedulerGetProperties: "zesSchedulerGetProperties w hScheduler pProperties = Done (r, out, w') \<Longrightarrow> api_call w r w'"
| call_SchedulerGetCurrentMode: "zesSchedulerGetCurrentMode w hScheduler pMode = Done (r, out, w') \<Longrightarrow> api_call w r w'"
| call_SchedulerGetTimeoutModeProperties: "zesSchedulerGetTimeoutModeProperties w hScheduler getDefaults pConfig = Done (r, out, w') \<Longrightarrow> api_call w r w'"
| call_SchedulerGetTimesliceModeProperties: "zesSchedulerGetTimesliceModeProperties w hScheduler getDefaults pConfig = Done (r, out, w') \<Longrightarrow> api_call w r w'"
| call_SchedulerSetTimeoutMode: "zesSchedulerSetTimeoutMode w hScheduler pProperties pNeedReload = Done (r, out, w') \<Longrightarrow> api_call w r w'"
| call_SchedulerSetTimesliceMode: "zesSchedulerSetTimesliceMode w hScheduler pProperties pNeedReload = Done (r, out, w') \<Longrightarrow> api_call w r w'"
| call_SchedulerSetExclusiveMode: "zesSchedulerSetExclusiveMode w hScheduler pNeedReload = Done (r, out, w') \<Longrightarrow> api_call w r w'"
| call_DeviceEnumStandbyDomains: "zesDeviceEnumStandbyDomains w hDevice pCount phStandby = Done (r, out, w') \<Longrightarrow> api_call w r w'"
| call_StandbyGetProperties: "zesStandbyGetProperties w hStandby pProperties = Done (r, out, w') \<Longrightarrow> api_call w r w'"
| call_StandbyGetMode: "zesStandbyGetMode w hStandby pMode = Done (r, out, w') \<Longrightarrow> api_call w r w'"
| call_StandbySetMode: "zesStandbySetMode w hStandby mode = Done (r, out, w') \<Longrightarrow> api_call w r w'"
| call_DeviceEnumTemperatureSensors: "zesDeviceEnumTemperatureSensors w hDevice pCount phTemperature = Done (r, out, w') \<Longrightarrow> api_call w r w'"
| call_TemperatureGetProperties: "zesTemperatureGetProperties w hTemperature pProperties = Done (r, out, w') \<Longrightarrow> api_call w r w'"
| call_TemperatureGetConfig: "zesTemperatureGetConfig w hTemperature pConfig = Done (r, out, w') \<Longrightarrow> api_call w r w'"
| call_TemperatureSetConfig: "zesTemperatureSetConfig w hTemperature pConfig = Done (r, out, w') \<Longrightarrow> api_call w r w'"
| call_TemperatureGetState: "zesTemperatureGetState w hTemperature pTemperature = Done (r, out, w') \<Longrightarrow> api_call w r w'"

text \<open>An entry point that only reads leaves the library's globals exactly as they were.\<close>

lemma locked_keeps: "locked w body = Done (r, out, w') \<Longrightarrow> \<not> g_state_lock w \<and> w' = w"
  by (simp add: locked_Done)

lemma gated_disabled:
  assumes "gated resolve flag rv out f" "ready w" "resolve (g_sysman_state w) h = Done (Some c)"
    "\<not> enabled resolve flag rv w h c"
  shows "\<exists>r. f w h = Done (r, out, w)"
  using assms unfolding gated_def enabled_def by blast

lemma clear_keeps:
  assumes "zesRasClearStateExp w h k = Done (r, out, w')" and wf: "wf_state (g_sysman_state w)"
  shows "ready w' \<and> g_config_path w' = g_config_path w \<and> erase (g_sysman_state w') = erase (g_sysman_state w)"
proof -
  have free: "\<not> g_state_lock w"
    using assms(1) by (auto simp: zesRasClearStateExp_def)
  then have ready: "ready w" and unlock: "w\<lparr>g_state_lock := False\<rparr> = w"
    using wf by (auto simp: ready_def)
  consider (none) "resolve_ras (g_sysman_state w) h = Done None"
    | (some) ras where "resolve_ras (g_sysman_state w) h = Done (Some ras)"
    using ras.resolve_wf [OF wf, of h] by (metis option.exhaust)
  then show ?thesis
  proof cases
    case none
    with gated_clear [of k] ready assms(1) show ?thesis
      by (auto simp: gated_def)
  next
    case some
    show ?thesis
    proof (cases "enabled resolve_ras UNSUPPORTED_FEATURE_RAS_CLEAR_STATE_EXP
        (\<lambda>r. rv_zesRasClearStateExp (ras_return_values r)) w h ras")
      case True
      then show ?thesis
        using ras_clear_aux [of w h ras k] assms(1) ready by (auto split: option.splits)
    next
      case False
      obtain r' where "zesRasClearStateExp w h k = Done (r', (), w)"
        using gated_disabled [OF gated_clear [of k] ready some False] by blast
      with assms(1) ready show ?thesis
        by simp
    qed
  qed
qed

lemma api_call_keeps_aux:
  assumes "api_call w r w'" and "wf_state (g_sysman_state w)"
  shows "ready w' \<and> g_config_path w' = g_config_path w \<and> erase (g_sysman_state w') = erase (g_sysman_state w)"
proof -
  have same: "ready w' \<and> g_config_path w' = g_config_path w \<and> erase (g_sysman_state w') = erase (g_sysman_state w)"
    if "\<not> g_state_lock w \<and> w' = w"
    using that assms(2) by (simp add: ready_def)
  from assms(1) show ?thesis
  proof cases
    case call_RasClearStateExp
    then show ?thesis
      using clear_keeps assms(2) by blast
  qed (unfold stub_defs, (drule locked_keeps, erule same)+)
qed


section \<open>Sequences of calls\<close>

text \<open>
  The initial library, and its steps: a call, a load (of any path, in any environment that keeps the
  contract of the YAML library) and a reset, on the globals and the heap.
\<close>

definition lib_init :: stub where
  "lib_init = \<lparr>g_sysman_state = zero_state, g_config_path = [], g_state_lock = False\<rparr>"

inductive lib_step :: "cyaml_load_file \<Rightarrow> stub \<times> heap \<Rightarrow> stub \<times> heap \<Rightarrow> bool" for cyaml where
  lib_api: "api_call w r w' \<Longrightarrow> lib_step cyaml (w, H) (w', H)"
| lib_load: "sysman_state_load getenv cyaml path w H = Done (rc, w', H') \<Longrightarrow> lib_step cyaml (w, H) (w', H')"
| lib_reset: "sysman_state_reset w H = Done (w', H') \<Longrightarrow> lib_step cyaml (w, H) (w', H')"

lemma blocks_map_arr: "(\<And>x. g (f x) = g x) \<Longrightarrow> arr_blocks g (map_arr f p) = arr_blocks g p"
  by (cases p) (auto simp: arr_blocks_def map_arr_def addr_def comp_def)

lemma blocks_erase: "blocks_system (st_system (erase s)) = blocks_system (st_system s)"
proof -
  have ras: "blocks_ras (erase_ras r) = blocks_ras r" for r
    by (simp add: blocks_ras_def erase_ras_def addr_def map_arr_def split: cptr.splits)
  have dev: "blocks_device (erase_device d) = blocks_device d" for d
    by (simp add: blocks_device_def erase_device_def blocks_map_arr [of blocks_ras erase_ras] ras)
  have drv: "blocks_driver (erase_driver d) = blocks_driver d" for d
    by (simp add: blocks_driver_def erase_driver_def blocks_map_arr [of blocks_device erase_device] dev)
  show ?thesis
    by (simp add: erase_def blocks_system_def blocks_map_arr [of blocks_driver erase_driver] drv)
qed

lemma lib_step_owns:
  assumes "lib_step cyaml p q" "cyaml_contract cyaml" "owns (fst p) (snd p)"
  shows "owns (fst q) (snd q)"
  using assms(1)
proof (cases rule: lib_step.cases)
  case (lib_api w r w' H)
  with assms(3) have "wf_state (g_sysman_state w)" and own: "owns w H"
    by (auto simp: owns_def ready_def)
  then have "ready w'" "erase (g_sysman_state w') = erase (g_sysman_state w)"
    using api_call_keeps_aux [OF lib_api(3)] by auto
  with own blocks_erase show ?thesis
    unfolding lib_api owns_def by (metis fst_conv snd_conv)
next
  case (lib_load getenv path w H rc w' H')
  with state_load_aux [of w H cyaml getenv path] assms(2,3) show ?thesis
    by auto
next
  case (lib_reset w H w' H')
  with state_reset_aux [of w H] assms(3) show ?thesis
    by auto
qed


end
