(* ===== verification/Stub_Events.thy ===== *)
theory Stub_Events
  imports Stub_Ras "HOL-Library.Signed_Division"
begin

text \<open>
  Event listening of \<^verbatim>\<open>level-zero-stub/zes_stub.c\<close>: the peek at the devices' event flags and the poll
  loop around it, which gives up the state lock while it sleeps. The clock, \<^verbatim>\<open>nanosleep\<close> and the
  other threads are parameters (\<open>listen_env\<close>); the loop runs on fuel, \<open>None\<close> being "still
  waiting".
\<close>

section \<open>Peeking at the event flags\<close>

primrec peek_loop ::
  "sysman_state_t \<Rightarrow> u16 \<Rightarrow> u64 list \<Rightarrow> nat \<Rightarrow> nat \<Rightarrow> u32 \<Rightarrow> u32 list \<Rightarrow> (ze_result_t \<times> u32 \<times> u32 list) outcome" where
  "peek_loop s drv phDevices i 0 num_events pEvents = Done (ZE_RESULT_SUCCESS, num_events, pEvents)"
| "peek_loop s drv phDevices i (Suc k) num_events pEvents =
     (if i < length phDevices then
        obind (resolve_device s (phDevices ! i)) (\<lambda>r. case r of
          None \<Rightarrow> Done (ZE_RESULT_ERROR_INVALID_ARGUMENT, num_events, pEvents)
        | Some dev \<Rightarrow>
            if bits_drv (decode_handle (phDevices ! i)) \<noteq> drv
            then Done (ZE_RESULT_ERROR_INVALID_ARGUMENT, num_events, pEvents)
            else if i < length pEvents
            then peek_loop s drv phDevices (Suc i) k
                   (if dev_events dev \<noteq> 0 then num_events + 1 else num_events) (pEvents[i := dev_events dev])
            else Fault)
      else Fault)"

definition driver_event_listen_peek ::
  "sysman_state_t \<Rightarrow> u64 \<Rightarrow> u32 \<Rightarrow> u64 list option \<Rightarrow> u32 option \<Rightarrow> u32 list option \<Rightarrow> bool \<Rightarrow>
   (ze_result_t \<times> (u32 option \<times> u32 list option)) outcome" where
  "driver_event_listen_peek s hDriver count phDevices pNumDeviceEvents pEvents is_ex =
     (let out = (pNumDeviceEvents, pEvents) in
      obind (resolve_driver s hDriver) (\<lambda>r. case r of
        None \<Rightarrow> Done (ZE_RESULT_ERROR_INVALID_NULL_HANDLE, out)
      | Some drv \<Rightarrow>
          obind (if is_ex then is_unsupported s hDriver UNSUPPORTED_FEATURE_EVENT_LISTEN_EX
                 else is_unsupported s hDriver UNSUPPORTED_FEATURE_EVENT_LISTEN) (\<lambda>unsupported.
            let rv = (if is_ex then rv_zesDriverEventListenEx (drv_return_values drv)
                      else rv_zesDriverEventListen (drv_return_values drv)) in
            if unsupported then Done (ZE_RESULT_ERROR_UNSUPPORTED_FEATURE, out)
            else if rv \<noteq> 0 then Done (rv, out)
            else (case (phDevices, pNumDeviceEvents, pEvents) of
              (Some devs, Some n, Some ev) \<Rightarrow>
                obind (peek_loop s (bits_drv (decode_handle hDriver)) devs 0 (unat count) 0 ev)
                  (\<lambda>(result, num_events, ev').
                    if result \<noteq> ZE_RESULT_SUCCESS then Done (result, (Some n, Some ev'))
                    else Done (ZE_RESULT_SUCCESS, (Some num_events, Some ev')))
            | _ \<Rightarrow> Done (ZE_RESULT_ERROR_INVALID_NULL_POINTER, out)))))"

section \<open>Time\<close>

record timespec =
  tv_sec :: int
  tv_nsec :: int

text \<open>
  The environment of a listening thread: the successive readings of the monotonic clock (number 0 is
  \<^verbatim>\<open>start\<close>, number \<open>k + 1\<close> is taken by round \<open>k\<close>), the successive \<^verbatim>\<open>nanosleep\<close> calls (\<open>Some rem\<close> when a
  call is interrupted with \<open>rem\<close> left) and what other threads do to the library's globals while
  round \<open>k\<close> does not hold the lock.
\<close>

record listen_env =
  env_clock :: "nat \<Rightarrow> timespec"
  env_nanosleep :: "nat \<Rightarrow> timespec \<Rightarrow> timespec option"
  env_others :: "nat \<Rightarrow> stub \<Rightarrow> stub"

definition elapsed_ms :: "timespec \<Rightarrow> timespec \<Rightarrow> int" where
  "elapsed_ms start now = (tv_sec now - tv_sec start) * 1000 + (tv_nsec now - tv_nsec start) sdiv 1000000"

definition delay_of :: "u64 \<Rightarrow> timespec" where
  "delay_of sleep_ms = \<lparr>tv_sec = uint (sleep_ms div 1000), tv_nsec = uint (sleep_ms mod 1000) * 1000000\<rparr>"

text \<open>\<^verbatim>\<open>while (nanosleep(&delay, &rem) == -1 && errno == EINTR) delay = rem;\<close>\<close>

primrec sleep_loop :: "(nat \<Rightarrow> timespec \<Rightarrow> timespec option) \<Rightarrow> nat \<Rightarrow> nat \<Rightarrow> timespec \<Rightarrow> nat option" where
  "sleep_loop nanosleep 0 j delay = None"
| "sleep_loop nanosleep (Suc fuel) j delay = (case nanosleep j delay of
     None \<Rightarrow> Some (Suc j) | Some rem \<Rightarrow> sleep_loop nanosleep fuel (Suc j) rem)"

section \<open>The poll loop\<close>

type_synonym listen_out = "u32 option \<times> u32 list option"

abbreviation UINT64_MAX :: u64 where
  "UINT64_MAX \<equiv> - 1"

definition sleep_time :: "u64 \<Rightarrow> u64 \<Rightarrow> u64" where
  "sleep_time timeout_ms elapsed =
     (if timeout_ms \<noteq> UINT64_MAX \<and> timeout_ms - elapsed < 1000 then timeout_ms - elapsed else 1000)"

primrec listen_loop ::
  "listen_env \<Rightarrow> u64 \<Rightarrow> u64 \<Rightarrow> u32 \<Rightarrow> u64 list option \<Rightarrow> bool \<Rightarrow> nat \<Rightarrow> nat \<Rightarrow> nat \<Rightarrow> listen_out \<Rightarrow> stub \<Rightarrow>
   listen_out api_result option" where
  "listen_loop env hDriver timeout_ms count phDevices is_ex 0 k j out w = None"
| "listen_loop env hDriver timeout_ms count phDevices is_ex (Suc fuel) k j out w =
     (let elapsed = word_of_int (elapsed_ms (env_clock env 0) (env_clock env (Suc k))) :: u64 in
      if timeout_ms \<noteq> UINT64_MAX \<and> elapsed \<ge> timeout_ms then Some (Done (ZE_RESULT_SUCCESS, out, w))
      else (case sleep_loop (env_nanosleep env) fuel j (delay_of (sleep_time timeout_ms elapsed)) of
          None \<Rightarrow> None
        | Some j' \<Rightarrow> (case sysman_state_lock (env_others env k (sysman_state_unlock w)) of
            Fault \<Rightarrow> Some Fault
          | Stuck \<Rightarrow> Some Stuck
          | Done w' \<Rightarrow>
              (case driver_event_listen_peek (g_sysman_state w') hDriver count phDevices (fst out) (snd out) is_ex of
                Fault \<Rightarrow> Some Fault
              | Stuck \<Rightarrow> Some Stuck
              | Done (result, out') \<Rightarrow>
                  if result \<noteq> ZE_RESULT_SUCCESS then Some (Done (result, out', w'))
                  else (case fst out' of None \<Rightarrow> Some Fault
                    | Some n \<Rightarrow> if 0 < n then Some (Done (result, out', w'))
                        else listen_loop env hDriver timeout_ms count phDevices is_ex fuel (Suc k) j' out' w')))))"

definition driver_event_listen_poll ::
  "listen_env \<Rightarrow> nat \<Rightarrow> u64 \<Rightarrow> u64 \<Rightarrow> u32 \<Rightarrow> u64 list option \<Rightarrow> u32 option \<Rightarrow> u32 list option \<Rightarrow> bool \<Rightarrow> stub \<Rightarrow>
   listen_out api_result option" where
  "driver_event_listen_poll env fuel hDriver timeout_ms count phDevices pNumDeviceEvents pEvents is_ex w =
     (case driver_event_listen_peek (g_sysman_state w) hDriver count phDevices pNumDeviceEvents pEvents is_ex of
        Fault \<Rightarrow> Some Fault
      | Stuck \<Rightarrow> Some Stuck
      | Done (result, out) \<Rightarrow>
          if result \<noteq> ZE_RESULT_SUCCESS then Some (Done (result, out, w))
          else listen_loop env hDriver timeout_ms count phDevices is_ex fuel 0 0 out w)"

definition unlock_after :: "listen_out api_result \<Rightarrow> listen_out api_result" where
  "unlock_after r = obind r (\<lambda>(result, out, w). sysman_unlock_and_return result out w)"

definition zesDriverEventListen ::
  "listen_env \<Rightarrow> nat \<Rightarrow> stub \<Rightarrow> u64 \<Rightarrow> u32 \<Rightarrow> u32 \<Rightarrow> u64 list option \<Rightarrow> u32 option \<Rightarrow> u32 list option \<Rightarrow>
   listen_out api_result option" where
  "zesDriverEventListen env fuel w hDriver timeout count phDevices pNumDeviceEvents pEvents =
     (case sysman_state_lock w of Fault \<Rightarrow> Some Fault | Stuck \<Rightarrow> Some Stuck
      | Done w \<Rightarrow>
          let timeout_ms = (if timeout = - 1 then UINT64_MAX else ucast timeout) in
          map_option unlock_after
            (driver_event_listen_poll env fuel hDriver timeout_ms count phDevices pNumDeviceEvents pEvents False w))"

definition zesDriverEventListenEx ::
  "listen_env \<Rightarrow> nat \<Rightarrow> stub \<Rightarrow> u64 \<Rightarrow> u64 \<Rightarrow> u32 \<Rightarrow> u64 list option \<Rightarrow> u32 option \<Rightarrow> u32 list option \<Rightarrow>
   listen_out api_result option" where
  "zesDriverEventListenEx env fuel w hDriver timeout count phDevices pNumDeviceEvents pEvents =
     (case sysman_state_lock w of Fault \<Rightarrow> Some Fault | Stuck \<Rightarrow> Some Stuck
      | Done w \<Rightarrow> map_option unlock_after
            (driver_event_listen_poll env fuel hDriver timeout count phDevices pNumDeviceEvents pEvents True w))"

section \<open>What a peek reports\<close>

text \<open>The event flags of the device a handle designates.\<close>

definition flags_of :: "sysman_state_t \<Rightarrow> u64 \<Rightarrow> u32" where
  "flags_of s h = (case resolve_device s h of Done (Some dev) \<Rightarrow> dev_events dev | _ \<Rightarrow> 0)"

definition own_device :: "sysman_state_t \<Rightarrow> u16 \<Rightarrow> u64 \<Rightarrow> bool" where
  "own_device s drv h = ((\<exists>dev. resolve_device s h = Done (Some dev)) \<and> bits_drv (decode_handle h) = drv)"

lemma peek_loop_ok:
  assumes "\<forall>h\<in>set (take (i + k) devs). own_device s drv h" "i + k \<le> length devs" "i + k \<le> length ev"
  shows "peek_loop s drv devs i k n ev = Done (ZE_RESULT_SUCCESS,
    n + word_of_nat (length (filter (\<lambda>h. flags_of s h \<noteq> 0) (take k (drop i devs)))),
    take i ev @ map (flags_of s) (take k (drop i devs)) @ drop (i + k) ev)"
  using assms
proof (induction k arbitrary: i n ev)
  case 0
  then show ?case by simp
next
  case (Suc k)
  let ?h = "devs ! i"
  have mem: "?h \<in> set (take (i + Suc k) devs)"
    using Suc.prems(2) by (auto simp: in_set_conv_nth intro!: exI [of _ i])
  then obtain dev where dev: "resolve_device s ?h = Done (Some dev)" and own: "bits_drv (decode_handle ?h) = drv"
    using Suc.prems(1) by (auto simp: own_device_def)
  have flags: "flags_of s ?h = dev_events dev"
    by (simp add: flags_of_def dev)
  have split: "take (Suc k) (drop i devs) = ?h # take k (drop (Suc i) devs)"
    using Suc.prems(2) by (simp add: Cons_nth_drop_Suc [symmetric])
  have "take (Suc i) (ev[i := dev_events dev]) = take i ev @ [dev_events dev]"
    using Suc.prems(3) by (simp add: take_Suc_conv_app_nth)
  moreover have "peek_loop s drv devs (Suc i) k m (ev[i := dev_events dev]) = Done (ZE_RESULT_SUCCESS,
      m + word_of_nat (length (filter (\<lambda>h. flags_of s h \<noteq> 0) (take k (drop (Suc i) devs)))),
      take (Suc i) (ev[i := dev_events dev]) @ map (flags_of s) (take k (drop (Suc i) devs)) @
        drop (Suc i + k) (ev[i := dev_events dev]))" for m
    using Suc.prems by (intro Suc.IH) auto
  ultimately show ?case
    using Suc.prems dev own by (simp add: split flags)
qed

text \<open>
  A peek on an enabled driver whose device handles are all devices of that driver succeeds: it
  writes each device's event flags at its position and counts the devices with a flag set, and
  writes nothing beyond the declared count.
\<close>

theorem event_peek:
  assumes "wf_state s" "resolve_driver s h = Done (Some drv)"
    and "(if is_ex then UNSUPPORTED_FEATURE_EVENT_LISTEN_EX else UNSUPPORTED_FEATURE_EVENT_LISTEN) \<notin> unsupported_set s h"
    and "(if is_ex then rv_zesDriverEventListenEx (drv_return_values drv) else rv_zesDriverEventListen (drv_return_values drv)) = 0"
    and "unat count \<le> length devs" "unat count \<le> length ev"
    and "\<forall>g\<in>set (take (unat count) devs). own_device s (bits_drv (decode_handle h)) g"
  shows "driver_event_listen_peek s h count (Some devs) (Some n) (Some ev) is_ex =
    Done (ZE_RESULT_SUCCESS,
      (Some (word_of_nat (length (filter (\<lambda>g. flags_of s g \<noteq> 0) (take (unat count) devs)))),
       Some (map (flags_of s) (take (unat count) devs) @ drop (unat count) ev)))"
  using assms(2-4) peek_loop_ok [of 0 "unat count" devs s "bits_drv (decode_handle h)" ev 0] assms(5-7)
  by (cases is_ex) (simp_all add: driver_event_listen_peek_def is_unsupported_wf [OF assms(1)])

section \<open>The elapsed time\<close>

definition norm_time :: "timespec \<Rightarrow> bool" where
  "norm_time t = (0 \<le> tv_nsec t \<and> tv_nsec t < 1000000000)"

definition nanos :: "timespec \<Rightarrow> int" where
  "nanos t = tv_sec t * 1000000000 + tv_nsec t"

lemma sdiv_bounds:
  fixes a b :: int
  assumes "0 < b"
  shows "\<bar>a - (a sdiv b) * b\<bar> < b" and "0 \<le> a \<Longrightarrow> 0 \<le> a sdiv b"
proof -
  have "a sdiv b = sgn a * (\<bar>a\<bar> div b)"
    using assms by (simp add: signed_divide_int_def)
  moreover have "0 \<le> \<bar>a\<bar> - (\<bar>a\<bar> div b) * b" "\<bar>a\<bar> - (\<bar>a\<bar> div b) * b < b"
    using assms by (simp_all add: minus_div_mult_eq_mod)
  ultimately show "\<bar>a - (a sdiv b) * b\<bar> < b"
    by (cases "0 \<le> a") (auto simp: sgn_if abs_if split: if_splits)
  show "0 \<le> a \<Longrightarrow> 0 \<le> a sdiv b"
    using assms by (simp add: \<open>a sdiv b = sgn a * (\<bar>a\<bar> div b)\<close> sgn_if pos_imp_zdiv_nonneg_iff)
qed

lemma elapsed_ms_accurate_aux:
  assumes "norm_time start" "norm_time now" "nanos start \<le> nanos now"
  shows "0 \<le> elapsed_ms start now \<and> \<bar>nanos now - nanos start - elapsed_ms start now * 1000000\<bar> < 1000000"
proof -
  define n where "n = tv_nsec now - tv_nsec start"
  define sec where "sec = tv_sec now - tv_sec start"
  define q where "q = n sdiv 1000000"
  have q: "\<bar>n - q * 1000000\<bar> < 1000000"
    unfolding q_def by (rule sdiv_bounds) simp
  have n: "n < 1000000000" "- 1000000000 < n"
    using assms(1,2) by (auto simp: norm_time_def n_def)
  have real: "nanos now - nanos start = sec * 1000000000 + n"
    by (simp add: nanos_def n_def sec_def algebra_simps)
  have el: "elapsed_ms start now = sec * 1000 + q"
    by (simp add: elapsed_ms_def sec_def q_def n_def)
  have "0 \<le> sec"
  proof (rule ccontr)
    assume "\<not> 0 \<le> sec"
    with n real assms(3) show False by linarith
  qed
  moreover have "sec = 0 \<Longrightarrow> 0 \<le> q"
    using real assms(3) sdiv_bounds(2) [of 1000000 n] by (simp add: q_def)
  moreover have "- 1000 \<le> q"
    using q n by linarith
  ultimately have "0 \<le> sec * 1000 + q"
    by (cases "sec = 0") auto
  moreover have "\<bar>sec * 1000000000 + n - (sec * 1000 + q) * 1000000\<bar> < 1000000"
    using q by (simp add: algebra_simps)
  ultimately show ?thesis
    by (simp add: real el)
qed

text \<open>
  For readings of the monotonic clock, the elapsed milliseconds are never negative (so the cast
  to an unsigned number is harmless) and differ from the real time by less than one millisecond,
  in either direction: the nanosecond part may be negative and C division rounds towards zero.
\<close>

theorem elapsed_ms_accurate:
  assumes "norm_time start" "norm_time now" "nanos start \<le> nanos now"
  shows "0 \<le> elapsed_ms start now \<and> \<bar>nanos now - nanos start - elapsed_ms start now * 1000000\<bar> < 1000000"
  using elapsed_ms_accurate_aux [OF assms] .

section \<open>Listening returns\<close>

definition room :: "u32 \<Rightarrow> 'a list option \<Rightarrow> bool" where
  "room count p = (case p of None \<Rightarrow> True | Some xs \<Rightarrow> unat count \<le> length xs)"

lemma peek_loop_safe:
  assumes "wf_state s" "i + k \<le> length devs" "i + k \<le> length ev"
  shows "\<exists>r n' ev'. peek_loop s drv devs i k n ev = Done (r, n', ev') \<and> length ev' = length ev"
  using assms(2,3)
proof (induction k arbitrary: i n ev)
  case 0
  then show ?case by simp
next
  case (Suc k)
  show ?case
    using Suc.prems Suc.IH [of "Suc i" "_[i := _]"]
    by (auto simp: resolve_device_wf [OF assms(1)] split: option.splits)
qed

lemma peek_safe:
  assumes "wf_state s" "room count devs" "room count ev"
  shows "\<exists>r out. driver_event_listen_peek s h count devs n ev is_ex = Done (r, out) \<and>
    (r = ZE_RESULT_SUCCESS \<longrightarrow> (\<exists>n'. fst out = Some n') \<and> room count (snd out))"
proof -
  have loop: "\<exists>r n' ev'. peek_loop s drv xs 0 (unat count) 0 ys = Done (r, n', ev') \<and> length ev' = length ys"
    if "devs = Some xs" "ev = Some ys" for drv xs ys
    using that assms(2,3) by (intro peek_loop_safe assms(1)) (auto simp: room_def)
  show ?thesis
  proof (cases "\<exists>xs m ys. devs = Some xs \<and> n = Some m \<and> ev = Some ys")
    case True
    then obtain xs m ys where args: "devs = Some xs" "n = Some m" "ev = Some ys" by auto
    obtain r n' ev' where "peek_loop s (bits_drv (decode_handle h)) xs 0 (unat count) 0 ys = Done (r, n', ev')"
      "length ev' = length ys"
      using loop [OF args(1,3)] by blast
    with args assms(3) show ?thesis
      by (simp add: driver_event_listen_peek_def resolve_driver_wf [OF assms(1)] is_unsupported_wf [OF assms(1)]
          Let_def room_def ze_result_defs split: option.splits)
  next
    case False
    then show ?thesis
      by (cases devs; cases n; cases ev)
        (simp_all add: driver_event_listen_peek_def resolve_driver_wf [OF assms(1)] is_unsupported_wf [OF assms(1)]
          Let_def ze_result_defs split: option.splits)
  qed
qed

lemma sleep_loop_ends:
  assumes "\<And>j d. B \<le> j \<Longrightarrow> ns j d = None" "0 < fuel" "B < fuel + j"
  shows "\<exists>j'. sleep_loop ns fuel j d = Some j'"
  using assms(2,3)
proof (induction fuel arbitrary: j d)
  case 0
  then show ?case by simp
next
  case (Suc fuel)
  show ?case
  proof (cases "ns j d")
    case None
    then show ?thesis by simp
  next
    case (Some rem)
    then have "j < B"
      using assms(1) [of j d] not_le by fastforce
    with Some Suc.IH [of "Suc j" rem] Suc.prems show ?thesis by simp
  qed
qed

text \<open>
  What the loop relies on: the clock is monotonic, a completed sleep takes at least as long as asked,
  only finitely many sleeps are interrupted, other threads leave the library in a good state with
  the lock free, and the total time fits the 64-bit counter.
\<close>

definition listen_env_ok :: "listen_env \<Rightarrow> u64 \<Rightarrow> nat \<Rightarrow> bool" where
  "listen_env_ok env timeout_ms B = (
     (\<forall>k. norm_time (env_clock env k)) \<and> nanos (env_clock env 0) \<le> nanos (env_clock env 1) \<and>
     (\<forall>k. nanos (env_clock env (Suc k)) +
        nanos (delay_of (sleep_time timeout_ms (word_of_int (elapsed_ms (env_clock env 0) (env_clock env (Suc k))))))
        \<le> nanos (env_clock env (Suc (Suc k)))) \<and>
     (\<forall>k \<le> unat timeout_ms + 1. elapsed_ms (env_clock env 0) (env_clock env (Suc k)) < 2 ^ 63) \<and>
     (\<forall>j d. B \<le> j \<longrightarrow> env_nanosleep env j d = None) \<and>
     (\<forall>k w. ready w \<longrightarrow> ready (env_others env k w)))"

lemma nanos_delay: "nanos (delay_of ms) = uint ms * 1000000"
proof -
  have "uint (ms div 1000) * 1000 + uint (ms mod 1000) = uint ms"
    by (simp add: uint_div uint_mod)
  then show ?thesis
    by (simp add: nanos_def delay_of_def)
qed

lemma sleep_time_pos:
  assumes "elapsed < timeout_ms"
  shows "1 \<le> uint (sleep_time timeout_ms elapsed)"
proof -
  have "timeout_ms - elapsed \<noteq> 0"
    using assms by auto
  then show ?thesis
    by (auto simp: sleep_time_def word_uint_eq_iff linorder_not_less int_one_le_iff_zero_less
        intro!: le_neq_trans)
qed

lemma elapsed_word:
  assumes ok: "listen_env_ok env timeout_ms B" and k: "k \<le> unat timeout_ms + 1"
    and after: "nanos (env_clock env 0) + int k * 1000000 \<le> nanos (env_clock env (Suc k))"
  shows "k \<le> unat (word_of_int (elapsed_ms (env_clock env 0) (env_clock env (Suc k))) :: u64)"
proof -
  define e where "e = elapsed_ms (env_clock env 0) (env_clock env (Suc k))"
  have norm: "norm_time (env_clock env i)" for i
    using ok by (simp add: listen_env_ok_def)
  have "0 \<le> e" and err: "\<bar>nanos (env_clock env (Suc k)) - nanos (env_clock env 0) - e * 1000000\<bar> < 1000000"
    using elapsed_ms_accurate_aux [OF norm [of 0] norm [of "Suc k"]] after by (auto simp: e_def)
  moreover have "e < 2 ^ 63"
    using ok k by (simp add: listen_env_ok_def e_def)
  ultimately have "uint (word_of_int e :: u64) = e"
    by (simp add: uint_word_of_int_eq take_bit_int_eq_self)
  moreover have "int k \<le> e"
    using err after by linarith
  ultimately have "int k \<le> int (unat (word_of_int e :: u64))"
    by simp
  then show ?thesis
    unfolding e_def by (simp only: of_nat_le_iff)
qed

lemma listen_loop_returns:
  assumes ok: "listen_env_ok env timeout_ms B" and finite: "timeout_ms \<noteq> UINT64_MAX" and devs: "room count phDevices"
  shows "g_state_lock w \<Longrightarrow> wf_state (g_sysman_state w) \<Longrightarrow> room count (snd out) \<Longrightarrow> k \<le> unat timeout_ms + 1 \<Longrightarrow>
    nanos (env_clock env 0) + int k * 1000000 \<le> nanos (env_clock env (Suc k)) \<Longrightarrow>
    unat timeout_ms + B + 3 \<le> fuel + k \<Longrightarrow>
    \<exists>r out' w'. listen_loop env h timeout_ms count phDevices is_ex fuel k j out w = Some (Done (r, out', w'))
      \<and> g_state_lock w' \<and> wf_state (g_sysman_state w')"
proof (induction fuel arbitrary: k j out w)
  case 0
  then show ?case by simp
next
  case (Suc fuel)
  let ?e = "word_of_int (elapsed_ms (env_clock env 0) (env_clock env (Suc k))) :: u64"
  show ?case
  proof (cases "?e \<ge> timeout_ms")
    case True
    with finite Suc.prems show ?thesis by simp
  next
    case False
    have k: "k \<le> unat ?e"
      by (rule elapsed_word [OF ok Suc.prems(4,5)])
    have "unat ?e < unat timeout_ms"
      using False by (simp add: word_less_nat_alt linorder_not_le)
    with k have k': "Suc k \<le> unat timeout_ms + 1" by simp
    have "nanos (env_clock env (Suc k)) + uint (sleep_time timeout_ms ?e) * 1000000 \<le> nanos (env_clock env (Suc (Suc k)))"
      using ok by (simp add: listen_env_ok_def nanos_delay)
    moreover have "1 \<le> uint (sleep_time timeout_ms ?e)"
      using False by (intro sleep_time_pos) (simp add: linorder_not_le)
    ultimately have later: "nanos (env_clock env 0) + int (Suc k) * 1000000 \<le> nanos (env_clock env (Suc (Suc k)))"
      using Suc.prems(5) by simp
    obtain j' where slept: "sleep_loop (env_nanosleep env) fuel j (delay_of (sleep_time timeout_ms ?e)) = Some j'"
      using sleep_loop_ends [of B "env_nanosleep env" fuel j "delay_of (sleep_time timeout_ms ?e)"] ok Suc.prems(4,6)
      unfolding listen_env_ok_def by fastforce
    define v where "v = env_others env k (sysman_state_unlock w)"
    have "ready v"
      using ok Suc.prems(2) by (simp add: listen_env_ok_def v_def ready_def sysman_state_unlock_def)
    then have lock: "sysman_state_lock v = Done (v\<lparr>g_state_lock := True\<rparr>)" and wf: "wf_state (g_sysman_state v)"
      by (auto simp: ready_def)
    obtain r out' where peek: "driver_event_listen_peek (g_sysman_state v) h count phDevices (fst out) (snd out) is_ex = Done (r, out')"
      and room': "r = ZE_RESULT_SUCCESS \<Longrightarrow> (\<exists>n. fst out' = Some n) \<and> room count (snd out')"
      using peek_safe [OF wf devs Suc.prems(3)] by blast
    have again: "\<exists>r' o' w'. listen_loop env h timeout_ms count phDevices is_ex fuel (Suc k) j' out' (v\<lparr>g_state_lock := True\<rparr>)
        = Some (Done (r', o', w')) \<and> g_state_lock w' \<and> wf_state (g_sysman_state w')" if "r = ZE_RESULT_SUCCESS"
      using that room' wf k' later Suc.prems(6) by (intro Suc.IH) auto
    show ?thesis
      using False finite again room' wf
      by (auto simp: slept lock peek Let_def simp flip: v_def)
  qed
qed

text \<open>
  C11. With a finite timeout both listening calls return, for every environment whose clock and
  sleeps behave and whose other threads leave a well-formed state: given enough rounds (one per
  millisecond at most, plus the interrupted sleeps) the call gives a result, never faults, and
  leaves the state lock free.
\<close>

theorem event_listen_returns:
  assumes "ready w" "room count phDevices" "room count pEvents"
    and "listen_env_ok env timeout64 B" "timeout64 \<noteq> - 1"
    and "listen_env_ok env (ucast timeout32) B" "timeout32 \<noteq> - 1"
    and "unat timeout64 + B + 3 \<le> fuel" "unat timeout32 + B + 3 \<le> fuel"
  shows "(\<exists>r out w'. zesDriverEventListenEx env fuel w h timeout64 count phDevices pNum pEvents = Some (Done (r, out, w')) \<and> ready w')
    \<and> (\<exists>r out w'. zesDriverEventListen env fuel w h timeout32 count phDevices pNum pEvents = Some (Done (r, out, w')) \<and> ready w')"
proof -
  let ?w = "w\<lparr>g_state_lock := True\<rparr>"
  have wf: "wf_state (g_sysman_state ?w)" and lock: "sysman_state_lock w = Done ?w"
    using assms(1) by (auto simp: ready_def)
  have poll: "\<exists>r out w'. map_option unlock_after (driver_event_listen_poll env fuel h t count phDevices pNum pEvents is_ex ?w)
      = Some (Done (r, out, w')) \<and> ready w'"
    if "listen_env_ok env t B" "t \<noteq> - 1" "unat t + B + 3 \<le> fuel" for t is_ex
  proof -
    obtain r out where peek: "driver_event_listen_peek (g_sysman_state w) h count phDevices pNum pEvents is_ex = Done (r, out)"
      and room': "r = ZE_RESULT_SUCCESS \<Longrightarrow> room count (snd out)"
      using peek_safe [OF wf assms(2,3)] by fastforce
    have "\<exists>r out' w'. listen_loop env h t count phDevices is_ex fuel 0 0 out ?w = Some (Done (r, out', w'))
        \<and> g_state_lock w' \<and> wf_state (g_sysman_state w')" if "r = ZE_RESULT_SUCCESS"
      using \<open>listen_env_ok env t B\<close> \<open>t \<noteq> - 1\<close> \<open>unat t + B + 3 \<le> fuel\<close> wf room' [OF that] assms(2)
      by (intro listen_loop_returns) (auto simp: listen_env_ok_def)
    then show ?thesis
      using wf peek
      by (cases "r = ZE_RESULT_SUCCESS")
        (auto simp: driver_event_listen_poll_def unlock_after_def sysman_unlock_and_return_def
          sysman_state_unlock_def ready_def)
  qed
  have "unat timeout32 < 2 ^ 32"
  proof -
    have "unat timeout32 < 2 ^ LENGTH(32)" by (rule unsigned_less)
    then show ?thesis by simp
  qed
  then have "unat (ucast timeout32 :: u64) = unat timeout32"
    by (simp add: unsigned_ucast_eq take_bit_nat_eq_self)
  moreover have "(ucast timeout32 :: u64) \<noteq> - 1"
  proof
    assume "(ucast timeout32 :: u64) = - 1"
    then have "bit (ucast timeout32 :: u64) 63" by simp
    then show False by (auto simp: bit_simps dest: bit_imp_le_length)
  qed
  ultimately show ?thesis
    using poll [OF assms(4,5,8), of True] poll [OF assms(6), of False] assms(7,9)
    by (simp add: zesDriverEventListenEx_def zesDriverEventListen_def lock Let_def)
qed

end
