(* ===== verification/Stub_Sample.thy ===== *)
theory Stub_Sample
  imports Stub_Trace Stub_Events
begin

text \<open>
  A small concrete configuration, with one driver, one device and one component of the kinds the
  theorems below need, and the instances of the stub's theorems on it.
\<close>

section \<open>Zeroed structures\<close>

definition zero_engine_rv :: sysman_engine_rv_t where
  "zero_engine_rv = \<lparr>rv_zesEngineGetProperties = 0, rv_zesEngineGetActivity = 0, rv_zesEngineGetActivityExt = 0\<rparr>"

definition zero_fabric_port_rv :: sysman_fabric_port_rv_t where
  "zero_fabric_port_rv = \<lparr>rv_zesFabricPortGetProperties = 0, rv_zesFabricPortGetLinkType = 0, rv_zesFabricPortGetConfig = 0,
     rv_zesFabricPortSetConfig = 0, rv_zesFabricPortGetState = 0, rv_zesFabricPortGetThroughput = 0,
     rv_zesFabricPortGetFabricErrorCounters = 0, rv_zesFabricPortGetMultiPortThroughput = 0\<rparr>"

definition zero_fan_rv :: sysman_fan_rv_t where
  "zero_fan_rv = \<lparr>rv_zesFanGetProperties = 0, rv_zesFanGetConfig = 0, rv_zesFanSetDefaultMode = 0,
     rv_zesFanSetFixedSpeedMode = 0, rv_zesFanSetSpeedTableMode = 0, rv_zesFanGetState = 0\<rparr>"

definition zero_firmware_rv :: sysman_firmware_rv_t where
  "zero_firmware_rv = \<lparr>rv_zesFirmwareGetProperties = 0, rv_zesFirmwareFlash = 0, rv_zesFirmwareGetFlashProgress = 0,
     rv_zesFirmwareGetConsoleLogs = 0\<rparr>"

definition zero_freq_rv :: sysman_freq_rv_t where
  "zero_freq_rv = \<lparr>rv_zesFrequencyGetProperties = 0, rv_zesFrequencyGetAvailableClocks = 0, rv_zesFrequencyGetRange = 0,
     rv_zesFrequencySetRange = 0, rv_zesFrequencyGetState = 0, rv_zesFrequencyGetThrottleTime = 0\<rparr>"

definition zero_led_rv :: sysman_led_rv_t where
  "zero_led_rv = \<lparr>rv_zesLedGetProperties = 0, rv_zesLedGetState = 0, rv_zesLedSetState = 0, rv_zesLedSetColor =
     0\<rparr>"

definition zero_mem_rv :: sysman_mem_rv_t where
  "zero_mem_rv = \<lparr>rv_zesMemoryGetProperties = 0, rv_zesMemoryGetState = 0, rv_zesMemoryGetBandwidth = 0\<rparr>"

definition zero_oc_rv :: sysman_oc_rv_t where
  "zero_oc_rv = \<lparr>rv_zesOverclockGetDomainProperties = 0, rv_zesOverclockGetDomainVFProperties = 0,
     rv_zesOverclockGetDomainControlProperties = 0, rv_zesOverclockGetControlCurrentValue = 0,
     rv_zesOverclockGetControlPendingValue = 0, rv_zesOverclockSetControlUserValue = 0,
     rv_zesOverclockGetControlState = 0, rv_zesOverclockGetVFPointValues = 0, rv_zesOverclockSetVFPointValues
     = 0\<rparr>"

definition zero_perf_rv :: sysman_perf_rv_t where
  "zero_perf_rv = \<lparr>rv_zesPerformanceFactorGetProperties = 0, rv_zesPerformanceFactorGetConfig = 0,
     rv_zesPerformanceFactorSetConfig = 0\<rparr>"

definition zero_power_rv :: sysman_power_rv_t where
  "zero_power_rv = \<lparr>rv_zesPowerGetProperties = 0, rv_zesPowerGetEnergyCounter = 0, rv_zesPowerGetLimitsExt = 0,
     rv_zesPowerSetLimitsExt = 0, rv_zesPowerGetEnergyThreshold = 0, rv_zesPowerSetEnergyThreshold = 0\<rparr>"

definition zero_psu_rv :: sysman_psu_rv_t where
  "zero_psu_rv = \<lparr>rv_zesPsuGetProperties = 0, rv_zesPsuGetState = 0\<rparr>"

definition zero_ras_rv :: sysman_ras_rv_t where
  "zero_ras_rv = \<lparr>rv_zesRasGetProperties = 0, rv_zesRasGetConfig = 0, rv_zesRasSetConfig = 0, rv_zesRasGetState = 0,
     rv_zesRasGetStateExp = 0, rv_zesRasClearStateExp = 0\<rparr>"

definition zero_sched_rv :: sysman_sched_rv_t where
  "zero_sched_rv = \<lparr>rv_zesSchedulerGetProperties = 0, rv_zesSchedulerGetCurrentMode = 0,
     rv_zesSchedulerGetTimeoutModeProperties = 0, rv_zesSchedulerGetTimesliceModeProperties = 0,
     rv_zesSchedulerSetTimeoutMode = 0, rv_zesSchedulerSetTimesliceMode = 0, rv_zesSchedulerSetExclusiveMode =
     0\<rparr>"

definition zero_standby_rv :: sysman_standby_rv_t where
  "zero_standby_rv = \<lparr>rv_zesStandbyGetProperties = 0, rv_zesStandbyGetMode = 0, rv_zesStandbySetMode = 0\<rparr>"

definition zero_temp_rv :: sysman_temp_rv_t where
  "zero_temp_rv = \<lparr>rv_zesTemperatureGetProperties = 0, rv_zesTemperatureGetConfig = 0, rv_zesTemperatureSetConfig = 0,
     rv_zesTemperatureGetState = 0\<rparr>"

definition zero_diag_rv :: sysman_diag_rv_t where
  "zero_diag_rv = \<lparr>rv_zesDiagnosticsGetProperties = 0, rv_zesDiagnosticsGetTests = 0, rv_zesDiagnosticsRunTests =
     0\<rparr>"

definition zero_device_rv :: sysman_device_rv_t where
  "zero_device_rv = \<lparr>rv_zesDeviceGetProperties = 0, rv_zesDeviceGetState = 0, rv_zesDeviceReset = 0, rv_zesDeviceResetExt =
     0, rv_zesDeviceProcessesGetState = 0, rv_zesDevicePciGetProperties = 0, rv_zesDevicePciGetState = 0,
     rv_zesDevicePciGetBars = 0, rv_zesDevicePciGetStats = 0, rv_zesDevicePciLinkSpeedUpdateExt = 0,
     rv_zesDeviceSetOverclockWaiver = 0, rv_zesDeviceGetOverclockDomains = 0, rv_zesDeviceGetOverclockControls
     = 0, rv_zesDeviceResetOverclockSettings = 0, rv_zesDeviceReadOverclockState = 0,
     rv_zesDeviceEnumOverclockDomains = 0, rv_zesDeviceEccAvailable = 0, rv_zesDeviceEccConfigurable = 0,
     rv_zesDeviceGetEccState = 0, rv_zesDeviceSetEccState = 0, rv_zesDeviceEnumEngineGroups = 0,
     rv_zesDeviceEventRegister = 0, rv_zesDeviceEnumFabricPorts = 0, rv_zesDeviceEnumFans = 0,
     rv_zesDeviceEnumFirmwares = 0, rv_zesDeviceEnumFrequencyDomains = 0, rv_zesDeviceEnumLeds = 0,
     rv_zesDeviceEnumMemoryModules = 0, rv_zesDeviceEnumPerformanceFactorDomains = 0,
     rv_zesDeviceEnumPowerDomains = 0, rv_zesDeviceEnumPsus = 0, rv_zesDeviceEnumRasErrorSets = 0,
     rv_zesDeviceEnumSchedulers = 0, rv_zesDeviceEnumStandbyDomains = 0, rv_zesDeviceEnumTemperatureSensors =
     0, rv_zesDeviceEnumDiagnosticTestSuites = 0\<rparr>"

definition zero_driver_rv :: sysman_driver_rv_t where
  "zero_driver_rv = \<lparr>rv_zesDriverGetExtensionProperties = 0, rv_zesDeviceGet = 0, rv_zesDriverEventListen = 0,
     rv_zesDriverEventListenEx = 0\<rparr>"

lemmas zero_rv_defs = zero_engine_rv_def zero_fabric_port_rv_def zero_fan_rv_def zero_firmware_rv_def zero_freq_rv_def zero_led_rv_def zero_mem_rv_def zero_oc_rv_def zero_perf_rv_def zero_power_rv_def zero_psu_rv_def zero_ras_rv_def zero_sched_rv_def zero_standby_rv_def zero_temp_rv_def zero_diag_rv_def zero_device_rv_def zero_driver_rv_def

section \<open>The sample\<close>

definition sample_firmware :: sysman_firmware_t where
  "sample_firmware = \<lparr>firmware_return_values = zero_firmware_rv, firmware_properties = Null, firmware_flash_progress = 0,
     firmware_log = ''ready'' @ replicate 251 (CHR 0x00)\<rparr>"

definition sample_ras :: sysman_ras_t where
  "sample_ras = \<lparr>ras_return_values = zero_ras_rv, ras_properties = Null, ras_config = Null, ras_state = Null,
     ras_state_exp_count = 2, ras_state_exp = Ptr 20 [\<lparr>ras_state_exp_category = 1,
     ras_state_exp_errorCounter = 5\<rparr>, \<lparr>ras_state_exp_category = 2, ras_state_exp_errorCounter =
     7\<rparr>]\<rparr>"

definition sample_control :: sysman_oc_control_info_t where
  "sample_control = \<lparr>oc_control_info_control_type = 4, oc_control_info_properties = Null, oc_control_info_current_value =
     Ptr 31 9, oc_control_info_pending_value = Null, oc_control_info_state = Null,
     oc_control_info_pending_action = Null\<rparr>"

definition sample_oc :: sysman_oc_t where
  "sample_oc = \<lparr>oc_return_values = zero_oc_rv, oc_properties = Null, oc_vf_properties = Null, oc_control_infos_count =
     1, oc_control_infos = Ptr 30 [sample_control], oc_vf_point_value = 0\<rparr>"

definition sample_overclock :: sysman_overclock_info_t where
  "sample_overclock = \<lparr>overclock_info_domains_bitmask = 0, overclock_info_controls_count = 0, overclock_info_controls = Null,
     overclock_info_state = Null, overclock_info_domains_count = 1, overclock_info_domains = Ptr 33
     [sample_oc]\<rparr>"

definition sample_throughput :: zes_fabric_port_throughput_t where
  "sample_throughput = \<lparr>fabric_port_throughput_timestamp = 1, fabric_port_throughput_rxCounter = 2, fabric_port_throughput_txCounter = 3\<rparr>"

definition sample_port :: sysman_fabric_port_t where
  "sample_port = \<lparr>fabric_port_return_values = zero_fabric_port_rv, fabric_port_properties = Null, fabric_port_link_type
     = Null, fabric_port_config = Null, fabric_port_state = Null, fabric_port_throughput = Ptr 40
     sample_throughput, fabric_port_error_counters = Null\<rparr>"

definition sample_process :: zes_process_state_t where
  "sample_process = \<lparr>stype = 0, pNext = 0, process_state_processId = 77, process_state_memSize = 1, process_state_sharedSize = 0,
     process_state_engines = 1\<rparr>"

definition sample_device :: sysman_device_state_t where
  "sample_device = \<lparr>dev_return_values = zero_device_rv, dev_unsupported_features_count = 0, dev_unsupported_features =
     Null, dev_properties = Null, dev_state = Null, dev_pci = \<lparr>pci_info_properties = Null,
     pci_info_state = Null, pci_info_bars_count = 0, pci_info_bars = Null, pci_info_stats = Null,
     pci_info_pci_link_speed_update_pending_action = 0\<rparr>, dev_ecc = Null, dev_overclock = Ptr 15
     sample_overclock, dev_processes_count = 1, dev_processes = Ptr 12 [sample_process], dev_events = 3,
     dev_engine_groups_count = 0, dev_engine_groups = Null, dev_fabric_ports_count = 1, dev_fabric_ports = Ptr
     16 [sample_port], dev_fans_count = 0, dev_fans = Null, dev_firmwares_count = 1, dev_firmwares = Ptr 13
     [sample_firmware], dev_frequency_domains_count = 0, dev_frequency_domains = Null, dev_leds_count = 0,
     dev_leds = Null, dev_memory_modules_count = 0, dev_memory_modules = Null, dev_performance_domains_count =
     0, dev_performance_domains = Null, dev_power_domains_count = 0, dev_power_domains = Null, dev_psus_count
     = 0, dev_psus = Null, dev_ras_error_sets_count = 1, dev_ras_error_sets = Ptr 14 [sample_ras],
     dev_schedulers_count = 0, dev_schedulers = Null, dev_standby_domains_count = 0, dev_standby_domains =
     Null, dev_temperature_sensors_count = 0, dev_temperature_sensors = Null, dev_diagnostics_count = 0,
     dev_diagnostics = Null\<rparr>"

definition sample_driver :: sysman_drivers_state_t where
  "sample_driver = \<lparr>drv_return_values = zero_driver_rv, drv_unsupported_features_count = 0, drv_unsupported_features =
     Null, drv_extension_properties_count = 0, drv_extension_properties = Null, drv_devices_count = 1,
     drv_devices = Ptr 11 [sample_device]\<rparr>"

definition sample_state :: sysman_state_t where
  "sample_state = \<lparr>st_system = \<lparr>sys_drivers_count = 1, sys_drivers = Ptr 10 [sample_driver]\<rparr>,
     st_return_values = \<lparr>rv_zesInit = 0, rv_zesDriverGet = 0\<rparr>\<rparr>"

definition sample :: stub where
  "sample = \<lparr>g_sysman_state = sample_state, g_config_path = ''sample.yaml'', g_state_lock = False\<rparr>"

lemmas sample_parts = sample_firmware_def sample_ras_def sample_control_def sample_oc_def sample_overclock_def sample_port_def

lemma sample_sizes [simp]: "length (firmware_log sample_firmware) = 256"
  by (simp add: sample_firmware_def)

lemma wf_sample_device [simp]: "wf_device sample_device"
  by (simp add: sample_device_def wf_device_def wf_arr_def sample_parts wf_ras_def wf_firmware_def wf_overclock_def wf_oc_def
      SYSMAN_FIRMWARE_LOG_SIZE_def)

lemma wf_sample [simp]: "wf_state sample_state"
  by (simp add: sample_state_def sample_driver_def wf_state_def wf_arr_def wf_driver_def)

lemma ready_sample [simp]: "ready sample"
  by (simp add: ready_def sample_def)

lemma sample_globals [simp]: "g_sysman_state sample = sample_state" "g_state_lock sample = False"
  by (simp_all add: sample_def)

lemma sample_tree [simp]:
  "driver_at sample_state 0 = Some sample_driver" "device_at sample_state 0 0 = Some sample_device"
  by (simp_all add: driver_at_def device_at_def nth_opt_def sample_state_def sample_driver_def)

abbreviation hdrv :: u64 where "hdrv \<equiv> MAKE_DRIVER_HANDLE 0"
abbreviation hdev :: u64 where "hdev \<equiv> MAKE_DEVICE_HANDLE 0 0"
abbreviation hcomp :: "stub_handle_type_t \<Rightarrow> u64" where "hcomp ht \<equiv> MAKE_COMPONENT_HANDLE ht 0 0 0"

lemmas make_defs = MAKE_DRIVER_HANDLE_def MAKE_DEVICE_HANDLE_def MAKE_COMPONENT_HANDLE_def

lemma sample_resolves [simp]:
  "resolve_driver sample_state hdrv = Done (Some sample_driver)"
  "resolve_device sample_state hdev = Done (Some sample_device)"
  "resolve_firmware sample_state (hcomp STUB_HANDLE_FIRMWARE) = Done (Some sample_firmware)"
  "resolve_ras sample_state (hcomp STUB_HANDLE_RAS) = Done (Some sample_ras)"
  "resolve_oc sample_state (hcomp STUB_HANDLE_OC) = Done (Some sample_oc)"
  "resolve_fabric_port sample_state (hcomp STUB_HANDLE_FABRIC_PORT) = Done (Some sample_port)"
  by (simp_all add: resolve_wfs make_defs nth_opt_def sample_device_def oc_domains_def sample_overclock_def)

lemma sample_supported [simp]:
  "unsupported_set sample_state hdrv = {}" "unsupported_set sample_state hdev = {}"
  "ht \<noteq> STUB_HANDLE_DRIVER \<Longrightarrow> unsupported_set sample_state (hcomp ht) = {}"
  by (simp_all add: unsupported_set_def make_defs sample_device_def sample_driver_def handle_type_code_inj [of _ STUB_HANDLE_DRIVER]
      del: handle_type_code.simps)

section \<open>Instances of the theorems\<close>

lemma sample_fields [simp]:
  "rv_zesDeviceGet (drv_return_values sample_driver) = 0" "rv_zesDriverEventListen (drv_return_values sample_driver) = 0"
  "rv_zesDriverEventListenEx (drv_return_values sample_driver) = 0"
  "elems (drv_devices sample_driver) = [sample_device]"
  "rv_zesDeviceProcessesGetState (dev_return_values sample_device) = 0"
  "elems (dev_processes sample_device) = [sample_process]" "dev_events sample_device = 3"
  "elems (dev_fabric_ports sample_device) = [sample_port]"
  "rv_zesFirmwareGetConsoleLogs (firmware_return_values sample_firmware) = 0"
  "rv_zesOverclockGetControlCurrentValue (oc_return_values sample_oc) = 0"
  "rv_zesOverclockGetControlPendingValue (oc_return_values sample_oc) = 0"
  "rv_zesOverclockGetDomainControlProperties (oc_return_values sample_oc) = 0"
  "rv_zesOverclockGetControlState (oc_return_values sample_oc) = 0"
  "elems (oc_control_infos sample_oc) = [sample_control]" "\<not> SYSMAN_ARRAY_PTR_IS_EMPTY (oc_control_infos sample_oc)"
  "oc_control_info_control_type sample_control = 4" "oc_control_info_current_value sample_control = Ptr 31 9"
  "oc_control_info_pending_value sample_control = Null"
  "rv_zesFabricPortGetMultiPortThroughput (fabric_port_return_values sample_port) = 0"
  "fabric_port_throughput sample_port = Ptr 40 sample_throughput"
  "rv_zesRasClearStateExp (ras_return_values sample_ras) = 0"
  "map ras_state_exp_category (elems (ras_state_exp sample_ras)) = [1, 2]"
  by (simp_all add: sample_driver_def sample_device_def sample_parts zero_rv_defs SYSMAN_ARRAY_PTR_IS_EMPTY_def)

lemma sample_drivers [simp]: "elems (sys_drivers (st_system sample_state)) = [sample_driver]"
  "rv_zesDriverGet (st_return_values sample_state) = 0"
  by (simp_all add: sample_state_def)

lemma sample_enabled:
  "enabled resolve_driver UNSUPPORTED_FEATURE_DRIVER_DEVICE_GET (\<lambda>d. rv_zesDeviceGet (drv_return_values d)) sample hdrv sample_driver"
  "enabled resolve_device UNSUPPORTED_FEATURE_PROCESSES_GET_STATE
     (\<lambda>d. rv_zesDeviceProcessesGetState (dev_return_values d)) sample hdev sample_device"
  "enabled resolve_firmware UNSUPPORTED_FEATURE_FW_GET_CONSOLE_LOGS
     (\<lambda>f. rv_zesFirmwareGetConsoleLogs (firmware_return_values f)) sample (hcomp STUB_HANDLE_FIRMWARE) sample_firmware"
  "enabled resolve_ras UNSUPPORTED_FEATURE_RAS_CLEAR_STATE_EXP
     (\<lambda>r. rv_zesRasClearStateExp (ras_return_values r)) sample (hcomp STUB_HANDLE_RAS) sample_ras"
  by (simp_all add: enabled_def)

theorem driver_enumeration_witness:
  "\<exists>hs. length hs = 1 \<and> zesDriverGet sample (Some 1) (Some [0]) = Done (ZE_RESULT_SUCCESS, (Some 1, Some hs), sample)
     \<and> resolve_driver sample_state (hs ! 0) = Done (Some sample_driver)"
  using driver_enumeration [of sample 1 "[0]"] by auto

theorem device_enumeration_witness:
  "\<exists>hs. length hs = 1 \<and> zesDeviceGet sample hdrv (Some 1) (Some [0]) = Done (ZE_RESULT_SUCCESS, (Some 1, Some hs), sample)
     \<and> resolve_device sample_state (hs ! 0) = Done (Some sample_device)"
  using device_enumeration [OF sample_enabled(1), of 1 "[0]"] by auto

theorem processes_get_state_witness:
  "zesDeviceProcessesGetState sample hdev (Some 0) (Some []) = Done (ZE_RESULT_ERROR_INVALID_SIZE, (Some 0, Some []), sample)
   \<and> zesDeviceProcessesGetState sample hdev (Some 2) (Some [sample_process, sample_process]) =
       Done (ZE_RESULT_SUCCESS, (Some 1, Some [sample_process, sample_process]), sample)"
  using processes_get_state [OF sample_enabled(2), of 0 "[]"]
    processes_get_state [OF sample_enabled(2), of 2 "[sample_process, sample_process]"]
  by simp

lemma sample_log: "''ready'' = c_text (take (SYSMAN_FIRMWARE_LOG_SIZE - 1) (firmware_log sample_firmware))"
  by (simp add: sample_firmware_def SYSMAN_FIRMWARE_LOG_SIZE_def)

theorem console_log_witness:
  "zesFirmwareGetConsoleLogs sample (hcomp STUB_HANDLE_FIRMWARE) (Some 0) None = Done (ZE_RESULT_SUCCESS, (Some 6, None), sample)
   \<and> zesFirmwareGetConsoleLogs sample (hcomp STUB_HANDLE_FIRMWARE) (Some 3) (Some ''....'') =
       Done (ZE_RESULT_SUCCESS, (Some 3, Some (''re'' @ [CHR 0x00] @ ''.'')), sample)"
  using console_log [OF sample_enabled(3) _ sample_log, of 3 "''....''" 0] by simp

theorem overclock_controls_witness:
  "zesOverclockGetControlCurrentValue sample (hcomp STUB_HANDLE_OC) 4 (Some 0) = Done (ZE_RESULT_SUCCESS, Some 9, sample)
   \<and> zesOverclockGetControlPendingValue sample (hcomp STUB_HANDLE_OC) 4 (Some 0) = Done (ZE_RESULT_ERROR_UNSUPPORTED_FEATURE, Some 0, sample)"
  using overclock_controls [of sample "hcomp STUB_HANDLE_OC" sample_oc "Some sample_control" 4 0 _ 0 0]
  by simp

lemma sample_port_result:
  "port_result sample_state (hcomp STUB_HANDLE_FABRIC_PORT) (Some x) = Some sample_throughput"
  "port_result sample_state 0 None = None"
proof -
  have "hcomp STUB_HANDLE_FABRIC_PORT \<noteq> 0"
  proof
    assume "hcomp STUB_HANDLE_FABRIC_PORT = 0"
    then have "bits_type (decode_handle (hcomp STUB_HANDLE_FABRIC_PORT)) = bits_type (decode_handle 0)" by simp
    moreover have "bits_type (decode_handle 0) = 0" by (simp add: decode_handle_def)
    ultimately show False by (simp add: make_defs)
  qed
  then show "port_result sample_state (hcomp STUB_HANDLE_FABRIC_PORT) (Some x) = Some sample_throughput"
    by (simp add: port_result_def)
qed (simp add: port_result_def)

theorem multi_port_throughput_witness:
  "zesFabricPortGetMultiPortThroughput sample hdev 2 (Some [hcomp STUB_HANDLE_FABRIC_PORT, 0])
      (Some [Some (sample_throughput\<lparr>fabric_port_throughput_rxCounter := 0\<rparr>), None]) =
    Done (ZE_RESULT_SUCCESS, Some [Some sample_throughput, None], sample)"
  using multi_port_throughput [of sample hdev sample_device 2 "[hcomp STUB_HANDLE_FABRIC_PORT, 0]"
      "[Some (sample_throughput\<lparr>fabric_port_throughput_rxCounter := 0\<rparr>), None]"]
  by (simp add: nth_opt_def upt_rec sample_port_result)

lemma sample_ras_index: "first_index (\<lambda>e. ras_state_exp_category e = 2) (elems (ras_state_exp sample_ras)) = Some 1"
  by (simp add: sample_ras_def)


lemma sample_own: "own_device sample_state (bits_drv (decode_handle hdrv)) hdev" "flags_of sample_state hdev = 3"
  by (simp_all add: own_device_def flags_of_def) (simp add: make_defs)

theorem event_peek_witness:
  "driver_event_listen_peek sample_state hdrv 1 (Some [hdev]) (Some 0) (Some [0]) False =
     Done (ZE_RESULT_SUCCESS, (Some 1, Some [3]))"
  using event_peek [of sample_state hdrv sample_driver False 1 "[hdev]" "[0]" 0] by (simp add: sample_own)

theorem elapsed_ms_accurate_witness:
  "0 \<le> elapsed_ms \<lparr>tv_sec = 0, tv_nsec = 999999999\<rparr> \<lparr>tv_sec = 1, tv_nsec = 0\<rparr>
   \<and> elapsed_ms \<lparr>tv_sec = 0, tv_nsec = 999999999\<rparr> \<lparr>tv_sec = 1, tv_nsec = 0\<rparr> = 1"
  using elapsed_ms_accurate [of "\<lparr>tv_sec = 0, tv_nsec = 999999999\<rparr>" "\<lparr>tv_sec = 1, tv_nsec = 0\<rparr>"]
  by (simp add: norm_time_def nanos_def elapsed_ms_def signed_divide_int_def)

section \<open>A listening environment\<close>

definition sample_env :: listen_env where
  "sample_env = \<lparr>env_clock = (\<lambda>k. \<lparr>tv_sec = int k, tv_nsec = 0\<rparr>), env_nanosleep = (\<lambda>_ _. None), env_others = (\<lambda>_ w. w)\<rparr>"

lemma sleep_time_le: "uint (sleep_time t e) \<le> 1000"
  by (auto simp: sleep_time_def word_less_def)

lemma sample_env_ok: "unat t \<le> 1000 \<Longrightarrow> listen_env_ok sample_env t 0"
  using sleep_time_le
  by (auto simp: listen_env_ok_def sample_env_def norm_time_def nanos_def elapsed_ms_def nanos_delay [unfolded nanos_def]
      signed_divide_int_def)

theorem event_listen_returns_witness:
  "(\<exists>r out w. zesDriverEventListenEx sample_env 8 sample hdrv 5 1 (Some [hdev]) (Some 0) (Some [0]) = Some (Done (r, out, w)) \<and> ready w)
   \<and> (\<exists>r out w. zesDriverEventListen sample_env 8 sample hdrv 5 1 (Some [hdev]) (Some 0) (Some [0]) = Some (Done (r, out, w)) \<and> ready w)"
  using event_listen_returns [of sample 1 "Some [hdev]" "Some [0]" sample_env 5 0 5 8 hdrv "Some 0"]
  by (simp add: room_def sample_env_ok)

section \<open>Memory of the sample\<close>

lemma sample_blocks: "blocks_system (st_system sample_state) = [10, 11, 15, 33, 30, 31, 12, 16, 40, 13, 14, 20]"
  by (simp add: sample_state_def sample_driver_def sample_device_def sample_parts blocks_system_def arr_blocks_def addr_def
      blocks_driver_def blocks_device_def blocks_overclock_def blocks_oc_def blocks_oc_control_info_def
      blocks_fabric_port_def blocks_firmware_def blocks_ras_def)

lemma sample_owns: "owns sample {10, 11, 15, 33, 30, 31, 12, 16, 40, 13, 14, 20}"
  by (simp add: owns_def sample_blocks)

theorem free_system_exact_witness:
  "free_system_state (st_system sample_state) {5, 10, 11, 12, 13, 14, 15, 16, 20, 30, 31, 33, 40} = Done {5}"
  using free_system_exact [of sample_state "{5, 10, 11, 12, 13, 14, 15, 16, 20, 30, 31, 33, 40}"]
  by (auto simp: sample_blocks insert_Diff_if)

text \<open>A YAML library that parses every file to the sample, as long as its addresses are free.\<close>

definition sample_cyaml :: cyaml_load_file where
  "sample_cyaml f H = (if H \<inter> set (9 # blocks_system (st_system sample_state)) = {}
     then (0, Ptr 9 sample_state, H \<union> set (9 # blocks_system (st_system sample_state))) else (1, Null, H))"

lemma sample_cyaml_ok: "cyaml_contract sample_cyaml"
  unfolding cyaml_contract_def sample_cyaml_def parsed_ok_def
  by (auto simp: sample_blocks uuids_terminated_def sample_device_def split: if_splits)

lemma sample_uuids: "resolve_uuids sample_state = Done (Some sample_state)"
  by (simp add: resolve_uuids_def upd_array_def sample_state_def sample_driver_def resolve_driver_uuids_def
      resolve_device_uuids_def sample_device_def)

lemma sample_loaded: "loaded_tree sample_cyaml ''sample.yaml'' {} = Some sample_state"
  by (simp add: loaded_tree_def sample_cyaml_def sample_uuids)

theorem state_load_witness:
  "\<exists>w H. sysman_state_load (\<lambda>_. None) sample_cyaml (Some ''sample.yaml'') lib_init {} = Done (0, w, H)
     \<and> owns w H \<and> g_sysman_state w = sample_state \<and> g_config_path w = ''sample.yaml''"
proof -
  have own: "owns lib_init {}"
    by (simp add: owns_def ready_def lib_init_def)
  from state_load [OF own sample_cyaml_ok, of "\<lambda>_. None" "Some ''sample.yaml''"] sample_loaded show ?thesis
    by (auto simp: config_file_def PATH_MAX_def)
qed

theorem state_reset_witness:
  "\<exists>w. sysman_state_reset sample {10, 11, 15, 33, 30, 31, 12, 16, 40, 13, 14, 20} = Done (w, {}) \<and> g_sysman_state w = zero_state"
  using state_reset [OF sample_owns] by blast

lemma sample_init_call: "api_call sample ZE_RESULT_SUCCESS sample"
  by (rule call_Init [of sample 0]) (simp add: zesInit_def locked_Done sample_state_def)


lemma sample_trace: "(lib_step sample_cyaml)\<^sup>*\<^sup>* (lib_init, {}) (sample, {10, 11, 15, 33, 30, 31, 12, 16, 40, 13, 14, 20})"
proof -
  have own: "owns lib_init {}"
    by (simp add: owns_def ready_def lib_init_def)
  have parse: "sample_cyaml ''sample.yaml'' {} = (0, Ptr 9 sample_state, set (9 # blocks_system (st_system sample_state)))"
    by (simp add: sample_cyaml_def)
  have "sysman_state_load (\<lambda>_. None) sample_cyaml (Some ''sample.yaml'') lib_init {} =
      Done (0, sample, set (blocks_system (st_system sample_state)))"
    using load_tree [OF own sample_cyaml_ok _ parse, of "\<lambda>_. None" "Some ''sample.yaml''"] sample_uuids
    by (simp add: config_file_def sample_def lib_init_def PATH_MAX_def)
  then have "lib_step sample_cyaml (lib_init, {}) (sample, set (blocks_system (st_system sample_state)))"
    by (rule lib_load)
  then show ?thesis
    by (simp add: sample_blocks)
qed


end
