(* ===== verification/Hal_Base.thy ===== *)
theory Hal_Base
  imports Zes_Types
begin

text \<open>
  What the classes of \<^verbatim>\<open>hal/core\<close> share: how they call the Level Zero driver. The driver is an argument of every
  operation, one function per entry point on a driver state; a call returns its result code, what it wrote
  through its output pointers and the new driver state, or faults. The two locales are the documented behaviour
  of the two kinds of call the classes rely on: listing the objects of a device, or the values of an object, with the
  two-call protocol, and querying one object.
\<close>

section \<open>Calls\<close>

type_synonym ('w, 'o) zes_call = "(ze_result_t \<times> 'o \<times> 'w) outcome"
type_synonym ('w, 'v) zes_list = "'w \<Rightarrow> u64 \<Rightarrow> u32 option \<Rightarrow> 'v list option \<Rightarrow> ('w, u32 option \<times> 'v list option) zes_call"
type_synonym 'w zes_enum = "('w, u64) zes_list"
type_synonym ('w, 'v) zes_get = "'w \<Rightarrow> u64 \<Rightarrow> 'v option \<Rightarrow> ('w, 'v option) zes_call"

text \<open>A variable whose address was passed: what the call wrote, or what was there.\<close>

definition written :: "'a \<Rightarrow> 'a option \<Rightarrow> 'a" where
  "written old p = (case p of None \<Rightarrow> old | Some v \<Rightarrow> v)"

lemma written_simps [simp]: "written old None = old" "written old (Some v) = v"
  by (simp_all add: written_def)

definition zes_count :: "('w, 'v) zes_list \<Rightarrow> 'w \<Rightarrow> u64 \<Rightarrow> u32 \<Rightarrow> (ze_result_t \<times> u32 \<times> 'w) outcome" where
  "zes_count enum w device n = obind (enum w device (Some n) None) (\<lambda>(r, (c, _), w). Done (r, written n c, w))"

definition zes_handles :: "('w, 'v) zes_list \<Rightarrow> 'w \<Rightarrow> u64 \<Rightarrow> u32 \<Rightarrow> 'v list \<Rightarrow> (ze_result_t \<times> u32 \<times> 'v list \<times> 'w) outcome" where
  "zes_handles enum w device n buf =
     obind (enum w device (Some n) (Some buf)) (\<lambda>(r, (c, b), w). Done (r, written n c, written buf b, w))"

definition zes_query :: "('w, 'v) zes_get \<Rightarrow> 'w \<Rightarrow> u64 \<Rightarrow> 'v \<Rightarrow> (ze_result_t \<times> 'v \<times> 'w) outcome" where
  "zes_query get w h old = obind (get w h (Some old)) (\<lambda>(r, v, w). Done (r, written old v, w))"

text \<open>Reading an element of an array of handles, which may be null.\<close>

definition handle_at :: "u64 list option \<Rightarrow> nat \<Rightarrow> u64 outcome" where
  "handle_at hs i = (case hs of None \<Rightarrow> Fault | Some xs \<Rightarrow> if i < length xs then Done (xs ! i) else Fault)"

lemma handle_at_Some [simp]: "i < length xs \<Longrightarrow> handle_at (Some xs) i = Done (xs ! i)"
  by (simp add: handle_at_def)

text \<open>An array and its count that hold these handles.\<close>

definition holds :: "u64 list option \<Rightarrow> u32 \<Rightarrow> u64 list \<Rightarrow> bool" where
  "holds p n hs = (unat n = length hs \<and> (\<forall>i<length hs. handle_at p i = Done (hs ! i)))"

lemma holds_Some: "unat n = length hs \<Longrightarrow> holds (Some hs) n hs"
  by (simp add: holds_def)

lemma holds_none: "holds p 0 []"
  by (simp add: holds_def)

text \<open>
  Double precision, as far as the classes compute with it: conversion from an integer, product, quotient, sum,
  the order, rounding to the nearest integer, the absolute difference, and whether a value is finite.
\<close>

record fp64 =
  fp_of_u64 :: "u64 \<Rightarrow> double64"
  fp_mult :: "double64 \<Rightarrow> double64 \<Rightarrow> double64"
  fp_divide :: "double64 \<Rightarrow> double64 \<Rightarrow> double64"
  fp_less :: "double64 \<Rightarrow> double64 \<Rightarrow> bool"
  fp_round :: "double64 \<Rightarrow> double64"
  fp_distance :: "double64 \<Rightarrow> double64 \<Rightarrow> double64"
  fp_finite :: "double64 \<Rightarrow> bool"
  fp_to_u32 :: "double64 \<Rightarrow> u32"

section \<open>Readings\<close>

text \<open>
  What the objects of a list read: an error or a value each. A loop that stops at the first error uses the
  values before it (\<open>oks\<close>) and returns it (\<open>err\<close>); a loop that goes on uses all the values (\<open>goods\<close>).
\<close>

fun oks :: "(ze_result_t + 'v) list \<Rightarrow> 'v list" where
  "oks [] = []"
| "oks (Inl e # rs) = []"
| "oks (Inr v # rs) = v # oks rs"

fun err :: "(ze_result_t + 'v) list \<Rightarrow> ze_result_t" where
  "err [] = ZE_RESULT_SUCCESS"
| "err (Inl e # rs) = e"
| "err (Inr v # rs) = err rs"

fun goods :: "(ze_result_t + 'v) list \<Rightarrow> 'v list" where
  "goods [] = []"
| "goods (Inl e # rs) = goods rs"
| "goods (Inr v # rs) = v # goods rs"

text \<open>Two readings of one object, the second made when the first has succeeded and is of interest.\<close>

definition both :: "('a \<Rightarrow> bool) \<Rightarrow> ze_result_t + 'a \<Rightarrow> ze_result_t + 'b \<Rightarrow> ze_result_t + ('a \<times> 'b) option" where
  "both P x y = (case x of Inl e \<Rightarrow> Inl e
     | Inr a \<Rightarrow> if P a then (case y of Inl e \<Rightarrow> Inl e | Inr b \<Rightarrow> Inr (Some (a, b))) else Inr None)"

lemma both_simps [simp]:
  "both P (Inl e) y = Inl e"
  "both P (Inr a) y = (if P a then (case y of Inl e \<Rightarrow> Inl e | Inr b \<Rightarrow> Inr (Some (a, b))) else Inr None)"
  by (simp_all add: both_def)

text \<open>The values that are there.\<close>

definition present :: "'a option list \<Rightarrow> 'a list" where
  "present xs = map the (filter (\<lambda>x. x \<noteq> None) xs)"

lemma present_simps [simp]:
  "present [] = []" "present (None # xs) = present xs" "present (Some x # xs) = x # present xs"
  by (simp_all add: present_def)

lemma map_handles: "map (\<lambda>i. f (xs ! i)) [0..<length xs] = map f xs"
  by (rule nth_equalityI) simp_all

lemma list_ex_handles: "list_ex (\<lambda>i. P (xs ! i)) [0..<length xs] = list_ex P xs"
  unfolding list_ex_iff Bex_def in_set_conv_nth set_upt atLeastLessThan_iff by blast

lemma list_ex_map_id: "list_ex P xs = list_ex id (map P xs)"
  by (simp add: list_ex_iff)

lemma map_add_rev: "m ++ map_of (rev es @ [e]) = m(fst e \<mapsto> snd e) ++ map_of (rev es)"
  by (cases e) (simp add: map_add_def fun_eq_iff split: option.splits)

lemma oks_map_Inr [simp]: "oks (map Inr vs) = vs"
  by (induction vs) simp_all

lemma err_map_Inr [simp]: "err (map Inr vs) = ZE_RESULT_SUCCESS"
  by (induction vs) simp_all

lemma goods_map_Inr [simp]: "goods (map Inr vs) = vs"
  by (induction vs) simp_all

lemma oks_goods: "list_all (\<lambda>r. \<not> isl r) rs \<Longrightarrow> oks rs = goods rs"
  by (induction rs rule: goods.induct) auto

section \<open>What the driver promises\<close>

locale zes_objects =
  fixes ok :: "'w \<Rightarrow> bool"
    and enum :: "('w, 'v) zes_list"
    and objects :: "'w \<Rightarrow> u64 \<Rightarrow> ze_result_t + 'v list"
  assumes counts: "ok w \<Longrightarrow> enum w d (Some n) None = Done (case objects w d of Inl e \<Rightarrow> (e, (Some n, None), w)
      | Inr hs \<Rightarrow> (ZE_RESULT_SUCCESS, (Some (word_of_nat (length hs)), None), w))"
    and fills: "ok w \<Longrightarrow> objects w d = Inr hs \<Longrightarrow> unat n = length hs \<Longrightarrow> length b = length hs \<Longrightarrow>
      enum w d (Some n) (Some b) = Done (ZE_RESULT_SUCCESS, (Some n, Some hs), w)"
    and refused: "ok w \<Longrightarrow> objects w d = Inl e \<Longrightarrow> e \<noteq> ZE_RESULT_SUCCESS"
    and few: "ok w \<Longrightarrow> objects w d = Inr hs \<Longrightarrow> length hs < 2 ^ 32"
begin

lemma length_word: "ok w \<Longrightarrow> objects w d = Inr hs \<Longrightarrow> unat (word_of_nat (length hs) :: u32) = length hs"
  using few [of w d hs] by (simp add: unsigned_of_nat take_bit_nat_eq_self)

lemma no_objects: "ok w \<Longrightarrow> objects w d = Inr hs \<Longrightarrow> word_of_nat (length hs) = (0 :: u32) \<longleftrightarrow> hs = []"
  using length_word [of w d hs] unsigned_eq_0_iff [of "word_of_nat (length hs) :: u32", where ?'a = nat] by auto

lemma count_ok: "ok w \<Longrightarrow> zes_count enum w d n = Done (case objects w d of Inl e \<Rightarrow> (e, n, w)
    | Inr hs \<Rightarrow> (ZE_RESULT_SUCCESS, word_of_nat (length hs), w))"
  by (simp add: zes_count_def counts split: sum.splits)

lemma handles_ok:
  "ok w \<Longrightarrow> objects w d = Inr hs \<Longrightarrow> length b = length hs \<Longrightarrow>
   zes_handles enum w d (word_of_nat (length hs)) b = Done (ZE_RESULT_SUCCESS, word_of_nat (length hs), hs, w)"
  by (simp add: zes_handles_def fills length_word)

end

locale zes_getter =
  fixes ok :: "'w \<Rightarrow> bool"
    and get :: "('w, 'v) zes_get"
    and good :: "'v \<Rightarrow> bool"
    and merge :: "'v \<Rightarrow> 'v \<Rightarrow> 'v"
    and val :: "'w \<Rightarrow> u64 \<Rightarrow> ze_result_t + 'v"
  assumes reads: "ok w \<Longrightarrow> good old \<Longrightarrow> get w h (Some old) = Done (case val w h of Inl e \<Rightarrow> (e, Some old, w)
      | Inr v \<Rightarrow> (ZE_RESULT_SUCCESS, Some (merge old v), w))"
    and fails: "ok w \<Longrightarrow> val w h = Inl e \<Longrightarrow> e \<noteq> ZE_RESULT_SUCCESS"
    and good_merge: "good old \<Longrightarrow> good (merge old v)"
begin

lemma query_ok:
  "ok w \<Longrightarrow> good old \<Longrightarrow> zes_query get w h old = Done (case val w h of Inl e \<Rightarrow> (e, old, w)
     | Inr v \<Rightarrow> (ZE_RESULT_SUCCESS, merge old v, w))"
  by (simp add: zes_query_def reads split: sum.splits)

end

end
