(* ===== verification/Hal_Engine.thy ===== *)
theory Hal_Engine
  imports Hal_Base
begin

text \<open>
  Engine groups (\<^verbatim>\<open>hal/core/enginegroup.cpp\<close>): the handles of a device, and the queries over all groups of a type.
  The contents a local structure has before the driver writes it, and those of freshly allocated memory, are
  arguments.
\<close>

record 'w engine_api =
  zesDeviceEnumEngineGroups_l0 :: "'w zes_enum"
  zesEngineGetProperties_l0 :: "('w, zes_engine_properties_t) zes_get"
  zesEngineGetActivity_l0 :: "('w, zes_engine_stats_t) zes_get"
  zesEngineGetActivityExt_l0 :: "'w \<Rightarrow> u64 \<Rightarrow> u32 option \<Rightarrow> zes_engine_stats_t list option \<Rightarrow>
    ('w, u32 option \<times> zes_engine_stats_t list option) zes_call"

record enginegroup =
  engineGroupCount :: u32
  engineGroups :: "u64 list option"

definition enginegroup_constructor :: enginegroup where
  "enginegroup_constructor = \<lparr>engineGroupCount = 0, engineGroups = None\<rparr>"

definition enginegroup_destructor :: "enginegroup \<Rightarrow> enginegroup" where
  "enginegroup_destructor E = E\<lparr>engineGroups := None\<rparr>"

definition enumGroups ::
  "'w engine_api \<Rightarrow> (nat \<Rightarrow> u64) \<Rightarrow> 'w \<Rightarrow> u64 \<Rightarrow> enginegroup \<Rightarrow> (ze_result_t \<times> enginegroup \<times> 'w) outcome" where
  "enumGroups A fresh w device E =
     obind (zes_count (zesDeviceEnumEngineGroups_l0 A) w device (engineGroupCount E)) (\<lambda>(result, n, w).
       if result \<noteq> ZE_RESULT_SUCCESS then Done (result, E\<lparr>engineGroupCount := n\<rparr>, w)
       else obind (zes_handles (zesDeviceEnumEngineGroups_l0 A) w device n (map fresh [0..<unat n])) (\<lambda>(result, n, hs, w).
         Done (result, E\<lparr>engineGroupCount := n, engineGroups := Some hs\<rparr>, w)))"

definition enginegroup_getProperties ::
  "'w engine_api \<Rightarrow> 'w \<Rightarrow> u64 \<Rightarrow> zes_engine_properties_t \<Rightarrow> (ze_result_t \<times> zes_engine_properties_t \<times> 'w) outcome" where
  "enginegroup_getProperties A w h p = zes_query (zesEngineGetProperties_l0 A) w h p"

definition zero_engine_stats :: zes_engine_stats_t where
  "zero_engine_stats = \<lparr>engine_stats_activeTime = 0, engine_stats_timestamp = 0\<rparr>"

definition getActivity :: "'w engine_api \<Rightarrow> 'w \<Rightarrow> u64 \<Rightarrow> (ze_result_t \<times> zes_engine_stats_t \<times> 'w) outcome" where
  "getActivity A w h = zes_query (zesEngineGetActivity_l0 A) w h zero_engine_stats"

text \<open>The count pointer it passes is null.\<close>

definition getActivityExt :: "'w engine_api \<Rightarrow> 'w \<Rightarrow> u64 \<Rightarrow> (ze_result_t \<times> 'w) outcome" where
  "getActivityExt A w h =
     obind (zesEngineGetActivityExt_l0 A w h None (Some [zero_engine_stats])) (\<lambda>(result, _, w). Done (result, w))"

primrec engine_count_loop ::
  "'w engine_api \<Rightarrow> u32 \<Rightarrow> enginegroup \<Rightarrow> nat list \<Rightarrow> zes_engine_properties_t \<Rightarrow> u32 \<Rightarrow> 'w \<Rightarrow> (ze_result_t \<times> u32 \<times> 'w) outcome" where
  "engine_count_loop A ty E [] p n w = Done (ZE_RESULT_SUCCESS, n, w)"
| "engine_count_loop A ty E (i # is) p n w =
     obind (handle_at (engineGroups E) i) (\<lambda>h.
     obind (enginegroup_getProperties A w h p) (\<lambda>(result, p, w).
       if result \<noteq> ZE_RESULT_SUCCESS then Done (result, n, w)
       else engine_count_loop A ty E is p (if engine_properties_type p = ty then n + 1 else n) w))"

definition getEngineCountByType ::
  "'w engine_api \<Rightarrow> zes_engine_properties_t \<Rightarrow> 'w \<Rightarrow> u32 option \<Rightarrow> u32 \<Rightarrow> enginegroup \<Rightarrow> (ze_result_t \<times> u32 option \<times> 'w) outcome" where
  "getEngineCountByType A local w count ty E = (case count of
       None \<Rightarrow> Done (ZE_RESULT_ERROR_INVALID_NULL_POINTER, None, w)
     | Some _ \<Rightarrow> obind (engine_count_loop A ty E [0..<unat (engineGroupCount E)] local 0 w) (\<lambda>(result, n, w).
         Done (result, Some n, w)))"

primrec utilization_loop ::
  "'w engine_api \<Rightarrow> u32 list \<Rightarrow> enginegroup \<Rightarrow> nat list \<Rightarrow> zes_engine_properties_t \<Rightarrow> 'w \<Rightarrow> (ze_result_t \<times> (u64 \<times> u64) \<times> 'w) outcome" where
  "utilization_loop A types E [] p w = Done (ZE_RESULT_ERROR_UNSUPPORTED_FEATURE, (0, 0), w)"
| "utilization_loop A types E (i # is) p w =
     obind (handle_at (engineGroups E) i) (\<lambda>h.
     obind (enginegroup_getProperties A w h p) (\<lambda>(result, p, w).
       if result \<noteq> ZE_RESULT_SUCCESS then Done (result, (0, 0), w)
       else if engine_properties_type p \<in> set types then
         obind (getActivity A w h) (\<lambda>(result, s, w).
           if result \<noteq> ZE_RESULT_SUCCESS then Done (result, (0, 0), w)
           else Done (ZE_RESULT_SUCCESS, (engine_stats_activeTime s, engine_stats_timestamp s), w))
       else utilization_loop A types E is p w))"

definition getUtilization ::
  "'w engine_api \<Rightarrow> zes_engine_properties_t \<Rightarrow> 'w \<Rightarrow> u32 list \<Rightarrow> enginegroup \<Rightarrow> (ze_result_t \<times> (u64 \<times> u64) \<times> 'w) outcome" where
  "getUtilization A local w typeTable E = utilization_loop A typeTable E [0..<unat (engineGroupCount E)] local w"

text \<open>\<open>matchIndex\<close> counts the groups of the type passed over.\<close>

primrec activity_loop ::
  "'w engine_api \<Rightarrow> u32 \<Rightarrow> u32 \<Rightarrow> enginegroup \<Rightarrow> nat list \<Rightarrow> zes_engine_properties_t \<Rightarrow> u32 \<Rightarrow> u64 \<times> u64 \<Rightarrow> 'w \<Rightarrow>
   (ze_result_t \<times> (u64 \<times> u64) \<times> 'w) outcome" where
  "activity_loop A ty engineIndex E [] p matchIndex out w = Done (ZE_RESULT_ERROR_INVALID_ARGUMENT, out, w)"
| "activity_loop A ty engineIndex E (i # is) p matchIndex out w =
     obind (handle_at (engineGroups E) i) (\<lambda>h.
     obind (enginegroup_getProperties A w h p) (\<lambda>(result, p, w).
       if result \<noteq> ZE_RESULT_SUCCESS then Done (result, out, w)
       else if engine_properties_type p = ty then
         if matchIndex = engineIndex then
           obind (getActivity A w h) (\<lambda>(result, s, w).
             if result \<noteq> ZE_RESULT_SUCCESS then Done (result, out, w)
             else Done (ZE_RESULT_SUCCESS, (engine_stats_activeTime s, engine_stats_timestamp s), w))
         else activity_loop A ty engineIndex E is p (matchIndex + 1) out w
       else activity_loop A ty engineIndex E is p matchIndex out w))"

definition getEngineActivityByType ::
  "'w engine_api \<Rightarrow> zes_engine_properties_t \<Rightarrow> 'w \<Rightarrow> u32 \<Rightarrow> u32 \<Rightarrow> u64 option \<Rightarrow> u64 option \<Rightarrow> enginegroup \<Rightarrow>
   (ze_result_t \<times> (u64 option \<times> u64 option) \<times> 'w) outcome" where
  "getEngineActivityByType A local w ty engineIndex activeTime timestamp E =
     (case (activeTime, timestamp) of
        (Some a, Some t) \<Rightarrow>
          obind (activity_loop A ty engineIndex E [0..<unat (engineGroupCount E)] local 0 (a, t) w) (\<lambda>(result, (a, t), w).
            Done (result, (Some a, Some t), w))
      | _ \<Rightarrow> Done (ZE_RESULT_ERROR_INVALID_NULL_POINTER, (activeTime, timestamp), w))"

primrec tile_activity_loop ::
  "'w engine_api \<Rightarrow> u32 \<Rightarrow> enginegroup \<Rightarrow> nat list \<Rightarrow> zes_engine_properties_t \<Rightarrow> (u32 \<rightharpoonup> u64 \<times> u64) \<Rightarrow> 'w \<Rightarrow>
   (ze_result_t \<times> (u32 \<rightharpoonup> u64 \<times> u64) \<times> 'w) outcome" where
  "tile_activity_loop A ty E [] p tiles w = Done (ZE_RESULT_SUCCESS, tiles, w)"
| "tile_activity_loop A ty E (i # is) p tiles w =
     obind (handle_at (engineGroups E) i) (\<lambda>h.
     obind (enginegroup_getProperties A w h p) (\<lambda>(result, p, w).
       if result \<noteq> ZE_RESULT_SUCCESS then Done (result, tiles, w)
       else if engine_properties_type p = ty then
         obind (getActivity A w h) (\<lambda>(result, s, w).
           if result \<noteq> ZE_RESULT_SUCCESS then Done (result, tiles, w)
           else tile_activity_loop A ty E is p
             (tiles(engine_properties_subdeviceId p \<mapsto> (engine_stats_activeTime s, engine_stats_timestamp s))) w)
       else tile_activity_loop A ty E is p tiles w))"

definition getEngineActivityPerTile ::
  "'w engine_api \<Rightarrow> zes_engine_properties_t \<Rightarrow> 'w \<Rightarrow> u32 \<Rightarrow> enginegroup \<Rightarrow> (ze_result_t \<times> (u32 \<rightharpoonup> u64 \<times> u64) \<times> 'w) outcome" where
  "getEngineActivityPerTile A local w ty E = tile_activity_loop A ty E [0..<unat (engineGroupCount E)] local Map.empty w"

definition enginegroup_init ::
  "'w engine_api \<Rightarrow> (nat \<Rightarrow> u64) \<Rightarrow> 'w \<Rightarrow> u64 \<Rightarrow> enginegroup \<Rightarrow> (ze_result_t \<times> enginegroup \<times> 'w) outcome" where
  "enginegroup_init A fresh w device E = enumGroups A fresh w device E"

primrec engine_run_loop ::
  "'w engine_api \<Rightarrow> enginegroup \<Rightarrow> nat list \<Rightarrow> zes_engine_properties_t \<Rightarrow> 'w \<Rightarrow> (ze_result_t \<times> 'w) outcome" where
  "engine_run_loop A E [] p w = Done (ZE_RESULT_SUCCESS, w)"
| "engine_run_loop A E (i # is) p w =
     obind (handle_at (engineGroups E) i) (\<lambda>h.
     obind (enginegroup_getProperties A w h p) (\<lambda>(_, p, w).
     obind (getActivity A w h) (\<lambda>(_, _, w).
     obind (getActivityExt A w h) (\<lambda>(_, w). engine_run_loop A E is p w))))"

definition enginegroup_zesRun ::
  "'w engine_api \<Rightarrow> zes_engine_properties_t \<Rightarrow> 'w \<Rightarrow> enginegroup \<Rightarrow> (ze_result_t \<times> 'w) outcome" where
  "enginegroup_zesRun A local w E = engine_run_loop A E [0..<unat (engineGroupCount E)] local w"

section \<open>On a driver that keeps its promises\<close>

text \<open>
  \<open>groups\<close>, \<open>props\<close> and \<open>stats\<close> say what the driver has: the groups of a device, the properties and the activity of
  a group; \<open>good\<close> is what the driver asks of the structure it fills.
\<close>

locale engine_driver =
  objs: zes_objects ok "zesDeviceEnumEngineGroups_l0 A" groups +
  props: zes_getter ok "zesEngineGetProperties_l0 A" good merge props +
  stats: zes_getter ok "zesEngineGetActivity_l0 A" "\<lambda>_. True" "\<lambda>_ v. v" stats
  for ok :: "'w \<Rightarrow> bool" and A :: "'w engine_api" and groups good merge props stats +
  assumes merged: "engine_properties_type (merge old v) = engine_properties_type v"
    "engine_properties_subdeviceId (merge old v) = engine_properties_subdeviceId v"
begin

lemma enumerated:
  "ok w \<Longrightarrow> groups w d = Inr hs \<Longrightarrow>
   enginegroup_init A fresh w d E = Done (ZE_RESULT_SUCCESS, \<lparr>engineGroupCount = word_of_nat (length hs), engineGroups = Some hs\<rparr>, w)"
  by (simp add: enginegroup_init_def enumGroups_def objs.count_ok objs.handles_ok objs.length_word)

lemma enumerated_holds:
  "ok w \<Longrightarrow> groups w d = Inr hs \<Longrightarrow> holds (Some hs) (word_of_nat (length hs) :: u32) hs"
  by (simp add: holds_Some objs.length_word)

lemma props_query:
  "ok w \<Longrightarrow> good p \<Longrightarrow> enginegroup_getProperties A w h p = Done (case props w h of Inl e \<Rightarrow> (e, p, w)
     | Inr v \<Rightarrow> (ZE_RESULT_SUCCESS, merge p v, w))"
  by (simp add: enginegroup_getProperties_def props.query_ok)

lemma stats_query:
  "ok w \<Longrightarrow> getActivity A w h = Done (case stats w h of Inl e \<Rightarrow> (e, zero_engine_stats, w) | Inr s \<Rightarrow> (ZE_RESULT_SUCCESS, s, w))"
  by (simp add: getActivity_def stats.query_ok)

lemma count_loop:
  assumes "ok w" "\<forall>i\<in>set is. handle_at (engineGroups E) i = Done (hs ! i)" "good p"
  shows "engine_count_loop A ty E is p n w =
    (let rs = map (\<lambda>i. props w (hs ! i)) is in
     Done (err rs, n + word_of_nat (length (filter (\<lambda>v. engine_properties_type v = ty) (oks rs))), w))"
  using assms(2,3)
  by (induction "is" arbitrary: p n)
    (auto simp: props_query assms(1) merged props.good_merge props.fails [OF assms(1)] Let_def split: sum.splits)

lemma count_by_type:
  assumes "ok w" "holds (engineGroups E) (engineGroupCount E) hs" "good p"
  shows "getEngineCountByType A p w (Some c) ty E = (let rs = map (props w) hs in
    Done (err rs, Some (word_of_nat (length (filter (\<lambda>v. engine_properties_type v = ty) (oks rs)))), w))"
  using assms count_loop [of w "[0..<length hs]" E hs p ty 0]
  by (simp add: getEngineCountByType_def holds_def map_handles Let_def)

text \<open>The properties and, when \<open>P\<close> holds of them, the activity of a group.\<close>

definition reading :: "(zes_engine_properties_t \<Rightarrow> bool) \<Rightarrow> 'w \<Rightarrow> u64 \<Rightarrow> ze_result_t + (zes_engine_properties_t \<times> zes_engine_stats_t) option" where
  "reading P w h = both P (props w h) (stats w h)"

lemma utilization_loop:
  assumes "ok w" "\<forall>i\<in>set is. handle_at (engineGroups E) i = Done (hs ! i)" "good p"
  shows "utilization_loop A types E is p w =
    (let rs = map (\<lambda>i. reading (\<lambda>v. engine_properties_type v \<in> set types) w (hs ! i)) is in
     Done (case filter (\<lambda>r. r \<noteq> Inr None) rs of [] \<Rightarrow> (ZE_RESULT_ERROR_UNSUPPORTED_FEATURE, (0, 0), w)
       | Inl e # _ \<Rightarrow> (e, (0, 0), w)
       | Inr x # _ \<Rightarrow> (ZE_RESULT_SUCCESS, (let s = snd (the x) in (engine_stats_activeTime s, engine_stats_timestamp s)), w)))"
  using assms(2,3)
  by (induction "is" arbitrary: p)
    (auto simp: props_query stats_query assms(1) merged props.good_merge props.fails [OF assms(1)] stats.fails [OF assms(1)]
      reading_def Let_def split: sum.splits)

lemma utilization:
  assumes "ok w" "holds (engineGroups E) (engineGroupCount E) hs" "good p"
  shows "getUtilization A p w types E =
    (let rs = map (reading (\<lambda>v. engine_properties_type v \<in> set types) w) hs in
     Done (case filter (\<lambda>r. r \<noteq> Inr None) rs of [] \<Rightarrow> (ZE_RESULT_ERROR_UNSUPPORTED_FEATURE, (0, 0), w)
       | Inl e # _ \<Rightarrow> (e, (0, 0), w)
       | Inr x # _ \<Rightarrow> (ZE_RESULT_SUCCESS, (let s = snd (the x) in (engine_stats_activeTime s, engine_stats_timestamp s)), w)))"
  using assms utilization_loop [of w "[0..<length hs]" E hs p types]
  by (simp add: getUtilization_def holds_def map_handles Let_def)

text \<open>What the groups of a type add to the table: the last one of a tile stays.\<close>

definition tile_entries :: "(zes_engine_properties_t \<times> zes_engine_stats_t) option list \<Rightarrow> (u32 \<times> u64 \<times> u64) list" where
  "tile_entries xs = [(engine_properties_subdeviceId v, engine_stats_activeTime s, engine_stats_timestamp s). Some (v, s) \<leftarrow> xs]"

lemma tile_loop:
  assumes "ok w" "\<forall>i\<in>set is. handle_at (engineGroups E) i = Done (hs ! i)" "good p"
  shows "tile_activity_loop A ty E is p tiles w =
    (let rs = map (\<lambda>i. reading (\<lambda>v. engine_properties_type v = ty) w (hs ! i)) is in
     Done (err rs, tiles ++ map_of (rev (tile_entries (oks rs))), w))"
  using assms(2,3)
  by (induction "is" arbitrary: p tiles)
    (auto simp: props_query stats_query assms(1) merged props.good_merge props.fails [OF assms(1)] stats.fails [OF assms(1)]
      reading_def Let_def tile_entries_def map_add_def split: sum.splits option.splits)

lemma activity_per_tile:
  assumes "ok w" "holds (engineGroups E) (engineGroupCount E) hs" "good p"
  shows "getEngineActivityPerTile A p w ty E = (let rs = map (reading (\<lambda>v. engine_properties_type v = ty) w) hs in
    Done (err rs, map_of (rev (tile_entries (oks rs))), w))"
  using assms tile_loop [of w "[0..<length hs]" E hs p ty Map.empty]
  by (simp add: getEngineActivityPerTile_def holds_def map_handles Let_def)

end

end
