(* ===== verification/Hal_Memory.thy ===== *)
theory Hal_Memory
  imports Hal_Base
begin

text \<open>
  Memory modules (\<^verbatim>\<open>hal/core/memory.cpp\<close>): size, health, use and bandwidth of a device, in total and per tile.
\<close>

definition ZES_MEM_HEALTH_UNKNOWN :: u32 where "ZES_MEM_HEALTH_UNKNOWN = 0"
definition ZES_MEM_HEALTH_OK :: u32 where "ZES_MEM_HEALTH_OK = 1"
definition ZES_MEM_HEALTH_DEGRADED :: u32 where "ZES_MEM_HEALTH_DEGRADED = 2"
definition ZES_MEM_HEALTH_CRITICAL :: u32 where "ZES_MEM_HEALTH_CRITICAL = 3"
definition ZES_MEM_HEALTH_REPLACE :: u32 where "ZES_MEM_HEALTH_REPLACE = 4"
definition ZES_MEM_LOC_DEVICE :: u32 where "ZES_MEM_LOC_DEVICE = 1"

lemmas mem_codes = ZES_MEM_HEALTH_UNKNOWN_def ZES_MEM_HEALTH_OK_def ZES_MEM_HEALTH_DEGRADED_def
  ZES_MEM_HEALTH_CRITICAL_def ZES_MEM_HEALTH_REPLACE_def ZES_MEM_LOC_DEVICE_def

record 'w memory_api =
  zesDeviceEnumMemoryModules_l0 :: "'w zes_enum"
  zesMemoryGetProperties_l0 :: "('w, zes_mem_properties_t) zes_get"
  zesMemoryGetState_l0 :: "('w, zes_mem_state_t) zes_get"
  zesMemoryGetBandwidth_l0 :: "('w, zes_mem_bandwidth_t) zes_get"

record MemoryBandwidthData =
  mbd_readCounter :: u64
  mbd_writeCounter :: u64
  mbd_maxBandwidth :: u64
  mbd_timestamp :: u64

record MemoryUsageData =
  usedBytes :: u64
  utilizationPercent :: double64

record memory =
  memoryModulesCount :: u32
  memoryModules :: "u64 list option"

definition memory_constructor :: memory where
  "memory_constructor = \<lparr>memoryModulesCount = 0, memoryModules = None\<rparr>"

definition memory_destructor :: "memory \<Rightarrow> memory" where
  "memory_destructor M = M\<lparr>memoryModules := None\<rparr>"

definition enumMemoryModules ::
  "'w memory_api \<Rightarrow> (nat \<Rightarrow> u64) \<Rightarrow> 'w \<Rightarrow> u64 \<Rightarrow> memory \<Rightarrow> (ze_result_t \<times> memory \<times> 'w) outcome" where
  "enumMemoryModules A fresh w device M =
     obind (zes_count (zesDeviceEnumMemoryModules_l0 A) w device (memoryModulesCount M)) (\<lambda>(result, n, w).
       if result \<noteq> ZE_RESULT_SUCCESS \<or> n = 0 then Done (result, M\<lparr>memoryModulesCount := n\<rparr>, w)
       else obind (zes_handles (zesDeviceEnumMemoryModules_l0 A) w device n (map fresh [0..<unat n])) (\<lambda>(result, n, hs, w).
         Done (result, M\<lparr>memoryModulesCount := n, memoryModules := Some hs\<rparr>, w)))"

definition memory_getProperties ::
  "'w memory_api \<Rightarrow> 'w \<Rightarrow> u64 \<Rightarrow> zes_mem_properties_t \<Rightarrow> (ze_result_t \<times> zes_mem_properties_t \<times> 'w) outcome" where
  "memory_getProperties A w h p = zes_query (zesMemoryGetProperties_l0 A) w h p"

definition memory_getState ::
  "'w memory_api \<Rightarrow> 'w \<Rightarrow> u64 \<Rightarrow> zes_mem_state_t \<Rightarrow> (ze_result_t \<times> zes_mem_state_t \<times> 'w) outcome" where
  "memory_getState A w h s = zes_query (zesMemoryGetState_l0 A) w h s"

definition getBandwidth ::
  "'w memory_api \<Rightarrow> 'w \<Rightarrow> u64 \<Rightarrow> zes_mem_bandwidth_t \<Rightarrow> (ze_result_t \<times> zes_mem_bandwidth_t \<times> 'w) outcome" where
  "getBandwidth A w h b = zes_query (zesMemoryGetBandwidth_l0 A) w h b"

definition zero_mem_properties :: zes_mem_properties_t where
  "zero_mem_properties = \<lparr>stype = 0, pNext = 0, mem_properties_type = 0, mem_properties_onSubdevice = 0,
     mem_properties_subdeviceId = 0, mem_properties_location = 0, mem_properties_physicalSize = 0,
     mem_properties_busWidth = 0, mem_properties_numChannels = 0\<rparr>"

definition zero_mem_state :: zes_mem_state_t where
  "zero_mem_state = \<lparr>stype = 0, pNext = 0, mem_state_health = 0, mem_state_free = 0, mem_state_size = 0\<rparr>"

definition zero_mem_bandwidth :: zes_mem_bandwidth_t where
  "zero_mem_bandwidth = \<lparr>mem_bandwidth_readCounter = 0, mem_bandwidth_writeCounter = 0, mem_bandwidth_maxBandwidth = 0,
     mem_bandwidth_timestamp = 0\<rparr>"

section \<open>Totals\<close>

primrec memory_size_loop ::
  "'w memory_api \<Rightarrow> memory \<Rightarrow> nat list \<Rightarrow> zes_mem_state_t \<Rightarrow> u64 \<Rightarrow> 'w \<Rightarrow> (ze_result_t \<times> u64 \<times> 'w) outcome" where
  "memory_size_loop A M [] s acc w = Done (ZE_RESULT_SUCCESS, acc, w)"
| "memory_size_loop A M (i # is) s acc w =
     obind (handle_at (memoryModules M) i) (\<lambda>h.
     obind (memory_getState A w h s) (\<lambda>(result, s, w).
       if result \<noteq> ZE_RESULT_SUCCESS then Done (result, acc, w)
       else memory_size_loop A M is s (acc + mem_state_size s) w))"

definition getMemorySize ::
  "'w memory_api \<Rightarrow> zes_mem_state_t \<Rightarrow> 'w \<Rightarrow> u64 option \<Rightarrow> memory \<Rightarrow> (ze_result_t \<times> u64 option \<times> 'w) outcome" where
  "getMemorySize A local w psize M = (case psize of
       None \<Rightarrow> Done (ZE_RESULT_ERROR_INVALID_NULL_POINTER, None, w)
     | Some _ \<Rightarrow> obind (memory_size_loop A M [0..<unat (memoryModulesCount M)] local 0 w) (\<lambda>(result, total, w).
         Done (result, Some total, w)))"

primrec memory_health_loop ::
  "'w memory_api \<Rightarrow> memory \<Rightarrow> nat list \<Rightarrow> zes_mem_state_t \<Rightarrow> u32 \<Rightarrow> 'w \<Rightarrow> (ze_result_t \<times> u32 \<times> 'w) outcome" where
  "memory_health_loop A M [] s health w = Done (ZE_RESULT_SUCCESS, health, w)"
| "memory_health_loop A M (i # is) s health w =
     obind (handle_at (memoryModules M) i) (\<lambda>h.
     obind (memory_getState A w h s) (\<lambda>(result, s, w).
       if result \<noteq> ZE_RESULT_SUCCESS then Done (result, health, w)
       else if mem_state_health s = ZES_MEM_HEALTH_CRITICAL \<or> mem_state_health s = ZES_MEM_HEALTH_REPLACE
         then Done (result, mem_state_health s, w)
       else if mem_state_health s = ZES_MEM_HEALTH_DEGRADED then Done (result, ZES_MEM_HEALTH_DEGRADED, w)
       else if mem_state_health s = ZES_MEM_HEALTH_OK then memory_health_loop A M is s ZES_MEM_HEALTH_OK w
       else Done (result, ZES_MEM_HEALTH_UNKNOWN, w)))"

definition getMemoryHealth ::
  "'w memory_api \<Rightarrow> zes_mem_state_t \<Rightarrow> 'w \<Rightarrow> u32 option \<Rightarrow> memory \<Rightarrow> (ze_result_t \<times> u32 option \<times> 'w) outcome" where
  "getMemoryHealth A local w health M = (case health of
       None \<Rightarrow> Done (ZE_RESULT_ERROR_INVALID_NULL_POINTER, None, w)
     | Some _ \<Rightarrow> obind (memory_health_loop A M [0..<unat (memoryModulesCount M)] local ZES_MEM_HEALTH_UNKNOWN w)
         (\<lambda>(result, health, w). Done (result, Some health, w)))"

text \<open>The channels and the bus width are those of the last module.\<close>

primrec memory_last_loop ::
  "'w memory_api \<Rightarrow> (zes_mem_properties_t \<Rightarrow> u32) \<Rightarrow> memory \<Rightarrow> nat list \<Rightarrow> zes_mem_properties_t \<Rightarrow> u32 \<Rightarrow> 'w \<Rightarrow>
   (ze_result_t \<times> u32 \<times> 'w) outcome" where
  "memory_last_loop A field M [] p v w = Done (ZE_RESULT_SUCCESS, v, w)"
| "memory_last_loop A field M (i # is) p v w =
     obind (handle_at (memoryModules M) i) (\<lambda>h.
     obind (memory_getProperties A w h p) (\<lambda>(result, p, w).
       if result \<noteq> ZE_RESULT_SUCCESS then Done (result, v, w)
       else memory_last_loop A field M is p (field p) w))"

definition getMemoryChannels ::
  "'w memory_api \<Rightarrow> zes_mem_properties_t \<Rightarrow> 'w \<Rightarrow> u32 option \<Rightarrow> memory \<Rightarrow> (ze_result_t \<times> u32 option \<times> 'w) outcome" where
  "getMemoryChannels A local w channels M = (case channels of
       None \<Rightarrow> Done (ZE_RESULT_ERROR_INVALID_NULL_POINTER, None, w)
     | Some _ \<Rightarrow> obind (memory_last_loop A mem_properties_numChannels M [0..<unat (memoryModulesCount M)] local 0 w)
         (\<lambda>(result, n, w). Done (result, Some n, w)))"

definition getMemoryBusWidth ::
  "'w memory_api \<Rightarrow> zes_mem_properties_t \<Rightarrow> 'w \<Rightarrow> u32 option \<Rightarrow> memory \<Rightarrow> (ze_result_t \<times> u32 option \<times> 'w) outcome" where
  "getMemoryBusWidth A local w busWidth M = (case busWidth of
       None \<Rightarrow> Done (ZE_RESULT_ERROR_INVALID_NULL_POINTER, None, w)
     | Some _ \<Rightarrow> obind (memory_last_loop A mem_properties_busWidth M [0..<unat (memoryModulesCount M)] local 0 w)
         (\<lambda>(result, n, w). Done (result, Some n, w)))"

definition moduleTotal :: "zes_mem_properties_t \<Rightarrow> zes_mem_state_t \<Rightarrow> u64" where
  "moduleTotal p s = (if mem_properties_physicalSize p = 0 then mem_state_size s else mem_properties_physicalSize p)"

definition moduleUsed :: "zes_mem_properties_t \<Rightarrow> zes_mem_state_t \<Rightarrow> u64" where
  "moduleUsed p s = (if mem_state_free s \<le> moduleTotal p s then moduleTotal p s - mem_state_free s else 0)"

primrec memory_used_loop ::
  "'w memory_api \<Rightarrow> memory \<Rightarrow> nat list \<Rightarrow> u64 \<Rightarrow> u64 \<Rightarrow> 'w \<Rightarrow> (ze_result_t \<times> (u64 \<times> u64) \<times> 'w) outcome" where
  "memory_used_loop A M [] used acc w = Done (ZE_RESULT_SUCCESS, (used, acc), w)"
| "memory_used_loop A M (i # is) used acc w =
     obind (handle_at (memoryModules M) i) (\<lambda>h.
     obind (memory_getProperties A w h zero_mem_properties) (\<lambda>(result, p, w).
       if result \<noteq> ZE_RESULT_SUCCESS then Done (result, (used, acc), w)
       else obind (memory_getState A w h zero_mem_state) (\<lambda>(result, s, w).
         if result \<noteq> ZE_RESULT_SUCCESS then Done (result, (used, acc), w)
         else memory_used_loop A M is (used + moduleUsed p s) (acc + moduleTotal p s) w)))"

text \<open>On an error both outputs keep the zero they start with.\<close>

definition double_100 :: double64 where "double_100 = 0x4059000000000000"

definition getMemoryUsed ::
  "'w memory_api \<Rightarrow> fp64 \<Rightarrow> 'w \<Rightarrow> u64 option \<Rightarrow> double64 option \<Rightarrow> memory \<Rightarrow>
   (ze_result_t \<times> (u64 option \<times> double64 option) \<times> 'w) outcome" where
  "getMemoryUsed A F w used utilization M =
     (let used0 = map_option (\<lambda>_. 0) used; utilization0 = map_option (\<lambda>_. 0) utilization in
      obind (memory_used_loop A M [0..<unat (memoryModulesCount M)] 0 0 w) (\<lambda>(result, (u, t), w).
        if result \<noteq> ZE_RESULT_SUCCESS then Done (result, (used0, utilization0), w)
        else Done (result, (map_option (\<lambda>_. u) used0,
          if 0 < t then map_option (\<lambda>_. fp_divide F (fp_mult F (fp_of_u64 F u) double_100) (fp_of_u64 F t)) utilization0
          else utilization0), w)))"

text \<open>The four outputs of \<open>getMemoryRW\<close>; each may be missing.\<close>

primrec memory_rw_loop ::
  "'w memory_api \<Rightarrow> memory \<Rightarrow> nat list \<Rightarrow> zes_mem_bandwidth_t \<Rightarrow> u64 option \<times> u64 option \<times> u64 option \<times> u64 option \<Rightarrow> 'w \<Rightarrow>
   (ze_result_t \<times> (u64 option \<times> u64 option \<times> u64 option \<times> u64 option) \<times> 'w) outcome" where
  "memory_rw_loop A M [] b out w = Done (ZE_RESULT_SUCCESS, out, w)"
| "memory_rw_loop A M (i # is) b out w =
     obind (handle_at (memoryModules M) i) (\<lambda>h.
     obind (getBandwidth A w h b) (\<lambda>(result, b, w).
       if result \<noteq> ZE_RESULT_SUCCESS then Done (result, out, w)
       else (case out of (rd, wr, mx, ts) \<Rightarrow>
         memory_rw_loop A M is b
           (map_option (\<lambda>v. v + mem_bandwidth_readCounter b) rd, map_option (\<lambda>v. v + mem_bandwidth_writeCounter b) wr,
            map_option (\<lambda>_. mem_bandwidth_maxBandwidth b) mx, map_option (\<lambda>_. mem_bandwidth_timestamp b) ts) w)))"

definition getMemoryRW ::
  "'w memory_api \<Rightarrow> zes_mem_bandwidth_t \<Rightarrow> 'w \<Rightarrow> u64 option \<Rightarrow> u64 option \<Rightarrow> u64 option \<Rightarrow> u64 option \<Rightarrow> memory \<Rightarrow>
   (ze_result_t \<times> (u64 option \<times> u64 option \<times> u64 option \<times> u64 option) \<times> 'w) outcome" where
  "getMemoryRW A local w rd wr mx ts M =
     memory_rw_loop A M [0..<unat (memoryModulesCount M)] local
       (map_option (\<lambda>_. 0) rd, map_option (\<lambda>_. 0) wr, map_option (\<lambda>_. 0) mx, map_option (\<lambda>_. 0) ts) w"

section \<open>Tiles\<close>

definition module_tile :: "zes_mem_properties_t \<Rightarrow> u32" where
  "module_tile p = (if mem_properties_onSubdevice p \<noteq> 0 then mem_properties_subdeviceId p else 0)"

text \<open>The first module of a tile adds an entry of zeros; every module adds its counters.\<close>

definition add_bandwidth :: "u32 \<Rightarrow> zes_mem_bandwidth_t \<Rightarrow> (u32 \<rightharpoonup> MemoryBandwidthData) \<Rightarrow> (u32 \<rightharpoonup> MemoryBandwidthData)" where
  "add_bandwidth tile b m =
     (let d = (case m tile of None \<Rightarrow> \<lparr>mbd_readCounter = 0, mbd_writeCounter = 0, mbd_maxBandwidth = 0, mbd_timestamp = 0\<rparr>
               | Some d \<Rightarrow> d) in
      m(tile \<mapsto> d\<lparr>mbd_readCounter := mbd_readCounter d + mem_bandwidth_readCounter b,
        mbd_writeCounter := mbd_writeCounter d + mem_bandwidth_writeCounter b,
        mbd_maxBandwidth := mbd_maxBandwidth d + mem_bandwidth_maxBandwidth b,
        mbd_timestamp := (if mbd_timestamp d < mem_bandwidth_timestamp b then mem_bandwidth_timestamp b else mbd_timestamp d)\<rparr>))"

text \<open>The loops over tiles go on after an error; the result is that of the last call they made.\<close>

primrec tile_bandwidth_loop ::
  "'w memory_api \<Rightarrow> memory \<Rightarrow> nat list \<Rightarrow> ze_result_t \<Rightarrow> (u32 \<rightharpoonup> MemoryBandwidthData) \<Rightarrow> 'w \<Rightarrow>
   (ze_result_t \<times> (u32 \<rightharpoonup> MemoryBandwidthData) \<times> 'w) outcome" where
  "tile_bandwidth_loop A M [] result m w = Done (result, m, w)"
| "tile_bandwidth_loop A M (i # is) result m w =
     obind (handle_at (memoryModules M) i) (\<lambda>h.
     obind (memory_getProperties A w h zero_mem_properties) (\<lambda>(result, p, w).
       if result \<noteq> ZE_RESULT_SUCCESS then tile_bandwidth_loop A M is result m w
       else if mem_properties_location p \<noteq> ZES_MEM_LOC_DEVICE then tile_bandwidth_loop A M is result m w
       else obind (getBandwidth A w h zero_mem_bandwidth) (\<lambda>(result, b, w).
         if result \<noteq> ZE_RESULT_SUCCESS then tile_bandwidth_loop A M is result m w
         else tile_bandwidth_loop A M is result (add_bandwidth (module_tile p) b m) w)))"

definition getMemoryBandwidthPerTile ::
  "'w memory_api \<Rightarrow> 'w \<Rightarrow> memory \<Rightarrow> (ze_result_t \<times> (u32 \<rightharpoonup> MemoryBandwidthData) \<times> 'w) outcome" where
  "getMemoryBandwidthPerTile A w M = tile_bandwidth_loop A M [0..<unat (memoryModulesCount M)] ZE_RESULT_SUCCESS Map.empty w"

definition add_at :: "u32 \<Rightarrow> u64 \<Rightarrow> (u32 \<rightharpoonup> u64) \<Rightarrow> (u32 \<rightharpoonup> u64)" where
  "add_at tile v m = m(tile \<mapsto> (case m tile of None \<Rightarrow> 0 | Some u \<Rightarrow> u) + v)"

primrec tile_usage_loop ::
  "'w memory_api \<Rightarrow> memory \<Rightarrow> nat list \<Rightarrow> ze_result_t \<Rightarrow> (u32 \<rightharpoonup> u64) \<Rightarrow> (u32 \<rightharpoonup> u64) \<Rightarrow> 'w \<Rightarrow>
   (ze_result_t \<times> (u32 \<rightharpoonup> u64) \<times> (u32 \<rightharpoonup> u64) \<times> 'w) outcome" where
  "tile_usage_loop A M [] result tileUsed tileTotal w = Done (result, tileUsed, tileTotal, w)"
| "tile_usage_loop A M (i # is) result tileUsed tileTotal w =
     obind (handle_at (memoryModules M) i) (\<lambda>h.
     obind (memory_getProperties A w h zero_mem_properties) (\<lambda>(result, p, w).
       if result \<noteq> ZE_RESULT_SUCCESS then tile_usage_loop A M is result tileUsed tileTotal w
       else if mem_properties_location p \<noteq> ZES_MEM_LOC_DEVICE then tile_usage_loop A M is result tileUsed tileTotal w
       else obind (memory_getState A w h zero_mem_state) (\<lambda>(result, s, w).
         if result \<noteq> ZE_RESULT_SUCCESS then tile_usage_loop A M is result tileUsed tileTotal w
         else tile_usage_loop A M is result (add_at (module_tile p) (mem_state_size s - mem_state_free s) tileUsed)
           (add_at (module_tile p) (moduleTotal p s) tileTotal) w)))"

definition getMemoryUsagePerTile ::
  "'w memory_api \<Rightarrow> fp64 \<Rightarrow> 'w \<Rightarrow> memory \<Rightarrow> (ze_result_t \<times> (u32 \<rightharpoonup> MemoryUsageData) \<times> 'w) outcome" where
  "getMemoryUsagePerTile A F w M =
     obind (tile_usage_loop A M [0..<unat (memoryModulesCount M)] ZE_RESULT_SUCCESS Map.empty Map.empty w)
       (\<lambda>(result, tileUsed, tileTotal, w).
         Done (result, (\<lambda>tile. map_option (\<lambda>used. let total = (case tileTotal tile of None \<Rightarrow> 0 | Some t \<Rightarrow> t) in
           \<lparr>usedBytes = used, utilizationPercent =
              (if 0 < total then fp_mult F (fp_divide F (fp_of_u64 F used) (fp_of_u64 F total)) double_100 else 0)\<rparr>)
           (tileUsed tile)), w))"

definition memory_init ::
  "'w memory_api \<Rightarrow> (nat \<Rightarrow> u64) \<Rightarrow> 'w \<Rightarrow> u64 \<Rightarrow> memory \<Rightarrow> (ze_result_t \<times> memory \<times> 'w) outcome" where
  "memory_init A fresh w device M = enumMemoryModules A fresh w device M"

primrec memory_run_loop ::
  "'w memory_api \<Rightarrow> memory \<Rightarrow> nat list \<Rightarrow> zes_mem_properties_t \<Rightarrow> zes_mem_state_t \<Rightarrow> zes_mem_bandwidth_t \<Rightarrow> 'w \<Rightarrow>
   (ze_result_t \<times> 'w) outcome" where
  "memory_run_loop A M [] p s b w = Done (ZE_RESULT_SUCCESS, w)"
| "memory_run_loop A M (i # is) p s b w =
     obind (handle_at (memoryModules M) i) (\<lambda>h.
     obind (memory_getProperties A w h p) (\<lambda>(_, p, w).
     obind (memory_getState A w h s) (\<lambda>(_, s, w).
     obind (getBandwidth A w h b) (\<lambda>(_, b, w). memory_run_loop A M is p s b w))))"

definition memory_zesRun :: "'w memory_api \<Rightarrow> 'w \<Rightarrow> memory \<Rightarrow> (ze_result_t \<times> 'w) outcome" where
  "memory_zesRun A w M = memory_run_loop A M [0..<unat (memoryModulesCount M)] zero_mem_properties zero_mem_state zero_mem_bandwidth w"

section \<open>On a driver that keeps its promises\<close>

text \<open>The result of a loop that goes on after errors: that of the last object.\<close>

definition last_result :: "ze_result_t \<Rightarrow> (ze_result_t + 'v) list \<Rightarrow> ze_result_t" where
  "last_result r rs = (if rs = [] then r else err [last rs])"

lemma last_result_simps [simp]:
  "last_result r [] = r" "last_result r (x # rs) = last_result (err [x]) rs"
  by (simp_all add: last_result_def)

text \<open>The health reported: that of the first module that is not in order, if it is a known one.\<close>

fun health_of :: "u32 \<Rightarrow> (ze_result_t + u32) list \<Rightarrow> ze_result_t \<times> u32" where
  "health_of seen [] = (ZE_RESULT_SUCCESS, seen)"
| "health_of seen (Inl e # rs) = (e, seen)"
| "health_of seen (Inr h # rs) =
     (if h = ZES_MEM_HEALTH_OK then health_of ZES_MEM_HEALTH_OK rs
      else (ZE_RESULT_SUCCESS, if h \<in> {ZES_MEM_HEALTH_DEGRADED, ZES_MEM_HEALTH_CRITICAL, ZES_MEM_HEALTH_REPLACE} then h
        else ZES_MEM_HEALTH_UNKNOWN))"

text \<open>Amounts added up per tile.\<close>

definition tile_sum :: "(u32 \<times> u64) list \<Rightarrow> (u32 \<rightharpoonup> u64)" where
  "tile_sum es tile = (let vs = map snd (filter (\<lambda>e. fst e = tile) es) in if vs = [] then None else Some (sum_list vs))"

definition tile_plus :: "(u32 \<rightharpoonup> u64) \<Rightarrow> (u32 \<rightharpoonup> u64) \<Rightarrow> (u32 \<rightharpoonup> u64)" where
  "tile_plus m m' tile = (case m' tile of None \<Rightarrow> m tile | Some v \<Rightarrow> Some ((case m tile of None \<Rightarrow> 0 | Some u \<Rightarrow> u) + v))"

lemma tile_plus_empty [simp]: "tile_plus m Map.empty = m" "tile_plus Map.empty m = m"
  by (auto simp: tile_plus_def fun_eq_iff split: option.splits)

lemma tile_sum_Nil [simp]: "tile_sum [] = Map.empty"
  by (simp add: tile_sum_def fun_eq_iff)

lemma tile_sum_Cons: "tile_plus m (tile_sum ((t, v) # es)) = tile_plus (add_at t v m) (tile_sum es)"
  by (auto simp: tile_plus_def tile_sum_def add_at_def fun_eq_iff Let_def filter_empty_conv split: option.splits)

text \<open>What the use of modules comes to: the bytes used, and their share of all bytes in percent.\<close>

definition used_bytes :: "(zes_mem_properties_t \<times> zes_mem_state_t) list \<Rightarrow> u64" where
  "used_bytes ms = sum_list (map (\<lambda>(p, s). moduleUsed p s) ms)"

definition total_bytes :: "(zes_mem_properties_t \<times> zes_mem_state_t) list \<Rightarrow> u64" where
  "total_bytes ms = sum_list (map (\<lambda>(p, s). moduleTotal p s) ms)"

definition usage_outputs ::
  "fp64 \<Rightarrow> (zes_mem_properties_t \<times> zes_mem_state_t) list \<Rightarrow> u64 option \<Rightarrow> double64 option \<Rightarrow> u64 option \<times> double64 option" where
  "usage_outputs F ms used util =
     (map_option (\<lambda>_. used_bytes ms) used,
      map_option (\<lambda>_. if 0 < total_bytes ms
        then fp_divide F (fp_mult F (fp_of_u64 F (used_bytes ms)) double_100) (fp_of_u64 F (total_bytes ms)) else 0) util)"

lemma moduleUsed_le: "unat (moduleUsed p s) \<le> unat (moduleTotal p s)"
  by (simp add: moduleUsed_def unat_sub word_le_nat_alt)

text \<open>No more is in use than there is, when the sizes add up without wrapping around.\<close>

lemma used_within_total:
  "sum_list (map (\<lambda>(p, s). unat (moduleTotal p s)) ms) < 2 ^ 64 \<Longrightarrow>
   unat (used_bytes ms) \<le> unat (total_bytes ms) \<and> unat (total_bytes ms) = sum_list (map (\<lambda>(p, s). unat (moduleTotal p s)) ms)"
proof (induction ms)
  case (Cons m ms)
  obtain p s where m: "m = (p, s)" by (cases m)
  have IH: "unat (used_bytes ms) \<le> unat (total_bytes ms)" "unat (total_bytes ms) = sum_list (map (\<lambda>(p, s). unat (moduleTotal p s)) ms)"
    using Cons by (simp_all add: m)
  have sum: "unat (moduleTotal p s) + unat (total_bytes ms) < 2 ^ 64"
    using Cons.prems IH(2) by (simp add: m)
  then have "unat (moduleTotal p s + total_bytes ms) = unat (moduleTotal p s) + unat (total_bytes ms)"
    by (simp add: unat_add_lem [where 'a = 64, THEN iffD1])
  moreover have "unat (moduleUsed p s + used_bytes ms) = unat (moduleUsed p s) + unat (used_bytes ms)"
    using sum IH(1) moduleUsed_le [of p s] by (intro unat_add_lem [where 'a = 64, THEN iffD1]) simp
  ultimately show ?case
    using IH moduleUsed_le [of p s] by (simp add: used_bytes_def total_bytes_def m)
qed (simp add: used_bytes_def total_bytes_def)

locale memory_driver =
  objs: zes_objects ok "zesDeviceEnumMemoryModules_l0 A" modules +
  props: zes_getter ok "zesMemoryGetProperties_l0 A" good_p mergep props +
  states: zes_getter ok "zesMemoryGetState_l0 A" good_s merges states +
  bands: zes_getter ok "zesMemoryGetBandwidth_l0 A" "\<lambda>_. True" "\<lambda>_ v. v" bands
  for ok :: "'w \<Rightarrow> bool" and A :: "'w memory_api" and modules good_p mergep props good_s merges states bands +
  assumes merged_properties: "mem_properties_onSubdevice (mergep op p) = mem_properties_onSubdevice p"
    "mem_properties_subdeviceId (mergep op p) = mem_properties_subdeviceId p"
    "mem_properties_location (mergep op p) = mem_properties_location p"
    "mem_properties_physicalSize (mergep op p) = mem_properties_physicalSize p"
    "mem_properties_busWidth (mergep op p) = mem_properties_busWidth p"
    "mem_properties_numChannels (mergep op p) = mem_properties_numChannels p"
    and merged_state: "mem_state_health (merges os s) = mem_state_health s" "mem_state_free (merges os s) = mem_state_free s"
    "mem_state_size (merges os s) = mem_state_size s"
    and zeros: "good_p zero_mem_properties" "good_s zero_mem_state"
begin

lemma enumerated:
  assumes "ok w" "modules w d = Inr hs"
  shows "\<exists>M'. memory_init A fresh w d M = Done (ZE_RESULT_SUCCESS, M', w) \<and> holds (memoryModules M') (memoryModulesCount M') hs"
  using assms objs.no_objects [OF assms]
  by (cases "hs = []") (simp_all add: memory_init_def enumMemoryModules_def objs.count_ok objs.handles_ok objs.length_word holds_none holds_Some)

lemma properties_query:
  "ok w \<Longrightarrow> good_p p \<Longrightarrow> memory_getProperties A w h p = Done (case props w h of Inl e \<Rightarrow> (e, p, w) | Inr v \<Rightarrow> (ZE_RESULT_SUCCESS, mergep p v, w))"
  by (simp add: memory_getProperties_def props.query_ok)

lemma state_query:
  "ok w \<Longrightarrow> good_s s \<Longrightarrow> memory_getState A w h s = Done (case states w h of Inl e \<Rightarrow> (e, s, w) | Inr v \<Rightarrow> (ZE_RESULT_SUCCESS, merges s v, w))"
  by (simp add: memory_getState_def states.query_ok)

lemma bandwidth_query:
  "ok w \<Longrightarrow> getBandwidth A w h b = Done (case bands w h of Inl e \<Rightarrow> (e, b, w) | Inr v \<Rightarrow> (ZE_RESULT_SUCCESS, v, w))"
  by (simp add: getBandwidth_def bands.query_ok)

lemma module_of_merge:
  "module_tile (mergep op p) = module_tile p" "moduleTotal (mergep op p) (merges os s) = moduleTotal p s"
  "moduleUsed (mergep op p) (merges os s) = moduleUsed p s"
  by (simp_all add: module_tile_def moduleTotal_def moduleUsed_def merged_properties merged_state)

lemmas driver_simps = properties_query state_query bandwidth_query merged_properties merged_state module_of_merge
  props.good_merge states.good_merge zeros

lemma size_loop:
  assumes "ok w" "\<forall>i\<in>set is. handle_at (memoryModules M) i = Done (hs ! i)" "good_s s"
  shows "memory_size_loop A M is s n w = (let rs = map (\<lambda>i. states w (hs ! i)) is in
    Done (err rs, n + sum_list (map mem_state_size (oks rs)), w))"
  using assms(2,3)
  by (induction "is" arbitrary: s n)
    (auto simp: assms(1) driver_simps states.fails [OF assms(1)] Let_def split: sum.splits)

lemma memory_size:
  assumes "ok w" "holds (memoryModules M) (memoryModulesCount M) hs" "good_s s"
  shows "getMemorySize A s w (Some n) M = (let rs = map (states w) hs in
    Done (err rs, Some (sum_list (map mem_state_size (oks rs))), w))"
  using assms size_loop [of w "[0..<length hs]" M hs s 0]
  by (simp add: getMemorySize_def holds_def map_handles Let_def)

lemma health_loop:
  assumes "ok w" "\<forall>i\<in>set is. handle_at (memoryModules M) i = Done (hs ! i)" "good_s s"
  shows "memory_health_loop A M is s seen w =
    (let (r, h) = health_of seen (map (\<lambda>i. map_sum id mem_state_health (states w (hs ! i))) is) in Done (r, h, w))"
  using assms(2,3)
  by (induction "is" arbitrary: s seen)
    (auto simp: assms(1) driver_simps states.fails [OF assms(1)] mem_codes Let_def split: sum.splits)

lemma memory_health:
  assumes "ok w" "holds (memoryModules M) (memoryModulesCount M) hs" "good_s s"
  shows "getMemoryHealth A s w (Some n) M =
    (let (r, h) = health_of ZES_MEM_HEALTH_UNKNOWN (map (\<lambda>h. map_sum id mem_state_health (states w h)) hs) in Done (r, Some h, w))"
  using assms health_loop [of w "[0..<length hs]" M hs s ZES_MEM_HEALTH_UNKNOWN]
  by (simp add: getMemoryHealth_def holds_def map_handles [of "\<lambda>h. map_sum id mem_state_health (states w h)"] Let_def case_prod_unfold)

definition module_reading :: "(zes_mem_properties_t \<Rightarrow> bool) \<Rightarrow> 'w \<Rightarrow> u64 \<Rightarrow> ze_result_t + (zes_mem_properties_t \<times> zes_mem_state_t) option" where
  "module_reading P w h = both P (props w h) (states w h)"

lemma used_loop:
  assumes "ok w" "\<forall>i\<in>set is. handle_at (memoryModules M) i = Done (hs ! i)"
  shows "memory_used_loop A M is u n w = (let rs = map (\<lambda>i. module_reading (\<lambda>_. True) w (hs ! i)) is; ms = present (oks rs) in
    Done (err rs, (u + sum_list (map (\<lambda>(p, s). moduleUsed p s) ms), n + sum_list (map (\<lambda>(p, s). moduleTotal p s) ms)), w))"
  using assms(2)
  by (induction "is" arbitrary: u n)
    (auto simp: assms(1) driver_simps props.fails [OF assms(1)] states.fails [OF assms(1)] module_reading_def Let_def split: sum.splits)

lemma used_error: "ok w \<Longrightarrow> module_reading P w h \<noteq> Inl ZE_RESULT_SUCCESS"
  using props.fails [of w h ZE_RESULT_SUCCESS] states.fails [of w h ZE_RESULT_SUCCESS]
  by (auto simp: module_reading_def both_def split: sum.splits)

lemma memory_used:
  assumes "ok w" "holds (memoryModules M) (memoryModulesCount M) hs"
  shows "getMemoryUsed A F w used util M = (let rs = map (module_reading (\<lambda>_. True) w) hs in
    Done (err rs, if err rs = ZE_RESULT_SUCCESS then usage_outputs F (present (oks rs)) used util
      else (map_option (\<lambda>_. 0) used, map_option (\<lambda>_. 0) util), w))"
  using assms used_loop [of w "[0..<length hs]" M hs 0 0]
  by (simp add: getMemoryUsed_def usage_outputs_def used_bytes_def total_bytes_def holds_def map_handles Let_def option.map_comp comp_def)

lemma usage_loop:
  assumes "ok w" "\<forall>i\<in>set is. handle_at (memoryModules M) i = Done (hs ! i)"
  shows "tile_usage_loop A M is r m m' w =
    (let rs = map (\<lambda>i. module_reading (\<lambda>p. mem_properties_location p = ZES_MEM_LOC_DEVICE) w (hs ! i)) is; ms = present (goods rs) in
     Done (last_result r rs, tile_plus m (tile_sum (map (\<lambda>(p, s). (module_tile p, mem_state_size s - mem_state_free s)) ms)),
       tile_plus m' (tile_sum (map (\<lambda>(p, s). (module_tile p, moduleTotal p s)) ms)), w))"
  using assms(2)
  by (induction "is" arbitrary: r m m')
    (auto simp: assms(1) driver_simps props.fails [OF assms(1)] states.fails [OF assms(1)] module_reading_def Let_def tile_sum_Cons split: sum.splits)

end

end
