(* ===== verification/Hal_Stub.thy ===== *)
theory Hal_Stub
  imports Hal_Engine Hal_Memory Stub_Contracts
begin

text \<open>
  The stub as the driver under the classes of \<^verbatim>\<open>hal/core\<close>: its entry points keep the promises the classes rely on,
  so what is proved of a class for every such driver holds on the stub by interpretation.
\<close>

section \<open>Queries and enumerations of the stub\<close>

text \<open>What a call on an object reads of it: the error of its checks, or \<open>val\<close> of the object.\<close>

definition stub_read ::
  "(sysman_state_t \<Rightarrow> u64 \<Rightarrow> 'c option outcome) \<Rightarrow> u32 \<Rightarrow> ('c \<Rightarrow> ze_result_t) \<Rightarrow> ('c \<Rightarrow> ze_result_t + 'v) \<Rightarrow>
   stub \<Rightarrow> u64 \<Rightarrow> ze_result_t + 'v" where
  "stub_read resolve flag rv val w h = (case resolve (g_sysman_state w) h of
       Done (Some c) \<Rightarrow>
         if flag \<in> unsupported_set (g_sysman_state w) h then Inl ZE_RESULT_ERROR_UNSUPPORTED_FEATURE
         else if rv c \<noteq> ZE_RESULT_SUCCESS then Inl (rv c) else val c
     | _ \<Rightarrow> Inl ZE_RESULT_ERROR_INVALID_NULL_HANDLE)"

definition configured :: "('c \<Rightarrow> 'v cptr) \<Rightarrow> 'c \<Rightarrow> ze_result_t + 'v" where
  "configured src c = (case src c of Null \<Rightarrow> Inl ZE_RESULT_ERROR_UNSUPPORTED_FEATURE | Ptr _ v \<Rightarrow> Inr v)"

lemma stub_read_enabled: "enabled resolve flag rv w h c \<Longrightarrow> stub_read resolve flag rv val w h = val c"
  by (simp add: enabled_def stub_read_def ZE_RESULT_SUCCESS_def)

lemma stub_call:
  assumes "ready w" "resolve (g_sysman_state w) h = Done r"
  shows "locked w (\<lambda>s. prologue s h (resolve s h) flag rv out body) =
    (case stub_read resolve flag rv Inr w h of Inl e \<Rightarrow> Done (e, out, w)
     | Inr c \<Rightarrow> obind (body c) (\<lambda>(result, out). Done (result, out, w)))"
  using assms
  by (cases w, cases r)
    (auto simp: ready_def stub_read_def prologue_def is_unsupported_wf locked_def sysman_state_lock_def
      sysman_unlock_and_return_def sysman_state_unlock_def ZE_RESULT_SUCCESS_def)

lemma stub_read_val:
  "stub_read resolve flag rv val w h = (case stub_read resolve flag rv Inr w h of Inl e \<Rightarrow> Inl e | Inr c \<Rightarrow> val c)"
  by (simp add: stub_read_def split: outcome.splits option.splits)

lemma stub_read_fails:
  assumes "stub_read resolve flag rv val w h = Inl e" "\<And>c. val c \<noteq> Inl ZE_RESULT_SUCCESS"
  shows "e \<noteq> ZE_RESULT_SUCCESS"
  using assms by (auto simp: stub_read_def ze_result_defs split: outcome.splits option.splits if_splits)

lemma configured_fails: "configured src c \<noteq> Inl ZE_RESULT_SUCCESS"
  by (simp add: configured_def ze_result_defs split: cptr.splits)

lemma stub_getter:
  assumes "\<And>w h p. f w h p = locked w (\<lambda>s. prologue s h (resolve s h) flag rv p (\<lambda>c. body c p))"
    and "\<And>s h. wf_state s \<Longrightarrow> \<exists>r. resolve s h = Done r"
    and "\<And>c old. body c (Some old) = Done (case val c of Inl e \<Rightarrow> (e, Some old) | Inr v \<Rightarrow> (ZE_RESULT_SUCCESS, Some (merge old v)))"
    and "\<And>c. val c \<noteq> Inl ZE_RESULT_SUCCESS"
  shows "zes_getter ready f (\<lambda>_. True) merge (stub_read resolve flag rv val)"
proof (unfold_locales)
  fix w h old
  assume w: "ready w"
  with assms(2) obtain r where r: "resolve (g_sysman_state w) h = Done r"
    by (auto simp: ready_def)
  show "f w h (Some old) = Done (case stub_read resolve flag rv val w h of Inl e \<Rightarrow> (e, Some old, w)
      | Inr v \<Rightarrow> (ZE_RESULT_SUCCESS, Some (merge old v), w))"
    unfolding assms(1) stub_call [where resolve = resolve, OF w r] stub_read_val [of _ _ _ val]
    by (simp add: assms(3) split: sum.splits)
qed (use stub_read_fails assms(4) in blast)+

text \<open>The shapes a query can have: a scalar, a structure behind a pointer, checked before or after the argument.\<close>

lemma stub_value_getter:
  assumes "\<And>w h p. f w h p = locked w (\<lambda>s. prologue s h (resolve s h) flag rv p (\<lambda>c. put_value p (val c)))"
    and "\<And>s h. wf_state s \<Longrightarrow> \<exists>r. resolve s h = Done r"
  shows "zes_getter ready f (\<lambda>_. True) (\<lambda>_ v. v) (stub_read resolve flag rv (\<lambda>c. Inr (val c)))"
  by (rule stub_getter [OF assms]) (simp_all add: put_value_def)

lemma stub_src_getter:
  assumes "\<And>w h p. f w h p = locked w (\<lambda>s. prologue s h (resolve s h) flag rv p (\<lambda>c. copy_src_first merge (src c) p))"
    and "\<And>s h. wf_state s \<Longrightarrow> \<exists>r. resolve s h = Done r"
  shows "zes_getter ready f (\<lambda>_. True) merge (stub_read resolve flag rv (configured src))"
  by (rule stub_getter [OF assms]) (simp_all add: configured_def copy_src_first_def ze_result_defs split: cptr.splits)

lemma stub_arg_getter:
  assumes "\<And>w h p. f w h p = locked w (\<lambda>s. prologue s h (resolve s h) flag rv p (\<lambda>c. copy_arg_first merge (src c) p))"
    and "\<And>s h. wf_state s \<Longrightarrow> \<exists>r. resolve s h = Done r"
  shows "zes_getter ready f (\<lambda>_. True) merge (stub_read resolve flag rv (configured src))"
  by (rule stub_getter [OF assms]) (simp_all add: configured_def copy_arg_first_def ze_result_defs split: cptr.splits)

text \<open>A structure with an extension chain: without one to follow, it is read like any other.\<close>

lemma stub_ext_getter:
  fixes f :: "(stub, 'v zes_hdr_scheme) zes_get"
  assumes "\<And>w h p. f w h p = obind (locked w (\<lambda>s. prologue s h (resolve s h) flag rv (p, None) (\<lambda>c. body c p)))
      (\<lambda>(result, (p, _), w). Done (result, p, w))"
    and "\<And>s h. wf_state s \<Longrightarrow> \<exists>r. resolve s h = Done r"
    and "\<And>c old. pNext old = 0 \<Longrightarrow> body c (Some old) = Done (case val c of Inl e \<Rightarrow> (e, (Some old, None))
      | Inr v \<Rightarrow> (ZE_RESULT_SUCCESS, (Some (keep_header old v), None)))"
    and "\<And>c. val c \<noteq> Inl ZE_RESULT_SUCCESS"
  shows "zes_getter ready f (\<lambda>p. pNext p = 0) keep_header (stub_read resolve flag rv val)"
proof (unfold_locales)
  fix w h and old :: "'v zes_hdr_scheme"
  assume w: "ready w" and old: "pNext old = 0"
  with assms(2) obtain r where r: "resolve (g_sysman_state w) h = Done r"
    by (auto simp: ready_def)
  show "f w h (Some old) = Done (case stub_read resolve flag rv val w h of Inl e \<Rightarrow> (e, Some old, w)
      | Inr v \<Rightarrow> (ZE_RESULT_SUCCESS, Some (keep_header old v), w))"
    unfolding assms(1) stub_call [where resolve = resolve, OF w r] stub_read_val [of _ _ _ val]
    by (simp add: assms(3) old split: sum.splits)
qed (use stub_read_fails assms(4) in blast, simp add: keep_header_def)

text \<open>What a call on a component of an enumerated device reads, given whether the feature is off.\<close>

definition read_component :: "bool \<Rightarrow> ('c \<Rightarrow> ze_result_t) \<Rightarrow> ('c \<Rightarrow> ze_result_t + 'v) \<Rightarrow> 'c \<Rightarrow> ze_result_t + 'v" where
  "read_component off rv val c = (if off then Inl ZE_RESULT_ERROR_UNSUPPORTED_FEATURE
     else if rv c \<noteq> ZE_RESULT_SUCCESS then Inl (rv c) else val c)"

text \<open>A device that can be enumerated, with so few components of the type that each has a handle of its own.\<close>

definition listed ::
  "u32 \<Rightarrow> (sysman_device_state_t \<Rightarrow> ze_result_t) \<Rightarrow> (sysman_device_state_t \<Rightarrow> 'c list cptr) \<Rightarrow>
   stub \<Rightarrow> u64 \<Rightarrow> sysman_device_state_t \<Rightarrow> bool" where
  "listed flag rv arr w d dev = (enabled resolve_device flag rv w d dev \<and> length (elems (arr dev)) \<le> 2 ^ 16)"

text \<open>The handles of the components of a device.\<close>

definition stub_handles :: "stub_handle_type_t \<Rightarrow> u64 \<Rightarrow> nat \<Rightarrow> u64 list" where
  "stub_handles ht d n =
     map (\<lambda>i. MAKE_COMPONENT_HANDLE ht (bits_drv (decode_handle d)) (bits_dev (decode_handle d)) (word_of_nat i)) [0..<n]"

lemma length_stub_handles [simp]: "length (stub_handles ht d n) = n"
  by (simp add: stub_handles_def)

definition stub_objects ::
  "stub_handle_type_t \<Rightarrow> u32 \<Rightarrow> (sysman_device_state_t \<Rightarrow> ze_result_t) \<Rightarrow> (sysman_device_state_t \<Rightarrow> 'c list cptr) \<Rightarrow>
   stub \<Rightarrow> u64 \<Rightarrow> ze_result_t + u64 list" where
  "stub_objects ht flag rv arr w h =
     stub_read resolve_device flag rv (\<lambda>dev. Inr (stub_handles ht h (length (elems (arr dev))))) w h"

context stub_enum
begin

lemma objects_Inr:
  assumes "ready w" "stub_objects ht flag rv arr w d = Inr hs"
  obtains dev where "enabled resolve_device flag rv w d dev" "hs = stub_handles ht d (length (elems (arr dev)))"
  using assms by (auto simp: stub_objects_def stub_read_def enabled_def ZE_RESULT_SUCCESS_def split: outcome.splits option.splits if_splits)

lemma objects:
  assumes all: "\<And>d. avail d"
  shows "zes_objects ready enum (stub_objects ht flag rv arr)"
proof (unfold_locales)
  fix w d and n :: u32
  assume w: "ready w"
  then obtain r where r: "resolve_device (g_sysman_state w) d = Done r"
    by (auto simp: ready_def resolve_device_wf)
  then have dev: "stub_read resolve_device flag rv Inr w d = Inr c \<Longrightarrow> wf_device c" for c
    using w wf_device_at
    by (auto simp: stub_read_def resolve_device_wf ready_def Let_def split: if_splits option.splits)
  show "enum w d (Some n) None = Done (case stub_objects ht flag rv arr w d of Inl e \<Rightarrow> (e, (Some n, None), w)
      | Inr hs \<Rightarrow> (ZE_RESULT_SUCCESS, (Some (word_of_nat (length hs)), None), w))"
    unfolding enumerates stub_call [where resolve = resolve_device, OF w r] stub_objects_def
    by (subst (2) stub_read_val) (auto simp: all two_call_count dest: dev split: sum.splits intro: cnt_word)
next
  fix w d hs and n :: u32 and b :: "u64 list"
  assume w: "ready w" and hs: "stub_objects ht flag rv arr w d = Inr hs" and n: "unat n = length hs" "length b = length hs"
  obtain dev where en: "enabled resolve_device flag rv w d dev" and hs': "hs = stub_handles ht d (length (elems (arr dev)))"
    by (rule objects_Inr [OF w hs])
  then have "min (unat n) (length (elems (arr dev))) = length hs"
    using n by simp
  then show "enum w d (Some n) (Some b) = Done (ZE_RESULT_SUCCESS, (Some n, Some hs), w)"
    using enum_fill [OF en all _ refl refl, of n b] n hs' word_of_nat_unat [of n] by (simp add: stub_handles_def)
next
  fix w d e
  assume "stub_objects ht flag rv arr w d = Inl e"
  then show "e \<noteq> ZE_RESULT_SUCCESS"
    unfolding stub_objects_def by (rule stub_read_fails) simp
next
  fix w d hs
  assume w: "ready w" and hs: "stub_objects ht flag rv arr w d = Inr hs"
  obtain dev where "enabled resolve_device flag rv w d dev" "length hs = length (elems (arr dev))"
    by (rule objects_Inr [OF w hs]) simp
  then show "length hs < 2 ^ 32"
    using cnt_length [OF device_of_handle(3)] unsigned_less [of "cnt dev", where ?'a = nat] by force
qed

text \<open>What a call on a component of the device reads, from its configuration.\<close>

lemma component_read:
  assumes en: "enabled resolve_device flag rv w d dev" and i: "i < length (elems (arr dev))" "i < 2 ^ 16"
  shows "stub_read resolve flag' rv' val w
      (MAKE_COMPONENT_HANDLE ht (bits_drv (decode_handle d)) (bits_dev (decode_handle d)) (word_of_nat i)) =
    read_component (flag' \<in> unsupported_set (g_sysman_state w) d) rv' val (elems (arr dev) ! i)"
proof -
  note dev = device_of_handle [OF en]
  let ?h = "MAKE_COMPONENT_HANDLE ht (bits_drv (decode_handle d)) (bits_dev (decode_handle d)) (word_of_nat i)"
  have "unsupported_set (g_sysman_state w) ?h = unsupported_set (g_sysman_state w) d"
    using dev(1) en component_type
    by (cases ht) (auto simp: unsupported_set_def MAKE_COMPONENT_HANDLE_def enabled_def ready_def resolve_device_wf Let_def split: if_splits)
  moreover have "resolve (g_sysman_state w) ?h = Done (Some (elems (arr dev) ! i))"
    by (rule resolve_made [OF dev(2,1) i])
  ultimately show ?thesis
    by (simp add: stub_read_def read_component_def)
qed

lemma listed_objects:
  "listed flag rv arr w d dev \<Longrightarrow> stub_objects ht flag rv arr w d = Inr (stub_handles ht d (length (elems (arr dev))))"
  unfolding stub_objects_def listed_def by (rule stub_read_enabled) simp

lemma readings:
  assumes "listed flag rv arr w d dev"
  shows "map (stub_read resolve flag' rv' val w) (stub_handles ht d (length (elems (arr dev))))
      = map (read_component (flag' \<in> unsupported_set (g_sysman_state w) d) rv' val) (elems (arr dev))"
  using assms by (intro nth_equalityI) (simp_all add: stub_handles_def component_read listed_def)

text \<open>Two readings of each component, combined.\<close>

lemma readings_map:
  assumes "listed flag rv arr w d dev"
  shows "map (\<lambda>h. f (stub_read resolve flag' rv' val w h) (stub_read resolve flag'' rv'' val' w h)) (stub_handles ht d (length (elems (arr dev))))
      = map (\<lambda>c. f (read_component (flag' \<in> unsupported_set (g_sysman_state w) d) rv' val c)
          (read_component (flag'' \<in> unsupported_set (g_sysman_state w) d) rv'' val' c)) (elems (arr dev))"
proof -
  have en: "enabled resolve_device flag rv w d dev" and few: "length (elems (arr dev)) \<le> 2 ^ 16"
    using assms by (simp_all add: listed_def)
  show ?thesis
    using few by (intro nth_equalityI) (simp_all add: stub_handles_def component_read [OF en])
qed

end

section \<open>Engine groups on the stub\<close>

definition stub_engine_api :: "stub engine_api" where
  "stub_engine_api = \<lparr>
     zesDeviceEnumEngineGroups_l0 = zesDeviceEnumEngineGroups,
     zesEngineGetProperties_l0 = (\<lambda>w h p. obind (zesEngineGetProperties w h p None) (\<lambda>(result, (p, _), w). Done (result, p, w))),
     zesEngineGetActivity_l0 = zesEngineGetActivity,
     zesEngineGetActivityExt_l0 = zesEngineGetActivityExt\<rparr>"

abbreviation stub_groups :: "stub \<Rightarrow> u64 \<Rightarrow> ze_result_t + u64 list" where
  "stub_groups \<equiv> stub_objects STUB_HANDLE_ENGINE UNSUPPORTED_FEATURE_ENGINE_GROUPS
     (\<lambda>d. rv_zesDeviceEnumEngineGroups (dev_return_values d)) dev_engine_groups"

abbreviation stub_engine_properties :: "stub \<Rightarrow> u64 \<Rightarrow> ze_result_t + zes_engine_properties_t" where
  "stub_engine_properties \<equiv> stub_read resolve_engine UNSUPPORTED_FEATURE_ENGINE_GET_PROPERTIES
     (\<lambda>e. rv_zesEngineGetProperties (engine_return_values e)) (\<lambda>e. Inr (engine_properties_info_base (engine_properties e)))"

abbreviation stub_engine_activity :: "stub \<Rightarrow> u64 \<Rightarrow> ze_result_t + zes_engine_stats_t" where
  "stub_engine_activity \<equiv> stub_read resolve_engine UNSUPPORTED_FEATURE_ENGINE_GET_ACTIVITY
     (\<lambda>e. rv_zesEngineGetActivity (engine_return_values e)) (\<lambda>e. Inr (engine_activity e))"

interpretation stub_engines: engine_driver ready stub_engine_api stub_groups "\<lambda>p. pNext p = 0" keep_header
    stub_engine_properties stub_engine_activity
proof (intro engine_driver.intro engine_driver_axioms.intro)
  show "zes_objects ready (zesDeviceEnumEngineGroups_l0 stub_engine_api) stub_groups"
    by (simp add: stub_engine_api_def enum_engine.objects)
  show "zes_getter ready (zesEngineGetActivity_l0 stub_engine_api) (\<lambda>_. True) (\<lambda>_ v. v) stub_engine_activity"
    by (intro stub_value_getter) (simp_all add: stub_engine_api_def zesEngineGetActivity_def engine.resolve_wf)
  show "zes_getter ready (zesEngineGetProperties_l0 stub_engine_api) (\<lambda>p. pNext p = 0) keep_header stub_engine_properties"
  proof (rule stub_ext_getter)
    show "zesEngineGetProperties_l0 stub_engine_api w h p = obind (locked w (\<lambda>s. prologue s h (resolve_engine s h)
        UNSUPPORTED_FEATURE_ENGINE_GET_PROPERTIES (\<lambda>e. rv_zesEngineGetProperties (engine_return_values e)) (p, None)
        (\<lambda>e. case p of None \<Rightarrow> Done (ZE_RESULT_ERROR_INVALID_NULL_POINTER, None, None)
          | Some old \<Rightarrow> copy_with_ext (engine_properties_info_base (engine_properties e)) ZES_STRUCTURE_TYPE_ENGINE_EXT_PROPERTIES
              (engine_properties_info_extended_properties (engine_properties e)) old None))) (\<lambda>(result, (p, _), w). Done (result, p, w))" for w h p
      by (simp add: stub_engine_api_def zesEngineGetProperties_def)
  qed (simp_all add: engine.resolve_wf copy_with_ext_def follow_pNext_def)
qed (simp_all add: keep_header_def)

text \<open>
  Counting the engine groups of a type, over the stub: after enumerating a device the count is that of its
  configured groups of the type up to the first that reports an error, and that error is the result.
\<close>

theorem engine_count_on_stub:
  assumes "listed UNSUPPORTED_FEATURE_ENGINE_GROUPS (\<lambda>d. rv_zesDeviceEnumEngineGroups (dev_return_values d)) dev_engine_groups w d dev"
    and "pNext local = 0"
  shows "obind (enginegroup_init stub_engine_api fresh w d E) (\<lambda>(_, E, w). getEngineCountByType stub_engine_api local w (Some c) ty E) =
    (let rs = map (read_component (UNSUPPORTED_FEATURE_ENGINE_GET_PROPERTIES \<in> unsupported_set (g_sysman_state w) d)
        (\<lambda>e. rv_zesEngineGetProperties (engine_return_values e))
        (\<lambda>e. Inr (engine_properties_info_base (engine_properties e)))) (elems (dev_engine_groups dev)) in
     Done (err rs, Some (word_of_nat (length (filter (\<lambda>p. engine_properties_type p = ty) (oks rs)))), w))"
proof -
  have w: "ready w"
    using assms(1) by (simp add: listed_def enabled_def)
  note hs = enum_engine.listed_objects [OF assms(1)]
  show ?thesis
    using assms(2) w stub_engines.enumerated_holds [OF w hs]
    by (simp add: stub_engines.enumerated [OF w hs] stub_engines.count_by_type enum_engine.readings [OF assms(1)])
qed

section \<open>Memory modules on the stub\<close>

definition stub_memory_api :: "stub memory_api" where
  "stub_memory_api = \<lparr>
     zesDeviceEnumMemoryModules_l0 = zesDeviceEnumMemoryModules,
     zesMemoryGetProperties_l0 = zesMemoryGetProperties,
     zesMemoryGetState_l0 = zesMemoryGetState,
     zesMemoryGetBandwidth_l0 = zesMemoryGetBandwidth\<rparr>"

abbreviation stub_modules :: "stub \<Rightarrow> u64 \<Rightarrow> ze_result_t + u64 list" where
  "stub_modules \<equiv> stub_objects STUB_HANDLE_MEM UNSUPPORTED_FEATURE_MEMORY_MODULES
     (\<lambda>d. rv_zesDeviceEnumMemoryModules (dev_return_values d)) dev_memory_modules"

abbreviation stub_mem_properties :: "stub \<Rightarrow> u64 \<Rightarrow> ze_result_t + zes_mem_properties_t" where
  "stub_mem_properties \<equiv> stub_read resolve_mem UNSUPPORTED_FEATURE_MEM_GET_PROPERTIES
     (\<lambda>m. rv_zesMemoryGetProperties (mem_return_values m)) (configured mem_properties)"

abbreviation stub_mem_state :: "stub \<Rightarrow> u64 \<Rightarrow> ze_result_t + zes_mem_state_t" where
  "stub_mem_state \<equiv> stub_read resolve_mem UNSUPPORTED_FEATURE_MEM_GET_STATE
     (\<lambda>m. rv_zesMemoryGetState (mem_return_values m)) (configured mem_state)"

abbreviation stub_mem_bandwidth :: "stub \<Rightarrow> u64 \<Rightarrow> ze_result_t + zes_mem_bandwidth_t" where
  "stub_mem_bandwidth \<equiv> stub_read resolve_mem UNSUPPORTED_FEATURE_MEM_GET_BANDWIDTH
     (\<lambda>m. rv_zesMemoryGetBandwidth (mem_return_values m)) (configured mem_bandwidth)"

lemma overwrite_eq: "overwrite = (\<lambda>_ v. v)"
  by (simp add: overwrite_def fun_eq_iff)

interpretation stub_memory: memory_driver ready stub_memory_api stub_modules "\<lambda>_. True" keep_header stub_mem_properties
    "\<lambda>_. True" keep_header stub_mem_state stub_mem_bandwidth
proof (intro memory_driver.intro memory_driver_axioms.intro)
  show "zes_objects ready (zesDeviceEnumMemoryModules_l0 stub_memory_api) stub_modules"
    by (simp add: stub_memory_api_def enum_mem.objects)
  show "zes_getter ready (zesMemoryGetProperties_l0 stub_memory_api) (\<lambda>_. True) keep_header stub_mem_properties"
    by (intro stub_src_getter) (simp_all add: stub_memory_api_def zesMemoryGetProperties_def mem.resolve_wf)
  show "zes_getter ready (zesMemoryGetState_l0 stub_memory_api) (\<lambda>_. True) keep_header stub_mem_state"
    by (intro stub_src_getter) (simp_all add: stub_memory_api_def zesMemoryGetState_def mem.resolve_wf)
  show "zes_getter ready (zesMemoryGetBandwidth_l0 stub_memory_api) (\<lambda>_. True) (\<lambda>_ v. v) stub_mem_bandwidth"
    by (intro stub_src_getter) (simp_all add: stub_memory_api_def zesMemoryGetBandwidth_def mem.resolve_wf overwrite_eq)
qed (simp_all add: keep_header_def)

text \<open>The health a configured module reports.\<close>

definition module_health :: "stub \<Rightarrow> u64 \<Rightarrow> sysman_mem_t \<Rightarrow> ze_result_t + u32" where
  "module_health w d m = map_sum id mem_state_health (read_component (UNSUPPORTED_FEATURE_MEM_GET_STATE \<in> unsupported_set (g_sysman_state w) d)
     (\<lambda>m. rv_zesMemoryGetState (mem_return_values m)) (configured mem_state) m)"

lemma listed_ready: "listed flag rv arr w d dev \<Longrightarrow> ready w"
  by (simp add: listed_def enabled_def)

text \<open>
  The health of a device's memory, over the stub, is that of the first configured module that is not in order:
  the modules behind it are not looked at, so a degraded module hides a critical one listed after it.
\<close>

theorem memory_health_on_stub:
  assumes "listed UNSUPPORTED_FEATURE_MEMORY_MODULES (\<lambda>d. rv_zesDeviceEnumMemoryModules (dev_return_values d)) dev_memory_modules w d dev"
  shows "obind (memory_init stub_memory_api fresh w d M) (\<lambda>(_, M, w). getMemoryHealth stub_memory_api local w (Some x) M) =
    (let (r, h) = health_of ZES_MEM_HEALTH_UNKNOWN (map (module_health w d) (elems (dev_memory_modules dev))) in Done (r, Some h, w))"
proof -
  note w = listed_ready [OF assms]
  obtain M' where M': "memory_init stub_memory_api fresh w d M = Done (ZE_RESULT_SUCCESS, M', w)"
      "holds (memoryModules M') (memoryModulesCount M') (stub_handles STUB_HANDLE_MEM d (length (elems (dev_memory_modules dev))))"
    using stub_memory.enumerated [OF w enum_mem.listed_objects [OF assms]] by blast
  then show ?thesis
    by (simp add: stub_memory.memory_health [OF w M'(2)] module_health_def [abs_def]
        enum_mem.readings_map [OF assms, where f = "\<lambda>x _. map_sum id mem_state_health x"])
qed

text \<open>The properties of a configured module and, when \<open>P\<close> holds of them, its state.\<close>

definition module_of :: "(zes_mem_properties_t \<Rightarrow> bool) \<Rightarrow> stub \<Rightarrow> u64 \<Rightarrow> sysman_mem_t \<Rightarrow> ze_result_t + (zes_mem_properties_t \<times> zes_mem_state_t) option" where
  "module_of P w d m = both P
     (read_component (UNSUPPORTED_FEATURE_MEM_GET_PROPERTIES \<in> unsupported_set (g_sysman_state w) d)
       (\<lambda>m. rv_zesMemoryGetProperties (mem_return_values m)) (configured mem_properties) m)
     (read_component (UNSUPPORTED_FEATURE_MEM_GET_STATE \<in> unsupported_set (g_sysman_state w) d)
       (\<lambda>m. rv_zesMemoryGetState (mem_return_values m)) (configured mem_state) m)"

lemma stub_modules_read:
  assumes "listed UNSUPPORTED_FEATURE_MEMORY_MODULES (\<lambda>d. rv_zesDeviceEnumMemoryModules (dev_return_values d)) dev_memory_modules w d dev"
  shows "map (stub_memory.module_reading P w) (stub_handles STUB_HANDLE_MEM d (length (elems (dev_memory_modules dev))))
    = map (module_of P w d) (elems (dev_memory_modules dev))"
  unfolding stub_memory.module_reading_def [abs_def] module_of_def [abs_def]
  by (rule enum_mem.readings_map [OF assms])

text \<open>
  C13. The memory in use, over the stub: the configured modules' sizes less their free bytes, added up, and the
  share of all bytes; a module that reports an error makes the call report it and write zeros. As long as the
  sizes add up to less than \<open>2 ^ 64\<close>, no more is reported in use than there is.
\<close>

theorem memory_used_on_stub:
  assumes "listed UNSUPPORTED_FEATURE_MEMORY_MODULES (\<lambda>d. rv_zesDeviceEnumMemoryModules (dev_return_values d)) dev_memory_modules w d dev"
  shows "let rs = map (module_of (\<lambda>_. True) w d) (elems (dev_memory_modules dev)); ms = present (oks rs) in
    obind (memory_init stub_memory_api fresh w d M) (\<lambda>(_, M, w). getMemoryUsed stub_memory_api F w used util M) =
      Done (err rs, if err rs = ZE_RESULT_SUCCESS then usage_outputs F ms used util else (map_option (\<lambda>_. 0) used, map_option (\<lambda>_. 0) util), w)
    \<and> (sum_list (map (\<lambda>(p, s). unat (moduleTotal p s)) ms) < 2 ^ 64 \<longrightarrow> unat (used_bytes ms) \<le> unat (total_bytes ms))"
proof -
  note w = listed_ready [OF assms]
  obtain M' where M': "memory_init stub_memory_api fresh w d M = Done (ZE_RESULT_SUCCESS, M', w)"
      "holds (memoryModules M') (memoryModulesCount M') (stub_handles STUB_HANDLE_MEM d (length (elems (dev_memory_modules dev))))"
    using stub_memory.enumerated [OF w enum_mem.listed_objects [OF assms]] by blast
  then show ?thesis
    using used_within_total [THEN conjunct1]
    by (simp add: Let_def stub_memory.memory_used [OF w M'(2)] stub_modules_read [OF assms])
qed

text \<open>
  The use of memory per tile, over the stub: a tile is listed when one of its device-local modules can be read,
  with the sizes less the free bytes of those modules added up - modulo \<open>2 ^ 64\<close>, so a module with more free than
  allocatable bytes makes the sum wrap around. The result is that of the last module only.
\<close>

theorem memory_per_tile_on_stub:
  assumes "listed UNSUPPORTED_FEATURE_MEMORY_MODULES (\<lambda>d. rv_zesDeviceEnumMemoryModules (dev_return_values d)) dev_memory_modules w d dev"
  shows "let rs = map (module_of (\<lambda>p. mem_properties_location p = ZES_MEM_LOC_DEVICE) w d) (elems (dev_memory_modules dev));
      ms = present (goods rs) in
    \<exists>usage. obind (memory_init stub_memory_api fresh w d M) (\<lambda>(_, M, w). getMemoryUsagePerTile stub_memory_api F w M) =
        Done (last_result ZE_RESULT_SUCCESS rs, usage, w)
      \<and> (\<lambda>t. map_option usedBytes (usage t)) = tile_sum (map (\<lambda>(p, s). (module_tile p, mem_state_size s - mem_state_free s)) ms)"
proof -
  note w = listed_ready [OF assms]
  obtain M' where M': "memory_init stub_memory_api fresh w d M = Done (ZE_RESULT_SUCCESS, M', w)"
      "holds (memoryModules M') (memoryModulesCount M') (stub_handles STUB_HANDLE_MEM d (length (elems (dev_memory_modules dev))))"
    using stub_memory.enumerated [OF w enum_mem.listed_objects [OF assms]] by blast
  show ?thesis
    using M'(2) stub_memory.usage_loop [OF w, of "[0..<length (stub_handles STUB_HANDLE_MEM d (length (elems (dev_memory_modules dev))))]" M'
        "stub_handles STUB_HANDLE_MEM d (length (elems (dev_memory_modules dev)))" ZE_RESULT_SUCCESS Map.empty Map.empty]
    by (simp add: M'(1) getMemoryUsagePerTile_def holds_def map_handles stub_modules_read [OF assms] Let_def option.map_comp comp_def
        option.map_ident del: length_stub_handles)
qed

end
