(* ===== verification/Hal_Temperature.thy ===== *)
theory Hal_Temperature
  imports Hal_Base
begin

text \<open>
  Temperatures (\<^verbatim>\<open>hal/core/temperature.cpp\<close>): the sensors of a device, the thresholds of the configuration
  file, and the conversion of the refresh codes that LPDDR5 memory reports instead of degrees. The JSON library
  is an argument: what a parsed value contains, holds under a key, lists and converts to.
\<close>

definition ZES_TEMP_SENSORS_GPU :: u32 where "ZES_TEMP_SENSORS_GPU = 1"
definition ZES_TEMP_SENSORS_MEMORY :: u32 where "ZES_TEMP_SENSORS_MEMORY = 2"
definition ZES_MEM_TYPE_LPDDR5 :: u32 where "ZES_MEM_TYPE_LPDDR5 = 8"

record 'w temperature_api =
  zesDeviceEnumTemperatureSensors_l0 :: "'w zes_enum"
  zesTemperatureGetProperties_l0 :: "('w, zes_temp_properties_t) zes_get"
  zesTemperatureGetState_l0 :: "('w, double64) zes_get"
  zesDeviceGetProperties_temp :: "('w, zes_device_properties_t) zes_get"
  zesDeviceEnumMemoryModules_temp :: "'w zes_enum"
  zesMemoryGetProperties_temp :: "('w, zes_mem_properties_t) zes_get"

record TemperatureThresholds =
  pHealthDeviceToThrottleCoreTemperatures :: "u32 \<rightharpoonup> u64"
  pHealthDeviceToShutdownCoreTemperatures :: "u32 \<rightharpoonup> u64"
  pHealthDeviceToShutdownMemoryTemperatures :: "u32 \<rightharpoonup> u64"

record temperature =
  temperatureCount :: u32
  temperatureHandles :: "u64 list option"
  thresholds :: "TemperatureThresholds option"
  defaultCoreThrottleThreshold :: u64
  defaultCoreShutdownThreshold :: u64
  defaultMemoryShutdownThreshold :: u64
  hasLpddr5Memory :: bool

section \<open>Thresholds\<close>

definition threshold_or :: "(u32 \<rightharpoonup> u64) \<Rightarrow> u32 \<Rightarrow> u64 \<Rightarrow> u64" where
  "threshold_or m deviceId defaultValue = (case m deviceId of None \<Rightarrow> defaultValue | Some v \<Rightarrow> v)"

definition setThrottleCoreTemperature :: "u32 \<Rightarrow> u64 \<Rightarrow> TemperatureThresholds \<Rightarrow> TemperatureThresholds" where
  "setThrottleCoreTemperature deviceId v T =
     T\<lparr>pHealthDeviceToThrottleCoreTemperatures := (pHealthDeviceToThrottleCoreTemperatures T)(deviceId \<mapsto> v)\<rparr>"

definition setShutdownCoreTemperature :: "u32 \<Rightarrow> u64 \<Rightarrow> TemperatureThresholds \<Rightarrow> TemperatureThresholds" where
  "setShutdownCoreTemperature deviceId v T =
     T\<lparr>pHealthDeviceToShutdownCoreTemperatures := (pHealthDeviceToShutdownCoreTemperatures T)(deviceId \<mapsto> v)\<rparr>"

definition setShutdownMemoryTemperature :: "u32 \<Rightarrow> u64 \<Rightarrow> TemperatureThresholds \<Rightarrow> TemperatureThresholds" where
  "setShutdownMemoryTemperature deviceId v T =
     T\<lparr>pHealthDeviceToShutdownMemoryTemperatures := (pHealthDeviceToShutdownMemoryTemperatures T)(deviceId \<mapsto> v)\<rparr>"

text \<open>The thresholds are gone after the destructor: reading them is a fault.\<close>

definition getThrottleCoreTemperature :: "u32 \<Rightarrow> temperature \<Rightarrow> u64 outcome" where
  "getThrottleCoreTemperature pciDeviceId T = (case thresholds T of None \<Rightarrow> Fault
     | Some th \<Rightarrow> Done (threshold_or (pHealthDeviceToThrottleCoreTemperatures th) pciDeviceId (defaultCoreThrottleThreshold T)))"

definition getShutdownCoreTemperature :: "u32 \<Rightarrow> temperature \<Rightarrow> u64 outcome" where
  "getShutdownCoreTemperature pciDeviceId T = (case thresholds T of None \<Rightarrow> Fault
     | Some th \<Rightarrow> Done (threshold_or (pHealthDeviceToShutdownCoreTemperatures th) pciDeviceId (defaultCoreShutdownThreshold T)))"

definition getShutdownMemoryTemperature :: "u32 \<Rightarrow> temperature \<Rightarrow> u64 outcome" where
  "getShutdownMemoryTemperature pciDeviceId T = (case thresholds T of None \<Rightarrow> Fault
     | Some th \<Rightarrow> Done (threshold_or (pHealthDeviceToShutdownMemoryTemperatures th) pciDeviceId (defaultMemoryShutdownThreshold T)))"

section \<open>The configuration file\<close>

text \<open>
  \<open>j_contains\<close> is \<open>contains\<close>, \<open>j_at\<close> the subscript (made after \<open>contains\<close>), \<open>j_entries\<close> the elements from
  \<open>begin\<close> to \<open>end\<close> with their keys - no key where asking for one throws - and \<open>j_u64\<close> the conversion, nothing where
  it throws.
\<close>

record 'j json_api =
  j_contains :: "'j \<Rightarrow> string \<Rightarrow> bool"
  j_at :: "'j \<Rightarrow> string \<Rightarrow> 'j"
  j_entries :: "'j \<Rightarrow> (string option \<times> 'j) list"
  j_items :: "'j \<Rightarrow> (string \<times> 'j) list"
  j_u64 :: "'j \<Rightarrow> u64 option"

definition hex_value :: "char \<Rightarrow> nat option" where
  "hex_value c = (let n = of_char c :: nat in
     if 48 \<le> n \<and> n \<le> 57 then Some (n - 48)
     else if 65 \<le> n \<and> n \<le> 70 then Some (n - 55)
     else if 97 \<le> n \<and> n \<le> 102 then Some (n - 87)
     else None)"

definition is_space :: "char \<Rightarrow> bool" where
  "is_space c = (let n = of_char c :: nat in n = 32 \<or> 9 \<le> n \<and> n \<le> 13)"

fun hex_digits :: "string \<Rightarrow> nat list" where
  "hex_digits [] = []"
| "hex_digits (c # cs) = (case hex_value c of None \<Rightarrow> [] | Some d \<Rightarrow> d # hex_digits cs)"

definition hex_number :: "nat list \<Rightarrow> nat" where
  "hex_number ds = foldl (\<lambda>a d. 16 * a + d) 0 ds"

definition strip_sign :: "string \<Rightarrow> bool \<times> string" where
  "strip_sign s = (case s of c # cs \<Rightarrow> if c = CHR ''-'' then (True, cs) else if c = CHR ''+'' then (False, cs) else (False, s)
     | [] \<Rightarrow> (False, []))"

text \<open>The prefix counts when a digit follows it.\<close>

definition strip_0x :: "string \<Rightarrow> string" where
  "strip_0x s = (case s of z # x # d # ds \<Rightarrow>
       if z = CHR ''0'' \<and> (x = CHR ''x'' \<or> x = CHR ''X'') \<and> hex_value d \<noteq> None then d # ds else s
     | _ \<Rightarrow> s)"

text \<open>\<open>std::stoul\<close> with base 16: nothing where it throws; a minus sign negates modulo \<open>2 ^ 64\<close>.\<close>

definition stoul16 :: "string \<Rightarrow> u64 option" where
  "stoul16 s = (let (neg, s) = strip_sign (dropWhile is_space s); ds = hex_digits (strip_0x s); v = hex_number ds in
     if ds = [] \<or> 2 ^ 64 \<le> v then None else Some (if neg then - word_of_nat v else word_of_nat v))"

definition parseDeviceId :: "string \<Rightarrow> u32 option" where
  "parseDeviceId hexKey = map_option ucast (stoul16 hexKey)"

text \<open>A number written in hexadecimal, the most significant digit first.\<close>

definition hex_char :: "nat \<Rightarrow> char" where
  "hex_char d = char_of (if d < 10 then 48 + d else 87 + d)"

fun hex_string :: "nat \<Rightarrow> string" where
  "hex_string n = (if n < 16 then [hex_char n] else hex_string (n div 16) @ [hex_char (n mod 16)])"

declare hex_string.simps [simp del]

lemma hex_value_char: "d < 16 \<Longrightarrow> hex_value (hex_char d) = Some d"
  by (simp add: hex_value_def hex_char_def Let_def)

lemma hex_digits_append: "list_all (\<lambda>c. hex_value c \<noteq> None) s \<Longrightarrow> hex_digits (s @ t) = hex_digits s @ hex_digits t"
  by (induction s) (auto split: option.splits)

lemma hex_string_digits: "list_all (\<lambda>c. hex_value c \<noteq> None) (hex_string n)"
  by (induction n rule: hex_string.induct) (subst hex_string.simps, simp add: hex_value_char)

lemma hex_number_string: "hex_number (hex_digits (hex_string n)) = n"
proof (induction n rule: hex_string.induct)
  case (1 n)
  show ?case
  proof (cases "n < 16")
    case True
    then show ?thesis by (subst hex_string.simps) (simp add: hex_value_char hex_number_def)
  next
    case False
    with 1 show ?thesis
      by (subst hex_string.simps) (simp add: hex_digits_append [OF hex_string_digits] hex_value_char hex_number_def)
  qed
qed

lemma hex_string_starts: "\<exists>c cs. hex_string n = c # cs \<and> hex_value c \<noteq> None"
  using hex_string_digits [of n] by (cases "hex_string n") (auto simp: hex_string.simps [of n] split: if_splits)

text \<open>A device id in hexadecimal with the prefix 0x, as the configuration file has them, is read back.\<close>

theorem device_id_roundtrip:
  assumes "n < 2 ^ 32"
  shows "parseDeviceId (''0x'' @ hex_string n) = Some (word_of_nat n)"
proof -
  obtain c cs where c: "hex_string n = c # cs" "hex_value c \<noteq> None"
    using hex_string_starts by blast
  then have "strip_0x (''0x'' @ hex_string n) = hex_string n"
    by (simp add: strip_0x_def)
  moreover have "hex_digits (hex_string n) \<noteq> []"
    using c by auto
  ultimately have "stoul16 (''0x'' @ hex_string n) = Some (word_of_nat n)"
    using assms by (simp add: stoul16_def strip_sign_def is_space_def hex_number_string Let_def)
  then show ?thesis
    using assms by (simp add: parseDeviceId_def unsigned_of_nat take_bit_nat_eq_self)
qed

theorem device_id_roundtrip_witness: "parseDeviceId (''0x'' @ hex_string 0xE223) = Some 0xE223"
  using device_id_roundtrip [of "0xE223"] by simp

text \<open>
  The entries of a section: one that does not parse is skipped, but the message about it asks for its key, so
  an entry without one ends the loading of the file (\<open>True\<close>: an exception is on its way).
\<close>

fun threshold_entries ::
  "'j json_api \<Rightarrow> (u32 \<Rightarrow> u64 \<Rightarrow> TemperatureThresholds \<Rightarrow> TemperatureThresholds) \<Rightarrow> (string option \<times> 'j) list \<Rightarrow>
   TemperatureThresholds \<Rightarrow> bool \<times> TemperatureThresholds" where
  "threshold_entries J setter [] th = (False, th)"
| "threshold_entries J setter ((None, v) # es) th = (True, th)"
| "threshold_entries J setter ((Some k, v) # es) th = (case (parseDeviceId k, j_u64 J v) of
       (Some deviceId, Some threshold) \<Rightarrow> threshold_entries J setter es (setter deviceId threshold th)
     | _ \<Rightarrow> threshold_entries J setter es th)"

definition loadThresholdSection ::
  "'j json_api \<Rightarrow> 'j \<Rightarrow> string \<Rightarrow> (u32 \<Rightarrow> u64 \<Rightarrow> TemperatureThresholds \<Rightarrow> TemperatureThresholds) \<Rightarrow>
   TemperatureThresholds \<Rightarrow> bool \<times> TemperatureThresholds" where
  "loadThresholdSection J thresholdsJson key setter th =
     (if j_contains J thresholdsJson key then threshold_entries J setter (j_entries J (j_at J thresholdsJson key)) th
      else (False, th))"

text \<open>A default of the file, if it is there; a value that does not convert throws.\<close>

definition load_default :: "'j json_api \<Rightarrow> 'j \<Rightarrow> string \<Rightarrow> (u64 \<Rightarrow> temperature \<Rightarrow> temperature) \<Rightarrow> temperature \<Rightarrow> bool \<times> temperature" where
  "load_default J defaults key upd T =
     (if j_contains J defaults key then (case j_u64 J (j_at J defaults key) of None \<Rightarrow> (True, T) | Some v \<Rightarrow> (False, upd v T))
      else (False, T))"

definition and_then :: "bool \<times> 's \<Rightarrow> ('s \<Rightarrow> bool \<times> 's) \<Rightarrow> bool \<times> 's" where
  "and_then x f = (if fst x then x else f (snd x))"

definition load_defaults :: "'j json_api \<Rightarrow> 'j \<Rightarrow> temperature \<Rightarrow> bool \<times> temperature" where
  "load_defaults J configJson T =
     (if j_contains J configJson ''default_thresholds'' then
        let defaults = j_at J configJson ''default_thresholds'' in
        and_then (and_then (load_default J defaults ''core_throttle'' (\<lambda>v T. T\<lparr>defaultCoreThrottleThreshold := v\<rparr>) T)
          (load_default J defaults ''core_shutdown'' (\<lambda>v T. T\<lparr>defaultCoreShutdownThreshold := v\<rparr>)))
          (load_default J defaults ''memory_shutdown'' (\<lambda>v T. T\<lparr>defaultMemoryShutdownThreshold := v\<rparr>))
      else (False, T))"

definition load_sections :: "'j json_api \<Rightarrow> 'j \<Rightarrow> TemperatureThresholds \<Rightarrow> bool \<times> TemperatureThresholds" where
  "load_sections J configJson th =
     (if j_contains J configJson ''temperature_thresholds'' then
        let thresholdsJson = j_at J configJson ''temperature_thresholds'' in
        and_then (and_then (loadThresholdSection J thresholdsJson ''throttle_core'' setThrottleCoreTemperature th)
          (loadThresholdSection J thresholdsJson ''shutdown_core'' setShutdownCoreTemperature))
          (loadThresholdSection J thresholdsJson ''shutdown_memory'' setShutdownMemoryTemperature)
      else (False, th))"

text \<open>
  \<open>config\<close> is the file: absent when it cannot be opened, \<open>Some None\<close> when it is no JSON. Whatever throws, the settings
  made before it stay.
\<close>

definition loadTemperatureThresholds :: "'j json_api \<Rightarrow> 'j option option \<Rightarrow> temperature \<Rightarrow> temperature outcome" where
  "loadTemperatureThresholds J config T = (case config of
       Some (Some configJson) \<Rightarrow>
         (let (thrown, T) = load_defaults J configJson T in
          if thrown then Done T
          else (case thresholds T of None \<Rightarrow> Fault
            | Some th \<Rightarrow> Done (T\<lparr>thresholds := Some (snd (load_sections J configJson th))\<rparr>)))
     | _ \<Rightarrow> Done T)"

definition temperature_constructor :: "'j json_api \<Rightarrow> 'j option option \<Rightarrow> temperature outcome" where
  "temperature_constructor J config = loadTemperatureThresholds J config
     \<lparr>temperatureCount = 0, temperatureHandles = None, thresholds = Some \<lparr>pHealthDeviceToThrottleCoreTemperatures = Map.empty,
       pHealthDeviceToShutdownCoreTemperatures = Map.empty, pHealthDeviceToShutdownMemoryTemperatures = Map.empty\<rparr>,
       defaultCoreThrottleThreshold = 105, defaultCoreShutdownThreshold = 130, defaultMemoryShutdownThreshold = 100,
       hasLpddr5Memory = False\<rparr>"

definition temperature_destructor :: "temperature \<Rightarrow> temperature" where
  "temperature_destructor T = T\<lparr>temperatureHandles := None, thresholds := None\<rparr>"

text \<open>Nothing the configuration holds takes the thresholds away.\<close>

lemma load_default_keeps:
  "(\<And>v T. thresholds (upd v T) = thresholds T) \<Longrightarrow> thresholds (snd (load_default J defaults key upd T)) = thresholds T"
  by (simp add: load_default_def split: option.splits)

lemma load_defaults_keeps: "thresholds (snd (load_defaults J configJson T)) = thresholds T"
  by (simp add: load_defaults_def and_then_def load_default_keeps Let_def)

lemma constructed: "temperature_constructor J config = Done T \<Longrightarrow> \<exists>th. thresholds T = Some th"
  by (auto simp: temperature_constructor_def loadTemperatureThresholds_def case_prod_unfold load_defaults_keeps Let_def
    split: option.splits if_splits)

section \<open>Refresh codes\<close>

definition kMr4ToCelsius :: "double64 list" where
  "kMr4ToCelsius = [0x0, 0x4046800000000000, 0x4055400000000000, 0x4057C00000000000, 0x405A400000000000, 0x405B800000000000,
     0x405F400000000000, 0x405F400000000000]"

text \<open>7.0, 1e-9 and 150.0 as double precision numbers.\<close>

definition LPDDR5_MR4_MAX_CODE :: double64 where "LPDDR5_MR4_MAX_CODE = 0x401C000000000000"
definition double_1e_9 :: double64 where "double_1e_9 = 0x3E112E0BE826D695"
definition MAX_REASONABLE_TEMP_CELSIUS :: double64 where "MAX_REASONABLE_TEMP_CELSIUS = 0x4062C00000000000"

definition mr4CodeToCelsius :: "fp64 \<Rightarrow> double64 \<Rightarrow> double64 outcome" where
  "mr4CodeToCelsius F rawValue =
     (if \<not> fp_finite F rawValue \<or> fp_less F rawValue 0 \<or> fp_less F LPDDR5_MR4_MAX_CODE rawValue then Done rawValue
      else let rounded = fp_round F rawValue in
        if fp_less F double_1e_9 (fp_distance F rawValue rounded) then Done rawValue
        else let code = unat (fp_to_u32 F rounded) in
          if code < length kMr4ToCelsius then Done (kMr4ToCelsius ! code) else Fault)"

section \<open>Sensors\<close>

definition enumTemperatureDomains ::
  "'w temperature_api \<Rightarrow> (nat \<Rightarrow> u64) \<Rightarrow> 'w \<Rightarrow> u64 \<Rightarrow> temperature \<Rightarrow> (ze_result_t \<times> temperature \<times> 'w) outcome" where
  "enumTemperatureDomains A fresh w device T =
     obind (zes_count (zesDeviceEnumTemperatureSensors_l0 A) w device (temperatureCount T)) (\<lambda>(result, n, w).
       if result \<noteq> ZE_RESULT_SUCCESS \<or> n = 0 then Done (result, T\<lparr>temperatureCount := n\<rparr>, w)
       else obind (zes_handles (zesDeviceEnumTemperatureSensors_l0 A) w device n (map fresh [0..<unat n])) (\<lambda>(result, n, hs, w).
         Done (result, T\<lparr>temperatureCount := n, temperatureHandles := Some hs\<rparr>, w)))"

definition temperature_getProperties ::
  "'w temperature_api \<Rightarrow> 'w \<Rightarrow> u64 \<Rightarrow> zes_temp_properties_t \<Rightarrow> (ze_result_t \<times> zes_temp_properties_t \<times> 'w) outcome" where
  "temperature_getProperties A w h p = zes_query (zesTemperatureGetProperties_l0 A) w h p"

definition temperature_getState ::
  "'w temperature_api \<Rightarrow> 'w \<Rightarrow> u64 \<Rightarrow> double64 \<Rightarrow> (ze_result_t \<times> double64 \<times> 'w) outcome" where
  "temperature_getState A w h temp = zes_query (zesTemperatureGetState_l0 A) w h temp"

text \<open>The first sensor of the type that can be read ends the loop.\<close>

primrec temp_loop ::
  "'w temperature_api \<Rightarrow> u32 \<Rightarrow> temperature \<Rightarrow> nat list \<Rightarrow> zes_temp_properties_t \<Rightarrow> bool \<Rightarrow> double64 \<Rightarrow> 'w \<Rightarrow>
   (ze_result_t \<times> double64 \<times> 'w) outcome" where
  "temp_loop A type T [] p sensorFound temp w =
     Done (if sensorFound then ZE_RESULT_SUCCESS else ZE_RESULT_ERROR_UNSUPPORTED_FEATURE, temp, w)"
| "temp_loop A type T (i # is) p sensorFound temp w =
     obind (handle_at (temperatureHandles T) i) (\<lambda>h.
     obind (temperature_getProperties A w h p) (\<lambda>(result, p, w).
       if result \<noteq> ZE_RESULT_SUCCESS then temp_loop A type T is p sensorFound temp w
       else if temp_properties_type p = type then
         obind (temperature_getState A w h temp) (\<lambda>(result, temp, w).
           if result = ZE_RESULT_SUCCESS then Done (result, temp, w)
           else temp_loop A type T is p True temp w)
       else temp_loop A type T is p sensorFound temp w))"

definition getTemp ::
  "'w temperature_api \<Rightarrow> zes_temp_properties_t \<Rightarrow> 'w \<Rightarrow> u32 \<Rightarrow> double64 option \<Rightarrow> temperature \<Rightarrow>
   (ze_result_t \<times> double64 option \<times> 'w) outcome" where
  "getTemp A local w type temp T = (case temp of
       None \<Rightarrow> Done (ZE_RESULT_ERROR_INVALID_NULL_POINTER, None, w)
     | Some _ \<Rightarrow> obind (temp_loop A type T [0..<unat (temperatureCount T)] local False 0 w) (\<lambda>(result, temp, w).
         Done (result, Some temp, w)))"

definition zero_temp_properties :: zes_temp_properties_t where
  "zero_temp_properties = \<lparr>stype = 0, pNext = 0, temp_properties_type = 0, temp_properties_onSubdevice = 0,
     temp_properties_subdeviceId = 0, temp_properties_maxTemperature = 0, temp_properties_isCriticalTempSupported = 0,
     temp_properties_isThreshold1Supported = 0, temp_properties_isThreshold2Supported = 0\<rparr>"

definition sensor_tile :: "zes_temp_properties_t \<Rightarrow> u32" where
  "sensor_tile p = (if temp_properties_onSubdevice p \<noteq> 0 then temp_properties_subdeviceId p else 0)"

primrec tile_temp_loop ::
  "'w temperature_api \<Rightarrow> fp64 \<Rightarrow> u32 \<Rightarrow> temperature \<Rightarrow> nat list \<Rightarrow> (u32 \<rightharpoonup> double64) \<Rightarrow> 'w \<Rightarrow>
   (ze_result_t \<times> (u32 \<rightharpoonup> double64) \<times> 'w) outcome" where
  "tile_temp_loop A F type T [] m w = Done (ZE_RESULT_SUCCESS, m, w)"
| "tile_temp_loop A F type T (i # is) m w =
     obind (handle_at (temperatureHandles T) i) (\<lambda>h.
     obind (temperature_getProperties A w h zero_temp_properties) (\<lambda>(result, p, w).
       if result \<noteq> ZE_RESULT_SUCCESS then tile_temp_loop A F type T is m w
       else if temp_properties_type p \<noteq> type then tile_temp_loop A F type T is m w
       else obind (temperature_getState A w h 0) (\<lambda>(result, temp, w).
         if result \<noteq> ZE_RESULT_SUCCESS then tile_temp_loop A F type T is m w
         else obind (if type = ZES_TEMP_SENSORS_MEMORY \<and> hasLpddr5Memory T then mr4CodeToCelsius F temp else Done temp) (\<lambda>temp.
           tile_temp_loop A F type T is (if fp_less F temp MAX_REASONABLE_TEMP_CELSIUS then m(sensor_tile p \<mapsto> temp) else m) w))))"

definition getTempPerTile ::
  "'w temperature_api \<Rightarrow> fp64 \<Rightarrow> 'w \<Rightarrow> u32 \<Rightarrow> temperature \<Rightarrow> (ze_result_t \<times> (u32 \<rightharpoonup> double64) \<times> 'w) outcome" where
  "getTempPerTile A F w type T = tile_temp_loop A F type T [0..<unat (temperatureCount T)] Map.empty w"

definition getCoreTemp ::
  "'w temperature_api \<Rightarrow> zes_temp_properties_t \<Rightarrow> 'w \<Rightarrow> double64 option \<Rightarrow> temperature \<Rightarrow> (ze_result_t \<times> double64 option \<times> 'w) outcome" where
  "getCoreTemp A local w coreTemp T = getTemp A local w ZES_TEMP_SENSORS_GPU coreTemp T"

definition getMemoryTemp ::
  "'w temperature_api \<Rightarrow> fp64 \<Rightarrow> zes_temp_properties_t \<Rightarrow> 'w \<Rightarrow> double64 option \<Rightarrow> temperature \<Rightarrow>
   (ze_result_t \<times> double64 option \<times> 'w) outcome" where
  "getMemoryTemp A F local w memTemp T =
     obind (getTemp A local w ZES_TEMP_SENSORS_MEMORY memTemp T) (\<lambda>(result, memTemp, w).
       if result = ZE_RESULT_SUCCESS \<and> hasLpddr5Memory T then (case memTemp of
           None \<Rightarrow> Done (result, None, w)
         | Some t \<Rightarrow> obind (mr4CodeToCelsius F t) (\<lambda>t. Done (result, Some t, w)))
       else Done (result, memTemp, w))"

section \<open>Thresholds of a device\<close>

definition zero_core_properties :: ze_device_properties_t where
  "zero_core_properties = \<lparr>stype = 0, pNext = 0, ze_device_properties_type = 0, ze_device_properties_vendorId = 0,
     ze_device_properties_deviceId = 0, ze_device_properties_flags = 0, ze_device_properties_subdeviceId = 0,
     ze_device_properties_coreClockRate = 0, ze_device_properties_maxMemAllocSize = 0, ze_device_properties_maxHardwareContexts = 0,
     ze_device_properties_maxCommandQueuePriority = 0, ze_device_properties_numThreadsPerEU = 0,
     ze_device_properties_physicalEUSimdWidth = 0, ze_device_properties_numEUsPerSubslice = 0,
     ze_device_properties_numSubslicesPerSlice = 0, ze_device_properties_numSlices = 0, ze_device_properties_timerResolution = 0,
     ze_device_properties_timestampValidBits = 0, ze_device_properties_kernelTimestampValidBits = 0,
     ze_device_properties_uuid = \<lparr>ze_device_uuid_id = replicate 16 0\<rparr>, ze_device_properties_name = []\<rparr>"

definition device_properties_local :: zes_device_properties_t where
  "device_properties_local = \<lparr>stype = 1, pNext = 0, device_properties_core = zero_core_properties, device_properties_numSubdevices = 0,
     device_properties_serialNumber = [], device_properties_boardNumber = [], device_properties_brandName = [],
     device_properties_modelName = [], device_properties_vendorName = [], device_properties_driverVersion = []\<rparr>"

text \<open>A failed query is reported as a success that writes nothing; the outputs are not checked for null.\<close>

definition getCoreThreshold ::
  "'w temperature_api \<Rightarrow> 'w \<Rightarrow> u64 \<Rightarrow> u32 option \<Rightarrow> u32 option \<Rightarrow> temperature \<Rightarrow>
   (ze_result_t \<times> u32 option \<times> u32 option \<times> 'w) outcome" where
  "getCoreThreshold A w device throttleThreshold shutdownThreshold T =
     obind (zes_query (zesDeviceGetProperties_temp A) w device device_properties_local) (\<lambda>(result, props, w).
       if result \<noteq> ZE_RESULT_SUCCESS then Done (ZE_RESULT_SUCCESS, throttleThreshold, shutdownThreshold, w)
       else let deviceId = ze_device_properties_deviceId (device_properties_core props) in
         obind (getThrottleCoreTemperature deviceId T) (\<lambda>throttle.
         obind (getShutdownCoreTemperature deviceId T) (\<lambda>shutdown.
           if throttleThreshold = None \<or> shutdownThreshold = None then Fault
           else Done (ZE_RESULT_SUCCESS, Some (ucast throttle), Some (ucast shutdown), w))))"

definition getMemoryThreshold ::
  "'w temperature_api \<Rightarrow> 'w \<Rightarrow> u64 \<Rightarrow> u32 option \<Rightarrow> u32 option \<Rightarrow> temperature \<Rightarrow>
   (ze_result_t \<times> u32 option \<times> u32 option \<times> 'w) outcome" where
  "getMemoryThreshold A w device throttleThreshold shutdownThreshold T =
     obind (zes_query (zesDeviceGetProperties_temp A) w device device_properties_local) (\<lambda>(result, props, w).
       if result \<noteq> ZE_RESULT_SUCCESS then Done (ZE_RESULT_SUCCESS, throttleThreshold, shutdownThreshold, w)
       else let deviceId = ze_device_properties_deviceId (device_properties_core props) in
         obind (getShutdownMemoryTemperature deviceId T) (\<lambda>shutdown.
           if throttleThreshold = None \<or> shutdownThreshold = None then Fault
           else Done (ZE_RESULT_SUCCESS, Some 85, Some (ucast shutdown), w)))"

section \<open>Initialisation\<close>

definition lpddr5_properties_local :: zes_mem_properties_t where
  "lpddr5_properties_local = \<lparr>stype = 0xb, pNext = 0, mem_properties_type = 0, mem_properties_onSubdevice = 0,
     mem_properties_subdeviceId = 0, mem_properties_location = 0, mem_properties_physicalSize = 0,
     mem_properties_busWidth = 0, mem_properties_numChannels = 0\<rparr>"

primrec lpddr5_loop :: "'w temperature_api \<Rightarrow> u64 list \<Rightarrow> nat list \<Rightarrow> 'w \<Rightarrow> (bool \<times> 'w) outcome" where
  "lpddr5_loop A handles [] w = Done (False, w)"
| "lpddr5_loop A handles (i # is) w =
     obind (handle_at (Some handles) i) (\<lambda>h.
     obind (zes_query (zesMemoryGetProperties_temp A) w h lpddr5_properties_local) (\<lambda>(result, props, w).
       if result = ZE_RESULT_SUCCESS \<and> mem_properties_type props = ZES_MEM_TYPE_LPDDR5 then Done (True, w)
       else lpddr5_loop A handles is w))"

definition detectLpddr5Memory ::
  "'w temperature_api \<Rightarrow> 'w \<Rightarrow> u64 \<Rightarrow> temperature \<Rightarrow> (ze_result_t \<times> temperature \<times> 'w) outcome" where
  "detectLpddr5Memory A w device T = (let T = T\<lparr>hasLpddr5Memory := False\<rparr> in
     obind (zes_count (zesDeviceEnumMemoryModules_temp A) w device 0) (\<lambda>(result, count, w).
       if result \<noteq> ZE_RESULT_SUCCESS \<or> count = 0 then Done (result, T, w)
       else obind (zes_handles (zesDeviceEnumMemoryModules_temp A) w device count (replicate (unat count) 0))
         (\<lambda>(result, count, handles, w).
           if result \<noteq> ZE_RESULT_SUCCESS then Done (result, T, w)
           else obind (lpddr5_loop A handles [0..<unat count] w) (\<lambda>(found, w).
             Done (ZE_RESULT_SUCCESS, T\<lparr>hasLpddr5Memory := found\<rparr>, w)))))"

definition temperature_init ::
  "'w temperature_api \<Rightarrow> (nat \<Rightarrow> u64) \<Rightarrow> 'w \<Rightarrow> u64 \<Rightarrow> temperature \<Rightarrow> (ze_result_t \<times> temperature \<times> 'w) outcome" where
  "temperature_init A fresh w device T =
     obind (enumTemperatureDomains A fresh w device T) (\<lambda>(result, T, w).
     obind (detectLpddr5Memory A w device T) (\<lambda>(_, T, w). Done (result, T, w)))"

primrec temperature_run_loop ::
  "'w temperature_api \<Rightarrow> temperature \<Rightarrow> nat list \<Rightarrow> zes_temp_properties_t \<Rightarrow> double64 \<Rightarrow> 'w \<Rightarrow> (ze_result_t \<times> 'w) outcome" where
  "temperature_run_loop A T [] p temp w = Done (ZE_RESULT_SUCCESS, w)"
| "temperature_run_loop A T (i # is) p temp w =
     obind (handle_at (temperatureHandles T) i) (\<lambda>h.
     obind (temperature_getProperties A w h p) (\<lambda>(result, p, w).
       if result \<noteq> ZE_RESULT_SUCCESS then Done (result, w)
       else obind (temperature_getState A w h temp) (\<lambda>(result, temp, w).
         if result \<noteq> ZE_RESULT_SUCCESS then Done (result, w)
         else temperature_run_loop A T is p temp w)))"

definition temperature_zesRun ::
  "'w temperature_api \<Rightarrow> zes_temp_properties_t \<Rightarrow> double64 \<Rightarrow> 'w \<Rightarrow> temperature \<Rightarrow> (ze_result_t \<times> 'w) outcome" where
  "temperature_zesRun A local local_temp w T = temperature_run_loop A T [0..<unat (temperatureCount T)] local local_temp w"

section \<open>On a driver that keeps its promises\<close>

text \<open>
  What the double precision operations have to promise for the table to be in reach: rounding a number from 0 to 7
  gives one of the codes.
\<close>

definition rounds_to_code :: "fp64 \<Rightarrow> bool" where
  "rounds_to_code F = (\<forall>x. fp_finite F x \<longrightarrow> \<not> fp_less F x 0 \<longrightarrow> \<not> fp_less F LPDDR5_MR4_MAX_CODE x \<longrightarrow> unat (fp_to_u32 F (fp_round F x)) < 8)"

definition celsius :: "fp64 \<Rightarrow> double64 \<Rightarrow> double64" where
  "celsius F x = (case mr4CodeToCelsius F x of Done t \<Rightarrow> t | Fault \<Rightarrow> x)"

lemma mr4_in_table: "rounds_to_code F \<Longrightarrow> mr4CodeToCelsius F x = Done (celsius F x)"
  by (auto simp: celsius_def mr4CodeToCelsius_def rounds_to_code_def kMr4ToCelsius_def Let_def)

text \<open>What a temperature query answers, from the sensors of the type that answer it.\<close>

definition temp_answer :: "bool \<Rightarrow> double64 list \<Rightarrow> ze_result_t \<times> double64" where
  "temp_answer found ts = (case ts of t # _ \<Rightarrow> (ZE_RESULT_SUCCESS, t)
     | [] \<Rightarrow> (if found then ZE_RESULT_SUCCESS else ZE_RESULT_ERROR_UNSUPPORTED_FEATURE, 0))"

lemma temp_answer_simps [simp]:
  "temp_answer b (t # ts) = (ZE_RESULT_SUCCESS, t)"
  "temp_answer b [] = (if b then ZE_RESULT_SUCCESS else ZE_RESULT_ERROR_UNSUPPORTED_FEATURE, 0)"
  by (simp_all add: temp_answer_def)

definition tile_temps :: "fp64 \<Rightarrow> bool \<Rightarrow> (zes_temp_properties_t \<times> double64) list \<Rightarrow> (u32 \<times> double64) list" where
  "tile_temps F codes xs = filter (\<lambda>(t, x). fp_less F x MAX_REASONABLE_TEMP_CELSIUS)
     (map (\<lambda>(p, x). (sensor_tile p, if codes then celsius F x else x)) xs)"

locale temperature_driver =
  objs: zes_objects ok "zesDeviceEnumTemperatureSensors_l0 A" sensors +
  props: zes_getter ok "zesTemperatureGetProperties_l0 A" "\<lambda>_. True" mergep props +
  temps: zes_getter ok "zesTemperatureGetState_l0 A" "\<lambda>_. True" "\<lambda>_ v. v" temps +
  devs: zes_getter ok "zesDeviceGetProperties_temp A" goodd merged devs +
  mods: zes_objects ok "zesDeviceEnumMemoryModules_temp A" modules +
  mems: zes_getter ok "zesMemoryGetProperties_temp A" "\<lambda>_. True" mergem mems
  for ok :: "'w \<Rightarrow> bool" and A :: "'w temperature_api" and sensors mergep props temps goodd merged devs modules mergem mems +
  assumes merged_sensor: "temp_properties_type (mergep op p) = temp_properties_type p"
    "temp_properties_onSubdevice (mergep op p) = temp_properties_onSubdevice p"
    "temp_properties_subdeviceId (mergep op p) = temp_properties_subdeviceId p"
    and merged_device: "device_properties_core (merged od d) = device_properties_core d"
    and merged_module: "mem_properties_type (mergem om m) = mem_properties_type m"
    and device_local: "goodd device_properties_local"
begin

definition lpddr5 :: "'w \<Rightarrow> u64 \<Rightarrow> bool" where
  "lpddr5 w d = (case modules w d of Inl e \<Rightarrow> False
     | Inr hs \<Rightarrow> list_ex (\<lambda>h. case mems w h of Inl e \<Rightarrow> False | Inr m \<Rightarrow> mem_properties_type m = ZES_MEM_TYPE_LPDDR5) hs)"

lemma lpddr5_loop:
  assumes "ok w" "\<forall>i\<in>set is. i < length hs"
  shows "lpddr5_loop A hs is w = Done (list_ex (\<lambda>i. case mems w (hs ! i) of Inl e \<Rightarrow> False
    | Inr m \<Rightarrow> mem_properties_type m = ZES_MEM_TYPE_LPDDR5) is, w)"
  using assms(2)
  by (induction "is") (auto simp: assms(1) mems.query_ok mems.fails [OF assms(1)] merged_module split: sum.splits)

lemma detects:
  assumes "ok w"
  shows "\<exists>r. detectLpddr5Memory A w d T = Done (r, T\<lparr>hasLpddr5Memory := lpddr5 w d\<rparr>, w)"
  using assms mods.no_objects [OF assms, of d] mods.length_word [OF assms, of d] mods.refused [OF assms, of d]
    list_ex_handles [where P = "\<lambda>h. case mems w h of Inl e \<Rightarrow> False | Inr m \<Rightarrow> mem_properties_type m = ZES_MEM_TYPE_LPDDR5"]
  by (cases "modules w d")
    (auto simp: detectLpddr5Memory_def lpddr5_def mods.count_ok mods.handles_ok lpddr5_loop Let_def)

lemma initialised:
  assumes "ok w" "sensors w d = Inr hs"
  shows "\<exists>T'. temperature_init A fresh w d T = Done (ZE_RESULT_SUCCESS, T', w) \<and> holds (temperatureHandles T') (temperatureCount T') hs
    \<and> thresholds T' = thresholds T \<and> hasLpddr5Memory T' = lpddr5 w d"
proof -
  obtain T' where T': "enumTemperatureDomains A fresh w d T = Done (ZE_RESULT_SUCCESS, T', w)"
      "holds (temperatureHandles T') (temperatureCount T') hs" "thresholds T' = thresholds T"
    using assms objs.no_objects [OF assms]
    by (cases "hs = []") (simp_all add: enumTemperatureDomains_def objs.count_ok objs.handles_ok objs.length_word holds_none holds_Some)
  then show ?thesis
    using detects [OF assms(1), of d T'] by (auto simp: temperature_init_def)
qed

definition sensor :: "u32 \<Rightarrow> 'w \<Rightarrow> u64 \<Rightarrow> ze_result_t + (zes_temp_properties_t \<times> double64) option" where
  "sensor type w h = both (\<lambda>p. temp_properties_type p = type) (props w h) (temps w h)"

definition of_type :: "u32 \<Rightarrow> 'w \<Rightarrow> u64 \<Rightarrow> bool" where
  "of_type type w h = (case props w h of Inl e \<Rightarrow> False | Inr p \<Rightarrow> temp_properties_type p = type)"

lemmas driver_simps = temperature_getProperties_def temperature_getState_def props.query_ok temps.query_ok merged_sensor

lemma temp_loop:
  assumes "ok w" "\<forall>i\<in>set is. handle_at (temperatureHandles T) i = Done (hs ! i)"
  shows "temp_loop A type T is p found 0 w =
    (let (r, t) = temp_answer (found \<or> list_ex (\<lambda>i. of_type type w (hs ! i)) is)
      (map snd (present (goods (map (\<lambda>i. sensor type w (hs ! i)) is)))) in Done (r, t, w))"
  using assms(2)
  by (induction "is" arbitrary: p found)
    (auto simp: assms(1) driver_simps props.fails [OF assms(1)] temps.fails [OF assms(1)] sensor_def of_type_def Let_def
      split: sum.splits)

lemma temp_read:
  assumes "ok w" "holds (temperatureHandles T) (temperatureCount T) hs"
  shows "getTemp A p w type (Some x) T =
    (let (r, t) = temp_answer (list_ex (of_type type w) hs) (map snd (present (goods (map (sensor type w) hs)))) in Done (r, Some t, w))"
  using assms temp_loop [of w "[0..<length hs]" T hs type p False] list_ex_handles [of "of_type type w" hs]
  by (simp add: getTemp_def holds_def map_handles [of "sensor type w"] case_prod_unfold Let_def)

lemma tile_temps_simps [simp]:
  "tile_temps F b [] = []"
  "tile_temps F b ((p, x) # xs) = (let t = if b then celsius F x else x in
     if fp_less F t MAX_REASONABLE_TEMP_CELSIUS then (sensor_tile p, t) # tile_temps F b xs else tile_temps F b xs)"
  by (simp_all add: tile_temps_def Let_def)

lemma sensor_tile_merge: "sensor_tile (mergep op p) = sensor_tile p"
  by (simp add: sensor_tile_def merged_sensor)

lemma tile_loop:
  assumes "ok w" "\<forall>i\<in>set is. handle_at (temperatureHandles T) i = Done (hs ! i)" "rounds_to_code F"
  shows "tile_temp_loop A F type T is m w =
    (let xs = present (goods (map (\<lambda>i. sensor type w (hs ! i)) is)) in
     Done (ZE_RESULT_SUCCESS, m ++ map_of (rev (tile_temps F (type = ZES_TEMP_SENSORS_MEMORY \<and> hasLpddr5Memory T) xs)), w))"
  using assms(2)
proof (cases "type = ZES_TEMP_SENSORS_MEMORY \<and> hasLpddr5Memory T")
  case True
  with assms(2) show ?thesis
    by (induction "is" arbitrary: m)
      (auto simp: assms(1) driver_simps props.fails [OF assms(1)] temps.fails [OF assms(1)] sensor_def Let_def
        mr4_in_table [OF assms(3)] sensor_tile_merge map_add_rev split: sum.splits)
next
  case False
  with assms(2) show ?thesis
    by (induction "is" arbitrary: m)
      (auto simp: assms(1) driver_simps props.fails [OF assms(1)] temps.fails [OF assms(1)] sensor_def Let_def
        sensor_tile_merge map_add_rev split: sum.splits)
qed

lemma per_tile:
  assumes "ok w" "holds (temperatureHandles T) (temperatureCount T) hs" "rounds_to_code F"
  shows "getTempPerTile A F w type T = Done (ZE_RESULT_SUCCESS,
     map_of (rev (tile_temps F (type = ZES_TEMP_SENSORS_MEMORY \<and> hasLpddr5Memory T) (present (goods (map (sensor type w) hs))))), w)"
  using assms tile_loop [of w "[0..<length hs]" T hs F type Map.empty]
  by (simp add: getTempPerTile_def holds_def map_handles [of "sensor type w"] Let_def)

lemma core_threshold:
  assumes "ok w" "thresholds T = Some th"
  shows "getCoreThreshold A w d (Some x) (Some y) T = Done (case devs w d of
      Inl e \<Rightarrow> (ZE_RESULT_SUCCESS, Some x, Some y, w)
    | Inr p \<Rightarrow> let id = ze_device_properties_deviceId (device_properties_core p) in
        (ZE_RESULT_SUCCESS, Some (ucast (threshold_or (pHealthDeviceToThrottleCoreTemperatures th) id (defaultCoreThrottleThreshold T))),
         Some (ucast (threshold_or (pHealthDeviceToShutdownCoreTemperatures th) id (defaultCoreShutdownThreshold T))), w))"
  using assms devs.fails [OF assms(1)]
  by (auto simp: getCoreThreshold_def devs.query_ok device_local merged_device getThrottleCoreTemperature_def
    getShutdownCoreTemperature_def Let_def split: sum.splits)

end

end
