(* ===== verification/Hal_StubTemp.thy ===== *)
theory Hal_StubTemp
  imports Hal_Stub Hal_Temperature
begin

text \<open>
  Temperatures over the stub: the driver of \<^verbatim>\<open>hal/core/temperature.cpp\<close> interpreted on the stub's entry points.
\<close>

definition stub_temperature_api :: "stub temperature_api" where
  "stub_temperature_api = \<lparr>
     zesDeviceEnumTemperatureSensors_l0 = zesDeviceEnumTemperatureSensors,
     zesTemperatureGetProperties_l0 = zesTemperatureGetProperties,
     zesTemperatureGetState_l0 = zesTemperatureGetState,
     zesDeviceGetProperties_temp = (\<lambda>w h p. obind (zesDeviceGetProperties w h p None) (\<lambda>(result, (p, _), w). Done (result, p, w))),
     zesDeviceEnumMemoryModules_temp = zesDeviceEnumMemoryModules,
     zesMemoryGetProperties_temp = zesMemoryGetProperties\<rparr>"

abbreviation stub_sensors :: "stub \<Rightarrow> u64 \<Rightarrow> ze_result_t + u64 list" where
  "stub_sensors \<equiv> stub_objects STUB_HANDLE_TEMP UNSUPPORTED_FEATURE_TEMPERATURE_SENSORS
     (\<lambda>d. rv_zesDeviceEnumTemperatureSensors (dev_return_values d)) dev_temperature_sensors"

abbreviation stub_temp_properties :: "stub \<Rightarrow> u64 \<Rightarrow> ze_result_t + zes_temp_properties_t" where
  "stub_temp_properties \<equiv> stub_read resolve_temp UNSUPPORTED_FEATURE_TEMP_GET_PROPERTIES
     (\<lambda>t. rv_zesTemperatureGetProperties (temp_return_values t)) (configured temp_properties)"

abbreviation stub_temp_state :: "stub \<Rightarrow> u64 \<Rightarrow> ze_result_t + double64" where
  "stub_temp_state \<equiv> stub_read resolve_temp UNSUPPORTED_FEATURE_TEMP_GET_STATE
     (\<lambda>t. rv_zesTemperatureGetState (temp_return_values t)) (\<lambda>t. Inr (temp_temperature t))"

abbreviation stub_device_properties :: "stub \<Rightarrow> u64 \<Rightarrow> ze_result_t + zes_device_properties_t" where
  "stub_device_properties \<equiv> stub_read resolve_device UNSUPPORTED_FEATURE_GET_PROPERTIES
     (\<lambda>d. rv_zesDeviceGetProperties (dev_return_values d))
     (\<lambda>d. map_sum id device_properties_info_base (configured dev_properties d))"

lemma stub_device_getter:
  "zes_getter ready (\<lambda>w h p. obind (zesDeviceGetProperties w h p None) (\<lambda>(result, (p, _), w). Done (result, p, w)))
     (\<lambda>p. pNext p = 0) keep_header stub_device_properties"
proof (rule stub_ext_getter)
  show "obind (zesDeviceGetProperties w h p None) (\<lambda>(result, (p, _), w). Done (result, p, w)) =
      obind (locked w (\<lambda>s. prologue s h (resolve_device s h)
        UNSUPPORTED_FEATURE_GET_PROPERTIES (\<lambda>d. rv_zesDeviceGetProperties (dev_return_values d)) (p, None)
        (\<lambda>dev. case dev_properties dev of
          Null \<Rightarrow> Done (ZE_RESULT_ERROR_UNSUPPORTED_FEATURE, (p, None))
        | Ptr _ props \<Rightarrow> (case p of
            None \<Rightarrow> Done (ZE_RESULT_ERROR_INVALID_NULL_POINTER, (None, None))
          | Some old \<Rightarrow> copy_with_ext (device_properties_info_base props)
              ZES_STRUCTURE_TYPE_DEVICE_EXT_PROPERTIES
              (device_properties_info_extended_properties props) old None)))) (\<lambda>(result, (p, _), w). Done (result, p, w))" for w h p
    by (simp add: zesDeviceGetProperties_def)
qed (auto simp: resolve_device_wf copy_with_ext_def follow_pNext_def configured_def ze_result_defs split: cptr.splits)

lemma keep_header_core: "device_properties_core (keep_header od d) = device_properties_core d"
  by (cases d) (simp add: keep_header_def)

interpretation stub_temps: temperature_driver ready stub_temperature_api stub_sensors keep_header stub_temp_properties stub_temp_state
    "\<lambda>p. pNext p = 0" keep_header stub_device_properties stub_modules keep_header stub_mem_properties
proof (intro temperature_driver.intro temperature_driver_axioms.intro)
  show "zes_objects ready (zesDeviceEnumTemperatureSensors_l0 stub_temperature_api) stub_sensors"
    by (simp add: stub_temperature_api_def enum_temp.objects)
  show "zes_getter ready (zesTemperatureGetProperties_l0 stub_temperature_api) (\<lambda>_. True) keep_header stub_temp_properties"
    by (intro stub_src_getter) (simp_all add: stub_temperature_api_def zesTemperatureGetProperties_def temp.resolve_wf)
  show "zes_getter ready (zesTemperatureGetState_l0 stub_temperature_api) (\<lambda>_. True) (\<lambda>_ v. v) stub_temp_state"
    by (intro stub_value_getter) (simp_all add: stub_temperature_api_def zesTemperatureGetState_def temp.resolve_wf)
  show "zes_getter ready (zesDeviceGetProperties_temp stub_temperature_api) (\<lambda>p. pNext p = 0) keep_header stub_device_properties"
    by (simp add: stub_temperature_api_def stub_device_getter)
  show "zes_objects ready (zesDeviceEnumMemoryModules_temp stub_temperature_api) stub_modules"
    by (simp add: stub_temperature_api_def enum_mem.objects)
  show "zes_getter ready (zesMemoryGetProperties_temp stub_temperature_api) (\<lambda>_. True) keep_header stub_mem_properties"
    by (intro stub_src_getter) (simp_all add: stub_temperature_api_def zesMemoryGetProperties_def mem.resolve_wf)
qed (simp_all add: keep_header_core, simp_all add: keep_header_def device_properties_local_def)

text \<open>What a configured sensor tells: whether it is of the type, and its temperature when both of its calls succeed.\<close>

definition sensor_properties :: "stub \<Rightarrow> u64 \<Rightarrow> sysman_temp_t \<Rightarrow> ze_result_t + zes_temp_properties_t" where
  "sensor_properties w d = read_component (UNSUPPORTED_FEATURE_TEMP_GET_PROPERTIES \<in> unsupported_set (g_sysman_state w) d)
     (\<lambda>t. rv_zesTemperatureGetProperties (temp_return_values t)) (configured temp_properties)"

definition sensor_of :: "u32 \<Rightarrow> stub \<Rightarrow> u64 \<Rightarrow> sysman_temp_t \<Rightarrow> ze_result_t + (zes_temp_properties_t \<times> double64) option" where
  "sensor_of type w d t = both (\<lambda>p. temp_properties_type p = type) (sensor_properties w d t)
     (read_component (UNSUPPORTED_FEATURE_TEMP_GET_STATE \<in> unsupported_set (g_sysman_state w) d)
       (\<lambda>t. rv_zesTemperatureGetState (temp_return_values t)) (\<lambda>t. Inr (temp_temperature t)) t)"

definition sensor_has_type :: "u32 \<Rightarrow> stub \<Rightarrow> u64 \<Rightarrow> sysman_temp_t \<Rightarrow> bool" where
  "sensor_has_type type w d t = (case sensor_properties w d t of Inl e \<Rightarrow> False | Inr p \<Rightarrow> temp_properties_type p = type)"

abbreviation sensors_listed :: "stub \<Rightarrow> u64 \<Rightarrow> sysman_device_state_t \<Rightarrow> bool" where
  "sensors_listed \<equiv> listed UNSUPPORTED_FEATURE_TEMPERATURE_SENSORS
     (\<lambda>d. rv_zesDeviceEnumTemperatureSensors (dev_return_values d)) dev_temperature_sensors"

lemma stub_sensors_read:
  assumes "sensors_listed w d dev"
  shows "map (stub_temps.sensor type w) (stub_handles STUB_HANDLE_TEMP d (length (elems (dev_temperature_sensors dev))))
    = map (sensor_of type w d) (elems (dev_temperature_sensors dev))"
  unfolding stub_temps.sensor_def [abs_def] sensor_of_def [abs_def] sensor_properties_def
  by (rule enum_temp.readings_map [OF assms])

lemma stub_sensors_typed:
  assumes "sensors_listed w d dev"
  shows "list_ex (stub_temps.of_type type w) (stub_handles STUB_HANDLE_TEMP d (length (elems (dev_temperature_sensors dev))))
    = list_ex (sensor_has_type type w d) (elems (dev_temperature_sensors dev))"
proof -
  have "map (stub_temps.of_type type w) (stub_handles STUB_HANDLE_TEMP d (length (elems (dev_temperature_sensors dev))))
      = map (sensor_has_type type w d) (elems (dev_temperature_sensors dev))"
    unfolding stub_temps.of_type_def [abs_def] sensor_has_type_def [abs_def] sensor_properties_def
    by (rule enum_temp.readings_map [OF assms, where f = "\<lambda>x _. case x of Inl e \<Rightarrow> False | Inr p \<Rightarrow> temp_properties_type p = type"])
  then show ?thesis
    by (metis list_ex_map_id)
qed

text \<open>A configured module that is LPDDR5, as far as it can be told.\<close>

definition module_lpddr5 :: "stub \<Rightarrow> u64 \<Rightarrow> sysman_mem_t \<Rightarrow> bool" where
  "module_lpddr5 w d m = (case read_component (UNSUPPORTED_FEATURE_MEM_GET_PROPERTIES \<in> unsupported_set (g_sysman_state w) d)
       (\<lambda>m. rv_zesMemoryGetProperties (mem_return_values m)) (configured mem_properties) m of
     Inl e \<Rightarrow> False | Inr p \<Rightarrow> mem_properties_type p = ZES_MEM_TYPE_LPDDR5)"

lemma stub_lpddr5:
  assumes "listed UNSUPPORTED_FEATURE_MEMORY_MODULES (\<lambda>d. rv_zesDeviceEnumMemoryModules (dev_return_values d)) dev_memory_modules w d dev"
  shows "stub_temps.lpddr5 w d = list_ex (module_lpddr5 w d) (elems (dev_memory_modules dev))"
proof -
  have "map (\<lambda>h. case stub_mem_properties w h of Inl e \<Rightarrow> False | Inr p \<Rightarrow> mem_properties_type p = ZES_MEM_TYPE_LPDDR5)
      (stub_handles STUB_HANDLE_MEM d (length (elems (dev_memory_modules dev)))) = map (module_lpddr5 w d) (elems (dev_memory_modules dev))"
    unfolding module_lpddr5_def [abs_def]
    by (rule enum_mem.readings_map [OF assms, where f = "\<lambda>x _. case x of Inl e \<Rightarrow> False | Inr p \<Rightarrow> mem_properties_type p = ZES_MEM_TYPE_LPDDR5"])
  then show ?thesis
    unfolding stub_temps.lpddr5_def enum_mem.listed_objects [OF assms] sum.case by (metis list_ex_map_id)
qed

text \<open>
  C14. Reading a temperature over the stub: after initialisation the answer is that of the first configured sensor of
  the type that answers. When the device has sensors of the type and none answers, the call still reports
  success, with zero degrees; it reports an unsupported feature only when no sensor is of the type.
\<close>

theorem temperature_on_stub:
  assumes "sensors_listed w d dev"
  shows "obind (temperature_init stub_temperature_api fresh w d T) (\<lambda>(_, T, w). getTemp stub_temperature_api local w type (Some x) T) =
    (let (r, t) = temp_answer (list_ex (sensor_has_type type w d) (elems (dev_temperature_sensors dev)))
       (map snd (present (goods (map (sensor_of type w d) (elems (dev_temperature_sensors dev)))))) in Done (r, Some t, w))"
proof -
  note w = listed_ready [OF assms]
  obtain T' where T': "temperature_init stub_temperature_api fresh w d T = Done (ZE_RESULT_SUCCESS, T', w)"
      "holds (temperatureHandles T') (temperatureCount T') (stub_handles STUB_HANDLE_TEMP d (length (elems (dev_temperature_sensors dev))))"
    using stub_temps.initialised [OF w enum_temp.listed_objects [OF assms]] by blast
  show ?thesis
    by (simp add: T'(1) stub_temps.temp_read [OF w T'(2)] stub_sensors_read [OF assms] stub_sensors_typed [OF assms])
qed

text \<open>
  C15. Temperatures per tile, over the stub: every sensor of the type that answers less than 150 degrees is entered under
  its tile, the last one of a tile stays, and on a device with LPDDR5 modules a memory sensor's refresh code is
  entered as the upper end of its range - from the table, never from beyond it.
\<close>

theorem tile_temperatures_on_stub:
  assumes "sensors_listed w d dev" and "rounds_to_code F"
  shows "obind (temperature_init stub_temperature_api fresh w d T) (\<lambda>(_, T, w). getTempPerTile stub_temperature_api F w type T) =
    Done (ZE_RESULT_SUCCESS, map_of (rev (tile_temps F (type = ZES_TEMP_SENSORS_MEMORY \<and> stub_temps.lpddr5 w d)
      (present (goods (map (sensor_of type w d) (elems (dev_temperature_sensors dev))))))), w)"
proof -
  note w = listed_ready [OF assms(1)]
  obtain T' where T': "temperature_init stub_temperature_api fresh w d T = Done (ZE_RESULT_SUCCESS, T', w)"
      "holds (temperatureHandles T') (temperatureCount T') (stub_handles STUB_HANDLE_TEMP d (length (elems (dev_temperature_sensors dev))))"
      "hasLpddr5Memory T' = stub_temps.lpddr5 w d"
    using stub_temps.initialised [OF w enum_temp.listed_objects [OF assms(1)]] by blast
  show ?thesis
    by (simp add: T'(1,3) stub_temps.per_tile [OF w T'(2) assms(2)] stub_sensors_read [OF assms(1)])
qed

text \<open>
  The core thresholds of a device, over the stub: those the configuration file gives its device id, or the
  defaults. A device whose properties cannot be read is reported as a success that leaves both outputs as they were.
\<close>

theorem core_threshold_on_stub:
  assumes "ready w" and "temperature_constructor J config = Done T"
  shows "\<exists>th. thresholds T = Some th \<and> getCoreThreshold stub_temperature_api w d (Some x) (Some y) T = Done (case stub_device_properties w d of
      Inl e \<Rightarrow> (ZE_RESULT_SUCCESS, Some x, Some y, w)
    | Inr p \<Rightarrow> let id = ze_device_properties_deviceId (device_properties_core p) in
        (ZE_RESULT_SUCCESS, Some (ucast (threshold_or (pHealthDeviceToThrottleCoreTemperatures th) id (defaultCoreThrottleThreshold T))),
         Some (ucast (threshold_or (pHealthDeviceToShutdownCoreTemperatures th) id (defaultCoreShutdownThreshold T))), w))"
proof -
  obtain th where "thresholds T = Some th"
    using constructed [OF assms(2)] by blast
  then show ?thesis
    using stub_temps.core_threshold [OF assms(1)] by blast
qed

end
