(* ===== verification/Hal_Frequency.thy ===== *)
theory Hal_Frequency
  imports Hal_Base
begin

text \<open>
  Frequency domains (\<^verbatim>\<open>hal/core/frequency.cpp\<close>): current, available and highest frequencies, setting their range for
  a device or for one of its tiles, and the scheduler modes of a tile. A tile is translated to a subdevice by
  \<^verbatim>\<open>device::getSubdeviceProperties\<close> (\<^verbatim>\<open>hal/core/device.cpp\<close>) of the parent device.
\<close>

definition ZES_FREQ_DOMAIN_GPU :: u32 where "ZES_FREQ_DOMAIN_GPU = 0"

record zes_subdevice_exp_properties_t = zes_hdr +
  subdevice_exp_properties_subdeviceId :: u32
  subdevice_exp_properties_uuid :: "u8 list"

record 'w frequency_api =
  zesDeviceEnumFrequencyDomains_l0 :: "'w zes_enum"
  zesFrequencyGetProperties_l0 :: "('w, zes_freq_properties_t) zes_get"
  zesFrequencyGetAvailableClocks_l0 :: "('w, double64) zes_list"
  zesFrequencyGetRange_l0 :: "('w, zes_freq_range_t) zes_get"
  zesFrequencySetRange_l0 :: "'w \<Rightarrow> u64 \<Rightarrow> zes_freq_range_t option \<Rightarrow> ('w, unit) zes_call"
  zesFrequencyGetState_l0 :: "('w, zes_freq_state_t) zes_get"
  zesFrequencyGetThrottleTime_l0 :: "('w, zes_freq_throttle_time_t) zes_get"
  zesDeviceGetSubDevicePropertiesExp_l0 :: "('w, zes_subdevice_exp_properties_t) zes_list"
  zesDeviceEnumSchedulers_freq :: "'w zes_enum"
  zesSchedulerGetProperties_freq :: "('w, zes_sched_properties_t) zes_get"
  zesSchedulerSetTimeoutMode_freq :: "'w \<Rightarrow> u64 \<Rightarrow> zes_sched_timeout_properties_t option \<Rightarrow> ze_bool_t option \<Rightarrow> ('w, ze_bool_t option) zes_call"
  zesSchedulerSetTimesliceMode_freq :: "'w \<Rightarrow> u64 \<Rightarrow> zes_sched_timeslice_properties_t option \<Rightarrow> ze_bool_t option \<Rightarrow> ('w, ze_bool_t option) zes_call"
  zesSchedulerSetExclusiveMode_freq :: "'w \<Rightarrow> u64 \<Rightarrow> ze_bool_t option \<Rightarrow> ('w, ze_bool_t option) zes_call"

text \<open>The parent device is the handle it holds, and absent when the pointer is null.\<close>

record frequency =
  frequencyCount :: u32
  frequencyHandles :: "u64 list option"
  freq_deviceHandle :: u64
  freq_parentDevice :: "u64 option"

definition frequency_constructor :: frequency where
  "frequency_constructor = \<lparr>frequencyCount = 0, frequencyHandles = None, freq_deviceHandle = 0, freq_parentDevice = None\<rparr>"

definition frequency_destructor :: "frequency \<Rightarrow> frequency" where
  "frequency_destructor Q = Q\<lparr>frequencyHandles := None\<rparr>"

section \<open>Tiles\<close>

definition empty_subdevice :: zes_subdevice_exp_properties_t where
  "empty_subdevice = \<lparr>stype = 0x00020004, pNext = 0, subdevice_exp_properties_subdeviceId = 0,
     subdevice_exp_properties_uuid = replicate 16 0\<rparr>"

definition getSubdeviceProperties ::
  "('w, zes_subdevice_exp_properties_t) zes_list \<Rightarrow> 'w \<Rightarrow> u64 \<Rightarrow> u32 \<Rightarrow> zes_subdevice_exp_properties_t \<Rightarrow>
   (ze_result_t \<times> zes_subdevice_exp_properties_t \<times> 'w) outcome" where
  "getSubdeviceProperties subdevices w zesDevice tileId subdeviceProps =
     obind (zes_count subdevices w zesDevice 0) (\<lambda>(res, subdeviceCount, w).
       if res \<noteq> ZE_RESULT_SUCCESS then Done (res, subdeviceProps, w)
       else if subdeviceCount = 0 then
         (if tileId \<noteq> 0 then Done (ZE_RESULT_ERROR_INVALID_ARGUMENT, subdeviceProps, w)
          else Done (ZE_RESULT_SUCCESS, empty_subdevice, w))
       else if subdeviceCount \<le> tileId then Done (ZE_RESULT_ERROR_INVALID_ARGUMENT, subdeviceProps, w)
       else obind (zes_handles subdevices w zesDevice subdeviceCount (replicate (unat subdeviceCount) empty_subdevice))
         (\<lambda>(res, _, subdevicePropsList, w).
           if res \<noteq> ZE_RESULT_SUCCESS then Done (res, subdeviceProps, w)
           else if unat tileId < length subdevicePropsList then Done (ZE_RESULT_SUCCESS, subdevicePropsList ! unat tileId, w)
           else Fault))"

text \<open>Whether the device has subdevices; without a device it has none.\<close>

definition has_subdevices :: "'w frequency_api \<Rightarrow> 'w \<Rightarrow> frequency \<Rightarrow> (bool \<times> 'w) outcome" where
  "has_subdevices A w Q =
     (if freq_deviceHandle Q = 0 then Done (False, w)
      else obind (zes_count (zesDeviceGetSubDevicePropertiesExp_l0 A) w (freq_deviceHandle Q) 0) (\<lambda>(res, n, w).
        Done (res = ZE_RESULT_SUCCESS \<and> 0 < n, w)))"

definition parent_subdevice :: "'w frequency_api \<Rightarrow> 'w \<Rightarrow> u32 \<Rightarrow> frequency \<Rightarrow> ((ze_result_t + u32) \<times> 'w) outcome" where
  "parent_subdevice A w tileId Q = (case freq_parentDevice Q of
       None \<Rightarrow> Done (Inl ZE_RESULT_ERROR_UNINITIALIZED, w)
     | Some zesDevice \<Rightarrow>
         obind (getSubdeviceProperties (zesDeviceGetSubDevicePropertiesExp_l0 A) w zesDevice tileId (empty_subdevice\<lparr>stype := 0\<rparr>))
           (\<lambda>(result, props, w). Done (if result \<noteq> ZE_RESULT_SUCCESS then Inl result else Inr (subdevice_exp_properties_subdeviceId props), w)))"

text \<open>What a tile stands for: the device itself (\<open>True\<close>), or a subdevice; or the error that is returned.\<close>

definition tile_target :: "'w frequency_api \<Rightarrow> 'w \<Rightarrow> u32 \<Rightarrow> frequency \<Rightarrow> ((ze_result_t + bool \<times> u32) \<times> 'w) outcome" where
  "tile_target A w tileId Q =
     obind (has_subdevices A w Q) (\<lambda>(hasSubdevices, w).
       if \<not> hasSubdevices then
         Done (if tileId \<noteq> 0 then Inl ZE_RESULT_ERROR_INVALID_ARGUMENT else Inr (True, 0), w)
       else obind (parent_subdevice A w tileId Q) (\<lambda>(target, w). Done (map_sum id (Pair False) target, w)))"

section \<open>Domains\<close>

definition enumFrequencies ::
  "'w frequency_api \<Rightarrow> (nat \<Rightarrow> u64) \<Rightarrow> 'w \<Rightarrow> u64 \<Rightarrow> frequency \<Rightarrow> (ze_result_t \<times> frequency \<times> 'w) outcome" where
  "enumFrequencies A fresh w device Q =
     obind (zes_count (zesDeviceEnumFrequencyDomains_l0 A) w device (frequencyCount Q)) (\<lambda>(result, n, w).
       if result \<noteq> ZE_RESULT_SUCCESS \<or> n = 0 then Done (result, Q\<lparr>frequencyCount := n\<rparr>, w)
       else obind (zes_handles (zesDeviceEnumFrequencyDomains_l0 A) w device n (map fresh [0..<unat n])) (\<lambda>(result, n, hs, w).
         Done (result, Q\<lparr>frequencyCount := n, frequencyHandles := Some hs\<rparr>, w)))"

definition frequency_getProperties ::
  "'w frequency_api \<Rightarrow> 'w \<Rightarrow> u64 \<Rightarrow> zes_freq_properties_t \<Rightarrow> (ze_result_t \<times> zes_freq_properties_t \<times> 'w) outcome" where
  "frequency_getProperties A w h p = zes_query (zesFrequencyGetProperties_l0 A) w h p"

definition frequency_getState ::
  "'w frequency_api \<Rightarrow> 'w \<Rightarrow> u64 \<Rightarrow> zes_freq_state_t \<Rightarrow> (ze_result_t \<times> zes_freq_state_t \<times> 'w) outcome" where
  "frequency_getState A w h s = zes_query (zesFrequencyGetState_l0 A) w h s"

definition frequency_getAvailableClocks :: "'w frequency_api \<Rightarrow> 'w \<Rightarrow> u64 \<Rightarrow> (ze_result_t \<times> 'w) outcome" where
  "frequency_getAvailableClocks A w h =
     obind (zes_count (zesFrequencyGetAvailableClocks_l0 A) w h 0) (\<lambda>(result, count, w).
       if result \<noteq> ZE_RESULT_SUCCESS then Done (result, w)
       else if count = 0 then Done (ZE_RESULT_SUCCESS, w)
       else obind (zes_handles (zesFrequencyGetAvailableClocks_l0 A) w h count (replicate (unat count) 0)) (\<lambda>(result, _, _, w).
         Done (result, w)))"

definition getRange :: "'w frequency_api \<Rightarrow> zes_freq_range_t \<Rightarrow> 'w \<Rightarrow> u64 \<Rightarrow> (ze_result_t \<times> 'w) outcome" where
  "getRange A local w h = obind (zes_query (zesFrequencyGetRange_l0 A) w h local) (\<lambda>(result, _, w). Done (result, w))"

definition getThrottleTime :: "'w frequency_api \<Rightarrow> zes_freq_throttle_time_t \<Rightarrow> 'w \<Rightarrow> u64 \<Rightarrow> (ze_result_t \<times> 'w) outcome" where
  "getThrottleTime A local w h = obind (zes_query (zesFrequencyGetThrottleTime_l0 A) w h local) (\<lambda>(result, _, w). Done (result, w))"

definition zero_freq_properties :: zes_freq_properties_t where
  "zero_freq_properties = \<lparr>stype = 0, pNext = 0, freq_properties_type = 0, freq_properties_onSubdevice = 0,
     freq_properties_subdeviceId = 0, freq_properties_canControl = 0, freq_properties_isThrottleEventSupported = 0,
     freq_properties_min = 0, freq_properties_max = 0\<rparr>"

definition zero_freq_state :: zes_freq_state_t where
  "zero_freq_state = \<lparr>stype = 0, pNext = 0, freq_state_currentVoltage = 0, freq_state_request = 0, freq_state_tdp = 0,
     freq_state_efficient = 0, freq_state_actual = 0, freq_state_throttleReasons = 0\<rparr>"

subsection \<open>The highest frequency\<close>

text \<open>
  The pipeline of views is lazy and keeps nothing: every look at an element asks the driver again. \<open>props_of\<close> is one
  evaluation of the first transformation; \<open>deref\<close> is the dereferencing of the optional it yields, undefined
  when it is empty.
\<close>

definition props_of :: "'w frequency_api \<Rightarrow> 'w \<Rightarrow> u64 \<Rightarrow> (zes_freq_properties_t option \<times> 'w) outcome" where
  "props_of A w h =
     obind (frequency_getProperties A w h (zero_freq_properties\<lparr>stype := 9\<rparr>)) (\<lambda>(result, props, w).
       Done (if result = ZE_RESULT_SUCCESS then Some props else None, w))"

definition deref :: "('v option \<times> 'w) \<Rightarrow> ('v \<times> 'w) outcome" where
  "deref x = (case x of (None, w) \<Rightarrow> Fault | (Some v, w) \<Rightarrow> Done (v, w))"

definition look :: "'w frequency_api \<Rightarrow> 'w \<Rightarrow> u64 \<Rightarrow> (zes_freq_properties_t \<times> 'w) outcome" where
  "look A w h = obind (props_of A w h) deref"

definition span_handles :: "u64 list option \<Rightarrow> u32 \<Rightarrow> u64 list outcome" where
  "span_handles p n = (if n = 0 then Done [] else case p of None \<Rightarrow> Fault
     | Some hs \<Rightarrow> if unat n \<le> length hs then Done (take (unat n) hs) else Fault)"

lemma span_holds:
  assumes "holds p n hs"
  shows "span_handles p n = Done hs"
proof (cases "n = 0")
  case False
  then have "hs \<noteq> []" and n: "unat n = length hs"
    using assms by (auto simp: holds_def unat_eq_0)
  then have "handle_at p (length hs - 1) = Done (hs ! (length hs - 1))"
    using assms by (simp add: holds_def)
  then obtain xs where p: "p = Some xs" and "length hs \<le> length xs"
    using \<open>hs \<noteq> []\<close> by (auto simp: handle_at_def split: option.splits if_splits)
  moreover have "take (length hs) xs = hs"
    using assms \<open>length hs \<le> length xs\<close> by (intro nth_equalityI) (auto simp: holds_def p)
  ultimately show ?thesis
    using False n by (simp add: span_handles_def)
qed (use assms in \<open>simp add: span_handles_def holds_def\<close>)

text \<open>The next element that passes both filters, with the handles after it.\<close>

primrec next_valid ::
  "'w frequency_api \<Rightarrow> fp64 \<Rightarrow> u32 \<Rightarrow> u64 list \<Rightarrow> 'w \<Rightarrow> ((u64 \<times> u64 list) option \<times> 'w) outcome" where
  "next_valid A F domain [] w = Done (None, w)"
| "next_valid A F domain (h # hs) w =
     obind (props_of A w h) (\<lambda>(opt, w).
       if opt = None then next_valid A F domain hs w
       else obind (look A w h) (\<lambda>(props, w).
         if freq_properties_type props = domain \<and> fp_less F 0 (freq_properties_max props) then Done (Some (h, hs), w)
         else next_valid A F domain hs w))"

lemma next_valid_shorter: "next_valid A F domain hs w = Done (Some (h, rest), w') \<Longrightarrow> length rest < length hs"
proof (induction hs arbitrary: w)
  case (Cons h hs)
  then show ?case
    by (auto split: if_splits) (use Cons.IH less_SucI in blast)+
qed simp

function max_from :: "'w frequency_api \<Rightarrow> fp64 \<Rightarrow> u32 \<Rightarrow> u64 \<Rightarrow> u64 list \<Rightarrow> 'w \<Rightarrow> (u64 \<times> 'w) outcome" where
  "max_from A F domain best hs w = (case next_valid A F domain hs w of
       Done (Some (h, rest), w) \<Rightarrow>
         obind (look A w best) (\<lambda>(p, w).
         obind (look A w h) (\<lambda>(q, w).
           max_from A F domain (if fp_less F (freq_properties_max p) (freq_properties_max q) then h else best) rest w))
     | Done (None, w) \<Rightarrow> Done (best, w)
     | Fault \<Rightarrow> Fault | Stuck \<Rightarrow> Stuck)"
  by pat_completeness auto
termination
  by (relation "measure (\<lambda>(A, F, domain, best, hs, w). length hs)") (auto dest: next_valid_shorter)

declare max_from.simps [simp del]

definition getMaxFreqForDomain ::
  "'w frequency_api \<Rightarrow> fp64 \<Rightarrow> 'w \<Rightarrow> u32 \<Rightarrow> double64 \<Rightarrow> frequency \<Rightarrow> (ze_result_t \<times> double64 \<times> 'w) outcome" where
  "getMaxFreqForDomain A F w domain maxMHz Q =
     obind (span_handles (frequencyHandles Q) (frequencyCount Q)) (\<lambda>hs.
     obind (next_valid A F domain hs w) (\<lambda>(first, w). case first of
       None \<Rightarrow> Done (ZE_RESULT_ERROR_UNSUPPORTED_FEATURE, maxMHz, w)
     | Some (h, rest) \<Rightarrow> obind (max_from A F domain h rest w) (\<lambda>(best, w).
         obind (look A w best) (\<lambda>(p, w). Done (ZE_RESULT_SUCCESS, freq_properties_max p, w)))))"

subsection \<open>Current frequencies\<close>

primrec cur_freq_loop ::
  "'w frequency_api \<Rightarrow> u32 \<Rightarrow> frequency \<Rightarrow> double64 option \<Rightarrow> nat list \<Rightarrow> zes_freq_properties_t \<Rightarrow> zes_freq_state_t \<Rightarrow> 'w \<Rightarrow>
   (ze_result_t \<times> double64 option \<times> 'w) outcome" where
  "cur_freq_loop A domain Q cur [] p s w = Done (ZE_RESULT_ERROR_UNSUPPORTED_FEATURE, cur, w)"
| "cur_freq_loop A domain Q cur (i # is) p s w =
     obind (handle_at (frequencyHandles Q) i) (\<lambda>h.
     obind (frequency_getProperties A w h p) (\<lambda>(result, p, w).
       if result \<noteq> ZE_RESULT_SUCCESS then Done (result, cur, w)
       else if freq_properties_type p \<noteq> domain then cur_freq_loop A domain Q cur is p s w
       else obind (frequency_getState A w h s) (\<lambda>(result, s, w).
         if result \<noteq> ZE_RESULT_SUCCESS then Done (result, cur, w)
         else Done (ZE_RESULT_SUCCESS, map_option (\<lambda>_. freq_state_actual s) cur, w))))"

definition getCurFreq ::
  "'w frequency_api \<Rightarrow> 'w \<Rightarrow> double64 option \<Rightarrow> u32 \<Rightarrow> frequency \<Rightarrow> (ze_result_t \<times> double64 option \<times> 'w) outcome" where
  "getCurFreq A w currentFreq domain Q =
     cur_freq_loop A domain Q currentFreq [0..<unat (frequencyCount Q)] zero_freq_properties zero_freq_state w"

definition domain_tile :: "zes_freq_properties_t \<Rightarrow> u32" where
  "domain_tile p = (if freq_properties_onSubdevice p \<noteq> 0 then freq_properties_subdeviceId p else 0)"

primrec tile_freq_loop ::
  "'w frequency_api \<Rightarrow> u32 \<Rightarrow> frequency \<Rightarrow> nat list \<Rightarrow> (u32 \<rightharpoonup> double64) \<Rightarrow> 'w \<Rightarrow> (ze_result_t \<times> (u32 \<rightharpoonup> double64) \<times> 'w) outcome" where
  "tile_freq_loop A domain Q [] m w = Done (ZE_RESULT_SUCCESS, m, w)"
| "tile_freq_loop A domain Q (i # is) m w =
     obind (handle_at (frequencyHandles Q) i) (\<lambda>h.
     obind (frequency_getProperties A w h zero_freq_properties) (\<lambda>(result, p, w).
       if result \<noteq> ZE_RESULT_SUCCESS then tile_freq_loop A domain Q is m w
       else if freq_properties_type p \<noteq> domain then tile_freq_loop A domain Q is m w
       else obind (frequency_getState A w h zero_freq_state) (\<lambda>(result, s, w).
         if result \<noteq> ZE_RESULT_SUCCESS then tile_freq_loop A domain Q is m w
         else tile_freq_loop A domain Q is (m(domain_tile p \<mapsto> freq_state_actual s)) w)))"

definition getCurFreqPerTile ::
  "'w frequency_api \<Rightarrow> 'w \<Rightarrow> u32 \<Rightarrow> frequency \<Rightarrow> (ze_result_t \<times> (u32 \<rightharpoonup> double64) \<times> 'w) outcome" where
  "getCurFreqPerTile A w domain Q = tile_freq_loop A domain Q [0..<unat (frequencyCount Q)] Map.empty w"

primrec throttle_loop ::
  "'w frequency_api \<Rightarrow> frequency \<Rightarrow> u32 option \<Rightarrow> nat list \<Rightarrow> zes_freq_properties_t \<Rightarrow> zes_freq_state_t \<Rightarrow> 'w \<Rightarrow>
   (ze_result_t \<times> u32 option \<times> 'w) outcome" where
  "throttle_loop A Q reasons [] p s w = Done (ZE_RESULT_SUCCESS, reasons, w)"
| "throttle_loop A Q reasons (i # is) p s w =
     obind (handle_at (frequencyHandles Q) i) (\<lambda>h.
     obind (frequency_getProperties A w h p) (\<lambda>(result, p, w).
       if result \<noteq> ZE_RESULT_SUCCESS then Done (result, reasons, w)
       else if freq_properties_type p = ZES_FREQ_DOMAIN_GPU then
         obind (frequency_getState A w h s) (\<lambda>(result, s, w).
           if result \<noteq> ZE_RESULT_SUCCESS then Done (result, reasons, w)
           else (case reasons of
               None \<Rightarrow> throttle_loop A Q reasons is p s w
             | Some _ \<Rightarrow> Done (ZE_RESULT_SUCCESS, Some (freq_state_throttleReasons s), w)))
       else throttle_loop A Q reasons is p s w))"

definition getThrottleReason ::
  "'w frequency_api \<Rightarrow> 'w \<Rightarrow> u32 option \<Rightarrow> frequency \<Rightarrow> (ze_result_t \<times> u32 option \<times> 'w) outcome" where
  "getThrottleReason A w throttleReasons Q =
     throttle_loop A Q throttleReasons [0..<unat (frequencyCount Q)] zero_freq_properties zero_freq_state w"

section \<open>Setting the range\<close>

primrec set_range_loop ::
  "'w frequency_api \<Rightarrow> zes_freq_range_t \<Rightarrow> frequency \<Rightarrow> nat list \<Rightarrow> 'w \<Rightarrow> (ze_result_t \<times> 'w) outcome" where
  "set_range_loop A rng Q [] w = Done (ZE_RESULT_SUCCESS, w)"
| "set_range_loop A rng Q (i # is) w =
     obind (handle_at (frequencyHandles Q) i) (\<lambda>h.
     obind (zesFrequencySetRange_l0 A w h (Some rng)) (\<lambda>(result, _, w).
       if result \<noteq> ZE_RESULT_SUCCESS then Done (result, w) else set_range_loop A rng Q is w))"

definition setRange :: "'w frequency_api \<Rightarrow> 'w \<Rightarrow> double64 \<Rightarrow> double64 \<Rightarrow> frequency \<Rightarrow> (ze_result_t \<times> 'w) outcome" where
  "setRange A w minFreq maxFreq Q =
     set_range_loop A \<lparr>freq_range_min = minFreq, freq_range_max = maxFreq\<rparr> Q [0..<unat (frequencyCount Q)] w"

text \<open>The domain stands for the tile: it is the device's own when the tile is, or the subdevice's.\<close>

definition stands_for :: "bool \<Rightarrow> u32 \<Rightarrow> zes_freq_properties_t \<Rightarrow> bool" where
  "stands_for useDeviceLevel target p = (if useDeviceLevel then freq_properties_onSubdevice p = 0
     else freq_properties_onSubdevice p \<noteq> 0 \<and> freq_properties_subdeviceId p = target)"

text \<open>
  The loop of \<open>setFrequencyRange\<close>: an early success, or whether any domain was set, whether one was found, and the
  last error.
\<close>

primrec domains_loop ::
  "'w frequency_api \<Rightarrow> zes_freq_range_t \<Rightarrow> bool \<Rightarrow> bool \<Rightarrow> u32 \<Rightarrow> frequency \<Rightarrow> nat list \<Rightarrow> zes_freq_properties_t \<Rightarrow>
   bool \<times> bool \<times> ze_result_t \<Rightarrow> 'w \<Rightarrow> ((ze_result_t + bool \<times> bool \<times> ze_result_t) \<times> 'w) outcome" where
  "domains_loop A rng setAll dev target Q [] p acc w = Done (Inr acc, w)"
| "domains_loop A rng setAll dev target Q (i # is) p acc w = (case acc of (anySuccess, foundDomain, lastError) \<Rightarrow>
     obind (handle_at (frequencyHandles Q) i) (\<lambda>h.
     obind (frequency_getProperties A w h p) (\<lambda>(result, p, w).
       if result \<noteq> ZE_RESULT_SUCCESS then domains_loop A rng setAll dev target Q is p (anySuccess, foundDomain, result) w
       else if freq_properties_type p \<noteq> ZES_FREQ_DOMAIN_GPU then domains_loop A rng setAll dev target Q is p acc w
       else if setAll \<or> stands_for dev target p then
         obind (zesFrequencySetRange_l0 A w h (Some rng)) (\<lambda>(result, _, w).
           if result = ZE_RESULT_SUCCESS then
             (if \<not> setAll then Done (Inl ZE_RESULT_SUCCESS, w)
              else domains_loop A rng setAll dev target Q is p (True, True, lastError) w)
           else domains_loop A rng setAll dev target Q is p (anySuccess, True, result) w)
       else domains_loop A rng setAll dev target Q is p acc w)))"

definition setFrequencyRange ::
  "'w frequency_api \<Rightarrow> 'w \<Rightarrow> double64 \<Rightarrow> double64 \<Rightarrow> u32 \<Rightarrow> frequency \<Rightarrow> (ze_result_t \<times> 'w) outcome" where
  "setFrequencyRange A w minFreq maxFreq subdeviceId Q =
     (if sint subdeviceId < - 1 then Done (ZE_RESULT_ERROR_INVALID_ARGUMENT, w)
      else let setAll = (sint subdeviceId = - 1) in
        obind (has_subdevices A w Q) (\<lambda>(hasSubdevices, w).
        obind (if setAll then Done (Inr (False, 0), w)
               else if \<not> hasSubdevices then Done (if subdeviceId \<noteq> 0 then Inl ZE_RESULT_ERROR_INVALID_ARGUMENT else Inr (True, 0), w)
               else obind (parent_subdevice A w subdeviceId Q) (\<lambda>(target, w). Done (map_sum id (Pair False) target, w)))
          (\<lambda>(target, w). case target of
             Inl result \<Rightarrow> Done (result, w)
           | Inr (useDeviceLevel, targetSubdeviceId) \<Rightarrow>
               obind (domains_loop A \<lparr>freq_range_min = minFreq, freq_range_max = maxFreq\<rparr> setAll useDeviceLevel targetSubdeviceId Q
                   [0..<unat (frequencyCount Q)] zero_freq_properties (False, False, ZE_RESULT_SUCCESS) w)
                 (\<lambda>(x, w). case x of
                    Inl result \<Rightarrow> Done (result, w)
                  | Inr (anySuccess, foundDomain, lastError) \<Rightarrow>
                      Done (if setAll then if anySuccess then ZE_RESULT_SUCCESS else lastError
                        else if \<not> foundDomain then ZE_RESULT_ERROR_NOT_AVAILABLE else lastError, w)))))"

definition setFrequencyRangeForAll ::
  "'w frequency_api \<Rightarrow> 'w \<Rightarrow> double64 \<Rightarrow> double64 \<Rightarrow> frequency \<Rightarrow> (ze_result_t \<times> 'w) outcome" where
  "setFrequencyRangeForAll A w minFreq maxFreq Q = setFrequencyRange A w minFreq maxFreq (- 1) Q"

section \<open>The domain of a tile\<close>

text \<open>
  The first GPU domain that stands for the tile, with its properties. \<open>start\<close> is what the structure holds when a round
  begins: zeros where it is declared in the loop, what the last round left where it is declared before it.
\<close>

primrec first_domain ::
  "'w frequency_api \<Rightarrow> (zes_freq_properties_t \<Rightarrow> zes_freq_properties_t) \<Rightarrow> bool \<Rightarrow> u32 \<Rightarrow> frequency \<Rightarrow> nat list \<Rightarrow>
   zes_freq_properties_t \<Rightarrow> 'w \<Rightarrow> ((u64 \<times> zes_freq_properties_t) option \<times> 'w) outcome" where
  "first_domain A start dev target Q [] p w = Done (None, w)"
| "first_domain A start dev target Q (i # is) p w =
     obind (handle_at (frequencyHandles Q) i) (\<lambda>h.
     obind (frequency_getProperties A w h (start p)) (\<lambda>(result, p, w).
       if result \<noteq> ZE_RESULT_SUCCESS then first_domain A start dev target Q is p w
       else if freq_properties_type p = ZES_FREQ_DOMAIN_GPU \<and> stands_for dev target p then Done (Some (h, p), w)
       else first_domain A start dev target Q is p w))"

definition getFreqAvailableClocks ::
  "'w frequency_api \<Rightarrow> 'w \<Rightarrow> u32 \<Rightarrow> double64 list \<Rightarrow> frequency \<Rightarrow> (ze_result_t \<times> double64 list \<times> 'w) outcome" where
  "getFreqAvailableClocks A w subdeviceId clocks Q =
     obind (tile_target A w subdeviceId Q) (\<lambda>(target, w). case target of
       Inl result \<Rightarrow> Done (result, clocks, w)
     | Inr (useDeviceLevel, targetSubdeviceId) \<Rightarrow>
         obind (first_domain A (\<lambda>p. p) useDeviceLevel targetSubdeviceId Q [0..<unat (frequencyCount Q)] zero_freq_properties w)
           (\<lambda>(found, w). case found of
              None \<Rightarrow> Done (ZE_RESULT_ERROR_NOT_AVAILABLE, clocks, w)
            | Some (h, _) \<Rightarrow>
                obind (zes_count (zesFrequencyGetAvailableClocks_l0 A) w h 0) (\<lambda>(result, count, w).
                  if result \<noteq> ZE_RESULT_SUCCESS then Done (result, clocks, w)
                  else if count = 0 then Done (ZE_RESULT_SUCCESS, clocks, w)
                  else obind (zes_handles (zesFrequencyGetAvailableClocks_l0 A) w h count
                      (take (unat count) clocks @ replicate (unat count - length clocks) 0)) (\<lambda>(result, _, clocks, w).
                    Done (result, clocks, w)))))"

definition getFreqRangeForTile ::
  "'w frequency_api \<Rightarrow> 'w \<Rightarrow> u32 \<Rightarrow> frequency \<Rightarrow> (ze_result_t \<times> (double64 \<times> double64) \<times> 'w) outcome" where
  "getFreqRangeForTile A w tileId Q =
     obind (tile_target A w tileId Q) (\<lambda>(target, w). case target of
       Inl result \<Rightarrow> Done (result, (0, 0), w)
     | Inr (useDeviceLevel, targetSubdeviceId) \<Rightarrow>
         obind (first_domain A (\<lambda>_. zero_freq_properties) useDeviceLevel targetSubdeviceId Q [0..<unat (frequencyCount Q)]
             zero_freq_properties w)
           (\<lambda>(found, w). case found of
              None \<Rightarrow> Done (ZE_RESULT_ERROR_NOT_AVAILABLE, (0, 0), w)
            | Some (h, _) \<Rightarrow>
                obind (zes_query (zesFrequencyGetRange_l0 A) w h \<lparr>freq_range_min = 0, freq_range_max = 0\<rparr>) (\<lambda>(result, rng, w).
                  Done (result, if result = ZE_RESULT_SUCCESS then (freq_range_min rng, freq_range_max rng) else (0, 0), w))))"

definition getFreqStateForTile ::
  "'w frequency_api \<Rightarrow> 'w \<Rightarrow> u32 \<Rightarrow> zes_freq_state_t option \<Rightarrow> zes_freq_properties_t option \<Rightarrow> frequency \<Rightarrow>
   (ze_result_t \<times> zes_freq_state_t option \<times> zes_freq_properties_t option \<times> 'w) outcome" where
  "getFreqStateForTile A w tileId state outProps Q = (case state of
       None \<Rightarrow> Done (ZE_RESULT_ERROR_INVALID_NULL_POINTER, None, outProps, w)
     | Some s \<Rightarrow>
         obind (tile_target A w tileId Q) (\<lambda>(target, w). case target of
           Inl result \<Rightarrow> Done (result, state, outProps, w)
         | Inr (useDeviceLevel, targetSubdeviceId) \<Rightarrow>
             obind (first_domain A (\<lambda>_. zero_freq_properties) useDeviceLevel targetSubdeviceId Q [0..<unat (frequencyCount Q)]
                 zero_freq_properties w)
               (\<lambda>(found, w). case found of
                  None \<Rightarrow> Done (ZE_RESULT_ERROR_NOT_AVAILABLE, state, outProps, w)
                | Some (h, p) \<Rightarrow>
                    obind (frequency_getState A w h s) (\<lambda>(result, s, w).
                      Done (result, Some s, map_option (\<lambda>_. p) outProps, w)))))"

section \<open>Schedulers\<close>

definition zero_sched_properties :: zes_sched_properties_t where
  "zero_sched_properties = \<lparr>stype = 0, pNext = 0, sched_properties_onSubdevice = 0, sched_properties_subdeviceId = 0,
     sched_properties_canControl = 0, sched_properties_engines = 0, sched_properties_supportedModes = 0\<rparr>"

text \<open>The scheduler of the subdevice (\<open>Inl\<close>), or else the first one of the device itself, 0 when there is none.\<close>

primrec scheduler_loop ::
  "'w frequency_api \<Rightarrow> u32 \<Rightarrow> u64 list \<Rightarrow> u64 \<Rightarrow> 'w \<Rightarrow> ((u64 + u64) \<times> 'w) outcome" where
  "scheduler_loop A target [] deviceLevelScheduler w = Done (Inr deviceLevelScheduler, w)"
| "scheduler_loop A target (sched # hs) deviceLevelScheduler w =
     obind (zes_query (zesSchedulerGetProperties_freq A) w sched zero_sched_properties) (\<lambda>(result, props, w).
       if result \<noteq> ZE_RESULT_SUCCESS then scheduler_loop A target hs deviceLevelScheduler w
       else if sched_properties_onSubdevice props \<noteq> 0 \<and> sched_properties_subdeviceId props = target then Done (Inl sched, w)
       else scheduler_loop A target hs
         (if sched_properties_onSubdevice props = 0 \<and> deviceLevelScheduler = 0 then sched else deviceLevelScheduler) w)"

definition getSchedulerForSubdevice ::
  "'w frequency_api \<Rightarrow> 'w \<Rightarrow> u32 \<Rightarrow> u64 \<Rightarrow> frequency \<Rightarrow> (ze_result_t \<times> u64 \<times> 'w) outcome" where
  "getSchedulerForSubdevice A w subdeviceId schedulerHandle Q =
     (if freq_deviceHandle Q = 0 then Done (ZE_RESULT_ERROR_INVALID_ARGUMENT, schedulerHandle, w)
      else obind (parent_subdevice A w subdeviceId Q) (\<lambda>(target, w). case target of
        Inl result \<Rightarrow> Done (result, schedulerHandle, w)
      | Inr targetSubdeviceId \<Rightarrow>
          obind (zes_count (zesDeviceEnumSchedulers_freq A) w (freq_deviceHandle Q) 0) (\<lambda>(result, schedulerCount, w).
            if result \<noteq> ZE_RESULT_SUCCESS then Done (result, schedulerHandle, w)
            else if schedulerCount = 0 then Done (ZE_RESULT_ERROR_UNSUPPORTED_FEATURE, schedulerHandle, w)
            else obind (zes_handles (zesDeviceEnumSchedulers_freq A) w (freq_deviceHandle Q) schedulerCount
                (replicate (unat schedulerCount) 0)) (\<lambda>(result, _, schedulers, w).
              if result \<noteq> ZE_RESULT_SUCCESS then Done (result, schedulerHandle, w)
              else obind (scheduler_loop A targetSubdeviceId schedulers 0 w) (\<lambda>(found, w). case found of
                Inl sched \<Rightarrow> Done (ZE_RESULT_SUCCESS, sched, w)
              | Inr sched \<Rightarrow> if sched \<noteq> 0 then Done (ZE_RESULT_SUCCESS, sched, w)
                  else Done (ZE_RESULT_ERROR_NOT_AVAILABLE, schedulerHandle, w))))))"

text \<open>The three modes are set alike; \<open>local\<close> is the handle variable before it is assigned.\<close>

definition setSchedulerTimeoutMode :: "'w frequency_api \<Rightarrow> u64 \<Rightarrow> 'w \<Rightarrow> u32 \<Rightarrow> u64 \<Rightarrow> frequency \<Rightarrow> (ze_result_t \<times> 'w) outcome" where
  "setSchedulerTimeoutMode A local w subdeviceId watchdogTimeout Q =
     obind (getSchedulerForSubdevice A w subdeviceId local Q) (\<lambda>(result, scheduler, w).
       if result \<noteq> ZE_RESULT_SUCCESS then Done (result, w)
       else obind (zesSchedulerSetTimeoutMode_freq A w scheduler
           (Some \<lparr>stype = 0x11, pNext = 0, sched_timeout_properties_watchdogTimeout = watchdogTimeout\<rparr>) (Some 0)) (\<lambda>(result, _, w).
         Done (result, w)))"

definition setSchedulerTimesliceMode ::
  "'w frequency_api \<Rightarrow> u64 \<Rightarrow> 'w \<Rightarrow> u32 \<Rightarrow> u64 \<Rightarrow> u64 \<Rightarrow> frequency \<Rightarrow> (ze_result_t \<times> 'w) outcome" where
  "setSchedulerTimesliceMode A local w subdeviceId interval yieldTimeout Q =
     obind (getSchedulerForSubdevice A w subdeviceId local Q) (\<lambda>(result, scheduler, w).
       if result \<noteq> ZE_RESULT_SUCCESS then Done (result, w)
       else obind (zesSchedulerSetTimesliceMode_freq A w scheduler
           (Some \<lparr>stype = 0x12, pNext = 0, sched_timeslice_properties_interval = interval,
             sched_timeslice_properties_yieldTimeout = yieldTimeout\<rparr>) (Some 0)) (\<lambda>(result, _, w).
         Done (result, w)))"

definition setSchedulerExclusiveMode :: "'w frequency_api \<Rightarrow> u64 \<Rightarrow> 'w \<Rightarrow> u32 \<Rightarrow> frequency \<Rightarrow> (ze_result_t \<times> 'w) outcome" where
  "setSchedulerExclusiveMode A local w subdeviceId Q =
     obind (getSchedulerForSubdevice A w subdeviceId local Q) (\<lambda>(result, scheduler, w).
       if result \<noteq> ZE_RESULT_SUCCESS then Done (result, w)
       else obind (zesSchedulerSetExclusiveMode_freq A w scheduler (Some 0)) (\<lambda>(result, _, w). Done (result, w)))"

section \<open>Initialisation and monitoring\<close>

definition frequency_init :: "'w frequency_api \<Rightarrow> (nat \<Rightarrow> u64) \<Rightarrow> 'w \<Rightarrow> u64 \<Rightarrow> frequency \<Rightarrow> (ze_result_t \<times> frequency \<times> 'w) outcome" where
  "frequency_init A fresh w device Q = enumFrequencies A fresh w device (Q\<lparr>freq_deviceHandle := device, freq_parentDevice := None\<rparr>)"

definition frequency_init_parent ::
  "'w frequency_api \<Rightarrow> (nat \<Rightarrow> u64) \<Rightarrow> 'w \<Rightarrow> u64 \<Rightarrow> u64 option \<Rightarrow> frequency \<Rightarrow> (ze_result_t \<times> frequency \<times> 'w) outcome" where
  "frequency_init_parent A fresh w device parent Q =
     enumFrequencies A fresh w device (Q\<lparr>freq_deviceHandle := device, freq_parentDevice := parent\<rparr>)"

primrec frequency_run_loop ::
  "'w frequency_api \<Rightarrow> zes_freq_range_t \<Rightarrow> zes_freq_throttle_time_t \<Rightarrow> frequency \<Rightarrow> nat list \<Rightarrow> zes_freq_properties_t \<Rightarrow>
   zes_freq_state_t \<Rightarrow> 'w \<Rightarrow> (ze_result_t \<times> 'w) outcome" where
  "frequency_run_loop A local_range local_time Q [] p s w = Done (ZE_RESULT_SUCCESS, w)"
| "frequency_run_loop A local_range local_time Q (i # is) p s w =
     obind (handle_at (frequencyHandles Q) i) (\<lambda>h.
     obind (frequency_getProperties A w h p) (\<lambda>(result, p, w).
       if result \<noteq> ZE_RESULT_SUCCESS then Done (result, w)
       else obind (frequency_getAvailableClocks A w h) (\<lambda>(result, w).
         if result \<noteq> ZE_RESULT_SUCCESS then Done (result, w)
         else obind (getRange A local_range w h) (\<lambda>(result, w).
           if result \<noteq> ZE_RESULT_SUCCESS then Done (result, w)
           else obind (frequency_getState A w h s) (\<lambda>(result, s, w).
             if result \<noteq> ZE_RESULT_SUCCESS then Done (result, w)
             else obind (getThrottleTime A local_time w h) (\<lambda>(result, w).
               if result \<noteq> ZE_RESULT_SUCCESS then Done (result, w)
               else frequency_run_loop A local_range local_time Q is p s w))))))"

definition frequency_zesRun ::
  "'w frequency_api \<Rightarrow> zes_freq_range_t \<Rightarrow> zes_freq_throttle_time_t \<Rightarrow> 'w \<Rightarrow> frequency \<Rightarrow> (ze_result_t \<times> 'w) outcome" where
  "frequency_zesRun A local_range local_time w Q =
     frequency_run_loop A local_range local_time Q [0..<unat (frequencyCount Q)] zero_freq_properties zero_freq_state w"

section \<open>On a driver that keeps its promises\<close>

text \<open>
  \<open>accepts\<close> is the answer of a domain to a new range and \<open>apply\<close> what setting one does; it changes neither the
  properties of the domains nor what they answer.
\<close>

definition set_outcome :: "(zes_freq_properties_t \<Rightarrow> bool) \<Rightarrow> ze_result_t + zes_freq_properties_t \<Rightarrow> ze_result_t \<Rightarrow> ze_result_t + bool" where
  "set_outcome S x answer = (case x of Inl e \<Rightarrow> Inl e
     | Inr p \<Rightarrow> if freq_properties_type p = ZES_FREQ_DOMAIN_GPU \<and> S p
         then (if answer = ZE_RESULT_SUCCESS then Inr True else Inl answer) else Inr False)"

text \<open>Success when any domain was set, or else the last error; when there is neither, success as well.\<close>

fun last_failure :: "ze_result_t \<Rightarrow> (ze_result_t + 'v) list \<Rightarrow> ze_result_t" where
  "last_failure e [] = e"
| "last_failure e (Inl x # os) = last_failure x os"
| "last_failure e (Inr _ # os) = last_failure e os"

definition range_result :: "(ze_result_t + bool) list \<Rightarrow> ze_result_t" where
  "range_result os = (if Inr True \<in> set os then ZE_RESULT_SUCCESS else last_failure ZE_RESULT_SUCCESS os)"

locale frequency_driver =
  objs: zes_objects ok "zesDeviceEnumFrequencyDomains_l0 A" domains +
  props: zes_getter ok "zesFrequencyGetProperties_l0 A" "\<lambda>_. True" mergep props +
  states: zes_getter ok "zesFrequencyGetState_l0 A" "\<lambda>_. True" merges states +
  ranges: zes_getter ok "zesFrequencyGetRange_l0 A" "\<lambda>_. True" "\<lambda>_ v. v" ranges +
  subs: zes_objects ok "zesDeviceGetSubDevicePropertiesExp_l0 A" subdevices
  for ok :: "'w \<Rightarrow> bool" and A :: "'w frequency_api" and domains mergep props merges states ranges subdevices +
  fixes accepts :: "'w \<Rightarrow> u64 \<Rightarrow> ze_result_t"
    and apply_range :: "'w \<Rightarrow> u64 \<Rightarrow> zes_freq_range_t \<Rightarrow> 'w"
  assumes sets: "ok w \<Longrightarrow> zesFrequencySetRange_l0 A w h (Some r) =
      Done (accepts w h, (), if accepts w h = ZE_RESULT_SUCCESS then apply_range w h r else w)"
    and keeps: "ok w \<Longrightarrow> ok (apply_range w h r)" "ok w \<Longrightarrow> props (apply_range w h r) = props w"
      "ok w \<Longrightarrow> accepts (apply_range w h r) = accepts w"
    and merged_domain: "freq_properties_type (mergep op p) = freq_properties_type p"
      "freq_properties_onSubdevice (mergep op p) = freq_properties_onSubdevice p"
      "freq_properties_subdeviceId (mergep op p) = freq_properties_subdeviceId p"
      "freq_properties_max (mergep op p) = freq_properties_max p"
    and merged_freq: "freq_state_actual (merges os s) = freq_state_actual s"
begin

lemma enumerated:
  assumes "ok w" "domains w d = Inr hs"
  shows "\<exists>Q'. enumFrequencies A fresh w d Q = Done (ZE_RESULT_SUCCESS, Q', w) \<and> holds (frequencyHandles Q') (frequencyCount Q') hs
    \<and> freq_deviceHandle Q' = freq_deviceHandle Q \<and> freq_parentDevice Q' = freq_parentDevice Q"
  using assms objs.no_objects [OF assms]
  by (cases "hs = []") (simp_all add: enumFrequencies_def objs.count_ok objs.handles_ok objs.length_word holds_none holds_Some)

lemma stands_merge: "stands_for dev t (mergep op p) = stands_for dev t p" "domain_tile (mergep op p) = domain_tile p"
  by (simp_all add: stands_for_def domain_tile_def merged_domain)

lemmas driver_simps = frequency_getProperties_def frequency_getState_def props.query_ok states.query_ok merged_domain merged_freq
  stands_merge

lemma subdevices_counted: "ok w \<Longrightarrow> \<exists>b. has_subdevices A w Q = Done (b, w)"
  by (cases "freq_deviceHandle Q = 0"; cases "subdevices w (freq_deviceHandle Q)") (auto simp: has_subdevices_def subs.count_ok intro: exI [of _ False])

text \<open>What a domain does when it is set, if it is one of the GPU domains that are selected.\<close>

definition set_on :: "zes_freq_range_t \<Rightarrow> 'w \<Rightarrow> u64 list \<Rightarrow> 'w" where
  "set_on r w hs = foldl (\<lambda>w h. apply_range w h r) w hs"

definition set_domain :: "(zes_freq_properties_t \<Rightarrow> bool) \<Rightarrow> 'w \<Rightarrow> u64 \<Rightarrow> ze_result_t + bool" where
  "set_domain S w h = set_outcome S (props w h) (accepts w h)"

lemma set_domain_again [simp]: "ok w \<Longrightarrow> set_domain S (apply_range w h r) = set_domain S w"
  by (simp add: set_domain_def fun_eq_iff keeps)

lemma set_on_simps [simp]: "set_on r w [] = w" "set_on r w (h # hs) = set_on r (apply_range w h r) hs"
  by (simp_all add: set_on_def)

lemma all_domains:
  assumes "ok w" "\<forall>i\<in>set is. handle_at (frequencyHandles Q) i = Done (hs ! i)"
  shows "\<exists>f'. domains_loop A r True dev t Q is p (a, f, e) w =
    (let os = map (\<lambda>i. set_domain (\<lambda>_. True) w (hs ! i)) is in
     Done (Inr (a \<or> Inr True \<in> set os, f', last_failure e os),
       set_on r w (filter (\<lambda>h. set_domain (\<lambda>_. True) w h = Inr True) (map ((!) hs) is))))"
  using assms
proof (induction "is" arbitrary: p a f e w)
  case (Cons i js)
  have h: "handle_at (frequencyHandles Q) i = Done (hs ! i)" and js: "\<forall>i\<in>set js. handle_at (frequencyHandles Q) i = Done (hs ! i)"
    using Cons.prems(2) by simp_all
  note IH = Cons.IH [OF _ js]
  show ?case
  proof (cases "props w (hs ! i)")
    case (Inl e')
    then show ?thesis
      using IH [OF Cons.prems(1), of p a f e'] props.fails [OF Cons.prems(1) Inl]
      by (simp add: h Cons.prems(1) driver_simps set_domain_def set_outcome_def Let_def)
  next
    case (Inr v)
    show ?thesis
    proof (cases "freq_properties_type v = ZES_FREQ_DOMAIN_GPU")
      case gpu: True
      show ?thesis
        using IH [OF keeps(1) [OF Cons.prems(1)], of "mergep p v" True True e "hs ! i" r] IH [OF Cons.prems(1), of "mergep p v" a True "accepts w (hs ! i)"]
        by (cases "accepts w (hs ! i) = ZE_RESULT_SUCCESS")
          (simp_all add: h Cons.prems(1) driver_simps Inr gpu sets set_domain_def set_outcome_def keeps Let_def)
    next
      case False
      then show ?thesis
        using IH [OF Cons.prems(1), of "mergep p v" a f e]
        by (simp add: h Cons.prems(1) driver_simps Inr set_domain_def set_outcome_def Let_def)
    qed
  qed
qed simp

lemma set_all:
  assumes "ok w" "holds (frequencyHandles Q) (frequencyCount Q) hs"
  shows "setFrequencyRangeForAll A w lo hi Q = Done (range_result (map (set_domain (\<lambda>_. True) w) hs),
    set_on \<lparr>freq_range_min = lo, freq_range_max = hi\<rparr> w (filter (\<lambda>h. set_domain (\<lambda>_. True) w h = Inr True) hs))"
proof -
  obtain b where b: "has_subdevices A w Q = Done (b, w)"
    using subdevices_counted [OF assms(1)] by blast
  have "map ((!) hs) [0..<length hs] = hs"
    by (rule map_nth)
  then show ?thesis
    using all_domains [OF assms(1), of "[0..<length hs]" Q hs "\<lparr>freq_range_min = lo, freq_range_max = hi\<rparr>" False 0 zero_freq_properties
        False False ZE_RESULT_SUCCESS] assms(2)
    by (auto simp: setFrequencyRangeForAll_def setFrequencyRange_def b holds_def range_result_def Let_def
        map_handles [of "set_domain (\<lambda>_. True) w" hs])
qed

text \<open>Current frequencies per tile: the last domain of a tile stays.\<close>

definition domain_freq :: "u32 \<Rightarrow> 'w \<Rightarrow> u64 \<Rightarrow> ze_result_t + (zes_freq_properties_t \<times> zes_freq_state_t) option" where
  "domain_freq ty w h = both (\<lambda>p. freq_properties_type p = ty) (props w h) (states w h)"

lemma tile_loop:
  assumes "ok w" "\<forall>i\<in>set is. handle_at (frequencyHandles Q) i = Done (hs ! i)"
  shows "tile_freq_loop A ty Q is m w = (let xs = present (goods (map (\<lambda>i. domain_freq ty w (hs ! i)) is)) in
    Done (ZE_RESULT_SUCCESS, m ++ map_of (rev (map (\<lambda>(p, s). (domain_tile p, freq_state_actual s)) xs)), w))"
  using assms(2)
  by (induction "is" arbitrary: m)
    (auto simp: assms(1) driver_simps props.fails [OF assms(1)] states.fails [OF assms(1)] domain_freq_def Let_def
      map_add_rev split: sum.splits)

text \<open>The highest frequency.\<close>

definition valid :: "fp64 \<Rightarrow> u32 \<Rightarrow> 'w \<Rightarrow> u64 \<Rightarrow> bool" where
  "valid F ty w h = (case props w h of Inl e \<Rightarrow> False | Inr p \<Rightarrow> freq_properties_type p = ty \<and> fp_less F 0 (freq_properties_max p))"

definition top_freq :: "'w \<Rightarrow> u64 \<Rightarrow> double64" where
  "top_freq w h = (case props w h of Inl e \<Rightarrow> 0 | Inr p \<Rightarrow> freq_properties_max p)"

lemma props_of_ok: "ok w \<Longrightarrow> props_of A w h = Done (case props w h of Inl e \<Rightarrow> None | Inr p \<Rightarrow> Some (mergep (zero_freq_properties\<lparr>stype := 9\<rparr>) p), w)"
  using props.fails [of w h] by (auto simp: props_of_def driver_simps split: sum.splits)

lemma valid_cases:
  "props w h = Inl e \<Longrightarrow> \<not> valid F ty w h"
  "props w h = Inr p \<Longrightarrow> valid F ty w h = (freq_properties_type p = ty \<and> fp_less F 0 (freq_properties_max p))"
  by (simp_all add: valid_def)

lemma next_ok: "ok w \<Longrightarrow> next_valid A F ty hs w = Done (case dropWhile (\<lambda>h. \<not> valid F ty w h) hs of [] \<Rightarrow> None | h # rest \<Rightarrow> Some (h, rest), w)"
proof (induction hs)
  case (Cons h hs)
  then show ?case
    by (cases "props w h") (simp_all add: look_def props_of_ok deref_def valid_cases merged_domain)
qed simp

definition higher :: "fp64 \<Rightarrow> 'w \<Rightarrow> u64 \<Rightarrow> u64 \<Rightarrow> u64" where
  "higher F w b h = (if fp_less F (top_freq w b) (top_freq w h) then h else b)"

lemma valid_deref: "ok w \<Longrightarrow> valid F ty w h \<Longrightarrow> \<exists>p. look A w h = Done (p, w) \<and> freq_properties_max p = top_freq w h"
  by (auto simp: look_def props_of_ok deref_def valid_def top_freq_def merged_domain split: sum.splits)

lemma next_valid_filter:
  "dropWhile (\<lambda>h. \<not> valid F ty w h) hs = h # rest \<Longrightarrow> filter (valid F ty w) hs = h # filter (valid F ty w) rest"
  by (induction hs) (auto split: if_splits)

lemma fold_valid: "valid F ty w b \<Longrightarrow> list_all (valid F ty w) hs \<Longrightarrow> valid F ty w (foldl (higher F w) b hs)"
  by (induction hs arbitrary: b) (auto simp: higher_def)

lemma max_ok:
  assumes "ok w"
  shows "valid F ty w best \<Longrightarrow> max_from A F ty best hs w = Done (foldl (higher F w) best (filter (valid F ty w) hs), w)"
proof (induction hs arbitrary: best rule: length_induct)
  case (1 hs)
  show ?case
  proof (cases "dropWhile (\<lambda>h. \<not> valid F ty w h) hs")
    case Nil
    then have "filter (valid F ty w) hs = []"
      by (simp add: filter_empty_conv)
    moreover have "next_valid A F ty hs w = Done (None, w)"
      by (simp only: next_ok [OF assms] Nil list.case)
    ultimately show ?thesis
      by (simp add: max_from.simps [of A F ty best hs w])
  next
    case (Cons h rest)
    then have h: "valid F ty w h"
      by (auto simp: dropWhile_eq_Cons_conv)
    have len: "length rest < length hs"
      using length_dropWhile_le [of "\<lambda>h. \<not> valid F ty w h" hs] Cons by simp
    have f: "filter (valid F ty w) hs = h # filter (valid F ty w) rest"
      by (rule next_valid_filter [OF Cons])
    obtain p q where pq: "look A w best = Done (p, w)" "freq_properties_max p = top_freq w best"
        "look A w h = Done (q, w)" "freq_properties_max q = top_freq w h"
      using valid_deref [OF assms "1.prems"] valid_deref [OF assms h] by blast
    have "valid F ty w (higher F w best h)"
      using h "1.prems" by (simp add: higher_def)
    then show ?thesis
      using "1.IH" len pq by (simp add: max_from.simps [of A F ty best hs w] next_ok assms Cons f higher_def)
  qed
qed

lemma max_freq:
  assumes "ok w" "holds (frequencyHandles Q) (frequencyCount Q) hs"
  shows "getMaxFreqForDomain A F w ty old Q = (case filter (valid F ty w) hs of
      [] \<Rightarrow> Done (ZE_RESULT_ERROR_UNSUPPORTED_FEATURE, old, w)
    | h # rest \<Rightarrow> Done (ZE_RESULT_SUCCESS, top_freq w (foldl (higher F w) h rest), w))"
proof (cases "dropWhile (\<lambda>h. \<not> valid F ty w h) hs")
  case Nil
  then have "filter (valid F ty w) hs = []"
    by (simp add: filter_empty_conv)
  then show ?thesis
    by (simp add: getMaxFreqForDomain_def span_holds [OF assms(2)] next_ok assms(1) Nil)
next
  case (Cons h rest)
  then have h: "valid F ty w h"
    by (auto simp: dropWhile_eq_Cons_conv)
  have f: "filter (valid F ty w) hs = h # filter (valid F ty w) rest"
    using next_valid_filter [OF Cons] .
  have "valid F ty w (foldl (higher F w) h (filter (valid F ty w) rest))"
    by (rule fold_valid [OF h]) (simp add: list_all_iff)
  then show ?thesis
    using valid_deref [OF assms(1)] max_ok [OF assms(1) h, of rest]
    by (fastforce simp: getMaxFreqForDomain_def span_holds [OF assms(2)] next_ok assms(1) Cons f)
qed

end

text \<open>The first of the largest of some numbers; among positive numbers, it is as large as any of them.\<close>

definition largest :: "fp64 \<Rightarrow> double64 \<Rightarrow> double64 list \<Rightarrow> double64" where
  "largest F x xs = foldl (\<lambda>b y. if fp_less F b y then y else b) x xs"

definition orders_positive :: "fp64 \<Rightarrow> bool" where
  "orders_positive F = (\<forall>x y z. fp_less F 0 x \<longrightarrow> fp_less F 0 y \<longrightarrow> fp_less F 0 z \<longrightarrow>
     \<not> fp_less F x x \<and> (fp_less F x y \<longrightarrow> \<not> fp_less F y x) \<and> (\<not> fp_less F x y \<longrightarrow> \<not> fp_less F y z \<longrightarrow> \<not> fp_less F x z))"

lemma orders_positiveD:
  assumes "orders_positive F" "fp_less F 0 x" "fp_less F 0 y" "fp_less F 0 z"
  shows "\<not> fp_less F x x" "fp_less F x y \<Longrightarrow> \<not> fp_less F y x" "\<not> fp_less F x y \<Longrightarrow> \<not> fp_less F y z \<Longrightarrow> \<not> fp_less F x z"
  using assms unfolding orders_positive_def by blast+

lemma largest_simps [simp]: "largest F x [] = x" "largest F x (y # ys) = largest F (if fp_less F x y then y else x) ys"
  by (simp_all add: largest_def)

lemma largest_in: "largest F x xs \<in> set (x # xs)"
proof (induction xs arbitrary: x)
  case (Cons y ys)
  then show ?case
    using Cons [of "if fp_less F x y then y else x"] by (auto split: if_splits)
qed simp

lemma largest_upper:
  assumes F: "orders_positive F"
  shows "\<forall>y\<in>set (x # xs). fp_less F 0 y \<Longrightarrow> \<forall>y\<in>set (x # xs). \<not> fp_less F (largest F x xs) y"
proof (induction xs arbitrary: x)
  case Nil
  then show ?case using orders_positiveD(1) [OF F, of x x x] by simp
next
  case (Cons z zs)
  define m where "m = (if fp_less F x z then z else x)"
  have pos: "fp_less F 0 x" "fp_less F 0 z" "fp_less F 0 m" "\<forall>y\<in>set zs. fp_less F 0 y"
    using Cons.prems by (simp_all add: m_def)
  then have IH: "\<forall>y\<in>set (m # zs). \<not> fp_less F (largest F m zs) y"
    using Cons.IH [of m] by simp
  have l: "fp_less F 0 (largest F m zs)"
    using largest_in [of F m zs] pos by auto
  have m: "\<not> fp_less F m x" "\<not> fp_less F m z"
    using orders_positiveD(1) [OF F pos(1) pos(1) pos(1)] orders_positiveD(1) [OF F pos(2) pos(2) pos(2)]
      orders_positiveD(2) [OF F pos(1,2,1)] by (simp_all add: m_def)
  have "\<not> fp_less F (largest F m zs) x" "\<not> fp_less F (largest F m zs) z"
    using IH orders_positiveD(3) [OF F l pos(3,1)] orders_positiveD(3) [OF F l pos(3,2)] m by simp_all
  then show ?case
    using IH by (simp add: m_def)
qed

context frequency_driver
begin

lemma higher_largest:
  "top_freq w (foldl (higher F w) h hs) = largest F (top_freq w h) (map (top_freq w) hs)"
  by (induction hs arbitrary: h) (simp_all add: higher_def)

end

end
