(* ===== verification/Hal_StubFreq.thy ===== *)
theory Hal_StubFreq
  imports Hal_Stub Hal_Frequency
begin

text \<open>
  Frequencies over the stub. The stub has no entry point for the properties of subdevices: a call is answered like
  that of any feature a driver lacks.
\<close>

definition no_entry :: "'w \<Rightarrow> u64 \<Rightarrow> u32 option \<Rightarrow> 'v list option \<Rightarrow> ('w, u32 option \<times> 'v list option) zes_call" where
  "no_entry w h n b = Done (ZE_RESULT_ERROR_UNSUPPORTED_FEATURE, (n, b), w)"

definition stub_frequency_api :: "stub frequency_api" where
  "stub_frequency_api = \<lparr>
     zesDeviceEnumFrequencyDomains_l0 = zesDeviceEnumFrequencyDomains,
     zesFrequencyGetProperties_l0 = zesFrequencyGetProperties,
     zesFrequencyGetAvailableClocks_l0 = zesFrequencyGetAvailableClocks,
     zesFrequencyGetRange_l0 = zesFrequencyGetRange,
     zesFrequencySetRange_l0 = zesFrequencySetRange,
     zesFrequencyGetState_l0 = zesFrequencyGetState,
     zesFrequencyGetThrottleTime_l0 = zesFrequencyGetThrottleTime,
     zesDeviceGetSubDevicePropertiesExp_l0 = no_entry,
     zesDeviceEnumSchedulers_freq = zesDeviceEnumSchedulers,
     zesSchedulerGetProperties_freq = zesSchedulerGetProperties,
     zesSchedulerSetTimeoutMode_freq = zesSchedulerSetTimeoutMode,
     zesSchedulerSetTimesliceMode_freq = zesSchedulerSetTimesliceMode,
     zesSchedulerSetExclusiveMode_freq = zesSchedulerSetExclusiveMode\<rparr>"

lemma no_entry_objects: "zes_objects ok no_entry (\<lambda>_ _. Inl ZE_RESULT_ERROR_UNSUPPORTED_FEATURE)"
  by unfold_locales (simp_all add: no_entry_def ze_result_defs)

abbreviation stub_domains :: "stub \<Rightarrow> u64 \<Rightarrow> ze_result_t + u64 list" where
  "stub_domains \<equiv> stub_objects STUB_HANDLE_FREQ UNSUPPORTED_FEATURE_FREQUENCY_DOMAINS
     (\<lambda>d. rv_zesDeviceEnumFrequencyDomains (dev_return_values d)) dev_frequency_domains"

abbreviation stub_freq_properties :: "stub \<Rightarrow> u64 \<Rightarrow> ze_result_t + zes_freq_properties_t" where
  "stub_freq_properties \<equiv> stub_read resolve_freq UNSUPPORTED_FEATURE_FREQ_GET_PROPERTIES
     (\<lambda>f. rv_zesFrequencyGetProperties (freq_return_values f)) (configured freq_properties)"

abbreviation stub_freq_state :: "stub \<Rightarrow> u64 \<Rightarrow> ze_result_t + zes_freq_state_t" where
  "stub_freq_state \<equiv> stub_read resolve_freq UNSUPPORTED_FEATURE_FREQ_GET_STATE
     (\<lambda>f. rv_zesFrequencyGetState (freq_return_values f)) (configured freq_state)"

abbreviation stub_freq_range :: "stub \<Rightarrow> u64 \<Rightarrow> ze_result_t + zes_freq_range_t" where
  "stub_freq_range \<equiv> stub_read resolve_freq UNSUPPORTED_FEATURE_FREQ_GET_RANGE
     (\<lambda>f. rv_zesFrequencyGetRange (freq_return_values f)) (configured freq_range)"

text \<open>The code of a call that only succeeds or fails.\<close>

definition answer :: "ze_result_t + unit \<Rightarrow> ze_result_t" where
  "answer x = (case x of Inl e \<Rightarrow> e | Inr _ \<Rightarrow> ZE_RESULT_SUCCESS)"

abbreviation stub_set_range :: "stub \<Rightarrow> u64 \<Rightarrow> ze_result_t" where
  "stub_set_range w h \<equiv> answer (stub_read resolve_freq UNSUPPORTED_FEATURE_FREQ_SET_RANGE
     (\<lambda>f. rv_zesFrequencySetRange (freq_return_values f)) (\<lambda>_. Inr ()) w h)"

text \<open>A setter of the stub checks the object and changes nothing.\<close>

lemma stub_setter:
  assumes "\<And>w h. f w h = locked w (\<lambda>s. prologue s h (resolve s h) flag rv () (\<lambda>c. Done (ZE_RESULT_SUCCESS, ())))"
    and "\<And>s h. wf_state s \<Longrightarrow> \<exists>r. resolve s h = Done r" and w: "ready w"
  shows "f w h = Done (answer (stub_read resolve flag rv (\<lambda>_. Inr ()) w h), (), w)"
proof -
  obtain r where r: "resolve (g_sysman_state w) h = Done r"
    using assms(2) w by (auto simp: ready_def)
  show ?thesis
    unfolding assms(1) stub_call [where resolve = resolve, OF w r]
    by (subst (2) stub_read_val) (simp add: answer_def split: sum.splits)
qed

interpretation stub_freqs: frequency_driver ready stub_frequency_api stub_domains keep_header stub_freq_properties keep_header
    stub_freq_state stub_freq_range "\<lambda>_ _. Inl ZE_RESULT_ERROR_UNSUPPORTED_FEATURE" stub_set_range "\<lambda>w _ _. w"
proof (intro frequency_driver.intro frequency_driver_axioms.intro)
  show "zes_objects ready (zesDeviceEnumFrequencyDomains_l0 stub_frequency_api) stub_domains"
    by (simp add: stub_frequency_api_def enum_freq.objects)
  show "zes_getter ready (zesFrequencyGetProperties_l0 stub_frequency_api) (\<lambda>_. True) keep_header stub_freq_properties"
    by (intro stub_src_getter) (simp_all add: stub_frequency_api_def zesFrequencyGetProperties_def freq.resolve_wf)
  show "zes_getter ready (zesFrequencyGetState_l0 stub_frequency_api) (\<lambda>_. True) keep_header stub_freq_state"
    by (intro stub_src_getter) (simp_all add: stub_frequency_api_def zesFrequencyGetState_def freq.resolve_wf)
  show "zes_getter ready (zesFrequencyGetRange_l0 stub_frequency_api) (\<lambda>_. True) (\<lambda>_ v. v) stub_freq_range"
    by (intro stub_src_getter) (simp_all add: stub_frequency_api_def zesFrequencyGetRange_def freq.resolve_wf overwrite_eq)
  show "zes_objects ready (zesDeviceGetSubDevicePropertiesExp_l0 stub_frequency_api) (\<lambda>_ _. Inl ZE_RESULT_ERROR_UNSUPPORTED_FEATURE)"
    by (simp add: stub_frequency_api_def no_entry_objects)
  fix w h r
  assume "ready w"
  then have "zesFrequencySetRange w h (Some r) = Done (stub_set_range w h, (), w)"
    by (intro stub_setter [where f = "\<lambda>w h. zesFrequencySetRange w h (Some r)"]) (simp_all add: zesFrequencySetRange_def freq.resolve_wf)
  then show "zesFrequencySetRange_l0 stub_frequency_api w h (Some r) = Done (stub_set_range w h, (),
      if stub_set_range w h = ZE_RESULT_SUCCESS then w else w)"
    by (simp add: stub_frequency_api_def)
qed (simp_all add: keep_header_def)

text \<open>What a configured domain tells of itself, and what it answers to a new range.\<close>

definition domain_properties :: "stub \<Rightarrow> u64 \<Rightarrow> sysman_freq_t \<Rightarrow> ze_result_t + zes_freq_properties_t" where
  "domain_properties w d = read_component (UNSUPPORTED_FEATURE_FREQ_GET_PROPERTIES \<in> unsupported_set (g_sysman_state w) d)
     (\<lambda>f. rv_zesFrequencyGetProperties (freq_return_values f)) (configured freq_properties)"

definition domain_answer :: "stub \<Rightarrow> u64 \<Rightarrow> sysman_freq_t \<Rightarrow> ze_result_t" where
  "domain_answer w d f = answer (read_component (UNSUPPORTED_FEATURE_FREQ_SET_RANGE \<in> unsupported_set (g_sysman_state w) d)
     (\<lambda>f. rv_zesFrequencySetRange (freq_return_values f)) (\<lambda>_. Inr ()) f)"

abbreviation domains_listed :: "stub \<Rightarrow> u64 \<Rightarrow> sysman_device_state_t \<Rightarrow> bool" where
  "domains_listed \<equiv> listed UNSUPPORTED_FEATURE_FREQUENCY_DOMAINS
     (\<lambda>d. rv_zesDeviceEnumFrequencyDomains (dev_return_values d)) dev_frequency_domains"

lemma stub_domains_set:
  assumes "domains_listed w d dev"
  shows "map (stub_freqs.set_domain S w) (stub_handles STUB_HANDLE_FREQ d (length (elems (dev_frequency_domains dev))))
    = map (\<lambda>f. set_outcome S (domain_properties w d f) (domain_answer w d f)) (elems (dev_frequency_domains dev))"
  unfolding stub_freqs.set_domain_def [abs_def] domain_properties_def domain_answer_def
  by (rule enum_freq.readings_map [OF assms, where f = "\<lambda>x y. set_outcome S x (answer y)"])

lemma stub_set_on [simp]: "stub_freqs.set_on r w hs = w"
  by (induction hs) simp_all

text \<open>
  C16. Setting the range of all GPU frequency domains of a device, over the stub: the call succeeds when one of the
  configured GPU domains accepts the range, and otherwise returns the last error of a domain - of its properties, or
  of setting it. When no domain is a GPU domain and none reports an error it succeeds as well, having set nothing.
\<close>

theorem set_range_all_on_stub:
  assumes "domains_listed w d dev"
  shows "obind (frequency_init stub_frequency_api fresh w d Q) (\<lambda>(_, Q, w). setFrequencyRangeForAll stub_frequency_api w lo hi Q) =
    Done (range_result (map (\<lambda>f. set_outcome (\<lambda>_. True) (domain_properties w d f) (domain_answer w d f)) (elems (dev_frequency_domains dev))), w)"
proof -
  note w = listed_ready [OF assms]
  obtain Q' where Q': "enumFrequencies stub_frequency_api fresh w d (Q\<lparr>freq_deviceHandle := d, freq_parentDevice := None\<rparr>) = Done (ZE_RESULT_SUCCESS, Q', w)"
      "holds (frequencyHandles Q') (frequencyCount Q') (stub_handles STUB_HANDLE_FREQ d (length (elems (dev_frequency_domains dev))))"
    using stub_freqs.enumerated [OF w enum_freq.listed_objects [OF assms]] by blast
  then show ?thesis
    by (simp add: frequency_init_def stub_freqs.set_all [OF w Q'(2)] stub_domains_set [OF assms])
qed

text \<open>The maxima of the configured domains of a type that are positive.\<close>

definition domain_max :: "fp64 \<Rightarrow> u32 \<Rightarrow> ze_result_t + zes_freq_properties_t \<Rightarrow> double64 option" where
  "domain_max F ty x = (case x of Inl e \<Rightarrow> None
     | Inr p \<Rightarrow> if freq_properties_type p = ty \<and> fp_less F 0 (freq_properties_max p) then Some (freq_properties_max p) else None)"

lemma domain_maxima:
  "map (stub_freqs.top_freq w) (filter (stub_freqs.valid F ty w) hs) = present (map (\<lambda>h. domain_max F ty (stub_freq_properties w h)) hs)"
  by (induction hs) (auto simp: stub_freqs.valid_def stub_freqs.top_freq_def domain_max_def split: sum.splits)

text \<open>
  C17. The highest frequency of a domain type, over the stub: the first of the largest configured maxima of the
  domains of the type that can be read and are positive; it is one of them and none of them exceeds it. Without
  any, the feature is reported unsupported and the output is left alone.
\<close>

theorem max_frequency_on_stub:
  assumes "domains_listed w d dev" and "orders_positive F"
  shows "let ms = present (map (\<lambda>f. domain_max F ty (domain_properties w d f)) (elems (dev_frequency_domains dev)));
      call = obind (frequency_init stub_frequency_api fresh w d Q) (\<lambda>(_, Q, w). getMaxFreqForDomain stub_frequency_api F w ty old Q) in
    (ms = [] \<longrightarrow> call = Done (ZE_RESULT_ERROR_UNSUPPORTED_FEATURE, old, w))
    \<and> (ms \<noteq> [] \<longrightarrow> (\<exists>m\<in>set ms. call = Done (ZE_RESULT_SUCCESS, m, w) \<and> (\<forall>x\<in>set ms. \<not> fp_less F m x)))"
proof -
  note w = listed_ready [OF assms(1)]
  let ?hs = "stub_handles STUB_HANDLE_FREQ d (length (elems (dev_frequency_domains dev)))"
  obtain Q' where Q': "enumFrequencies stub_frequency_api fresh w d (Q\<lparr>freq_deviceHandle := d, freq_parentDevice := None\<rparr>) = Done (ZE_RESULT_SUCCESS, Q', w)"
      "holds (frequencyHandles Q') (frequencyCount Q') ?hs"
    using stub_freqs.enumerated [OF w enum_freq.listed_objects [OF assms(1)]] by blast
  have ms: "map (\<lambda>h. domain_max F ty (stub_freq_properties w h)) ?hs
      = map (\<lambda>f. domain_max F ty (domain_properties w d f)) (elems (dev_frequency_domains dev))"
    unfolding domain_properties_def by (rule enum_freq.readings_map [OF assms(1), where f = "\<lambda>x _. domain_max F ty x"])
  show ?thesis
  proof (cases "filter (stub_freqs.valid F ty w) ?hs")
    case Nil
    then show ?thesis
      using domain_maxima [of w F ty ?hs] by (simp add: frequency_init_def Q'(1) stub_freqs.max_freq [OF w Q'(2)] ms Let_def)
  next
    case (Cons h rest)
    let ?x = "stub_freqs.top_freq w h" and ?xs = "map (stub_freqs.top_freq w) rest"
    have eq: "present (map (\<lambda>f. domain_max F ty (domain_properties w d f)) (elems (dev_frequency_domains dev))) = ?x # ?xs"
      using domain_maxima [of w F ty ?hs] by (simp add: Cons ms)
    have "\<forall>h'\<in>set (filter (stub_freqs.valid F ty w) ?hs). stub_freqs.valid F ty w h'"
      by simp
    then have "\<forall>y\<in>set (?x # ?xs). fp_less F 0 y"
      unfolding Cons by (auto simp: stub_freqs.valid_def stub_freqs.top_freq_def split: sum.splits)
    then show ?thesis
      using largest_in [of F ?x ?xs] largest_upper [OF assms(2), of ?x ?xs]
      by (simp add: eq frequency_init_def Q'(1) stub_freqs.max_freq [OF w Q'(2)] Cons stub_freqs.higher_largest Let_def)
  qed
qed

end
