(* ===== verification/Hal_Power.thy ===== *)
theory Hal_Power
  imports Hal_Frequency Hal_Temperature
begin

text \<open>
  Power domains (\<^verbatim>\<open>hal/core/power.cpp\<close>): thresholds of the configuration file, energy counters of a device and
  of its tiles, and reading and setting power limits.
\<close>

definition ZES_POWER_DOMAIN_CARD :: u32 where "ZES_POWER_DOMAIN_CARD = 1"
definition ZES_POWER_DOMAIN_PACKAGE :: u32 where "ZES_POWER_DOMAIN_PACKAGE = 2"
definition ZES_POWER_DOMAIN_GPU :: u32 where "ZES_POWER_DOMAIN_GPU = 5"

lemmas power_codes = ZES_POWER_DOMAIN_CARD_def ZES_POWER_DOMAIN_PACKAGE_def ZES_POWER_DOMAIN_GPU_def

record zes_power_sustained_limit_t =
  sustained_enabled :: ze_bool_t
  sustained_power :: u32
  sustained_interval :: u32

record zes_power_burst_limit_t =
  burst_enabled :: ze_bool_t
  burst_power :: u32

record zes_power_peak_limit_t =
  peak_powerAC :: u32
  peak_powerDC :: u32

record 'w power_api =
  zesDeviceEnumPowerDomains_l0 :: "'w zes_enum"
  zesPowerGetProperties_l0 :: "'w \<Rightarrow> u64 \<Rightarrow> zes_power_properties_t option \<Rightarrow> zes_power_ext_properties_t option \<Rightarrow>
    ('w, zes_power_properties_t option \<times> zes_power_ext_properties_t option) zes_call"
  zesPowerGetEnergyCounter_l0 :: "('w, zes_power_energy_counter_t) zes_get"
  zesPowerGetEnergyThreshold_l0 :: "('w, zes_energy_threshold_t) zes_get"
  zesPowerGetLimitsExt_l0 :: "('w, zes_power_limit_ext_desc_t) zes_list"
  zesPowerSetLimitsExt_l0 :: "'w \<Rightarrow> u64 \<Rightarrow> u32 option \<Rightarrow> zes_power_limit_ext_desc_t list option \<Rightarrow> ('w, unit) zes_call"
  zesPowerSetLimits_l0 :: "'w \<Rightarrow> u64 \<Rightarrow> zes_power_sustained_limit_t option \<Rightarrow> zes_power_burst_limit_t option \<Rightarrow>
    zes_power_peak_limit_t option \<Rightarrow> ('w, unit) zes_call"
  zesDeviceGetSubDevicePropertiesExp_power :: "('w, zes_subdevice_exp_properties_t) zes_list"

record PowerLimitExt =
  limit_level :: u32
  limit_limitMw :: u32
  limit_locked :: bool

record power_class =
  powerCount :: u32
  powerHandles :: "u64 list option"
  power_zeDeviceHandle :: u64
  power_deviceHandle :: "u64 option"
  healthDeviceToTdps :: "(u32 \<rightharpoonup> u64) option"
  defaultThrottlePower :: u64

section \<open>Thresholds\<close>

text \<open>The entries of the section; a device id or a value that does not convert ends the loading.\<close>

fun tdp_entries :: "'j json_api \<Rightarrow> (string \<times> 'j) list \<Rightarrow> (u32 \<rightharpoonup> u64) \<Rightarrow> bool \<times> (u32 \<rightharpoonup> u64)" where
  "tdp_entries J [] m = (False, m)"
| "tdp_entries J ((k, v) # es) m = (case parseDeviceId k of None \<Rightarrow> (True, m)
     | Some deviceId \<Rightarrow> (case j_u64 J v of None \<Rightarrow> (True, m) | Some threshold \<Rightarrow> tdp_entries J es (m(deviceId \<mapsto> threshold))))"

definition power_loadThresholdSection :: "'j json_api \<Rightarrow> 'j \<Rightarrow> string \<Rightarrow> (u32 \<rightharpoonup> u64) \<Rightarrow> bool \<times> (u32 \<rightharpoonup> u64)" where
  "power_loadThresholdSection J thresholdsJson key m =
     (if j_contains J thresholdsJson key then tdp_entries J (j_items J (j_at J thresholdsJson key)) m else (False, m))"

definition loadPowerThresholds :: "'j json_api \<Rightarrow> 'j option option \<Rightarrow> power_class \<Rightarrow> power_class outcome" where
  "loadPowerThresholds J config P = (case config of
       Some (Some configJson) \<Rightarrow>
         (let (thrown, P) =
            (if j_contains J configJson ''default_thresholds'' \<and> j_contains J (j_at J configJson ''default_thresholds'') ''power_tdp'' then
               (case j_u64 J (j_at J (j_at J configJson ''default_thresholds'') ''power_tdp'') of
                  None \<Rightarrow> (True, P) | Some v \<Rightarrow> (False, P\<lparr>defaultThrottlePower := v\<rparr>))
             else (False, P)) in
          if thrown then Done P
          else if j_contains J configJson ''power_thresholds'' then
            (case healthDeviceToTdps P of None \<Rightarrow> Fault
             | Some m \<Rightarrow> Done (P\<lparr>healthDeviceToTdps := Some (snd (power_loadThresholdSection J (j_at J configJson ''power_thresholds'') ''tdps'' m))\<rparr>))
          else Done P)
     | _ \<Rightarrow> Done P)"

definition power_constructor :: "'j json_api \<Rightarrow> 'j option option \<Rightarrow> power_class outcome" where
  "power_constructor J config = loadPowerThresholds J config
     \<lparr>powerCount = 0, powerHandles = None, power_zeDeviceHandle = 0, power_deviceHandle = None,
      healthDeviceToTdps = Some Map.empty, defaultThrottlePower = 300\<rparr>"

definition power_destructor :: "power_class \<Rightarrow> power_class" where
  "power_destructor P = P\<lparr>powerHandles := None, healthDeviceToTdps := None\<rparr>"

definition getThrottlePower :: "u32 \<Rightarrow> power_class \<Rightarrow> u64 outcome" where
  "getThrottlePower pciDeviceId P = (case healthDeviceToTdps P of None \<Rightarrow> Fault
     | Some m \<Rightarrow> Done (threshold_or m pciDeviceId (defaultThrottlePower P)))"

section \<open>Queries of a domain\<close>

definition enumPowerDomains ::
  "'w power_api \<Rightarrow> (nat \<Rightarrow> u64) \<Rightarrow> 'w \<Rightarrow> u64 \<Rightarrow> power_class \<Rightarrow> (ze_result_t \<times> power_class \<times> 'w) outcome" where
  "enumPowerDomains A fresh w device P =
     obind (zes_count (zesDeviceEnumPowerDomains_l0 A) w device (powerCount P)) (\<lambda>(result, n, w).
       if result \<noteq> ZE_RESULT_SUCCESS \<or> n = 0 then Done (result, P\<lparr>powerCount := n\<rparr>, w)
       else obind (zes_handles (zesDeviceEnumPowerDomains_l0 A) w device n (map fresh [0..<unat n])) (\<lambda>(result, n, hs, w).
         Done (result, P\<lparr>powerCount := n, powerHandles := Some hs\<rparr>, w)))"

definition zero_power_properties :: zes_power_properties_t where
  "zero_power_properties = \<lparr>stype = 0, pNext = 0, power_properties_onSubdevice = 0, power_properties_subdeviceId = 0,
     power_properties_canControl = 0, power_properties_isEnergyThresholdSupported = 0, power_properties_defaultLimit = 0,
     power_properties_minLimit = 0, power_properties_maxLimit = 0\<rparr>"

definition zero_power_ext :: zes_power_ext_properties_t where
  "zero_power_ext = \<lparr>stype = 0, pNext = 0, power_ext_properties_domain = 0, power_ext_properties_defaultLimit = None\<rparr>"

definition zero_limit :: zes_power_limit_ext_desc_t where
  "zero_limit = \<lparr>stype = 0, pNext = 0, power_limit_ext_desc_level = 0, power_limit_ext_desc_source = 0,
     power_limit_ext_desc_limitUnit = 0, power_limit_ext_desc_enabledStateLocked = 0, power_limit_ext_desc_enabled = 0,
     power_limit_ext_desc_intervalValueLocked = 0, power_limit_ext_desc_interval = 0,
     power_limit_ext_desc_limitValueLocked = 0, power_limit_ext_desc_limit = 0\<rparr>"

text \<open>The address of the extension structure: any but null, since the driver is given the structure itself.\<close>

definition ext_address :: u64 where "ext_address = 1"

definition power_query ::
  "'w power_api \<Rightarrow> 'w \<Rightarrow> u64 \<Rightarrow> zes_power_properties_t \<Rightarrow> zes_power_ext_properties_t option \<Rightarrow>
   (ze_result_t \<times> zes_power_properties_t \<times> zes_power_ext_properties_t option \<times> 'w) outcome" where
  "power_query A w h p ext = obind (zesPowerGetProperties_l0 A w h (Some p) ext) (\<lambda>(r, (p', ext'), w).
     Done (r, written p p', ext', w))"

text \<open>Properties with an extension structure that starts as \<open>ext\<close>.\<close>

definition power_query_ext ::
  "'w power_api \<Rightarrow> 'w \<Rightarrow> u64 \<Rightarrow> zes_power_ext_properties_t \<Rightarrow>
   (ze_result_t \<times> zes_power_properties_t \<times> zes_power_ext_properties_t \<times> 'w) outcome" where
  "power_query_ext A w h ext =
     obind (power_query A w h (zero_power_properties\<lparr>stype := 0xd, pNext := ext_address\<rparr>) (Some ext)) (\<lambda>(r, p, ext', w).
       Done (r, p, written ext ext', w))"

definition power_getProperties ::
  "'w power_api \<Rightarrow> 'w \<Rightarrow> u64 \<Rightarrow> (ze_result_t \<times> zes_power_properties_t \<times> zes_power_ext_properties_t \<times> 'w) outcome" where
  "power_getProperties A w h = power_query_ext A w h (zero_power_ext\<lparr>stype := 0x28\<rparr>)"

definition getEnergyThreshold :: "'w power_api \<Rightarrow> zes_energy_threshold_t \<Rightarrow> 'w \<Rightarrow> u64 \<Rightarrow> (ze_result_t \<times> 'w) outcome" where
  "getEnergyThreshold A local w h = obind (zes_query (zesPowerGetEnergyThreshold_l0 A) w h local) (\<lambda>(r, _, w). Done (r, w))"

definition getEnergyCounter ::
  "'w power_api \<Rightarrow> 'w \<Rightarrow> u64 \<Rightarrow> (ze_result_t \<times> zes_power_energy_counter_t \<times> 'w) outcome" where
  "getEnergyCounter A w h = zes_query (zesPowerGetEnergyCounter_l0 A) w h
     \<lparr>power_energy_counter_energy = 0, power_energy_counter_timestamp = 0\<rparr>"

text \<open>The limits of a domain, with the two-call protocol.\<close>

definition limits_of ::
  "'w power_api \<Rightarrow> 'w \<Rightarrow> u64 \<Rightarrow> u32 \<Rightarrow> (ze_result_t \<times> u32 \<times> zes_power_limit_ext_desc_t list \<times> 'w) outcome" where
  "limits_of A w h n =
     obind (zes_count (zesPowerGetLimitsExt_l0 A) w h n) (\<lambda>(r, n, w).
       if r \<noteq> ZE_RESULT_SUCCESS then Done (r, n, [], w)
       else zes_handles (zesPowerGetLimitsExt_l0 A) w h n (replicate (unat n) zero_limit))"

definition getPowerLimits :: "'w power_api \<Rightarrow> 'w \<Rightarrow> u64 \<Rightarrow> (ze_result_t \<times> 'w) outcome" where
  "getPowerLimits A w h = obind (limits_of A w h 0) (\<lambda>(r, _, _, w). Done (r, w))"

section \<open>Energy\<close>

primrec energy_loop ::
  "'w power_api \<Rightarrow> u32 \<Rightarrow> power_class \<Rightarrow> nat list \<Rightarrow> u64 \<times> u64 \<Rightarrow> 'w \<Rightarrow> (ze_result_t \<times> (u64 \<times> u64) \<times> 'w) outcome" where
  "energy_loop A domain P [] out w = Done (ZE_RESULT_SUCCESS, out, w)"
| "energy_loop A domain P (i # is) out w =
     obind (handle_at (powerHandles P) i) (\<lambda>h.
     obind (power_getProperties A w h) (\<lambda>(result, _, ext, w).
       if result \<noteq> ZE_RESULT_SUCCESS then Done (result, out, w)
       else if power_ext_properties_domain ext \<noteq> domain \<and>
           (powerCount P \<noteq> 1 \<or> power_ext_properties_domain ext \<noteq> ZES_POWER_DOMAIN_PACKAGE) then energy_loop A domain P is out w
       else obind (getEnergyCounter A w h) (\<lambda>(result, c, w).
         if result \<noteq> ZE_RESULT_SUCCESS then Done (result, out, w)
         else Done (result, (power_energy_counter_energy c, power_energy_counter_timestamp c), w))))"

definition getEnergy ::
  "'w power_api \<Rightarrow> 'w \<Rightarrow> u64 option \<Rightarrow> u64 option \<Rightarrow> bool \<Rightarrow> power_class \<Rightarrow> (ze_result_t \<times> (u64 option \<times> u64 option) \<times> 'w) outcome" where
  "getEnergy A w pwr timeStamp forGPU P = (case (pwr, timeStamp) of
       (Some e, Some t) \<Rightarrow>
         obind (energy_loop A (if forGPU then ZES_POWER_DOMAIN_GPU else ZES_POWER_DOMAIN_CARD) P [0..<unat (powerCount P)] (e, t) w)
           (\<lambda>(result, (e, t), w). Done (result, (Some e, Some t), w))
     | _ \<Rightarrow> Done (ZE_RESULT_ERROR_INVALID_NULL_POINTER, (pwr, timeStamp), w))"

primrec tile_energy_loop ::
  "'w power_api \<Rightarrow> power_class \<Rightarrow> nat list \<Rightarrow> bool \<Rightarrow> (u32 \<rightharpoonup> u64 \<times> u64) \<Rightarrow> 'w \<Rightarrow> (bool \<times> (u32 \<rightharpoonup> u64 \<times> u64) \<times> 'w) outcome" where
  "tile_energy_loop A P [] found m w = Done (found, m, w)"
| "tile_energy_loop A P (i # is) found m w =
     obind (handle_at (powerHandles P) i) (\<lambda>h.
     obind (power_getProperties A w h) (\<lambda>(result, p, _, w).
       if result \<noteq> ZE_RESULT_SUCCESS then tile_energy_loop A P is found m w
       else if power_properties_onSubdevice p \<noteq> 0 then
         obind (getEnergyCounter A w h) (\<lambda>(result, c, w).
           if result \<noteq> ZE_RESULT_SUCCESS then tile_energy_loop A P is found m w
           else tile_energy_loop A P is True
             (m(power_properties_subdeviceId p \<mapsto> (power_energy_counter_energy c, power_energy_counter_timestamp c))) w)
       else tile_energy_loop A P is found m w))"

primrec device_energy_loop ::
  "'w power_api \<Rightarrow> power_class \<Rightarrow> nat list \<Rightarrow> (u32 \<rightharpoonup> u64 \<times> u64) \<Rightarrow> 'w \<Rightarrow> ((u32 \<rightharpoonup> u64 \<times> u64) \<times> 'w) outcome" where
  "device_energy_loop A P [] m w = Done (m, w)"
| "device_energy_loop A P (i # is) m w =
     obind (handle_at (powerHandles P) i) (\<lambda>h.
     obind (power_getProperties A w h) (\<lambda>(result, _, ext, w).
       if result \<noteq> ZE_RESULT_SUCCESS then device_energy_loop A P is m w
       else if power_ext_properties_domain ext = ZES_POWER_DOMAIN_CARD \<or> power_ext_properties_domain ext = ZES_POWER_DOMAIN_PACKAGE
           \<or> power_ext_properties_domain ext = ZES_POWER_DOMAIN_GPU then
         obind (getEnergyCounter A w h) (\<lambda>(result, c, w).
           if result \<noteq> ZE_RESULT_SUCCESS then device_energy_loop A P is m w
           else Done (m(0 \<mapsto> (power_energy_counter_energy c, power_energy_counter_timestamp c)), w))
       else device_energy_loop A P is m w))"

definition getEnergyPerTile :: "'w power_api \<Rightarrow> 'w \<Rightarrow> power_class \<Rightarrow> (ze_result_t \<times> (u32 \<rightharpoonup> u64 \<times> u64) \<times> 'w) outcome" where
  "getEnergyPerTile A w P =
     obind (tile_energy_loop A P [0..<unat (powerCount P)] False Map.empty w) (\<lambda>(found, m, w).
       if found then Done (ZE_RESULT_SUCCESS, m, w)
       else obind (device_energy_loop A P [0..<unat (powerCount P)] m w) (\<lambda>(m, w). Done (ZE_RESULT_SUCCESS, m, w)))"

section \<open>Limits\<close>

definition double_1000 :: double64 where "double_1000 = 0x408F400000000000"

primrec power_limit_loop ::
  "'w power_api \<Rightarrow> fp64 \<Rightarrow> double64 \<Rightarrow> power_class \<Rightarrow> nat list \<Rightarrow> u32 \<Rightarrow> 'w \<Rightarrow> (ze_result_t \<times> 'w) outcome" where
  "power_limit_loop A F powerLimit P [] n w = Done (ZE_RESULT_SUCCESS, w)"
| "power_limit_loop A F powerLimit P (i # is) n w =
     obind (handle_at (powerHandles P) i) (\<lambda>h.
     obind (limits_of A w h n) (\<lambda>(result, n, ls, w).
       if result \<noteq> ZE_RESULT_SUCCESS then Done (result, w)
       else if length ls < unat n then Fault
       else obind (zesPowerSetLimitsExt_l0 A w h (Some n)
           (Some (map (\<lambda>l. l\<lparr>power_limit_ext_desc_limit := fp_to_u32 F (fp_mult F powerLimit double_1000)\<rparr>) (take (unat n) ls)
             @ drop (unat n) ls))) (\<lambda>(result, _, w).
         if result \<noteq> ZE_RESULT_SUCCESS then Done (result, w) else power_limit_loop A F powerLimit P is n w)))"

text \<open>\<open>local\<close> is the count before it is assigned.\<close>

definition setPowerLimit :: "'w power_api \<Rightarrow> fp64 \<Rightarrow> u32 \<Rightarrow> 'w \<Rightarrow> double64 \<Rightarrow> power_class \<Rightarrow> (ze_result_t \<times> 'w) outcome" where
  "setPowerLimit A F local w powerLimit P = power_limit_loop A F powerLimit P [0..<unat (powerCount P)] local w"

text \<open>The subdevice a limit is for, or the device itself (\<open>None\<close>).\<close>

definition limit_target :: "'w power_api \<Rightarrow> 'w \<Rightarrow> u32 \<Rightarrow> power_class \<Rightarrow> ((ze_result_t + u32 option) \<times> 'w) outcome" where
  "limit_target A w tileId P =
     (if tileId = - 1 then Done (Inr None, w)
      else case power_deviceHandle P of
        None \<Rightarrow> Done (Inl ZE_RESULT_ERROR_UNINITIALIZED, w)
      | Some zesDevice \<Rightarrow>
          obind (getSubdeviceProperties (zesDeviceGetSubDevicePropertiesExp_power A) w zesDevice tileId (empty_subdevice\<lparr>stype := 0\<rparr>))
            (\<lambda>(res, props, w). Done (if res \<noteq> ZE_RESULT_SUCCESS then Inl res else Inr (Some (subdevice_exp_properties_subdeviceId props)), w)))"

definition limit_matches :: "u32 option \<Rightarrow> zes_power_properties_t \<Rightarrow> bool" where
  "limit_matches target p = (case target of
       Some t \<Rightarrow> power_properties_onSubdevice p \<noteq> 0 \<and> power_properties_subdeviceId p = t
     | None \<Rightarrow> power_properties_onSubdevice p = 0)"

primrec sustained_loop ::
  "'w power_api \<Rightarrow> u32 \<Rightarrow> u32 option \<Rightarrow> power_class \<Rightarrow> nat list \<Rightarrow> 'w \<Rightarrow> (ze_result_t \<times> 'w) outcome" where
  "sustained_loop A limitMw target P [] w = Done (ZE_RESULT_ERROR_UNKNOWN, w)"
| "sustained_loop A limitMw target P (i # is) w =
     obind (handle_at (powerHandles P) i) (\<lambda>h.
     obind (power_query A w h (zero_power_properties\<lparr>stype := 0xd\<rparr>) None) (\<lambda>(res, props, _, w).
       if res \<noteq> ZE_RESULT_SUCCESS then sustained_loop A limitMw target P is w
       else if limit_matches target props then
         obind (zesPowerSetLimits_l0 A w h (Some \<lparr>sustained_enabled = 1, sustained_power = limitMw, sustained_interval = 0\<rparr>) None None)
           (\<lambda>(res, _, w). if res = ZE_RESULT_SUCCESS then Done (res, w) else sustained_loop A limitMw target P is w)
       else sustained_loop A limitMw target P is w))"

definition setSustainedLimit :: "'w power_api \<Rightarrow> 'w \<Rightarrow> u32 \<Rightarrow> u32 \<Rightarrow> power_class \<Rightarrow> (ze_result_t \<times> 'w) outcome" where
  "setSustainedLimit A w limitMw tileId P =
     obind (limit_target A w tileId P) (\<lambda>(target, w). case target of
       Inl res \<Rightarrow> Done (res, w)
     | Inr target \<Rightarrow> sustained_loop A limitMw target P [0..<unat (powerCount P)] w)"

text \<open>
  The loops of the burst and the peak limit differ in the call that sets one. They return a success, or the first error
  and whether a domain of the device itself was found.
\<close>

primrec root_limit_loop ::
  "'w power_api \<Rightarrow> ('w \<Rightarrow> u64 \<Rightarrow> ('w, unit) zes_call) \<Rightarrow> power_class \<Rightarrow> nat list \<Rightarrow> ze_result_t \<Rightarrow> bool \<Rightarrow> 'w \<Rightarrow>
   ((ze_result_t + ze_result_t \<times> bool) \<times> 'w) outcome" where
  "root_limit_loop A setter P [] firstError found w = Done (Inr (firstError, found), w)"
| "root_limit_loop A setter P (i # is) firstError found w =
     obind (handle_at (powerHandles P) i) (\<lambda>h.
     obind (power_query A w h (zero_power_properties\<lparr>stype := 0xd\<rparr>) None) (\<lambda>(res, props, _, w).
       if res \<noteq> ZE_RESULT_SUCCESS then
         root_limit_loop A setter P is (if firstError = ZE_RESULT_ERROR_UNKNOWN then res else firstError) found w
       else if power_properties_onSubdevice props = 0 then
         obind (setter w h) (\<lambda>(res, _, w).
           if res = ZE_RESULT_SUCCESS then Done (Inl res, w)
           else root_limit_loop A setter P is (if firstError = ZE_RESULT_ERROR_UNKNOWN then res else firstError) True w)
       else root_limit_loop A setter P is firstError found w))"

definition root_limit_result :: "ze_result_t + ze_result_t \<times> bool \<Rightarrow> ze_result_t" where
  "root_limit_result x = (case x of Inl res \<Rightarrow> res
     | Inr (firstError, foundRootDomain) \<Rightarrow> if \<not> foundRootDomain then ZE_RESULT_ERROR_UNKNOWN
         else if firstError \<noteq> ZE_RESULT_ERROR_UNKNOWN then firstError else ZE_RESULT_ERROR_UNKNOWN)"

definition setBurstLimit :: "'w power_api \<Rightarrow> 'w \<Rightarrow> u32 \<Rightarrow> power_class \<Rightarrow> (ze_result_t \<times> 'w) outcome" where
  "setBurstLimit A w limitMw P =
     obind (root_limit_loop A (\<lambda>w h. zesPowerSetLimits_l0 A w h None (Some \<lparr>burst_enabled = 1, burst_power = limitMw\<rparr>) None) P
       [0..<unat (powerCount P)] ZE_RESULT_ERROR_UNKNOWN False w) (\<lambda>(x, w). Done (root_limit_result x, w))"

definition setPeakLimit :: "'w power_api \<Rightarrow> 'w \<Rightarrow> u32 \<Rightarrow> u32 \<Rightarrow> power_class \<Rightarrow> (ze_result_t \<times> 'w) outcome" where
  "setPeakLimit A w limitAcMw limitDcMw P =
     obind (root_limit_loop A (\<lambda>w h. zesPowerSetLimits_l0 A w h None None (Some \<lparr>peak_powerAC = limitAcMw, peak_powerDC = limitDcMw\<rparr>)) P
       [0..<unat (powerCount P)] ZE_RESULT_ERROR_UNKNOWN False w) (\<lambda>(x, w). Done (root_limit_result x, w))"

text \<open>What a loop over the limits of the device's own domains collects, given what it makes of the limits of a domain.\<close>

primrec root_domains_loop ::
  "'w power_api \<Rightarrow> power_class \<Rightarrow> (zes_power_ext_properties_t \<Rightarrow> zes_power_limit_ext_desc_t list \<Rightarrow> 'a \<Rightarrow> 'a) \<Rightarrow> nat list \<Rightarrow> 'a \<Rightarrow> 'w \<Rightarrow>
   ('a \<times> 'w) outcome" where
  "root_domains_loop A P add [] acc w = Done (acc, w)"
| "root_domains_loop A P add (i # is) acc w =
     obind (handle_at (powerHandles P) i) (\<lambda>h.
     obind (power_query_ext A w h (zero_power_ext\<lparr>stype := 0x28, power_ext_properties_defaultLimit := Some zero_limit\<rparr>))
       (\<lambda>(res, props, ext, w).
         if res \<noteq> ZE_RESULT_SUCCESS then root_domains_loop A P add is acc w
         else if power_properties_onSubdevice props \<noteq> 0 then root_domains_loop A P add is acc w
         else obind (limits_of A w h 0) (\<lambda>(res, n, ls, w).
           if res \<noteq> ZE_RESULT_SUCCESS then root_domains_loop A P add is acc w
           else if length ls < unat n then Fault
           else root_domains_loop A P add is (add ext (take (unat n) ls) acc) w)))"

definition getLimitsExt ::
  "'w power_api \<Rightarrow> 'w \<Rightarrow> PowerLimitExt list \<Rightarrow> power_class \<Rightarrow> (ze_result_t \<times> PowerLimitExt list \<times> 'w) outcome" where
  "getLimitsExt A w limits P =
     obind (root_domains_loop A P (\<lambda>_ ls acc. acc @ map (\<lambda>l. \<lparr>limit_level = power_limit_ext_desc_level l,
         limit_limitMw = power_limit_ext_desc_limit l, limit_locked = (power_limit_ext_desc_limitValueLocked l \<noteq> 0)\<rparr>) ls)
       [0..<unat (powerCount P)] limits w) (\<lambda>(limits, w). Done (ZE_RESULT_SUCCESS, limits, w))"

text \<open>A domain is entered with its first limit; a level keeps the last limit of the domain.\<close>

definition add_limit ::
  "u32 \<Rightarrow> zes_power_limit_ext_desc_t \<Rightarrow> (u32 \<rightharpoonup> (u32 \<rightharpoonup> u32)) \<Rightarrow> (u32 \<rightharpoonup> (u32 \<rightharpoonup> u32))" where
  "add_limit domain l m = m(domain \<mapsto> (case m domain of None \<Rightarrow> Map.empty | Some levels \<Rightarrow> levels)
     (power_limit_ext_desc_level l \<mapsto> power_limit_ext_desc_limit l))"

definition getDomainLimits ::
  "'w power_api \<Rightarrow> 'w \<Rightarrow> power_class \<Rightarrow> (ze_result_t \<times> (u32 \<rightharpoonup> (u32 \<rightharpoonup> u32)) \<times> 'w) outcome" where
  "getDomainLimits A w P =
     obind (root_domains_loop A P (\<lambda>ext ls m. foldl (\<lambda>m l. add_limit (power_ext_properties_domain ext) l m) m ls)
       [0..<unat (powerCount P)] Map.empty w) (\<lambda>(m, w). Done (ZE_RESULT_SUCCESS, m, w))"

text \<open>\<open>std::to_string\<close>.\<close>

fun dec_string :: "nat \<Rightarrow> string" where
  "dec_string n = (if n < 10 then [char_of (48 + n)] else dec_string (n div 10) @ [char_of (48 + n mod 10)])"

declare dec_string.simps [simp del]

primrec max_limit_loop :: "'w power_api \<Rightarrow> power_class \<Rightarrow> nat list \<Rightarrow> string \<Rightarrow> 'w \<Rightarrow> (string \<times> 'w) outcome" where
  "max_limit_loop A P [] s w = Done (s, w)"
| "max_limit_loop A P (i # is) s w =
     obind (handle_at (powerHandles P) i) (\<lambda>h.
     obind (power_query_ext A w h (zero_power_ext\<lparr>stype := 0x28\<rparr>)) (\<lambda>(res, props, ext, w).
       if res \<noteq> ZE_RESULT_SUCCESS then max_limit_loop A P is s w
       else if 0 < sint (power_properties_maxLimit props) then
         let s = ''1 to '' @ dec_string (nat (sint (power_properties_maxLimit props) div 1000)) in
         if power_ext_properties_domain ext = ZES_POWER_DOMAIN_PACKAGE then Done (s, w) else max_limit_loop A P is s w
       else max_limit_loop A P is s w))"

definition getMaxPowerLimit :: "'w power_api \<Rightarrow> 'w \<Rightarrow> power_class \<Rightarrow> (ze_result_t \<times> string \<times> 'w) outcome" where
  "getMaxPowerLimit A w P = obind (max_limit_loop A P [0..<unat (powerCount P)] [] w) (\<lambda>(s, w). Done (ZE_RESULT_SUCCESS, s, w))"


text \<open>The first limit of the level, if it is not locked.\<close>

fun limit_at_level :: "u32 \<Rightarrow> u32 \<Rightarrow> zes_power_limit_ext_desc_t list \<Rightarrow> ze_result_t + zes_power_limit_ext_desc_t list" where
  "limit_at_level level limitMw [] = Inl ZE_RESULT_ERROR_UNSUPPORTED_FEATURE"
| "limit_at_level level limitMw (l # ls) =
     (if power_limit_ext_desc_level l = level then
        if power_limit_ext_desc_limitValueLocked l \<noteq> 0 then Inl ZE_RESULT_ERROR_NOT_AVAILABLE
        else Inr (l\<lparr>power_limit_ext_desc_limit := limitMw\<rparr> # ls)
      else case limit_at_level level limitMw ls of Inl e \<Rightarrow> Inl e | Inr ls' \<Rightarrow> Inr (l # ls'))"

primrec limits_ext_loop ::
  "'w power_api \<Rightarrow> u32 \<Rightarrow> u32 \<Rightarrow> u32 option \<Rightarrow> power_class \<Rightarrow> nat list \<Rightarrow> 'w \<Rightarrow> (ze_result_t \<times> 'w) outcome" where
  "limits_ext_loop A level limitMw target P [] w = Done (ZE_RESULT_ERROR_UNKNOWN, w)"
| "limits_ext_loop A level limitMw target P (i # is) w =
     obind (handle_at (powerHandles P) i) (\<lambda>h.
     obind (power_query A w h (zero_power_properties\<lparr>stype := 0xd\<rparr>) None) (\<lambda>(res, props, _, w).
       if res \<noteq> ZE_RESULT_SUCCESS then limits_ext_loop A level limitMw target P is w
       else if limit_matches target props then
         obind (limits_of A w h 0) (\<lambda>(res, n, ls, w).
           if res \<noteq> ZE_RESULT_SUCCESS then limits_ext_loop A level limitMw target P is w
           else if length ls < unat n then Fault
           else case limit_at_level level limitMw (take (unat n) ls) of
               Inl res \<Rightarrow> Done (res, w)
             | Inr ls' \<Rightarrow> obind (zesPowerSetLimitsExt_l0 A w h (Some n) (Some (ls' @ drop (unat n) ls))) (\<lambda>(res, _, w). Done (res, w)))
       else limits_ext_loop A level limitMw target P is w))"

definition setLimitsExt :: "'w power_api \<Rightarrow> 'w \<Rightarrow> u32 \<Rightarrow> u32 \<Rightarrow> u32 \<Rightarrow> power_class \<Rightarrow> (ze_result_t \<times> 'w) outcome" where
  "setLimitsExt A w tileId level limitMw P =
     obind (limit_target A w tileId P) (\<lambda>(target, w). case target of
       Inl res \<Rightarrow> Done (res, w)
     | Inr target \<Rightarrow> limits_ext_loop A level limitMw target P [0..<unat (powerCount P)] w)"

section \<open>Construction and the diagnostic run\<close>

primrec init_limits_loop :: "'w power_api \<Rightarrow> power_class \<Rightarrow> nat list \<Rightarrow> ze_result_t \<Rightarrow> 'w \<Rightarrow> (ze_result_t \<times> 'w) outcome" where
  "init_limits_loop A P [] result w = Done (result, w)"
| "init_limits_loop A P (i # is) result w =
     obind (handle_at (powerHandles P) i) (\<lambda>h.
     obind (getPowerLimits A w h) (\<lambda>(result, w).
       if result \<noteq> ZE_RESULT_SUCCESS then Done (result, w) else init_limits_loop A P is result w))"

text \<open>The two overloads differ in the parent device they keep.\<close>

definition power_init_with ::
  "'w power_api \<Rightarrow> (nat \<Rightarrow> u64) \<Rightarrow> 'w \<Rightarrow> u64 \<Rightarrow> u64 option \<Rightarrow> power_class \<Rightarrow> (ze_result_t \<times> power_class \<times> 'w) outcome" where
  "power_init_with A fresh w zeDevice device P =
     obind (enumPowerDomains A fresh w zeDevice (P\<lparr>power_zeDeviceHandle := zeDevice, power_deviceHandle := device\<rparr>)) (\<lambda>(result, P, w).
       if result \<noteq> ZE_RESULT_SUCCESS then Done (result, P, w)
       else obind (init_limits_loop A P [0..<unat (powerCount P)] result w) (\<lambda>(result, w). Done (result, P, w)))"

definition power_init ::
  "'w power_api \<Rightarrow> (nat \<Rightarrow> u64) \<Rightarrow> 'w \<Rightarrow> u64 \<Rightarrow> power_class \<Rightarrow> (ze_result_t \<times> power_class \<times> 'w) outcome" where
  "power_init A fresh w zeDevice P = power_init_with A fresh w zeDevice None P"

definition power_init_device ::
  "'w power_api \<Rightarrow> (nat \<Rightarrow> u64) \<Rightarrow> 'w \<Rightarrow> u64 \<Rightarrow> u64 \<Rightarrow> power_class \<Rightarrow> (ze_result_t \<times> power_class \<times> 'w) outcome" where
  "power_init_device A fresh w zeDevice device P = power_init_with A fresh w zeDevice (Some device) P"

text \<open>\<open>local\<close> is the threshold structure of the stack, which the query fills.\<close>

primrec power_run_loop ::
  "'w power_api \<Rightarrow> zes_energy_threshold_t \<Rightarrow> power_class \<Rightarrow> nat list \<Rightarrow> ze_result_t \<Rightarrow> 'w \<Rightarrow> (ze_result_t \<times> 'w) outcome" where
  "power_run_loop A local P [] result w = Done (result, w)"
| "power_run_loop A local P (i # is) result w =
     obind (handle_at (powerHandles P) i) (\<lambda>h.
     obind (power_getProperties A w h) (\<lambda>(result, _, _, w).
       if result \<noteq> ZE_RESULT_SUCCESS then Done (result, w)
       else obind (getEnergyCounter A w h) (\<lambda>(result, _, w).
         if result \<noteq> ZE_RESULT_SUCCESS then Done (result, w)
         else obind (getEnergyThreshold A local w h) (\<lambda>(_, w).
           obind (getPowerLimits A w h) (\<lambda>(result, w).
             if result \<noteq> ZE_RESULT_SUCCESS then Done (result, w) else power_run_loop A local P is result w)))))"

definition power_zesRun :: "'w power_api \<Rightarrow> zes_energy_threshold_t \<Rightarrow> 'w \<Rightarrow> power_class \<Rightarrow> (ze_result_t \<times> 'w) outcome" where
  "power_zesRun A local w P = power_run_loop A local P [0..<unat (powerCount P)] ZE_RESULT_SUCCESS w"


section \<open>What the class computes\<close>

text \<open>The first object that is read, or the first error before it.\<close>

fun first_read :: "(ze_result_t + 'c option) list \<Rightarrow> ze_result_t \<times> 'c option" where
  "first_read [] = (ZE_RESULT_SUCCESS, None)"
| "first_read (Inl e # rs) = (e, None)"
| "first_read (Inr None # rs) = first_read rs"
| "first_read (Inr (Some c) # rs) = (ZE_RESULT_SUCCESS, Some c)"

definition energy_pair :: "zes_power_energy_counter_t \<Rightarrow> u64 \<times> u64" where
  "energy_pair c = (power_energy_counter_energy c, power_energy_counter_timestamp c)"

definition device_domains :: "u32 set" where
  "device_domains = {ZES_POWER_DOMAIN_CARD, ZES_POWER_DOMAIN_PACKAGE, ZES_POWER_DOMAIN_GPU}"

text \<open>The domain a device-wide energy is read from: the one asked for, or the package when it is the only domain.\<close>

definition energy_wanted :: "bool \<Rightarrow> nat \<Rightarrow> u32 \<Rightarrow> bool" where
  "energy_wanted forGPU n domain = (domain = (if forGPU then ZES_POWER_DOMAIN_GPU else ZES_POWER_DOMAIN_CARD)
     \<or> n = 1 \<and> domain = ZES_POWER_DOMAIN_PACKAGE)"

text \<open>Energy per tile: the tiles' own counters, or under tile 0 the first device-wide one when no tile has any.\<close>

definition energy_map :: "(u32 \<times> u64 \<times> u64) list \<Rightarrow> (u64 \<times> u64) list \<Rightarrow> u32 \<rightharpoonup> u64 \<times> u64" where
  "energy_map tiles device = (if tiles \<noteq> [] then map_of (rev tiles) else case device of [] \<Rightarrow> Map.empty | c # _ \<Rightarrow> [0 \<mapsto> c])"

text \<open>
  What setting a limit on a domain comes to: nothing (the domain is passed over), or a result that ends the call, with
  the limits to be set if there are any.
\<close>

definition limit_decision ::
  "u32 \<Rightarrow> u32 \<Rightarrow> u32 option \<Rightarrow> ze_result_t + zes_power_properties_t \<Rightarrow> ze_result_t + zes_power_limit_ext_desc_t list \<Rightarrow>
   (ze_result_t + zes_power_limit_ext_desc_t list) option" where
  "limit_decision level limitMw target props limits = (case both (limit_matches target) props limits of
       Inr (Some (_, ls)) \<Rightarrow> Some (limit_at_level level limitMw ls) | _ \<Rightarrow> None)"

text \<open>Only the first limit of the level changes, and only its value.\<close>

lemma limit_at_level_Inr:
  "limit_at_level level limitMw ls = Inr ls' \<Longrightarrow> length ls' = length ls \<and>
     (\<exists>i<length ls. power_limit_ext_desc_level (ls ! i) = level \<and> power_limit_ext_desc_limitValueLocked (ls ! i) = 0
       \<and> (\<forall>j<i. power_limit_ext_desc_level (ls ! j) \<noteq> level) \<and> ls' = ls[i := (ls ! i)\<lparr>power_limit_ext_desc_limit := limitMw\<rparr>])"
proof (induction ls arbitrary: ls')
  case (Cons l ls)
  show ?case
  proof (cases "power_limit_ext_desc_level l = level")
    case True
    with Cons.prems show ?thesis
      by (auto split: if_splits intro!: exI [of _ 0])
  next
    case False
    with Cons.prems obtain r where r: "limit_at_level level limitMw ls = Inr r" "ls' = l # r"
      by (auto split: sum.splits)
    from Cons.IH [OF r(1)] obtain i where i: "length r = length ls" "i < length ls" "power_limit_ext_desc_level (ls ! i) = level"
        "power_limit_ext_desc_limitValueLocked (ls ! i) = 0" "\<forall>j<i. power_limit_ext_desc_level (ls ! j) \<noteq> level"
        "r = ls[i := (ls ! i)\<lparr>power_limit_ext_desc_limit := limitMw\<rparr>]"
      by blast
    have "\<forall>j<Suc i. power_limit_ext_desc_level ((l # ls) ! j) \<noteq> level"
      using i(5) False by (simp add: All_less_Suc2)
    with i r(2) show ?thesis
      by (intro conjI exI [of _ "Suc i"]) simp_all
  qed
qed simp

lemma limit_at_level_Inl:
  "limit_at_level level limitMw ls = Inl e \<Longrightarrow>
     (if \<exists>l\<in>set ls. power_limit_ext_desc_level l = level then e = ZE_RESULT_ERROR_NOT_AVAILABLE else e = ZE_RESULT_ERROR_UNSUPPORTED_FEATURE)"
  by (induction ls) (auto split: if_splits sum.splits)

text \<open>Whether a limit of the level can be set: the error, or none.\<close>

definition level_verdict :: "u32 \<Rightarrow> zes_power_limit_ext_desc_t list \<Rightarrow> ze_result_t option" where
  "level_verdict level ls = (case find (\<lambda>l. power_limit_ext_desc_level l = level) ls of
       None \<Rightarrow> Some ZE_RESULT_ERROR_UNSUPPORTED_FEATURE
     | Some l \<Rightarrow> if power_limit_ext_desc_limitValueLocked l \<noteq> 0 then Some ZE_RESULT_ERROR_NOT_AVAILABLE else None)"

lemma verdict_at_level: "(case limit_at_level level limitMw ls of Inl e \<Rightarrow> Some e | Inr _ \<Rightarrow> None) = level_verdict level ls"
  by (induction ls) (auto simp: level_verdict_def split: sum.splits)

section \<open>The class over a driver\<close>

locale power_driver =
  objs: zes_objects ok "zesDeviceEnumPowerDomains_l0 A" domains +
  energy: zes_getter ok "zesPowerGetEnergyCounter_l0 A" "\<lambda>_. True" "\<lambda>_ c. c" counters +
  thresholds: zes_getter ok "zesPowerGetEnergyThreshold_l0 A" "\<lambda>_. True" "\<lambda>_ t. t" thresholds +
  limits: zes_objects ok "zesPowerGetLimitsExt_l0 A" limits
  for ok :: "'w \<Rightarrow> bool" and A :: "'w power_api" and domains counters thresholds limits +
  fixes props :: "'w \<Rightarrow> u64 \<Rightarrow> ze_result_t + (zes_power_properties_t \<times> 'x)"
    and merge :: "zes_power_properties_t \<Rightarrow> zes_power_properties_t \<Rightarrow> zes_power_properties_t"
    and extend :: "zes_power_ext_properties_t \<Rightarrow> 'x \<Rightarrow> zes_power_ext_properties_t"
    and dom_of :: "'x \<Rightarrow> u32"
    and accepts :: "'w \<Rightarrow> u64 \<Rightarrow> ze_result_t"
    and apply_limits :: "'w \<Rightarrow> u64 \<Rightarrow> zes_power_limit_ext_desc_t list \<Rightarrow> 'w"
  assumes plain: "ok w \<Longrightarrow> pNext p = 0 \<Longrightarrow> zesPowerGetProperties_l0 A w h (Some p) None =
      Done (case props w h of Inl e \<Rightarrow> (e, (Some p, None), w) | Inr (v, x) \<Rightarrow> (ZE_RESULT_SUCCESS, (Some (merge p v), None), w))"
    and extended: "ok w \<Longrightarrow> pNext p \<noteq> 0 \<Longrightarrow> stype ext = 0x28 \<Longrightarrow> zesPowerGetProperties_l0 A w h (Some p) (Some ext) =
      Done (case props w h of Inl r \<Rightarrow> (r, (Some p, Some ext), w)
        | Inr (v, x) \<Rightarrow> (ZE_RESULT_SUCCESS, (Some (merge p v), Some (extend ext x)), w))"
    and props_fail: "ok w \<Longrightarrow> props w h = Inl e \<Longrightarrow> e \<noteq> ZE_RESULT_SUCCESS"
    and merged: "power_properties_onSubdevice (merge p v) = power_properties_onSubdevice v"
      "power_properties_subdeviceId (merge p v) = power_properties_subdeviceId v"
    and extended_domain: "power_ext_properties_domain (extend ext x) = dom_of x"
    and sets: "ok w \<Longrightarrow> zesPowerSetLimitsExt_l0 A w h (Some n) (Some ls) =
      Done (accepts w h, (), if accepts w h = ZE_RESULT_SUCCESS then apply_limits w h ls else w)"
begin

lemma getProperties_ok: "ok w \<Longrightarrow> \<exists>p e. power_getProperties A w h = Done (case props w h of Inl r \<Rightarrow> (r, p, e, w)
    | Inr (v, x) \<Rightarrow> (ZE_RESULT_SUCCESS, merge p v, extend e x, w))"
  by (rule exI [of _ "zero_power_properties\<lparr>stype := 0xd, pNext := ext_address\<rparr>"], rule exI [of _ "zero_power_ext\<lparr>stype := 0x28\<rparr>"])
    (simp add: power_getProperties_def power_query_ext_def power_query_def extended ext_address_def written_def split: sum.splits)

lemma plain_ok: "ok w \<Longrightarrow> pNext p = 0 \<Longrightarrow> power_query A w h p None = Done (case props w h of Inl r \<Rightarrow> (r, p, None, w)
    | Inr (v, x) \<Rightarrow> (ZE_RESULT_SUCCESS, merge p v, None, w))"
  by (simp add: power_query_def plain written_def split: sum.splits)

lemma limits_ok: "ok w \<Longrightarrow> limits_of A w h n = Done (case limits w h of Inl e \<Rightarrow> (e, n, [], w)
    | Inr ls \<Rightarrow> (ZE_RESULT_SUCCESS, word_of_nat (length ls), ls, w))"
  by (simp add: limits_of_def limits.count_ok limits.refused limits.handles_ok limits.length_word split: sum.splits)

lemma counter_ok: "ok w \<Longrightarrow> \<exists>c. getEnergyCounter A w h = Done (case counters w h of Inl e \<Rightarrow> (e, c, w) | Inr c \<Rightarrow> (ZE_RESULT_SUCCESS, c, w))"
  by (rule exI) (simp add: getEnergyCounter_def energy.query_ok split: sum.splits)

lemma matches_merge: "limit_matches target (merge p v) = limit_matches target v"
  by (simp add: limit_matches_def merged split: option.splits)

text \<open>Construction: the handles are those of the driver, and the result that of reading every limit.\<close>

lemma init_loop:
  assumes "ok w" "\<forall>i\<in>set is. handle_at (powerHandles P) i = Done (hs ! i)"
  shows "init_limits_loop A P is ZE_RESULT_SUCCESS w = Done (err (map (\<lambda>i. limits w (hs ! i)) is), w)"
  using assms(2)
proof (induction "is")
  case (Cons i js)
  then show ?case
    using limits.refused [OF assms(1), of "hs ! i"]
    by (cases "limits w (hs ! i)") (simp_all add: assms(1) getPowerLimits_def limits_ok)
qed simp

lemma initialised:
  assumes "ok w" "domains w d = Inr hs"
  shows "\<exists>P'. power_init_with A fresh w d device P = Done (err (map (limits w) hs), P', w) \<and> holds (powerHandles P') (powerCount P') hs"
proof -
  have "\<exists>P'. enumPowerDomains A fresh w d Q = Done (ZE_RESULT_SUCCESS, P', w) \<and> holds (powerHandles P') (powerCount P') hs" for Q
    using assms objs.no_objects [OF assms]
    by (cases "hs = []") (simp_all add: enumPowerDomains_def objs.count_ok objs.handles_ok objs.length_word holds_none holds_Some)
  then obtain P' where P': "enumPowerDomains A fresh w d (P\<lparr>power_zeDeviceHandle := d, power_deviceHandle := device\<rparr>) = Done (ZE_RESULT_SUCCESS, P', w)"
      "holds (powerHandles P') (powerCount P') hs"
    by blast
  then show ?thesis
    using init_loop [OF assms(1), of "[0..<length hs]" P' hs]
    by (simp add: power_init_with_def holds_def map_handles [of "limits w" hs])
qed

text \<open>Energy.\<close>

definition energy_at :: "(zes_power_properties_t \<times> 'x \<Rightarrow> bool) \<Rightarrow> 'w \<Rightarrow> u64 \<Rightarrow> ze_result_t + ((zes_power_properties_t \<times> 'x) \<times> zes_power_energy_counter_t) option" where
  "energy_at S w h = both S (props w h) (counters w h)"

lemma energy_steps:
  assumes "ok w"
  shows "\<exists>p e c. power_getProperties A w h = Done (case props w h of Inl r \<Rightarrow> (r, p, e, w)
      | Inr (v, x) \<Rightarrow> (ZE_RESULT_SUCCESS, merge p v, extend e x, w)) \<and>
    getEnergyCounter A w h = Done (case counters w h of Inl e \<Rightarrow> (e, c, w) | Inr c \<Rightarrow> (ZE_RESULT_SUCCESS, c, w))"
  using getProperties_ok [OF assms, of h] counter_ok [OF assms, of h] by blast

lemma energy_loop_ok:
  assumes "ok w" "\<forall>i\<in>set is. handle_at (powerHandles P) i = Done (hs ! i)" "unat (powerCount P) = n"
  shows "energy_loop A (if forGPU then ZES_POWER_DOMAIN_GPU else ZES_POWER_DOMAIN_CARD) P is out w =
    (let (r, c) = first_read (map (\<lambda>i. energy_at (\<lambda>(_, x). energy_wanted forGPU n (dom_of x)) w (hs ! i)) is) in
     Done (r, (case c of None \<Rightarrow> out | Some (_, c) \<Rightarrow> energy_pair c), w))"
  using assms(2)
proof (induction "is")
  case (Cons i js)
  have one: "powerCount P = 1 \<longleftrightarrow> n = 1"
    using assms(3) by (metis unsigned_1 word_unat_eq_iff)
  from energy_steps [OF assms(1), of "hs ! i"] obtain p e c where steps:
    "power_getProperties A w (hs ! i) = Done (case props w (hs ! i) of Inl r \<Rightarrow> (r, p, e, w)
      | Inr (v, x) \<Rightarrow> (ZE_RESULT_SUCCESS, merge p v, extend e x, w))"
    "getEnergyCounter A w (hs ! i) = Done (case counters w (hs ! i) of Inl e \<Rightarrow> (e, c, w) | Inr c \<Rightarrow> (ZE_RESULT_SUCCESS, c, w))"
    by blast
  from Cons show ?case
    using props_fail [OF assms(1), of "hs ! i"] energy.fails [OF assms(1), of "hs ! i"]
    by (cases "props w (hs ! i)"; cases "counters w (hs ! i)")
      (auto simp: steps energy_at_def energy_wanted_def energy_pair_def extended_domain one split: prod.splits)
qed simp

lemma energy_ok:
  assumes "ok w" "holds (powerHandles P) (powerCount P) hs"
  shows "getEnergy A w (Some e) (Some t) forGPU P =
    (let (r, c) = first_read (map (energy_at (\<lambda>(_, x). energy_wanted forGPU (length hs) (dom_of x)) w) hs);
       (e', t') = (case c of None \<Rightarrow> (e, t) | Some (_, c) \<Rightarrow> energy_pair c) in Done (r, (Some e', Some t'), w))"
  using assms energy_loop_ok [OF assms(1), of "[0..<length hs]" P hs "length hs" forGPU "(e, t)"]
  by (simp add: getEnergy_def holds_def map_handles [of "energy_at (\<lambda>(_, x). energy_wanted forGPU (length hs) (dom_of x)) w" hs]
      split: prod.splits)

definition tile_energy :: "'w \<Rightarrow> u64 \<Rightarrow> ze_result_t + ((zes_power_properties_t \<times> 'x) \<times> zes_power_energy_counter_t) option" where
  "tile_energy w h = energy_at (\<lambda>(p, _). power_properties_onSubdevice p \<noteq> 0) w h"

definition device_energy :: "'w \<Rightarrow> u64 \<Rightarrow> ze_result_t + ((zes_power_properties_t \<times> 'x) \<times> zes_power_energy_counter_t) option" where
  "device_energy w h = energy_at (\<lambda>(_, x). dom_of x \<in> device_domains) w h"

definition tile_entry :: "(zes_power_properties_t \<times> 'x) \<times> zes_power_energy_counter_t \<Rightarrow> u32 \<times> u64 \<times> u64" where
  "tile_entry x = (power_properties_subdeviceId (fst (fst x)), energy_pair (snd x))"

lemma tile_loop:
  assumes "ok w" "\<forall>i\<in>set is. handle_at (powerHandles P) i = Done (hs ! i)"
  shows "tile_energy_loop A P is found m w = (let xs = present (goods (map (\<lambda>i. tile_energy w (hs ! i)) is)) in
    Done (found \<or> xs \<noteq> [], m ++ map_of (rev (map tile_entry xs)), w))"
  using assms(2)
proof (induction "is" arbitrary: found m)
  case (Cons i js)
  from energy_steps [OF assms(1), of "hs ! i"] obtain p e c where steps:
    "power_getProperties A w (hs ! i) = Done (case props w (hs ! i) of Inl r \<Rightarrow> (r, p, e, w)
      | Inr (v, x) \<Rightarrow> (ZE_RESULT_SUCCESS, merge p v, extend e x, w))"
    "getEnergyCounter A w (hs ! i) = Done (case counters w (hs ! i) of Inl e \<Rightarrow> (e, c, w) | Inr c \<Rightarrow> (ZE_RESULT_SUCCESS, c, w))"
    by blast
  from Cons show ?case
    using props_fail [OF assms(1), of "hs ! i"] energy.fails [OF assms(1), of "hs ! i"]
    by (cases "props w (hs ! i)"; cases "counters w (hs ! i)")
      (auto simp: steps tile_energy_def energy_at_def energy_pair_def tile_entry_def merged map_add_rev Let_def)
qed simp

lemma device_loop:
  assumes "ok w" "\<forall>i\<in>set is. handle_at (powerHandles P) i = Done (hs ! i)"
  shows "device_energy_loop A P is m w = Done (case present (goods (map (\<lambda>i. device_energy w (hs ! i)) is)) of [] \<Rightarrow> m
    | x # _ \<Rightarrow> m(0 \<mapsto> energy_pair (snd x)), w)"
  using assms(2)
proof (induction "is")
  case (Cons i js)
  from energy_steps [OF assms(1), of "hs ! i"] obtain p e c where steps:
    "power_getProperties A w (hs ! i) = Done (case props w (hs ! i) of Inl r \<Rightarrow> (r, p, e, w)
      | Inr (v, x) \<Rightarrow> (ZE_RESULT_SUCCESS, merge p v, extend e x, w))"
    "getEnergyCounter A w (hs ! i) = Done (case counters w (hs ! i) of Inl e \<Rightarrow> (e, c, w) | Inr c \<Rightarrow> (ZE_RESULT_SUCCESS, c, w))"
    by blast
  from Cons show ?case
    using props_fail [OF assms(1), of "hs ! i"] energy.fails [OF assms(1), of "hs ! i"]
    by (cases "props w (hs ! i)"; cases "counters w (hs ! i)")
      (auto simp: steps device_energy_def energy_at_def energy_pair_def extended_domain device_domains_def split: if_splits)
qed simp

lemma energy_per_tile:
  assumes "ok w" "holds (powerHandles P) (powerCount P) hs"
  shows "getEnergyPerTile A w P = Done (ZE_RESULT_SUCCESS,
    energy_map (map tile_entry (present (goods (map (tile_energy w) hs))))
      (map (\<lambda>x. energy_pair (snd x)) (present (goods (map (device_energy w) hs)))), w)"
  using assms(2) tile_loop [OF assms(1), of "[0..<length hs]" P hs False Map.empty] device_loop [OF assms(1), of "[0..<length hs]" P hs Map.empty]
  by (simp add: getEnergyPerTile_def holds_def map_handles [of "tile_energy w" hs] map_handles [of "device_energy w" hs]
      energy_map_def Let_def split: list.splits)

text \<open>Setting a limit.\<close>

definition decision :: "u32 \<Rightarrow> u32 \<Rightarrow> u32 option \<Rightarrow> 'w \<Rightarrow> u64 \<Rightarrow> (ze_result_t \<times> 'w) option" where
  "decision level limitMw target w h = map_option (\<lambda>d. case d of Inl e \<Rightarrow> (e, w)
       | Inr ls \<Rightarrow> (accepts w h, if accepts w h = ZE_RESULT_SUCCESS then apply_limits w h ls else w))
     (limit_decision level limitMw target (map_sum id fst (props w h)) (limits w h))"

lemma limit_loop:
  assumes "ok w" "\<forall>i\<in>set is. handle_at (powerHandles P) i = Done (hs ! i)"
  shows "limits_ext_loop A level limitMw target P is w =
    Done (case present (map (\<lambda>i. decision level limitMw target w (hs ! i)) is) of [] \<Rightarrow> (ZE_RESULT_ERROR_UNKNOWN, w) | d # _ \<Rightarrow> d)"
  using assms(2)
proof (induction "is")
  case (Cons i js)
  then show ?case
    using props_fail [OF assms(1), of "hs ! i"] limits.refused [OF assms(1), of "hs ! i"] limits.length_word [OF assms(1), of "hs ! i"]
    by (cases "props w (hs ! i)"; cases "limits w (hs ! i)")
      (auto simp: assms(1) plain_ok zero_power_properties_def limits_ok decision_def limit_decision_def matches_merge sets split: sum.splits)
qed simp

lemma set_limit:
  assumes "ok w" "holds (powerHandles P) (powerCount P) hs"
  shows "setLimitsExt A w (- 1) level limitMw P =
    Done (case present (map (decision level limitMw None w) hs) of [] \<Rightarrow> (ZE_RESULT_ERROR_UNKNOWN, w) | d # _ \<Rightarrow> d)"
  using assms(2) limit_loop [OF assms(1), of "[0..<length hs]" P hs]
  by (simp add: setLimitsExt_def limit_target_def holds_def map_handles [of "decision level limitMw None w" hs])

end

end
