(* ===== verification/Hal_StubPower.thy ===== *)
theory Hal_StubPower
  imports Hal_StubFreq Hal_Power Stub_Api
begin

text \<open>
  Power over the stub: the driver of \<^verbatim>\<open>hal/core/power.cpp\<close> interpreted on the stub's entry points. The stub has no entry
  points for the limits of the first revision of the interface, nor for the properties of subdevices.
\<close>

definition stub_power_api :: "stub power_api" where
  "stub_power_api = \<lparr>
     zesDeviceEnumPowerDomains_l0 = zesDeviceEnumPowerDomains,
     zesPowerGetProperties_l0 = zesPowerGetProperties,
     zesPowerGetEnergyCounter_l0 = zesPowerGetEnergyCounter,
     zesPowerGetEnergyThreshold_l0 = zesPowerGetEnergyThreshold,
     zesPowerGetLimitsExt_l0 = zesPowerGetLimitsExt,
     zesPowerSetLimitsExt_l0 = (\<lambda>w h n ls. zesPowerSetLimitsExt w h n
       (case ls of None \<Rightarrow> None | Some ls \<Rightarrow> (case ls of [] \<Rightarrow> None | l # _ \<Rightarrow> Some l))),
     zesPowerSetLimits_l0 = (\<lambda>w h _ _ _. Done (ZE_RESULT_ERROR_UNSUPPORTED_FEATURE, (), w)),
     zesDeviceGetSubDevicePropertiesExp_power = no_entry\<rparr>"

abbreviation stub_power_domains :: "stub \<Rightarrow> u64 \<Rightarrow> ze_result_t + u64 list" where
  "stub_power_domains \<equiv> stub_objects STUB_HANDLE_PWR UNSUPPORTED_FEATURE_POWER_DOMAINS
     (\<lambda>d. rv_zesDeviceEnumPowerDomains (dev_return_values d)) dev_power_domains"

definition power_info :: "sysman_power_t \<Rightarrow> ze_result_t + (zes_power_properties_t \<times> sysman_power_ext_properties_t)" where
  "power_info p = map_sum id (\<lambda>i. (power_properties_info_base i, power_properties_info_extended_properties i)) (configured power_properties p)"

abbreviation stub_power_properties :: "stub \<Rightarrow> u64 \<Rightarrow> ze_result_t + (zes_power_properties_t \<times> sysman_power_ext_properties_t)" where
  "stub_power_properties \<equiv> stub_read resolve_power UNSUPPORTED_FEATURE_POWER_GET_PROPERTIES
     (\<lambda>p. rv_zesPowerGetProperties (power_return_values p)) power_info"

abbreviation stub_energy :: "stub \<Rightarrow> u64 \<Rightarrow> ze_result_t + zes_power_energy_counter_t" where
  "stub_energy \<equiv> stub_read resolve_power UNSUPPORTED_FEATURE_POWER_GET_ENERGY_COUNTER
     (\<lambda>p. rv_zesPowerGetEnergyCounter (power_return_values p)) (configured power_energy_counter)"

abbreviation stub_energy_threshold :: "stub \<Rightarrow> u64 \<Rightarrow> ze_result_t + zes_energy_threshold_t" where
  "stub_energy_threshold \<equiv> stub_read resolve_power UNSUPPORTED_FEATURE_POWER_GET_ENERGY_THRESHOLD
     (\<lambda>p. rv_zesPowerGetEnergyThreshold (power_return_values p)) (configured power_energy_threshold)"

abbreviation stub_limits :: "stub \<Rightarrow> u64 \<Rightarrow> ze_result_t + zes_power_limit_ext_desc_t list" where
  "stub_limits \<equiv> stub_read resolve_power UNSUPPORTED_FEATURE_POWER_GET_LIMITS_EXT
     (\<lambda>p. rv_zesPowerGetLimitsExt (power_return_values p)) (\<lambda>p. Inr (elems (power_limits p)))"

abbreviation stub_set_limits :: "stub \<Rightarrow> u64 \<Rightarrow> ze_result_t" where
  "stub_set_limits w h \<equiv> answer (stub_read resolve_power UNSUPPORTED_FEATURE_POWER_SET_LIMITS_EXT
     (\<lambda>p. rv_zesPowerSetLimitsExt (power_return_values p)) (\<lambda>_. Inr ()) w h)"

text \<open>An array of a component, read with the two-call protocol.\<close>

lemma stub_array_objects:
  fixes f :: "(stub, 'v) zes_list"
  assumes f: "\<And>w h n b. f w h n b = locked w (\<lambda>s. prologue s h (resolve s h) flag rv (n, b) (\<lambda>c. two_call (cnt c) (arr_get (src c)) n b))"
    and wf: "\<And>w h c. ready w \<Longrightarrow> resolve (g_sysman_state w) h = Done (Some c) \<Longrightarrow> wf_arr (cnt c) (src c)"
    and resolves: "\<And>s h. wf_state s \<Longrightarrow> \<exists>r. resolve s h = Done r"
  shows "zes_objects ready f (stub_read resolve flag rv (\<lambda>c. Inr (elems (src c))))"
proof -
  have get: "array_getter resolve flag rv src f"
    by (rule array_getterI [OF f wf])
  have en: "\<exists>c. enabled resolve flag rv w d c \<and> xs = elems (src c)"
    if "ready w" "stub_read resolve flag rv (\<lambda>c. Inr (elems (src c))) w d = Inr xs" for w d xs
    using that by (auto simp: stub_read_def enabled_def ZE_RESULT_SUCCESS_def split: outcome.splits option.splits if_splits)
  show ?thesis
  proof (unfold_locales)
    fix w d and n :: u32
    assume w: "ready w"
    then obtain r where r: "resolve (g_sysman_state w) d = Done r"
      using resolves by (auto simp: ready_def)
    show "f w d (Some n) None = Done (case stub_read resolve flag rv (\<lambda>c. Inr (elems (src c))) w d of Inl e \<Rightarrow> (e, (Some n, None), w)
        | Inr xs \<Rightarrow> (ZE_RESULT_SUCCESS, (Some (word_of_nat (length xs)), None), w))"
    proof (cases "stub_read resolve flag rv (\<lambda>c. Inr (elems (src c))) w d")
      case (Inl e)
      then have "stub_read resolve flag rv Inr w d = Inl e"
        using stub_read_val [of resolve flag rv "\<lambda>c. Inr (elems (src c))" w d] by (simp split: sum.splits)
      then show ?thesis
        by (simp add: Inl f stub_call [where resolve = resolve, OF w r])
    next
      case (Inr xs)
      then show ?thesis
        using en [OF w Inr] get by (auto simp: array_getter_def Let_def)
    qed
  next
    fix w d xs and n :: u32 and b :: "'v list"
    assume "ready w" "stub_read resolve flag rv (\<lambda>c. Inr (elems (src c))) w d = Inr xs" "unat n = length xs" "length b = length xs"
    then show "f w d (Some n) (Some b) = Done (ZE_RESULT_SUCCESS, (Some n, Some xs), w)"
      using en [of w d xs] get word_of_nat_unat [of n] by (auto simp: array_getter_def Let_def)
  next
    fix w d e
    assume "stub_read resolve flag rv (\<lambda>c. Inr (elems (src c))) w d = Inl e"
    then show "e \<noteq> ZE_RESULT_SUCCESS"
      by (rule stub_read_fails) simp
  next
    fix w d xs
    assume "ready w" "stub_read resolve flag rv (\<lambda>c. Inr (elems (src c))) w d = Inr xs"
    then obtain c where c: "enabled resolve flag rv w d c" "xs = elems (src c)" and w: "ready w"
      using en by blast
    then have "wf_arr (cnt c) (src c)"
      using wf [OF w, of d c] by (simp add: enabled_def)
    then have "unat (cnt c) = length xs"
      using c by (simp add: wf_arr_length)
    then show "length xs < 2 ^ 32"
      using unsigned_less [of "cnt c", where ?'a = nat] by simp
  qed
qed

lemma power_info_fails: "power_info p \<noteq> Inl ZE_RESULT_SUCCESS"
  using configured_fails [of power_properties p] by (auto simp: power_info_def map_sum_def split: sum.splits)

text \<open>The properties of a domain, without an extension and with one.\<close>

lemma stub_power_query:
  assumes w: "ready w" and ext: "pNext p = 0 \<and> ext = None \<or> pNext p \<noteq> 0 \<and> ext = Some e \<and> stype e = ZES_STRUCTURE_TYPE_POWER_EXT_PROPERTIES"
  shows "zesPowerGetProperties w h (Some p) ext = Done (case stub_power_properties w h of Inl r \<Rightarrow> (r, (Some p, ext), w)
    | Inr (v, x) \<Rightarrow> (ZE_RESULT_SUCCESS, (Some (keep_header p v), map_option (power_ext_update x) ext), w))"
proof -
  from w obtain r where r: "resolve_power (g_sysman_state w) h = Done r"
    by (auto simp: ready_def power.resolve_wf)
  show ?thesis
    unfolding zesPowerGetProperties_def stub_call [where resolve = resolve_power, OF w r] stub_read_val [of _ _ _ power_info]
    using ext by (auto simp: power_info_def configured_def split: sum.splits cptr.splits)
qed

interpretation stub_power: power_driver ready stub_power_api stub_power_domains stub_energy stub_energy_threshold stub_limits
    stub_power_properties keep_header "\<lambda>e x. power_ext_update x e" stub_power_ext_properties_domain stub_set_limits "\<lambda>w _ _. w"
proof (intro power_driver.intro power_driver_axioms.intro)
  show "zes_objects ready (zesDeviceEnumPowerDomains_l0 stub_power_api) stub_power_domains"
    by (simp add: stub_power_api_def enum_power.objects)
  show "zes_getter ready (zesPowerGetEnergyCounter_l0 stub_power_api) (\<lambda>_. True) (\<lambda>_ c. c) stub_energy"
    by (intro stub_src_getter) (simp_all add: stub_power_api_def zesPowerGetEnergyCounter_def power.resolve_wf overwrite_eq)
  show "zes_getter ready (zesPowerGetEnergyThreshold_l0 stub_power_api) (\<lambda>_. True) (\<lambda>_ t. t) stub_energy_threshold"
    by (intro stub_src_getter) (simp_all add: stub_power_api_def zesPowerGetEnergyThreshold_def power.resolve_wf overwrite_eq)
  show "zes_objects ready (zesPowerGetLimitsExt_l0 stub_power_api) stub_limits"
  proof (rule stub_array_objects [where cnt = power_limits_count])
    show "zesPowerGetLimitsExt_l0 stub_power_api w h n b = locked w (\<lambda>s. prologue s h (resolve_power s h) UNSUPPORTED_FEATURE_POWER_GET_LIMITS_EXT
        (\<lambda>p. rv_zesPowerGetLimitsExt (power_return_values p)) (n, b) (\<lambda>c. two_call (power_limits_count c) (arr_get (power_limits c)) n b))" for w h n b
      by (simp add: stub_power_api_def zesPowerGetLimitsExt_def)
  qed (auto simp: power.resolve_wf wf_power_def dest: wf_resolved(3))
  fix w h p ext and e :: zes_power_ext_properties_t
  show "ready w \<Longrightarrow> pNext p = 0 \<Longrightarrow> zesPowerGetProperties_l0 stub_power_api w h (Some p) None =
      Done (case stub_power_properties w h of Inl e \<Rightarrow> (e, (Some p, None), w)
        | Inr (v, x) \<Rightarrow> (ZE_RESULT_SUCCESS, (Some (keep_header p v), None), w))"
    by (simp add: stub_power_api_def stub_power_query split: sum.splits)
  show "ready w \<Longrightarrow> pNext p \<noteq> 0 \<Longrightarrow> stype e = 0x28 \<Longrightarrow> zesPowerGetProperties_l0 stub_power_api w h (Some p) (Some e) =
      Done (case stub_power_properties w h of Inl r \<Rightarrow> (r, (Some p, Some e), w)
        | Inr (v, x) \<Rightarrow> (ZE_RESULT_SUCCESS, (Some (keep_header p v), Some (power_ext_update x e)), w))"
    by (simp split: sum.splits add: stub_power_api_def stub_power_query ZES_STRUCTURE_TYPE_POWER_EXT_PROPERTIES_def)
  show "ready w \<Longrightarrow> stub_power_properties w h = Inl r \<Longrightarrow> r \<noteq> ZE_RESULT_SUCCESS" for r
    using stub_read_fails power_info_fails by blast
  show "ready w \<Longrightarrow> zesPowerSetLimitsExt_l0 stub_power_api w h (Some n) (Some ls) =
      Done (stub_set_limits w h, (), if stub_set_limits w h = ZE_RESULT_SUCCESS then w else w)" for n ls
    unfolding stub_power_api_def
    by (simp, intro stub_setter [where f = "\<lambda>w h. zesPowerSetLimitsExt w h _ _"]) (simp_all add: zesPowerSetLimitsExt_def power.resolve_wf)
qed (simp_all add: keep_header_def power_ext_update_def)

text \<open>What a configured domain tells of itself.\<close>

definition power_properties_of :: "stub \<Rightarrow> u64 \<Rightarrow> sysman_power_t \<Rightarrow> ze_result_t + (zes_power_properties_t \<times> sysman_power_ext_properties_t)" where
  "power_properties_of w d = read_component (UNSUPPORTED_FEATURE_POWER_GET_PROPERTIES \<in> unsupported_set (g_sysman_state w) d)
     (\<lambda>p. rv_zesPowerGetProperties (power_return_values p)) power_info"

definition energy_of :: "stub \<Rightarrow> u64 \<Rightarrow> sysman_power_t \<Rightarrow> ze_result_t + zes_power_energy_counter_t" where
  "energy_of w d = read_component (UNSUPPORTED_FEATURE_POWER_GET_ENERGY_COUNTER \<in> unsupported_set (g_sysman_state w) d)
     (\<lambda>p. rv_zesPowerGetEnergyCounter (power_return_values p)) (configured power_energy_counter)"

definition limits_of_domain :: "stub \<Rightarrow> u64 \<Rightarrow> sysman_power_t \<Rightarrow> ze_result_t + zes_power_limit_ext_desc_t list" where
  "limits_of_domain w d = read_component (UNSUPPORTED_FEATURE_POWER_GET_LIMITS_EXT \<in> unsupported_set (g_sysman_state w) d)
     (\<lambda>p. rv_zesPowerGetLimitsExt (power_return_values p)) (\<lambda>p. Inr (elems (power_limits p)))"

definition set_limits_answer :: "stub \<Rightarrow> u64 \<Rightarrow> sysman_power_t \<Rightarrow> ze_result_t" where
  "set_limits_answer w d p = answer (read_component (UNSUPPORTED_FEATURE_POWER_SET_LIMITS_EXT \<in> unsupported_set (g_sysman_state w) d)
     (\<lambda>p. rv_zesPowerSetLimitsExt (power_return_values p)) (\<lambda>_. Inr ()) p)"

lemmas domain_readings = power_properties_of_def energy_of_def limits_of_domain_def set_limits_answer_def

abbreviation power_listed :: "stub \<Rightarrow> u64 \<Rightarrow> sysman_device_state_t \<Rightarrow> bool" where
  "power_listed \<equiv> listed UNSUPPORTED_FEATURE_POWER_DOMAINS (\<lambda>d. rv_zesDeviceEnumPowerDomains (dev_return_values d)) dev_power_domains"

text \<open>Four readings of each domain, combined.\<close>

lemma power_readings:
  assumes "power_listed w d dev"
  shows "map (\<lambda>h. f (stub_power_properties w h) (stub_energy w h) (stub_limits w h) (stub_set_limits w h))
      (stub_handles STUB_HANDLE_PWR d (length (elems (dev_power_domains dev))))
    = map (\<lambda>p. f (power_properties_of w d p) (energy_of w d p) (limits_of_domain w d p) (set_limits_answer w d p)) (elems (dev_power_domains dev))"
proof -
  have en: "enabled resolve_device UNSUPPORTED_FEATURE_POWER_DOMAINS (\<lambda>d. rv_zesDeviceEnumPowerDomains (dev_return_values d)) w d dev"
    and few: "length (elems (dev_power_domains dev)) \<le> 2 ^ 16"
    using assms by (simp_all add: listed_def)
  show ?thesis
    using few by (intro nth_equalityI) (simp_all add: stub_handles_def enum_power.component_read [OF en] domain_readings)
qed


definition energy_reading :: "(zes_power_properties_t \<times> sysman_power_ext_properties_t \<Rightarrow> bool) \<Rightarrow> stub \<Rightarrow> u64 \<Rightarrow> sysman_power_t \<Rightarrow>
   ze_result_t + ((zes_power_properties_t \<times> sysman_power_ext_properties_t) \<times> zes_power_energy_counter_t) option" where
  "energy_reading S w d p = both S (power_properties_of w d p) (energy_of w d p)"

lemma stub_energy_read:
  assumes "power_listed w d dev"
  shows "map (stub_power.energy_at S w) (stub_handles STUB_HANDLE_PWR d (length (elems (dev_power_domains dev))))
    = map (energy_reading S w d) (elems (dev_power_domains dev))"
  unfolding stub_power.energy_at_def [abs_def] energy_reading_def [abs_def]
  by (rule power_readings [OF assms, where f = "\<lambda>p e _ _. both S p e"])

lemma stub_power_ready:
  assumes "power_listed w d dev"
  obtains r P' where "power_init_with stub_power_api fresh w d device P = Done (r, P', w)"
    "holds (powerHandles P') (powerCount P') (stub_handles STUB_HANDLE_PWR d (length (elems (dev_power_domains dev))))"
  using stub_power.initialised [OF listed_ready [OF assms] enum_power.listed_objects [OF assms]] by blast

text \<open>
  C18. The energy of a device, over the stub: the counter of the first configured domain of the kind asked for - GPU or
  card, or the package when it is the only domain - unless a domain before it reports an error, which is then the
  answer. When there is no such domain the call succeeds and leaves the outputs as they were.
\<close>

theorem energy_on_stub:
  assumes "power_listed w d dev"
  shows "obind (power_init stub_power_api fresh w d P) (\<lambda>(_, P, w). getEnergy stub_power_api w (Some e) (Some t) forGPU P) =
    (let ps = elems (dev_power_domains dev);
       (r, c) = first_read (map (energy_reading (\<lambda>(_, x). energy_wanted forGPU (length ps) (stub_power_ext_properties_domain x)) w d) ps);
       (e', t') = (case c of None \<Rightarrow> (e, t) | Some (_, c) \<Rightarrow> energy_pair c) in Done (r, (Some e', Some t'), w))"
proof -
  obtain r P' where P': "power_init_with stub_power_api fresh w d None P = Done (r, P', w)"
      "holds (powerHandles P') (powerCount P') (stub_handles STUB_HANDLE_PWR d (length (elems (dev_power_domains dev))))"
    by (rule stub_power_ready [OF assms])
  show ?thesis
    using stub_power.energy_ok [OF listed_ready [OF assms] P'(2)] by (simp add: power_init_def P'(1) stub_energy_read [OF assms] Let_def)
qed

text \<open>
  Energy per tile, over the stub: always a success. Every tile that has a domain whose counter can be read is listed
  with it (with the last of them, when it has several); when there is no such tile, the first counter of the card,
  package or GPU domain that can be read stands for tile 0.
\<close>

theorem energy_per_tile_on_stub:
  assumes "power_listed w d dev"
  shows "obind (power_init stub_power_api fresh w d P) (\<lambda>(_, P, w). getEnergyPerTile stub_power_api w P) =
    (let ps = elems (dev_power_domains dev) in Done (ZE_RESULT_SUCCESS,
       energy_map
         (map (\<lambda>((p, _), c). (power_properties_subdeviceId p, energy_pair c))
           (present (goods (map (energy_reading (\<lambda>(p, _). power_properties_onSubdevice p \<noteq> 0) w d) ps))))
         (map (\<lambda>(_, c). energy_pair c)
           (present (goods (map (energy_reading (\<lambda>(_, x). stub_power_ext_properties_domain x \<in> device_domains) w d) ps)))), w))"
proof -
  obtain r P' where P': "power_init_with stub_power_api fresh w d None P = Done (r, P', w)"
      "holds (powerHandles P') (powerCount P') (stub_handles STUB_HANDLE_PWR d (length (elems (dev_power_domains dev))))"
    by (rule stub_power_ready [OF assms])
  show ?thesis
    by (simp add: power_init_def P'(1) stub_power.energy_per_tile [OF listed_ready [OF assms] P'(2)] stub_power.tile_energy_def [abs_def]
        stub_power.device_energy_def [abs_def] stub_power.tile_entry_def [abs_def] stub_energy_read [OF assms] case_prod_unfold Let_def)
qed

text \<open>The result of setting a limit on a domain, if the domain decides the call.\<close>

definition domain_decision :: "u32 \<Rightarrow> stub \<Rightarrow> u64 \<Rightarrow> sysman_power_t \<Rightarrow> ze_result_t option" where
  "domain_decision level w d p =
     (case both (\<lambda>(props, _). power_properties_onSubdevice props = 0) (power_properties_of w d p) (limits_of_domain w d p) of
        Inr (Some (_, ls)) \<Rightarrow> Some (case level_verdict level ls of Some e \<Rightarrow> e | None \<Rightarrow> set_limits_answer w d p)
      | _ \<Rightarrow> None)"

lemma stub_decision:
  assumes "power_listed w d dev"
  shows "map (stub_power.decision level limitMw None w) (stub_handles STUB_HANDLE_PWR d (length (elems (dev_power_domains dev))))
      = map (\<lambda>p. map_option (\<lambda>r. (r, w)) (domain_decision level w d p)) (elems (dev_power_domains dev))"
proof -
  have key: "map_option (case_sum (\<lambda>e. (e, w)) (\<lambda>_. (a, w)))
        (limit_decision level limitMw None (map_sum id fst p) l)
      = map_option (\<lambda>r. (r, w)) (case both (\<lambda>(props, _). power_properties_onSubdevice props = 0) p l of
          Inr (Some (_, ls)) \<Rightarrow> Some (case level_verdict level ls of Some e \<Rightarrow> e | None \<Rightarrow> a) | _ \<Rightarrow> None)"
    for p :: "ze_result_t + zes_power_properties_t \<times> sysman_power_ext_properties_t" and l a
    by (cases p; cases l)
      (auto simp: limit_decision_def limit_matches_def verdict_at_level [of level limitMw, symmetric] split: sum.splits)
  show ?thesis
    unfolding stub_power.decision_def [abs_def] domain_decision_def
    by (subst power_readings [OF assms, where f = "\<lambda>p _ l a. map_option (\<lambda>d. case d of Inl e \<Rightarrow> (e, w)
        | Inr _ \<Rightarrow> (a, if a = ZE_RESULT_SUCCESS then w else w)) (limit_decision level limitMw None (map_sum id fst p) l)"]) (simp add: key)
qed

text \<open>
  C19. Setting a limit of the whole device, over the stub: the first configured domain that is not a tile's and whose
  properties and limits can be read decides. It must have a limit of the level (else the feature is unsupported),
  which must not be locked (else not available), and the result is then that of setting it; later domains are not
  tried. Without such a domain the error is unknown.
\<close>

theorem set_limit_on_stub:
  assumes "power_listed w d dev"
  shows "obind (power_init stub_power_api fresh w d P) (\<lambda>(_, P, w). setLimitsExt stub_power_api w (- 1) level limitMw P) =
    Done (case present (map (domain_decision level w d) (elems (dev_power_domains dev))) of
      [] \<Rightarrow> ZE_RESULT_ERROR_UNKNOWN | r # _ \<Rightarrow> r, w)"
proof -
  obtain r P' where P': "power_init_with stub_power_api fresh w d None P = Done (r, P', w)"
      "holds (powerHandles P') (powerCount P') (stub_handles STUB_HANDLE_PWR d (length (elems (dev_power_domains dev))))"
    by (rule stub_power_ready [OF assms])
  have "present (map (\<lambda>p. map_option (\<lambda>r. (r, w)) (D p)) ps) = map (\<lambda>r. (r, w)) (present (map D ps))" for D :: "sysman_power_t \<Rightarrow> ze_result_t option" and ps
    by (induction ps) (auto split: option.splits simp: map_option_case)
  then show ?thesis
    by (simp add: stub_decision [OF assms] power_init_def P'(1) stub_power.set_limit [OF listed_ready [OF assms] P'(2)] split: list.splits)
qed

end
