(* ===== verification/Hal_Fan.thy ===== *)
theory Hal_Fan
  imports Hal_Base "HOL-Library.Signed_Division"
begin

text \<open>
  Fans (\<^verbatim>\<open>hal/core/fan.cpp\<close>): the enumeration, the caches of properties and configurations - the latter valid for half
  a second of the steady clock, which is part of the driver state here -, reading the speed of a fan in percent and
  setting its mode.
\<close>

definition ZES_FAN_SPEED_MODE_FIXED :: u32 where "ZES_FAN_SPEED_MODE_FIXED = 1"
definition ZES_FAN_SPEED_MODE_TABLE :: u32 where "ZES_FAN_SPEED_MODE_TABLE = 2"
definition ZES_FAN_SPEED_UNITS_RPM :: u32 where "ZES_FAN_SPEED_UNITS_RPM = 0"
definition ZES_FAN_SPEED_UNITS_PERCENT :: u32 where "ZES_FAN_SPEED_UNITS_PERCENT = 1"
definition ZES_FAN_TEMP_SPEED_PAIR_COUNT :: nat where "ZES_FAN_TEMP_SPEED_PAIR_COUNT = 32"
definition FAN_CONFIG_CACHE_TTL_MS :: u64 where "FAN_CONFIG_CACHE_TTL_MS = 500"

lemmas fan_codes = ZES_FAN_SPEED_MODE_FIXED_def ZES_FAN_SPEED_MODE_TABLE_def ZES_FAN_SPEED_UNITS_RPM_def
  ZES_FAN_SPEED_UNITS_PERCENT_def ZES_FAN_TEMP_SPEED_PAIR_COUNT_def

record 'w fan_api =
  zesDeviceEnumFans_l0 :: "'w zes_enum"
  zesFanGetProperties_l0 :: "('w, zes_fan_properties_t) zes_get"
  zesFanGetConfig_l0 :: "('w, zes_fan_config_t) zes_get"
  zesFanGetState_l0 :: "'w \<Rightarrow> u64 \<Rightarrow> u32 \<Rightarrow> u32 option \<Rightarrow> ('w, u32 option) zes_call"
  zesFanSetDefaultMode_l0 :: "'w \<Rightarrow> u64 \<Rightarrow> ('w, unit) zes_call"
  zesFanSetFixedSpeedMode_l0 :: "'w \<Rightarrow> u64 \<Rightarrow> zes_fan_speed_t option \<Rightarrow> ('w, unit) zes_call"
  zesFanSetSpeedTableMode_l0 :: "'w \<Rightarrow> u64 \<Rightarrow> zes_fan_speed_table_t option \<Rightarrow> ('w, unit) zes_call"
  steady_ms :: "'w \<Rightarrow> u64 \<times> 'w"

record fan_class =
  fan_deviceHandle :: u64
  fanCount :: u32
  fanHandles :: "u64 list option"
  fanPropsCache :: "zes_fan_properties_t list option"
  fanPropsCached :: "bool list option"
  fanConfigCache :: "zes_fan_config_t list option"
  fanConfigCached :: "bool list option"
  fanConfigCachedAtMs :: "u64 list option"

definition fan_constructor :: fan_class where
  "fan_constructor = \<lparr>fan_deviceHandle = 0, fanCount = 0, fanHandles = None, fanPropsCache = None, fanPropsCached = None,
     fanConfigCache = None, fanConfigCached = None, fanConfigCachedAtMs = None\<rparr>"

text \<open>An element of one of the arrays.\<close>

definition elem_at :: "'a list option \<Rightarrow> nat \<Rightarrow> 'a outcome" where
  "elem_at p i = (case p of None \<Rightarrow> Fault | Some xs \<Rightarrow> if i < length xs then Done (xs ! i) else Fault)"

definition put_elem :: "'a list option \<Rightarrow> nat \<Rightarrow> 'a \<Rightarrow> 'a list option outcome" where
  "put_elem p i v = (case p of None \<Rightarrow> Fault | Some xs \<Rightarrow> if i < length xs then Done (Some (xs[i := v])) else Fault)"

definition zero_fan_properties :: zes_fan_properties_t where
  "zero_fan_properties = \<lparr>stype = 0, pNext = 0, fan_properties_onSubdevice = 0, fan_properties_subdeviceId = 0, fan_properties_canControl = 0,
     fan_properties_supportedModes = 0, fan_properties_supportedUnits = 0, fan_properties_maxRPM = 0, fan_properties_maxPoints = 0\<rparr>"

definition zero_speed :: zes_fan_speed_t where
  "zero_speed = \<lparr>fan_speed_speed = 0, fan_speed_units = 0\<rparr>"

definition zero_speed_table :: zes_fan_speed_table_t where
  "zero_speed_table = \<lparr>fan_speed_table_numPoints = 0,
     fan_speed_table_table = replicate ZES_FAN_TEMP_SPEED_PAIR_COUNT \<lparr>fan_temp_speed_temperature = 0, fan_temp_speed_speed = zero_speed\<rparr>\<rparr>"

definition zero_fan_config :: zes_fan_config_t where
  "zero_fan_config = \<lparr>stype = 0, pNext = 0, fan_config_mode = 0, fan_config_speedFixed = zero_speed, fan_config_speedTable = zero_speed_table\<rparr>"

section \<open>Enumeration\<close>

definition clearFanHandles :: "fan_class \<Rightarrow> fan_class" where
  "clearFanHandles Q = Q\<lparr>fanHandles := None, fanPropsCache := None, fanPropsCached := None, fanConfigCache := None,
     fanConfigCached := None, fanConfigCachedAtMs := None, fanCount := 0\<rparr>"

definition fan_destructor :: "fan_class \<Rightarrow> fan_class" where
  "fan_destructor Q = clearFanHandles Q"

definition enumFans :: "'w fan_api \<Rightarrow> (nat \<Rightarrow> u64) \<Rightarrow> 'w \<Rightarrow> u64 \<Rightarrow> fan_class \<Rightarrow> (ze_result_t \<times> fan_class \<times> 'w) outcome" where
  "enumFans A fresh w device Q =
     (let Q = clearFanHandles (Q\<lparr>fan_deviceHandle := device\<rparr>) in
      obind (zes_count (zesDeviceEnumFans_l0 A) w device (fanCount Q)) (\<lambda>(result, n, w).
        if result \<noteq> ZE_RESULT_SUCCESS then Done (result, Q\<lparr>fanCount := n\<rparr>, w)
        else if n = 0 then Done (ZE_RESULT_SUCCESS, Q\<lparr>fanCount := n\<rparr>, w)
        else obind (zes_handles (zesDeviceEnumFans_l0 A) w device n (map fresh [0..<unat n])) (\<lambda>(result, n, hs, w).
          if result \<noteq> ZE_RESULT_SUCCESS then Done (result, clearFanHandles (Q\<lparr>fanCount := n, fanHandles := Some hs\<rparr>), w)
          else Done (ZE_RESULT_SUCCESS, Q\<lparr>fanCount := n, fanHandles := Some hs,
            fanPropsCache := Some (replicate (unat n) zero_fan_properties), fanPropsCached := Some (replicate (unat n) False),
            fanConfigCache := Some (replicate (unat n) zero_fan_config), fanConfigCached := Some (replicate (unat n) False),
            fanConfigCachedAtMs := Some (replicate (unat n) 0)\<rparr>, w))))"

definition ensureFansEnumerated :: "'w fan_api \<Rightarrow> (nat \<Rightarrow> u64) \<Rightarrow> 'w \<Rightarrow> fan_class \<Rightarrow> (ze_result_t \<times> fan_class \<times> 'w) outcome" where
  "ensureFansEnumerated A fresh w Q =
     (if fanHandles Q \<noteq> None \<and> 0 < fanCount Q then Done (ZE_RESULT_SUCCESS, Q, w)
      else if fan_deviceHandle Q = 0 then Done (ZE_RESULT_ERROR_UNINITIALIZED, Q, w)
      else enumFans A fresh w (fan_deviceHandle Q) Q)"

definition resolveTargetFanIndexes ::
  "'w fan_api \<Rightarrow> (nat \<Rightarrow> u64) \<Rightarrow> 'w \<Rightarrow> u32 \<Rightarrow> fan_class \<Rightarrow> (ze_result_t \<times> nat list \<times> fan_class \<times> 'w) outcome" where
  "resolveTargetFanIndexes A fresh w fanId Q =
     obind (ensureFansEnumerated A fresh w Q) (\<lambda>(result, Q, w).
       if result \<noteq> ZE_RESULT_SUCCESS then Done (result, [], Q, w)
       else if fanCount Q = 0 then Done (ZE_RESULT_ERROR_NOT_AVAILABLE, [], Q, w)
       else if fanId = - 1 then Done (ZE_RESULT_SUCCESS, [0..<unat (fanCount Q)], Q, w)
       else if sint fanId < 0 \<or> fanCount Q \<le> fanId then Done (ZE_RESULT_ERROR_INVALID_ARGUMENT, [], Q, w)
       else Done (ZE_RESULT_SUCCESS, [unat fanId], Q, w))"

definition getFanCount :: "'w fan_api \<Rightarrow> (nat \<Rightarrow> u64) \<Rightarrow> 'w \<Rightarrow> u32 \<Rightarrow> fan_class \<Rightarrow> (ze_result_t \<times> u32 \<times> fan_class \<times> 'w) outcome" where
  "getFanCount A fresh w count Q = obind (ensureFansEnumerated A fresh w Q) (\<lambda>(result, Q, w).
     if result \<noteq> ZE_RESULT_SUCCESS then Done (result, count, Q, w) else Done (ZE_RESULT_SUCCESS, fanCount Q, Q, w))"

definition fan_init :: "u64 \<Rightarrow> fan_class \<Rightarrow> ze_result_t \<times> fan_class" where
  "fan_init device Q = (ZE_RESULT_SUCCESS, Q\<lparr>fan_deviceHandle := device\<rparr>)"

definition fan_zesRun :: "'w fan_api \<Rightarrow> (nat \<Rightarrow> u64) \<Rightarrow> 'w \<Rightarrow> u64 \<Rightarrow> fan_class \<Rightarrow> (ze_result_t \<times> fan_class \<times> 'w) outcome" where
  "fan_zesRun A fresh w device Q = ensureFansEnumerated A fresh w (Q\<lparr>fan_deviceHandle := device\<rparr>)"

section \<open>Cached queries\<close>

definition invalidateFanConfigCacheById :: "nat \<Rightarrow> fan_class \<Rightarrow> fan_class outcome" where
  "invalidateFanConfigCacheById fanId Q =
     (if fanConfigCached Q = None \<or> fanConfigCachedAtMs Q = None \<or> unat (fanCount Q) \<le> fanId then Done Q
      else obind (put_elem (fanConfigCached Q) fanId False) (\<lambda>cached.
        obind (put_elem (fanConfigCachedAtMs Q) fanId 0) (\<lambda>times.
          Done (Q\<lparr>fanConfigCached := cached, fanConfigCachedAtMs := times\<rparr>))))"

definition read_config ::
  "'w fan_api \<Rightarrow> 'w \<Rightarrow> u64 \<Rightarrow> nat \<Rightarrow> zes_fan_config_t \<Rightarrow> fan_class \<Rightarrow> (ze_result_t \<times> zes_fan_config_t \<times> fan_class \<times> 'w) outcome" where
  "read_config A w nowMs fanId config Q =
     obind (handle_at (fanHandles Q) fanId) (\<lambda>h.
     obind (zes_query (zesFanGetConfig_l0 A) w h zero_fan_config) (\<lambda>(result, live, w).
       if result \<noteq> ZE_RESULT_SUCCESS then Done (result, config, Q, w)
       else obind (put_elem (fanConfigCache Q) fanId live) (\<lambda>cache.
         obind (put_elem (fanConfigCached Q) fanId True) (\<lambda>cached.
         obind (put_elem (fanConfigCachedAtMs Q) fanId nowMs) (\<lambda>times.
           Done (ZE_RESULT_SUCCESS, live, Q\<lparr>fanConfigCache := cache, fanConfigCached := cached, fanConfigCachedAtMs := times\<rparr>, w))))))"

definition getConfigById ::
  "'w fan_api \<Rightarrow> 'w \<Rightarrow> nat \<Rightarrow> zes_fan_config_t \<Rightarrow> fan_class \<Rightarrow> (ze_result_t \<times> zes_fan_config_t \<times> fan_class \<times> 'w) outcome" where
  "getConfigById A w fanId config Q =
     (if fanHandles Q = None \<or> fanConfigCache Q = None \<or> fanConfigCached Q = None \<or> fanConfigCachedAtMs Q = None \<or> unat (fanCount Q) \<le> fanId
      then Done (ZE_RESULT_ERROR_INVALID_ARGUMENT, config, Q, w)
      else let (nowMs, w) = steady_ms A w in
        obind (elem_at (fanConfigCached Q) fanId) (\<lambda>cached.
          if cached then
            obind (elem_at (fanConfigCachedAtMs Q) fanId) (\<lambda>t.
              if nowMs - t \<le> FAN_CONFIG_CACHE_TTL_MS then
                obind (elem_at (fanConfigCache Q) fanId) (\<lambda>c. Done (ZE_RESULT_SUCCESS, c, Q, w))
              else read_config A w nowMs fanId config Q)
          else read_config A w nowMs fanId config Q))"

definition fan_getProperties ::
  "'w fan_api \<Rightarrow> 'w \<Rightarrow> u64 \<Rightarrow> (ze_result_t \<times> zes_fan_properties_t \<times> 'w) outcome" where
  "fan_getProperties A w h = zes_query (zesFanGetProperties_l0 A) w h zero_fan_properties"

definition getPropertiesById ::
  "'w fan_api \<Rightarrow> 'w \<Rightarrow> nat \<Rightarrow> zes_fan_properties_t \<Rightarrow> fan_class \<Rightarrow> (ze_result_t \<times> zes_fan_properties_t \<times> fan_class \<times> 'w) outcome" where
  "getPropertiesById A w fanId props Q =
     (if fanHandles Q = None \<or> fanPropsCache Q = None \<or> fanPropsCached Q = None \<or> unat (fanCount Q) \<le> fanId
      then Done (ZE_RESULT_ERROR_INVALID_ARGUMENT, props, Q, w)
      else obind (elem_at (fanPropsCached Q) fanId) (\<lambda>cached.
        if cached then obind (elem_at (fanPropsCache Q) fanId) (\<lambda>p. Done (ZE_RESULT_SUCCESS, p, Q, w))
        else obind (handle_at (fanHandles Q) fanId) (\<lambda>h.
          obind (fan_getProperties A w h) (\<lambda>(result, props, w).
            if result = ZE_RESULT_SUCCESS then
              obind (put_elem (fanPropsCache Q) fanId props) (\<lambda>cache.
              obind (put_elem (fanPropsCached Q) fanId True) (\<lambda>cached.
                Done (result, props, Q\<lparr>fanPropsCache := cache, fanPropsCached := cached\<rparr>, w)))
            else Done (result, props, Q, w)))))"

definition getConfig ::
  "'w fan_api \<Rightarrow> (nat \<Rightarrow> u64) \<Rightarrow> 'w \<Rightarrow> zes_fan_config_t \<Rightarrow> u32 \<Rightarrow> fan_class \<Rightarrow> (ze_result_t \<times> zes_fan_config_t \<times> fan_class \<times> 'w) outcome" where
  "getConfig A fresh w config fanId Q =
     obind (resolveTargetFanIndexes A fresh w fanId Q) (\<lambda>(result, targets, Q, w).
       if result \<noteq> ZE_RESULT_SUCCESS then Done (result, config, Q, w)
       else case targets of [] \<Rightarrow> Done (ZE_RESULT_ERROR_NOT_AVAILABLE, config, Q, w)
         | i # _ \<Rightarrow> getConfigById A w i config Q)"

section \<open>Speed in percent\<close>

text \<open>
  The quotient is computed with 64 bits and cut down to 32; only then is it clamped. A signed division rounds towards
  zero.
\<close>

definition clamp_percent :: "u32 \<Rightarrow> u32" where
  "clamp_percent p = (if sint p < 0 then 0 else if 100 < sint p then 100 else p)"

definition rpm_percent :: "u32 \<Rightarrow> u32 \<Rightarrow> u32" where
  "rpm_percent speed maxRPM = clamp_percent (word_of_int ((sint speed * 100) sdiv sint maxRPM))"

text \<open>Whether the points behind the first have its speed and unit; the array has 32 elements.\<close>

primrec flat_loop :: "zes_fan_temp_speed_t list \<Rightarrow> zes_fan_speed_t \<Rightarrow> nat list \<Rightarrow> bool outcome" where
  "flat_loop table s [] = Done True"
| "flat_loop table s (i # is) =
     obind (elem_at (Some table) i) (\<lambda>e.
       if fan_speed_speed (fan_temp_speed_speed e) \<noteq> fan_speed_speed s \<or> fan_speed_units (fan_temp_speed_speed e) \<noteq> fan_speed_units s
       then Done False else flat_loop table s is)"

text \<open>The fixed speed of a configuration, or the common speed of its table.\<close>

definition set_speed :: "zes_fan_config_t \<Rightarrow> zes_fan_speed_t option outcome" where
  "set_speed cfg = (let tbl = fan_config_speedTable cfg in
     if fan_config_mode cfg = ZES_FAN_SPEED_MODE_FIXED then Done (Some (fan_config_speedFixed cfg))
     else if fan_config_mode cfg = ZES_FAN_SPEED_MODE_TABLE \<and> 0 < sint (fan_speed_table_numPoints tbl) then
       obind (elem_at (Some (fan_speed_table_table tbl)) 0) (\<lambda>e.
       obind (flat_loop (fan_speed_table_table tbl) (fan_temp_speed_speed e) [1..<nat (sint (fan_speed_table_numPoints tbl))]) (\<lambda>flat.
         Done (if flat then Some (fan_temp_speed_speed e) else None)))
     else Done None)"

text \<open>A speed in percent; a speed in revolutions needs the maximum of the fan.\<close>

definition speed_percent :: "'w fan_api \<Rightarrow> 'w \<Rightarrow> nat \<Rightarrow> zes_fan_speed_t \<Rightarrow> fan_class \<Rightarrow> (u32 option \<times> fan_class \<times> 'w) outcome" where
  "speed_percent A w fanId s Q =
     (if fan_speed_units s = ZES_FAN_SPEED_UNITS_PERCENT then Done (Some (fan_speed_speed s), Q, w)
      else if fan_speed_units s = ZES_FAN_SPEED_UNITS_RPM then
        obind (getPropertiesById A w fanId zero_fan_properties Q) (\<lambda>(result, props, Q, w).
          Done (if result = ZE_RESULT_SUCCESS \<and> 0 < sint (fan_properties_maxRPM props)
            then Some (rpm_percent (fan_speed_speed s) (fan_properties_maxRPM props)) else None, Q, w))
      else Done (None, Q, w))"

definition configured_percent :: "'w fan_api \<Rightarrow> 'w \<Rightarrow> nat \<Rightarrow> fan_class \<Rightarrow> (u32 option \<times> fan_class \<times> 'w) outcome" where
  "configured_percent A w fanId Q =
     obind (getConfigById A w fanId zero_fan_config Q) (\<lambda>(result, cfg, Q, w).
       if result \<noteq> ZE_RESULT_SUCCESS then Done (None, Q, w)
       else obind (set_speed cfg) (\<lambda>s. case s of None \<Rightarrow> Done (None, Q, w) | Some s \<Rightarrow> speed_percent A w fanId s Q))"

definition fan_state :: "'w fan_api \<Rightarrow> u32 \<Rightarrow> 'w \<Rightarrow> nat \<Rightarrow> fan_class \<Rightarrow> (ze_result_t \<times> u32 \<times> 'w) outcome" where
  "fan_state A units w fanId Q = obind (handle_at (fanHandles Q) fanId) (\<lambda>h. zes_query (\<lambda>w h. zesFanGetState_l0 A w h units) w h 0)"

definition measured_percent :: "'w fan_api \<Rightarrow> 'w \<Rightarrow> nat \<Rightarrow> u32 \<Rightarrow> fan_class \<Rightarrow> (ze_result_t \<times> u32 \<times> fan_class \<times> 'w) outcome" where
  "measured_percent A w fanId pct Q =
     obind (fan_state A ZES_FAN_SPEED_UNITS_PERCENT w fanId Q) (\<lambda>(result, speed, w).
       if result = ZE_RESULT_SUCCESS \<and> 0 \<le> sint speed then Done (ZE_RESULT_SUCCESS, speed, Q, w)
       else obind (fan_state A ZES_FAN_SPEED_UNITS_RPM w fanId Q) (\<lambda>(result, speedRpm, w).
         if result \<noteq> ZE_RESULT_SUCCESS \<or> sint speedRpm < 0 then Done (ZE_RESULT_ERROR_NOT_AVAILABLE, pct, Q, w)
         else obind (getPropertiesById A w fanId zero_fan_properties Q) (\<lambda>(result, props, Q, w).
           if result \<noteq> ZE_RESULT_SUCCESS \<or> fan_properties_maxRPM props = 0 then Done (ZE_RESULT_ERROR_NOT_AVAILABLE, pct, Q, w)
           else Done (ZE_RESULT_SUCCESS, rpm_percent speedRpm (fan_properties_maxRPM props), Q, w))))"

definition getSpeedPercentById ::
  "'w fan_api \<Rightarrow> (nat \<Rightarrow> u64) \<Rightarrow> 'w \<Rightarrow> nat \<Rightarrow> u32 \<Rightarrow> fan_class \<Rightarrow> (ze_result_t \<times> u32 \<times> fan_class \<times> 'w) outcome" where
  "getSpeedPercentById A fresh w fanId pct Q =
     obind (ensureFansEnumerated A fresh w Q) (\<lambda>(result, Q, w).
       if result \<noteq> ZE_RESULT_SUCCESS then Done (result, pct, Q, w)
       else if fanHandles Q = None \<or> unat (fanCount Q) \<le> fanId then Done (ZE_RESULT_ERROR_INVALID_ARGUMENT, pct, Q, w)
       else obind (configured_percent A w fanId Q) (\<lambda>(p, Q, w). case p of
           Some p \<Rightarrow> Done (ZE_RESULT_SUCCESS, p, Q, w)
         | None \<Rightarrow> measured_percent A w fanId pct Q))"

text \<open>
  The sum of the percentages, each below \<open>2 ^ 31\<close>, of fewer than \<open>2 ^ 32\<close> fans: the 64-bit sum cannot overflow, nor can
  the number of fans that are counted.
\<close>

primrec speed_sum_loop ::
  "'w fan_api \<Rightarrow> (nat \<Rightarrow> u64) \<Rightarrow> nat list \<Rightarrow> int \<times> nat \<Rightarrow> fan_class \<Rightarrow> 'w \<Rightarrow> ((int \<times> nat) \<times> fan_class \<times> 'w) outcome" where
  "speed_sum_loop A fresh [] acc Q w = Done (acc, Q, w)"
| "speed_sum_loop A fresh (i # is) acc Q w =
     obind (getSpeedPercentById A fresh w i 0 Q) (\<lambda>(res, speedPct, Q, w).
       speed_sum_loop A fresh is (if res = ZE_RESULT_SUCCESS \<and> 0 \<le> sint speedPct then (fst acc + sint speedPct, snd acc + 1) else acc) Q w)"

definition getSpeedPercent :: "'w fan_api \<Rightarrow> (nat \<Rightarrow> u64) \<Rightarrow> 'w \<Rightarrow> u32 \<Rightarrow> fan_class \<Rightarrow> (ze_result_t \<times> u32 \<times> fan_class \<times> 'w) outcome" where
  "getSpeedPercent A fresh w pct Q =
     obind (ensureFansEnumerated A fresh w Q) (\<lambda>(result, Q, w).
       if result \<noteq> ZE_RESULT_SUCCESS then Done (result, pct, Q, w)
       else if fanCount Q = 0 \<or> fanHandles Q = None then Done (ZE_RESULT_ERROR_NOT_AVAILABLE, pct, Q, w)
       else obind (speed_sum_loop A fresh [0..<unat (fanCount Q)] (0, 0) Q w) (\<lambda>((totalPct, validCount), Q, w).
         if validCount = 0 then Done (ZE_RESULT_ERROR_NOT_AVAILABLE, pct, Q, w)
         else Done (ZE_RESULT_SUCCESS, word_of_int (totalPct div int validCount), Q, w)))"

section \<open>Setting the mode\<close>

text \<open>
  The three setters share their loop; they differ in what they ask of the driver, given the properties of the fan where
  they could be read.
\<close>

primrec set_mode_loop ::
  "'w fan_api \<Rightarrow> (zes_fan_properties_t option \<Rightarrow> 'w \<Rightarrow> u64 \<Rightarrow> (ze_result_t \<times> 'w) outcome) \<Rightarrow> nat list \<Rightarrow> ze_result_t \<Rightarrow> fan_class \<Rightarrow> 'w \<Rightarrow>
   (ze_result_t \<times> fan_class \<times> 'w) outcome" where
  "set_mode_loop A setter [] lastResult Q w = Done (lastResult, Q, w)"
| "set_mode_loop A setter (i # is) lastResult Q w =
     obind (getPropertiesById A w i zero_fan_properties Q) (\<lambda>(propRes, props, Q, w).
       if propRes = ZE_RESULT_SUCCESS \<and> fan_properties_canControl props = 0 then
         set_mode_loop A setter is ZE_RESULT_ERROR_UNSUPPORTED_FEATURE Q w
       else obind (handle_at (fanHandles Q) i) (\<lambda>h.
         obind (setter (if propRes = ZE_RESULT_SUCCESS then Some props else None) w h) (\<lambda>(res, w).
           if res \<noteq> ZE_RESULT_SUCCESS then set_mode_loop A setter is res Q w
           else obind (invalidateFanConfigCacheById i Q) (\<lambda>Q. set_mode_loop A setter is lastResult Q w))))"

definition drop_unit :: "('w, unit) zes_call \<Rightarrow> (ze_result_t \<times> 'w) outcome" where
  "drop_unit x = obind x (\<lambda>(res, _, w). Done (res, w))"

definition percent_point :: "u32 \<Rightarrow> u32 \<Rightarrow> zes_fan_temp_speed_t" where
  "percent_point t p = \<lparr>fan_temp_speed_temperature = t,
     fan_temp_speed_speed = \<lparr>fan_speed_speed = p, fan_speed_units = ZES_FAN_SPEED_UNITS_PERCENT\<rparr>\<rparr>"

definition flat_table :: "u32 \<Rightarrow> zes_fan_speed_table_t" where
  "flat_table p = zero_speed_table\<lparr>fan_speed_table_numPoints := 2,
     fan_speed_table_table := (fan_speed_table_table zero_speed_table)[0 := percent_point 0 p, 1 := percent_point 100 p]\<rparr>"

definition set_fixed :: "'w fan_api \<Rightarrow> u32 \<Rightarrow> zes_fan_properties_t option \<Rightarrow> 'w \<Rightarrow> u64 \<Rightarrow> (ze_result_t \<times> 'w) outcome" where
  "set_fixed A speedPercent props w h =
     obind (drop_unit (zesFanSetFixedSpeedMode_l0 A w h (Some \<lparr>fan_speed_speed = speedPercent, fan_speed_units = ZES_FAN_SPEED_UNITS_PERCENT\<rparr>)))
       (\<lambda>(res, w). if (res = ZE_RESULT_ERROR_UNSUPPORTED_FEATURE \<or> res = ZE_RESULT_ERROR_INVALID_ARGUMENT) \<and> props \<noteq> None
          then drop_unit (zesFanSetSpeedTableMode_l0 A w h (Some (flat_table speedPercent)))
          else Done (res, w))"

definition setFixedSpeedPercent ::
  "'w fan_api \<Rightarrow> (nat \<Rightarrow> u64) \<Rightarrow> 'w \<Rightarrow> u32 \<Rightarrow> u32 \<Rightarrow> fan_class \<Rightarrow> (ze_result_t \<times> fan_class \<times> 'w) outcome" where
  "setFixedSpeedPercent A fresh w speedPercent fanId Q =
     obind (resolveTargetFanIndexes A fresh w fanId Q) (\<lambda>(result, targets, Q, w).
       if result \<noteq> ZE_RESULT_SUCCESS then Done (result, Q, w)
       else if sint speedPercent < 0 \<or> 100 < sint speedPercent then Done (ZE_RESULT_ERROR_INVALID_ARGUMENT, Q, w)
       else set_mode_loop A (set_fixed A speedPercent) targets ZE_RESULT_SUCCESS Q w)"

definition setDefaultMode :: "'w fan_api \<Rightarrow> (nat \<Rightarrow> u64) \<Rightarrow> 'w \<Rightarrow> u32 \<Rightarrow> fan_class \<Rightarrow> (ze_result_t \<times> fan_class \<times> 'w) outcome" where
  "setDefaultMode A fresh w fanId Q =
     obind (resolveTargetFanIndexes A fresh w fanId Q) (\<lambda>(result, targets, Q, w).
       if result \<noteq> ZE_RESULT_SUCCESS then Done (result, Q, w)
       else set_mode_loop A (\<lambda>_ w h. drop_unit (zesFanSetDefaultMode_l0 A w h)) targets ZE_RESULT_SUCCESS Q w)"

definition speed_table :: "(u32 \<times> u32) list \<Rightarrow> u32 \<Rightarrow> zes_fan_speed_table_t" where
  "speed_table points units = zero_speed_table\<lparr>fan_speed_table_numPoints := word_of_nat (length points),
     fan_speed_table_table := map (\<lambda>(t, s). \<lparr>fan_temp_speed_temperature = t,
         fan_temp_speed_speed = \<lparr>fan_speed_speed = s, fan_speed_units = units\<rparr>\<rparr>) points
       @ drop (length points) (fan_speed_table_table zero_speed_table)\<rparr>"

text \<open>Here the quotient is clamped with its 64 bits, before it is cut down.\<close>

definition point_percent :: "u32 \<Rightarrow> u32 \<Rightarrow> u32" where
  "point_percent speed maxRPM = (let pct = (sint speed * 100) sdiv sint maxRPM in
     word_of_int (if pct < 0 then 0 else if 100 < pct then 100 else pct))"

definition percent_table :: "u32 \<Rightarrow> (u32 \<times> u32) list \<Rightarrow> zes_fan_speed_table_t" where
  "percent_table maxRPM points = speed_table (map (\<lambda>(t, s). (t, point_percent s maxRPM)) points) ZES_FAN_SPEED_UNITS_PERCENT"

definition set_table ::
  "'w fan_api \<Rightarrow> (u32 \<times> u32) list \<Rightarrow> u32 \<Rightarrow> zes_fan_properties_t option \<Rightarrow> 'w \<Rightarrow> u64 \<Rightarrow> (ze_result_t \<times> 'w) outcome" where
  "set_table A points units props w h =
     obind (drop_unit (zesFanSetSpeedTableMode_l0 A w h (Some (speed_table points units)))) (\<lambda>(res, w).
       case props of
         Some props \<Rightarrow>
           if res = ZE_RESULT_ERROR_INVALID_ARGUMENT \<and> units = ZES_FAN_SPEED_UNITS_RPM \<and> 0 < sint (fan_properties_maxRPM props)
           then drop_unit (zesFanSetSpeedTableMode_l0 A w h (Some (percent_table (fan_properties_maxRPM props) points)))
           else Done (res, w)
       | None \<Rightarrow> Done (res, w))"

definition setSpeedTableMode ::
  "'w fan_api \<Rightarrow> (nat \<Rightarrow> u64) \<Rightarrow> 'w \<Rightarrow> (u32 \<times> u32) list \<Rightarrow> u32 \<Rightarrow> u32 \<Rightarrow> fan_class \<Rightarrow> (ze_result_t \<times> fan_class \<times> 'w) outcome" where
  "setSpeedTableMode A fresh w points units fanId Q =
     obind (resolveTargetFanIndexes A fresh w fanId Q) (\<lambda>(result, targets, Q, w).
       if result \<noteq> ZE_RESULT_SUCCESS then Done (result, Q, w)
       else if points = [] \<or> ZES_FAN_TEMP_SPEED_PAIR_COUNT < length points then Done (ZE_RESULT_ERROR_INVALID_ARGUMENT, Q, w)
       else set_mode_loop A (set_table A points units) targets ZE_RESULT_SUCCESS Q w)"


section \<open>What the class reports\<close>

text \<open>The speed a configuration stands for, with a table of points that fits its array.\<close>

definition bounded_table :: "zes_fan_config_t \<Rightarrow> bool" where
  "bounded_table cfg = (length (fan_speed_table_table (fan_config_speedTable cfg)) = ZES_FAN_TEMP_SPEED_PAIR_COUNT
     \<and> sint (fan_speed_table_numPoints (fan_config_speedTable cfg)) \<le> int ZES_FAN_TEMP_SPEED_PAIR_COUNT)"

definition config_speed :: "zes_fan_config_t \<Rightarrow> zes_fan_speed_t option" where
  "config_speed cfg =
     (let points = map fan_temp_speed_speed (take (nat (sint (fan_speed_table_numPoints (fan_config_speedTable cfg))))
        (fan_speed_table_table (fan_config_speedTable cfg))) in
      if fan_config_mode cfg = ZES_FAN_SPEED_MODE_FIXED then Some (fan_config_speedFixed cfg)
      else if fan_config_mode cfg = ZES_FAN_SPEED_MODE_TABLE \<and> points \<noteq> [] \<and> list_all (\<lambda>s. s = hd points) points then Some (hd points)
      else None)"

definition percent_of_speed :: "ze_result_t + zes_fan_properties_t \<Rightarrow> zes_fan_speed_t \<Rightarrow> u32 option" where
  "percent_of_speed props s =
     (if fan_speed_units s = ZES_FAN_SPEED_UNITS_PERCENT then Some (fan_speed_speed s)
      else if fan_speed_units s = ZES_FAN_SPEED_UNITS_RPM then
        (case props of Inl e \<Rightarrow> None
         | Inr p \<Rightarrow> if 0 < sint (fan_properties_maxRPM p) then Some (rpm_percent (fan_speed_speed s) (fan_properties_maxRPM p)) else None)
      else None)"

definition reading :: "ze_result_t + u32 \<Rightarrow> u32 option" where
  "reading x = (case x of Inl e \<Rightarrow> None | Inr v \<Rightarrow> if 0 \<le> sint v then Some v else None)"

text \<open>
  The speed of a fan from its configuration, its properties and its two readings: the configured speed if it is one
  number that can be expressed in percent, otherwise the reading in percent, otherwise the one in revolutions.
\<close>

definition fan_percent ::
  "ze_result_t + zes_fan_config_t \<Rightarrow> ze_result_t + zes_fan_properties_t \<Rightarrow> ze_result_t + u32 \<Rightarrow> ze_result_t + u32 \<Rightarrow> u32 \<Rightarrow>
   ze_result_t \<times> u32" where
  "fan_percent conf props percent rpm old =
     (case (case conf of Inl e \<Rightarrow> None | Inr c \<Rightarrow> Option.bind (config_speed c) (percent_of_speed props)) of
        Some p \<Rightarrow> (ZE_RESULT_SUCCESS, p)
      | None \<Rightarrow> (case reading percent of Some v \<Rightarrow> (ZE_RESULT_SUCCESS, v)
        | None \<Rightarrow> (case (reading rpm, props) of
            (Some v, Inr p) \<Rightarrow> if fan_properties_maxRPM p = 0 then (ZE_RESULT_ERROR_NOT_AVAILABLE, old)
              else (ZE_RESULT_SUCCESS, rpm_percent v (fan_properties_maxRPM p))
          | _ \<Rightarrow> (ZE_RESULT_ERROR_NOT_AVAILABLE, old))))"

lemma elem_at_Some [simp]: "i < length xs \<Longrightarrow> elem_at (Some xs) i = Done (xs ! i)"
  by (simp add: elem_at_def)

lemma put_elem_Some [simp]: "i < length xs \<Longrightarrow> put_elem (Some xs) i v = Done (Some (xs[i := v]))"
  by (simp add: put_elem_def)

lemma speed_eq: "(s :: zes_fan_speed_t) = t \<longleftrightarrow> fan_speed_speed s = fan_speed_speed t \<and> fan_speed_units s = fan_speed_units t"
  by (cases s; cases t) simp

lemma flat_loop_ok:
  "list_all (\<lambda>i. i < length table) is \<Longrightarrow>
   flat_loop table s is = Done (list_all (\<lambda>i. fan_temp_speed_speed (table ! i) = s) is)"
  by (induction "is") (auto simp: speed_eq)

lemma take_map_nth: "n \<le> length xs \<Longrightarrow> take n xs = map ((!) xs) [0..<n]"
  by (rule nth_equalityI) simp_all

lemma set_speed_ok:
  assumes "bounded_table cfg"
  shows "set_speed cfg = Done (config_speed cfg)"
proof -
  define table where "table = fan_speed_table_table (fan_config_speedTable cfg)"
  define n where "n = nat (sint (fan_speed_table_numPoints (fan_config_speedTable cfg)))"
  have len: "n \<le> length table"
    using assms by (simp add: bounded_table_def table_def n_def nat_le_iff)
  have pos: "0 < sint (fan_speed_table_numPoints (fan_config_speedTable cfg)) \<longleftrightarrow> 0 < n"
    by (simp add: n_def)
  show ?thesis
  proof (cases "n = 0")
    case True
    then show ?thesis
      by (simp add: set_speed_def config_speed_def pos flip: n_def table_def)
  next
    case False
    then have "[0..<n] = 0 # [1..<n]"
      by (simp add: upt_conv_Cons)
    then have take: "map fan_temp_speed_speed (take n table) = fan_temp_speed_speed (table ! 0) # map (\<lambda>i. fan_temp_speed_speed (table ! i)) [1..<n]"
      using take_map_nth [OF len] by simp
    define same where "same = list_all (\<lambda>i. fan_temp_speed_speed (table ! i) = fan_temp_speed_speed (table ! 0)) [1..<n]"
    have flat: "flat_loop table (fan_temp_speed_speed (table ! 0)) [1..<n] = Done same"
      unfolding same_def using len by (intro flat_loop_ok) (auto simp: list_all_iff)
    have first: "elem_at (Some table) 0 = Done (table ! 0)"
      using False len by (intro elem_at_Some) linarith
    have "list_all (\<lambda>s. s = hd (map fan_temp_speed_speed (take n table))) (map fan_temp_speed_speed (take n table)) = same"
      by (simp add: take same_def list_all_iff)
    moreover have "hd (map fan_temp_speed_speed (take n table)) = fan_temp_speed_speed (table ! 0)" "map fan_temp_speed_speed (take n table) \<noteq> []"
      by (simp_all add: take)
    ultimately have "config_speed cfg = (if fan_config_mode cfg = ZES_FAN_SPEED_MODE_FIXED then Some (fan_config_speedFixed cfg)
        else if fan_config_mode cfg = ZES_FAN_SPEED_MODE_TABLE \<and> same then Some (fan_temp_speed_speed (table ! 0)) else None)"
      unfolding config_speed_def Let_def table_def [symmetric] n_def [symmetric] by simp
    moreover have "set_speed cfg = Done (if fan_config_mode cfg = ZES_FAN_SPEED_MODE_FIXED then Some (fan_config_speedFixed cfg)
        else if fan_config_mode cfg = ZES_FAN_SPEED_MODE_TABLE \<and> same then Some (fan_temp_speed_speed (table ! 0)) else None)"
      unfolding set_speed_def Let_def pos table_def [symmetric] n_def [symmetric] first obind.simps flat using False by simp
    ultimately show ?thesis
      by simp
  qed
qed

section \<open>The calls of a caller\<close>

text \<open>Any call but the ones that give the object another device.\<close>

inductive fan_step :: "'w fan_api \<Rightarrow> (nat \<Rightarrow> u64) \<Rightarrow> fan_class \<times> 'w \<Rightarrow> fan_class \<times> 'w \<Rightarrow> bool" for A fresh where
  step_config: "getConfig A fresh w c i Q = Done (r, c', Q', w') \<Longrightarrow> fan_step A fresh (Q, w) (Q', w')"
| step_count: "getFanCount A fresh w n Q = Done (r, n', Q', w') \<Longrightarrow> fan_step A fresh (Q, w) (Q', w')"
| step_run: "fan_zesRun A fresh w (fan_deviceHandle Q) Q = Done (r, Q', w') \<Longrightarrow> fan_step A fresh (Q, w) (Q', w')"
| step_speed_id: "getSpeedPercentById A fresh w i p Q = Done (r, p', Q', w') \<Longrightarrow> fan_step A fresh (Q, w) (Q', w')"
| step_speed: "getSpeedPercent A fresh w p Q = Done (r, p', Q', w') \<Longrightarrow> fan_step A fresh (Q, w) (Q', w')"
| step_fixed: "setFixedSpeedPercent A fresh w p i Q = Done (r, Q', w') \<Longrightarrow> fan_step A fresh (Q, w) (Q', w')"
| step_default: "setDefaultMode A fresh w i Q = Done (r, Q', w') \<Longrightarrow> fan_step A fresh (Q, w) (Q', w')"
| step_table: "setSpeedTableMode A fresh w points u i Q = Done (r, Q', w') \<Longrightarrow> fan_step A fresh (Q, w) (Q', w')"

section \<open>The class over a driver\<close>

text \<open>
  What a call may change: the configuration of the fan it is for, when it succeeds. Nobody else uses the driver.
\<close>

definition changes ::
  "('w \<Rightarrow> bool) \<Rightarrow> ('w \<Rightarrow> u64 \<Rightarrow> 'l) \<Rightarrow> ('w \<Rightarrow> u64 \<Rightarrow> 'p) \<Rightarrow> ('w \<Rightarrow> u64 \<Rightarrow> 'c) \<Rightarrow> 'w \<Rightarrow> u64 \<Rightarrow> ze_result_t \<Rightarrow> 'w \<Rightarrow> bool" where
  "changes ok fans props confs w h r w' = (ok w' \<and> fans w' = fans w \<and> props w' = props w
     \<and> (\<forall>h'. r \<noteq> ZE_RESULT_SUCCESS \<or> h' \<noteq> h \<longrightarrow> confs w' h' = confs w h'))"

lemma changes_again:
  "changes ok fans props confs w h r w' \<Longrightarrow> r \<noteq> ZE_RESULT_SUCCESS \<Longrightarrow> changes ok fans props confs w' h r' w'' \<Longrightarrow>
   changes ok fans props confs w h r' w''"
  by (simp add: changes_def)

locale fan_driver =
  objs: zes_objects ok "zesDeviceEnumFans_l0 A" fans +
  props: zes_getter ok "zesFanGetProperties_l0 A" "\<lambda>_. True" mergep props +
  confs: zes_getter ok "zesFanGetConfig_l0 A" "\<lambda>_. True" mergec confs
  for ok :: "'w \<Rightarrow> bool" and A :: "'w fan_api" and fans mergep props mergec confs +
  fixes states :: "u32 \<Rightarrow> 'w \<Rightarrow> u64 \<Rightarrow> ze_result_t + u32"
    and tick :: "'w \<Rightarrow> 'w"
  assumes measured: "ok w \<Longrightarrow> zesFanGetState_l0 A w h u (Some v) = Done (case states u w h of Inl e \<Rightarrow> (e, Some v, w)
      | Inr s \<Rightarrow> (ZE_RESULT_SUCCESS, Some s, w))"
    and unmeasured: "ok w \<Longrightarrow> states u w h = Inl e \<Longrightarrow> e \<noteq> ZE_RESULT_SUCCESS"
    and clock: "ok w \<Longrightarrow> snd (steady_ms A w) = tick w"
    and ticks: "ok w \<Longrightarrow> ok (tick w)" "fans (tick w) = fans w" "props (tick w) = props w" "confs (tick w) = confs w"
      "states u (tick w) = states u w"
    and bounded: "ok w \<Longrightarrow> confs w h = Inr c \<Longrightarrow> bounded_table (mergec zero_fan_config c)"
    and sets_default: "ok w \<Longrightarrow> \<exists>r w'. zesFanSetDefaultMode_l0 A w h = Done (r, (), w') \<and> changes ok fans props confs w h r w'"
    and sets_fixed: "ok w \<Longrightarrow> \<exists>r w'. zesFanSetFixedSpeedMode_l0 A w h (Some s) = Done (r, (), w') \<and> changes ok fans props confs w h r w'"
    and sets_table: "ok w \<Longrightarrow> \<exists>r w'. zesFanSetSpeedTableMode_l0 A w h (Some t) = Done (r, (), w') \<and> changes ok fans props confs w h r w'"
begin

definition conf_read :: "'w \<Rightarrow> u64 \<Rightarrow> ze_result_t + zes_fan_config_t" where
  "conf_read w h = map_sum id (mergec zero_fan_config) (confs w h)"

definition prop_read :: "'w \<Rightarrow> u64 \<Rightarrow> ze_result_t + zes_fan_properties_t" where
  "prop_read w h = map_sum id (mergep zero_fan_properties) (props w h)"

text \<open>
  Coherence: what is marked as cached is what the driver answers. A configuration that is older than the time it
  is valid for is coherent all the same, since nobody but the class changes it.
\<close>

definition coherent :: "'w \<Rightarrow> u64 list \<Rightarrow> fan_class \<Rightarrow> bool" where
  "coherent w hs Q = (fanHandles Q = Some hs \<and> unat (fanCount Q) = length hs \<and> hs \<noteq> [] \<and>
     (\<exists>pc pd cc cd ct. fanPropsCache Q = Some pc \<and> fanPropsCached Q = Some pd \<and> fanConfigCache Q = Some cc \<and> fanConfigCached Q = Some cd
       \<and> fanConfigCachedAtMs Q = Some ct \<and> length pc = length hs \<and> length pd = length hs \<and> length cc = length hs \<and> length cd = length hs
       \<and> length ct = length hs
       \<and> (\<forall>i<length hs. (pd ! i \<longrightarrow> prop_read w (hs ! i) = Inr (pc ! i)) \<and> (cd ! i \<longrightarrow> conf_read w (hs ! i) = Inr (cc ! i)))))"

lemma coherent_tick: "ok w \<Longrightarrow> coherent (tick w) hs Q = coherent w hs Q"
  by (simp add: coherent_def conf_read_def prop_read_def ticks)

lemma coherent_count: "coherent w hs Q \<Longrightarrow> fanHandles Q = Some hs \<and> unat (fanCount Q) = length hs \<and> 0 < fanCount Q"
  by (auto simp: coherent_def word_gt_0 unat_eq_0 dest: arg_cong [where f = unat])

lemma config_ok:
  assumes "ok w" "coherent w hs Q" "i < length hs"
  shows "\<exists>Q'. getConfigById A w i c Q = Done (case conf_read w (hs ! i) of Inl e \<Rightarrow> (e, c, Q', tick w) | Inr v \<Rightarrow> (ZE_RESULT_SUCCESS, v, Q', tick w))
    \<and> coherent (tick w) hs Q' \<and> fan_deviceHandle Q' = fan_deviceHandle Q"
proof -
  from assms(2) obtain pc pd cc cd ct where Q: "fanHandles Q = Some hs" "unat (fanCount Q) = length hs" "hs \<noteq> []"
      "fanPropsCache Q = Some pc" "fanPropsCached Q = Some pd" "fanConfigCache Q = Some cc" "fanConfigCached Q = Some cd"
      "fanConfigCachedAtMs Q = Some ct" "length pc = length hs" "length pd = length hs" "length cc = length hs" "length cd = length hs"
      "length ct = length hs"
    and valid: "\<And>i. i < length hs \<Longrightarrow> pd ! i \<Longrightarrow> prop_read w (hs ! i) = Inr (pc ! i)"
      "\<And>i. i < length hs \<Longrightarrow> cd ! i \<Longrightarrow> conf_read w (hs ! i) = Inr (cc ! i)"
    unfolding coherent_def by blast
  obtain now where now: "steady_ms A w = (now, tick w)"
    using clock [OF assms(1)] by (metis prod.collapse)
  have read: "\<exists>Q'. read_config A (tick w) now i c Q =
      Done (case conf_read w (hs ! i) of Inl e \<Rightarrow> (e, c, Q', tick w) | Inr v \<Rightarrow> (ZE_RESULT_SUCCESS, v, Q', tick w))
    \<and> coherent (tick w) hs Q' \<and> fan_deviceHandle Q' = fan_deviceHandle Q"
  proof (cases "confs w (hs ! i)")
    case (Inl e)
    then show ?thesis
      using assms confs.fails [OF assms(1) Inl]
      by (intro exI [of _ Q]) (simp add: read_config_def Q confs.query_ok ticks coherent_tick conf_read_def)
  next
    case (Inr v)
    let ?Q = "Q\<lparr>fanConfigCache := Some (cc[i := mergec zero_fan_config v]), fanConfigCached := Some (cd[i := True]), fanConfigCachedAtMs := Some (ct[i := now])\<rparr>"
    have "coherent (tick w) hs ?Q"
      unfolding coherent_tick [OF assms(1)] using assms(3) Q valid Inr
      by (auto simp: coherent_def nth_list_update conf_read_def)
    then show ?thesis
      using assms Inr by (intro exI [of _ ?Q]) (simp add: read_config_def Q confs.query_ok ticks conf_read_def)
  qed
  show ?thesis
  proof (cases "cd ! i \<and> now - ct ! i \<le> FAN_CONFIG_CACHE_TTL_MS")
    case True
    then show ?thesis
      using assms valid(2) [OF assms(3)] by (intro exI [of _ Q]) (simp add: getConfigById_def Q now coherent_tick)
  next
    case False
    then show ?thesis
      using assms read by (auto simp: getConfigById_def Q now)
  qed
qed

lemma properties_ok:
  assumes "ok w" "coherent w hs Q" "i < length hs"
  shows "\<exists>Q'. getPropertiesById A w i p Q = Done (case prop_read w (hs ! i) of Inl e \<Rightarrow> (e, zero_fan_properties, Q', w)
      | Inr v \<Rightarrow> (ZE_RESULT_SUCCESS, v, Q', w))
    \<and> coherent w hs Q' \<and> fan_deviceHandle Q' = fan_deviceHandle Q"
proof -
  from assms(2) obtain pc pd cc cd ct where Q: "fanHandles Q = Some hs" "unat (fanCount Q) = length hs" "hs \<noteq> []"
      "fanPropsCache Q = Some pc" "fanPropsCached Q = Some pd" "fanConfigCache Q = Some cc" "fanConfigCached Q = Some cd"
      "fanConfigCachedAtMs Q = Some ct" "length pc = length hs" "length pd = length hs" "length cc = length hs" "length cd = length hs"
      "length ct = length hs"
    and valid: "\<And>i. i < length hs \<Longrightarrow> pd ! i \<Longrightarrow> prop_read w (hs ! i) = Inr (pc ! i)"
      "\<And>i. i < length hs \<Longrightarrow> cd ! i \<Longrightarrow> conf_read w (hs ! i) = Inr (cc ! i)"
    unfolding coherent_def by blast
  show ?thesis
  proof (cases "pd ! i")
    case True
    then show ?thesis
      using assms valid(1) [OF assms(3)] by (intro exI [of _ Q]) (simp add: getPropertiesById_def Q)
  next
    case new: False
    show ?thesis
    proof (cases "props w (hs ! i)")
      case (Inl e)
      then show ?thesis
        using assms new props.fails [OF assms(1) Inl]
        by (intro exI [of _ Q]) (simp add: getPropertiesById_def fan_getProperties_def Q props.query_ok prop_read_def)
    next
      case (Inr v)
      let ?Q = "Q\<lparr>fanPropsCache := Some (pc[i := mergep zero_fan_properties v]), fanPropsCached := Some (pd[i := True])\<rparr>"
      have "coherent w hs ?Q"
        using assms(3) Q valid Inr by (auto simp: coherent_def nth_list_update prop_read_def)
      then show ?thesis
        using assms new Inr by (intro exI [of _ ?Q]) (simp add: getPropertiesById_def fan_getProperties_def Q props.query_ok prop_read_def)
    qed
  qed
qed

lemma speed_ok:
  assumes "ok w" "coherent w hs Q" "i < length hs"
  shows "\<exists>Q'. speed_percent A w i s Q = Done (percent_of_speed (prop_read w (hs ! i)) s, Q', w)
    \<and> coherent w hs Q' \<and> fan_deviceHandle Q' = fan_deviceHandle Q"
proof -
  obtain Q' where Q': "getPropertiesById A w i zero_fan_properties Q = Done (case prop_read w (hs ! i) of Inl e \<Rightarrow> (e, zero_fan_properties, Q', w)
      | Inr v \<Rightarrow> (ZE_RESULT_SUCCESS, v, Q', w))" "coherent w hs Q'" "fan_deviceHandle Q' = fan_deviceHandle Q"
    using properties_ok [OF assms] by blast
  have "prop_read w (hs ! i) = Inl e \<Longrightarrow> e \<noteq> ZE_RESULT_SUCCESS" for e
    using props.fails [OF assms(1)] by (auto simp: prop_read_def map_sum_def split: sum.splits)
  then show ?thesis
    using Q' assms(2) by (auto simp: speed_percent_def percent_of_speed_def fan_codes zero_fan_properties_def split: sum.splits)
qed

lemma configured_ok:
  assumes "ok w" "coherent w hs Q" "i < length hs"
  shows "\<exists>Q'. configured_percent A w i Q = Done (case conf_read w (hs ! i) of Inl e \<Rightarrow> None
      | Inr c \<Rightarrow> Option.bind (config_speed c) (percent_of_speed (prop_read w (hs ! i))), Q', tick w)
    \<and> coherent (tick w) hs Q' \<and> fan_deviceHandle Q' = fan_deviceHandle Q"
proof -
  obtain Q' where Q': "getConfigById A w i zero_fan_config Q = Done (case conf_read w (hs ! i) of Inl e \<Rightarrow> (e, zero_fan_config, Q', tick w)
      | Inr v \<Rightarrow> (ZE_RESULT_SUCCESS, v, Q', tick w))" "coherent (tick w) hs Q'" "fan_deviceHandle Q' = fan_deviceHandle Q"
    using config_ok [OF assms] by blast
  note w' = ticks(1) [OF assms(1)]
  show ?thesis
  proof (cases "confs w (hs ! i)")
    case (Inl e)
    then show ?thesis
      using Q' confs.fails [OF assms(1) Inl] by (intro exI [of _ Q']) (simp add: configured_percent_def conf_read_def)
  next
    case (Inr c)
    then have conf: "conf_read w (hs ! i) = Inr (mergec zero_fan_config c)" "set_speed (mergec zero_fan_config c) = Done (config_speed (mergec zero_fan_config c))"
      using set_speed_ok [OF bounded [OF assms(1) Inr]] by (simp_all add: conf_read_def)
    show ?thesis
    proof (cases "config_speed (mergec zero_fan_config c)")
      case None
      then show ?thesis
        using Q' conf by (intro exI [of _ Q']) (simp add: configured_percent_def)
    next
      case (Some s)
      obtain Q'' where Q'': "speed_percent A (tick w) i s Q' = Done (percent_of_speed (prop_read (tick w) (hs ! i)) s, Q'', tick w)"
          "coherent (tick w) hs Q''" "fan_deviceHandle Q'' = fan_deviceHandle Q'"
        using speed_ok [OF w' Q'(2) assms(3)] by blast
      then show ?thesis
        using Q' conf Some by (intro exI [of _ Q'']) (simp add: configured_percent_def prop_read_def ticks assms(1))
    qed
  qed
qed

lemma state_ok:
  assumes "ok w" "coherent w hs Q" "i < length hs"
  shows "fan_state A u w i Q = Done (case states u w (hs ! i) of Inl e \<Rightarrow> (e, 0, w) | Inr v \<Rightarrow> (ZE_RESULT_SUCCESS, v, w))"
  using coherent_count [OF assms(2)] assms by (simp add: fan_state_def zes_query_def measured split: sum.splits)

lemma measured_ok:
  assumes "ok w" "coherent w hs Q" "i < length hs"
  shows "\<exists>Q'. measured_percent A w i old Q = Done
      (fst (fan_percent (Inl 0) (prop_read w (hs ! i)) (states ZES_FAN_SPEED_UNITS_PERCENT w (hs ! i)) (states ZES_FAN_SPEED_UNITS_RPM w (hs ! i)) old),
       snd (fan_percent (Inl 0) (prop_read w (hs ! i)) (states ZES_FAN_SPEED_UNITS_PERCENT w (hs ! i)) (states ZES_FAN_SPEED_UNITS_RPM w (hs ! i)) old),
       Q', w)
    \<and> coherent w hs Q' \<and> fan_deviceHandle Q' = fan_deviceHandle Q"
proof -
  obtain Q' where Q': "getPropertiesById A w i zero_fan_properties Q = Done (case prop_read w (hs ! i) of Inl e \<Rightarrow> (e, zero_fan_properties, Q', w)
      | Inr v \<Rightarrow> (ZE_RESULT_SUCCESS, v, Q', w))" "coherent w hs Q'" "fan_deviceHandle Q' = fan_deviceHandle Q"
    using properties_ok [OF assms] by blast
  have fails: "prop_read w (hs ! i) = Inl e \<Longrightarrow> e \<noteq> ZE_RESULT_SUCCESS" for e
    using props.fails [OF assms(1)] by (auto simp: prop_read_def map_sum_def split: sum.splits)
  let ?p = "reading (states ZES_FAN_SPEED_UNITS_PERCENT w (hs ! i))" and ?r = "reading (states ZES_FAN_SPEED_UNITS_RPM w (hs ! i))"
  have steps: "measured_percent A w i old Q = (case ?p of Some v \<Rightarrow> Done (ZE_RESULT_SUCCESS, v, Q, w)
     | None \<Rightarrow> (case ?r of None \<Rightarrow> Done (ZE_RESULT_ERROR_NOT_AVAILABLE, old, Q, w)
       | Some v \<Rightarrow> (case prop_read w (hs ! i) of Inl e \<Rightarrow> Done (ZE_RESULT_ERROR_NOT_AVAILABLE, old, Q', w)
         | Inr p \<Rightarrow> if fan_properties_maxRPM p = 0 then Done (ZE_RESULT_ERROR_NOT_AVAILABLE, old, Q', w)
             else Done (ZE_RESULT_SUCCESS, rpm_percent v (fan_properties_maxRPM p), Q', w))))"
    using unmeasured [OF assms(1)] fails
    by (auto simp: measured_percent_def state_ok [OF assms] Q'(1) reading_def not_le split: sum.splits)
  show ?thesis
    using Q'(2,3) assms(2)
    by (cases ?p; cases ?r; cases "prop_read w (hs ! i)") (auto simp: steps fan_percent_def)
qed

text \<open>An object whose caches agree with the driver, or that has not enumerated its fans yet.\<close>

definition sound :: "'w \<Rightarrow> u64 \<Rightarrow> u64 list \<Rightarrow> fan_class \<Rightarrow> bool" where
  "sound w d hs Q = (ok w \<and> d \<noteq> 0 \<and> fans w d = Inr hs \<and> hs \<noteq> [] \<and> distinct hs \<and> fan_deviceHandle Q = d
     \<and> (fanHandles Q = None \<or> coherent w hs Q))"

lemma soundI: "sound w d hs Q \<Longrightarrow> coherent w' hs Q' \<Longrightarrow> fan_deviceHandle Q' = d \<Longrightarrow> ok w' \<Longrightarrow> fans w' = fans w \<Longrightarrow> sound w' d hs Q'"
  by (simp add: sound_def)

lemma ensured:
  assumes "sound w d hs Q"
  shows "\<exists>Q'. ensureFansEnumerated A fresh w Q = Done (ZE_RESULT_SUCCESS, Q', w) \<and> sound w d hs Q' \<and> coherent w hs Q'"
proof (cases "fanHandles Q = None")
  case False
  then have "coherent w hs Q"
    using assms by (auto simp: sound_def)
  then show ?thesis
    using coherent_count [of w hs Q] assms by (simp add: ensureFansEnumerated_def)
next
  case True
  from assms have w: "ok w" and hs: "fans w d = Inr hs" "hs \<noteq> []" and d: "fan_deviceHandle Q = d" "d \<noteq> 0"
    by (simp_all add: sound_def)
  have count: "word_of_nat (length hs) \<noteq> (0 :: u32)" "unat (word_of_nat (length hs) :: u32) = length hs"
    using objs.no_objects [OF w hs(1)] objs.length_word [OF w hs(1)] hs(2) by simp_all
  then show ?thesis
    using True assms d hs
    by (simp add: ensureFansEnumerated_def enumFans_def clearFanHandles_def objs.count_ok [OF w] objs.handles_ok [OF w] sound_def coherent_def)
qed

lemma speed_by_id:
  assumes "sound w d hs Q" "i < length hs"
  shows "\<exists>Q'. getSpeedPercentById A fresh w i old Q = (let (r, p) = fan_percent (conf_read w (hs ! i)) (prop_read w (hs ! i))
        (states ZES_FAN_SPEED_UNITS_PERCENT w (hs ! i)) (states ZES_FAN_SPEED_UNITS_RPM w (hs ! i)) old in Done (r, p, Q', tick w))
    \<and> sound (tick w) d hs Q'"
proof -
  obtain Q1 where Q1: "ensureFansEnumerated A fresh w Q = Done (ZE_RESULT_SUCCESS, Q1, w)" "sound w d hs Q1" "coherent w hs Q1"
    using ensured [OF assms(1)] by blast
  have w: "ok w"
    using assms(1) by (simp add: sound_def)
  obtain Q2 where Q2: "configured_percent A w i Q1 = Done (case conf_read w (hs ! i) of Inl e \<Rightarrow> None
      | Inr c \<Rightarrow> Option.bind (config_speed c) (percent_of_speed (prop_read w (hs ! i))), Q2, tick w)"
      "coherent (tick w) hs Q2" "fan_deviceHandle Q2 = fan_deviceHandle Q1"
    using configured_ok [OF w Q1(3) assms(2)] by blast
  obtain Q3 where Q3: "measured_percent A (tick w) i old Q2 = Done
      (fst (fan_percent (Inl 0) (prop_read (tick w) (hs ! i)) (states ZES_FAN_SPEED_UNITS_PERCENT (tick w) (hs ! i)) (states ZES_FAN_SPEED_UNITS_RPM (tick w) (hs ! i)) old),
       snd (fan_percent (Inl 0) (prop_read (tick w) (hs ! i)) (states ZES_FAN_SPEED_UNITS_PERCENT (tick w) (hs ! i)) (states ZES_FAN_SPEED_UNITS_RPM (tick w) (hs ! i)) old),
       Q3, tick w)" "coherent (tick w) hs Q3" "fan_deviceHandle Q3 = fan_deviceHandle Q2"
    using measured_ok [OF ticks(1) [OF w] Q2(2) assms(2)] by blast
  have same: "prop_read (tick w) = prop_read w" "states u (tick w) = states u w" for u
    using w by (simp_all add: prop_read_def fun_eq_iff ticks)
  have sound: "sound (tick w) d hs Q2" "sound (tick w) d hs Q3"
    using Q1(2) Q2 Q3 ticks(1) [OF w] by (simp_all add: sound_def ticks)
  have none: "(case conf of Inl e \<Rightarrow> None | Inr c \<Rightarrow> Option.bind (config_speed c) (percent_of_speed props)) = None \<Longrightarrow>
      fan_percent conf props p r old = fan_percent (Inl 0) props p r old"
    and some: "(case conf of Inl e \<Rightarrow> None | Inr c \<Rightarrow> Option.bind (config_speed c) (percent_of_speed props)) = Some x \<Longrightarrow>
      fan_percent conf props p r old = (ZE_RESULT_SUCCESS, x)" for conf props p r x
    by (simp_all add: fan_percent_def)
  show ?thesis
  proof (cases "case conf_read w (hs ! i) of Inl e \<Rightarrow> None | Inr c \<Rightarrow> Option.bind (config_speed c) (percent_of_speed (prop_read w (hs ! i)))")
    case None
    then show ?thesis
      using Q1 Q2(1) Q3(1) sound(2) coherent_count [OF Q1(3)] assms(2)
      by (intro exI [of _ Q3]) (simp add: getSpeedPercentById_def none [OF None] same case_prod_beta)
  next
    case (Some x)
    then show ?thesis
      using Q1 Q2(1) sound(1) coherent_count [OF Q1(3)] assms(2)
      by (intro exI [of _ Q2]) (simp add: getSpeedPercentById_def some [OF Some])
  qed
qed

text \<open>Setting: the caches of the fans that were set are dropped, so that what is left agrees with the driver.\<close>

abbreviation effect :: "'w \<Rightarrow> u64 \<Rightarrow> ze_result_t \<Rightarrow> 'w \<Rightarrow> bool" where
  "effect \<equiv> changes ok fans props confs"

lemma invalidated:
  assumes "coherent w hs Q" "distinct hs" "i < length hs" "effect w (hs ! i) r w'"
  shows "\<exists>Q'. invalidateFanConfigCacheById i Q = Done Q' \<and> coherent w' hs Q' \<and> fan_deviceHandle Q' = fan_deviceHandle Q"
proof -
  from assms(1) obtain pc pd cc cd ct where Q: "fanHandles Q = Some hs" "unat (fanCount Q) = length hs" "hs \<noteq> []"
      "fanPropsCache Q = Some pc" "fanPropsCached Q = Some pd" "fanConfigCache Q = Some cc" "fanConfigCached Q = Some cd"
      "fanConfigCachedAtMs Q = Some ct" "length pc = length hs" "length pd = length hs" "length cc = length hs" "length cd = length hs"
      "length ct = length hs"
    and valid: "\<And>i. i < length hs \<Longrightarrow> pd ! i \<Longrightarrow> prop_read w (hs ! i) = Inr (pc ! i)"
      "\<And>i. i < length hs \<Longrightarrow> cd ! i \<Longrightarrow> conf_read w (hs ! i) = Inr (cc ! i)"
    unfolding coherent_def by blast
  let ?Q = "Q\<lparr>fanConfigCached := Some (cd[i := False]), fanConfigCachedAtMs := Some (ct[i := 0])\<rparr>"
  have "conf_read w' (hs ! j) = conf_read w (hs ! j)" if "j < length hs" "j \<noteq> i" for j
    using assms(2-4) that by (simp add: changes_def conf_read_def nth_eq_iff_index_eq)
  moreover have "prop_read w' = prop_read w"
    using assms(4) by (simp add: changes_def prop_read_def fun_eq_iff)
  ultimately have "coherent w' hs ?Q"
    using assms(3) Q valid by (auto simp: coherent_def nth_list_update)
  then show ?thesis
    using assms(3) Q by (intro exI [of _ ?Q]) (simp add: invalidateFanConfigCacheById_def)
qed

lemma unchanged:
  assumes "coherent w hs Q" "effect w h r w'" "r \<noteq> ZE_RESULT_SUCCESS"
  shows "coherent w' hs Q"
proof -
  have "conf_read w' = conf_read w" "prop_read w' = prop_read w"
    using assms(2,3) by (simp_all add: changes_def conf_read_def prop_read_def fun_eq_iff)
  with assms(1) show ?thesis
    by (simp add: coherent_def)
qed

lemma set_loop:
  assumes setter: "\<And>p w h. ok w \<Longrightarrow> \<exists>r w'. setter p w h = Done (r, w') \<and> effect w h r w'"
    and "ok w" "coherent w hs Q" "distinct hs" "\<forall>i\<in>set is. i < length hs"
  shows "\<exists>r Q' w'. set_mode_loop A setter is e Q w = Done (r, Q', w') \<and> coherent w' hs Q' \<and> ok w' \<and> fans w' = fans w
    \<and> fan_deviceHandle Q' = fan_deviceHandle Q"
  using assms(2-5)
proof (induction "is" arbitrary: e Q w)
  case (Cons i js)
  then have i: "i < length hs" and js: "\<forall>i\<in>set js. i < length hs"
    by simp_all
  obtain Q1 where Q1: "getPropertiesById A w i zero_fan_properties Q = Done (case prop_read w (hs ! i) of Inl e \<Rightarrow> (e, zero_fan_properties, Q1, w)
      | Inr v \<Rightarrow> (ZE_RESULT_SUCCESS, v, Q1, w))" "coherent w hs Q1" "fan_deviceHandle Q1 = fan_deviceHandle Q"
    using properties_ok [OF Cons.prems(1,2) i] by blast
  obtain propRes props' where read: "getPropertiesById A w i zero_fan_properties Q = Done (propRes, props', Q1, w)"
    using Q1(1) by (cases "prop_read w (hs ! i)") simp_all
  show ?case
  proof (cases "propRes = ZE_RESULT_SUCCESS \<and> fan_properties_canControl props' = 0")
    case True
    then show ?thesis
      using Cons.IH [OF Cons.prems(1) Q1(2) Cons.prems(3) js] Q1(3) by (simp add: read)
  next
    case False
    let ?p = "if propRes = ZE_RESULT_SUCCESS then Some props' else None"
    obtain r w1 where r: "setter ?p w (hs ! i) = Done (r, w1)" "effect w (hs ! i) r w1"
      using setter [OF Cons.prems(1)] by blast
    then have w1: "ok w1" "fans w1 = fans w"
      by (simp_all add: changes_def)
    have step: "set_mode_loop A setter (i # js) e Q w =
        (if r \<noteq> ZE_RESULT_SUCCESS then set_mode_loop A setter js r Q1 w1
         else obind (invalidateFanConfigCacheById i Q1) (\<lambda>Q. set_mode_loop A setter js e Q w1))"
      using False r(1) coherent_count [OF Q1(2)] i by (auto simp: read)
    show ?thesis
    proof (cases "r = ZE_RESULT_SUCCESS")
      case True
      obtain Q2 where Q2: "invalidateFanConfigCacheById i Q1 = Done Q2" "coherent w1 hs Q2" "fan_deviceHandle Q2 = fan_deviceHandle Q1"
        using invalidated [OF Q1(2) Cons.prems(3) i r(2)] by blast
      show ?thesis
        using Cons.IH [OF w1(1) Q2(2) Cons.prems(3) js] Q2 Q1(3) w1(2) True by (simp only: step) simp
    next
      case False
      then show ?thesis
        using Cons.IH [OF w1(1) unchanged [OF Q1(2) r(2) False] Cons.prems(3) js] Q1(3) w1(2) by (simp only: step) simp
    qed
  qed
qed auto

lemma drop_unit_Done: "drop_unit (Done (r, (), w)) = Done (r, w)"
  by (simp add: drop_unit_def)

lemma fixed_effect: "ok w \<Longrightarrow> \<exists>r w'. set_fixed A s p w h = Done (r, w') \<and> effect w h r w'"
proof -
  assume w: "ok w"
  obtain r w1 where 1: "zesFanSetFixedSpeedMode_l0 A w h (Some \<lparr>fan_speed_speed = s, fan_speed_units = ZES_FAN_SPEED_UNITS_PERCENT\<rparr>) = Done (r, (), w1)"
      "effect w h r w1"
    using sets_fixed [OF w] by blast
  then have "ok w1"
    by (simp add: changes_def)
  then obtain r2 w2 where 2: "zesFanSetSpeedTableMode_l0 A w1 h (Some (flat_table s)) = Done (r2, (), w2)" "effect w1 h r2 w2"
    using sets_table by blast
  show ?thesis
  proof (cases "(r = ZE_RESULT_ERROR_UNSUPPORTED_FEATURE \<or> r = ZE_RESULT_ERROR_INVALID_ARGUMENT) \<and> p \<noteq> None")
    case True
    then have "r \<noteq> ZE_RESULT_SUCCESS"
      by (auto simp: ze_result_defs)
    then show ?thesis
      using True 1(1) 2(1) changes_again [OF 1(2) _ 2(2)] by (auto simp: set_fixed_def drop_unit_Done)
  next
    case False
    then show ?thesis
      using 1 by (auto simp: set_fixed_def drop_unit_Done)
  qed
qed

lemma table_effect: "ok w \<Longrightarrow> \<exists>r w'. set_table A points u p w h = Done (r, w') \<and> effect w h r w'"
proof -
  assume w: "ok w"
  obtain r w1 where 1: "zesFanSetSpeedTableMode_l0 A w h (Some (speed_table points u)) = Done (r, (), w1)" "effect w h r w1"
    using sets_table [OF w] by blast
  then have w1: "ok w1"
    by (simp add: changes_def)
  show ?thesis
  proof (cases "\<exists>props. p = Some props \<and> r = ZE_RESULT_ERROR_INVALID_ARGUMENT \<and> u = ZES_FAN_SPEED_UNITS_RPM \<and> 0 < sint (fan_properties_maxRPM props)")
    case True
    then obtain props' where p: "p = Some props'" "r = ZE_RESULT_ERROR_INVALID_ARGUMENT" "u = ZES_FAN_SPEED_UNITS_RPM"
        "0 < sint (fan_properties_maxRPM props')"
      by blast
    obtain r2 w2 where 2: "zesFanSetSpeedTableMode_l0 A w1 h (Some (percent_table (fan_properties_maxRPM props') points)) = Done (r2, (), w2)"
        "effect w1 h r2 w2"
      using sets_table [OF w1] by blast
    have "r \<noteq> ZE_RESULT_SUCCESS"
      using p(2) by (simp add: ze_result_defs)
    then show ?thesis
      using p 1(1) 2(1) changes_again [OF 1(2) _ 2(2)] by (auto simp: set_table_def drop_unit_Done)
  next
    case False
    then show ?thesis
      using 1 by (cases p) (auto simp: set_table_def drop_unit_Done)
  qed
qed

lemma default_effect: "ok w \<Longrightarrow> \<exists>r w'. drop_unit (zesFanSetDefaultMode_l0 A w h) = Done (r, w') \<and> effect w h r w'"
  using sets_default [of w h] by (auto simp: drop_unit_def)

lemma resolved:
  assumes "sound w d hs Q"
  shows "\<exists>r ts Q'. resolveTargetFanIndexes A fresh w i Q = Done (r, ts, Q', w) \<and> sound w d hs Q' \<and> coherent w hs Q' \<and> (\<forall>t\<in>set ts. t < length hs)"
proof -
  obtain Q' where Q': "ensureFansEnumerated A fresh w Q = Done (ZE_RESULT_SUCCESS, Q', w)" "sound w d hs Q'" "coherent w hs Q'"
    using ensured [OF assms] by blast
  have "unat i < length hs" if "\<not> fanCount Q' \<le> i"
    using that coherent_count [OF Q'(3)] by (simp add: not_le word_less_nat_alt)
  then show ?thesis
    using Q' coherent_count [OF Q'(3)] by (auto simp: resolveTargetFanIndexes_def)
qed

text \<open>Every call keeps the object sound.\<close>

lemma setters_sound:
  assumes "sound w d hs Q" "resolveTargetFanIndexes A fresh w i Q = Done (r, ts, Q1, w1)"
    and "\<And>p w h. ok w \<Longrightarrow> \<exists>r w'. setter p w h = Done (r, w') \<and> effect w h r w'"
    and "set_mode_loop A setter ts e Q1 w1 = Done (r', Q', w')"
  shows "sound w' d hs Q'"
proof -
  have Q1: "w1 = w" "sound w d hs Q1" "coherent w hs Q1" "\<forall>t\<in>set ts. t < length hs"
    using resolved [OF assms(1), of fresh i] assms(2) by auto
  then have "ok w" "distinct hs"
    by (simp_all add: sound_def)
  then show ?thesis
    using set_loop [where setter = setter and e = e, OF assms(3) \<open>ok w\<close> Q1(3) \<open>distinct hs\<close> Q1(4)] assms(4) Q1(1,2) by (auto simp: sound_def)
qed

lemma speeds_sound: "sound w d hs Q \<Longrightarrow> getSpeedPercentById A fresh w i p Q = Done (r, p', Q', w') \<Longrightarrow> sound w' d hs Q'"
proof (cases "i < length hs")
  case True
  then show "sound w d hs Q \<Longrightarrow> getSpeedPercentById A fresh w i p Q = Done (r, p', Q', w') \<Longrightarrow> sound w' d hs Q'"
    using speed_by_id [of w d hs Q i fresh p] by (auto simp: Let_def case_prod_beta)
next
  case False
  assume *: "sound w d hs Q" "getSpeedPercentById A fresh w i p Q = Done (r, p', Q', w')"
  obtain Q1 where Q1: "ensureFansEnumerated A fresh w Q = Done (ZE_RESULT_SUCCESS, Q1, w)" "sound w d hs Q1" "coherent w hs Q1"
    using ensured [OF *(1)] by blast
  then show ?thesis
    using *(2) False coherent_count [OF Q1(3)] by (auto simp: getSpeedPercentById_def)
qed

lemma sums_sound: "sound w d hs Q \<Longrightarrow> speed_sum_loop A fresh is acc Q w = Done (acc', Q', w') \<Longrightarrow> sound w' d hs Q'"
proof (induction "is" arbitrary: acc Q w)
  case (Cons i js)
  then obtain r p Q1 w1 where "getSpeedPercentById A fresh w i 0 Q = Done (r, p, Q1, w1)"
      "speed_sum_loop A fresh js (if r = ZE_RESULT_SUCCESS \<and> 0 \<le> sint p then (fst acc + sint p, snd acc + 1) else acc) Q1 w1 = Done (acc', Q', w')"
    by auto
  then show ?case
    using Cons.IH [OF speeds_sound] Cons.prems(1) by blast
qed simp

lemma step_sound:
  assumes "fan_step A fresh (Q, w) (Q', w')" "sound w d hs Q"
  shows "sound w' d hs Q'"
  using assms(1)
proof cases
  case (step_config c i r c')
  obtain r1 ts Q1 where Q1: "resolveTargetFanIndexes A fresh w i Q = Done (r1, ts, Q1, w)" "sound w d hs Q1" "coherent w hs Q1" "\<forall>t\<in>set ts. t < length hs"
    using resolved [OF assms(2)] by blast
  have w: "ok w"
    using assms(2) by (simp add: sound_def)
  show ?thesis
  proof (cases "r1 \<noteq> ZE_RESULT_SUCCESS \<or> ts = []")
    case True
    then show ?thesis
      using step_config Q1 by (auto simp: getConfig_def split: if_splits list.splits)
  next
    case False
    then obtain t ts' where ts: "ts = t # ts'" "r1 = ZE_RESULT_SUCCESS"
      by (cases ts) auto
    then obtain Q2 where Q2: "getConfigById A w t c Q1 = Done (case conf_read w (hs ! t) of Inl e \<Rightarrow> (e, c, Q2, tick w)
        | Inr v \<Rightarrow> (ZE_RESULT_SUCCESS, v, Q2, tick w))" "coherent (tick w) hs Q2" "fan_deviceHandle Q2 = fan_deviceHandle Q1"
      using config_ok [OF w Q1(3), of t c] Q1(4) by auto
    have "sound (tick w) d hs Q2"
      using Q1(2) Q2(2,3) ticks(1) [OF w] by (simp add: sound_def ticks)
    then show ?thesis
      using step_config Q1(1) ts Q2(1) by (auto simp: getConfig_def split: sum.splits)
  qed
next
  case (step_count n r n')
  then show ?thesis
    using ensured [OF assms(2), of fresh] by (auto simp: getFanCount_def)
next
  case (step_run r)
  then show ?thesis
    using ensured [OF assms(2), of fresh] by (auto simp: fan_zesRun_def)
next
  case (step_speed_id i p r p')
  then show ?thesis
    using speeds_sound assms(2) by blast
next
  case (step_speed p r p')
  obtain Q1 where Q1: "ensureFansEnumerated A fresh w Q = Done (ZE_RESULT_SUCCESS, Q1, w)" "sound w d hs Q1"
    using ensured [OF assms(2)] by blast
  then show ?thesis
    using step_speed by (auto simp: getSpeedPercent_def split: if_splits dest: sums_sound)
next
  case (step_fixed p i r)
  obtain r1 ts Q1 where "resolveTargetFanIndexes A fresh w i Q = Done (r1, ts, Q1, w)" "sound w d hs Q1"
    using resolved [OF assms(2)] by blast
  then show ?thesis
    using step_fixed setters_sound [OF assms(2) _ fixed_effect]
    by (auto simp: setFixedSpeedPercent_def split: if_splits)
next
  case (step_default i r)
  obtain r1 ts Q1 where "resolveTargetFanIndexes A fresh w i Q = Done (r1, ts, Q1, w)" "sound w d hs Q1"
    using resolved [OF assms(2)] by blast
  then show ?thesis
    using step_default setters_sound [OF assms(2) _ default_effect]
    by (auto simp: setDefaultMode_def split: if_splits)
next
  case (step_table points u i r)
  obtain r1 ts Q1 where "resolveTargetFanIndexes A fresh w i Q = Done (r1, ts, Q1, w)" "sound w d hs Q1"
    using resolved [OF assms(2)] by blast
  then show ?thesis
    using step_table setters_sound [OF assms(2) _ table_effect]
    by (auto simp: setSpeedTableMode_def split: if_splits)
qed

lemma run_sound: "(fan_step A fresh)\<^sup>*\<^sup>* (Q, w) (Q', w') \<Longrightarrow> sound w d hs Q \<Longrightarrow> sound w' d hs Q'"
  by (induction rule: rtranclp_induct2) (auto intro: step_sound)

end

end
