(* ===== verification/Hal_StubFan.thy ===== *)
theory Hal_StubFan
  imports Hal_Stub Hal_StubFreq Hal_Fan
begin

text \<open>
  Fans over the stub. The driver state is the stub with the readings of the steady clock that are still to come.
\<close>

type_synonym timed_stub = "stub \<times> (nat \<Rightarrow> u64)"

definition on_stub :: "(stub, 'o) zes_call \<Rightarrow> (nat \<Rightarrow> u64) \<Rightarrow> (timed_stub, 'o) zes_call" where
  "on_stub x c = obind x (\<lambda>(r, v, s). Done (r, v, (s, c)))"

lemma on_stub_Done [simp]: "on_stub (Done (r, v, s)) c = Done (r, v, (s, c))"
  by (simp add: on_stub_def)

definition tick_stub :: "timed_stub \<Rightarrow> timed_stub" where
  "tick_stub w = (fst w, \<lambda>n. snd w (Suc n))"

definition stub_fan_api :: "timed_stub fan_api" where
  "stub_fan_api = \<lparr>
     zesDeviceEnumFans_l0 = (\<lambda>(s, c) d n b. on_stub (zesDeviceEnumFans s d n b) c),
     zesFanGetProperties_l0 = (\<lambda>(s, c) h p. on_stub (zesFanGetProperties s h p) c),
     zesFanGetConfig_l0 = (\<lambda>(s, c) h p. on_stub (zesFanGetConfig s h p) c),
     zesFanGetState_l0 = (\<lambda>(s, c) h u p. on_stub (zesFanGetState s h u p) c),
     zesFanSetDefaultMode_l0 = (\<lambda>(s, c) h. on_stub (zesFanSetDefaultMode s h) c),
     zesFanSetFixedSpeedMode_l0 = (\<lambda>(s, c) h v. on_stub (zesFanSetFixedSpeedMode s h v) c),
     zesFanSetSpeedTableMode_l0 = (\<lambda>(s, c) h t. on_stub (zesFanSetSpeedTableMode s h t) c),
     steady_ms = (\<lambda>w. (snd w 0, tick_stub w))\<rparr>"

abbreviation stub_fan_handles :: "stub \<Rightarrow> u64 \<Rightarrow> ze_result_t + u64 list" where
  "stub_fan_handles \<equiv> stub_objects STUB_HANDLE_FAN UNSUPPORTED_FEATURE_FANS (\<lambda>d. rv_zesDeviceEnumFans (dev_return_values d)) dev_fans"

abbreviation stub_fan_properties :: "stub \<Rightarrow> u64 \<Rightarrow> ze_result_t + zes_fan_properties_t" where
  "stub_fan_properties \<equiv> stub_read resolve_fan UNSUPPORTED_FEATURE_FAN_GET_PROPERTIES
     (\<lambda>f. rv_zesFanGetProperties (fan_return_values f)) (configured fan_properties)"

abbreviation stub_fan_config :: "stub \<Rightarrow> u64 \<Rightarrow> ze_result_t + zes_fan_config_t" where
  "stub_fan_config \<equiv> stub_read resolve_fan UNSUPPORTED_FEATURE_FAN_GET_CONFIG
     (\<lambda>f. rv_zesFanGetConfig (fan_return_values f)) (configured fan_config)"

abbreviation stub_fan_state :: "stub \<Rightarrow> u64 \<Rightarrow> ze_result_t + u32" where
  "stub_fan_state \<equiv> stub_read resolve_fan UNSUPPORTED_FEATURE_FAN_GET_STATE
     (\<lambda>f. rv_zesFanGetState (fan_return_values f)) (\<lambda>f. Inr (fan_speed f))"

lemma on_stub_objects:
  assumes "zes_objects ready f objs"
  shows "zes_objects (\<lambda>w. P w \<and> ready (fst w)) (\<lambda>(s, c) d n b. on_stub (f s d n b) c) (\<lambda>w. objs (fst w))"
proof (unfold_locales, goal_cases)
  case (1 w d n)
  then show ?case
    by (cases w) (simp add: zes_objects.counts [OF assms] split: sum.splits)
next
  case (2 w d hs n b)
  then show ?case
    by (cases w) (simp add: zes_objects.fills [OF assms])
next
  case (3 w d e)
  then show ?case
    using zes_objects.refused [OF assms] by blast
next
  case (4 w d hs)
  then show ?case
    using zes_objects.few [OF assms] by blast
qed

lemma on_stub_getter:
  assumes "zes_getter ready f (\<lambda>_. True) mrg val"
  shows "zes_getter (\<lambda>w. P w \<and> ready (fst w)) (\<lambda>(s, c) h p. on_stub (f s h p) c) (\<lambda>_. True) mrg (\<lambda>w. val (fst w))"
proof (unfold_locales, goal_cases)
  case (1 w old h)
  then show ?case
    by (cases w) (simp add: zes_getter.reads [OF assms] split: sum.splits)
next
  case (2 w h e)
  then show ?case
    using zes_getter.fails [OF assms] by blast
qed simp

text \<open>A stub whose fans have tables that fit their array.\<close>

definition fans_bounded :: "stub \<Rightarrow> bool" where
  "fans_bounded s = (\<forall>h c. stub_fan_config s h = Inr c \<longrightarrow> bounded_table c)"

text \<open>A call that changes nothing.\<close>

lemma stub_set_effect:
  assumes "\<And>s h. f s h = locked s (\<lambda>st. prologue st h (resolve_fan st h) flag rv () (\<lambda>_. Done (ZE_RESULT_SUCCESS, ())))"
    and "P w" "ready (fst w)"
  shows "\<exists>r w'. on_stub (f (fst w) h) (snd w) = Done (r, (), w')
    \<and> changes (\<lambda>w. P w \<and> ready (fst w)) (\<lambda>w. objs (fst w)) (\<lambda>w. props (fst w)) (\<lambda>w. confs (fst w)) w h r w'"
proof -
  have "f s h = Done (answer (stub_read resolve_fan flag rv (\<lambda>_. Inr ()) s h), (), s)" if "ready s" for s
    using that by (intro stub_setter) (simp_all add: assms(1) fan.resolve_wf)
  then show ?thesis
    using assms(2,3) by (cases w) (auto simp: changes_def)
qed

lemma bounded_keep_header: "bounded_table (keep_header o' c) = bounded_table c"
  by (simp add: bounded_table_def keep_header_def)

interpretation stub_fans: fan_driver "\<lambda>w. (fst w = s \<and> fans_bounded s) \<and> ready (fst w)" stub_fan_api "\<lambda>w. stub_fan_handles (fst w)"
    keep_header "\<lambda>w. stub_fan_properties (fst w)" keep_header "\<lambda>w. stub_fan_config (fst w)" "\<lambda>_ w. stub_fan_state (fst w)" tick_stub for s
proof (intro fan_driver.intro fan_driver_axioms.intro)
  let ?ok = "\<lambda>w :: timed_stub. (fst w = s \<and> fans_bounded s) \<and> ready (fst w)"
  show "zes_objects ?ok (zesDeviceEnumFans_l0 stub_fan_api) (\<lambda>w. stub_fan_handles (fst w))"
    using on_stub_objects [OF enum_fan.objects, of "\<lambda>w. fst w = s \<and> fans_bounded s"] by (simp add: stub_fan_api_def)
  have "zes_getter ready zesFanGetProperties (\<lambda>_. True) keep_header stub_fan_properties"
    by (intro stub_src_getter) (simp_all add: zesFanGetProperties_def fan.resolve_wf)
  then show "zes_getter ?ok (zesFanGetProperties_l0 stub_fan_api) (\<lambda>_. True) keep_header (\<lambda>w. stub_fan_properties (fst w))"
    using on_stub_getter [of zesFanGetProperties keep_header stub_fan_properties "\<lambda>w. fst w = s \<and> fans_bounded s"]
    by (simp add: stub_fan_api_def)
  have "zes_getter ready zesFanGetConfig (\<lambda>_. True) keep_header stub_fan_config"
    by (intro stub_src_getter) (simp_all add: zesFanGetConfig_def fan.resolve_wf)
  then show "zes_getter ?ok (zesFanGetConfig_l0 stub_fan_api) (\<lambda>_. True) keep_header (\<lambda>w. stub_fan_config (fst w))"
    using on_stub_getter [of zesFanGetConfig keep_header stub_fan_config "\<lambda>w. fst w = s \<and> fans_bounded s"]
    by (simp add: stub_fan_api_def)
  fix w :: timed_stub and h :: u64 and u v :: u32 and e :: ze_result_t and c :: zes_fan_config_t and sp :: zes_fan_speed_t
    and t :: zes_fan_speed_table_t
  have state: "zes_getter ready (\<lambda>s h. zesFanGetState s h u) (\<lambda>_. True) (\<lambda>_ v. v) stub_fan_state"
    by (intro stub_value_getter) (simp_all add: zesFanGetState_def fan.resolve_wf)
  show "?ok w \<Longrightarrow> zesFanGetState_l0 stub_fan_api w h u (Some v) = Done (case stub_fan_state (fst w) h of Inl e \<Rightarrow> (e, Some v, w)
      | Inr s \<Rightarrow> (ZE_RESULT_SUCCESS, Some s, w))"
    using zes_getter.reads [OF state, of "fst w" h v] by (cases w) (simp add: stub_fan_api_def split: sum.splits)
  show "?ok w \<Longrightarrow> stub_fan_state (fst w) h = Inl e \<Longrightarrow> e \<noteq> ZE_RESULT_SUCCESS"
    using zes_getter.fails [OF state] by blast
  show "?ok w \<Longrightarrow> stub_fan_config (fst w) h = Inr c \<Longrightarrow> bounded_table (keep_header zero_fan_config c)"
    by (auto simp: bounded_keep_header fans_bounded_def)
  show "?ok w \<Longrightarrow> \<exists>r w'. zesFanSetDefaultMode_l0 stub_fan_api w h = Done (r, (), w') \<and> changes ?ok (\<lambda>w. stub_fan_handles (fst w))
      (\<lambda>w. stub_fan_properties (fst w)) (\<lambda>w. stub_fan_config (fst w)) w h r w'"
    unfolding stub_fan_api_def fan_api.simps case_prod_beta
    by (rule stub_set_effect [where P = "\<lambda>w. fst w = s \<and> fans_bounded s"]) (auto simp: zesFanSetDefaultMode_def)
  show "?ok w \<Longrightarrow> \<exists>r w'. zesFanSetFixedSpeedMode_l0 stub_fan_api w h (Some sp) = Done (r, (), w') \<and> changes ?ok (\<lambda>w. stub_fan_handles (fst w))
      (\<lambda>w. stub_fan_properties (fst w)) (\<lambda>w. stub_fan_config (fst w)) w h r w'"
    unfolding stub_fan_api_def fan_api.simps case_prod_beta
    by (rule stub_set_effect [where P = "\<lambda>w. fst w = s \<and> fans_bounded s" and f = "\<lambda>s h. zesFanSetFixedSpeedMode s h (Some sp)"])
      (auto simp: zesFanSetFixedSpeedMode_def)
  show "?ok w \<Longrightarrow> \<exists>r w'. zesFanSetSpeedTableMode_l0 stub_fan_api w h (Some t) = Done (r, (), w') \<and> changes ?ok (\<lambda>w. stub_fan_handles (fst w))
      (\<lambda>w. stub_fan_properties (fst w)) (\<lambda>w. stub_fan_config (fst w)) w h r w'"
    unfolding stub_fan_api_def fan_api.simps case_prod_beta
    by (rule stub_set_effect [where P = "\<lambda>w. fst w = s \<and> fans_bounded s" and f = "\<lambda>s h. zesFanSetSpeedTableMode s h (Some t)"])
      (auto simp: zesFanSetSpeedTableMode_def)
qed (auto simp: stub_fan_api_def tick_stub_def)

text \<open>What a configured fan tells of itself.\<close>

definition fan_properties_of :: "stub \<Rightarrow> u64 \<Rightarrow> sysman_fan_t \<Rightarrow> ze_result_t + zes_fan_properties_t" where
  "fan_properties_of w d = read_component (UNSUPPORTED_FEATURE_FAN_GET_PROPERTIES \<in> unsupported_set (g_sysman_state w) d)
     (\<lambda>f. rv_zesFanGetProperties (fan_return_values f)) (configured fan_properties)"

definition fan_config_of :: "stub \<Rightarrow> u64 \<Rightarrow> sysman_fan_t \<Rightarrow> ze_result_t + zes_fan_config_t" where
  "fan_config_of w d = read_component (UNSUPPORTED_FEATURE_FAN_GET_CONFIG \<in> unsupported_set (g_sysman_state w) d)
     (\<lambda>f. rv_zesFanGetConfig (fan_return_values f)) (configured fan_config)"

definition fan_speed_of :: "stub \<Rightarrow> u64 \<Rightarrow> sysman_fan_t \<Rightarrow> ze_result_t + u32" where
  "fan_speed_of w d = read_component (UNSUPPORTED_FEATURE_FAN_GET_STATE \<in> unsupported_set (g_sysman_state w) d)
     (\<lambda>f. rv_zesFanGetState (fan_return_values f)) (\<lambda>f. Inr (fan_speed f))"

abbreviation fans_listed :: "stub \<Rightarrow> u64 \<Rightarrow> sysman_device_state_t \<Rightarrow> bool" where
  "fans_listed \<equiv> listed UNSUPPORTED_FEATURE_FANS (\<lambda>d. rv_zesDeviceEnumFans (dev_return_values d)) dev_fans"

lemma stub_fan_read:
  assumes "fans_listed w d dev" "i < length (elems (dev_fans dev))"
  defines "h \<equiv> stub_handles STUB_HANDLE_FAN d (length (elems (dev_fans dev))) ! i" and "f \<equiv> elems (dev_fans dev) ! i"
  shows "stub_fan_properties w h = fan_properties_of w d f" "stub_fan_config w h = fan_config_of w d f" "stub_fan_state w h = fan_speed_of w d f"
proof -
  have en: "enabled resolve_device UNSUPPORTED_FEATURE_FANS (\<lambda>d. rv_zesDeviceEnumFans (dev_return_values d)) w d dev" "i < 2 ^ 16"
    using assms(1,2) by (simp_all add: listed_def)
  show "stub_fan_properties w h = fan_properties_of w d f" "stub_fan_config w h = fan_config_of w d f" "stub_fan_state w h = fan_speed_of w d f"
    using assms(2) unfolding h_def f_def
    by (simp_all add: stub_handles_def enum_fan.component_read [OF en(1) _ en(2)] fan_properties_of_def fan_config_of_def fan_speed_of_def)
qed

lemma percent_keep_header:
  "fan_percent (map_sum id (keep_header x) conf) (map_sum id (keep_header y) props) p r old = fan_percent conf props p r old"
proof -
  have "config_speed (keep_header x c) = config_speed c" for c
    by (simp add: config_speed_def keep_header_def cong: if_cong)
  moreover have "percent_of_speed (map_sum id (keep_header y) props) = percent_of_speed props"
    by (cases props) (simp_all add: fun_eq_iff percent_of_speed_def keep_header_def cong: if_cong)
  ultimately show ?thesis
    by (cases conf; cases props) (simp_all add: fan_percent_def keep_header_def split: option.splits cong: if_cong)
qed

text \<open>A new object is sound.\<close>

lemma stub_fans_start:
  assumes "fans_listed s d dev" "d \<noteq> 0" "fans_bounded s" "elems (dev_fans dev) \<noteq> []"
  shows "stub_fans.sound s (s, c) d (stub_handles STUB_HANDLE_FAN d (length (elems (dev_fans dev)))) (snd (fan_init d fan_constructor))"
proof -
  have "length (elems (dev_fans dev)) \<le> 2 ^ 16"
    using assms(1) by (simp add: listed_def)
  from distinct_component_handles [OF this] show ?thesis
    unfolding stub_fans.sound_def
    using assms(2-4) listed_ready [OF assms(1)] enum_fan.listed_objects [OF assms(1)]
    by (auto simp: fan_init_def fan_constructor_def stub_handles_def)
qed


end
