(* ===== verification/Hal_Sample.thy ===== *)
theory Hal_Sample
  imports Stub_Sample Hal_StubTemp Hal_StubFreq Hal_StubPower Hal_StubFan
begin

text \<open>
  A concrete configuration for the classes of \<^verbatim>\<open>hal/core\<close> - one device with two engine groups, two memory modules,
  two temperature sensors, two frequency domains, two power domains and two fans - and the instances of their theorems on it.
\<close>

section \<open>The configuration\<close>

definition hal_group :: "u32 \<Rightarrow> sysman_engine_t" where
  "hal_group ty = \<lparr>engine_return_values = zero_engine_rv, engine_properties = \<lparr>engine_properties_info_base = \<lparr>stype = 0, pNext = 0,
     engine_properties_type = ty, engine_properties_onSubdevice = 0, engine_properties_subdeviceId = 0\<rparr>,
     engine_properties_info_extended_properties = \<lparr>stype = 0, pNext = 0, engine_ext_properties_countOfVirtualFunctionInstance = 0\<rparr>\<rparr>,
     engine_activity = \<lparr>engine_stats_activeTime = 5, engine_stats_timestamp = 9\<rparr>, engine_activity_ext_count = 0, engine_activity_ext = Null\<rparr>"

definition hal_module :: "u32 \<Rightarrow> u32 \<Rightarrow> u64 \<Rightarrow> u64 \<Rightarrow> sysman_mem_t" where
  "hal_module tile health bytes avail = \<lparr>mem_return_values = zero_mem_rv,
     mem_properties = Ptr 51 \<lparr>stype = 0, pNext = 0, mem_properties_type = 8, mem_properties_onSubdevice = 1,
       mem_properties_subdeviceId = tile, mem_properties_location = 1, mem_properties_physicalSize = 0, mem_properties_busWidth = 64,
       mem_properties_numChannels = 2\<rparr>,
     mem_state = Ptr 52 \<lparr>stype = 0, pNext = 0, mem_state_health = health, mem_state_free = avail, mem_state_size = bytes\<rparr>,
     mem_bandwidth = Null\<rparr>"

definition hal_sensor :: "u32 \<Rightarrow> u32 \<Rightarrow> double64 \<Rightarrow> sysman_temp_t" where
  "hal_sensor rv ty t = \<lparr>temp_return_values = zero_temp_rv\<lparr>rv_zesTemperatureGetState := rv\<rparr>,
     temp_properties = Ptr 61 \<lparr>stype = 0, pNext = 0, temp_properties_type = ty, temp_properties_onSubdevice = 1,
       temp_properties_subdeviceId = 1, temp_properties_maxTemperature = 0, temp_properties_isCriticalTempSupported = 0,
       temp_properties_isThreshold1Supported = 0, temp_properties_isThreshold2Supported = 0\<rparr>,
     temp_temperature = t, temp_config = Null\<rparr>"

definition hal_domain :: "u32 \<Rightarrow> double64 \<Rightarrow> sysman_freq_t" where
  "hal_domain rv mx = \<lparr>freq_return_values = zero_freq_rv\<lparr>rv_zesFrequencySetRange := rv\<rparr>,
     freq_properties = Ptr 71 \<lparr>stype = 0, pNext = 0, freq_properties_type = 0, freq_properties_onSubdevice = 0,
       freq_properties_subdeviceId = 0, freq_properties_canControl = 1, freq_properties_isThrottleEventSupported = 0,
       freq_properties_min = 0, freq_properties_max = mx\<rparr>,
     freq_range = Null, freq_available_clocks_count = 0, freq_available_clocks = Null, freq_state = Null, freq_throttle_time = Null\<rparr>"

text \<open>A power domain of a tile or of the device, with a limit of level 1 and a locked one of level 3.\<close>

definition hal_limit :: "u32 \<Rightarrow> ze_bool_t \<Rightarrow> zes_power_limit_ext_desc_t" where
  "hal_limit level fixed = zero_limit\<lparr>power_limit_ext_desc_level := level, power_limit_ext_desc_limitValueLocked := fixed,
     power_limit_ext_desc_limit := 100\<rparr>"

definition hal_power :: "ze_bool_t \<Rightarrow> u32 \<Rightarrow> u32 \<Rightarrow> u64 \<Rightarrow> sysman_power_t" where
  "hal_power tiled tile domain e = \<lparr>power_return_values = zero_power_rv\<lparr>rv_zesPowerSetLimitsExt := 5\<rparr>,
     power_properties = Ptr 81 \<lparr>power_properties_info_base = zero_power_properties\<lparr>power_properties_onSubdevice := tiled,
         power_properties_subdeviceId := tile\<rparr>,
       power_properties_info_extended_properties = \<lparr>stub_power_ext_properties_domain = domain,
         stub_power_ext_properties_default_limit = zero_limit\<rparr>\<rparr>,
     power_energy_counter = Ptr 82 \<lparr>power_energy_counter_energy = e, power_energy_counter_timestamp = 9\<rparr>,
     power_limits_count = 2, power_limits = Ptr 83 [hal_limit 1 0, hal_limit 3 1], power_energy_threshold = Null\<rparr>"

text \<open>A fan set to a fixed number of revolutions.\<close>

definition hal_fan :: "u32 \<Rightarrow> sysman_fan_t" where
  "hal_fan rpm = \<lparr>fan_return_values = zero_fan_rv, fan_properties = Ptr 91 (zero_fan_properties\<lparr>fan_properties_maxRPM := 3000\<rparr>),
     fan_config = Ptr 92 (zero_fan_config\<lparr>fan_config_mode := 1, fan_config_speedFixed := \<lparr>fan_speed_speed = rpm, fan_speed_units = 0\<rparr>\<rparr>),
     fan_speed = 40\<rparr>"

definition hal_device :: sysman_device_state_t where
  "hal_device = sample_device\<lparr>
     dev_engine_groups_count := 2, dev_engine_groups := Ptr 50 [hal_group 1, hal_group 3],
     dev_memory_modules_count := 2, dev_memory_modules := Ptr 53 [hal_module 0 2 100 40, hal_module 1 3 50 60],
     dev_temperature_sensors_count := 2, dev_temperature_sensors := Ptr 60 [hal_sensor 1 1 0, hal_sensor 0 2 0x4008000000000000],
     dev_frequency_domains_count := 2, dev_frequency_domains := Ptr 70 [hal_domain 5 3, hal_domain 6 4],
     dev_power_domains_count := 2, dev_power_domains := Ptr 80 [hal_power 1 1 2 7, hal_power 0 0 5 8],
     dev_fans_count := 2, dev_fans := Ptr 90 [hal_fan 600, hal_fan 1500]\<rparr>"

definition hal_driver :: sysman_drivers_state_t where
  "hal_driver = sample_driver\<lparr>drv_devices := Ptr 11 [hal_device]\<rparr>"

definition hal_sample :: stub where
  "hal_sample = \<lparr>g_sysman_state = \<lparr>st_system = \<lparr>sys_drivers_count = 1, sys_drivers = Ptr 10 [hal_driver]\<rparr>,
     st_return_values = \<lparr>rv_zesInit = 0, rv_zesDriverGet = 0\<rparr>\<rparr>, g_config_path = ''sample.yaml'', g_state_lock = False\<rparr>"

lemma hal_arrays [simp]:
  "elems (dev_engine_groups hal_device) = [hal_group 1, hal_group 3]"
  "elems (dev_memory_modules hal_device) = [hal_module 0 2 100 40, hal_module 1 3 50 60]"
  "elems (dev_temperature_sensors hal_device) = [hal_sensor 1 1 0, hal_sensor 0 2 0x4008000000000000]"
  "elems (dev_frequency_domains hal_device) = [hal_domain 5 3, hal_domain 6 4]"
  "elems (dev_power_domains hal_device) = [hal_power 1 1 2 7, hal_power 0 0 5 8]"
  "elems (dev_fans hal_device) = [hal_fan 600, hal_fan 1500]"
  by (simp_all add: hal_device_def)

lemma hal_wf: "wf_device hal_device"
  using wf_sample_device by (simp add: hal_device_def wf_device_def wf_arr_def wf_engine_def hal_group_def wf_freq_def hal_domain_def
      wf_power_def hal_power_def)

lemma hal_ready: "ready hal_sample"
  by (simp add: ready_def hal_sample_def wf_state_def wf_arr_def wf_driver_def hal_driver_def sample_driver_def hal_wf)

lemma hal_resolves: "resolve_device (g_sysman_state hal_sample) hdev = Done (Some hal_device)"
  using hal_ready by (simp add: ready_def resolve_wfs make_defs nth_opt_def device_at_def driver_at_def hal_sample_def hal_driver_def)

lemma hal_supported: "unsupported_set (g_sysman_state hal_sample) hdev = {}"
  by (simp add: unsupported_set_def make_defs hal_sample_def hal_driver_def hal_device_def sample_device_def sample_driver_def
      driver_at_def device_at_def nth_opt_def)

lemma hal_listed:
  "listed UNSUPPORTED_FEATURE_ENGINE_GROUPS (\<lambda>d. rv_zesDeviceEnumEngineGroups (dev_return_values d)) dev_engine_groups hal_sample hdev hal_device"
  "listed UNSUPPORTED_FEATURE_MEMORY_MODULES (\<lambda>d. rv_zesDeviceEnumMemoryModules (dev_return_values d)) dev_memory_modules hal_sample hdev hal_device"
  "listed UNSUPPORTED_FEATURE_TEMPERATURE_SENSORS (\<lambda>d. rv_zesDeviceEnumTemperatureSensors (dev_return_values d)) dev_temperature_sensors
     hal_sample hdev hal_device"
  "listed UNSUPPORTED_FEATURE_FREQUENCY_DOMAINS (\<lambda>d. rv_zesDeviceEnumFrequencyDomains (dev_return_values d)) dev_frequency_domains
     hal_sample hdev hal_device"
  "power_listed hal_sample hdev hal_device"
  "fans_listed hal_sample hdev hal_device"
  by (simp_all add: listed_def enabled_def hal_ready hal_resolves hal_supported, simp_all add: hal_device_def sample_device_def zero_rv_defs)

section \<open>Instances of the theorems\<close>

text \<open>
  Double precision on numbers that are not negative, exact on the refresh codes, whose bit patterns are ordered as the
  numbers are.
\<close>

definition code_numbers :: "(double64 \<times> u32) list" where
  "code_numbers = [(0, 0), (0x3FF0000000000000, 1), (0x4000000000000000, 2), (0x4008000000000000, 3), (0x4010000000000000, 4),
     (0x4014000000000000, 5), (0x4018000000000000, 6), (0x401C000000000000, 7)]"

definition code_fp :: fp64 where
  "code_fp = \<lparr>fp_of_u64 = id, fp_mult = (\<lambda>x y. x), fp_divide = (\<lambda>x y. x), fp_less = (<), fp_round = (\<lambda>x. x),
     fp_distance = (\<lambda>x y. if x \<le> y then y - x else x - y), fp_finite = (\<lambda>_. True),
     fp_to_u32 = (\<lambda>x. case map_of code_numbers x of None \<Rightarrow> 0 | Some n \<Rightarrow> n)\<rparr>"

lemma code_fp_rounds: "rounds_to_code code_fp"
  by (simp add: rounds_to_code_def code_fp_def code_numbers_def)

lemma hal_groups_read:
  "read_component off (\<lambda>e. rv_zesEngineGetProperties (engine_return_values e)) val (hal_group ty) =
     (if off then Inl ZE_RESULT_ERROR_UNSUPPORTED_FEATURE else val (hal_group ty))"
  by (simp add: read_component_def hal_group_def zero_rv_defs ZE_RESULT_SUCCESS_def)

definition hal_engine_properties :: zes_engine_properties_t where
  "hal_engine_properties = \<lparr>stype = 0, pNext = 0, engine_properties_type = 0, engine_properties_onSubdevice = 0,
     engine_properties_subdeviceId = 0\<rparr>"

theorem engine_count_on_stub_witness:
  "obind (enginegroup_init stub_engine_api (\<lambda>_. 0) hal_sample hdev enginegroup_constructor)
     (\<lambda>(_, E, w). getEngineCountByType stub_engine_api hal_engine_properties w (Some 0) 3 E) = Done (ZE_RESULT_SUCCESS, Some 1, hal_sample)"
  using engine_count_on_stub [OF hal_listed(1), of hal_engine_properties "\<lambda>_. 0" enginegroup_constructor 0 3]
  by (simp add: hal_engine_properties_def hal_groups_read hal_supported, simp add: hal_group_def)

lemma hal_modules_read:
  "read_component off (\<lambda>m. rv_zesMemoryGetState (mem_return_values m)) val (hal_module t h b a) =
     (if off then Inl ZE_RESULT_ERROR_UNSUPPORTED_FEATURE else val (hal_module t h b a))"
  "read_component off (\<lambda>m. rv_zesMemoryGetProperties (mem_return_values m)) val (hal_module t h b a) =
     (if off then Inl ZE_RESULT_ERROR_UNSUPPORTED_FEATURE else val (hal_module t h b a))"
  by (simp_all add: read_component_def hal_module_def zero_rv_defs ZE_RESULT_SUCCESS_def)

text \<open>The second module is critical; the first, degraded, hides it.\<close>

theorem memory_health_on_stub_witness:
  "obind (memory_init stub_memory_api (\<lambda>_. 0) hal_sample hdev memory_constructor)
     (\<lambda>(_, M, w). getMemoryHealth stub_memory_api zero_mem_state w (Some 0) M) =
   Done (ZE_RESULT_SUCCESS, Some ZES_MEM_HEALTH_DEGRADED, hal_sample)"
  using memory_health_on_stub [OF hal_listed(2), of "\<lambda>_. 0" memory_constructor zero_mem_state 0]
  by (simp add: module_health_def hal_modules_read hal_supported, simp add: configured_def hal_module_def mem_codes)

lemma hal_module_of:
  "module_of P hal_sample hdev (hal_module t h b a) = (let p = \<lparr>stype = 0, pNext = 0, mem_properties_type = 8, mem_properties_onSubdevice = 1,
       mem_properties_subdeviceId = t, mem_properties_location = 1, mem_properties_physicalSize = 0, mem_properties_busWidth = 64,
       mem_properties_numChannels = 2\<rparr> in
     Inr (if P p then Some (p, \<lparr>stype = 0, pNext = 0, mem_state_health = h, mem_state_free = a, mem_state_size = b\<rparr>) else None))"
  by (simp add: module_of_def hal_modules_read hal_supported, simp add: configured_def hal_module_def Let_def)

theorem memory_used_on_stub_witness:
  "obind (memory_init stub_memory_api (\<lambda>_. 0) hal_sample hdev memory_constructor)
     (\<lambda>(_, M, w). getMemoryUsed stub_memory_api code_fp w (Some 0) None M) = Done (ZE_RESULT_SUCCESS, (Some 60, None), hal_sample)"
  using memory_used_on_stub [OF hal_listed(2), of "\<lambda>_. 0" memory_constructor code_fp "Some 0" None]
  by (simp add: hal_module_of Let_def usage_outputs_def used_bytes_def moduleUsed_def moduleTotal_def)

text \<open>The second module has more free than allocatable bytes: its tile is reported with nearly \<open>2 ^ 64\<close> bytes in use.\<close>

theorem memory_per_tile_on_stub_witness:
  "\<exists>usage. obind (memory_init stub_memory_api (\<lambda>_. 0) hal_sample hdev memory_constructor)
       (\<lambda>(_, M, w). getMemoryUsagePerTile stub_memory_api code_fp w M) = Done (ZE_RESULT_SUCCESS, usage, hal_sample)
     \<and> map_option usedBytes (usage 0) = Some 60 \<and> map_option usedBytes (usage 1) = Some (- 10)"
proof -
  obtain usage where u: "obind (memory_init stub_memory_api (\<lambda>_. 0) hal_sample hdev memory_constructor)
        (\<lambda>(_, M, w). getMemoryUsagePerTile stub_memory_api code_fp w M) = Done (ZE_RESULT_SUCCESS, usage, hal_sample)"
      "(\<lambda>t. map_option usedBytes (usage t)) = tile_sum [(0, 60), (1, - 10)]"
    using memory_per_tile_on_stub [OF hal_listed(2), of "\<lambda>_. 0" memory_constructor code_fp]
    by (auto simp: hal_module_of Let_def module_tile_def ZES_MEM_LOC_DEVICE_def)
  show ?thesis
    using fun_cong [OF u(2), of 0] fun_cong [OF u(2), of 1] by (intro exI [of _ usage]) (simp add: u(1) tile_sum_def)
qed

section \<open>Temperatures\<close>

lemma hal_sensors_read:
  "read_component off (\<lambda>t. rv_zesTemperatureGetState (temp_return_values t)) val (hal_sensor r ty t) =
     (if off then Inl ZE_RESULT_ERROR_UNSUPPORTED_FEATURE else if r \<noteq> 0 then Inl r else val (hal_sensor r ty t))"
  "read_component off (\<lambda>t. rv_zesTemperatureGetProperties (temp_return_values t)) val (hal_sensor r ty t) =
     (if off then Inl ZE_RESULT_ERROR_UNSUPPORTED_FEATURE else val (hal_sensor r ty t))"
  by (simp_all add: read_component_def hal_sensor_def zero_rv_defs ZE_RESULT_SUCCESS_def)

lemma hal_sensor_parts [simp]: "temp_temperature (hal_sensor r ty t) = t"
  "temp_properties (hal_sensor r ty t) = Ptr 61 \<lparr>stype = 0, pNext = 0, temp_properties_type = ty, temp_properties_onSubdevice = 1,
       temp_properties_subdeviceId = 1, temp_properties_maxTemperature = 0, temp_properties_isCriticalTempSupported = 0,
       temp_properties_isThreshold1Supported = 0, temp_properties_isThreshold2Supported = 0\<rparr>"
  by (simp_all add: hal_sensor_def)

lemmas hal_sensor_simps = sensor_has_type_def sensor_of_def sensor_properties_def hal_sensors_read hal_supported configured_def

definition hal_temperature :: temperature where
  "hal_temperature = \<lparr>temperatureCount = 0, temperatureHandles = None, thresholds = None, defaultCoreThrottleThreshold = 105,
     defaultCoreShutdownThreshold = 130, defaultMemoryShutdownThreshold = 100, hasLpddr5Memory = False\<rparr>"

text \<open>The GPU sensor cannot be read: the call succeeds with zero degrees.\<close>

theorem temperature_on_stub_witness:
  "obind (temperature_init stub_temperature_api (\<lambda>_. 0) hal_sample hdev hal_temperature)
     (\<lambda>(_, T, w). getTemp stub_temperature_api zero_temp_properties w ZES_TEMP_SENSORS_GPU (Some 1) T) =
   Done (ZE_RESULT_SUCCESS, Some 0, hal_sample)"
  using temperature_on_stub [OF hal_listed(3), of "\<lambda>_. 0" hal_temperature zero_temp_properties ZES_TEMP_SENSORS_GPU 1]
  by (simp add: hal_sensor_simps ZES_TEMP_SENSORS_GPU_def)

text \<open>The memory sensor's code 3 is entered as 95 degrees, since the modules are LPDDR5.\<close>

lemma hal_lpddr5: "stub_temps.lpddr5 hal_sample hdev"
  by (simp add: stub_lpddr5 [OF hal_listed(2)] module_lpddr5_def hal_modules_read hal_supported, simp add: configured_def hal_module_def
    ZES_MEM_TYPE_LPDDR5_def)

theorem tile_temperatures_on_stub_witness:
  "obind (temperature_init stub_temperature_api (\<lambda>_. 0) hal_sample hdev hal_temperature)
     (\<lambda>(_, T, w). getTempPerTile stub_temperature_api code_fp w ZES_TEMP_SENSORS_MEMORY T) =
   Done (ZE_RESULT_SUCCESS, [1 \<mapsto> 0x4057C00000000000], hal_sample)"
  using tile_temperatures_on_stub [OF hal_listed(3) code_fp_rounds, of "\<lambda>_. 0" hal_temperature ZES_TEMP_SENSORS_MEMORY]
  by (simp add: hal_sensor_simps hal_lpddr5 ZES_TEMP_SENSORS_MEMORY_def celsius_def mr4CodeToCelsius_def kMr4ToCelsius_def
    sensor_tile_def code_fp_def code_numbers_def LPDDR5_MR4_MAX_CODE_def double_1e_9_def MAX_REASONABLE_TEMP_CELSIUS_def Let_def)

theorem core_threshold_on_stub_witness:
  "\<forall>J. \<exists>T. temperature_constructor J None = Done T \<and>
     getCoreThreshold stub_temperature_api hal_sample hdev (Some 7) (Some 8) T = Done (ZE_RESULT_SUCCESS, Some 7, Some 8, hal_sample)"
proof
  fix J :: "'a json_api"
  obtain T where T: "temperature_constructor J None = Done T"
    by (simp add: temperature_constructor_def loadTemperatureThresholds_def)
  have "stub_device_properties hal_sample hdev = Inl ZE_RESULT_ERROR_UNSUPPORTED_FEATURE"
    by (simp add: stub_read_def hal_resolves hal_supported, simp add: configured_def hal_device_def sample_device_def zero_rv_defs ZE_RESULT_SUCCESS_def)
  then show "\<exists>T. temperature_constructor J None = Done T \<and>
     getCoreThreshold stub_temperature_api hal_sample hdev (Some 7) (Some 8) T = Done (ZE_RESULT_SUCCESS, Some 7, Some 8, hal_sample)"
    using core_threshold_on_stub [OF hal_ready T, where d = hdev and x = 7 and y = 8] T by auto
qed

section \<open>Frequencies\<close>

lemma hal_domains_read:
  "read_component off (\<lambda>f. rv_zesFrequencyGetProperties (freq_return_values f)) val (hal_domain r t) =
     (if off then Inl ZE_RESULT_ERROR_UNSUPPORTED_FEATURE else val (hal_domain r t))"
  "read_component off (\<lambda>f. rv_zesFrequencySetRange (freq_return_values f)) val (hal_domain r t) =
     (if off then Inl ZE_RESULT_ERROR_UNSUPPORTED_FEATURE else if r \<noteq> 0 then Inl r else val (hal_domain r t))"
  by (simp_all add: read_component_def hal_domain_def zero_rv_defs ZE_RESULT_SUCCESS_def)

lemma hal_domain_properties: "freq_properties (hal_domain r t) = Ptr 71 \<lparr>stype = 0, pNext = 0, freq_properties_type = 0,
     freq_properties_onSubdevice = 0, freq_properties_subdeviceId = 0, freq_properties_canControl = 1,
     freq_properties_isThrottleEventSupported = 0, freq_properties_min = 0, freq_properties_max = t\<rparr>"
  by (simp add: hal_domain_def)

lemmas hal_domain_simps = domain_properties_def domain_answer_def hal_domains_read hal_supported configured_def hal_domain_properties
  answer_def ZES_FREQ_DOMAIN_GPU_def

text \<open>Both domains refuse the range: the second refusal is reported.\<close>

theorem set_range_all_on_stub_witness:
  "obind (frequency_init stub_frequency_api (\<lambda>_. 0) hal_sample hdev frequency_constructor)
     (\<lambda>(_, Q, w). setFrequencyRangeForAll stub_frequency_api w 1 2 Q) = Done (6, hal_sample)"
  using set_range_all_on_stub [OF hal_listed(4), of "\<lambda>_. 0" frequency_constructor 1 2]
  by (simp add: hal_domain_simps set_outcome_def range_result_def ZE_RESULT_SUCCESS_def)

lemma code_fp_orders: "orders_positive code_fp"
  by (auto simp: orders_positive_def code_fp_def)

theorem max_frequency_on_stub_witness:
  "obind (frequency_init stub_frequency_api (\<lambda>_. 0) hal_sample hdev frequency_constructor)
     (\<lambda>(_, Q, w). getMaxFreqForDomain stub_frequency_api code_fp w ZES_FREQ_DOMAIN_GPU 0 Q) = Done (ZE_RESULT_SUCCESS, 4, hal_sample)"
  using max_frequency_on_stub [OF hal_listed(4) code_fp_orders, of ZES_FREQ_DOMAIN_GPU "\<lambda>_. 0" frequency_constructor 0]
  by (simp add: hal_domain_simps domain_max_def Let_def, auto simp: code_fp_def)

section \<open>Power\<close>

lemma hal_powers_read:
  "read_component off (\<lambda>p. rv_zesPowerGetProperties (power_return_values p)) val (hal_power b t ty e) =
     (if off then Inl ZE_RESULT_ERROR_UNSUPPORTED_FEATURE else val (hal_power b t ty e))"
  "read_component off (\<lambda>p. rv_zesPowerGetEnergyCounter (power_return_values p)) val (hal_power b t ty e) =
     (if off then Inl ZE_RESULT_ERROR_UNSUPPORTED_FEATURE else val (hal_power b t ty e))"
  "read_component off (\<lambda>p. rv_zesPowerGetLimitsExt (power_return_values p)) val (hal_power b t ty e) =
     (if off then Inl ZE_RESULT_ERROR_UNSUPPORTED_FEATURE else val (hal_power b t ty e))"
  "read_component off (\<lambda>p. rv_zesPowerSetLimitsExt (power_return_values p)) val (hal_power b t ty e) =
     (if off then Inl ZE_RESULT_ERROR_UNSUPPORTED_FEATURE else Inl 5)"
  by (simp_all add: read_component_def hal_power_def zero_rv_defs ZE_RESULT_SUCCESS_def)

lemma hal_power_values:
  "power_info (hal_power b t ty e) = Inr (zero_power_properties\<lparr>power_properties_onSubdevice := b, power_properties_subdeviceId := t\<rparr>,
     \<lparr>stub_power_ext_properties_domain = ty, stub_power_ext_properties_default_limit = zero_limit\<rparr>)"
  "power_energy_counter (hal_power b t ty e) = Ptr 82 \<lparr>power_energy_counter_energy = e, power_energy_counter_timestamp = 9\<rparr>"
  "power_limits (hal_power b t ty e) = Ptr 83 [hal_limit 1 0, hal_limit 3 1]"
  by (simp_all add: power_info_def configured_def hal_power_def)

lemmas hal_power_simps = domain_readings hal_powers_read hal_supported hal_power_values configured_def energy_reading_def
  power_codes energy_pair_def zero_power_properties_def

definition hal_power_class :: power_class where
  "hal_power_class = \<lparr>powerCount = 0, powerHandles = None, power_zeDeviceHandle = 0, power_deviceHandle = None,
     healthDeviceToTdps = Some Map.empty, defaultThrottlePower = 300\<rparr>"

text \<open>The domain of the tile is passed over, and the GPU domain read.\<close>

theorem energy_on_stub_witness:
  "obind (power_init stub_power_api (\<lambda>_. 0) hal_sample hdev hal_power_class) (\<lambda>(_, P, w). getEnergy stub_power_api w (Some 1) (Some 2) True P)
     = Done (ZE_RESULT_SUCCESS, (Some 8, Some 9), hal_sample)"
  using energy_on_stub [OF hal_listed(5), of "\<lambda>_. 0" hal_power_class 1 2 True]
  by (simp add: hal_power_simps energy_wanted_def)

theorem energy_per_tile_on_stub_witness:
  "obind (power_init stub_power_api (\<lambda>_. 0) hal_sample hdev hal_power_class) (\<lambda>(_, P, w). getEnergyPerTile stub_power_api w P)
     = Done (ZE_RESULT_SUCCESS, [1 \<mapsto> (7, 9)], hal_sample)"
  using energy_per_tile_on_stub [OF hal_listed(5), of "\<lambda>_. 0" hal_power_class]
  by (simp add: hal_power_simps energy_map_def)

text \<open>The level is there and not locked, so setting it is what fails.\<close>

theorem set_limit_on_stub_witness:
  "obind (power_init stub_power_api (\<lambda>_. 0) hal_sample hdev hal_power_class) (\<lambda>(_, P, w). setLimitsExt stub_power_api w (- 1) 1 250 P)
     = Done (5, hal_sample)"
  using set_limit_on_stub [OF hal_listed(5), of "\<lambda>_. 0" hal_power_class 1 250]
  by (simp add: hal_power_simps domain_decision_def level_verdict_def hal_limit_def zero_limit_def answer_def)

section \<open>Fans\<close>

lemma hal_fans_read:
  "read_component off (\<lambda>f. rv_zesFanGetProperties (fan_return_values f)) val (hal_fan r) = (if off then Inl ZE_RESULT_ERROR_UNSUPPORTED_FEATURE else val (hal_fan r))"
  "read_component off (\<lambda>f. rv_zesFanGetConfig (fan_return_values f)) val (hal_fan r) = (if off then Inl ZE_RESULT_ERROR_UNSUPPORTED_FEATURE else val (hal_fan r))"
  "read_component off (\<lambda>f. rv_zesFanGetState (fan_return_values f)) val (hal_fan r) = (if off then Inl ZE_RESULT_ERROR_UNSUPPORTED_FEATURE else val (hal_fan r))"
  by (simp_all add: read_component_def hal_fan_def zero_rv_defs ZE_RESULT_SUCCESS_def)

lemma hal_fan_values:
  "fan_properties (hal_fan r) = Ptr 91 (zero_fan_properties\<lparr>fan_properties_maxRPM := 3000\<rparr>)"
  "fan_config (hal_fan r) = Ptr 92 (zero_fan_config\<lparr>fan_config_mode := 1, fan_config_speedFixed := \<lparr>fan_speed_speed = r, fan_speed_units = 0\<rparr>\<rparr>)"
  by (simp_all add: hal_fan_def)

lemma hal_resolves_fan: "resolve_fan (g_sysman_state hal_sample) h = Done (Some f) \<Longrightarrow> f \<in> {hal_fan 600, hal_fan 1500}"
  using hal_ready
  by (auto simp: ready_def fan.resolve_wf Let_def Option.bind_eq_Some_conv nth_opt_Some device_at_def driver_at_def hal_sample_def hal_driver_def
      less_Suc_eq nth_Cons' split: if_splits)

lemma hal_fans_bounded: "fans_bounded hal_sample"
  using hal_resolves_fan
  by (fastforce simp: fans_bounded_def stub_read_def configured_def hal_fan_values bounded_table_def zero_fan_config_def zero_speed_table_def
      fan_codes split: outcome.splits option.splits if_splits)

lemma hdev_nonzero: "hdev \<noteq> 0"
  by code_simp


end
