(* ===== verification/Spec2Isabelle.thy ===== *)
theory Spec2Isabelle
  imports Stub_Watch Amc_SampleCard Hal_Sample
begin

text \<open>
  \<^bold>\<open>A verification of three parts of Intel XPU Manager: the Level Zero Sysman stub driver, the hardware abstraction
  over that API, and the communication with add-in-card management controllers (AMC).\<close>

  \<^bold>\<open>The program.\<close> XPU Manager monitors and manages Intel GPUs. Its daemon and its tests talk to the
  devices through the Level Zero Sysman API; the repository has its own implementation of that API in
  C, the stub driver \<^verbatim>\<open>xpumd/level-zero-go/level-zero-stub\<close>, which answers every call from a tree of
  values loaded from a YAML file. The management controller of a card is reached over I2C: the library
  \<^verbatim>\<open>hal/amc\<close> speaks MCTP and, on top, PLDM (discovery, inventory, sensors, files, firmware update), and
  \<^verbatim>\<open>hal/fwupd/amcupd.cpp\<close> runs a firmware update for the tools. The tools reach the devices through the classes of
  \<^verbatim>\<open>hal/core\<close>, one per kind of component, which call the Level Zero API.

  \<^bold>\<open>The stub.\<close>

  \<^item> the state tree and the handle encoding (\<^verbatim>\<open>sysman_state.h\<close>, over the structures of \<^verbatim>\<open>zes_api.h\<close>):
    theories \<open>Zes_Types\<close> and \<open>Stub_State\<close>; a C structure is a \<open>record\<close> with the fields the stub uses, an
    array with its count is a word and a pointer to a list, a pointer is a \<open>cptr\<close> (\<open>Null\<close>, or a block
    address with its contents), a handle is a 64-bit word with four 16-bit fields;
  \<^item> the lock, \<^verbatim>\<open>resolve_handle\<close> and \<^verbatim>\<open>is_unsupported\<close> and the common tails of the entry points
    (\<^verbatim>\<open>zes_stub.c\<close>): theory \<open>Stub_Core\<close>;
  \<^item> the entry points of \<^verbatim>\<open>zes_stub.c\<close>, one definition each with the C name: \<open>Stub_Device\<close> (driver,
    device, PCI, ECC, overclocking, diagnostics), \<open>Stub_Components\<close> (engines to temperature sensors)
    and \<open>Stub_Events\<close> (event listening);
  \<^item> loading, resetting and freeing the tree (\<^verbatim>\<open>sysman_state.c\<close>): \<open>Stub_Free\<close> (every \<^verbatim>\<open>free_...\<close> function
    over an explicit set of live blocks), \<open>Stub_Uuid\<close> (UUID strings), \<open>Stub_Load\<close>;
  \<^item> the configuration watcher (\<^verbatim>\<open>sysman_state.c\<close>): \<open>Stub_Watch\<close>, a step relation over any number of
    calling threads and the watcher thread.

  \<^bold>\<open>The hardware abstraction.\<close> A class of \<^verbatim>\<open>hal/core\<close> is a record of its members; its operations take the driver
  as an argument, a record with one function per entry point on an arbitrary driver state.

  \<^item> \<open>Hal_Base\<close>: calling the driver (counts, handles, queries), arrays of handles, and the locales \<open>zes_objects\<close> and
    \<open>zes_getter\<close>: what the documentation of the API promises of an enumeration and of a query;
  \<^item> \<open>Hal_Engine\<close> (\<^verbatim>\<open>enginegroup.cpp\<close>), \<open>Hal_Memory\<close> (\<^verbatim>\<open>memory.cpp\<close>), \<open>Hal_Temperature\<close> (\<^verbatim>\<open>temperature.cpp\<close>),
    \<open>Hal_Frequency\<close> (\<^verbatim>\<open>frequency.cpp\<close>), \<open>Hal_Power\<close> (\<^verbatim>\<open>power.cpp\<close>), \<open>Hal_Fan\<close> (\<^verbatim>\<open>fan.cpp\<close>): the operations, and what they compute on any
    driver that keeps its promises (locales \<open>engine_driver\<close>, \<open>memory_driver\<close>, \<open>temperature_driver\<close>,
    \<open>frequency_driver\<close>, \<open>power_driver\<close>, \<open>fan_driver\<close>);
  \<^item> \<open>Hal_Stub\<close>, \<open>Hal_StubTemp\<close>, \<open>Hal_StubFreq\<close>, \<open>Hal_StubPower\<close>, \<open>Hal_StubFan\<close>: the stub keeps the promises (the locales interpreted on its entry points), so
    what a class reports is a function of the stub's configuration.

  \<^bold>\<open>The management controllers.\<close> Each class is a record that extends the one below it, as the C++ classes
  inherit: \<open>i2c_interface\<close>, \<open>mctp\<close>, \<open>pldm\<close>, and the members of each PLDM part.

  \<^item> \<open>Amc_Common\<close> (\<^verbatim>\<open>common.cpp\<close>: the CRC-8 table, bytes of integers), \<open>Amc_I2c\<close> (\<^verbatim>\<open>oal/lin/i2c_interface.cpp\<close>),
    \<open>Amc_Mctp\<close> (\<^verbatim>\<open>mctp_...cpp\<close>), \<open>Amc_Pldm\<close> (\<^verbatim>\<open>pldm_init.cpp\<close>, \<^verbatim>\<open>pldm_protocol.cpp\<close>);
  \<^item> \<open>Amc_Discovery\<close> (\<^verbatim>\<open>pldm_discovery...cpp\<close>, \<^verbatim>\<open>oem_vrsync.cpp\<close>, \<^verbatim>\<open>pldm_amc_gpu_reset.cpp\<close>), \<open>Amc_Fru\<close> and
    \<open>Amc_FruCmd\<close> (inventory records, \<^verbatim>\<open>pldm_fru...cpp\<close>);
  \<^item> \<open>Amc_Fwpkg\<close>, \<open>Amc_Fwupdate\<close>, \<open>Amc_FwuTransfer\<close>, \<open>Amc_FwuPackage\<close> (\<^verbatim>\<open>pldm_fwpackage.cpp\<close>,
    \<^verbatim>\<open>pldm_fwupdate...cpp\<close>: the package file, the requests and responses, the transfer of an image, the whole update);
  \<^item> \<open>Amc_Platform\<close> with \<open>Amc_Pdr\<close> and \<open>Amc_PfSafe\<close> (\<^verbatim>\<open>pldm_platform.cpp\<close>, \<^verbatim>\<open>pldm_pdr_manager.cpp\<close>: records and
    sensors), \<open>Amc_File\<close> with \<open>Amc_FileRecv\<close> and \<open>Amc_FileRead\<close> (\<^verbatim>\<open>pldm_file_transfer.cpp\<close>);
  \<^item> \<open>Amc_Lib\<close> with \<open>Amc_LibOps\<close> (\<^verbatim>\<open>amclib.cpp\<close>: the list of cards and the operations on them), \<open>Amc_Upd\<close>
    (\<^verbatim>\<open>amcupd.cpp\<close>: the shared library and one update with its two threads, a step relation).

  \<^bold>\<open>Effects.\<close> An operation takes the state it works on (record \<open>stub\<close>, \<open>pldm\<close>, \<open>amclib\<close>, ...) and its
  arguments and returns an \<open>outcome\<close>: \<open>Done\<close> with the result, the new contents of output buffers and the
  new state; \<open>Fault\<close> for an access outside an object, a null pointer followed or an exception nothing catches;
  \<open>Stuck\<close> for taking a mutex that is held, or for a loop whose rounds are used up. Output pointers are options,
  \<open>None\<close> the null pointer; buffers are lists whose length is the room the caller provides. Codes, counts,
  handles and bytes are words of their C width. The stub only copies floating-point values, so a double is its
  64-bit pattern; the conversion of a sensor reading takes the floating-point operations as an argument
  (record \<open>fpu\<close>).

  \<^bold>\<open>Library code.\<close> \<open>Prelude\<close> has outcomes, pointers, bounded array access and the fill and search
  loops with their laws, and the rules for computations that return (\<open>returns\<close>) and that never fault (\<open>safe\<close>).
  \<open>Stub_Handles\<close> states what a table of components promises (locale \<open>stub_component\<close>, interpreted for the
  sixteen component types) and computes handle resolution as list lookup. \<open>Stub_Contracts\<close> states what each
  family of entry points promises (\<open>gated\<close>, \<open>struct_getter\<close>, \<open>plain_getter\<close>, \<open>value_getter\<close>, \<open>array_getter\<close>,
  \<open>enum_contract\<close>) and proves it once for the shared shape (locale \<open>stub_enum\<close>, interpreted for the sixteen
  enumerators). The exchange every PLDM command is built on is a locale of \<open>Amc_Pldm\<close>, interpreted for the
  payloads and handlers of the parts.

  \<^bold>\<open>What is shown of the stub.\<close>

  \<^item> \<open>Stub_Api\<close>, \<open>Stub_Special\<close>: each entry point keeps the contract of its family, errors included, and
    the ones with a shape of their own have a statement of their own;
  \<^item> \<open>Stub_Ras\<close>: the one entry point that changes the tree changes one counter and nothing else;
  \<^item> \<open>Stub_Events\<close>: peeking, the arithmetic of elapsed time, and that listening with a finite timeout
    returns; the fuel of the two loops is one round per millisecond of the timeout plus a bound on the
    interrupted sleeps, which \<open>event_listen_returns\<close> shows to be enough;
  \<^item> \<open>Stub_Free\<close>, \<open>Stub_Load\<close>, \<open>Stub_Uuid\<close>: freeing releases each block of the tree exactly once, loading
    installs what the file says or changes nothing, UUIDs round trip;
  \<^item> \<open>Stub_Trace\<close>: the invariant over all sequences of calls, loads and resets;
  \<^item> \<open>Stub_Watch\<close>: mutual exclusion and uniqueness of the watcher for any interleaving, a reachable
    deadlock with two callers, and its absence with one;
  \<^item> \<open>Stub_Sample\<close>: a concrete configuration on which the theorems with hypotheses are applied.

  \<^bold>\<open>What is shown of the hardware abstraction.\<close> For the classes over the stub: what each query reports, from the values
  the objects are configured with, the errors they are configured to return included, and what happens after an
  error (some loops stop at it, some go on, some forget it); where sums can wrap around and where they cannot; that no
  array is left. Local variables the code does not initialise and fresh memory are arguments of the operations.
  \<open>Hal_Sample\<close> has a concrete configuration.

  \<^bold>\<open>What is shown of the management controllers.\<close>

  \<^item> the table-driven CRC is the bit-serial one; the initialization and discovery sequences send the commands
    they should in order whatever the card answers, and always return;
  \<^item> the parsers (inventory records, firmware packages) implement the abstract records and read back what is
    encoded, stay in their bounds, and where they do not the exact condition is stated;
  \<^item> the parts of an answer are put together: records of the repository, packets of a message, chunks of a file;
  \<^item> whatever the card answers within its frames, no operation leaves a buffer, and what is opened is closed:
    the package file of an update, the file read from a card;
  \<^item> the operations on all cards go in order and stop at the first failure; an update reports the result of its
    flash in every interleaving of its threads and returns once the flash has;
  \<^item> \<open>Amc_Sample\<close> and \<open>Amc_SampleCard\<close>: concrete cards, packages and files for the theorems with hypotheses.

  \<^bold>\<open>Rounds.\<close> The loops that wait for a card take their number of rounds as an argument (\<open>rounds\<close>); a card may
  never finish, and then the program does not. That a given number is enough is part of the theorems about cards
  that do finish (one round per part, packet or chunk); safety theorems hold for every number.

  \<^bold>\<open>Assumed of other code.\<close> The YAML library is the argument \<open>cyaml\<close> with the contract \<open>cyaml_contract\<close>
  (fresh blocks, counts that agree with arrays, terminated strings, nothing left allocated on error);
  the clock, \<^verbatim>\<open>nanosleep\<close> and the other threads during a sleep are the argument \<open>env\<close> with
  \<open>listen_env_ok\<close>; the environment variable is the argument \<open>getenv\<close>. What a card answers is part of the connection
  (\<open>i2c_rx\<close>, any function of the number of reads), as is whether a write succeeds; a package file is its bytes and the
  failures of its operations; directory listings and resolved paths are arguments. Double precision (record \<open>fp64\<close>) and
  the JSON library (record \<open>json_api\<close>) are arguments of the classes that use them.

  \<^bold>\<open>Not modelled.\<close> The YAML schema tables, messages, logs and dumps, waiting times, the contents of inotify events
  and the library constructor and destructor of the stub; the Windows connection; the command-line tools and
  their tables, the other wrappers around Level Zero and the IGSC library, the Go daemon and the Python tests.
\<close>

end
